(* ===== verification/Prelude.thy ===== *)
theory Prelude
  imports Main "HOL-Library.Finite_Map" "HOL-Library.State_Monad" "HOL-Library.Char_ord" "HOL-Library.List_Lexorder"
begin

text \<open>
  Shared vocabulary of the development.

  \<^item> Go integers: \<open>int32\<close> and \<open>int\<close> are \<open>int\<close>; a conversion \<open>int32(x)\<close> of the
    source is written \<open>to_int32\<close>, which wraps modulo 2^32.  Go's \<open>int\<close> has 64 bits and the
    operator only ever adds and subtracts values that come from \<open>int32\<close> fields, so 64-bit
    wrap-around cannot occur there and is not written out.
  \<^item> Pointers \<open>*T\<close> are \<open>'t option\<close>, \<open>None\<close> being \<open>nil\<close>.
  \<^item> Go maps are finite maps (\<open>fmap\<close>).  A missing key of a \<open>map[string]string\<close> reads as the
    empty string (\<open>fmget\<close>).  A nil map and an empty map are the same finite map: they read
    the same and \<open>equality.Semantic.DeepEqual\<close>, the comparison the operator uses,
    identifies them.
  \<^item> Errors are the datatype \<open>go_error\<close>; \<open>errors.Wrap\<close> of a nil error is nil.  A run-time panic
    (nil dereference, index out of range, \<open>MustAsObj\<close> on undecodable values) ends the operation
    with the error \<open>GoPanic\<close>; a pure function that may panic returns \<open>None\<close> there.
  \<^item> An operation on the cluster is a state transformer \<open>('w, go_error + 'a) state\<close>: it
    returns an error or a value together with the world it leaves behind.
\<close>

named_theorems op_defs "definitions of the operations that run against the cluster"
named_theorems plan_defs "definitions of the pure planning functions"
named_theorems key_defs "constant names of labels, annotations and components"

section \<open>Machine integers\<close>

definition to_int32 :: "int \<Rightarrow> int" where
  "to_int32 i = ((i + 2^31) mod 2^32) - 2^31"

definition int32_range :: "int \<Rightarrow> bool" where
  "int32_range i \<longleftrightarrow> - (2^31) \<le> i \<and> i < 2^31"

lemma to_int32_id [simp]: "int32_range i \<Longrightarrow> to_int32 i = i"
  by (simp add: to_int32_def int32_range_def mod_pos_pos_trivial)

lemma int32_range_to_int32 [simp]: "int32_range (to_int32 i)"
proof -
  have "0 \<le> (i + 2^31) mod 2^32" and "(i + 2^31) mod 2^32 < 2^32"
    by simp_all
  then show ?thesis
    by (simp add: to_int32_def int32_range_def)
qed

lemma to_int32_zero_one [simp]: "to_int32 0 = 0" "to_int32 1 = 1"
  by (simp_all add: to_int32_def)

section \<open>Strings\<close>

text \<open>\<open>strconv.Itoa\<close>: the decimal representation, most significant digit first.\<close>

definition digit_char :: "nat \<Rightarrow> char" where
  "digit_char d = ''0123456789'' ! (d mod 10)"

function digits_of :: "nat \<Rightarrow> string" where
  "digits_of n = (if n < 10 then [digit_char n] else digits_of (n div 10) @ [digit_char (n mod 10)])"
  by pat_completeness auto
termination by (relation "measure id") auto

declare digits_of.simps [simp del]

definition itoa :: "int \<Rightarrow> string" where
  "itoa i = (if i < 0 then CHR ''-'' # digits_of (nat (- i)) else digits_of (nat i))"

text \<open>\<open>strconv.Atoi\<close>: optional sign, at least one digit, nothing else, and the value must
  fit a 64-bit integer.\<close>

definition char_digit :: "char \<Rightarrow> nat option" where
  "char_digit c = map_of (zip ''0123456789'' [0..<10]) c"

fun parse_digits :: "nat \<Rightarrow> string \<Rightarrow> nat option" where
  "parse_digits acc [] = Some acc"
| "parse_digits acc (c # cs) =
     (case char_digit c of None \<Rightarrow> None | Some d \<Rightarrow> parse_digits (10 * acc + d) cs)"

definition parse_nat :: "string \<Rightarrow> nat option" where
  "parse_nat s = (if s = [] then None else parse_digits 0 s)"

definition in_int64 :: "int \<Rightarrow> bool" where
  "in_int64 i \<longleftrightarrow> - (2^63) \<le> i \<and> i < 2^63"

definition atoi :: "string \<Rightarrow> int option" where
  "atoi s =
     (let (neg, body) = (case s of
          [] \<Rightarrow> (False, [])
        | c # cs \<Rightarrow> if c = CHR ''-'' then (True, cs) else if c = CHR ''+'' then (False, cs) else (False, s))
      in case parse_nat body of
           None \<Rightarrow> None
         | Some n \<Rightarrow> (let i = (if neg then - int n else int n)
                      in if in_int64 i then Some i else None))"

lemma char_digit_digit_char [simp]: "char_digit (digit_char d) = Some (d mod 10)"
proof -
  have "d mod 10 < 10" by simp
  moreover have "\<forall>k \<in> set [0..<10]. char_digit (digit_char k) = Some k"
    by code_simp
  moreover have "digit_char d = digit_char (d mod 10)"
    by (simp add: digit_char_def)
  ultimately show ?thesis by simp
qed

lemma digit_char_neq [simp]: "digit_char d \<noteq> CHR ''-''" "digit_char d \<noteq> CHR ''+''"
proof -
  have "char_digit CHR ''-'' = None" "char_digit CHR ''+'' = None" by code_simp+
  then show "digit_char d \<noteq> CHR ''-''" "digit_char d \<noteq> CHR ''+''"
    using char_digit_digit_char [of d] by (metis option.distinct(1))+
qed

lemma parse_digits_append:
  "parse_digits acc (xs @ ys) = (case parse_digits acc xs of None \<Rightarrow> None | Some a \<Rightarrow> parse_digits a ys)"
  by (induction xs arbitrary: acc) (auto split: option.splits)

lemma parse_digits_digits_of: "parse_digits 0 (digits_of n) = Some n"
  by (induction n rule: digits_of.induct)
    (subst digits_of.simps, auto simp: parse_digits_append)

lemma digits_of_Cons: "\<exists>d cs. digits_of n = digit_char d # cs"
  by (induction n rule: digits_of.induct) (subst digits_of.simps, fastforce)

lemma digits_of_not_Nil [simp]: "digits_of n \<noteq> []"
  using digits_of_Cons [of n] by auto

lemma parse_nat_digits_of [simp]: "parse_nat (digits_of n) = Some n"
  by (simp add: parse_nat_def parse_digits_digits_of)

lemma itoa_not_Nil [simp]: "itoa i \<noteq> []"
  by (simp add: itoa_def)

lemma atoi_itoa: "in_int64 i \<Longrightarrow> atoi (itoa i) = Some i"
proof (cases "i < 0")
  case True
  then show "in_int64 i \<Longrightarrow> atoi (itoa i) = Some i"
    by (simp add: atoi_def itoa_def)
next
  case False
  obtain d cs where "digits_of (nat i) = digit_char d # cs"
    using digits_of_Cons by blast
  moreover have "parse_nat (digits_of (nat i)) = Some (nat i)"
    by simp
  ultimately show "in_int64 i \<Longrightarrow> atoi (itoa i) = Some i"
    using False by (simp add: atoi_def itoa_def)
qed

lemma digits_of_inj: "digits_of m = digits_of n \<Longrightarrow> m = n"
  using parse_nat_digits_of by (metis option.inject)

lemma itoa_inj [simp]: "itoa i = itoa j \<longleftrightarrow> i = j"
proof
  assume eq: "itoa i = itoa j"
  have neg: "CHR ''-'' # xs \<noteq> digits_of n" for xs n
    using digits_of_Cons [of n] digit_char_neq(1) by (metis list.inject)
  show "i = j"
  proof (cases "i < 0"; cases "j < 0")
    assume "i < 0" "j < 0"
    with eq show ?thesis by (auto simp: itoa_def dest: digits_of_inj)
  next
    assume "i < 0" "\<not> j < 0"
    with eq neg show ?thesis by (simp add: itoa_def)
  next
    assume "\<not> i < 0" "j < 0"
    with eq neg [of "digits_of (nat (- j))" "nat i"] show ?thesis by (simp add: itoa_def)
  next
    assume "\<not> i < 0" "\<not> j < 0"
    with eq show ?thesis by (auto simp: itoa_def dest: digits_of_inj)
  qed
qed simp

text \<open>\<open>strings.HasPrefix\<close>, \<open>strings.HasSuffix\<close>, \<open>strings.Split\<close> with a one-character separator,
  and \<open>strings.Join\<close>.\<close>

fun has_prefix :: "string \<Rightarrow> string \<Rightarrow> bool" where
  "has_prefix s [] = True"
| "has_prefix [] (p # ps) = False"
| "has_prefix (c # cs) (p # ps) = (c = p \<and> has_prefix cs ps)"

definition has_suffix :: "string \<Rightarrow> string \<Rightarrow> bool" where
  "has_suffix s p = has_prefix (rev s) (rev p)"

fun split_on :: "char \<Rightarrow> string \<Rightarrow> string list" where
  "split_on sep [] = [[]]"
| "split_on sep (c # cs) =
     (if c = sep then [] # split_on sep cs
      else (case split_on sep cs of [] \<Rightarrow> [[c]] | w # ws \<Rightarrow> (c # w) # ws))"

fun join_with :: "string \<Rightarrow> string list \<Rightarrow> string" where
  "join_with sep [] = []"
| "join_with sep [x] = x"
| "join_with sep (x # y # ys) = x @ sep @ join_with sep (y # ys)"

lemma has_prefix_append [simp]: "has_prefix (p @ s) p"
  by (induction p) auto

lemma has_prefix_iff: "has_prefix s p \<longleftrightarrow> (\<exists>t. s = p @ t)"
  by (induction s p rule: has_prefix.induct) auto

lemma has_suffix_iff: "has_suffix s p \<longleftrightarrow> (\<exists>t. s = t @ p)"
  unfolding has_suffix_def has_prefix_iff
  by (metis rev_append rev_rev_ident)

lemma split_on_not_Nil [simp]: "split_on sep s \<noteq> []"
  by (induction s) (auto split: list.splits)

lemma join_split_on: "join_with [sep] (split_on sep s) = s"
proof (induction s)
  case (Cons c cs)
  then show ?case
    by (cases "split_on sep cs" rule: list.exhaust; cases "tl (split_on sep cs)") auto
qed simp

section \<open>Maps\<close>

text \<open>Reading a \<open>map[string]string\<close>: the zero value when the key is absent.\<close>

definition fmget :: "(string, string) fmap \<Rightarrow> string \<Rightarrow> string" where
  "fmget m k = (case fmlookup m k of None \<Rightarrow> [] | Some v \<Rightarrow> v)"

lemma fmget_empty [simp]: "fmget fmempty k = []"
  by (simp add: fmget_def)

lemma fmget_upd [simp]: "fmget (fmupd k v m) k' = (if k = k' then v else fmget m k')"
  by (simp add: fmget_def)

lemma fmget_drop [simp]: "fmget (fmdrop k m) k' = (if k = k' then [] else fmget m k')"
  by (simp add: fmget_def)

lemma fmget_add: "fmget (m ++\<^sub>f n) k = (if k |\<in>| fmdom n then fmget n k else fmget m k)"
  by (simp add: fmget_def)

text \<open>\<open>MatchingLabels\<close>: every pair of the selector is in the labels.\<close>

definition labels_match :: "(string, string) fmap \<Rightarrow> (string, string) fmap \<Rightarrow> bool" where
  "labels_match sel labels = fmsubset sel labels"

section \<open>Errors\<close>

datatype go_error =
    ErrRequeue
  | ErrNotFound
  | ErrNoLastDeployment
  | KNotFound string
  | KError string
  | Errorf string
  | GoPanic string
  | Wrap go_error string

text \<open>\<open>errors.Is\<close> and \<open>errors.As\<close> look through wrapping; \<open>==\<close> does not.\<close>

fun root_cause :: "go_error \<Rightarrow> go_error" where
  "root_cause (Wrap e m) = root_cause e"
| "root_cause e = e"

definition is_requeue :: "go_error \<Rightarrow> bool" where
  "is_requeue e \<longleftrightarrow> root_cause e = ErrRequeue"

fun is_not_found_cause :: "go_error \<Rightarrow> bool" where
  "is_not_found_cause (KNotFound s) = True"
| "is_not_found_cause _ = False"

definition IsNotFound :: "go_error \<Rightarrow> bool" where
  "IsNotFound e = is_not_found_cause (root_cause e)"

lemma is_requeue_simps [simp]:
  "is_requeue (Wrap e m) = is_requeue e" "is_requeue ErrRequeue"
  "\<not> is_requeue (KNotFound s)" "\<not> is_requeue (KError s)" "\<not> is_requeue (Errorf s)"
  "\<not> is_requeue ErrNotFound" "\<not> is_requeue ErrNoLastDeployment" "\<not> is_requeue (GoPanic s)"
  by (simp_all add: is_requeue_def)

lemma IsNotFound_simps [simp]:
  "IsNotFound (Wrap e m) = IsNotFound e" "IsNotFound (KNotFound s)"
  "\<not> IsNotFound ErrRequeue" "\<not> IsNotFound (KError s)" "\<not> IsNotFound (Errorf s)"
  by (simp_all add: IsNotFound_def)

text \<open>\<open>err.Error()\<close>.\<close>

fun error_text :: "go_error \<Rightarrow> string" where
  "error_text ErrRequeue = ''requeue''"
| "error_text ErrNotFound = ''not found''"
| "error_text ErrNoLastDeployment = ''no last deployment found''"
| "error_text (KNotFound s) = s"
| "error_text (KError s) = s"
| "error_text (Errorf s) = s"
| "error_text (GoPanic s) = s"
| "error_text (Wrap e m) = m @ '': '' @ error_text e"

text \<open>\<open>errors.Wrap(err, msg)\<close> on a result.\<close>

definition wrap :: "string \<Rightarrow> go_error + 'a \<Rightarrow> go_error + 'a" where
  "wrap msg r = (case r of Inl e \<Rightarrow> Inl (Wrap e msg) | Inr a \<Rightarrow> Inr a)"

lemma wrap_simps [simp]: "wrap m (Inl e) = Inl (Wrap e m)" "wrap m (Inr a) = Inr a"
  by (simp_all add: wrap_def)

lemma wrap_eq_Inr [simp]: "wrap m r = Inr a \<longleftrightarrow> r = Inr a"
  by (cases r) auto

text \<open>A pure function that panicked, as a result.\<close>

definition or_panic :: "string \<Rightarrow> 'a option \<Rightarrow> go_error + 'a" where
  "or_panic msg v = (case v of None \<Rightarrow> Inl (GoPanic msg) | Some a \<Rightarrow> Inr a)"

lemma or_panic_simps [simp]: "or_panic m None = Inl (GoPanic m)" "or_panic m (Some a) = Inr a"
  by (simp_all add: or_panic_def)

section \<open>Operations on the cluster\<close>

type_synonym ('w, 'a) op = "('w, go_error + 'a) state"

text \<open>\<open>ret\<close> is \<open>return v, nil\<close>, \<open>fail\<close> is \<open>return err\<close>; \<open>op_bind\<close> is the idiom
  \<open>v, err := f(); if err != nil { return err }\<close> and \<open>op_wrap\<close> is the same with
  \<open>return errors.Wrap(err, msg)\<close>.\<close>

definition ret :: "'a \<Rightarrow> ('w, 'a) op" where
  "ret a = State_Monad.return (Inr a)"

definition fail :: "go_error \<Rightarrow> ('w, 'a) op" where
  "fail e = State_Monad.return (Inl e)"

definition op_bind :: "('w, 'a) op \<Rightarrow> ('a \<Rightarrow> ('w, 'b) op) \<Rightarrow> ('w, 'b) op" where
  "op_bind m f = do { r \<leftarrow> m; case r of Inl e \<Rightarrow> fail e | Inr a \<Rightarrow> f a }"

definition op_wrap :: "string \<Rightarrow> ('w, 'a) op \<Rightarrow> ('w, 'a) op" where
  "op_wrap msg m = do { r \<leftarrow> m; State_Monad.return (wrap msg r) }"

definition lift_result :: "go_error + 'a \<Rightarrow> ('w, 'a) op" where
  "lift_result r = State_Monad.return r"

lemma run_lift_result [simp]: "run_state (lift_result r) w = (r, w)"
  by (simp add: lift_result_def)

lemma run_ret [simp]: "run_state (ret a) w = (Inr a, w)"
  by (simp add: ret_def)

lemma run_fail [simp]: "run_state (fail e) w = (Inl e, w)"
  by (simp add: fail_def)

lemma run_op_bind:
  "run_state (op_bind m f) w =
     (case run_state m w of (Inl e, w') \<Rightarrow> (Inl e, w') | (Inr a, w') \<Rightarrow> run_state (f a) w')"
  by (simp add: op_bind_def split: prod.splits sum.splits)

lemma run_op_wrap:
  "run_state (op_wrap msg m) w = (case run_state m w of (r, w') \<Rightarrow> (wrap msg r, w'))"
  by (simp add: op_wrap_def split: prod.splits)

lemmas run_op_simps = run_op_bind run_op_wrap

end
