(* ===== verification/K8s_Types.thy ===== *)
theory K8s_Types
  imports Prelude
begin

text \<open>
  The Kubernetes API objects the operator reads and writes, as records with the fields the
  operator touches (the remaining fields of a struct are kept in an opaque \<open>json\<close> field where
  the operator compares or copies the whole struct).  Go struct embedding is record extension:
  a \<open>Deployment\<close> extends \<open>ObjectMeta\<close>.  Quantities are their canonical strings.  The record
  \<open>externals\<close> collects the third-party functions the modelled code calls (semver, sha256, the
  intstr scaler, typed decoding of free-form values) and the operator's own image, a process-wide
  setting: every definition that uses one of them
  takes the record as an argument.
\<close>

section \<open>Free-form values\<close>

datatype json = JNull | JBool bool | JInt int | JStr string | JArr "json list"
  | JObj "(string, json) fmap"

type_synonym smap = "(string, string) fmap"
type_synonym values_map = "(string, json) fmap"
type_synonym Values = "values_map option"

text \<open>\<open>len(values.Data)\<close> and reading \<open>values.Data\<close> treat a nil map as an empty one.\<close>

definition Values_Data :: "Values \<Rightarrow> values_map" where
  "Values_Data v = (case v of None \<Rightarrow> fmempty | Some m \<Rightarrow> m)"

section \<open>Object metadata\<close>

record OwnerReference =
  or_Kind :: string
  or_Name :: string
  or_UID :: string
  or_Controller :: bool

record ObjectMeta =
  om_Name :: string
  om_Namespace :: string
  om_UID :: string
  om_Generation :: int
  om_Labels :: smap
  om_Annotations :: smap
  om_Finalizers :: "string list"
  om_DeletionTimestamp :: "int option"
  om_OwnerReferences :: "OwnerReference list"

section \<open>Pods and pod templates\<close>

record SecretKeySelector =
  sks_Name :: string
  sks_Key :: string
  sks_Optional :: "bool option"

record EnvVarSource =
  evs_SecretKeyRef :: "SecretKeySelector option"
  evs_ResourceFieldRef :: "(string \<times> string) option"
  evs_Other :: json

record EnvVar =
  ev_Name :: string
  ev_Value :: string
  ev_ValueFrom :: "EnvVarSource option"

record VolumeMount =
  vm_Name :: string
  vm_ReadOnly :: bool
  vm_MountPath :: string
  vm_SubPath :: string
  vm_Other :: json

record ContainerPort =
  cp_Name :: string
  cp_ContainerPort :: int
  cp_Protocol :: string
  cp_Other :: json

record ResourceRequirements =
  rr_Limits :: smap
  rr_Requests :: smap

datatype IntOrString = IntVal int | StrVal string

datatype VolumeSource =
    VolEmptyDir
  | VolProjectedSecrets "(string \<times> string \<times> string) list" "int option"
  | VolConfigMap string "int option" json
  | VolSecret string "(string \<times> string) list" "int option" "bool option"
  | VolPVC string bool
  | VolOther json

record Volume =
  vol_Name :: string
  vol_Source :: VolumeSource

record SecurityContext =
  sc_RunAsNonRoot :: "bool option"
  sc_RunAsUser :: "int option"
  sc_Other :: json

datatype ProbeHandler = TCPSocket IntOrString | HTTPGet string IntOrString string | ProbeOther json

record Probe =
  pb_Handler :: ProbeHandler
  pb_InitialDelaySeconds :: int
  pb_TimeoutSeconds :: int
  pb_PeriodSeconds :: int
  pb_SuccessThreshold :: int
  pb_FailureThreshold :: int

record Container =
  ct_Name :: string
  ct_Image :: string
  ct_Command :: "string list"
  ct_Args :: "string list"
  ct_Ports :: "ContainerPort list"
  ct_Env :: "EnvVar list"
  ct_Resources :: ResourceRequirements
  ct_VolumeMounts :: "VolumeMount list"
  ct_StartupProbe :: "Probe option"
  ct_LivenessProbe :: "Probe option"
  ct_ReadinessProbe :: "Probe option"
  ct_PreStopExec :: "string list option"
  ct_TerminationMessagePath :: string
  ct_TerminationMessagePolicy :: string
  ct_ImagePullPolicy :: string
  ct_SecurityContext :: "SecurityContext option"
  ct_Other :: json

record PodSecurityContext =
  psc_RunAsNonRoot :: "bool option"
  psc_RunAsUser :: "int option"
  psc_FSGroup :: "int option"
  psc_Other :: json

record PodSpec =
  ps_Volumes :: "Volume list"
  ps_InitContainers :: "Container list"
  ps_Containers :: "Container list"
  ps_TerminationGracePeriodSeconds :: "int option"
  ps_SchedulerName :: string
  ps_Affinity :: "json option"
  ps_Tolerations :: "json list"
  ps_TopologySpreadConstraints :: "json list"
  ps_NodeSelector :: smap
  ps_ImagePullSecrets :: "string list"
  ps_ServiceAccountName :: string
  ps_PriorityClassName :: string
  ps_HostNetwork :: bool
  ps_DNSPolicy :: string
  ps_SecurityContext :: "PodSecurityContext option"
  ps_Other :: json

record PodTemplateSpec =
  pt_Labels :: smap
  pt_Annotations :: smap
  pt_Spec :: PodSpec

datatype ConditionStatus = ConditionTrue | ConditionFalse | ConditionUnknown | ConditionUnset

record PodCondition =
  pc_Type :: string
  pc_Status :: ConditionStatus
  pc_Reason :: string
  pc_Message :: string

text \<open>Reason and message of a waiting or terminated container.\<close>

record ContainerState =
  cse_Waiting :: "(string \<times> string) option"
  cse_Running :: bool
  cse_Terminated :: "(string \<times> string) option"

record ContainerStatus =
  cst_Name :: string
  cst_State :: ContainerState
  cst_LastTerminationState :: ContainerState
  cst_Ready :: bool
  cst_RestartCount :: int

record Pod = ObjectMeta +
  pod_Phase :: string
  pod_Reason :: string
  pod_Message :: string
  pod_Conditions :: "PodCondition list"
  pod_ContainerStatuses :: "ContainerStatus list"
  pod_Spec :: PodSpec

section \<open>Deployments\<close>

record RollingUpdateDeployment =
  ru_MaxUnavailable :: "IntOrString option"
  ru_MaxSurge :: "IntOrString option"

record DeploymentStrategy =
  ds_Type :: string
  ds_RollingUpdate :: "RollingUpdateDeployment option"

record DeploymentCondition =
  dc_Type :: string
  dc_Status :: ConditionStatus
  dc_LastUpdateTime :: "int option"
  dc_LastTransitionTime :: "int option"
  dc_Reason :: string
  dc_Message :: string

record DeploymentStatus =
  dst_ObservedGeneration :: int
  dst_Replicas :: int
  dst_UpdatedReplicas :: int
  dst_ReadyReplicas :: int
  dst_AvailableReplicas :: int
  dst_UnavailableReplicas :: int
  dst_Conditions :: "DeploymentCondition list"

record Deployment = ObjectMeta +
  d_Replicas :: "int option"
  d_Selector :: "smap option"
  d_Template :: PodTemplateSpec
  d_Strategy :: DeploymentStrategy
  d_MinReadySeconds :: int
  d_Paused :: bool
  d_ProgressDeadlineSeconds :: "int option"
  d_Status :: DeploymentStatus

section \<open>Zero values\<close>

definition zero_PodSpec :: PodSpec where
  "zero_PodSpec = \<lparr>ps_Volumes = [], ps_InitContainers = [], ps_Containers = [],
     ps_TerminationGracePeriodSeconds = None, ps_SchedulerName = [], ps_Affinity = None,
     ps_Tolerations = [], ps_TopologySpreadConstraints = [], ps_NodeSelector = fmempty,
     ps_ImagePullSecrets = [], ps_ServiceAccountName = [], ps_PriorityClassName = [],
     ps_HostNetwork = False, ps_DNSPolicy = [], ps_SecurityContext = None, ps_Other = JNull\<rparr>"

definition zero_PodTemplateSpec :: PodTemplateSpec where
  "zero_PodTemplateSpec = \<lparr>pt_Labels = fmempty, pt_Annotations = fmempty, pt_Spec = zero_PodSpec\<rparr>"

definition zero_ResourceRequirements :: ResourceRequirements where
  "zero_ResourceRequirements = \<lparr>rr_Limits = fmempty, rr_Requests = fmempty\<rparr>"

definition zero_Container :: Container where
  "zero_Container = \<lparr>ct_Name = [], ct_Image = [], ct_Command = [], ct_Args = [], ct_Ports = [],
     ct_Env = [], ct_Resources = zero_ResourceRequirements, ct_VolumeMounts = [],
     ct_StartupProbe = None, ct_LivenessProbe = None, ct_ReadinessProbe = None,
     ct_PreStopExec = None, ct_TerminationMessagePath = [], ct_TerminationMessagePolicy = [],
     ct_ImagePullPolicy = [], ct_SecurityContext = None, ct_Other = JNull\<rparr>"

definition zero_DeploymentStatus :: DeploymentStatus where
  "zero_DeploymentStatus = \<lparr>dst_ObservedGeneration = 0, dst_Replicas = 0, dst_UpdatedReplicas = 0,
     dst_ReadyReplicas = 0, dst_AvailableReplicas = 0, dst_UnavailableReplicas = 0, dst_Conditions = []\<rparr>"

definition zero_DeploymentStrategy :: DeploymentStrategy where
  "zero_DeploymentStrategy = \<lparr>ds_Type = [], ds_RollingUpdate = None\<rparr>"

definition new_Deployment :: "string \<Rightarrow> string \<Rightarrow> Deployment" where
  "new_Deployment ns name = \<lparr>om_Name = name, om_Namespace = ns, om_UID = [], om_Generation = 0,
     om_Labels = fmempty, om_Annotations = fmempty, om_Finalizers = [], om_DeletionTimestamp = None,
     om_OwnerReferences = [], d_Replicas = None, d_Selector = None, d_Template = zero_PodTemplateSpec,
     d_Strategy = zero_DeploymentStrategy, d_MinReadySeconds = 0, d_Paused = False,
     d_ProgressDeadlineSeconds = None, d_Status = zero_DeploymentStatus\<rparr>"

section \<open>Third-party functions\<close>

record semver =
  sv_Major :: nat
  sv_Minor :: nat
  sv_Patch :: nat
  sv_Pre :: "string list"

record Probes =
  prb_StartupProbe :: "Probe option"
  prb_LivenessProbe :: "Probe option"
  prb_ReadinessProbe :: "Probe option"

record SecretKeyRef =
  skr_Name :: string
  skr_Key :: string
  skr_Namespace :: string

text \<open>\<open>KafkaSecretRefs\<close> with its embedded SSL references.\<close>

record KafkaSecretRefs =
  ksr_SASLUsernameSecret :: "SecretKeyRef option"
  ksr_SASLPasswordSecret :: "SecretKeyRef option"
  ksr_CACertSecret :: "SecretKeyRef option"
  ksr_CertSecret :: "SecretKeyRef option"
  ksr_KeySecret :: "SecretKeyRef option"
  ksr_KeyPasswordSecret :: "SecretKeyRef option"

record externals =
  x_ParseTolerant :: "string \<Rightarrow> semver option"
  x_Compare :: "semver \<Rightarrow> semver \<Rightarrow> int"
  x_sha256 :: "string \<Rightarrow> string"
  x_Scaled :: "IntOrString \<Rightarrow> int \<Rightarrow> bool \<Rightarrow> int option"
  x_IsValidPercent :: "string \<Rightarrow> bool"
  x_asContainer :: "Values \<Rightarrow> Container option"
  x_asVolume :: "Values \<Rightarrow> Volume option"
  x_asSecurityContext :: "Values \<Rightarrow> SecurityContext \<Rightarrow> SecurityContext option"
  x_asProbes :: "Values \<Rightarrow> Probes option"
  x_asKafkaRefs :: "json \<Rightarrow> KafkaSecretRefs \<times> bool"
  x_OperatorImageInfo :: "string \<times> string"
  x_marshal :: "values_map \<Rightarrow> string"

end
