(* ===== verification/Milvus_Types.thy ===== *)
theory Milvus_Types
  imports K8s_Types
begin

text \<open>
  The custom resource \<open>Milvus\<close> (apis/milvus.io/v1beta1: components_types.go,
  dependencies_types.go, persistence_types.go, milvus_types.go) and the methods of its spec and
  status.  Struct embedding is record extension (\<open>Component\<close> extends \<open>ComponentSpec\<close>,
  \<open>ServiceComponent\<close> extends \<open>Component\<close>, \<open>MilvusProxy\<close> extends \<open>ServiceComponent\<close>);
  reading the embedded struct of a bigger one is \<open>truncate\<close>.  A dereference of a nil pointer
  is the value \<open>None\<close> of the method that panics (\<open>IsStopping\<close>, \<open>GetServiceComponent\<close>).
\<close>

section \<open>Component specifications\<close>

record ComponentSpec =
  cs_Paused :: bool
  cs_PodLabels :: smap
  cs_PodAnnotations :: smap
  cs_Image :: string
  cs_Version :: string
  cs_Commands :: "string list"
  cs_RunWithSubProcess :: "bool option"
  cs_ImagePullPolicy :: "string option"
  cs_ImagePullSecrets :: "string list"
  cs_Env :: "EnvVar list"
  cs_SchedulerName :: string
  cs_NodeSelector :: smap
  cs_Affinity :: "json option"
  cs_Tolerations :: "json list"
  cs_TopologySpreadConstraints :: "json list"
  cs_Resources :: "ResourceRequirements option"
  cs_ToolResources :: "ResourceRequirements option"
  cs_VolumeMounts :: "VolumeMount list"
  cs_Volumes :: "Values list option"
  cs_ServiceAccountName :: string
  cs_PriorityClassName :: string
  cs_HostNetwork :: bool
  cs_DNSPolicy :: string
  cs_Probes :: Values
  cs_SecurityContext :: Values
  cs_RollingUpdate :: "RollingUpdateDeployment option"

datatype ImageUpdateMode = ImageUpdateModeUnset | ImageUpdateModeRollingUpgrade
  | ImageUpdateModeRollingDowngrade | ImageUpdateModeAll | ImageUpdateModeForce

record HPASpec =
  hpa_MinReplicas :: "int option"
  hpa_MaxReplicas :: int
  hpa_Metrics :: "Values list"
  hpa_Behavior :: Values

record Component = ComponentSpec +
  co_Replicas :: "int option"
  co_HPA :: "HPASpec option"
  co_SideCars :: "Values list"
  co_InitContainers :: "Values list"

record DeploymentGroup =
  dg_Name :: string
  dg_Replicas :: "int option"
  dg_Labels :: smap
  dg_Annotations :: smap
  dg_ExtraEnv :: "EnvVar list"
  dg_NodeSelector :: "smap option"
  dg_Affinity :: "json option"
  dg_Tolerations :: "json list option"
  dg_TopologySpreadConstraints :: "json list option"

record ComponentStatefulSet =
  ss_Enabled :: bool
  ss_VolumeClaimTemplates :: "Values list"

record MilvusQueryNode = Component +
  qn_Groups :: "DeploymentGroup list"
  qn_StatefulSet :: "ComponentStatefulSet option"

record MilvusDataNode = Component +
  dn_Groups :: "DeploymentGroup list"
  dn_StatefulSet :: "ComponentStatefulSet option"

record MilvusIndexNode = Component +
  in_StatefulSet :: "ComponentStatefulSet option"

record MilvusIngress =
  ing_Labels :: smap
  ing_Annotations :: smap
  ing_IngressClassName :: "string option"
  ing_Hosts :: "string list"
  ing_TLSSecretRefs :: "(string, string list) fmap"

record ServiceComponent = Component +
  sv_ServiceType :: string
  sv_ServiceIPFamilyPolicy :: "string option"
  sv_Port :: int
  sv_ServiceRestfulPort :: int
  sv_ServiceLabels :: smap
  sv_ServiceAnnotations :: smap
  sv_Ingress :: "MilvusIngress option"

record MilvusProxy = ServiceComponent +
  px_Groups :: "DeploymentGroup list"

record MilvusStreamingNode = Component +
  sn_Groups :: "DeploymentGroup list"

datatype RollingMode = RollingModeNotSet | RollingModeV1 | RollingModeV2 | RollingModeV3

record MilvusComponents = ComponentSpec +
  com_TargetPortTypeInteger :: bool
  com_ImageUpdateMode :: ImageUpdateMode
  com_EnableRollingUpdate :: "bool option"
  com_DisableMetric :: bool
  com_MetricInterval :: string
  com_MetricLabels :: smap
  com_ToolImage :: string
  com_DummyImage :: string
  com_UpdateToolImage :: bool
  com_UpdateConfigMapOnly :: "bool option"
  com_RollingMode :: RollingMode
  com_EnableManualMode :: bool
  com_ActiveConfigMap :: string
  com_RunAsNonRoot :: bool
  com_StreamingMode :: "bool option"
  com_Proxy :: "MilvusProxy option"
  com_MixCoord :: "Component option"
  com_RootCoord :: "Component option"
  com_IndexCoord :: "Component option"
  com_DataCoord :: "Component option"
  com_QueryCoord :: "Component option"
  com_IndexNode :: "MilvusIndexNode option"
  com_DataNode :: "MilvusDataNode option"
  com_QueryNode :: "MilvusQueryNode option"
  com_StreamingNode :: "MilvusStreamingNode option"
  com_Standalone :: "ServiceComponent option"
  com_Cdc :: "Component option"

definition StatefulSet_on :: "ComponentStatefulSet option \<Rightarrow> bool" where
  "StatefulSet_on s = (case s of None \<Rightarrow> False | Some ss \<Rightarrow> ss_Enabled ss)"

definition QueryNode_StatefulSetEnabled :: "MilvusQueryNode option \<Rightarrow> bool" where
  "QueryNode_StatefulSetEnabled q = (case q of None \<Rightarrow> False | Some n \<Rightarrow> StatefulSet_on (qn_StatefulSet n))"

definition DataNode_StatefulSetEnabled :: "MilvusDataNode option \<Rightarrow> bool" where
  "DataNode_StatefulSetEnabled d = (case d of None \<Rightarrow> False | Some n \<Rightarrow> StatefulSet_on (dn_StatefulSet n))"

definition IndexNode_StatefulSetEnabled :: "MilvusIndexNode option \<Rightarrow> bool" where
  "IndexNode_StatefulSetEnabled i = (case i of None \<Rightarrow> False | Some n \<Rightarrow> StatefulSet_on (in_StatefulSet n))"

section \<open>Dependencies\<close>

datatype DeletionPolicy = DeletionPolicyUnset | DeletionPolicyDelete | DeletionPolicyRetain

record InClusterConfig =
  ic_Values :: Values
  ic_ChartVersion :: string
  ic_DeletionPolicy :: DeletionPolicy
  ic_PVCDeletion :: bool

record MilvusEtcd =
  etcd_Endpoints :: "string list"
  etcd_External :: bool
  etcd_InCluster :: "InClusterConfig option"

record MilvusStorageSSLConfig =
  ssl_Enabled :: bool
  ssl_CACertificateRef :: string
  ssl_InsecureSkipVerify :: bool

record MilvusStorage =
  st_Type :: string
  st_SecretRef :: string
  st_Endpoint :: string
  st_InCluster :: "InClusterConfig option"
  st_External :: bool
  st_SSL :: "MilvusStorageSSLConfig option"

record PersistentVolumeClaim =
  pvc_ExistingClaim :: string
  pvc_Labels :: smap
  pvc_Annotations :: smap
  pvc_Spec :: Values

record Persistence =
  per_Enabled :: bool
  per_PVCDeletion :: bool
  per_PersistentVolumeClaim :: PersistentVolumeClaim

record MilvusBuiltInMQ =
  mq_Persistence :: Persistence

record WoodpeckerBufferPool =
  wbp_Name :: string
  wbp_Seeds :: "string list"

record MilvusWoodpecker = MilvusBuiltInMQ +
  wp_External :: bool
  wp_QuorumBufferPools :: "WoodpeckerBufferPool list"

record MilvusPulsar =
  pul_InCluster :: "InClusterConfig option"
  pul_External :: bool
  pul_Endpoint :: string
  pul_Endpoints :: "string list"

record MilvusKafka =
  kaf_InCluster :: "InClusterConfig option"
  kaf_External :: bool
  kaf_BrokerList :: "string list"
  kaf_SecretRef :: string

record MilvusTei =
  tei_InCluster :: "InClusterConfig option"
  tei_Enabled :: bool

datatype MsgStreamType = MsgStreamTypeUnset | MsgStreamTypePulsar | MsgStreamTypeKafka
  | MsgStreamTypeWoodPecker | MsgStreamTypeRocksMQ | MsgStreamTypeNatsMQ | MsgStreamTypeCustom

record MilvusDependencies =
  dep_Etcd :: MilvusEtcd
  dep_MsgStreamType :: MsgStreamType
  dep_Pulsar :: MilvusPulsar
  dep_Kafka :: MilvusKafka
  dep_WoodPecker :: MilvusWoodpecker
  dep_RocksMQ :: MilvusBuiltInMQ
  dep_NatsMQ :: MilvusBuiltInMQ
  dep_Storage :: MilvusStorage
  dep_Tei :: MilvusTei
  dep_CustomMsgStream :: Values

definition GetMilvusBuiltInMQ :: "MilvusDependencies \<Rightarrow> MilvusBuiltInMQ option" where
  "GetMilvusBuiltInMQ m =
     (case dep_MsgStreamType m of
        MsgStreamTypePulsar \<Rightarrow> None
      | MsgStreamTypeKafka \<Rightarrow> None
      | MsgStreamTypeCustom \<Rightarrow> None
      | MsgStreamTypeWoodPecker \<Rightarrow>
          if wp_External (dep_WoodPecker m) then None
          else Some (MilvusBuiltInMQ.truncate (dep_WoodPecker m))
      | MsgStreamTypeRocksMQ \<Rightarrow> Some (dep_RocksMQ m)
      | MsgStreamTypeNatsMQ \<Rightarrow> Some (dep_NatsMQ m)
      | MsgStreamTypeUnset \<Rightarrow> None)"

definition SeedEndpoints :: "MilvusWoodpecker \<Rightarrow> string list" where
  "SeedEndpoints w = concat (map wbp_Seeds (wp_QuorumBufferPools w))"

definition Pulsar_GetEndpoints :: "MilvusPulsar \<Rightarrow> string list" where
  "Pulsar_GetEndpoints m =
     (if pul_Endpoints m \<noteq> [] then pul_Endpoints m
      else if pul_Endpoint m \<noteq> [] then [pul_Endpoint m] else [])"

section \<open>The Milvus resource\<close>

datatype MilvusMode = MilvusModeUnset | MilvusModeCluster | MilvusModeStandalone

record MilvusSpec =
  ms_Mode :: MilvusMode
  ms_Com :: MilvusComponents
  ms_Dep :: MilvusDependencies
  ms_Conf :: Values
  ms_HookConf :: Values

datatype MilvusHealthStatus = StatusUnset | StatusPending | StatusHealthy | StatusUnhealthy
  | StatusDeleting | StatusStopped

datatype MilvusConditionType = CondTypeEmpty | EtcdReady | StorageReady | MsgStreamReady
  | MilvusReady | MilvusUpdated

record MilvusCondition =
  mcd_Type :: MilvusConditionType
  mcd_Status :: ConditionStatus
  mcd_LastTransitionTime :: "int option"
  mcd_Reason :: string
  mcd_Message :: string

record ComponentDeployStatus =
  cds_Generation :: int
  cds_Image :: string
  cds_Status :: DeploymentStatus

record MilvusStatus =
  mst_Status :: MilvusHealthStatus
  mst_Conditions :: "MilvusCondition list"
  mst_Endpoint :: string
  mst_IngressStatus :: json
  mst_ComponentsDeployStatus :: "(string, ComponentDeployStatus) fmap"
  mst_DeploymentGroupsDeployStatus :: "(string, (string, ComponentDeployStatus) fmap) fmap"
  mst_RollingMode :: RollingMode
  mst_ObservedGeneration :: int
  mst_CurrentImage :: string
  mst_CurrentVersion :: string

record Milvus = ObjectMeta +
  m_Spec :: MilvusSpec
  m_Status :: MilvusStatus

datatype ComponentDeployMode = DeployModeUnknown | OneDeployMode | TwoDeployMode

record MilvusReplicas =
  mr_Proxy :: int
  mr_MixCoord :: int
  mr_RootCoord :: int
  mr_DataCoord :: int
  mr_IndexCoord :: int
  mr_QueryCoord :: int
  mr_DataNode :: int
  mr_IndexNode :: int
  mr_QueryNode :: int
  mr_StreamingNode :: int
  mr_Standalone :: int
  mr_Cdc :: int

section \<open>Zero values\<close>

definition zero_ComponentSpec :: ComponentSpec where
  "zero_ComponentSpec = \<lparr>cs_Paused = False, cs_PodLabels = fmempty, cs_PodAnnotations = fmempty, cs_Image = [],
     cs_Version = [], cs_Commands = [], cs_RunWithSubProcess = None, cs_ImagePullPolicy = None,
     cs_ImagePullSecrets = [], cs_Env = [], cs_SchedulerName = [], cs_NodeSelector = fmempty, cs_Affinity = None,
     cs_Tolerations = [], cs_TopologySpreadConstraints = [], cs_Resources = None, cs_ToolResources = None,
     cs_VolumeMounts = [], cs_Volumes = None, cs_ServiceAccountName = [], cs_PriorityClassName = [],
     cs_HostNetwork = False, cs_DNSPolicy = [], cs_Probes = None, cs_SecurityContext = None, cs_RollingUpdate = None\<rparr>"

definition zero_Component :: Component where
  "zero_Component = ComponentSpec.extend zero_ComponentSpec (Component.fields None None [] [])"

definition zero_ServiceComponent :: ServiceComponent where
  "zero_ServiceComponent = Component.extend zero_Component (ServiceComponent.fields [] None 0 0 fmempty fmempty None)"

definition zero_MilvusProxy :: MilvusProxy where
  "zero_MilvusProxy = ServiceComponent.extend zero_ServiceComponent (MilvusProxy.fields [])"

definition zero_MilvusQueryNode :: MilvusQueryNode where
  "zero_MilvusQueryNode = Component.extend zero_Component (MilvusQueryNode.fields [] None)"

definition zero_MilvusDataNode :: MilvusDataNode where
  "zero_MilvusDataNode = Component.extend zero_Component (MilvusDataNode.fields [] None)"

definition zero_MilvusIndexNode :: MilvusIndexNode where
  "zero_MilvusIndexNode = Component.extend zero_Component (MilvusIndexNode.fields None)"

definition zero_MilvusStreamingNode :: MilvusStreamingNode where
  "zero_MilvusStreamingNode = Component.extend zero_Component (MilvusStreamingNode.fields [])"

definition zero_MilvusComponents :: MilvusComponents where
  "zero_MilvusComponents = ComponentSpec.extend zero_ComponentSpec
     (MilvusComponents.fields False ImageUpdateModeUnset None False [] fmempty [] [] False None
        RollingModeNotSet False [] False None None None None None None None None None None None None None)"

definition zero_Persistence :: Persistence where
  "zero_Persistence = \<lparr>per_Enabled = False, per_PVCDeletion = False, per_PersistentVolumeClaim =
     \<lparr>pvc_ExistingClaim = [], pvc_Labels = fmempty, pvc_Annotations = fmempty, pvc_Spec = None\<rparr>\<rparr>"

definition zero_MilvusDependencies :: MilvusDependencies where
  "zero_MilvusDependencies = \<lparr>dep_Etcd = \<lparr>etcd_Endpoints = [], etcd_External = False, etcd_InCluster = None\<rparr>,
     dep_MsgStreamType = MsgStreamTypeUnset,
     dep_Pulsar = \<lparr>pul_InCluster = None, pul_External = False, pul_Endpoint = [], pul_Endpoints = []\<rparr>,
     dep_Kafka = \<lparr>kaf_InCluster = None, kaf_External = False, kaf_BrokerList = [], kaf_SecretRef = []\<rparr>,
     dep_WoodPecker = \<lparr>mq_Persistence = zero_Persistence, wp_External = False, wp_QuorumBufferPools = []\<rparr>,
     dep_RocksMQ = \<lparr>mq_Persistence = zero_Persistence\<rparr>, dep_NatsMQ = \<lparr>mq_Persistence = zero_Persistence\<rparr>,
     dep_Storage = \<lparr>st_Type = [], st_SecretRef = [], st_Endpoint = [], st_InCluster = None, st_External = False, st_SSL = None\<rparr>,
     dep_Tei = \<lparr>tei_InCluster = None, tei_Enabled = False\<rparr>, dep_CustomMsgStream = None\<rparr>"

definition zero_MilvusStatus :: MilvusStatus where
  "zero_MilvusStatus = \<lparr>mst_Status = StatusUnset, mst_Conditions = [], mst_Endpoint = [], mst_IngressStatus = JNull,
     mst_ComponentsDeployStatus = fmempty, mst_DeploymentGroupsDeployStatus = fmempty, mst_RollingMode = RollingModeNotSet,
     mst_ObservedGeneration = 0, mst_CurrentImage = [], mst_CurrentVersion = []\<rparr>"

definition zero_MilvusSpec :: MilvusSpec where
  "zero_MilvusSpec = \<lparr>ms_Mode = MilvusModeUnset, ms_Com = zero_MilvusComponents, ms_Dep = zero_MilvusDependencies,
     ms_Conf = None, ms_HookConf = None\<rparr>"

definition new_Milvus :: "string \<Rightarrow> string \<Rightarrow> Milvus" where
  "new_Milvus ns name = \<lparr>om_Name = name, om_Namespace = ns, om_UID = [], om_Generation = 0, om_Labels = fmempty,
     om_Annotations = fmempty, om_Finalizers = [], om_DeletionTimestamp = None, om_OwnerReferences = [],
     m_Spec = zero_MilvusSpec, m_Status = zero_MilvusStatus\<rparr>"

lemmas zero_defs = zero_ComponentSpec_def zero_Component_def zero_ServiceComponent_def zero_MilvusProxy_def
  zero_MilvusQueryNode_def zero_MilvusDataNode_def zero_MilvusIndexNode_def zero_MilvusStreamingNode_def
  zero_MilvusComponents_def zero_Persistence_def zero_MilvusDependencies_def zero_MilvusStatus_def
  zero_MilvusSpec_def new_Milvus_def
  ComponentSpec.extend_def Component.extend_def ServiceComponent.extend_def
  Component.fields_def ServiceComponent.fields_def MilvusProxy.fields_def MilvusQueryNode.fields_def
  MilvusDataNode.fields_def MilvusIndexNode.fields_def MilvusStreamingNode.fields_def MilvusComponents.fields_def

end
