(* ===== verification/Milvus_Spec.thy ===== *)
theory Milvus_Spec
  imports Milvus_Types
begin

text \<open>
  Methods of \<open>MilvusSpec\<close>, \<open>MilvusStatus\<close>, \<open>ComponentDeployStatus\<close> and \<open>Milvus\<close>
  (apis/milvus.io/v1beta1/milvus_types.go): stop detection, version gates on the image tag,
  the Deployment state machine of \<open>GetState\<close> and small accessors.
\<close>

section \<open>Versions\<close>

text \<open>The constant \<open>sermanticVersion2_5_Max\<close> is version 2.5.999.\<close>

definition sermanticVersion2_5_Max :: semver where
  "sermanticVersion2_5_Max = \<lparr>sv_Major = 2, sv_Minor = 5, sv_Patch = 999, sv_Pre = []\<rparr>"

definition semver_GT :: "externals \<Rightarrow> semver \<Rightarrow> semver \<Rightarrow> bool" where
  "semver_GT x v o' \<longleftrightarrow> x_Compare x v o' > 0"

definition isImageVersionGreaterThan2_6 :: "externals \<Rightarrow> string \<Rightarrow> string \<Rightarrow> bool" where
  "isImageVersionGreaterThan2_6 x version img =
     (if version \<noteq> [] then
        (case x_ParseTolerant x version of
           None \<Rightarrow> False
         | Some v \<Rightarrow> semver_GT x v sermanticVersion2_5_Max)
      else
        (let parts = split_on CHR '':'' img in
         if length parts < 2 then False
         else (let imageTag = last parts in
           if has_prefix imageTag ''master-'' then True
           else (case x_ParseTolerant x imageTag of
                   None \<Rightarrow> False
                 | Some v \<Rightarrow> semver_GT x v sermanticVersion2_5_Max))))"

definition IsVersionGreaterThan2_6 :: "externals \<Rightarrow> MilvusSpec \<Rightarrow> bool" where
  "IsVersionGreaterThan2_6 x ms =
     isImageVersionGreaterThan2_6 x (cs_Version (ms_Com ms)) (cs_Image (ms_Com ms))"

definition GetMilvusVersionByImage :: "externals \<Rightarrow> MilvusSpec \<Rightarrow> go_error + semver" where
  "GetMilvusVersionByImage x ms =
     (let splited = split_on CHR '':'' (cs_Image (ms_Com ms)) in
      if length splited \<noteq> 2 then Inl (Errorf (''unknown version of image['' @ splited ! 0 @ '']''))
      else (case x_ParseTolerant x (splited ! 1) of
              None \<Rightarrow> Inl (Errorf ''invalid semantic version'')
            | Some v \<Rightarrow> Inr v))"

section \<open>Component selection\<close>

definition UseMixCoord :: "MilvusSpec \<Rightarrow> bool" where
  "UseMixCoord ms \<longleftrightarrow> com_MixCoord (ms_Com ms) \<noteq> None"

definition UseCdc :: "MilvusSpec \<Rightarrow> bool" where
  "UseCdc ms \<longleftrightarrow> com_Cdc (ms_Com ms) \<noteq> None"

definition UseStreamingNode :: "externals \<Rightarrow> MilvusSpec \<Rightarrow> bool" where
  "UseStreamingNode x ms =
     (if IsVersionGreaterThan2_6 x ms then True
      else (case com_StreamingMode (ms_Com ms) of
              Some b \<Rightarrow> b
            | None \<Rightarrow> com_StreamingNode (ms_Com ms) \<noteq> None))"

text \<open>\<open>GetServiceComponent\<close> panics when the selected component is nil.\<close>

definition GetServiceComponent :: "MilvusSpec \<Rightarrow> ServiceComponent option" where
  "GetServiceComponent ms =
     (if ms_Mode ms = MilvusModeCluster
      then map_option ServiceComponent.truncate (com_Proxy (ms_Com ms))
      else com_Standalone (ms_Com ms))"

definition GetPersistenceConfig :: "MilvusSpec \<Rightarrow> Persistence option" where
  "GetPersistenceConfig ms = map_option mq_Persistence (GetMilvusBuiltInMQ (ms_Dep ms))"

section \<open>Stopping\<close>

definition componentOrGroupsStopped :: "int option \<Rightarrow> DeploymentGroup list \<Rightarrow> bool" where
  "componentOrGroupsStopped componentReplicas groups =
     (if groups = [] then componentReplicas = Some 0
      else list_all (\<lambda>g. dg_Replicas g = Some 0) groups)"

text \<open>\<open>*ms.Com.X.Replicas != 0\<close>: \<open>None\<close> when either pointer is nil.\<close>

definition replicas_nonzero :: "'a Component_scheme option \<Rightarrow> bool option" where
  "replicas_nonzero c = (case c of None \<Rightarrow> None | Some co \<Rightarrow> map_option (\<lambda>r. r \<noteq> 0) (co_Replicas co))"

definition IsStopping :: "externals \<Rightarrow> MilvusSpec \<Rightarrow> bool option" where
  "IsStopping x ms =
     (let com = ms_Com ms in
      if com_EnableManualMode com then Some False
      else do {
        standalone \<leftarrow> replicas_nonzero (com_Standalone com);
        if standalone then Some False else do {
        cdc \<leftarrow> (if UseCdc ms then replicas_nonzero (com_Cdc com) else Some False);
        if cdc then Some False
        else if ms_Mode ms = MilvusModeStandalone then Some True
        else do {
        coords \<leftarrow> (if com_MixCoord com \<noteq> None then replicas_nonzero (com_MixCoord com)
                   else do {
                     ic \<leftarrow> replicas_nonzero (com_IndexCoord com);
                     if ic then Some True else do {
                     dc \<leftarrow> replicas_nonzero (com_DataCoord com);
                     if dc then Some True else do {
                     qc \<leftarrow> replicas_nonzero (com_QueryCoord com);
                     if qc then Some True else replicas_nonzero (com_RootCoord com) } } });
        if coords then Some False else do {
        px \<leftarrow> com_Proxy com;
        if \<not> componentOrGroupsStopped (co_Replicas px) (px_Groups px) then Some False else do {
        dn \<leftarrow> com_DataNode com;
        if \<not> componentOrGroupsStopped (co_Replicas dn) (dn_Groups dn) then Some False else do {
        inode \<leftarrow> (if com_IndexNode com \<noteq> None then replicas_nonzero (com_IndexNode com) else Some False);
        if inode then Some False else do {
        qn \<leftarrow> com_QueryNode com;
        if \<not> componentOrGroupsStopped (co_Replicas qn) (qn_Groups qn) then Some False
        else if UseStreamingNode x ms then do {
          sn \<leftarrow> com_StreamingNode com;
          Some (componentOrGroupsStopped (co_Replicas sn) (sn_Groups sn)) }
        else Some True } } } } } } })"

section \<open>Deployment state\<close>

datatype DeploymentState = DeploymentProgressing | DeploymentComplete | DeploymentFailed | DeploymentPaused

definition NewReplicaSetAvailableReason :: string where [key_defs]:
  "NewReplicaSetAvailableReason = ''NewReplicaSetAvailable''"

definition DeploymentPausedReason :: string where [key_defs]:
  "DeploymentPausedReason = ''DeploymentPaused''"

definition getDeploymentConditionByType :: "DeploymentCondition list \<Rightarrow> string \<Rightarrow> DeploymentCondition option" where
  "getDeploymentConditionByType conditions conditionType = find (\<lambda>c. dc_Type c = conditionType) conditions"

definition GetState :: "ComponentDeployStatus \<Rightarrow> DeploymentState" where
  "GetState c =
     (if dst_ObservedGeneration (cds_Status c) < cds_Generation c then DeploymentProgressing
      else (case getDeploymentConditionByType (dst_Conditions (cds_Status c)) ''Progressing'' of
              None \<Rightarrow> DeploymentProgressing
            | Some cond \<Rightarrow>
                if dc_Reason cond = DeploymentPausedReason then DeploymentPaused
                else if dc_Status cond \<noteq> ConditionTrue then DeploymentFailed
                else if dc_Reason cond = NewReplicaSetAvailableReason then DeploymentComplete
                else DeploymentProgressing))"

section \<open>Accessors of Milvus\<close>

definition GetMilvusConditionByType :: "MilvusStatus \<Rightarrow> MilvusConditionType \<Rightarrow> MilvusCondition option" where
  "GetMilvusConditionByType status conditionType = find (\<lambda>c. mcd_Type c = conditionType) (mst_Conditions status)"

definition IsCurrentImageVersionGreaterThan2_6 :: "externals \<Rightarrow> Milvus \<Rightarrow> bool" where
  "IsCurrentImageVersionGreaterThan2_6 x m =
     isImageVersionGreaterThan2_6 x (mst_CurrentVersion (m_Status m)) (mst_CurrentImage (m_Status m))"

definition IsFirstTimeStarting :: "Milvus \<Rightarrow> bool" where
  "IsFirstTimeStarting m \<longleftrightarrow> mst_Status (m_Status m) = StatusUnset"

definition Milvus_IsChangingMode :: "Milvus \<Rightarrow> bool" where
  "Milvus_IsChangingMode m =
     (if ms_Mode (m_Spec m) = MilvusModeStandalone then False
      else (case com_Standalone (ms_Com (m_Spec m)) of
              None \<Rightarrow> False
            | Some s \<Rightarrow> (case co_Replicas s of None \<Rightarrow> False | Some r \<Rightarrow> r > 0)))"

definition PodServiceLabelAddedAnnotation :: string where [key_defs]:
  "PodServiceLabelAddedAnnotation = ''milvus.io/pod-service-label-added''"

definition IsPodServiceLabelAdded :: "Milvus \<Rightarrow> bool" where
  "IsPodServiceLabelAdded m \<longleftrightarrow> fmget (om_Annotations m) PodServiceLabelAddedAnnotation = ''true''"

definition GetActiveConfigMap :: "Milvus \<Rightarrow> string" where
  "GetActiveConfigMap m =
     (if com_ActiveConfigMap (ms_Com (m_Spec m)) \<noteq> [] then com_ActiveConfigMap (ms_Com (m_Spec m))
      else om_Name m)"

definition IsRollingUpdateEnabled :: "Milvus \<Rightarrow> bool" where
  "IsRollingUpdateEnabled m \<longleftrightarrow> com_EnableRollingUpdate (ms_Com (m_Spec m)) = Some True"

definition IsUpdateConfigMapOnly :: "Milvus \<Rightarrow> bool" where
  "IsUpdateConfigMapOnly m =
     (case com_UpdateConfigMapOnly (ms_Com (m_Spec m)) of None \<Rightarrow> True | Some b \<Rightarrow> b)"

section \<open>Facts\<close>

lemma GetState_Complete_iff:
  "GetState c = DeploymentComplete \<longleftrightarrow>
     cds_Generation c \<le> dst_ObservedGeneration (cds_Status c) \<and>
     (\<exists>cond. getDeploymentConditionByType (dst_Conditions (cds_Status c)) ''Progressing'' = Some cond \<and>
        dc_Status cond = ConditionTrue \<and> dc_Reason cond = NewReplicaSetAvailableReason)"
  by (auto simp: GetState_def key_defs split: option.splits)

lemma componentOrGroupsStopped_iff:
  "componentOrGroupsStopped r gs \<longleftrightarrow>
     (gs = [] \<and> r = Some 0) \<or> (gs \<noteq> [] \<and> (\<forall>g \<in> set gs. dg_Replicas g = Some 0))"
  by (auto simp: componentOrGroupsStopped_def list_all_iff)

lemma replicas_nonzero_Some:
  "replicas_nonzero c = Some b \<longleftrightarrow> (\<exists>co r. c = Some co \<and> co_Replicas co = Some r \<and> b = (r \<noteq> 0))"
  by (auto simp: replicas_nonzero_def split: option.splits)

text \<open>A standalone instance is stopping exactly when its static replicas are all zero.\<close>

lemma IsStopping_standalone:
  assumes "ms_Mode ms = MilvusModeStandalone" "\<not> com_EnableManualMode (ms_Com ms)"
    and "com_Standalone (ms_Com ms) = Some sa" "co_Replicas sa = Some r"
    and "\<forall>c. com_Cdc (ms_Com ms) = Some c \<longrightarrow> co_Replicas c \<noteq> None"
  shows "IsStopping x ms = Some (r = 0 \<and> (\<forall>c. com_Cdc (ms_Com ms) = Some c \<longrightarrow> co_Replicas c = Some 0))"
  using assms
  by (cases "com_Cdc (ms_Com ms)")
    (auto simp: IsStopping_def UseCdc_def replicas_nonzero_def Let_def)

text \<open>In manual mode the operator never treats the instance as stopping.\<close>

lemma IsStopping_manual [simp]: "com_EnableManualMode (ms_Com ms) \<Longrightarrow> IsStopping x ms = Some False"
  by (simp add: IsStopping_def)

end
