(* ===== verification/Labels.thy ===== *)
theory Labels
  imports Milvus_Spec
begin

text \<open>
  The label and annotation protocol of apis/milvus.io/v1beta1/label_annotations.go: which
  rollout slot a Deployment belongs to (group id), which slot is current for a component, and
  whether a rollout of the component is in progress.  The locale \<open>string_slot\<close> is the contract
  of a key/value slot stored in a map; its interpretations are the slots of the operator.
\<close>

section \<open>Keys\<close>

definition MilvusIO :: string where [key_defs]: "MilvusIO = ''milvus.io/''"
definition TrueStr :: string where [key_defs]: "TrueStr = ''true''"
definition FalseStr :: string where [key_defs]: "FalseStr = ''false''"
definition UpgradeAnnotation :: string where [key_defs]: "UpgradeAnnotation = MilvusIO @ ''upgrade''"
definition AnnotationUpgrading :: string where [key_defs]: "AnnotationUpgrading = ''upgrading''"
definition AnnotationUpgraded :: string where [key_defs]: "AnnotationUpgraded = ''upgraded''"
definition StoppedAtAnnotation :: string where [key_defs]: "StoppedAtAnnotation = MilvusIO @ ''stopped-at''"
definition PodAnnotationUsingConfigMap :: string where [key_defs]:
  "PodAnnotationUsingConfigMap = MilvusIO @ ''using-configmap''"
definition AnnotationMilvusGeneration :: string where [key_defs]:
  "AnnotationMilvusGeneration = MilvusIO @ ''generation''"
definition KafkaSaslCheckSumAnnotation :: string where [key_defs]:
  "KafkaSaslCheckSumAnnotation = MilvusIO @ ''kafka-sasl-checksum''"
definition ServiceLabel :: string where [key_defs]: "ServiceLabel = MilvusIO @ ''service''"
definition DeploymentGroupLabel :: string where [key_defs]:
  "DeploymentGroupLabel = MilvusIO @ ''deployment-group''"

definition getChangingModeLabel :: "string \<Rightarrow> string" where
  "getChangingModeLabel component = MilvusIO @ ''changing-'' @ component @ ''-mode''"

definition GetComponentGroupIdLabel :: "string \<Rightarrow> string" where
  "GetComponentGroupIdLabel component = MilvusIO @ component @ ''-group-id''"

definition GetComponentCurrentGroupIDLabel :: "string \<Rightarrow> string" where
  "GetComponentCurrentGroupIDLabel component = MilvusIO @ component @ ''-current-group-id''"

definition GetRollingIdLabelByComponent :: "string \<Rightarrow> string" where
  "GetRollingIdLabelByComponent component = MilvusIO @ component @ ''-rolling-id''"

section \<open>Operations\<close>

definition IsChangingMode :: "Milvus \<Rightarrow> string \<Rightarrow> bool" where
  "IsChangingMode m component \<longleftrightarrow> fmget (om_Annotations m) (getChangingModeLabel component) = TrueStr"

definition SetChangingMode :: "string \<Rightarrow> bool \<Rightarrow> Milvus \<Rightarrow> Milvus" where
  "SetChangingMode component changing m =
     (if changing then m\<lparr>om_Annotations := fmupd (getChangingModeLabel component) TrueStr (om_Annotations m)\<rparr>
      else m\<lparr>om_Annotations := fmdrop (getChangingModeLabel component) (om_Annotations m)\<rparr>)"

definition GetLabelGroupID :: "string \<Rightarrow> 'a ObjectMeta_scheme \<Rightarrow> string" where
  "GetLabelGroupID component obj = fmget (om_Labels obj) (GetComponentGroupIdLabel component)"

definition SetGroupIDStr :: "string \<Rightarrow> string \<Rightarrow> smap \<Rightarrow> smap" where
  "SetGroupIDStr component groupIdStr labels = fmupd (GetComponentGroupIdLabel component) groupIdStr labels"

definition SetGroupID :: "string \<Rightarrow> int \<Rightarrow> smap \<Rightarrow> smap" where
  "SetGroupID component groupId labels = SetGroupIDStr component (itoa groupId) labels"

definition GetCurrentGroupId :: "Milvus \<Rightarrow> string \<Rightarrow> string" where
  "GetCurrentGroupId m component = fmget (om_Annotations m) (GetComponentCurrentGroupIDLabel component)"

definition SetCurrentGroupIDStr :: "string \<Rightarrow> string \<Rightarrow> Milvus \<Rightarrow> Milvus" where
  "SetCurrentGroupIDStr component groupId m =
     m\<lparr>om_Annotations := fmupd (GetComponentCurrentGroupIDLabel component) groupId (om_Annotations m)\<rparr>"

definition SetCurrentGroupID :: "string \<Rightarrow> int \<Rightarrow> Milvus \<Rightarrow> Milvus" where
  "SetCurrentGroupID component groupId m = SetCurrentGroupIDStr component (itoa groupId) m"

definition IsComponentRolling :: "Milvus \<Rightarrow> string \<Rightarrow> bool" where
  "IsComponentRolling m component \<longleftrightarrow> length (fmget (om_Labels m) (GetRollingIdLabelByComponent component)) > 0"

definition GetComponentRollingId :: "Milvus \<Rightarrow> string \<Rightarrow> string" where
  "GetComponentRollingId m component = fmget (om_Labels m) (GetRollingIdLabelByComponent component)"

definition SetComponentRolling :: "string \<Rightarrow> bool \<Rightarrow> Milvus \<Rightarrow> Milvus" where
  "SetComponentRolling component rolling m =
     (if rolling then
        (if length (fmget (om_Labels m) (GetRollingIdLabelByComponent component)) = 0
         then m\<lparr>om_Labels := fmupd (GetRollingIdLabelByComponent component) (itoa (om_Generation m)) (om_Labels m)\<rparr>
         else m)
      else m\<lparr>om_Labels := fmdrop (GetRollingIdLabelByComponent component) (om_Labels m)\<rparr>)"

section \<open>Keys never collide\<close>

lemma key_inj [simp]:
  "GetComponentGroupIdLabel c = GetComponentGroupIdLabel c' \<longleftrightarrow> c = c'"
  "GetComponentCurrentGroupIDLabel c = GetComponentCurrentGroupIDLabel c' \<longleftrightarrow> c = c'"
  "GetRollingIdLabelByComponent c = GetRollingIdLabelByComponent c' \<longleftrightarrow> c = c'"
  "getChangingModeLabel c = getChangingModeLabel c' \<longleftrightarrow> c = c'"
  by (simp_all add: GetComponentGroupIdLabel_def GetComponentCurrentGroupIDLabel_def
      GetRollingIdLabelByComponent_def getChangingModeLabel_def)

text \<open>A changing-mode key ends in \<open>-mode\<close> and a current-group key in \<open>-group-id\<close>: the two
  annotation families are disjoint, whatever the component is called.\<close>

lemma changing_neq_current [simp]:
  "getChangingModeLabel c \<noteq> GetComponentCurrentGroupIDLabel c'"
  "GetComponentCurrentGroupIDLabel c' \<noteq> getChangingModeLabel c"
proof -
  have "last (getChangingModeLabel c) \<noteq> last (GetComponentCurrentGroupIDLabel c')"
    by (simp add: getChangingModeLabel_def GetComponentCurrentGroupIDLabel_def)
  then show "getChangingModeLabel c \<noteq> GetComponentCurrentGroupIDLabel c'"
    "GetComponentCurrentGroupIDLabel c' \<noteq> getChangingModeLabel c" by metis+
qed

section \<open>Slots\<close>

text \<open>The contract of a stored slot: reading after writing gives the value written, and a
  write to one key leaves every other key alone.\<close>

locale string_slot =
  fixes get :: "'o \<Rightarrow> string \<Rightarrow> string" and set' :: "string \<Rightarrow> string \<Rightarrow> 'o \<Rightarrow> 'o"
  assumes get_set_same: "get (set' k v ob) k = v"
    and get_set_other: "k \<noteq> k' \<Longrightarrow> get (set' k v ob) k' = get ob k'"
begin

lemma get_set: "get (set' k v ob) k' = (if k = k' then v else get ob k')"
  by (simp add: get_set_same get_set_other)

lemma set_commute_get:
  "k \<noteq> k' \<Longrightarrow> get (set' k v (set' k' v' ob)) j = get (set' k' v' (set' k v ob)) j"
  by (auto simp: get_set)

lemma set_foldl_get:
  "distinct (map fst kvs) \<Longrightarrow> (k, v) \<in> set kvs \<Longrightarrow> get (fold (\<lambda>(k, v). set' k v) kvs ob) k = v"
proof (induction kvs arbitrary: ob)
  case (Cons kv kvs)
  have keep: "k \<notin> fst ` set l \<Longrightarrow> get (fold (\<lambda>(k, v). set' k v) l ob) k = get ob k" for l ob
    by (induction l arbitrary: ob) (auto simp: get_set)
  show ?case
  proof (cases "(k, v) \<in> set kvs")
    case True
    with Cons show ?thesis by (auto split: prod.splits)
  next
    case False
    with Cons.prems(2) have kv: "kv = (k, v)" by simp
    with Cons.prems(1) have "k \<notin> fst ` set kvs" by simp
    with kv keep show ?thesis by (simp add: get_set)
  qed
qed simp

end

interpretation current_slot: string_slot GetCurrentGroupId SetCurrentGroupIDStr
  by unfold_locales (simp_all add: GetCurrentGroupId_def SetCurrentGroupIDStr_def)

interpretation group_slot: string_slot
  "\<lambda>labels component. fmget labels (GetComponentGroupIdLabel component)" SetGroupIDStr
  by unfold_locales (simp_all add: SetGroupIDStr_def)

declare current_slot.get_set [simp] group_slot.get_set [simp]

lemma GetCurrentGroupId_SetCurrentGroupID [simp]:
  "GetCurrentGroupId (SetCurrentGroupID c i m) c' = (if c = c' then itoa i else GetCurrentGroupId m c')"
  by (simp add: SetCurrentGroupID_def)

section \<open>Rolling marks and the current slot are independent\<close>

lemma rolling_set [simp]:
  "IsComponentRolling (SetComponentRolling c b m) c' = (if c = c' then b else IsComponentRolling m c')"
  by (simp add: IsComponentRolling_def SetComponentRolling_def)

lemma rolling_id_keep:
  "IsComponentRolling m c \<Longrightarrow> GetComponentRollingId (SetComponentRolling c True m) c = GetComponentRollingId m c"
  by (simp add: IsComponentRolling_def GetComponentRollingId_def SetComponentRolling_def)

lemma rolling_id_fresh:
  "\<not> IsComponentRolling m c \<Longrightarrow> GetComponentRollingId (SetComponentRolling c True m) c = itoa (om_Generation m)"
  by (simp add: IsComponentRolling_def GetComponentRollingId_def SetComponentRolling_def)

lemma rolling_current_indep [simp]:
  "IsComponentRolling (SetCurrentGroupIDStr c v m) c' = IsComponentRolling m c'"
  "GetCurrentGroupId (SetComponentRolling c b m) c' = GetCurrentGroupId m c'"
  "IsComponentRolling (SetChangingMode c b m) c' = IsComponentRolling m c'"
  "GetCurrentGroupId (SetChangingMode c b m) c' = GetCurrentGroupId m c'"
  by (simp_all add: IsComponentRolling_def SetCurrentGroupIDStr_def GetCurrentGroupId_def
      SetComponentRolling_def SetChangingMode_def)

lemma changing_set [simp]:
  "IsChangingMode (SetChangingMode c b m) c' = (if c = c' then b else IsChangingMode m c')"
  "IsChangingMode (SetCurrentGroupIDStr c v m) c' = IsChangingMode m c'"
  by (simp_all add: IsChangingMode_def SetChangingMode_def SetCurrentGroupIDStr_def TrueStr_def)

lemma label_ops_frame [simp]:
  "om_Name (SetCurrentGroupIDStr c v m) = om_Name m" "om_Namespace (SetCurrentGroupIDStr c v m) = om_Namespace m"
  "m_Spec (SetCurrentGroupIDStr c v m) = m_Spec m" "m_Status (SetCurrentGroupIDStr c v m) = m_Status m"
  "om_Name (SetComponentRolling c b m) = om_Name m" "om_Namespace (SetComponentRolling c b m) = om_Namespace m"
  "m_Spec (SetComponentRolling c b m) = m_Spec m" "m_Status (SetComponentRolling c b m) = m_Status m"
  by (simp_all add: SetCurrentGroupIDStr_def SetComponentRolling_def)

end
