(* ===== verification/Merge_Util.thy ===== *)
theory Merge_Util
  imports Labels
begin

text \<open>
  pkg/controllers/utils.go: merging of environment variables, mounts, ports and labels, index
  lookups, readiness predicates and the condition list of the status.  The three list merges of
  the source are instances of one loop, \<open>merge_by\<close>, parameterised by the key it indexes; an
  index lookup that the source answers with -1 answers \<open>None\<close> here.
\<close>

section \<open>Index lookups\<close>

fun index_by :: "('a \<Rightarrow> 'k) \<Rightarrow> 'a list \<Rightarrow> 'k \<Rightarrow> nat option" where
  "index_by key [] k = None"
| "index_by key (x # xs) k = (if key x = k then Some 0 else map_option Suc (index_by key xs k))"

definition GetContainerIndex :: "Container list \<Rightarrow> string \<Rightarrow> nat option" where
  "GetContainerIndex containers name = index_by ct_Name containers name"

definition GetVolumeIndex :: "Volume list \<Rightarrow> string \<Rightarrow> nat option" where
  "GetVolumeIndex volumes name = index_by vol_Name volumes name"

definition GetVolumeMountIndex :: "VolumeMount list \<Rightarrow> string \<Rightarrow> nat option" where
  "GetVolumeMountIndex volumeMounts mountPath = index_by vm_MountPath volumeMounts mountPath"

lemma index_by_Some:
  "index_by key xs k = Some i \<Longrightarrow> i < length xs \<and> key (xs ! i) = k \<and> (\<forall>j < i. key (xs ! j) \<noteq> k)"
proof (induction xs arbitrary: i)
  case (Cons x xs)
  show ?case
  proof (cases "key x = k")
    case True
    with Cons.prems show ?thesis by simp
  next
    case False
    with Cons.prems obtain j where "index_by key xs k = Some j" "i = Suc j" by auto
    with Cons.IH False show ?thesis by (auto simp: less_Suc_eq_0_disj)
  qed
qed simp

lemma index_by_None: "index_by key xs k = None \<longleftrightarrow> k \<notin> key ` set xs"
  by (induction xs) auto

section \<open>Replace or append by key\<close>

text \<open>\<open>addVolume\<close>, \<open>addVolumeMount\<close> and the container loops replace the first element with
  the key, or append.\<close>

definition upsert_by :: "('a \<Rightarrow> 'k) \<Rightarrow> 'a \<Rightarrow> 'a list \<Rightarrow> 'a list" where
  "upsert_by key x xs = (case index_by key xs (key x) of None \<Rightarrow> xs @ [x] | Some i \<Rightarrow> xs[i := x])"

lemma upsert_by_mem [simp]: "x \<in> set (upsert_by key x xs)"
proof (cases "index_by key xs (key x)")
  case (Some i)
  then have "i < length xs" by (simp add: index_by_Some)
  then show ?thesis using Some by (simp add: upsert_by_def set_update_memI)
qed (simp add: upsert_by_def)

lemma map_key_upsert_by:
  "map key (upsert_by key x xs) = (if key x \<in> key ` set xs then map key xs else map key xs @ [key x])"
proof (cases "index_by key xs (key x)")
  case None
  moreover from this have "key x \<notin> key ` set xs" by (simp add: index_by_None)
  ultimately show ?thesis by (simp add: upsert_by_def)
next
  case (Some i)
  then have i: "i < length xs" "key (xs ! i) = key x" by (auto dest: index_by_Some)
  then have "key x \<in> key ` set xs" by (metis image_eqI nth_mem)
  moreover have "map key (xs[i := x]) = map key xs"
    using i by (simp add: map_update) (metis list_update_id nth_map)
  ultimately show ?thesis using Some by (simp add: upsert_by_def)
qed

lemma distinct_upsert_by [simp]: "distinct (map key xs) \<Longrightarrow> distinct (map key (upsert_by key x xs))"
  by (simp add: map_key_upsert_by)

lemma index_by_upsert_by [simp]: "index_by key (upsert_by key x xs) (key x) \<noteq> None"
  by (metis image_eqI index_by_None upsert_by_mem)

lemma index_by_map: "index_by key xs k = index_by id (map key xs) k"
  by (induction xs) auto

lemma upsert_by_idem [simp]: "upsert_by key x (upsert_by key x xs) = upsert_by key x xs"
proof (cases "index_by key xs (key x)")
  case None
  have "index_by key (xs @ [x]) (key x) = Some (length xs)"
    using None by (induction xs) (auto split: if_splits)
  with None show ?thesis by (simp add: upsert_by_def)
next
  case (Some i)
  then have "key x \<in> key ` set xs" by (metis index_by_None option.distinct(1))
  then have "index_by key (upsert_by key x xs) (key x) = Some i"
    using Some by (metis index_by_map map_key_upsert_by)
  with Some show ?thesis by (simp add: upsert_by_def)
qed

lemma find_upsert_by:
  "distinct (map key xs) \<Longrightarrow>
     find (\<lambda>y. key y = k) (upsert_by key x xs) = (if key x = k then Some x else find (\<lambda>y. key y = k) xs)"
proof (induction xs)
  case (Cons y ys)
  have eq: "upsert_by key x (y # ys) = (if key y = key x then x # ys else y # upsert_by key x ys)"
    by (auto simp: upsert_by_def split: option.splits)
  show ?case
  proof (cases "key y = key x")
    case True
    with eq show ?thesis by simp
  next
    case False
    with eq Cons show ?thesis by auto
  qed
qed (simp add: upsert_by_def)

section \<open>The merge loop\<close>

text \<open>\<open>srcMap[key] = i\<close> for every element in order: the last index of the key.\<close>

fun last_index_by :: "('a \<Rightarrow> 'k) \<Rightarrow> 'a list \<Rightarrow> 'k \<Rightarrow> nat option" where
  "last_index_by key [] k = None"
| "last_index_by key (x # xs) k =
     (case last_index_by key xs k of
        Some i \<Rightarrow> Some (Suc i)
      | None \<Rightarrow> if key x = k then Some 0 else None)"

definition merge_step :: "('k \<Rightarrow> nat option) \<Rightarrow> ('a \<Rightarrow> 'k) \<Rightarrow> 'a \<Rightarrow> 'a list \<Rightarrow> 'a list" where
  "merge_step srcMap key v merged = (case srcMap (key v) of Some idx \<Rightarrow> merged[idx := v] | None \<Rightarrow> merged @ [v])"

definition merge_by :: "('a \<Rightarrow> 'k) \<Rightarrow> 'a list \<Rightarrow> 'a list \<Rightarrow> 'a list" where
  "merge_by key src dst =
     (if src = [] then dst else if dst = [] then src
      else fold (merge_step (last_index_by key src) key) dst src)"

definition MergeEnvVar :: "EnvVar list \<Rightarrow> EnvVar list \<Rightarrow> EnvVar list" where
  "MergeEnvVar src dst = merge_by ev_Name src dst"

definition MergeVolumeMount :: "VolumeMount list \<Rightarrow> VolumeMount list \<Rightarrow> VolumeMount list" where
  "MergeVolumeMount src dst = merge_by vm_MountPath src dst"

text \<open>Unnamed ports are never indexed and always appended.\<close>

definition MergeContainerPort :: "ContainerPort list \<Rightarrow> ContainerPort list \<Rightarrow> ContainerPort list" where
  "MergeContainerPort src dst =
     (if src = [] then dst else if dst = [] then src
      else fold (merge_step (\<lambda>n. if n = [] then None else last_index_by cp_Name src n) cp_Name) dst src)"

lemma last_index_by_distinct:
  "distinct (map key xs) \<Longrightarrow> last_index_by key xs k = index_by key xs k"
proof (induction xs)
  case (Cons x xs)
  then show ?case
    using index_by_None [of key xs k] by (cases "index_by key xs k") auto
qed simp

lemma last_index_by_None: "last_index_by key xs k = None \<longleftrightarrow> k \<notin> key ` set xs"
  by (induction xs) (auto split: option.splits)

lemma last_index_by_Some:
  "last_index_by key xs k = Some i \<Longrightarrow> i < length xs \<and> key (xs ! i) = k"
  by (induction xs arbitrary: i) (auto split: option.splits if_splits)

text \<open>With distinct keys on both sides the merge is a sequence of replace-or-append steps.\<close>

lemma index_by_append_Some:
  "index_by key xs k = Some i \<Longrightarrow> index_by key (xs @ ys) k = Some i"
  by (induction xs arbitrary: i) auto

lemma merge_fold_upsert:
  assumes "distinct (map key src)" "distinct (map key dst)"
    and "map key (take (length src) m) = map key src"
    and "\<forall>d \<in> set dst. key d \<notin> key ` set src \<longrightarrow> key d \<notin> key ` set m"
  shows "fold (merge_step (last_index_by key src) key) dst m = fold (upsert_by key) dst m"
  using assms(2-)
proof (induction dst arbitrary: m)
  case (Cons d ds)
  have step: "merge_step (last_index_by key src) key d m = upsert_by key d m"
  proof (cases "index_by key src (key d)")
    case None
    then have "key d \<notin> key ` set m" using Cons.prems by (auto simp: index_by_None)
    with None show ?thesis
      by (simp add: merge_step_def upsert_by_def last_index_by_distinct [OF assms(1)] index_by_None [symmetric])
  next
    case (Some i)
    then have "index_by key (take (length src) m @ drop (length src) m) (key d) = Some i"
      using Cons.prems(2) by (metis index_by_append_Some index_by_map)
    with Some show ?thesis
      by (simp add: merge_step_def upsert_by_def last_index_by_distinct [OF assms(1)])
  qed
  have len: "length src \<le> length m"
    using Cons.prems(2) by (metis length_map length_take min_def nat_le_linear)
  have pre: "map key (take (length src) (upsert_by key d m)) = map key src"
    using Cons.prems(2) len by (simp add: take_map [symmetric] map_key_upsert_by)
  have out: "\<forall>e \<in> set ds. key e \<notin> key ` set src \<longrightarrow> key e \<notin> key ` set (upsert_by key d m)"
  proof (intro ballI impI)
    fix e assume e: "e \<in> set ds" "key e \<notin> key ` set src"
    with Cons.prems(1) have "key e \<noteq> key d" by (auto simp: image_iff)
    moreover have "key e \<notin> key ` set m" using e Cons.prems(3) by simp
    ultimately have "key e \<noteq> key d" "key e \<notin> key ` set m" by simp_all
    then have "key e \<notin> set (map key (upsert_by key d m))" by (simp add: map_key_upsert_by)
    then show "key e \<notin> key ` set (upsert_by key d m)" by simp
  qed
  show ?case using Cons.IH [of "upsert_by key d m"] Cons.prems(1) pre out step by simp
qed simp

lemma upsert_fold_fresh:
  "distinct (map key ds) \<Longrightarrow> key ` set ds \<inter> key ` set xs = {} \<Longrightarrow> fold (upsert_by key) ds xs = xs @ ds"
proof (induction ds arbitrary: xs)
  case (Cons d ds)
  then have "index_by key xs (key d) = None" by (auto simp: index_by_None)
  with Cons show ?case by (auto simp: upsert_by_def)
qed simp

lemma merge_by_upsert:
  assumes "distinct (map key src)" "distinct (map key dst)"
  shows "merge_by key src dst = fold (upsert_by key) dst src"
  using assms merge_fold_upsert [OF assms, of src] upsert_fold_fresh [of key dst "[]"]
  by (auto simp: merge_by_def)

lemma distinct_fold_upsert:
  "distinct (map key xs) \<Longrightarrow> distinct (map key (fold (upsert_by key) ds xs))"
  by (induction ds arbitrary: xs) auto

lemma find_fold_upsert:
  assumes "distinct (map key xs)" "distinct (map key ds)"
  shows "find (\<lambda>y. key y = k) (fold (upsert_by key) ds xs) =
    (case find (\<lambda>y. key y = k) ds of Some d \<Rightarrow> Some d | None \<Rightarrow> find (\<lambda>y. key y = k) xs)"
  using assms
proof (induction ds arbitrary: xs)
  case (Cons d ds)
  have "key d = k \<Longrightarrow> find (\<lambda>y. key y = k) ds = None"
    using Cons.prems by (auto simp: find_None_iff image_iff)
  with Cons show ?case by (simp add: find_upsert_by split: option.splits)
qed simp

lemma merge_by_distinct:
  "distinct (map key src) \<Longrightarrow> distinct (map key dst) \<Longrightarrow> distinct (map key (merge_by key src dst))"
  by (simp add: merge_by_upsert distinct_fold_upsert)

lemma merge_by_find:
  "distinct (map key src) \<Longrightarrow> distinct (map key dst) \<Longrightarrow>
     find (\<lambda>y. key y = k) (merge_by key src dst) =
     (case find (\<lambda>y. key y = k) dst of Some d \<Rightarrow> Some d | None \<Rightarrow> find (\<lambda>y. key y = k) src)"
  by (simp add: merge_by_upsert find_fold_upsert)

section \<open>Labels\<close>

definition AppLabelInstance :: string where [key_defs]: "AppLabelInstance = ''app.kubernetes.io/instance''"
definition AppLabelComponent :: string where [key_defs]: "AppLabelComponent = ''app.kubernetes.io/component''"
definition AppLabelName :: string where [key_defs]: "AppLabelName = ''app.kubernetes.io/name''"
definition AppLabelManagedBy :: string where [key_defs]: "AppLabelManagedBy = ''app.kubernetes.io/managed-by''"
definition ManagerName :: string where [key_defs]: "ManagerName = ''milvus-operator''"

definition NewAppLabels :: "string \<Rightarrow> smap" where
  "NewAppLabels instance' = fmap_of_list
     [(AppLabelInstance, instance'), (AppLabelName, ''milvus''), (AppLabelManagedBy, ManagerName)]"

definition NewComponentAppLabels :: "string \<Rightarrow> string \<Rightarrow> smap" where
  "NewComponentAppLabels instance' component = fmap_of_list
     [(AppLabelInstance, instance'), (AppLabelComponent, component), (AppLabelName, ''milvus''),
      (AppLabelManagedBy, ManagerName)]"

definition NewServicePodLabels :: "string \<Rightarrow> smap" where
  "NewServicePodLabels instance' = fmupd ServiceLabel TrueStr (NewAppLabels instance')"

definition MergeLabels :: "smap list \<Rightarrow> smap" where
  "MergeLabels allLabels = fold (\<lambda>label lb. lb ++\<^sub>f label) allLabels fmempty"

definition MergeAnnotations :: "smap list \<Rightarrow> smap" where
  "MergeAnnotations = MergeLabels"

lemma MergeLabels_snoc [simp]: "MergeLabels (ls @ [l]) = MergeLabels ls ++\<^sub>f l"
  by (simp add: MergeLabels_def)

lemma MergeLabels_simps [simp]:
  "MergeLabels [] = fmempty" "MergeLabels [a] = a" "MergeLabels [a, b] = a ++\<^sub>f b"
  by (simp_all add: MergeLabels_def)

text \<open>The last map that has the key decides.\<close>

lemma MergeLabels_lookup:
  "fmlookup (MergeLabels ls) k = (case find (\<lambda>l. k |\<in>| fmdom l) (rev ls) of None \<Rightarrow> None | Some l \<Rightarrow> fmlookup l k)"
proof (induction ls rule: rev_induct)
  case (snoc l ls)
  then show ?case by (simp split: option.splits)
qed simp

section \<open>Readiness\<close>

definition DeploymentReady :: "DeploymentStatus \<Rightarrow> bool" where
  "DeploymentReady status =
     (case find (\<lambda>c. dc_Type c = ''Available'') (dst_Conditions status) of
        None \<Rightarrow> False | Some c \<Rightarrow> dc_Status c = ConditionTrue)"

definition PodReady :: "Pod \<Rightarrow> bool" where
  "PodReady pod =
     (case find (\<lambda>c. pc_Type c = ''Ready'') (pod_Conditions pod) of
        None \<Rightarrow> False | Some c \<Rightarrow> pc_Status c = ConditionTrue)"

definition GetConditionStatus :: "bool \<Rightarrow> ConditionStatus" where
  "GetConditionStatus b = (if b then ConditionTrue else ConditionFalse)"

definition is_dependency_type :: "MilvusConditionType \<Rightarrow> bool" where
  "is_dependency_type t \<longleftrightarrow> t = EtcdReady \<or> t = StorageReady \<or> t = MsgStreamReady"

definition IsDependencyReady :: "MilvusCondition list \<Rightarrow> bool" where
  "IsDependencyReady conditions \<longleftrightarrow>
     length (filter (\<lambda>c. mcd_Status c = ConditionTrue \<and> is_dependency_type (mcd_Type c)) conditions) = 3"

definition GetNotReadyDependencyConditions ::
  "MilvusCondition list \<Rightarrow> (MilvusConditionType, MilvusCondition option) fmap" where
  "GetNotReadyDependencyConditions conditions =
     fold (\<lambda>iter ret. if is_dependency_type (mcd_Type iter)
                      then (if mcd_Status iter = ConditionTrue then fmdrop (mcd_Type iter) ret
                            else fmupd (mcd_Type iter) (Some iter) ret)
                      else ret)
       conditions (fmap_of_list [(EtcdReady, None), (StorageReady, None), (MsgStreamReady, None)])"

section \<open>The condition list\<close>

definition RemoveConditions :: "MilvusConditionType list \<Rightarrow> MilvusStatus \<Rightarrow> MilvusStatus" where
  "RemoveConditions typesToRemove status =
     status\<lparr>mst_Conditions := filter (\<lambda>c. mcd_Type c \<notin> set typesToRemove) (mst_Conditions status)\<rparr>"

fun update_first_condition :: "int \<Rightarrow> MilvusCondition \<Rightarrow> MilvusCondition list \<Rightarrow> MilvusCondition list option" where
  "update_first_condition now c [] = None"
| "update_first_condition now c (cp # cps) =
     (if mcd_Type cp = mcd_Type c then
        Some ((if mcd_Status cp \<noteq> mcd_Status c \<or> mcd_Reason cp \<noteq> mcd_Reason c \<or> mcd_Message cp \<noteq> mcd_Message c
               then cp\<lparr>mcd_Status := mcd_Status c, mcd_Message := mcd_Message c, mcd_Reason := mcd_Reason c,
                       mcd_LastTransitionTime := Some now\<rparr>
               else cp) # cps)
      else map_option ((#) cp) (update_first_condition now c cps))"

definition UpdateCondition :: "int \<Rightarrow> MilvusCondition \<Rightarrow> MilvusStatus \<Rightarrow> MilvusStatus" where
  "UpdateCondition now c status =
     (let validConditions = filter (\<lambda>cd. mcd_Type cd \<noteq> CondTypeEmpty) (mst_Conditions status) in
      if mcd_Type c = CondTypeEmpty then status\<lparr>mst_Conditions := validConditions\<rparr>
      else (case update_first_condition now c validConditions of
              Some cs \<Rightarrow> status\<lparr>mst_Conditions := cs\<rparr>
            | None \<Rightarrow> status\<lparr>mst_Conditions := validConditions @ [c\<lparr>mcd_LastTransitionTime := Some now\<rparr>]\<rparr>))"

lemma update_first_None: "update_first_condition now c cs = None \<longleftrightarrow> mcd_Type c \<notin> mcd_Type ` set cs"
  by (induction cs) auto

lemma update_first_types:
  "update_first_condition now c cs = Some ds \<Longrightarrow> map mcd_Type ds = map mcd_Type cs"
  by (induction cs arbitrary: ds) (auto split: if_splits)

lemma update_first_find:
  "update_first_condition now c cs = Some ds \<Longrightarrow>
     find (\<lambda>d. mcd_Type d = t) ds =
       (if t = mcd_Type c
        then Some (let cp = the (find (\<lambda>d. mcd_Type d = t) cs) in
               (if mcd_Status cp \<noteq> mcd_Status c \<or> mcd_Reason cp \<noteq> mcd_Reason c \<or> mcd_Message cp \<noteq> mcd_Message c
               then cp\<lparr>mcd_Status := mcd_Status c, mcd_Message := mcd_Message c, mcd_Reason := mcd_Reason c,
                       mcd_LastTransitionTime := Some now\<rparr>
               else cp))
        else find (\<lambda>d. mcd_Type d = t) cs)"
  by (induction cs arbitrary: ds) (auto simp: Let_def split: if_splits)

lemma update_first_idem:
  "update_first_condition now c cs = Some ds \<Longrightarrow> update_first_condition now' c ds = Some ds"
  by (induction cs arbitrary: ds) (auto split: if_splits)

lemma update_first_append_new:
  "mcd_Type c \<notin> mcd_Type ` set cs \<Longrightarrow>
     update_first_condition now' c (cs @ [c\<lparr>mcd_LastTransitionTime := t\<rparr>]) = Some (cs @ [c\<lparr>mcd_LastTransitionTime := t\<rparr>])"
  by (induction cs) auto

section \<open>Replica values\<close>

definition getDeployReplicas :: "Deployment \<Rightarrow> int" where
  "getDeployReplicas deploy = (case d_Replicas deploy of None \<Rightarrow> 1 | Some r \<Rightarrow> r)"

definition ReplicasValue :: "int option \<Rightarrow> int" where
  "ReplicasValue i = (case i of None \<Rightarrow> 1 | Some r \<Rightarrow> r)"

definition int32Ptr :: "int \<Rightarrow> int option" where
  "int32Ptr i = Some (to_int32 i)"

lemma ReplicasValue_simps [simp]: "ReplicasValue None = 1" "ReplicasValue (Some r) = r"
  by (simp_all add: ReplicasValue_def)

section \<open>Reading the configuration\<close>

text \<open>\<open>unstructured.NestedFieldNoCopy\<close>: \<open>None\<close> when a key is missing or an inner value is not a map.\<close>

fun nested_field :: "json \<Rightarrow> string list \<Rightarrow> json option" where
  "nested_field v [] = Some v"
| "nested_field (JObj m) (f # fs) = (case fmlookup m f of None \<Rightarrow> None | Some v \<Rightarrow> nested_field v fs)"
| "nested_field _ (f # fs) = None"

definition GetBoolValue :: "values_map \<Rightarrow> string list \<Rightarrow> bool \<times> bool" where
  "GetBoolValue vs fs = (case nested_field (JObj vs) fs of Some (JBool b) \<Rightarrow> (b, True) | _ \<Rightarrow> (False, False))"

definition GetStringValue :: "values_map \<Rightarrow> string list \<Rightarrow> string \<times> bool" where
  "GetStringValue vs fs = (case nested_field (JObj vs) fs of Some (JStr s) \<Rightarrow> (s, True) | _ \<Rightarrow> ([], False))"

definition GetMinioUseIAM :: "values_map \<Rightarrow> bool" where
  "GetMinioUseIAM conf = (let (val, exist) = GetBoolValue conf [''minio'', ''useIAM''] in if exist then val else False)"

definition GetMinioSecure :: "values_map \<Rightarrow> bool" where
  "GetMinioSecure conf = (let (usessl, exist) = GetBoolValue conf [''minio'', ''useSSL''] in if exist then usessl else False)"

definition GetStringValueWithDefault :: "values_map \<Rightarrow> string \<Rightarrow> string list \<Rightarrow> string" where
  "GetStringValueWithDefault conf defaultVal fs =
     (let (val, exist) = GetStringValue conf fs in if exist then val else defaultVal)"

definition GetMinioBucket :: "values_map \<Rightarrow> string" where
  "GetMinioBucket conf = GetStringValueWithDefault conf ''milvus-bucket'' [''minio'', ''bucketName'']"

definition ShouldUseVirtualHost :: "values_map \<Rightarrow> bool" where
  "ShouldUseVirtualHost conf =
     (let (useVirtualHost, exist) = GetBoolValue conf [''minio'', ''useVirtualHost''] in
      if exist \<and> useVirtualHost then True
      else (let (cloudProvider, exists) = GetStringValue conf [''minio'', ''cloudProvider''] in
            exists \<and> cloudProvider \<noteq> ''aws''))"

end
