(* ===== verification/Components.thy ===== *)
theory Components
  imports Merge_Util
begin

text \<open>
  pkg/controllers/components.go and dependency_graph.go: the Milvus components, which of them a
  spec runs, their workloads (one per deployment group), names, labels, replicas and HPA, the
  image-update dependency graphs, and the merge of global, component and group settings.
  The reflection of the source (\<open>FieldByName(c.FieldName)\<close>) is the function \<open>com_field\<close>.
\<close>

section \<open>Components\<close>

record MilvusComponent =
  mcp_Name :: string
  mcp_FieldName :: string
  mcp_DefaultPort :: int
  mcp_DeploymentGroup :: "DeploymentGroup option"

definition mk_component :: "string \<Rightarrow> string \<Rightarrow> int \<Rightarrow> MilvusComponent" where
  "mk_component name fieldName port =
     \<lparr>mcp_Name = name, mcp_FieldName = fieldName, mcp_DefaultPort = port, mcp_DeploymentGroup = None\<rparr>"

definition MixCoord :: MilvusComponent where [key_defs]: "MixCoord = mk_component ''mixcoord'' ''MixCoord'' (-1)"
definition RootCoord :: MilvusComponent where [key_defs]: "RootCoord = mk_component ''rootcoord'' ''RootCoord'' 53100"
definition DataCoord :: MilvusComponent where [key_defs]: "DataCoord = mk_component ''datacoord'' ''DataCoord'' 13333"
definition QueryCoord :: MilvusComponent where [key_defs]: "QueryCoord = mk_component ''querycoord'' ''QueryCoord'' 19531"
definition IndexCoord :: MilvusComponent where [key_defs]: "IndexCoord = mk_component ''indexcoord'' ''IndexCoord'' 31000"
definition DataNode :: MilvusComponent where [key_defs]: "DataNode = mk_component ''datanode'' ''DataNode'' 21124"
definition QueryNode :: MilvusComponent where [key_defs]: "QueryNode = mk_component ''querynode'' ''QueryNode'' 21123"
definition IndexNode :: MilvusComponent where [key_defs]: "IndexNode = mk_component ''indexnode'' ''IndexNode'' 21121"
definition StreamingNode :: MilvusComponent where [key_defs]: "StreamingNode = mk_component ''streamingnode'' ''StreamingNode'' 22222"
definition Proxy :: MilvusComponent where [key_defs]: "Proxy = mk_component ''proxy'' ''Proxy'' 19530"
definition Cdc :: MilvusComponent where [key_defs]: "Cdc = mk_component ''cdc'' ''Cdc'' 0"
definition MilvusStandalone :: MilvusComponent where [key_defs]: "MilvusStandalone = mk_component ''standalone'' ''Standalone'' 19530"

definition MixtureComponents :: "MilvusComponent list" where
  "MixtureComponents = [MixCoord, DataNode, QueryNode, IndexNode, Proxy, MilvusStandalone]"

definition MilvusComponents_list :: "MilvusComponent list" where
  "MilvusComponents_list = [RootCoord, DataCoord, QueryCoord, IndexCoord, DataNode, QueryNode, IndexNode, Proxy, MilvusStandalone]"

definition StandaloneComponents :: "MilvusComponent list" where
  "StandaloneComponents = [MilvusStandalone]"

definition MilvusCoords :: "MilvusComponent list" where
  "MilvusCoords = [RootCoord, DataCoord, QueryCoord, IndexCoord]"

definition Milvus2_6Components :: "MilvusComponent list" where
  "Milvus2_6Components = [MixCoord, DataNode, StreamingNode, QueryNode, Proxy, MilvusStandalone]"

definition coordConfigFieldName :: "(string \<times> string) list" where
  "coordConfigFieldName = [(''rootcoord'', ''rootCoord''), (''datacoord'', ''dataCoord''),
     (''indexcoord'', ''indexCoord''), (''querycoord'', ''queryCoord'')]"

definition MetricPort :: int where "MetricPort = 9091"

section \<open>Selection\<close>

definition GetComponentsBySpec :: "externals \<Rightarrow> MilvusSpec \<Rightarrow> MilvusComponent list" where
  "GetComponentsBySpec x spec =
     (let ret = (if UseCdc spec then [Cdc] else []) in
      if ms_Mode spec \<noteq> MilvusModeCluster then ret @ StandaloneComponents
      else if IsVersionGreaterThan2_6 x spec then ret @ Milvus2_6Components
      else (let ret = ret @ (if UseMixCoord spec then MixtureComponents else MilvusComponents_list) in
            if UseStreamingNode x spec then ret @ [StreamingNode] else ret))"

definition Is :: "MilvusComponent \<Rightarrow> MilvusComponent \<Rightarrow> bool" where
  "Is c component \<longleftrightarrow> mcp_Name c = mcp_Name component"

definition IsMilvusDeploymentsComplete :: "externals \<Rightarrow> Milvus \<Rightarrow> bool" where
  "IsMilvusDeploymentsComplete x m =
     list_all (\<lambda>c. (case fmlookup (mst_ComponentsDeployStatus (m_Status m)) (mcp_Name c) of
                      None \<Rightarrow> False
                    | Some s \<Rightarrow> GetState s = DeploymentComplete))
       (GetComponentsBySpec x (m_Spec m))"

definition IsIdleClusterStandalone :: "MilvusSpec \<Rightarrow> MilvusComponent \<Rightarrow> bool" where
  "IsIdleClusterStandalone spec c =
     (if \<not> Is c MilvusStandalone \<or> ms_Mode spec \<noteq> MilvusModeCluster then False
      else (case com_Standalone (ms_Com spec) of
              None \<Rightarrow> True
            | Some standalone \<Rightarrow>
                if co_HPA standalone \<noteq> None then False
                else co_Replicas standalone = None \<or> co_Replicas standalone = Some 0))"

definition containsComponent :: "MilvusComponent list \<Rightarrow> string \<Rightarrow> bool" where
  "containsComponent components name = list_ex (\<lambda>c. mcp_Name c = name) components"

definition GetDeploymentGroups :: "MilvusComponent \<Rightarrow> MilvusSpec \<Rightarrow> DeploymentGroup list" where
  "GetDeploymentGroups c spec =
     (let com = ms_Com spec in
      if mcp_Name c = ''proxy'' then (case com_Proxy com of None \<Rightarrow> [] | Some p \<Rightarrow> px_Groups p)
      else if mcp_Name c = ''datanode'' then (case com_DataNode com of None \<Rightarrow> [] | Some p \<Rightarrow> dn_Groups p)
      else if mcp_Name c = ''querynode'' then (case com_QueryNode com of None \<Rightarrow> [] | Some p \<Rightarrow> qn_Groups p)
      else if mcp_Name c = ''streamingnode'' then (case com_StreamingNode com of None \<Rightarrow> [] | Some p \<Rightarrow> sn_Groups p)
      else [])"

definition component_workloads :: "MilvusSpec \<Rightarrow> MilvusComponent \<Rightarrow> MilvusComponent list" where
  "component_workloads spec c =
     (let groups = GetDeploymentGroups c spec in
      if groups = [] then [c]
      else map (\<lambda>g. c\<lparr>mcp_DeploymentGroup := Some g\<rparr>) (sort_key dg_Name groups))"

definition GetComponentWorkloadsBySpec :: "externals \<Rightarrow> MilvusSpec \<Rightarrow> MilvusComponent list" where
  "GetComponentWorkloadsBySpec x spec = concat (map (component_workloads spec) (GetComponentsBySpec x spec))"

section \<open>Identity, names and labels\<close>

definition GetDeploymentGroupName :: "MilvusComponent \<Rightarrow> string" where
  "GetDeploymentGroupName c = (case mcp_DeploymentGroup c of None \<Rightarrow> [] | Some g \<Rightarrow> dg_Name g)"

text \<open>\<open>x_sha256\<close> is the hexadecimal digest, so the first 8 bytes are its first 16 digits.\<close>

definition GetStateKey :: "externals \<Rightarrow> MilvusComponent \<Rightarrow> string" where
  "GetStateKey x c =
     (case mcp_DeploymentGroup c of
        None \<Rightarrow> mcp_Name c
      | Some g \<Rightarrow> mcp_Name c @ ''-'' @ take 16 (x_sha256 x (dg_Name g)))"

definition GetDisplayName :: "MilvusComponent \<Rightarrow> string" where
  "GetDisplayName c =
     (case mcp_DeploymentGroup c of None \<Rightarrow> mcp_Name c | Some g \<Rightarrow> mcp_Name c @ ''/'' @ dg_Name g)"

definition GetSelectorLabels :: "MilvusComponent \<Rightarrow> string \<Rightarrow> smap" where
  "GetSelectorLabels c instance' =
     (let labels = NewComponentAppLabels instance' (mcp_Name c) in
      case mcp_DeploymentGroup c of None \<Rightarrow> labels | Some g \<Rightarrow> fmupd DeploymentGroupLabel (dg_Name g) labels)"

definition MatchesDeploymentGroup :: "MilvusComponent \<Rightarrow> smap \<Rightarrow> bool" where
  "MatchesDeploymentGroup c objLabels \<longleftrightarrow> fmget objLabels DeploymentGroupLabel = GetDeploymentGroupName c"

definition IsCoord :: "MilvusComponent \<Rightarrow> bool" where
  "IsCoord c \<longleftrightarrow> mcp_Name c = ''mixcoord'' \<or> has_suffix (mcp_Name c) ''coord''"

definition IsStandalone :: "MilvusComponent \<Rightarrow> bool" where
  "IsStandalone c \<longleftrightarrow> mcp_Name c = ''standalone''"

definition IsNode :: "MilvusComponent \<Rightarrow> bool" where
  "IsNode c \<longleftrightarrow> has_suffix (mcp_Name c) ''node''"

definition GetDeploymentName :: "MilvusComponent \<Rightarrow> string \<Rightarrow> string" where
  "GetDeploymentName c instance' =
     (let name = instance' @ ''-milvus-'' @ mcp_Name c in
      case mcp_DeploymentGroup c of None \<Rightarrow> name | Some g \<Rightarrow> name @ ''-'' @ dg_Name g)"

definition GetServiceInstanceName :: "string \<Rightarrow> string" where
  "GetServiceInstanceName instance' = instance' @ ''-milvus''"

definition GetHPAName :: "MilvusComponent \<Rightarrow> string \<Rightarrow> string" where
  "GetHPAName c instanceName = instanceName @ ''-milvus-'' @ mcp_Name c @ ''-hpa''"

definition GetPortName :: "MilvusComponent \<Rightarrow> string" where
  "GetPortName c = (if mcp_Name c = ''standalone'' \<or> mcp_Name c = ''proxy'' then ''milvus'' else mcp_Name c)"

definition IsService :: "MilvusComponent \<Rightarrow> bool" where
  "IsService c \<longleftrightarrow> Is c Proxy \<or> Is c MilvusStandalone"

definition mixtureRunCommands :: "string list" where
  "mixtureRunCommands = [''mixture'', ''-rootcoord'', ''-querycoord'', ''-datacoord'', ''-indexcoord'']"

definition GetRunCommands :: "MilvusComponent \<Rightarrow> string list" where
  "GetRunCommands c = (if mcp_Name c = ''mixcoord'' then mixtureRunCommands else [mcp_Name c])"

section \<open>Reflective access to the spec\<close>

definition com_field :: "string \<Rightarrow> MilvusComponents \<Rightarrow> Component option" where
  "com_field f com =
     (if f = ''Proxy'' then map_option Component.truncate (com_Proxy com)
      else if f = ''MixCoord'' then com_MixCoord com
      else if f = ''RootCoord'' then com_RootCoord com
      else if f = ''IndexCoord'' then com_IndexCoord com
      else if f = ''DataCoord'' then com_DataCoord com
      else if f = ''QueryCoord'' then com_QueryCoord com
      else if f = ''IndexNode'' then map_option Component.truncate (com_IndexNode com)
      else if f = ''DataNode'' then map_option Component.truncate (com_DataNode com)
      else if f = ''QueryNode'' then map_option Component.truncate (com_QueryNode com)
      else if f = ''StreamingNode'' then map_option Component.truncate (com_StreamingNode com)
      else if f = ''Standalone'' then map_option Component.truncate (com_Standalone com)
      else if f = ''Cdc'' then com_Cdc com
      else None)"

definition GetReplicas :: "MilvusComponent \<Rightarrow> MilvusSpec \<Rightarrow> int option" where
  "GetReplicas c spec =
     (case mcp_DeploymentGroup c of
        Some g \<Rightarrow> dg_Replicas g
      | None \<Rightarrow> (case com_field (mcp_FieldName c) (ms_Com spec) of
                   None \<Rightarrow> int32Ptr 1
                 | Some co \<Rightarrow> co_Replicas co))"

definition GetLeastReplicasRegardingHPA :: "MilvusComponent \<Rightarrow> MilvusSpec \<Rightarrow> int" where
  "GetLeastReplicasRegardingHPA c spec =
     (let replicas = ReplicasValue (GetReplicas c spec) in if replicas < 0 then 1 else replicas)"

definition GetHPASpec :: "MilvusComponent \<Rightarrow> MilvusSpec \<Rightarrow> HPASpec option" where
  "GetHPASpec c spec =
     (case com_field (mcp_FieldName c) (ms_Com spec) of None \<Rightarrow> None | Some co \<Rightarrow> co_HPA co)"

definition IsHPAEnabled :: "MilvusComponent \<Rightarrow> MilvusSpec \<Rightarrow> bool" where
  "IsHPAEnabled c spec \<longleftrightarrow> GetHPASpec c spec \<noteq> None"

text \<open>\<open>None\<close> is the panic of reflecting on a nil component.\<close>

definition GetComponentSpec :: "MilvusComponent \<Rightarrow> MilvusSpec \<Rightarrow> ComponentSpec option" where
  "GetComponentSpec c spec = map_option ComponentSpec.truncate (com_field (mcp_FieldName c) (ms_Com spec))"

definition HasCoordsSpec :: "Milvus \<Rightarrow> bool" where
  "HasCoordsSpec m \<longleftrightarrow>
     com_DataCoord (ms_Com (m_Spec m)) \<noteq> None \<or> com_QueryCoord (ms_Com (m_Spec m)) \<noteq> None \<or>
     com_IndexCoord (ms_Com (m_Spec m)) \<noteq> None \<or> com_RootCoord (ms_Com (m_Spec m)) \<noteq> None"

definition SetCoordsNil :: "Milvus \<Rightarrow> Milvus" where
  "SetCoordsNil m = m\<lparr>m_Spec := (m_Spec m)\<lparr>ms_Com := (ms_Com (m_Spec m))
     \<lparr>com_DataCoord := None, com_QueryCoord := None, com_IndexCoord := None, com_RootCoord := None\<rparr>\<rparr>\<rparr>"

section \<open>Setting replicas\<close>

text \<open>\<open>SetReplicas\<close> writes through the component pointer of the spec; here the updated spec is
  returned.  The group branch changes the first group with the name and fails for a component
  that has no \<open>Groups\<close> field or no such group.\<close>

definition set_group_replicas :: "string \<Rightarrow> int option \<Rightarrow> DeploymentGroup list \<Rightarrow> DeploymentGroup list option" where
  "set_group_replicas name replicas groups =
     (case index_by dg_Name groups name of
        None \<Rightarrow> None
      | Some i \<Rightarrow> Some (groups[i := (groups ! i)\<lparr>dg_Replicas := replicas\<rparr>]))"

definition com_groups :: "string \<Rightarrow> MilvusComponents \<Rightarrow> DeploymentGroup list option" where
  "com_groups f com =
     (if f = ''Proxy'' then map_option px_Groups (com_Proxy com)
      else if f = ''DataNode'' then map_option dn_Groups (com_DataNode com)
      else if f = ''QueryNode'' then map_option qn_Groups (com_QueryNode com)
      else if f = ''StreamingNode'' then map_option sn_Groups (com_StreamingNode com)
      else None)"

definition com_set_groups :: "string \<Rightarrow> DeploymentGroup list \<Rightarrow> MilvusComponents \<Rightarrow> MilvusComponents" where
  "com_set_groups f gs com =
     (if f = ''Proxy'' then com\<lparr>com_Proxy := map_option (\<lambda>c. c\<lparr>px_Groups := gs\<rparr>) (com_Proxy com)\<rparr>
      else if f = ''DataNode'' then com\<lparr>com_DataNode := map_option (\<lambda>c. c\<lparr>dn_Groups := gs\<rparr>) (com_DataNode com)\<rparr>
      else if f = ''QueryNode'' then com\<lparr>com_QueryNode := map_option (\<lambda>c. c\<lparr>qn_Groups := gs\<rparr>) (com_QueryNode com)\<rparr>
      else if f = ''StreamingNode'' then com\<lparr>com_StreamingNode := map_option (\<lambda>c. c\<lparr>sn_Groups := gs\<rparr>) (com_StreamingNode com)\<rparr>
      else com)"

definition com_set_replicas :: "string \<Rightarrow> int option \<Rightarrow> MilvusComponents \<Rightarrow> MilvusComponents" where
  "com_set_replicas f r com =
     (if f = ''Proxy'' then com\<lparr>com_Proxy := map_option (\<lambda>c. c\<lparr>co_Replicas := r\<rparr>) (com_Proxy com)\<rparr>
      else if f = ''MixCoord'' then com\<lparr>com_MixCoord := map_option (\<lambda>c. c\<lparr>co_Replicas := r\<rparr>) (com_MixCoord com)\<rparr>
      else if f = ''RootCoord'' then com\<lparr>com_RootCoord := map_option (\<lambda>c. c\<lparr>co_Replicas := r\<rparr>) (com_RootCoord com)\<rparr>
      else if f = ''IndexCoord'' then com\<lparr>com_IndexCoord := map_option (\<lambda>c. c\<lparr>co_Replicas := r\<rparr>) (com_IndexCoord com)\<rparr>
      else if f = ''DataCoord'' then com\<lparr>com_DataCoord := map_option (\<lambda>c. c\<lparr>co_Replicas := r\<rparr>) (com_DataCoord com)\<rparr>
      else if f = ''QueryCoord'' then com\<lparr>com_QueryCoord := map_option (\<lambda>c. c\<lparr>co_Replicas := r\<rparr>) (com_QueryCoord com)\<rparr>
      else if f = ''IndexNode'' then com\<lparr>com_IndexNode := map_option (\<lambda>c. c\<lparr>co_Replicas := r\<rparr>) (com_IndexNode com)\<rparr>
      else if f = ''DataNode'' then com\<lparr>com_DataNode := map_option (\<lambda>c. c\<lparr>co_Replicas := r\<rparr>) (com_DataNode com)\<rparr>
      else if f = ''QueryNode'' then com\<lparr>com_QueryNode := map_option (\<lambda>c. c\<lparr>co_Replicas := r\<rparr>) (com_QueryNode com)\<rparr>
      else if f = ''StreamingNode'' then com\<lparr>com_StreamingNode := map_option (\<lambda>c. c\<lparr>co_Replicas := r\<rparr>) (com_StreamingNode com)\<rparr>
      else if f = ''Standalone'' then com\<lparr>com_Standalone := map_option (\<lambda>c. c\<lparr>co_Replicas := r\<rparr>) (com_Standalone com)\<rparr>
      else if f = ''Cdc'' then com\<lparr>com_Cdc := map_option (\<lambda>c. c\<lparr>co_Replicas := r\<rparr>) (com_Cdc com)\<rparr>
      else com)"

definition SetReplicas :: "MilvusComponent \<Rightarrow> int option \<Rightarrow> MilvusSpec \<Rightarrow> go_error + MilvusSpec" where
  "SetReplicas c replicas spec =
     (if com_field (mcp_FieldName c) (ms_Com spec) = None
      then Inl (Errorf (''component '' @ mcp_Name c @ '' is nil''))
      else case mcp_DeploymentGroup c of
        Some g \<Rightarrow>
          (case com_groups (mcp_FieldName c) (ms_Com spec) of
             None \<Rightarrow> Inl (Errorf (''component '' @ mcp_Name c @ '' does not support deployment groups''))
           | Some groups \<Rightarrow>
               (case set_group_replicas (dg_Name g) replicas groups of
                  None \<Rightarrow> Inl (Errorf (''deployment group '' @ mcp_Name c @ ''/'' @ dg_Name g @ '' not found''))
                | Some groups' \<Rightarrow> Inr (spec\<lparr>ms_Com := com_set_groups (mcp_FieldName c) groups' (ms_Com spec)\<rparr>)))
      | None \<Rightarrow> Inr (spec\<lparr>ms_Com := com_set_replicas (mcp_FieldName c) replicas (ms_Com spec)\<rparr>))"

definition SetStatusReplicas :: "MilvusComponent \<Rightarrow> int \<Rightarrow> MilvusReplicas \<Rightarrow> MilvusReplicas" where
  "SetStatusReplicas c n st =
     (let f = mcp_FieldName c in
      if f = ''Proxy'' then st\<lparr>mr_Proxy := n\<rparr>
      else if f = ''MixCoord'' then st\<lparr>mr_MixCoord := n\<rparr>
      else if f = ''RootCoord'' then st\<lparr>mr_RootCoord := n\<rparr>
      else if f = ''DataCoord'' then st\<lparr>mr_DataCoord := n\<rparr>
      else if f = ''IndexCoord'' then st\<lparr>mr_IndexCoord := n\<rparr>
      else if f = ''QueryCoord'' then st\<lparr>mr_QueryCoord := n\<rparr>
      else if f = ''DataNode'' then st\<lparr>mr_DataNode := n\<rparr>
      else if f = ''IndexNode'' then st\<lparr>mr_IndexNode := n\<rparr>
      else if f = ''QueryNode'' then st\<lparr>mr_QueryNode := n\<rparr>
      else if f = ''StreamingNode'' then st\<lparr>mr_StreamingNode := n\<rparr>
      else if f = ''Standalone'' then st\<lparr>mr_Standalone := n\<rparr>
      else if f = ''Cdc'' then st\<lparr>mr_Cdc := n\<rparr>
      else st)"

definition GetMilvusReplicas :: "MilvusComponent \<Rightarrow> MilvusReplicas \<Rightarrow> int" where
  "GetMilvusReplicas c st =
     (let f = mcp_FieldName c in
      if f = ''Proxy'' then mr_Proxy st
      else if f = ''MixCoord'' then mr_MixCoord st
      else if f = ''RootCoord'' then mr_RootCoord st
      else if f = ''DataCoord'' then mr_DataCoord st
      else if f = ''IndexCoord'' then mr_IndexCoord st
      else if f = ''QueryCoord'' then mr_QueryCoord st
      else if f = ''DataNode'' then mr_DataNode st
      else if f = ''IndexNode'' then mr_IndexNode st
      else if f = ''QueryNode'' then mr_QueryNode st
      else if f = ''StreamingNode'' then mr_StreamingNode st
      else if f = ''Standalone'' then mr_Standalone st
      else if f = ''Cdc'' then mr_Cdc st
      else 0)"

section \<open>Ports and services\<close>

definition GetComponentPort :: "MilvusComponent \<Rightarrow> MilvusSpec \<Rightarrow> int option" where
  "GetComponentPort c spec =
     (if Is c Proxy \<or> Is c MilvusStandalone
      then (case GetServiceComponent spec of
              None \<Rightarrow> None
            | Some s \<Rightarrow> Some (if sv_Port s > 0 then sv_Port s else mcp_DefaultPort c))
      else Some (mcp_DefaultPort c))"

definition GetRestfulPort :: "MilvusComponent \<Rightarrow> MilvusSpec \<Rightarrow> int option" where
  "GetRestfulPort c spec =
     (if Is c Proxy \<or> Is c MilvusStandalone
      then map_option sv_ServiceRestfulPort (GetServiceComponent spec) else Some 0)"

definition GetServiceType :: "MilvusComponent \<Rightarrow> MilvusSpec \<Rightarrow> string option" where
  "GetServiceType c spec =
     (if Is c Proxy \<or> Is c MilvusStandalone
      then map_option sv_ServiceType (GetServiceComponent spec) else Some ''ClusterIP'')"

definition fillContainerDefaultValues :: "Container \<Rightarrow> Container" where
  "fillContainerDefaultValues c =
     c\<lparr>ct_Ports := map (\<lambda>p. if cp_Protocol p = [] then p\<lparr>cp_Protocol := ''TCP''\<rparr> else p) (ct_Ports c),
       ct_ImagePullPolicy := (if ct_ImagePullPolicy c = [] then ''IfNotPresent'' else ct_ImagePullPolicy c),
       ct_TerminationMessagePath := (if ct_TerminationMessagePath c = [] then ''/dev/termination-log'' else ct_TerminationMessagePath c),
       ct_TerminationMessagePolicy := (if ct_TerminationMessagePolicy c = [] then ''File'' else ct_TerminationMessagePolicy c)\<rparr>"

fun decode_all :: "('a \<Rightarrow> 'b option) \<Rightarrow> 'a list \<Rightarrow> 'b list option" where
  "decode_all f [] = Some []"
| "decode_all f (v # vs) = do { b \<leftarrow> f v; bs \<leftarrow> decode_all f vs; Some (b # bs) }"

definition GetSideCars :: "externals \<Rightarrow> MilvusComponent \<Rightarrow> MilvusSpec \<Rightarrow> Container list option" where
  "GetSideCars x c spec =
     (case com_field (mcp_FieldName c) (ms_Com spec) of
        None \<Rightarrow> Some []
      | Some co \<Rightarrow> decode_all (\<lambda>v. map_option fillContainerDefaultValues (x_asContainer x v)) (co_SideCars co))"

definition GetInitContainers :: "externals \<Rightarrow> MilvusComponent \<Rightarrow> MilvusSpec \<Rightarrow> Container list" where
  "GetInitContainers x c spec =
     (case com_field (mcp_FieldName c) (ms_Com spec) of
        None \<Rightarrow> []
      | Some co \<Rightarrow> List.map_filter (x_asContainer x) (co_InitContainers co))"

record ServicePort =
  sp_Name :: string
  sp_Protocol :: string
  sp_Port :: int
  sp_TargetPort :: IntOrString
  sp_NodePort :: int

definition mk_ServicePort :: "string \<Rightarrow> string \<Rightarrow> int \<Rightarrow> IntOrString \<Rightarrow> ServicePort" where
  "mk_ServicePort n pr p t = \<lparr>sp_Name = n, sp_Protocol = pr, sp_Port = p, sp_TargetPort = t, sp_NodePort = 0\<rparr>"

text \<open>The variable \<open>targetPort\<close> of the loop over sidecar ports keeps its previous value for an
  unnamed port.\<close>

definition sidecar_port_step :: "bool \<Rightarrow> ContainerPort \<Rightarrow> IntOrString \<times> ServicePort list \<Rightarrow> IntOrString \<times> ServicePort list" where
  "sidecar_port_step useInt port acc =
     (let (targetPort, servicePorts) = acc;
          targetPort = (if cp_Name port \<noteq> [] then StrVal (cp_Name port) else targetPort);
          targetPort = (if useInt then IntVal (cp_ContainerPort port) else targetPort)
      in (targetPort, servicePorts @ [mk_ServicePort (cp_Name port) (cp_Protocol port) (cp_ContainerPort port) targetPort]))"

definition GetServicePorts :: "externals \<Rightarrow> MilvusComponent \<Rightarrow> MilvusSpec \<Rightarrow> ServicePort list option" where
  "GetServicePorts x c spec = do {
     port \<leftarrow> GetComponentPort c spec;
     sideCars \<leftarrow> GetSideCars x c spec;
     restfulPort \<leftarrow> GetRestfulPort c spec;
     let useInt = com_TargetPortTypeInteger (ms_Com spec);
     let main = mk_ServicePort (GetPortName c) ''TCP'' port
                  (if useInt then IntVal port else StrVal (GetPortName c));
     let metricTarget = (if useInt then IntVal MetricPort else StrVal ''metrics'');
     let metrics = mk_ServicePort ''metrics'' ''TCP'' MetricPort metricTarget;
     let (_, servicePorts) = fold (sidecar_port_step useInt) (concat (map ct_Ports sideCars)) (metricTarget, [main, metrics]);
     Some (if restfulPort \<noteq> 0
           then servicePorts @ [mk_ServicePort ''restful'' ''TCP'' restfulPort
                  (if useInt then IntVal restfulPort else StrVal ''restful'')]
           else servicePorts) }"

end
