(* ===== verification/Dependency_Graph.thy ===== *)
theory Dependency_Graph
  imports Components
begin

text \<open>
  pkg/controllers/dependency_graph.go: the order in which component images are updated.  A graph
  keeps the dependencies of every component and the reversed edges, which a downgrade follows.
  The locale \<open>dep_graph\<close> is what the rollout relies on (the reversed edges are exactly the
  inverse and the graph has a rank, so no component waits for itself); it is interpreted on
  each of the four graphs the package builds in \<open>init\<close>.
\<close>

record dependencyGraphImpl =
  dependencies :: "(MilvusComponent, MilvusComponent list) fmap"
  reversedDependencies :: "(MilvusComponent, MilvusComponent list) fmap"

definition newDependencyGraphImpl :: dependencyGraphImpl where
  "newDependencyGraphImpl = \<lparr>dependencies = fmempty, reversedDependencies = fmempty\<rparr>"

definition edges :: "(MilvusComponent, MilvusComponent list) fmap \<Rightarrow> MilvusComponent \<Rightarrow> MilvusComponent list" where
  "edges m c = (case fmlookup m c of None \<Rightarrow> [] | Some ds \<Rightarrow> ds)"

definition AddDependency :: "MilvusComponent \<Rightarrow> MilvusComponent list \<Rightarrow> dependencyGraphImpl \<Rightarrow> dependencyGraphImpl" where
  "AddDependency c deps d =
     \<lparr>dependencies = fmupd c deps (dependencies d),
      reversedDependencies = fold (\<lambda>dep m. fmupd dep (edges m dep @ [c]) m) deps (reversedDependencies d)\<rparr>"

definition GetDependencies_graph :: "dependencyGraphImpl \<Rightarrow> MilvusComponent \<Rightarrow> MilvusComponent list" where
  "GetDependencies_graph d c = edges (dependencies d) (c\<lparr>mcp_DeploymentGroup := None\<rparr>)"

definition GetReversedDependencies :: "dependencyGraphImpl \<Rightarrow> MilvusComponent \<Rightarrow> MilvusComponent list" where
  "GetReversedDependencies d c = edges (reversedDependencies d) (c\<lparr>mcp_DeploymentGroup := None\<rparr>)"

definition add_all :: "(MilvusComponent \<times> MilvusComponent list) list \<Rightarrow> dependencyGraphImpl" where
  "add_all es = fold (\<lambda>(c, ds). AddDependency c ds) es newDependencyGraphImpl"

definition cluster_edges :: "(MilvusComponent \<times> MilvusComponent list) list" where
  "cluster_edges = [(IndexNode, []), (RootCoord, [IndexNode]), (DataCoord, [RootCoord]), (IndexCoord, [DataCoord]),
     (QueryCoord, [IndexCoord]), (QueryNode, [QueryCoord]), (DataNode, [QueryNode]), (Proxy, [DataNode])]"

definition mixCoord_edges :: "(MilvusComponent \<times> MilvusComponent list) list" where
  "mixCoord_edges = [(IndexNode, []), (MixCoord, [IndexNode]), (QueryNode, [MixCoord]), (DataNode, [QueryNode]), (Proxy, [DataNode])]"

definition streamingNode_edges :: "(MilvusComponent \<times> MilvusComponent list) list" where
  "streamingNode_edges = [(MixCoord, []), (StreamingNode, [MixCoord]), (QueryNode, [StreamingNode]), (DataNode, [QueryNode]), (Proxy, [DataNode])]"

definition upgrade26_edges :: "(MilvusComponent \<times> MilvusComponent list) list" where
  "upgrade26_edges = [(StreamingNode, []), (MixCoord, [StreamingNode]), (QueryNode, [MixCoord]), (DataNode, [QueryNode]), (Proxy, [DataNode])]"

definition clusterDependencyGraph :: dependencyGraphImpl where
  "clusterDependencyGraph = add_all cluster_edges"

definition mixCoordClusterDependencyGraph :: dependencyGraphImpl where
  "mixCoordClusterDependencyGraph = add_all mixCoord_edges"

definition streamingNodeClusterDependencyGraph :: dependencyGraphImpl where
  "streamingNodeClusterDependencyGraph = add_all streamingNode_edges"

definition upgrade26ClusterDependencyGraph :: dependencyGraphImpl where
  "upgrade26ClusterDependencyGraph = add_all upgrade26_edges"

definition GetDependenciesFor2_6Upgrade :: "MilvusComponent \<Rightarrow> MilvusSpec \<Rightarrow> MilvusComponent list" where
  "GetDependenciesFor2_6Upgrade c spec =
     (if ms_Mode spec \<noteq> MilvusModeCluster then [] else GetDependencies_graph upgrade26ClusterDependencyGraph c)"

definition selected_graph :: "externals \<Rightarrow> MilvusSpec \<Rightarrow> dependencyGraphImpl" where
  "selected_graph x spec =
     (let depGraph = clusterDependencyGraph;
          depGraph = (if UseMixCoord spec then mixCoordClusterDependencyGraph else depGraph)
      in if UseStreamingNode x spec then streamingNodeClusterDependencyGraph else depGraph)"

definition GetDependencies :: "externals \<Rightarrow> MilvusComponent \<Rightarrow> MilvusSpec \<Rightarrow> MilvusComponent list" where
  "GetDependencies x c spec =
     (if ms_Mode spec \<noteq> MilvusModeCluster then []
      else if com_ImageUpdateMode (ms_Com spec) = ImageUpdateModeRollingDowngrade
      then GetReversedDependencies (selected_graph x spec) c
      else GetDependencies_graph (selected_graph x spec) c)"

definition IsImageUpdated :: "MilvusComponent \<Rightarrow> Milvus \<Rightarrow> bool" where
  "IsImageUpdated c m =
     (case fmlookup (mst_ComponentsDeployStatus (m_Status m)) (mcp_Name c) of
        None \<Rightarrow> False
      | Some deployStatus \<Rightarrow>
          cs_Image (ms_Com (m_Spec m)) = cds_Image deployStatus \<and> GetState deployStatus = DeploymentComplete)"

section \<open>The reversed edges are the inverse\<close>

definition graph_consistent :: "dependencyGraphImpl \<Rightarrow> bool" where
  "graph_consistent d \<longleftrightarrow>
     (\<forall>a b. a \<in> set (edges (reversedDependencies d) b) \<longleftrightarrow> b \<in> set (edges (dependencies d) a))"

lemma edges_upd [simp]: "edges (fmupd k v m) k' = (if k = k' then v else edges m k')"
  by (simp add: edges_def)

lemma edges_empty [simp]: "edges fmempty k = []"
  by (simp add: edges_def)

lemma rev_fold:
  "a \<in> set (edges (fold (\<lambda>dep m. fmupd dep (edges m dep @ [c]) m) deps m) b) \<longleftrightarrow>
     (a = c \<and> b \<in> set deps) \<or> a \<in> set (edges m b)"
  by (induction deps arbitrary: m) auto

lemma graph_consistent_new [simp]: "graph_consistent newDependencyGraphImpl"
  by (simp add: graph_consistent_def newDependencyGraphImpl_def)

lemma graph_consistent_add:
  assumes "graph_consistent d" "edges (dependencies d) c = []"
  shows "graph_consistent (AddDependency c deps d)"
  using assms by (auto simp: graph_consistent_def AddDependency_def rev_fold)

lemma add_all_dependencies:
  "distinct (map fst es) \<Longrightarrow>
     fmlookup (dependencies (fold (\<lambda>(c, ds). AddDependency c ds) es d)) k =
       (case map_of es k of Some ds \<Rightarrow> Some ds | None \<Rightarrow> fmlookup (dependencies d) k)"
proof (induction es arbitrary: d)
  case (Cons e es)
  obtain c ds where e: "e = (c, ds)" by force
  with Cons.prems have "map_of es c = None" by (simp add: map_of_eq_None_iff)
  with Cons e show ?case by (auto simp: AddDependency_def split: option.splits)
qed simp

lemma graph_consistent_fold:
  assumes "graph_consistent d" "distinct (map fst es)" "\<forall>c \<in> fst ` set es. edges (dependencies d) c = []"
  shows "graph_consistent (fold (\<lambda>(c, ds). AddDependency c ds) es d)"
  using assms
proof (induction es arbitrary: d)
  case (Cons e es)
  obtain c ds where e: "e = (c, ds)" by force
  have "\<forall>k \<in> fst ` set es. edges (dependencies (AddDependency c ds d)) k = []"
    using Cons.prems e by (auto simp: AddDependency_def)
  with Cons e graph_consistent_add show ?case by auto
qed simp

lemma graph_consistent_add_all: "distinct (map fst es) \<Longrightarrow> graph_consistent (add_all es)"
  unfolding add_all_def
  using graph_consistent_fold [OF graph_consistent_new] by (simp add: newDependencyGraphImpl_def)

section \<open>The interface the rollout relies on\<close>

lemma ungroup_id: "mcp_DeploymentGroup c = None \<Longrightarrow> c\<lparr>mcp_DeploymentGroup := None\<rparr> = c"
  by (cases c) simp

locale dep_graph =
  fixes g :: dependencyGraphImpl and rank :: "MilvusComponent \<Rightarrow> nat"
  assumes inverse: "graph_consistent g"
    and ranked: "b \<in> set (edges (dependencies g) a) \<Longrightarrow> rank b < rank a"
    and ungrouped: "b \<in> set (edges (dependencies g) a) \<Longrightarrow> mcp_DeploymentGroup a = None \<and> mcp_DeploymentGroup b = None"
begin

lemma reversed_iff:
  "mcp_DeploymentGroup a = None \<Longrightarrow> mcp_DeploymentGroup b = None \<Longrightarrow>
     a \<in> set (GetReversedDependencies g b) \<longleftrightarrow> b \<in> set (GetDependencies_graph g a)"
  using inverse by (simp add: ungroup_id GetReversedDependencies_def GetDependencies_graph_def graph_consistent_def)

lemma group_irrelevant:
  "GetDependencies_graph g (c\<lparr>mcp_DeploymentGroup := dg\<rparr>) = GetDependencies_graph g c"
  by (simp add: GetDependencies_graph_def)

lemma waits_for_lower:
  "b \<in> set (GetDependencies_graph g a) \<Longrightarrow> rank b < rank (a\<lparr>mcp_DeploymentGroup := None\<rparr>)"
  by (simp add: GetDependencies_graph_def ranked)

lemma no_cycle: "(a, a) \<notin> {(x, y). y \<in> set (edges (dependencies g) x)}\<^sup>+"
proof
  have "rank b < rank a" if "(a, b) \<in> {(x, y). y \<in> set (edges (dependencies g) x)}\<^sup>+" for b
    using that by (induction rule: trancl_induct) (auto dest: ranked order.strict_trans)
  moreover assume "(a, a) \<in> {(x, y). y \<in> set (edges (dependencies g) x)}\<^sup>+"
  ultimately show False by blast
qed

end

definition edge_rank :: "(MilvusComponent \<times> MilvusComponent list) list \<Rightarrow> MilvusComponent \<Rightarrow> nat" where
  "edge_rank es c = (case index_by fst es c of None \<Rightarrow> length es | Some i \<Rightarrow> i)"

definition edges_ordered :: "(MilvusComponent \<times> MilvusComponent list) list \<Rightarrow> bool" where
  "edges_ordered es \<longleftrightarrow> distinct (map fst es) \<and>
     list_all (\<lambda>(c, ds). mcp_DeploymentGroup c = None \<and>
        list_all (\<lambda>d. mcp_DeploymentGroup d = None \<and> edge_rank es d < edge_rank es c) ds) es"

lemma dep_graph_add_all: "edges_ordered es \<Longrightarrow> dep_graph (add_all es) (edge_rank es)"
proof unfold_locales
  assume ord: "edges_ordered es"
  then show "graph_consistent (add_all es)" by (simp add: edges_ordered_def graph_consistent_add_all)
  fix a b assume "b \<in> set (edges (dependencies (add_all es)) a)"
  with ord obtain ds where "map_of es a = Some ds" "b \<in> set ds"
    by (auto simp: edges_def add_all_def add_all_dependencies edges_ordered_def newDependencyGraphImpl_def
        split: option.splits)
  then have "(a, ds) \<in> set es" "b \<in> set ds" by (simp_all add: map_of_SomeD)
  with ord show "edge_rank es b < edge_rank es a"
    and "mcp_DeploymentGroup a = None \<and> mcp_DeploymentGroup b = None"
    by (auto simp: edges_ordered_def list_all_iff)
qed

interpretation cluster_graph: dep_graph clusterDependencyGraph "edge_rank cluster_edges"
  unfolding clusterDependencyGraph_def by (rule dep_graph_add_all) code_simp

interpretation mixCoord_graph: dep_graph mixCoordClusterDependencyGraph "edge_rank mixCoord_edges"
  unfolding mixCoordClusterDependencyGraph_def by (rule dep_graph_add_all) code_simp

interpretation streamingNode_graph: dep_graph streamingNodeClusterDependencyGraph "edge_rank streamingNode_edges"
  unfolding streamingNodeClusterDependencyGraph_def by (rule dep_graph_add_all) code_simp

interpretation upgrade26_graph: dep_graph upgrade26ClusterDependencyGraph "edge_rank upgrade26_edges"
  unfolding upgrade26ClusterDependencyGraph_def by (rule dep_graph_add_all) code_simp

lemma selected_graph_cases:
  obtains es where "selected_graph x spec = add_all es" "dep_graph (add_all es) (edge_rank es)"
  using cluster_graph.dep_graph_axioms mixCoord_graph.dep_graph_axioms streamingNode_graph.dep_graph_axioms
  unfolding selected_graph_def Let_def clusterDependencyGraph_def mixCoordClusterDependencyGraph_def
    streamingNodeClusterDependencyGraph_def
  by metis

end
