(* ===== verification/Rolling_Update.thy ===== *)
theory Rolling_Update
  imports Dependency_Graph
begin

text \<open>
  Rolling-update settings: the merge of global and component settings
  (apis/milvus.io/v1beta1/rolling_update.go), their validation by the webhook
  (rolling_update_validation.go), the Deployment strategy derived from them (components.go,
  deployment_updater.go) and the steps the two-deployment rollout takes with it
  (\<open>rolloutSteps\<close> of deploy_ctrl_util.go).  The scaler of percentages is third-party code; its
  documented behaviour is the locale \<open>intstr_lib\<close>.
\<close>

section \<open>Merging\<close>

definition empty_RollingUpdate :: RollingUpdateDeployment where
  "empty_RollingUpdate = \<lparr>ru_MaxUnavailable = None, ru_MaxSurge = None\<rparr>"

definition MergeRollingUpdate ::
  "RollingUpdateDeployment option \<Rightarrow> RollingUpdateDeployment option \<Rightarrow> RollingUpdateDeployment option" where
  "MergeRollingUpdate global compo =
     (if global = None \<and> compo = None then None
      else (let merged = (case global of None \<Rightarrow> empty_RollingUpdate | Some g \<Rightarrow> g) in
            Some (case compo of
                    None \<Rightarrow> merged
                  | Some override \<Rightarrow>
                      merged\<lparr>ru_MaxSurge := (if ru_MaxSurge override \<noteq> None then ru_MaxSurge override else ru_MaxSurge merged),
                        ru_MaxUnavailable := (if ru_MaxUnavailable override \<noteq> None then ru_MaxUnavailable override
                                              else ru_MaxUnavailable merged)\<rparr>)))"

lemma MergeRollingUpdate_None [simp]:
  "MergeRollingUpdate None None = None"
  "MergeRollingUpdate (Some g) None = Some g"
  by (simp_all add: MergeRollingUpdate_def)

lemma MergeRollingUpdate_fields:
  "MergeRollingUpdate g c = Some r \<Longrightarrow>
     ru_MaxSurge r = (case c of Some c' \<Rightarrow> (case ru_MaxSurge c' of Some v \<Rightarrow> Some v | None \<Rightarrow> Option.bind g ru_MaxSurge)
                      | None \<Rightarrow> Option.bind g ru_MaxSurge)
     \<and> ru_MaxUnavailable r = (case c of Some c' \<Rightarrow> (case ru_MaxUnavailable c' of Some v \<Rightarrow> Some v | None \<Rightarrow> Option.bind g ru_MaxUnavailable)
                      | None \<Rightarrow> Option.bind g ru_MaxUnavailable)"
  by (auto simp: MergeRollingUpdate_def empty_RollingUpdate_def Let_def split: option.splits if_splits)

section \<open>Validation\<close>

text \<open>A field error is its path and its detail.\<close>

type_synonym field_error = "string \<times> string"

definition validate_item :: "externals \<Rightarrow> string \<Rightarrow> string \<Rightarrow> IntOrString option \<Rightarrow> field_error list" where
  "validate_item x path name value =
     (case value of
        None \<Rightarrow> []
      | Some v \<Rightarrow>
          (let valid = (case v of IntVal i \<Rightarrow> i \<ge> 0 | StrVal s \<Rightarrow> x_IsValidPercent x s);
               n = x_Scaled x v 100 False
           in if \<not> valid \<or> n = None \<or> the n < 0
              then [(path @ ''.'' @ name, ''must be a nonnegative integer or percentage'')]
              else if name = ''maxUnavailable'' \<and> (case v of StrVal _ \<Rightarrow> True | IntVal _ \<Rightarrow> False) \<and> the n > 100
              then [(path @ ''.'' @ name, ''must not exceed 100%'')]
              else []))"

definition validateRollingUpdate :: "externals \<Rightarrow> RollingUpdateDeployment option \<Rightarrow> string \<Rightarrow> field_error list" where
  "validateRollingUpdate x ru path =
     (case ru of
        None \<Rightarrow> []
      | Some r \<Rightarrow>
          (let allErrs = validate_item x path ''maxSurge'' (ru_MaxSurge r) @
                         validate_item x path ''maxUnavailable'' (ru_MaxUnavailable r)
           in if allErrs \<noteq> [] then allErrs
              else (let surge = (case ru_MaxSurge r of None \<Rightarrow> 1 | Some v \<Rightarrow> (case x_Scaled x v 100 True of None \<Rightarrow> 0 | Some n \<Rightarrow> n));
                        unavailable = (case ru_MaxUnavailable r of None \<Rightarrow> 0 | Some v \<Rightarrow> (case x_Scaled x v 100 False of None \<Rightarrow> 0 | Some n \<Rightarrow> n))
                    in if surge = 0 \<and> unavailable = 0
                       then [(path, ''maxUnavailable must be positive when maxSurge is zero'')]
                       else [])))"

text \<open>The pointer fields of \<open>MilvusComponents\<close> that embed a \<open>ComponentSpec\<close>, in declaration
  order, with their JSON names.\<close>

definition component_fields :: "(string \<times> string) list" where
  "component_fields = [(''Proxy'', ''proxy''), (''MixCoord'', ''mixCoord''), (''RootCoord'', ''rootCoord''),
     (''IndexCoord'', ''indexCoord''), (''DataCoord'', ''dataCoord''), (''QueryCoord'', ''queryCoord''),
     (''IndexNode'', ''indexNode''), (''DataNode'', ''dataNode''), (''QueryNode'', ''queryNode''),
     (''StreamingNode'', ''streamingNode''), (''Standalone'', ''standalone''), (''Cdc'', ''cdc'')]"

definition validateRollingUpdates :: "externals \<Rightarrow> Milvus \<Rightarrow> field_error list" where
  "validateRollingUpdates x r =
     (let com = ms_Com (m_Spec r); path = ''spec.components'' in
      validateRollingUpdate x (cs_RollingUpdate com) (path @ ''.rollingUpdate'') @
      concat (map (\<lambda>(f, name). (case com_field f com of
                      None \<Rightarrow> []
                    | Some co \<Rightarrow> validateRollingUpdate x (MergeRollingUpdate (cs_RollingUpdate com) (cs_RollingUpdate co))
                                   (path @ ''.'' @ name @ ''.rollingUpdate'')))
        component_fields))"

section \<open>The Deployment strategy\<close>

definition EnableActiveStandByConfig :: string where [key_defs]:
  "EnableActiveStandByConfig = ''enableActiveStandby''"

definition active_standby :: "values_map \<Rightarrow> string \<Rightarrow> bool" where
  "active_standby configs configFieldName = fst (GetBoolValue configs [configFieldName, EnableActiveStandByConfig])"

definition use_rolling_update :: "MilvusComponent \<Rightarrow> values_map \<Rightarrow> bool" where
  "use_rolling_update c configs =
     (if IsCoord c \<and> mcp_Name c \<noteq> ''mixcoord''
      then active_standby configs (case map_of coordConfigFieldName (mcp_Name c) of None \<Rightarrow> [] | Some f \<Rightarrow> f)
      else if mcp_Name c = ''mixcoord'' \<or> IsStandalone c
      then list_all (active_standby configs) (map snd coordConfigFieldName)
      else True)"

definition default_RollingUpdate :: RollingUpdateDeployment where
  "default_RollingUpdate = \<lparr>ru_MaxUnavailable = Some (IntVal 0), ru_MaxSurge = Some (IntVal 1)\<rparr>"

definition component_GetDeploymentStrategy :: "MilvusComponent \<Rightarrow> MilvusSpec \<Rightarrow> DeploymentStrategy option" where
  "component_GetDeploymentStrategy c ms =
     (if use_rolling_update c (Values_Data (ms_Conf ms)) then
        (case GetComponentSpec c ms of
           None \<Rightarrow> None
         | Some spec \<Rightarrow>
             (let effective = MergeRollingUpdate (cs_RollingUpdate (ms_Com ms)) (cs_RollingUpdate spec)
              in Some \<lparr>ds_Type = ''RollingUpdate'',
                       ds_RollingUpdate = MergeRollingUpdate (Some default_RollingUpdate) effective\<rparr>))
      else Some \<lparr>ds_Type = ''Recreate'', ds_RollingUpdate = None\<rparr>)"

definition all_RollingUpdate :: RollingUpdateDeployment where
  "all_RollingUpdate = \<lparr>ru_MaxUnavailable = Some (StrVal ''100%''), ru_MaxSurge = Some (StrVal ''100%'')\<rparr>"

definition GetDeploymentStrategy :: "Milvus \<Rightarrow> MilvusComponent \<Rightarrow> DeploymentStrategy option" where
  "GetDeploymentStrategy milvus c =
     (if com_ImageUpdateMode (ms_Com (m_Spec milvus)) = ImageUpdateModeForce \<or>
         com_EnableManualMode (ms_Com (m_Spec milvus))
      then Some \<lparr>ds_Type = ''RollingUpdate'', ds_RollingUpdate = Some all_RollingUpdate\<rparr>
      else component_GetDeploymentStrategy c (m_Spec milvus))"

section \<open>Rollout steps\<close>

definition rolloutSteps :: "externals \<Rightarrow> DeploymentStrategy \<Rightarrow> int \<Rightarrow> int \<times> int" where
  "rolloutSteps x strategy replicas =
     (let surge = 1; unavailable = 0 in
      if ds_Type strategy \<noteq> ''RollingUpdate'' then (surge, unavailable)
      else case ds_RollingUpdate strategy of
        None \<Rightarrow> (surge, unavailable)
      | Some ru \<Rightarrow>
          (let surge = (case ru_MaxSurge ru of
                 None \<Rightarrow> surge
               | Some ms \<Rightarrow> (case x_Scaled x ms replicas True of
                     Some v \<Rightarrow> if v \<ge> 0 then v else surge
                   | None \<Rightarrow> surge));
               unavailable = (case ru_MaxUnavailable ru of
                 None \<Rightarrow> unavailable
               | Some mu \<Rightarrow> (case x_Scaled x mu replicas False of
                     Some v \<Rightarrow>
                       if v \<ge> 0 then
                         (if surge = 0 \<and> v = 0 then
                            (case x_Scaled x mu 100 False of
                               Some percent \<Rightarrow> if percent > 0 then 1 else v
                             | None \<Rightarrow> v)
                          else v)
                       else unavailable
                   | None \<Rightarrow> unavailable))
           in (surge, min unavailable (max 0 replicas))))"

section \<open>The percentage scaler\<close>

text \<open>Documented behaviour of \<open>intstr.GetScaledValueFromIntOrPercent\<close> and
  \<open>validation.IsValidPercent\<close>: an integer is itself, \<open>"p%"\<close> is p percent of the total rounded up
  or down, any other string is an error.\<close>

definition percent_of :: "int \<Rightarrow> int \<Rightarrow> bool \<Rightarrow> int" where
  "percent_of p tot roundUp = (if roundUp then - ((- (p * tot)) div 100) else (p * tot) div 100)"

definition all_digits :: "string \<Rightarrow> bool" where
  "all_digits s \<longleftrightarrow> s \<noteq> [] \<and> list_all (\<lambda>c. char_digit c \<noteq> None) s"

locale intstr_lib =
  fixes x :: externals
  assumes scaled_int: "x_Scaled x (IntVal i) t up = Some i"
    and scaled_percent: "x_Scaled x (StrVal (s @ ''%'')) t up = map_option (\<lambda>p. percent_of p t up) (atoi s)"
    and valid_percent: "x_IsValidPercent x s \<Longrightarrow> \<exists>d. s = d @ ''%'' \<and> all_digits d"
begin

lemma percent_nonneg: "p \<ge> 0 \<Longrightarrow> t \<ge> 0 \<Longrightarrow> percent_of p t up \<ge> 0"
proof -
  assume "p \<ge> 0" "t \<ge> 0"
  then have "p * t \<ge> 0" by simp
  moreover have "- ((- k) div 100) \<ge> 0" if "k \<ge> 0" for k :: int
    using div_nonpos_pos_le0 [of "- k" 100] that by simp
  ultimately show ?thesis by (simp add: percent_of_def pos_imp_zdiv_nonneg_iff)
qed

lemma percent_pos_up: "p > 0 \<Longrightarrow> t \<ge> 1 \<Longrightarrow> percent_of p t True > 0"
proof -
  assume "p > 0" "t \<ge> 1"
  then have "- (p * t) < 0" by (simp add: mult_pos_pos)
  then have "(- (p * t)) div 100 < 0" by (simp add: div_neg_pos_less0)
  then show ?thesis by (simp add: percent_of_def)
qed

lemma percent_100 [simp]: "percent_of p 100 up = p"
  using nonzero_mult_div_cancel_right [of 100 "- p"] by (simp add: percent_of_def)

lemma percent_zero [simp]: "percent_of 0 t up = 0"
  by (simp add: percent_of_def)

lemma validate_item_ok:
  assumes "validate_item x path name (Some v) = []"
  obtains (int) i where "v = IntVal i" "i \<ge> 0"
  | (pct) s p where "v = StrVal (s @ ''%'')" "atoi s = Some p" "p \<ge> 0"
proof (cases v)
  case (IntVal i)
  with assms int show ?thesis
    by (auto simp: validate_item_def Let_def split: if_splits)
next
  case (StrVal s)
  with assms have "x_IsValidPercent x s"
    by (auto simp: validate_item_def Let_def split: if_splits)
  then obtain d where d: "s = d @ ''%''" using valid_percent by blast
  with StrVal assms have "x_Scaled x v 100 False = Some p \<Longrightarrow> p \<ge> 0" for p
    by (auto simp: validate_item_def Let_def split: if_splits)
  moreover from StrVal d assms obtain p where "atoi d = Some p"
    by (auto simp: validate_item_def scaled_percent Let_def split: if_splits)
  ultimately show ?thesis using pct StrVal d by (simp add: scaled_percent)
qed

definition ok_value :: "IntOrString \<Rightarrow> bool" where
  "ok_value v \<longleftrightarrow> (\<exists>i \<ge> 0. v = IntVal i) \<or> (\<exists>s p. v = StrVal (s @ ''%'') \<and> atoi s = Some p \<and> p \<ge> 0)"

lemma ok_value_validated: "validate_item x path name (Some v) = [] \<Longrightarrow> ok_value v"
  by (erule validate_item_ok) (auto simp: ok_value_def)

lemma ok_value_up:
  assumes "ok_value v" "r \<ge> 1"
  shows "\<exists>n \<ge> 0. x_Scaled x v r True = Some n \<and> (n = 0 \<longrightarrow> x_Scaled x v 100 True = Some 0)"
  using assms(1) unfolding ok_value_def
proof (elim disjE exE conjE)
  fix s p assume v: "v = StrVal (s @ ''%'')" "atoi s = Some p" "p \<ge> 0"
  then have "x_Scaled x v r True = Some (percent_of p r True)" "x_Scaled x v 100 True = Some p"
    by (simp_all add: scaled_percent)
  moreover have "percent_of p r True \<ge> 0" using v assms(2) by (simp add: percent_nonneg)
  moreover have "percent_of p r True = 0 \<Longrightarrow> p = 0"
    using percent_pos_up [of p r] v assms(2) by (cases "p = 0") auto
  ultimately show ?thesis by auto
qed (auto simp: scaled_int)

lemma ok_value_down:
  assumes "ok_value v" "r \<ge> 0"
  shows "\<exists>n \<ge> 0. \<exists>m \<ge> 0. x_Scaled x v r False = Some n \<and> x_Scaled x v 100 False = Some m"
  using assms percent_nonneg unfolding ok_value_def by (fastforce simp: scaled_int scaled_percent)

lemma ok_default [simp]: "ok_value (IntVal 0)" "ok_value (IntVal 1)"
  by (auto simp: ok_value_def)

text \<open>Settings that passed validation never stall a rollout: for a positive replica count the
  steps allow a surge or an unavailable pod.\<close>

lemma validated_steps_progress:
  assumes ok: "validateRollingUpdate x eff path = []" and r: "replicas \<ge> 1"
    and st: "ds_Type st = ''RollingUpdate''" "ds_RollingUpdate st = MergeRollingUpdate (Some default_RollingUpdate) eff"
  shows "fst (rolloutSteps x st replicas) > 0 \<or> snd (rolloutSteps x st replicas) > 0"
proof -
  obtain ru where ru: "ds_RollingUpdate st = Some ru"
    using st(2) by (cases eff) (auto simp: MergeRollingUpdate_def Let_def)
  define vs where "vs = (case Option.bind eff ru_MaxSurge of None \<Rightarrow> IntVal 1 | Some v \<Rightarrow> v)"
  define vu where "vu = (case Option.bind eff ru_MaxUnavailable of None \<Rightarrow> IntVal 0 | Some v \<Rightarrow> v)"
  have fields': "ru_MaxSurge ru = Some vs" "ru_MaxUnavailable ru = Some vu"
    using st(2) ru MergeRollingUpdate_fields [of "Some default_RollingUpdate" eff ru]
    by (auto simp: vs_def vu_def default_RollingUpdate_def split: option.splits)
  have items: "eff = Some e \<Longrightarrow> ru_MaxSurge e = Some v \<Longrightarrow> ok_value v"
    "eff = Some e \<Longrightarrow> ru_MaxUnavailable e = Some v \<Longrightarrow> ok_value v" for e v
    using ok by (auto simp: validateRollingUpdate_def Let_def split: if_splits intro: ok_value_validated)
  have okvs: "ok_value vs" "ok_value vu"
    using items by (auto simp: vs_def vu_def split: option.splits bind_splits)
  obtain s where s: "s \<ge> 0" "x_Scaled x vs replicas True = Some s" "s = 0 \<longrightarrow> x_Scaled x vs 100 True = Some 0"
    using ok_value_up [OF okvs(1) r] by blast
  obtain n m where n: "n \<ge> 0" "m \<ge> 0" "x_Scaled x vu replicas False = Some n" "x_Scaled x vu 100 False = Some m"
    using ok_value_down [OF okvs(2), of replicas] r by auto
  have "m > 0" if "s = 0"
  proof -
    have "vs \<noteq> IntVal 1" using that s by (auto simp: scaled_int)
    then obtain e where "eff = Some e" "ru_MaxSurge e = Some vs"
      by (auto simp: vs_def split: option.splits bind_splits)
    with that s ok n show ?thesis
      by (auto simp: validateRollingUpdate_def Let_def vu_def scaled_int split: if_splits option.splits)
  qed
  then show ?thesis
    using st(1) ru fields' s n r by (cases "s = 0"; cases "n = 0") (auto simp: rolloutSteps_def Let_def)
qed

end

end
