(* ===== verification/Client.thy ===== *)
theory Client
  imports Rolling_Update
begin

text \<open>
  The Kubernetes client (\<open>sigs.k8s.io/controller-runtime/pkg/client\<close>, third-party) as a record
  of operations on an arbitrary world \<open>'w\<close>.  Every operation of the modelled code takes the
  record as an argument.  What the code relies on is the locale \<open>deploy_store\<close>: reads do not
  change the cluster and return what is stored, a successful write stores the object, and a
  failed write either had no effect or was applied although the answer was lost.
\<close>

section \<open>Objects used only by the deploy-mode changer\<close>

record ReplicaSet = ObjectMeta +
  rs_Selector :: smap
  rs_Template :: PodTemplateSpec
  rs_Replicas :: "int option"

datatype SavedObject = SavedDeployment Deployment | SavedReplicaSetList "ReplicaSet list"

section \<open>Operations\<close>

record 'w Client =
  cli_ListDeployments :: "string \<Rightarrow> smap \<Rightarrow> ('w, Deployment list) op"
  cli_GetDeployment :: "string \<Rightarrow> string \<Rightarrow> ('w, Deployment) op"
  cli_CreateDeployment :: "Deployment \<Rightarrow> ('w, unit) op"
  cli_UpdateDeployment :: "Deployment \<Rightarrow> ('w, unit) op"
  cli_DeleteDeployment :: "Deployment \<Rightarrow> bool \<Rightarrow> ('w, unit) op"
  cli_ListPods :: "string \<Rightarrow> smap \<Rightarrow> ('w, Pod list) op"
  cli_UpdatePod :: "Pod \<Rightarrow> ('w, unit) op"
  cli_DeletePod :: "Pod \<Rightarrow> ('w, unit) op"
  cli_ListReplicaSets :: "string \<Rightarrow> smap \<Rightarrow> ('w, ReplicaSet list) op"
  cli_GetReplicaSet :: "string \<Rightarrow> string \<Rightarrow> ('w, ReplicaSet) op"
  cli_CreateReplicaSet :: "ReplicaSet \<Rightarrow> ('w, unit) op"
  cli_DeleteReplicaSet :: "ReplicaSet \<Rightarrow> bool \<Rightarrow> ('w, unit) op"
  cli_GetRevision :: "string \<Rightarrow> string \<Rightarrow> ('w, SavedObject) op"
  cli_CreateRevision :: "string \<Rightarrow> string \<Rightarrow> SavedObject \<Rightarrow> ('w, unit) op"
  cli_GetMilvus :: "string \<Rightarrow> string \<Rightarrow> ('w, Milvus) op"
  cli_UpdateMilvus :: "Milvus \<Rightarrow> ('w, unit) op"
  cli_UpdateMilvusStatus :: "Milvus \<Rightarrow> ('w, unit) op"
  cli_SetControllerReference :: "Milvus \<Rightarrow> OwnerReference list \<Rightarrow> go_error + OwnerReference list"

section \<open>What a write does\<close>

definition same_object :: "'a ObjectMeta_scheme \<Rightarrow> 'a ObjectMeta_scheme \<Rightarrow> bool" where
  "same_object a b \<longleftrightarrow> om_Namespace a = om_Namespace b \<and> om_Name a = om_Name b"

definition store_replace :: "'a ObjectMeta_scheme \<Rightarrow> 'a ObjectMeta_scheme list \<Rightarrow> 'a ObjectMeta_scheme list" where
  "store_replace d ds = map (\<lambda>e. if same_object e d then d else e) ds"

definition selected :: "string \<Rightarrow> smap \<Rightarrow> 'a ObjectMeta_scheme list \<Rightarrow> 'a ObjectMeta_scheme list" where
  "selected ns sel obs = filter (\<lambda>ob. om_Namespace ob = ns \<and> labels_match sel (om_Labels ob)) obs"

definition find_object :: "string \<Rightarrow> string \<Rightarrow> 'a ObjectMeta_scheme list \<Rightarrow> 'a ObjectMeta_scheme option" where
  "find_object ns name obs = find (\<lambda>ob. om_Namespace ob = ns \<and> om_Name ob = name) obs"

definition store_remove :: "'a ObjectMeta_scheme \<Rightarrow> 'a ObjectMeta_scheme list \<Rightarrow> 'a ObjectMeta_scheme list" where
  "store_remove d ds = filter (\<lambda>e. \<not> same_object e d) ds"

text \<open>The API server sets the generation of a stored Deployment.\<close>

definition dep_written :: "('w \<Rightarrow> Deployment list) \<Rightarrow> Deployment \<Rightarrow> 'w \<Rightarrow> 'w \<Rightarrow> bool" where
  "dep_written deps d w w' \<longleftrightarrow> (\<exists>g. deps w' = store_replace (d\<lparr>om_Generation := g\<rparr>) (deps w))"

definition applied_or_lost :: "go_error + unit \<Rightarrow> bool \<Rightarrow> bool \<Rightarrow> bool" where
  "applied_or_lost r unchanged written \<longleftrightarrow> (case r of Inr _ \<Rightarrow> written | Inl _ \<Rightarrow> unchanged \<or> written)"

locale deploy_store =
  fixes cli :: "'w Client"
    and deps :: "'w \<Rightarrow> Deployment list" and pods :: "'w \<Rightarrow> Pod list" and milvus :: "'w \<Rightarrow> Milvus"
  assumes list_deployments:
      "run_state (cli_ListDeployments cli ns sel) w = (r, w') \<Longrightarrow>
         w' = w \<and> (\<forall>ds. r = Inr ds \<longrightarrow> ds = selected ns sel (deps w))"
    and list_pods:
      "run_state (cli_ListPods cli ns sel) w = (rp, w') \<Longrightarrow>
         w' = w \<and> (\<forall>ps. rp = Inr ps \<longrightarrow> ps = selected ns sel (pods w))"
    and update_deployment:
      "run_state (cli_UpdateDeployment cli d) w = (ru, w') \<Longrightarrow>
         applied_or_lost ru (w' = w) (dep_written deps d w w') \<and> pods w' = pods w \<and> milvus w' = milvus w"
    and update_milvus:
      "run_state (cli_UpdateMilvus cli m) w = (ru, w') \<Longrightarrow>
         applied_or_lost ru (w' = w) (milvus w' = m) \<and> pods w' = pods w \<and> deps w' = deps w"
begin

lemma update_deployment_cases:
  assumes "run_state (cli_UpdateDeployment cli d) w = (ru, w')"
  obtains (unchanged) e where "ru = Inl e" "w' = w"
    | (written) g where "deps w' = store_replace (d\<lparr>om_Generation := g\<rparr>) (deps w)"
        "pods w' = pods w" "milvus w' = milvus w"
  using update_deployment [OF assms]
  by (auto simp: applied_or_lost_def dep_written_def split: sum.splits)

lemma update_milvus_cases:
  assumes "run_state (cli_UpdateMilvus cli m) w = (ru, w')"
  obtains (unchanged) e where "ru = Inl e" "w' = w"
    | (written) "milvus w' = m" "pods w' = pods w" "deps w' = deps w"
  using update_milvus [OF assms] by (auto simp: applied_or_lost_def split: sum.splits)

lemma list_pods_world: "run_state (cli_ListPods cli ns sel) w = (r, w') \<Longrightarrow> w' = w"
  using list_pods by blast

lemma list_deployments_world: "run_state (cli_ListDeployments cli ns sel) w = (r, w') \<Longrightarrow> w' = w"
  using list_deployments by blast

end

section \<open>Ownership\<close>

definition IsControlledBy :: "'a ObjectMeta_scheme \<Rightarrow> 'b ObjectMeta_scheme \<Rightarrow> bool" where
  "IsControlledBy obj owner =
     (case find or_Controller (om_OwnerReferences obj) of None \<Rightarrow> False | Some r \<Rightarrow> or_UID r = om_UID owner)"

section \<open>Facts about stores\<close>

lemma same_object_gen [simp]: "same_object e (d\<lparr>om_Generation := g\<rparr>) = same_object e d"
  by (simp add: same_object_def)

lemma store_replace_length [simp]: "length (store_replace d ds) = length ds"
  by (simp add: store_replace_def)

text \<open>Replacing an object by one with the same key and labels keeps every selection in place.\<close>

lemma selected_store_replace:
  assumes "\<forall>e \<in> set ds. same_object e d \<longrightarrow> om_Labels e = om_Labels d"
  shows "selected ns sel (store_replace d ds) = store_replace d (selected ns sel ds)"
  using assms
  by (induction ds) (auto simp: selected_def store_replace_def same_object_def)

end
