(* ===== verification/Component_Merge.thy ===== *)
theory Component_Merge
  imports Rolling_Update
begin

text \<open>
  Settings of one workload (components.go): the component's settings merged over the global
  ones (\<open>MergeComponentSpec\<close>), then the deployment group's overrides
  (\<open>ApplyDeploymentGroupOverrides\<close>); metadata of grouped Deployments (deployment_updater.go);
  the environment derived from secrets (deployments.go, kafka_secrets.go) and the pruning of
  stale credentials; configuration checksums.
\<close>

section \<open>Merging component settings\<close>

definition CacheSizeEnvVar :: EnvVar where
  "CacheSizeEnvVar = \<lparr>ev_Name = ''CACHE_SIZE'', ev_Value = [],
     ev_ValueFrom = Some \<lparr>evs_SecretKeyRef = None, evs_ResourceFieldRef = Some (''1Gi'', ''limits.memory''), evs_Other = JNull\<rparr>\<rparr>"

text \<open>The loop over the source's volume mounts looks an existing mount up with the new
  mount's \<open>SubPath\<close> although \<open>GetVolumeMountIndex\<close> compares mount paths.\<close>

definition merge_volume_mount :: "VolumeMount \<Rightarrow> VolumeMount list \<Rightarrow> VolumeMount list" where
  "merge_volume_mount srcVolumeMount mounts =
     (case GetVolumeMountIndex mounts (vm_SubPath srcVolumeMount) of
        None \<Rightarrow> mounts @ [srcVolumeMount]
      | Some idx \<Rightarrow> mounts[idx := srcVolumeMount])"

definition MergeComponentSpec :: "ComponentSpec \<Rightarrow> ComponentSpec \<Rightarrow> ComponentSpec" where
  "MergeComponentSpec src dst =
     dst\<lparr>cs_PodLabels := MergeLabels [cs_PodLabels src, cs_PodLabels dst],
         cs_PodAnnotations := MergeAnnotations [cs_PodAnnotations src, cs_PodAnnotations dst],
         cs_Paused := (if cs_Paused src then cs_Paused src else cs_Paused dst),
         cs_Image := (if cs_Image src \<noteq> [] then cs_Image src else cs_Image dst),
         cs_Commands := (if cs_Commands src \<noteq> [] then cs_Commands src else cs_Commands dst),
         cs_ImagePullPolicy :=
           (let p = (if cs_ImagePullPolicy src \<noteq> None then cs_ImagePullPolicy src else cs_ImagePullPolicy dst)
            in if p = None then Some ''IfNotPresent'' else p),
         cs_ImagePullSecrets := (if cs_ImagePullSecrets src \<noteq> [] then cs_ImagePullSecrets src else cs_ImagePullSecrets dst),
         cs_Env := MergeEnvVar (cs_Env dst) (cs_Env src @ [CacheSizeEnvVar]),
         cs_SchedulerName := (if cs_SchedulerName src \<noteq> [] then cs_SchedulerName src else cs_SchedulerName dst),
         cs_NodeSelector := (if cs_NodeSelector src \<noteq> fmempty then cs_NodeSelector src else cs_NodeSelector dst),
         cs_Affinity := (if cs_Affinity src \<noteq> None then cs_Affinity src else cs_Affinity dst),
         cs_Tolerations := (if cs_Tolerations src \<noteq> [] then cs_Tolerations src else cs_Tolerations dst),
         cs_TopologySpreadConstraints :=
           (if cs_TopologySpreadConstraints src \<noteq> [] then cs_TopologySpreadConstraints src else cs_TopologySpreadConstraints dst),
         cs_Resources :=
           (let r = (if cs_Resources src \<noteq> None then cs_Resources src else cs_Resources dst)
            in if r = None then Some zero_ResourceRequirements else r),
         cs_ToolResources := (if cs_ToolResources src \<noteq> None then cs_ToolResources src else cs_ToolResources dst),
         cs_VolumeMounts := fold merge_volume_mount (cs_VolumeMounts src) (cs_VolumeMounts dst),
         cs_Volumes := (if cs_Volumes src \<noteq> None then cs_Volumes src else cs_Volumes dst),
         cs_ServiceAccountName := (if cs_ServiceAccountName src \<noteq> [] then cs_ServiceAccountName src else cs_ServiceAccountName dst),
         cs_PriorityClassName := (if cs_PriorityClassName src \<noteq> [] then cs_PriorityClassName src else cs_PriorityClassName dst),
         cs_RunWithSubProcess := (if cs_RunWithSubProcess src \<noteq> None then cs_RunWithSubProcess src else cs_RunWithSubProcess dst),
         cs_HostNetwork := (if cs_HostNetwork src then cs_HostNetwork src else cs_HostNetwork dst),
         cs_DNSPolicy := (if cs_DNSPolicy src \<noteq> [] then cs_DNSPolicy src else cs_DNSPolicy dst),
         cs_Probes := (if cs_Probes src \<noteq> None then cs_Probes src else cs_Probes dst),
         cs_SecurityContext := (if cs_SecurityContext src \<noteq> None then cs_SecurityContext src else cs_SecurityContext dst),
         cs_RollingUpdate := MergeRollingUpdate (cs_RollingUpdate dst) (cs_RollingUpdate src)\<rparr>"

definition ApplyDeploymentGroupOverrides :: "ComponentSpec \<Rightarrow> DeploymentGroup option \<Rightarrow> ComponentSpec" where
  "ApplyDeploymentGroupOverrides spec grp =
     (case grp of
        None \<Rightarrow> spec
      | Some g \<Rightarrow>
          spec\<lparr>cs_PodLabels := MergeLabels [cs_PodLabels spec, dg_Labels g],
               cs_PodAnnotations := MergeAnnotations [cs_PodAnnotations spec, dg_Annotations g],
               cs_Env := MergeEnvVar (cs_Env spec) (dg_ExtraEnv g),
               cs_NodeSelector := (case dg_NodeSelector g of None \<Rightarrow> cs_NodeSelector spec | Some s \<Rightarrow> s),
               cs_Affinity := (case dg_Affinity g of None \<Rightarrow> cs_Affinity spec | Some a \<Rightarrow> Some a),
               cs_Tolerations := (case dg_Tolerations g of None \<Rightarrow> cs_Tolerations spec | Some t \<Rightarrow> t),
               cs_TopologySpreadConstraints :=
                 (case dg_TopologySpreadConstraints g of None \<Rightarrow> cs_TopologySpreadConstraints spec | Some t \<Rightarrow> t)\<rparr>)"

definition GetMergedComponentSpec :: "Milvus \<Rightarrow> MilvusComponent \<Rightarrow> ComponentSpec option" where
  "GetMergedComponentSpec m c =
     (case GetComponentSpec c (m_Spec m) of
        None \<Rightarrow> None
      | Some spec \<Rightarrow>
          Some (ApplyDeploymentGroupOverrides (MergeComponentSpec spec (ComponentSpec.truncate (ms_Com (m_Spec m))))
                  (mcp_DeploymentGroup c)))"

section \<open>Metadata of grouped Deployments\<close>

definition preservedMetadataPrefixes :: "string list" where
  "preservedMetadataPrefixes = [''kubectl.kubernetes.io/'', MilvusIO, ''deployment.kubernetes.io/'']"

definition preserved_key :: "string \<Rightarrow> bool" where
  "preserved_key key = list_ex (has_prefix key) preservedMetadataPrefixes"

definition preserveExistingMetadataKeys :: "smap \<Rightarrow> smap \<Rightarrow> string list \<Rightarrow> smap" where
  "preserveExistingMetadataKeys desired existing keys =
     fold (\<lambda>key result. if key |\<in>| fmdom result then result
                        else (case fmlookup existing key of None \<Rightarrow> result | Some value \<Rightarrow> fmupd key value result))
       keys (MergeLabels [desired])"

text \<open>Go iterates the existing map in no fixed order; the keys are visited once each and a visit
  writes only its own key, so the result is the map below.\<close>

definition preserveExistingMetadataPrefixes :: "smap \<Rightarrow> smap \<Rightarrow> smap" where
  "preserveExistingMetadataPrefixes desired existing =
     fmfilter preserved_key existing ++\<^sub>f MergeLabels [desired]"

definition desiredDeploymentLabels :: "string \<Rightarrow> MilvusComponent \<Rightarrow> string \<Rightarrow> smap \<Rightarrow> smap" where
  "desiredDeploymentLabels instance' c rolloutSlot existing =
     (let labels = GetSelectorLabels c instance';
          labels = (case mcp_DeploymentGroup c of None \<Rightarrow> labels | Some g \<Rightarrow> MergeLabels [dg_Labels g, labels]);
          labels = preserveExistingMetadataPrefixes labels existing
      in if rolloutSlot \<noteq> [] then SetGroupIDStr (mcp_Name c) rolloutSlot labels else labels)"

definition desiredDeploymentAnnotations :: "MilvusComponent \<Rightarrow> smap \<Rightarrow> smap" where
  "desiredDeploymentAnnotations c existing =
     (case mcp_DeploymentGroup c of
        None \<Rightarrow> MergeAnnotations [existing]
      | Some g \<Rightarrow> preserveExistingMetadataPrefixes (dg_Annotations g) existing)"

lemma preserve_lookup:
  "fmlookup (preserveExistingMetadataPrefixes desired existing) k =
     (case fmlookup desired k of
        Some v \<Rightarrow> Some v
      | None \<Rightarrow> if preserved_key k then fmlookup existing k else None)"
  by (auto simp: preserveExistingMetadataPrefixes_def fmdom_notI split: option.splits
      dest: fmdom_notD intro: fmdomI)

lemma preserve_idem:
  "preserveExistingMetadataPrefixes d (preserveExistingMetadataPrefixes d e) = preserveExistingMetadataPrefixes d e"
  by (rule fmap_ext) (simp add: preserve_lookup split: option.splits)

lemma desiredDeploymentLabels_idem:
  "desiredDeploymentLabels i c rolloutSlot (desiredDeploymentLabels i c rolloutSlot e) =
         desiredDeploymentLabels i c rolloutSlot e"
  by (rule fmap_ext)
    (auto simp: desiredDeploymentLabels_def Let_def SetGroupIDStr_def preserve_lookup split: option.splits)

lemma group_id_label_preserved [simp]: "preserved_key (GetComponentGroupIdLabel c)"
  by (simp add: preserved_key_def preservedMetadataPrefixes_def GetComponentGroupIdLabel_def)

section \<open>Environment from secrets\<close>

definition secret_env :: "string \<Rightarrow> string \<Rightarrow> string \<Rightarrow> EnvVar" where
  "secret_env name secretRef key = \<lparr>ev_Name = name, ev_Value = [],
     ev_ValueFrom = Some \<lparr>evs_SecretKeyRef = Some \<lparr>sks_Name = secretRef, sks_Key = key, sks_Optional = None\<rparr>,
                          evs_ResourceFieldRef = None, evs_Other = JNull\<rparr>\<rparr>"

definition GetKafkaSecretRefEnv :: "string \<Rightarrow> EnvVar list" where
  "GetKafkaSecretRefEnv secretRef =
     (if secretRef = [] then []
      else [secret_env ''KAFKA_SASLPASSWORD'' secretRef ''password'', secret_env ''KAFKA_SASLUSERNAME'' secretRef ''username''])"

definition GetStorageSecretRefEnv :: "string \<Rightarrow> EnvVar list" where
  "GetStorageSecretRefEnv secretRef =
     (if secretRef = [] then []
      else [secret_env ''MINIO_ACCESS_KEY'' secretRef ''accesskey'', secret_env ''MINIO_ACCESS_KEY_ID'' secretRef ''accesskey'',
            secret_env ''MINIO_SECRET_KEY'' secretRef ''secretkey'', secret_env ''MINIO_SECRET_ACCESS_KEY'' secretRef ''secretkey''])"

definition credential_names :: "string list" where
  "credential_names = [''MINIO_ACCESS_KEY'', ''MINIO_ACCESS_KEY_ID'', ''MINIO_SECRET_KEY'', ''MINIO_SECRET_ACCESS_KEY'',
     ''KAFKA_SASLUSERNAME'', ''KAFKA_SASLPASSWORD'', ''KAFKA_SSL_TLSKEYPASSWORD'']"

definition pruneStorageCredentialEnv :: "EnvVar list \<Rightarrow> EnvVar list \<Rightarrow> EnvVar list" where
  "pruneStorageCredentialEnv env desired =
     filter (\<lambda>v. \<not> (ev_Name v \<in> set credential_names \<and> ev_Name v \<notin> ev_Name ` set desired)) env"

text \<open>\<open>parseKafkaSecretRefs\<close> returns the references together with the error; two of its callers
  drop the error and use the references.\<close>

definition ref_list :: "KafkaSecretRefs \<Rightarrow> SecretKeyRef option list" where
  "ref_list r = [ksr_SASLUsernameSecret r, ksr_SASLPasswordSecret r, ksr_CACertSecret r, ksr_CertSecret r,
     ksr_KeySecret r, ksr_KeyPasswordSecret r]"

definition ref_error :: "string \<Rightarrow> SecretKeyRef option \<Rightarrow> string option" where
  "ref_error ns ref =
     (case ref of
        None \<Rightarrow> None
      | Some s \<Rightarrow>
          if skr_Name s = [] \<or> skr_Key s = [] then Some ''kafka Secret refs require name and key''
          else if skr_Namespace s \<noteq> [] \<and> skr_Namespace s \<noteq> ns
          then Some (''kafka Secret '' @ skr_Name s @ '' must be in Milvus namespace '' @ ns)
          else None)"

definition zero_KafkaSecretRefs :: KafkaSecretRefs where
  "zero_KafkaSecretRefs = \<lparr>ksr_SASLUsernameSecret = None, ksr_SASLPasswordSecret = None, ksr_CACertSecret = None,
     ksr_CertSecret = None, ksr_KeySecret = None, ksr_KeyPasswordSecret = None\<rparr>"

definition parseKafkaSecretRefs :: "externals \<Rightarrow> Milvus \<Rightarrow> KafkaSecretRefs \<times> string option" where
  "parseKafkaSecretRefs x mc =
     (case fmlookup (Values_Data (ms_Conf (m_Spec mc))) ''kafka'' of
        None \<Rightarrow> (zero_KafkaSecretRefs, None)
      | Some raw \<Rightarrow>
          (let (refs, decoded) = x_asKafkaRefs x raw in
           if \<not> decoded then (refs, Some ''decode Kafka Secret refs'')
           else case List.map_filter (ref_error (om_Namespace mc)) (ref_list refs) of
             e # _ \<Rightarrow> (refs, Some e)
           | [] \<Rightarrow>
               if (ksr_CertSecret refs = None) \<noteq> (ksr_KeySecret refs = None)
               then (refs, Some ''kafka client certificate and key Secret refs must be configured together'')
               else if ksr_KeyPasswordSecret refs \<noteq> None \<and> ksr_KeySecret refs = None
               then (refs, Some ''kafka key password requires a client key Secret ref'')
               else (refs, None)))"

definition kafkaSecretEnv :: "KafkaSecretRefs \<Rightarrow> EnvVar list" where
  "kafkaSecretEnv refs =
     List.map_filter (\<lambda>(name, ref). map_option (\<lambda>r. secret_env name (skr_Name r) (skr_Key r)) ref)
       [(''KAFKA_SASLUSERNAME'', ksr_SASLUsernameSecret refs), (''KAFKA_SASLPASSWORD'', ksr_SASLPasswordSecret refs),
        (''KAFKA_SSL_TLSKEYPASSWORD'', ksr_KeyPasswordSecret refs)]"

section \<open>Configuration checksums\<close>

definition json_strings :: "string list \<Rightarrow> json" where
  "json_strings ss = JArr (map JStr ss)"

definition json_of_Values :: "Values \<Rightarrow> json" where
  "json_of_Values v = (case v of None \<Rightarrow> JNull | Some m \<Rightarrow> JObj m)"

definition json_pools :: "WoodpeckerBufferPool list \<Rightarrow> json" where
  "json_pools ps = JArr (map (\<lambda>p. JObj (fmap_of_list [(''name'', JStr (wbp_Name p)), (''seeds'', json_strings (wbp_Seeds p))])) ps)"

definition conf_document :: "MilvusSpec \<Rightarrow> smap \<Rightarrow> values_map" where
  "conf_document spec annotations =
     (let dep = ms_Dep spec; csum = fmget annotations KafkaSaslCheckSumAnnotation in
      fmap_of_list
       ((if csum \<noteq> [] then [(''kafka-sasl-checksum'', JStr csum)] else []) @
        (if kaf_SecretRef (dep_Kafka dep) \<noteq> [] then [(''kafka-secretRef'', JStr (kaf_SecretRef (dep_Kafka dep)))] else []) @
        (if wp_External (dep_WoodPecker dep)
         then [(''woodpecker-external'', JBool True), (''woodpecker-quorumBufferPools'', json_pools (wp_QuorumBufferPools (dep_WoodPecker dep)))]
         else []) @
        (if pul_Endpoints (dep_Pulsar dep) \<noteq> [] then [(''pulsar-endpoints'', json_strings (pul_Endpoints (dep_Pulsar dep)))] else []) @
        [(''conf'', json_of_Values (ms_Conf spec)), (''etcd-endpoints'', json_strings (etcd_Endpoints (dep_Etcd dep))),
         (''pulsar-endpoint'', JStr (pul_Endpoint (dep_Pulsar dep))),
         (''kafka-brokerList'', json_strings (kaf_BrokerList (dep_Kafka dep))),
         (''storage-endpoint'', JStr (st_Endpoint (dep_Storage dep)))]))"

definition getConfCheckSum :: "externals \<Rightarrow> MilvusSpec \<Rightarrow> smap \<Rightarrow> string" where
  "getConfCheckSum x spec annotations = x_sha256 x (x_marshal x (conf_document spec annotations))"

definition GetConfCheckSum :: "externals \<Rightarrow> MilvusSpec \<Rightarrow> string" where
  "GetConfCheckSum x spec = getConfCheckSum x spec fmempty"

definition GetConfCheckSumWithRefs :: "externals \<Rightarrow> Milvus \<Rightarrow> string" where
  "GetConfCheckSumWithRefs x m = getConfCheckSum x (m_Spec m) (om_Annotations m)"

section \<open>Facts\<close>

lemma merged_spec_total:
  "cs_ImagePullPolicy (MergeComponentSpec src dst) \<noteq> None" "cs_Resources (MergeComponentSpec src dst) \<noteq> None"
  by (simp_all add: MergeComponentSpec_def Let_def)

lemma overrides_total [simp]:
  "cs_ImagePullPolicy (ApplyDeploymentGroupOverrides s g) = cs_ImagePullPolicy s"
  "cs_Resources (ApplyDeploymentGroupOverrides s g) = cs_Resources s"
  by (simp_all add: ApplyDeploymentGroupOverrides_def split: option.splits)

lemma GetMergedComponentSpec_total:
  "GetMergedComponentSpec m c = Some s \<Longrightarrow> cs_ImagePullPolicy s \<noteq> None \<and> cs_Resources s \<noteq> None"
  using merged_spec_total by (auto simp: GetMergedComponentSpec_def split: option.splits)

lemma prune_stale:
  "v \<in> set (pruneStorageCredentialEnv env desired) \<Longrightarrow> ev_Name v \<in> set credential_names \<Longrightarrow>
     ev_Name v \<in> ev_Name ` set desired"
  by (auto simp: pruneStorageCredentialEnv_def)

lemma prune_keeps:
  "v \<in> set env \<Longrightarrow> ev_Name v \<notin> set credential_names \<or> ev_Name v \<in> ev_Name ` set desired \<Longrightarrow>
     v \<in> set (pruneStorageCredentialEnv env desired)"
  by (auto simp: pruneStorageCredentialEnv_def)

lemma distinct_prune: "distinct (map ev_Name env) \<Longrightarrow> distinct (map ev_Name (pruneStorageCredentialEnv env d))"
  by (simp add: pruneStorageCredentialEnv_def distinct_map_filter)

end
