(* ===== verification/Pod_Template.thy ===== *)
theory Pod_Template
  imports Component_Merge
begin

text \<open>
  Rendering of a component's pod template (deployment_updater.go, deployments.go,
  kafka_secrets.go, k8s_default_values.go).  \<open>updatePodTemplate\<close> overlays what the custom resource
  owns on the existing template and, when that changed something or the caller forces it, also
  the fields that only change together with a rollout.  \<open>None\<close> is a panic (undecodable values
  or a nil component).
\<close>

section \<open>The updater\<close>

record milvusDeploymentUpdater =
  up_Milvus :: Milvus
  up_component :: MilvusComponent
  up_storageEndpointEnv :: "EnvVar list"

definition upgradeStoppingAnnotation :: string where [key_defs]:
  "upgradeStoppingAnnotation = ''milvus.io/upgrade-stopping''"

definition isUpgradeStopping :: "Milvus \<Rightarrow> bool" where
  "isUpgradeStopping m \<longleftrightarrow> fmget (om_Annotations m) upgradeStoppingAnnotation = TrueStr"

definition updater_IsHPAEnabled :: "milvusDeploymentUpdater \<Rightarrow> bool" where
  "updater_IsHPAEnabled u =
     (let m = up_Milvus u; c = up_component u in
      if isUpgradeStopping m then False
      else if GetHPASpec c (m_Spec m) \<noteq> None then True
      else (case GetReplicas c (m_Spec m) of None \<Rightarrow> False | Some r \<Rightarrow> r < 0))"

definition GetArgs :: "milvusDeploymentUpdater \<Rightarrow> ComponentSpec \<Rightarrow> string list" where
  "GetArgs u merged =
     (let ret = (if cs_Commands merged \<noteq> [] then ''/milvus/tools/run.sh'' # cs_Commands merged
                 else [''/milvus/tools/run.sh'', ''milvus'', ''run''] @ GetRunCommands (up_component u))
      in if cs_RunWithSubProcess merged = Some True then ret @ [''--run-with-subprocess''] else ret)"

definition GetKafkaSecretRef :: "milvusDeploymentUpdater \<Rightarrow> string" where
  "GetKafkaSecretRef u =
     (let dep = ms_Dep (m_Spec (up_Milvus u)) in
      if dep_MsgStreamType dep \<noteq> MsgStreamTypeKafka then [] else kaf_SecretRef (dep_Kafka dep))"

definition IsUpgradingTo26 :: "externals \<Rightarrow> milvusDeploymentUpdater \<Rightarrow> bool" where
  "IsUpgradingTo26 x u \<longleftrightarrow>
     IsVersionGreaterThan2_6 x (m_Spec (up_Milvus u)) \<and> \<not> IsCurrentImageVersionGreaterThan2_6 x (up_Milvus u)"

definition RollingUpdateImageDependencyReady :: "externals \<Rightarrow> milvusDeploymentUpdater \<Rightarrow> bool" where
  "RollingUpdateImageDependencyReady x u =
     (let m = up_Milvus u; c = up_component u in
      if mst_ObservedGeneration (m_Status m) < om_Generation m then False
      else if mcp_Name c = ''cdc'' then True
      else if UseCdc (m_Spec m) \<and> \<not> IsImageUpdated Cdc m then False
      else (let deps = (if IsUpgradingTo26 x u then GetDependenciesFor2_6Upgrade c (m_Spec m)
                        else GetDependencies x c (m_Spec m))
            in list_all (\<lambda>dep. IsImageUpdated dep m) deps))"

section \<open>Metadata and scheduling\<close>

definition AnnotationCheckSum :: string where [key_defs]: "AnnotationCheckSum = ''checksum/config''"

definition is_service_name :: "string \<Rightarrow> bool" where
  "is_service_name n \<longleftrightarrow> n = ''proxy'' \<or> n = ''standalone''"

definition desiredPodTemplateLabels :: "milvusDeploymentUpdater \<Rightarrow> ComponentSpec \<Rightarrow> smap \<Rightarrow> smap \<Rightarrow> smap" where
  "desiredPodTemplateLabels u merged appLabels existing =
     (let name = mcp_Name (up_component u);
          labels = MergeLabels [cs_PodLabels merged, appLabels];
          labels = (if is_service_name name then fmupd ServiceLabel TrueStr labels else labels);
          labels = preserveExistingMetadataPrefixes labels existing;
          rolloutSlotKey = GetComponentGroupIdLabel name
      in (case fmlookup existing rolloutSlotKey of
            Some rolloutSlot \<Rightarrow> fmupd rolloutSlotKey rolloutSlot labels
          | None \<Rightarrow> labels))"

definition desiredPodTemplateAnnotations ::
  "externals \<Rightarrow> milvusDeploymentUpdater \<Rightarrow> ComponentSpec \<Rightarrow> smap \<Rightarrow> smap" where
  "desiredPodTemplateAnnotations x u merged existing =
     (let m = up_Milvus u;
          annotations = MergeAnnotations [cs_PodAnnotations merged];
          annotations = fmupd PodAnnotationUsingConfigMap (GetActiveConfigMap m) annotations;
          annotations = (if \<not> IsUpdateConfigMapOnly m
                         then fmupd AnnotationCheckSum (GetConfCheckSumWithRefs x m) annotations
                         else preserveExistingMetadataKeys annotations existing [AnnotationCheckSum])
      in preserveExistingMetadataPrefixes annotations existing)"

definition updatePodMeta ::
  "externals \<Rightarrow> milvusDeploymentUpdater \<Rightarrow> ComponentSpec \<Rightarrow> smap \<Rightarrow> PodTemplateSpec \<Rightarrow> PodTemplateSpec" where
  "updatePodMeta x u merged appLabels template =
     (if mcp_DeploymentGroup (up_component u) \<noteq> None then
        template\<lparr>pt_Labels := desiredPodTemplateLabels u merged appLabels (pt_Labels template),
                 pt_Annotations := desiredPodTemplateAnnotations x u merged (pt_Annotations template)\<rparr>
      else
        (let labels = MergeLabels [MergeLabels [pt_Labels template, cs_PodLabels merged], appLabels];
             annotations = MergeAnnotations [pt_Annotations template, cs_PodAnnotations merged];
             annotations = (if \<not> IsUpdateConfigMapOnly (up_Milvus u)
                            then fmupd AnnotationCheckSum (GetConfCheckSumWithRefs x (up_Milvus u)) annotations
                            else annotations)
         in template\<lparr>pt_Labels := labels, pt_Annotations := annotations\<rparr>))"

definition updateScheduleSpec :: "ComponentSpec \<Rightarrow> PodTemplateSpec \<Rightarrow> PodTemplateSpec" where
  "updateScheduleSpec merged template =
     template\<lparr>pt_Spec := (pt_Spec template)
       \<lparr>ps_SchedulerName := (if cs_SchedulerName merged \<noteq> [] then cs_SchedulerName merged else ps_SchedulerName (pt_Spec template)),
        ps_Affinity := cs_Affinity merged,
        ps_Tolerations := cs_Tolerations merged,
        ps_TopologySpreadConstraints := cs_TopologySpreadConstraints merged,
        ps_NodeSelector := cs_NodeSelector merged,
        ps_ImagePullSecrets := cs_ImagePullSecrets merged,
        ps_ServiceAccountName := cs_ServiceAccountName merged,
        ps_PriorityClassName := cs_PriorityClassName merged\<rparr>\<rparr>"

definition updateNetworkSettings :: "ComponentSpec \<Rightarrow> PodTemplateSpec \<Rightarrow> PodTemplateSpec" where
  "updateNetworkSettings merged template =
     template\<lparr>pt_Spec := (pt_Spec template)
       \<lparr>ps_HostNetwork := cs_HostNetwork merged,
        ps_DNSPolicy := (if cs_DNSPolicy merged \<noteq> [] then cs_DNSPolicy merged else ps_DNSPolicy (pt_Spec template))\<rparr>\<rparr>"

section \<open>Volumes\<close>

definition zero_VolumeMount :: VolumeMount where
  "zero_VolumeMount = \<lparr>vm_Name = [], vm_ReadOnly = False, vm_MountPath = [], vm_SubPath = [], vm_Other = JNull\<rparr>"

definition toolVolume :: Volume where "toolVolume = \<lparr>vol_Name = ''tools'', vol_Source = VolEmptyDir\<rparr>"

definition toolVolumeMount :: VolumeMount where
  "toolVolumeMount = zero_VolumeMount\<lparr>vm_Name := ''tools'', vm_MountPath := ''/milvus/tools''\<rparr>"

definition configVolumeMount :: VolumeMount where
  "configVolumeMount = zero_VolumeMount\<lparr>vm_Name := ''milvus-config'', vm_ReadOnly := True, vm_MountPath := ''/milvus/configs/operator''\<rparr>"

definition kafkaCAVolumeMount :: VolumeMount where
  "kafkaCAVolumeMount = zero_VolumeMount\<lparr>vm_Name := ''kafka-ca'', vm_ReadOnly := True, vm_MountPath := ''/milvus/configs/kafka-ca''\<rparr>"

definition dataVolumeMount :: VolumeMount where
  "dataVolumeMount = zero_VolumeMount\<lparr>vm_Name := ''milvus-data'', vm_MountPath := ''/var/lib/milvus''\<rparr>"

definition kafkaCAVolumeBySecret :: "string \<Rightarrow> Volume" where
  "kafkaCAVolumeBySecret name = \<lparr>vol_Name = ''kafka-ca'',
     vol_Source = VolSecret name [(''ca.pem'', ''ca.pem'')] (Some 292) (Some True)\<rparr>"

definition configVolumeByName :: "string \<Rightarrow> Volume" where
  "configVolumeByName name = \<lparr>vol_Name = ''milvus-config'', vol_Source = VolConfigMap name (Some 420) JNull\<rparr>"

definition emptyDirDataVolume :: Volume where
  "emptyDirDataVolume = \<lparr>vol_Name = ''milvus-data'', vol_Source = VolEmptyDir\<rparr>"

definition persisentDataVolumeByName :: "string \<Rightarrow> Volume" where
  "persisentDataVolumeByName name = \<lparr>vol_Name = ''milvus-data'', vol_Source = VolPVC name False\<rparr>"

definition getPVCNameByInstName :: "string \<Rightarrow> string" where
  "getPVCNameByInstName instName = instName @ ''-data''"

definition addVolume :: "Volume \<Rightarrow> Volume list \<Rightarrow> Volume list" where
  "addVolume volume volumes = upsert_by vol_Name volume volumes"

definition addVolumeMount :: "VolumeMount \<Rightarrow> VolumeMount list \<Rightarrow> VolumeMount list" where
  "addVolumeMount volumeMount volumeMounts = upsert_by vm_MountPath volumeMount volumeMounts"

definition removeVolumeMounts :: "string \<Rightarrow> VolumeMount list \<Rightarrow> VolumeMount list" where
  "removeVolumeMounts volumeName volumeMounts = filter (\<lambda>v. vm_Name v \<noteq> volumeName) volumeMounts"

definition removeVolumeMountsByPath :: "string \<Rightarrow> VolumeMount list \<Rightarrow> VolumeMount list" where
  "removeVolumeMountsByPath mountPath volumeMounts = filter (\<lambda>v. vm_MountPath v \<noteq> mountPath) volumeMounts"

definition fillVolumeDefaultValues :: "Volume \<Rightarrow> Volume" where
  "fillVolumeDefaultValues v =
     (case vol_Source v of
        VolConfigMap n None other \<Rightarrow> v\<lparr>vol_Source := VolConfigMap n (int32Ptr 420) other\<rparr>
      | VolSecret n items None opt \<Rightarrow> v\<lparr>vol_Source := VolSecret n items (int32Ptr 420) opt\<rparr>
      | _ \<Rightarrow> v)"

definition user_volumes :: "externals \<Rightarrow> milvusDeploymentUpdater \<Rightarrow> ComponentSpec \<Rightarrow> Volume list option" where
  "user_volumes x u merged = do {
     vols \<leftarrow> decode_all (\<lambda>v. map_option fillVolumeDefaultValues (x_asVolume x v))
               (case cs_Volumes merged of None \<Rightarrow> [] | Some vs \<Rightarrow> vs);
     let m = up_Milvus u;
     let builtInMq = GetMilvusBuiltInMQ (ms_Dep (m_Spec m));
     let vols = (case builtInMq of
         None \<Rightarrow> vols
       | Some mq \<Rightarrow>
           (if per_Enabled (mq_Persistence mq) then
              (let claim = pvc_ExistingClaim (per_PersistentVolumeClaim (mq_Persistence mq))
               in vols @ [persisentDataVolumeByName (if claim \<noteq> [] then claim else getPVCNameByInstName (om_Name m))])
            else vols @ [emptyDirDataVolume]));
     Some (if builtInMq = None \<and> com_RunAsNonRoot (ms_Com (m_Spec m)) \<and> GetVolumeIndex vols ''milvus-data'' = None
           then vols @ [emptyDirDataVolume] else vols) }"

definition updateUserDefinedVolumes ::
  "externals \<Rightarrow> milvusDeploymentUpdater \<Rightarrow> ComponentSpec \<Rightarrow> PodTemplateSpec \<Rightarrow> PodTemplateSpec option" where
  "updateUserDefinedVolumes x u merged template = do {
     vols \<leftarrow> user_volumes x u merged;
     Some (template\<lparr>pt_Spec := (pt_Spec template)\<lparr>ps_Volumes := fold addVolume vols (ps_Volumes (pt_Spec template))\<rparr>\<rparr>) }"

definition updateBuiltInVolumes :: "milvusDeploymentUpdater \<Rightarrow> PodTemplateSpec \<Rightarrow> PodTemplateSpec" where
  "updateBuiltInVolumes u template =
     (let cm = GetActiveConfigMap (up_Milvus u); secretRef = GetKafkaSecretRef u;
          builtInVolumes = [configVolumeByName cm, toolVolume] @
            (if secretRef \<noteq> [] then [kafkaCAVolumeBySecret secretRef] else [])
      in template\<lparr>pt_Annotations := fmupd PodAnnotationUsingConfigMap cm (pt_Annotations template),
           pt_Spec := (pt_Spec template)\<lparr>ps_Volumes := fold addVolume builtInVolumes (ps_Volumes (pt_Spec template))\<rparr>\<rparr>)"

section \<open>The config init container\<close>

definition cpuAndMemory :: "smap \<Rightarrow> smap" where
  "cpuAndMemory l = fmfilter (\<lambda>k. k = ''cpu'' \<or> k = ''memory'') l"

definition configContainerResources :: "ComponentSpec \<Rightarrow> Container list \<Rightarrow> ResourceRequirements" where
  "configContainerResources spec initContainers =
     (case find (\<lambda>c. ct_Name c = ''config'') (rev initContainers) of
        Some c \<Rightarrow> ct_Resources c
      | None \<Rightarrow> (case cs_ToolResources spec of
            Some r \<Rightarrow> r
          | None \<Rightarrow> (case cs_Resources spec of
                None \<Rightarrow> zero_ResourceRequirements
              | Some r \<Rightarrow> \<lparr>rr_Limits = cpuAndMemory (rr_Limits r), rr_Requests = cpuAndMemory (rr_Requests r)\<rparr>)))"

definition updateConfigSecurityContext :: "externals \<Rightarrow> Values \<Rightarrow> Container \<Rightarrow> Container option" where
  "updateConfigSecurityContext x vals container = do {
     let ctx = \<lparr>sc_RunAsNonRoot = Some True, sc_RunAsUser = Some 1000, sc_Other = JNull\<rparr>;
     ctx \<leftarrow> (if Values_Data vals \<noteq> fmempty then x_asSecurityContext x vals ctx else Some ctx);
     let ctx = (if ''runAsNonRoot'' |\<notin>| fmdom (Values_Data vals) \<and> sc_RunAsUser ctx = Some 0
                then ctx\<lparr>sc_RunAsNonRoot := Some False\<rparr> else ctx);
     Some (container\<lparr>ct_SecurityContext := Some ctx\<rparr>) }"

definition renderInitContainer ::
  "externals \<Rightarrow> Container \<Rightarrow> string \<Rightarrow> Values \<Rightarrow> ResourceRequirements \<Rightarrow> Container option" where
  "renderInitContainer x container toolImage securityContext resources = do {
     let (opImage, opPolicy) = x_OperatorImageInfo x;
     let container = container\<lparr>ct_Name := ''config'',
           ct_Image := (if toolImage = [] then opImage else toolImage),
           ct_ImagePullPolicy := opPolicy,
           ct_Command := [''/bin/sh''],
           ct_Args := [''/init.sh''],
           ct_VolumeMounts := [configVolumeMount, toolVolumeMount]\<rparr>;
     container \<leftarrow> updateConfigSecurityContext x securityContext container;
     Some (fillContainerDefaultValues (container\<lparr>ct_Resources := resources\<rparr>)) }"

definition updateConfigContainer ::
  "externals \<Rightarrow> milvusDeploymentUpdater \<Rightarrow> ComponentSpec \<Rightarrow> PodTemplateSpec \<Rightarrow> PodTemplateSpec option" where
  "updateConfigContainer x u merged template = do {
     let spec = m_Spec (up_Milvus u);
     let inits = ps_InitContainers (pt_Spec template);
     let resources = configContainerResources merged (GetInitContainers x (up_component u) spec);
     inits' \<leftarrow> (case GetContainerIndex inits ''config'' of
         None \<Rightarrow> map_option (\<lambda>c. inits @ [c])
                   (renderInitContainer x zero_Container (com_ToolImage (ms_Com spec)) (cs_SecurityContext merged) resources)
       | Some i \<Rightarrow> map_option (\<lambda>c. inits[i := c])
                   (renderInitContainer x (inits ! i) (com_ToolImage (ms_Com spec)) (cs_SecurityContext merged) resources));
     Some (template\<lparr>pt_Spec := (pt_Spec template)\<lparr>ps_InitContainers := inits'\<rparr>\<rparr>) }"

definition updateInitContainers ::
  "externals \<Rightarrow> milvusDeploymentUpdater \<Rightarrow> ComponentSpec \<Rightarrow> PodTemplateSpec \<Rightarrow> PodTemplateSpec option" where
  "updateInitContainers x u merged template = do {
     let spec = m_Spec (up_Milvus u);
     let userInits = GetInitContainers x (up_component u) spec;
     let idx = GetContainerIndex (ps_InitContainers (pt_Spec template)) ''config'';
     template \<leftarrow> (if idx = None \<or> com_UpdateToolImage (ms_Com spec)
       then updateConfigContainer x u merged template
       else do {
         let i = the idx;
         let inits = ps_InitContainers (pt_Spec template);
         c \<leftarrow> updateConfigSecurityContext x (cs_SecurityContext merged) (inits ! i);
         let c = (if cs_ToolResources merged \<noteq> None
                  then c\<lparr>ct_Resources := configContainerResources merged userInits\<rparr> else c);
         Some (template\<lparr>pt_Spec := (pt_Spec template)\<lparr>ps_InitContainers := inits[i := c]\<rparr>\<rparr>) });
     Some (template\<lparr>pt_Spec := (pt_Spec template)
       \<lparr>ps_InitContainers := fold (\<lambda>c. upsert_by ct_Name (fillContainerDefaultValues c)) userInits
                               (ps_InitContainers (pt_Spec template))\<rparr>\<rparr>) }"

section \<open>The milvus container\<close>

text \<open>\<open>strings.LastIndex\<close> of a character: -1 when absent.\<close>

definition last_index_char :: "string \<Rightarrow> char \<Rightarrow> int" where
  "last_index_char s c = (case last_index_by id s c of None \<Rightarrow> -1 | Some i \<Rightarrow> int i)"

definition supportsLayeredConfig :: "externals \<Rightarrow> string \<Rightarrow> string \<Rightarrow> bool" where
  "supportsLayeredConfig x img version =
     (let tag = last_index_char img CHR '':'';
          version' = (if version = [] then
                        (if CHR ''@'' \<in> set img then None
                         else if tag \<le> last_index_char img CHR ''/'' then None
                         else Some (drop (nat (tag + 1)) img))
                      else Some version)
      in case version' of
           None \<Rightarrow> False
         | Some vstr \<Rightarrow> (case x_ParseTolerant x vstr of
               None \<Rightarrow> False
             | Some v \<Rightarrow> sv_Major v > 2 \<or> (sv_Major v = 2 \<and> sv_Minor v \<ge> 5)))"

definition layeredEnv :: string where [key_defs]: "layeredEnv = ''MILVUS_OPERATOR_LAYERED_CONFIG''"

definition isRemovalVolumeMount :: "VolumeMount \<Rightarrow> bool" where
  "isRemovalVolumeMount volumeMount \<longleftrightarrow> vm_Name volumeMount = ''_remove''"

definition extractTargetMountPath :: "VolumeMount \<Rightarrow> string" where
  "extractTargetMountPath volumeMount = vm_MountPath volumeMount"

definition getUserDefinedVolumeMounts :: "milvusDeploymentUpdater \<Rightarrow> ComponentSpec \<Rightarrow> VolumeMount list" where
  "getUserDefinedVolumeMounts u merged =
     (let ret = cs_VolumeMounts merged; m = up_Milvus u in
      if GetMilvusBuiltInMQ (ms_Dep (m_Spec m)) \<noteq> None \<or>
         (com_RunAsNonRoot (ms_Com (m_Spec m)) \<and> GetVolumeMountIndex ret (vm_MountPath dataVolumeMount) = None)
      then ret @ [dataVolumeMount] else ret)"

definition user_mount_step :: "VolumeMount \<Rightarrow> VolumeMount list \<Rightarrow> VolumeMount list" where
  "user_mount_step vm mounts =
     (if isRemovalVolumeMount vm then removeVolumeMountsByPath (extractTargetMountPath vm) mounts
      else addVolumeMount vm mounts)"

definition desired_env :: "externals \<Rightarrow> milvusDeploymentUpdater \<Rightarrow> ComponentSpec \<Rightarrow> EnvVar list" where
  "desired_env x u merged =
     (let m = up_Milvus u; dep = ms_Dep (m_Spec m); endpointEnv = up_storageEndpointEnv u;
          env = MergeEnvVar endpointEnv (cs_Env merged);
          env = MergeEnvVar env (GetStorageSecretRefEnv (st_SecretRef (dep_Storage dep)));
          env = MergeEnvVar env (GetKafkaSecretRefEnv (GetKafkaSecretRef u));
          env = (if dep_MsgStreamType dep = MsgStreamTypeKafka
                 then MergeEnvVar env (kafkaSecretEnv (fst (parseKafkaSecretRefs x m))) else env)
      in fold (\<lambda>resolved env. if (case ev_ValueFrom resolved of None \<Rightarrow> False | Some s \<Rightarrow> evs_SecretKeyRef s \<noteq> None)
                              then MergeEnvVar env [resolved] else env)
           endpointEnv env)"

definition container_ports :: "milvusDeploymentUpdater \<Rightarrow> ContainerPort list option" where
  "container_ports u =
     (let c = up_component u; spec = m_Spec (up_Milvus u);
          metricPort = \<lparr>cp_Name = ''metrics'', cp_ContainerPort = MetricPort, cp_Protocol = ''TCP'', cp_Other = JNull\<rparr>
      in if is_service_name (mcp_Name c) then do {
           port \<leftarrow> GetComponentPort c spec;
           restfulPort \<leftarrow> GetRestfulPort c spec;
           Some ([\<lparr>cp_Name = GetPortName c, cp_ContainerPort = port, cp_Protocol = ''TCP'', cp_Other = JNull\<rparr>, metricPort] @
                 (if restfulPort \<noteq> 0
                  then [\<lparr>cp_Name = ''restful'', cp_ContainerPort = restfulPort, cp_Protocol = ''TCP'', cp_Other = JNull\<rparr>]
                  else [])) }
         else Some [metricPort])"

text \<open>When the image of the running container follows the spec.\<close>

definition image_follows_spec :: "externals \<Rightarrow> milvusDeploymentUpdater \<Rightarrow> bool \<Rightarrow> bool" where
  "image_follows_spec x u forceUpdateImage \<longleftrightarrow>
     forceUpdateImage \<or> \<not> IsRollingUpdateEnabled (up_Milvus u) \<or>
     com_ImageUpdateMode (ms_Com (m_Spec (up_Milvus u))) = ImageUpdateModeAll \<or>
     com_ImageUpdateMode (ms_Com (m_Spec (up_Milvus u))) = ImageUpdateModeForce \<or>
     RollingUpdateImageDependencyReady x u"

definition format_bool :: "bool \<Rightarrow> string" where
  "format_bool b = (if b then ''true'' else ''false'')"

definition zero_SecurityContext :: SecurityContext where
  "zero_SecurityContext = \<lparr>sc_RunAsNonRoot = None, sc_RunAsUser = None, sc_Other = JNull\<rparr>"

text \<open>The container after the update and whether the layered configuration was switched on.\<close>

definition update_container ::
  "externals \<Rightarrow> milvusDeploymentUpdater \<Rightarrow> ComponentSpec \<Rightarrow> bool \<Rightarrow> Container \<Rightarrow> (Container \<times> bool) option" where
  "update_container x u merged forceUpdateImage container = do {
     let previouslyLayered = list_ex (\<lambda>e. ev_Name e = layeredEnv \<and> ev_Value e = ''true'') (ct_Env container);
     let env = desired_env x u merged;
     ports \<leftarrow> container_ports u;
     pullPolicy \<leftarrow> cs_ImagePullPolicy merged;
     resources \<leftarrow> cs_Resources merged;
     let img = (if image_follows_spec x u forceUpdateImage then cs_Image merged else ct_Image container);
     let version = (if img = cs_Image merged then cs_Version merged else []);
     let layered = supportsLayeredConfig x img version;
     let env' = MergeEnvVar (MergeEnvVar (pruneStorageCredentialEnv (ct_Env container) env) env)
                  [\<lparr>ev_Name = layeredEnv, ev_Value = format_bool layered, ev_ValueFrom = None\<rparr>];
     sc \<leftarrow> (if cs_SecurityContext merged \<noteq> None
           then map_option Some (x_asSecurityContext x (cs_SecurityContext merged)
                  (case ct_SecurityContext container of None \<Rightarrow> zero_SecurityContext | Some s \<Rightarrow> s))
           else Some (ct_SecurityContext container));
     Some (container\<lparr>ct_Args := GetArgs u merged, ct_Env := env', ct_Ports := ports,
             ct_VolumeMounts := fold user_mount_step (getUserDefinedVolumeMounts u merged) (ct_VolumeMounts container),
             ct_ImagePullPolicy := pullPolicy, ct_Image := img, ct_Resources := resources, ct_SecurityContext := sc\<rparr>,
           layered \<and> \<not> previouslyLayered) }"

definition updateMilvusContainer ::
  "externals \<Rightarrow> milvusDeploymentUpdater \<Rightarrow> ComponentSpec \<Rightarrow> bool \<Rightarrow> PodTemplateSpec \<Rightarrow> PodTemplateSpec option" where
  "updateMilvusContainer x u merged forceUpdateImage template = do {
     let name = mcp_Name (up_component u);
     let cts = ps_Containers (pt_Spec template);
     let cts = (if GetContainerIndex cts name = None then cts @ [zero_Container\<lparr>ct_Name := name\<rparr>] else cts);
     let i = the (GetContainerIndex cts name);
     (c, needConfig) \<leftarrow> update_container x u merged forceUpdateImage (cts ! i);
     let template = template\<lparr>pt_Spec := (pt_Spec template)\<lparr>ps_Containers := cts[i := c]\<rparr>\<rparr>;
     (if needConfig then updateConfigContainer x u merged template else Some template) }"

section \<open>Kafka secrets\<close>

function fresh_name :: "string list \<Rightarrow> string \<Rightarrow> string" where
  "fresh_name names v = (if v \<in> set names then fresh_name names (v @ ''-operator'') else v)"
  by pat_completeness auto
termination
proof (relation "measure (\<lambda>(names, v). card {n \<in> set names. length v \<le> length n})", simp)
  fix names v
  assume v: "v \<in> set (names :: string list)"
  let ?long = "{n \<in> set names. length (v @ ''-operator'') \<le> length n}"
  have "v \<notin> ?long" by simp
  moreover have "v \<in> {n \<in> set names. length v \<le> length n}" using v by simp
  moreover have "?long \<subseteq> {n \<in> set names. length v \<le> length n}" by auto
  ultimately have "?long \<subset> {n \<in> set names. length v \<le> length n}" by blast
  then show "((names, v @ ''-operator''), names, v) \<in> measure (\<lambda>(names, v). card {n \<in> set names. length v \<le> length n})"
    by (auto intro!: psubset_card_mono)
qed

declare fresh_name.simps [simp del]

lemma fresh_name_fresh: "fresh_name names v \<notin> set names"
  by (induction names v rule: fresh_name.induct) (subst fresh_name.simps, auto)

definition user_volume_names :: "Values list \<Rightarrow> string list" where
  "user_volume_names vols =
     List.map_filter (\<lambda>v. case fmlookup (Values_Data v) ''name'' of Some (JStr n) \<Rightarrow> Some n | _ \<Rightarrow> None) vols"

definition managed_names :: "PodTemplateSpec \<Rightarrow> string \<Rightarrow> string list" where
  "managed_names previous name =
     [''kafka-ssl'', ''kafka-passwords''] @
     (case GetContainerIndex (ps_Containers (pt_Spec previous)) name of
        None \<Rightarrow> []
      | Some i \<Rightarrow> map vm_Name (filter (\<lambda>m. vm_MountPath m = ''/secrets/kafka/ssl'')
                    (ct_VolumeMounts (ps_Containers (pt_Spec previous) ! i))))"

definition kafka_sources :: "KafkaSecretRefs \<Rightarrow> (string \<times> string \<times> string) list" where
  "kafka_sources refs =
     List.map_filter (\<lambda>(ref, path). map_option (\<lambda>r. (skr_Name r, skr_Key r, path)) ref)
       [(ksr_CACertSecret refs, ''ca-cert''), (ksr_CertSecret refs, ''tls.crt''), (ksr_KeySecret refs, ''tls.key'')]"

definition injectKafkaSecretsIntoTemplate ::
  "externals \<Rightarrow> PodTemplateSpec \<Rightarrow> Milvus \<Rightarrow> string \<Rightarrow> Values list \<Rightarrow> PodTemplateSpec \<Rightarrow> PodTemplateSpec" where
  "injectKafkaSecretsIntoTemplate x previous mc name userVolumes t =
     (case GetContainerIndex (ps_Containers (pt_Spec t)) name of
        None \<Rightarrow> t
      | Some idx \<Rightarrow>
          (let refs = (if dep_MsgStreamType (ms_Dep (m_Spec mc)) = MsgStreamTypeKafka
                       then fst (parseKafkaSecretRefs x mc) else zero_KafkaSecretRefs);
               userNames = user_volume_names userVolumes;
               managed = managed_names previous name;
               keep = (\<lambda>n. n \<notin> set managed \<or> n \<in> set userNames);
               c = ps_Containers (pt_Spec t) ! idx;
               vols = filter (\<lambda>v. keep (vol_Name v)) (ps_Volumes (pt_Spec t));
               mounts = filter (\<lambda>m. keep (vm_Name m)) (ct_VolumeMounts c);
               volumeName = fresh_name userNames ''kafka-ssl'';
               sources = kafka_sources refs;
               vols = (if sources \<noteq> [] then addVolume \<lparr>vol_Name = volumeName, vol_Source = VolProjectedSecrets sources (Some 420)\<rparr> vols
                       else vols);
               mounts = (if sources \<noteq> []
                         then addVolumeMount (zero_VolumeMount\<lparr>vm_Name := volumeName, vm_MountPath := ''/secrets/kafka/ssl'', vm_ReadOnly := True\<rparr>) mounts
                         else mounts)
           in t\<lparr>pt_Annotations := fmdrop ''checksum/kafka-ssl'' (fmdrop ''checksum/kafka-passwords'' (pt_Annotations t)),
                pt_Spec := (pt_Spec t)\<lparr>ps_Volumes := vols,
                  ps_Containers := (ps_Containers (pt_Spec t))[idx := c\<lparr>ct_VolumeMounts := mounts\<rparr>]\<rparr>\<rparr>))"

section \<open>Fields updated only together with a rollout\<close>

definition zero_Probe :: "ProbeHandler \<Rightarrow> Probe" where
  "zero_Probe h = \<lparr>pb_Handler = h, pb_InitialDelaySeconds = 0, pb_TimeoutSeconds = 0, pb_PeriodSeconds = 0,
     pb_SuccessThreshold = 0, pb_FailureThreshold = 0\<rparr>"

definition GetDefaultStartupProbe :: Probe where
  "GetDefaultStartupProbe = (zero_Probe (TCPSocket (IntVal 9091)))
     \<lparr>pb_TimeoutSeconds := 3, pb_PeriodSeconds := 10, pb_FailureThreshold := 18, pb_SuccessThreshold := 1\<rparr>"

definition GetDefaultLivenessProbe :: Probe where
  "GetDefaultLivenessProbe = (zero_Probe (TCPSocket (IntVal 9091)))
     \<lparr>pb_TimeoutSeconds := 10, pb_PeriodSeconds := 15, pb_FailureThreshold := 3, pb_SuccessThreshold := 1\<rparr>"

definition GetDefaultReadinessProbe :: Probe where
  "GetDefaultReadinessProbe = (zero_Probe (HTTPGet ''/healthz'' (IntVal 9091) ''HTTP''))
     \<lparr>pb_TimeoutSeconds := 3, pb_PeriodSeconds := 15, pb_FailureThreshold := 2, pb_SuccessThreshold := 1\<rparr>"

definition or_default :: "'a option \<Rightarrow> 'a \<Rightarrow> 'a option" where
  "or_default v d = (case v of None \<Rightarrow> Some d | Some a \<Rightarrow> Some a)"

definition updateProbes :: "externals \<Rightarrow> ComponentSpec \<Rightarrow> Container \<Rightarrow> Container option" where
  "updateProbes x spec container = do {
     probes \<leftarrow> (if cs_Probes spec \<noteq> None then x_asProbes x (cs_Probes spec)
               else Some \<lparr>prb_StartupProbe = None, prb_LivenessProbe = None, prb_ReadinessProbe = None\<rparr>);
     Some (container\<lparr>ct_StartupProbe := or_default (prb_StartupProbe probes) GetDefaultStartupProbe,
             ct_LivenessProbe := or_default (prb_LivenessProbe probes) GetDefaultLivenessProbe,
             ct_ReadinessProbe := or_default (prb_ReadinessProbe probes) GetDefaultReadinessProbe\<rparr>) }"

definition updateBuiltInVolumeMounts :: "milvusDeploymentUpdater \<Rightarrow> PodTemplateSpec \<Rightarrow> PodTemplateSpec" where
  "updateBuiltInVolumeMounts u template =
     (let cts = ps_Containers (pt_Spec template) in
      case GetContainerIndex cts (mcp_Name (up_component u)) of
        None \<Rightarrow> template
      | Some i \<Rightarrow>
          (let builtIn = [configVolumeMount, toolVolumeMount] @ (if GetKafkaSecretRef u \<noteq> [] then [kafkaCAVolumeMount] else []);
               mounts = fold addVolumeMount builtIn (removeVolumeMounts ''milvus-config'' (ct_VolumeMounts (cts ! i)))
           in template\<lparr>pt_Spec := (pt_Spec template)\<lparr>ps_Containers := cts[i := (cts ! i)\<lparr>ct_VolumeMounts := mounts\<rparr>]\<rparr>\<rparr>))"

definition oneMonthSeconds :: int where "oneMonthSeconds = 24 * 30 * 3600"

definition updateSomeFieldsOnlyWhenRolling ::
  "externals \<Rightarrow> milvusDeploymentUpdater \<Rightarrow> ComponentSpec \<Rightarrow> PodTemplateSpec \<Rightarrow> PodTemplateSpec option" where
  "updateSomeFieldsOnlyWhenRolling x u merged template = do {
     let template = updateBuiltInVolumeMounts u (updateBuiltInVolumes u template);
     template \<leftarrow> updateConfigContainer x u merged template;
     let name = mcp_Name (up_component u);
     let cts = ps_Containers (pt_Spec template);
     i \<leftarrow> GetContainerIndex cts name;
     c \<leftarrow> updateProbes x merged (cts ! i);
     let c = (if is_service_name name then c\<lparr>ct_PreStopExec := Some [''sleep'', ''30'']\<rparr> else c);
     Some (template\<lparr>pt_Labels := (if is_service_name name then fmupd ServiceLabel TrueStr (pt_Labels template) else pt_Labels template),
             pt_Spec := (pt_Spec template)\<lparr>ps_Containers := cts[i := c],
               ps_TerminationGracePeriodSeconds := Some oneMonthSeconds\<rparr>\<rparr>) }"

section \<open>The whole template\<close>

definition updateSidecars :: "externals \<Rightarrow> milvusDeploymentUpdater \<Rightarrow> PodTemplateSpec \<Rightarrow> PodTemplateSpec option" where
  "updateSidecars x u template = do {
     sidecars \<leftarrow> GetSideCars x (up_component u) (m_Spec (up_Milvus u));
     Some (template\<lparr>pt_Spec := (pt_Spec template)\<lparr>ps_Containers := fold (upsert_by ct_Name) sidecars (ps_Containers (pt_Spec template))\<rparr>\<rparr>) }"

definition updateRunAsNonRoot :: "milvusDeploymentUpdater \<Rightarrow> PodTemplateSpec \<Rightarrow> PodTemplateSpec" where
  "updateRunAsNonRoot u template =
     (if com_RunAsNonRoot (ms_Com (m_Spec (up_Milvus u)))
      then template\<lparr>pt_Spec := (pt_Spec template)\<lparr>ps_SecurityContext :=
             Some \<lparr>psc_RunAsNonRoot = Some True, psc_RunAsUser = Some 1000, psc_FSGroup = Some 1000, psc_Other = JNull\<rparr>\<rparr>\<rparr>
      else template)"

definition apply_crd ::
  "externals \<Rightarrow> milvusDeploymentUpdater \<Rightarrow> ComponentSpec \<Rightarrow> smap \<Rightarrow> bool \<Rightarrow> PodTemplateSpec \<Rightarrow> PodTemplateSpec option" where
  "apply_crd x u merged appLabels forceUpdateAll currentTemplate = do {
     let t = updatePodMeta x u merged appLabels currentTemplate;
     t \<leftarrow> updateInitContainers x u merged t;
     t \<leftarrow> updateUserDefinedVolumes x u merged t;
     let t = updateScheduleSpec merged t;
     t \<leftarrow> updateMilvusContainer x u merged forceUpdateAll t;
     let t = injectKafkaSecretsIntoTemplate x currentTemplate (up_Milvus u) (mcp_Name (up_component u))
               (case cs_Volumes merged of None \<Rightarrow> [] | Some vs \<Rightarrow> vs) t;
     t \<leftarrow> updateSidecars x u t;
     Some (updateRunAsNonRoot u (updateNetworkSettings merged t)) }"

definition updatePodTemplate ::
  "externals \<Rightarrow> milvusDeploymentUpdater \<Rightarrow> smap \<Rightarrow> bool \<Rightarrow> PodTemplateSpec \<Rightarrow> PodTemplateSpec option" where
  "updatePodTemplate x u appLabels forceUpdateAll currentTemplate = do {
     merged \<leftarrow> GetMergedComponentSpec (up_Milvus u) (up_component u);
     t \<leftarrow> apply_crd x u merged appLabels forceUpdateAll currentTemplate;
     if t \<noteq> currentTemplate \<or> forceUpdateAll then updateSomeFieldsOnlyWhenRolling x u merged t else Some t }"

text \<open>When nothing in the custom resource changed and the caller does not force it, the template
  is left exactly as it is: operator defaults alone never restart pods.\<close>

lemma updatePodTemplate_unchanged:
  "GetMergedComponentSpec (up_Milvus u) (up_component u) = Some merged \<Longrightarrow>
   apply_crd x u merged appLabels False t = Some t \<Longrightarrow>
   updatePodTemplate x u appLabels False t = Some t"
  by (simp add: updatePodTemplate_def)

end
