(* ===== verification/Rollout_Util.thy ===== *)
theory Rollout_Util
  imports Client Pod_Template
begin

text \<open>
  pkg/controllers/rollout_util.go (\<open>K8sUtilImpl\<close>): reading the one-deployment workload, saving
  objects in controller revisions, guarded create, orphan delete, marking the current slot, and
  the stability test of a Deployment.
\<close>

section \<open>Generic writes\<close>

text \<open>\<open>UpdateAndRequeue\<close> never succeeds: after a successful update it asks for a requeue.\<close>

definition UpdateMilvusAndRequeue :: "'w Client \<Rightarrow> Milvus \<Rightarrow> ('w, 'a) op" where [op_defs]:
  "UpdateMilvusAndRequeue cli m =
     op_bind (op_wrap ''update object'' (cli_UpdateMilvus cli m)) (\<lambda>_. fail (Wrap ErrRequeue ''update and requeue''))"

definition UpdateDeploymentAndRequeue :: "'w Client \<Rightarrow> Deployment \<Rightarrow> ('w, 'a) op" where [op_defs]:
  "UpdateDeploymentAndRequeue cli d =
     op_bind (op_wrap ''update object'' (cli_UpdateDeployment cli d)) (\<lambda>_. fail (Wrap ErrRequeue ''update and requeue''))"

text \<open>\<open>CreateObject\<close> with the reads and the create of the object's kind.\<close>

definition CreateObject :: "('w, 'b) op \<Rightarrow> ('w, unit) op \<Rightarrow> ('w, unit) op" where
  "CreateObject get_it create_it = do {
     r \<leftarrow> get_it;
     (case r of
        Inr _ \<Rightarrow> ret ()
      | Inl err \<Rightarrow> if \<not> IsNotFound err then fail (Wrap err ''check object exist'') else create_it) }"

definition SaveObject :: "'w Client \<Rightarrow> Milvus \<Rightarrow> string \<Rightarrow> SavedObject \<Rightarrow> ('w, unit) op" where
  "SaveObject cli mc name obj =
     CreateObject (cli_GetRevision cli (om_Namespace mc) name) (cli_CreateRevision cli (om_Namespace mc) name obj)"

definition GetSavedObject :: "'w Client \<Rightarrow> string \<Rightarrow> string \<Rightarrow> ('w, SavedObject) op" where
  "GetSavedObject cli ns name = op_wrap ''get saved object'' (cli_GetRevision cli ns name)"

text \<open>\<open>OrphanDelete\<close> with the delete of the object's kind: deleting something that still exists
  requeues until it is gone.\<close>

definition OrphanDelete :: "('w, unit) op \<Rightarrow> ('w, unit) op" where
  "OrphanDelete delete_it = do {
     r \<leftarrow> delete_it;
     (case r of
        Inl err \<Rightarrow> if \<not> IsNotFound err then fail (Wrap err ''delete old object'') else ret ()
      | Inr _ \<Rightarrow> fail ErrRequeue) }"

definition MarkMilvusComponentGroupId :: "externals \<Rightarrow> 'w Client \<Rightarrow> Milvus \<Rightarrow> MilvusComponent \<Rightarrow> int \<Rightarrow> ('w, unit) op" where [op_defs]:
  "MarkMilvusComponentGroupId x cli mc c groupId =
     (if GetCurrentGroupId mc (GetStateKey x c) = itoa groupId then ret ()
      else UpdateMilvusAndRequeue cli (SetCurrentGroupID (GetStateKey x c) groupId mc))"

section \<open>Reads\<close>

definition GetOldDeploy :: "'w Client \<Rightarrow> Milvus \<Rightarrow> MilvusComponent \<Rightarrow> ('w, Deployment) op" where
  "GetOldDeploy cli mc c =
     op_bind (op_wrap (''list '' @ mcp_Name c @ '' deployments'')
       (cli_ListDeployments cli (om_Namespace mc) (GetSelectorLabels c (om_Name mc))))
     (\<lambda>items.
       (let deploys = filter (\<lambda>d. MatchesDeploymentGroup c (om_Labels d) \<and> GetLabelGroupID (mcp_Name c) d = []) items
        in if length deploys > 1
           then fail (Errorf (''unexpected: more than 1 old '' @ mcp_Name c @ '' deployment found''))
           else if length deploys < 1
           then fail (KNotFound (''component='' @ mcp_Name c @ '',instance='' @ om_Name mc))
           else ret (deploys ! 0)))"

definition ListOldReplicaSets :: "'w Client \<Rightarrow> Milvus \<Rightarrow> MilvusComponent \<Rightarrow> ('w, ReplicaSet list) op" where
  "ListOldReplicaSets cli mc c =
     op_bind (op_wrap ''list component replica sets'' (cli_ListReplicaSets cli (om_Namespace mc) (GetSelectorLabels c (om_Name mc))))
     (\<lambda>items. ret (filter (\<lambda>rs. MatchesDeploymentGroup c (om_Labels rs) \<and> GetLabelGroupID (mcp_Name c) rs = []) items))"

definition ListOldPods :: "'w Client \<Rightarrow> Milvus \<Rightarrow> MilvusComponent \<Rightarrow> ('w, Pod list) op" where
  "ListOldPods cli mc c =
     op_bind (op_wrap ''list component pods'' (cli_ListPods cli (om_Namespace mc) (GetSelectorLabels c (om_Name mc))))
     (\<lambda>items. ret (filter (\<lambda>p. MatchesDeploymentGroup c (om_Labels p) \<and> GetLabelGroupID (mcp_Name c) p = []) items))"

text \<open>A Deployment without a selector makes \<open>ListDeployPods\<close> panic.\<close>

definition ListDeployPods :: "'w Client \<Rightarrow> Deployment \<Rightarrow> ('w, Pod list) op" where
  "ListDeployPods cli deploy =
     op_bind (lift_result (or_panic ''nil selector'' (d_Selector deploy))) (\<lambda>labels.
     op_bind (op_wrap ''list pods'' (cli_ListPods cli (om_Namespace deploy) labels)) (\<lambda>items.
     ret (filter (\<lambda>pod. pod_Reason pod \<noteq> ''Evicted'') items)))"

section \<open>Stability\<close>

definition GetTerminatingPods :: "Pod list \<Rightarrow> Pod list" where
  "GetTerminatingPods pods = filter (\<lambda>pod. om_DeletionTimestamp pod \<noteq> None) pods"

text \<open>A pod is appended once per ready condition that is not true.\<close>

definition GetNotReadyPods :: "Pod list \<Rightarrow> Pod list" where
  "GetNotReadyPods pods = concat (map (\<lambda>pod.
     if pod_Phase pod \<noteq> ''Running'' then [pod]
     else map (\<lambda>_. pod) (filter (\<lambda>cond. pc_Type cond = ''Ready'' \<and> pc_Status cond \<noteq> ConditionTrue) (pod_Conditions pod))) pods)"

fun first_false :: "nat \<Rightarrow> bool list \<Rightarrow> nat option" where
  "first_false i [] = None"
| "first_false i (v # vs) = (if \<not> v then Some i else first_false (Suc i) vs)"

definition logicAnd :: "bool list \<Rightarrow> bool \<times> int" where
  "logicAnd b = (case first_false 0 b of Some i \<Rightarrow> (False, int i) | None \<Rightarrow> (True, -1))"

definition stable_reasons :: "string list" where
  "stable_reasons = [''has terminating pods'', ''has not ready pods'', ''pods less than expected replicas'',
     ''observed generation is not equal to generation'', ''replicas is not equal to status replicas'',
     ''not all replicas updated'', ''not all replicas available'', ''not all replicas ready'', ''has unavailable replicas'']"

definition stable_conditions :: "Deployment \<Rightarrow> Pod list \<Rightarrow> bool list" where
  "stable_conditions deploy allPods =
     (let deployReplicas = getDeployReplicas deploy; st = d_Status deploy in
      [length (GetTerminatingPods allPods) < 1,
       length (GetNotReadyPods allPods) < 1,
       int (length allPods) = deployReplicas,
       dst_ObservedGeneration st = om_Generation deploy,
       to_int32 deployReplicas = dst_Replicas st,
       dst_Replicas st = dst_UpdatedReplicas st,
       dst_Replicas st = dst_AvailableReplicas st,
       dst_Replicas st = dst_ReadyReplicas st,
       dst_UnavailableReplicas st < 1])"

definition DeploymentIsStable :: "Deployment \<Rightarrow> Pod list \<Rightarrow> bool \<times> string" where
  "DeploymentIsStable deploy allPods =
     (let (isStable, failedIndex) = logicAnd (stable_conditions deploy allPods) in
      if isStable then (isStable, []) else (isStable, stable_reasons ! nat failedIndex))"

text \<open>\<open>GetDeploymentGroupId\<close>: the slot number of a Deployment, from its labels.\<close>

definition GetDeploymentGroupId :: "Deployment \<Rightarrow> go_error + int" where
  "GetDeploymentGroupId deploy =
     (case atoi (GetLabelGroupID (fmget (om_Labels deploy) AppLabelComponent) deploy) of
        None \<Rightarrow> Inl (Wrap (Errorf ''invalid syntax'') ''parse component group id'')
      | Some i \<Rightarrow> Inr i)"

section \<open>Facts\<close>

lemma first_false_spec:
  "first_false k b = (if list_all id b then None else Some (k + length (takeWhile id b)))"
  by (induction b arbitrary: k) auto

lemma logicAnd_true_iff: "fst (logicAnd b) \<longleftrightarrow> list_all id b"
  by (simp add: logicAnd_def first_false_spec)

lemma logicAnd_false_index:
  assumes "\<not> fst (logicAnd b)"
  shows "0 \<le> snd (logicAnd b) \<and> nat (snd (logicAnd b)) < length b \<and> \<not> b ! nat (snd (logicAnd b)) \<and>
    (\<forall>j < nat (snd (logicAnd b)). b ! j)"
proof -
  have "\<not> list_all id b" using assms by (simp add: logicAnd_true_iff)
  then have len: "length (takeWhile id b) < length b"
    by (metis Ball_set id_apply length_takeWhile_le order_less_le takeWhile_eq_all_conv takeWhile_eq_take take_all_iff)
  moreover have "\<not> b ! length (takeWhile id b)"
    using nth_length_takeWhile [OF len] by simp
  moreover have "b ! j" if "j < length (takeWhile id b)" for j
    using that nth_mem [of j "takeWhile id b"] by (metis id_apply set_takeWhileD takeWhile_nth)
  ultimately show ?thesis
    using \<open>\<not> list_all id b\<close> by (simp add: logicAnd_def first_false_spec)
qed

lemma stable_conditions_length [simp]: "length (stable_conditions d ps) = 9" "length stable_reasons = 9"
  by (simp_all add: stable_conditions_def stable_reasons_def Let_def)

lemma GetNotReadyPods_empty_iff:
  "GetNotReadyPods pods = [] \<longleftrightarrow>
     (\<forall>pod \<in> set pods. pod_Phase pod = ''Running'' \<and>
        (\<forall>c \<in> set (pod_Conditions pod). pc_Type c = ''Ready'' \<longrightarrow> pc_Status c = ConditionTrue))"
  by (induction pods) (auto simp: GetNotReadyPods_def filter_empty_conv)

lemma GetTerminatingPods_empty_iff:
  "GetTerminatingPods pods = [] \<longleftrightarrow> (\<forall>pod \<in> set pods. om_DeletionTimestamp pod = None)"
  by (auto simp: GetTerminatingPods_def filter_empty_conv)

lemma GetDeploymentGroupId_slot:
  assumes "fmget (om_Labels d) AppLabelComponent = c" "GetLabelGroupID c d = itoa i" "in_int64 i"
  shows "GetDeploymentGroupId d = Inr i"
  using assms by (simp add: GetDeploymentGroupId_def atoi_itoa)

context deploy_store
begin

lemma ListDeployPods_world: "run_state (ListDeployPods cli d) w = (r, w') \<Longrightarrow> w' = w"
  by (auto simp: ListDeployPods_def run_op_simps split: prod.splits sum.splits dest: list_pods_world)

lemma ListDeployPods_pods:
  "run_state (ListDeployPods cli d) w = (Inr ps, w') \<Longrightarrow>
     \<exists>labels. d_Selector d = Some labels \<and>
       ps = filter (\<lambda>pod. pod_Reason pod \<noteq> ''Evicted'') (selected (om_Namespace d) labels (pods w))"
  by (cases "d_Selector d")
    (auto simp: ListDeployPods_def run_op_simps split: prod.splits sum.splits dest!: list_pods)

lemma GetOldDeploy_world: "run_state (GetOldDeploy cli mc c) w = (r, w') \<Longrightarrow> w' = w"
  by (auto simp: GetOldDeploy_def run_op_simps Let_def split: prod.splits sum.splits if_splits
      dest: list_deployments_world)

text \<open>An update-and-requeue always reports an error and leaves either the old or the written object.\<close>

lemma UpdateMilvusAndRequeue_cases:
  assumes "run_state (UpdateMilvusAndRequeue cli m) w = (r, w')"
  obtains (unchanged) e where "r = Inl e" "w' = w"
    | (written) e where "r = Inl e" "milvus w' = m" "pods w' = pods w" "deps w' = deps w"
proof -
  obtain r1 where u: "run_state (cli_UpdateMilvus cli m) w = (r1, w')"
    using assms by (auto simp: UpdateMilvusAndRequeue_def run_op_simps split: prod.splits sum.splits)
  obtain e where "r = Inl e"
    using assms by (auto simp: UpdateMilvusAndRequeue_def run_op_simps split: prod.splits sum.splits)
  with update_milvus_cases [OF u] unchanged written show thesis by metis
qed

lemma UpdateDeploymentAndRequeue_cases:
  assumes "run_state (UpdateDeploymentAndRequeue cli d) w = (r, w')"
  obtains (unchanged) e where "r = Inl e" "w' = w"
    | (written) e g where "r = Inl e" "deps w' = store_replace (d\<lparr>om_Generation := g\<rparr>) (deps w)"
        "pods w' = pods w" "milvus w' = milvus w"
proof -
  obtain r1 where u: "run_state (cli_UpdateDeployment cli d) w = (r1, w')"
    using assms by (auto simp: UpdateDeploymentAndRequeue_def run_op_simps split: prod.splits sum.splits)
  obtain e where "r = Inl e"
    using assms by (auto simp: UpdateDeploymentAndRequeue_def run_op_simps split: prod.splits sum.splits)
  with update_deployment_cases [OF u] unchanged written show thesis by metis
qed

end

end
