(* ===== verification/Scale_Plan.thy ===== *)
theory Scale_Plan
  imports Rollout_Util
begin

text \<open>
  The scale planner of the two-deployment rollout (deploy_ctrl_util.go, \<open>checkScaleKind\<close> to
  \<open>planScaleForNormalState\<close>): which of the two Deployments of a component is scaled next, and by
  how much.  A \<open>scaleAction\<close> names the Deployment by its role instead of by a pointer.
\<close>

section \<open>Actions\<close>

datatype scale_target = NoDeploy | CurrentDeploy | LastDeploy

record scaleAction =
  sa_deploy :: scale_target
  sa_replicaChange :: int

definition mk_action :: "scale_target \<Rightarrow> int \<Rightarrow> scaleAction" where
  "mk_action t n = \<lparr>sa_deploy = t, sa_replicaChange = n\<rparr>"

definition noScaleAction :: scaleAction where
  "noScaleAction = mk_action NoDeploy 0"

datatype scaleKind = scaleKindNormal | scaleKindRollout | scaleKindHPA | scaleKindExternalHPA | scaleKindForce

definition expected_replicas :: "MilvusComponent \<Rightarrow> Milvus \<Rightarrow> int" where
  "expected_replicas c mc = ReplicasValue (GetReplicas c (m_Spec mc))"

definition checkScaleKind :: "MilvusComponent \<Rightarrow> Milvus \<Rightarrow> Deployment \<Rightarrow> scaleKind" where
  "checkScaleKind c mc lastDeploy =
     (if com_ImageUpdateMode (ms_Com (m_Spec mc)) = ImageUpdateModeForce then scaleKindForce
      else if IsHPAEnabled c (m_Spec mc) then scaleKindHPA
      else if expected_replicas c mc < 0 then scaleKindExternalHPA
      else if getDeployReplicas lastDeploy > 0 then scaleKindRollout
      else scaleKindNormal)"

section \<open>Planners\<close>

definition planScaleForForceUpgrade :: "MilvusComponent \<Rightarrow> Milvus \<Rightarrow> Deployment \<Rightarrow> Deployment \<Rightarrow> scaleAction" where
  "planScaleForForceUpgrade c mc currentDeployment lastDeployment =
     (let currentDeployReplicas = getDeployReplicas currentDeployment;
          expectedReplicas = expected_replicas c mc
      in if currentDeployReplicas \<noteq> expectedReplicas
         then mk_action CurrentDeploy (expectedReplicas - currentDeployReplicas)
         else (let lastDeployReplicas = getDeployReplicas lastDeployment
               in if lastDeployReplicas \<noteq> 0 then mk_action LastDeploy (- lastDeployReplicas)
                  else noScaleAction))"

definition hpa_min_replicas :: "MilvusComponent \<Rightarrow> MilvusSpec \<Rightarrow> int" where
  "hpa_min_replicas c spec =
     (case GetHPASpec c spec of
        None \<Rightarrow> 1
      | Some h \<Rightarrow> (case hpa_MinReplicas h of None \<Rightarrow> 1 | Some n \<Rightarrow> n))"

definition planScaleForHPA :: "MilvusComponent \<Rightarrow> Milvus \<Rightarrow> Deployment \<Rightarrow> Deployment \<Rightarrow> scaleAction" where
  "planScaleForHPA c mc currentDeployment lastDeployment =
     (let currentDeployReplicas = getDeployReplicas currentDeployment;
          lastDeployReplicas = getDeployReplicas lastDeployment;
          minReplicas = hpa_min_replicas c (m_Spec mc)
      in if lastDeployReplicas > 0 then
           (let targetReplicas = (if lastDeployReplicas > minReplicas then lastDeployReplicas else minReplicas)
            in if currentDeployReplicas < targetReplicas
               then mk_action CurrentDeploy (targetReplicas - currentDeployReplicas)
               else if dst_ReadyReplicas (d_Status currentDeployment) < targetReplicas then noScaleAction
               else mk_action LastDeploy (-1))
         else if currentDeployReplicas = 0 then mk_action CurrentDeploy minReplicas
         else noScaleAction)"

definition planScaleForExternalHPA ::
  "externals \<Rightarrow> MilvusComponent \<Rightarrow> Milvus \<Rightarrow> Deployment \<Rightarrow> Deployment \<Rightarrow> scaleAction" where
  "planScaleForExternalHPA x c mc currentDeployment lastDeployment =
     (let currentDeployReplicas = getDeployReplicas currentDeployment;
          lastDeployReplicas = getDeployReplicas lastDeployment
      in if currentDeployReplicas = 0 \<and> lastDeployReplicas = 0 then mk_action CurrentDeploy 1
         else if to_int32 currentDeployReplicas < to_int32 lastDeployReplicas
         then mk_action CurrentDeploy (lastDeployReplicas - currentDeployReplicas)
         else if IsComponentRolling mc (GetStateKey x c) \<and> lastDeployReplicas > 0 \<and>
                 dst_ReadyReplicas (d_Status currentDeployment) \<ge> to_int32 lastDeployReplicas
         then mk_action LastDeploy (- lastDeployReplicas)
         else noScaleAction)"

definition container_limits :: "Container list \<Rightarrow> (string, smap) fmap" where
  "container_limits cs = fold (\<lambda>c m. fmupd (ct_Name c) (rr_Limits (ct_Resources c)) m) cs fmempty"

text \<open>The nested loops of the source: equal sizes, and every entry of the first map is in the
  second.\<close>

definition limit_list_equal :: "smap \<Rightarrow> smap \<Rightarrow> bool" where
  "limit_list_equal cur lst \<longleftrightarrow> fcard (fmdom cur) = fcard (fmdom lst) \<and>
     fBall (fmdom cur) (\<lambda>resName. fmlookup lst resName \<noteq> None \<and> fmlookup cur resName = fmlookup lst resName)"

definition limits_equal :: "(string, smap) fmap \<Rightarrow> (string, smap) fmap \<Rightarrow> bool" where
  "limits_equal cur lst \<longleftrightarrow> fcard (fmdom cur) = fcard (fmdom lst) \<and>
     fBall (fmdom cur) (\<lambda>cName. case fmlookup lst cName of
        None \<Rightarrow> False | Some lastLimitList \<Rightarrow> limit_list_equal (the (fmlookup cur cName)) lastLimitList)"

definition compareDeployResourceLimitEqual :: "Deployment \<Rightarrow> Deployment \<Rightarrow> bool" where
  "compareDeployResourceLimitEqual currentDeployment lastDeployment =
     limits_equal (container_limits (ps_Containers (pt_Spec (d_Template currentDeployment))))
       (container_limits (ps_Containers (pt_Spec (d_Template lastDeployment))))"

definition planScaleForRollout ::
  "externals \<Rightarrow> MilvusComponent \<Rightarrow> Milvus \<Rightarrow> Deployment \<Rightarrow> Deployment \<Rightarrow> scaleAction" where
  "planScaleForRollout x c mc currentDeployment lastDeployment =
     (let lastDeployReplicas = getDeployReplicas lastDeployment;
          currentDeployReplicas = getDeployReplicas currentDeployment;
          currentReplicas = lastDeployReplicas + currentDeployReplicas;
          expectedReplicas = expected_replicas c mc;
          (surgeStep, unavailableStep) = rolloutSteps x (d_Strategy currentDeployment) expectedReplicas
      in if surgeStep = 0 then
           (if currentReplicas < expectedReplicas
            then mk_action CurrentDeploy (expectedReplicas - currentReplicas)
            else (let availableReplicas = min (dst_AvailableReplicas (d_Status currentDeployment)) currentDeployReplicas +
                        min (dst_AvailableReplicas (d_Status lastDeployment)) lastDeployReplicas;
                      scaleDown = min lastDeployReplicas (availableReplicas - max 0 (expectedReplicas - unavailableStep))
                  in if scaleDown > 0 then mk_action LastDeploy (- scaleDown) else noScaleAction))
         else if compareDeployResourceLimitEqual currentDeployment lastDeployment then
           (if currentReplicas = expectedReplicas \<and> lastDeployReplicas = 0 then noScaleAction
            else if currentReplicas > expectedReplicas then
              (if lastDeployReplicas > 0
               then mk_action LastDeploy (- min (max 1 unavailableStep) lastDeployReplicas)
               else noScaleAction)
            else mk_action CurrentDeploy
                   (min surgeStep (min (expectedReplicas - currentDeployReplicas) (expectedReplicas + surgeStep - currentReplicas))))
         else
           (if lastDeployReplicas > 0 then
              (if currentDeployReplicas < lastDeployReplicas \<or> currentDeployReplicas < expectedReplicas then
                 (if lastDeployReplicas < expectedReplicas
                  then mk_action CurrentDeploy (expectedReplicas - currentDeployReplicas)
                  else mk_action CurrentDeploy (lastDeployReplicas - currentDeployReplicas))
               else mk_action LastDeploy (- min (max 1 unavailableStep) lastDeployReplicas))
            else if currentDeployReplicas > expectedReplicas
            then mk_action CurrentDeploy (- min (max 1 unavailableStep) (currentDeployReplicas - expectedReplicas))
            else if currentDeployReplicas < expectedReplicas
            then mk_action CurrentDeploy (expectedReplicas - currentDeployReplicas)
            else noScaleAction))"

definition planScaleForNormalState :: "MilvusComponent \<Rightarrow> Milvus \<Rightarrow> Deployment \<Rightarrow> scaleAction" where
  "planScaleForNormalState c mc currentDeployment =
     (let currentReplicas = getDeployReplicas currentDeployment;
          expectedReplicas = expected_replicas c mc
      in if currentReplicas > expectedReplicas then mk_action CurrentDeploy (-1)
         else if currentReplicas = expectedReplicas then noScaleAction
         else mk_action CurrentDeploy (expectedReplicas - currentReplicas))"

text \<open>\<open>planNextScaleAction\<close> also writes the strategy of the spec into both Deployments; the
  arguments here are the Deployments after that write (\<open>with_strategy\<close>).\<close>

definition with_strategy :: "DeploymentStrategy \<Rightarrow> Deployment \<Rightarrow> Deployment" where
  "with_strategy st d = d\<lparr>d_Strategy := st\<rparr>"

definition plan_by_kind ::
  "externals \<Rightarrow> scaleKind \<Rightarrow> MilvusComponent \<Rightarrow> Milvus \<Rightarrow> Deployment \<Rightarrow> Deployment \<Rightarrow> scaleAction" where
  "plan_by_kind x kind c mc currentDeployment lastDeployment =
     (case kind of
        scaleKindHPA \<Rightarrow> planScaleForHPA c mc currentDeployment lastDeployment
      | scaleKindExternalHPA \<Rightarrow> planScaleForExternalHPA x c mc currentDeployment lastDeployment
      | scaleKindRollout \<Rightarrow> planScaleForRollout x c mc currentDeployment lastDeployment
      | scaleKindForce \<Rightarrow> planScaleForForceUpgrade c mc currentDeployment lastDeployment
      | scaleKindNormal \<Rightarrow> planScaleForNormalState c mc currentDeployment)"

definition planNextScaleAction ::
  "externals \<Rightarrow> MilvusComponent \<Rightarrow> Milvus \<Rightarrow> Deployment \<Rightarrow> Deployment \<Rightarrow> (scaleAction \<times> Deployment \<times> Deployment) option" where
  "planNextScaleAction x c mc currentDeployment lastDeployment = do {
     let kind = checkScaleKind c mc lastDeployment;
     st \<leftarrow> GetDeploymentStrategy mc c;
     let cur = with_strategy st currentDeployment;
     let lst = with_strategy st lastDeployment;
     Some (plan_by_kind x kind c mc cur lst, cur, lst) }"

text \<open>What \<open>doScaleAction\<close> writes into the chosen Deployment.\<close>

definition scaled :: "Deployment \<Rightarrow> int \<Rightarrow> Deployment" where
  "scaled d change = d\<lparr>d_Replicas := int32Ptr (getDeployReplicas d + change)\<rparr>"

section \<open>Facts\<close>

lemma action_simps [simp]:
  "sa_deploy (mk_action t n) = t" "sa_replicaChange (mk_action t n) = n"
  "mk_action t n = mk_action t' n' \<longleftrightarrow> t = t' \<and> n = n'"
  by (simp_all add: mk_action_def)

lemma noScaleAction_simps [simp]: "sa_deploy noScaleAction = NoDeploy" "sa_replicaChange noScaleAction = 0"
  "mk_action CurrentDeploy n \<noteq> noScaleAction" "mk_action LastDeploy n \<noteq> noScaleAction"
  by (simp_all add: noScaleAction_def)

lemma getDeployReplicas_with_strategy [simp]: "getDeployReplicas (with_strategy st d) = getDeployReplicas d"
  by (simp add: with_strategy_def getDeployReplicas_def)

lemma with_strategy_fields [simp]:
  "d_Status (with_strategy st d) = d_Status d" "d_Template (with_strategy st d) = d_Template d"
  "d_Strategy (with_strategy st d) = st"
  by (simp_all add: with_strategy_def)

lemma getDeployReplicas_scaled [simp]: "getDeployReplicas (scaled d n) = to_int32 (getDeployReplicas d + n)"
  by (simp add: scaled_def getDeployReplicas_def int32Ptr_def split: option.splits)

text \<open>The nested comparison of the source is equality of the limit maps.\<close>

lemma fmap_eq_by_inclusion:
  assumes "fcard (fmdom m) = fcard (fmdom n)" "\<And>k. k |\<in>| fmdom m \<Longrightarrow> fmlookup m k = fmlookup n k"
  shows "m = n"
proof -
  have sub: "fmdom m |\<subseteq>| fmdom n"
    using assms(2) by (metis fmdom_notD fmdom_notI fsubsetI)
  then have "fmdom m = fmdom n"
    using assms(1) by (simp add: fcard_seteq)
  then show ?thesis
    using assms(2) by (metis fmap_ext fmdom_notD)
qed

lemma limit_list_equal_iff: "limit_list_equal a b \<longleftrightarrow> a = b"
  using fmap_eq_by_inclusion [of a b] fmdom_notI by (fastforce simp: limit_list_equal_def)

lemma limits_equal_iff: "limits_equal a b \<longleftrightarrow> a = b"
proof
  assume eq: "limits_equal a b"
  show "a = b"
  proof (rule fmap_eq_by_inclusion)
    show "fcard (fmdom a) = fcard (fmdom b)" using eq by (simp add: limits_equal_def)
    fix k assume k: "k |\<in>| fmdom a"
    with eq obtain l where "fmlookup b k = Some l" "the (fmlookup a k) = l"
      by (fastforce simp: limits_equal_def limit_list_equal_iff split: option.splits)
    with k show "fmlookup a k = fmlookup b k" by (metis fmdom_notI option.collapse)
  qed
next
  assume "a = b"
  then show "limits_equal a b"
    by (auto simp: limits_equal_def limit_list_equal_iff split: option.splits)
qed

end
