(* ===== verification/Deploy_Ctrl.thy ===== *)
theory Deploy_Ctrl
  imports Scale_Plan
begin

text \<open>
  The two-deployment controller: deploy_ctrl_util.go (\<open>DeployControllerBizUtilImpl\<close>),
  deploy_ctrl.go (\<open>DeployControllerBizImpl\<close> and \<open>DeployControllerImpl.Reconcile\<close>),
  deploy_mode_changer.go and rolling_mode_status_updater.go.  Every handler is a state
  transformer over the client's world; an early return is a branch.  The record \<open>biz\<close> is the
  struct the factory builds for a component, with the third-party functions and the
  reconcile-scoped storage environment the Go code takes from its context.
\<close>

record 'w biz =
  biz_x :: externals
  biz_cli :: "'w Client"
  biz_component :: MilvusComponent
  biz_storageEnv :: "EnvVar list"

definition state_key :: "'w biz \<Rightarrow> string" where
  "state_key b = GetStateKey (biz_x b) (biz_component b)"

section \<open>Templates\<close>

definition RenderPodTemplateWithoutGroupID ::
  "'w biz \<Rightarrow> Milvus \<Rightarrow> PodTemplateSpec option \<Rightarrow> bool \<Rightarrow> PodTemplateSpec option" where
  "RenderPodTemplateWithoutGroupID b mc currentTemplate forceUpdateAll =
     (let c = biz_component b;
          template = (case currentTemplate of None \<Rightarrow> zero_PodTemplateSpec | Some t \<Rightarrow> t);
          u = \<lparr>up_Milvus = mc, up_component = c, up_storageEndpointEnv = biz_storageEnv b\<rparr>;
          appLabels = GetSelectorLabels c (om_Name mc);
          forceAll = (if \<not> forceUpdateAll
                      then currentTemplate = None \<or> ReplicasValue (GetReplicas c (m_Spec mc)) = 0
                      else forceUpdateAll)
      in updatePodTemplate (biz_x b) u appLabels forceAll template)"

definition set_template_group :: "'w biz \<Rightarrow> string \<Rightarrow> PodTemplateSpec \<Rightarrow> PodTemplateSpec" where
  "set_template_group b g t = t\<lparr>pt_Labels := SetGroupIDStr (mcp_Name (biz_component b)) g (pt_Labels t)\<rparr>"

definition isPodTemplateEqual :: "'w biz \<Rightarrow> Deployment \<Rightarrow> PodTemplateSpec \<Rightarrow> bool" where
  "isPodTemplateEqual b currentDeployment podTemplate \<longleftrightarrow>
     set_template_group b [] (d_Template currentDeployment) = set_template_group b [] podTemplate"

definition IsPodTemplateChanged :: "'w biz \<Rightarrow> Deployment \<Rightarrow> PodTemplateSpec \<Rightarrow> bool" where
  "IsPodTemplateChanged b currentDeployment podTemplate \<longleftrightarrow> \<not> isPodTemplateEqual b currentDeployment podTemplate"

definition ShouldRollback :: "'w biz \<Rightarrow> Deployment \<Rightarrow> Deployment option \<Rightarrow> PodTemplateSpec \<Rightarrow> bool" where
  "ShouldRollback b currentDeploy lastDeploy podTemplate =
     (case lastDeploy of
        None \<Rightarrow> False
      | Some lst \<Rightarrow> if isPodTemplateEqual b currentDeploy podTemplate then False
                    else isPodTemplateEqual b lst podTemplate)"

definition updatePodTemplateTwoDeployMode :: "'w biz \<Rightarrow> PodTemplateSpec \<Rightarrow> Deployment \<Rightarrow> Deployment" where
  "updatePodTemplateTwoDeployMode b podTemplate currentDeployment =
     currentDeployment\<lparr>d_Template :=
       set_template_group b (GetLabelGroupID (mcp_Name (biz_component b)) currentDeployment) podTemplate\<rparr>"

text \<open>\<open>RenewDeployAnnotation\<close>: whether the generation annotation changed, and the Deployment.\<close>

definition RenewDeployAnnotation :: "Milvus \<Rightarrow> Deployment \<Rightarrow> bool \<times> Deployment" where
  "RenewDeployAnnotation mc currentDeploy =
     (let expectedGen = itoa (om_Generation mc) in
      if fmget (om_Annotations currentDeploy) AnnotationMilvusGeneration = expectedGen then (False, currentDeploy)
      else (True, currentDeploy\<lparr>om_Annotations :=
              fmupd AnnotationMilvusGeneration expectedGen (om_Annotations currentDeploy)\<rparr>))"

section \<open>The two Deployments\<close>

definition componentDeployIsCurrentGroup :: "'w biz \<Rightarrow> Milvus \<Rightarrow> Deployment \<Rightarrow> bool" where
  "componentDeployIsCurrentGroup b mc deploy \<longleftrightarrow>
     GetLabelGroupID (mcp_Name (biz_component b)) deploy = GetCurrentGroupId mc (state_key b)"

text \<open>The loop that classifies one or two Deployments: a second current one is an error.\<close>

fun classify :: "('d \<Rightarrow> bool) \<Rightarrow> 'd list \<Rightarrow> 'd option \<Rightarrow> 'd option \<Rightarrow> ('d option \<times> 'd option) option" where
  "classify is_cur [] current lst = Some (current, lst)"
| "classify is_cur (d # ds) current lst =
     (if is_cur d then (if current \<noteq> None then None else classify is_cur ds (Some d) lst)
      else classify is_cur ds current (Some d))"

definition two_deploys :: "'w biz \<Rightarrow> Milvus \<Rightarrow> Deployment list \<Rightarrow> go_error + (Deployment \<times> Deployment)" where
  "two_deploys b mc listed =
     (let c = biz_component b;
          items = filter (\<lambda>d. MatchesDeploymentGroup c (om_Labels d) \<and> GetLabelGroupID (mcp_Name c) d \<noteq> []) listed
      in if length items > 2 then Inl (Errorf (''unexpected: more than 2 '' @ GetDisplayName c @ '' deployments found''))
         else if length items < 1 then Inl ErrNotFound
         else case classify (componentDeployIsCurrentGroup b mc) items None None of
           None \<Rightarrow> Inl (Errorf ''unexpected: more than 1 deployment is for current group id'')
         | Some (None, _) \<Rightarrow> Inl (Errorf ''unexpected: no deployment is for current group id'')
         | Some (Some current, Some lst) \<Rightarrow> Inr (current, lst)
         | Some (Some current, None) \<Rightarrow>
             if GetCurrentGroupId mc (state_key b) \<noteq> ''0''
             then Inl (Errorf ''unexpected: first deployment is not for group 0'')
             else Inl ErrNoLastDeployment)"

definition GetDeploys :: "'w biz \<Rightarrow> Milvus \<Rightarrow> ('w, Deployment \<times> Deployment) op" where [op_defs]:
  "GetDeploys b mc =
     op_bind (op_wrap ''list querynode deployments''
       (cli_ListDeployments (biz_cli b) (om_Namespace mc) (GetSelectorLabels (biz_component b) (om_Name mc))))
     (\<lambda>listed. lift_result (two_deploys b mc listed))"

definition formatComponentDeployName :: "Milvus \<Rightarrow> MilvusComponent \<Rightarrow> int \<Rightarrow> string" where
  "formatComponentDeployName mc c groupId = GetDeploymentName c (om_Name mc) @ ''-'' @ itoa groupId"

definition new_deploy :: "'w biz \<Rightarrow> Milvus \<Rightarrow> PodTemplateSpec \<Rightarrow> int \<Rightarrow> go_error + Deployment" where
  "new_deploy b mc podTemplate groupId =
     (let c = biz_component b;
          img = (if com_DummyImage (ms_Com (m_Spec mc)) \<noteq> [] then com_DummyImage (ms_Com (m_Spec mc)) else ''dummy'');
          template = (if groupId \<noteq> 0 then
             (case ps_Containers (pt_Spec podTemplate) of
                [] \<Rightarrow> None
              | ct # cts \<Rightarrow> Some (podTemplate\<lparr>pt_Spec := (pt_Spec podTemplate)\<lparr>ps_Containers := ct\<lparr>ct_Image := img\<rparr> # cts\<rparr>\<rparr>))
             else Some podTemplate)
      in case template of
           None \<Rightarrow> Inl (GoPanic ''index out of range'')
         | Some template \<Rightarrow>
             (case cli_SetControllerReference (biz_cli b) mc [] of
                Inl e \<Rightarrow> Inl (Wrap e ''set controller reference'')
              | Inr owners \<Rightarrow>
                  (let labels = SetGroupID (mcp_Name c) groupId (GetSelectorLabels c (om_Name mc)) in
                   case (GetDeploymentStrategy mc c, GetMergedComponentSpec mc c) of
                     (Some strategy, Some comSpec) \<Rightarrow>
                       Inr ((new_Deployment (om_Namespace mc) (formatComponentDeployName mc c groupId))
                         \<lparr>om_OwnerReferences := owners,
                          om_Labels := (case mcp_DeploymentGroup c of None \<Rightarrow> labels | Some g \<Rightarrow> MergeLabels [dg_Labels g, labels]),
                          om_Annotations := (case mcp_DeploymentGroup c of None \<Rightarrow> fmempty | Some g \<Rightarrow> MergeAnnotations [dg_Annotations g]),
                          d_Selector := Some labels,
                          d_Template := template\<lparr>pt_Labels := MergeLabels [pt_Labels template, labels]\<rparr>,
                          d_Replicas := int32Ptr 0,
                          d_Strategy := strategy,
                          d_Paused := cs_Paused comSpec,
                          d_ProgressDeadlineSeconds := int32Ptr oneMonthSeconds,
                          d_MinReadySeconds := 30\<rparr>)
                   | _ \<Rightarrow> Inl (GoPanic ''nil component''))))"

definition CreateDeploy :: "'w biz \<Rightarrow> Milvus \<Rightarrow> PodTemplateSpec option \<Rightarrow> int \<Rightarrow> ('w, unit) op" where [op_defs]:
  "CreateDeploy b mc podTemplate groupId =
     op_bind (lift_result (or_panic ''render pod template''
        (case podTemplate of Some t \<Rightarrow> Some t | None \<Rightarrow> RenderPodTemplateWithoutGroupID b mc None True))) (\<lambda>template.
     op_bind (lift_result (new_deploy b mc template groupId)) (\<lambda>deploy.
     cli_CreateDeployment (biz_cli b) deploy))"

section \<open>Rollouts\<close>

definition rollout_finished_conditions :: "'w biz \<Rightarrow> Milvus \<Rightarrow> Deployment \<Rightarrow> Deployment \<Rightarrow> bool list" where
  "rollout_finished_conditions b mc currentDeployment lastDeployment =
     (let cst = d_Status currentDeployment; lst = d_Status lastDeployment;
          deployExpectReplicas = to_int32 (getDeployReplicas currentDeployment) in
      [GetLeastReplicasRegardingHPA (biz_component b) (m_Spec mc) \<le> ReplicasValue (d_Replicas currentDeployment),
       dst_ObservedGeneration cst = om_Generation currentDeployment,
       dst_ObservedGeneration lst = om_Generation lastDeployment,
       deployExpectReplicas = dst_UpdatedReplicas cst,
       dst_UpdatedReplicas cst = dst_Replicas cst,
       dst_UpdatedReplicas cst = dst_AvailableReplicas cst,
       getDeployReplicas lastDeployment = 0,
       dst_Replicas lst = 0])"

definition LastRolloutFinished :: "'w biz \<Rightarrow> Milvus \<Rightarrow> Deployment \<Rightarrow> Deployment \<Rightarrow> ('w, bool) op" where [op_defs]:
  "LastRolloutFinished b mc currentDeployment lastDeployment =
     (if \<not> IsComponentRolling mc (state_key b) then ret True
      else if \<not> fst (logicAnd (rollout_finished_conditions b mc currentDeployment lastDeployment)) then ret False
      else op_bind (ListDeployPods (biz_cli b) lastDeployment) (\<lambda>pods.
        if length pods \<noteq> 0 then ret False
        else UpdateMilvusAndRequeue (biz_cli b) (SetComponentRolling (state_key b) False mc)))"

definition PrepareNewRollout :: "'w biz \<Rightarrow> Milvus \<Rightarrow> Deployment \<Rightarrow> PodTemplateSpec \<Rightarrow> ('w, unit) op" where [op_defs]:
  "PrepareNewRollout b mc currentDeployment podTemplate =
     (let currentGroupIdStr = GetLabelGroupID (mcp_Name (biz_component b)) currentDeployment;
          deploy = snd (RenewDeployAnnotation mc (updatePodTemplateTwoDeployMode b podTemplate currentDeployment))
      in op_bind (op_wrap ''updateDeployTemplate failed'' (cli_UpdateDeployment (biz_cli b) deploy)) (\<lambda>_.
         UpdateMilvusAndRequeue (biz_cli b)
           (SetComponentRolling (state_key b) True (SetCurrentGroupIDStr (state_key b) currentGroupIdStr mc))))"

section \<open>Scaling\<close>

definition PodConditionNotSet :: PodCondition where
  "PodConditionNotSet = \<lparr>pc_Type = [], pc_Status = ConditionUnset, pc_Reason = [], pc_Message = []\<rparr>"

definition GetPodConditionByType :: "PodCondition list \<Rightarrow> string \<Rightarrow> PodCondition" where
  "GetPodConditionByType conditions t =
     (case find (\<lambda>c. pc_Type c = t) conditions of None \<Rightarrow> PodConditionNotSet | Some c \<Rightarrow> c)"

definition markDeployAsCurrent :: "'w biz \<Rightarrow> Milvus \<Rightarrow> Deployment \<Rightarrow> ('w, unit) op" where [op_defs]:
  "markDeployAsCurrent b mc currentDeployment =
     op_bind (lift_result (wrap ''get deployment group id'' (GetDeploymentGroupId currentDeployment))) (\<lambda>groupId.
     op_wrap (''mark group id to '' @ itoa groupId)
       (MarkMilvusComponentGroupId (biz_x b) (biz_cli b) mc (biz_component b) groupId))"

definition checkLastDeploymentStable :: "'w biz \<Rightarrow> Deployment \<Rightarrow> ('w, unit) op" where [op_defs]:
  "checkLastDeploymentStable b lastDeployment =
     op_bind (op_wrap ''list last deploy pods'' (ListDeployPods (biz_cli b) lastDeployment)) (\<lambda>lastDeployPods.
       (let (isStable, reason) = DeploymentIsStable lastDeployment lastDeployPods in
        if \<not> isStable then fail (Wrap ErrRequeue (''last deploy is not stable['' @ reason @ '']'')) else ret ()))"

definition ready_pod :: "Pod \<Rightarrow> bool" where
  "ready_pod pod \<longleftrightarrow> om_DeletionTimestamp pod = None \<and> pod_Phase pod = ''Running'' \<and>
     pc_Status (GetPodConditionByType (pod_Conditions pod) ''Ready'') = ConditionTrue"

definition settled_enough :: "Deployment \<Rightarrow> Pod list \<Rightarrow> bool" where
  "settled_enough d pods \<longleftrightarrow>
     dst_ObservedGeneration (d_Status d) = om_Generation d \<and>
     dst_Replicas (d_Status d) = getDeployReplicas d \<and>
     dst_UpdatedReplicas (d_Status d) = dst_Replicas (d_Status d) \<and>
     int (length pods) = getDeployReplicas d \<and> length (GetTerminatingPods pods) = 0"

definition checkDeploymentsStable :: "'w biz \<Rightarrow> Deployment \<Rightarrow> Deployment \<Rightarrow> bool \<Rightarrow> ('w, unit) op" where [op_defs]:
  "checkDeploymentsStable b currentDeployment lastDeployment allowUnavailable =
     op_bind (checkLastDeploymentStable b lastDeployment) (\<lambda>_.
     op_bind (op_wrap ''list current deploy pods'' (ListDeployPods (biz_cli b) currentDeployment)) (\<lambda>currentDeployPods.
       (let (stable, reason) = DeploymentIsStable currentDeployment currentDeployPods;
            isStable = (if \<not> stable \<and> allowUnavailable then settled_enough currentDeployment currentDeployPods else stable)
        in if allowUnavailable \<and>
              dst_AvailableReplicas (d_Status currentDeployment) > int (length (filter ready_pod currentDeployPods))
           then fail (Wrap ErrRequeue ''current deploy available replicas exceed ready pods'')
           else if \<not> isStable then fail (Wrap ErrRequeue (''current deploy is not stable['' @ reason @ '']''))
           else ret ())))"

definition checkCanScaleNow :: "'w biz \<Rightarrow> Milvus \<Rightarrow> Deployment \<Rightarrow> Deployment \<Rightarrow> ('w, unit) op" where [op_defs]:
  "checkCanScaleNow b mc currentDeployment lastDeployment =
     (let c = biz_component b; kind = checkScaleKind c mc lastDeployment in
      if kind = scaleKindHPA \<or> kind = scaleKindForce then ret ()
      else op_bind (lift_result (or_panic ''nil component'' (GetDeploymentStrategy mc c))) (\<lambda>strategy.
        (let expectedReplicas = expected_replicas c mc;
             (surge, unavailable) = rolloutSteps (biz_x b) strategy expectedReplicas
         in if kind \<noteq> scaleKindRollout then
              (if surge = 0 \<and> getDeployReplicas currentDeployment < expectedReplicas
               then op_wrap ''check deployments stable'' (checkLastDeploymentStable b lastDeployment)
               else ret ())
            else op_wrap ''check deployments stable''
                   (checkDeploymentsStable b currentDeployment lastDeployment (surge = 0 \<and> unavailable > 0)))))"

definition doScaleAction :: "'w biz \<Rightarrow> scaleAction \<Rightarrow> Deployment \<Rightarrow> Deployment \<Rightarrow> ('w, unit) op" where [op_defs]:
  "doScaleAction b action cur lst =
     (if sa_replicaChange action = 0 then ret ()
      else case sa_deploy action of
        CurrentDeploy \<Rightarrow> UpdateDeploymentAndRequeue (biz_cli b) (scaled cur (sa_replicaChange action))
      | LastDeploy \<Rightarrow> UpdateDeploymentAndRequeue (biz_cli b) (scaled lst (sa_replicaChange action))
      | NoDeploy \<Rightarrow> fail (GoPanic ''nil deployment''))"

definition ScaleDeployments :: "'w biz \<Rightarrow> Milvus \<Rightarrow> Deployment \<Rightarrow> Deployment \<Rightarrow> ('w, unit) op" where [op_defs]:
  "ScaleDeployments b mc currentDeployment lastDeployment =
     op_bind (markDeployAsCurrent b mc currentDeployment) (\<lambda>_.
     op_bind (checkCanScaleNow b mc currentDeployment lastDeployment) (\<lambda>_.
     op_bind (lift_result (or_panic ''nil component''
       (planNextScaleAction (biz_x b) (biz_component b) mc currentDeployment lastDeployment))) (\<lambda>(action, cur, lst).
     doScaleAction b action cur lst)))"

section \<open>Deploy mode\<close>

definition checkDeployModeInCluster :: "'w biz \<Rightarrow> Milvus \<Rightarrow> ('w, ComponentDeployMode) op" where [op_defs]:
  "checkDeployModeInCluster b mc = do {
     r \<leftarrow> GetOldDeploy (biz_cli b) mc (biz_component b);
     (case r of
        Inr _ \<Rightarrow> ret OneDeployMode
      | Inl err \<Rightarrow> if IsNotFound err then ret TwoDeployMode else fail (Wrap err ''get deployments'')) }"

definition CheckDeployMode :: "'w biz \<Rightarrow> Milvus \<Rightarrow> ('w, ComponentDeployMode) op" where [op_defs]:
  "CheckDeployMode b mc =
     (if mst_RollingMode (m_Status mc) = RollingModeV3 then ret TwoDeployMode
      else if mst_RollingMode (m_Status mc) = RollingModeV2 \<and> Is (biz_component b) QueryNode then ret TwoDeployMode
      else if IsChangingMode mc (state_key b) then ret OneDeployMode
      else op_wrap ''check rolling mode in cluster'' (checkDeployModeInCluster b mc))"

definition isMilvusStoppingForReconcile :: "externals \<Rightarrow> Milvus \<Rightarrow> bool option" where
  "isMilvusStoppingForReconcile x mc = do {
     stopping \<leftarrow> IsStopping x (m_Spec mc);
     Some (if \<not> stopping then False
           else if \<not> isUpgradeStopping mc \<and>
                   list_ex (\<lambda>c. IsHPAEnabled c (m_Spec mc)) (GetComponentWorkloadsBySpec x (m_Spec mc)) then False
           else True) }"

definition IsUpdating :: "'w biz \<Rightarrow> Milvus \<Rightarrow> bool option" where
  "IsUpdating b mc =
     (if IsChangingMode mc (state_key b) then Some False
      else do {
        stopping \<leftarrow> isMilvusStoppingForReconcile (biz_x b) mc;
        Some (if stopping then False
              else if mst_ObservedGeneration (m_Status mc) < om_Generation mc then True
              else (case GetMilvusConditionByType (m_Status mc) MilvusUpdated of
                      None \<Rightarrow> True
                    | Some cond \<Rightarrow> mcd_Status cond \<noteq> ConditionTrue)) })"

section \<open>Handlers\<close>

definition IsPaused :: "'w biz \<Rightarrow> Milvus \<Rightarrow> bool option" where
  "IsPaused b mc =
     (if cs_Paused (ms_Com (m_Spec mc)) then Some True
      else map_option cs_Paused (GetComponentSpec (biz_component b) (m_Spec mc)))"

fun group_metadata_loop :: "'w biz \<Rightarrow> Milvus \<Rightarrow> bool \<Rightarrow> Deployment list \<Rightarrow> ('w, bool) op" where
  "group_metadata_loop b mc updated [] = ret updated"
| "group_metadata_loop b mc updated (d # ds) =
     (let c = biz_component b;
          labels = desiredDeploymentLabels (om_Name mc) c (GetLabelGroupID (mcp_Name c) d) (om_Labels d);
          annotations = desiredDeploymentAnnotations c (om_Annotations d)
      in if labels = om_Labels d \<and> annotations = om_Annotations d then group_metadata_loop b mc updated ds
         else op_bind (op_wrap ''update deployment group metadata''
                (cli_UpdateDeployment (biz_cli b) (d\<lparr>om_Labels := labels, om_Annotations := annotations\<rparr>)))
              (\<lambda>_. group_metadata_loop b mc True ds))"

definition reconcileDeploymentGroupMetadata :: "'w biz \<Rightarrow> Milvus \<Rightarrow> Deployment list \<Rightarrow> ('w, unit) op" where [op_defs]:
  "reconcileDeploymentGroupMetadata b mc deployments =
     (if mcp_DeploymentGroup (biz_component b) = None then ret ()
      else op_bind (group_metadata_loop b mc False deployments) (\<lambda>updated.
        if \<not> updated then ret () else fail (Wrap ErrRequeue ''deployment group metadata updated'')))"

definition HandleCreate :: "'w biz \<Rightarrow> Milvus \<Rightarrow> ('w, unit) op" where [op_defs]:
  "HandleCreate b mc = do {
     r \<leftarrow> GetDeploys b mc;
     (case r of
        Inr (cur, lst) \<Rightarrow> reconcileDeploymentGroupMetadata b mc [cur, lst]
      | Inl err \<Rightarrow>
          if err = ErrNotFound then
            op_bind (op_wrap (''mark milvus '' @ mcp_Name (biz_component b) @ '' group id to 0'')
              (MarkMilvusComponentGroupId (biz_x b) (biz_cli b) mc (biz_component b) 0)) (\<lambda>_.
            op_wrap (''create '' @ mcp_Name (biz_component b) @ '' deployment 0'') (CreateDeploy b mc None 0))
          else if err = ErrNoLastDeployment then CreateDeploy b mc None 1
          else fail (Wrap err (''get '' @ mcp_Name (biz_component b) @ '' deploys''))) }"

definition stopDeployIfNot :: "'w biz \<Rightarrow> Deployment \<Rightarrow> ('w, unit) op" where [op_defs]:
  "stopDeployIfNot b deploy =
     (if getDeployReplicas deploy \<noteq> 0
      then op_wrap ''stop current deployment'' (cli_UpdateDeployment (biz_cli b) (deploy\<lparr>d_Replicas := int32Ptr 0\<rparr>))
      else ret ())"

definition HandleStop :: "'w biz \<Rightarrow> Milvus \<Rightarrow> ('w, unit) op" where [op_defs]:
  "HandleStop b mc =
     op_bind (op_wrap ''get querynode deploys'' (GetDeploys b mc)) (\<lambda>(currentDeploy, lastDeploy).
     op_bind (op_wrap ''stop current deployment'' (stopDeployIfNot b currentDeploy)) (\<lambda>_.
     op_bind (op_wrap ''stop last deployment'' (stopDeployIfNot b lastDeploy)) (\<lambda>_.
     if \<not> IsComponentRolling mc (state_key b) then ret ()
     else cli_UpdateMilvus (biz_cli b) (SetComponentRolling (state_key b) False mc))))"

definition HandleScaling :: "'w biz \<Rightarrow> Milvus \<Rightarrow> ('w, unit) op" where [op_defs]:
  "HandleScaling b mc =
     op_bind (op_wrap ''get querynode deploys'' (GetDeploys b mc)) (\<lambda>(currentDeploy, lastDeploy).
     ScaleDeployments b mc currentDeploy lastDeploy)"

definition HandleRolling :: "'w biz \<Rightarrow> Milvus \<Rightarrow> ('w, unit) op" where [op_defs]:
  "HandleRolling b mc =
     op_bind (op_wrap (''get ['' @ mcp_Name (biz_component b) @ ''] deploys'') (GetDeploys b mc)) (\<lambda>(currentDeploy, lastDeploy).
     op_bind (lift_result (or_panic ''render pod template''
        (RenderPodTemplateWithoutGroupID b mc (Some (d_Template currentDeploy)) False))) (\<lambda>podTemplate.
     if ShouldRollback b currentDeploy (Some lastDeploy) podTemplate
     then PrepareNewRollout b mc lastDeploy podTemplate
     else op_bind (op_wrap ''check last rollout'' (LastRolloutFinished b mc currentDeploy lastDeploy)) (\<lambda>lastRolloutFinished.
       if \<not> lastRolloutFinished then ret ()
       else if IsPodTemplateChanged b currentDeploy podTemplate
       then PrepareNewRollout b mc (if getDeployReplicas currentDeploy > 0 then lastDeploy else currentDeploy) podTemplate
       else ret ())))"

definition HandleManualMode :: "'w biz \<Rightarrow> Milvus \<Rightarrow> ('w, unit) op" where [op_defs]:
  "HandleManualMode b mc =
     op_bind (op_wrap (''get ['' @ mcp_Name (biz_component b) @ ''] deploys'') (GetDeploys b mc)) (\<lambda>(currentDeploy, _).
     op_bind (lift_result (or_panic ''render pod template''
        (RenderPodTemplateWithoutGroupID b mc (Some (d_Template currentDeploy)) True))) (\<lambda>podTemplate.
     (let templateChanged = IsPodTemplateChanged b currentDeploy podTemplate in
      if getDeployReplicas currentDeploy \<noteq> 0 then
        (if templateChanged
         then fail (Wrap ErrRequeue (''['' @ mcp_Name (biz_component b) @ '']'' @ ''s active deployment pod template is out of sync in manual mode''))
         else ret ())
      else
        (let (needUpdate, d) = RenewDeployAnnotation mc currentDeploy;
             d = (if templateChanged then updatePodTemplateTwoDeployMode b podTemplate d else d)
         in if \<not> (needUpdate \<or> templateChanged) then ret ()
            else UpdateDeploymentAndRequeue (biz_cli b) d))))"

section \<open>Changing from one to two Deployments\<close>

definition markChangingDeployMode :: "'w biz \<Rightarrow> Milvus \<Rightarrow> bool \<Rightarrow> ('w, unit) op" where [op_defs]:
  "markChangingDeployMode b mc changing =
     (if IsChangingMode mc (state_key b) = changing then ret ()
      else op_wrap ''marking changing deploy mode''
             (UpdateMilvusAndRequeue (biz_cli b) (SetChangingMode (state_key b) changing mc)))"

definition formatSaveOldDeployName :: "Milvus \<Rightarrow> MilvusComponent \<Rightarrow> string" where
  "formatSaveOldDeployName mc c =
     (case mcp_DeploymentGroup c of
        None \<Rightarrow> mcp_Name c @ ''-'' @ om_Name mc @ ''-old-deploy''
      | Some g \<Rightarrow> mcp_Name c @ ''-'' @ om_Name mc @ ''-'' @ GetDeploymentGroupName c @ ''-old-deploy'')"

definition formatSaveOldReplicaSetListName :: "Milvus \<Rightarrow> MilvusComponent \<Rightarrow> string" where
  "formatSaveOldReplicaSetListName mc c =
     (case mcp_DeploymentGroup c of
        None \<Rightarrow> mcp_Name c @ ''-'' @ om_Name mc @ ''-old-replicas''
      | Some g \<Rightarrow> mcp_Name c @ ''-'' @ om_Name mc @ ''-'' @ GetDeploymentGroupName c @ ''-old-replicas'')"

definition SaveDeleteOldDeploy :: "'w biz \<Rightarrow> Milvus \<Rightarrow> ('w, unit) op" where
  "SaveDeleteOldDeploy b mc = do {
     r \<leftarrow> GetOldDeploy (biz_cli b) mc (biz_component b);
     (case r of
        Inr oldDeploy \<Rightarrow>
          op_bind (op_wrap ''save old deploy''
            (SaveObject (biz_cli b) mc (formatSaveOldDeployName mc (biz_component b)) (SavedDeployment oldDeploy))) (\<lambda>_.
          op_wrap ''orphan delete old deploy'' (OrphanDelete (cli_DeleteDeployment (biz_cli b) oldDeploy True)))
      | Inl err \<Rightarrow> if \<not> IsNotFound err then fail (Wrap err ''get old deployments'') else ret ()) }"

text \<open>The loop goes on after a failed delete and reports the last error.\<close>

fun delete_replica_sets :: "'w Client \<Rightarrow> go_error + unit \<Rightarrow> ReplicaSet list \<Rightarrow> ('w, unit) op" where
  "delete_replica_sets cli acc [] = lift_result acc"
| "delete_replica_sets cli acc (rs # rss) = do {
     r \<leftarrow> OrphanDelete (cli_DeleteReplicaSet cli rs True);
     delete_replica_sets cli
       (case r of Inl e \<Rightarrow> Inl (Wrap e (''deleting old replica set['' @ om_Name rs @ '']'')) | Inr _ \<Rightarrow> acc) rss }"

definition SaveDeleteOldReplicaSet :: "'w biz \<Rightarrow> Milvus \<Rightarrow> ('w, unit) op" where
  "SaveDeleteOldReplicaSet b mc =
     op_bind (op_wrap ''list old replica sets'' (ListOldReplicaSets (biz_cli b) mc (biz_component b))) (\<lambda>rss.
     op_bind (op_wrap ''save old replicaset list''
       (SaveObject (biz_cli b) mc (formatSaveOldReplicaSetListName mc (biz_component b)) (SavedReplicaSetList rss))) (\<lambda>_.
     delete_replica_sets (biz_cli b) (Inr ()) rss))"

fun label_pods :: "'w biz \<Rightarrow> Pod list \<Rightarrow> ('w, unit) op" where
  "label_pods b [] = ret ()"
| "label_pods b (p # ps) =
     op_bind (op_wrap ''update old pod labels''
       (cli_UpdatePod (biz_cli b) (p\<lparr>om_Labels := SetGroupID (mcp_Name (biz_component b)) 0 (om_Labels p)\<rparr>)))
     (\<lambda>_. label_pods b ps)"

definition UpdateOldPodLabels :: "'w biz \<Rightarrow> Milvus \<Rightarrow> ('w, unit) op" where
  "UpdateOldPodLabels b mc =
     op_bind (op_wrap ''list old pods'' (ListOldPods (biz_cli b) mc (biz_component b))) (label_pods b)"

definition recovered_rs_name :: "string \<Rightarrow> string option" where
  "recovered_rs_name name =
     (let splitedName = split_on CHR ''-'' name in
      if length splitedName < 2 then None
      else Some (join_with ''-'' (butlast splitedName) @ ''-0-'' @ last splitedName))"

definition regroup_template :: "'w biz \<Rightarrow> PodTemplateSpec \<Rightarrow> PodTemplateSpec" where
  "regroup_template b t = t\<lparr>pt_Labels := SetGroupID (mcp_Name (biz_component b)) 0 (pt_Labels t)\<rparr>"

fun recover_replica_sets :: "'w biz \<Rightarrow> ReplicaSet list \<Rightarrow> ('w, unit) op" where
  "recover_replica_sets b [] = ret ()"
| "recover_replica_sets b (rs # rss) =
     (case recovered_rs_name (om_Name rs) of
        None \<Rightarrow> fail (Errorf (''invalid old replica set name: '' @ om_Name rs))
      | Some newName \<Rightarrow>
          (let c = mcp_Name (biz_component b);
               rs' = rs\<lparr>om_Labels := SetGroupID c 0 (om_Labels rs), rs_Selector := SetGroupID c 0 (rs_Selector rs),
                        rs_Template := regroup_template b (rs_Template rs), om_UID := [], om_Name := newName\<rparr>
           in op_bind (op_wrap ''recover old replica set''
                (CreateObject (cli_GetReplicaSet (biz_cli b) (om_Namespace rs') newName) (cli_CreateReplicaSet (biz_cli b) rs')))
              (\<lambda>_. recover_replica_sets b rss)))"

definition RecoverReplicaSets :: "'w biz \<Rightarrow> Milvus \<Rightarrow> ('w, unit) op" where
  "RecoverReplicaSets b mc =
     op_bind (op_wrap ''list old replica sets''
       (GetSavedObject (biz_cli b) (om_Namespace mc) (formatSaveOldReplicaSetListName mc (biz_component b)))) (\<lambda>saved.
     (case saved of
        SavedReplicaSetList rss \<Rightarrow> recover_replica_sets b rss
      | SavedDeployment _ \<Rightarrow> fail (Wrap (Errorf ''unmarshal saved object'') ''list old replica sets'')))"

definition RecoverDeploy :: "'w biz \<Rightarrow> Milvus \<Rightarrow> ('w, unit) op" where
  "RecoverDeploy b mc =
     op_bind (op_wrap ''get old deploy''
       (GetSavedObject (biz_cli b) (om_Namespace mc) (formatSaveOldDeployName mc (biz_component b)))) (\<lambda>saved.
     (case saved of
        SavedReplicaSetList _ \<Rightarrow> fail (Wrap (Errorf ''unmarshal saved object'') ''get old deploy'')
      | SavedDeployment oldDeploy \<Rightarrow>
          (case d_Selector oldDeploy of
             None \<Rightarrow> fail (GoPanic ''nil selector'')
           | Some sel \<Rightarrow>
               (let c = mcp_Name (biz_component b);
                    d = oldDeploy\<lparr>om_Labels := SetGroupID c 0 (om_Labels oldDeploy), d_Selector := Some (SetGroupID c 0 sel),
                                  d_Template := regroup_template b (d_Template oldDeploy), om_UID := [],
                                  om_Name := om_Name oldDeploy @ ''-0''\<rparr>
                in op_wrap ''recover old deploy''
                     (CreateObject (cli_GetDeployment (biz_cli b) (om_Namespace d) (om_Name d)) (cli_CreateDeployment (biz_cli b) d))))))"

definition MarkCurrentDeploy :: "'w biz \<Rightarrow> Milvus \<Rightarrow> ('w, unit) op" where [op_defs]:
  "MarkCurrentDeploy b mc =
     (if GetCurrentGroupId mc (state_key b) = ''0'' then ret ()
      else op_wrap ''mark current deploy'' (UpdateMilvusAndRequeue (biz_cli b) (SetCurrentGroupID (state_key b) 0 mc)))"

definition changeModeToV2Steps :: "'w biz \<Rightarrow> (string \<times> (Milvus \<Rightarrow> ('w, unit) op)) list" where
  "changeModeToV2Steps b =
     [(''save and delete old deploy'', SaveDeleteOldDeploy b), (''save and delete old replica set'', SaveDeleteOldReplicaSet b),
      (''update old pod labels'', UpdateOldPodLabels b), (''recover replica sets'', RecoverReplicaSets b),
      (''recover deploy'', RecoverDeploy b), (''mark current deploy'', MarkCurrentDeploy b)]"

fun run_steps :: "Milvus \<Rightarrow> int \<Rightarrow> (string \<times> (Milvus \<Rightarrow> ('w, unit) op)) list \<Rightarrow> ('w, unit) op" where
  "run_steps mc i [] = ret ()"
| "run_steps mc i ((name, f) # steps) =
     op_bind (op_wrap (''step[no.'' @ itoa i @ ''][''  @ name @ '']'') (f mc)) (\<lambda>_. run_steps mc (i + 1) steps)"

definition ChangeToTwoDeployMode :: "'w biz \<Rightarrow> Milvus \<Rightarrow> ('w, unit) op" where
  "ChangeToTwoDeployMode b mc = run_steps mc 0 (changeModeToV2Steps b)"

section \<open>Rolling mode of the status\<close>

definition GetExpectedTwoDeployComponents :: "externals \<Rightarrow> MilvusSpec \<Rightarrow> MilvusComponent list" where
  "GetExpectedTwoDeployComponents x spec =
     (if com_RollingMode (ms_Com spec) = RollingModeV3
      then filter (\<lambda>w. \<not> IsIdleClusterStandalone spec w) (GetComponentWorkloadsBySpec x spec)
      else if ms_Mode spec = MilvusModeStandalone then []
      else filter (\<lambda>w. Is w QueryNode \<and> \<not> QueryNode_StatefulSetEnabled (com_QueryNode (ms_Com spec)))
             (GetComponentWorkloadsBySpec x spec))"

fun all_two_deploy :: "'w biz \<Rightarrow> Milvus \<Rightarrow> MilvusComponent list \<Rightarrow> ('w, bool) op" where
  "all_two_deploy b mc [] = ret True"
| "all_two_deploy b mc (c # cs) =
     op_bind (op_wrap ''check deploy mode'' (CheckDeployMode (b\<lparr>biz_component := c\<rparr>) mc)) (\<lambda>deployMode.
       if deployMode \<noteq> TwoDeployMode then ret False else all_two_deploy b mc cs)"

definition rollingMode_checkUpdated :: "'w biz \<Rightarrow> Milvus \<Rightarrow> ('w, bool) op" where
  "rollingMode_checkUpdated b mc =
     (if mst_RollingMode (m_Status mc) = com_RollingMode (ms_Com (m_Spec mc)) then ret False
      else all_two_deploy b mc (GetExpectedTwoDeployComponents (biz_x b) (m_Spec mc)))"

definition RollingModeStatusUpdater_Update :: "'w biz \<Rightarrow> Milvus \<Rightarrow> ('w, Milvus) op" where
  "RollingModeStatusUpdater_Update b mc =
     op_bind (op_wrap ''check updated'' (rollingMode_checkUpdated b mc)) (\<lambda>updated.
       if \<not> updated then ret mc
       else (let mc' = mc\<lparr>m_Status := (m_Status mc)\<lparr>mst_RollingMode := com_RollingMode (ms_Com (m_Spec mc))\<rparr>\<rparr>
             in op_bind (op_wrap ''update milvus status'' (cli_UpdateMilvusStatus (biz_cli b) mc')) (\<lambda>_. ret mc')))"

section \<open>Reconcile\<close>

text \<open>The controller's fields: the factory's parts (a \<open>biz\<close> for the component at hand) and the
  one-deployment controller it falls back to.\<close>

record 'w DeployControllerImpl =
  dci_biz :: "'w biz"
  dci_oneDeployModeController :: "Milvus \<Rightarrow> MilvusComponent \<Rightarrow> ('w, unit) op"

definition reconcile_two_deploy :: "'w biz \<Rightarrow> Milvus \<Rightarrow> ('w, unit) op" where [op_defs]:
  "reconcile_two_deploy b mc =
     op_bind (op_wrap ''handle create'' (HandleCreate b mc)) (\<lambda>_.
     op_bind (lift_result (or_panic ''nil component'' (IsPaused b mc))) (\<lambda>paused.
     if paused then ret ()
     else if com_EnableManualMode (ms_Com (m_Spec mc)) then HandleManualMode b mc
     else if ReplicasValue (GetReplicas (biz_component b) (m_Spec mc)) = 0 \<and>
             (\<not> IsHPAEnabled (biz_component b) (m_Spec mc) \<or> isUpgradeStopping mc) then HandleStop b mc
     else op_bind (op_wrap ''handle rolling'' (HandleRolling b mc)) (\<lambda>_.
          op_wrap ''handle scaling'' (HandleScaling b mc))))"

definition DeployController_Reconcile :: "'w DeployControllerImpl \<Rightarrow> Milvus \<Rightarrow> MilvusComponent \<Rightarrow> ('w, unit) op" where
  "DeployController_Reconcile ctl mc0 c =
     (let b = (dci_biz ctl)\<lparr>biz_component := c\<rparr> in
      op_bind (op_wrap ''update milvus rolling mode status'' (RollingModeStatusUpdater_Update b mc0)) (\<lambda>mc.
      op_bind (op_wrap ''check deploy mode'' (CheckDeployMode b mc)) (\<lambda>deployMode.
      (case deployMode of
         OneDeployMode \<Rightarrow>
           op_bind (lift_result (or_panic ''is stopping'' (IsUpdating b mc))) (\<lambda>isUpdating.
           if isUpdating then dci_oneDeployModeController ctl mc c
           else
             op_bind (markChangingDeployMode b mc True) (\<lambda>_.
             op_bind (op_wrap ''change to two deployment mode'' (ChangeToTwoDeployMode b mc)) (\<lambda>_.
             op_bind (markChangingDeployMode b mc False) (\<lambda>_.
             reconcile_two_deploy b mc))))
       | TwoDeployMode \<Rightarrow>
           op_bind (markChangingDeployMode b mc False) (\<lambda>_. reconcile_two_deploy b mc)
       | DeployModeUnknown \<Rightarrow> fail (Errorf ''unknown deploy mode'')))))"

end
