(* ===== verification/Std_Externals.thy ===== *)
theory Std_Externals
  imports Rolling_Update
begin

text \<open>
  A concrete instance of the third-party functions, with their documented behaviour where a law
  mentions them: integer and percentage scaling, tolerant version parsing (optional \<open>v\<close>, one to
  three numeric parts), version comparison.  The remaining fields are placeholders that the
  concrete examples of the development do not depend on.
\<close>

definition std_Scaled :: "IntOrString \<Rightarrow> int \<Rightarrow> bool \<Rightarrow> int option" where
  "std_Scaled v t up =
     (case v of
        IntVal i \<Rightarrow> Some i
      | StrVal s \<Rightarrow> if has_suffix s ''%'' then map_option (\<lambda>p. percent_of p t up) (atoi (butlast s)) else None)"

definition std_IsValidPercent :: "string \<Rightarrow> bool" where
  "std_IsValidPercent s \<longleftrightarrow> has_suffix s ''%'' \<and> all_digits (butlast s)"

definition std_ParseTolerant :: "string \<Rightarrow> semver option" where
  "std_ParseTolerant s =
     (let s' = (case s of c # cs \<Rightarrow> if c = CHR ''v'' then cs else s | [] \<Rightarrow> []) in
      case map parse_nat (split_on CHR ''.'' s') of
        [Some a] \<Rightarrow> Some \<lparr>sv_Major = a, sv_Minor = 0, sv_Patch = 0, sv_Pre = []\<rparr>
      | [Some a, Some b] \<Rightarrow> Some \<lparr>sv_Major = a, sv_Minor = b, sv_Patch = 0, sv_Pre = []\<rparr>
      | [Some a, Some b, Some c] \<Rightarrow> Some \<lparr>sv_Major = a, sv_Minor = b, sv_Patch = c, sv_Pre = []\<rparr>
      | _ \<Rightarrow> None)"

definition cmp_nat :: "nat \<Rightarrow> nat \<Rightarrow> int" where
  "cmp_nat a b = (if a < b then -1 else if a = b then 0 else 1)"

definition std_Compare :: "semver \<Rightarrow> semver \<Rightarrow> int" where
  "std_Compare v w =
     (if cmp_nat (sv_Major v) (sv_Major w) \<noteq> 0 then cmp_nat (sv_Major v) (sv_Major w)
      else if cmp_nat (sv_Minor v) (sv_Minor w) \<noteq> 0 then cmp_nat (sv_Minor v) (sv_Minor w)
      else cmp_nat (sv_Patch v) (sv_Patch w))"

definition std_x :: externals where
  "std_x = \<lparr>x_ParseTolerant = std_ParseTolerant, x_Compare = std_Compare, x_sha256 = (\<lambda>s. s),
     x_Scaled = std_Scaled, x_IsValidPercent = std_IsValidPercent,
     x_asContainer = (\<lambda>_. None), x_asVolume = (\<lambda>_. None), x_asSecurityContext = (\<lambda>_ s. Some s),
     x_asProbes = (\<lambda>_. None), x_asKafkaRefs = (\<lambda>_. (\<lparr>ksr_SASLUsernameSecret = None, ksr_SASLPasswordSecret = None,
       ksr_CACertSecret = None, ksr_CertSecret = None, ksr_KeySecret = None, ksr_KeyPasswordSecret = None\<rparr>, True)),
     x_OperatorImageInfo = (''milvusdb/milvus-operator:latest'', ''IfNotPresent''), x_marshal = (\<lambda>_. [])\<rparr>"

lemma has_suffix_snoc: "has_suffix s ''%'' \<longleftrightarrow> s \<noteq> [] \<and> s = butlast s @ ''%''"
  by (auto simp: has_suffix_iff)

interpretation std: intstr_lib std_x
proof unfold_locales
  show "x_Scaled std_x (IntVal i) t up = Some i" for i t up
    by (simp add: std_x_def std_Scaled_def)
  show "x_Scaled std_x (StrVal (s @ ''%'')) t up = map_option (\<lambda>p. percent_of p t up) (atoi s)" for s t up
    by (simp add: std_x_def std_Scaled_def has_suffix_iff)
  show "\<exists>d. s = d @ ''%'' \<and> all_digits d" if "x_IsValidPercent std_x s" for s
    using that by (auto simp: std_x_def std_IsValidPercent_def has_suffix_snoc)
qed

section \<open>Example objects\<close>

text \<open>A cluster with three query nodes that roll without surge, one pod at a time.\<close>

definition ex_querynode :: MilvusQueryNode where
  "ex_querynode = zero_MilvusQueryNode\<lparr>co_Replicas := Some 3,
     cs_RollingUpdate := Some \<lparr>ru_MaxUnavailable = Some (StrVal ''10%''), ru_MaxSurge = Some (IntVal 0)\<rparr>\<rparr>"

definition ex_milvus :: Milvus where
  "ex_milvus = (new_Milvus ''ns'' ''mc'')\<lparr>om_Generation := 7, om_UID := ''uid'', m_Spec := zero_MilvusSpec
     \<lparr>ms_Mode := MilvusModeCluster,
      ms_Com := zero_MilvusComponents\<lparr>cs_Image := ''milvusdb/milvus:v2.5.4'', com_QueryNode := Some ex_querynode\<rparr>\<rparr>\<rparr>"

definition ex_deploy :: "string \<Rightarrow> string \<Rightarrow> int \<Rightarrow> Deployment" where
  "ex_deploy name slot n = (new_Deployment ''ns'' name)\<lparr>d_Replicas := Some n,
     om_Labels := fmap_of_list [(AppLabelInstance, ''mc''), (AppLabelComponent, ''querynode''), (AppLabelName, ''milvus''),
        (AppLabelManagedBy, ManagerName), (''milvus.io/querynode-group-id'', slot)]\<rparr>"

end
