(* ===== verification/Rollout_Correct.thy ===== *)
theory Rollout_Correct
  imports Deploy_Ctrl Std_Externals
begin

text \<open>
  Correctness of the scale planner: every plan keeps the replica numbers in range and within the
  surge and unavailability budgets, the old Deployment is only ever scaled down, an autoscaled
  rollout keeps ready capacity, and with validated settings repeated planning drives the pair of
  Deployments to the desired state.
\<close>

section \<open>The plan as arithmetic\<close>

text \<open>The numbers a rollout plan depends on: steps \<open>s\<close> and \<open>u\<close>, expected \<open>e\<close>, current \<open>c\<close>, last \<open>l\<close>,
  available \<open>a\<close>, and whether the resource limits agree.\<close>

definition rollout_numbers :: "bool \<Rightarrow> int \<Rightarrow> int \<Rightarrow> int \<Rightarrow> int \<Rightarrow> int \<Rightarrow> int \<Rightarrow> scaleAction" where
  "rollout_numbers same s u e c l a =
     (if s = 0 then
        (if l + c < e then mk_action CurrentDeploy (e - (l + c))
         else if min l (a - max 0 (e - u)) > 0 then mk_action LastDeploy (- min l (a - max 0 (e - u)))
         else noScaleAction)
      else if same then
        (if l + c = e \<and> l = 0 then noScaleAction
         else if l + c > e then (if l > 0 then mk_action LastDeploy (- min (max 1 u) l) else noScaleAction)
         else mk_action CurrentDeploy (min s (min (e - c) (e + s - (l + c)))))
      else
        (if l > 0 then
           (if c < l \<or> c < e then
              (if l < e then mk_action CurrentDeploy (e - c) else mk_action CurrentDeploy (l - c))
            else mk_action LastDeploy (- min (max 1 u) l))
         else if c > e then mk_action CurrentDeploy (- min (max 1 u) (c - e))
         else if c < e then mk_action CurrentDeploy (e - c)
         else noScaleAction))"

definition available_sum :: "Deployment \<Rightarrow> Deployment \<Rightarrow> int" where
  "available_sum cur lst =
     min (dst_AvailableReplicas (d_Status cur)) (getDeployReplicas cur) +
     min (dst_AvailableReplicas (d_Status lst)) (getDeployReplicas lst)"

lemma planScaleForRollout_numbers:
  "planScaleForRollout x c mc cur lst =
     rollout_numbers (compareDeployResourceLimitEqual cur lst)
       (fst (rolloutSteps x (d_Strategy cur) (expected_replicas c mc)))
       (snd (rolloutSteps x (d_Strategy cur) (expected_replicas c mc)))
       (expected_replicas c mc) (getDeployReplicas cur) (getDeployReplicas lst) (available_sum cur lst)"
  unfolding planScaleForRollout_def rollout_numbers_def available_sum_def Let_def
  by (simp only: prod.case_eq_if)

lemma rolloutSteps_nonneg: "fst (rolloutSteps x st r) \<ge> 0" "snd (rolloutSteps x st r) \<ge> 0"
  by (auto simp: rolloutSteps_def Let_def split: option.splits)

section \<open>Applying an action\<close>

definition apply_scale :: "scaleAction \<Rightarrow> Deployment \<times> Deployment \<Rightarrow> Deployment \<times> Deployment" where
  "apply_scale a p =
     (case sa_deploy a of
        CurrentDeploy \<Rightarrow> (scaled (fst p) (sa_replicaChange a), snd p)
      | LastDeploy \<Rightarrow> (fst p, scaled (snd p) (sa_replicaChange a))
      | NoDeploy \<Rightarrow> p)"

definition cur_after :: "scaleAction \<Rightarrow> int \<Rightarrow> int" where
  "cur_after a c = (if sa_deploy a = CurrentDeploy then c + sa_replicaChange a else c)"

definition last_after :: "scaleAction \<Rightarrow> int \<Rightarrow> int" where
  "last_after a l = (if sa_deploy a = LastDeploy then l + sa_replicaChange a else l)"

lemma after_simps [simp]:
  "cur_after noScaleAction c = c" "last_after noScaleAction l = l"
  "cur_after (mk_action CurrentDeploy n) c = c + n" "last_after (mk_action CurrentDeploy n) l = l"
  "cur_after (mk_action LastDeploy n) c = c" "last_after (mk_action LastDeploy n) l = l + n"
  by (simp_all add: cur_after_def last_after_def)

definition nonneg32 :: "int \<Rightarrow> bool" where
  "nonneg32 i \<longleftrightarrow> 0 \<le> i \<and> i < 2^31"

lemma nonneg32_range [simp]: "nonneg32 i \<Longrightarrow> to_int32 i = i"
  by (simp add: nonneg32_def int32_range_def)

text \<open>A rollout plan is one of four kinds of action.\<close>

lemma rollout_numbers_cases:
  fixes same :: bool and s u e c l a :: int
  assumes pos: "e \<ge> 0" "c \<ge> 0" "l \<ge> 0" "s \<ge> 0" "u \<ge> 0"
  obtains (none) "rollout_numbers same s u e c l a = noScaleAction"
  | (grow) k where "rollout_numbers same s u e c l a = mk_action CurrentDeploy k" "0 < k" "c + k \<le> max l e"
      "same \<or> s = 0 \<Longrightarrow> c + k \<le> e \<and> c + k + l \<le> e + s" "\<not> same \<and> s \<noteq> 0 \<Longrightarrow> c + k = max l e"
  | (shrink_last) k where "rollout_numbers same s u e c l a = mk_action LastDeploy (- k)" "0 < k" "k \<le> l"
      "s = 0 \<Longrightarrow> a - k \<ge> max 0 (e - u)" "s \<noteq> 0 \<Longrightarrow> k \<le> max 1 u" "s \<noteq> 0 \<Longrightarrow> c + l > e"
  | (shrink_cur) k where "rollout_numbers same s u e c l a = mk_action CurrentDeploy (- k)" "0 < k" "c - k \<ge> e" "l = 0"
proof (cases "s = 0")
  case True
  define k where "k = min l (a - max 0 (e - u))"
  have k: "k \<le> l" "a - k \<ge> max 0 (e - u)" unfolding k_def by linarith+
  consider "l + c < e" | "\<not> l + c < e" "k > 0" | "\<not> l + c < e" "\<not> k > 0" by blast
  then show thesis
  proof cases
    case 1
    with True pos show thesis by (intro grow [of "e - (l + c)"]) (auto simp: rollout_numbers_def)
  next
    case 2
    with True k show thesis by (intro shrink_last [of k]) (auto simp: rollout_numbers_def k_def)
  next
    case 3
    with True show thesis by (intro none) (auto simp: rollout_numbers_def k_def)
  qed
next
  case s0: False
  then have s1: "s \<ge> 1" using pos by simp
  define d where "d = min (max 1 u) l"
  show thesis
  proof (cases same)
    case True
    define g where "g = min s (min (e - c) (e + s - (l + c)))"
    consider "l + c = e" "l = 0" | "l + c > e" "l > 0" | "l + c > e" "l = 0" | "l + c \<le> e" "\<not> (l + c = e \<and> l = 0)"
      using pos by linarith
    then show thesis
    proof cases
      case 1
      with True s0 show thesis by (intro none) (simp add: rollout_numbers_def)
    next
      case 2
      then have "0 < d" "d \<le> l" "d \<le> max 1 u" unfolding d_def by linarith+
      with 2 True s0 show thesis by (intro shrink_last [of d]) (auto simp: rollout_numbers_def d_def)
    next
      case 3
      with True s0 show thesis by (intro none) (auto simp: rollout_numbers_def)
    next
      case 4
      then have "0 < g" "c + g \<le> e" "c + g + l \<le> e + s" using s1 pos unfolding g_def by linarith+
      with 4 True s0 show thesis by (intro grow [of g]) (auto simp: rollout_numbers_def g_def)
    qed
  next
    case False
    consider "l > 0" "c < l \<or> c < e" | "l > 0" "l \<le> c" "e \<le> c" | "l = 0" "c > e" | "l = 0" "c < e" | "l = 0" "c = e"
      using pos by linarith
    then show thesis
    proof cases
      case 1
      with False s0 show thesis by (intro grow [of "max l e - c"]) (auto simp: rollout_numbers_def)
    next
      case 2
      then have "0 < d" "d \<le> l" "d \<le> max 1 u" unfolding d_def by linarith+
      with 2 False s0 show thesis by (intro shrink_last [of d]) (auto simp: rollout_numbers_def d_def)
    next
      case 3
      then have "0 < min (max 1 u) (c - e)" by linarith
      with 3 False s0 show thesis
        by (intro shrink_cur [of "min (max 1 u) (c - e)"]) (auto simp: rollout_numbers_def)
    next
      case 4
      with False s0 pos show thesis by (intro grow [of "e - c"]) (auto simp: rollout_numbers_def)
    next
      case 5
      with False s0 show thesis by (intro none) (auto simp: rollout_numbers_def)
    qed
  qed
qed

lemma rollout_numbers_range:
  assumes "nonneg32 e" "nonneg32 c" "nonneg32 l" "s \<ge> 0" "u \<ge> 0"
  shows "nonneg32 (cur_after (rollout_numbers same s u e c l a) c) \<and>
         nonneg32 (last_after (rollout_numbers same s u e c l a) l)"
proof -
  have pos: "e \<ge> 0" "c \<ge> 0" "l \<ge> 0" using assms by (simp_all add: nonneg32_def)
  show ?thesis
    using pos assms(4,5)
    by (cases rule: rollout_numbers_cases [of e c l s u same a]) (use assms in \<open>auto simp: nonneg32_def\<close>)
qed

lemma rollout_numbers_budget:
  fixes same :: bool and s u e c l a :: int
  assumes pos: "e \<ge> 0" "c \<ge> 0" "l \<ge> 0" "s \<ge> 0" "u \<ge> 0"
  defines "A \<equiv> rollout_numbers same s u e c l a"
  shows "same \<or> s = 0 \<Longrightarrow> cur_after A c + last_after A l \<le> max (c + l) (e + s)"
    and "cur_after A c \<le> max c (max l e)"
    and "a \<le> c + l \<Longrightarrow> min (c + l) (e - u) \<le> cur_after A c + last_after A l"
    and "last_after A l \<le> l"
    and "l > 0 \<Longrightarrow> c \<le> cur_after A c"
  unfolding A_def using pos
  by (cases rule: rollout_numbers_cases [of e c l s u same a]; cases "s = 0"; auto)+

lemma rollout_numbers_available:
  assumes "s = 0" "sa_deploy (rollout_numbers same s u e c l a) = LastDeploy"
  shows "a + sa_replicaChange (rollout_numbers same s u e c l a) \<ge> max 0 (e - u)"
  using assms by (auto simp: rollout_numbers_def split: if_splits)

lemma rollout_numbers_last:
  assumes pos: "e \<ge> 0" "c \<ge> 0" "l \<ge> 0" "s \<ge> 0" "u \<ge> 0"
    and lst: "sa_deploy (rollout_numbers same s u e c l a) = LastDeploy"
  shows "sa_replicaChange (rollout_numbers same s u e c l a) < 0 \<and> l + sa_replicaChange (rollout_numbers same s u e c l a) \<ge> 0"
  using pos by (cases rule: rollout_numbers_cases [of e c l s u same a]) (use lst in auto)

lemma available_sum_le: "available_sum cur lst \<le> getDeployReplicas cur + getDeployReplicas lst"
  by (simp add: available_sum_def)

lemma apply_scale_replicas:
  assumes "nonneg32 (cur_after a (getDeployReplicas cur))" "nonneg32 (last_after a (getDeployReplicas lst))"
  shows "getDeployReplicas (fst (apply_scale a (cur, lst))) = cur_after a (getDeployReplicas cur)"
    and "getDeployReplicas (snd (apply_scale a (cur, lst))) = last_after a (getDeployReplicas lst)"
  using assms by (auto simp: apply_scale_def cur_after_def last_after_def split: scale_target.splits)

text \<open>Between two plans the Deployment controller brings every pod up: the status reports the
  desired replicas as available.\<close>

definition settle :: "Deployment \<Rightarrow> Deployment" where
  "settle d = d\<lparr>d_Status := (d_Status d)\<lparr>dst_Replicas := getDeployReplicas d, dst_UpdatedReplicas := getDeployReplicas d,
     dst_ReadyReplicas := getDeployReplicas d, dst_AvailableReplicas := getDeployReplicas d, dst_UnavailableReplicas := 0\<rparr>\<rparr>"

text \<open>Two Deployments of the example in the middle of a rollout without surge.\<close>

definition ex_cur :: Deployment where
  "ex_cur = with_strategy (the (GetDeploymentStrategy ex_milvus QueryNode)) (settle (ex_deploy ''b'' ''1'' 4))"

definition ex_last :: Deployment where
  "ex_last = settle (ex_deploy ''a'' ''0'' 3)"

section \<open>Properties of the planner\<close>

text \<open>C12. A rollout plan and its budget.  For int32 replica counts that are not negative, the
  counts after the planned action are again non-negative int32 values (no wrap-around); the old
  Deployment never grows; the total never drops below the expected count minus the unavailable
  budget (unless it was below already); with equal resource limits, or without surge, the total
  never exceeds the expected count plus the surge (unless it did already); and, whatever the limits are, the
  new Deployment never exceeds the larger of the two counts and the expected count.  With changed limits
  and a surge the total may exceed the budget: the new Deployment is then raised to the larger of the
  old count and the expected one at once.\<close>

theorem rollout_plan_within_budget:
  assumes "nonneg32 (expected_replicas c mc)" "nonneg32 (getDeployReplicas cur)" "nonneg32 (getDeployReplicas lst)"
  shows "let A = planScaleForRollout x c mc cur lst;
             (surge, unavailable) = rolloutSteps x (d_Strategy cur) (expected_replicas c mc);
             c0 = getDeployReplicas cur; l0 = getDeployReplicas lst; e = expected_replicas c mc;
             c1 = getDeployReplicas (fst (apply_scale A (cur, lst)));
             l1 = getDeployReplicas (snd (apply_scale A (cur, lst)))
         in nonneg32 c1 \<and> nonneg32 l1 \<and> l1 \<le> l0 \<and> min (c0 + l0) (e - unavailable) \<le> c1 + l1 \<and>
            (compareDeployResourceLimitEqual cur lst \<or> surge = 0 \<longrightarrow> c1 + l1 \<le> max (c0 + l0) (e + surge)) \<and>
            c1 \<le> max c0 (max l0 e)"
proof -
  obtain s u where su: "rolloutSteps x (d_Strategy cur) (expected_replicas c mc) = (s, u)" by force
  then have pos: "s \<ge> 0" "u \<ge> 0"
    using rolloutSteps_nonneg [of x "d_Strategy cur" "expected_replicas c mc"] by simp_all
  have nn: "expected_replicas c mc \<ge> 0" "getDeployReplicas cur \<ge> 0" "getDeployReplicas lst \<ge> 0"
    using assms by (simp_all add: nonneg32_def)
  define B where "B = rollout_numbers (compareDeployResourceLimitEqual cur lst) s u (expected_replicas c mc)
    (getDeployReplicas cur) (getDeployReplicas lst) (available_sum cur lst)"
  have plan: "planScaleForRollout x c mc cur lst = B"
    by (simp add: planScaleForRollout_numbers su B_def)
  have range: "nonneg32 (cur_after B (getDeployReplicas cur)) \<and> nonneg32 (last_after B (getDeployReplicas lst))"
    unfolding B_def using assms pos by (rule rollout_numbers_range)
  note budget = rollout_numbers_budget [OF nn pos, where same = "compareDeployResourceLimitEqual cur lst"
      and a = "available_sum cur lst", folded B_def]
  show ?thesis
    using budget range available_sum_le [of cur lst] by (auto simp: su plan apply_scale_replicas Let_def)
qed

theorem rollout_plan_within_budget_witness:
  "getDeployReplicas (snd (apply_scale (planScaleForRollout std_x QueryNode ex_milvus ex_cur ex_last) (ex_cur, ex_last))) = 0 \<and>
   min (4 + 3) (3 - 1) \<le> getDeployReplicas (fst (apply_scale (planScaleForRollout std_x QueryNode ex_milvus ex_cur ex_last) (ex_cur, ex_last))) + 0"
proof -
  have n: "nonneg32 (expected_replicas QueryNode ex_milvus)" "nonneg32 (getDeployReplicas ex_cur)" "nonneg32 (getDeployReplicas ex_last)"
    by code_simp+
  have v: "getDeployReplicas ex_cur = 4" "getDeployReplicas ex_last = 3" "expected_replicas QueryNode ex_milvus = 3"
    "rolloutSteps std_x (d_Strategy ex_cur) 3 = (0, 1)"
    "getDeployReplicas (snd (apply_scale (planScaleForRollout std_x QueryNode ex_milvus ex_cur ex_last) (ex_cur, ex_last))) = 0"
    by code_simp+
  show ?thesis
    using rollout_plan_within_budget [OF n, of std_x] by (simp add: v Let_def)
qed

text \<open>Without surge, scaling the old Deployment down leaves at least the expected count minus the
  unavailable budget available, even if every removed pod was available.\<close>

theorem zero_surge_keeps_available:
  assumes "fst (rolloutSteps x (d_Strategy cur) (expected_replicas c mc)) = 0"
    and "sa_deploy (planScaleForRollout x c mc cur lst) = LastDeploy"
  shows "available_sum cur lst + sa_replicaChange (planScaleForRollout x c mc cur lst)
           \<ge> max 0 (expected_replicas c mc - snd (rolloutSteps x (d_Strategy cur) (expected_replicas c mc)))"
  using assms rollout_numbers_available by (simp add: planScaleForRollout_numbers)

theorem zero_surge_keeps_available_witness:
  "available_sum ex_cur ex_last + sa_replicaChange (planScaleForRollout std_x QueryNode ex_milvus ex_cur ex_last) \<ge> 2"
proof -
  have s: "fst (rolloutSteps std_x (d_Strategy ex_cur) (expected_replicas QueryNode ex_milvus)) = 0"
    "sa_deploy (planScaleForRollout std_x QueryNode ex_milvus ex_cur ex_last) = LastDeploy"
    "max 0 (expected_replicas QueryNode ex_milvus - snd (rolloutSteps std_x (d_Strategy ex_cur) (expected_replicas QueryNode ex_milvus))) = 2"
    by code_simp+
  show ?thesis using zero_surge_keeps_available [OF s(1,2)] by (simp add: s(3))
qed

text \<open>With an HPA of the operator, the old Deployment loses at most one pod per plan, and only when
  the new Deployment already wants and has ready at least as many pods as the old one wants, and at
  least the HPA minimum.\<close>

theorem hpa_keeps_ready_capacity:
  assumes "sa_deploy (planScaleForHPA c mc cur lst) = LastDeploy"
  shows "sa_replicaChange (planScaleForHPA c mc cur lst) = -1 \<and> getDeployReplicas lst > 0 \<and>
    max (getDeployReplicas lst) (hpa_min_replicas c (m_Spec mc)) \<le> getDeployReplicas cur \<and>
    max (getDeployReplicas lst) (hpa_min_replicas c (m_Spec mc)) \<le> dst_ReadyReplicas (d_Status cur)"
  using assms by (auto simp: planScaleForHPA_def Let_def split: if_splits)

theorem hpa_keeps_ready_capacity_witness:
  "sa_replicaChange (planScaleForHPA QueryNode ex_milvus ex_cur ex_last) = -1 \<and> 3 \<le> dst_ReadyReplicas (d_Status ex_cur)"
proof -
  have h: "sa_deploy (planScaleForHPA QueryNode ex_milvus ex_cur ex_last) = LastDeploy"
    "getDeployReplicas ex_last = 3" "hpa_min_replicas QueryNode (m_Spec ex_milvus) = 1"
    by code_simp+
  show ?thesis using hpa_keeps_ready_capacity [OF h(1)] by (simp add: h(2,3))
qed

text \<open>With an external HPA (replicas -1) the old Deployment is removed in one step, only while the
  component is marked as rolling and only when the new one has at least as many ready pods.\<close>

theorem external_hpa_keeps_ready_capacity:
  assumes "sa_deploy (planScaleForExternalHPA x c mc cur lst) = LastDeploy"
    and "int32_range (getDeployReplicas cur)" "int32_range (getDeployReplicas lst)"
  shows "IsComponentRolling mc (GetStateKey x c) \<and>
    sa_replicaChange (planScaleForExternalHPA x c mc cur lst) = - getDeployReplicas lst \<and>
    getDeployReplicas lst \<le> getDeployReplicas cur \<and> getDeployReplicas lst \<le> dst_ReadyReplicas (d_Status cur)"
  using assms by (auto simp: planScaleForExternalHPA_def Let_def split: if_splits)

theorem external_hpa_keeps_ready_capacity_witness:
  "sa_replicaChange (planScaleForExternalHPA std_x QueryNode (SetComponentRolling ''querynode'' True ex_milvus) ex_cur ex_last) = - 3 \<and>
   3 \<le> dst_ReadyReplicas (d_Status ex_cur)"
proof -
  have h: "sa_deploy (planScaleForExternalHPA std_x QueryNode (SetComponentRolling ''querynode'' True ex_milvus) ex_cur ex_last) = LastDeploy"
    "int32_range (getDeployReplicas ex_cur)" "int32_range (getDeployReplicas ex_last)" and l: "getDeployReplicas ex_last = 3"
    by code_simp+
  show ?thesis using external_hpa_keeps_ready_capacity [OF h] by (simp add: l)
qed

text \<open>Whatever the kind of scaling, the old Deployment is never scaled up and never below zero.\<close>

lemma last_only_shrinks:
  assumes "getDeployReplicas lst \<ge> 0" "getDeployReplicas cur \<ge> 0" "kind = checkScaleKind c mc lst"
    and "sa_deploy (plan_by_kind x kind c mc cur lst) = LastDeploy"
  shows "sa_replicaChange (plan_by_kind x kind c mc cur lst) < 0 \<and>
    getDeployReplicas lst + sa_replicaChange (plan_by_kind x kind c mc cur lst) \<ge> 0"
proof (cases kind)
  case scaleKindNormal
  then show ?thesis using assms by (auto simp: plan_by_kind_def planScaleForNormalState_def Let_def split: if_splits)
next
  case scaleKindRollout
  then have "expected_replicas c mc \<ge> 0" using assms(3) by (auto simp: checkScaleKind_def split: if_splits)
  moreover have "plan_by_kind x kind c mc cur lst = planScaleForRollout x c mc cur lst"
    by (simp add: plan_by_kind_def scaleKindRollout)
  ultimately show ?thesis
    using assms(1,2,4) rollout_numbers_last rolloutSteps_nonneg by (simp add: planScaleForRollout_numbers)
next
  case scaleKindHPA
  then show ?thesis using assms by (auto simp: plan_by_kind_def planScaleForHPA_def Let_def split: if_splits)
next
  case scaleKindExternalHPA
  then show ?thesis using assms by (auto simp: plan_by_kind_def planScaleForExternalHPA_def Let_def split: if_splits)
next
  case scaleKindForce
  then show ?thesis using assms by (auto simp: plan_by_kind_def planScaleForForceUpgrade_def Let_def split: if_splits)
qed

section \<open>Convergence\<close>

definition scale_round :: "externals \<Rightarrow> MilvusComponent \<Rightarrow> Milvus \<Rightarrow> Deployment \<times> Deployment \<Rightarrow> Deployment \<times> Deployment" where
  "scale_round x c mc p =
     (case planNextScaleAction x c mc (settle (fst p)) (settle (snd p)) of
        None \<Rightarrow> p
      | Some (action, cur, lst) \<Rightarrow> apply_scale action (cur, lst))"

lemma getDeployReplicas_settle [simp]: "getDeployReplicas (settle d) = getDeployReplicas d"
  by (simp add: settle_def getDeployReplicas_def)

lemma available_settled [simp]:
  "available_sum (with_strategy st (settle cur)) (with_strategy st (settle lst)) = getDeployReplicas cur + getDeployReplicas lst"
  by (simp add: available_sum_def settle_def with_strategy_def getDeployReplicas_def)

definition rollout_measure :: "int \<Rightarrow> int \<Rightarrow> int \<Rightarrow> nat \<times> nat \<times> nat" where
  "rollout_measure e c l = (nat l, (if l > 0 \<and> c < max l e then 1 else 0), nat \<bar>e - c\<bar>)"

definition rollout_order :: "((nat \<times> nat \<times> nat) \<times> (nat \<times> nat \<times> nat)) set" where
  "rollout_order = less_than <*lex*> less_than <*lex*> less_than"

lemma wf_rollout_order [simp]: "wf rollout_order"
  unfolding rollout_order_def by (intro wf_lex_prod wf_less_than)

text \<open>One plan of a settled rollout makes progress: the old Deployment shrinks, or the new one
  reaches its bound, or the new one gets closer to the expected count.\<close>

lemma rollout_numbers_progress:
  fixes same :: bool and s u e c l :: int
  assumes "e \<ge> 1" "c \<ge> 0" "l > 0" "s \<ge> 0" "u \<ge> 0" "s > 0 \<or> u > 0" "u \<le> e"
  defines "A \<equiv> rollout_numbers same s u e c l (c + l)"
  shows "(rollout_measure e (cur_after A c) (last_after A l), rollout_measure e c l) \<in> rollout_order"
proof -
  have pos: "e \<ge> 0" "c \<ge> 0" "l \<ge> 0" "s \<ge> 0" "u \<ge> 0" using assms by simp_all
  show ?thesis
    using pos
  proof (cases rule: rollout_numbers_cases [of e c l s u same "c + l"])
    case none
    then have False using assms(1-6) by (auto simp: rollout_numbers_def min_def max_def split: if_splits)
    then show ?thesis ..
  next
    case (grow k)
    then show ?thesis using assms(1-3)
      by (cases "same \<or> s = 0") (auto simp: A_def rollout_measure_def rollout_order_def)
  next
    case (shrink_last k)
    then show ?thesis using assms(1-3) by (auto simp: A_def rollout_measure_def rollout_order_def)
  next
    case (shrink_cur k)
    then show ?thesis using assms(3) by simp
  qed
qed

definition normal_numbers :: "int \<Rightarrow> int \<Rightarrow> scaleAction" where
  "normal_numbers e c =
     (if c > e then mk_action CurrentDeploy (-1) else if c = e then noScaleAction else mk_action CurrentDeploy (e - c))"

definition round_numbers :: "bool \<Rightarrow> int \<Rightarrow> int \<Rightarrow> int \<Rightarrow> int \<Rightarrow> int \<Rightarrow> scaleAction" where
  "round_numbers same s u e c l = (if l > 0 then rollout_numbers same s u e c l (c + l) else normal_numbers e c)"

lemma round_numbers_progress:
  fixes same :: bool and s u e c l :: int
  assumes "e \<ge> 1" "c \<ge> 0" "l \<ge> 0" "s \<ge> 0" "u \<ge> 0" "s > 0 \<or> u > 0" "u \<le> e" "\<not> (c = e \<and> l = 0)"
  defines "A \<equiv> round_numbers same s u e c l"
  shows "(rollout_measure e (cur_after A c) (last_after A l), rollout_measure e c l) \<in> rollout_order"
proof (cases "l > 0")
  case True
  then show ?thesis using assms rollout_numbers_progress by (simp add: A_def round_numbers_def)
next
  case False
  then show ?thesis using assms
    by (auto simp: A_def round_numbers_def normal_numbers_def rollout_measure_def rollout_order_def)
qed

lemma round_numbers_range:
  assumes "nonneg32 e" "nonneg32 c" "nonneg32 l" "s \<ge> 0" "u \<ge> 0"
  shows "nonneg32 (cur_after (round_numbers same s u e c l) c) \<and> nonneg32 (last_after (round_numbers same s u e c l) l)"
proof (cases "l > 0")
  case True
  then show ?thesis using rollout_numbers_range [OF assms] by (simp add: round_numbers_def)
next
  case False
  then show ?thesis using assms by (auto simp: round_numbers_def normal_numbers_def nonneg32_def)
qed

lemma rolloutSteps_unavailable_le: "r \<ge> 0 \<Longrightarrow> snd (rolloutSteps x st r) \<le> r"
  by (auto simp: rolloutSteps_def Let_def split: option.splits)

text \<open>The closed loop: one round acts on the replica counts as \<open>round_numbers\<close> says.\<close>

lemma scale_round_numbers:
  assumes mode: "com_ImageUpdateMode (ms_Com (m_Spec mc)) \<noteq> ImageUpdateModeForce" "\<not> IsHPAEnabled c (m_Spec mc)"
    and st: "GetDeploymentStrategy mc c = Some st"
    and nn: "nonneg32 (expected_replicas c mc)" "nonneg32 (getDeployReplicas (fst p))" "nonneg32 (getDeployReplicas (snd p))"
  obtains same where
    "getDeployReplicas (fst (scale_round x c mc p)) =
       cur_after (round_numbers same (fst (rolloutSteps x st (expected_replicas c mc))) (snd (rolloutSteps x st (expected_replicas c mc)))
         (expected_replicas c mc) (getDeployReplicas (fst p)) (getDeployReplicas (snd p))) (getDeployReplicas (fst p))"
    "getDeployReplicas (snd (scale_round x c mc p)) =
       last_after (round_numbers same (fst (rolloutSteps x st (expected_replicas c mc))) (snd (rolloutSteps x st (expected_replicas c mc)))
         (expected_replicas c mc) (getDeployReplicas (fst p)) (getDeployReplicas (snd p))) (getDeployReplicas (snd p))"
proof -
  define e where "e = expected_replicas c mc"
  define cur where "cur = with_strategy st (settle (fst p))"
  define lst where "lst = with_strategy st (settle (snd p))"
  define same where "same = compareDeployResourceLimitEqual cur lst"
  define A where "A = round_numbers same (fst (rolloutSteps x st e)) (snd (rolloutSteps x st e)) e
    (getDeployReplicas (fst p)) (getDeployReplicas (snd p))"
  have kind: "checkScaleKind c mc (settle (snd p)) = (if getDeployReplicas (snd p) > 0 then scaleKindRollout else scaleKindNormal)"
    using mode nn(1) by (auto simp: checkScaleKind_def nonneg32_def)
  have plan: "plan_by_kind x (checkScaleKind c mc (settle (snd p))) c mc cur lst = A"
    unfolding A_def round_numbers_def kind
    by (auto simp: plan_by_kind_def planScaleForRollout_numbers planScaleForNormalState_def normal_numbers_def
        cur_def lst_def same_def e_def Let_def)
  have round: "scale_round x c mc p = apply_scale A (cur, lst)"
    unfolding plan [symmetric] by (simp add: scale_round_def planNextScaleAction_def st cur_def lst_def Let_def)
  have reps: "getDeployReplicas cur = getDeployReplicas (fst p)" "getDeployReplicas lst = getDeployReplicas (snd p)"
    by (simp_all add: cur_def lst_def)
  have range: "nonneg32 (cur_after A (getDeployReplicas (fst p))) \<and> nonneg32 (last_after A (getDeployReplicas (snd p)))"
    unfolding A_def using nn e_def rolloutSteps_nonneg by (intro round_numbers_range) auto
  show thesis
    using that [of same] round apply_scale_replicas [of A cur lst] range reps unfolding A_def e_def by simp
qed

lemma scale_rounds_converge:
  assumes mode: "com_ImageUpdateMode (ms_Com (m_Spec mc)) \<noteq> ImageUpdateModeForce" "\<not> IsHPAEnabled c (m_Spec mc)"
    and st: "GetDeploymentStrategy mc c = Some st"
    and e: "nonneg32 (expected_replicas c mc)" "expected_replicas c mc \<ge> 1"
    and prog: "fst (rolloutSteps x st (expected_replicas c mc)) > 0 \<or> snd (rolloutSteps x st (expected_replicas c mc)) > 0"
    and nn: "nonneg32 (getDeployReplicas (fst p))" "nonneg32 (getDeployReplicas (snd p))"
  shows "\<exists>n. getDeployReplicas (fst ((scale_round x c mc ^^ n) p)) = expected_replicas c mc \<and>
             getDeployReplicas (snd ((scale_round x c mc ^^ n) p)) = 0"
  using nn
proof (induction "rollout_measure (expected_replicas c mc) (getDeployReplicas (fst p)) (getDeployReplicas (snd p))"
    arbitrary: p rule: wf_induct_rule [OF wf_rollout_order])
  case (1 p)
  define e where "e = expected_replicas c mc"
  define q where "q = scale_round x c mc p"
  show ?case
  proof (cases "getDeployReplicas (fst p) = e \<and> getDeployReplicas (snd p) = 0")
    case True
    then show ?thesis unfolding e_def by (metis eq_id_iff funpow_0)
  next
    case False
    obtain same where q: "getDeployReplicas (fst q) = cur_after (round_numbers same (fst (rolloutSteps x st e))
           (snd (rolloutSteps x st e)) e (getDeployReplicas (fst p)) (getDeployReplicas (snd p))) (getDeployReplicas (fst p))"
      "getDeployReplicas (snd q) = last_after (round_numbers same (fst (rolloutSteps x st e))
           (snd (rolloutSteps x st e)) e (getDeployReplicas (fst p)) (getDeployReplicas (snd p))) (getDeployReplicas (snd p))"
      using scale_round_numbers [OF mode st assms(4) 1(2,3)] unfolding q_def e_def by blast
    have pos: "getDeployReplicas (fst p) \<ge> 0" "getDeployReplicas (snd p) \<ge> 0" "e \<ge> 1"
      using 1 assms(5) by (simp_all add: nonneg32_def e_def)
    have "snd (rolloutSteps x st e) \<le> e" using pos rolloutSteps_unavailable_le by simp
    then have dec: "(rollout_measure e (getDeployReplicas (fst q)) (getDeployReplicas (snd q)),
        rollout_measure e (getDeployReplicas (fst p)) (getDeployReplicas (snd p))) \<in> rollout_order"
      unfolding q using pos prog rolloutSteps_nonneg False e_def by (intro round_numbers_progress) auto
    have "nonneg32 (getDeployReplicas (fst q)) \<and> nonneg32 (getDeployReplicas (snd q))"
      unfolding q using 1 assms(4) rolloutSteps_nonneg e_def by (intro round_numbers_range) auto
    with 1(1) [OF dec [unfolded e_def]] obtain n where
      "getDeployReplicas (fst ((scale_round x c mc ^^ n) q)) = e" "getDeployReplicas (snd ((scale_round x c mc ^^ n) q)) = 0"
      unfolding e_def by blast
    then have "getDeployReplicas (fst ((scale_round x c mc ^^ Suc n) p)) = e"
      "getDeployReplicas (snd ((scale_round x c mc ^^ Suc n) p)) = 0"
      unfolding q_def by (simp_all add: funpow_swap1)
    then show ?thesis unfolding e_def by blast
  qed
qed

text \<open>Validation of the custom resource gives every workload steps that can progress.\<close>

lemma validated_component:
  assumes "validateRollingUpdates x mc = []" "(mcp_FieldName c, name) \<in> set component_fields"
    and "com_field (mcp_FieldName c) (ms_Com (m_Spec mc)) = Some co"
  shows "\<exists>path. validateRollingUpdate x (MergeRollingUpdate (cs_RollingUpdate (ms_Com (m_Spec mc))) (cs_RollingUpdate co)) path = []"
  using assms by (fastforce simp: validateRollingUpdates_def Let_def)

lemma validated_strategy_progress:
  assumes lib: "intstr_lib x" and ok: "validateRollingUpdates x mc = []"
    and field: "(mcp_FieldName c, name) \<in> set component_fields" "com_field (mcp_FieldName c) (ms_Com (m_Spec mc)) = Some co"
    and e: "e \<ge> 1"
  shows "\<exists>st. GetDeploymentStrategy mc c = Some st \<and> (fst (rolloutSteps x st e) > 0 \<or> snd (rolloutSteps x st e) > 0)"
proof -
  obtain path where eff: "validateRollingUpdate x (MergeRollingUpdate (cs_RollingUpdate (ms_Com (m_Spec mc))) (cs_RollingUpdate co)) path = []"
    using validated_component [OF ok field] by blast
  have all: "fst (rolloutSteps x \<lparr>ds_Type = ''RollingUpdate'', ds_RollingUpdate = Some all_RollingUpdate\<rparr> e) > 0"
  proof -
    have "atoi ''100'' = Some 100" by code_simp
    then have "x_Scaled x (StrVal ''100%'') t up = Some (percent_of 100 t up)" for t up
      using intstr_lib.scaled_percent [OF lib, of "''100''" t up] by simp
    moreover have "percent_of 100 e True > 0" using e intstr_lib.percent_pos_up [OF lib] by simp
    ultimately show ?thesis by (auto simp: rolloutSteps_def all_RollingUpdate_def Let_def)
  qed
  have recreate: "fst (rolloutSteps x \<lparr>ds_Type = ''Recreate'', ds_RollingUpdate = None\<rparr> e) > 0"
    by (simp add: rolloutSteps_def)
  show ?thesis
    using all recreate intstr_lib.validated_steps_progress [OF lib eff e] field(2)
    by (auto simp: GetDeploymentStrategy_def component_GetDeploymentStrategy_def GetComponentSpec_def
        ComponentSpec.truncate_def Let_def)
qed

text \<open>C1. A rollout terminates in the desired state: when the rolling-update settings passed
  validation, a component with a positive replica count and without autoscaling reaches, after
  finitely many plans, exactly the expected count in the new Deployment and zero in the old one,
  whatever the counts were at the start, provided each scaled Deployment settles between two plans.\<close>

theorem rollout_converges:
  assumes "intstr_lib x" "validateRollingUpdates x mc = []"
    and "(mcp_FieldName c, name) \<in> set component_fields" "com_field (mcp_FieldName c) (ms_Com (m_Spec mc)) = Some co"
    and "com_ImageUpdateMode (ms_Com (m_Spec mc)) \<noteq> ImageUpdateModeForce" "\<not> IsHPAEnabled c (m_Spec mc)"
    and "nonneg32 (expected_replicas c mc)" "expected_replicas c mc \<ge> 1"
    and "nonneg32 (getDeployReplicas cur)" "nonneg32 (getDeployReplicas lst)"
  shows "\<exists>n. getDeployReplicas (fst ((scale_round x c mc ^^ n) (cur, lst))) = expected_replicas c mc \<and>
             getDeployReplicas (snd ((scale_round x c mc ^^ n) (cur, lst))) = 0"
proof -
  obtain st where "GetDeploymentStrategy mc c = Some st"
    "fst (rolloutSteps x st (expected_replicas c mc)) > 0 \<or> snd (rolloutSteps x st (expected_replicas c mc)) > 0"
    using validated_strategy_progress [OF assms(1-4,8)] by blast
  with scale_rounds_converge [OF assms(5,6), of st x "(cur, lst)"] assms(7-10) show ?thesis by simp
qed

theorem rollout_converges_witness:
  "\<exists>n. getDeployReplicas (fst ((scale_round std_x QueryNode ex_milvus ^^ n) (ex_deploy ''b'' ''1'' 0, ex_deploy ''a'' ''0'' 5))) = 3 \<and>
       getDeployReplicas (snd ((scale_round std_x QueryNode ex_milvus ^^ n) (ex_deploy ''b'' ''1'' 0, ex_deploy ''a'' ''0'' 5))) = 0"
proof -
  have e: "expected_replicas QueryNode ex_milvus = 3" by code_simp
  have "com_field (mcp_FieldName QueryNode) (ms_Com (m_Spec ex_milvus)) \<noteq> None" by code_simp
  then obtain co where co: "com_field (mcp_FieldName QueryNode) (ms_Com (m_Spec ex_milvus)) = Some co" by blast
  have ok: "validateRollingUpdates std_x ex_milvus = []" "\<not> IsHPAEnabled QueryNode (m_Spec ex_milvus)"
    "com_ImageUpdateMode (ms_Com (m_Spec ex_milvus)) \<noteq> ImageUpdateModeForce"
    by code_simp+
  have d: "getDeployReplicas (ex_deploy ''b'' ''1'' 0) = 0" "getDeployReplicas (ex_deploy ''a'' ''0'' 5) = 5"
    by code_simp+
  have f: "(mcp_FieldName QueryNode, ''queryNode'') \<in> set component_fields" by code_simp
  from rollout_converges [OF std.intstr_lib_axioms ok(1) f co ok(3) ok(2), of "ex_deploy ''b'' ''1'' 0" "ex_deploy ''a'' ''0'' 5"]
  show ?thesis by (simp add: e d nonneg32_def)
qed

end
