(* ===== verification/Op_Logic.thy ===== *)
theory Op_Logic
  imports Client
begin

text \<open>
  A small program logic for operations on the cluster: \<open>wp m w Q\<close> says that running \<open>m\<close> from the
  world \<open>w\<close> ends with a result and a world that satisfy \<open>Q\<close>.  The equations compute through the
  combinators of the prelude; the rules in \<open>deploy_store\<close> are what a client call may do.
\<close>

definition wp :: "('w, 'r) state \<Rightarrow> 'w \<Rightarrow> ('r \<Rightarrow> 'w \<Rightarrow> bool) \<Rightarrow> bool" where
  "wp m w Q = (case run_state m w of (r, w') \<Rightarrow> Q r w')"

lemma wpI: "(\<And>r w'. run_state m w = (r, w') \<Longrightarrow> Q r w') \<Longrightarrow> wp m w Q"
  by (simp add: wp_def split: prod.splits)

lemma wpD: "wp m w Q \<Longrightarrow> run_state m w = (r, w') \<Longrightarrow> Q r w'"
  by (simp add: wp_def)

lemma wp_mono: "wp m w Q \<Longrightarrow> (\<And>r w'. Q r w' \<Longrightarrow> R r w') \<Longrightarrow> wp m w R"
  by (simp add: wp_def split: prod.splits)

lemma wp_ret [simp]: "wp (ret a) w Q = Q (Inr a) w"
  by (simp add: wp_def)

lemma wp_fail [simp]: "wp (fail e) w Q = Q (Inl e) w"
  by (simp add: wp_def)

lemma wp_lift [simp]: "wp (lift_result r) w Q = Q r w"
  by (simp add: wp_def)

lemma wp_wrap [simp]: "wp (op_wrap msg m) w Q = wp m w (\<lambda>r. Q (wrap msg r))"
  by (simp add: wp_def run_op_wrap split: prod.splits)

lemma wp_bind [simp]:
  "wp (op_bind m f) w Q = wp m w (\<lambda>r w'. case r of Inl e \<Rightarrow> Q (Inl e) w' | Inr a \<Rightarrow> wp (f a) w' Q)"
  by (simp add: wp_def run_op_bind split: prod.splits sum.splits)

lemma wp_state_bind [simp]:
  "wp (State_Monad.bind m f) w Q = wp m w (\<lambda>r w'. wp (f r) w' Q)"
  by (simp add: wp_def split: prod.splits)

lemma wp_return [simp]: "wp (State_Monad.return r) w Q = Q r w"
  by (simp add: wp_def)

lemma wp_get [simp]: "wp State_Monad.get w Q = Q w w"
  by (simp add: wp_def State_Monad.get_def)

lemma wp_State [simp]: "wp (State f) w Q = (case f w of (r, w') \<Rightarrow> Q r w')"
  by (simp add: wp_def)

lemma wp_if: "wp (if c then m else n) w Q = (if c then wp m w Q else wp n w Q)"
  by simp

lemma wp_bindI:
  assumes "wp m w P" "\<And>e v. P (Inl e) v \<Longrightarrow> Q (Inl e) v" "\<And>a v. P (Inr a) v \<Longrightarrow> wp (f a) v Q"
  shows "wp (op_bind m f) w Q"
  unfolding wp_bind by (rule wp_mono [OF assms(1)]) (use assms(2,3) in \<open>auto split: sum.splits\<close>)

context deploy_store
begin

lemma wp_ListDeployments:
  assumes "Q (Inr (selected ns sel (deps w))) w" "\<And>e. Q (Inl e) w"
  shows "wp (cli_ListDeployments cli ns sel) w Q"
proof (rule wpI)
  fix r w' assume "run_state (cli_ListDeployments cli ns sel) w = (r, w')"
  with list_deployments [OF this] assms show "Q r w'" by (cases r) auto
qed

lemma wp_ListPods:
  assumes "Q (Inr (selected ns sel (pods w))) w" "\<And>e. Q (Inl e) w"
  shows "wp (cli_ListPods cli ns sel) w Q"
proof (rule wpI)
  fix r w' assume "run_state (cli_ListPods cli ns sel) w = (r, w')"
  with list_pods [OF this] assms show "Q r w'" by (cases r) auto
qed

text \<open>A write: no effect with an error, or the effect with either answer.\<close>

lemma wp_UpdateDeployment:
  assumes "\<And>e. Q (Inl e) w"
    and "\<And>r g w'. deps w' = store_replace (d\<lparr>om_Generation := g\<rparr>) (deps w) \<Longrightarrow> pods w' = pods w \<Longrightarrow>
           milvus w' = milvus w \<Longrightarrow> Q r w'"
  shows "wp (cli_UpdateDeployment cli d) w Q"
proof (rule wpI)
  fix r w' assume "run_state (cli_UpdateDeployment cli d) w = (r, w')"
  then show "Q r w'" by (cases rule: update_deployment_cases) (use assms in auto)
qed

lemma wp_UpdateMilvus:
  assumes "\<And>e. Q (Inl e) w"
    and "\<And>r w'. milvus w' = m \<Longrightarrow> pods w' = pods w \<Longrightarrow> deps w' = deps w \<Longrightarrow> Q r w'"
  shows "wp (cli_UpdateMilvus cli m) w Q"
proof (rule wpI)
  fix r w' assume "run_state (cli_UpdateMilvus cli m) w = (r, w')"
  then show "Q r w'" by (cases rule: update_milvus_cases) (use assms in auto)
qed

end

end
