(* ===== verification/Slots.thy ===== *)
theory Slots
  imports Deploy_Ctrl Op_Logic
begin

text \<open>
  The pair of Deployments of a workload: when \<open>GetDeploys\<close> finds it, how writes and a change of
  the current slot act on it.
\<close>

section \<open>Classification\<close>

definition slot_items :: "'w biz \<Rightarrow> Deployment list \<Rightarrow> Deployment list" where
  "slot_items b listed =
     filter (\<lambda>d. MatchesDeploymentGroup (biz_component b) (om_Labels d) \<and>
                 GetLabelGroupID (mcp_Name (biz_component b)) d \<noteq> []) listed"

lemma two_deploys_items:
  "two_deploys b mc listed =
     (let c = biz_component b; items = slot_items b listed
      in if length items > 2 then Inl (Errorf (''unexpected: more than 2 '' @ GetDisplayName c @ '' deployments found''))
         else if length items < 1 then Inl ErrNotFound
         else case classify (componentDeployIsCurrentGroup b mc) items None None of
           None \<Rightarrow> Inl (Errorf ''unexpected: more than 1 deployment is for current group id'')
         | Some (None, _) \<Rightarrow> Inl (Errorf ''unexpected: no deployment is for current group id'')
         | Some (Some current, Some lst) \<Rightarrow> Inr (current, lst)
         | Some (Some current, None) \<Rightarrow>
             if GetCurrentGroupId mc (state_key b) \<noteq> ''0''
             then Inl (Errorf ''unexpected: first deployment is not for group 0'')
             else Inl ErrNoLastDeployment)"
  by (simp add: two_deploys_def slot_items_def Let_def)

lemma length_le_2_cases:
  assumes "length xs \<le> 2"
  obtains "xs = []" | a where "xs = [a]" | a b where "xs = [a, b]"
  using assms by (cases xs rule: remdups_adj.cases) (auto simp: numeral_2_eq_2)

lemma two_deploys_Inr_iff:
  "two_deploys b mc listed = Inr (cur, lst) \<longleftrightarrow>
     (slot_items b listed = [cur, lst] \<or> slot_items b listed = [lst, cur]) \<and>
     componentDeployIsCurrentGroup b mc cur \<and> \<not> componentDeployIsCurrentGroup b mc lst"
proof (cases "length (slot_items b listed) \<le> 2")
  case True
  then show ?thesis
    by (cases rule: length_le_2_cases) (auto simp: two_deploys_items Let_def)
next
  case False
  then show ?thesis by (auto simp: two_deploys_items Let_def)
qed

text \<open>The error branches.\<close>

lemma two_deploys_ErrNotFound_iff: "two_deploys b mc listed = Inl ErrNotFound \<longleftrightarrow> slot_items b listed = []"
proof (cases "length (slot_items b listed) \<le> 2")
  case True
  then show ?thesis by (cases rule: length_le_2_cases) (auto simp: two_deploys_items Let_def)
qed (auto simp: two_deploys_items Let_def)

lemma two_deploys_ErrNoLast_iff:
  "two_deploys b mc listed = Inl ErrNoLastDeployment \<longleftrightarrow>
     (\<exists>d. slot_items b listed = [d] \<and> GetLabelGroupID (mcp_Name (biz_component b)) d = ''0'' \<and>
          GetCurrentGroupId mc (state_key b) = ''0'')"
proof (cases "length (slot_items b listed) \<le> 2")
  case True
  then show ?thesis
    by (cases rule: length_le_2_cases) (auto simp: two_deploys_items componentDeployIsCurrentGroup_def Let_def)
qed (auto simp: two_deploys_items Let_def)

section \<open>Writes\<close>

definition object_key :: "'a ObjectMeta_scheme \<Rightarrow> string \<times> string" where
  "object_key d = (om_Namespace d, om_Name d)"

lemma same_object_key: "same_object a d \<longleftrightarrow> object_key a = object_key d"
  by (auto simp: same_object_def object_key_def)

text \<open>\<open>d'\<close> is \<open>d\<close> up to what a rollout writes: same key, namespace and labels.\<close>

definition same_identity :: "Deployment \<Rightarrow> Deployment \<Rightarrow> bool" where
  "same_identity d d' \<longleftrightarrow> object_key d' = object_key d \<and> om_Labels d' = om_Labels d"

lemma slot_items_map:
  assumes "\<forall>d \<in> set ds. om_Labels (f d) = om_Labels d"
  shows "slot_items b (map f ds) = map f (slot_items b ds)"
  using assms by (induction ds) (auto simp: slot_items_def GetLabelGroupID_def)

lemma store_replace_identity:
  assumes "distinct (map object_key ds)" "d \<in> set ds" "same_identity d d'"
  shows "map om_Labels (store_replace d' ds) = map om_Labels ds" "map object_key (store_replace d' ds) = map object_key ds"
proof -
  have "e = d" if "e \<in> set ds" "object_key e = object_key d" for e
    using assms(1,2) that by (metis distinct_map inj_onD)
  then show "map om_Labels (store_replace d' ds) = map om_Labels ds"
    "map object_key (store_replace d' ds) = map object_key ds"
    using assms(3) by (auto simp: store_replace_def same_object_key same_identity_def)
qed

lemma selected_replace:
  assumes "distinct (map object_key ds)" "d \<in> set ds" "same_identity d d'"
  shows "selected ns sel (store_replace d' ds) = store_replace d' (selected ns sel ds)"
proof (rule selected_store_replace)
  have "e = d" if "e \<in> set ds" "object_key e = object_key d" for e
    using assms(1,2) that by (metis distinct_map inj_onD)
  then show "\<forall>e\<in>set ds. same_object e d' \<longrightarrow> om_Labels e = om_Labels d'"
    using assms(3) by (auto simp: same_object_key same_identity_def)
qed

definition the_slots :: "'w biz \<Rightarrow> Milvus \<Rightarrow> Deployment list \<Rightarrow> go_error + (Deployment \<times> Deployment)" where
  "the_slots b mc ds =
     two_deploys b mc (selected (om_Namespace mc) (GetSelectorLabels (biz_component b) (om_Name mc)) ds)"

lemma the_slots_mem:
  assumes "the_slots b mc ds = Inr (cur, lst)"
  shows "cur \<in> set ds" "lst \<in> set ds"
    "labels_match (GetSelectorLabels (biz_component b) (om_Name mc)) (om_Labels cur)"
    "labels_match (GetSelectorLabels (biz_component b) (om_Name mc)) (om_Labels lst)"
proof -
  let ?l = "selected (om_Namespace mc) (GetSelectorLabels (biz_component b) (om_Name mc)) ds"
  have "set (slot_items b ?l) = {cur, lst}"
    using assms by (auto simp: the_slots_def two_deploys_Inr_iff)
  moreover have "set (slot_items b ?l) \<subseteq>
      {d \<in> set ds. labels_match (GetSelectorLabels (biz_component b) (om_Name mc)) (om_Labels d)}"
    by (auto simp: slot_items_def selected_def)
  ultimately show "cur \<in> set ds" "lst \<in> set ds"
    "labels_match (GetSelectorLabels (biz_component b) (om_Name mc)) (om_Labels cur)"
    "labels_match (GetSelectorLabels (biz_component b) (om_Name mc)) (om_Labels lst)"
    by auto
qed

definition swap_in :: "Deployment \<Rightarrow> Deployment \<Rightarrow> Deployment" where
  "swap_in d' e = (if same_object e d' then d' else e)"

lemma store_replace_swap: "store_replace d' ds = map (swap_in d') ds"
  by (simp add: store_replace_def swap_in_def)

lemma two_deploys_replace:
  assumes "\<forall>e \<in> set listed. same_object e d' \<longrightarrow> om_Labels e = om_Labels d'"
    and "two_deploys b mc listed = Inr (cur, lst)"
  shows "two_deploys b mc (store_replace d' listed) = Inr (swap_in d' cur, swap_in d' lst)"
proof -
  have "\<forall>e \<in> set listed. om_Labels (swap_in d' e) = om_Labels e" using assms(1) by (simp add: swap_in_def)
  then have items: "slot_items b (store_replace d' listed) = map (swap_in d') (slot_items b listed)"
    unfolding store_replace_swap by (rule slot_items_map)
  moreover have "om_Labels (swap_in d' e) = om_Labels e" if "e \<in> set (slot_items b listed)" for e
    using assms(1) that by (auto simp: swap_in_def slot_items_def)
  ultimately show ?thesis
    using assms(2) by (auto simp: two_deploys_Inr_iff componentDeployIsCurrentGroup_def GetLabelGroupID_def)
qed

text \<open>A write that keeps the identity of the Deployment it replaces keeps the pair, with the
  written member in its place.\<close>

lemma the_slots_replace:
  assumes "distinct (map object_key ds)" "d \<in> set ds" "same_identity d d'" "the_slots b mc ds = Inr (cur, lst)"
  shows "the_slots b mc (store_replace d' ds) = Inr (if d = cur then d' else cur, if d = lst then d' else lst)"
proof -
  have uniq: "e = d" if "e \<in> set ds" "object_key e = object_key d" for e
    using assms(1,2) that by (metis distinct_map inj_onD)
  have swap: "swap_in d' e = (if d = e then d' else e)" if "e \<in> set ds" for e
    using uniq that assms(3) by (auto simp: swap_in_def same_object_key same_identity_def)
  let ?l = "selected (om_Namespace mc) (GetSelectorLabels (biz_component b) (om_Name mc)) ds"
  have sub: "set ?l \<subseteq> set ds" by (auto simp: selected_def)
  have "\<forall>e\<in>set ?l. same_object e d' \<longrightarrow> om_Labels e = om_Labels d'"
    using uniq sub assms(3) by (auto simp: same_object_key same_identity_def)
  from two_deploys_replace [OF this assms(4) [unfolded the_slots_def]] show ?thesis
    using swap the_slots_mem [OF assms(4)]
    by (simp add: the_slots_def selected_replace [OF assms(1-3)])
qed

section \<open>Changing the current slot\<close>

lemma the_slots_milvus:
  assumes "the_slots b mc ds = Inr (cur, lst)"
    and "om_Namespace mc' = om_Namespace mc" "om_Name mc' = om_Name mc"
  shows "GetCurrentGroupId mc' (state_key b) = GetLabelGroupID (mcp_Name (biz_component b)) cur \<Longrightarrow>
           the_slots b mc' ds = Inr (cur, lst)"
    and "GetCurrentGroupId mc' (state_key b) = GetLabelGroupID (mcp_Name (biz_component b)) lst \<Longrightarrow>
           the_slots b mc' ds = Inr (lst, cur)"
  using assms by (auto simp: the_slots_def two_deploys_Inr_iff componentDeployIsCurrentGroup_def)

lemma the_slots_labels:
  assumes "the_slots b mc ds = Inr (cur, lst)"
  shows "GetLabelGroupID (mcp_Name (biz_component b)) cur = GetCurrentGroupId mc (state_key b)"
    "GetLabelGroupID (mcp_Name (biz_component b)) lst \<noteq> GetLabelGroupID (mcp_Name (biz_component b)) cur" "cur \<noteq> lst"
  using assms by (auto simp: the_slots_def two_deploys_Inr_iff componentDeployIsCurrentGroup_def)

end
