(* ===== verification/Deploy_Correct.thy ===== *)
theory Deploy_Correct
  imports Slots Rollout_Correct
begin

text \<open>
  Correctness of the handlers of the two-deployment controller against any client that satisfies
  \<open>deploy_store\<close>: the invariant that a workload that is not marked as rolling has no replicas in
  its old Deployment, and that no handler changes the pod template of a Deployment that has
  replicas.  Failed writes may or may not have been applied.
\<close>

section \<open>The invariant\<close>

definition slot_label :: "'w biz \<Rightarrow> Deployment \<Rightarrow> string" where
  "slot_label b d = GetLabelGroupID (mcp_Name (biz_component b)) d"

definition pair_ok :: "'w biz \<Rightarrow> Milvus \<Rightarrow> Deployment \<Rightarrow> Deployment \<Rightarrow> bool" where
  "pair_ok b mc cur lst \<longleftrightarrow>
     slot_label b cur \<in> {''0'', ''1''} \<and> slot_label b lst \<in> {''0'', ''1''} \<and>
     (\<not> IsComponentRolling mc (state_key b) \<longrightarrow> getDeployReplicas lst = 0)"

definition rollout_inv :: "'w biz \<Rightarrow> Milvus \<Rightarrow> Deployment list \<Rightarrow> bool" where
  "rollout_inv b mc ds \<longleftrightarrow>
     distinct (map object_key ds) \<and>
     (case the_slots b mc ds of Inl _ \<Rightarrow> False | Inr (cur, lst) \<Rightarrow> pair_ok b mc cur lst)"

lemma rollout_invI:
  "distinct (map object_key ds) \<Longrightarrow> the_slots b mc ds = Inr (cur, lst) \<Longrightarrow> pair_ok b mc cur lst \<Longrightarrow> rollout_inv b mc ds"
  by (simp add: rollout_inv_def)

lemma rollout_invE:
  assumes "rollout_inv b mc ds"
  obtains cur lst where "distinct (map object_key ds)" "the_slots b mc ds = Inr (cur, lst)" "pair_ok b mc cur lst"
  using assms by (auto simp: rollout_inv_def split: sum.splits prod.splits)

text \<open>A write of one member that keeps its identity.\<close>

definition member_write :: "'w biz \<Rightarrow> Milvus \<Rightarrow> Deployment list \<Rightarrow> Deployment \<Rightarrow> Deployment \<Rightarrow> bool" where
  "member_write b mc ds d d' \<longleftrightarrow>
     distinct (map object_key ds) \<and> same_identity d d' \<and>
     (\<exists>cur lst. the_slots b mc ds = Inr (cur, lst) \<and> pair_ok b mc cur lst \<and> (d = cur \<or> d = lst) \<and>
        (d = lst \<and> \<not> IsComponentRolling mc (state_key b) \<longrightarrow> getDeployReplicas d' = 0))"

lemma member_write_inv:
  assumes "member_write b mc ds d d'"
  shows "rollout_inv b mc (store_replace d' ds)"
proof -
  obtain cur lst where w: "distinct (map object_key ds)" "same_identity d d'" "the_slots b mc ds = Inr (cur, lst)"
    "pair_ok b mc cur lst" "d = cur \<or> d = lst" "d = lst \<and> \<not> IsComponentRolling mc (state_key b) \<longrightarrow> getDeployReplicas d' = 0"
    using assms by (auto simp: member_write_def)
  have mem: "d \<in> set ds" using w(5) the_slots_mem [OF w(3)] by auto
  show ?thesis
  proof (rule rollout_invI)
    show "distinct (map object_key (store_replace d' ds))"
      using w(1) by (simp only: store_replace_identity [OF w(1) mem w(2)])
    show "the_slots b mc (store_replace d' ds) = Inr (if d = cur then d' else cur, if d = lst then d' else lst)"
      by (rule the_slots_replace [OF w(1) mem w(2,3)])
    show "pair_ok b mc (if d = cur then d' else cur) (if d = lst then d' else lst)"
      using w by (auto simp: pair_ok_def slot_label_def GetLabelGroupID_def same_identity_def)
  qed
qed

text \<open>A write of the custom resource that keeps the current slot, or swaps it and marks the rollout.\<close>

lemma milvus_write_inv:
  assumes "distinct (map object_key ds)" "the_slots b mc ds = Inr (cur, lst)" "pair_ok b mc cur lst"
    and "om_Namespace mc' = om_Namespace mc" "om_Name mc' = om_Name mc"
    and "GetCurrentGroupId mc' (state_key b) = slot_label b cur \<and> (\<not> IsComponentRolling mc' (state_key b) \<longrightarrow> getDeployReplicas lst = 0)
       \<or> GetCurrentGroupId mc' (state_key b) = slot_label b lst \<and> IsComponentRolling mc' (state_key b)"
  shows "rollout_inv b mc' ds"
  using assms(6)
proof
  assume h: "GetCurrentGroupId mc' (state_key b) = slot_label b cur \<and>
    (\<not> IsComponentRolling mc' (state_key b) \<longrightarrow> getDeployReplicas lst = 0)"
  then have "the_slots b mc' ds = Inr (cur, lst)"
    using the_slots_milvus(1) [OF assms(2,4,5)] by (simp add: slot_label_def)
  then show ?thesis using assms(1,3) h by (auto simp: pair_ok_def intro!: rollout_invI)
next
  assume h: "GetCurrentGroupId mc' (state_key b) = slot_label b lst \<and> IsComponentRolling mc' (state_key b)"
  then have "the_slots b mc' ds = Inr (lst, cur)"
    using the_slots_milvus(2) [OF assms(2,4,5)] by (simp add: slot_label_def)
  then show ?thesis using assms(1,3) h by (auto simp: pair_ok_def intro!: rollout_invI)
qed

section \<open>What a write may change\<close>

text \<open>The templates of two Deployments up to the slot label.\<close>

definition template_of :: "'w biz \<Rightarrow> Deployment \<Rightarrow> PodTemplateSpec" where
  "template_of b d = set_template_group b [] (d_Template d)"

definition running_kept :: "'w biz \<Rightarrow> Deployment list \<Rightarrow> Deployment list \<Rightarrow> bool" where
  "running_kept b ds ds' \<longleftrightarrow>
     map object_key ds' = map object_key ds \<and>
     list_all2 (\<lambda>d d'. getDeployReplicas d > 0 \<longrightarrow> template_of b d' = template_of b d) ds ds'"

lemma running_kept_refl [simp]: "running_kept b ds ds"
  by (simp add: running_kept_def list.rel_refl)

lemma running_kept_write:
  assumes "distinct (map object_key ds)" "d \<in> set ds" "same_identity d d'"
    and "getDeployReplicas d > 0 \<longrightarrow> template_of b d' = template_of b d"
  shows "running_kept b ds (store_replace d' ds)"
proof -
  have "e = d" if "e \<in> set ds" "object_key e = object_key d" for e
    using assms(1,2) that by (metis distinct_map inj_onD)
  then show ?thesis
    using assms(3,4) store_replace_identity [OF assms(1-3)]
    by (auto simp: running_kept_def store_replace_def list_all2_map2 same_object_key same_identity_def
        intro!: list.rel_refl_strong)
qed

text \<open>No template changed at all, which composes.\<close>

definition templates_kept :: "'w biz \<Rightarrow> Deployment list \<Rightarrow> Deployment list \<Rightarrow> bool" where
  "templates_kept b ds ds' \<longleftrightarrow>
     map object_key ds' = map object_key ds \<and> map (template_of b) ds' = map (template_of b) ds"

lemma templates_kept_running: "templates_kept b ds ds' \<Longrightarrow> running_kept b ds ds'"
  by (auto simp: templates_kept_def running_kept_def list_all2_conv_all_nth dest: map_eq_imp_length_eq)
    (metis length_map nth_map)

lemma templates_kept_write:
  assumes "distinct (map object_key ds)" "d \<in> set ds" "same_identity d d'" "template_of b d' = template_of b d"
  shows "templates_kept b ds (store_replace d' ds)"
proof -
  have "e = d" if "e \<in> set ds" "object_key e = object_key d" for e
    using assms(1,2) that by (metis distinct_map inj_onD)
  then show ?thesis
    using assms(3,4) store_replace_identity [OF assms(1-3)]
    by (auto simp: templates_kept_def store_replace_def same_object_key same_identity_def)
qed

lemma set_template_group_idem [simp]:
  "set_template_group b g (set_template_group b h t) = set_template_group b g t"
  by (simp add: set_template_group_def SetGroupIDStr_def)

section \<open>The handlers\<close>

text \<open>What every handler guarantees: the invariant, and that running Deployments keep their template.\<close>

definition handler_post :: "'w biz \<Rightarrow> ('w \<Rightarrow> Deployment list) \<Rightarrow> ('w \<Rightarrow> Milvus) \<Rightarrow> 'w \<Rightarrow> 'w \<Rightarrow> bool" where
  "handler_post b deps milvus w w' \<longleftrightarrow>
     rollout_inv b (milvus w') (deps w') \<and> running_kept b (deps w) (deps w')"

definition stop_post ::
  "'w biz \<Rightarrow> ('w \<Rightarrow> Deployment list) \<Rightarrow> ('w \<Rightarrow> Milvus) \<Rightarrow> 'w \<Rightarrow> 'w \<Rightarrow> Deployment \<Rightarrow> Deployment \<Rightarrow> bool" where
  "stop_post b deps milvus w w' cur lst \<longleftrightarrow>
     milvus w' = milvus w \<and> templates_kept b (deps w) (deps w') \<and> distinct (map object_key (deps w')) \<and>
     the_slots b (milvus w) (deps w') = Inr (cur, lst) \<and> pair_ok b (milvus w) cur lst"

lemma plan_last_zero:
  assumes "getDeployReplicas lst = 0" "planNextScaleAction x c mc cur lst = Some (action, cur', lst')"
  shows "sa_deploy action \<noteq> LastDeploy"
proof -
  have plan: "action = plan_by_kind x (checkScaleKind c mc lst) c mc cur' lst'" "getDeployReplicas lst' = 0"
    using assms by (auto simp: planNextScaleAction_def Let_def bind_eq_Some_conv)
  have "checkScaleKind c mc lst \<noteq> scaleKindRollout"
    using assms(1) by (simp add: checkScaleKind_def Let_def)
  then show ?thesis
    using plan
    by (cases "checkScaleKind c mc lst")
      (auto simp: plan_by_kind_def planScaleForNormalState_def planScaleForHPA_def planScaleForExternalHPA_def
        planScaleForForceUpgrade_def Let_def split: if_splits)
qed

lemma plan_keeps:
  assumes "planNextScaleAction x c mc cur lst = Some (action, cur', lst')"
  shows "same_identity cur (scaled cur' n)" "same_identity lst (scaled lst' n)"
    "template_of b (scaled cur' n) = template_of b cur" "template_of b (scaled lst' n) = template_of b lst"
  using assms
  by (auto simp: planNextScaleAction_def Let_def with_strategy_def scaled_def same_identity_def object_key_def
      template_of_def bind_eq_Some_conv)

lemma same_identity_gen [simp]: "same_identity d (d'\<lparr>om_Generation := g\<rparr>) = same_identity d d'"
  by (simp add: same_identity_def object_key_def)

lemma template_of_gen [simp]: "template_of b (d\<lparr>om_Generation := g\<rparr>) = template_of b d"
  by (simp add: template_of_def)

lemma getDeployReplicas_gen [simp]: "getDeployReplicas (d\<lparr>om_Generation := g\<rparr>) = getDeployReplicas d"
  by (simp add: getDeployReplicas_def)

lemma selector_component:
  assumes "labels_match (GetSelectorLabels c instance') labels"
  shows "fmlookup labels AppLabelComponent = Some (mcp_Name c)"
proof -
  have "fmlookup (GetSelectorLabels c instance') AppLabelComponent = Some (mcp_Name c)"
    by (simp add: GetSelectorLabels_def NewComponentAppLabels_def key_defs DeploymentGroupLabel_def MilvusIO_def Let_def
        split: option.splits)
  then show ?thesis
    using assms by (auto simp: labels_match_def fmsubset_alt_def fmpred_iff)
qed

locale rollout_ctrl = deploy_store "biz_cli b" deps pods milvus
  for b :: "'w biz" and deps :: "'w \<Rightarrow> Deployment list" and pods :: "'w \<Rightarrow> Pod list" and milvus :: "'w \<Rightarrow> Milvus"
begin

lemma wp_GetDeploys:
  assumes "Q (the_slots b mc (deps w)) w" "\<And>e. Q (Inl e) w"
  shows "wp (GetDeploys b mc) w Q"
  unfolding GetDeploys_def using assms
  by (auto simp: the_slots_def intro!: wp_ListDeployments)

lemma wp_ListDeployPods:
  assumes "\<And>r. Q r w"
  shows "wp (ListDeployPods (biz_cli b) d) w Q"
  unfolding ListDeployPods_def using assms
  by (auto intro!: wp_ListPods split: sum.splits)

text \<open>One write of a member, from a world where the invariant holds.\<close>

lemma post_member_write:
  assumes "member_write b (milvus w) (deps w) d d'"
    and "getDeployReplicas d > 0 \<longrightarrow> template_of b d' = template_of b d"
    and "deps w' = store_replace (d'\<lparr>om_Generation := g\<rparr>) (deps w)" "milvus w' = milvus w"
  shows "handler_post b deps milvus w w'"
proof -
  have mw: "member_write b (milvus w) (deps w) d (d'\<lparr>om_Generation := g\<rparr>)"
    using assms(1) by (simp add: member_write_def)
  obtain cur lst where w: "distinct (map object_key (deps w))" "same_identity d d'"
    "the_slots b (milvus w) (deps w) = Inr (cur, lst)" "d = cur \<or> d = lst"
    using assms(1) unfolding member_write_def by blast
  then have "d \<in> set (deps w)" using the_slots_mem [OF w(3)] by blast
  then have "running_kept b (deps w) (store_replace (d'\<lparr>om_Generation := g\<rparr>) (deps w))"
    using w(1,2) assms(2) by (intro running_kept_write) simp_all
  with member_write_inv [OF mw] assms(3,4) show ?thesis by (simp add: handler_post_def)
qed

lemma post_refl: "rollout_inv b (milvus w) (deps w) \<Longrightarrow> handler_post b deps milvus w w"
  by (simp add: handler_post_def)

text \<open>The guards of scaling only read.\<close>

lemma wp_checkLastDeploymentStable:
  assumes "\<And>r. Q r w"
  shows "wp (checkLastDeploymentStable b d) w Q"
  unfolding checkLastDeploymentStable_def using assms
  by (auto intro!: wp_ListDeployPods split: sum.splits prod.splits)

lemma wp_checkDeploymentsStable:
  assumes "\<And>r. Q r w"
  shows "wp (checkDeploymentsStable b cur lst a) w Q"
  unfolding checkDeploymentsStable_def using assms
  by (auto simp: Let_def intro!: wp_ListDeployPods wp_checkLastDeploymentStable split: sum.splits prod.splits)

lemma wp_checkCanScaleNow:
  assumes "\<And>r. Q r w"
  shows "wp (checkCanScaleNow b mc cur lst) w Q"
  unfolding checkCanScaleNow_def using assms
  by (auto simp: Let_def intro!: wp_checkDeploymentsStable wp_checkLastDeploymentStable split: sum.splits prod.splits)

text \<open>With canonical slot labels the current Deployment is already marked.\<close>

lemma wp_markDeployAsCurrent:
  assumes "the_slots b mc ds = Inr (cur, lst)" "pair_ok b mc cur lst" "Q (Inr ()) w"
  shows "wp (markDeployAsCurrent b mc cur) w Q"
proof -
  have "fmlookup (om_Labels cur) AppLabelComponent = Some (mcp_Name (biz_component b))"
    using the_slots_mem(3) [OF assms(1)] by (rule selector_component)
  moreover have "GetCurrentGroupId mc (state_key b) = slot_label b cur"
    using the_slots_labels(1) [OF assms(1)] by (simp add: slot_label_def)
  moreover have "itoa 0 = ''0''" "itoa 1 = ''1''" "atoi ''0'' = Some 0" "atoi ''1'' = Some 1" by code_simp+
  ultimately show ?thesis
    using assms(2,3)
    by (auto simp: markDeployAsCurrent_def GetDeploymentGroupId_def MarkMilvusComponentGroupId_def pair_ok_def
        slot_label_def fmget_def state_key_def)
qed

lemma wp_write_member:
  assumes "member_write b (milvus w) (deps w) d d'"
    and "getDeployReplicas d > 0 \<longrightarrow> template_of b d' = template_of b d"
  shows "wp (UpdateDeploymentAndRequeue (biz_cli b) d') w (\<lambda>r w'. handler_post b deps milvus w w')"
proof -
  have "rollout_inv b (milvus w) (deps w)"
    using assms(1) by (auto simp: member_write_def intro: rollout_invI)
  then show ?thesis
    unfolding UpdateDeploymentAndRequeue_def using post_member_write [OF assms]
    by (auto intro!: wp_UpdateDeployment post_refl split: sum.splits)
qed

lemma scaling_post:
  assumes "rollout_inv b (milvus w) (deps w)"
  shows "wp (HandleScaling b (milvus w)) w (\<lambda>r w'. handler_post b deps milvus w w')"
proof -
  obtain cur lst where slots: "distinct (map object_key (deps w))" "the_slots b (milvus w) (deps w) = Inr (cur, lst)"
    "pair_ok b (milvus w) cur lst"
    using assms by (rule rollout_invE)
  have plan: "wp (doScaleAction b action cur' lst') w (\<lambda>r w'. handler_post b deps milvus w w')"
    if p: "planNextScaleAction (biz_x b) (biz_component b) (milvus w) cur lst = Some (action, cur', lst')" for action cur' lst'
  proof (cases "sa_deploy action")
    case CurrentDeploy
    then show ?thesis
      using slots plan_keeps(1,3) [OF p] assms the_slots_labels(3) [OF slots(2)]
      by (auto simp: doScaleAction_def member_write_def intro!: wp_write_member [of w cur] post_refl)
  next
    case LastDeploy
    then have "IsComponentRolling (milvus w) (state_key b)"
      using plan_last_zero [OF _ p] slots(3) by (auto simp: pair_ok_def)
    then show ?thesis
      using LastDeploy slots plan_keeps(2,4) [OF p] assms
      by (auto simp: doScaleAction_def member_write_def intro!: wp_write_member [of w lst] post_refl)
  next
    case NoDeploy
    then show ?thesis using assms by (simp add: doScaleAction_def post_refl)
  qed
  have "wp (ScaleDeployments b (milvus w) cur lst) w (\<lambda>r w'. handler_post b deps milvus w w')"
    unfolding ScaleDeployments_def
    using slots plan assms
    by (auto simp: or_panic_def post_refl intro!: wp_markDeployAsCurrent wp_checkCanScaleNow
        split: sum.splits option.splits)
  then show ?thesis
    unfolding HandleScaling_def using assms slots(2) by (auto intro!: wp_GetDeploys post_refl)
qed


text \<open>Marking the custom resource.\<close>

lemma wp_write_milvus:
  assumes "rollout_inv b (milvus w) (deps w)" "rollout_inv b m (deps w)"
  shows "wp (UpdateMilvusAndRequeue (biz_cli b) m) w (\<lambda>r w'. handler_post b deps milvus w w')"
  unfolding UpdateMilvusAndRequeue_def using assms
  by (auto simp: handler_post_def intro!: wp_UpdateMilvus split: sum.splits)

text \<open>Preparing a rollout on the Deployment \<open>d\<close>: the template goes to \<open>d\<close>, then \<open>d\<close> becomes current.\<close>

lemma prepare_post:
  assumes "the_slots b (milvus w) (deps w) = Inr (cur, lst)" "distinct (map object_key (deps w))"
    and "pair_ok b (milvus w) cur lst" "d = cur \<or> d = lst"
    and "getDeployReplicas d > 0 \<longrightarrow> template_of b d = set_template_group b [] podTemplate"
  shows "wp (PrepareNewRollout b (milvus w) d podTemplate) w (\<lambda>r w'. r \<noteq> Inr () \<and> handler_post b deps milvus w w')"
proof -
  define d' where "d' = snd (RenewDeployAnnotation (milvus w) (updatePodTemplateTwoDeployMode b podTemplate d))"
  have id: "same_identity d d'" and tpl: "template_of b d' = set_template_group b [] podTemplate"
    and reps: "getDeployReplicas d' = getDeployReplicas d"
    by (simp_all add: d'_def RenewDeployAnnotation_def updatePodTemplateTwoDeployMode_def same_identity_def
        object_key_def template_of_def getDeployReplicas_def Let_def)
  have inv: "rollout_inv b (milvus w) (deps w)" using assms(1-3) by (intro rollout_invI)
  have mw: "member_write b (milvus w) (deps w) d d'"
    using assms id reps by (auto simp: member_write_def pair_ok_def)
  have stage1: "handler_post b deps milvus w w1"
    if "deps w1 = store_replace (d'\<lparr>om_Generation := g\<rparr>) (deps w)" "milvus w1 = milvus w" for w1 g
    using post_member_write [OF mw _ that] assms(5) tpl by simp
  define m' where "m' = SetComponentRolling (state_key b) True (SetCurrentGroupIDStr (state_key b) (slot_label b d) (milvus w))"
  have swapped: "rollout_inv b m' (store_replace (d'\<lparr>om_Generation := g\<rparr>) (deps w))" for g
  proof -
    let ?e = "d'\<lparr>om_Generation := g\<rparr>" and ?ds = "store_replace (d'\<lparr>om_Generation := g\<rparr>) (deps w)"
    have mem: "d \<in> set (deps w)" using assms(4) the_slots_mem [OF assms(1)] by auto
    have slots: "the_slots b (milvus w) ?ds = Inr (if d = cur then ?e else cur, if d = lst then ?e else lst)"
      using the_slots_replace [OF assms(2) mem _ assms(1), of ?e] id by simp
    have dist: "distinct (map object_key ?ds)"
      using assms(2) store_replace_identity(2) [OF assms(2) mem, of ?e] id by simp
    have ok: "pair_ok b (milvus w) (if d = cur then ?e else cur) (if d = lst then ?e else lst)"
      using assms(3) id reps by (auto simp: pair_ok_def slot_label_def GetLabelGroupID_def same_identity_def)
    have lab: "slot_label b ?e = slot_label b d"
      using id by (simp add: slot_label_def GetLabelGroupID_def same_identity_def)
    show ?thesis
      using milvus_write_inv [OF dist slots ok, of m'] assms(4) lab the_slots_labels(3) [OF assms(1)]
      by (auto simp: m'_def)
  qed
  have "wp (UpdateMilvusAndRequeue (biz_cli b) m') w1 (\<lambda>r w'. r \<noteq> Inr () \<and> handler_post b deps milvus w w')"
    if w1: "deps w1 = store_replace (d'\<lparr>om_Generation := g\<rparr>) (deps w)" "milvus w1 = milvus w" for w1 g
    unfolding UpdateMilvusAndRequeue_def
    using stage1 [OF w1] swapped [of g] w1
    by (auto simp: handler_post_def intro!: wp_UpdateMilvus split: sum.splits)
  then show ?thesis
    unfolding PrepareNewRollout_def
    using inv stage1
    by (auto simp: Let_def d'_def [symmetric] m'_def slot_label_def intro!: wp_UpdateDeployment post_refl split: sum.splits)
qed


lemma last_rollout_post:
  assumes "the_slots b (milvus w) (deps w) = Inr (cur, lst)" "distinct (map object_key (deps w))" "pair_ok b (milvus w) cur lst"
  shows "wp (LastRolloutFinished b (milvus w) cur lst) w (\<lambda>r w'. handler_post b deps milvus w w' \<and>
    (r = Inr False \<longrightarrow> w' = w) \<and> (r = Inr True \<longrightarrow> w' = w \<and> \<not> IsComponentRolling (milvus w) (state_key b)))"
proof -
  have inv: "rollout_inv b (milvus w) (deps w)" using assms by (intro rollout_invI)
  have fin: "rollout_inv b (SetComponentRolling (state_key b) False (milvus w)) (deps w)"
    if "fst (logicAnd (rollout_finished_conditions b (milvus w) cur lst))"
  proof -
    have "getDeployReplicas lst = 0"
      using that by (simp add: logicAnd_true_iff rollout_finished_conditions_def Let_def)
    then show ?thesis
      using milvus_write_inv [OF assms(2,1,3)] the_slots_labels(1) [OF assms(1)] by (auto simp: slot_label_def)
  qed
  show ?thesis
    unfolding LastRolloutFinished_def UpdateMilvusAndRequeue_def
    using inv fin
    by (auto simp: handler_post_def intro!: wp_ListDeployPods wp_UpdateMilvus split: sum.splits)
qed

lemma rolling_post:
  assumes "rollout_inv b (milvus w) (deps w)"
  shows "wp (HandleRolling b (milvus w)) w (\<lambda>r w'. handler_post b deps milvus w w' \<and> (r = Inr () \<longrightarrow> w' = w))"
proof -
  obtain cur lst where slots: "distinct (map object_key (deps w))" "the_slots b (milvus w) (deps w) = Inr (cur, lst)"
    "pair_ok b (milvus w) cur lst"
    using assms by (rule rollout_invE)
  have rollback: "wp (PrepareNewRollout b (milvus w) lst t) w (\<lambda>r w'. handler_post b deps milvus w w' \<and> (r = Inr () \<longrightarrow> w' = w))"
    if "ShouldRollback b cur (Some lst) t" for t
    using that by (intro wp_mono [OF prepare_post [OF slots(2,1,3)]])
      (auto simp: ShouldRollback_def isPodTemplateEqual_def template_of_def split: if_splits)
  have fresh: "wp (PrepareNewRollout b (milvus w) (if getDeployReplicas cur > 0 then lst else cur) t) w
      (\<lambda>r w'. handler_post b deps milvus w w' \<and> (r = Inr () \<longrightarrow> w' = w))"
    if "\<not> IsComponentRolling (milvus w) (state_key b)" for t
    using that slots(3) by (intro wp_mono [OF prepare_post [OF slots(2,1,3)]]) (auto simp: pair_ok_def)
  have finished: "wp (op_wrap msg (LastRolloutFinished b (milvus w) cur lst)) w
      (\<lambda>r w'. case r of Inl e \<Rightarrow> handler_post b deps milvus w w' | Inr f \<Rightarrow>
         (if f then w' = w \<and> \<not> IsComponentRolling (milvus w) (state_key b) else w' = w))" for msg
    using wp_mono [OF last_rollout_post [OF slots(2,1,3)]]
    by (auto intro!: wp_mono [OF last_rollout_post [OF slots(2,1,3)]] split: sum.splits)
  have body: "wp (op_bind (op_wrap msg (LastRolloutFinished b (milvus w) cur lst)) (\<lambda>f.
        if \<not> f then ret ()
        else if IsPodTemplateChanged b cur t
        then PrepareNewRollout b (milvus w) (if getDeployReplicas cur > 0 then lst else cur) t else ret ())) w
      (\<lambda>r w'. handler_post b deps milvus w w' \<and> (r = Inr () \<longrightarrow> w' = w))" for msg t
    unfolding wp_bind using assms fresh
    by (intro wp_mono [OF finished]) (auto simp: post_refl split: sum.splits if_splits)
  have continue: "wp (if ShouldRollback b cur (Some lst) t then PrepareNewRollout b (milvus w) lst t
      else op_bind (op_wrap msg (LastRolloutFinished b (milvus w) cur lst)) (\<lambda>f.
        if \<not> f then ret ()
        else if IsPodTemplateChanged b cur t
        then PrepareNewRollout b (milvus w) (if getDeployReplicas cur > 0 then lst else cur) t else ret ())) w
      (\<lambda>r w'. handler_post b deps milvus w w' \<and> (r = Inr () \<longrightarrow> w' = w))" for msg t
    using rollback body by (cases "ShouldRollback b cur (Some lst) t") (simp_all only: if_True if_False simp_thms)
  show ?thesis
  proof (cases "RenderPodTemplateWithoutGroupID b (milvus w) (Some (d_Template cur)) False")
    case None
    then show ?thesis
      unfolding HandleRolling_def using assms slots(2) by (auto simp: post_refl intro!: wp_GetDeploys)
  next
    case (Some t)
    then show ?thesis
      unfolding HandleRolling_def wp_bind [of "op_wrap _ (GetDeploys _ _)"] wp_wrap [of _ "GetDeploys b (milvus w)"]
      using assms slots(2) continue [of t]
      by (intro wp_GetDeploys)
        (simp_all only: wrap_simps sum.case prod.case wp_bind wp_lift or_panic_simps post_refl sum.distinct simp_thms)
  qed
qed

lemma manual_post:
  assumes "rollout_inv b (milvus w) (deps w)"
  shows "wp (HandleManualMode b (milvus w)) w (\<lambda>r w'. handler_post b deps milvus w w' \<and>
    (\<forall>cur lst. the_slots b (milvus w) (deps w) = Inr (cur, lst) \<and> getDeployReplicas cur \<noteq> 0 \<longrightarrow> w' = w))"
proof -
  obtain cur lst where slots: "distinct (map object_key (deps w))" "the_slots b (milvus w) (deps w) = Inr (cur, lst)"
    "pair_ok b (milvus w) cur lst"
    using assms by (rule rollout_invE)
  have upd: "wp (UpdateDeploymentAndRequeue (biz_cli b) d') w (\<lambda>r w'. handler_post b deps milvus w w')"
    if "d' = snd (RenewDeployAnnotation (milvus w) cur) \<or>
        d' = updatePodTemplateTwoDeployMode b t (snd (RenewDeployAnnotation (milvus w) cur))" "getDeployReplicas cur = 0" for d' t
  proof (rule wp_write_member)
    have "same_identity cur d'"
      using that(1) by (auto simp: RenewDeployAnnotation_def updatePodTemplateTwoDeployMode_def same_identity_def
          object_key_def Let_def)
    then show "member_write b (milvus w) (deps w) cur d'"
      using slots the_slots_labels(3) [OF slots(2)] by (auto simp: member_write_def)
  qed (use that in simp)
  show ?thesis
    unfolding HandleManualMode_def
    using assms slots(2) upd [OF disjI1 [OF refl]] upd [OF disjI2 [OF refl]]
    by (auto simp: or_panic_def post_refl Let_def intro!: wp_GetDeploys split: option.splits prod.splits)
qed


text \<open>Stopping: two writes, then the rolling mark is cleared.\<close>

lemma stop_post_inv: "stop_post b deps milvus w w' cur lst \<Longrightarrow> rollout_inv b (milvus w') (deps w')"
  by (auto simp: stop_post_def intro: rollout_invI)

lemma stop_member:
  assumes start: "stop_post b deps milvus w0 w cur lst" and mem: "d = cur \<or> d = lst"
    and nxt: "\<And>r w' d'. d' = d \<or> getDeployReplicas d' = 0 \<Longrightarrow> (r = Inr () \<longrightarrow> getDeployReplicas d' = 0) \<Longrightarrow>
      stop_post b deps milvus w0 w' (if d = cur then d' else cur) (if d = lst then d' else lst) \<Longrightarrow> Q r w'"
  shows "wp (stopDeployIfNot b d) w Q"
proof -
  define e where "e = d\<lparr>d_Replicas := int32Ptr 0\<rparr>"
  have id: "same_identity d e" "getDeployReplicas e = 0" "template_of b e = template_of b d"
    by (simp_all add: e_def same_identity_def object_key_def getDeployReplicas_def template_of_def int32Ptr_def)
  have s: "milvus w = milvus w0" "distinct (map object_key (deps w))" "the_slots b (milvus w0) (deps w) = Inr (cur, lst)"
    "pair_ok b (milvus w0) cur lst" "templates_kept b (deps w0) (deps w)"
    using start by (auto simp: stop_post_def)
  have dm: "d \<in> set (deps w)" using mem the_slots_mem [OF s(3)] by auto
  have same: "Q r w" if "r = Inr () \<longrightarrow> getDeployReplicas d = 0" for r
    using nxt [of d r w] start that by (cases "d = cur"; cases "d = lst") simp_all
  moreover have "Q r w'" if w': "deps w' = store_replace (e\<lparr>om_Generation := g\<rparr>) (deps w)" "milvus w' = milvus w" for r w' g
  proof (rule nxt [of "e\<lparr>om_Generation := g\<rparr>"])
    let ?e = "e\<lparr>om_Generation := g\<rparr>"
    have ide: "same_identity d ?e" using id(1) by simp
    have "templates_kept b (deps w) (deps w')"
      unfolding w' using s(2) dm ide id(3) by (intro templates_kept_write) simp_all
    then have "templates_kept b (deps w0) (deps w')" using s(5) by (simp add: templates_kept_def)
    moreover have "the_slots b (milvus w0) (deps w') = Inr (if d = cur then ?e else cur, if d = lst then ?e else lst)"
      unfolding w' by (rule the_slots_replace [OF s(2) dm ide s(3)])
    moreover have "pair_ok b (milvus w0) (if d = cur then ?e else cur) (if d = lst then ?e else lst)"
      using s(4) id(2) ide by (auto simp: pair_ok_def slot_label_def GetLabelGroupID_def same_identity_def)
    moreover have "distinct (map object_key (deps w'))"
      unfolding w' store_replace_identity(2) [OF s(2) dm ide] by (rule s(2))
    ultimately show "stop_post b deps milvus w0 w' (if d = cur then ?e else cur) (if d = lst then ?e else lst)"
      using s(1) w'(2) by (simp add: stop_post_def)
  qed (use id in simp_all)
  ultimately show ?thesis
    unfolding stopDeployIfNot_def e_def [symmetric] by (auto simp: wrap_def intro!: wp_UpdateDeployment split: sum.splits)
qed

lemma stop_result:
  assumes "rollout_inv b (milvus w) (deps w)"
  shows "wp (HandleStop b (milvus w)) w (\<lambda>r w'. rollout_inv b (milvus w') (deps w') \<and> templates_kept b (deps w) (deps w') \<and>
    (r = Inr () \<longrightarrow> \<not> IsComponentRolling (milvus w') (state_key b) \<and>
       (\<exists>cur lst. the_slots b (milvus w') (deps w') = Inr (cur, lst) \<and> getDeployReplicas cur = 0 \<and> getDeployReplicas lst = 0)))"
    (is "wp _ _ ?Q")
proof -
  obtain cur lst where slots: "distinct (map object_key (deps w))" "the_slots b (milvus w) (deps w) = Inr (cur, lst)"
    "pair_ok b (milvus w) cur lst"
    using assms by (rule rollout_invE)
  have neq: "cur \<noteq> lst" using the_slots_labels(3) [OF slots(2)] .
  have start: "stop_post b deps milvus w w cur lst" using slots by (simp add: stop_post_def templates_kept_def)
  have err: "?Q (Inl e) w'" if "stop_post b deps milvus w w' c l" for e w' c l
    using that stop_post_inv [OF that] by (simp add: stop_post_def)
  have finish: "wp (if \<not> IsComponentRolling (milvus w) (state_key b) then ret ()
      else cli_UpdateMilvus (biz_cli b) (SetComponentRolling (state_key b) False (milvus w))) w2 ?Q"
    if w2: "stop_post b deps milvus w w2 c l" "getDeployReplicas c = 0" "getDeployReplicas l = 0" for w2 c l
  proof -
    have f: "milvus w2 = milvus w" "templates_kept b (deps w) (deps w2)" "distinct (map object_key (deps w2))"
      "the_slots b (milvus w) (deps w2) = Inr (c, l)" "pair_ok b (milvus w) c l"
      using w2(1) by (auto simp: stop_post_def)
    let ?m = "SetComponentRolling (state_key b) False (milvus w)"
    have m: "the_slots b ?m (deps w2) = Inr (c, l)"
      using the_slots_milvus(1) [OF f(4)] the_slots_labels(1) [OF f(4)] by simp
    have "rollout_inv b ?m (deps w2)"
      using f(3,5) m w2(3) by (intro rollout_invI) (auto simp: pair_ok_def)
    then show ?thesis
      using f m w2 stop_post_inv [OF w2(1)] by (auto intro!: wp_UpdateMilvus)
  qed
  have second: "wp (stopDeployIfNot b lst) w1
      (\<lambda>r w2. case wrap msg r of Inl e \<Rightarrow> ?Q (Inl e) w2 | Inr _ \<Rightarrow>
         wp (if \<not> IsComponentRolling (milvus w) (state_key b) then ret ()
           else cli_UpdateMilvus (biz_cli b) (SetComponentRolling (state_key b) False (milvus w))) w2 ?Q)"
    if w1: "stop_post b deps milvus w w1 c lst" "getDeployReplicas c = 0" "c \<noteq> lst" for w1 c msg
    using w1 finish err
    by (intro stop_member [OF w1(1), of lst]) (auto simp: wrap_def split: sum.splits)
  have first: "wp (stopDeployIfNot b cur) w
      (\<lambda>r w1. case wrap msg r of Inl e \<Rightarrow> ?Q (Inl e) w1 | Inr _ \<Rightarrow>
         wp (op_bind (op_wrap msg2 (stopDeployIfNot b lst)) (\<lambda>_.
           if \<not> IsComponentRolling (milvus w) (state_key b) then ret ()
           else cli_UpdateMilvus (biz_cli b) (SetComponentRolling (state_key b) False (milvus w)))) w1 ?Q)" for msg msg2
  proof (rule stop_member [OF start, of cur])
    fix r :: "go_error + unit" and w1 d
    assume h: "r = Inr () \<longrightarrow> getDeployReplicas d = 0"
      "stop_post b deps milvus w w1 (if cur = cur then d else cur) (if cur = lst then d else lst)"
    then have p: "stop_post b deps milvus w w1 d lst" using neq by simp
    then have "d \<noteq> lst" using the_slots_labels(3) [of b "milvus w" "deps w1" d lst] by (simp add: stop_post_def)
    show "case wrap msg r of Inl e \<Rightarrow> ?Q (Inl e) w1 | Inr _ \<Rightarrow>
         wp (op_bind (op_wrap msg2 (stopDeployIfNot b lst)) (\<lambda>_.
           if \<not> IsComponentRolling (milvus w) (state_key b) then ret ()
           else cli_UpdateMilvus (biz_cli b) (SetComponentRolling (state_key b) False (milvus w)))) w1 ?Q"
    proof (cases r)
      case (Inl e)
      then show ?thesis using err [OF p] by simp
    next
      case (Inr u)
      then have "getDeployReplicas d = 0" using h(1) by simp
      with Inr second [OF p] \<open>d \<noteq> lst\<close> show ?thesis by (simp only: wrap_simps sum.case wp_bind wp_wrap simp_thms)
    qed
  qed simp
  show ?thesis
    unfolding HandleStop_def wp_bind [of "op_wrap _ (GetDeploys _ _)"] wp_wrap [of _ "GetDeploys b (milvus w)"]
    using assms slots(2) first err [OF start]
    by (intro wp_GetDeploys) (simp_all only: wrap_simps sum.case prod.case wp_bind [of "op_wrap _ (stopDeployIfNot b cur)"] wp_wrap [of _ "stopDeployIfNot b cur"]
        sum.distinct simp_thms)
qed


text \<open>One pass of the controller on a workload of a component without deployment groups.\<close>

lemma create_noop:
  assumes "rollout_inv b (milvus w) (deps w)" "mcp_DeploymentGroup (biz_component b) = None"
    and "\<And>r. Q r w"
  shows "wp (HandleCreate b (milvus w)) w Q"
proof -
  obtain cur lst where slots: "the_slots b (milvus w) (deps w) = Inr (cur, lst)" using assms(1) by (rule rollout_invE)
  show ?thesis
    unfolding HandleCreate_def GetDeploys_def using slots assms(2,3)
    by (auto simp: the_slots_def reconcileDeploymentGroupMetadata_def intro!: wp_ListDeployments)
qed

lemma reconcile_post:
  assumes "rollout_inv b (milvus w) (deps w)" "mcp_DeploymentGroup (biz_component b) = None"
  shows "wp (reconcile_two_deploy b (milvus w)) w (\<lambda>r w'. handler_post b deps milvus w w')"
proof -
  have stop: "wp (HandleStop b (milvus w)) w (\<lambda>r w'. handler_post b deps milvus w w')"
    by (rule wp_mono [OF stop_result [OF assms(1)]]) (auto simp: handler_post_def intro: templates_kept_running)
  have manual: "wp (HandleManualMode b (milvus w)) w (\<lambda>r w'. handler_post b deps milvus w w')"
    by (rule wp_mono [OF manual_post [OF assms(1)]]) simp
  have roll: "wp (op_bind (op_wrap m1 (HandleRolling b (milvus w))) (\<lambda>_. op_wrap m2 (HandleScaling b (milvus w)))) w
      (\<lambda>r w'. handler_post b deps milvus w w')" for m1 m2
    unfolding wp_bind wp_wrap
    by (rule wp_mono [OF rolling_post [OF assms(1)]])
      (use scaling_post [OF assms(1)] in \<open>auto simp: wrap_def split: sum.splits\<close>)
  show ?thesis
    unfolding reconcile_two_deploy_def wp_bind [of "op_wrap _ (HandleCreate _ _)"] wp_wrap [of _ "HandleCreate _ _"]
      wp_bind [of "lift_result _"] wp_lift
    by (rule create_noop [OF assms])
      (use stop manual roll post_refl [OF assms(1)] in \<open>auto simp: or_panic_def wrap_def simp del: wp_bind wp_wrap split: sum.splits option.splits\<close>)
qed

end

end
