(* ===== verification/Mem_Store.thy ===== *)
theory Mem_Store
  imports Deploy_Correct
begin

text \<open>
  A concrete client: an in-memory API server that keeps lists of objects and always answers.  It
  satisfies \<open>deploy_store\<close>, so the laws the handlers rely on can hold, and gives the concrete
  inputs of the examples.
\<close>

record mem =
  mem_deps :: "Deployment list"
  mem_pods :: "Pod list"
  mem_rss :: "ReplicaSet list"
  mem_revisions :: "((string \<times> string) \<times> SavedObject) list"
  mem_milvus :: Milvus

definition mem_read :: "('m mem_scheme \<Rightarrow> go_error + 'a) \<Rightarrow> ('m mem_scheme, 'a) op" where
  "mem_read f = State (\<lambda>w. (f w, w))"

definition mem_write :: "('m mem_scheme \<Rightarrow> 'm mem_scheme option) \<Rightarrow> ('m mem_scheme, unit) op" where
  "mem_write f = State (\<lambda>w. case f w of None \<Rightarrow> (Inl (KNotFound ''not found''), w) | Some w' \<Rightarrow> (Inr (), w'))"

definition get_or_missing :: "'a option \<Rightarrow> go_error + 'a" where
  "get_or_missing v = (case v of None \<Rightarrow> Inl (KNotFound ''not found'') | Some a \<Rightarrow> Inr a)"

definition mem_cli :: "'m mem_scheme Client" where
  "mem_cli =
     \<lparr>cli_ListDeployments = (\<lambda>ns sel. mem_read (\<lambda>w. Inr (selected ns sel (mem_deps w)))),
      cli_GetDeployment = (\<lambda>ns name. mem_read (\<lambda>w. get_or_missing (find_object ns name (mem_deps w)))),
      cli_CreateDeployment = (\<lambda>d. mem_write (\<lambda>w. Some (w\<lparr>mem_deps := mem_deps w @ [d]\<rparr>))),
      cli_UpdateDeployment = (\<lambda>d. mem_write (\<lambda>w. map_option
         (\<lambda>old. w\<lparr>mem_deps := store_replace (d\<lparr>om_Generation := om_Generation old + 1\<rparr>) (mem_deps w)\<rparr>)
         (find_object (om_Namespace d) (om_Name d) (mem_deps w)))),
      cli_DeleteDeployment = (\<lambda>d orphan. mem_write (\<lambda>w. map_option
         (\<lambda>_. w\<lparr>mem_deps := filter (\<lambda>e. \<not> same_object e d) (mem_deps w)\<rparr>)
         (find_object (om_Namespace d) (om_Name d) (mem_deps w)))),
      cli_ListPods = (\<lambda>ns sel. mem_read (\<lambda>w. Inr (selected ns sel (mem_pods w)))),
      cli_UpdatePod = (\<lambda>p. mem_write (\<lambda>w. map_option
         (\<lambda>_. w\<lparr>mem_pods := store_replace p (mem_pods w)\<rparr>) (find_object (om_Namespace p) (om_Name p) (mem_pods w)))),
      cli_DeletePod = (\<lambda>p. mem_write (\<lambda>w. map_option
         (\<lambda>_. w\<lparr>mem_pods := filter (\<lambda>e. \<not> same_object e p) (mem_pods w)\<rparr>)
         (find_object (om_Namespace p) (om_Name p) (mem_pods w)))),
      cli_ListReplicaSets = (\<lambda>ns sel. mem_read (\<lambda>w. Inr (selected ns sel (mem_rss w)))),
      cli_GetReplicaSet = (\<lambda>ns name. mem_read (\<lambda>w. get_or_missing (find_object ns name (mem_rss w)))),
      cli_CreateReplicaSet = (\<lambda>d. mem_write (\<lambda>w. Some (w\<lparr>mem_rss := mem_rss w @ [d]\<rparr>))),
      cli_DeleteReplicaSet = (\<lambda>d orphan. mem_write (\<lambda>w. map_option
         (\<lambda>_. w\<lparr>mem_rss := filter (\<lambda>e. \<not> same_object e d) (mem_rss w)\<rparr>)
         (find_object (om_Namespace d) (om_Name d) (mem_rss w)))),
      cli_GetRevision = (\<lambda>ns name. mem_read (\<lambda>w. get_or_missing (map_of (mem_revisions w) (ns, name)))),
      cli_CreateRevision = (\<lambda>ns name ob. mem_write (\<lambda>w. Some (w\<lparr>mem_revisions := ((ns, name), ob) # mem_revisions w\<rparr>))),
      cli_GetMilvus = (\<lambda>ns name. mem_read (\<lambda>w. get_or_missing (find_object ns name [mem_milvus w]))),
      cli_UpdateMilvus = (\<lambda>m. mem_write (\<lambda>w. map_option
         (\<lambda>_. w\<lparr>mem_milvus := m\<rparr>) (find_object (om_Namespace m) (om_Name m) [mem_milvus w]))),
      cli_UpdateMilvusStatus = (\<lambda>m. mem_write (\<lambda>w. map_option
         (\<lambda>old. w\<lparr>mem_milvus := old\<lparr>m_Status := m_Status m\<rparr>\<rparr>) (find_object (om_Namespace m) (om_Name m) [mem_milvus w]))),
      cli_SetControllerReference = (\<lambda>m owners. Inr (owners @ [\<lparr>or_Kind = ''Milvus'', or_Name = om_Name m, or_UID = om_UID m, or_Controller = True\<rparr>]))\<rparr>"

lemma run_mem [simp]:
  "run_state (mem_read f) w = (f w, w)"
  "run_state (mem_write g) w = (case g w of None \<Rightarrow> (Inl (KNotFound ''not found''), w) | Some w' \<Rightarrow> (Inr (), w'))"
  by (simp_all add: mem_read_def mem_write_def)

interpretation mem: deploy_store mem_cli mem_deps mem_pods mem_milvus
  by unfold_locales
    (auto simp: mem_cli_def applied_or_lost_def dep_written_def split: option.splits)

section \<open>Example world\<close>

definition ex_biz :: "mem biz" where
  "ex_biz = \<lparr>biz_x = std_x, biz_cli = mem_cli, biz_component = QueryNode, biz_storageEnv = []\<rparr>"

definition ex_world :: mem where
  "ex_world = \<lparr>mem_deps = [ex_deploy ''mc-milvus-querynode-0'' ''0'' 3, ex_deploy ''mc-milvus-querynode-1'' ''1'' 0],
     mem_pods = [], mem_rss = [], mem_revisions = [], mem_milvus = SetCurrentGroupID ''querynode'' 0 ex_milvus\<rparr>"

interpretation ex: rollout_ctrl ex_biz mem_deps mem_pods mem_milvus
  unfolding rollout_ctrl_def by (simp add: ex_biz_def mem.deploy_store_axioms)

lemma ex_world_inv: "rollout_inv ex_biz (mem_milvus ex_world) (mem_deps ex_world)"
  by code_simp

end
