(* ===== verification/Rollout_Safety.thy ===== *)
theory Rollout_Safety
  imports Mem_Store
begin

text \<open>
  The properties of the two-deployment controller, for every client that satisfies
  \<open>deploy_store\<close>, with the in-memory store as the concrete input of the examples.
\<close>

section \<open>Facts about interrupted rollouts and guards\<close>

context rollout_ctrl
begin

lemma prepare_resumes:
  assumes "distinct (map object_key (deps w))" "the_slots b (milvus w) (deps w) = Inr (cur, lst)"
    and "IsPodTemplateChanged b cur t"
  shows "wp (PrepareNewRollout b (milvus w) lst t) w (\<lambda>r w'. milvus w' = milvus w \<longrightarrow> deps w' = deps w \<or>
    (\<exists>lst'. the_slots b (milvus w') (deps w') = Inr (cur, lst') \<and> ShouldRollback b cur (Some lst') t))"
proof -
  define d' where "d' = snd (RenewDeployAnnotation (milvus w) (updatePodTemplateTwoDeployMode b t lst))"
  have id: "same_identity lst (d'\<lparr>om_Generation := g\<rparr>)" for g
    by (simp add: d'_def RenewDeployAnnotation_def updatePodTemplateTwoDeployMode_def same_identity_def object_key_def Let_def)
  have tpl: "isPodTemplateEqual b (d'\<lparr>om_Generation := g\<rparr>) t" for g
    by (simp add: d'_def RenewDeployAnnotation_def updatePodTemplateTwoDeployMode_def isPodTemplateEqual_def Let_def)
  have "the_slots b (milvus w) (store_replace (d'\<lparr>om_Generation := g\<rparr>) (deps w)) = Inr (cur, d'\<lparr>om_Generation := g\<rparr>)" for g
    using the_slots_replace [OF assms(1) the_slots_mem(2) [OF assms(2)] id assms(2)] the_slots_labels(3) [OF assms(2)] by simp
  then have "\<exists>lst'. the_slots b (milvus w) (store_replace (d'\<lparr>om_Generation := g\<rparr>) (deps w)) = Inr (cur, lst') \<and>
      ShouldRollback b cur (Some lst') t" for g
    using assms(3) tpl by (auto simp: ShouldRollback_def IsPodTemplateChanged_def)
  then show ?thesis
    unfolding PrepareNewRollout_def UpdateMilvusAndRequeue_def
    by (auto simp: Let_def d'_def [symmetric] intro!: wp_UpdateDeployment wp_UpdateMilvus split: sum.splits)
qed

end

text \<open>What the guard of a rollout step checks.\<close>

definition deploy_pods :: "Deployment \<Rightarrow> Pod list \<Rightarrow> Pod list" where
  "deploy_pods d ps =
     (case d_Selector d of None \<Rightarrow> []
      | Some sel \<Rightarrow> filter (\<lambda>p. pod_Reason p \<noteq> ''Evicted'') (selected (om_Namespace d) sel ps))"

definition scale_ready :: "'w biz \<Rightarrow> Milvus \<Rightarrow> Pod list \<Rightarrow> Deployment \<Rightarrow> Deployment \<Rightarrow> bool" where
  "scale_ready b mc ps cur lst \<longleftrightarrow>
     fst (DeploymentIsStable lst (deploy_pods lst ps)) \<and>
     (fst (DeploymentIsStable cur (deploy_pods cur ps)) \<or>
      settled_enough cur (deploy_pods cur ps) \<and>
      dst_AvailableReplicas (d_Status cur) \<le> int (length (filter ready_pod (deploy_pods cur ps))))"

context rollout_ctrl
begin

lemma wp_ListDeployPods_eq:
  assumes "Q (Inr (deploy_pods d (pods w))) w" "\<And>e. Q (Inl e) w"
  shows "wp (ListDeployPods (biz_cli b) d) w Q"
  unfolding ListDeployPods_def using assms
  by (auto simp: deploy_pods_def or_panic_def intro!: wp_ListPods split: option.splits)

lemma checkLast_stable:
  assumes "\<And>e. Q (Inl e) w" "fst (DeploymentIsStable lst (deploy_pods lst (pods w))) \<Longrightarrow> Q (Inr ()) w"
  shows "wp (checkLastDeploymentStable b lst) w Q"
  unfolding checkLastDeploymentStable_def using assms
  by (auto intro!: wp_ListDeployPods_eq split: prod.splits)

lemma rollout_guard:
  assumes "checkScaleKind (biz_component b) mc lst = scaleKindRollout"
    and "\<And>e. Q (Inl e) w" "scale_ready b mc (pods w) cur lst \<Longrightarrow> Q (Inr ()) w"
  shows "wp (checkCanScaleNow b mc cur lst) w Q"
  unfolding checkCanScaleNow_def checkDeploymentsStable_def using assms
  by (auto simp: Let_def scale_ready_def or_panic_def
      intro!: checkLast_stable wp_ListDeployPods_eq split: prod.splits option.splits)

lemma scaling_waits:
  assumes "checkScaleKind (biz_component b) (milvus w) lst = scaleKindRollout"
  shows "wp (ScaleDeployments b (milvus w) cur lst) w
    (\<lambda>r w'. deps w' \<noteq> deps w \<longrightarrow> scale_ready b (milvus w) (pods w) cur lst)"
proof -
  have act: "wp (doScaleAction b a c l) w1 Q" if "\<And>r w'. Q r w'" for a c l w1 Q
    using that by (auto intro!: wpI)
  show ?thesis
    unfolding ScaleDeployments_def markDeployAsCurrent_def MarkMilvusComponentGroupId_def UpdateMilvusAndRequeue_def
    using assms
    by (auto simp: or_panic_def intro!: rollout_guard act wp_UpdateMilvus split: sum.splits option.splits prod.splits)
qed

end

section \<open>Example worlds\<close>

text \<open>A client whose updates of the custom resource always fail.\<close>

definition flaky_cli :: "mem Client" where
  "flaky_cli = mem_cli\<lparr>cli_UpdateMilvus := (\<lambda>m. fail (KError ''conflict''))\<rparr>"

interpretation flaky: deploy_store flaky_cli mem_deps mem_pods mem_milvus
  by unfold_locales
    (auto simp: flaky_cli_def mem_cli_def applied_or_lost_def dep_written_def split: option.splits)

definition flaky_biz :: "mem biz" where
  "flaky_biz = ex_biz\<lparr>biz_cli := flaky_cli\<rparr>"

definition ex_pod :: "string \<Rightarrow> string \<Rightarrow> Pod" where
  "ex_pod name slot = \<lparr>om_Name = name, om_Namespace = ''ns'', om_UID = [], om_Generation = 0,
     om_Labels = fmap_of_list [(''slot'', slot)], om_Annotations = fmempty, om_Finalizers = [],
     om_DeletionTimestamp = None, om_OwnerReferences = [],
     pod_Phase = ''Running'', pod_Reason = [], pod_Message = [],
     pod_Conditions = [\<lparr>pc_Type = ''Ready'', pc_Status = ConditionTrue, pc_Reason = [], pc_Message = []\<rparr>],
     pod_ContainerStatuses = [], pod_Spec = zero_PodSpec\<rparr>"

text \<open>A settled Deployment of the example, with a selector for its slot.\<close>

definition ex_settled :: "string \<Rightarrow> string \<Rightarrow> int \<Rightarrow> Deployment" where
  "ex_settled name slot n = settle ((ex_deploy name slot n)\<lparr>d_Selector := Some (fmap_of_list [(''slot'', slot)])\<rparr>)"

definition ex_last3 :: Deployment where "ex_last3 = ex_settled ''mc-milvus-querynode-0'' ''0'' 3"
definition ex_cur0 :: Deployment where "ex_cur0 = ex_settled ''mc-milvus-querynode-1'' ''1'' 0"
definition ex_last0 :: Deployment where "ex_last0 = ex_settled ''mc-milvus-querynode-0'' ''0'' 0"
definition ex_cur3 :: Deployment where "ex_cur3 = ex_settled ''mc-milvus-querynode-1'' ''1'' 3"

text \<open>At the start of a rollout to slot 1, and at its end.\<close>

definition ex_rolling :: Milvus where
  "ex_rolling = SetComponentRolling ''querynode'' True (SetCurrentGroupID ''querynode'' 1 ex_milvus)"

definition ex_start :: mem where
  "ex_start = ex_world\<lparr>mem_deps := [ex_last3, ex_cur0],
     mem_pods := [ex_pod ''p1'' ''0'', ex_pod ''p2'' ''0'', ex_pod ''p3'' ''0''], mem_milvus := ex_rolling\<rparr>"

definition ex_done :: mem where
  "ex_done = ex_world\<lparr>mem_deps := [ex_last0, ex_cur3],
     mem_pods := [ex_pod ''q1'' ''1'', ex_pod ''q2'' ''1'', ex_pod ''q3'' ''1''], mem_milvus := ex_rolling\<rparr>"

definition ex_template :: PodTemplateSpec where
  "ex_template = zero_PodTemplateSpec\<lparr>pt_Annotations := fmap_of_list [(''checksum/config'', ''2'')]\<rparr>"

lemma ex_ctrl:
  "rollout_ctrl ex_biz mem_deps mem_pods mem_milvus" "deploy_store (biz_cli ex_biz) mem_deps mem_pods mem_milvus"
  "deploy_store (biz_cli flaky_biz) mem_deps mem_pods mem_milvus"
  using ex.rollout_ctrl_axioms ex.deploy_store_axioms flaky.deploy_store_axioms by (simp_all add: flaky_biz_def)

lemma ex_invs:
  "rollout_inv ex_biz (mem_milvus ex_start) (mem_deps ex_start)" "rollout_inv ex_biz (mem_milvus ex_world) (mem_deps ex_world)"
  "mcp_DeploymentGroup (biz_component ex_biz) = None"
  by code_simp+

section \<open>Properties\<close>

text \<open>C2. One pass of the two-deployment controller keeps the rollout invariant, whatever the API server
  answers (a failed write may or may not have been applied): the workload still has exactly its two
  slots, one of them current, and as long as no rollout is marked in progress the old Deployment has
  no replicas.  \<open>HandleRolling\<close> relies on this when it prepares a new rollout on the old Deployment.\<close>

theorem reconcile_keeps_rollout_invariant:
  assumes "deploy_store (biz_cli b) deps pods milvus" "rollout_inv b (milvus w) (deps w)"
    and "mcp_DeploymentGroup (biz_component b) = None"
    and "run_state (reconcile_two_deploy b (milvus w)) w = (r, w')"
  shows "rollout_inv b (milvus w') (deps w')"
  using wpD [OF rollout_ctrl.reconcile_post [OF rollout_ctrl.intro [OF assms(1)] assms(2,3)] assms(4)]
  by (simp add: handler_post_def)

theorem reconcile_keeps_rollout_invariant_witness:
  "\<exists>r w'. run_state (reconcile_two_deploy ex_biz (mem_milvus ex_start)) ex_start = (r, w') \<and>
     rollout_inv ex_biz (mem_milvus w') (mem_deps w')"
proof -
  obtain r w' where "run_state (reconcile_two_deploy ex_biz (mem_milvus ex_start)) ex_start = (r, w')" by force
  with reconcile_keeps_rollout_invariant [OF ex_ctrl(2) ex_invs(1,3)] show ?thesis by blast
qed

text \<open>C3. One pass of the controller never changes the pod template of a Deployment that has replicas
  (up to the slot label), and never adds, removes or renames a Deployment once both slots exist: a
  new version always starts in a Deployment without pods.\<close>

theorem reconcile_keeps_running_templates:
  assumes "deploy_store (biz_cli b) deps pods milvus" "rollout_inv b (milvus w) (deps w)"
    and "mcp_DeploymentGroup (biz_component b) = None"
    and "run_state (reconcile_two_deploy b (milvus w)) w = (r, w')"
  shows "running_kept b (deps w) (deps w')"
  using wpD [OF rollout_ctrl.reconcile_post [OF rollout_ctrl.intro [OF assms(1)] assms(2,3)] assms(4)]
  by (simp add: handler_post_def)

theorem reconcile_keeps_running_templates_witness:
  "\<exists>r w'. run_state (reconcile_two_deploy ex_biz (mem_milvus ex_start)) ex_start = (r, w') \<and>
     running_kept ex_biz (mem_deps ex_start) (mem_deps w')"
proof -
  obtain r w' where "run_state (reconcile_two_deploy ex_biz (mem_milvus ex_start)) ex_start = (r, w')" by force
  with reconcile_keeps_running_templates [OF ex_ctrl(2) ex_invs(1,3)] show ?thesis by blast
qed

text \<open>In manual mode the operator writes nothing at all while the current Deployment has replicas.\<close>

theorem manual_mode_hands_off:
  assumes "deploy_store (biz_cli b) deps pods milvus" "rollout_inv b (milvus w) (deps w)"
    and "the_slots b (milvus w) (deps w) = Inr (cur, lst)" "getDeployReplicas cur \<noteq> 0"
    and "run_state (HandleManualMode b (milvus w)) w = (r, w')"
  shows "w' = w"
  using wpD [OF rollout_ctrl.manual_post [OF rollout_ctrl.intro [OF assms(1)] assms(2)] assms(5)] assms(3,4) by blast

theorem manual_mode_hands_off_witness:
  "snd (run_state (HandleManualMode ex_biz (mem_milvus ex_world)) ex_world) = ex_world"
proof -
  obtain cur lst where s: "the_slots ex_biz (mem_milvus ex_world) (mem_deps ex_world) = Inr (cur, lst)"
    using ex_invs(2) by (rule rollout_invE)
  have "(case the_slots ex_biz (mem_milvus ex_world) (mem_deps ex_world) of Inl _ \<Rightarrow> False | Inr (c, l) \<Rightarrow> getDeployReplicas c = 3)"
    by code_simp
  with s have "getDeployReplicas cur \<noteq> 0" by simp
  with manual_mode_hands_off [OF ex_ctrl(2) ex_invs(2) s] show ?thesis by (metis surjective_pairing)
qed

text \<open>When stopping succeeds, both Deployments of the workload are at zero replicas and the rollout is
  no longer marked; no template was touched.\<close>

theorem stop_drains_both:
  assumes "deploy_store (biz_cli b) deps pods milvus" "rollout_inv b (milvus w) (deps w)"
    and "run_state (HandleStop b (milvus w)) w = (Inr (), w')"
  shows "templates_kept b (deps w) (deps w') \<and> \<not> IsComponentRolling (milvus w') (state_key b) \<and>
    (\<exists>cur lst. the_slots b (milvus w') (deps w') = Inr (cur, lst) \<and> getDeployReplicas cur = 0 \<and> getDeployReplicas lst = 0)"
  using wpD [OF rollout_ctrl.stop_result [OF rollout_ctrl.intro [OF assms(1)] assms(2)] assms(3)] by blast

theorem stop_drains_both_witness:
  "\<exists>w'. run_state (HandleStop ex_biz (mem_milvus ex_start)) ex_start = (Inr (), w') \<and>
     \<not> IsComponentRolling (mem_milvus w') (state_key ex_biz)"
proof -
  have "fst (run_state (HandleStop ex_biz (mem_milvus ex_start)) ex_start) = Inr ()" by code_simp
  then obtain w' where r: "run_state (HandleStop ex_biz (mem_milvus ex_start)) ex_start = (Inr (), w')"
    by (metis surjective_pairing)
  with stop_drains_both [OF ex_ctrl(2) ex_invs(1) r] show ?thesis by blast
qed

text \<open>Crash recovery: if preparing a rollout on the old Deployment got as far as writing the new
  template but the custom resource was not updated, then the next pass sees the same pair of slots
  and \<open>ShouldRollback\<close> selects the same Deployment again, so the rollout is resumed.\<close>

theorem interrupted_rollout_resumes:
  assumes "deploy_store (biz_cli b) deps pods milvus" "distinct (map object_key (deps w))"
    and "the_slots b (milvus w) (deps w) = Inr (cur, lst)" "IsPodTemplateChanged b cur t"
    and "run_state (PrepareNewRollout b (milvus w) lst t) w = (r, w')" "milvus w' = milvus w" "deps w' \<noteq> deps w"
  shows "\<exists>lst'. the_slots b (milvus w') (deps w') = Inr (cur, lst') \<and> ShouldRollback b cur (Some lst') t"
  using wpD [OF rollout_ctrl.prepare_resumes [OF rollout_ctrl.intro [OF assms(1)] assms(2-4)] assms(5)] assms(6,7) by blast

theorem interrupted_rollout_resumes_witness:
  "\<exists>(w' :: mem) lst'. the_slots flaky_biz ex_rolling (mem_deps w') = Inr (ex_cur3, lst') \<and> ShouldRollback flaky_biz ex_cur3 (Some lst') ex_template"
proof -
  define res where "res = run_state (PrepareNewRollout flaky_biz (mem_milvus ex_done) ex_last0 ex_template) ex_done"
  have h: "distinct (map object_key (mem_deps ex_done))"
    "the_slots flaky_biz (mem_milvus ex_done) (mem_deps ex_done) = Inr (ex_cur3, ex_last0)"
    "IsPodTemplateChanged flaky_biz ex_cur3 ex_template"
    by code_simp+
  have m: "mem_milvus (snd res) = mem_milvus ex_done" unfolding res_def by code_simp
  have d: "mem_deps (snd res) \<noteq> mem_deps ex_done" unfolding res_def by code_simp
  have e: "mem_milvus ex_done = ex_rolling" by (simp add: ex_done_def)
  have "run_state (PrepareNewRollout flaky_biz (mem_milvus ex_done) ex_last0 ex_template) ex_done = (fst res, snd res)"
    by (simp add: res_def)
  from interrupted_rollout_resumes [OF ex_ctrl(3) h this m d] show ?thesis unfolding m e by blast
qed

text \<open>During a rollout, scaling writes a Deployment only if the old Deployment is stable (no
  terminating or unready pods, status up to date) and the new one is stable too, or has at least
  settled without overstating its available replicas.\<close>

theorem rollout_step_waits_for_stability:
  assumes "deploy_store (biz_cli b) deps pods milvus"
    and "checkScaleKind (biz_component b) (milvus w) lst = scaleKindRollout"
    and "run_state (ScaleDeployments b (milvus w) cur lst) w = (r, w')" "deps w' \<noteq> deps w"
  shows "scale_ready b (milvus w) (pods w) cur lst"
  using wpD [OF rollout_ctrl.scaling_waits [OF rollout_ctrl.intro [OF assms(1)] assms(2)] assms(3)] assms(4) by blast

theorem rollout_step_waits_for_stability_witness:
  "scale_ready ex_biz (mem_milvus ex_start) (mem_pods ex_start) ex_cur0 ex_last3"
proof -
  have k: "checkScaleKind (biz_component ex_biz) (mem_milvus ex_start) ex_last3 = scaleKindRollout" by code_simp
  have d: "mem_deps (snd (run_state (ScaleDeployments ex_biz (mem_milvus ex_start) ex_cur0 ex_last3) ex_start)) \<noteq> mem_deps ex_start"
    by code_simp
  show ?thesis using rollout_step_waits_for_stability [OF ex_ctrl(2) k _ d] by (metis surjective_pairing)
qed

text \<open>What \<open>GetDeploys\<close> finds: it succeeds exactly when the labelled Deployments of the workload are
  two, one for the current slot and one not; it reports \<open>ErrNotFound\<close> exactly when there are none,
  and \<open>ErrNoLastDeployment\<close> exactly when there is only the one of slot 0 and slot 0 is current.\<close>

theorem two_deploys_spec:
  "(two_deploys b mc listed = Inr (cur, lst) \<longleftrightarrow>
     (slot_items b listed = [cur, lst] \<or> slot_items b listed = [lst, cur]) \<and>
     componentDeployIsCurrentGroup b mc cur \<and> \<not> componentDeployIsCurrentGroup b mc lst) \<and>
   (two_deploys b mc listed = Inl ErrNotFound \<longleftrightarrow> slot_items b listed = []) \<and>
   (two_deploys b mc listed = Inl ErrNoLastDeployment \<longleftrightarrow>
     (\<exists>d. slot_items b listed = [d] \<and> GetLabelGroupID (mcp_Name (biz_component b)) d = ''0'' \<and>
          GetCurrentGroupId mc (state_key b) = ''0''))"
  by (simp add: two_deploys_Inr_iff two_deploys_ErrNotFound_iff two_deploys_ErrNoLast_iff)

end
