(* ===== verification/Rollout_Refine.thy ===== *)
theory Rollout_Refine
  imports Rollout_Safety
begin

text \<open>
  The two-deployment rollout as an abstract protocol, and the proof that a pass of the controller is one
  step of it.  The protocol sees of a workload only its two slots (replicas and pod template), which of
  them is current, and whether a rollout is marked; everything the controller reads besides is the
  environment of the step.
\<close>

section \<open>The abstract protocol\<close>

record slot_view =
  sv_label :: string
  sv_reps :: int
  sv_tpl :: PodTemplateSpec

record rollout_view =
  rv_cur :: slot_view
  rv_last :: slot_view
  rv_rolling :: bool

record rollout_env =
  re_kind :: scaleKind
  re_stop :: bool
  re_expected :: int
  re_surge :: int
  re_unavailable :: int
  re_same :: bool
  re_min :: int
  re_serving :: int
  re_ready :: int
  re_drained :: bool

text \<open>The current slot may grow to \<open>n\<close>, shrink to \<open>n\<close>; \<open>k\<close> replicas of the old slot may go.  In a rollout
  with fixed replicas the pods that serve, less the ones taken away, cover the expected replicas but for
  the unavailability budget; with an autoscaler the new slot first has at least as many ready pods as the
  old one wants.\<close>

definition may_grow :: "rollout_env \<Rightarrow> rollout_view \<Rightarrow> int \<Rightarrow> bool" where
  "may_grow E v n = (let c = sv_reps (rv_cur v); l = sv_reps (rv_last v) in c < n \<and>
     (case re_kind E of
        scaleKindRollout \<Rightarrow> if re_same E \<or> re_surge E = 0 then n \<le> re_expected E \<and> n + l \<le> re_expected E + re_surge E
                            else n = max l (re_expected E)
      | scaleKindHPA \<Rightarrow> n = max l (re_min E) \<and> (l = 0 \<longrightarrow> c = 0)
      | scaleKindExternalHPA \<Rightarrow> n = l \<or> n = 1 \<and> c = 0 \<and> l = 0
      | scaleKindForce \<Rightarrow> n = re_expected E
      | scaleKindNormal \<Rightarrow> n = re_expected E))"

definition may_shrink :: "rollout_env \<Rightarrow> rollout_view \<Rightarrow> int \<Rightarrow> bool" where
  "may_shrink E v n = (let c = sv_reps (rv_cur v) in n < c \<and>
     (case re_kind E of
        scaleKindForce \<Rightarrow> n = re_expected E
      | scaleKindNormal \<Rightarrow> n = c - 1 \<and> re_expected E \<le> n \<and> sv_reps (rv_last v) = 0
      | _ \<Rightarrow> False))"

definition may_drain :: "rollout_env \<Rightarrow> rollout_view \<Rightarrow> int \<Rightarrow> bool" where
  "may_drain E v k = (let c = sv_reps (rv_cur v); l = sv_reps (rv_last v) in 0 < k \<and> k \<le> l \<and>
     (case re_kind E of
        scaleKindRollout \<Rightarrow> re_expected E - re_unavailable E \<le> re_serving E - k
      | scaleKindHPA \<Rightarrow> k = 1 \<and> max l (re_min E) \<le> c \<and> max l (re_min E) \<le> re_ready E
      | scaleKindExternalHPA \<Rightarrow> k = l \<and> l \<le> c \<and> l \<le> re_ready E \<and> rv_rolling v
      | scaleKindForce \<Rightarrow> k = l \<and> c = re_expected E
      | scaleKindNormal \<Rightarrow> False))"

definition can_take :: "slot_view \<Rightarrow> PodTemplateSpec \<Rightarrow> bool" where
  "can_take s t \<longleftrightarrow> sv_reps s = 0 \<or> sv_tpl s = t"

definition zeroed :: "slot_view \<Rightarrow> slot_view \<Rightarrow> bool" where
  "zeroed s s' \<longleftrightarrow> s' = s \<or> s' = s\<lparr>sv_reps := 0\<rparr>"

inductive rollout_step :: "rollout_env \<Rightarrow> rollout_view \<Rightarrow> rollout_view \<Rightarrow> bool" for E v where
  idle: "rollout_step E v v"
| take_cur: "can_take (rv_cur v) t \<Longrightarrow> rollout_step E v (v\<lparr>rv_cur := (rv_cur v)\<lparr>sv_tpl := t\<rparr>\<rparr>)"
| take_last: "can_take (rv_last v) t \<Longrightarrow> rollout_step E v (v\<lparr>rv_last := (rv_last v)\<lparr>sv_tpl := t\<rparr>\<rparr>)"
| restart: "can_take (rv_cur v) t \<Longrightarrow> \<not> rv_rolling v \<Longrightarrow>
    rollout_step E v (v\<lparr>rv_cur := (rv_cur v)\<lparr>sv_tpl := t\<rparr>, rv_rolling := True\<rparr>)"
| switch: "can_take (rv_last v) t \<Longrightarrow>
    rollout_step E v \<lparr>rv_cur = (rv_last v)\<lparr>sv_tpl := t\<rparr>, rv_last = rv_cur v, rv_rolling = True\<rparr>"
| finish: "sv_reps (rv_last v) = 0 \<Longrightarrow> re_drained E \<Longrightarrow> rollout_step E v (v\<lparr>rv_rolling := False\<rparr>)"
| grow: "may_grow E v n \<Longrightarrow> rollout_step E v (v\<lparr>rv_cur := (rv_cur v)\<lparr>sv_reps := n\<rparr>\<rparr>)"
| shrink: "may_shrink E v n \<Longrightarrow> rollout_step E v (v\<lparr>rv_cur := (rv_cur v)\<lparr>sv_reps := n\<rparr>\<rparr>)"
| drain: "may_drain E v k \<Longrightarrow> rollout_step E v (v\<lparr>rv_last := (rv_last v)\<lparr>sv_reps := sv_reps (rv_last v) - k\<rparr>\<rparr>)"
| stop: "re_stop E \<Longrightarrow> zeroed (rv_cur v) c \<Longrightarrow> zeroed (rv_last v) l \<Longrightarrow>
    rolling = rv_rolling v \<or> \<not> rolling \<and> sv_reps c = 0 \<and> sv_reps l = 0 \<Longrightarrow>
    rollout_step E v \<lparr>rv_cur = c, rv_last = l, rv_rolling = rolling\<rparr>"

inductive_cases rollout_stepE: "rollout_step E v v'"

text \<open>What the protocol guarantees, for the slots by their labels: a slot with replicas keeps its template;
  while no rollout is marked the old slot is empty; and a rollout with fixed replicas takes away replicas
  only of one slot, and only such that enough serving pods are left.\<close>

definition slot_at :: "rollout_view \<Rightarrow> string \<Rightarrow> slot_view" where
  "slot_at v l = (if sv_label (rv_cur v) = l then rv_cur v else rv_last v)"

definition view_ok :: "rollout_view \<Rightarrow> bool" where
  "view_ok v \<longleftrightarrow> sv_label (rv_cur v) \<noteq> sv_label (rv_last v) \<and> (\<not> rv_rolling v \<longrightarrow> sv_reps (rv_last v) = 0)"

lemma step_keeps_ok: "rollout_step E v v' \<Longrightarrow> view_ok v \<Longrightarrow> view_ok v'"
  by (erule rollout_stepE) (auto simp: view_ok_def zeroed_def may_drain_def Let_def)

lemma step_keeps_templates:
  assumes "rollout_step E v v'" "view_ok v" "0 < sv_reps (slot_at v l)" "l \<in> {sv_label (rv_cur v), sv_label (rv_last v)}"
  shows "sv_tpl (slot_at v' l) = sv_tpl (slot_at v l)"
  using assms by (cases rule: rollout_stepE) (auto simp: view_ok_def slot_at_def can_take_def zeroed_def)

lemma step_keeps_capacity:
  assumes "rollout_step E v v'" "view_ok v" "re_kind E = scaleKindRollout" "\<not> re_stop E"
    and "l \<in> {sv_label (rv_cur v), sv_label (rv_last v)}" "sv_reps (slot_at v' l) < sv_reps (slot_at v l)"
  shows "re_expected E - re_unavailable E \<le> re_serving E - (sv_reps (slot_at v l) - sv_reps (slot_at v' l)) \<and>
    l = sv_label (rv_last v) \<and> slot_at v' (sv_label (rv_cur v)) = slot_at v (sv_label (rv_cur v))"
  using assms
  by (cases rule: rollout_stepE) (auto simp: view_ok_def slot_at_def may_grow_def may_shrink_def may_drain_def Let_def split: if_splits)

section \<open>The view of a workload and of its environment\<close>

definition slot_of :: "'w biz \<Rightarrow> Deployment \<Rightarrow> slot_view" where
  "slot_of b d = \<lparr>sv_label = slot_label b d, sv_reps = getDeployReplicas d, sv_tpl = template_of b d\<rparr>"

definition pair_view :: "'w biz \<Rightarrow> Milvus \<Rightarrow> Deployment \<Rightarrow> Deployment \<Rightarrow> rollout_view" where
  "pair_view b mc cur lst = \<lparr>rv_cur = slot_of b cur, rv_last = slot_of b lst, rv_rolling = IsComponentRolling mc (state_key b)\<rparr>"

definition view_of :: "'w biz \<Rightarrow> Milvus \<Rightarrow> Deployment list \<Rightarrow> rollout_view option" where
  "view_of b mc ds = (case the_slots b mc ds of Inl _ \<Rightarrow> None | Inr (cur, lst) \<Rightarrow> Some (pair_view b mc cur lst))"

text \<open>A pod serves when it runs, is not being deleted, and is not reported unready.\<close>

definition serving_pod :: "Pod \<Rightarrow> bool" where
  "serving_pod p \<longleftrightarrow> om_DeletionTimestamp p = None \<and> pod_Phase p = ''Running'' \<and>
     (case find (\<lambda>c. pc_Type c = ''Ready'') (pod_Conditions p) of None \<Rightarrow> True | Some c \<Rightarrow> pc_Status c = ConditionTrue)"

definition serving :: "Pod list \<Rightarrow> Deployment \<Rightarrow> int" where
  "serving ps d = int (length (filter serving_pod (deploy_pods d ps)))"

definition stop_asked :: "'w biz \<Rightarrow> Milvus \<Rightarrow> bool" where
  "stop_asked b mc \<longleftrightarrow> expected_replicas (biz_component b) mc = 0 \<and>
     (\<not> IsHPAEnabled (biz_component b) (m_Spec mc) \<or> isUpgradeStopping mc)"

definition env_of :: "'w biz \<Rightarrow> Milvus \<Rightarrow> Pod list \<Rightarrow> DeploymentStrategy \<Rightarrow> Deployment \<Rightarrow> Deployment \<Rightarrow> rollout_env" where
  "env_of b mc ps st cur lst =
     (let c = biz_component b; e = expected_replicas c mc in
      \<lparr>re_kind = checkScaleKind c mc lst, re_stop = stop_asked b mc, re_expected = e,
       re_surge = fst (rolloutSteps (biz_x b) st e), re_unavailable = snd (rolloutSteps (biz_x b) st e),
       re_same = compareDeployResourceLimitEqual cur lst, re_min = hpa_min_replicas c (m_Spec mc),
       re_serving = serving ps cur + serving ps lst, re_ready = dst_ReadyReplicas (d_Status cur),
       re_drained = (deploy_pods lst ps = [])\<rparr>)"

text \<open>Replica counts in the range the API server accepts.\<close>

definition counts_ok :: "'w biz \<Rightarrow> Milvus \<Rightarrow> Deployment \<Rightarrow> Deployment \<Rightarrow> bool" where
  "counts_ok b mc cur lst \<longleftrightarrow> nonneg32 (getDeployReplicas cur) \<and> nonneg32 (getDeployReplicas lst) \<and>
     nonneg32 (hpa_min_replicas (biz_component b) (m_Spec mc)) \<and>
     (checkScaleKind (biz_component b) mc lst = scaleKindForce \<longrightarrow> nonneg32 (expected_replicas (biz_component b) mc)) \<and>
     expected_replicas (biz_component b) mc < 2 ^ 31"

lemma slot_of_sel [simp]:
  "sv_label (slot_of b d) = slot_label b d" "sv_reps (slot_of b d) = getDeployReplicas d" "sv_tpl (slot_of b d) = template_of b d"
  by (simp_all add: slot_of_def)

lemma pair_view_sel [simp]:
  "rv_cur (pair_view b mc cur lst) = slot_of b cur" "rv_last (pair_view b mc cur lst) = slot_of b lst"
  "rv_rolling (pair_view b mc cur lst) = IsComponentRolling mc (state_key b)"
  by (simp_all add: pair_view_def)

lemma pair_view_upd:
  "(pair_view b mc cur lst)\<lparr>rv_cur := slot_of b cur'\<rparr> = pair_view b mc cur' lst"
  "(pair_view b mc cur lst)\<lparr>rv_last := slot_of b lst'\<rparr> = pair_view b mc cur lst'"
  by (simp_all add: pair_view_def)

lemma env_of_sel [simp]:
  "re_kind (env_of b mc ps st cur lst) = checkScaleKind (biz_component b) mc lst"
  "re_stop (env_of b mc ps st cur lst) = stop_asked b mc"
  "re_expected (env_of b mc ps st cur lst) = expected_replicas (biz_component b) mc"
  "re_surge (env_of b mc ps st cur lst) = fst (rolloutSteps (biz_x b) st (expected_replicas (biz_component b) mc))"
  "re_unavailable (env_of b mc ps st cur lst) = snd (rolloutSteps (biz_x b) st (expected_replicas (biz_component b) mc))"
  "re_same (env_of b mc ps st cur lst) = compareDeployResourceLimitEqual cur lst"
  "re_min (env_of b mc ps st cur lst) = hpa_min_replicas (biz_component b) (m_Spec mc)"
  "re_serving (env_of b mc ps st cur lst) = serving ps cur + serving ps lst"
  "re_ready (env_of b mc ps st cur lst) = dst_ReadyReplicas (d_Status cur)"
  "re_drained (env_of b mc ps st cur lst) = (deploy_pods lst ps = [])"
  by (simp_all add: env_of_def Let_def)

section \<open>The guards give capacity\<close>

lemma ready_serves: "ready_pod p \<Longrightarrow> serving_pod p"
  by (auto simp: ready_pod_def serving_pod_def GetPodConditionByType_def PodConditionNotSet_def split: option.splits)

lemma stable_capacity:
  assumes "fst (DeploymentIsStable d (deploy_pods d ps))" "nonneg32 (getDeployReplicas d)"
  shows "serving ps d = getDeployReplicas d" "dst_AvailableReplicas (d_Status d) = getDeployReplicas d"
proof -
  have c: "list_all id (stable_conditions d (deploy_pods d ps))"
    using assms(1) by (auto simp: DeploymentIsStable_def logicAnd_true_iff [symmetric] Let_def split: prod.splits if_splits)
  then have "GetTerminatingPods (deploy_pods d ps) = []" "GetNotReadyPods (deploy_pods d ps) = []"
    by (simp_all add: stable_conditions_def Let_def)
  then have "\<forall>p \<in> set (deploy_pods d ps). serving_pod p"
    by (fastforce simp: GetTerminatingPods_empty_iff GetNotReadyPods_empty_iff serving_pod_def find_Some_iff split: option.splits)
  then have "filter serving_pod (deploy_pods d ps) = deploy_pods d ps" by simp
  then show "serving ps d = getDeployReplicas d" "dst_AvailableReplicas (d_Status d) = getDeployReplicas d"
    using c assms(2) by (simp_all add: serving_def stable_conditions_def Let_def)
qed

definition capacity :: "int \<Rightarrow> Pod list \<Rightarrow> Deployment \<Rightarrow> Deployment \<Rightarrow> bool" where
  "capacity surge ps cur lst \<longleftrightarrow> available_sum cur lst \<le> serving ps cur + serving ps lst \<and>
     (surge \<noteq> 0 \<longrightarrow> getDeployReplicas cur + getDeployReplicas lst \<le> serving ps cur + serving ps lst)"

lemma capacity_stable:
  assumes "fst (DeploymentIsStable cur (deploy_pods cur ps))" "fst (DeploymentIsStable lst (deploy_pods lst ps))"
    and "nonneg32 (getDeployReplicas cur)" "nonneg32 (getDeployReplicas lst)"
  shows "capacity surge ps cur lst"
  using stable_capacity [OF assms(1,3)] stable_capacity [OF assms(2,4)] by (simp add: capacity_def available_sum_def)

lemma capacity_settled:
  assumes "fst (DeploymentIsStable lst (deploy_pods lst ps))" "nonneg32 (getDeployReplicas lst)"
    and "dst_AvailableReplicas (d_Status cur) \<le> int (length (filter ready_pod (deploy_pods cur ps)))"
  shows "capacity 0 ps cur lst"
proof -
  have "length (filter ready_pod qs) \<le> length (filter serving_pod qs)" for qs
    by (induction qs) (use ready_serves in auto)
  then have "int (length (filter ready_pod (deploy_pods cur ps))) \<le> serving ps cur" by (simp add: serving_def)
  with assms(3) have "dst_AvailableReplicas (d_Status cur) \<le> serving ps cur" by linarith
  then show ?thesis using stable_capacity [OF assms(1,2)] by (simp add: capacity_def available_sum_def)
qed

section \<open>Every plan is allowed\<close>

text \<open>What the protocol allows for an action of the planner.\<close>

definition allowed :: "rollout_env \<Rightarrow> rollout_view \<Rightarrow> scaleAction \<Rightarrow> bool" where
  "allowed E v A = (let n = sa_replicaChange A in n = 0 \<or>
     (case sa_deploy A of
        CurrentDeploy \<Rightarrow> nonneg32 (sv_reps (rv_cur v) + n) \<and> (may_grow E v (sv_reps (rv_cur v) + n) \<or> may_shrink E v (sv_reps (rv_cur v) + n))
      | LastDeploy \<Rightarrow> nonneg32 (sv_reps (rv_last v) + n) \<and> may_drain E v (- n)
      | NoDeploy \<Rightarrow> True))"

lemma allowed_none [simp]: "allowed E v noScaleAction"
  by (simp add: allowed_def)

lemma allowed_rollout:
  fixes E :: rollout_env and v :: rollout_view and a :: int
  defines "c \<equiv> sv_reps (rv_cur v)" and "l \<equiv> sv_reps (rv_last v)"
  assumes "re_kind E = scaleKindRollout" "nonneg32 (re_expected E)" "nonneg32 c" "nonneg32 l" "0 < l"
    and "re_surge E \<ge> 0" "re_unavailable E \<ge> 0" "a \<le> re_serving E" "re_surge E \<noteq> 0 \<Longrightarrow> c + l \<le> re_serving E"
  shows "allowed E v (rollout_numbers (re_same E) (re_surge E) (re_unavailable E) (re_expected E) c l a)"
proof -
  have nn: "re_expected E \<ge> 0" "c \<ge> 0" "l \<ge> 0" using assms(4-6) by (simp_all add: nonneg32_def)
  note r = rollout_numbers_range [OF assms(4-6,8,9), of "re_same E" a]
  note vals = c_def [symmetric] l_def [symmetric]
  show ?thesis
    using nn assms(8,9)
  proof (cases rule: rollout_numbers_cases [of "re_expected E" c l "re_surge E" "re_unavailable E" "re_same E" a])
    case (grow k)
    then show ?thesis using r assms(3) by (auto simp: allowed_def may_grow_def vals Let_def)
  next
    case (shrink_last k)
    have "re_expected E - re_unavailable E \<le> re_serving E - k"
    proof (cases "re_surge E = 0")
      case True
      then show ?thesis using shrink_last(4) assms(10) by linarith
    next
      case False
      then show ?thesis using shrink_last(5,6) assms(9,11) by linarith
    qed
    then show ?thesis using shrink_last r assms(3) by (auto simp: allowed_def may_drain_def vals Let_def)
  qed (use assms(7) in auto)
qed

lemma allowed_other:
  assumes "counts_ok b mc cur lst" "c = biz_component b" "st = d_Strategy cur"
    and "checkScaleKind c mc lst \<noteq> scaleKindRollout"
  shows "allowed (env_of b mc ps st cur lst) (pair_view b mc cur lst) (plan_by_kind (biz_x b) (checkScaleKind c mc lst) c mc cur lst)"
proof (cases "checkScaleKind c mc lst")
  case scaleKindNormal
  then have "expected_replicas c mc \<ge> 0" "getDeployReplicas lst \<le> 0" by (simp_all add: checkScaleKind_def split: if_splits)
  then show ?thesis using assms(1,2) scaleKindNormal
    by (auto simp: plan_by_kind_def planScaleForNormalState_def counts_ok_def nonneg32_def allowed_def may_grow_def may_shrink_def Let_def)
next
  case scaleKindForce
  then show ?thesis using assms(1,2)
    by (auto simp: plan_by_kind_def planScaleForForceUpgrade_def counts_ok_def nonneg32_def allowed_def may_grow_def may_shrink_def may_drain_def Let_def)
next
  case scaleKindHPA
  then show ?thesis using assms(1,2)
    by (auto simp: plan_by_kind_def planScaleForHPA_def counts_ok_def nonneg32_def allowed_def may_grow_def may_shrink_def may_drain_def Let_def)
next
  case scaleKindExternalHPA
  have "to_int32 (getDeployReplicas cur) = getDeployReplicas cur" "to_int32 (getDeployReplicas lst) = getDeployReplicas lst"
    using assms(1) by (simp_all add: counts_ok_def)
  then show ?thesis using assms(1,2) scaleKindExternalHPA
    by (auto simp: plan_by_kind_def planScaleForExternalHPA_def counts_ok_def nonneg32_def allowed_def may_grow_def may_shrink_def may_drain_def state_key_def Let_def)
qed (use assms(4) in simp)

lemma view_with_strategy [simp]:
  "slot_of b (with_strategy st d) = slot_of b d" "deploy_pods (with_strategy st d) ps = deploy_pods d ps" "serving ps (with_strategy st d) = serving ps d"
  "checkScaleKind c mc (with_strategy st d) = checkScaleKind c mc d"
  "pair_view b mc (with_strategy st cur) (with_strategy st lst) = pair_view b mc cur lst"
  "available_sum (with_strategy st cur) (with_strategy st lst) = available_sum cur lst"
  "compareDeployResourceLimitEqual (with_strategy st cur) (with_strategy st lst) = compareDeployResourceLimitEqual cur lst"
  "counts_ok b mc (with_strategy st cur) (with_strategy st lst) = counts_ok b mc cur lst"
  by (simp_all add: pair_view_def slot_of_def slot_label_def template_of_def GetLabelGroupID_def with_strategy_def deploy_pods_def serving_def
      checkScaleKind_def available_sum_def compareDeployResourceLimitEqual_def counts_ok_def getDeployReplicas_def
      cong: option.case_cong)

lemma env_with_strategy [simp]:
  "env_of b mc ps st (with_strategy st' cur) (with_strategy st' lst) = env_of b mc ps st cur lst"
  by (simp add: env_of_def)

lemma plan_allowed:
  assumes "counts_ok b mc cur lst" "planNextScaleAction (biz_x b) (biz_component b) mc cur lst = Some (A, cur', lst')"
    and "GetDeploymentStrategy mc (biz_component b) = Some st"
    and "checkScaleKind (biz_component b) mc lst = scaleKindRollout \<Longrightarrow>
      capacity (fst (rolloutSteps (biz_x b) st (expected_replicas (biz_component b) mc))) ps cur lst"
  shows "allowed (env_of b mc ps st cur lst) (pair_view b mc cur lst) A"
proof -
  have A: "A = plan_by_kind (biz_x b) (checkScaleKind (biz_component b) mc lst) (biz_component b) mc cur' lst'"
    "cur' = with_strategy st cur" "lst' = with_strategy st lst"
    using assms(2,3) by (auto simp: planNextScaleAction_def Let_def)
  show ?thesis
  proof (cases "checkScaleKind (biz_component b) mc lst = scaleKindRollout")
    case True
    have e: "nonneg32 (expected_replicas (biz_component b) mc)" "0 < getDeployReplicas lst"
      using True assms(1) by (simp_all add: checkScaleKind_def counts_ok_def nonneg32_def split: if_splits)
    have "allowed (env_of b mc ps st cur lst) (pair_view b mc cur lst) (rollout_numbers (re_same (env_of b mc ps st cur lst))
        (re_surge (env_of b mc ps st cur lst)) (re_unavailable (env_of b mc ps st cur lst)) (re_expected (env_of b mc ps st cur lst))
        (sv_reps (rv_cur (pair_view b mc cur lst))) (sv_reps (rv_last (pair_view b mc cur lst))) (available_sum cur lst))"
      by (rule allowed_rollout) (use True e assms(1) assms(4) [OF True] rolloutSteps_nonneg in \<open>simp_all add: counts_ok_def capacity_def\<close>)
    then show ?thesis
      using True by (simp add: A plan_by_kind_def planScaleForRollout_numbers)
  next
    case False
    then show ?thesis
      using allowed_other [of b mc "with_strategy st cur" "with_strategy st lst" "biz_component b" st ps] assms(1) by (simp add: A)
  qed
qed

section \<open>The handlers\<close>

definition refines :: "'w biz \<Rightarrow> rollout_env \<Rightarrow> rollout_view \<Rightarrow> Milvus \<Rightarrow> Deployment list \<Rightarrow> bool" where
  "refines b E v mc ds \<longleftrightarrow> (\<exists>v'. view_of b mc ds = Some v' \<and> rollout_step E v v')"

lemma slot_of_gen [simp]: "slot_of b (d\<lparr>om_Generation := g\<rparr>) = slot_of b d"
  by (simp add: slot_of_def slot_label_def GetLabelGroupID_def)

lemma pair_view_gen [simp]:
  "pair_view b mc (cur\<lparr>om_Generation := g\<rparr>) lst = pair_view b mc cur lst" "pair_view b mc cur (lst\<lparr>om_Generation := g\<rparr>) = pair_view b mc cur lst"
  by (simp_all add: pair_view_def)

lemma slot_of_identity:
  assumes "same_identity d d'"
  shows "slot_of b d' = (slot_of b d)\<lparr>sv_reps := getDeployReplicas d', sv_tpl := template_of b d'\<rparr>"
  using assms by (simp add: slot_of_def slot_label_def GetLabelGroupID_def same_identity_def)

lemma view_slots: "the_slots b mc ds = Inr (cur, lst) \<Longrightarrow> view_of b mc ds = Some (pair_view b mc cur lst)"
  by (simp add: view_of_def)

lemma refines_idle: "view_of b mc ds = Some v \<Longrightarrow> refines b E v mc ds"
  by (auto simp: refines_def intro: rollout_step.idle)

text \<open>Writing one of the two Deployments.\<close>

lemma view_write:
  assumes "the_slots b mc ds = Inr (cur, lst)" "distinct (map object_key ds)"
  shows "same_identity cur d' \<Longrightarrow> the_slots b mc (store_replace d' ds) = Inr (d', lst)"
    and "same_identity lst d' \<Longrightarrow> the_slots b mc (store_replace d' ds) = Inr (cur, d')"
  using the_slots_replace [OF assms(2) the_slots_mem(1) [OF assms(1)] _ assms(1), of d']
    the_slots_replace [OF assms(2) the_slots_mem(2) [OF assms(1)] _ assms(1), of d'] the_slots_labels(3) [OF assms(1)] by simp_all

lemma refines_cur:
  assumes "the_slots b mc ds = Inr (cur, lst)" "distinct (map object_key ds)" "same_identity cur d'"
    and "rollout_step E v ((pair_view b mc cur lst)\<lparr>rv_cur := slot_of b d'\<rparr>)"
  shows "refines b E v mc (store_replace (d'\<lparr>om_Generation := g\<rparr>) ds)"
proof -
  have "the_slots b mc (store_replace (d'\<lparr>om_Generation := g\<rparr>) ds) = Inr (d'\<lparr>om_Generation := g\<rparr>, lst)"
    using view_write(1) [OF assms(1,2), of "d'\<lparr>om_Generation := g\<rparr>"] assms(3) by simp
  with view_slots [OF this] assms(4) show ?thesis by (auto simp: refines_def pair_view_upd)
qed

lemma refines_last:
  assumes "the_slots b mc ds = Inr (cur, lst)" "distinct (map object_key ds)" "same_identity lst d'"
    and "rollout_step E v ((pair_view b mc cur lst)\<lparr>rv_last := slot_of b d'\<rparr>)"
  shows "refines b E v mc (store_replace (d'\<lparr>om_Generation := g\<rparr>) ds)"
proof -
  have "the_slots b mc (store_replace (d'\<lparr>om_Generation := g\<rparr>) ds) = Inr (cur, d'\<lparr>om_Generation := g\<rparr>)"
    using view_write(2) [OF assms(1,2), of "d'\<lparr>om_Generation := g\<rparr>"] assms(3) by simp
  with view_slots [OF this] assms(4) show ?thesis by (auto simp: refines_def pair_view_upd)
qed

text \<open>A workload at the start of a pass.\<close>

definition pass_start :: "'w biz \<Rightarrow> Milvus \<Rightarrow> Deployment list \<Rightarrow> Deployment \<Rightarrow> Deployment \<Rightarrow> bool" where
  "pass_start b mc ds cur lst \<longleftrightarrow> the_slots b mc ds = Inr (cur, lst) \<and> distinct (map object_key ds) \<and> pair_ok b mc cur lst"

lemma pass_startD:
  assumes "pass_start b mc ds cur lst"
  shows "the_slots b mc ds = Inr (cur, lst)" "distinct (map object_key ds)" "pair_ok b mc cur lst" "rollout_inv b mc ds"
    "view_of b mc ds = Some (pair_view b mc cur lst)"
  using assms rollout_invI by (auto simp: pass_start_def view_of_def)

lemma scaled_slot:
  assumes "nonneg32 (getDeployReplicas d + n)"
  shows "slot_of b (scaled (with_strategy st d) n) = (slot_of b d)\<lparr>sv_reps := getDeployReplicas d + n\<rparr>"
    "same_identity d (scaled (with_strategy st d) n)"
  using assms
  by (simp_all add: slot_of_def slot_label_def GetLabelGroupID_def template_of_def scaled_def with_strategy_def same_identity_def object_key_def
      getDeployReplicas_def int32Ptr_def)

text \<open>On the way through \<open>HandleStop\<close>.\<close>

definition stopping :: "'w biz \<Rightarrow> Milvus \<Rightarrow> Deployment \<Rightarrow> Deployment \<Rightarrow> Milvus \<Rightarrow> Deployment list \<Rightarrow> Deployment \<Rightarrow> Deployment \<Rightarrow> bool" where
  "stopping b mc cur lst mc' ds c l \<longleftrightarrow> mc' = mc \<and> the_slots b mc ds = Inr (c, l) \<and> distinct (map object_key ds) \<and>
     zeroed (slot_of b cur) (slot_of b c) \<and> zeroed (slot_of b lst) (slot_of b l)"

lemma stopping_write:
  assumes "stopping b mc cur lst mc' ds c l"
  shows "stopping b mc cur lst mc' (store_replace (c\<lparr>d_Replicas := int32Ptr 0, om_Generation := g\<rparr>) ds) (c\<lparr>d_Replicas := int32Ptr 0, om_Generation := g\<rparr>) l"
    and "stopping b mc cur lst mc' (store_replace (l\<lparr>d_Replicas := int32Ptr 0, om_Generation := g\<rparr>) ds) c (l\<lparr>d_Replicas := int32Ptr 0, om_Generation := g\<rparr>)"
proof -
  have id: "same_identity d (d\<lparr>d_Replicas := int32Ptr 0, om_Generation := g\<rparr>)"
    and sl: "slot_of b (d\<lparr>d_Replicas := int32Ptr 0\<rparr>) = (slot_of b d)\<lparr>sv_reps := 0\<rparr>" for d
    by (simp_all add: same_identity_def object_key_def slot_of_def slot_label_def GetLabelGroupID_def getDeployReplicas_def template_of_def int32Ptr_def)
  have f: "the_slots b mc ds = Inr (c, l)" "distinct (map object_key ds)" using assms by (simp_all add: stopping_def)
  have dist: "distinct (map object_key (store_replace (d\<lparr>d_Replicas := int32Ptr 0, om_Generation := g\<rparr>) ds))" if "d \<in> set ds" for d
    using store_replace_identity(2) [OF f(2) that id] f(2) by simp
  show "stopping b mc cur lst mc' (store_replace (c\<lparr>d_Replicas := int32Ptr 0, om_Generation := g\<rparr>) ds) (c\<lparr>d_Replicas := int32Ptr 0, om_Generation := g\<rparr>) l"
    using assms view_write(1) [OF f id] dist [OF the_slots_mem(1) [OF f(1)]] by (auto simp: stopping_def sl zeroed_def)
  show "stopping b mc cur lst mc' (store_replace (l\<lparr>d_Replicas := int32Ptr 0, om_Generation := g\<rparr>) ds) c (l\<lparr>d_Replicas := int32Ptr 0, om_Generation := g\<rparr>)"
    using assms view_write(2) [OF f id] dist [OF the_slots_mem(2) [OF f(1)]] by (auto simp: stopping_def sl zeroed_def)
qed

lemma stopping_distinct: "stopping b mc cur lst mc' ds c l \<Longrightarrow> c \<noteq> l"
  unfolding stopping_def by (metis the_slots_labels(3))

lemma stopping_refines:
  assumes "stopping b mc cur lst mc' ds c l" "re_stop E" "v = pair_view b mc cur lst"
  shows "refines b E v mc' ds"
    and "getDeployReplicas c = 0 \<Longrightarrow> getDeployReplicas l = 0 \<Longrightarrow> refines b E v (SetComponentRolling (state_key b) False mc) ds"
proof -
  have f: "mc' = mc" "the_slots b mc ds = Inr (c, l)" "zeroed (rv_cur v) (slot_of b c)" "zeroed (rv_last v) (slot_of b l)"
    using assms(1,3) by (simp_all add: stopping_def)
  have "rollout_step E v (pair_view b mc c l)"
    using rollout_step.stop [OF assms(2) f(3,4), of "rv_rolling v"] by (simp add: pair_view_def assms(3))
  then show "refines b E v mc' ds" using view_slots [OF f(2)] f(1) by (simp add: refines_def)
  let ?m = "SetComponentRolling (state_key b) False mc"
  have slots: "the_slots b ?m ds = Inr (c, l)" using the_slots_milvus(1) [OF f(2), of ?m] the_slots_labels(1) [OF f(2)] by simp
  assume "getDeployReplicas c = 0" "getDeployReplicas l = 0"
  then have "rollout_step E v (pair_view b ?m c l)"
    using rollout_step.stop [OF assms(2) f(3,4), of False] by (simp add: pair_view_def)
  then show "refines b E v ?m ds" using view_slots [OF slots] by (simp add: refines_def)
qed

context rollout_ctrl
begin

lemma wp_check_capacity:
  assumes "GetDeploymentStrategy mc (biz_component b) = Some st" "counts_ok b mc cur lst" "\<And>e. Q (Inl e) w"
    and "(checkScaleKind (biz_component b) mc lst = scaleKindRollout \<Longrightarrow>
      capacity (fst (rolloutSteps (biz_x b) st (expected_replicas (biz_component b) mc))) (pods w) cur lst) \<Longrightarrow> Q (Inr ()) w"
  shows "wp (checkCanScaleNow b mc cur lst) w Q"
proof (cases "checkScaleKind (biz_component b) mc lst = scaleKindRollout")
  case False
  then show ?thesis using wp_checkCanScaleNow [of "\<lambda>r w. Q r w"] assms(3,4) by (metis (full_types) old.unit.exhaust sum.exhaust)
next
  case True
  obtain s u where su: "rolloutSteps (biz_x b) st (expected_replicas (biz_component b) mc) = (s, u)" by force
  have nn: "nonneg32 (getDeployReplicas cur)" "nonneg32 (getDeployReplicas lst)" using assms(2) by (simp_all add: counts_ok_def)
  have ok: "Q (Inr ()) w" if "capacity s (pods w) cur lst" using assms(4) that su by simp
  have stable: "Q (Inr ()) w" if "fst (DeploymentIsStable cur (deploy_pods cur (pods w)))" "fst (DeploymentIsStable lst (deploy_pods lst (pods w)))"
    using ok capacity_stable [OF that nn] by blast
  have settled: "Q (Inr ()) w" if "fst (DeploymentIsStable lst (deploy_pods lst (pods w)))" "s = 0"
    "\<not> int (length (filter ready_pod (deploy_pods cur (pods w)))) < dst_AvailableReplicas (d_Status cur)"
    using ok capacity_settled [OF that(1) nn(2)] that(2,3) by simp
  show ?thesis
    unfolding checkCanScaleNow_def checkDeploymentsStable_def using assms(1,3) True stable settled
    by (auto simp: Let_def su or_panic_def intro!: checkLast_stable wp_ListDeployPods_eq split: prod.splits)
qed

lemma scaling_refines:
  assumes "pass_start b (milvus w) (deps w) cur lst" "counts_ok b (milvus w) cur lst"
    and "GetDeploymentStrategy (milvus w) (biz_component b) = Some st"
  defines "E \<equiv> env_of b (milvus w) (pods w) st cur lst" and "v \<equiv> pair_view b (milvus w) cur lst"
  shows "wp (HandleScaling b (milvus w)) w (\<lambda>r w'. refines b E v (milvus w') (deps w'))"
proof -
  note s = pass_startD [OF assms(1)]
  have same: "refines b E v (milvus w) (deps w)" using s(5) unfolding v_def by (rule refines_idle)
  have act: "wp (doScaleAction b A cur' lst') w (\<lambda>r w'. refines b E v (milvus w') (deps w'))"
    if p: "planNextScaleAction (biz_x b) (biz_component b) (milvus w) cur lst = Some (A, cur', lst')"
      and cap: "checkScaleKind (biz_component b) (milvus w) lst = scaleKindRollout \<Longrightarrow>
        capacity (fst (rolloutSteps (biz_x b) st (expected_replicas (biz_component b) (milvus w)))) (pods w) cur lst" for A cur' lst'
  proof -
    have al: "allowed E v A" unfolding E_def v_def by (rule plan_allowed [OF assms(2) p assms(3) cap])
    have c': "cur' = with_strategy st cur" "lst' = with_strategy st lst"
      using p assms(3) by (auto simp: planNextScaleAction_def Let_def)
    show ?thesis
    proof (cases "sa_replicaChange A = 0 \<or> sa_deploy A = NoDeploy")
      case True
      then show ?thesis using same by (auto simp: doScaleAction_def)
    next
      case change: False
      show ?thesis
      proof (cases "sa_deploy A")
        case CurrentDeploy
        let ?n = "getDeployReplicas cur + sa_replicaChange A"
        have n: "nonneg32 ?n" "may_grow E v ?n \<or> may_shrink E v ?n"
          using al change CurrentDeploy by (auto simp: allowed_def v_def Let_def)
        have "rollout_step E v ((pair_view b (milvus w) cur lst)\<lparr>rv_cur := slot_of b (scaled cur' (sa_replicaChange A))\<rparr>)"
          using n(2) rollout_step.grow [of E v ?n] rollout_step.shrink [of E v ?n] by (auto simp: c' scaled_slot [OF n(1)] v_def)
        note step = refines_cur [OF s(1,2) _ this]
        show ?thesis
          using CurrentDeploy change same step scaled_slot(2) [OF n(1)]
          by (auto simp: doScaleAction_def UpdateDeploymentAndRequeue_def c' intro!: wp_UpdateDeployment split: sum.splits)
      next
        case LastDeploy
        let ?n = "getDeployReplicas lst + sa_replicaChange A"
        have n: "nonneg32 ?n" "may_drain E v (- sa_replicaChange A)"
          using al change LastDeploy by (auto simp: allowed_def v_def Let_def)
        have "rollout_step E v ((pair_view b (milvus w) cur lst)\<lparr>rv_last := slot_of b (scaled lst' (sa_replicaChange A))\<rparr>)"
          using rollout_step.drain [OF n(2)] by (simp add: c' scaled_slot [OF n(1)] v_def)
        note step = refines_last [OF s(1,2) _ this]
        show ?thesis
          using LastDeploy change same step scaled_slot(2) [OF n(1)]
          by (auto simp: doScaleAction_def UpdateDeploymentAndRequeue_def c' intro!: wp_UpdateDeployment split: sum.splits)
      qed (use change in simp)
    qed
  qed
  have "wp (ScaleDeployments b (milvus w) cur lst) w (\<lambda>r w'. refines b E v (milvus w') (deps w'))"
    unfolding ScaleDeployments_def using s(1,3) same act
    by (auto simp: or_panic_def intro!: wp_markDeployAsCurrent wp_check_capacity [OF assms(3,2)] split: sum.splits option.splits)
  then show ?thesis
    unfolding HandleScaling_def using same s(1) by (auto intro!: wp_GetDeploys)
qed

text \<open>Preparing a rollout on one of the two: its template, then the marks.\<close>

lemma prepare_refines:
  assumes "pass_start b (milvus w) (deps w) cur lst" "d = lst \<or> d = cur \<and> \<not> IsComponentRolling (milvus w) (state_key b)"
    and "can_take (slot_of b d) (set_template_group b [] t)"
  defines "v \<equiv> pair_view b (milvus w) cur lst"
  shows "wp (PrepareNewRollout b (milvus w) d t) w (\<lambda>r w'. refines b E v (milvus w') (deps w') \<and> (r = Inr () \<longrightarrow> w' = w))"
proof -
  note s = pass_startD [OF assms(1)]
  have same: "refines b E v (milvus w) (deps w)" using s(5) unfolding v_def by (rule refines_idle)
  define d' where "d' = snd (RenewDeployAnnotation (milvus w) (updatePodTemplateTwoDeployMode b t d))"
  define m' where "m' = SetComponentRolling (state_key b) True (SetCurrentGroupIDStr (state_key b) (slot_label b d) (milvus w))"
  have id: "same_identity d d'" and sl: "slot_of b d' = (slot_of b d)\<lparr>sv_tpl := set_template_group b [] t\<rparr>"
    by (simp_all add: d'_def RenewDeployAnnotation_def updatePodTemplateTwoDeployMode_def same_identity_def object_key_def slot_of_def
        slot_label_def GetLabelGroupID_def template_of_def getDeployReplicas_def Let_def)
  have both: "refines b E v (milvus w) (store_replace (d'\<lparr>om_Generation := g\<rparr>) (deps w)) \<and>
      refines b E v m' (store_replace (d'\<lparr>om_Generation := g\<rparr>) (deps w))" for g
  proof (cases "d = lst")
    case True
    have slots: "the_slots b (milvus w) (store_replace (d'\<lparr>om_Generation := g\<rparr>) (deps w)) = Inr (cur, d'\<lparr>om_Generation := g\<rparr>)"
      using view_write(2) [OF s(1,2), of "d'\<lparr>om_Generation := g\<rparr>"] id True by simp
    have "the_slots b m' (store_replace (d'\<lparr>om_Generation := g\<rparr>) (deps w)) = Inr (d'\<lparr>om_Generation := g\<rparr>, cur)"
      using the_slots_milvus(2) [OF slots, of m'] id by (simp add: m'_def slot_label_def GetLabelGroupID_def same_identity_def)
    then have "view_of b m' (store_replace (d'\<lparr>om_Generation := g\<rparr>) (deps w)) =
        Some \<lparr>rv_cur = (rv_last v)\<lparr>sv_tpl := set_template_group b [] t\<rparr>, rv_last = rv_cur v, rv_rolling = True\<rparr>"
      using sl True by (simp add: view_slots pair_view_def v_def m'_def)
    then show ?thesis
      using assms(3) True sl refines_last [OF s(1,2), of d' E v] id rollout_step.take_last [of v "set_template_group b [] t" E]
        rollout_step.switch [of v "set_template_group b [] t" E] by (simp add: refines_def v_def)
  next
    case False
    then have d: "d = cur" "\<not> rv_rolling v" using assms(2) by (simp_all add: v_def)
    have slots: "the_slots b (milvus w) (store_replace (d'\<lparr>om_Generation := g\<rparr>) (deps w)) = Inr (d'\<lparr>om_Generation := g\<rparr>, lst)"
      using view_write(1) [OF s(1,2), of "d'\<lparr>om_Generation := g\<rparr>"] id d by simp
    have "the_slots b m' (store_replace (d'\<lparr>om_Generation := g\<rparr>) (deps w)) = Inr (d'\<lparr>om_Generation := g\<rparr>, lst)"
      using the_slots_milvus(1) [OF slots, of m'] id by (simp add: m'_def slot_label_def GetLabelGroupID_def same_identity_def)
    then have "view_of b m' (store_replace (d'\<lparr>om_Generation := g\<rparr>) (deps w)) =
        Some (v\<lparr>rv_cur := (rv_cur v)\<lparr>sv_tpl := set_template_group b [] t\<rparr>, rv_rolling := True\<rparr>)"
      using sl d by (simp add: view_slots pair_view_def v_def m'_def)
    then show ?thesis
      using assms(3) d sl refines_cur [OF s(1,2), of d' E v] id rollout_step.take_cur [of v "set_template_group b [] t" E]
        rollout_step.restart [of v "set_template_group b [] t" E] by (simp add: refines_def v_def)
  qed
  show ?thesis
    unfolding PrepareNewRollout_def UpdateMilvusAndRequeue_def using same both
    by (auto simp: Let_def d'_def [symmetric] m'_def [symmetric] slot_label_def [symmetric] intro!: wp_UpdateDeployment wp_UpdateMilvus split: sum.splits)
qed

lemma finished_refines:
  fixes st :: DeploymentStrategy
  assumes "pass_start b (milvus w) (deps w) cur lst"
  defines "E \<equiv> env_of b (milvus w) (pods w) st cur lst" and "v \<equiv> pair_view b (milvus w) cur lst"
  shows "wp (LastRolloutFinished b (milvus w) cur lst) w (\<lambda>r w'. refines b E v (milvus w') (deps w') \<and>
    (r = Inr False \<longrightarrow> w' = w) \<and> (r = Inr True \<longrightarrow> w' = w \<and> \<not> IsComponentRolling (milvus w) (state_key b)))"
proof -
  note s = pass_startD [OF assms(1)]
  let ?m = "SetComponentRolling (state_key b) False (milvus w)"
  have same: "refines b E v (milvus w) (deps w)" using s(5) unfolding v_def by (rule refines_idle)
  have "the_slots b ?m (deps w) = Inr (cur, lst)"
    using the_slots_milvus(1) [OF s(1), of ?m] the_slots_labels(1) [OF s(1)] by simp
  then have view: "view_of b ?m (deps w) = Some (v\<lparr>rv_rolling := False\<rparr>)" by (simp add: view_slots v_def pair_view_def)
  have fin: "refines b E v ?m (deps w)"
    if "fst (logicAnd (rollout_finished_conditions b (milvus w) cur lst))" "deploy_pods lst (pods w) = []"
  proof -
    have "getDeployReplicas lst = 0" using that(1) by (simp add: logicAnd_true_iff rollout_finished_conditions_def Let_def)
    then have "rollout_step E v (v\<lparr>rv_rolling := False\<rparr>)" using that(2) by (intro rollout_step.finish) (simp_all add: E_def v_def)
    with view show ?thesis by (simp add: refines_def)
  qed
  show ?thesis
    unfolding LastRolloutFinished_def UpdateMilvusAndRequeue_def using same fin
    by (auto intro!: wp_ListDeployPods_eq wp_UpdateMilvus split: sum.splits)
qed

lemma rolling_refines:
  fixes st :: DeploymentStrategy
  assumes "pass_start b (milvus w) (deps w) cur lst" "getDeployReplicas cur \<ge> 0"
  defines "E \<equiv> env_of b (milvus w) (pods w) st cur lst" and "v \<equiv> pair_view b (milvus w) cur lst"
  shows "wp (HandleRolling b (milvus w)) w (\<lambda>r w'. refines b E v (milvus w') (deps w') \<and> (r = Inr () \<longrightarrow> w' = w))" (is "wp _ _ ?Q")
proof -
  note s = pass_startD [OF assms(1)]
  have same: "refines b E v (milvus w) (deps w)" using s(5) unfolding v_def by (rule refines_idle)
  note prep = prepare_refines [OF assms(1), of _ _ E, folded v_def]
  note finished = finished_refines [OF assms(1), of st, folded E_def v_def]
  have rollback: "wp (PrepareNewRollout b (milvus w) lst t) w ?Q" if "ShouldRollback b cur (Some lst) t" for t
    using that by (intro prep) (auto simp: ShouldRollback_def isPodTemplateEqual_def can_take_def template_of_def split: if_splits)
  have fresh: "wp (PrepareNewRollout b (milvus w) (if getDeployReplicas cur > 0 then lst else cur) t) w ?Q"
    if "\<not> IsComponentRolling (milvus w) (state_key b)" for t
    using that s(3) assms(2) by (intro prep) (auto simp: can_take_def pair_ok_def)
  have body: "wp (op_bind (op_wrap msg (LastRolloutFinished b (milvus w) cur lst)) (\<lambda>f.
        if \<not> f then ret ()
        else if IsPodTemplateChanged b cur t
        then PrepareNewRollout b (milvus w) (if getDeployReplicas cur > 0 then lst else cur) t else ret ())) w ?Q" for msg t
    unfolding wp_bind wp_wrap using same fresh
    by (intro wp_mono [OF finished]) (auto simp: wrap_def split: sum.splits if_splits)
  have continue: "wp (if ShouldRollback b cur (Some lst) t then PrepareNewRollout b (milvus w) lst t
      else op_bind (op_wrap msg (LastRolloutFinished b (milvus w) cur lst)) (\<lambda>f.
        if \<not> f then ret ()
        else if IsPodTemplateChanged b cur t
        then PrepareNewRollout b (milvus w) (if getDeployReplicas cur > 0 then lst else cur) t else ret ())) w ?Q" for msg t
    using rollback body by (cases "ShouldRollback b cur (Some lst) t") (simp_all only: if_True if_False simp_thms)
  show ?thesis
    unfolding HandleRolling_def wp_bind [of "op_wrap _ (GetDeploys _ _)"] wp_wrap [of _ "GetDeploys b (milvus w)"]
    using s(1) same continue
    by (intro wp_GetDeploys; cases "RenderPodTemplateWithoutGroupID b (milvus w) (Some (d_Template cur)) False")
      (simp_all only: wrap_simps sum.case prod.case wp_bind [of "lift_result _"] wp_lift or_panic_simps sum.distinct simp_thms)
qed

text \<open>In manual mode only the template of an empty current Deployment is brought up to date.\<close>

lemma manual_refines:
  assumes "pass_start b (milvus w) (deps w) cur lst"
  defines "v \<equiv> pair_view b (milvus w) cur lst"
  shows "wp (HandleManualMode b (milvus w)) w (\<lambda>r w'. refines b E v (milvus w') (deps w'))"
proof -
  note s = pass_startD [OF assms(1)]
  have same: "refines b E v (milvus w) (deps w)" using s(5) unfolding v_def by (rule refines_idle)
  have upd: "refines b E v (milvus w) (store_replace (d'\<lparr>om_Generation := g\<rparr>) (deps w))"
    if "d' = snd (RenewDeployAnnotation (milvus w) cur) \<or>
        d' = updatePodTemplateTwoDeployMode b t (snd (RenewDeployAnnotation (milvus w) cur))" "getDeployReplicas cur = 0" for d' t g
  proof (rule refines_cur [OF s(1,2)])
    show "same_identity cur d'"
      using that(1) by (auto simp: RenewDeployAnnotation_def updatePodTemplateTwoDeployMode_def same_identity_def object_key_def Let_def)
    have "slot_of b d' = (slot_of b cur)\<lparr>sv_tpl := template_of b d'\<rparr>"
      using that(1) by (auto simp: RenewDeployAnnotation_def updatePodTemplateTwoDeployMode_def slot_of_def slot_label_def GetLabelGroupID_def
          getDeployReplicas_def Let_def)
    then show "rollout_step E v ((pair_view b (milvus w) cur lst)\<lparr>rv_cur := slot_of b d'\<rparr>)"
      using rollout_step.take_cur [of v "template_of b d'" E] that(2) by (simp add: v_def can_take_def)
  qed
  show ?thesis
    unfolding HandleManualMode_def UpdateDeploymentAndRequeue_def
    using same s(1) upd [OF disjI1 [OF refl]] upd [OF disjI2 [OF refl]]
    by (auto simp: or_panic_def Let_def intro!: wp_GetDeploys wp_UpdateDeployment split: option.splits prod.splits sum.splits)
qed

lemma wp_stop_member:
  assumes "stopping b mc cur lst (milvus w) (deps w) c l" "d = c \<or> d = l"
    and "\<And>r w' c' l'. stopping b mc cur lst (milvus w') (deps w') c' l' \<Longrightarrow>
      (r = Inr () \<longrightarrow> getDeployReplicas (if d = c then c' else l') = 0 \<and> (if d = c then l' = l else c' = c)) \<Longrightarrow> Q r w'"
  shows "wp (stopDeployIfNot b d) w Q"
proof -
  have neq: "c \<noteq> l" by (rule stopping_distinct [OF assms(1)])
  have zero: "getDeployReplicas (x\<lparr>d_Replicas := int32Ptr 0, om_Generation := g\<rparr>) = 0" for x :: Deployment and g
    by (simp add: getDeployReplicas_def int32Ptr_def)
  have stay: "Q r w" if "r = Inr () \<longrightarrow> getDeployReplicas d = 0" for r
    using assms(3) [OF assms(1), of r] that assms(2) neq by auto
  have wrote: "Q r w'" if w': "deps w' = store_replace (d\<lparr>d_Replicas := int32Ptr 0, om_Generation := g\<rparr>) (deps w)" "milvus w' = milvus w" for r w' g
    using assms(2)
  proof
    assume "d = c"
    then show ?thesis
      using stopping_write(1) [OF assms(1), of g] zero w' by (intro assms(3) [of w' "c\<lparr>d_Replicas := int32Ptr 0, om_Generation := g\<rparr>" l]) simp_all
  next
    assume "d = l"
    then show ?thesis
      using stopping_write(2) [OF assms(1), of g] zero w' neq by (intro assms(3) [of w' c "l\<lparr>d_Replicas := int32Ptr 0, om_Generation := g\<rparr>"]) simp_all
  qed
  show ?thesis
    unfolding stopDeployIfNot_def using stay wrote by (auto simp: wrap_def intro!: wp_UpdateDeployment split: sum.splits)
qed

lemma stop_refines:
  assumes "pass_start b (milvus w) (deps w) cur lst" "re_stop E"
  defines "v \<equiv> pair_view b (milvus w) cur lst"
  shows "wp (HandleStop b (milvus w)) w (\<lambda>r w'. refines b E v (milvus w') (deps w'))" (is "wp _ _ ?Q")
proof -
  note s = pass_startD [OF assms(1)]
  have start: "stopping b (milvus w) cur lst (milvus w) (deps w) cur lst" using s by (simp add: stopping_def zeroed_def)
  note ref = stopping_refines [OF _ assms(2) v_def [THEN meta_eq_to_obj_eq]]
  have finish: "wp (if \<not> IsComponentRolling (milvus w) (state_key b) then ret ()
      else cli_UpdateMilvus (biz_cli b) (SetComponentRolling (state_key b) False (milvus w))) w2 ?Q"
    if "stopping b (milvus w) cur lst (milvus w2) (deps w2) c l" "getDeployReplicas c = 0" "getDeployReplicas l = 0" for w2 c l
    using ref [OF that(1)] that by (auto intro!: wp_UpdateMilvus)
  have second: "wp (op_bind (op_wrap msg (stopDeployIfNot b lst)) (\<lambda>_.
      if \<not> IsComponentRolling (milvus w) (state_key b) then ret ()
      else cli_UpdateMilvus (biz_cli b) (SetComponentRolling (state_key b) False (milvus w)))) w1 ?Q"
    if w1: "stopping b (milvus w) cur lst (milvus w1) (deps w1) c lst" "getDeployReplicas c = 0" for w1 c msg
  proof -
    have "c \<noteq> lst" by (rule stopping_distinct [OF w1(1)])
    then show ?thesis
      unfolding wp_bind wp_wrap using finish w1(2)
      by (intro wp_stop_member [OF w1(1)]) (auto simp: wrap_def simp del: wp_bind split: sum.splits dest: ref(1))
  qed
  have neq: "cur \<noteq> lst" using the_slots_labels(3) [OF s(1)] .
  show ?thesis
    unfolding HandleStop_def wp_bind [of "op_wrap _ (GetDeploys _ _)"] wp_wrap [of _ "GetDeploys b (milvus w)"]
  proof (rule wp_GetDeploys)
    show "case wrap msg (the_slots b (milvus w) (deps w)) of Inl e \<Rightarrow> ?Q (Inl e) w | Inr p \<Rightarrow> wp (case p of (currentDeploy, lastDeploy) \<Rightarrow>
        op_bind (op_wrap m1 (stopDeployIfNot b currentDeploy)) (\<lambda>_. op_bind (op_wrap m2 (stopDeployIfNot b lastDeploy)) (\<lambda>_.
          if \<not> IsComponentRolling (milvus w) (state_key b) then ret ()
          else cli_UpdateMilvus (biz_cli b) (SetComponentRolling (state_key b) False (milvus w))))) w ?Q" for msg m1 m2
      unfolding s(1) wrap_simps sum.case prod.case wp_bind [of "op_wrap _ (stopDeployIfNot b cur)"] wp_wrap [of _ "stopDeployIfNot b cur"]
    proof (rule wp_stop_member [OF start disjI1 [OF refl]])
      fix r :: "go_error + unit" and w1 c l
      assume st: "stopping b (milvus w) cur lst (milvus w1) (deps w1) c l"
        and h: "r = Inr () \<longrightarrow> getDeployReplicas (if cur = cur then c else l) = 0 \<and> (if cur = cur then l = lst else c = cur)"
      show "case wrap m1 r of Inl e \<Rightarrow> ?Q (Inl e) w1 | Inr _ \<Rightarrow> wp (op_bind (op_wrap m2 (stopDeployIfNot b lst)) (\<lambda>_.
          if \<not> IsComponentRolling (milvus w) (state_key b) then ret ()
          else cli_UpdateMilvus (biz_cli b) (SetComponentRolling (state_key b) False (milvus w)))) w1 ?Q"
      proof (cases r)
        case (Inl e)
        then show ?thesis using ref(1) [OF st] by simp
      next
        case (Inr u)
        then show ?thesis using h second [of w1 c] st by simp
      qed
    qed
  qed (use ref(1) [OF start] in simp)
qed

lemma reconcile_refines:
  assumes "rollout_inv b (milvus w) (deps w)" "mcp_DeploymentGroup (biz_component b) = None"
    and "the_slots b (milvus w) (deps w) = Inr (cur, lst)" "counts_ok b (milvus w) cur lst"
    and "GetDeploymentStrategy (milvus w) (biz_component b) = Some st"
  defines "E \<equiv> env_of b (milvus w) (pods w) st cur lst" and "v \<equiv> pair_view b (milvus w) cur lst"
  shows "wp (reconcile_two_deploy b (milvus w)) w (\<lambda>r w'. refines b E v (milvus w') (deps w'))" (is "wp _ _ ?Q")
proof -
  have start: "pass_start b (milvus w) (deps w) cur lst"
    using assms(1,3) by (auto simp: rollout_inv_def pass_start_def)
  have same: "refines b E v (milvus w) (deps w)"
    using pass_startD(5) [OF start] unfolding v_def by (rule refines_idle)
  have nn: "getDeployReplicas cur \<ge> 0" using assms(4) by (simp add: counts_ok_def nonneg32_def)
  have roll: "wp (op_bind (op_wrap m1 (HandleRolling b (milvus w))) (\<lambda>_. op_wrap m2 (HandleScaling b (milvus w)))) w ?Q" for m1 m2
    unfolding wp_bind wp_wrap
    by (rule wp_mono [OF rolling_refines [OF start nn, of st, folded E_def v_def]])
      (use scaling_refines [OF start assms(4,5), folded E_def v_def] in \<open>auto simp: wrap_def split: sum.splits\<close>)
  have stop: "wp (HandleStop b (milvus w)) w ?Q" if "stop_asked b (milvus w)"
    using stop_refines [OF start, of E, folded v_def] that by (simp add: E_def)
  note manual = manual_refines [OF start, of E, folded v_def]
  show ?thesis
    unfolding reconcile_two_deploy_def wp_bind [of "op_wrap _ (HandleCreate _ _)"] wp_wrap [of _ "HandleCreate _ _"]
      wp_bind [of "lift_result _"] wp_lift expected_replicas_def [symmetric] stop_asked_def [symmetric]
    by (rule create_noop [OF assms(1,2)])
      (use stop manual roll same in \<open>auto simp: or_panic_def wrap_def simp del: wp_bind wp_wrap split: sum.splits option.splits\<close>)
qed

end

text \<open>Which handler may clear the rolling mark, and when.\<close>

definition rollout_over :: "'w biz \<Rightarrow> Milvus \<Rightarrow> Pod list \<Rightarrow> Deployment \<Rightarrow> Deployment \<Rightarrow> bool" where
  "rollout_over b mc ps cur lst \<longleftrightarrow> list_all id (rollout_finished_conditions b mc cur lst) \<and>
     (\<exists>sel. d_Selector lst = Some sel \<and> list_all (\<lambda>p. pod_Reason p = ''Evicted'') (selected (om_Namespace lst) sel ps))"

lemma wp_both: "wp m v P \<Longrightarrow> wp m v Q \<Longrightarrow> wp m v (\<lambda>r w'. P r w' \<and> Q r w')"
  by (auto intro!: wpI dest: wpD)

context rollout_ctrl
begin

lemma prepare_keeps_mark:
  "wp (PrepareNewRollout b mc d t) w (\<lambda>r w'. milvus w' = milvus w \<or> IsComponentRolling (milvus w') (state_key b))"
  unfolding PrepareNewRollout_def UpdateMilvusAndRequeue_def
  by (auto simp: Let_def intro!: wp_UpdateDeployment wp_UpdateMilvus split: sum.splits)

lemma rolling_clears_mark:
  assumes "the_slots b (milvus w) (deps w) = Inr (cur, lst)" "IsComponentRolling (milvus w) (state_key b)"
  shows "wp (HandleRolling b (milvus w)) w (\<lambda>r w'. \<not> IsComponentRolling (milvus w') (state_key b) \<longrightarrow>
    r \<noteq> Inr () \<and> deps w' = deps w \<and> rollout_over b (milvus w) (pods w) cur lst)" (is "wp _ _ ?Q")
proof -
  have prep: "wp (PrepareNewRollout b (milvus w) d t) w ?Q" for d t
    by (rule wp_mono [OF prepare_keeps_mark]) (use assms(2) in auto)
  have fin: "wp (LastRolloutFinished b (milvus w) cur lst) w (\<lambda>r w'. case r of Inr f \<Rightarrow> \<not> f \<and> w' = w
      | Inl e \<Rightarrow> \<not> IsComponentRolling (milvus w') (state_key b) \<longrightarrow> deps w' = deps w \<and> rollout_over b (milvus w) (pods w) cur lst)"
    unfolding LastRolloutFinished_def UpdateMilvusAndRequeue_def ListDeployPods_def
    using assms(2)
    by (auto simp: rollout_over_def logicAnd_true_iff or_panic_def filter_empty_conv list_all_iff
        intro!: wp_ListPods wp_UpdateMilvus split: sum.splits option.splits)
  have body: "wp (op_bind (op_wrap msg (LastRolloutFinished b (milvus w) cur lst)) k) w ?Q" if "k False = ret ()" for msg k
    unfolding wp_bind wp_wrap
    by (rule wp_mono [OF fin]) (use assms(2) that in \<open>auto simp: wrap_def split: sum.splits\<close>)
  show ?thesis
    unfolding HandleRolling_def wp_bind [of "op_wrap _ (GetDeploys _ _)"] wp_wrap [of _ "GetDeploys b (milvus w)"]
    by (rule wp_GetDeploys)
      (use assms prep in \<open>auto simp: or_panic_def simp del: wp_bind wp_wrap simp: wp_bind [of "lift_result _"]
        intro!: body split: option.splits\<close>)
qed

lemma scaling_keeps_milvus:
  assumes "pass_start b (milvus w) (deps w) cur lst"
  shows "wp (HandleScaling b (milvus w)) w (\<lambda>r w'. milvus w' = milvus w)"
proof -
  note s = pass_startD [OF assms]
  have "wp (doScaleAction b a c l) w (\<lambda>r w'. milvus w' = milvus w)" for a c l
    unfolding doScaleAction_def UpdateDeploymentAndRequeue_def
    by (auto intro!: wp_UpdateDeployment split: sum.splits scale_target.splits)
  then show ?thesis
    unfolding HandleScaling_def ScaleDeployments_def using s(1,3)
    by (auto simp: or_panic_def intro!: wp_GetDeploys wp_markDeployAsCurrent wp_checkCanScaleNow split: sum.splits option.splits)
qed

lemma manual_keeps_milvus: "wp (HandleManualMode b (milvus w)) w (\<lambda>r w'. milvus w' = milvus w)"
  unfolding HandleManualMode_def UpdateDeploymentAndRequeue_def
  by (auto simp: or_panic_def Let_def intro!: wp_GetDeploys wp_UpdateDeployment split: option.splits prod.splits sum.splits)

lemma stop_clears_mark:
  assumes "pass_start b (milvus w) (deps w) cur lst" "IsComponentRolling (milvus w) (state_key b)"
  shows "wp (HandleStop b (milvus w)) w (\<lambda>r w'. \<not> IsComponentRolling (milvus w') (state_key b) \<longrightarrow>
    (\<exists>c l. the_slots b (milvus w') (deps w') = Inr (c, l) \<and> getDeployReplicas c = 0 \<and> getDeployReplicas l = 0))"
proof -
  define E :: rollout_env where "E = \<lparr>re_kind = scaleKindNormal, re_stop = True, re_expected = 0, re_surge = 0, re_unavailable = 0,
    re_same = True, re_min = 0, re_serving = 0, re_ready = 0, re_drained = False\<rparr>"
  have E: "re_stop E" "\<not> re_drained E" by (simp_all add: E_def)
  show ?thesis
    by (rule wp_mono [OF stop_refines [OF assms(1) E(1)]])
      (use assms(2) E(2) in \<open>auto simp: refines_def view_of_def zeroed_def pair_view_def elim!: rollout_stepE split: sum.splits\<close>)
qed

lemma pass_clears_mark:
  assumes "rollout_inv b (milvus w) (deps w)" "mcp_DeploymentGroup (biz_component b) = None"
    and "the_slots b (milvus w) (deps w) = Inr (cur, lst)" "IsComponentRolling (milvus w) (state_key b)"
  shows "wp (reconcile_two_deploy b (milvus w)) w (\<lambda>r w'. \<not> IsComponentRolling (milvus w') (state_key b) \<longrightarrow>
    (if stop_asked b (milvus w)
     then \<exists>c l. the_slots b (milvus w') (deps w') = Inr (c, l) \<and> getDeployReplicas c = 0 \<and> getDeployReplicas l = 0
     else deps w' = deps w \<and> rollout_over b (milvus w) (pods w) cur lst))" (is "wp _ _ ?Q")
proof -
  have start: "pass_start b (milvus w) (deps w) cur lst" using assms(1,3) by (auto simp: rollout_inv_def pass_start_def)
  have manual: "wp (HandleManualMode b (milvus w)) w ?Q"
    by (rule wp_mono [OF manual_keeps_milvus]) (use assms(4) in simp)
  have stop: "wp (HandleStop b (milvus w)) w ?Q" if "stop_asked b (milvus w)"
    by (rule wp_mono [OF stop_clears_mark [OF start assms(4)]]) (use that in simp)
  have scale: "wp (HandleScaling b (milvus w)) w ?Q"
    by (rule wp_mono [OF scaling_keeps_milvus [OF start]]) (use assms(4) in simp)
  have roll: "wp (op_bind (op_wrap m1 (HandleRolling b (milvus w))) (\<lambda>_. op_wrap m2 (HandleScaling b (milvus w)))) w ?Q"
    if "\<not> stop_asked b (milvus w)" for m1 m2
    unfolding wp_bind wp_wrap
    by (rule wp_mono [OF wp_both [OF rolling_clears_mark [OF assms(3,4)] rolling_post [OF assms(1)]]])
      (use scale that in \<open>auto simp: wrap_def split: sum.splits\<close>)
  show ?thesis
    unfolding reconcile_two_deploy_def wp_bind [of "op_wrap _ (HandleCreate _ _)"] wp_wrap [of _ "HandleCreate _ _"]
      wp_bind [of "lift_result _"] wp_lift expected_replicas_def [symmetric] stop_asked_def [symmetric]
    by (rule create_noop [OF assms(1,2)])
      (use stop manual roll assms(4) in \<open>auto simp: or_panic_def wrap_def simp del: wp_bind wp_wrap split: sum.splits option.splits\<close>)
qed

end

text \<open>A forced update of a workload whose replicas are left to an autoscaler outside the operator.\<close>

lemma force_plan:
  assumes "com_ImageUpdateMode (ms_Com (m_Spec mc)) = ImageUpdateModeForce" "getDeployReplicas cur \<noteq> expected_replicas c mc"
  shows "checkScaleKind c mc lst = scaleKindForce"
    "planNextScaleAction x c mc cur lst = Some (mk_action CurrentDeploy (expected_replicas c mc - getDeployReplicas cur),
       with_strategy (the (GetDeploymentStrategy mc c)) cur, with_strategy (the (GetDeploymentStrategy mc c)) lst)"
  using assms by (simp_all add: planNextScaleAction_def checkScaleKind_def GetDeploymentStrategy_def plan_by_kind_def planScaleForForceUpgrade_def Let_def)

context rollout_ctrl
begin

lemma force_scaling:
  assumes "pass_start b (milvus w) (deps w) cur lst" "com_ImageUpdateMode (ms_Com (m_Spec (milvus w))) = ImageUpdateModeForce"
    and "getDeployReplicas cur \<noteq> expected_replicas (biz_component b) (milvus w)"
    and "to_int32 (expected_replicas (biz_component b) (milvus w)) = expected_replicas (biz_component b) (milvus w)"
  shows "wp (HandleScaling b (milvus w)) w (\<lambda>r w'. r \<noteq> Inr () \<and> (deps w' = deps w \<or>
    (\<exists>cur'. the_slots b (milvus w') (deps w') = Inr (cur', lst) \<and> getDeployReplicas cur' = expected_replicas (biz_component b) (milvus w))))"
    (is "wp _ _ ?Q")
proof -
  note s = pass_startD [OF assms(1)] and plan = force_plan [OF assms(2,3)]
  define d where "d = scaled (with_strategy (the (GetDeploymentStrategy (milvus w) (biz_component b))) cur)
    (expected_replicas (biz_component b) (milvus w) - getDeployReplicas cur)"
  have d: "same_identity cur d" "getDeployReplicas d = expected_replicas (biz_component b) (milvus w)"
    using assms(4) by (simp_all add: d_def scaled_def with_strategy_def same_identity_def object_key_def getDeployReplicas_def int32Ptr_def)
  have "the_slots b (milvus w) (store_replace (d\<lparr>om_Generation := g\<rparr>) (deps w)) = Inr (d\<lparr>om_Generation := g\<rparr>, lst)" for g
    using view_write(1) [OF s(1,2), of "d\<lparr>om_Generation := g\<rparr>"] d(1) by simp
  then have "wp (UpdateDeploymentAndRequeue (biz_cli b) d) w ?Q"
    unfolding UpdateDeploymentAndRequeue_def using d(2) by (auto intro!: wp_UpdateDeployment split: sum.splits)
  then have "wp (doScaleAction b (mk_action CurrentDeploy (expected_replicas (biz_component b) (milvus w) - getDeployReplicas cur))
      (with_strategy (the (GetDeploymentStrategy (milvus w) (biz_component b))) cur) lst') w ?Q" for lst'
    using assms(3) by (simp add: doScaleAction_def d_def)
  then show ?thesis
    unfolding HandleScaling_def ScaleDeployments_def checkCanScaleNow_def using s(1,3)
    by (auto simp: plan or_panic_def intro!: wp_GetDeploys wp_markDeployAsCurrent)
qed

end

section \<open>Properties\<close>

text \<open>C5. A pass of the two-deployment controller is one step of the rollout protocol, whatever the API
  server answers.  The steps are: nothing; a new template for a slot without replicas; the switch to a slot
  with its new template, which marks the rollout; the end of a rollout whose old slot is drained; a larger
  or smaller current slot; fewer replicas for the old slot; and stopping.  Replicas of the old slot are taken
  away in a rollout with fixed replicas only as long as the pods that serve now, less the ones taken away,
  are at least the expected replicas less the unavailability budget, and with an autoscaler (the operator's
  or one outside) only when the new slot has enough ready pods.  A forced update looks at neither: it takes
  the old slot to zero as soon as the new one wants the expected count.  Stopping, which is the other step that
  may clear the mark, sets both slots to zero without any condition on pods.\<close>

theorem rollout_pass_refines_protocol:
  assumes "deploy_store (biz_cli b) deps pods milvus" "rollout_inv b (milvus w) (deps w)"
    and "mcp_DeploymentGroup (biz_component b) = None" "the_slots b (milvus w) (deps w) = Inr (cur, lst)"
    and "counts_ok b (milvus w) cur lst" "GetDeploymentStrategy (milvus w) (biz_component b) = Some st"
    and "run_state (reconcile_two_deploy b (milvus w)) w = (r, w')"
  shows "\<exists>v v'. view_of b (milvus w) (deps w) = Some v \<and> view_of b (milvus w') (deps w') = Some v' \<and>
    rollout_step (env_of b (milvus w) (pods w) st cur lst) v v'"
  using wpD [OF rollout_ctrl.reconcile_refines [OF rollout_ctrl.intro [OF assms(1)] assms(2-6)] assms(7)] view_slots [OF assms(4)]
  by (auto simp: refines_def)

theorem rollout_pass_refines_protocol_witness:
  "\<exists>r w' st v v'. run_state (reconcile_two_deploy ex_biz (mem_milvus ex_start)) ex_start = (r, w') \<and> w' \<noteq> ex_start \<and>
     view_of ex_biz (mem_milvus ex_start) (mem_deps ex_start) = Some v \<and> view_of ex_biz (mem_milvus w') (mem_deps w') = Some v' \<and>
     rollout_step (env_of ex_biz (mem_milvus ex_start) (mem_pods ex_start) st ex_cur0 ex_last3) v v'"
proof -
  obtain st where st: "GetDeploymentStrategy (mem_milvus ex_start) (biz_component ex_biz) = Some st"
  proof -
    have "GetDeploymentStrategy (mem_milvus ex_start) (biz_component ex_biz) \<noteq> None" by code_simp
    then show thesis using that by blast
  qed
  have h: "the_slots ex_biz (mem_milvus ex_start) (mem_deps ex_start) = Inr (ex_cur0, ex_last3)"
    "counts_ok ex_biz (mem_milvus ex_start) ex_cur0 ex_last3" by code_simp+
  have moved: "mem_deps (snd (run_state (reconcile_two_deploy ex_biz (mem_milvus ex_start)) ex_start)) \<noteq> mem_deps ex_start" by code_simp
  obtain r w' where run: "run_state (reconcile_two_deploy ex_biz (mem_milvus ex_start)) ex_start = (r, w')" by force
  then have "w' \<noteq> ex_start" using moved by auto
  with rollout_pass_refines_protocol [OF ex_ctrl(2) ex_invs(1,3) h st run] run show ?thesis by blast
qed

text \<open>C13. A pass of the two-deployment controller that clears the rolling mark of a workload has seen the end
  of the rollout, or stops the workload.  In the first case the new Deployment wants at least the replicas the
  resource asks for and reports every one of them updated and available, the old one wants and reports none,
  both reports are up to date, the only pods that still match the old one's selector are evicted ones, and the
  pass writes no Deployment.  In the second case zero replicas are asked for, and both Deployments want none
  by the time the mark is gone; their pods may still be running then.\<close>

theorem rolling_mark_cleared_only_when_drained:
  assumes "deploy_store (biz_cli b) deps pods milvus" "rollout_inv b (milvus w) (deps w)"
    and "mcp_DeploymentGroup (biz_component b) = None" "the_slots b (milvus w) (deps w) = Inr (cur, lst)"
    and "run_state (reconcile_two_deploy b (milvus w)) w = (r, w')"
    and "IsComponentRolling (milvus w) (state_key b)" "\<not> IsComponentRolling (milvus w') (state_key b)"
  shows "if stop_asked b (milvus w)
    then \<exists>c l. the_slots b (milvus w') (deps w') = Inr (c, l) \<and> getDeployReplicas c = 0 \<and> getDeployReplicas l = 0
    else deps w' = deps w \<and> GetLeastReplicasRegardingHPA (biz_component b) (m_Spec (milvus w)) \<le> ReplicasValue (d_Replicas cur) \<and>
      dst_UpdatedReplicas (d_Status cur) = to_int32 (getDeployReplicas cur) \<and>
      dst_AvailableReplicas (d_Status cur) = dst_UpdatedReplicas (d_Status cur) \<and>
      dst_Replicas (d_Status cur) = dst_UpdatedReplicas (d_Status cur) \<and>
      getDeployReplicas lst = 0 \<and> dst_Replicas (d_Status lst) = 0 \<and>
      dst_ObservedGeneration (d_Status cur) = om_Generation cur \<and> dst_ObservedGeneration (d_Status lst) = om_Generation lst \<and>
      (\<exists>sel. d_Selector lst = Some sel \<and> (\<forall>p \<in> set (selected (om_Namespace lst) sel (pods w)). pod_Reason p = ''Evicted''))"
  using wpD [OF rollout_ctrl.pass_clears_mark [OF rollout_ctrl.intro [OF assms(1)] assms(2-4,6)] assms(5)] assms(7)
  by (auto simp: rollout_over_def rollout_finished_conditions_def Let_def list_all_iff split: if_splits)

theorem rolling_mark_cleared_only_when_drained_witness:
  "\<not> IsComponentRolling (mem_milvus (snd (run_state (reconcile_two_deploy ex_biz (mem_milvus ex_done)) ex_done))) (state_key ex_biz) \<and>
   \<not> stop_asked ex_biz (mem_milvus ex_done) \<and> getDeployReplicas ex_last0 = 0 \<and> dst_AvailableReplicas (d_Status ex_cur3) = 3 \<and>
   (\<exists>sel. d_Selector ex_last0 = Some sel \<and>
     (\<forall>p \<in> set (selected (om_Namespace ex_last0) sel (mem_pods ex_done)). pod_Reason p = ''Evicted''))"
proof -
  have h: "the_slots ex_biz (mem_milvus ex_done) (mem_deps ex_done) = Inr (ex_cur3, ex_last0)"
    "rollout_inv ex_biz (mem_milvus ex_done) (mem_deps ex_done)"
    "IsComponentRolling (mem_milvus ex_done) (state_key ex_biz)" "\<not> stop_asked ex_biz (mem_milvus ex_done)"
    "to_int32 (getDeployReplicas ex_cur3) = 3" by code_simp+
  have c: "\<not> IsComponentRolling (mem_milvus (snd (run_state (reconcile_two_deploy ex_biz (mem_milvus ex_done)) ex_done))) (state_key ex_biz)"
    by code_simp
  from rolling_mark_cleared_only_when_drained [OF ex_ctrl(2) h(2) ex_invs(3) h(1) surjective_pairing h(3) c] h c show ?thesis
    by simp
qed

text \<open>C32. A forced update ignores that the replicas of a workload are left to an autoscaler outside the
  operator (a negative count in the resource): scaling never succeeds, leaves the old Deployment as it
  is, and the only thing it may write is the negative count into the current Deployment.\<close>

theorem forced_update_wants_negative:
  assumes "deploy_store (biz_cli b) deps pods milvus" "pass_start b (milvus w) (deps w) cur lst"
    and "com_ImageUpdateMode (ms_Com (m_Spec (milvus w))) = ImageUpdateModeForce"
    and "expected_replicas (biz_component b) (milvus w) = -1" "0 \<le> getDeployReplicas cur"
    and "run_state (HandleScaling b (milvus w)) w = (r, w')"
  shows "r \<noteq> Inr () \<and> (deps w' = deps w \<or> (\<exists>cur'. the_slots b (milvus w') (deps w') = Inr (cur', lst) \<and> getDeployReplicas cur' = -1))"
proof -
  have "to_int32 (- 1) = - 1" by code_simp
  then show ?thesis
    using wpD [OF rollout_ctrl.force_scaling [OF rollout_ctrl.intro [OF assms(1)] assms(2,3)] assms(6)] assms(4,5) by simp
qed

text \<open>A current Deployment with three pods, all ready, at the end of a forced rollout.\<close>

definition ex_forced :: mem where
  "ex_forced = ex_done\<lparr>mem_milvus := (let m = ex_rolling; com = ms_Com (m_Spec m) in
     m\<lparr>m_Spec := (m_Spec m)\<lparr>ms_Com := com\<lparr>com_ImageUpdateMode := ImageUpdateModeForce,
       com_QueryNode := map_option (\<lambda>q. q\<lparr>co_Replicas := Some (-1)\<rparr>) (com_QueryNode com)\<rparr>\<rparr>\<rparr>)\<rparr>"

theorem forced_update_wants_negative_witness:
  "fst (run_state (HandleScaling ex_biz (mem_milvus ex_forced)) ex_forced) \<noteq> Inr () \<and>
   (\<exists>w'. mem_deps w' \<noteq> mem_deps ex_forced \<and> w' = snd (run_state (HandleScaling ex_biz (mem_milvus ex_forced)) ex_forced) \<and>
     (\<exists>cur'. the_slots ex_biz (mem_milvus w') (mem_deps w') = Inr (cur', ex_last0) \<and> getDeployReplicas cur' = -1))"
proof -
  have h: "pass_start ex_biz (mem_milvus ex_forced) (mem_deps ex_forced) ex_cur3 ex_last0"
    "com_ImageUpdateMode (ms_Com (m_Spec (mem_milvus ex_forced))) = ImageUpdateModeForce"
    "expected_replicas (biz_component ex_biz) (mem_milvus ex_forced) = -1" "0 \<le> getDeployReplicas ex_cur3" by code_simp+
  have "mem_deps (snd (run_state (HandleScaling ex_biz (mem_milvus ex_forced)) ex_forced)) \<noteq> mem_deps ex_forced" by code_simp
  with forced_update_wants_negative [OF ex_ctrl(2) h, of "fst (run_state (HandleScaling ex_biz (mem_milvus ex_forced)) ex_forced)"
      "snd (run_state (HandleScaling ex_biz (mem_milvus ex_forced)) ex_forced)"]
  show ?thesis by simp
qed

end
