(* ===== verification/Upgrade_Types.thy ===== *)
theory Upgrade_Types
  imports Pod_Template Client
begin

text \<open>
  The MilvusUpgrade custom resource: apis/milvus.io/v1beta1/milvusupgrade_types.go and
  milvusupgrade_webhook.go.  A state that is none of the declared constants is \<open>UpgradeStateOther\<close>;
  the empty string is \<open>UpgradeStatePending\<close>, which the state machine also uses as \<open>no next state\<close>.
\<close>

section \<open>Types\<close>

datatype MilvusOperation = OperationUpgrade | OperationRollback | OperationOther string

record ObjectReference =
  obr_Namespace :: string
  obr_Name :: string

record MilvusUpgradeSpec =
  us_Operation :: MilvusOperation
  us_Milvus :: ObjectReference
  us_SourceVersion :: string
  us_TargetVersion :: string
  us_TargetImage :: string
  us_ToolImage :: string
  us_MaxRetry :: int
  us_RollbackIfFailed :: bool
  us_BackupPVC :: string

datatype MilvusUpgradeState =
    UpgradeStatePending
  | UpgradeStateOldVersionStopping
  | UpgradeStateBackupMeta
  | UpgradeStateUpdatingMeta
  | UpgradeStateNewVersionStarting
  | UpgradeStateSucceeded
  | UpgradeStateBakupMetaFailed
  | UpgradeStateUpdateMetaFailed
  | UpgradeStateRollbackNewVersionStopping
  | UpgradeStateRollbackRestoringOldMeta
  | UpgradeStateRollbackOldVersionStarting
  | UpgradeStateRollbackSucceeded
  | UpgradeStateRollbackFailed
  | UpgradeStateOther string

record Condition =
  cd_Type :: string
  cd_Status :: ConditionStatus
  cd_Reason :: string
  cd_Message :: string

record MilvusUpgradeStatus =
  ust_State :: MilvusUpgradeState
  ust_Conditions :: "Condition list"
  ust_SourceImage :: string
  ust_MetaStorageChanged :: bool
  ust_MetaBackuped :: bool
  ust_IsRollbacking :: bool
  ust_ReplicasBeforeUpgrade :: "MilvusReplicas option"
  ust_DeploymentGroupReplicasBeforeUpgrade :: "(string, (string, int) fmap) fmap option"
  ust_BackupPVC :: string
  ust_RetriedTimes :: int

record MilvusUpgrade = ObjectMeta +
  u_Spec :: MilvusUpgradeSpec
  u_Status :: MilvusUpgradeStatus

definition milvusUpgradeNoRequeueStates :: "MilvusUpgradeState list" where
  "milvusUpgradeNoRequeueStates =
     [UpgradeStateSucceeded, UpgradeStateBakupMetaFailed, UpgradeStateUpdateMetaFailed,
      UpgradeStateRollbackSucceeded, UpgradeStateRollbackFailed]"

definition NeedRequeue :: "MilvusUpgradeState \<Rightarrow> bool" where
  "NeedRequeue s \<longleftrightarrow> s \<notin> set milvusUpgradeNoRequeueStates"

section \<open>Webhook\<close>

definition AddPrefixV :: "string \<Rightarrow> string" where
  "AddPrefixV version = (case version of [] \<Rightarrow> [] | c # cs \<Rightarrow> if c = CHR ''v'' then version else CHR ''v'' # version)"

definition RemovePrefixV :: "string \<Rightarrow> string" where
  "RemovePrefixV version = (case version of [] \<Rightarrow> [] | c # cs \<Rightarrow> if c = CHR ''v'' then cs else version)"

definition defaultToolImage :: string where
  "defaultToolImage = ''milvusdb/meta-migration:v2.2.0-bugfix-20230112''"

definition DefaultMilvusBaseImage :: string where
  "DefaultMilvusBaseImage = ''milvusdb/milvus''"

definition MilvusUpgrade_Default :: "MilvusUpgrade \<Rightarrow> MilvusUpgrade" where
  "MilvusUpgrade_Default r =
     (let s = u_Spec r;
          s = (if us_TargetImage s = [] then s\<lparr>us_TargetImage := DefaultMilvusBaseImage @ '':v'' @ RemovePrefixV (us_TargetVersion s)\<rparr> else s);
          s = (if us_ToolImage s = [] then s\<lparr>us_ToolImage := defaultToolImage\<rparr> else s)
      in r\<lparr>u_Spec := s\<rparr>)"

text \<open>A version that does not parse is the zero version for the comparison that follows.\<close>

definition zero_semver :: semver where
  "zero_semver = \<lparr>sv_Major = 0, sv_Minor = 0, sv_Patch = 0, sv_Pre = []\<rparr>"

definition version_errors :: "externals \<Rightarrow> string \<Rightarrow> string \<Rightarrow> semver \<Rightarrow> string \<Rightarrow> string list" where
  "version_errors x name v least leastText =
     (let parsed = x_ParseTolerant x (AddPrefixV v);
          sv = (case parsed of None \<Rightarrow> zero_semver | Some p \<Rightarrow> p)
      in (if parsed = None then [name @ '' is not a valid sematic version''] else []) @
         (if x_Compare x sv least < 0 then [name @ '' must be greater than '' @ leastText] else []))"

definition MilvusUpgrade_Validate :: "externals \<Rightarrow> MilvusUpgrade \<Rightarrow> string list" where
  "MilvusUpgrade_Validate x r =
     version_errors x ''sourceVersion'' (us_SourceVersion (u_Spec r)) \<lparr>sv_Major = 2, sv_Minor = 0, sv_Patch = 0, sv_Pre = []\<rparr> ''2.0.0'' @
     version_errors x ''targetVersion'' (us_TargetVersion (u_Spec r)) \<lparr>sv_Major = 2, sv_Minor = 2, sv_Patch = 0, sv_Pre = []\<rparr> ''2.2.0''"

lemma prefix_v_round_trip: "RemovePrefixV (AddPrefixV v) = RemovePrefixV v" "AddPrefixV (AddPrefixV v) = AddPrefixV v"
  by (auto simp: RemovePrefixV_def AddPrefixV_def split: list.splits)

end
