(* ===== verification/Upgrade_FSM.thy ===== *)
theory Upgrade_FSM
  imports Upgrade_Types Op_Logic
begin

text \<open>
  The upgrade state machine: pkg/controllers/milvusupgrade_fsm.go and the reconciler of
  milvusupgrade_controller.go.  The objects the Go code holds by pointer during a reconcile (the
  MilvusUpgrade and the Milvus) are part of the state, so that what a handler changed before it
  failed is kept, as in the source.  A handler returns a next state and an error, both, as in Go.
\<close>

section \<open>Environment\<close>

record ConfigMap = ObjectMeta +
  cm_Data :: smap

record PVC = ObjectMeta +
  pvco_AccessModes :: "string list"
  pvco_Storage :: string

record migrationConfig =
  mg_Command :: string
  mg_SourceVersion :: string
  mg_TargetVersion :: string
  mg_Endpoints :: "string list"
  mg_RootPath :: string
  mg_MetaSubPath :: string
  mg_KvSubPath :: string

text \<open>Further client operations.  \<open>CreateOrUpdate\<close> is \<open>ctrl.CreateOrUpdate\<close> with an empty mutation.\<close>

record 'w UpgradeClient = "'w Client" +
  ucli_DeleteAllPods :: "string \<Rightarrow> smap \<Rightarrow> ('w, unit) op"
  ucli_CreateOrUpdatePod :: "Pod \<Rightarrow> ('w, unit) op"
  ucli_CreateOrUpdateConfigMap :: "ConfigMap \<Rightarrow> ('w, unit) op"
  ucli_CreateOrUpdatePVC :: "PVC \<Rightarrow> ('w, unit) op"
  ucli_GetAlpha :: "string \<Rightarrow> string \<Rightarrow> ('w, smap) op"
  ucli_UpdateAlpha :: "string \<Rightarrow> string \<Rightarrow> smap \<Rightarrow> ('w, unit) op"
  ucli_OwnerRef :: "MilvusUpgrade \<Rightarrow> go_error + OwnerReference"
  ucli_GetUpgrade :: "string \<Rightarrow> string \<Rightarrow> ('w, MilvusUpgrade) op"
  ucli_UpdateUpgradeStatus :: "MilvusUpgrade \<Rightarrow> ('w, unit) op"

text \<open>The clock, the condition helpers of apimachinery and the template of the migration tool.
  Times are nanoseconds.\<close>

record 'w fsm_env =
  fe_x :: externals
  fe_cli :: "'w UpgradeClient"
  fe_now :: int
  fe_parseTime :: "string \<Rightarrow> int option"
  fe_formatTime :: "int \<Rightarrow> string"
  fe_SetStatusCondition :: "Condition \<Rightarrow> Condition list \<Rightarrow> Condition list"
  fe_RemoveStatusCondition :: "string \<Rightarrow> Condition list \<Rightarrow> Condition list"
  fe_render :: "migrationConfig \<Rightarrow> go_error + string"

record 'w fsm =
  fs_world :: 'w
  fs_upgrade :: MilvusUpgrade
  fs_milvus :: Milvus

type_synonym 'w state_func = "('w fsm, MilvusUpgradeState \<times> go_error option) state"

definition on_world :: "('w, 'a) op \<Rightarrow> ('w fsm, 'a) op" where
  "on_world m = State (\<lambda>s. case run_state m (fs_world s) of (r, w) \<Rightarrow> (r, s\<lparr>fs_world := w\<rparr>))"

definition upd_status :: "(MilvusUpgradeStatus \<Rightarrow> MilvusUpgradeStatus) \<Rightarrow> ('w fsm, unit) op" where
  "upd_status f = State (\<lambda>s. (Inr (), s\<lparr>fs_upgrade := (fs_upgrade s)\<lparr>u_Status := f (u_Status (fs_upgrade s))\<rparr>\<rparr>))"

definition upd_milvus :: "(Milvus \<Rightarrow> Milvus) \<Rightarrow> ('w fsm, unit) op" where
  "upd_milvus f = State (\<lambda>s. (Inr (), s\<lparr>fs_milvus := f (fs_milvus s)\<rparr>))"

definition the_upgrade :: "('w fsm, MilvusUpgrade) op" where
  "the_upgrade = State (\<lambda>s. (Inr (fs_upgrade s), s))"

definition the_milvus :: "('w fsm, Milvus) op" where
  "the_milvus = State (\<lambda>s. (Inr (fs_milvus s), s))"

text \<open>\<open>return next, err\<close> after an operation: no next state when it failed.\<close>

definition next_unless :: "MilvusUpgradeState \<Rightarrow> ('w fsm, unit) op \<Rightarrow> 'w state_func" where
  "next_unless st m = do { r \<leftarrow> m;
     State_Monad.return (case r of Inl e \<Rightarrow> (UpgradeStatePending, Some e) | Inr _ \<Rightarrow> (st, None)) }"

section \<open>Stopping and starting Milvus\<close>

definition isStoppedByAnnotation :: "Milvus \<Rightarrow> bool" where
  "isStoppedByAnnotation milvus \<longleftrightarrow> StoppedAtAnnotation |\<in>| fmdom (om_Annotations milvus)"

definition SetStoppedAtAnnotation :: "'w fsm_env \<Rightarrow> int \<Rightarrow> Milvus \<Rightarrow> Milvus" where
  "SetStoppedAtAnnotation E t m = m\<lparr>om_Annotations := fmupd StoppedAtAnnotation (fe_formatTime E t) (om_Annotations m)\<rparr>"

definition RemoveStoppedAtAnnotation :: "Milvus \<Rightarrow> Milvus" where
  "RemoveStoppedAtAnnotation m = m\<lparr>om_Annotations := fmdrop StoppedAtAnnotation (om_Annotations m)\<rparr>"

definition update_milvus :: "'w fsm_env \<Rightarrow> ('w fsm, unit) op" where
  "update_milvus E = op_bind the_milvus (\<lambda>m. on_world (cli_UpdateMilvus (fe_cli E) m))"

definition markStoppedAtAnnotation :: "'w fsm_env \<Rightarrow> ('w fsm, unit) op" where
  "markStoppedAtAnnotation E = op_bind (upd_milvus (SetStoppedAtAnnotation E (fe_now E))) (\<lambda>_. update_milvus E)"

definition time_Minute :: int where "time_Minute = 60 * 10 ^ 9"

definition isComponentsDeregistered :: "'w fsm_env \<Rightarrow> Milvus \<Rightarrow> bool" where
  "isComponentsDeregistered E milvus =
     (case fe_parseTime E (fmget (om_Annotations milvus) StoppedAtAnnotation) of
        None \<Rightarrow> True
      | Some t \<Rightarrow> fe_now E - t > time_Minute)"

definition isMilvusStopping :: "externals \<Rightarrow> Milvus \<Rightarrow> bool" where
  "isMilvusStopping x milvus =
     list_all (\<lambda>c. \<not> (IsHPAEnabled c (m_Spec milvus) \<and> \<not> isUpgradeStopping milvus) \<and>
                   GetReplicas c (m_Spec milvus) = Some 0)
       (GetComponentWorkloadsBySpec x (m_Spec milvus))"

text \<open>\<open>listAllDeployments\<close>: every Deployment of the instance.\<close>

definition listAllDeployments :: "'w fsm_env \<Rightarrow> Milvus \<Rightarrow> ('w fsm, Deployment list) op" where
  "listAllDeployments E milvus =
     op_wrap ''list milvus deployments'' (on_world (cli_ListDeployments (fe_cli E) (om_Namespace milvus)
       (fmap_of_list [(AppLabelInstance, om_Name milvus)])))"

definition deployment_stopped :: "Deployment \<Rightarrow> bool" where
  "deployment_stopped d \<longleftrightarrow>
     \<not> dst_ObservedGeneration (d_Status d) < om_Generation d \<and>
     (case d_Replicas d of None \<Rightarrow> False | Some r \<Rightarrow> \<not> (r > 0 \<or> dst_Replicas (d_Status d) > 0))"

definition isMilvusStopped :: "'w fsm_env \<Rightarrow> ('w fsm, bool) op" where
  "isMilvusStopped E =
     op_bind the_milvus (\<lambda>milvus.
     if isStoppedByAnnotation milvus then ret (isComponentsDeregistered E milvus)
     else op_bind (listAllDeployments E milvus) (\<lambda>deployments.
       if \<not> list_all deployment_stopped deployments then ret False
       else op_bind (markStoppedAtAnnotation E) (\<lambda>_. ret False)))"

definition annotateAlphaCR :: "'w fsm_env \<Rightarrow> string \<Rightarrow> ('w fsm, unit) op" where
  "annotateAlphaCR E v =
     op_bind the_milvus (\<lambda>milvus.
     (case find (\<lambda>owner. or_Kind owner = ''MilvusCluster'') (om_OwnerReferences milvus) of
        None \<Rightarrow> ret ()
      | Some owner \<Rightarrow>
          op_bind (on_world (ucli_GetAlpha (fe_cli E) (om_Namespace milvus) (or_Name owner))) (\<lambda>annotations.
          on_world (ucli_UpdateAlpha (fe_cli E) (om_Namespace milvus) (or_Name owner)
            (fmupd UpgradeAnnotation v annotations)))))"

text \<open>Errors of \<open>SetReplicas\<close> are ignored.\<close>

definition set_replicas_or_ignore :: "int \<Rightarrow> MilvusComponent \<Rightarrow> Milvus \<Rightarrow> Milvus" where
  "set_replicas_or_ignore n c m = (case SetReplicas c (Some n) (m_Spec m) of Inl _ \<Rightarrow> m | Inr spec \<Rightarrow> m\<lparr>m_Spec := spec\<rparr>)"

definition mark_upgrade_stopping :: "Milvus \<Rightarrow> Milvus" where
  "mark_upgrade_stopping m = m\<lparr>om_Annotations := fmupd upgradeStoppingAnnotation TrueStr (om_Annotations m)\<rparr>"

definition stopMilvus :: "'w fsm_env \<Rightarrow> ('w fsm, unit) op" where
  "stopMilvus E =
     op_bind the_milvus (\<lambda>milvus.
     (let workloads = GetComponentWorkloadsBySpec (fe_x E) (m_Spec milvus) in
      case find (\<lambda>c. GetReplicas c (m_Spec milvus) = Some (-1)) workloads of
        Some c \<Rightarrow> fail (Errorf (''cannot stop externally managed workload '' @ GetDisplayName c @
          '': suspend its HPA and set replicas to a static value before MilvusUpgrade''))
      | None \<Rightarrow>
          op_bind (op_wrap ''annotate alpha cr'' (annotateAlphaCR E AnnotationUpgrading)) (\<lambda>_.
          op_bind (upd_milvus (\<lambda>m. mark_upgrade_stopping (fold (set_replicas_or_ignore 0) workloads m))) (\<lambda>_.
          update_milvus E))))"

definition zero_MilvusReplicas :: MilvusReplicas where
  "zero_MilvusReplicas = \<lparr>mr_Proxy = 0, mr_MixCoord = 0, mr_RootCoord = 0, mr_DataCoord = 0, mr_IndexCoord = 0,
     mr_QueryCoord = 0, mr_DataNode = 0, mr_IndexNode = 0, mr_QueryNode = 0, mr_StreamingNode = 0, mr_Standalone = 0, mr_Cdc = 0\<rparr>"

definition recorded_replicas :: "MilvusUpgradeStatus \<Rightarrow> MilvusReplicas \<Rightarrow> MilvusComponent \<Rightarrow> int option" where
  "recorded_replicas st reps c =
     (case mcp_DeploymentGroup c of
        None \<Rightarrow> Some (to_int32 (GetMilvusReplicas c reps))
      | Some g \<Rightarrow> (case ust_DeploymentGroupReplicasBeforeUpgrade st of
            None \<Rightarrow> None
          | Some snap \<Rightarrow> (case fmlookup snap (mcp_Name c) of
                None \<Rightarrow> None
              | Some groups \<Rightarrow> fmlookup groups (dg_Name g))))"

fun restore_replicas :: "MilvusUpgradeStatus \<Rightarrow> MilvusReplicas \<Rightarrow> MilvusComponent list \<Rightarrow> ('w fsm, unit) op" where
  "restore_replicas st reps [] = ret ()"
| "restore_replicas st reps (c # cs) =
     (case recorded_replicas st reps c of
        None \<Rightarrow> fail (Errorf (''replicas before upgrade not recorded for deployment group '' @ GetDisplayName c))
      | Some n \<Rightarrow> op_bind (upd_milvus (set_replicas_or_ignore n c)) (\<lambda>_. restore_replicas st reps cs))"

definition startMilvus :: "'w fsm_env \<Rightarrow> ('w fsm, unit) op" where
  "startMilvus E =
     op_bind (upd_status (\<lambda>st. if ust_ReplicasBeforeUpgrade st = None
        then st\<lparr>ust_ReplicasBeforeUpgrade := Some zero_MilvusReplicas\<rparr> else st)) (\<lambda>_.
     op_bind the_upgrade (\<lambda>upgrade. op_bind the_milvus (\<lambda>milvus.
     op_bind (restore_replicas (u_Status upgrade) (the (ust_ReplicasBeforeUpgrade (u_Status upgrade)))
        (GetComponentWorkloadsBySpec (fe_x E) (m_Spec milvus))) (\<lambda>_.
     op_bind (upd_milvus (\<lambda>m. RemoveStoppedAtAnnotation
        (m\<lparr>om_Annotations := fmdrop upgradeStoppingAnnotation (om_Annotations m)\<rparr>))) (\<lambda>_.
     op_bind (op_wrap ''restore replicas'' (update_milvus E)) (\<lambda>_.
     op_wrap ''annotate alpha cr'' (annotateAlphaCR E AnnotationUpgraded)))))))"

text \<open>\<open>recordOldInfo\<close>: a snapshot of the replicas and the image, taken once.\<close>

definition record_component :: "MilvusSpec \<Rightarrow> bool \<Rightarrow> bool \<Rightarrow> MilvusComponent \<Rightarrow> MilvusUpgradeStatus \<Rightarrow> MilvusUpgradeStatus" where
  "record_component spec recordComponents recordGroups c st =
     (let n = (case GetReplicas c spec of None \<Rightarrow> 1 | Some r \<Rightarrow> r) in
      case mcp_DeploymentGroup c of
        None \<Rightarrow> if recordComponents
                then st\<lparr>ust_ReplicasBeforeUpgrade := map_option (SetStatusReplicas c n) (ust_ReplicasBeforeUpgrade st)\<rparr> else st
      | Some g \<Rightarrow> if \<not> recordGroups then st
                  else st\<lparr>ust_DeploymentGroupReplicasBeforeUpgrade := map_option (\<lambda>snap.
                         fmupd (mcp_Name c) (fmupd (dg_Name g) n
                           (case fmlookup snap (mcp_Name c) of None \<Rightarrow> fmempty | Some groups \<Rightarrow> groups)) snap)
                       (ust_DeploymentGroupReplicasBeforeUpgrade st)\<rparr>)"

definition recordOldInfo :: "externals \<Rightarrow> Milvus \<Rightarrow> MilvusUpgradeStatus \<Rightarrow> MilvusUpgradeStatus" where
  "recordOldInfo x milvus st =
     (let recordComponents = ust_ReplicasBeforeUpgrade st = None;
          recordGroups = ust_DeploymentGroupReplicasBeforeUpgrade st = None in
      if \<not> recordComponents \<and> \<not> recordGroups then st
      else
        (let st = (if recordComponents then st\<lparr>ust_ReplicasBeforeUpgrade := Some zero_MilvusReplicas\<rparr> else st);
             st = (if recordGroups then st\<lparr>ust_DeploymentGroupReplicasBeforeUpgrade := Some fmempty\<rparr> else st);
             st = fold (record_component (m_Spec milvus) recordComponents recordGroups)
                    (GetComponentWorkloadsBySpec x (m_Spec milvus)) st
         in if ust_SourceImage st = [] then st\<lparr>ust_SourceImage := cs_Image (ms_Com (m_Spec milvus))\<rparr> else st))"

section \<open>Task pods\<close>

definition LabelUpgrade :: string where [key_defs]: "LabelUpgrade = ''milvus.io/upgrade''"
definition LabelTaskKind :: string where [key_defs]: "LabelTaskKind = ''milvus.io/task-kind''"
definition BackupMetaKind :: string where [key_defs]: "BackupMetaKind = ''backup-meta''"
definition UpdateMetaKind :: string where [key_defs]: "UpdateMetaKind = ''update-meta''"
definition RollbackMetaKind :: string where [key_defs]: "RollbackMetaKind = ''rollback-meta''"

record taskConfig =
  tc_Command :: string
  tc_Kind :: string

definition formatUpgradeObjName :: "string \<Rightarrow> string \<Rightarrow> string" where
  "formatUpgradeObjName upgradeName taskKind = upgradeName @ ''-'' @ taskKind"

definition conf_or :: "values_map \<Rightarrow> string \<Rightarrow> string \<Rightarrow> string" where
  "conf_or conf field d = (let (v, exist) = GetStringValue conf [''etcd'', field] in if exist then v else d)"

definition migration_conf :: "MilvusUpgrade \<Rightarrow> Milvus \<Rightarrow> taskConfig \<Rightarrow> migrationConfig" where
  "migration_conf upgrade milvus taskConf =
     (let conf = Values_Data (ms_Conf (m_Spec milvus)) in
      \<lparr>mg_Command = tc_Command taskConf,
       mg_SourceVersion = RemovePrefixV (us_SourceVersion (u_Spec upgrade)),
       mg_TargetVersion = RemovePrefixV (us_TargetVersion (u_Spec upgrade)),
       mg_Endpoints = etcd_Endpoints (dep_Etcd (ms_Dep (m_Spec milvus))),
       mg_RootPath = conf_or conf ''rootPath'' (om_Name milvus),
       mg_MetaSubPath = conf_or conf ''metaSubPath'' ''meta'',
       mg_KvSubPath = conf_or conf ''kvSubPath'' ''kv''\<rparr>)"

definition sub_object :: "string \<Rightarrow> string \<Rightarrow> smap \<Rightarrow> ObjectMeta" where
  "sub_object ns name labels = \<lparr>om_Name = name, om_Namespace = ns, om_UID = [], om_Generation = 0, om_Labels = labels,
     om_Annotations = fmempty, om_Finalizers = [], om_DeletionTimestamp = None, om_OwnerReferences = []\<rparr>"

text \<open>\<open>createSubObjectOrIgnore\<close> with the create of the object's kind.\<close>

definition createSubObjectOrIgnore :: "'w fsm_env \<Rightarrow> (OwnerReference \<Rightarrow> ('w, unit) op) \<Rightarrow> ('w fsm, unit) op" where
  "createSubObjectOrIgnore E create_it =
     op_bind the_upgrade (\<lambda>upgrade.
     op_bind (lift_result (wrap ''set controller reference'' (ucli_OwnerRef (fe_cli E) upgrade))) (\<lambda>owner.
     on_world (create_it owner)))"

definition createConfigMap :: "'w fsm_env \<Rightarrow> taskConfig \<Rightarrow> ('w fsm, unit) op" where
  "createConfigMap E taskConf =
     op_bind the_upgrade (\<lambda>upgrade. op_bind the_milvus (\<lambda>milvus.
     op_bind (lift_result (fe_render E (migration_conf upgrade milvus taskConf))) (\<lambda>confYaml.
     createSubObjectOrIgnore E (\<lambda>owner. ucli_CreateOrUpdateConfigMap (fe_cli E)
       (ObjectMeta.extend ((sub_object (om_Namespace upgrade) (formatUpgradeObjName (om_Name upgrade) (tc_Kind taskConf))
            (fmap_of_list [(LabelUpgrade, om_Name upgrade), (LabelTaskKind, tc_Kind taskConf)]))\<lparr>om_OwnerReferences := [owner]\<rparr>)
          (ConfigMap.fields (fmap_of_list [(''migration.yaml'', confYaml)])))))))"

definition task_pod :: "MilvusUpgrade \<Rightarrow> taskConfig \<Rightarrow> Pod" where
  "task_pod upgrade taskConf =
     (let name = formatUpgradeObjName (om_Name upgrade) (tc_Kind taskConf) in
      ObjectMeta.extend
        (sub_object (om_Namespace upgrade) name (fmap_of_list
           [(LabelUpgrade, om_Name upgrade), (LabelTaskKind, tc_Kind taskConf), (AppLabelManagedBy, ManagerName)]))
        (Pod.fields [] [] [] [] []
          (zero_PodSpec
             \<lparr>ps_Other := JObj (fmap_of_list [(''restartPolicy'', JStr ''Never'')]),
              ps_Containers := [zero_Container
                \<lparr>ct_Name := tc_Kind taskConf, ct_Image := us_ToolImage (u_Spec upgrade),
                 ct_Command := [''/milvus/bin/meta-migration''], ct_Args := [''-config'', ''/milvus/configs/migration.yaml''],
                 ct_VolumeMounts := [zero_VolumeMount\<lparr>vm_Name := ''backup'', vm_MountPath := ''/milvus/data''\<rparr>,
                   zero_VolumeMount\<lparr>vm_Name := ''config'', vm_MountPath := ''/milvus/configs/migration.yaml'',
                     vm_SubPath := ''migration.yaml''\<rparr>]\<rparr>],
              ps_Volumes := [\<lparr>vol_Name = ''backup'', vol_Source = VolPVC (ust_BackupPVC (u_Status upgrade)) False\<rparr>,
                \<lparr>vol_Name = ''config'', vol_Source = VolConfigMap name None JNull\<rparr>]\<rparr>)))"

definition startTaskPod :: "'w fsm_env \<Rightarrow> taskConfig \<Rightarrow> ('w fsm, unit) op" where
  "startTaskPod E taskConf =
     op_bind (createConfigMap E taskConf) (\<lambda>_.
     op_bind the_upgrade (\<lambda>upgrade.
     createSubObjectOrIgnore E (\<lambda>owner. ucli_CreateOrUpdatePod (fe_cli E) ((task_pod upgrade taskConf)\<lparr>om_OwnerReferences := [owner]\<rparr>))))"

definition startBakupMetaPod :: "'w fsm_env \<Rightarrow> ('w fsm, unit) op" where
  "startBakupMetaPod E =
     op_bind the_upgrade (\<lambda>upgrade.
     op_bind (upd_status (\<lambda>st. st\<lparr>ust_BackupPVC := us_BackupPVC (u_Spec upgrade)\<rparr>)) (\<lambda>_.
     op_bind (if us_BackupPVC (u_Spec upgrade) = [] then
        op_bind (upd_status (\<lambda>st. st\<lparr>ust_BackupPVC := om_Name upgrade\<rparr>)) (\<lambda>_.
        op_bind (lift_result (wrap ''set controller reference'' (ucli_OwnerRef (fe_cli E) upgrade))) (\<lambda>owner.
        op_wrap ''create backup pvc'' (on_world (ucli_CreateOrUpdatePVC (fe_cli E)
          (ObjectMeta.extend ((sub_object (om_Namespace upgrade) (om_Name upgrade)
               (fmap_of_list [(LabelUpgrade, om_Name upgrade)]))\<lparr>om_OwnerReferences := [owner]\<rparr>)
             (PVC.fields [''ReadWriteOnce''] ''10Gi''))))))
      else ret ()) (\<lambda>_.
     startTaskPod E \<lparr>tc_Command = ''backup'', tc_Kind = BackupMetaKind\<rparr>)))"

definition startUpdateMetaPod :: "'w fsm_env \<Rightarrow> ('w fsm, unit) op" where
  "startUpdateMetaPod E = startTaskPod E \<lparr>tc_Command = ''run'', tc_Kind = UpdateMetaKind\<rparr>"

definition startRollbackMetaPod :: "'w fsm_env \<Rightarrow> ('w fsm, unit) op" where
  "startRollbackMetaPod E = startTaskPod E \<lparr>tc_Command = ''rollback'', tc_Kind = RollbackMetaKind\<rparr>"

text \<open>\<open>doOnPodPhase\<close> and \<open>handlePod\<close>: the callbacks give the value of \<open>ret\<close> and the error.\<close>

definition doOnPodPhase :: "Pod list \<Rightarrow> 'w state_func \<Rightarrow> 'w state_func \<Rightarrow> 'w state_func \<Rightarrow> 'w state_func" where
  "doOnPodPhase items onNoPod onSuccess onFailure =
     (case items of
        [] \<Rightarrow> onNoPod
      | pod # _ \<Rightarrow>
          (if pod_Phase pod = ''Succeeded'' then onSuccess
           else if pod_Phase pod = ''Running'' \<or> pod_Phase pod = ''Pending'' then State_Monad.return (UpgradeStatePending, None)
           else onFailure))"

definition task_labels :: "MilvusUpgrade \<Rightarrow> string \<Rightarrow> smap" where
  "task_labels upgrade kind = fmap_of_list [(LabelUpgrade, om_Name upgrade), (LabelTaskKind, kind)]"

definition handlePod :: "'w fsm_env \<Rightarrow> string \<Rightarrow> 'w state_func \<Rightarrow> 'w state_func \<Rightarrow> 'w state_func \<Rightarrow> 'w state_func" where
  "handlePod E kind onNoPod onSuccess onFailure = do {
     r \<leftarrow> op_bind the_upgrade (\<lambda>upgrade. op_wrap (''list pod for '' @ kind)
            (on_world (cli_ListPods (fe_cli E) (om_Namespace upgrade) (task_labels upgrade kind))));
     (case r of
        Inl e \<Rightarrow> State_Monad.return (UpgradeStatePending, Some e)
      | Inr items \<Rightarrow> doOnPodPhase items onNoPod onSuccess onFailure) }"

section \<open>Handlers\<close>

definition return_state :: "MilvusUpgradeState \<Rightarrow> 'w state_func" where
  "return_state st = State_Monad.return (st, None)"

definition set_state :: "MilvusUpgradeState \<Rightarrow> ('w fsm, unit) op" where
  "set_state st = upd_status (\<lambda>us. us\<lparr>ust_State := st\<rparr>)"

definition begin_rollback :: "MilvusUpgradeStatus \<Rightarrow> MilvusUpgradeStatus" where
  "begin_rollback st = st\<lparr>ust_IsRollbacking := True, ust_State := UpgradeStateRollbackNewVersionStopping\<rparr>"

definition HandleUpgradeFailed :: "'w state_func" where
  "HandleUpgradeFailed = do {
     s \<leftarrow> State_Monad.get;
     if us_RollbackIfFailed (u_Spec (fs_upgrade s))
     then next_unless UpgradeStateRollbackNewVersionStopping (upd_status begin_rollback)
     else return_state UpgradeStatePending }"

definition set_image :: "string \<Rightarrow> Milvus \<Rightarrow> Milvus" where
  "set_image img m = m\<lparr>m_Spec := (m_Spec m)\<lparr>ms_Com := (ms_Com (m_Spec m))\<lparr>cs_Image := img\<rparr>\<rparr>\<rparr>"

definition RollbackOldVersionStarting :: "'w fsm_env \<Rightarrow> 'w state_func" where
  "RollbackOldVersionStarting E =
     next_unless UpgradeStateRollbackSucceeded
       (op_bind the_upgrade (\<lambda>upgrade.
        op_bind (upd_milvus (set_image (ust_SourceImage (u_Status upgrade)))) (\<lambda>_. startMilvus E)))"

text \<open>The part the two stopping states share: after the stop was requested, wait until it is complete.\<close>

definition wait_stopped :: "'w fsm_env \<Rightarrow> MilvusUpgradeState \<Rightarrow> 'w state_func" where
  "wait_stopped E st = do {
     r \<leftarrow> op_wrap ''check milvus is stopped'' (isMilvusStopped E);
     (case r of
        Inl e \<Rightarrow> State_Monad.return (UpgradeStatePending, Some e)
      | Inr stopped \<Rightarrow> return_state (if stopped then st else UpgradeStatePending)) }"

definition RollbackNewVersionStopping :: "'w fsm_env \<Rightarrow> 'w state_func" where
  "RollbackNewVersionStopping E = do {
     s \<leftarrow> State_Monad.get;
     if \<not> isMilvusStopping (fe_x E) (fs_milvus s)
     then next_unless UpgradeStatePending (op_wrap ''stop milvus'' (stopMilvus E))
     else wait_stopped E UpgradeStateRollbackRestoringOldMeta }"

definition OldVersionStopping :: "'w fsm_env \<Rightarrow> 'w state_func" where
  "OldVersionStopping E = do {
     s \<leftarrow> State_Monad.get;
     if \<not> isMilvusStopping (fe_x E) (fs_milvus s)
     then next_unless UpgradeStatePending
       (op_bind (upd_status (recordOldInfo (fe_x E) (fs_milvus s))) (\<lambda>_. op_wrap ''stop milvus'' (stopMilvus E)))
     else wait_stopped E UpgradeStateBackupMeta }"

definition BackupMeta :: "'w fsm_env \<Rightarrow> 'w state_func" where
  "BackupMeta E =
     handlePod E BackupMetaKind
       (next_unless UpgradeStatePending (op_wrap ''start backup-meta pod'' (startBakupMetaPod E)))
       (next_unless UpgradeStateUpdatingMeta (upd_status (\<lambda>st. st\<lparr>ust_MetaBackuped := True\<rparr>)))
       (return_state UpgradeStateBakupMetaFailed)"

definition UpdatingMeta :: "'w fsm_env \<Rightarrow> 'w state_func" where
  "UpdatingMeta E = do {
     s \<leftarrow> State_Monad.get;
     if \<not> ust_MetaStorageChanged (u_Status (fs_upgrade s))
     then next_unless UpgradeStatePending
       (op_bind (upd_status (\<lambda>st. st\<lparr>ust_MetaStorageChanged := True\<rparr>)) (\<lambda>_.
        op_wrap ''start update-meta pod'' (startUpdateMetaPod E)))
     else handlePod E UpdateMetaKind
       (State_Monad.return (UpgradeStateUpdateMetaFailed, Some (Errorf ''cannot find update-meta pod'')))
       (return_state UpgradeStateNewVersionStarting)
       (return_state UpgradeStateUpdateMetaFailed) }"

definition RollbackRestoringOldMeta :: "'w fsm_env \<Rightarrow> 'w state_func" where
  "RollbackRestoringOldMeta E = do {
     s \<leftarrow> State_Monad.get;
     if \<not> ust_MetaBackuped (u_Status (fs_upgrade s)) then return_state UpgradeStateRollbackOldVersionStarting
     else handlePod E RollbackMetaKind
       (next_unless UpgradeStatePending (op_wrap ''start backup-meta pod'' (startRollbackMetaPod E)))
       (return_state UpgradeStateRollbackOldVersionStarting)
       (return_state UpgradeStateRollbackFailed) }"

definition HandleBakupMetaFailed :: "'w fsm_env \<Rightarrow> 'w state_func" where
  "HandleBakupMetaFailed E = do {
     s \<leftarrow> State_Monad.get;
     if ust_RetriedTimes (u_Status (fs_upgrade s)) + 1 > us_MaxRetry (u_Spec (fs_upgrade s)) then HandleUpgradeFailed
     else next_unless UpgradeStatePending
       (op_bind (op_wrap ''delete backup-meta pod'' (on_world (ucli_DeleteAllPods (fe_cli E) (om_Namespace (fs_upgrade s))
           (task_labels (fs_upgrade s) BackupMetaKind)))) (\<lambda>_.
        upd_status (\<lambda>st. st\<lparr>ust_State := UpgradeStateBackupMeta, ust_RetriedTimes := ust_RetriedTimes st + 1\<rparr>))) }"

definition StartingMilvusNewVersion :: "'w fsm_env \<Rightarrow> 'w state_func" where
  "StartingMilvusNewVersion E =
     next_unless UpgradeStateSucceeded
       (op_bind the_upgrade (\<lambda>upgrade.
        op_bind (upd_milvus (set_image (us_TargetImage (u_Spec upgrade)))) (\<lambda>_. startMilvus E)))"

section \<open>The machine\<close>

text \<open>\<open>stateFuncMap\<close>: no entry, an entry that is nil (a final state), or a handler.\<close>

datatype 'w state_entry = NoEntry | FinalEntry | Handler "'w state_func"

definition stateFuncMap :: "'w fsm_env \<Rightarrow> MilvusUpgradeState \<Rightarrow> 'w state_entry" where
  "stateFuncMap E st =
     (case st of
        UpgradeStateOldVersionStopping \<Rightarrow> Handler (OldVersionStopping E)
      | UpgradeStateBackupMeta \<Rightarrow> Handler (BackupMeta E)
      | UpgradeStateUpdatingMeta \<Rightarrow> Handler (UpdatingMeta E)
      | UpgradeStateNewVersionStarting \<Rightarrow> Handler (StartingMilvusNewVersion E)
      | UpgradeStateSucceeded \<Rightarrow> FinalEntry
      | UpgradeStateBakupMetaFailed \<Rightarrow> Handler (HandleBakupMetaFailed E)
      | UpgradeStateUpdateMetaFailed \<Rightarrow> Handler HandleUpgradeFailed
      | UpgradeStateRollbackNewVersionStopping \<Rightarrow> Handler (RollbackNewVersionStopping E)
      | UpgradeStateRollbackRestoringOldMeta \<Rightarrow> Handler (RollbackRestoringOldMeta E)
      | UpgradeStateRollbackOldVersionStarting \<Rightarrow> Handler (RollbackOldVersionStarting E)
      | UpgradeStateRollbackSucceeded \<Rightarrow> FinalEntry
      | UpgradeStateRollbackFailed \<Rightarrow> FinalEntry
      | UpgradeStatePending \<Rightarrow> NoEntry
      | UpgradeStateOther _ \<Rightarrow> NoEntry)"

definition notRollbackStates :: "MilvusUpgradeState list" where
  "notRollbackStates =
     [UpgradeStatePending, UpgradeStateOldVersionStopping, UpgradeStateBackupMeta, UpgradeStateUpdatingMeta,
      UpgradeStateNewVersionStarting, UpgradeStateSucceeded, UpgradeStateBakupMetaFailed, UpgradeStateUpdateMetaFailed]"

definition isStateIn :: "MilvusUpgradeState \<Rightarrow> MilvusUpgradeState list \<Rightarrow> bool" where
  "isStateIn s ss = list_ex (\<lambda>t. t = s) ss"

definition DetermineCurrentState :: "MilvusUpgrade \<Rightarrow> MilvusUpgradeStatus" where
  "DetermineCurrentState upgrade =
     (let st = u_Status upgrade in
      if ust_IsRollbacking st \<or> us_Operation (u_Spec upgrade) = OperationRollback then
        (if isStateIn (ust_State st) notRollbackStates then begin_rollback st else st)
      else if ust_State st = UpgradeStatePending then st\<lparr>ust_State := UpgradeStateOldVersionStopping\<rparr>
      else st)"

fun state_string :: "MilvusUpgradeState \<Rightarrow> string" where
  "state_string UpgradeStatePending = []"
| "state_string UpgradeStateOldVersionStopping = ''OldVersionStopping''"
| "state_string UpgradeStateBackupMeta = ''BackupMeta''"
| "state_string UpgradeStateUpdatingMeta = ''UpdatingMeta''"
| "state_string UpgradeStateNewVersionStarting = ''NewVersionStarting''"
| "state_string UpgradeStateSucceeded = ''Succeeded''"
| "state_string UpgradeStateBakupMetaFailed = ''BakupMetaFailed''"
| "state_string UpgradeStateUpdateMetaFailed = ''UpdateMetaFailed''"
| "state_string UpgradeStateRollbackNewVersionStopping = ''RollbackNewVersionStopping''"
| "state_string UpgradeStateRollbackRestoringOldMeta = ''RollbackRestoringOldMeta''"
| "state_string UpgradeStateRollbackOldVersionStarting = ''RollbackOldVersionStarting''"
| "state_string UpgradeStateRollbackSucceeded = ''RollbackedSucceeded''"
| "state_string UpgradeStateRollbackFailed = ''RollbackFailed''"
| "state_string (UpgradeStateOther s) = s"

text \<open>The loop, with fuel: \<open>None\<close> is running out of it.  Otherwise the result, and the error variable that
  the deferred \<open>updateCondition\<close> reads: the error of an unexpected state does not go through it.\<close>

fun run_loop :: "'w fsm_env \<Rightarrow> nat \<Rightarrow> MilvusUpgradeState \<Rightarrow> ('w fsm, ((go_error + unit) \<times> go_error option) option) state" where
  "run_loop E 0 nextState = State_Monad.return None"
| "run_loop E (Suc n) nextState = do {
     _ \<leftarrow> set_state nextState;
     (case stateFuncMap E nextState of
        NoEntry \<Rightarrow> State_Monad.return (Some (Inl (Errorf (''Unexpected upgrade state['' @ state_string nextState @ '']'')), None))
      | FinalEntry \<Rightarrow> State_Monad.return (Some (Inr (), None))
      | Handler f \<Rightarrow> do {
          (st, err) \<leftarrow> f;
          (case err of
             Some e \<Rightarrow> State_Monad.return (Some (Inl e, Some e))
           | None \<Rightarrow> if st = UpgradeStatePending then State_Monad.return (Some (Inr (), None)) else run_loop E n st) }) }"

text \<open>No run visits more than eight states, so this fuel is enough: see \<open>run_loop_total\<close>.\<close>

definition loop_fuel :: nat where "loop_fuel = 9"

definition updateCondition :: "'w fsm_env \<Rightarrow> go_error option \<Rightarrow> MilvusUpgradeStatus \<Rightarrow> MilvusUpgradeStatus" where
  "updateCondition E err st =
     (let condition = \<lparr>cd_Type = (if ust_IsRollbacking st then ''Rollbacked'' else ''Upgraded''),
            cd_Status = (if ust_State st = UpgradeStateSucceeded \<or> ust_State st = UpgradeStateRollbackSucceeded
                         then ConditionTrue else ConditionFalse),
            cd_Reason = state_string (ust_State st),
            cd_Message = (case err of None \<Rightarrow> [] | Some e \<Rightarrow> error_text e)\<rparr>
      in st\<lparr>ust_Conditions := fe_SetStatusCondition E condition (ust_Conditions st)\<rparr>)"

definition upgrade_status :: "(MilvusUpgradeStatus \<Rightarrow> MilvusUpgradeStatus) \<Rightarrow> MilvusUpgrade \<Rightarrow> MilvusUpgrade" where
  "upgrade_status f u = u\<lparr>u_Status := f (u_Status u)\<rparr>"

text \<open>\<open>RunStateMachine\<close>: the upgrade as it was left, and the error.  The branch without fuel never
  happens; it stands for a panic.\<close>

definition RunStateMachine :: "'w fsm_env \<Rightarrow> MilvusUpgrade \<Rightarrow> ('w, MilvusUpgrade \<times> (go_error + unit)) state" where
  "RunStateMachine E upgrade0 =
     (let upgrade = upgrade0\<lparr>u_Status := DetermineCurrentState upgrade0\<rparr>;
          ref = us_Milvus (u_Spec upgrade)
      in do {
     r \<leftarrow> cli_GetMilvus (fe_cli E) (obr_Namespace ref) (obr_Name ref);
     (case r of
        Inl e \<Rightarrow> State_Monad.return (upgrade_status (\<lambda>st. st\<lparr>ust_Conditions := fe_SetStatusCondition E
            \<lparr>cd_Type = ''CheckingUpgrationState'', cd_Status = ConditionFalse, cd_Reason = ''GetMilvusFailed'', cd_Message = error_text e\<rparr>
            (ust_Conditions st)\<rparr>) upgrade, Inl e)
      | Inr milvus \<Rightarrow> State (\<lambda>w.
          (let upgrade = upgrade_status (\<lambda>st. st\<lparr>ust_Conditions :=
                 fe_RemoveStatusCondition E ''CheckingUpgrationState'' (ust_Conditions st)\<rparr>) upgrade;
               (res, s) = run_state (run_loop E loop_fuel (ust_State (u_Status upgrade)))
                            \<lparr>fs_world = w, fs_upgrade = upgrade, fs_milvus = milvus\<rparr>
           in case res of
                None \<Rightarrow> ((fs_upgrade s, Inl (GoPanic ''loop'')), fs_world s)
              | Some (out, err) \<Rightarrow> ((upgrade_status (updateCondition E err) (fs_upgrade s), out), fs_world s)))) })"

text \<open>\<open>Reconcile\<close>: whether to requeue after the interval, and the error.\<close>

definition Upgrade_Reconcile :: "'w fsm_env \<Rightarrow> string \<Rightarrow> string \<Rightarrow> ('w, bool \<times> go_error option) state" where
  "Upgrade_Reconcile E ns name = do {
     r \<leftarrow> ucli_GetUpgrade (fe_cli E) ns name;
     (case r of
        Inl e \<Rightarrow> State_Monad.return (False, if IsNotFound e then None else Some e)
      | Inr upgrade0 \<Rightarrow> do {
          (upgrade, out) \<leftarrow> RunStateMachine E upgrade0;
          upd \<leftarrow> ucli_UpdateUpgradeStatus (fe_cli E) upgrade;
          State_Monad.return (case upd of
             Inl e \<Rightarrow> (False, Some (Wrap e (''failed to update status, with continueUpgrade err['' @
                 (case out of Inl o_err \<Rightarrow> error_text (Wrap o_err ''failed to do upgrade'') | Inr _ \<Rightarrow> ''%!s(<nil>)'') @ '']'')))
           | Inr _ \<Rightarrow> (NeedRequeue (ust_State (u_Status upgrade)),
                      case out of Inl e \<Rightarrow> Some (Wrap e ''failed to do upgrade'') | Inr _ \<Rightarrow> None)) }) }"

end
