(* ===== verification/Upgrade_Correct.thy ===== *)
theory Upgrade_Correct
  imports Upgrade_FSM Std_Externals
begin

text \<open>
  Correctness of the upgrade state machine, for every client, clock and world: the loop of
  \<open>RunStateMachine\<close> ends, only declared transitions happen, and the status of an upgrade keeps an
  invariant over any sequence of passes and edits of the spec.
\<close>

section \<open>The step relation\<close>

inductive next_state :: "MilvusUpgradeState \<Rightarrow> MilvusUpgradeState \<Rightarrow> bool" where
  "next_state UpgradeStateOldVersionStopping UpgradeStateBackupMeta"
| "next_state UpgradeStateBackupMeta UpgradeStateUpdatingMeta"
| "next_state UpgradeStateBackupMeta UpgradeStateBakupMetaFailed"
| "next_state UpgradeStateUpdatingMeta UpgradeStateNewVersionStarting"
| "next_state UpgradeStateUpdatingMeta UpgradeStateUpdateMetaFailed"
| "next_state UpgradeStateNewVersionStarting UpgradeStateSucceeded"
| "next_state UpgradeStateBakupMetaFailed UpgradeStateRollbackNewVersionStopping"
| "next_state UpgradeStateUpdateMetaFailed UpgradeStateRollbackNewVersionStopping"
| "next_state UpgradeStateRollbackNewVersionStopping UpgradeStateRollbackRestoringOldMeta"
| "next_state UpgradeStateRollbackRestoringOldMeta UpgradeStateRollbackOldVersionStarting"
| "next_state UpgradeStateRollbackRestoringOldMeta UpgradeStateRollbackFailed"
| "next_state UpgradeStateRollbackOldVersionStarting UpgradeStateRollbackSucceeded"

inductive_cases next_state_fromE: "next_state s t"

fun state_rank :: "MilvusUpgradeState \<Rightarrow> nat" where
  "state_rank UpgradeStateOldVersionStopping = 7"
| "state_rank UpgradeStateBackupMeta = 6"
| "state_rank UpgradeStateUpdatingMeta = 5"
| "state_rank UpgradeStateBakupMetaFailed = 5"
| "state_rank UpgradeStateNewVersionStarting = 4"
| "state_rank UpgradeStateUpdateMetaFailed = 4"
| "state_rank UpgradeStateRollbackNewVersionStopping = 3"
| "state_rank UpgradeStateRollbackRestoringOldMeta = 2"
| "state_rank UpgradeStateRollbackOldVersionStarting = 1"
| "state_rank _ = 0"

lemma next_state_rank: "next_state s t \<Longrightarrow> state_rank t < state_rank s"
  by (erule next_state.cases) auto

lemma state_rank_le: "state_rank s \<le> 7"
  by (cases s) auto

section \<open>What an operation keeps\<close>

definition the_status :: "'w fsm \<Rightarrow> MilvusUpgradeStatus" where
  "the_status s = u_Status (fs_upgrade s)"

text \<open>The part of the status that drives the machine.\<close>

definition core :: "MilvusUpgradeStatus \<Rightarrow> MilvusUpgradeState \<times> bool \<times> bool \<times> bool \<times> int \<times> string" where
  "core st = (ust_State st, ust_MetaStorageChanged st, ust_MetaBackuped st, ust_IsRollbacking st, ust_RetriedTimes st, ust_SourceImage st)"

definition same_core :: "'w fsm \<Rightarrow> 'w fsm \<Rightarrow> bool" where
  "same_core s s' \<longleftrightarrow> core (the_status s') = core (the_status s) \<and> u_Spec (fs_upgrade s') = u_Spec (fs_upgrade s)"

definition quiet :: "('w fsm, 'r) state \<Rightarrow> bool" where
  "quiet m \<longleftrightarrow> (\<forall>s. wp m s (\<lambda>r s'. same_core s s'))"

named_theorems quiet_intros \<open>operations that keep the core of the status\<close>

lemma same_core_refl [simp]: "same_core s s"
  by (simp add: same_core_def)

lemma same_core_trans: "same_core s t \<Longrightarrow> same_core t u \<Longrightarrow> same_core s u"
  by (simp add: same_core_def)

lemma quietD: "quiet m \<Longrightarrow> (\<And>r s'. same_core s s' \<Longrightarrow> Q r s') \<Longrightarrow> wp m s Q"
  unfolding quiet_def by (blast intro: wp_mono)

lemma quiet_ret [quiet_intros]: "quiet (ret a)"
  by (simp add: quiet_def)

lemma quiet_fail [quiet_intros]: "quiet (fail e)"
  by (simp add: quiet_def)

lemma quiet_lift [quiet_intros]: "quiet (lift_result r)"
  by (simp add: quiet_def)

lemma quiet_wrap [quiet_intros]: "quiet m \<Longrightarrow> quiet (op_wrap msg m)"
  by (simp add: quiet_def)

lemma quiet_bind [quiet_intros]:
  assumes "quiet m" "\<And>a. quiet (f a)"
  shows "quiet (op_bind m f)"
proof -
  have "wp (op_bind m f) s (\<lambda>r s'. same_core s s')" for s
    unfolding wp_bind
    by (rule quietD [OF assms(1)]) (auto intro: quietD [OF assms(2)] same_core_trans split: sum.splits)
  then show ?thesis by (simp add: quiet_def)
qed

lemma quiet_on_world [quiet_intros]: "quiet (on_world m)"
  by (simp add: quiet_def on_world_def same_core_def the_status_def split: prod.splits)

lemma quiet_upd_milvus [quiet_intros]: "quiet (upd_milvus f)"
  by (simp add: quiet_def upd_milvus_def same_core_def the_status_def)

lemma quiet_upd_status [quiet_intros]: "(\<And>st. core (f st) = core st) \<Longrightarrow> quiet (upd_status f)"
  by (simp add: quiet_def upd_status_def same_core_def the_status_def)

lemma quiet_the [quiet_intros]: "quiet the_upgrade" "quiet the_milvus"
  by (simp_all add: quiet_def the_upgrade_def the_milvus_def)

lemma quiet_if [quiet_intros]: "quiet m \<Longrightarrow> quiet n \<Longrightarrow> quiet (if b then m else n)"
  by simp

lemma quiet_ops [quiet_intros]:
  "quiet (update_milvus E)" "quiet (markStoppedAtAnnotation E)" "quiet (isMilvusStopped E)"
  "quiet (annotateAlphaCR E v)" "quiet (createSubObjectOrIgnore E k)"
  unfolding update_milvus_def markStoppedAtAnnotation_def isMilvusStopped_def listAllDeployments_def annotateAlphaCR_def
    createSubObjectOrIgnore_def
  by (intro quiet_intros | simp add: quiet_intros split: option.splits)+

lemma quiet_stopMilvus [quiet_intros]: "quiet (stopMilvus E)"
  unfolding stopMilvus_def Let_def
  by (intro quiet_intros | simp add: quiet_intros split: option.splits)+

lemma quiet_restore [quiet_intros]: "quiet (restore_replicas st reps cs)"
  by (induction cs) (auto intro!: quiet_intros split: option.splits)

lemma quiet_startMilvus [quiet_intros]: "quiet (startMilvus E)"
  unfolding startMilvus_def
  by (intro quiet_intros | simp add: quiet_intros core_def)+

lemma quiet_task_pods [quiet_intros]:
  "quiet (startTaskPod E t)" "quiet (startBakupMetaPod E)" "quiet (startUpdateMetaPod E)" "quiet (startRollbackMetaPod E)"
proof -
  show task: "quiet (startTaskPod E t)" for t
    unfolding startTaskPod_def createConfigMap_def by (intro quiet_intros)
  show "quiet (startBakupMetaPod E)"
    unfolding startBakupMetaPod_def by (intro quiet_intros task | simp add: core_def)+
  show "quiet (startUpdateMetaPod E)" "quiet (startRollbackMetaPod E)"
    unfolding startUpdateMetaPod_def startRollbackMetaPod_def by (rule task)+
qed

section \<open>The invariant of the status\<close>

definition rollback_states :: "MilvusUpgradeState list" where
  "rollback_states = [UpgradeStateRollbackNewVersionStopping, UpgradeStateRollbackRestoringOldMeta,
     UpgradeStateRollbackOldVersionStarting, UpgradeStateRollbackSucceeded, UpgradeStateRollbackFailed]"

fun known_state :: "MilvusUpgradeState \<Rightarrow> bool" where
  "known_state (UpgradeStateOther _) = False"
| "known_state _ = True"

definition flags_ok :: "MilvusUpgradeStatus \<Rightarrow> bool" where
  "flags_ok st \<longleftrightarrow>
     known_state (ust_State st) \<and>
     (ust_MetaStorageChanged st \<longrightarrow> ust_MetaBackuped st) \<and>
     (ust_State st \<in> {UpgradeStateUpdatingMeta, UpgradeStateNewVersionStarting, UpgradeStateSucceeded, UpgradeStateUpdateMetaFailed}
        \<longrightarrow> ust_MetaBackuped st) \<and>
     (ust_State st \<in> {UpgradeStateNewVersionStarting, UpgradeStateSucceeded, UpgradeStateUpdateMetaFailed}
        \<longrightarrow> ust_MetaStorageChanged st) \<and>
     (ust_IsRollbacking st \<longleftrightarrow> ust_State st \<in> set rollback_states)"

lemma flags_ok_core: "core st = core st' \<Longrightarrow> flags_ok st = flags_ok st'"
  by (simp add: flags_ok_def core_def)

lemma flags_ok_core_state:
  "core st = core st' \<Longrightarrow> flags_ok (st\<lparr>ust_State := t\<rparr>) = flags_ok (st'\<lparr>ust_State := t\<rparr>)"
  by (simp add: flags_ok_def core_def)

text \<open>What a handler called in the state \<open>cur\<close> guarantees of its result and the status.\<close>

definition handler_ok :: "MilvusUpgradeState \<Rightarrow> 'w fsm \<Rightarrow> MilvusUpgradeState \<times> go_error option \<Rightarrow> 'w fsm \<Rightarrow> bool" where
  "handler_ok cur s r s' \<longleftrightarrow>
     u_Spec (fs_upgrade s') = u_Spec (fs_upgrade s) \<and>
     flags_ok (the_status s') \<and>
     ust_RetriedTimes (the_status s') \<le> max (ust_RetriedTimes (the_status s)) (us_MaxRetry (u_Spec (fs_upgrade s))) \<and>
     (snd r = None \<and> fst r \<noteq> UpgradeStatePending \<longrightarrow>
        next_state cur (fst r) \<and> flags_ok ((the_status s')\<lparr>ust_State := fst r\<rparr>)) \<and>
     (snd r \<noteq> None \<or> fst r = UpgradeStatePending \<longrightarrow>
        ust_State (the_status s') = ust_State (the_status s) \<or>
        cur = UpgradeStateBakupMetaFailed \<and> ust_State (the_status s') = UpgradeStateBackupMeta \<and>
          ust_RetriedTimes (the_status s') = ust_RetriedTimes (the_status s) + 1)"

lemma handler_ok_quiet:
  assumes "same_core s s'" "flags_ok (the_status s)"
    and "snd r = None \<and> fst r \<noteq> UpgradeStatePending \<Longrightarrow> next_state cur (fst r) \<and> flags_ok ((the_status s)\<lparr>ust_State := fst r\<rparr>)"
  shows "handler_ok cur s r s'"
  using assms flags_ok_core [of "the_status s'" "the_status s"] flags_ok_core_state [of "the_status s'" "the_status s" "fst r"]
  by (auto simp: handler_ok_def same_core_def) (auto simp: core_def)

lemma wp_next_unless: "wp (next_unless st m) s Q = wp m s (\<lambda>r s'. Q (case r of Inl e \<Rightarrow> (UpgradeStatePending, Some e) | Inr _ \<Rightarrow> (st, None)) s')"
  by (simp add: next_unless_def)

lemma wp_next_unless_quiet:
  assumes "quiet m" "\<And>r s'. same_core s s' \<Longrightarrow> r = (st, None) \<or> (\<exists>e. r = (UpgradeStatePending, Some e)) \<Longrightarrow> Q r s'"
  shows "wp (next_unless st m) s Q"
  unfolding wp_next_unless by (rule quietD [OF assms(1)]) (auto intro: assms(2) split: sum.splits)

lemma wp_upd_status [simp]:
  "wp (upd_status f) s Q = Q (Inr ()) (s\<lparr>fs_upgrade := (fs_upgrade s)\<lparr>u_Status := f (u_Status (fs_upgrade s))\<rparr>\<rparr>)"
  by (simp add: upd_status_def)

lemma wp_return_state [simp]: "wp (return_state st) s Q = Q (st, None) s"
  by (simp add: return_state_def)

lemma wp_the_upgrade [simp]: "wp the_upgrade s Q = Q (Inr (fs_upgrade s)) s"
  by (simp add: the_upgrade_def)

lemma wp_handlePod:
  assumes "\<And>e s'. same_core s s' \<Longrightarrow> Q (UpgradeStatePending, Some e) s'"
    and "\<And>s'. same_core s s' \<Longrightarrow> Q (UpgradeStatePending, None) s'"
    and "\<And>s'. same_core s s' \<Longrightarrow> wp onNoPod s' Q" "\<And>s'. same_core s s' \<Longrightarrow> wp onSuccess s' Q" "\<And>s'. same_core s s' \<Longrightarrow> wp onFailure s' Q"
  shows "wp (handlePod E kind onNoPod onSuccess onFailure) s Q"
  unfolding handlePod_def wp_state_bind
  by (rule quietD, intro quiet_intros) (use assms in \<open>auto simp: doOnPodPhase_def split: sum.splits list.splits\<close>)

lemma wp_wait_stopped:
  assumes "\<And>r s'. same_core s s' \<Longrightarrow> r = (st, None) \<or> r = (UpgradeStatePending, None) \<or> (\<exists>e. r = (UpgradeStatePending, Some e)) \<Longrightarrow> Q r s'"
  shows "wp (wait_stopped E st) s Q"
  unfolding wait_stopped_def wp_state_bind
  by (rule quietD, intro quiet_intros) (use assms in \<open>auto split: sum.splits\<close>)

lemmas flag_defs = flags_ok_def rollback_states_def

lemma handler_ok_trans:
  "same_core s s1 \<Longrightarrow> handler_ok cur s1 r s' \<Longrightarrow> handler_ok cur s r s'"
  by (auto simp: handler_ok_def same_core_def core_def)

lemma core_State: "core st = core st' \<Longrightarrow> ust_State st = ust_State st'"
  by (simp add: core_def)

lemma old_version_stopping_ok:
  assumes "ust_State (the_status s) = UpgradeStateOldVersionStopping" "flags_ok (the_status s)"
  shows "wp (OldVersionStopping E) s (handler_ok UpgradeStateOldVersionStopping s)"
proof -
  define s1 where "s1 = s\<lparr>fs_upgrade := (fs_upgrade s)\<lparr>u_Status := recordOldInfo (fe_x E) (fs_milvus s) (u_Status (fs_upgrade s))\<rparr>\<rparr>"
  have rec: "ust_State (fold (record_component sp a b) cs st) = ust_State st \<and>
      ust_MetaStorageChanged (fold (record_component sp a b) cs st) = ust_MetaStorageChanged st \<and>
      ust_MetaBackuped (fold (record_component sp a b) cs st) = ust_MetaBackuped st \<and>
      ust_IsRollbacking (fold (record_component sp a b) cs st) = ust_IsRollbacking st \<and>
      ust_RetriedTimes (fold (record_component sp a b) cs st) = ust_RetriedTimes st" for sp a b cs st
    by (induction cs arbitrary: st) (auto simp: record_component_def Let_def split: option.splits)
  have keep: "handler_ok UpgradeStateOldVersionStopping s1 r s' \<Longrightarrow> handler_ok UpgradeStateOldVersionStopping s r s'" for r s'
    by (auto simp: handler_ok_def s1_def the_status_def recordOldInfo_def rec Let_def split: if_splits)
  have inv1: "flags_ok (the_status s1)"
    using assms(2) by (simp add: flag_defs s1_def the_status_def recordOldInfo_def rec Let_def)
  have quiet1: "handler_ok UpgradeStateOldVersionStopping s r s'"
    if "same_core s1 s'" "r = (UpgradeStatePending, None) \<or> (\<exists>e. r = (UpgradeStatePending, Some e))" for r s'
    by (rule keep, rule handler_ok_quiet [OF that(1) inv1]) (use that(2) in auto)
  have to_backup: "flags_ok ((the_status s)\<lparr>ust_State := UpgradeStateBackupMeta\<rparr>)"
    using assms by (simp add: flag_defs)
  show ?thesis
  proof (cases "isMilvusStopping (fe_x E) (fs_milvus s)")
    case True
    then show ?thesis
      using to_backup by (auto simp: OldVersionStopping_def next_state.intros
          intro!: wp_wait_stopped handler_ok_quiet [OF _ assms(2)])
  next
    case False
    then show ?thesis
      by (auto simp: OldVersionStopping_def wp_next_unless s1_def [symmetric]
          intro!: quietD [OF quiet_stopMilvus] quiet1 split: sum.splits)
  qed
qed

text \<open>The remaining handlers.\<close>

lemma rollback_stopping_ok:
  assumes "ust_State (the_status s) = UpgradeStateRollbackNewVersionStopping" "flags_ok (the_status s)"
  shows "wp (RollbackNewVersionStopping E) s (handler_ok UpgradeStateRollbackNewVersionStopping s)"
proof -
  have "flags_ok ((the_status s)\<lparr>ust_State := UpgradeStateRollbackRestoringOldMeta\<rparr>)"
    using assms by (simp add: flag_defs)
  then show ?thesis
    by (auto simp: RollbackNewVersionStopping_def next_state.intros
        intro!: wp_wait_stopped wp_next_unless_quiet quiet_intros handler_ok_quiet [OF _ assms(2)])
qed

lemma rollback_starting_ok:
  assumes "ust_State (the_status s) = UpgradeStateRollbackOldVersionStarting" "flags_ok (the_status s)"
  shows "wp (RollbackOldVersionStarting E) s (handler_ok UpgradeStateRollbackOldVersionStarting s)"
proof -
  have "flags_ok ((the_status s)\<lparr>ust_State := UpgradeStateRollbackSucceeded\<rparr>)"
    using assms by (simp add: flag_defs)
  then show ?thesis
    unfolding RollbackOldVersionStarting_def
    by (auto simp: next_state.intros intro!: wp_next_unless_quiet quiet_intros handler_ok_quiet [OF _ assms(2)])
qed

lemma new_version_starting_ok:
  assumes "ust_State (the_status s) = UpgradeStateNewVersionStarting" "flags_ok (the_status s)"
  shows "wp (StartingMilvusNewVersion E) s (handler_ok UpgradeStateNewVersionStarting s)"
proof -
  have "flags_ok ((the_status s)\<lparr>ust_State := UpgradeStateSucceeded\<rparr>)"
    using assms by (simp add: flag_defs)
  then show ?thesis
    unfolding StartingMilvusNewVersion_def
    by (auto simp: next_state.intros intro!: wp_next_unless_quiet quiet_intros handler_ok_quiet [OF _ assms(2)])
qed

lemma rollback_restoring_ok:
  assumes "ust_State (the_status s) = UpgradeStateRollbackRestoringOldMeta" "flags_ok (the_status s)"
  shows "wp (RollbackRestoringOldMeta E) s (handler_ok UpgradeStateRollbackRestoringOldMeta s)"
proof -
  have "flags_ok ((the_status s)\<lparr>ust_State := UpgradeStateRollbackOldVersionStarting\<rparr>)"
    "flags_ok ((the_status s)\<lparr>ust_State := UpgradeStateRollbackFailed\<rparr>)"
    using assms by (simp_all add: flag_defs)
  then show ?thesis
    by (auto simp: RollbackRestoringOldMeta_def next_state.intros
        intro!: wp_handlePod wp_next_unless_quiet quiet_intros handler_ok_quiet [OF _ assms(2)] intro: same_core_trans)
qed

lemma updating_meta_ok:
  assumes "ust_State (the_status s) = UpgradeStateUpdatingMeta" "flags_ok (the_status s)"
  shows "wp (UpdatingMeta E) s (handler_ok UpgradeStateUpdatingMeta s)"
proof (cases "ust_MetaStorageChanged (the_status s)")
  case True
  have "flags_ok ((the_status s)\<lparr>ust_State := UpgradeStateNewVersionStarting\<rparr>)"
    "flags_ok ((the_status s)\<lparr>ust_State := UpgradeStateUpdateMetaFailed\<rparr>)"
    using assms True by (simp_all add: flag_defs)
  with True show ?thesis
    by (auto simp: UpdatingMeta_def the_status_def [symmetric] next_state.intros
        intro!: wp_handlePod handler_ok_quiet [OF _ assms(2)] intro: same_core_trans)
next
  case False
  define s1 where "s1 = s\<lparr>fs_upgrade := (fs_upgrade s)\<lparr>u_Status := (the_status s)\<lparr>ust_MetaStorageChanged := True\<rparr>\<rparr>\<rparr>"
  have inv1: "flags_ok (the_status s1)" using assms by (simp add: flag_defs s1_def the_status_def)
  have keep: "handler_ok UpgradeStateUpdatingMeta s1 r s' \<Longrightarrow> handler_ok UpgradeStateUpdatingMeta s r s'" for r s'
    by (auto simp: handler_ok_def s1_def the_status_def)
  have quiet1: "handler_ok UpgradeStateUpdatingMeta s r s'"
    if "same_core s1 s'" "r = (UpgradeStatePending, None) \<or> (\<exists>e. r = (UpgradeStatePending, Some e))" for r s'
    by (rule keep, rule handler_ok_quiet [OF that(1) inv1]) (use that(2) in auto)
  from False show ?thesis
    by (auto simp: UpdatingMeta_def the_status_def [symmetric] wp_next_unless s1_def [symmetric]
        intro!: quietD [OF quiet_task_pods(3)] quiet1 split: sum.splits)
qed


lemma backup_meta_ok:
  assumes "ust_State (the_status s) = UpgradeStateBackupMeta" "flags_ok (the_status s)"
  shows "wp (BackupMeta E) s (handler_ok UpgradeStateBackupMeta s)"
proof -
  have failed: "flags_ok ((the_status s)\<lparr>ust_State := UpgradeStateBakupMetaFailed\<rparr>)"
    using assms by (simp add: flag_defs)
  have success: "handler_ok UpgradeStateBackupMeta s (UpgradeStateUpdatingMeta, None)
      (s'\<lparr>fs_upgrade := (fs_upgrade s')\<lparr>u_Status := (u_Status (fs_upgrade s'))\<lparr>ust_MetaBackuped := True\<rparr>\<rparr>\<rparr>)"
    if "same_core s s'" for s'
    using that assms
    by (auto simp: handler_ok_def same_core_def core_def the_status_def flag_defs next_state.intros)
  have none: "wp (next_unless UpgradeStatePending (op_wrap m (startBakupMetaPod E))) s' (handler_ok UpgradeStateBackupMeta s)"
    if "same_core s s'" for m s'
    using that
    by (auto intro!: wp_next_unless_quiet quiet_intros handler_ok_quiet [OF _ assms(2)] intro: same_core_trans)
  have fail: "handler_ok UpgradeStateBackupMeta s (UpgradeStateBakupMetaFailed, None) s'" if "same_core s s'" for s'
    by (rule handler_ok_quiet [OF that assms(2)]) (use failed in \<open>simp add: next_state.intros\<close>)
  show ?thesis
    unfolding BackupMeta_def
    by (rule wp_handlePod)
      (use none success fail in \<open>auto simp: wp_next_unless [where m = "upd_status _"] intro!: handler_ok_quiet [OF _ assms(2)]\<close>)
qed

lemma upgrade_failed_ok:
  assumes "cur = UpgradeStateBakupMetaFailed \<or> cur = UpgradeStateUpdateMetaFailed" "flags_ok (the_status s)"
  shows "wp HandleUpgradeFailed s (handler_ok cur s)"
proof (cases "us_RollbackIfFailed (u_Spec (fs_upgrade s))")
  case True
  define st where "st = begin_rollback (the_status s)"
  have st: "flags_ok st" "ust_State st = UpgradeStateRollbackNewVersionStopping" "ust_RetriedTimes st = ust_RetriedTimes (the_status s)"
    using assms(2) by (simp_all add: st_def begin_rollback_def flag_defs)
  have "flags_ok (st\<lparr>ust_State := UpgradeStateRollbackNewVersionStopping\<rparr>)"
    using assms(2) by (simp add: st_def begin_rollback_def flag_defs)
  moreover have "next_state cur UpgradeStateRollbackNewVersionStopping" using assms(1) by (auto simp: next_state.intros)
  ultimately have "handler_ok cur s (UpgradeStateRollbackNewVersionStopping, None) (s\<lparr>fs_upgrade := (fs_upgrade s)\<lparr>u_Status := st\<rparr>\<rparr>)"
    using st by (simp add: handler_ok_def the_status_def)
  with True show ?thesis
    by (simp add: HandleUpgradeFailed_def wp_next_unless st_def the_status_def)
next
  case False
  have "handler_ok cur s (UpgradeStatePending, None) s"
    by (rule handler_ok_quiet [OF same_core_refl assms(2)]) simp
  with False show ?thesis by (simp add: HandleUpgradeFailed_def)
qed

lemma backup_failed_ok:
  assumes "ust_State (the_status s) = UpgradeStateBakupMetaFailed" "flags_ok (the_status s)"
  shows "wp (HandleBakupMetaFailed E) s (handler_ok UpgradeStateBakupMetaFailed s)"
proof -
  have retry: "handler_ok UpgradeStateBakupMetaFailed s (UpgradeStatePending, None)
      (s'\<lparr>fs_upgrade := (fs_upgrade s')\<lparr>u_Status := (u_Status (fs_upgrade s'))
        \<lparr>ust_State := UpgradeStateBackupMeta, ust_RetriedTimes := ust_RetriedTimes (u_Status (fs_upgrade s')) + 1\<rparr>\<rparr>\<rparr>)"
    if "same_core s s'" "\<not> ust_RetriedTimes (the_status s) + 1 > us_MaxRetry (u_Spec (fs_upgrade s))" for s'
    using that assms by (auto simp: handler_ok_def same_core_def core_def the_status_def flag_defs)
  have err: "handler_ok UpgradeStateBakupMetaFailed s (UpgradeStatePending, Some e) s'" if "same_core s s'" for e s'
    by (rule handler_ok_quiet [OF that assms(2)]) simp
  have pods: "quiet (on_world (ucli_DeleteAllPods (fe_cli E) ns sel))" for ns sel by (rule quiet_intros)
  show ?thesis
    unfolding HandleBakupMetaFailed_def
    using retry err upgrade_failed_ok [OF _ assms(2), of UpgradeStateBakupMetaFailed]
    by (auto simp: wp_next_unless the_status_def wrap_def intro!: quietD [OF pods] split: sum.splits)
qed

lemma stateFuncMap_ok:
  assumes "stateFuncMap E cur = Handler f" "ust_State (the_status s) = cur" "flags_ok (the_status s)"
  shows "wp f s (handler_ok cur s)"
  using assms old_version_stopping_ok backup_meta_ok updating_meta_ok new_version_starting_ok backup_failed_ok
    upgrade_failed_ok [of UpgradeStateUpdateMetaFailed] rollback_stopping_ok rollback_restoring_ok rollback_starting_ok
  by (cases cur) (auto simp: stateFuncMap_def)

section \<open>The loop\<close>

lemma wp_set_state:
  "wp (set_state st) s Q = Q (Inr ()) (s\<lparr>fs_upgrade := (fs_upgrade s)\<lparr>u_Status := (the_status s)\<lparr>ust_State := st\<rparr>\<rparr>\<rparr>)"
  by (simp add: set_state_def the_status_def)

text \<open>The states a run that starts in \<open>s\<close> may leave: along the step relation, or back to the backup for a retry.\<close>

definition pass_path :: "MilvusUpgradeState \<Rightarrow> MilvusUpgradeState \<Rightarrow> bool" where
  "pass_path s t \<longleftrightarrow> next_state\<^sup>*\<^sup>* s t \<or> (next_state\<^sup>*\<^sup>* s UpgradeStateBakupMetaFailed \<and> t = UpgradeStateBackupMeta)"

lemma pass_path_step: "next_state s u \<Longrightarrow> pass_path u t \<Longrightarrow> pass_path s t"
  by (auto simp: pass_path_def intro: converse_rtranclp_into_rtranclp)

definition loop_ok :: "MilvusUpgradeState \<Rightarrow> 'w fsm \<Rightarrow> ((go_error + unit) \<times> go_error option) option \<Rightarrow> 'w fsm \<Rightarrow> bool" where
  "loop_ok st s r s' \<longleftrightarrow> r \<noteq> None \<and> u_Spec (fs_upgrade s') = u_Spec (fs_upgrade s) \<and> flags_ok (the_status s') \<and>
     ust_RetriedTimes (the_status s') \<le> max (ust_RetriedTimes (the_status s)) (us_MaxRetry (u_Spec (fs_upgrade s))) \<and>
     pass_path st (ust_State (the_status s'))"

text \<open>Enough fuel always gives a result, and the loop keeps the invariant.\<close>

lemma run_loop_total:
  assumes "state_rank st < n" "flags_ok ((the_status s)\<lparr>ust_State := st\<rparr>)"
  shows "wp (run_loop E n st) s (loop_ok st s)"
  using assms
proof (induction n arbitrary: st s)
  case (Suc n)
  define s1 where "s1 = s\<lparr>fs_upgrade := (fs_upgrade s)\<lparr>u_Status := (the_status s)\<lparr>ust_State := st\<rparr>\<rparr>\<rparr>"
  have s1: "the_status s1 = (the_status s)\<lparr>ust_State := st\<rparr>" "u_Spec (fs_upgrade s1) = u_Spec (fs_upgrade s)"
    by (simp_all add: s1_def the_status_def)
  have fin: "loop_ok st s (Some r) s1" for r
    using Suc.prems(2) by (simp add: loop_ok_def s1 pass_path_def)
  show ?case
  proof (cases "stateFuncMap E st")
    case (Handler f)
    have f: "wp f s1 (handler_ok st s1)"
      using stateFuncMap_ok [OF Handler] s1(1) Suc.prems(2) by simp
    have step: "case r of (t, err) \<Rightarrow> wp (case err of
             Some e \<Rightarrow> State_Monad.return (Some (Inl e, Some e))
           | None \<Rightarrow> if t = UpgradeStatePending then State_Monad.return (Some (Inr (), None)) else run_loop E n t) s' (loop_ok st s)"
      if h: "handler_ok st s1 r s'" for r s'
    proof -
      obtain t err where r: "r = (t, err)" by force
      have base: "loop_ok st s (Some out) s'"
        if "err \<noteq> None \<or> t = UpgradeStatePending" for out
        using h that by (auto simp: loop_ok_def handler_ok_def s1 r pass_path_def)
      show ?thesis
      proof (cases "err = None \<and> t \<noteq> UpgradeStatePending")
        case True
        then have n: "next_state st t" "flags_ok ((the_status s')\<lparr>ust_State := t\<rparr>)"
          using h by (auto simp: handler_ok_def r)
        then have "state_rank t < n" using next_state_rank [OF n(1)] Suc.prems(1) by simp
        from Suc.IH [OF this n(2)] have "wp (run_loop E n t) s' (loop_ok st s)"
          by (rule wp_mono) (use h n(1) in \<open>auto simp: loop_ok_def handler_ok_def s1 intro: pass_path_step\<close>)
        with True r show ?thesis by simp
      next
        case False
        with base r show ?thesis by (auto split: option.splits)
      qed
    qed
    show ?thesis
      using Handler step by (auto simp: wp_set_state s1_def [symmetric] intro!: wp_mono [OF f])
  qed (use fin in \<open>auto simp: wp_set_state s1_def [symmetric]\<close>)
qed simp

end
