(* ===== verification/Replica_Snapshot.thy ===== *)
theory Replica_Snapshot
  imports Upgrade_Correct
begin

text \<open>
  Replica counts through an upgrade: what \<open>recordOldInfo\<close> snapshots, \<open>stopMilvus\<close> sets to zero and
  \<open>startMilvus\<close> restores.  Both the spec and the snapshot are families of counters, one per
  workload (a component, or one of its deployment groups), so the facts about loops over the workloads are
  proved once for the interface.
\<close>

section \<open>Counters by workload\<close>

locale counters =
  fixes key :: "'c \<Rightarrow> 'k" and ok :: "'c \<Rightarrow> bool" and has :: "'c \<Rightarrow> 's \<Rightarrow> bool"
    and get :: "'c \<Rightarrow> 's \<Rightarrow> int option" and put :: "'c \<Rightarrow> int \<Rightarrow> 's \<Rightarrow> 's"
  assumes get_put: "ok c \<Longrightarrow> has c s \<Longrightarrow> get c (put c n s) = Some n"
    and get_other: "ok c \<Longrightarrow> ok d \<Longrightarrow> key c \<noteq> key d \<Longrightarrow> get c (put d n s) = get c s"
    and has_put: "ok c \<Longrightarrow> ok d \<Longrightarrow> has c (put d n s) = has c s"
begin

lemma has_fold: "\<forall>d \<in> set cs. ok d \<Longrightarrow> ok c \<Longrightarrow> has c (fold (\<lambda>d. put d (f d)) cs s) = has c s"
  by (induction cs arbitrary: s) (auto simp: has_put)

lemma get_fold_other:
  "\<forall>d \<in> set cs. ok d \<Longrightarrow> ok c \<Longrightarrow> key c \<notin> key ` set cs \<Longrightarrow> get c (fold (\<lambda>d. put d (f d)) cs s) = get c s"
  by (induction cs arbitrary: s) (auto simp: get_other)

lemma get_fold:
  "\<forall>d \<in> set cs. ok d \<Longrightarrow> distinct (map key cs) \<Longrightarrow> c \<in> set cs \<Longrightarrow> has c s \<Longrightarrow>
     get c (fold (\<lambda>d. put d (f d)) cs s) = Some (f c)"
proof (induction cs arbitrary: s)
  case (Cons d cs)
  show ?case
  proof (cases "c = d")
    case True
    then have "key c \<notin> key ` set cs" using Cons.prems(2) by auto
    then show ?thesis
      using Cons.prems True get_fold_other [of cs c f "put d (f d) s"] by (simp add: get_put)
  next
    case False
    with Cons show ?thesis by (simp add: has_put)
  qed
qed simp

end

section \<open>The spec\<close>

definition ungrouped :: "MilvusComponent \<Rightarrow> bool" where
  "ungrouped c \<longleftrightarrow> mcp_DeploymentGroup c = None"

definition configured :: "MilvusComponent \<Rightarrow> Milvus \<Rightarrow> bool" where
  "configured c m \<longleftrightarrow> com_field (mcp_FieldName c) (ms_Com (m_Spec m)) \<noteq> None"

definition status_fields :: "string list" where
  "status_fields = [''Proxy'', ''MixCoord'', ''RootCoord'', ''DataCoord'', ''IndexCoord'', ''QueryCoord'', ''DataNode'',
     ''IndexNode'', ''QueryNode'', ''StreamingNode'', ''Standalone'', ''Cdc'']"

lemma com_field_set_known:
  "g \<in> set status_fields \<Longrightarrow> com_field f (com_set_replicas g r com) =
     (if f = g then map_option (\<lambda>co. co\<lparr>co_Replicas := r\<rparr>) (com_field f com) else com_field f com)"
proof -
  have trunc: "map_option Component.truncate (map_option (\<lambda>co. co\<lparr>co_Replicas := r\<rparr>) v) =
      map_option (\<lambda>co. co\<lparr>co_Replicas := r\<rparr>) (map_option Component.truncate v)" for v :: "'a Component_scheme option"
    by (cases v) (simp_all add: Component.truncate_def)
  assume "g \<in> set status_fields"
  then show ?thesis
    unfolding status_fields_def list.set insert_iff empty_iff
    by (elim disjE) (simp_all add: com_set_replicas_def, simp_all add: com_field_def trunc)
qed

lemma com_field_set_replicas:
  "com_field f (com_set_replicas g r com) =
     (if f = g then map_option (\<lambda>co. co\<lparr>co_Replicas := r\<rparr>) (com_field f com) else com_field f com)"
proof (cases "g \<in> set status_fields")
  case False
  then have "com_set_replicas g r com = com" by (simp add: com_set_replicas_def status_fields_def)
  moreover have "com_field g com = None" using False by (simp add: com_field_def status_fields_def)
  ultimately show ?thesis by simp
qed (rule com_field_set_known)

lemma set_ungrouped:
  "ungrouped c \<Longrightarrow> set_replicas_or_ignore n c m = (if configured c m
     then m\<lparr>m_Spec := (m_Spec m)\<lparr>ms_Com := com_set_replicas (mcp_FieldName c) (Some n) (ms_Com (m_Spec m))\<rparr>\<rparr> else m)"
  by (simp add: set_replicas_or_ignore_def SetReplicas_def ungrouped_def configured_def)

text \<open>The groups of a component.  A count is found by the name of the group.\<close>

fun group_count :: "string \<Rightarrow> DeploymentGroup list \<Rightarrow> int option" where
  "group_count name [] = None"
| "group_count name (g # gs) = (if dg_Name g = name then dg_Replicas g else group_count name gs)"

lemma set_group_Cons:
  "set_group_replicas name r (g # gs) =
     (if dg_Name g = name then Some (g\<lparr>dg_Replicas := r\<rparr> # gs) else map_option ((#) g) (set_group_replicas name r gs))"
  by (auto simp: set_group_replicas_def split: option.splits)

lemma set_group_None: "set_group_replicas name r gs = None \<longleftrightarrow> name \<notin> dg_Name ` set gs"
  by (auto simp: set_group_replicas_def index_by_None split: option.splits) (metis index_by_None image_eqI option.distinct(1))

lemma set_group_Some:
  "set_group_replicas name r gs = Some gs' \<Longrightarrow> map dg_Name gs' = map dg_Name gs \<and> group_count name gs' = r \<and>
     (\<forall>k. k \<noteq> name \<longrightarrow> group_count k gs' = group_count k gs)"
proof (induction gs arbitrary: gs')
  case (Cons g gs)
  show ?case
  proof (cases "dg_Name g = name")
    case False
    with Cons.prems obtain hs where "gs' = g # hs" "set_group_replicas name r gs = Some hs" by (auto simp: set_group_Cons)
    with Cons.IH [of hs] False show ?thesis by simp
  qed (use Cons.prems in \<open>auto simp: set_group_Cons\<close>)
qed (simp add: set_group_replicas_def)

definition grouped_fields :: "(string \<times> string) list" where
  "grouped_fields = [(''proxy'', ''Proxy''), (''datanode'', ''DataNode''), (''querynode'', ''QueryNode''), (''streamingnode'', ''StreamingNode'')]"

definition groups_of :: "string \<Rightarrow> MilvusComponents \<Rightarrow> DeploymentGroup list" where
  "groups_of f com = (case com_groups f com of None \<Rightarrow> [] | Some gs \<Rightarrow> gs)"

lemma groups_by_field:
  assumes "(mcp_Name c, mcp_FieldName c) \<in> set grouped_fields"
  shows "GetDeploymentGroups c spec = groups_of (mcp_FieldName c) (ms_Com spec)"
    "com_groups (mcp_FieldName c) com = None \<longleftrightarrow> com_field (mcp_FieldName c) com = None"
  using assms unfolding grouped_fields_def list.set insert_iff empty_iff
  by (elim disjE; simp add: GetDeploymentGroups_def groups_of_def com_groups_def com_field_def split: option.splits)+

lemma com_groups_set:
  "com_groups f (com_set_groups g gs com) = (if f = g then map_option (\<lambda>_. gs) (com_groups f com) else com_groups f com)"
  "com_field f (com_set_groups g gs com) = com_field f com"
  "com_groups f (com_set_replicas g r com) = com_groups f com"
proof -
  have trunc: "map_option Component.truncate (map_option (\<lambda>c. c\<lparr>px_Groups := gs\<rparr>) p) = map_option Component.truncate p"
    "map_option Component.truncate (map_option (\<lambda>c. c\<lparr>dn_Groups := gs\<rparr>) d) = map_option Component.truncate d"
    "map_option Component.truncate (map_option (\<lambda>c. c\<lparr>qn_Groups := gs\<rparr>) q) = map_option Component.truncate q"
    "map_option Component.truncate (map_option (\<lambda>c. c\<lparr>sn_Groups := gs\<rparr>) t) = map_option Component.truncate t" for p d q t
    by (cases p; cases d; cases q; cases t; simp add: Component.truncate_def)+
  show "com_groups f (com_set_groups g gs com) = (if f = g then map_option (\<lambda>_. gs) (com_groups f com) else com_groups f com)"
    by (simp add: com_groups_def com_set_groups_def option.map_comp comp_def)
  show "com_field f (com_set_groups g gs com) = com_field f com"
    by (simp add: com_field_def com_set_groups_def trunc)
  show "com_groups f (com_set_replicas g r com) = com_groups f com"
    by (simp add: com_groups_def com_set_replicas_def option.map_comp comp_def)
qed

text \<open>Workloads and their counts in the spec.\<close>

definition known :: "MilvusComponent \<Rightarrow> bool" where
  "known c \<longleftrightarrow> (case mcp_DeploymentGroup c of
     None \<Rightarrow> mcp_FieldName c \<in> set status_fields | Some g \<Rightarrow> (mcp_Name c, mcp_FieldName c) \<in> set grouped_fields)"

definition workload_key :: "MilvusComponent \<Rightarrow> string \<times> string option" where
  "workload_key c = (mcp_FieldName c, map_option dg_Name (mcp_DeploymentGroup c))"

definition workload_replicas :: "MilvusComponent \<Rightarrow> MilvusSpec \<Rightarrow> int option" where
  "workload_replicas c spec = (case mcp_DeploymentGroup c of
     None \<Rightarrow> GetReplicas c spec | Some g \<Rightarrow> group_count (dg_Name g) (GetDeploymentGroups c spec))"

definition has_workload :: "MilvusComponent \<Rightarrow> Milvus \<Rightarrow> bool" where
  "has_workload c m \<longleftrightarrow> configured c m \<and>
     (\<forall>g. mcp_DeploymentGroup c = Some g \<longrightarrow> dg_Name g \<in> dg_Name ` set (GetDeploymentGroups c (m_Spec m)))"

text \<open>What setting the replicas of a workload does to the spec.\<close>

lemma put_effect:
  assumes "known d"
  shows "(case mcp_DeploymentGroup d of
      None \<Rightarrow> set_replicas_or_ignore n d m = (if configured d m
        then m\<lparr>m_Spec := (m_Spec m)\<lparr>ms_Com := com_set_replicas (mcp_FieldName d) (Some n) (ms_Com (m_Spec m))\<rparr>\<rparr> else m)
    | Some g \<Rightarrow> \<exists>gs. map dg_Name gs = map dg_Name (groups_of (mcp_FieldName d) (ms_Com (m_Spec m))) \<and>
        (\<forall>k. k \<noteq> dg_Name g \<longrightarrow> group_count k gs = group_count k (groups_of (mcp_FieldName d) (ms_Com (m_Spec m)))) \<and>
        (has_workload d m \<longrightarrow> group_count (dg_Name g) gs = Some n) \<and>
        set_replicas_or_ignore n d m = m\<lparr>m_Spec := (m_Spec m)\<lparr>ms_Com := com_set_groups (mcp_FieldName d) gs (ms_Com (m_Spec m))\<rparr>\<rparr>)"
proof (cases "mcp_DeploymentGroup d")
  case None
  then show ?thesis using set_ungrouped [of d n m] by (simp add: ungrouped_def)
next
  case (Some g)
  let ?f = "mcp_FieldName d" and ?com = "ms_Com (m_Spec m)"
  have k: "(mcp_Name d, ?f) \<in> set grouped_fields" using assms Some by (simp add: known_def)
  have id: "m\<lparr>m_Spec := (m_Spec m)\<lparr>ms_Com := com_set_groups ?f (groups_of ?f ?com) ?com\<rparr>\<rparr> = m"
    using k unfolding grouped_fields_def list.set insert_iff empty_iff
    by (elim disjE; simp add: com_set_groups_def groups_of_def com_groups_def option.map_ident split: option.splits)
  show ?thesis
  proof (cases "set_group_replicas (dg_Name g) (Some n) (groups_of ?f ?com)")
    case None
    then have "set_replicas_or_ignore n d m = m"
      using Some groups_by_field(2) [OF k] by (auto simp: set_replicas_or_ignore_def SetReplicas_def groups_of_def split: option.splits)
    moreover have "\<not> has_workload d m"
      using None Some set_group_None groups_by_field(1) [OF k] by (auto simp: has_workload_def)
    ultimately show ?thesis
      unfolding Some option.case using id by (intro exI [of _ "groups_of ?f ?com"]) simp
  next
    case (Some gs)
    then have "com_groups ?f ?com \<noteq> None" by (auto simp: groups_of_def set_group_replicas_def split: option.splits)
    then have "set_replicas_or_ignore n d m = m\<lparr>m_Spec := (m_Spec m)\<lparr>ms_Com := com_set_groups ?f gs ?com\<rparr>\<rparr>"
      using Some \<open>mcp_DeploymentGroup d = Some g\<close> groups_by_field(2) [OF k, of ?com]
      by (auto simp: set_replicas_or_ignore_def SetReplicas_def groups_of_def)
    then show ?thesis using \<open>mcp_DeploymentGroup d = Some g\<close> set_group_Some [OF Some] by auto
  qed
qed

text \<open>The other way round: what a workload reads in a spec that was changed like this.\<close>

lemma read_after_replicas:
  assumes "known c" "m' = m\<lparr>m_Spec := (m_Spec m)\<lparr>ms_Com := com_set_replicas f (Some n) (ms_Com (m_Spec m))\<rparr>\<rparr>"
  shows "workload_replicas c (m_Spec m') = (if mcp_DeploymentGroup c = None \<and> mcp_FieldName c = f \<and> configured c m then Some n
      else workload_replicas c (m_Spec m))"
    "has_workload c m' = has_workload c m"
proof -
  have groups: "GetDeploymentGroups c (m_Spec m') = GetDeploymentGroups c (m_Spec m)" if "mcp_DeploymentGroup c = Some g" for g
    using that assms by (simp add: known_def groups_by_field groups_of_def com_groups_set)
  show "workload_replicas c (m_Spec m') = (if mcp_DeploymentGroup c = None \<and> mcp_FieldName c = f \<and> configured c m then Some n
      else workload_replicas c (m_Spec m))"
    using groups assms(2)
    by (auto simp: workload_replicas_def GetReplicas_def com_field_set_replicas configured_def split: option.splits)
  show "has_workload c m' = has_workload c m"
    using groups assms(2) by (auto simp: has_workload_def configured_def com_field_set_replicas)
qed

lemma read_after_groups:
  assumes "known c" "m' = m\<lparr>m_Spec := (m_Spec m)\<lparr>ms_Com := com_set_groups f gs (ms_Com (m_Spec m))\<rparr>\<rparr>"
    and "map dg_Name gs = map dg_Name (groups_of f (ms_Com (m_Spec m)))"
  shows "workload_replicas c (m_Spec m') = (case mcp_DeploymentGroup c of
      None \<Rightarrow> workload_replicas c (m_Spec m)
    | Some g \<Rightarrow> if mcp_FieldName c = f \<and> configured c m then group_count (dg_Name g) gs else workload_replicas c (m_Spec m))"
    "has_workload c m' = has_workload c m"
proof -
  have conf: "configured c m' = configured c m" using assms(2) by (simp add: configured_def com_groups_set)
  have names: "set (map dg_Name gs) = set (map dg_Name (groups_of f (ms_Com (m_Spec m))))" using assms(3) by (rule arg_cong)
  have groups: "GetDeploymentGroups c (m_Spec m') = (if mcp_FieldName c = f \<and> configured c m then gs else GetDeploymentGroups c (m_Spec m))"
    if "mcp_DeploymentGroup c = Some g" for g
    using that assms(1,2) groups_by_field(2) [of c "ms_Com (m_Spec m)"]
    by (auto simp: known_def groups_by_field(1) groups_of_def com_groups_set configured_def split: option.splits)
  show "workload_replicas c (m_Spec m') = (case mcp_DeploymentGroup c of
      None \<Rightarrow> workload_replicas c (m_Spec m)
    | Some g \<Rightarrow> if mcp_FieldName c = f \<and> configured c m then group_count (dg_Name g) gs else workload_replicas c (m_Spec m))"
    using groups assms(2) by (auto simp: workload_replicas_def GetReplicas_def com_groups_set split: option.splits)
  show "has_workload c m' = has_workload c m"
    using groups names assms(1) conf groups_by_field(1) [of c "m_Spec m"]
    by (auto simp: has_workload_def known_def split: option.splits)
qed

lemma known_field:
  "known c \<Longrightarrow> known d \<Longrightarrow> mcp_DeploymentGroup c = Some g \<Longrightarrow> mcp_DeploymentGroup d = Some h \<Longrightarrow>
     mcp_FieldName c = mcp_FieldName d \<longleftrightarrow> mcp_Name c = mcp_Name d"
  by (auto simp: known_def grouped_fields_def)

lemma workload_replicas_key:
  assumes "known c" "known d" "workload_key c = workload_key d"
  shows "workload_replicas c spec = workload_replicas d spec"
proof (cases "mcp_DeploymentGroup c")
  case None
  with assms(3) show ?thesis by (auto simp: workload_key_def workload_replicas_def GetReplicas_def)
next
  case (Some g)
  with assms(3) obtain h where h: "mcp_DeploymentGroup d = Some h" "dg_Name h = dg_Name g"
    by (cases "mcp_DeploymentGroup d") (auto simp: workload_key_def)
  have "mcp_FieldName c = mcp_FieldName d" using assms(3) by (simp add: workload_key_def)
  then have "GetDeploymentGroups c spec = GetDeploymentGroups d spec"
    using assms(1,2) Some h(1) by (simp add: known_def groups_by_field)
  with Some h show ?thesis by (simp add: workload_replicas_def)
qed

interpretation spec_replicas: counters workload_key known has_workload "\<lambda>c m. workload_replicas c (m_Spec m)"
  "\<lambda>c n. set_replicas_or_ignore n c"
proof
  fix c d and m :: Milvus and n
  assume "known c" "known d"
  show "has_workload c (set_replicas_or_ignore n d m) = has_workload c m"
    using put_effect [OF \<open>known d\<close>, of n m] read_after_replicas(2) [OF \<open>known c\<close>] read_after_groups(2) [OF \<open>known c\<close>]
    by (auto split: option.splits if_splits)
  assume "workload_key c \<noteq> workload_key d"
  show "workload_replicas c (m_Spec (set_replicas_or_ignore n d m)) = workload_replicas c (m_Spec m)"
  proof (cases "mcp_DeploymentGroup d")
    case None
    then show ?thesis
      using put_effect [OF \<open>known d\<close>, of n m] read_after_replicas(1) [OF \<open>known c\<close> refl, where m = m and f = "mcp_FieldName d" and n = n]
        \<open>workload_key c \<noteq> workload_key d\<close> by (auto simp: workload_key_def)
  next
    case (Some h)
    with put_effect [OF \<open>known d\<close>, of n m] obtain gs where gs: "map dg_Name gs = map dg_Name (groups_of (mcp_FieldName d) (ms_Com (m_Spec m)))"
      "\<forall>k. k \<noteq> dg_Name h \<longrightarrow> group_count k gs = group_count k (groups_of (mcp_FieldName d) (ms_Com (m_Spec m)))"
      "set_replicas_or_ignore n d m = m\<lparr>m_Spec := (m_Spec m)\<lparr>ms_Com := com_set_groups (mcp_FieldName d) gs (ms_Com (m_Spec m))\<rparr>\<rparr>"
      by auto
    have "group_count (dg_Name g) gs = workload_replicas c (m_Spec m)" if "mcp_DeploymentGroup c = Some g" "mcp_FieldName c = mcp_FieldName d" for g
      using that gs(2) Some \<open>workload_key c \<noteq> workload_key d\<close> \<open>known c\<close>
      by (auto simp: workload_key_def workload_replicas_def known_def groups_by_field)
    then show ?thesis
      using read_after_groups(1) [OF \<open>known c\<close> gs(3,1)] by (auto split: option.splits)
  qed
next
  fix c and m :: Milvus and n
  assume "known c" "has_workload c m"
  then show "workload_replicas c (m_Spec (set_replicas_or_ignore n c m)) = Some n"
    using put_effect [OF \<open>known c\<close>, of n m] read_after_replicas(1) [OF \<open>known c\<close> refl, where m = m and f = "mcp_FieldName c" and n = n]
      read_after_groups(1) [OF \<open>known c\<close> refl, where m = m and f = "mcp_FieldName c"]
    by (auto simp: has_workload_def split: option.splits)
qed

section \<open>The snapshot\<close>

lemma GetMilvusReplicas_set:
  "mcp_FieldName c \<in> set status_fields \<Longrightarrow>
     GetMilvusReplicas c (SetStatusReplicas d n st) = (if mcp_FieldName c = mcp_FieldName d then n else GetMilvusReplicas c st)"
  unfolding status_fields_def list.set insert_iff empty_iff
  by (elim disjE) (simp_all add: GetMilvusReplicas_def SetStatusReplicas_def Let_def)

definition recording :: "MilvusComponent \<Rightarrow> MilvusUpgradeStatus \<Rightarrow> bool" where
  "recording c st \<longleftrightarrow> ust_ReplicasBeforeUpgrade st \<noteq> None \<and> ust_DeploymentGroupReplicasBeforeUpgrade st \<noteq> None"

definition record_count :: "MilvusComponent \<Rightarrow> int \<Rightarrow> MilvusUpgradeStatus \<Rightarrow> MilvusUpgradeStatus" where
  "record_count c n st = (case mcp_DeploymentGroup c of
     None \<Rightarrow> st\<lparr>ust_ReplicasBeforeUpgrade := map_option (SetStatusReplicas c n) (ust_ReplicasBeforeUpgrade st)\<rparr>
   | Some g \<Rightarrow> st\<lparr>ust_DeploymentGroupReplicasBeforeUpgrade := map_option (\<lambda>snap.
       fmupd (mcp_Name c) (fmupd (dg_Name g) n (case fmlookup snap (mcp_Name c) of None \<Rightarrow> fmempty | Some groups \<Rightarrow> groups)) snap)
       (ust_DeploymentGroupReplicasBeforeUpgrade st)\<rparr>)"

definition snapshot_count :: "MilvusComponent \<Rightarrow> MilvusUpgradeStatus \<Rightarrow> int option" where
  "snapshot_count c st = (case mcp_DeploymentGroup c of
     None \<Rightarrow> map_option (GetMilvusReplicas c) (ust_ReplicasBeforeUpgrade st)
   | Some g \<Rightarrow> Option.bind (ust_DeploymentGroupReplicasBeforeUpgrade st) (\<lambda>snap.
       Option.bind (fmlookup snap (mcp_Name c)) (\<lambda>groups. fmlookup groups (dg_Name g))))"

lemma record_component_count:
  "record_component spec True True c st = record_count c (ReplicasValue (GetReplicas c spec)) st"
  by (simp add: record_component_def record_count_def ReplicasValue_def Let_def split: option.splits)

interpretation snapshot: counters workload_key known recording snapshot_count record_count
proof
  fix c d st n
  assume kn: "known c" "known d"
  show "recording c (record_count d n st) = recording c st"
    by (simp add: recording_def record_count_def split: option.splits)
  assume "workload_key c \<noteq> workload_key d"
  then show "snapshot_count c (record_count d n st) = snapshot_count c st"
    using kn known_field [OF kn]
    by (auto simp: workload_key_def snapshot_count_def record_count_def known_def GetMilvusReplicas_set option.map_comp comp_def
        split: option.splits bind_splits)
next
  fix c st n
  assume "known c" "recording c st"
  then show "snapshot_count c (record_count c n st) = Some n"
    by (auto simp: recording_def snapshot_count_def record_count_def known_def GetMilvusReplicas_set split: option.splits)
qed

lemma snapshot_count_key:
  assumes "known c" "known d" "workload_key c = workload_key d"
  shows "snapshot_count c st = snapshot_count d st"
proof (cases "mcp_DeploymentGroup c")
  case None
  with assms(3) have "mcp_DeploymentGroup d = None" "mcp_FieldName c = mcp_FieldName d" by (auto simp: workload_key_def)
  moreover from this have "GetMilvusReplicas c = GetMilvusReplicas d" by (intro ext) (simp add: GetMilvusReplicas_def)
  ultimately show ?thesis using None by (simp add: snapshot_count_def)
next
  case (Some g)
  with assms(3) obtain h where h: "mcp_DeploymentGroup d = Some h" "dg_Name h = dg_Name g" "mcp_FieldName c = mcp_FieldName d"
    by (cases "mcp_DeploymentGroup d") (auto simp: workload_key_def)
  with known_field [OF assms(1,2) Some h(1)] Some show ?thesis by (simp add: snapshot_count_def)
qed

text \<open>What \<open>startMilvus\<close> reads back.\<close>

lemma recorded_snapshot:
  assumes "ust_ReplicasBeforeUpgrade st = Some reps" "snapshot_count c st = Some n" "int32_range n"
  shows "recorded_replicas st reps c = Some n"
  using assms by (auto simp: recorded_replicas_def snapshot_count_def split: option.splits bind_splits)

section \<open>Workloads\<close>

lemma component_fields_known:
  "c \<in> set (GetComponentsBySpec x spec) \<Longrightarrow> mcp_FieldName c \<in> set status_fields \<and> ungrouped c"
  by (auto simp: GetComponentsBySpec_def Let_def status_fields_def ungrouped_def MixtureComponents_def MilvusComponents_list_def
      StandaloneComponents_def Milvus2_6Components_def key_defs mk_component_def split: if_splits)

lemma component_known:
  assumes "c \<in> set (GetComponentsBySpec x spec)"
  shows "known c" "mcp_DeploymentGroup c = None" "GetDeploymentGroups c spec' \<noteq> [] \<Longrightarrow> (mcp_Name c, mcp_FieldName c) \<in> set grouped_fields"
proof -
  show "known c" "mcp_DeploymentGroup c = None" using component_fields_known [OF assms] by (simp_all add: known_def ungrouped_def)
  have "mcp_Name c \<in> {''proxy'', ''datanode'', ''querynode'', ''streamingnode''} \<longrightarrow> (mcp_Name c, mcp_FieldName c) \<in> set grouped_fields"
    using assms
    by (auto simp: GetComponentsBySpec_def Let_def grouped_fields_def MixtureComponents_def MilvusComponents_list_def
        StandaloneComponents_def Milvus2_6Components_def key_defs mk_component_def split: if_splits)
  then show "(mcp_Name c, mcp_FieldName c) \<in> set grouped_fields" if "GetDeploymentGroups c spec' \<noteq> []"
    using that by (auto simp: GetDeploymentGroups_def Let_def split: if_splits)
qed

abbreviation component_of :: "MilvusComponent \<Rightarrow> MilvusComponent" where
  "component_of w \<equiv> w\<lparr>mcp_DeploymentGroup := None\<rparr>"

lemma component_of_id: "mcp_DeploymentGroup c = None \<Longrightarrow> component_of c = c"
  by (cases c) simp

lemma groups_group [simp]: "GetDeploymentGroups (c\<lparr>mcp_DeploymentGroup := g\<rparr>) spec = GetDeploymentGroups c spec"
  by (simp add: GetDeploymentGroups_def Let_def)

lemma workload_iff:
  "w \<in> set (GetComponentWorkloadsBySpec x spec) \<longleftrightarrow> component_of w \<in> set (GetComponentsBySpec x spec) \<and>
     (case mcp_DeploymentGroup w of None \<Rightarrow> GetDeploymentGroups w spec = [] | Some g \<Rightarrow> g \<in> set (GetDeploymentGroups w spec))"
proof -
  have one: "w \<in> set (component_workloads spec c) \<longleftrightarrow> c = component_of w \<and>
      (case mcp_DeploymentGroup w of None \<Rightarrow> GetDeploymentGroups w spec = [] | Some g \<Rightarrow> g \<in> set (GetDeploymentGroups w spec))"
    if "mcp_DeploymentGroup c = None" for c
  proof (cases "GetDeploymentGroups c spec = []")
    case True
    have "w = c" if "c = component_of w" "mcp_DeploymentGroup w = None" using that component_of_id by simp
    with True that component_of_id [OF that] show ?thesis by (auto simp: component_workloads_def split: option.splits)
  next
    case False
    have "w \<in> set (component_workloads spec c) \<longleftrightarrow> (\<exists>g \<in> set (GetDeploymentGroups c spec). w = c\<lparr>mcp_DeploymentGroup := Some g\<rparr>)"
      using False by (auto simp: component_workloads_def Let_def)
    also have "\<dots> \<longleftrightarrow> c = component_of w \<and> (\<exists>g \<in> set (GetDeploymentGroups w spec). mcp_DeploymentGroup w = Some g)"
    proof
      assume "\<exists>g \<in> set (GetDeploymentGroups c spec). w = c\<lparr>mcp_DeploymentGroup := Some g\<rparr>"
      then show "c = component_of w \<and> (\<exists>g \<in> set (GetDeploymentGroups w spec). mcp_DeploymentGroup w = Some g)"
        using component_of_id [OF that] by auto
    next
      assume r: "c = component_of w \<and> (\<exists>g \<in> set (GetDeploymentGroups w spec). mcp_DeploymentGroup w = Some g)"
      then obtain g where "g \<in> set (GetDeploymentGroups w spec)" "mcp_DeploymentGroup w = Some g" by blast
      with r show "\<exists>g \<in> set (GetDeploymentGroups c spec). w = c\<lparr>mcp_DeploymentGroup := Some g\<rparr>"
        by (intro bexI [of _ g]) (cases w, simp_all)
    qed
    finally show ?thesis using False by (auto split: option.splits)
  qed
  show ?thesis
    unfolding GetComponentWorkloadsBySpec_def using component_known(2) [of _ x spec] one by (auto simp del: groups_group)
qed

lemma workload_known: "w \<in> set (GetComponentWorkloadsBySpec x spec) \<Longrightarrow> known w"
  using component_known(1) [of "component_of w" x spec] component_known(3) [of "component_of w" x spec spec] unfolding workload_iff
  by (cases "mcp_DeploymentGroup w"; cases "GetDeploymentGroups w spec") (auto simp: known_def)

lemma workload_has:
  "w \<in> set (GetComponentWorkloadsBySpec x (m_Spec m)) \<Longrightarrow> configured w m \<Longrightarrow> has_workload w m"
  unfolding workload_iff by (auto simp: has_workload_def)

lemma components_distinct: "distinct (map mcp_FieldName (GetComponentsBySpec x spec))"
  by (simp add: GetComponentsBySpec_def Let_def MixtureComponents_def MilvusComponents_list_def UseStreamingNode_def
      StandaloneComponents_def Milvus2_6Components_def key_defs mk_component_def)

lemma workload_keys_distinct:
  assumes "\<forall>c \<in> set (GetComponentsBySpec x spec). distinct (map dg_Name (GetDeploymentGroups c spec))"
  shows "distinct (map workload_key (GetComponentWorkloadsBySpec x spec))"
proof -
  have keys: "fst ` workload_key ` set (component_workloads spec c) \<subseteq> {mcp_FieldName c}" for c
    by (auto simp: component_workloads_def workload_key_def Let_def)
  have inj: "x = y" if "c\<lparr>mcp_DeploymentGroup := Some x\<rparr> = c\<lparr>mcp_DeploymentGroup := Some y\<rparr>" for c x y
    using arg_cong [OF that, of mcp_DeploymentGroup] by simp
  have one: "distinct (map workload_key (component_workloads spec c))" if "distinct (map dg_Name (GetDeploymentGroups c spec))" for c
    using that by (auto simp: component_workloads_def workload_key_def Let_def distinct_map comp_def inj_on_def dest: inj)
  have "distinct (map workload_key (concat (map (component_workloads spec) cs)))"
    if "distinct (map mcp_FieldName cs)" "\<forall>c \<in> set cs. distinct (map dg_Name (GetDeploymentGroups c spec))" for cs
    using that
  proof (induction cs)
    case (Cons c cs)
    have field: "fst (workload_key w) = mcp_FieldName d" if "w \<in> set (component_workloads spec d)" for w d
      using keys [of d] that by blast
    have "workload_key w \<noteq> workload_key v" if "w \<in> set (component_workloads spec c)" "d \<in> set cs" "v \<in> set (component_workloads spec d)" for w v d
    proof -
      have "mcp_FieldName c \<noteq> mcp_FieldName d" using Cons.prems(1) that(2) by auto
      then show ?thesis using field [OF that(1)] field [OF that(3)] by metis
    qed
    then have "workload_key ` set (component_workloads spec c) \<inter> workload_key ` set (concat (map (component_workloads spec) cs)) = {}"
      unfolding set_concat set_map by blast
    with Cons one show ?case by simp
  qed simp
  then show ?thesis using assms components_distinct unfolding GetComponentWorkloadsBySpec_def by blast
qed

lemma workload_kept:
  assumes "w \<in> set (GetComponentWorkloadsBySpec x spec)" "component_of w \<in> set (GetComponentsBySpec x spec')"
    and "map dg_Name (GetDeploymentGroups w spec') = map dg_Name (GetDeploymentGroups w spec)"
  shows "\<exists>w' \<in> set (GetComponentWorkloadsBySpec x spec'). workload_key w' = workload_key w"
proof (cases "mcp_DeploymentGroup w")
  case None
  then have "w \<in> set (GetComponentWorkloadsBySpec x spec')" using assms unfolding workload_iff by auto
  then show ?thesis by blast
next
  case (Some g)
  then have "dg_Name g \<in> set (map dg_Name (GetDeploymentGroups w spec'))" using assms(1,3) unfolding workload_iff by simp
  then obtain h where h: "h \<in> set (GetDeploymentGroups w spec')" "dg_Name h = dg_Name g" by auto
  then have "w\<lparr>mcp_DeploymentGroup := Some h\<rparr> \<in> set (GetComponentWorkloadsBySpec x spec')" using assms(2) unfolding workload_iff by simp
  moreover have "workload_key (w\<lparr>mcp_DeploymentGroup := Some h\<rparr>) = workload_key w" using Some h by (simp add: workload_key_def)
  ultimately show ?thesis by blast
qed

section \<open>Workloads without groups\<close>

lemma set_replicas_frame:
  "cs_Image (com_set_replicas f r com) = cs_Image com" "cs_Version (com_set_replicas f r com) = cs_Version com"
  "com_StreamingMode (com_set_replicas f r com) = com_StreamingMode com"
  "com_Cdc (com_set_replicas f r com) = None \<longleftrightarrow> com_Cdc com = None"
  "com_MixCoord (com_set_replicas f r com) = None \<longleftrightarrow> com_MixCoord com = None"
  "com_StreamingNode (com_set_replicas f r com) = None \<longleftrightarrow> com_StreamingNode com = None"
  by (simp_all add: com_set_replicas_def)

lemma streaming_set_replicas:
  "UseStreamingNode x (spec\<lparr>ms_Com := com_set_replicas f r (ms_Com spec)\<rparr>) = UseStreamingNode x spec"
  by (simp add: UseStreamingNode_def IsVersionGreaterThan2_6_def set_replicas_frame split: option.split)

lemma components_set_replicas:
  "GetComponentsBySpec x (spec\<lparr>ms_Com := com_set_replicas f r (ms_Com spec)\<rparr>) = GetComponentsBySpec x spec"
  by (simp add: GetComponentsBySpec_def UseCdc_def UseMixCoord_def streaming_set_replicas IsVersionGreaterThan2_6_def set_replicas_frame)

lemma groups_set_replicas:
  "GetDeploymentGroups c (spec\<lparr>ms_Com := com_set_replicas f r (ms_Com spec)\<rparr>) = GetDeploymentGroups c spec"
  by (simp add: GetDeploymentGroups_def Let_def com_set_replicas_def split: option.splits)

lemma workloads_ungrouped:
  "\<forall>c \<in> set (GetComponentsBySpec x spec). GetDeploymentGroups c spec = [] \<Longrightarrow>
     GetComponentWorkloadsBySpec x spec = GetComponentsBySpec x spec"
proof -
  have "\<forall>c \<in> set cs. GetDeploymentGroups c spec = [] \<Longrightarrow> concat (map (component_workloads spec) cs) = cs" for cs
    by (induction cs) (auto simp: component_workloads_def)
  then show "\<forall>c \<in> set (GetComponentsBySpec x spec). GetDeploymentGroups c spec = [] \<Longrightarrow> ?thesis"
    by (simp add: GetComponentWorkloadsBySpec_def)
qed

text \<open>Setting replicas does not change which workloads there are.\<close>

lemma set_groups_frame:
  "cs_Image (com_set_groups f gs com) = cs_Image com"
  "GetComponentsBySpec x (spec\<lparr>ms_Com := com_set_groups f gs (ms_Com spec)\<rparr>) = GetComponentsBySpec x spec"
  "map dg_Name gs = map dg_Name (groups_of f (ms_Com spec)) \<Longrightarrow>
     map dg_Name (GetDeploymentGroups d (spec\<lparr>ms_Com := com_set_groups f gs (ms_Com spec)\<rparr>)) = map dg_Name (GetDeploymentGroups d spec)"
proof -
  show "cs_Image (com_set_groups f gs com) = cs_Image com" by (simp add: com_set_groups_def)
  have frame: "cs_Image (com_set_groups f gs c) = cs_Image c" "cs_Version (com_set_groups f gs c) = cs_Version c"
    "com_StreamingMode (com_set_groups f gs c) = com_StreamingMode c" "com_Cdc (com_set_groups f gs c) = None \<longleftrightarrow> com_Cdc c = None"
    "com_MixCoord (com_set_groups f gs c) = None \<longleftrightarrow> com_MixCoord c = None"
    "com_StreamingNode (com_set_groups f gs c) = None \<longleftrightarrow> com_StreamingNode c = None" for c
    by (simp_all add: com_set_groups_def)
  then have "UseStreamingNode x (spec\<lparr>ms_Com := com_set_groups f gs (ms_Com spec)\<rparr>) = UseStreamingNode x spec"
    by (simp add: UseStreamingNode_def IsVersionGreaterThan2_6_def split: option.split)
  then show "GetComponentsBySpec x (spec\<lparr>ms_Com := com_set_groups f gs (ms_Com spec)\<rparr>) = GetComponentsBySpec x spec"
    by (simp add: GetComponentsBySpec_def UseCdc_def UseMixCoord_def IsVersionGreaterThan2_6_def frame)
  show "map dg_Name (GetDeploymentGroups d (spec\<lparr>ms_Com := com_set_groups f gs (ms_Com spec)\<rparr>)) = map dg_Name (GetDeploymentGroups d spec)"
    if "map dg_Name gs = map dg_Name (groups_of f (ms_Com spec))"
    using that by (auto simp: GetDeploymentGroups_def Let_def com_set_groups_def groups_of_def com_groups_def split: option.splits if_splits)
qed

lemma put_frame:
  assumes "known d"
  shows "GetComponentsBySpec x (m_Spec (set_replicas_or_ignore n d m)) = GetComponentsBySpec x (m_Spec m)"
    "map dg_Name (GetDeploymentGroups e (m_Spec (set_replicas_or_ignore n d m))) = map dg_Name (GetDeploymentGroups e (m_Spec m))"
    "cs_Image (ms_Com (m_Spec (set_replicas_or_ignore n d m))) = cs_Image (ms_Com (m_Spec m))"
  using put_effect [OF assms, of n m]
  by (auto simp: components_set_replicas groups_set_replicas set_replicas_frame set_groups_frame split: option.splits if_splits)

lemma fold_put_frame:
  assumes "\<forall>c \<in> set cs. known c"
  shows "GetComponentsBySpec x (m_Spec (fold (\<lambda>c. set_replicas_or_ignore (f c) c) cs m)) = GetComponentsBySpec x (m_Spec m)"
    "map dg_Name (GetDeploymentGroups d (m_Spec (fold (\<lambda>c. set_replicas_or_ignore (f c) c) cs m))) = map dg_Name (GetDeploymentGroups d (m_Spec m))"
    "cs_Image (ms_Com (m_Spec (fold (\<lambda>c. set_replicas_or_ignore (f c) c) cs m))) = cs_Image (ms_Com (m_Spec m))"
  using assms by (induction cs arbitrary: m) (simp_all add: put_frame)

section \<open>Stop and start\<close>

lemma wp_the_milvus [simp]: "wp the_milvus s Q = Q (Inr (fs_milvus s)) s"
  by (simp add: the_milvus_def)

lemma wp_upd_milvus [simp]: "wp (upd_milvus f) s Q = Q (Inr ()) (s\<lparr>fs_milvus := f (fs_milvus s)\<rparr>)"
  by (simp add: upd_milvus_def)

text \<open>What a call of the client alone does to the state: it changes the world only.\<close>

lemma wp_on_world: "(\<And>r w. Q r (s\<lparr>fs_world := w\<rparr>)) \<Longrightarrow> wp (on_world m) s Q"
  by (simp add: on_world_def split: prod.splits)

lemma wp_update_milvus: "(\<And>r w. Q r (s\<lparr>fs_world := w\<rparr>)) \<Longrightarrow> wp (update_milvus E) s Q"
  by (simp add: update_milvus_def wp_on_world)

lemma wp_annotateAlphaCR: "(\<And>r w. Q r (s\<lparr>fs_world := w\<rparr>)) \<Longrightarrow> wp (annotateAlphaCR E v) s Q"
  by (auto simp: annotateAlphaCR_def intro!: wp_on_world split: option.splits sum.splits dest: spec [where x = "fs_world s"])
    (metis fsm.surjective fsm.update_convs(1))

lemma wp_stopMilvus:
  assumes "\<And>e w. Q (Inl e) (s\<lparr>fs_world := w\<rparr>)"
    and "\<And>r w. Q r (s\<lparr>fs_milvus := mark_upgrade_stopping (fold (set_replicas_or_ignore 0)
        (GetComponentWorkloadsBySpec (fe_x E) (m_Spec (fs_milvus s))) (fs_milvus s)), fs_world := w\<rparr>)"
  shows "wp (stopMilvus E) s Q"
  using assms assms(1) [of _ "fs_world s"]
  by (auto simp: stopMilvus_def Let_def intro!: wp_annotateAlphaCR wp_update_milvus split: option.splits sum.splits)

lemma m_Spec_marks [simp]:
  "m_Spec (mark_upgrade_stopping m) = m_Spec m" "m_Spec (RemoveStoppedAtAnnotation m) = m_Spec m"
  by (simp_all add: mark_upgrade_stopping_def RemoveStoppedAtAnnotation_def)

lemma com_field_image [simp]: "com_field f (com\<lparr>cs_Image := img\<rparr>) = com_field f com"
  by (simp add: com_field_def)

lemma GetReplicas_image [simp]: "GetReplicas c (m_Spec (set_image img m)) = GetReplicas c (m_Spec m)"
  by (simp add: GetReplicas_def set_image_def split: option.splits)

lemma configured_frame [simp]:
  "configured c (set_image img m) = configured c m" "configured c (mark_upgrade_stopping m) = configured c m"
  by (simp_all add: configured_def set_image_def mark_upgrade_stopping_def)

lemma configured_spec: "m_Spec m = m_Spec m' \<Longrightarrow> configured c m = configured c m'"
  by (simp add: configured_def)

lemma groups_image [simp]: "GetDeploymentGroups c (m_Spec (set_image img m)) = GetDeploymentGroups c (m_Spec m)"
  by (simp add: GetDeploymentGroups_def set_image_def Let_def)

text \<open>Starting sets every workload to the count recorded for it, or fails.\<close>

definition restored :: "MilvusUpgradeStatus \<Rightarrow> MilvusReplicas \<Rightarrow> MilvusComponent list \<Rightarrow> Milvus \<Rightarrow> Milvus" where
  "restored st reps cs m = fold (\<lambda>c. set_replicas_or_ignore (the (recorded_replicas st reps c)) c) cs m"

lemma recorded_status: "recorded_replicas (st\<lparr>ust_ReplicasBeforeUpgrade := r\<rparr>) reps c = recorded_replicas st reps c"
  by (simp add: recorded_replicas_def split: option.splits)

lemma wp_restore:
  assumes "\<And>e s'. Q (Inl e) s'"
    and "\<forall>c \<in> set cs. recorded_replicas st reps c \<noteq> None \<Longrightarrow> Q (Inr ()) (s\<lparr>fs_milvus := restored st reps cs (fs_milvus s)\<rparr>)"
  shows "wp (restore_replicas st reps cs) s Q"
  using assms(2)
proof (induction cs arbitrary: s)
  case (Cons c cs)
  then show ?case using assms(1) by (auto simp: restored_def split: option.splits)
qed (simp add: restored_def)

lemma wp_startMilvus:
  assumes "case ust_ReplicasBeforeUpgrade (the_status s) of None \<Rightarrow> reps = zero_MilvusReplicas | Some r \<Rightarrow> reps = r"
    and "\<And>e s'. Q (Inl e) s'"
    and "\<And>r s'. \<forall>c \<in> set (GetComponentWorkloadsBySpec (fe_x E) (m_Spec (fs_milvus s))). recorded_replicas (the_status s) reps c \<noteq> None \<Longrightarrow>
      m_Spec (fs_milvus s') = m_Spec (restored (the_status s) reps (GetComponentWorkloadsBySpec (fe_x E) (m_Spec (fs_milvus s))) (fs_milvus s)) \<Longrightarrow> Q r s'"
  shows "wp (startMilvus E) s Q"
  using assms
  by (auto simp: startMilvus_def the_status_def recorded_status restored_def
      intro!: wp_restore wp_update_milvus wp_annotateAlphaCR split: sum.splits option.splits if_splits)

text \<open>The snapshot and the stop, together.\<close>

definition recorded_status_of :: "MilvusSpec \<Rightarrow> MilvusComponent list \<Rightarrow> MilvusUpgradeStatus \<Rightarrow> MilvusUpgradeStatus" where
  "recorded_status_of spec ws st = fold (\<lambda>c. record_count c (ReplicasValue (GetReplicas c spec))) ws
     (st\<lparr>ust_ReplicasBeforeUpgrade := Some zero_MilvusReplicas, ust_DeploymentGroupReplicasBeforeUpgrade := Some fmempty\<rparr>)"

lemma snapshot_image [simp]: "snapshot_count c (st\<lparr>ust_SourceImage := i\<rparr>) = snapshot_count c st"
  by (simp add: snapshot_count_def split: option.splits)

lemma wp_record_and_stop:
  assumes "\<not> isMilvusStopping (fe_x E) (fs_milvus s)"
    and "ust_ReplicasBeforeUpgrade (the_status s) = None" "ust_DeploymentGroupReplicasBeforeUpgrade (the_status s) = None"
  shows "wp (OldVersionStopping E) s (\<lambda>r s'. r = (UpgradeStatePending, None) \<longrightarrow>
     (\<exists>i. the_status s' = (recorded_status_of (m_Spec (fs_milvus s)) (GetComponentWorkloadsBySpec (fe_x E) (m_Spec (fs_milvus s))) (the_status s))\<lparr>ust_SourceImage := i\<rparr>) \<and>
     u_Spec (fs_upgrade s') = u_Spec (fs_upgrade s) \<and>
     m_Spec (fs_milvus s') = m_Spec (fold (set_replicas_or_ignore 0) (GetComponentWorkloadsBySpec (fe_x E) (m_Spec (fs_milvus s))) (fs_milvus s)))"
proof -
  have img: "\<exists>i. st = st\<lparr>ust_SourceImage := i\<rparr>" for st :: MilvusUpgradeStatus by (rule exI [of _ "ust_SourceImage st"]) simp
  have rec: "record_component (m_Spec (fs_milvus s)) True True = (\<lambda>c. record_count c (ReplicasValue (GetReplicas c (m_Spec (fs_milvus s)))))"
    by (intro ext) (rule record_component_count)
  show ?thesis
    using assms img
    by (auto simp: OldVersionStopping_def wp_next_unless wrap_def the_status_def recordOldInfo_def Let_def rec recorded_status_of_def
        intro!: wp_stopMilvus split: sum.splits)
qed

section \<open>Runs in which the client succeeds\<close>

lemma set_replicas_meta [simp]:
  "om_Name (set_replicas_or_ignore n c m) = om_Name m" "om_Namespace (set_replicas_or_ignore n c m) = om_Namespace m"
  "om_OwnerReferences (set_replicas_or_ignore n c m) = om_OwnerReferences m"
  by (simp_all add: set_replicas_or_ignore_def split: sum.splits)

lemma fold_set_meta [simp]:
  "om_Name (fold (\<lambda>c. set_replicas_or_ignore (f c) c) cs m) = om_Name m"
  "om_Namespace (fold (\<lambda>c. set_replicas_or_ignore (f c) c) cs m) = om_Namespace m"
  "om_OwnerReferences (fold (\<lambda>c. set_replicas_or_ignore (f c) c) cs m) = om_OwnerReferences m"
  by (induction cs arbitrary: m) auto

lemma run_stopMilvus:
  assumes "find (\<lambda>c. GetReplicas c (m_Spec (fs_milvus s)) = Some (-1)) (GetComponentWorkloadsBySpec (fe_x E) (m_Spec (fs_milvus s))) = None"
    and "om_OwnerReferences (fs_milvus s) = []"
    and "m' = mark_upgrade_stopping (fold (set_replicas_or_ignore 0) (GetComponentWorkloadsBySpec (fe_x E) (m_Spec (fs_milvus s))) (fs_milvus s))"
    and "run_state (cli_UpdateMilvus (fe_cli E) m') (fs_world s) = (Inr (), w')"
  shows "run_state (stopMilvus E) s = (Inr (), s\<lparr>fs_milvus := m', fs_world := w'\<rparr>)"
  using assms
  by (simp add: stopMilvus_def run_op_simps the_milvus_def annotateAlphaCR_def upd_milvus_def update_milvus_def on_world_def wrap_def Let_def)

lemma run_restore:
  assumes "\<forall>c \<in> set cs. recorded_replicas st reps c \<noteq> None"
  shows "run_state (restore_replicas st reps cs) s = (Inr (), s\<lparr>fs_milvus := restored st reps cs (fs_milvus s)\<rparr>)"
  using assms
  by (induction cs arbitrary: s) (auto simp: upd_milvus_def run_op_simps restored_def)

lemma run_startMilvus:
  assumes "ust_ReplicasBeforeUpgrade (the_status s) = Some reps" "om_OwnerReferences (fs_milvus s) = []"
    and "\<forall>c \<in> set (GetComponentWorkloadsBySpec (fe_x E) (m_Spec (fs_milvus s))). recorded_replicas (the_status s) reps c \<noteq> None"
    and "\<And>m'. om_Name m' = om_Name (fs_milvus s) \<Longrightarrow> om_Namespace m' = om_Namespace (fs_milvus s) \<Longrightarrow>
        fst (run_state (cli_UpdateMilvus (fe_cli E) m') (fs_world s)) = Inr ()"
  shows "fst (run_state (startMilvus E) s) = Inr ()"
proof -
  define r where "r = restored (the_status s) reps (GetComponentWorkloadsBySpec (fe_x E) (m_Spec (fs_milvus s))) (fs_milvus s)"
  define m' where "m' = RemoveStoppedAtAnnotation (r\<lparr>om_Annotations := fmdrop upgradeStoppingAnnotation (om_Annotations r)\<rparr>)"
  have meta: "om_Name r = om_Name (fs_milvus s)" "om_Namespace r = om_Namespace (fs_milvus s)" "om_OwnerReferences r = om_OwnerReferences (fs_milvus s)"
    by (simp_all add: r_def restored_def)
  then obtain w' where "run_state (cli_UpdateMilvus (fe_cli E) m') (fs_world s) = (Inr (), w')"
    using assms(4) [of m'] by (cases "run_state (cli_UpdateMilvus (fe_cli E) m') (fs_world s)")
      (simp add: m'_def RemoveStoppedAtAnnotation_def)
  moreover have "om_OwnerReferences m' = []" using assms(2) meta by (simp add: m'_def RemoveStoppedAtAnnotation_def)
  ultimately show ?thesis
    using assms(1,2,3)
    by (simp add: startMilvus_def run_op_simps upd_status_def the_upgrade_def the_milvus_def the_status_def upd_milvus_def
        update_milvus_def on_world_def run_restore r_def [unfolded the_status_def, symmetric] m'_def [symmetric] wrap_def annotateAlphaCR_def)
qed

lemma run_OldVersionStopping:
  assumes "\<not> isMilvusStopping (fe_x E) (fs_milvus s)"
    and "run_state (stopMilvus E) (s\<lparr>fs_upgrade := (fs_upgrade s)\<lparr>u_Status := recordOldInfo (fe_x E) (fs_milvus s) (u_Status (fs_upgrade s))\<rparr>\<rparr>) = (Inr (), s1)"
  shows "run_state (OldVersionStopping E) s = ((UpgradeStatePending, None), s1)"
  using assms by (simp add: OldVersionStopping_def State_Monad.get_def next_unless_def run_op_simps upd_status_def wrap_def)

lemma run_StartingMilvusNewVersion:
  assumes "fst (run_state (startMilvus E) (s\<lparr>fs_milvus := set_image (us_TargetImage (u_Spec (fs_upgrade s))) (fs_milvus s)\<rparr>)) = Inr ()"
  shows "fst (run_state (StartingMilvusNewVersion E) s) = (UpgradeStateSucceeded, None)"
  using assms by (simp add: StartingMilvusNewVersion_def next_unless_def run_op_simps the_upgrade_def upd_milvus_def
      split: prod.splits sum.splits) auto

end
