(* ===== verification/Upgrade_Safety.thy ===== *)
theory Upgrade_Safety
  imports Replica_Snapshot Mem_Store
begin

text \<open>
  The properties of the upgrade state machine, over any sequence of passes (with any client, clock and
  world) and edits of the spec, with concrete examples on the in-memory store.
\<close>

section \<open>One pass\<close>

lemma fuel_mono:
  assumes "fst (run_state (run_loop E n st) s) \<noteq> None" "n \<le> m"
  shows "run_state (run_loop E m st) s = run_state (run_loop E n st) s"
  using assms
proof (induction n arbitrary: st s m)
  case (Suc n)
  obtain m' where m: "m = Suc m'" using Suc.prems(2) by (cases m) auto
  show ?case
  proof (cases "stateFuncMap E st")
    case (Handler f)
    obtain r1 s1 where s1: "run_state (set_state st) s = (r1, s1)" by force
    obtain t err s2 where s2: "run_state f s1 = ((t, err), s2)" by (metis surj_pair)
    show ?thesis
      using Suc.prems Suc.IH [of t s2 m'] Handler s1 s2 m
      by (auto split: option.splits if_splits)
  qed (auto simp: m split: prod.splits)
qed simp

lemma flags_ok_same_state: "flags_ok st \<Longrightarrow> flags_ok (st\<lparr>ust_State := ust_State st\<rparr>)"
  by simp

lemma determine_ok: "flags_ok (u_Status u) \<Longrightarrow> flags_ok (DetermineCurrentState u)"
  by (simp add: DetermineCurrentState_def begin_rollback_def flag_defs Let_def)

lemma determine_retried: "ust_RetriedTimes (DetermineCurrentState u) = ust_RetriedTimes (u_Status u)"
  by (simp add: DetermineCurrentState_def begin_rollback_def Let_def)

lemma flags_ok_conditions [simp]: "flags_ok (st\<lparr>ust_Conditions := c\<rparr>) = flags_ok st"
  by (simp add: flags_ok_def)

lemma flags_ok_updateCondition [simp]: "flags_ok (updateCondition E e st) = flags_ok st"
  by (simp add: updateCondition_def Let_def)

lemma run_machine_ok:
  assumes "flags_ok (u_Status u)"
  shows "wp (RunStateMachine E u) w (\<lambda>r w'. flags_ok (u_Status (fst r)) \<and> u_Spec (fst r) = u_Spec u \<and>
     ust_RetriedTimes (u_Status (fst r)) \<le> max (ust_RetriedTimes (u_Status u)) (us_MaxRetry (u_Spec u)) \<and>
     pass_path (ust_State (DetermineCurrentState u)) (ust_State (u_Status (fst r))))"
proof -
  define u1 where "u1 = u\<lparr>u_Status := DetermineCurrentState u\<rparr>"
  have path: "pass_path st st" for st by (simp add: pass_path_def)
  have det: "u_Status u1 = DetermineCurrentState u" by (simp add: u1_def)
  have u1: "flags_ok (u_Status u1)" "u_Spec u1 = u_Spec u" "ust_RetriedTimes (u_Status u1) = ust_RetriedTimes (u_Status u)"
    using determine_ok [OF assms] determine_retried by (simp_all add: u1_def)
  define u2 where "u2 = upgrade_status (\<lambda>st. st\<lparr>ust_Conditions := fe_RemoveStatusCondition E ''CheckingUpgrationState'' (ust_Conditions st)\<rparr>) u1"
  have loop: "wp (run_loop E loop_fuel (ust_State (u_Status u2))) \<lparr>fs_world = w1, fs_upgrade = u2, fs_milvus = m\<rparr>
      (loop_ok (ust_State (u_Status u2)) \<lparr>fs_world = w1, fs_upgrade = u2, fs_milvus = m\<rparr>)" for w1 m
  proof (rule run_loop_total)
    show "state_rank (ust_State (u_Status u2)) < loop_fuel"
      using state_rank_le [of "ust_State (u_Status u2)"] by (simp add: loop_fuel_def)
    show "flags_ok ((the_status \<lparr>fs_world = w1, fs_upgrade = u2, fs_milvus = m\<rparr>)\<lparr>ust_State := ust_State (u_Status u2)\<rparr>)"
      using u1(1) by (simp add: the_status_def u2_def upgrade_status_def)
  qed
  have tail: "flags_ok (u_Status (fs_upgrade s)) \<and> u_Spec (fs_upgrade s) = u_Spec u \<and>
        ust_RetriedTimes (u_Status (fs_upgrade s)) \<le> max (ust_RetriedTimes (u_Status u)) (us_MaxRetry (u_Spec u)) \<and>
        pass_path (ust_State (DetermineCurrentState u)) (ust_State (u_Status (fs_upgrade s)))"
    if "run_state (run_loop E loop_fuel (ust_State (u_Status u2))) \<lparr>fs_world = w1, fs_upgrade = u2, fs_milvus = m\<rparr> = (res, s)"
    for w1 m res s
    using wpD [OF loop that] u1 by (simp add: det [symmetric] loop_ok_def the_status_def u2_def upgrade_status_def)
  have any: "wp (cli_GetMilvus (fe_cli E) ns name) w Q" if "\<And>r w'. Q r w'" for ns name Q
    using that by (auto intro: wpI)
  show ?thesis
    unfolding RunStateMachine_def u1_def [symmetric] u2_def [symmetric] Let_def wp_state_bind
    using u1 path
    by (intro any)
      (auto dest!: tail simp: upgrade_status_def updateCondition_def Let_def det split: sum.splits option.splits prod.splits)
qed

section \<open>Reachable upgrades\<close>

definition zero_MilvusUpgradeStatus :: MilvusUpgradeStatus where
  "zero_MilvusUpgradeStatus = \<lparr>ust_State = UpgradeStatePending, ust_Conditions = [], ust_SourceImage = [],
     ust_MetaStorageChanged = False, ust_MetaBackuped = False, ust_IsRollbacking = False, ust_ReplicasBeforeUpgrade = None,
     ust_DeploymentGroupReplicasBeforeUpgrade = None, ust_BackupPVC = [], ust_RetriedTimes = 0\<rparr>"

text \<open>A fresh upgrade, a pass of the state machine with some environment, or an edit of the spec.\<close>

inductive upgrade_reachable :: "'w fsm_env set \<Rightarrow> MilvusUpgrade \<Rightarrow> bool" for Es where
  fresh: "u_Status u = zero_MilvusUpgradeStatus \<Longrightarrow> upgrade_reachable Es u"
| pass: "upgrade_reachable Es u \<Longrightarrow> E \<in> Es \<Longrightarrow> run_state (RunStateMachine E u) w = ((u', out), w') \<Longrightarrow> upgrade_reachable Es u'"
| edit: "upgrade_reachable Es u \<Longrightarrow> u_Status u' = u_Status u \<Longrightarrow> upgrade_reachable Es u'"

lemma reachable_flags: "upgrade_reachable Es u \<Longrightarrow> flags_ok (u_Status u)"
proof (induction rule: upgrade_reachable.induct)
  case (fresh u)
  then show ?case by (simp add: zero_MilvusUpgradeStatus_def flag_defs)
next
  case (pass u E w u' out w')
  from wpD [OF run_machine_ok [OF pass.IH] pass.hyps(3)] show ?case by simp
next
  case (edit u u')
  then show ?case by simp
qed

section \<open>Facts about single handlers\<close>

text \<open>The task pods of an upgrade, as \<open>handlePod\<close> lists them.\<close>

definition task_pod_succeeded :: "'w fsm_env \<Rightarrow> 'w fsm \<Rightarrow> string \<Rightarrow> bool" where
  "task_pod_succeeded E s kind =
     (case fst (run_state (cli_ListPods (fe_cli E) (om_Namespace (fs_upgrade s)) (task_labels (fs_upgrade s) kind)) (fs_world s)) of
        Inr (pod # _) \<Rightarrow> pod_Phase pod = ''Succeeded''
      | _ \<Rightarrow> False)"

definition no_task_pod :: "'w fsm_env \<Rightarrow> 'w fsm \<Rightarrow> string \<Rightarrow> bool" where
  "no_task_pod E s kind \<longleftrightarrow>
     fst (run_state (cli_ListPods (fe_cli E) (om_Namespace (fs_upgrade s)) (task_labels (fs_upgrade s) kind)) (fs_world s)) = Inr []"

lemma run_handlePod:
  "run_state (handlePod E kind a b c) s =
     (case run_state (cli_ListPods (fe_cli E) (om_Namespace (fs_upgrade s)) (task_labels (fs_upgrade s) kind)) (fs_world s) of
        (Inl e, w) \<Rightarrow> ((UpgradeStatePending, Some (Wrap e (''list pod for '' @ kind))), s\<lparr>fs_world := w\<rparr>)
      | (Inr items, w) \<Rightarrow> run_state (doOnPodPhase items a b c) (s\<lparr>fs_world := w\<rparr>))"
  by (cases "run_state (cli_ListPods (fe_cli E) (om_Namespace (fs_upgrade s)) (task_labels (fs_upgrade s) kind)) (fs_world s)")
    (auto simp: handlePod_def run_op_simps the_upgrade_def on_world_def split: sum.splits)

lemma run_next_unless: "run_state (next_unless st m) s = (r, s') \<Longrightarrow> r = (st, None) \<or> (\<exists>e. r = (UpgradeStatePending, Some e))"
  by (auto simp: next_unless_def split: prod.splits sum.splits)

lemma run_return_state [simp]: "run_state (return_state st) s = ((st, None), s)"
  by (simp add: return_state_def)

lemma handlePod_success:
  assumes "run_state (handlePod E kind a b c) s = ((st, None), s')" "st \<noteq> UpgradeStatePending"
    and "\<And>s1 s2. run_state a s1 \<noteq> ((st, None), s2)" "\<And>s1 s2. run_state c s1 \<noteq> ((st, None), s2)"
  shows "task_pod_succeeded E s kind"
  using assms
  by (auto simp: run_handlePod task_pod_succeeded_def doOnPodPhase_def split: prod.splits sum.splits list.splits if_splits)

lemma not_next_unless:
  "st \<noteq> UpgradeStatePending \<Longrightarrow> run_state (next_unless UpgradeStatePending m) s1 \<noteq> ((st, None), s2)"
  by (auto dest: run_next_unless)

lemma updating_meta_stuck:
  assumes "ust_MetaStorageChanged (the_status s)" "no_task_pod E s UpdateMetaKind"
  shows "\<exists>w. run_state (UpdatingMeta E) s =
     ((UpgradeStateUpdateMetaFailed, Some (Errorf ''cannot find update-meta pod'')), s\<lparr>fs_world := w\<rparr>)"
  using assms
  by (cases "run_state (cli_ListPods (fe_cli E) (om_Namespace (fs_upgrade s)) (task_labels (fs_upgrade s) UpdateMetaKind)) (fs_world s)")
    (auto simp: UpdatingMeta_def the_status_def no_task_pod_def run_handlePod doOnPodPhase_def State_Monad.get_def)

section \<open>Example environment\<close>

text \<open>Time stamps are written in unary, which is enough for the examples.\<close>

definition mem_ucli :: "mem UpgradeClient" where
  "mem_ucli = Client.extend mem_cli (UpgradeClient.fields
     (\<lambda>ns sel. mem_write (\<lambda>w. Some (w\<lparr>mem_pods := filter (\<lambda>p. \<not> (om_Namespace p = ns \<and> labels_match sel (om_Labels p))) (mem_pods w)\<rparr>)))
     (\<lambda>p. mem_write (\<lambda>w. Some (if find_object (om_Namespace p) (om_Name p) (mem_pods w) = None then w\<lparr>mem_pods := mem_pods w @ [p]\<rparr> else w)))
     (\<lambda>c. ret ()) (\<lambda>c. ret ()) (\<lambda>ns name. fail (KNotFound name)) (\<lambda>ns name a. fail (KNotFound name))
     (\<lambda>u. Inr \<lparr>or_Kind = ''MilvusUpgrade'', or_Name = om_Name u, or_UID = om_UID u, or_Controller = True\<rparr>)
     (\<lambda>ns name. fail (KNotFound name)) (\<lambda>u. ret ()))"

definition ex_env :: "mem fsm_env" where
  "ex_env = \<lparr>fe_x = std_x, fe_cli = mem_ucli, fe_now = 120 * 10 ^ 9, fe_parseTime = (\<lambda>s. Some (int (length s))),
     fe_formatTime = (\<lambda>t. ''t''), fe_SetStatusCondition = (\<lambda>c cs. c # filter (\<lambda>d. cd_Type d \<noteq> cd_Type c) cs),
     fe_RemoveStatusCondition = (\<lambda>t cs. filter (\<lambda>d. cd_Type d \<noteq> t) cs), fe_render = (\<lambda>c. Inr (mg_Command c))\<rparr>"

definition ex_upgrade :: MilvusUpgrade where
  "ex_upgrade = \<lparr>om_Name = ''up'', om_Namespace = ''ns'', om_UID = ''u1'', om_Generation = 1, om_Labels = fmempty,
     om_Annotations = fmempty, om_Finalizers = [], om_DeletionTimestamp = None, om_OwnerReferences = [],
     u_Spec = \<lparr>us_Operation = OperationUpgrade, us_Milvus = \<lparr>obr_Namespace = ''ns'', obr_Name = ''mc''\<rparr>,
       us_SourceVersion = ''2.1.4'', us_TargetVersion = ''2.2.0'', us_TargetImage = ''milvusdb/milvus:v2.2.0'',
       us_ToolImage = ''tool'', us_MaxRetry = 3, us_RollbackIfFailed = True, us_BackupPVC = []\<rparr>,
     u_Status = zero_MilvusUpgradeStatus\<rparr>"

definition with_state :: "MilvusUpgradeState \<Rightarrow> bool \<Rightarrow> MilvusUpgrade \<Rightarrow> MilvusUpgrade" where
  "with_state st changed u = u\<lparr>u_Status := (u_Status u)\<lparr>ust_State := st, ust_MetaBackuped := True, ust_MetaStorageChanged := changed\<rparr>\<rparr>"

lemma ex_reachable: "upgrade_reachable {ex_env} ex_upgrade"
  by (rule upgrade_reachable.fresh) (simp add: ex_upgrade_def)

definition ex_fsm :: "mem fsm" where
  "ex_fsm = \<lparr>fs_world = ex_world, fs_upgrade = ex_upgrade, fs_milvus = mem_milvus ex_world\<rparr>"

section \<open>Properties\<close>

text \<open>C4. The status of an upgrade, after any passes (with any client, clock and cluster) and edits of the
  spec: the metadata is never migrated without a backup, the new version is only started, and the
  upgrade only reported as succeeded, after backup and migration, and \<open>IsRollbacking\<close> tells
  exactly whether the state is one of the rollback.\<close>

theorem upgrade_status_invariant:
  assumes "upgrade_reachable Es u"
  shows "(ust_MetaStorageChanged (u_Status u) \<longrightarrow> ust_MetaBackuped (u_Status u)) \<and>
     (ust_State (u_Status u) \<in> {UpgradeStateNewVersionStarting, UpgradeStateSucceeded} \<longrightarrow>
        ust_MetaBackuped (u_Status u) \<and> ust_MetaStorageChanged (u_Status u)) \<and>
     (ust_IsRollbacking (u_Status u) \<longleftrightarrow> \<not> isStateIn (ust_State (u_Status u)) notRollbackStates)"
  using reachable_flags [OF assms]
  by (cases "ust_State (u_Status u)") (auto simp: flag_defs isStateIn_def notRollbackStates_def)

theorem upgrade_status_invariant_witness:
  "let u = fst (fst (run_state (RunStateMachine ex_env ex_upgrade) ex_world)) in
     upgrade_reachable {ex_env} u \<and> (ust_MetaStorageChanged (u_Status u) \<longrightarrow> ust_MetaBackuped (u_Status u))"
proof -
  have "upgrade_reachable {ex_env} (fst (fst (run_state (RunStateMachine ex_env ex_upgrade) ex_world)))"
    by (rule upgrade_reachable.pass [OF ex_reachable, of ex_env ex_world]) (auto simp: prod_eq_iff)
  with upgrade_status_invariant [OF this] show ?thesis by (simp add: Let_def)
qed

text \<open>C17. The loop of \<open>RunStateMachine\<close> ends: on an upgrade the operator can meet, nine iterations are
  enough to return, and more fuel gives the same result.\<close>

theorem upgrade_run_terminates:
  assumes "upgrade_reachable Es u" "n \<ge> loop_fuel"
  shows "\<exists>out s'. run_state (run_loop E n (ust_State (DetermineCurrentState u)))
       \<lparr>fs_world = w, fs_upgrade = u\<lparr>u_Status := DetermineCurrentState u\<rparr>, fs_milvus = m\<rparr> = (Some out, s') \<and>
     run_state (run_loop E loop_fuel (ust_State (DetermineCurrentState u)))
       \<lparr>fs_world = w, fs_upgrade = u\<lparr>u_Status := DetermineCurrentState u\<rparr>, fs_milvus = m\<rparr> = (Some out, s')"
proof -
  let ?st = "ust_State (DetermineCurrentState u)"
  let ?s = "\<lparr>fs_world = w, fs_upgrade = u\<lparr>u_Status := DetermineCurrentState u\<rparr>, fs_milvus = m\<rparr>"
  have "flags_ok (DetermineCurrentState u)" using determine_ok reachable_flags [OF assms(1)] by blast
  then have "wp (run_loop E loop_fuel ?st) ?s (loop_ok ?st ?s)"
    using state_rank_le [of ?st] by (intro run_loop_total) (auto simp: loop_fuel_def the_status_def)
  then have "fst (run_state (run_loop E loop_fuel ?st) ?s) \<noteq> None"
    by (auto simp: wp_def loop_ok_def split: prod.splits)
  with fuel_mono [OF this assms(2)] show ?thesis by (metis option.exhaust surjective_pairing)
qed

theorem upgrade_run_terminates_witness:
  "\<exists>out s'. run_state (run_loop ex_env 20 (ust_State (DetermineCurrentState ex_upgrade)))
       \<lparr>fs_world = ex_world, fs_upgrade = ex_upgrade\<lparr>u_Status := DetermineCurrentState ex_upgrade\<rparr>, fs_milvus = mem_milvus ex_world\<rparr> = (Some out, s')"
  using upgrade_run_terminates [OF ex_reachable, of 20] by (fastforce simp: loop_fuel_def)

text \<open>C37. One pass moves the state along the declared transitions only, or from a failed backup back to
  the backup; it leaves the spec alone and retries at most \<open>MaxRetry\<close> times.\<close>

theorem upgrade_pass_follows_transitions:
  assumes "upgrade_reachable Es u" "run_state (RunStateMachine E u) w = ((u', out), w')"
  shows "pass_path (ust_State (DetermineCurrentState u)) (ust_State (u_Status u')) \<and> u_Spec u' = u_Spec u \<and>
     ust_RetriedTimes (u_Status u') \<le> max (ust_RetriedTimes (u_Status u)) (us_MaxRetry (u_Spec u))"
  using wpD [OF run_machine_ok [OF reachable_flags [OF assms(1)]] assms(2)] by simp

theorem upgrade_pass_follows_transitions_witness:
  "\<exists>u' out w'. run_state (RunStateMachine ex_env ex_upgrade) ex_world = ((u', out), w') \<and>
     pass_path UpgradeStateOldVersionStopping (ust_State (u_Status u'))"
proof -
  obtain u' out w' where r: "run_state (RunStateMachine ex_env ex_upgrade) ex_world = ((u', out), w')" by (metis surj_pair)
  have "ust_State (DetermineCurrentState ex_upgrade) = UpgradeStateOldVersionStopping" by code_simp
  with r upgrade_pass_follows_transitions [OF ex_reachable r] show ?thesis by auto
qed

text \<open>The task pod a metadata step waits for, and the state it leads to.\<close>

fun meta_task :: "MilvusUpgradeState \<Rightarrow> (string \<times> MilvusUpgradeState) option" where
  "meta_task UpgradeStateBackupMeta = Some (BackupMetaKind, UpgradeStateUpdatingMeta)"
| "meta_task UpgradeStateUpdatingMeta = Some (UpdateMetaKind, UpgradeStateNewVersionStarting)"
| "meta_task UpgradeStateRollbackRestoringOldMeta = Some (RollbackMetaKind, UpgradeStateRollbackOldVersionStarting)"
| "meta_task _ = None"

text \<open>C16. A metadata step is left towards the next one only when its task pod is listed with phase
  \<open>Succeeded\<close>.  For the restore in a rollback this holds as soon as the metadata was changed: the old
  version is never started again on metadata that was migrated and not restored.\<close>

theorem meta_step_needs_succeeded_pod:
  assumes "upgrade_reachable Es (fs_upgrade s)" "stateFuncMap E cur = Handler f" "meta_task cur = Some (kind, succ)"
    and "cur = UpgradeStateRollbackRestoringOldMeta \<longrightarrow> ust_MetaStorageChanged (the_status s)"
    and "run_state f s = ((succ, None), s')"
  shows "task_pod_succeeded E s kind"
proof -
  have bak: "cur = UpgradeStateRollbackRestoringOldMeta \<longrightarrow> ust_MetaBackuped (u_Status (fs_upgrade s))"
    using assms(4) reachable_flags [OF assms(1)] by (auto simp: flags_ok_def the_status_def)
  have pod: "task_pod_succeeded E s k" if "run_state (handlePod E k a b c) s = ((succ, None), s')"
    "\<And>s1 s2. run_state a s1 \<noteq> ((succ, None), s2)" "\<And>s1 s2. run_state c s1 \<noteq> ((succ, None), s2)" "succ \<noteq> UpgradeStatePending" for k a b c
    using handlePod_success that by metis
  have m: "k = kind" if "meta_task cur = Some (k, t)" for k t using that assms(3) by simp
  show ?thesis
    using assms(2,3,5) bak
    by (cases cur) (auto simp: stateFuncMap_def BackupMeta_def UpdatingMeta_def RollbackRestoringOldMeta_def
        State_Monad.get_def not_next_unless split: if_splits intro!: pod dest: run_next_unless)
qed

text \<open>C38. The update of the metadata wedges on a lost pod: when \<open>MetaStorageChanged\<close> is already set and
  no update-meta pod is listed, a pass reports an error and changes nothing but the conditions.  The
  next state \<open>UpdateMetaFailed\<close>, which would start the rollback, is dropped with the error, so the
  pass repeats as long as the pod is missing.\<close>

theorem lost_update_pod_wedges:
  assumes "ust_State (u_Status u) = UpgradeStateUpdatingMeta" "ust_MetaStorageChanged (u_Status u)"
    and "\<not> ust_IsRollbacking (u_Status u)" "us_Operation (u_Spec u) \<noteq> OperationRollback"
    and "run_state (cli_GetMilvus (fe_cli E) (obr_Namespace (us_Milvus (u_Spec u))) (obr_Name (us_Milvus (u_Spec u)))) w = (Inr m, w1)"
    and "fst (run_state (cli_ListPods (fe_cli E) (om_Namespace u) (task_labels u UpdateMetaKind)) w1) = Inr []"
  shows "\<exists>conds w'. run_state (RunStateMachine E u) w =
     ((u\<lparr>u_Status := (u_Status u)\<lparr>ust_Conditions := conds\<rparr>\<rparr>, Inl (Errorf ''cannot find update-meta pod'')), w')"
proof -
  have det: "DetermineCurrentState u = u_Status u"
    using assms(1,3,4) by (simp add: DetermineCurrentState_def)
  define u2 where "u2 = upgrade_status (\<lambda>st. st\<lparr>ust_Conditions := fe_RemoveStatusCondition E ''CheckingUpgrationState'' (ust_Conditions st)\<rparr>) u"
  define s where "s = \<lparr>fs_world = w1, fs_upgrade = u2, fs_milvus = m\<rparr>"
  have same: "task_labels u2 UpdateMetaKind = task_labels u UpdateMetaKind" "om_Namespace u2 = om_Namespace u"
    by (simp_all add: u2_def upgrade_status_def task_labels_def)
  have st: "run_state (set_state UpgradeStateUpdatingMeta) s = (Inr (), s)"
    using assms(1) by (simp add: set_state_def upd_status_def s_def u2_def upgrade_status_def)
  obtain w2 where "run_state (UpdatingMeta E) s =
      ((UpgradeStateUpdateMetaFailed, Some (Errorf ''cannot find update-meta pod'')), s\<lparr>fs_world := w2\<rparr>)"
    using updating_meta_stuck [of s E] assms(2,6) same
    by (auto simp: s_def the_status_def no_task_pod_def u2_def upgrade_status_def)
  then have "run_state (run_loop E loop_fuel UpgradeStateUpdatingMeta) s =
      (Some (Inl (Errorf ''cannot find update-meta pod''), Some (Errorf ''cannot find update-meta pod'')), s\<lparr>fs_world := w2\<rparr>)"
    using st by (simp add: loop_fuel_def numeral_eq_Suc stateFuncMap_def)
  then show ?thesis
    using assms(1,5) det
    by (auto simp: RunStateMachine_def Let_def s_def u2_def upgrade_status_def updateCondition_def)
qed

theorem lost_update_pod_wedges_witness:
  "\<exists>conds w'. run_state (RunStateMachine ex_env (with_state UpgradeStateUpdatingMeta True ex_upgrade)) ex_world =
     (((with_state UpgradeStateUpdatingMeta True ex_upgrade)\<lparr>u_Status :=
         (u_Status (with_state UpgradeStateUpdatingMeta True ex_upgrade))\<lparr>ust_Conditions := conds\<rparr>\<rparr>,
       Inl (Errorf ''cannot find update-meta pod'')), w')"
  by (rule lost_update_pod_wedges [where m = "mem_milvus ex_world" and ?w1.0 = ex_world]; code_simp)

definition ex_backup_done :: "mem fsm" where
  "ex_backup_done = ex_fsm\<lparr>fs_world := ex_world\<lparr>mem_pods :=
     [(task_pod ex_upgrade \<lparr>tc_Command = ''backup'', tc_Kind = BackupMetaKind\<rparr>)\<lparr>pod_Phase := ''Succeeded''\<rparr>]\<rparr>\<rparr>"

theorem meta_step_needs_succeeded_pod_witness: "task_pod_succeeded ex_env ex_backup_done BackupMetaKind"
proof (rule meta_step_needs_succeeded_pod)
  show "upgrade_reachable {ex_env} (fs_upgrade ex_backup_done)"
    using ex_reachable by (simp add: ex_backup_done_def ex_fsm_def)
  show "stateFuncMap ex_env UpgradeStateBackupMeta = Handler (BackupMeta ex_env)" by (simp add: stateFuncMap_def)
  have "fst (run_state (BackupMeta ex_env) ex_backup_done) = (UpgradeStateUpdatingMeta, None)" by code_simp
  then show "run_state (BackupMeta ex_env) ex_backup_done = ((UpgradeStateUpdatingMeta, None), snd (run_state (BackupMeta ex_env) ex_backup_done))"
    by (simp add: prod_eq_iff)
qed simp_all

text \<open>C15. An upgrade gives back what it took: when the stop has been requested with the snapshot taken, and
  the new version is started later, every configured workload (a component, or one of the deployment
  groups of a component) has zero replicas in between and its replicas from before the upgrade
  afterwards (one when they were unset), and the image is the target's.  The names of the groups of a
  component are distinct, and the component is still one of Milvus with the target image.\<close>

theorem upgrade_restores_replicas:
  assumes "\<not> isMilvusStopping (fe_x E) (fs_milvus s)"
    and "ust_ReplicasBeforeUpgrade (the_status s) = None" "ust_DeploymentGroupReplicasBeforeUpgrade (the_status s) = None"
    and names: "\<And>d. distinct (map dg_Name (GetDeploymentGroups d (m_Spec (fs_milvus s))))"
    and stop: "run_state (OldVersionStopping E) s = ((UpgradeStatePending, None), s1)"
    and start: "run_state (StartingMilvusNewVersion E) (s1\<lparr>fs_world := w\<rparr>) = ((UpgradeStateSucceeded, None), s2)"
    and c: "c \<in> set (GetComponentWorkloadsBySpec (fe_x E) (m_Spec (fs_milvus s)))" "configured c (fs_milvus s)"
    and kept: "c\<lparr>mcp_DeploymentGroup := None\<rparr> \<in> set (GetComponentsBySpec (fe_x E)
        (m_Spec (set_image (us_TargetImage (u_Spec (fs_upgrade s))) (fs_milvus s1))))"
    and r: "ReplicasValue (GetReplicas c (m_Spec (fs_milvus s))) = r" "int32_range r"
  shows "workload_replicas c (m_Spec (fs_milvus s1)) = Some 0 \<and> workload_replicas c (m_Spec (fs_milvus s2)) = Some r \<and>
     cs_Image (ms_Com (m_Spec (fs_milvus s2))) = us_TargetImage (u_Spec (fs_upgrade s))"
proof -
  define ws where "ws = GetComponentWorkloadsBySpec (fe_x E) (m_Spec (fs_milvus s))"
  define zero where "zero = fold (set_replicas_or_ignore 0) ws (fs_milvus s)"
  define st where "st = recorded_status_of (m_Spec (fs_milvus s)) ws (the_status s)"
  define m where "m = set_image (us_TargetImage (u_Spec (fs_upgrade s))) (fs_milvus s1)"
  define ws' where "ws' = GetComponentWorkloadsBySpec (fe_x E) (m_Spec m)"
  obtain i where s1: "the_status s1 = st\<lparr>ust_SourceImage := i\<rparr>" "u_Spec (fs_upgrade s1) = u_Spec (fs_upgrade s)"
    "m_Spec (fs_milvus s1) = m_Spec zero"
    using wpD [OF wp_record_and_stop [OF assms(1-3)] stop] by (auto simp: zero_def st_def ws_def)
  have kn: "\<forall>d \<in> set ws. known d" "\<forall>d \<in> set ws'. known d" "known c"
    using workload_known c(1) unfolding ws_def ws'_def by blast+
  have zn: "map dg_Name (GetDeploymentGroups d (m_Spec m)) = map dg_Name (GetDeploymentGroups d (m_Spec (fs_milvus s)))" for d
    using fold_put_frame(2) [OF kn(1), of d "\<lambda>_. 0" "fs_milvus s"] by (simp add: m_def zero_def s1(3))
  have dist: "distinct (map workload_key ws)" "distinct (map workload_key ws')"
    using workload_keys_distinct names zn unfolding ws_def ws'_def by metis+
  have has: "has_workload c (fs_milvus s)" using workload_has c by (simp add: ws_def)
  from workload_kept [OF c(1) kept [folded m_def] zn] obtain c' where c': "c' \<in> set ws'" "workload_key c' = workload_key c"
    unfolding ws'_def by blast
  have "snapshot_count c st = Some r"
    using snapshot.get_fold [OF kn(1) dist(1), where f = "\<lambda>c. ReplicasValue (GetReplicas c (m_Spec (fs_milvus s)))" and c = c] c(1) r
    by (simp add: st_def recorded_status_of_def ws_def recording_def)
  then have snap: "snapshot_count c' (the_status s1) = Some r"
    using snapshot_count_key [OF _ kn(3) c'(2)] kn(2) c'(1) by (simp add: s1)
  obtain reps where reps: "ust_ReplicasBeforeUpgrade (the_status s1) = Some reps"
    using snapshot.has_fold [OF kn(1,3), of "\<lambda>c. ReplicasValue (GetReplicas c (m_Spec (fs_milvus s)))"
      "(the_status s)\<lparr>ust_ReplicasBeforeUpgrade := Some zero_MilvusReplicas, ust_DeploymentGroupReplicasBeforeUpgrade := Some fmempty\<rparr>"]
    by (auto simp: s1 st_def recorded_status_of_def recording_def)
  have "wp (StartingMilvusNewVersion E) (s1\<lparr>fs_world := w\<rparr>) (\<lambda>r s'. r = (UpgradeStateSucceeded, None) \<longrightarrow>
      m_Spec (fs_milvus s') = m_Spec (restored (the_status s1) reps ws' m))"
    using reps s1(2) by (auto simp: StartingMilvusNewVersion_def wp_next_unless m_def [symmetric] ws'_def the_status_def
        intro!: wp_startMilvus [where reps = reps])
  from wpD [OF this start] have s2: "m_Spec (fs_milvus s2) = m_Spec (restored (the_status s1) reps ws' m)" by simp
  have "configured c zero" using spec_replicas.has_fold [OF kn(1,3), of "\<lambda>_. 0" "fs_milvus s"] has by (simp add: zero_def has_workload_def)
  then have "configured c' m" using c'(2) s1(3) by (simp add: configured_def m_def set_image_def workload_key_def)
  then have "has_workload c' m" using workload_has c'(1) by (simp add: ws'_def)
  then have "workload_replicas c' (m_Spec (fs_milvus s2)) = Some (the (recorded_replicas (the_status s1) reps c'))"
    unfolding s2 restored_def by (rule spec_replicas.get_fold [OF kn(2) dist(2) c'(1)])
  then have given: "workload_replicas c (m_Spec (fs_milvus s2)) = Some r"
    using workload_replicas_key [OF _ kn(3) c'(2)] kn(2) c'(1) recorded_snapshot [OF reps snap r(2)] by simp
  show ?thesis
    using given spec_replicas.get_fold [OF kn(1) dist(1) c(1) [folded ws_def] has, of "\<lambda>_. 0"]
      fold_put_frame(3) [OF kn(2), of "\<lambda>c. the (recorded_replicas (the_status s1) reps c)" m]
    by (simp add: s2 s1(3) zero_def restored_def) (simp add: m_def set_image_def)
qed

definition ex_group :: "string \<Rightarrow> int option \<Rightarrow> DeploymentGroup" where
  "ex_group name n = \<lparr>dg_Name = name, dg_Replicas = n, dg_Labels = fmempty, dg_Annotations = fmempty, dg_ExtraEnv = [],
     dg_NodeSelector = None, dg_Affinity = None, dg_Tolerations = None, dg_TopologySpreadConstraints = None\<rparr>"

definition ex_grouped :: Milvus where
  "ex_grouped = ex_milvus\<lparr>m_Spec := (m_Spec ex_milvus)\<lparr>ms_Com := (ms_Com (m_Spec ex_milvus))
     \<lparr>com_QueryNode := Some (ex_querynode\<lparr>qn_Groups := [ex_group ''a'' (Some 2), ex_group ''b'' None]\<rparr>)\<rparr>\<rparr>\<rparr>"

definition ex_fsm_grouped :: "mem fsm" where
  "ex_fsm_grouped = \<lparr>fs_world = ex_world\<lparr>mem_milvus := ex_grouped\<rparr>, fs_upgrade = ex_upgrade, fs_milvus = ex_grouped\<rparr>"

definition ex_stopped :: Milvus where
  "ex_stopped = mark_upgrade_stopping (fold (set_replicas_or_ignore 0) (GetComponentWorkloadsBySpec std_x (m_Spec ex_grouped)) ex_grouped)"

definition ex_fsm_stopped :: "mem fsm" where
  "ex_fsm_stopped = \<lparr>fs_world = ex_world\<lparr>mem_milvus := ex_stopped\<rparr>,
     fs_upgrade = ex_upgrade\<lparr>u_Status := recordOldInfo std_x ex_grouped zero_MilvusUpgradeStatus\<rparr>, fs_milvus = ex_stopped\<rparr>"

lemma ex_stop_run: "run_state (OldVersionStopping ex_env) ex_fsm_grouped = ((UpgradeStatePending, None), ex_fsm_stopped)"
proof (rule run_OldVersionStopping)
  show "\<not> isMilvusStopping (fe_x ex_env) (fs_milvus ex_fsm_grouped)" by code_simp
  have up: "run_state (cli_UpdateMilvus (fe_cli ex_env) ex_stopped) (ex_world\<lparr>mem_milvus := ex_grouped\<rparr>) = (Inr (), ex_world\<lparr>mem_milvus := ex_stopped\<rparr>)"
    by (simp add: ex_env_def mem_ucli_def mem_cli_def Client.defs find_object_def ex_stopped_def mark_upgrade_stopping_def)
  have none: "find (\<lambda>c. GetReplicas c (m_Spec ex_grouped) = Some (-1)) (GetComponentWorkloadsBySpec std_x (m_Spec ex_grouped)) = None"
    "om_OwnerReferences ex_grouped = []" by code_simp+
  show "run_state (stopMilvus ex_env) (ex_fsm_grouped\<lparr>fs_upgrade := (fs_upgrade ex_fsm_grouped)
      \<lparr>u_Status := recordOldInfo (fe_x ex_env) (fs_milvus ex_fsm_grouped) (u_Status (fs_upgrade ex_fsm_grouped))\<rparr>\<rparr>) = (Inr (), ex_fsm_stopped)"
    using up none
    by (subst run_stopMilvus [where m' = ex_stopped and w' = "ex_world\<lparr>mem_milvus := ex_stopped\<rparr>"])
      (simp_all add: ex_fsm_grouped_def ex_env_def ex_stopped_def ex_fsm_stopped_def ex_upgrade_def)
qed

lemma ex_start_run: "fst (run_state (StartingMilvusNewVersion ex_env) ex_fsm_stopped) = (UpgradeStateSucceeded, None)"
proof (intro run_StartingMilvusNewVersion run_startMilvus)
  let ?s = "ex_fsm_stopped\<lparr>fs_milvus := set_image (us_TargetImage (u_Spec (fs_upgrade ex_fsm_stopped))) (fs_milvus ex_fsm_stopped)\<rparr>"
  show "fst (run_state (cli_UpdateMilvus (fe_cli ex_env) m') (fs_world ?s)) = Inr ()"
    if "om_Name m' = om_Name (fs_milvus ?s)" "om_Namespace m' = om_Namespace (fs_milvus ?s)" for m'
    using that by (simp add: ex_env_def mem_ucli_def mem_cli_def Client.defs find_object_def ex_fsm_stopped_def set_image_def)
  show "ust_ReplicasBeforeUpgrade (the_status ?s) = Some (the (ust_ReplicasBeforeUpgrade (the_status ?s)))" by code_simp
qed (code_simp+)

theorem upgrade_restores_replicas_witness:
  "\<exists>s2. run_state (StartingMilvusNewVersion ex_env) ex_fsm_stopped = ((UpgradeStateSucceeded, None), s2) \<and>
     group_count ''a'' (GetDeploymentGroups QueryNode (m_Spec (fs_milvus s2))) = Some 2"
proof -
  obtain s2 where s2: "run_state (StartingMilvusNewVersion ex_env) ex_fsm_stopped = ((UpgradeStateSucceeded, None), s2)"
    using ex_start_run by (metis prod.collapse)
  define c where "c = QueryNode\<lparr>mcp_DeploymentGroup := Some (ex_group ''a'' (Some 2))\<rparr>"
  have "workload_replicas c (m_Spec (fs_milvus ex_fsm_stopped)) = Some 0 \<and> workload_replicas c (m_Spec (fs_milvus s2)) = Some 2 \<and>
      cs_Image (ms_Com (m_Spec (fs_milvus s2))) = us_TargetImage (u_Spec (fs_upgrade ex_fsm_grouped))"
  proof (rule upgrade_restores_replicas [OF _ _ _ _ ex_stop_run])
    have "com_Proxy (ms_Com (m_Spec ex_grouped)) = None" "com_DataNode (ms_Com (m_Spec ex_grouped)) = None"
      "com_StreamingNode (ms_Com (m_Spec ex_grouped)) = None" by code_simp+
    then show "distinct (map dg_Name (GetDeploymentGroups d (m_Spec (fs_milvus ex_fsm_grouped))))" for d
      by (simp add: GetDeploymentGroups_def Let_def ex_fsm_grouped_def) (simp add: ex_grouped_def ex_group_def)
    show "run_state (StartingMilvusNewVersion ex_env) (ex_fsm_stopped\<lparr>fs_world := fs_world ex_fsm_stopped\<rparr>) = ((UpgradeStateSucceeded, None), s2)"
      using s2 by simp
  qed (unfold c_def, code_simp+)
  with s2 show ?thesis by (auto simp: workload_replicas_def c_def ex_group_def)
qed

text \<open>A workload whose replicas are managed from outside (replicas of -1) is never stopped by an
  upgrade: \<open>stopMilvus\<close> then fails before any write, and the Milvus object in memory is untouched.\<close>

theorem stop_refuses_external_workload:
  assumes "c \<in> set (GetComponentWorkloadsBySpec (fe_x E) (m_Spec (fs_milvus s)))" "GetReplicas c (m_Spec (fs_milvus s)) = Some (-1)"
  shows "\<exists>name. run_state (stopMilvus E) s = (Inl (Errorf (''cannot stop externally managed workload '' @ name)), s)"
proof -
  obtain d where "find (\<lambda>c. GetReplicas c (m_Spec (fs_milvus s)) = Some (-1)) (GetComponentWorkloadsBySpec (fe_x E) (m_Spec (fs_milvus s))) = Some d"
    using assms by (metis (mono_tags, lifting) find_None_iff not_Some_eq)
  then show ?thesis by (simp add: stopMilvus_def run_op_simps the_milvus_def Let_def)
qed

definition ex_external :: "mem fsm" where
  "ex_external = ex_fsm\<lparr>fs_milvus := set_replicas_or_ignore (-1) QueryNode (mem_milvus ex_world)\<rparr>"

theorem stop_refuses_external_workload_witness:
  "\<exists>name. run_state (stopMilvus ex_env) ex_external = (Inl (Errorf (''cannot stop externally managed workload '' @ name)), ex_external)"
  by (rule stop_refuses_external_workload [where c = QueryNode]; code_simp)

text \<open>The stop mark is honest: \<open>isMilvusStopped\<close> puts it on the Milvus object only after listing the
  Deployments of the instance and finding each of them observed by the controller, scaled to zero and
  without pods; in that pass it does not yet report Milvus as stopped.\<close>

lemma stop_mark_needs_drained_deployments:
  assumes "run_state (isMilvusStopped E) s = (r, s')"
    and "\<not> isStoppedByAnnotation (fs_milvus s)" "isStoppedByAnnotation (fs_milvus s')"
  shows "(\<exists>ds w. run_state (cli_ListDeployments (fe_cli E) (om_Namespace (fs_milvus s))
          (fmap_of_list [(AppLabelInstance, om_Name (fs_milvus s))])) (fs_world s) = (Inr ds, w) \<and>
        (\<forall>d \<in> set ds. dst_ObservedGeneration (d_Status d) \<ge> om_Generation d \<and> dst_Replicas (d_Status d) \<le> 0 \<and>
           (\<exists>n. d_Replicas d = Some n \<and> n \<le> 0))) \<and> r \<noteq> Inr True"
proof (cases "run_state (cli_ListDeployments (fe_cli E) (om_Namespace (fs_milvus s))
          (fmap_of_list [(AppLabelInstance, om_Name (fs_milvus s))])) (fs_world s)")
  case (Pair res w)
  then obtain ds where ds: "res = Inr ds" "list_all deployment_stopped ds"
    using assms by (cases res) (auto simp: isMilvusStopped_def run_op_simps the_milvus_def listAllDeployments_def on_world_def wrap_def split: if_splits)
  moreover have "r \<noteq> Inr True"
    using assms ds Pair by (auto simp: isMilvusStopped_def run_op_simps the_milvus_def listAllDeployments_def on_world_def wrap_def
        split: prod.splits sum.splits)
  moreover have "dst_ObservedGeneration (d_Status d) \<ge> om_Generation d \<and> dst_Replicas (d_Status d) \<le> 0 \<and>
           (\<exists>n. d_Replicas d = Some n \<and> n \<le> 0)" if "d \<in> set ds" for d
    using ds(2) that by (auto simp: list_all_iff deployment_stopped_def split: option.splits)
  ultimately show ?thesis using Pair by auto
qed

lemma set_replicas_annotations [simp]: "om_Annotations (set_replicas_or_ignore n c m) = om_Annotations m"
  by (simp add: set_replicas_or_ignore_def split: sum.splits)

lemma fold_set_annotations [simp]: "om_Annotations (fold (\<lambda>c. set_replicas_or_ignore (f c) c) cs m) = om_Annotations m"
  by (induction cs arbitrary: m) auto

lemma stop_sets_no_mark: "wp (stopMilvus E) s (\<lambda>r s'. isStoppedByAnnotation (fs_milvus s') = isStoppedByAnnotation (fs_milvus s))"
  by (rule wp_stopMilvus) (simp_all add: isStoppedByAnnotation_def mark_upgrade_stopping_def key_defs)

lemma stop_handler_sets_no_mark:
  "wp (next_unless UpgradeStatePending (op_wrap msg (stopMilvus E))) s (\<lambda>r s'. isStoppedByAnnotation (fs_milvus s') = isStoppedByAnnotation (fs_milvus s))"
  "wp (next_unless UpgradeStatePending (op_bind (upd_status g) (\<lambda>_. op_wrap msg (stopMilvus E)))) s
     (\<lambda>r s'. isStoppedByAnnotation (fs_milvus s') = isStoppedByAnnotation (fs_milvus s))"
proof -
  show one: "wp (next_unless UpgradeStatePending (op_wrap msg (stopMilvus E))) s
      (\<lambda>r s'. isStoppedByAnnotation (fs_milvus s') = isStoppedByAnnotation (fs_milvus s))" for s
    unfolding wp_next_unless wp_wrap by (rule wp_mono [OF stop_sets_no_mark]) (simp split: sum.splits)
  show "wp (next_unless UpgradeStatePending (op_bind (upd_status g) (\<lambda>_. op_wrap msg (stopMilvus E)))) s
     (\<lambda>r s'. isStoppedByAnnotation (fs_milvus s') = isStoppedByAnnotation (fs_milvus s))"
    using one [of "s\<lparr>fs_upgrade := (fs_upgrade s)\<lparr>u_Status := g (u_Status (fs_upgrade s))\<rparr>\<rparr>"]
    by (simp add: wp_next_unless)
qed

text \<open>C36. No metadata is touched while Milvus may be running.  First, an upgrade or a rollback leaves its stopping
  state only when every workload is at zero replicas in the spec (one with an autoscaler only in a stop the upgrade
  asked for), and the stop mark is set; if the time of the mark can be read, it is more than a minute ago (a mark without a readable time passes).
  Second, these states set the mark only after they listed the Deployments of the instance and found each of
  them observed by the controller, scaled to zero and reporting no replicas, and they stay where they are in that pass.\<close>

theorem meta_work_waits_for_stop:
  assumes "cur = UpgradeStateOldVersionStopping \<or> cur = UpgradeStateRollbackNewVersionStopping"
    and "stateFuncMap E cur = Handler f" "run_state f s = ((t, err), s')"
  shows "(err = None \<and> t \<noteq> UpgradeStatePending \<longrightarrow>
      (\<forall>c \<in> set (GetComponentWorkloadsBySpec (fe_x E) (m_Spec (fs_milvus s))). GetReplicas c (m_Spec (fs_milvus s)) = Some 0 \<and>
         (IsHPAEnabled c (m_Spec (fs_milvus s)) \<longrightarrow> isUpgradeStopping (fs_milvus s))) \<and>
      isStoppedByAnnotation (fs_milvus s) \<and>
      (\<forall>since. fe_parseTime E (fmget (om_Annotations (fs_milvus s)) StoppedAtAnnotation) = Some since \<longrightarrow> fe_now E - since > time_Minute)) \<and>
    (\<not> isStoppedByAnnotation (fs_milvus s) \<and> isStoppedByAnnotation (fs_milvus s') \<longrightarrow> t = UpgradeStatePending \<and>
      (\<exists>ds w. run_state (cli_ListDeployments (fe_cli E) (om_Namespace (fs_milvus s))
          (fmap_of_list [(AppLabelInstance, om_Name (fs_milvus s))])) (fs_world s) = (Inr ds, w) \<and>
        (\<forall>d \<in> set ds. dst_ObservedGeneration (d_Status d) \<ge> om_Generation d \<and> dst_Replicas (d_Status d) \<le> 0 \<and>
           (\<exists>n. d_Replicas d = Some n \<and> n \<le> 0))))" (is "?leave \<and> ?mark")
proof (cases "isMilvusStopping (fe_x E) (fs_milvus s)")
  case True
  then obtain nxt where "run_state (wait_stopped E nxt) s = ((t, err), s')"
    using assms by (auto simp: stateFuncMap_def OldVersionStopping_def RollbackNewVersionStopping_def State_Monad.get_def)
  then obtain r where r: "run_state (isMilvusStopped E) s = (r, s')"
      "(t, err) = (case wrap ''check milvus is stopped'' r of Inl e \<Rightarrow> (UpgradeStatePending, Some e) | Inr b \<Rightarrow> (if b then nxt else UpgradeStatePending, None))"
    by (auto simp: wait_stopped_def run_op_simps return_state_def split: prod.splits sum.splits)
  have ?leave
  proof (intro impI)
    assume "err = None \<and> t \<noteq> UpgradeStatePending"
    with r(2) have "r = Inr True" by (auto simp: wrap_def split: sum.splits if_splits)
    with r(1) have "isStoppedByAnnotation (fs_milvus s) \<and> isComponentsDeregistered E (fs_milvus s)"
      by (auto simp: run_op_simps isMilvusStopped_def the_milvus_def split: if_splits prod.splits sum.splits)
    with True show "(\<forall>c \<in> set (GetComponentWorkloadsBySpec (fe_x E) (m_Spec (fs_milvus s))). GetReplicas c (m_Spec (fs_milvus s)) = Some 0 \<and>
         (IsHPAEnabled c (m_Spec (fs_milvus s)) \<longrightarrow> isUpgradeStopping (fs_milvus s))) \<and>
      isStoppedByAnnotation (fs_milvus s) \<and>
      (\<forall>since. fe_parseTime E (fmget (om_Annotations (fs_milvus s)) StoppedAtAnnotation) = Some since \<longrightarrow> fe_now E - since > time_Minute)"
      by (auto simp: isMilvusStopping_def list_all_iff isComponentsDeregistered_def)
  qed
  moreover have "t = UpgradeStatePending" if "r \<noteq> Inr True" using r(2) that by (auto simp: wrap_def split: sum.splits)
  ultimately show ?thesis using stop_mark_needs_drained_deployments [OF r(1)] by blast
next
  case False
  then have "run_state (next_unless UpgradeStatePending (op_bind (upd_status (recordOldInfo (fe_x E) (fs_milvus s))) (\<lambda>_. op_wrap ''stop milvus'' (stopMilvus E)))) s = ((t, err), s') \<or>
      run_state (next_unless UpgradeStatePending (op_wrap ''stop milvus'' (stopMilvus E))) s = ((t, err), s')"
    using assms by (auto simp: stateFuncMap_def OldVersionStopping_def RollbackNewVersionStopping_def State_Monad.get_def)
  moreover from this have "t = UpgradeStatePending" by (auto dest!: run_next_unless)
  ultimately show ?thesis using wpD [OF stop_handler_sets_no_mark(1)] wpD [OF stop_handler_sets_no_mark(2)] by blast
qed

definition ex_standalone :: "int \<Rightarrow> Milvus" where
  "ex_standalone n = ex_milvus\<lparr>m_Spec := zero_MilvusSpec\<lparr>ms_Mode := MilvusModeStandalone,
     ms_Com := zero_MilvusComponents\<lparr>cs_Image := ''milvusdb/milvus:v2.1.4'',
       com_Standalone := Some ((ServiceComponent.truncate zero_MilvusProxy)\<lparr>co_Replicas := Some n\<rparr>)\<rparr>\<rparr>\<rparr>"

definition ex_stopped_long_ago :: "mem fsm" where
  "ex_stopped_long_ago = ex_fsm\<lparr>fs_milvus := SetStoppedAtAnnotation ex_env 1 (ex_standalone 0)\<rparr>"

definition ex_drained :: "mem fsm" where
  "ex_drained = ex_fsm\<lparr>fs_milvus := ex_standalone 0,
     fs_world := ex_world\<lparr>mem_deps := [ex_deploy ''mc-milvus-standalone-0'' ''0'' 0], mem_milvus := ex_standalone 0\<rparr>\<rparr>"

theorem meta_work_waits_for_stop_witness:
  "GetReplicas MilvusStandalone (m_Spec (fs_milvus ex_stopped_long_ago)) = Some 0 \<and> isStoppedByAnnotation (fs_milvus ex_stopped_long_ago) \<and>
     fe_now ex_env - 1 > time_Minute \<and>
   (\<exists>ds w. run_state (cli_ListDeployments (fe_cli ex_env) (om_Namespace (fs_milvus ex_drained))
        (fmap_of_list [(AppLabelInstance, om_Name (fs_milvus ex_drained))])) (fs_world ex_drained) = (Inr ds, w) \<and>
      (\<forall>d \<in> set ds. dst_Replicas (d_Status d) \<le> 0))"
proof -
  have h: "UpgradeStateOldVersionStopping = UpgradeStateOldVersionStopping \<or> UpgradeStateOldVersionStopping = UpgradeStateRollbackNewVersionStopping"
    "stateFuncMap ex_env UpgradeStateOldVersionStopping = Handler (OldVersionStopping ex_env)" by (simp_all add: stateFuncMap_def)
  have run: "fst (run_state (OldVersionStopping ex_env) ex_stopped_long_ago) = (UpgradeStateBackupMeta, None)"
    "MilvusStandalone \<in> set (GetComponentWorkloadsBySpec (fe_x ex_env) (m_Spec (fs_milvus ex_stopped_long_ago)))"
    "fe_parseTime ex_env (fmget (om_Annotations (fs_milvus ex_stopped_long_ago)) StoppedAtAnnotation) = Some 1" by code_simp+
  have "run_state (OldVersionStopping ex_env) ex_stopped_long_ago =
      ((UpgradeStateBackupMeta, None), snd (run_state (OldVersionStopping ex_env) ex_stopped_long_ago))"
    using run by (simp add: prod_eq_iff)
  from meta_work_waits_for_stop [OF h this] run(2,3)
  have a: "GetReplicas MilvusStandalone (m_Spec (fs_milvus ex_stopped_long_ago)) = Some 0" "isStoppedByAnnotation (fs_milvus ex_stopped_long_ago)"
    "fe_now ex_env - 1 > time_Minute" by auto
  have "\<not> isStoppedByAnnotation (fs_milvus ex_drained)"
    "isStoppedByAnnotation (fs_milvus (snd (run_state (OldVersionStopping ex_env) ex_drained)))" by code_simp+
  moreover have "run_state (OldVersionStopping ex_env) ex_drained = ((fst (fst (run_state (OldVersionStopping ex_env) ex_drained)),
      snd (fst (run_state (OldVersionStopping ex_env) ex_drained))), snd (run_state (OldVersionStopping ex_env) ex_drained))" by simp
  ultimately have "\<exists>ds w. run_state (cli_ListDeployments (fe_cli ex_env) (om_Namespace (fs_milvus ex_drained))
        (fmap_of_list [(AppLabelInstance, om_Name (fs_milvus ex_drained))])) (fs_world ex_drained) = (Inr ds, w) \<and>
      (\<forall>d \<in> set ds. dst_Replicas (d_Status d) \<le> 0)"
    using conjunct2 [OF meta_work_waits_for_stop [OF h]] by blast
  with a show ?thesis by blast
qed

section \<open>A rollback without a snapshot\<close>




end
