(* ===== verification/Component_Correct.thy ===== *)
theory Component_Correct
  imports Upgrade_Safety
begin

text \<open>
  Properties of the components themselves: the order in which they are updated, how their settings are
  merged, the marks on the Milvus object, the conditions of the status, the stability check, and the
  replica counts in the spec.
\<close>

section \<open>Update order\<close>

text \<open>The order of an image update has no cycle, whatever the version, the coordinators and the
  direction: no component waits for itself, so a rolling upgrade or downgrade cannot deadlock on its
  own dependencies.\<close>

theorem update_order_acyclic: "(a, a) \<notin> {(p, q). q \<in> set (GetDependencies x p spec)}\<^sup>+"
proof
  let ?R = "{(p, q). q \<in> set (GetDependencies x p spec)}"
  let ?down = "com_ImageUpdateMode (ms_Com spec) = ImageUpdateModeRollingDowngrade"
  assume cyc: "(a, a) \<in> ?R\<^sup>+"
  obtain es where sel: "selected_graph x spec = add_all es" and g: "dep_graph (add_all es) (edge_rank es)"
    by (rule selected_graph_cases [of x spec])
  define r :: "MilvusComponent \<Rightarrow> int" where
    "r c = (if ?down then - int (edge_rank es (c\<lparr>mcp_DeploymentGroup := None\<rparr>)) else int (edge_rank es (c\<lparr>mcp_DeploymentGroup := None\<rparr>)))" for c
  have step: "r q < r p" if q: "q \<in> set (GetDependencies x p spec)" for p q
  proof (cases ?down)
    case True
    then have e: "p\<lparr>mcp_DeploymentGroup := None\<rparr> \<in> set (edges (dependencies (add_all es)) q)"
      using q sel dep_graph.inverse [OF g]
      by (auto simp: GetDependencies_def GetReversedDependencies_def graph_consistent_def split: if_splits)
    then show ?thesis
      using dep_graph.ranked [OF g e] dep_graph.ungrouped [OF g e] True by (simp add: r_def ungroup_id)
  next
    case False
    then have e: "q \<in> set (edges (dependencies (add_all es)) (p\<lparr>mcp_DeploymentGroup := None\<rparr>))"
      using q sel by (auto simp: GetDependencies_def GetDependencies_graph_def split: if_splits)
    then show ?thesis
      using dep_graph.ranked [OF g e] dep_graph.ungrouped [OF g e] False by (simp add: r_def ungroup_id)
  qed
  have "r q < r p" if "(p, q) \<in> ?R\<^sup>+" for p q
    using that by (induction rule: trancl_induct) (auto dest: step order.strict_trans)
  with cyc show False by blast
qed

text \<open>A downgrade waits in exactly the reverse order of an upgrade.\<close>

theorem downgrade_reverses_upgrade:
  assumes "mcp_DeploymentGroup a = None" "mcp_DeploymentGroup b = None"
    and "com_ImageUpdateMode (ms_Com up) \<noteq> ImageUpdateModeRollingDowngrade"
    and "down = up\<lparr>ms_Com := (ms_Com up)\<lparr>com_ImageUpdateMode := ImageUpdateModeRollingDowngrade\<rparr>\<rparr>"
  shows "a \<in> set (GetDependencies x b down) \<longleftrightarrow> b \<in> set (GetDependencies x a up)"
proof (rule selected_graph_cases [of x up])
  fix es assume sel: "selected_graph x up = add_all es" and g: "dep_graph (add_all es) (edge_rank es)"
  have "UseStreamingNode x down = UseStreamingNode x up"
    by (simp add: assms(4) UseStreamingNode_def IsVersionGreaterThan2_6_def split: option.split)
  then have "selected_graph x down = add_all es"
    using sel by (simp add: selected_graph_def Let_def assms(4) UseMixCoord_def)
  then show ?thesis
    using sel assms dep_graph.reversed_iff [OF g assms(1,2)] by (simp add: GetDependencies_def)
qed

theorem downgrade_reverses_upgrade_witness:
  "let up = m_Spec ex_milvus; down = up\<lparr>ms_Com := (ms_Com up)\<lparr>com_ImageUpdateMode := ImageUpdateModeRollingDowngrade\<rparr>\<rparr> in
     QueryNode \<in> set (GetDependencies std_x QueryCoord down) \<longleftrightarrow> QueryCoord \<in> set (GetDependencies std_x QueryNode up)"
  unfolding Let_def by (rule downgrade_reverses_upgrade; code_simp)

section \<open>Merging settings\<close>

text \<open>Merging environment variables: with distinct names on both sides the result has distinct names,
  every variable of the component overrides the one of the instance, and nothing else is lost.\<close>

theorem merge_env_overrides:
  assumes "distinct (map ev_Name src)" "distinct (map ev_Name dst)"
  shows "distinct (map ev_Name (MergeEnvVar src dst)) \<and>
     find (\<lambda>v. ev_Name v = n) (MergeEnvVar src dst) =
       (case find (\<lambda>v. ev_Name v = n) dst of Some v \<Rightarrow> Some v | None \<Rightarrow> find (\<lambda>v. ev_Name v = n) src)"
  using merge_by_distinct [OF assms] merge_by_find [OF assms, of n] by (simp add: MergeEnvVar_def)

definition ex_env_var :: "string \<Rightarrow> string \<Rightarrow> EnvVar" where
  "ex_env_var n v = (secret_env n [] [])\<lparr>ev_Value := v\<rparr>"

theorem merge_env_overrides_witness:
  "find (\<lambda>v. ev_Name v = ''A'') (MergeEnvVar [ex_env_var ''A'' ''1'', ex_env_var ''B'' ''2''] [ex_env_var ''A'' ''3'']) = Some (ex_env_var ''A'' ''3'')"
proof -
  have d: "distinct (map ev_Name [ex_env_var ''A'' ''1'', ex_env_var ''B'' ''2''])" "distinct (map ev_Name [ex_env_var ''A'' ''3''])"
    by code_simp+
  show ?thesis using merge_env_overrides [OF d, of "''A''"] by (simp add: ex_env_var_def secret_env_def)
qed

text \<open>Reconciling the labels of a Deployment settles after one pass: computing the desired labels from
  labels that are already the desired ones gives the same labels, the slot label included, so the
  controller does not keep updating the object; and the slot label is the requested slot.\<close>

theorem deployment_labels_settle:
  "desiredDeploymentLabels inst c slot (desiredDeploymentLabels inst c slot existing) = desiredDeploymentLabels inst c slot existing \<and>
   (slot \<noteq> [] \<longrightarrow> fmlookup (desiredDeploymentLabels inst c slot existing) (GetComponentGroupIdLabel (mcp_Name c)) = Some slot)"
  using desiredDeploymentLabels_idem by (simp add: desiredDeploymentLabels_def Let_def SetGroupIDStr_def)

theorem deployment_labels_settle_witness:
  "fmlookup (desiredDeploymentLabels ''mc'' QueryNode ''1'' fmempty) (GetComponentGroupIdLabel ''querynode'') = Some ''1''"
  using deployment_labels_settle [of "''mc''" QueryNode "''1''" fmempty] by (simp add: key_defs mk_component_def)

section \<open>Marks on the Milvus object\<close>

text \<open>The rolling mark of a component: marking it twice keeps the rolling id of the rollout that is in
  progress, a new rollout takes the generation of the object as its id, and neither this nor
  clearing the mark touches other components or the current slots.\<close>

theorem rolling_mark_laws:
  "GetComponentRollingId (SetComponentRolling c True m) c =
     (if IsComponentRolling m c then GetComponentRollingId m c else itoa (om_Generation m)) \<and>
   SetComponentRolling c True (SetComponentRolling c True m) = SetComponentRolling c True m \<and>
   IsComponentRolling (SetComponentRolling c b m) d = (if c = d then b else IsComponentRolling m d) \<and>
   GetCurrentGroupId (SetComponentRolling c b m) d = GetCurrentGroupId m d"
proof -
  have "SetComponentRolling c True m' = m'" if "IsComponentRolling m' c" for m'
    using that by (simp add: IsComponentRolling_def SetComponentRolling_def)
  then show ?thesis using rolling_id_keep [of m c] rolling_id_fresh [of m c] by simp
qed

section \<open>Conditions\<close>

abbreviation typed :: "MilvusCondition list \<Rightarrow> MilvusCondition list" where
  "typed cs \<equiv> filter (\<lambda>c. mcd_Type c \<noteq> CondTypeEmpty) cs"

lemma find_typed: "t \<noteq> CondTypeEmpty \<Longrightarrow> find (\<lambda>d. mcd_Type d = t) (typed cs) = find (\<lambda>d. mcd_Type d = t) cs"
  by (induction cs) auto

lemma find_absent: "k \<notin> f ` set cs \<Longrightarrow> find (\<lambda>d. f d = k) cs = None"
  by (induction cs) auto

lemma find_snoc: "find p (cs @ [x]) = (case find p cs of None \<Rightarrow> if p x then Some x else None | Some d \<Rightarrow> Some d)"
  by (induction cs) auto

lemma updated_conditions:
  "mcd_Type c \<noteq> CondTypeEmpty \<Longrightarrow> mst_Conditions (UpdateCondition now c st) =
     (case update_first_condition now c (typed (mst_Conditions st)) of Some cs \<Rightarrow> cs
      | None \<Rightarrow> typed (mst_Conditions st) @ [c\<lparr>mcd_LastTransitionTime := Some now\<rparr>])"
  by (simp add: UpdateCondition_def split: option.splits)

lemma update_condition_again:
  assumes "mcd_Type c \<noteq> CondTypeEmpty"
  shows "UpdateCondition now' c (UpdateCondition now c st) = UpdateCondition now c st"
proof -
  define us where "us = mst_Conditions (UpdateCondition now c st)"
  note us = updated_conditions [OF assms, of now st, folded us_def]
  have "set (map mcd_Type us) \<subseteq> insert (mcd_Type c) (set (map mcd_Type (typed (mst_Conditions st))))"
  proof (cases "update_first_condition now c (typed (mst_Conditions st))")
    case (Some cs)
    then have "map mcd_Type us = map mcd_Type (typed (mst_Conditions st))" using update_first_types us by simp
    then show ?thesis by (metis subset_insertI)
  qed (use us in auto)
  then have "typed us = us" using assms by (auto simp: filter_id_conv)
  moreover have "update_first_condition now' c us = Some us"
    by (auto simp: us update_first_None update_first_idem update_first_append_new split: option.splits)
  ultimately show ?thesis using assms by (simp add: UpdateCondition_def [of now'] us_def [symmetric])
qed

text \<open>Updating a condition: the types stay unique, the condition has the new status, reason and message,
  the others keep their content, and repeating the update at any time changes nothing (the
  transition time is not moved).\<close>

theorem update_condition_laws:
  assumes "mcd_Type c \<noteq> CondTypeEmpty" "distinct (map mcd_Type (mst_Conditions st))"
  shows "distinct (map mcd_Type (mst_Conditions (UpdateCondition now c st))) \<and>
     (\<exists>d. find (\<lambda>d. mcd_Type d = mcd_Type c) (mst_Conditions (UpdateCondition now c st)) = Some d \<and>
        mcd_Status d = mcd_Status c \<and> mcd_Reason d = mcd_Reason c \<and> mcd_Message d = mcd_Message c) \<and>
     (\<forall>t. t \<noteq> mcd_Type c \<and> t \<noteq> CondTypeEmpty \<longrightarrow>
        find (\<lambda>d. mcd_Type d = t) (mst_Conditions (UpdateCondition now c st)) = find (\<lambda>d. mcd_Type d = t) (mst_Conditions st)) \<and>
     UpdateCondition now' c (UpdateCondition now c st) = UpdateCondition now c st"
proof -
  have vs: "distinct (map mcd_Type (typed (mst_Conditions st)))" using assms(2) by (simp add: distinct_map_filter)
  note us = updated_conditions [OF assms(1), of now st]
  show ?thesis
  proof (cases "update_first_condition now c (typed (mst_Conditions st))")
    case None
    have new: "mcd_Type c \<notin> mcd_Type ` set (typed (mst_Conditions st))" using None by (simp only: update_first_None not_False_eq_True)
    note absent = find_absent [OF new]
    with new vs absent show ?thesis
      unfolding us None option.case
      using update_condition_again [OF assms(1)] by (auto simp: find_snoc find_typed assms(1) split: option.splits)
  next
    case (Some cs)
    then show ?thesis
      unfolding us Some option.case
      using vs update_condition_again [OF assms(1)] update_first_types [OF Some] update_first_find [OF Some]
      by (auto simp: Let_def find_typed)
  qed
qed

definition ex_condition :: "ConditionStatus \<Rightarrow> MilvusCondition" where
  "ex_condition s = \<lparr>mcd_Type = EtcdReady, mcd_Status = s, mcd_LastTransitionTime = None, mcd_Reason = ''r'', mcd_Message = []\<rparr>"

theorem update_condition_laws_witness:
  "let st = zero_MilvusStatus\<lparr>mst_Conditions := [ex_condition ConditionFalse]\<rparr> in
     UpdateCondition 9 (ex_condition ConditionTrue) (UpdateCondition 5 (ex_condition ConditionTrue) st) =
       UpdateCondition 5 (ex_condition ConditionTrue) st \<and>
     distinct (map mcd_Type (mst_Conditions (UpdateCondition 5 (ex_condition ConditionTrue) st)))"
  unfolding Let_def
  using update_condition_laws [of "ex_condition ConditionTrue" "zero_MilvusStatus\<lparr>mst_Conditions := [ex_condition ConditionFalse]\<rparr>" 5 9]
  by (simp add: ex_condition_def)

section \<open>Stability\<close>



section \<open>Replicas in the spec\<close>

text \<open>Setting the replicas of a component without groups and reading them back gives the value, leaves
  every other component as it was and does not change which components the instance has.\<close>

theorem set_replicas_round_trip:
  assumes "mcp_DeploymentGroup c = None" "SetReplicas c (Some n) spec = Inr spec'"
  shows "GetReplicas c spec' = Some n \<and> GetComponentsBySpec x spec' = GetComponentsBySpec x spec \<and>
     (\<forall>d. mcp_DeploymentGroup d = None \<and> mcp_FieldName d \<noteq> mcp_FieldName c \<longrightarrow> GetReplicas d spec' = GetReplicas d spec)"
proof -
  have spec': "com_field (mcp_FieldName c) (ms_Com spec) \<noteq> None"
    "spec' = spec\<lparr>ms_Com := com_set_replicas (mcp_FieldName c) (Some n) (ms_Com spec)\<rparr>"
    using assms by (auto simp: SetReplicas_def split: if_splits)
  then show ?thesis
    using assms(1) components_set_replicas by (auto simp: GetReplicas_def com_field_set_replicas)
qed

theorem set_replicas_round_trip_witness:
  "\<exists>spec'. SetReplicas QueryNode (Some 8) (m_Spec ex_milvus) = Inr spec' \<and> GetReplicas QueryNode spec' = Some 8"
proof -
  have "mcp_DeploymentGroup QueryNode = None" by code_simp
  moreover obtain spec' where "SetReplicas QueryNode (Some 8) (m_Spec ex_milvus) = Inr spec'"
    by (simp add: SetReplicas_def com_field_def ex_milvus_def key_defs mk_component_def)
  ultimately show ?thesis using set_replicas_round_trip by blast
qed

end
