(* ===== verification/Value_Util.thy ===== *)
theory Value_Util
  imports Merge_Util
begin

text \<open>
  The functions on untyped values of pkg/util/util.go: reading numbers, setting and deleting nested
  fields and the recursive merge of Helm values.  The nested writes are calls of
  apimachinery's \<open>unstructured\<close> package; what the operator relies on is the locale \<open>nested_writes\<close>,
  and the functions that package documents satisfy it.

  Numbers are integers: the operator reads a number only as a replica count, and JSON does not
  distinguish \<open>int64\<close> from an integral \<open>float64\<close>.
\<close>

section \<open>Reading\<close>

definition GetNumberValue :: "values_map \<Rightarrow> string list \<Rightarrow> int \<times> bool" where
  "GetNumberValue vs fs = (case nested_field (JObj vs) fs of Some (JInt n) \<Rightarrow> (n, True) | _ \<Rightarrow> (0, False))"

text \<open>Reading a missing key of a Go map of interfaces gives nil.\<close>

definition value_or_nil :: "values_map \<Rightarrow> string \<Rightarrow> json" where
  "value_or_nil m k = (case fmlookup m k of None \<Rightarrow> JNull | Some v \<Rightarrow> v)"

section \<open>Merging\<close>

lemma fmmap_keys_cong [fundef_cong]:
  "m = n \<Longrightarrow> (\<And>k v. fmlookup n k = Some v \<Longrightarrow> f k v = g k v) \<Longrightarrow> fmmap_keys f m = fmmap_keys g n"
  by (rule fmap_ext) (auto simp: option.map_comp intro: option.map_cong0 split: option.splits)

definition sub_json :: "(json \<times> json) set" where
  "sub_json = {(v, JObj m) | v m k. fmlookup m k = Some v}"

lemma wf_sub_json: "wf sub_json"
proof (rule wfUNIVI)
  fix P and j :: json
  assume step: "\<forall>x. (\<forall>y. (y, x) \<in> sub_json \<longrightarrow> P y) \<longrightarrow> P x"
  show "P j"
  proof (induction j)
    case (JObj m)
    have "P y" if "(y, JObj m) \<in> sub_json" for y
      using that JObj by (auto simp: sub_json_def intro: fmran'I)
    then show ?case using step by blast
  qed (use step in \<open>auto simp: sub_json_def\<close>)
qed

text \<open>One entry of the loop of \<open>MergeValues\<close>: a key that is new, or whose value is not a map on both
  sides, takes the value of the patch; two maps are merged.  The entries are independent, so the
  order of Go's iteration does not matter.\<close>

function merge_json :: "json \<Rightarrow> json \<Rightarrow> json" where
  "merge_json origin patch =
     (case origin of
        JObj m \<Rightarrow> (case patch of
            JObj p \<Rightarrow> JObj (m ++\<^sub>f fmmap_keys (\<lambda>k v. case fmlookup m k of None \<Rightarrow> v | Some w \<Rightarrow> merge_json w v) p)
          | _ \<Rightarrow> patch)
      | _ \<Rightarrow> patch)"
  by pat_completeness auto
termination
  by (relation "inv_image sub_json snd") (simp add: wf_sub_json, auto simp: sub_json_def)

declare merge_json.simps [simp del]

definition MergeValues :: "values_map \<Rightarrow> values_map \<Rightarrow> values_map" where
  "MergeValues origin patch =
     origin ++\<^sub>f fmmap_keys (\<lambda>k v. case fmlookup origin k of None \<Rightarrow> v | Some w \<Rightarrow> merge_json w v) patch"

lemma merge_json_obj [simp]: "merge_json (JObj m) (JObj p) = JObj (MergeValues m p)"
  by (simp add: merge_json.simps MergeValues_def)

lemma merge_json_other [simp]: "(\<And>p. v \<noteq> JObj p) \<Longrightarrow> merge_json w v = v"
  by (subst merge_json.simps) (auto split: json.splits)

lemma MergeValues_lookup:
  "fmlookup (MergeValues origin patch) k =
     (case fmlookup patch k of
        None \<Rightarrow> fmlookup origin k
      | Some v \<Rightarrow> Some (case fmlookup origin k of None \<Rightarrow> v | Some w \<Rightarrow> merge_json w v))"
  by (auto simp: MergeValues_def fmdom_notI split: option.splits) (metis fmdomI)

lemma MergeValues_keeps_number: "fmlookup patch k = Some (JInt n) \<Longrightarrow> fmlookup (MergeValues origin patch) k = Some (JInt n)"
  by (simp add: MergeValues_lookup split: option.splits)

lemma MergeValues_dom: "fmdom (MergeValues origin patch) = fmdom origin |\<union>| fmdom patch"
  by (simp add: MergeValues_def)

text \<open>Merging is idempotent: the values that were merged once are a fixed point.\<close>

lemma merge_json_self: "merge_json v v = v"
proof (induction v)
  case (JObj m)
  have "MergeValues m m = m"
    by (rule fmap_ext) (auto simp: MergeValues_lookup JObj fmran'I split: option.splits)
  then show ?case by simp
qed simp_all

lemma merge_json_idem: "merge_json (merge_json d v) v = merge_json d v"
proof (induction v arbitrary: d)
  case (JObj p)
  show ?case
  proof (cases d)
    case d: (JObj m)
    have "MergeValues (MergeValues m p) p = MergeValues m p"
      by (rule fmap_ext) (auto simp: MergeValues_lookup JObj fmran'I merge_json_self split: option.splits)
    with d show ?thesis by simp
  qed (simp_all add: merge_json.simps [of _ "JObj p"] merge_json_self [unfolded merge_json_obj])
qed simp_all

lemma MergeValues_idem: "MergeValues (MergeValues d v) v = MergeValues d v"
  using merge_json_idem [of "JObj d" "JObj v"] by simp

section \<open>Nested writes\<close>

text \<open>\<open>unstructured.SetNestedField\<close> and \<open>unstructured.RemoveNestedField\<close>, called by \<open>SetValue\<close> and
  \<open>DeleteValue\<close>: what the defaulting webhook needs of them.\<close>

locale nested_writes =
  fixes put :: "values_map \<Rightarrow> json \<Rightarrow> string list \<Rightarrow> values_map" and del :: "values_map \<Rightarrow> string list \<Rightarrow> values_map"
  assumes put_put: "put (put d v p) v p = put d v p"
    and put_commute: "hd p \<noteq> hd q \<Longrightarrow> p \<noteq> [] \<Longrightarrow> q \<noteq> [] \<Longrightarrow> put (put d v p) w q = put (put d w q) v p"
    and del_del: "del (del d p) p = del d p"
    and del_commute: "del (del d p) q = del (del d q) p"
    and del_put: "hd p \<noteq> hd q \<Longrightarrow> p \<noteq> [] \<Longrightarrow> q \<noteq> [] \<Longrightarrow> del (put d v p) q = put (del d q) v p"
    and del_empty: "del fmempty p = fmempty"
begin

lemma put_fold_fixed:
  "distinct (map hd ps) \<Longrightarrow> [] \<notin> set ps \<Longrightarrow> p \<in> set ps \<Longrightarrow> put (fold (\<lambda>p d. put d v p) ps d) v p = fold (\<lambda>p d. put d v p) ps d"
proof (induction ps arbitrary: d rule: rev_induct)
  case (snoc q ps)
  show ?case
  proof (cases "p = q")
    case True
    then show ?thesis by (simp add: put_put)
  next
    case False
    with snoc.prems have p: "p \<in> set ps" by auto
    moreover have "hd q \<notin> hd ` set ps" using snoc.prems(1) by auto
    ultimately have p: "p \<in> set ps" "hd p \<noteq> hd q" by (auto, metis imageI)
    have "put (put e v q) v p = put (put e v p) v q" for e
      using p snoc.prems(2) by (metis put_commute Un_iff in_set_conv_decomp set_append)
    with snoc p show ?thesis by simp
  qed
qed simp

lemma put_fold_idem:
  "distinct (map hd ps) \<Longrightarrow> [] \<notin> set ps \<Longrightarrow>
     fold (\<lambda>p d. put d v p) ps (fold (\<lambda>p d. put d v p) ps d) = fold (\<lambda>p d. put d v p) ps d"
proof -
  assume ps: "distinct (map hd ps)" "[] \<notin> set ps"
  have "fold (\<lambda>p d. put d v p) qs e = e" if "\<forall>q \<in> set qs. put e v q = e" for qs e
    using that by (induction qs) auto
  with put_fold_fixed [OF ps] show ?thesis by blast
qed

lemma del_fold_put:
  "\<forall>p \<in> set ps. hd p \<noteq> hd q \<and> p \<noteq> [] \<Longrightarrow> q \<noteq> [] \<Longrightarrow>
     del (fold (\<lambda>p d. put d v p) ps d) q = fold (\<lambda>p d. put d v p) ps (del d q)"
  by (induction ps arbitrary: d) (auto simp: del_put)

lemma del_fold_fixed: "p \<in> set ps \<Longrightarrow> del (fold (\<lambda>p d. del d p) ps d) p = fold (\<lambda>p d. del d p) ps d"
proof (induction ps arbitrary: d rule: rev_induct)
  case (snoc q ps)
  then show ?case by (cases "p = q") (auto simp: del_del del_commute [of _ q p])
qed simp

end

text \<open>The functions as the package documents them.\<close>

fun nested_set :: "values_map \<Rightarrow> json \<Rightarrow> string list \<Rightarrow> values_map" where
  "nested_set m v [] = m"
| "nested_set m v [f] = fmupd f v m"
| "nested_set m v (f # g # fs) =
     (case fmlookup m f of
        None \<Rightarrow> fmupd f (JObj (nested_set fmempty v (g # fs))) m
      | Some (JObj m') \<Rightarrow> fmupd f (JObj (nested_set m' v (g # fs))) m
      | Some _ \<Rightarrow> m)"

fun nested_remove :: "values_map \<Rightarrow> string list \<Rightarrow> values_map" where
  "nested_remove m [] = m"
| "nested_remove m [f] = fmdrop f m"
| "nested_remove m (f # g # fs) =
     (case fmlookup m f of
        Some (JObj m') \<Rightarrow> fmupd f (JObj (nested_remove m' (g # fs))) m
      | _ \<Rightarrow> m)"

text \<open>Both functions change one entry of the map, by a function of that entry.\<close>

definition set_entry :: "string \<Rightarrow> json option \<Rightarrow> values_map \<Rightarrow> values_map" where
  "set_entry f e m = (case e of None \<Rightarrow> fmdrop f m | Some j \<Rightarrow> fmupd f j m)"

fun put_entry :: "json \<Rightarrow> json option \<Rightarrow> string list \<Rightarrow> json option" where
  "put_entry v e [] = Some v"
| "put_entry v e (f # fs) =
     (case e of
        None \<Rightarrow> Some (JObj (set_entry f (put_entry v None fs) fmempty))
      | Some (JObj m) \<Rightarrow> Some (JObj (set_entry f (put_entry v (fmlookup m f) fs) m))
      | Some j \<Rightarrow> Some j)"

fun del_entry :: "json option \<Rightarrow> string list \<Rightarrow> json option" where
  "del_entry e [] = None"
| "del_entry e (f # fs) =
     (case e of
        Some (JObj m) \<Rightarrow> Some (JObj (set_entry f (del_entry (fmlookup m f) fs) m))
      | _ \<Rightarrow> e)"

lemma lookup_set_entry [simp]: "fmlookup (set_entry f e m) k = (if k = f then e else fmlookup m k)"
  by (simp add: set_entry_def split: option.splits)

lemma set_entry_eqI: "set_entry f e m = n" if "fmlookup n f = e" "\<And>k. k \<noteq> f \<Longrightarrow> fmlookup n k = fmlookup m k"
  using that by (intro fmap_ext) simp

lemma set_entry_twice [simp]: "set_entry f e (set_entry f d m) = set_entry f e m"
  by (rule set_entry_eqI) simp_all

lemma set_entry_commute: "f \<noteq> g \<Longrightarrow> set_entry f e (set_entry g d m) = set_entry g d (set_entry f e m)"
  by (rule set_entry_eqI) simp_all

lemma set_entry_same [simp]: "fmlookup m f = e \<Longrightarrow> set_entry f e m = m"
  by (rule set_entry_eqI) simp_all

lemma nested_set_Cons: "nested_set m v (f # fs) = set_entry f (put_entry v (fmlookup m f) fs) m"
proof (induction fs arbitrary: m f)
  case Nil
  show ?case by (rule set_entry_eqI [symmetric]) simp_all
next
  case (Cons g fs)
  show ?case
    by (rule set_entry_eqI [symmetric]) (auto simp: Cons split: option.splits json.splits)
qed

lemma nested_remove_Cons: "nested_remove m (f # fs) = set_entry f (del_entry (fmlookup m f) fs) m"
proof (induction fs arbitrary: m f)
  case Nil
  show ?case by (rule set_entry_eqI [symmetric]) simp_all
next
  case (Cons g fs)
  show ?case
    by (rule set_entry_eqI [symmetric]) (auto simp: Cons split: option.splits json.splits)
qed

lemma put_entry_idem: "put_entry v (put_entry v e fs) fs = put_entry v e fs"
  by (induction fs arbitrary: e) (auto split: option.splits json.splits)

lemma del_entry_idem: "del_entry (del_entry e fs) fs = del_entry e fs"
  by (induction fs arbitrary: e) (auto split: option.splits json.splits)

lemma del_entry_None: "del_entry None fs = None"
  by (cases fs) simp_all

lemma del_entry_commute: "del_entry (del_entry e p) q = del_entry (del_entry e q) p"
proof (induction p arbitrary: e q)
  case Nil
  then show ?case by (cases q) (auto simp: del_entry_None split: option.splits json.splits)
next
  case (Cons f p)
  show ?case
  proof (cases q)
    case Nil
    then show ?thesis by (auto split: option.splits json.splits)
  next
    case q: (Cons g q')
    show ?thesis
      by (cases "f = g") (auto simp: q Cons set_entry_commute split: option.splits json.splits)
  qed
qed

interpretation unstructured: nested_writes nested_set nested_remove
proof
  fix d v w and p q :: "string list"
  show "nested_set (nested_set d v p) v p = nested_set d v p"
    by (cases p) (simp_all add: nested_set_Cons put_entry_idem)
  show "nested_remove (nested_remove d p) p = nested_remove d p"
    by (cases p) (simp_all add: nested_remove_Cons del_entry_idem)
  show "nested_remove fmempty p = fmempty"
    by (cases p) (simp_all add: nested_remove_Cons del_entry_None)
  show "nested_remove (nested_remove d p) q = nested_remove (nested_remove d q) p"
  proof (cases "p = [] \<or> q = []")
    case False
    then obtain f p' g q' where "p = f # p'" "q = g # q'" by (meson list.exhaust)
    then show ?thesis
      by (cases "f = g") (simp_all add: nested_remove_Cons del_entry_commute [of _ p' q'] set_entry_commute)
  qed auto
  assume h: "hd p \<noteq> hd q" "p \<noteq> []" "q \<noteq> []"
  then obtain f p' g q' where pq: "p = f # p'" "q = g # q'" "f \<noteq> g" by (metis list.exhaust list.sel(1))
  then show "nested_set (nested_set d v p) w q = nested_set (nested_set d w q) v p"
    "nested_remove (nested_set d v p) q = nested_set (nested_remove d q) v p"
    by (simp_all add: nested_set_Cons nested_remove_Cons set_entry_commute)
qed

end
