(* ===== verification/Webhook.thy ===== *)
theory Webhook
  imports Value_Util Labels Rolling_Update
begin

text \<open>
  The admission webhook of the Milvus resource, apis/milvus.io/v1beta1/milvus_webhook.go: defaulting
  and validation.  Defaulting dereferences pointers it has filled before; the model keeps the
  dereferences, so that \<open>None\<close> is a nil dereference.
\<close>

section \<open>Environment\<close>

text \<open>The operator version (set by the linker), the functions of other packages: nested writes of
  apimachinery, the default values of the Helm charts (read from files), DNS label checks, and the
  decoding of volume claims, which gives an error text or nothing.\<close>

record webhook_env =
  we_x :: externals
  we_Version :: string
  we_SetNestedField :: "values_map \<Rightarrow> json \<Rightarrow> string list \<Rightarrow> values_map"
  we_RemoveNestedField :: "values_map \<Rightarrow> string list \<Rightarrow> values_map"
  we_DefaultValues :: "string \<Rightarrow> string \<Rightarrow> values_map"
  we_IsDNS1123Label :: "string \<Rightarrow> string list"
  we_pvcSpecError :: "Values \<Rightarrow> string option"
  we_pvcError :: "Values \<Rightarrow> string option"

definition DefaultMilvusVersion :: string where "DefaultMilvusVersion = ''v2.6.25''"
definition DefaultMilvusImage :: string where "DefaultMilvusImage = ''milvusdb/milvus'' @ '':'' @ DefaultMilvusVersion"

definition OperatorVersionLabel :: string where [key_defs]: "OperatorVersionLabel = MilvusIO @ ''operator-version''"
definition LegacyVersion :: string where [key_defs]: "LegacyVersion = ''v0.5.0-legacy''"
definition DependencyValuesLegacySyncedAnnotation :: string where [key_defs]:
  "DependencyValuesLegacySyncedAnnotation = MilvusIO @ ''dependency-values-legacy-synced''"
definition DependencyValuesMergedAnnotation :: string where [key_defs]:
  "DependencyValuesMergedAnnotation = MilvusIO @ ''dependency-values-merged''"
definition OldAnnotationCurrentQueryNodeGroupID :: string where [key_defs]:
  "OldAnnotationCurrentQueryNodeGroupID = MilvusIO @ ''current-querynode-group-id''"
definition QueryNodeName :: string where [key_defs]: "QueryNodeName = ''querynode''"

text \<open>Updates of parts of the resource.\<close>

definition annotate :: "string \<Rightarrow> string \<Rightarrow> Milvus \<Rightarrow> Milvus" where
  "annotate k v r = r\<lparr>om_Annotations := fmupd k v (om_Annotations r)\<rparr>"

definition upd_com :: "(MilvusComponents \<Rightarrow> MilvusComponents) \<Rightarrow> MilvusSpec \<Rightarrow> MilvusSpec" where
  "upd_com f spec = spec\<lparr>ms_Com := f (ms_Com spec)\<rparr>"

definition upd_dep :: "(MilvusDependencies \<Rightarrow> MilvusDependencies) \<Rightarrow> Milvus \<Rightarrow> Milvus" where
  "upd_dep f r = r\<lparr>m_Spec := (m_Spec r)\<lparr>ms_Dep := f (ms_Dep (m_Spec r))\<rparr>\<rparr>"

definition or_new :: "'a \<Rightarrow> 'a option \<Rightarrow> 'a option" where
  "or_new z v = (case v of None \<Rightarrow> Some z | Some a \<Rightarrow> Some a)"

section \<open>Metadata and mode\<close>

definition setDefaultStr :: "string \<Rightarrow> string \<Rightarrow> string" where
  "setDefaultStr s defaultValue = (if length s < 1 then defaultValue else s)"

definition DefaultMeta :: "webhook_env \<Rightarrow> Milvus \<Rightarrow> Milvus" where
  "DefaultMeta E r =
     (let r = r\<lparr>om_Namespace := setDefaultStr (om_Namespace r) ''default''\<rparr>;
          r = (if length (fmget (om_Labels r) OperatorVersionLabel) < 1 then
                 (if mst_Status (m_Status r) \<noteq> StatusUnset
                  then annotate DependencyValuesLegacySyncedAnnotation FalseStr
                         (r\<lparr>om_Labels := fmupd OperatorVersionLabel LegacyVersion (om_Labels r)\<rparr>)
                  else r\<lparr>om_Labels := fmupd OperatorVersionLabel (we_Version E) (om_Labels r)\<rparr>)
               else r);
          r = (if IsFirstTimeStarting r then annotate PodServiceLabelAddedAnnotation TrueStr r else r)
      in if fmget (om_Annotations r) OldAnnotationCurrentQueryNodeGroupID \<noteq> []
         then annotate OldAnnotationCurrentQueryNodeGroupID []
                (SetCurrentGroupIDStr QueryNodeName (fmget (om_Annotations r) OldAnnotationCurrentQueryNodeGroupID) r)
         else r)"

definition DefaultMode :: "Milvus \<Rightarrow> Milvus" where
  "DefaultMode r = (if ms_Mode (m_Spec r) = MilvusModeUnset
     then r\<lparr>m_Spec := (m_Spec r)\<lparr>ms_Mode := MilvusModeStandalone\<rparr>\<rparr> else r)"

section \<open>Components\<close>

definition noCoordSpecifiedByUser :: "MilvusSpec \<Rightarrow> bool" where
  "noCoordSpecifiedByUser spec \<longleftrightarrow> com_RootCoord (ms_Com spec) = None \<and> com_DataCoord (ms_Com spec) = None \<and>
     com_IndexCoord (ms_Com spec) = None \<and> com_QueryCoord (ms_Com spec) = None"

definition default_common :: "MilvusComponents \<Rightarrow> MilvusComponents" where
  "default_common com =
     com\<lparr>cs_Image := setDefaultStr (cs_Image com) DefaultMilvusImage,
         com_ImageUpdateMode := (if com_ImageUpdateMode com = ImageUpdateModeUnset then ImageUpdateModeRollingUpgrade else com_ImageUpdateMode com),
         com_RollingMode := (if com_RollingMode com = RollingModeNotSet then RollingModeV2 else com_RollingMode com),
         com_Standalone := or_new zero_ServiceComponent (com_Standalone com)\<rparr>"

definition default_coords :: "MilvusSpec \<Rightarrow> MilvusSpec" where
  "default_coords spec =
     (if UseMixCoord spec then spec
      else if noCoordSpecifiedByUser spec then upd_com (\<lambda>com. com\<lparr>com_MixCoord := Some zero_Component\<rparr>) spec
      else upd_com (\<lambda>com. com\<lparr>com_RootCoord := or_new zero_Component (com_RootCoord com),
             com_DataCoord := or_new zero_Component (com_DataCoord com),
             com_IndexCoord := or_new zero_Component (com_IndexCoord com),
             com_QueryCoord := or_new zero_Component (com_QueryCoord com)\<rparr>) spec)"

definition default_cluster :: "externals \<Rightarrow> MilvusSpec \<Rightarrow> MilvusSpec" where
  "default_cluster x spec =
     (let spec = upd_com (\<lambda>com. com\<lparr>com_Proxy := or_new zero_MilvusProxy (com_Proxy com)\<rparr>) spec;
          spec = default_coords spec;
          spec = upd_com (\<lambda>com. com\<lparr>com_DataNode := or_new zero_MilvusDataNode (com_DataNode com)\<rparr>) spec;
          spec = (if \<not> IsVersionGreaterThan2_6 x spec
                  then upd_com (\<lambda>com. com\<lparr>com_IndexNode := or_new zero_MilvusIndexNode (com_IndexNode com)\<rparr>) spec else spec);
          spec = upd_com (\<lambda>com. com\<lparr>com_QueryNode := or_new zero_MilvusQueryNode (com_QueryNode com)\<rparr>) spec
      in if UseStreamingNode x spec
         then upd_com (\<lambda>com. com\<lparr>com_StreamingNode := or_new zero_MilvusStreamingNode (com_StreamingNode com),
                com_StreamingMode := Some True\<rparr>) spec
         else upd_com (\<lambda>com. com\<lparr>com_StreamingMode := Some False\<rparr>) spec)"

definition default_replicas :: "int \<Rightarrow> 'a Component_scheme \<Rightarrow> 'a Component_scheme" where
  "default_replicas n c = (if co_Replicas c = None then c\<lparr>co_Replicas := Some n\<rparr> else c)"

text \<open>The replicas of the four coordinators, or of the mixed one.\<close>

definition default_coord_replicas :: "MilvusComponents \<Rightarrow> MilvusComponents option" where
  "default_coord_replicas com =
     (case com_MixCoord com of
        Some c \<Rightarrow> Some (com\<lparr>com_MixCoord := Some (default_replicas 1 c)\<rparr>)
      | None \<Rightarrow> do {
          rc \<leftarrow> com_RootCoord com;
          dc \<leftarrow> com_DataCoord com;
          ic \<leftarrow> com_IndexCoord com;
          qc \<leftarrow> com_QueryCoord com;
          Some (com\<lparr>com_RootCoord := Some (default_replicas 1 rc), com_DataCoord := Some (default_replicas 1 dc),
                    com_IndexCoord := Some (default_replicas 1 ic), com_QueryCoord := Some (default_replicas 1 qc)\<rparr>) })"

definition default_cluster_replicas :: "externals \<Rightarrow> MilvusSpec \<Rightarrow> MilvusComponents option" where
  "default_cluster_replicas x spec = do {
     let com = ms_Com spec;
     sa \<leftarrow> com_Standalone com;
     let com = com\<lparr>com_Standalone := Some (default_replicas 0 sa)\<rparr>;
     com \<leftarrow> (if UseStreamingNode x spec
             then do { sn \<leftarrow> com_StreamingNode com; Some (com\<lparr>com_StreamingNode := Some (default_replicas 1 sn)\<rparr>) }
             else Some com);
     let com = (if IsVersionGreaterThan2_6 x spec then com\<lparr>com_MixCoord := or_new zero_Component (com_MixCoord com)\<rparr> else com);
     com \<leftarrow> default_coord_replicas com;
     px \<leftarrow> com_Proxy com;
     dn \<leftarrow> com_DataNode com;
     let com = com\<lparr>com_Proxy := Some (default_replicas 1 px), com_DataNode := Some (default_replicas 1 dn)\<rparr>;
     com \<leftarrow> (if \<not> IsVersionGreaterThan2_6 x spec
             then do { inode \<leftarrow> com_IndexNode com; Some (com\<lparr>com_IndexNode := Some (default_replicas 1 inode)\<rparr>) }
             else Some com);
     qn \<leftarrow> com_QueryNode com;
     Some (com\<lparr>com_QueryNode := Some (default_replicas 1 qn)\<rparr>) }"

definition defaultComponentsReplicas :: "externals \<Rightarrow> MilvusSpec \<Rightarrow> MilvusSpec option" where
  "defaultComponentsReplicas x spec = do {
     com \<leftarrow> (if ms_Mode spec = MilvusModeCluster then default_cluster_replicas x spec
             else do { sa \<leftarrow> com_Standalone (ms_Com spec);
                       Some ((ms_Com spec)\<lparr>com_Standalone := Some (default_replicas 1 sa)\<rparr>) });
     Some (spec\<lparr>ms_Com := com\<lparr>com_Cdc := map_option (default_replicas 1) (com_Cdc com)\<rparr>\<rparr>) }"

definition DefaultComponents :: "externals \<Rightarrow> Milvus \<Rightarrow> Milvus option" where
  "DefaultComponents x r =
     (let spec = upd_com default_common (m_Spec r);
          spec = (if ms_Mode spec = MilvusModeCluster then default_cluster x spec else spec);
          spec = upd_com (\<lambda>com. com\<lparr>com_UpdateConfigMapOnly := or_new True (com_UpdateConfigMapOnly com)\<rparr>) spec
      in map_option (\<lambda>s. r\<lparr>m_Spec := s\<rparr>) (defaultComponentsReplicas x spec))"

section \<open>Dependencies\<close>

definition isLegacy :: "Milvus \<Rightarrow> bool" where
  "isLegacy r \<longleftrightarrow> fmget (om_Labels r) OperatorVersionLabel = LegacyVersion"

definition setDefaultValueMerged :: "Milvus \<Rightarrow> Milvus" where
  "setDefaultValueMerged r = annotate DependencyValuesMergedAnnotation TrueStr r"

definition defaultValuesMerged :: "Milvus \<Rightarrow> bool" where
  "defaultValuesMerged r \<longleftrightarrow> fmget (om_Annotations r) DependencyValuesMergedAnnotation = TrueStr"

definition LegacyNeedSyncValues :: "Milvus \<Rightarrow> bool" where
  "LegacyNeedSyncValues r \<longleftrightarrow> isLegacy r \<and> fmget (om_Annotations r) DependencyValuesLegacySyncedAnnotation \<noteq> TrueStr"

definition SetLegacySynced :: "Milvus \<Rightarrow> Milvus" where
  "SetLegacySynced r = annotate DependencyValuesLegacySyncedAnnotation TrueStr r"

definition zero_InClusterConfig :: InClusterConfig where
  "zero_InClusterConfig = \<lparr>ic_Values = None, ic_ChartVersion = [], ic_DeletionPolicy = DeletionPolicyUnset, ic_PVCDeletion = False\<rparr>"

text \<open>The first lines of every in-cluster dependency: a configuration and its value map exist.\<close>

definition in_cluster :: "InClusterConfig option \<Rightarrow> InClusterConfig" where
  "in_cluster c =
     (let ic = (case c of None \<Rightarrow> zero_InClusterConfig | Some ic \<Rightarrow> ic) in
      ic\<lparr>ic_Values := or_new fmempty (ic_Values ic)\<rparr>)"

definition keep_policy :: "DeletionPolicy \<Rightarrow> InClusterConfig \<Rightarrow> InClusterConfig" where
  "keep_policy d ic = (if ic_DeletionPolicy ic = DeletionPolicyUnset then ic\<lparr>ic_DeletionPolicy := d\<rparr> else ic)"

text \<open>\<open>defaultValuesByDependency\<close>, on the configuration the reflection selects.\<close>

definition defaultValuesByDependency :: "webhook_env \<Rightarrow> string \<Rightarrow> Milvus \<times> InClusterConfig \<Rightarrow> Milvus \<times> InClusterConfig" where
  "defaultValuesByDependency E dependency r_ic =
     (let (r, ic) = r_ic;
          r = (if isLegacy r then setDefaultValueMerged r else r)
      in if defaultValuesMerged r then (r, ic)
         else (r, ic\<lparr>ic_Values := Some (MergeValues (we_DefaultValues E dependency (ic_ChartVersion ic)) (Values_Data (ic_Values ic)))\<rparr>))"

definition etcd_endpoint :: "Milvus \<Rightarrow> nat \<Rightarrow> string" where
  "etcd_endpoint r i = om_Name r @ ''-etcd-'' @ itoa (int i) @ ''.'' @ om_Name r @ ''-etcd-headless'' @ ''.'' @ om_Namespace r @ '':2379''"

definition defaultEtcd :: "webhook_env \<Rightarrow> Milvus \<Rightarrow> Milvus" where
  "defaultEtcd E r =
     (let etcd = dep_Etcd (ms_Dep (m_Spec r)) in
      if etcd_External etcd then r
      else
        (let ic = in_cluster (etcd_InCluster etcd);
             ic = (if ic_ChartVersion ic = [] \<and> IsFirstTimeStarting r then ic\<lparr>ic_ChartVersion := ''etcd-v8''\<rparr> else ic);
             (number, valid) = GetNumberValue (Values_Data (ic_Values ic)) [''replicaCount''];
             count = (if valid then number else if ms_Mode (m_Spec r) = MilvusModeStandalone then 1 else 3);
             ic = (if valid then ic else ic\<lparr>ic_Values := Some (fmupd ''replicaCount'' (JInt count) (Values_Data (ic_Values ic)))\<rparr>);
             endpoints = (if etcd_Endpoints etcd = [] \<and> count > 0 then map (etcd_endpoint r) [0..<nat count] else etcd_Endpoints etcd);
             (r, ic) = defaultValuesByDependency E ''Etcd'' (r, ic);
             ic = keep_policy DeletionPolicyRetain ic
         in upd_dep (\<lambda>d. d\<lparr>dep_Etcd := etcd\<lparr>etcd_InCluster := Some ic, etcd_Endpoints := endpoints\<rparr>\<rparr>) r))"

definition setDefaultMsgStreamType :: "externals \<Rightarrow> Milvus \<Rightarrow> Milvus" where
  "setDefaultMsgStreamType x r =
     (if dep_MsgStreamType (ms_Dep (m_Spec r)) \<noteq> MsgStreamTypeUnset then r
      else upd_dep (\<lambda>d. d\<lparr>dep_MsgStreamType :=
        (if ms_Mode (m_Spec r) = MilvusModeStandalone
         then (if IsVersionGreaterThan2_6 x (m_Spec r) then MsgStreamTypeWoodPecker else MsgStreamTypeRocksMQ)
         else MsgStreamTypePulsar)\<rparr>) r)"

definition default_kafka :: "webhook_env \<Rightarrow> Milvus \<Rightarrow> Milvus" where
  "default_kafka E r =
     (let kafka = dep_Kafka (ms_Dep (m_Spec r)) in
      if kaf_External kafka then r
      else (let (r', ic) = defaultValuesByDependency E ''Kafka'' (r, in_cluster (kaf_InCluster kafka)) in
            upd_dep (\<lambda>d. d\<lparr>dep_Kafka := kafka\<lparr>kaf_BrokerList := [om_Name r @ ''-kafka.'' @ om_Namespace r @ '':9092''],
              kaf_InCluster := Some (keep_policy DeletionPolicyRetain ic)\<rparr>\<rparr>) r'))"

definition default_pulsar :: "webhook_env \<Rightarrow> Milvus \<Rightarrow> Milvus" where
  "default_pulsar E r =
     (let pulsar = dep_Pulsar (ms_Dep (m_Spec r)) in
      if pul_External pulsar then r
      else (let ic = in_cluster (pul_InCluster pulsar);
                ic = (if ic_ChartVersion ic = []
                      then ic\<lparr>ic_ChartVersion := (if IsFirstTimeStarting r then ''pulsar-v3'' else ''pulsar-v2'')\<rparr> else ic);
                (r', ic) = defaultValuesByDependency E ''Pulsar'' (r, ic) in
            upd_dep (\<lambda>d. d\<lparr>dep_Pulsar := pulsar\<lparr>pul_Endpoint := om_Name r @ ''-pulsar-proxy.'' @ om_Namespace r @ '':6650'',
              pul_InCluster := Some (keep_policy DeletionPolicyRetain ic)\<rparr>\<rparr>) r'))"

definition setDefaultMsgStreamConfigs :: "webhook_env \<Rightarrow> Milvus \<Rightarrow> Milvus" where
  "setDefaultMsgStreamConfigs E r =
     (case dep_MsgStreamType (ms_Dep (m_Spec r)) of
        MsgStreamTypeKafka \<Rightarrow> default_kafka E r
      | MsgStreamTypePulsar \<Rightarrow> default_pulsar E r
      | _ \<Rightarrow> r)"

definition defaultMsgStream :: "webhook_env \<Rightarrow> Milvus \<Rightarrow> Milvus" where
  "defaultMsgStream E r = setDefaultMsgStreamConfigs E (setDefaultMsgStreamType (we_x E) r)"

definition defaultStorage :: "webhook_env \<Rightarrow> Milvus \<Rightarrow> Milvus" where
  "defaultStorage E r =
     (let storage = dep_Storage (ms_Dep (m_Spec r));
          storage = storage\<lparr>st_Type := setDefaultStr (st_Type storage) ''MinIO''\<rparr> in
      if st_External storage then upd_dep (\<lambda>d. d\<lparr>dep_Storage := storage\<rparr>) r
      else (let ic = in_cluster (st_InCluster storage);
                ic = (if ms_Mode (m_Spec r) = MilvusModeStandalone \<and> fmlookup (Values_Data (ic_Values ic)) ''mode'' = None
                      then ic\<lparr>ic_Values := Some (fmupd ''mode'' (JStr ''standalone'') (Values_Data (ic_Values ic)))\<rparr> else ic);
                (r', ic) = defaultValuesByDependency E ''Storage'' (r, ic) in
            upd_dep (\<lambda>d. d\<lparr>dep_Storage := storage\<lparr>st_Endpoint := om_Name r @ ''-minio.'' @ om_Namespace r @ '':9000'',
              st_InCluster := Some (keep_policy DeletionPolicyRetain ic), st_SecretRef := om_Name r @ ''-minio''\<rparr>\<rparr>) r'))"

definition defaultTei :: "Milvus \<Rightarrow> Milvus" where
  "defaultTei r =
     (let tei = dep_Tei (ms_Dep (m_Spec r)) in
      if tei_Enabled tei
      then upd_dep (\<lambda>d. d\<lparr>dep_Tei := tei\<lparr>tei_InCluster := Some (keep_policy DeletionPolicyDelete (in_cluster (tei_InCluster tei)))\<rparr>\<rparr>) r
      else r)"

definition DefaultDependencies :: "webhook_env \<Rightarrow> Milvus \<Rightarrow> Milvus" where
  "DefaultDependencies E r = setDefaultValueMerged (defaultTei (defaultStorage E (defaultMsgStream E (defaultEtcd E r))))"

section \<open>Configuration\<close>

definition unsettable_paths :: "string list list" where
  "unsettable_paths = [[''minio'', ''address''], [''minio'', ''port''], [''pulsar'', ''address''], [''pulsar'', ''port''], [''etcd'', ''endpoints'']]"

definition deleteUnsettableConf :: "webhook_env \<Rightarrow> values_map \<Rightarrow> values_map" where
  "deleteUnsettableConf E conf = fold (\<lambda>p d. we_RemoveNestedField E d p) unsettable_paths conf"

definition rollingUpdateConfigFields :: "string list" where
  "rollingUpdateConfigFields = [''rootCoord'', ''dataCoord'', ''indexCoord'', ''queryCoord'']"

definition setEnableActiveStandby :: "webhook_env \<Rightarrow> bool \<Rightarrow> values_map \<Rightarrow> values_map" where
  "setEnableActiveStandby E enabled conf =
     fold (\<lambda>p d. we_SetNestedField E d (JBool enabled) p)
       (map (\<lambda>f. [f, EnableActiveStandByConfig]) rollingUpdateConfigFields) conf"

definition isRollingUpdateSupportedByConfig :: "Milvus \<Rightarrow> bool" where
  "isRollingUpdateSupportedByConfig r \<longleftrightarrow>
     \<not> (ms_Mode (m_Spec r) \<noteq> MilvusModeCluster \<and> dep_MsgStreamType (ms_Dep (m_Spec r)) \<in> {MsgStreamTypeRocksMQ, MsgStreamTypeNatsMQ})"

definition DefaultConf :: "webhook_env \<Rightarrow> Milvus \<Rightarrow> Milvus" where
  "DefaultConf E r =
     (let conf = (case ms_Conf (m_Spec r) of None \<Rightarrow> fmempty | Some c \<Rightarrow> deleteUnsettableConf E c);
          rolling = (case com_EnableRollingUpdate (ms_Com (m_Spec r)) of None \<Rightarrow> True | Some b \<Rightarrow> b);
          rolling = (if isRollingUpdateSupportedByConfig r then rolling else False);
          conf = (if rolling then setEnableActiveStandby E True conf else conf)
      in r\<lparr>m_Spec := (upd_com (\<lambda>com. com\<lparr>com_EnableRollingUpdate := Some rolling\<rparr>) (m_Spec r))\<lparr>ms_Conf := Some conf\<rparr>\<rparr>)"

definition Milvus_Default :: "webhook_env \<Rightarrow> Milvus \<Rightarrow> Milvus option" where
  "Milvus_Default E r =
     map_option (\<lambda>r. DefaultConf E (DefaultDependencies E r)) (DefaultComponents (we_x E) (DefaultMode (DefaultMeta E r)))"

section \<open>Validation\<close>

definition validateEnableRolingUpdate :: "Milvus \<Rightarrow> field_error option" where
  "validateEnableRolingUpdate r =
     (if com_EnableRollingUpdate (ms_Com (m_Spec r)) \<noteq> Some True then None
      else if ms_Mode (m_Spec r) = MilvusModeCluster then None
      else if dep_MsgStreamType (ms_Dep (m_Spec r)) \<in> {MsgStreamTypeKafka, MsgStreamTypePulsar, MsgStreamTypeCustom, MsgStreamTypeWoodPecker} then None
      else Some (''spec.components.enableRollingUpdate'', ''enableRollingUpdate is not supported for msgStream rocksmq or natsmq. Set it to false or set spec.msgStreamType to kafka/pulsar''))"

definition validatePersistConfig :: "webhook_env \<Rightarrow> Milvus \<Rightarrow> field_error option" where
  "validatePersistConfig E r =
     (case GetPersistenceConfig (m_Spec r) of
        None \<Rightarrow> None
      | Some p \<Rightarrow> map_option (\<lambda>err. (''spec.dependencies.rocksmq/natsmq.persistence.persistentVolumeClaim.spec'', err))
          (we_pvcSpecError E (pvc_Spec (per_PersistentVolumeClaim p))))"

definition validateCommon :: "webhook_env \<Rightarrow> Milvus \<Rightarrow> field_error option" where
  "validateCommon E r =
     (if com_RollingMode (ms_Com (m_Spec r)) \<notin> {RollingModeNotSet, RollingModeV2, RollingModeV3}
      then Some (''spec.components.rollingMode'', ''rollingMode should be 2 or 3'')
      else (case validateEnableRolingUpdate r of Some e \<Rightarrow> Some e | None \<Rightarrow> validatePersistConfig E r))"

definition required :: "string \<Rightarrow> field_error" where
  "required mainPath = (mainPath, mainPath @ '' should be configured'')"

definition index_path :: "string \<Rightarrow> nat \<Rightarrow> string" where
  "index_path path i = path @ ''['' @ itoa (int i) @ '']''"

definition validate_pools :: "string \<Rightarrow> WoodpeckerBufferPool list \<Rightarrow> field_error list" where
  "validate_pools wpPath pools =
     (if pools = [] then [required wpPath] else []) @
     concat (map (\<lambda>(i, pool).
       (if wbp_Name pool = [] then [required (index_path wpPath i @ ''.name'')] else []) @
       (if wbp_Seeds pool = [] then [required (index_path wpPath i @ ''.seeds'')] else [])) (enumerate 0 pools))"

definition validateExternal :: "Milvus \<Rightarrow> field_error list" where
  "validateExternal r =
     (let dep = ms_Dep (m_Spec r); fp = ''spec.dependencies'' in
      (if etcd_External (dep_Etcd dep) \<and> etcd_Endpoints (dep_Etcd dep) = [] then [required (fp @ ''.etcd.endpoints'')] else []) @
      (if st_External (dep_Storage dep) \<and> st_Endpoint (dep_Storage dep) = [] then [required (fp @ ''.storage.endpoint'')] else []) @
      (case dep_MsgStreamType dep of
         MsgStreamTypeKafka \<Rightarrow> if kaf_External (dep_Kafka dep) \<and> kaf_BrokerList (dep_Kafka dep) = [] then [required (fp @ ''.kafka.brokerList'')] else []
       | MsgStreamTypePulsar \<Rightarrow> if pul_External (dep_Pulsar dep) \<and> Pulsar_GetEndpoints (dep_Pulsar dep) = []
           then [(fp @ ''.pulsar'', ''endpoint or endpoints should be configured'')] else []
       | MsgStreamTypeWoodPecker \<Rightarrow> if wp_External (dep_WoodPecker dep)
           then validate_pools (fp @ ''.woodpecker.quorumBufferPools'') (wp_QuorumBufferPools (dep_WoodPecker dep)) else []
       | _ \<Rightarrow> []))"

definition deploymentGroupReservedLabels :: "string list" where
  "deploymentGroupReservedLabels = [DeploymentGroupLabel, ServiceLabel, OperatorVersionLabel, ''app.kubernetes.io/instance'',
     ''app.kubernetes.io/component'', ''app.kubernetes.io/name'', ''app.kubernetes.io/managed-by''] @
     map GetComponentGroupIdLabel [''proxy'', ''datanode'', ''querynode'', ''streamingnode'']"

definition deploymentGroupReservedAnnotations :: "string list" where
  "deploymentGroupReservedAnnotations = [''checksum/config'']"

definition deploymentGroupReservedMetadataPrefixes :: "string list" where
  "deploymentGroupReservedMetadataPrefixes = [''kubectl.kubernetes.io/'', MilvusIO, ''deployment.kubernetes.io/'']"

definition hasDeploymentGroupReservedMetadataPrefix :: "string \<Rightarrow> bool" where
  "hasDeploymentGroupReservedMetadataPrefix key = list_ex (has_prefix key) deploymentGroupReservedMetadataPrefixes"

definition maxKubernetesNameLength :: nat where "maxKubernetesNameLength = 253"

definition uses_two_deployments :: "Milvus \<Rightarrow> string \<Rightarrow> bool" where
  "uses_two_deployments r componentName \<longleftrightarrow> componentName = ''querynode'' \<or> com_RollingMode (ms_Com (m_Spec r)) = RollingModeV3"

definition validate_group_name :: "webhook_env \<Rightarrow> Milvus \<Rightarrow> string \<Rightarrow> string \<Rightarrow> string list \<Rightarrow> string \<Rightarrow> field_error list" where
  "validate_group_name E r componentName namePath seen name =
     (if name = [] then [(namePath, ''deployment group name is required'')]
      else
        map (\<lambda>msg. (namePath, msg)) (we_IsDNS1123Label E name) @
        (if name \<in> set seen then [(namePath, ''Duplicate value'')] else []) @
        (let two = uses_two_deployments r componentName;
             deploymentName = om_Name r @ ''-milvus-'' @ componentName @ ''-'' @ name in
         (if length deploymentName > (if two then maxKubernetesNameLength - 2 else maxKubernetesNameLength)
          then [(namePath, ''generated Deployment name must not exceed 253 characters'')] else []) @
         (if two \<and> length (componentName @ ''-'' @ om_Name r @ ''-'' @ name @ ''-old-replicas'') > maxKubernetesNameLength
          then [(namePath, ''generated rollout ControllerRevision name must not exceed 253 characters'')] else [])))"

definition reserved_keys :: "string \<Rightarrow> string \<Rightarrow> string list \<Rightarrow> smap \<Rightarrow> field_error list" where
  "reserved_keys path msg reserved m =
     map (\<lambda>key. (path @ ''['' @ key @ '']'', msg))
       (filter (\<lambda>key. key \<in> set reserved \<or> hasDeploymentGroupReservedMetadataPrefix key) (sorted_list_of_fset (fmdom m)))"

definition validate_group :: "webhook_env \<Rightarrow> Milvus \<Rightarrow> string \<Rightarrow> string \<Rightarrow> string list \<Rightarrow> DeploymentGroup \<Rightarrow> field_error list" where
  "validate_group E r componentName groupPath seen g =
     validate_group_name E r componentName (groupPath @ ''.name'') seen (dg_Name g) @
     (case dg_Replicas g of
        None \<Rightarrow> [(groupPath @ ''.replicas'', ''deployment group replicas is required'')]
      | Some n \<Rightarrow> if n < -1 then [(groupPath @ ''.replicas'', ''must be -1 or nonnegative'')] else []) @
     reserved_keys (groupPath @ ''.labels'') ''label is reserved by milvus-operator'' deploymentGroupReservedLabels (dg_Labels g) @
     reserved_keys (groupPath @ ''.annotations'') ''annotation is reserved by milvus-operator or Kubernetes''
       deploymentGroupReservedAnnotations (dg_Annotations g)"

text \<open>The loop over the groups of one component; \<open>seen\<close> holds the nonempty names so far.\<close>

fun validate_groups :: "webhook_env \<Rightarrow> Milvus \<Rightarrow> string \<Rightarrow> string \<Rightarrow> nat \<Rightarrow> string list \<Rightarrow> DeploymentGroup list \<Rightarrow> field_error list" where
  "validate_groups E r componentName groupsPath i seen [] = []"
| "validate_groups E r componentName groupsPath i seen (g # gs) =
     validate_group E r componentName (index_path groupsPath i) seen g @
     validate_groups E r componentName groupsPath (Suc i) (if dg_Name g = [] then seen else dg_Name g # seen) gs"

definition named_groups :: "Milvus \<Rightarrow> (string \<times> string \<times> DeploymentGroup list) list" where
  "named_groups r =
     (let com = ms_Com (m_Spec r) in
      (case com_Proxy com of None \<Rightarrow> [] | Some c \<Rightarrow> [(''proxy'', ''proxy'', px_Groups c)]) @
      (case com_DataNode com of None \<Rightarrow> [] | Some c \<Rightarrow> [(''dataNode'', ''datanode'', dn_Groups c)]) @
      (case com_QueryNode com of None \<Rightarrow> [] | Some c \<Rightarrow> [(''queryNode'', ''querynode'', qn_Groups c)]) @
      (case com_StreamingNode com of None \<Rightarrow> [] | Some c \<Rightarrow> [(''streamingNode'', ''streamingnode'', sn_Groups c)]))"

definition validateDeploymentGroups :: "webhook_env \<Rightarrow> Milvus \<Rightarrow> field_error list" where
  "validateDeploymentGroups E r =
     concat (map (\<lambda>(fieldName, componentName, groups).
       validate_groups E r componentName (''spec.components.'' @ fieldName @ ''.groups'') 0 [] groups) (named_groups r))"

definition sts_components :: "Milvus \<Rightarrow> (string \<times> ComponentStatefulSet option) list" where
  "sts_components r =
     (let com = ms_Com (m_Spec r) in
      (if QueryNode_StatefulSetEnabled (com_QueryNode com) then [(''queryNode'', Option.bind (com_QueryNode com) qn_StatefulSet)] else []) @
      (if DataNode_StatefulSetEnabled (com_DataNode com) then [(''dataNode'', Option.bind (com_DataNode com) dn_StatefulSet)] else []) @
      (if IndexNode_StatefulSetEnabled (com_IndexNode com) then [(''indexNode'', Option.bind (com_IndexNode com) in_StatefulSet)] else []))"

definition validateComponentStatefulSets :: "webhook_env \<Rightarrow> Milvus \<Rightarrow> field_error list" where
  "validateComponentStatefulSets E r =
     concat (map (\<lambda>(f, sts).
       (let basePath = ''spec.components.'' @ f @ ''.statefulSet'' in
        (if com_RollingMode (ms_Com (m_Spec r)) = RollingModeV3
         then [(basePath, f @ '' statefulSet mode is incompatible with rollingMode v3'')] else []) @
        concat (map (\<lambda>(i, v). (case we_pvcError E v of None \<Rightarrow> [] | Some err \<Rightarrow> [(index_path (basePath @ ''.volumeClaimTemplates'') i, err)]))
          (enumerate 0 (case sts of None \<Rightarrow> [] | Some s \<Rightarrow> ss_VolumeClaimTemplates s))))) (sts_components r))"

text \<open>\<open>ValidateCreate\<close> and \<open>ValidateUpdate\<close>: accepted when there is no error.\<close>

definition ValidateCreate :: "webhook_env \<Rightarrow> Milvus \<Rightarrow> field_error list" where
  "ValidateCreate E r =
     (case validateCommon E r of None \<Rightarrow> [] | Some e \<Rightarrow> [e]) @ validateExternal r @ validateDeploymentGroups E r @
     validateComponentStatefulSets E r @ validateRollingUpdates (we_x E) r"

end
