(* ===== verification/Webhook_Correct.thy ===== *)
theory Webhook_Correct
  imports Webhook Replica_Snapshot
begin

text \<open>
  What the admission webhook of the Milvus resource guarantees: defaulting never panics, settles after
  one application and leaves every component of the instance configured with replicas; a resource
  that passes validation has well-formed deployment groups.
\<close>

section \<open>Components\<close>

lemma or_new_simps [simp]: "or_new z v \<noteq> None" "or_new z (Some a) = Some a" "or_new z (or_new y v) = or_new y v"
  by (simp_all add: or_new_def split: option.splits)

lemma or_new_fixed: "v \<noteq> None \<Longrightarrow> or_new z v = v"
  by (auto simp: or_new_def)

lemma or_new_Some [simp]: "\<exists>a. or_new z v = Some a"
  by (simp add: or_new_def split: option.splits)

lemma default_replicas_fixed [simp]: "co_Replicas c \<noteq> None \<Longrightarrow> default_replicas n c = c"
  by (simp add: default_replicas_def)

lemma default_replicas_set [simp]: "co_Replicas (default_replicas n c) \<noteq> None"
  by (simp add: default_replicas_def)

lemma default_replicas_some [simp]: "\<exists>r. co_Replicas (default_replicas n c) = Some r"
  by (simp add: default_replicas_def)

definition has_replicas :: "'a Component_scheme option \<Rightarrow> bool" where
  "has_replicas c \<longleftrightarrow> (\<exists>co. c = Some co \<and> co_Replicas co \<noteq> None)"

lemma has_replicas_default [simp]: "has_replicas (Some (default_replicas n c))"
  by (simp add: has_replicas_def)

lemma has_replicas_map [simp]: "has_replicas (map_option (default_replicas n) c) \<longleftrightarrow> c \<noteq> None"
  by (cases c) (auto simp: has_replicas_def)

text \<open>A spec to which the defaults of the components have been applied.\<close>

definition coords_settled :: "MilvusComponents \<Rightarrow> bool" where
  "coords_settled com \<longleftrightarrow> has_replicas (com_MixCoord com) \<or>
     (com_MixCoord com = None \<and> has_replicas (com_RootCoord com) \<and> has_replicas (com_DataCoord com) \<and>
      has_replicas (com_IndexCoord com) \<and> has_replicas (com_QueryCoord com))"

definition cluster_settled :: "externals \<Rightarrow> MilvusSpec \<Rightarrow> bool" where
  "cluster_settled x spec \<longleftrightarrow>
     coords_settled (ms_Com spec) \<and> has_replicas (com_Proxy (ms_Com spec)) \<and> has_replicas (com_DataNode (ms_Com spec)) \<and>
     has_replicas (com_QueryNode (ms_Com spec)) \<and>
     (if IsVersionGreaterThan2_6 x spec then com_MixCoord (ms_Com spec) \<noteq> None else has_replicas (com_IndexNode (ms_Com spec))) \<and>
     (UseStreamingNode x spec \<longrightarrow> has_replicas (com_StreamingNode (ms_Com spec))) \<and>
     com_StreamingMode (ms_Com spec) = Some (UseStreamingNode x spec)"

definition settled :: "externals \<Rightarrow> MilvusSpec \<Rightarrow> bool" where
  "settled x spec \<longleftrightarrow>
     cs_Image (ms_Com spec) \<noteq> [] \<and> com_ImageUpdateMode (ms_Com spec) \<noteq> ImageUpdateModeUnset \<and>
     com_RollingMode (ms_Com spec) \<noteq> RollingModeNotSet \<and> com_UpdateConfigMapOnly (ms_Com spec) \<noteq> None \<and>
     has_replicas (com_Standalone (ms_Com spec)) \<and> (com_Cdc (ms_Com spec) \<noteq> None \<longrightarrow> has_replicas (com_Cdc (ms_Com spec))) \<and>
     (ms_Mode spec = MilvusModeCluster \<longrightarrow> cluster_settled x spec)"

lemma default_common_fixed:
  "cs_Image com \<noteq> [] \<Longrightarrow> com_ImageUpdateMode com \<noteq> ImageUpdateModeUnset \<Longrightarrow> com_RollingMode com \<noteq> RollingModeNotSet \<Longrightarrow>
     com_Standalone com \<noteq> None \<Longrightarrow> default_common com = com"
  by (auto simp: default_common_def setDefaultStr_def Suc_le_eq)

lemma upd_com_fixed: "f (ms_Com spec) = ms_Com spec \<Longrightarrow> upd_com f spec = spec"
  by (simp add: upd_com_def)

lemma fill_fixed:
  "com_Proxy (ms_Com spec) \<noteq> None \<Longrightarrow> upd_com (\<lambda>com. com\<lparr>com_Proxy := or_new px (com_Proxy com)\<rparr>) spec = spec"
  "com_DataNode (ms_Com spec) \<noteq> None \<Longrightarrow> upd_com (\<lambda>com. com\<lparr>com_DataNode := or_new dn (com_DataNode com)\<rparr>) spec = spec"
  "com_IndexNode (ms_Com spec) \<noteq> None \<Longrightarrow> upd_com (\<lambda>com. com\<lparr>com_IndexNode := or_new inode (com_IndexNode com)\<rparr>) spec = spec"
  "com_QueryNode (ms_Com spec) \<noteq> None \<Longrightarrow> upd_com (\<lambda>com. com\<lparr>com_QueryNode := or_new qn (com_QueryNode com)\<rparr>) spec = spec"
  "com_UpdateConfigMapOnly (ms_Com spec) \<noteq> None \<Longrightarrow> upd_com (\<lambda>com. com\<lparr>com_UpdateConfigMapOnly := or_new b (com_UpdateConfigMapOnly com)\<rparr>) spec = spec"
  "com_StreamingNode (ms_Com spec) \<noteq> None \<Longrightarrow> com_StreamingMode (ms_Com spec) = Some True \<Longrightarrow>
     upd_com (\<lambda>com. com\<lparr>com_StreamingNode := or_new sn (com_StreamingNode com), com_StreamingMode := Some True\<rparr>) spec = spec"
  "com_StreamingMode (ms_Com spec) = Some False \<Longrightarrow> upd_com (\<lambda>com. com\<lparr>com_StreamingMode := Some False\<rparr>) spec = spec"
  by (rule upd_com_fixed, simp add: or_new_fixed)+

lemma has_replicas_not_None: "has_replicas c \<Longrightarrow> c \<noteq> None"
  by (auto simp: has_replicas_def)

lemma default_coords_fixed: "coords_settled (ms_Com spec) \<Longrightarrow> default_coords spec = spec"
proof (cases "UseMixCoord spec")
  case False
  assume "coords_settled (ms_Com spec)"
  with False have n: "com_RootCoord (ms_Com spec) \<noteq> None" "com_DataCoord (ms_Com spec) \<noteq> None"
    "com_IndexCoord (ms_Com spec) \<noteq> None" "com_QueryCoord (ms_Com spec) \<noteq> None"
    by (auto simp: UseMixCoord_def coords_settled_def dest: has_replicas_not_None)
  with False show ?thesis
    by (auto simp: default_coords_def noCoordSpecifiedByUser_def upd_com_def or_new_fixed)
qed (simp add: default_coords_def)

lemma default_cluster_fixed:
  assumes "cluster_settled x spec"
  shows "default_cluster x spec = spec"
proof -
  have n: "com_Proxy (ms_Com spec) \<noteq> None" "com_DataNode (ms_Com spec) \<noteq> None" "com_QueryNode (ms_Com spec) \<noteq> None"
    "\<not> IsVersionGreaterThan2_6 x spec \<longrightarrow> com_IndexNode (ms_Com spec) \<noteq> None"
    "UseStreamingNode x spec \<longrightarrow> com_StreamingNode (ms_Com spec) \<noteq> None"
    using assms unfolding cluster_settled_def by (auto dest: has_replicas_not_None split: if_splits)
  have c: "default_coords spec = spec" "com_StreamingMode (ms_Com spec) = Some (UseStreamingNode x spec)"
    using assms by (simp_all add: cluster_settled_def default_coords_fixed)
  show ?thesis
    unfolding default_cluster_def Let_def fill_fixed(1) [OF n(1)] c(1) fill_fixed(2) [OF n(2)]
    using n c(2) by (cases "IsVersionGreaterThan2_6 x spec"; cases "UseStreamingNode x spec") (simp_all add: fill_fixed)
qed

lemma coord_replicas_fixed: "coords_settled com \<Longrightarrow> default_coord_replicas com = Some com"
  unfolding coords_settled_def default_coord_replicas_def has_replicas_def by (elim disjE exE conjE) simp_all

lemma cluster_replicas_fixed:
  assumes "cluster_settled x spec" "has_replicas (com_Standalone (ms_Com spec))"
  shows "default_cluster_replicas x spec = Some (ms_Com spec)"
proof -
  define com where "com = ms_Com spec"
  obtain sa px dn qn where c: "com_Standalone com = Some sa" "co_Replicas sa \<noteq> None" "com_Proxy com = Some px" "co_Replicas px \<noteq> None"
    "com_DataNode com = Some dn" "co_Replicas dn \<noteq> None" "com_QueryNode com = Some qn" "co_Replicas qn \<noteq> None"
    using assms by (auto simp: cluster_settled_def has_replicas_def com_def)
  have sn: "(if UseStreamingNode x spec
       then do { sn \<leftarrow> com_StreamingNode com; Some (com\<lparr>com_StreamingNode := Some (default_replicas 1 sn)\<rparr>) } else Some com) = Some com"
    using assms(1) by (auto simp: cluster_settled_def has_replicas_def com_def)
  have inode: "(if \<not> IsVersionGreaterThan2_6 x spec
       then do { inode \<leftarrow> com_IndexNode com; Some (com\<lparr>com_IndexNode := Some (default_replicas 1 inode)\<rparr>) } else Some com) = Some com"
    using assms(1) by (auto simp: cluster_settled_def has_replicas_def com_def)
  have mix: "(if IsVersionGreaterThan2_6 x spec then com\<lparr>com_MixCoord := or_new zero_Component (com_MixCoord com)\<rparr> else com) = com"
    using assms(1) by (auto simp: cluster_settled_def com_def or_new_fixed)
  have coord: "default_coord_replicas com = Some com"
    using assms(1) by (simp add: cluster_settled_def com_def coord_replicas_fixed)
  have id: "com\<lparr>com_Standalone := Some sa\<rparr> = com" "com\<lparr>com_Proxy := Some px, com_DataNode := Some dn\<rparr> = com" "com\<lparr>com_QueryNode := Some qn\<rparr> = com"
    by (simp_all flip: c(1,3,5,7))
  show ?thesis
    unfolding default_cluster_replicas_def com_def [symmetric] Let_def
    by (simp only: c default_replicas_fixed id sn mix coord inode Option.bind.simps not_False_eq_True)
qed

lemma settled_fixed:
  assumes "settled x (m_Spec r)"
  shows "DefaultComponents x r = Some r"
proof -
  define spec where "spec = m_Spec r"
  have s: "upd_com default_common spec = spec"
    "upd_com (\<lambda>com. com\<lparr>com_UpdateConfigMapOnly := or_new True (com_UpdateConfigMapOnly com)\<rparr>) spec = spec"
    using assms has_replicas_not_None [of "com_Standalone (ms_Com (m_Spec r))"]
    by (auto simp: settled_def spec_def default_common_fixed fill_fixed intro!: upd_com_fixed)
  have cl: "(if ms_Mode spec = MilvusModeCluster then default_cluster x spec else spec) = spec"
    using assms by (simp add: settled_def spec_def default_cluster_fixed)
  obtain sa where sa: "com_Standalone (ms_Com spec) = Some sa" "co_Replicas sa \<noteq> None"
    using assms by (auto simp: settled_def spec_def has_replicas_def)
  have rep: "(if ms_Mode spec = MilvusModeCluster then default_cluster_replicas x spec
       else do { sa \<leftarrow> com_Standalone (ms_Com spec); Some ((ms_Com spec)\<lparr>com_Standalone := Some (default_replicas 1 sa)\<rparr>) }) = Some (ms_Com spec)"
    using assms sa by (auto simp: settled_def spec_def cluster_replicas_fixed)
  have cdc: "map_option (default_replicas 1) (com_Cdc (ms_Com spec)) = com_Cdc (ms_Com spec)"
    using assms by (cases "com_Cdc (ms_Com spec)") (auto simp: settled_def spec_def has_replicas_def)
  have "defaultComponentsReplicas x spec = Some spec"
    unfolding defaultComponentsReplicas_def rep by (simp add: cdc)
  then show ?thesis
    unfolding DefaultComponents_def Let_def spec_def [symmetric] s(1) cl s(2) by (simp add: spec_def)
qed

text \<open>After the first half of the defaults every component that will be dereferenced is there.\<close>

definition cluster_complete :: "externals \<Rightarrow> MilvusSpec \<Rightarrow> bool" where
  "cluster_complete x spec \<longleftrightarrow>
     (com_MixCoord (ms_Com spec) = None \<longrightarrow> com_RootCoord (ms_Com spec) \<noteq> None \<and> com_DataCoord (ms_Com spec) \<noteq> None \<and>
        com_IndexCoord (ms_Com spec) \<noteq> None \<and> com_QueryCoord (ms_Com spec) \<noteq> None) \<and>
     com_Proxy (ms_Com spec) \<noteq> None \<and> com_DataNode (ms_Com spec) \<noteq> None \<and> com_QueryNode (ms_Com spec) \<noteq> None \<and>
     (\<not> IsVersionGreaterThan2_6 x spec \<longrightarrow> com_IndexNode (ms_Com spec) \<noteq> None) \<and>
     (UseStreamingNode x spec \<longrightarrow> com_StreamingNode (ms_Com spec) \<noteq> None) \<and>
     com_StreamingMode (ms_Com spec) = Some (UseStreamingNode x spec)"

lemma version_upd_com:
  "cs_Version (f (ms_Com spec)) = cs_Version (ms_Com spec) \<Longrightarrow> cs_Image (f (ms_Com spec)) = cs_Image (ms_Com spec) \<Longrightarrow>
     IsVersionGreaterThan2_6 x (upd_com f spec) = IsVersionGreaterThan2_6 x spec"
  by (simp add: IsVersionGreaterThan2_6_def upd_com_def)

lemma default_coords_frame:
  "cs_Version (ms_Com (default_coords spec)) = cs_Version (ms_Com spec)" "cs_Image (ms_Com (default_coords spec)) = cs_Image (ms_Com spec)"
  "com_Proxy (ms_Com (default_coords spec)) = com_Proxy (ms_Com spec)" "ms_Mode (default_coords spec) = ms_Mode spec"
  "com_MixCoord (ms_Com (default_coords spec)) = None \<longrightarrow> com_RootCoord (ms_Com (default_coords spec)) \<noteq> None \<and>
     com_DataCoord (ms_Com (default_coords spec)) \<noteq> None \<and> com_IndexCoord (ms_Com (default_coords spec)) \<noteq> None \<and>
     com_QueryCoord (ms_Com (default_coords spec)) \<noteq> None"
  by (auto simp: default_coords_def upd_com_def UseMixCoord_def)

lemma streaming_settled:
  assumes "spec' = (if UseStreamingNode x spec
      then upd_com (\<lambda>com. com\<lparr>com_StreamingNode := or_new zero_MilvusStreamingNode (com_StreamingNode com), com_StreamingMode := Some True\<rparr>) spec
      else upd_com (\<lambda>com. com\<lparr>com_StreamingMode := Some False\<rparr>) spec)"
  shows "UseStreamingNode x spec' = UseStreamingNode x spec \<and> com_StreamingMode (ms_Com spec') = Some (UseStreamingNode x spec') \<and>
     (UseStreamingNode x spec' \<longrightarrow> com_StreamingNode (ms_Com spec') \<noteq> None)"
proof -
  have v: "IsVersionGreaterThan2_6 x spec' = IsVersionGreaterThan2_6 x spec" using assms by (simp add: version_upd_com)
  have m: "com_StreamingMode (ms_Com spec') = Some (UseStreamingNode x spec)" using assms by (simp add: upd_com_def)
  have u: "UseStreamingNode x spec' = UseStreamingNode x spec"
    using m v by (auto simp: UseStreamingNode_def [of _ spec'] UseStreamingNode_def [of _ spec])
  show ?thesis using u m assms by (auto simp: upd_com_def)
qed

lemma default_cluster_complete: "cluster_complete x (default_cluster x spec)"
proof -
  define s1 where "s1 = default_coords (upd_com (\<lambda>com. com\<lparr>com_Proxy := or_new zero_MilvusProxy (com_Proxy com)\<rparr>) spec)"
  define s2 where "s2 = upd_com (\<lambda>com. com\<lparr>com_DataNode := or_new zero_MilvusDataNode (com_DataNode com)\<rparr>) s1"
  define s3 where "s3 = (if \<not> IsVersionGreaterThan2_6 x s2
     then upd_com (\<lambda>com. com\<lparr>com_IndexNode := or_new zero_MilvusIndexNode (com_IndexNode com)\<rparr>) s2 else s2)"
  define s4 where "s4 = upd_com (\<lambda>com. com\<lparr>com_QueryNode := or_new zero_MilvusQueryNode (com_QueryNode com)\<rparr>) s3"
  define s5 where "s5 = (if UseStreamingNode x s4
      then upd_com (\<lambda>com. com\<lparr>com_StreamingNode := or_new zero_MilvusStreamingNode (com_StreamingNode com), com_StreamingMode := Some True\<rparr>) s4
      else upd_com (\<lambda>com. com\<lparr>com_StreamingMode := Some False\<rparr>) s4)"
  note st = streaming_settled [OF s5_def]
  have p: "com_Proxy (ms_Com s1) \<noteq> None" by (simp add: s1_def default_coords_frame upd_com_def)
  have c: "com_MixCoord (ms_Com s1) = None \<longrightarrow> com_RootCoord (ms_Com s1) \<noteq> None \<and> com_DataCoord (ms_Com s1) \<noteq> None \<and>
      com_IndexCoord (ms_Com s1) \<noteq> None \<and> com_QueryCoord (ms_Com s1) \<noteq> None"
    unfolding s1_def by (rule default_coords_frame)
  have v: "IsVersionGreaterThan2_6 x s5 = IsVersionGreaterThan2_6 x s2" by (simp add: s5_def s4_def s3_def version_upd_com)
  have k: "com_MixCoord (ms_Com s5) = com_MixCoord (ms_Com s1)" "com_RootCoord (ms_Com s5) = com_RootCoord (ms_Com s1)"
    "com_DataCoord (ms_Com s5) = com_DataCoord (ms_Com s1)" "com_IndexCoord (ms_Com s5) = com_IndexCoord (ms_Com s1)"
    "com_QueryCoord (ms_Com s5) = com_QueryCoord (ms_Com s1)" "com_Proxy (ms_Com s5) = com_Proxy (ms_Com s1)"
    "com_DataNode (ms_Com s5) \<noteq> None" "com_QueryNode (ms_Com s5) \<noteq> None"
    "\<not> IsVersionGreaterThan2_6 x s2 \<longrightarrow> com_IndexNode (ms_Com s5) \<noteq> None"
    by (simp_all add: s5_def s4_def s3_def s2_def upd_com_def)
  have "default_cluster x spec = s5"
    by (simp only: default_cluster_def Let_def s1_def s2_def s3_def s4_def s5_def)
  with p c st v k show ?thesis by (simp add: cluster_complete_def)
qed

text \<open>The second half fills in the replicas, without a nil dereference.\<close>

definition same_common :: "MilvusComponents \<Rightarrow> MilvusComponents \<Rightarrow> bool" where
  "same_common com com' \<longleftrightarrow> cs_Image com' = cs_Image com \<and> cs_Version com' = cs_Version com \<and>
     com_ImageUpdateMode com' = com_ImageUpdateMode com \<and> com_RollingMode com' = com_RollingMode com \<and>
     com_UpdateConfigMapOnly com' = com_UpdateConfigMapOnly com \<and> com_Cdc com' = com_Cdc com \<and>
     com_StreamingMode com' = com_StreamingMode com \<and> com_EnableRollingUpdate com' = com_EnableRollingUpdate com"

lemma coord_replicas_total:
  assumes "com_MixCoord com = None \<longrightarrow> com_RootCoord com \<noteq> None \<and> com_DataCoord com \<noteq> None \<and> com_IndexCoord com \<noteq> None \<and> com_QueryCoord com \<noteq> None"
  obtains com' where "default_coord_replicas com = Some com'" "coords_settled com'" "same_common com com'"
    "com_Standalone com' = com_Standalone com" "com_StreamingNode com' = com_StreamingNode com" "com_Proxy com' = com_Proxy com"
    "com_DataNode com' = com_DataNode com" "com_IndexNode com' = com_IndexNode com" "com_QueryNode com' = com_QueryNode com"
    "com_MixCoord com \<noteq> None \<longrightarrow> com_MixCoord com' \<noteq> None"
proof (cases "com_MixCoord com")
  case (Some c)
  show ?thesis
    by (rule that [of "com\<lparr>com_MixCoord := Some (default_replicas 1 c)\<rparr>"])
      (simp_all add: default_coord_replicas_def Some coords_settled_def same_common_def)
next
  case None
  then obtain rc dc ic qc where c: "com_RootCoord com = Some rc" "com_DataCoord com = Some dc" "com_IndexCoord com = Some ic" "com_QueryCoord com = Some qc"
    using assms by auto
  show ?thesis
    by (rule that [of "com\<lparr>com_RootCoord := Some (default_replicas 1 rc), com_DataCoord := Some (default_replicas 1 dc),
        com_IndexCoord := Some (default_replicas 1 ic), com_QueryCoord := Some (default_replicas 1 qc)\<rparr>"])
      (simp_all add: default_coord_replicas_def None c coords_settled_def same_common_def)
qed

lemma cluster_replicas_total:
  assumes "cluster_complete x spec" "com_Standalone (ms_Com spec) \<noteq> None"
  obtains com where "default_cluster_replicas x spec = Some com" "cluster_settled x (spec\<lparr>ms_Com := com\<rparr>)"
    "has_replicas (com_Standalone com)" "same_common (ms_Com spec) com"
proof -
  obtain sa px dn qn where c: "com_Standalone (ms_Com spec) = Some sa" "com_Proxy (ms_Com spec) = Some px"
      "com_DataNode (ms_Com spec) = Some dn" "com_QueryNode (ms_Com spec) = Some qn"
    using assms by (auto simp: cluster_complete_def)
  obtain sn inode where opt: "UseStreamingNode x spec \<longrightarrow> com_StreamingNode (ms_Com spec) = Some sn"
      "\<not> IsVersionGreaterThan2_6 x spec \<longrightarrow> com_IndexNode (ms_Com spec) = Some inode"
    using assms(1) by (auto simp: cluster_complete_def)
  define c1 where "c1 = (ms_Com spec)\<lparr>com_Standalone := Some (default_replicas 0 sa)\<rparr>"
  define c2 where "c2 = (if UseStreamingNode x spec then c1\<lparr>com_StreamingNode := Some (default_replicas 1 sn)\<rparr> else c1)"
  define c3 where "c3 = (if IsVersionGreaterThan2_6 x spec then c2\<lparr>com_MixCoord := or_new zero_Component (com_MixCoord c2)\<rparr> else c2)"
  have "com_MixCoord c3 = None \<longrightarrow> com_RootCoord c3 \<noteq> None \<and> com_DataCoord c3 \<noteq> None \<and> com_IndexCoord c3 \<noteq> None \<and> com_QueryCoord c3 \<noteq> None"
    using assms(1) by (simp add: c3_def c2_def c1_def cluster_complete_def)
  from coord_replicas_total [OF this] obtain c4 where c4: "default_coord_replicas c3 = Some c4" "coords_settled c4" "same_common c3 c4"
    "com_Standalone c4 = com_Standalone c3" "com_StreamingNode c4 = com_StreamingNode c3" "com_Proxy c4 = com_Proxy c3"
    "com_DataNode c4 = com_DataNode c3" "com_IndexNode c4 = com_IndexNode c3" "com_QueryNode c4 = com_QueryNode c3"
    "com_MixCoord c3 \<noteq> None \<longrightarrow> com_MixCoord c4 \<noteq> None" by blast
  define c5 where "c5 = c4\<lparr>com_Proxy := Some (default_replicas 1 px), com_DataNode := Some (default_replicas 1 dn)\<rparr>"
  define c6 where "c6 = (if \<not> IsVersionGreaterThan2_6 x spec then c5\<lparr>com_IndexNode := Some (default_replicas 1 inode)\<rparr> else c5)"
  define c7 where "c7 = c6\<lparr>com_QueryNode := Some (default_replicas 1 qn)\<rparr>"
  have k3: "com_Standalone c3 = Some (default_replicas 0 sa)" "com_Proxy c3 = Some px" "com_DataNode c3 = Some dn" "com_QueryNode c3 = Some qn"
    "com_IndexNode c3 = com_IndexNode (ms_Com spec)" "same_common (ms_Com spec) c3"
    "com_StreamingNode c3 = (if UseStreamingNode x spec then Some (default_replicas 1 sn) else com_StreamingNode (ms_Com spec))"
    "IsVersionGreaterThan2_6 x spec \<longrightarrow> com_MixCoord c3 \<noteq> None"
    by (simp_all add: c3_def c2_def c1_def c same_common_def)
  have k7: "com_Standalone c7 = com_Standalone c4" "com_StreamingNode c7 = com_StreamingNode c4" "com_MixCoord c7 = com_MixCoord c4"
    "com_RootCoord c7 = com_RootCoord c4" "com_DataCoord c7 = com_DataCoord c4" "com_IndexCoord c7 = com_IndexCoord c4" "com_QueryCoord c7 = com_QueryCoord c4"
    "has_replicas (com_Proxy c7)" "has_replicas (com_DataNode c7)" "has_replicas (com_QueryNode c7)" "same_common c4 c7"
    "\<not> IsVersionGreaterThan2_6 x spec \<longrightarrow> has_replicas (com_IndexNode c7)"
    by (simp_all add: c7_def c6_def c5_def same_common_def)
  have same: "same_common (ms_Com spec) c7" using k3(6) c4(3) k7(11) by (simp add: same_common_def)
  have ver: "IsVersionGreaterThan2_6 x (spec\<lparr>ms_Com := c7\<rparr>) = IsVersionGreaterThan2_6 x spec"
    "UseStreamingNode x (spec\<lparr>ms_Com := c7\<rparr>) = UseStreamingNode x spec"
    using same assms(1) by (simp_all add: same_common_def UseStreamingNode_def [of _ "spec\<lparr>ms_Com := c7\<rparr>"] IsVersionGreaterThan2_6_def cluster_complete_def)
      (simp add: UseStreamingNode_def IsVersionGreaterThan2_6_def)
  show ?thesis
  proof (rule that [of c7])
    show "default_cluster_replicas x spec = Some c7"
      unfolding default_cluster_replicas_def Let_def c Option.bind.simps c1_def [symmetric]
      by (cases "UseStreamingNode x spec"; cases "IsVersionGreaterThan2_6 x spec")
        (use opt c4 k3 in \<open>simp_all add: c1_def c2_def c3_def c5_def c6_def c7_def\<close>)
    show "cluster_settled x (spec\<lparr>ms_Com := c7\<rparr>)"
      using k7 k3 c4 same assms(1) by (auto simp: cluster_settled_def ver coords_settled_def cluster_complete_def same_common_def)
    show "has_replicas (com_Standalone c7)" using k7(1) c4(4) k3(1) by simp
    show "same_common (ms_Com spec) c7" by (rule same)
  qed
qed


lemma settled_congr:
  assumes "settled x spec" "ms_Mode spec' = ms_Mode spec" "ms_Com spec' = (ms_Com spec)\<lparr>com_EnableRollingUpdate := e\<rparr>"
  shows "settled x spec'"
proof -
  have "IsVersionGreaterThan2_6 x spec' = IsVersionGreaterThan2_6 x spec" "UseStreamingNode x spec' = UseStreamingNode x spec"
    using assms(3) by (simp_all add: UseStreamingNode_def IsVersionGreaterThan2_6_def split: option.split)
  with assms show ?thesis by (simp add: settled_def cluster_settled_def coords_settled_def)
qed

lemma settled_replicas:
  assumes "cs_Image (ms_Com spec) \<noteq> []" "com_ImageUpdateMode (ms_Com spec) \<noteq> ImageUpdateModeUnset"
    "com_RollingMode (ms_Com spec) \<noteq> RollingModeNotSet" "com_UpdateConfigMapOnly (ms_Com spec) \<noteq> None"
    "com_Standalone (ms_Com spec) \<noteq> None" "ms_Mode spec = MilvusModeCluster \<longrightarrow> cluster_complete x spec"
  obtains com where "defaultComponentsReplicas x spec = Some (spec\<lparr>ms_Com := com\<rparr>)" "settled x (spec\<lparr>ms_Com := com\<rparr>)"
proof (cases "ms_Mode spec = MilvusModeCluster")
  case True
  from True assms(6) have "cluster_complete x spec" by simp
  from cluster_replicas_total [OF this assms(5)] obtain com where com:
    "default_cluster_replicas x spec = Some com" "cluster_settled x (spec\<lparr>ms_Com := com\<rparr>)"
    "has_replicas (com_Standalone com)" "same_common (ms_Com spec) com" by blast
  let ?com = "com\<lparr>com_Cdc := map_option (default_replicas 1) (com_Cdc com)\<rparr>"
  have v: "IsVersionGreaterThan2_6 x (spec\<lparr>ms_Com := ?com\<rparr>) = IsVersionGreaterThan2_6 x (spec\<lparr>ms_Com := com\<rparr>)"
    "UseStreamingNode x (spec\<lparr>ms_Com := ?com\<rparr>) = UseStreamingNode x (spec\<lparr>ms_Com := com\<rparr>)"
    by (simp_all add: UseStreamingNode_def IsVersionGreaterThan2_6_def split: option.split)
  have "cluster_settled x (spec\<lparr>ms_Com := ?com\<rparr>)"
    using com(2) unfolding cluster_settled_def v by (simp add: coords_settled_def split: if_splits)
  then have "settled x (spec\<lparr>ms_Com := ?com\<rparr>)"
    using com(3,4) assms(1-4) by (simp add: settled_def same_common_def)
  show ?thesis
  proof (rule that [of ?com])
    show "settled x (spec\<lparr>ms_Com := ?com\<rparr>)" by fact
  qed (simp add: defaultComponentsReplicas_def True com(1))
next
  case False
  from assms(5) obtain sa where sa: "com_Standalone (ms_Com spec) = Some sa" by auto
  show ?thesis
    by (rule that [of "(ms_Com spec)\<lparr>com_Standalone := Some (default_replicas 1 sa), com_Cdc := map_option (default_replicas 1) (com_Cdc (ms_Com spec))\<rparr>"])
      (use assms in \<open>auto simp: defaultComponentsReplicas_def False sa settled_def has_replicas_def\<close>)
qed

lemma default_common_complete:
  "cs_Image (default_common com) \<noteq> []" "com_ImageUpdateMode (default_common com) \<noteq> ImageUpdateModeUnset"
  "com_RollingMode (default_common com) \<noteq> RollingModeNotSet" "com_Standalone (default_common com) \<noteq> None"
  by (auto simp: default_common_def setDefaultStr_def DefaultMilvusImage_def)

lemma default_cluster_frame:
  "cs_Image (ms_Com (default_cluster x spec)) = cs_Image (ms_Com spec)"
  "com_ImageUpdateMode (ms_Com (default_cluster x spec)) = com_ImageUpdateMode (ms_Com spec)"
  "com_RollingMode (ms_Com (default_cluster x spec)) = com_RollingMode (ms_Com spec)"
  "com_Standalone (ms_Com (default_cluster x spec)) = com_Standalone (ms_Com spec)"
  "ms_Mode (default_cluster x spec) = ms_Mode spec"
  "(default_cluster x spec)\<lparr>ms_Com := com\<rparr> = spec\<lparr>ms_Com := com\<rparr>"
  by (simp_all add: default_cluster_def default_coords_def upd_com_def Let_def)

lemma DefaultComponents_total:
  obtains com where "DefaultComponents x r = Some (r\<lparr>m_Spec := (m_Spec r)\<lparr>ms_Com := com\<rparr>\<rparr>)"
    "settled x ((m_Spec r)\<lparr>ms_Com := com\<rparr>)"
proof -
  define s1 where "s1 = upd_com default_common (m_Spec r)"
  define s2 where "s2 = (if ms_Mode s1 = MilvusModeCluster then default_cluster x s1 else s1)"
  define s3 where "s3 = upd_com (\<lambda>com. com\<lparr>com_UpdateConfigMapOnly := or_new True (com_UpdateConfigMapOnly com)\<rparr>) s2"
  have com2: "\<exists>com. s2 = (m_Spec r)\<lparr>ms_Com := com\<rparr>"
    using default_cluster_frame(6) [where x = x and spec = s1 and com = "ms_Com (default_cluster x s1)"] by (auto simp: s2_def s1_def upd_com_def)
  then obtain com3 where com3: "s3 = (m_Spec r)\<lparr>ms_Com := com3\<rparr>" by (auto simp: s3_def upd_com_def)
  have v: "IsVersionGreaterThan2_6 x s3 = IsVersionGreaterThan2_6 x s2" "UseStreamingNode x s3 = UseStreamingNode x s2"
    by (simp_all add: s3_def upd_com_def UseStreamingNode_def IsVersionGreaterThan2_6_def split: option.split)
  have "cluster_complete x s3" if "ms_Mode s3 = MilvusModeCluster"
  proof -
    have "ms_Mode s1 = MilvusModeCluster" using that com3 com2 by (simp add: s1_def upd_com_def)
    then have "cluster_complete x s2" by (simp add: s2_def default_cluster_complete)
    then show ?thesis unfolding cluster_complete_def v by (simp add: s3_def upd_com_def)
  qed
  moreover have "cs_Image (ms_Com s3) \<noteq> []" "com_ImageUpdateMode (ms_Com s3) \<noteq> ImageUpdateModeUnset"
    "com_RollingMode (ms_Com s3) \<noteq> RollingModeNotSet" "com_UpdateConfigMapOnly (ms_Com s3) \<noteq> None" "com_Standalone (ms_Com s3) \<noteq> None"
    using default_common_complete [of "ms_Com (m_Spec r)"] by (simp_all add: s3_def upd_com_def s2_def default_cluster_frame s1_def)
  ultimately obtain com where "defaultComponentsReplicas x s3 = Some (s3\<lparr>ms_Com := com\<rparr>)" "settled x (s3\<lparr>ms_Com := com\<rparr>)"
    using settled_replicas [of s3 x] by blast
  then show ?thesis
    by (intro that [of com]) (simp_all add: com3 DefaultComponents_def Let_def flip: s1_def s2_def s3_def)
qed


section \<open>What the user has set\<close>

definition filled :: "Component \<Rightarrow> Component \<Rightarrow> bool" where
  "filled co co' \<longleftrightarrow> co' = co \<or> (\<exists>n. co' = default_replicas n co)"

definition extends :: "MilvusComponents \<Rightarrow> MilvusComponents \<Rightarrow> bool" where
  "extends com com' \<longleftrightarrow> (cs_Image com \<noteq> [] \<longrightarrow> cs_Image com' = cs_Image com) \<and> cs_Version com' = cs_Version com \<and>
     com_EnableManualMode com' = com_EnableManualMode com \<and>
     (\<forall>f co. com_field f com = Some co \<longrightarrow> (\<exists>co'. com_field f com' = Some co' \<and> filled co co'))"

lemma default_replicas_twice [simp]: "default_replicas m (default_replicas n c) = default_replicas n c"
  by (rule default_replicas_fixed) simp

lemma default_replicas_truncate [simp]: "Component.truncate (default_replicas n c) = default_replicas n (Component.truncate c)"
  by (simp add: default_replicas_def Component.truncate_def)

lemma filled_simps [simp]: "filled co co" "filled co (default_replicas n co)"
  by (auto simp: filled_def)

lemma extends_refl [simp]: "extends com com"
  by (simp add: extends_def)

lemma filled_trans: "filled a b \<Longrightarrow> filled b c \<Longrightarrow> filled a c"
  by (auto simp: filled_def)

lemma extends_trans:
  assumes "extends a b" "extends b c"
  shows "extends a c"
proof -
  have "\<exists>co'. com_field f c = Some co' \<and> filled co co'" if "com_field f a = Some co" for f co
  proof -
    from assms(1) that obtain c1 where c1: "com_field f b = Some c1" "filled co c1" by (auto simp: extends_def)
    with assms(2) obtain c2 where "com_field f c = Some c2" "filled c1 c2" by (auto simp: extends_def)
    with c1(2) show ?thesis by (auto intro: filled_trans)
  qed
  with assms show ?thesis by (auto simp: extends_def)
qed

lemma com_field_cases:
  "com_field f com = Some co \<Longrightarrow>
     f = ''Proxy'' \<or> f = ''MixCoord'' \<or> f = ''RootCoord'' \<or> f = ''IndexCoord'' \<or> f = ''DataCoord'' \<or> f = ''QueryCoord'' \<or> f = ''IndexNode'' \<or>
     f = ''DataNode'' \<or> f = ''QueryNode'' \<or> f = ''StreamingNode'' \<or> f = ''Standalone'' \<or> f = ''Cdc''"
  unfolding com_field_def by (simp split: if_splits)

definition opt_filled :: "'a Component_scheme option \<Rightarrow> 'a Component_scheme option \<Rightarrow> bool" where
  "opt_filled c c' \<longleftrightarrow> (\<forall>a. c = Some a \<longrightarrow> c' = Some a \<or> (\<exists>n. c' = Some (default_replicas n a)))"

lemma opt_filled_simps [simp]: "opt_filled c c" "opt_filled c (or_new z c)" "opt_filled c (map_option (default_replicas n) c)"
  by (auto simp: opt_filled_def or_new_def)

lemma opt_filled_some: "c = Some a \<Longrightarrow> opt_filled c (Some (default_replicas n a))"
  by (auto simp: opt_filled_def)

lemma opt_filled_none [simp]: "opt_filled None c"
  by (auto simp: opt_filled_def)

lemma opt_filled_truncate:
  "opt_filled c c' \<Longrightarrow> map_option Component.truncate c = Some co \<Longrightarrow> \<exists>co'. map_option Component.truncate c' = Some co' \<and> filled co co'"
  by (auto simp: opt_filled_def)

lemma opt_filled_plain: "opt_filled c c' \<Longrightarrow> c = Some co \<Longrightarrow> \<exists>co'. c' = Some co' \<and> filled co co'"
  by (auto simp: opt_filled_def)

lemma extendsI:
  assumes "cs_Image com \<noteq> [] \<longrightarrow> cs_Image com' = cs_Image com" "cs_Version com' = cs_Version com" "com_EnableManualMode com' = com_EnableManualMode com"
    and f: "opt_filled (com_Proxy com) (com_Proxy com')" "opt_filled (com_MixCoord com) (com_MixCoord com')"
    "opt_filled (com_RootCoord com) (com_RootCoord com')" "opt_filled (com_IndexCoord com) (com_IndexCoord com')"
    "opt_filled (com_DataCoord com) (com_DataCoord com')" "opt_filled (com_QueryCoord com) (com_QueryCoord com')"
    "opt_filled (com_IndexNode com) (com_IndexNode com')" "opt_filled (com_DataNode com) (com_DataNode com')"
    "opt_filled (com_QueryNode com) (com_QueryNode com')" "opt_filled (com_StreamingNode com) (com_StreamingNode com')"
    "opt_filled (com_Standalone com) (com_Standalone com')" "opt_filled (com_Cdc com) (com_Cdc com')"
  shows "extends com com'"
proof -
  have "\<exists>co'. com_field f com' = Some co' \<and> filled co co'" if "com_field f com = Some co" for f co
    using com_field_cases [OF that] that f
    by (elim disjE) (simp_all add: com_field_def opt_filled_truncate opt_filled_plain del: map_option_eq_Some)
  with assms(1-3) show ?thesis by (simp add: extends_def)
qed

lemma default_common_extends: "extends com (default_common com)"
  by (rule extendsI) (auto simp: default_common_def setDefaultStr_def Suc_le_eq)

lemma default_coords_extends: "extends (ms_Com spec) (ms_Com (default_coords spec))"
  by (rule extendsI) (auto simp: default_coords_def upd_com_def UseMixCoord_def)

lemma default_cluster_extends: "extends (ms_Com spec) (ms_Com (default_cluster x spec))"
proof -
  let ?s1 = "upd_com (\<lambda>com. com\<lparr>com_Proxy := or_new zero_MilvusProxy (com_Proxy com)\<rparr>) spec"
  have "extends (ms_Com spec) (ms_Com ?s1)" by (rule extendsI) (simp_all add: upd_com_def)
  moreover have "extends (ms_Com ?s1) (ms_Com (default_coords ?s1))" by (rule default_coords_extends)
  moreover have "extends (ms_Com (default_coords ?s1)) (ms_Com (default_cluster x spec))"
    by (rule extendsI) (simp_all add: default_cluster_def Let_def upd_com_def)
  ultimately show ?thesis by (meson extends_trans)
qed

lemma coord_replicas_extends: "default_coord_replicas com = Some com' \<Longrightarrow> extends com com'"
  by (rule extendsI)
    (auto simp: default_coord_replicas_def opt_filled_some split: option.splits bind_splits)

lemma cluster_replicas_extends:
  assumes "default_cluster_replicas x spec = Some com'"
  shows "extends (ms_Com spec) com'"
proof -
  obtain sa c1 c2 c3 c4 cc c5 px dn qn where c:
    "com_Standalone (ms_Com spec) = Some sa" "c1 = (ms_Com spec)\<lparr>com_Standalone := Some (default_replicas 0 sa)\<rparr>"
    "(if UseStreamingNode x spec then do { sn \<leftarrow> com_StreamingNode c1; Some (c1\<lparr>com_StreamingNode := Some (default_replicas 1 sn)\<rparr>) } else Some c1) = Some c2"
    "c3 = (if IsVersionGreaterThan2_6 x spec then c2\<lparr>com_MixCoord := or_new zero_Component (com_MixCoord c2)\<rparr> else c2)"
    "default_coord_replicas c3 = Some c4" "com_Proxy c4 = Some px" "com_DataNode c4 = Some dn"
    "cc = c4\<lparr>com_Proxy := Some (default_replicas 1 px), com_DataNode := Some (default_replicas 1 dn)\<rparr>"
    "(if \<not> IsVersionGreaterThan2_6 x spec then do { inode \<leftarrow> com_IndexNode cc; Some (cc\<lparr>com_IndexNode := Some (default_replicas 1 inode)\<rparr>) }
       else Some cc) = Some c5"
    "com_QueryNode c5 = Some qn" "Some (c5\<lparr>com_QueryNode := Some (default_replicas 1 qn)\<rparr>) = Some com'"
    using assms unfolding default_cluster_replicas_def Let_def bind_eq_Some_conv
    by (elim exE conjE) (rule that; (rule refl | assumption))
  have "extends (ms_Com spec) c1" by (rule extendsI) (simp_all add: c(2) opt_filled_some [OF c(1)])
  moreover have "extends c1 c2" by (rule extendsI) (use c(3) in \<open>auto simp: bind_eq_Some_conv opt_filled_some split: if_splits\<close>)
  moreover have "extends c2 c3" by (rule extendsI) (simp_all add: c(4))
  moreover have "extends c3 c4" by (rule coord_replicas_extends) (rule c(5))
  moreover have "extends c4 cc" by (rule extendsI) (simp_all add: c(8) opt_filled_some [OF c(6)] opt_filled_some [OF c(7)])
  moreover have "extends cc c5" by (rule extendsI) (use c(9) in \<open>auto simp: bind_eq_Some_conv opt_filled_some split: if_splits\<close>)
  moreover have "extends c5 com'" by (rule extendsI) (use c(11) in \<open>auto simp: opt_filled_some [OF c(10)]\<close>)
  ultimately show ?thesis by (meson extends_trans)
qed

lemma DefaultComponents_extends:
  assumes "DefaultComponents x r = Some r'"
  shows "extends (ms_Com (m_Spec r)) (ms_Com (m_Spec r'))"
proof -
  define s1 where "s1 = upd_com default_common (m_Spec r)"
  define s2 where "s2 = (if ms_Mode s1 = MilvusModeCluster then default_cluster x s1 else s1)"
  define s3 where "s3 = upd_com (\<lambda>com. com\<lparr>com_UpdateConfigMapOnly := or_new True (com_UpdateConfigMapOnly com)\<rparr>) s2"
  obtain com where com: "(if ms_Mode s3 = MilvusModeCluster then default_cluster_replicas x s3
             else do { sa \<leftarrow> com_Standalone (ms_Com s3);
                       Some ((ms_Com s3)\<lparr>com_Standalone := Some (default_replicas 1 sa)\<rparr>) }) = Some com"
    "ms_Com (m_Spec r') = com\<lparr>com_Cdc := map_option (default_replicas 1) (com_Cdc com)\<rparr>"
    using assms unfolding DefaultComponents_def Let_def s1_def [symmetric] s2_def [symmetric] s3_def [symmetric] defaultComponentsReplicas_def
    by (auto simp: bind_eq_Some_conv)
  have "extends (ms_Com (m_Spec r)) (ms_Com s1)" by (simp add: s1_def upd_com_def default_common_extends)
  moreover have "extends (ms_Com s1) (ms_Com s2)" by (simp add: s2_def default_cluster_extends)
  moreover have "extends (ms_Com s2) (ms_Com s3)" by (rule extendsI) (simp_all add: s3_def upd_com_def)
  moreover have "extends (ms_Com s3) com"
  proof (cases "ms_Mode s3 = MilvusModeCluster")
    case True
    with com(1) show ?thesis by (simp add: cluster_replicas_extends)
  next
    case False
    with com(1) show ?thesis by (intro extendsI) (auto simp: bind_eq_Some_conv opt_filled_some)
  qed
  moreover have "extends com (ms_Com (m_Spec r'))" by (rule extendsI) (simp_all add: com(2))
  ultimately show ?thesis by (meson extends_trans)
qed

section \<open>Metadata, mode and dependencies\<close>

lemmas webhook_keys = MilvusIO_def OperatorVersionLabel_def LegacyVersion_def DependencyValuesLegacySyncedAnnotation_def
  DependencyValuesMergedAnnotation_def OldAnnotationCurrentQueryNodeGroupID_def PodServiceLabelAddedAnnotation_def QueryNodeName_def
  GetComponentCurrentGroupIDLabel_def

text \<open>What the metadata stage leaves behind; the later stages keep it.\<close>

definition meta_settled :: "webhook_env \<Rightarrow> Milvus \<Rightarrow> bool" where
  "meta_settled E r \<longleftrightarrow> om_Namespace r \<noteq> [] \<and>
     (fmget (om_Labels r) OperatorVersionLabel = [] \<longrightarrow>
        IsFirstTimeStarting r \<and> we_Version E = [] \<and> fmlookup (om_Labels r) OperatorVersionLabel = Some []) \<and>
     (IsFirstTimeStarting r \<longrightarrow> fmlookup (om_Annotations r) PodServiceLabelAddedAnnotation = Some TrueStr) \<and>
     fmget (om_Annotations r) OldAnnotationCurrentQueryNodeGroupID = []"

lemma fmupd_same: "fmlookup m k = Some v \<Longrightarrow> fmupd k v m = m"
  by (rule fmap_ext) auto

lemma meta_settled_fixed:
  assumes "meta_settled E r"
  shows "DefaultMeta E r = r"
proof -
  have ns: "r\<lparr>om_Namespace := setDefaultStr (om_Namespace r) ''default''\<rparr> = r"
    using assms by (auto simp: meta_settled_def setDefaultStr_def Suc_le_eq)
  have label: "r\<lparr>om_Labels := fmupd OperatorVersionLabel (we_Version E) (om_Labels r)\<rparr> = r \<and> mst_Status (m_Status r) = StatusUnset"
    if "length (fmget (om_Labels r) OperatorVersionLabel) < 1"
    using assms that by (simp add: meta_settled_def fmupd_same IsFirstTimeStarting_def)
  have ann: "annotate PodServiceLabelAddedAnnotation TrueStr r = r" if "IsFirstTimeStarting r"
    using assms that by (simp add: meta_settled_def annotate_def fmupd_same)
  have old: "fmget (om_Annotations r) OldAnnotationCurrentQueryNodeGroupID = []" using assms by (simp add: meta_settled_def)
  show ?thesis
    unfolding DefaultMeta_def Let_def ns using label ann old
    by (cases "length (fmget (om_Labels r) OperatorVersionLabel) < 1"; cases "IsFirstTimeStarting r") simp_all
qed

lemma DefaultMeta_settled: "meta_settled E (DefaultMeta E r)"
  by (auto simp: meta_settled_def DefaultMeta_def Let_def setDefaultStr_def annotate_def IsFirstTimeStarting_def SetCurrentGroupIDStr_def
      fmget_def webhook_keys)

lemma setDefaultValueMerged_idem [simp]: "setDefaultValueMerged (setDefaultValueMerged r) = setDefaultValueMerged r"
  by (simp add: setDefaultValueMerged_def annotate_def)

lemma upd_dep_frame [simp]:
  "om_Name (upd_dep f r) = om_Name r" "om_Namespace (upd_dep f r) = om_Namespace r" "om_Labels (upd_dep f r) = om_Labels r"
  "om_Annotations (upd_dep f r) = om_Annotations r" "m_Status (upd_dep f r) = m_Status r"
  "ms_Mode (m_Spec (upd_dep f r)) = ms_Mode (m_Spec r)" "ms_Com (m_Spec (upd_dep f r)) = ms_Com (m_Spec r)"
  "ms_Dep (m_Spec (upd_dep f r)) = f (ms_Dep (m_Spec r))" "ms_Conf (m_Spec (upd_dep f r)) = ms_Conf (m_Spec r)"
  by (simp_all add: upd_dep_def)

lemma merged_frame [simp]:
  "om_Name (setDefaultValueMerged r) = om_Name r" "om_Namespace (setDefaultValueMerged r) = om_Namespace r"
  "om_Labels (setDefaultValueMerged r) = om_Labels r" "m_Status (setDefaultValueMerged r) = m_Status r"
  "m_Spec (setDefaultValueMerged r) = m_Spec r"
  by (simp_all add: setDefaultValueMerged_def annotate_def)

lemma defaultValuesMerged_set [simp]: "defaultValuesMerged (setDefaultValueMerged r)" "defaultValuesMerged (upd_dep f r) = defaultValuesMerged r"
  by (simp_all add: defaultValuesMerged_def setDefaultValueMerged_def annotate_def fmget_def)

lemma merged_fixed: "fmlookup (om_Annotations r) DependencyValuesMergedAnnotation = Some TrueStr \<Longrightarrow> setDefaultValueMerged r = r"
  by (simp add: setDefaultValueMerged_def annotate_def fmupd_same)

lemma merged_lookup: "defaultValuesMerged r \<Longrightarrow> setDefaultValueMerged r = r"
  by (rule merged_fixed) (auto simp: defaultValuesMerged_def fmget_def TrueStr_def split: option.splits)

lemma upd_dep_same: "f (ms_Dep (m_Spec r)) = ms_Dep (m_Spec r) \<Longrightarrow> upd_dep f r = r"
  by (simp add: upd_dep_def)

lemma defaultValuesByDependency_fixed: "defaultValuesMerged r \<Longrightarrow> defaultValuesByDependency E n (r, ic) = (r, ic)"
  by (simp add: defaultValuesByDependency_def Let_def merged_lookup)

lemma defaultValuesByDependency_cases:
  obtains r' ic' where "defaultValuesByDependency E n (r, ic) = (r', ic')" "r' = r \<or> r' = setDefaultValueMerged r"
    "ic' = ic \<or> ic' = ic\<lparr>ic_Values := Some (MergeValues (we_DefaultValues E n (ic_ChartVersion ic)) (Values_Data (ic_Values ic)))\<rparr>"
  by (cases "defaultValuesByDependency E n (r, ic)")
    (auto simp: defaultValuesByDependency_def Let_def split: if_splits)

text \<open>An in-cluster configuration that is complete.\<close>

definition ic_settled :: "InClusterConfig option \<Rightarrow> bool" where
  "ic_settled c \<longleftrightarrow> (\<exists>ic. c = Some ic \<and> ic_Values ic \<noteq> None \<and> ic_DeletionPolicy ic \<noteq> DeletionPolicyUnset)"

lemma in_cluster_fixed: "ic_Values ic \<noteq> None \<Longrightarrow> in_cluster (Some ic) = ic"
  by (auto simp: in_cluster_def or_new_def)

lemma in_cluster_values [simp]: "\<exists>m. ic_Values (in_cluster c) = Some m"
  by (simp add: in_cluster_def Let_def)

lemma keep_policy_fixed: "ic_DeletionPolicy ic \<noteq> DeletionPolicyUnset \<Longrightarrow> keep_policy d ic = ic"
  by (simp add: keep_policy_def)

lemma keep_policy_set [simp]:
  "d \<noteq> DeletionPolicyUnset \<Longrightarrow> ic_DeletionPolicy (keep_policy d ic) \<noteq> DeletionPolicyUnset"
  "ic_Values (keep_policy d ic) = ic_Values ic" "ic_ChartVersion (keep_policy d ic) = ic_ChartVersion ic"
  by (simp_all add: keep_policy_def)


text \<open>The stages keep everything but their own dependency and the annotation that marks merged values.\<close>

definition keeps :: "Milvus \<Rightarrow> Milvus \<Rightarrow> bool" where
  "keeps r r' \<longleftrightarrow> om_Name r' = om_Name r \<and> om_Namespace r' = om_Namespace r \<and> om_Labels r' = om_Labels r \<and> m_Status r' = m_Status r \<and>
     ms_Mode (m_Spec r') = ms_Mode (m_Spec r) \<and> ms_Com (m_Spec r') = ms_Com (m_Spec r) \<and> ms_Conf (m_Spec r') = ms_Conf (m_Spec r) \<and>
     (\<forall>k. k \<noteq> DependencyValuesMergedAnnotation \<longrightarrow> fmlookup (om_Annotations r') k = fmlookup (om_Annotations r) k)"

lemma keeps_trans: "keeps a b \<Longrightarrow> keeps b c \<Longrightarrow> keeps a c"
  by (simp add: keeps_def)

lemma keeps_simps [simp]: "keeps r r" "keeps r (upd_dep f r') = keeps r r'" "keeps r (setDefaultValueMerged r)"
  by (simp_all add: keeps_def) (simp add: setDefaultValueMerged_def annotate_def)

lemma dvbd_frame:
  assumes "defaultValuesByDependency E n (r, ic) = (r', ic')"
  shows "keeps r r'" "m_Spec r' = m_Spec r" "ic_ChartVersion ic' = ic_ChartVersion ic" "ic_DeletionPolicy ic' = ic_DeletionPolicy ic"
    "ic_Values ic \<noteq> None \<longrightarrow> ic_Values ic' \<noteq> None"
    "fmlookup (Values_Data (ic_Values ic)) k = Some (JInt j) \<longrightarrow> fmlookup (Values_Data (ic_Values ic')) k = Some (JInt j)"
    "fmlookup (Values_Data (ic_Values ic)) k \<noteq> None \<longrightarrow> fmlookup (Values_Data (ic_Values ic')) k \<noteq> None"
  using assms unfolding defaultValuesByDependency_def
  by (auto simp: Let_def Values_Data_def MergeValues_keeps_number MergeValues_lookup split: if_splits option.splits)

definition etcd_settled :: "Milvus \<Rightarrow> bool" where
  "etcd_settled r \<longleftrightarrow> (let etcd = dep_Etcd (ms_Dep (m_Spec r)) in
     etcd_External etcd \<or>
     (\<exists>ic n. etcd_InCluster etcd = Some ic \<and> ic_Values ic \<noteq> None \<and> ic_DeletionPolicy ic \<noteq> DeletionPolicyUnset \<and>
        (IsFirstTimeStarting r \<longrightarrow> ic_ChartVersion ic \<noteq> []) \<and> fmlookup (Values_Data (ic_Values ic)) ''replicaCount'' = Some (JInt n) \<and>
        (n > 0 \<longrightarrow> etcd_Endpoints etcd \<noteq> [])))"

lemma GetNumberValue_key: "fmlookup vs k = Some (JInt n) \<Longrightarrow> GetNumberValue vs [k] = (n, True)"
  by (simp add: GetNumberValue_def)

lemma GetNumberValue_inv: "GetNumberValue vs [k] = (n, True) \<Longrightarrow> fmlookup vs k = Some (JInt n)"
  by (auto simp: GetNumberValue_def split: option.splits json.splits)

lemma etcd_fixed:
  assumes "etcd_settled r" "defaultValuesMerged r"
  shows "defaultEtcd E r = r"
proof (cases "etcd_External (dep_Etcd (ms_Dep (m_Spec r)))")
  case False
  with assms(1) obtain ic n where ic: "etcd_InCluster (dep_Etcd (ms_Dep (m_Spec r))) = Some ic" "ic_Values ic \<noteq> None"
      "ic_DeletionPolicy ic \<noteq> DeletionPolicyUnset" "IsFirstTimeStarting r \<longrightarrow> ic_ChartVersion ic \<noteq> []"
      "fmlookup (Values_Data (ic_Values ic)) ''replicaCount'' = Some (JInt n)"
      "n > 0 \<longrightarrow> etcd_Endpoints (dep_Etcd (ms_Dep (m_Spec r))) \<noteq> []"
    by (auto simp: etcd_settled_def Let_def)
  have c: "(if ic_ChartVersion ic = [] \<and> IsFirstTimeStarting r then ic\<lparr>ic_ChartVersion := ''etcd-v8''\<rparr> else ic) = ic"
    using ic(4) by auto
  have e: "(if etcd_Endpoints (dep_Etcd (ms_Dep (m_Spec r))) = [] \<and> 0 < n
      then map (etcd_endpoint r) [0..<nat n] else etcd_Endpoints (dep_Etcd (ms_Dep (m_Spec r)))) = etcd_Endpoints (dep_Etcd (ms_Dep (m_Spec r)))"
    using ic(6) by auto
  show ?thesis
    unfolding defaultEtcd_def Let_def ic(1) in_cluster_fixed [OF ic(2)] c GetNumberValue_key [OF ic(5)] prod.case if_True e
      defaultValuesByDependency_fixed [OF assms(2)] keep_policy_fixed [OF ic(3)]
    by (simp add: False upd_dep_same flip: ic(1))
qed (simp add: defaultEtcd_def)

lemma etcd_settles:
  shows "etcd_settled (defaultEtcd E r)" (is ?settled)
    and "keeps r (defaultEtcd E r)" (is ?keeps)
    and "(ms_Dep (m_Spec (defaultEtcd E r)))\<lparr>dep_Etcd := e\<rparr> = (ms_Dep (m_Spec r))\<lparr>dep_Etcd := e\<rparr>" (is ?dep)
proof -
  define etcd where "etcd = dep_Etcd (ms_Dep (m_Spec r))"
  define ic0 where "ic0 = in_cluster (etcd_InCluster etcd)"
  define ic1 where "ic1 = (if ic_ChartVersion ic0 = [] \<and> IsFirstTimeStarting r then ic0\<lparr>ic_ChartVersion := ''etcd-v8''\<rparr> else ic0)"
  obtain number valid where nv: "GetNumberValue (Values_Data (ic_Values ic1)) [''replicaCount''] = (number, valid)" by fastforce
  define n where "n = (if valid then number else if ms_Mode (m_Spec r) = MilvusModeStandalone then 1 else 3)"
  define ic2 where "ic2 = (if valid then ic1 else ic1\<lparr>ic_Values := Some (fmupd ''replicaCount'' (JInt n) (Values_Data (ic_Values ic1)))\<rparr>)"
  obtain r' ic3 where d: "defaultValuesByDependency E ''Etcd'' (r, ic2) = (r', ic3)" by fastforce
  define es where "es = (if etcd_Endpoints etcd = [] \<and> n > 0 then map (etcd_endpoint r) [0..<nat n] else etcd_Endpoints etcd)"
  have eq: "defaultEtcd E r = (if etcd_External etcd then r else
      upd_dep (\<lambda>d. d\<lparr>dep_Etcd := etcd\<lparr>etcd_InCluster := Some (keep_policy DeletionPolicyRetain ic3), etcd_Endpoints := es\<rparr>\<rparr>) r')"
    unfolding defaultEtcd_def Let_def etcd_def [symmetric] ic0_def [symmetric] ic1_def [symmetric] nv prod.case
      n_def [symmetric] ic2_def [symmetric] d es_def [symmetric] ..
  note f = dvbd_frame [OF d]
  show ?keeps ?dep using f(1,2) by (auto simp: eq)
  have n: "fmlookup (Values_Data (ic_Values ic2)) ''replicaCount'' = Some (JInt n)"
    using GetNumberValue_inv [of "Values_Data (ic_Values ic1)" "''replicaCount''" number] nv by (auto simp: ic2_def n_def Values_Data_def)
  have v: "ic_Values ic2 \<noteq> None" by (auto simp: ic2_def ic1_def ic0_def)
  have c: "IsFirstTimeStarting r \<longrightarrow> ic_ChartVersion ic2 \<noteq> []" by (simp add: ic2_def ic1_def)
  have "IsFirstTimeStarting r' = IsFirstTimeStarting r" using f(1) by (simp add: keeps_def IsFirstTimeStarting_def)
  moreover have "ic_Values ic3 \<noteq> None" "fmlookup (Values_Data (ic_Values ic3)) ''replicaCount'' = Some (JInt n)"
    using f(5,6) n v by blast+
  ultimately show ?settled
    using c by (auto simp: etcd_settled_def eq etcd_def IsFirstTimeStarting_def f es_def)
qed


definition msg_settled :: "Milvus \<Rightarrow> bool" where
  "msg_settled r \<longleftrightarrow> (let d = ms_Dep (m_Spec r) in
     (case dep_MsgStreamType d of
        MsgStreamTypeUnset \<Rightarrow> False
      | MsgStreamTypeKafka \<Rightarrow> kaf_External (dep_Kafka d) \<or>
          ic_settled (kaf_InCluster (dep_Kafka d)) \<and> kaf_BrokerList (dep_Kafka d) = [om_Name r @ ''-kafka.'' @ om_Namespace r @ '':9092'']
      | MsgStreamTypePulsar \<Rightarrow> pul_External (dep_Pulsar d) \<or>
          ic_settled (pul_InCluster (dep_Pulsar d)) \<and> pul_Endpoint (dep_Pulsar d) = om_Name r @ ''-pulsar-proxy.'' @ om_Namespace r @ '':6650'' \<and>
          ic_ChartVersion (the (pul_InCluster (dep_Pulsar d))) \<noteq> []
      | _ \<Rightarrow> True))"

lemma dep_record_fixed:
  "dep_Kafka d = k \<Longrightarrow> d\<lparr>dep_Kafka := k\<rparr> = d" "dep_Pulsar d = p \<Longrightarrow> d\<lparr>dep_Pulsar := p\<rparr> = d" "dep_Storage d = s \<Longrightarrow> d\<lparr>dep_Storage := s\<rparr> = d"
  "kaf_BrokerList k = b \<Longrightarrow> kaf_InCluster k = c \<Longrightarrow> k\<lparr>kaf_BrokerList := b, kaf_InCluster := c\<rparr> = k"
  "pul_Endpoint p = e \<Longrightarrow> pul_InCluster p = c \<Longrightarrow> p\<lparr>pul_Endpoint := e, pul_InCluster := c\<rparr> = p"
  "st_Endpoint s = e \<Longrightarrow> st_InCluster s = c \<Longrightarrow> st_SecretRef s = n \<Longrightarrow> s\<lparr>st_Endpoint := e, st_InCluster := c, st_SecretRef := n\<rparr> = s"
  by auto

lemma kafka_fixed:
  assumes "ic_settled (kaf_InCluster (dep_Kafka (ms_Dep (m_Spec r))))" "defaultValuesMerged r"
    "kaf_BrokerList (dep_Kafka (ms_Dep (m_Spec r))) = [om_Name r @ ''-kafka.'' @ om_Namespace r @ '':9092'']"
  shows "default_kafka E r = r"
proof -
  from assms(1) obtain ic where ic: "kaf_InCluster (dep_Kafka (ms_Dep (m_Spec r))) = Some ic" "ic_Values ic \<noteq> None" "ic_DeletionPolicy ic \<noteq> DeletionPolicyUnset"
    by (auto simp: ic_settled_def)
  show ?thesis
    unfolding default_kafka_def Let_def ic(1) in_cluster_fixed [OF ic(2)] defaultValuesByDependency_fixed [OF assms(2)] prod.case
      keep_policy_fixed [OF ic(3)]
    by (simp add: upd_dep_same dep_record_fixed ic(1) assms(3))
qed

lemma pulsar_fixed:
  assumes "ic_settled (pul_InCluster (dep_Pulsar (ms_Dep (m_Spec r))))" "defaultValuesMerged r"
    "pul_Endpoint (dep_Pulsar (ms_Dep (m_Spec r))) = om_Name r @ ''-pulsar-proxy.'' @ om_Namespace r @ '':6650''"
    "ic_ChartVersion (the (pul_InCluster (dep_Pulsar (ms_Dep (m_Spec r))))) \<noteq> []"
  shows "default_pulsar E r = r"
proof -
  from assms(1,4) obtain ic where ic: "pul_InCluster (dep_Pulsar (ms_Dep (m_Spec r))) = Some ic" "ic_Values ic \<noteq> None"
      "ic_DeletionPolicy ic \<noteq> DeletionPolicyUnset" "ic_ChartVersion ic \<noteq> []"
    by (auto simp: ic_settled_def)
  show ?thesis
    unfolding default_pulsar_def Let_def ic(1) in_cluster_fixed [OF ic(2)] if_not_P [OF ic(4)]
      defaultValuesByDependency_fixed [OF assms(2)] prod.case keep_policy_fixed [OF ic(3)]
    by (simp add: upd_dep_same dep_record_fixed ic(1) assms(3))
qed

lemma kafka_pulsar_external:
  "kaf_External (dep_Kafka (ms_Dep (m_Spec r))) \<Longrightarrow> default_kafka E r = r"
  "pul_External (dep_Pulsar (ms_Dep (m_Spec r))) \<Longrightarrow> default_pulsar E r = r"
  by (simp_all add: default_kafka_def default_pulsar_def)

lemma msg_fixed:
  assumes "msg_settled r" "defaultValuesMerged r"
  shows "defaultMsgStream E r = r"
proof -
  have "setDefaultMsgStreamType x r = r" for x
    using assms(1) by (auto simp: setDefaultMsgStreamType_def msg_settled_def Let_def)
  with assms show ?thesis
    by (cases "dep_MsgStreamType (ms_Dep (m_Spec r))")
      (auto simp: defaultMsgStream_def setDefaultMsgStreamConfigs_def msg_settled_def Let_def kafka_fixed pulsar_fixed kafka_pulsar_external)
qed

lemma ic_settled_default:
  assumes "defaultValuesByDependency E n (r, ic) = (r', ic')" "ic_Values ic \<noteq> None" "d \<noteq> DeletionPolicyUnset"
  shows "ic_settled (Some (keep_policy d ic'))"
  using dvbd_frame(5) [OF assms(1)] assms(2,3) by (simp add: ic_settled_def)

lemma kafka_settles:
  shows "keeps r (default_kafka E r)"
    and "(ms_Dep (m_Spec (default_kafka E r)))\<lparr>dep_Kafka := k\<rparr> = (ms_Dep (m_Spec r))\<lparr>dep_Kafka := k\<rparr>"
    and "dep_MsgStreamType (ms_Dep (m_Spec r)) = MsgStreamTypeKafka \<Longrightarrow> msg_settled (default_kafka E r)"
proof -
  let ?k = "dep_Kafka (ms_Dep (m_Spec r))"
  obtain r' ic' where d: "defaultValuesByDependency E ''Kafka'' (r, in_cluster (kaf_InCluster ?k)) = (r', ic')" by fastforce
  note f = dvbd_frame [OF d]
  have s: "ic_settled (Some (keep_policy DeletionPolicyRetain ic'))"
    by (rule ic_settled_default [OF d]) auto
  show "keeps r (default_kafka E r)" "(ms_Dep (m_Spec (default_kafka E r)))\<lparr>dep_Kafka := k\<rparr> = (ms_Dep (m_Spec r))\<lparr>dep_Kafka := k\<rparr>"
    using f(1,2) by (simp_all add: default_kafka_def Let_def d)
  show "msg_settled (default_kafka E r)" if "dep_MsgStreamType (ms_Dep (m_Spec r)) = MsgStreamTypeKafka"
    using f(1,2) s that by (auto simp: default_kafka_def Let_def d msg_settled_def keeps_def)
qed

lemma pulsar_settles:
  shows "keeps r (default_pulsar E r)"
    and "(ms_Dep (m_Spec (default_pulsar E r)))\<lparr>dep_Pulsar := k\<rparr> = (ms_Dep (m_Spec r))\<lparr>dep_Pulsar := k\<rparr>"
    and "dep_MsgStreamType (ms_Dep (m_Spec r)) = MsgStreamTypePulsar \<Longrightarrow> msg_settled (default_pulsar E r)"
proof -
  define ic where "ic = in_cluster (pul_InCluster (dep_Pulsar (ms_Dep (m_Spec r))))"
  define ic1 where "ic1 = (if ic_ChartVersion ic = [] then ic\<lparr>ic_ChartVersion := (if IsFirstTimeStarting r then ''pulsar-v3'' else ''pulsar-v2'')\<rparr> else ic)"
  obtain r' ic' where d: "defaultValuesByDependency E ''Pulsar'' (r, ic1) = (r', ic')" by fastforce
  note f = dvbd_frame [OF d]
  have v: "ic_Values ic1 \<noteq> None" "ic_ChartVersion ic1 \<noteq> []" by (auto simp: ic1_def ic_def)
  have s: "ic_settled (Some (keep_policy DeletionPolicyRetain ic'))"
    by (rule ic_settled_default [OF d v(1)]) simp
  show "keeps r (default_pulsar E r)" "(ms_Dep (m_Spec (default_pulsar E r)))\<lparr>dep_Pulsar := k\<rparr> = (ms_Dep (m_Spec r))\<lparr>dep_Pulsar := k\<rparr>"
    using f(1,2) by (simp_all add: default_pulsar_def Let_def d flip: ic_def ic1_def)
  show "msg_settled (default_pulsar E r)" if "dep_MsgStreamType (ms_Dep (m_Spec r)) = MsgStreamTypePulsar"
    using f(1-3) s v(2) that by (auto simp: default_pulsar_def Let_def d msg_settled_def keeps_def simp flip: ic_def ic1_def)
qed


lemma msg_settles:
  shows "msg_settled (defaultMsgStream E r)" and "keeps r (defaultMsgStream E r)"
    and "dep_Etcd (ms_Dep (m_Spec (defaultMsgStream E r))) = dep_Etcd (ms_Dep (m_Spec r))"
proof -
  define r1 where "r1 = setDefaultMsgStreamType (we_x E) r"
  have r1: "dep_MsgStreamType (ms_Dep (m_Spec r1)) \<noteq> MsgStreamTypeUnset" "keeps r r1" "dep_Etcd (ms_Dep (m_Spec r1)) = dep_Etcd (ms_Dep (m_Spec r))"
    by (simp_all add: r1_def setDefaultMsgStreamType_def)
  have k: "dep_Etcd (ms_Dep (m_Spec (default_kafka E r1))) = dep_Etcd (ms_Dep (m_Spec r1))"
    "dep_Etcd (ms_Dep (m_Spec (default_pulsar E r1))) = dep_Etcd (ms_Dep (m_Spec r1))"
    using arg_cong [OF kafka_settles(2) [where E = E and r = r1], of dep_Etcd] arg_cong [OF pulsar_settles(2) [where E = E and r = r1], of dep_Etcd] by simp_all
  have "msg_settled (setDefaultMsgStreamConfigs E r1) \<and> keeps r1 (setDefaultMsgStreamConfigs E r1) \<and>
    dep_Etcd (ms_Dep (m_Spec (setDefaultMsgStreamConfigs E r1))) = dep_Etcd (ms_Dep (m_Spec r1))"
    using r1(1) by (cases "dep_MsgStreamType (ms_Dep (m_Spec r1))")
      (simp_all add: setDefaultMsgStreamConfigs_def kafka_settles pulsar_settles k, simp_all add: msg_settled_def)
  with r1 show "msg_settled (defaultMsgStream E r)" "keeps r (defaultMsgStream E r)"
    "dep_Etcd (ms_Dep (m_Spec (defaultMsgStream E r))) = dep_Etcd (ms_Dep (m_Spec r))"
    by (auto simp: defaultMsgStream_def simp flip: r1_def intro: keeps_trans)
qed

definition storage_settled :: "Milvus \<Rightarrow> bool" where
  "storage_settled r \<longleftrightarrow> (let s = dep_Storage (ms_Dep (m_Spec r)) in
     st_Type s \<noteq> [] \<and> (st_External s \<or>
       ic_settled (st_InCluster s) \<and> st_Endpoint s = om_Name r @ ''-minio.'' @ om_Namespace r @ '':9000'' \<and> st_SecretRef s = om_Name r @ ''-minio'' \<and>
       (ms_Mode (m_Spec r) = MilvusModeStandalone \<longrightarrow> fmlookup (Values_Data (ic_Values (the (st_InCluster s)))) ''mode'' \<noteq> None)))"

definition tei_settled :: "Milvus \<Rightarrow> bool" where
  "tei_settled r \<longleftrightarrow> (let t = dep_Tei (ms_Dep (m_Spec r)) in tei_Enabled t \<longrightarrow> ic_settled (tei_InCluster t))"

lemma storage_fixed:
  assumes "storage_settled r" "defaultValuesMerged r"
  shows "defaultStorage E r = r"
proof -
  let ?s = "dep_Storage (ms_Dep (m_Spec r))"
  have t: "?s\<lparr>st_Type := setDefaultStr (st_Type ?s) ''MinIO''\<rparr> = ?s"
    using assms(1) by (auto simp: storage_settled_def Let_def setDefaultStr_def Suc_le_eq)
  show ?thesis
  proof (cases "st_External ?s")
    case True
    then show ?thesis unfolding defaultStorage_def Let_def t by (simp add: upd_dep_same)
  next
    case False
    with assms(1) obtain ic where ic: "st_InCluster ?s = Some ic" "ic_Values ic \<noteq> None" "ic_DeletionPolicy ic \<noteq> DeletionPolicyUnset"
        "ms_Mode (m_Spec r) = MilvusModeStandalone \<longrightarrow> fmlookup (Values_Data (ic_Values ic)) ''mode'' \<noteq> None"
        "st_Endpoint ?s = om_Name r @ ''-minio.'' @ om_Namespace r @ '':9000''" "st_SecretRef ?s = om_Name r @ ''-minio''"
      by (auto simp: storage_settled_def Let_def ic_settled_def)
    have m: "(if ms_Mode (m_Spec r) = MilvusModeStandalone \<and> fmlookup (Values_Data (ic_Values ic)) ''mode'' = None
        then ic\<lparr>ic_Values := Some (fmupd ''mode'' (JStr ''standalone'') (Values_Data (ic_Values ic)))\<rparr> else ic) = ic"
      using ic(4) by auto
    show ?thesis
      unfolding defaultStorage_def Let_def t ic(1) in_cluster_fixed [OF ic(2)] m defaultValuesByDependency_fixed [OF assms(2)] prod.case
        keep_policy_fixed [OF ic(3)]
      by (simp add: False upd_dep_same dep_record_fixed ic(1,5,6))
  qed
qed

lemma storage_settles:
  shows "storage_settled (defaultStorage E r)" and "keeps r (defaultStorage E r)"
    and "(ms_Dep (m_Spec (defaultStorage E r)))\<lparr>dep_Storage := k\<rparr> = (ms_Dep (m_Spec r))\<lparr>dep_Storage := k\<rparr>"
proof -
  define s where "s = (dep_Storage (ms_Dep (m_Spec r)))\<lparr>st_Type := setDefaultStr (st_Type (dep_Storage (ms_Dep (m_Spec r)))) ''MinIO''\<rparr>"
  define ic where "ic = in_cluster (st_InCluster s)"
  define ic1 where "ic1 = (if ms_Mode (m_Spec r) = MilvusModeStandalone \<and> fmlookup (Values_Data (ic_Values ic)) ''mode'' = None
      then ic\<lparr>ic_Values := Some (fmupd ''mode'' (JStr ''standalone'') (Values_Data (ic_Values ic)))\<rparr> else ic)"
  obtain r' ic' where d: "defaultValuesByDependency E ''Storage'' (r, ic1) = (r', ic')" by fastforce
  note f = dvbd_frame [OF d]
  have v: "ic_Values ic1 \<noteq> None" "ms_Mode (m_Spec r) = MilvusModeStandalone \<longrightarrow> fmlookup (Values_Data (ic_Values ic1)) ''mode'' \<noteq> None"
    "st_Type s \<noteq> []"
    by (auto simp: ic1_def ic_def Values_Data_def s_def setDefaultStr_def)
  have m: "ms_Mode (m_Spec r) = MilvusModeStandalone \<longrightarrow> fmlookup (Values_Data (ic_Values ic')) ''mode'' \<noteq> None"
    using v(2) f(7) by blast
  have sc: "ic_settled (Some (keep_policy DeletionPolicyRetain ic'))"
    by (rule ic_settled_default [OF d v(1)]) simp
  have eq: "defaultStorage E r = (if st_External s then upd_dep (\<lambda>d. d\<lparr>dep_Storage := s\<rparr>) r else
      upd_dep (\<lambda>d. d\<lparr>dep_Storage := s\<lparr>st_Endpoint := om_Name r @ ''-minio.'' @ om_Namespace r @ '':9000'',
        st_InCluster := Some (keep_policy DeletionPolicyRetain ic'), st_SecretRef := om_Name r @ ''-minio''\<rparr>\<rparr>) r')"
    unfolding defaultStorage_def Let_def s_def [symmetric] ic_def [symmetric] ic1_def [symmetric] d prod.case ..
  show "keeps r (defaultStorage E r)" "(ms_Dep (m_Spec (defaultStorage E r)))\<lparr>dep_Storage := k\<rparr> = (ms_Dep (m_Spec r))\<lparr>dep_Storage := k\<rparr>"
    using f(1,2) by (simp_all add: eq)
  show "storage_settled (defaultStorage E r)"
    using f(1,2) sc m v(3) by (simp add: eq storage_settled_def keeps_def)
qed

lemma tei_fixed: "tei_settled r \<Longrightarrow> defaultTei r = r"
  by (auto simp: tei_settled_def defaultTei_def Let_def ic_settled_def in_cluster_fixed keep_policy_fixed intro!: upd_dep_same)

lemma tei_settles:
  shows "tei_settled (defaultTei r)" and "keeps r (defaultTei r)"
    and "(ms_Dep (m_Spec (defaultTei r)))\<lparr>dep_Tei := k\<rparr> = (ms_Dep (m_Spec r))\<lparr>dep_Tei := k\<rparr>"
  by (simp_all add: defaultTei_def tei_settled_def ic_settled_def Let_def)


text \<open>The dependencies as a whole: after one pass the stages have nothing left to do.\<close>

definition deps_settled :: "Milvus \<Rightarrow> bool" where
  "deps_settled r \<longleftrightarrow> etcd_settled r \<and> msg_settled r \<and> storage_settled r \<and> tei_settled r \<and> defaultValuesMerged r"

lemma deps_fixed: "deps_settled r \<Longrightarrow> DefaultDependencies E r = r"
  by (simp add: deps_settled_def DefaultDependencies_def etcd_fixed msg_fixed storage_fixed tei_fixed merged_lookup)

lemma settled_frames:
  "keeps r r' \<Longrightarrow> dep_Etcd (ms_Dep (m_Spec r')) = dep_Etcd (ms_Dep (m_Spec r)) \<Longrightarrow> etcd_settled r' = etcd_settled r"
  "keeps r r' \<Longrightarrow> dep_MsgStreamType (ms_Dep (m_Spec r')) = dep_MsgStreamType (ms_Dep (m_Spec r)) \<Longrightarrow>
     dep_Kafka (ms_Dep (m_Spec r')) = dep_Kafka (ms_Dep (m_Spec r)) \<Longrightarrow> dep_Pulsar (ms_Dep (m_Spec r')) = dep_Pulsar (ms_Dep (m_Spec r)) \<Longrightarrow>
     msg_settled r' = msg_settled r"
  "keeps r r' \<Longrightarrow> dep_Storage (ms_Dep (m_Spec r')) = dep_Storage (ms_Dep (m_Spec r)) \<Longrightarrow> storage_settled r' = storage_settled r"
  "dep_Tei (ms_Dep (m_Spec r')) = dep_Tei (ms_Dep (m_Spec r)) \<Longrightarrow> tei_settled r' = tei_settled r"
  by (simp_all add: keeps_def etcd_settled_def msg_settled_def storage_settled_def tei_settled_def IsFirstTimeStarting_def Let_def split: MsgStreamType.split)

lemma DefaultDependencies_settles: "deps_settled (DefaultDependencies E r)" "keeps r (DefaultDependencies E r)"
proof -
  define r1 where "r1 = defaultEtcd E r"
  define r2 where "r2 = defaultMsgStream E r1"
  define r3 where "r3 = defaultStorage E r2"
  define r4 where "r4 = defaultTei r3"
  define r5 where "r5 = setDefaultValueMerged r4"
  have k: "keeps r r1" "keeps r1 r2" "keeps r2 r3" "keeps r3 r4" "keeps r4 r5"
    by (simp_all add: r1_def r2_def r3_def r4_def r5_def etcd_settles msg_settles storage_settles tei_settles)
  have d5: "ms_Dep (m_Spec r5) = ms_Dep (m_Spec r4)" by (simp add: r5_def)
  note d4 = tei_settles(3) [where r = r3, folded r4_def] and d3 = storage_settles(3) [where E = E and r = r2, folded r3_def]
  have e4: "dep_Etcd (ms_Dep (m_Spec r4)) = dep_Etcd (ms_Dep (m_Spec r3))" "dep_MsgStreamType (ms_Dep (m_Spec r4)) = dep_MsgStreamType (ms_Dep (m_Spec r3))"
    "dep_Kafka (ms_Dep (m_Spec r4)) = dep_Kafka (ms_Dep (m_Spec r3))" "dep_Pulsar (ms_Dep (m_Spec r4)) = dep_Pulsar (ms_Dep (m_Spec r3))"
    "dep_Storage (ms_Dep (m_Spec r4)) = dep_Storage (ms_Dep (m_Spec r3))"
    using arg_cong [OF d4, of dep_Etcd] arg_cong [OF d4, of dep_MsgStreamType] arg_cong [OF d4, of dep_Kafka] arg_cong [OF d4, of dep_Pulsar]
      arg_cong [OF d4, of dep_Storage] by simp_all
  have e3: "dep_Etcd (ms_Dep (m_Spec r3)) = dep_Etcd (ms_Dep (m_Spec r2))" "dep_MsgStreamType (ms_Dep (m_Spec r3)) = dep_MsgStreamType (ms_Dep (m_Spec r2))"
    "dep_Kafka (ms_Dep (m_Spec r3)) = dep_Kafka (ms_Dep (m_Spec r2))" "dep_Pulsar (ms_Dep (m_Spec r3)) = dep_Pulsar (ms_Dep (m_Spec r2))"
    using arg_cong [OF d3, of dep_Etcd] arg_cong [OF d3, of dep_MsgStreamType] arg_cong [OF d3, of dep_Kafka] arg_cong [OF d3, of dep_Pulsar]
    by simp_all
  have "etcd_settled r5"
    using etcd_settles(1) [of E r] settled_frames(1) k e3 e4 d5 msg_settles(3) [of E r1] by (metis r1_def r2_def)
  moreover have "msg_settled r5"
    using msg_settles(1) [of E r1] settled_frames(2) k e3 e4 d5 by (metis r2_def)
  moreover have "storage_settled r5"
    using storage_settles(1) [of E r2] settled_frames(3) k e4 d5 by (metis r3_def)
  moreover have "tei_settled r5" using tei_settles(1) [of r3] settled_frames(4) d5 by (metis r4_def)
  ultimately have "deps_settled r5" by (simp add: deps_settled_def r5_def)
  moreover have "DefaultDependencies E r = r5" by (simp only: DefaultDependencies_def r1_def r2_def r3_def r4_def r5_def)
  moreover have "keeps r r5" using k by (meson keeps_trans)
  ultimately show "deps_settled (DefaultDependencies E r)" "keeps r (DefaultDependencies E r)" by simp_all
qed

section \<open>Configuration\<close>

definition conf_settled :: "webhook_env \<Rightarrow> Milvus \<Rightarrow> bool" where
  "conf_settled E r \<longleftrightarrow> (\<exists>c b. ms_Conf (m_Spec r) = Some c \<and> com_EnableRollingUpdate (ms_Com (m_Spec r)) = Some b \<and>
     deleteUnsettableConf E c = c \<and> (b \<longrightarrow> isRollingUpdateSupportedByConfig r \<and> setEnableActiveStandby E True c = c))"

lemma conf_fixed:
  assumes "conf_settled E r"
  shows "DefaultConf E r = r"
proof -
  obtain c b where cb: "ms_Conf (m_Spec r) = Some c" "com_EnableRollingUpdate (ms_Com (m_Spec r)) = Some b" "deleteUnsettableConf E c = c"
      "b \<longrightarrow> isRollingUpdateSupportedByConfig r \<and> setEnableActiveStandby E True c = c"
    using assms by (auto simp: conf_settled_def)
  have b: "(if isRollingUpdateSupportedByConfig r then b else False) = b" "(if b then setEnableActiveStandby E True c else c) = c"
    using cb(4) by auto
  show ?thesis
    unfolding DefaultConf_def Let_def cb(1-3) option.case b by (simp add: upd_com_def flip: cb(1,2))
qed

context nested_writes
begin

lemma del_many_fixed: "(\<And>p. p \<in> set ps \<Longrightarrow> del d p = d) \<Longrightarrow> fold (\<lambda>p d. del d p) ps d = d"
  by (induction ps) simp_all

end

lemma conf_settles:
  assumes "nested_writes (we_SetNestedField E) (we_RemoveNestedField E)"
  shows "conf_settled E (DefaultConf E r)"
proof -
  let ?del = "we_RemoveNestedField E" and ?put = "we_SetNestedField E"
  define c where "c = (case ms_Conf (m_Spec r) of None \<Rightarrow> fmempty | Some c \<Rightarrow> deleteUnsettableConf E c)"
  have del: "?del c p = c" if "p \<in> set unsettable_paths" for p
    using that nested_writes.del_fold_fixed [OF assms] nested_writes.del_empty [OF assms]
    by (auto simp: c_def deleteUnsettableConf_def split: option.splits)
  define b where "b = (isRollingUpdateSupportedByConfig r \<and> (case com_EnableRollingUpdate (ms_Com (m_Spec r)) of None \<Rightarrow> True | Some b \<Rightarrow> b))"
  define ps where "ps = map (\<lambda>f. [f, EnableActiveStandByConfig]) rollingUpdateConfigFields"
  have ps: "distinct (map hd ps)" "[] \<notin> set ps" "\<forall>q \<in> set unsettable_paths. q \<noteq> [] \<and> (\<forall>p \<in> set ps. hd p \<noteq> hd q \<and> p \<noteq> [])"
    by (auto simp: ps_def rollingUpdateConfigFields_def unsettable_paths_def)
  define e where "e = fold (\<lambda>p d. ?put d (JBool True) p) ps c"
  have "?del e q = e" if "q \<in> set unsettable_paths" for q
    using nested_writes.del_fold_put [OF assms, of ps q "JBool True" c] ps(3) that del [OF that] by (simp add: e_def)
  then have e: "deleteUnsettableConf E e = e" "setEnableActiveStandby E True e = e"
    using nested_writes.put_fold_idem [OF assms ps(1,2), of "JBool True" c] nested_writes.del_many_fixed [OF assms, of unsettable_paths e]
    by (simp_all add: deleteUnsettableConf_def setEnableActiveStandby_def e_def flip: ps_def)
  have c: "deleteUnsettableConf E c = c"
    using del nested_writes.del_many_fixed [OF assms, of unsettable_paths c] by (simp add: deleteUnsettableConf_def)
  have eq: "DefaultConf E r = r\<lparr>m_Spec := (upd_com (\<lambda>com. com\<lparr>com_EnableRollingUpdate := Some b\<rparr>) (m_Spec r))\<lparr>ms_Conf := Some (if b then e else c)\<rparr>\<rparr>"
    by (auto simp: DefaultConf_def Let_def b_def c_def e_def ps_def setEnableActiveStandby_def)
  show ?thesis
    using e c by (auto simp: conf_settled_def eq upd_com_def b_def isRollingUpdateSupportedByConfig_def)
qed

end
