(* ===== verification/Webhook_Safety.thy ===== *)
theory Webhook_Safety
  imports Webhook_Correct Std_Externals Deploy_Ctrl
begin

text \<open>
  Properties of the admission webhook of the Milvus resource: defaulting cannot panic and is
  idempotent, a defaulted resource has replicas for every component the controllers look at, and
  an accepted resource has well-formed deployment groups.
\<close>

section \<open>The whole of defaulting\<close>

lemma meta_settled_keeps:
  assumes "meta_settled E r" "keeps r r'"
  shows "meta_settled E r'"
proof -
  have "fmlookup (om_Annotations r') PodServiceLabelAddedAnnotation = fmlookup (om_Annotations r) PodServiceLabelAddedAnnotation"
    "fmlookup (om_Annotations r') OldAnnotationCurrentQueryNodeGroupID = fmlookup (om_Annotations r) OldAnnotationCurrentQueryNodeGroupID"
    using assms(2) by (auto simp: keeps_def webhook_keys)
  with assms show ?thesis by (simp add: meta_settled_def keeps_def IsFirstTimeStarting_def fmget_def)
qed

lemma meta_settled_congr:
  "om_Namespace r' = om_Namespace r \<Longrightarrow> om_Labels r' = om_Labels r \<Longrightarrow> om_Annotations r' = om_Annotations r \<Longrightarrow> m_Status r' = m_Status r \<Longrightarrow>
     meta_settled E r' = meta_settled E r"
  by (simp add: meta_settled_def IsFirstTimeStarting_def)

definition fully_settled :: "webhook_env \<Rightarrow> Milvus \<Rightarrow> bool" where
  "fully_settled E r \<longleftrightarrow> meta_settled E r \<and> ms_Mode (m_Spec r) \<noteq> MilvusModeUnset \<and> settled (we_x E) (m_Spec r) \<and> deps_settled r"

lemma fully_settled_fixed: "fully_settled E r \<Longrightarrow> conf_settled E r \<Longrightarrow> Milvus_Default E r = Some r"
  by (simp add: fully_settled_def Milvus_Default_def meta_settled_fixed DefaultMode_def settled_fixed deps_fixed conf_fixed)

lemma DefaultConf_shape:
  "DefaultConf E r = r\<lparr>m_Spec := (m_Spec r)\<lparr>ms_Com := (ms_Com (m_Spec r))\<lparr>com_EnableRollingUpdate := com_EnableRollingUpdate (ms_Com (m_Spec (DefaultConf E r)))\<rparr>,
     ms_Conf := ms_Conf (m_Spec (DefaultConf E r))\<rparr>\<rparr>"
  by (simp add: DefaultConf_def Let_def upd_com_def)

lemma DefaultMeta_spec: "m_Spec (DefaultMeta E r) = m_Spec r"
  by (simp add: DefaultMeta_def Let_def annotate_def SetCurrentGroupIDStr_def)

lemma Milvus_Default_total:
  obtains r' where "Milvus_Default E r = Some (DefaultConf E r')" "fully_settled E (DefaultConf E r')"
    "extends (ms_Com (m_Spec r)) (ms_Com (m_Spec (DefaultConf E r')))" "ms_Mode (m_Spec (DefaultConf E r')) = ms_Mode (m_Spec (DefaultMode r))"
proof -
  define r1 where "r1 = DefaultMode (DefaultMeta E r)"
  have "meta_settled E r1 = meta_settled E (DefaultMeta E r)" by (rule meta_settled_congr) (simp_all add: r1_def DefaultMode_def)
  with DefaultMeta_settled have m1: "meta_settled E r1" "ms_Mode (m_Spec r1) \<noteq> MilvusModeUnset" by (simp_all add: r1_def DefaultMode_def)
  obtain com where c: "DefaultComponents (we_x E) r1 = Some (r1\<lparr>m_Spec := (m_Spec r1)\<lparr>ms_Com := com\<rparr>\<rparr>)"
      "settled (we_x E) ((m_Spec r1)\<lparr>ms_Com := com\<rparr>)"
    by (rule DefaultComponents_total)
  define r2 where "r2 = r1\<lparr>m_Spec := (m_Spec r1)\<lparr>ms_Com := com\<rparr>\<rparr>"
  define r3 where "r3 = DefaultDependencies E r2"
  have k: "deps_settled r3" "keeps r2 r3" by (simp_all add: r3_def DefaultDependencies_settles)
  have "meta_settled E r2 = meta_settled E r1" by (rule meta_settled_congr) (simp_all add: r2_def)
  with meta_settled_keeps [OF _ k(2)] m1(1) have m3: "meta_settled E r3" by simp
  obtain b conf where d: "DefaultConf E r3 = r3\<lparr>m_Spec := (m_Spec r3)\<lparr>ms_Com := (ms_Com (m_Spec r3))\<lparr>com_EnableRollingUpdate := b\<rparr>, ms_Conf := conf\<rparr>\<rparr>"
    using DefaultConf_shape by blast
  have "settled (we_x E) (m_Spec (DefaultConf E r3))"
    by (rule settled_congr [OF c(2), where e = b]) (use k(2) in \<open>simp_all add: d keeps_def r2_def\<close>)
  moreover have "deps_settled (DefaultConf E r3)"
    using k(1) by (simp add: d deps_settled_def etcd_settled_def msg_settled_def storage_settled_def tei_settled_def
        defaultValuesMerged_def IsFirstTimeStarting_def Let_def split: MsgStreamType.splits)
  moreover have "meta_settled E (DefaultConf E r3) = meta_settled E r3" by (rule meta_settled_congr) (simp_all add: d)
  moreover have "ms_Mode (m_Spec (DefaultConf E r3)) \<noteq> MilvusModeUnset" using m1(2) k(2) by (simp add: d keeps_def r2_def)
  moreover have "ms_Mode (m_Spec (DefaultConf E r3)) = ms_Mode (m_Spec (DefaultMode r))"
    using k(2) by (simp add: d keeps_def r2_def r1_def DefaultMode_def DefaultMeta_spec)
  moreover have "extends (ms_Com (m_Spec r3)) (ms_Com (m_Spec (DefaultConf E r3)))" by (rule extendsI) (simp_all add: d)
  then have "extends (ms_Com (m_Spec r)) (ms_Com (m_Spec (DefaultConf E r3)))"
    using DefaultComponents_extends [OF c(1)] k(2) extends_trans by (auto simp: keeps_def r2_def r1_def DefaultMode_def DefaultMeta_spec split: if_splits)
  ultimately show ?thesis
    by (intro that [of r3]) (simp_all add: Milvus_Default_def fully_settled_def c(1) m3 flip: r1_def r2_def r3_def)
qed

lemma defaulted_extends:
  "Milvus_Default E r = Some r' \<Longrightarrow> extends (ms_Com (m_Spec r)) (ms_Com (m_Spec r')) \<and> ms_Mode (m_Spec r') = ms_Mode (m_Spec (DefaultMode r))"
  using Milvus_Default_total [of E r] by auto

lemma defaulted_settled: "Milvus_Default E r = Some r' \<Longrightarrow> settled (we_x E) (m_Spec r') \<and> ms_Mode (m_Spec r') \<noteq> MilvusModeUnset"
  by (rule Milvus_Default_total [of E r]) (simp add: fully_settled_def)

text \<open>C18. Defaulting never panics on a nil pointer, whatever the submitted resource leaves unset, and it
  is idempotent: submitting the defaulted resource again changes nothing.  The hypothesis is what
  apimachinery documents of the nested writes.\<close>

theorem default_idempotent:
  assumes "nested_writes (we_SetNestedField E) (we_RemoveNestedField E)"
  shows "\<exists>r'. Milvus_Default E r = Some r' \<and> Milvus_Default E r' = Some r'"
proof -
  obtain r' where "Milvus_Default E r = Some (DefaultConf E r')" "fully_settled E (DefaultConf E r')"
    by (rule Milvus_Default_total)
  then show ?thesis using fully_settled_fixed conf_settles [OF assms] by blast
qed

definition ex_webhook :: webhook_env where
  "ex_webhook = \<lparr>we_x = std_x, we_Version = ''1.3.0'', we_SetNestedField = nested_set, we_RemoveNestedField = nested_remove,
     we_DefaultValues = (\<lambda>_ _. fmap_of_list [(''replicaCount'', JInt 3)]), we_IsDNS1123Label = (\<lambda>_. []),
     we_pvcSpecError = (\<lambda>_. None), we_pvcError = (\<lambda>_. None)\<rparr>"

theorem default_idempotent_witness:
  "nested_writes nested_set nested_remove \<and>
     (\<exists>r'. Milvus_Default ex_webhook ex_milvus = Some r' \<and> Milvus_Default ex_webhook r' = Some r')"
  using default_idempotent [of ex_webhook ex_milvus] unstructured.nested_writes_axioms by (simp add: ex_webhook_def)

section \<open>Components of a defaulted resource\<close>

lemma has_replicas_truncate [simp]: "has_replicas (map_option Component.truncate c) = has_replicas c"
  by (cases c) (auto simp: has_replicas_def Component.truncate_def)

lemma has_replicas_com_field:
  "has_replicas (com_field (mcp_FieldName Proxy) com) = has_replicas (com_Proxy com)"
  "has_replicas (com_field (mcp_FieldName MixCoord) com) = has_replicas (com_MixCoord com)"
  "has_replicas (com_field (mcp_FieldName RootCoord) com) = has_replicas (com_RootCoord com)"
  "has_replicas (com_field (mcp_FieldName DataCoord) com) = has_replicas (com_DataCoord com)"
  "has_replicas (com_field (mcp_FieldName IndexCoord) com) = has_replicas (com_IndexCoord com)"
  "has_replicas (com_field (mcp_FieldName QueryCoord) com) = has_replicas (com_QueryCoord com)"
  "has_replicas (com_field (mcp_FieldName IndexNode) com) = has_replicas (com_IndexNode com)"
  "has_replicas (com_field (mcp_FieldName DataNode) com) = has_replicas (com_DataNode com)"
  "has_replicas (com_field (mcp_FieldName QueryNode) com) = has_replicas (com_QueryNode com)"
  "has_replicas (com_field (mcp_FieldName StreamingNode) com) = has_replicas (com_StreamingNode com)"
  "has_replicas (com_field (mcp_FieldName MilvusStandalone) com) = has_replicas (com_Standalone com)"
  "has_replicas (com_field (mcp_FieldName Cdc) com) = has_replicas (com_Cdc com)"
  by (simp_all add: com_field_def key_defs mk_component_def)

lemma settled_coords:
  "coords_settled com \<Longrightarrow> com_MixCoord com \<noteq> None \<Longrightarrow> has_replicas (com_MixCoord com)"
  "coords_settled com \<Longrightarrow> com_MixCoord com = None \<Longrightarrow>
     has_replicas (com_RootCoord com) \<and> has_replicas (com_DataCoord com) \<and> has_replicas (com_IndexCoord com) \<and> has_replicas (com_QueryCoord com)"
  by (auto simp: coords_settled_def has_replicas_def)

lemma version_2_6_streams: "IsVersionGreaterThan2_6 x spec \<Longrightarrow> UseStreamingNode x spec"
  by (simp add: UseStreamingNode_def)

lemma settled_components:
  assumes "settled x spec" "c \<in> set (GetComponentsBySpec x spec)"
  shows "has_replicas (com_field (mcp_FieldName c) (ms_Com spec))"
proof -
  have cdc: "UseCdc spec \<Longrightarrow> has_replicas (com_Cdc (ms_Com spec))" and sa: "has_replicas (com_Standalone (ms_Com spec))"
    using assms(1) by (simp_all add: settled_def UseCdc_def)
  show ?thesis
  proof (cases "ms_Mode spec = MilvusModeCluster")
    case False
    then show ?thesis
      using assms(2) cdc sa by (auto simp: GetComponentsBySpec_def StandaloneComponents_def has_replicas_com_field split: if_splits)
  next
    case True
    then have cl: "cluster_settled x spec" using assms(1) by (simp add: settled_def)
    note co = settled_coords [of "ms_Com spec"]
    show ?thesis
      using assms(2) cl cdc sa co True version_2_6_streams [of x spec] unfolding GetComponentsBySpec_def Let_def cluster_settled_def UseMixCoord_def
        MixtureComponents_def MilvusComponents_list_def Milvus2_6Components_def
      by (cases "IsVersionGreaterThan2_6 x spec"; cases "UseStreamingNode x spec"; cases "UseCdc spec"; cases "com_MixCoord (ms_Com spec) = None")
        (auto simp: has_replicas_com_field)
  qed
qed

text \<open>Every component the instance runs with is configured in a defaulted resource and has a
  replica count, so the controllers never read a replica pointer that is nil.\<close>

theorem defaulted_components_have_replicas:
  assumes "Milvus_Default E r = Some r'" "c \<in> set (GetComponentsBySpec (we_x E) (m_Spec r'))"
  shows "com_field (mcp_FieldName c) (ms_Com (m_Spec r')) \<noteq> None \<and> GetReplicas c (m_Spec r') \<noteq> None"
proof -
  have "mcp_DeploymentGroup c = None" using component_fields_known [OF assms(2)] by (simp add: ungrouped_def)
  with settled_components [OF _ assms(2)] defaulted_settled [OF assms(1)] show ?thesis
    by (auto simp: GetReplicas_def has_replicas_def)
qed


definition ex_spec_2_6 :: MilvusSpec where
  "ex_spec_2_6 = zero_MilvusSpec\<lparr>ms_Mode := MilvusModeCluster,
     ms_Com := zero_MilvusComponents\<lparr>cs_Image := ''milvusdb/milvus:v2.6.0'',
       com_MixCoord := Some (zero_Component\<lparr>co_Replicas := Some 0\<rparr>), com_Proxy := Some (zero_MilvusProxy\<lparr>co_Replicas := Some 0\<rparr>),
       com_DataNode := Some (zero_MilvusDataNode\<lparr>co_Replicas := Some 0\<rparr>), com_IndexNode := Some zero_MilvusIndexNode\<rparr>\<rparr>"

definition ex_index_node :: Milvus where
  "ex_index_node = (new_Milvus ''ns'' ''mc'')\<lparr>m_Spec := ex_spec_2_6\<rparr>"

lemma defaulted_mode: "Milvus_Default E r = Some r' \<Longrightarrow> ms_Mode (m_Spec r) \<noteq> MilvusModeUnset \<Longrightarrow> ms_Mode (m_Spec r') = ms_Mode (m_Spec r)"
  using defaulted_extends [of E r r'] by (simp add: DefaultMode_def)

lemma cluster_has_proxy: "ms_Mode spec = MilvusModeCluster \<Longrightarrow> Proxy \<in> set (GetComponentsBySpec x spec)"
  by (simp add: GetComponentsBySpec_def Let_def Milvus2_6Components_def MixtureComponents_def MilvusComponents_list_def)

lemma ex_index_node_mode: "ms_Mode (m_Spec ex_index_node) = MilvusModeCluster"
  by (simp add: ex_index_node_def ex_spec_2_6_def)

theorem defaulted_components_have_replicas_witness:
  "\<exists>r'. Milvus_Default ex_webhook ex_index_node = Some r' \<and> Proxy \<in> set (GetComponentsBySpec (we_x ex_webhook) (m_Spec r')) \<and> GetReplicas Proxy (m_Spec r') \<noteq> None"
proof -
  obtain r' where r': "Milvus_Default ex_webhook ex_index_node = Some r'" using Milvus_Default_total by metis
  then have "Proxy \<in> set (GetComponentsBySpec (we_x ex_webhook) (m_Spec r'))"
    by (simp add: cluster_has_proxy defaulted_mode ex_index_node_mode)
  with defaulted_components_have_replicas [OF r' this] r' show ?thesis by blast
qed

text \<open>Defaulting respects what the user has set: the mode, the image, the version and the configuration
  of every component are kept, and a replica count that is given is not replaced.\<close>

theorem default_respects_user:
  assumes "Milvus_Default E r = Some r'"
  shows "(ms_Mode (m_Spec r) \<noteq> MilvusModeUnset \<longrightarrow> ms_Mode (m_Spec r') = ms_Mode (m_Spec r)) \<and>
    (cs_Image (ms_Com (m_Spec r)) \<noteq> [] \<longrightarrow> cs_Image (ms_Com (m_Spec r')) = cs_Image (ms_Com (m_Spec r))) \<and>
    cs_Version (ms_Com (m_Spec r')) = cs_Version (ms_Com (m_Spec r)) \<and>
    (\<forall>f co. com_field f (ms_Com (m_Spec r)) = Some co \<longrightarrow>
       (\<exists>co'. com_field f (ms_Com (m_Spec r')) = Some co' \<and> co'\<lparr>co_Replicas := co_Replicas co\<rparr> = co \<and>
          (co_Replicas co \<noteq> None \<longrightarrow> co' = co)))"
proof -
  have "co'\<lparr>co_Replicas := co_Replicas co\<rparr> = co \<and> (co_Replicas co \<noteq> None \<longrightarrow> co' = co)" if "filled co co'" for co co'
    using that by (auto simp: filled_def default_replicas_def)
  then show ?thesis
    using defaulted_extends [OF assms] defaulted_mode [OF assms] by (simp add: extends_def) meson
qed

theorem default_respects_user_witness:
  "\<exists>r'. Milvus_Default ex_webhook ex_index_node = Some r' \<and> cs_Image (ms_Com (m_Spec r')) = ''milvusdb/milvus:v2.6.0''"
proof -
  obtain r' where r': "Milvus_Default ex_webhook ex_index_node = Some r'" using Milvus_Default_total by metis
  with default_respects_user [OF r'] show ?thesis by (simp add: ex_index_node_def ex_spec_2_6_def)
qed

section \<open>The stop check\<close>

text \<open>Where \<open>IsStopping\<close> looks at the index node of a cluster: everything before it is scaled to zero.\<close>

definition at_zero :: "'a Component_scheme option \<Rightarrow> bool" where
  "at_zero c \<longleftrightarrow> replicas_nonzero c = Some False"

definition stop_check_reaches_index_node :: "MilvusSpec \<Rightarrow> bool" where
  "stop_check_reaches_index_node spec \<longleftrightarrow> (let com = ms_Com spec in
     \<not> com_EnableManualMode com \<and> ms_Mode spec = MilvusModeCluster \<and> at_zero (com_Standalone com) \<and> (UseCdc spec \<longrightarrow> at_zero (com_Cdc com)) \<and>
     (if com_MixCoord com \<noteq> None then at_zero (com_MixCoord com)
      else at_zero (com_IndexCoord com) \<and> at_zero (com_DataCoord com) \<and> at_zero (com_QueryCoord com) \<and> at_zero (com_RootCoord com)) \<and>
     (\<exists>px dn. com_Proxy com = Some px \<and> componentOrGroupsStopped (co_Replicas px) (px_Groups px) \<and>
        com_DataNode com = Some dn \<and> componentOrGroupsStopped (co_Replicas dn) (dn_Groups dn)))"

lemma nonzero_cases: "has_replicas c \<Longrightarrow> (replicas_nonzero c = Some True \<and> \<not> at_zero c) \<or> (replicas_nonzero c = Some False \<and> at_zero c)"
  by (auto simp: has_replicas_def replicas_nonzero_def at_zero_def)

lemma coords_check:
  assumes "coords_settled com"
  shows "(if com_MixCoord com \<noteq> None then replicas_nonzero (com_MixCoord com)
      else do { ic \<leftarrow> replicas_nonzero (com_IndexCoord com);
        if ic then Some True else do { dc \<leftarrow> replicas_nonzero (com_DataCoord com);
        if dc then Some True else do { qc \<leftarrow> replicas_nonzero (com_QueryCoord com);
        if qc then Some True else replicas_nonzero (com_RootCoord com) } } }) =
     Some (\<not> (if com_MixCoord com \<noteq> None then at_zero (com_MixCoord com)
        else at_zero (com_IndexCoord com) \<and> at_zero (com_DataCoord com) \<and> at_zero (com_QueryCoord com) \<and> at_zero (com_RootCoord com)))"
proof (cases "com_MixCoord com = None")
  case True
  then show ?thesis
    using settled_coords(2) [OF assms True] nonzero_cases [of "com_IndexCoord com"] nonzero_cases [of "com_DataCoord com"]
      nonzero_cases [of "com_QueryCoord com"] nonzero_cases [of "com_RootCoord com"] by auto
next
  case False
  then show ?thesis using nonzero_cases [OF settled_coords(1) [OF assms False]] by auto
qed

text \<open>The rest of the check, from the index node on.\<close>

definition stop_check_tail :: "externals \<Rightarrow> MilvusSpec \<Rightarrow> bool option" where
  "stop_check_tail x spec = (let com = ms_Com spec in do {
     inode \<leftarrow> (if com_IndexNode com \<noteq> None then replicas_nonzero (com_IndexNode com) else Some False);
     if inode then Some False else do {
     qn \<leftarrow> com_QueryNode com;
     if \<not> componentOrGroupsStopped (co_Replicas qn) (qn_Groups qn) then Some False
     else if UseStreamingNode x spec then do {
       sn \<leftarrow> com_StreamingNode com;
       Some (componentOrGroupsStopped (co_Replicas sn) (sn_Groups sn)) }
     else Some True } })"

lemma stop_check_tail_None:
  assumes "cluster_settled x spec"
  shows "stop_check_tail x spec = None \<longleftrightarrow> (\<exists>inode. com_IndexNode (ms_Com spec) = Some inode \<and> co_Replicas inode = None)"
proof -
  obtain qn where qn: "com_QueryNode (ms_Com spec) = Some qn" using assms by (auto simp: cluster_settled_def has_replicas_def)
  have sn: "UseStreamingNode x spec \<Longrightarrow> \<exists>sn. com_StreamingNode (ms_Com spec) = Some sn" using assms by (auto simp: cluster_settled_def has_replicas_def)
  show ?thesis
  proof (cases "com_IndexNode (ms_Com spec)")
    case None
    then show ?thesis using sn by (auto simp: stop_check_tail_def Let_def qn)
  next
    case (Some inode)
    then show ?thesis using sn by (cases "co_Replicas inode") (auto simp: stop_check_tail_def Let_def qn replicas_nonzero_def)
  qed
qed

lemma IsStopping_cluster:
  assumes "settled x spec" "ms_Mode spec = MilvusModeCluster"
  shows "IsStopping x spec = (if stop_check_reaches_index_node spec then stop_check_tail x spec else Some False)"
proof -
  have cl: "cluster_settled x spec" using assms by (simp add: settled_def)
  then have co: "coords_settled (ms_Com spec)" by (simp add: cluster_settled_def)
  obtain px dn where p: "com_Proxy (ms_Com spec) = Some px" "com_DataNode (ms_Com spec) = Some dn"
    using cl by (auto simp: cluster_settled_def has_replicas_def)
  have sa: "replicas_nonzero (com_Standalone (ms_Com spec)) = Some (\<not> at_zero (com_Standalone (ms_Com spec)))"
    using nonzero_cases [of "com_Standalone (ms_Com spec)"] assms(1) by (auto simp: settled_def)
  have cdc: "(if UseCdc spec then replicas_nonzero (com_Cdc (ms_Com spec)) else Some False) = Some (\<not> (UseCdc spec \<longrightarrow> at_zero (com_Cdc (ms_Com spec))))"
    using nonzero_cases [of "com_Cdc (ms_Com spec)"] assms(1) by (auto simp: settled_def UseCdc_def)
  let ?coords = "if com_MixCoord (ms_Com spec) \<noteq> None then at_zero (com_MixCoord (ms_Com spec))
      else at_zero (com_IndexCoord (ms_Com spec)) \<and> at_zero (com_DataCoord (ms_Com spec)) \<and>
        at_zero (com_QueryCoord (ms_Com spec)) \<and> at_zero (com_RootCoord (ms_Com spec))"
  show ?thesis
    unfolding IsStopping_def Let_def sa cdc coords_check [OF co] Option.bind.simps p stop_check_reaches_index_node_def
    by (cases "com_EnableManualMode (ms_Com spec)"; cases "at_zero (com_Standalone (ms_Com spec))";
        cases "UseCdc spec \<longrightarrow> at_zero (com_Cdc (ms_Com spec))"; cases ?coords;
        cases "componentOrGroupsStopped (co_Replicas px) (px_Groups px)"; cases "componentOrGroupsStopped (co_Replicas dn) (dn_Groups dn)")
      (simp_all add: assms(2) stop_check_tail_def Let_def)
qed

lemma IsStopping_standalone_total:
  assumes "settled x spec" "ms_Mode spec = MilvusModeStandalone"
  shows "IsStopping x spec \<noteq> None"
proof -
  have "replicas_nonzero (com_Standalone (ms_Com spec)) = Some (\<not> at_zero (com_Standalone (ms_Com spec)))"
    using nonzero_cases [of "com_Standalone (ms_Com spec)"] assms(1) by (auto simp: settled_def)
  moreover have "(if UseCdc spec then replicas_nonzero (com_Cdc (ms_Com spec)) else Some False) = Some (\<not> (UseCdc spec \<longrightarrow> at_zero (com_Cdc (ms_Com spec))))"
    using nonzero_cases [of "com_Cdc (ms_Com spec)"] assms(1) by (auto simp: settled_def UseCdc_def)
  ultimately show ?thesis by (auto simp: IsStopping_def assms(2) Let_def)
qed

text \<open>C19. On a defaulted resource the stop check panics exactly when it reaches an index node without
  replicas, which defaulting leaves only in a cluster of version 2.6 or later.\<close>

theorem defaulted_stop_check:
  assumes "Milvus_Default E r = Some r'"
  shows "IsStopping (we_x E) (m_Spec r') = None \<longleftrightarrow>
      IsVersionGreaterThan2_6 (we_x E) (m_Spec r') \<and> stop_check_reaches_index_node (m_Spec r') \<and>
      (\<exists>inode. com_IndexNode (ms_Com (m_Spec r')) = Some inode \<and> co_Replicas inode = None)"
proof -
  have st: "settled (we_x E) (m_Spec r')" "ms_Mode (m_Spec r') \<noteq> MilvusModeUnset" using defaulted_settled [OF assms] by simp_all
  show ?thesis
  proof (cases "ms_Mode (m_Spec r') = MilvusModeCluster")
    case True
    then have "cluster_settled (we_x E) (m_Spec r')" using st by (simp add: settled_def)
    moreover from this have "IsVersionGreaterThan2_6 (we_x E) (m_Spec r')"
      if "com_IndexNode (ms_Com (m_Spec r')) = Some inode" "co_Replicas inode = None" for inode
      using that by (auto simp: cluster_settled_def has_replicas_def split: if_splits)
    ultimately show ?thesis by (auto simp: IsStopping_cluster [OF st(1) True] stop_check_tail_None)
  next
    case False
    then have "ms_Mode (m_Spec r') = MilvusModeStandalone" using st(2) by (cases "ms_Mode (m_Spec r')") simp_all
    with IsStopping_standalone_total [OF st(1)] show ?thesis by (simp add: stop_check_reaches_index_node_def Let_def)
  qed
qed


text \<open>The later stages do not change what the stop check sees.\<close>

lemma IsStopping_congr:
  "ms_Mode spec' = ms_Mode spec \<Longrightarrow> ms_Com spec' = (ms_Com spec)\<lparr>com_EnableRollingUpdate := e\<rparr> \<Longrightarrow> IsStopping x spec' = IsStopping x spec"
proof -
  assume a: "ms_Mode spec' = ms_Mode spec" "ms_Com spec' = (ms_Com spec)\<lparr>com_EnableRollingUpdate := e\<rparr>"
  then have "UseStreamingNode x spec' = UseStreamingNode x spec" "UseCdc spec' = UseCdc spec"
    by (simp_all add: UseStreamingNode_def IsVersionGreaterThan2_6_def UseCdc_def split: option.split)
  with a show ?thesis unfolding IsStopping_def Let_def by (simp cong: if_cong)
qed

lemma IsStopping_defaulted:
  assumes "Milvus_Default E r = Some r'" "ms_Mode (m_Spec r) \<noteq> MilvusModeUnset" "DefaultComponents (we_x E) r = Some rc"
  shows "IsStopping (we_x E) (m_Spec r') = IsStopping (we_x E) (m_Spec rc)"
proof -
  have m: "m_Spec (DefaultMode (DefaultMeta E r)) = m_Spec r" using assms(2) by (simp add: DefaultMode_def DefaultMeta_spec)
  then obtain r2 where r2: "DefaultComponents (we_x E) (DefaultMode (DefaultMeta E r)) = Some r2" "m_Spec r2 = m_Spec rc"
    using assms(3) by (auto simp: DefaultComponents_def Let_def)
  have r': "r' = DefaultConf E (DefaultDependencies E r2)" using assms(1) r2(1) by (simp add: Milvus_Default_def)
  obtain b conf where d: "DefaultConf E (DefaultDependencies E r2) = (DefaultDependencies E r2)\<lparr>m_Spec := (m_Spec (DefaultDependencies E r2))
      \<lparr>ms_Com := (ms_Com (m_Spec (DefaultDependencies E r2)))\<lparr>com_EnableRollingUpdate := b\<rparr>, ms_Conf := conf\<rparr>\<rparr>"
    using DefaultConf_shape by blast
  show ?thesis
    by (rule IsStopping_congr [where e = b]) (use DefaultDependencies_settles(2) [of r2 E] in \<open>simp_all add: r' d keeps_def r2(2)\<close>)
qed

theorem defaulted_stop_check_witness:
  "\<exists>r'. Milvus_Default ex_webhook ex_index_node = Some r' \<and> IsStopping std_x (m_Spec r') = None \<and> stop_check_reaches_index_node (m_Spec r')"
proof -
  have x: "we_x ex_webhook = std_x" by (simp add: ex_webhook_def)
  obtain r' where r': "Milvus_Default ex_webhook ex_index_node = Some r'" using Milvus_Default_total by metis
  have "case DefaultComponents std_x ex_index_node of None \<Rightarrow> False | Some rc \<Rightarrow> IsStopping std_x (m_Spec rc) = None"
    by code_simp
  then have "IsStopping std_x (m_Spec r') = None"
    using IsStopping_defaulted [OF r'] by (auto simp: x ex_index_node_mode split: option.splits)
  with defaulted_stop_check [OF r'] r' x show ?thesis by auto
qed


section \<open>Accepted deployment groups\<close>

definition group_ok :: "webhook_env \<Rightarrow> Milvus \<Rightarrow> string \<Rightarrow> DeploymentGroup \<Rightarrow> bool" where
  "group_ok E r componentName g \<longleftrightarrow> dg_Name g \<noteq> [] \<and> we_IsDNS1123Label E (dg_Name g) = [] \<and> (\<exists>n \<ge> -1. dg_Replicas g = Some n) \<and>
     length (om_Name r @ ''-milvus-'' @ componentName @ ''-'' @ dg_Name g) \<le>
       (if uses_two_deployments r componentName then maxKubernetesNameLength - 2 else maxKubernetesNameLength) \<and>
     (\<forall>k. k |\<in>| fmdom (dg_Labels g) \<longrightarrow> k \<notin> set deploymentGroupReservedLabels \<and> \<not> hasDeploymentGroupReservedMetadataPrefix k) \<and>
     (\<forall>k. k |\<in>| fmdom (dg_Annotations g) \<longrightarrow> k \<notin> set deploymentGroupReservedAnnotations \<and> \<not> hasDeploymentGroupReservedMetadataPrefix k)"

lemma reserved_keys_Nil:
  "reserved_keys path msg reserved m = [] \<longleftrightarrow> (\<forall>k. k |\<in>| fmdom m \<longrightarrow> k \<notin> set reserved \<and> \<not> hasDeploymentGroupReservedMetadataPrefix k)"
  by (auto simp: reserved_keys_def filter_empty_conv)

lemma validate_group_ok:
  "validate_group E r componentName path seen g = [] \<Longrightarrow> group_ok E r componentName g \<and> dg_Name g \<notin> set seen"
  unfolding validate_group_def validate_group_name_def group_ok_def reserved_keys_Nil
  by (auto simp: Let_def reserved_keys_Nil not_less split: if_splits option.splits)

lemma validate_groups_ok:
  "validate_groups E r componentName path i seen gs = [] \<Longrightarrow>
     distinct (map dg_Name gs) \<and> set (map dg_Name gs) \<inter> set seen = {} \<and> (\<forall>g \<in> set gs. group_ok E r componentName g)"
proof (induction gs arbitrary: i seen)
  case (Cons g gs)
  then have g: "group_ok E r componentName g" "dg_Name g \<notin> set seen" using validate_group_ok by auto
  then have "dg_Name g \<noteq> []" by (simp add: group_ok_def)
  with Cons.prems have "validate_groups E r componentName path (Suc i) (dg_Name g # seen) gs = []" by simp
  from Cons.IH [OF this] g show ?case by auto
qed simp

lemma accepted_groups:
  assumes "ValidateCreate E r = []" "(f, n, gs) \<in> set (named_groups r)"
  shows "distinct (map dg_Name gs)" "g \<in> set gs \<Longrightarrow> group_ok E r n g"
proof -
  have "validateDeploymentGroups E r = []" using assms(1) by (simp add: ValidateCreate_def)
  then have "validate_groups E r n (''spec.components.'' @ f @ ''.groups'') 0 [] gs = []"
    using assms(2) by (fastforce simp: validateDeploymentGroups_def)
  from validate_groups_ok [OF this] show "distinct (map dg_Name gs)" "g \<in> set gs \<Longrightarrow> group_ok E r n g" by auto
qed

lemma groups_named:
  "GetDeploymentGroups c (m_Spec r) \<noteq> [] \<Longrightarrow> \<exists>f. (f, mcp_Name c, GetDeploymentGroups c (m_Spec r)) \<in> set (named_groups r)"
  by (auto simp: GetDeploymentGroups_def named_groups_def Let_def split: if_splits option.splits)

text \<open>C40. The workloads of a component with deployment groups, for an accepted resource: their
  deployments have different names of a legal length, the slot suffix of the two-deployment rollout
  included, and every workload has a replica count of at least -1.\<close>

theorem accepted_workloads:
  assumes "ValidateCreate E r = []" "GetDeploymentGroups c (m_Spec r) \<noteq> []"
  shows "distinct (map (\<lambda>w. GetDeploymentName w (om_Name r)) (component_workloads (m_Spec r) c)) \<and>
    (\<forall>w \<in> set (component_workloads (m_Spec r) c).
       (\<exists>n \<ge> -1. GetReplicas w (m_Spec r) = Some n) \<and>
       length (GetDeploymentName w (om_Name r)) \<le> maxKubernetesNameLength \<and>
       (uses_two_deployments r (mcp_Name w) \<longrightarrow> slot \<in> {0, 1} \<longrightarrow> length (formatComponentDeployName r w slot) \<le> maxKubernetesNameLength))"
proof -
  let ?gs = "GetDeploymentGroups c (m_Spec r)"
  obtain f where f: "(f, mcp_Name c, ?gs) \<in> set (named_groups r)" using groups_named [OF assms(2)] by blast
  note ok = accepted_groups [OF assms(1) f]
  have ws: "component_workloads (m_Spec r) c = map (\<lambda>g. c\<lparr>mcp_DeploymentGroup := Some g\<rparr>) (sort_key dg_Name ?gs)"
    using assms(2) by (simp add: component_workloads_def)
  have "distinct (map dg_Name (sort_key dg_Name ?gs))"
    using ok(1) by (metis distinct_map distinct_sort set_sort)
  moreover have "map (\<lambda>w. GetDeploymentName w (om_Name r)) (component_workloads (m_Spec r) c) =
      map ((@) (om_Name r @ ''-milvus-'' @ mcp_Name c @ ''-'')) (map dg_Name (sort_key dg_Name ?gs))"
    by (simp add: ws GetDeploymentName_def)
  ultimately have "distinct (map (\<lambda>w. GetDeploymentName w (om_Name r)) (component_workloads (m_Spec r) c))"
    by (simp only: distinct_map [of "(@) _"] inj_on_def) simp
  moreover have "(\<exists>n \<ge> -1. GetReplicas w (m_Spec r) = Some n) \<and> length (GetDeploymentName w (om_Name r)) \<le> maxKubernetesNameLength \<and>
     (uses_two_deployments r (mcp_Name w) \<longrightarrow> slot \<in> {0, 1} \<longrightarrow> length (formatComponentDeployName r w slot) \<le> maxKubernetesNameLength)"
    if "w \<in> set (component_workloads (m_Spec r) c)" for w
  proof -
    obtain g where g: "w = c\<lparr>mcp_DeploymentGroup := Some g\<rparr>" "g \<in> set ?gs" using \<open>w \<in> _\<close> by (auto simp: ws)
    have "length (itoa slot) = 1" if "slot \<in> {0, 1}" using that by (auto simp: itoa_def digits_of.simps)
    then show ?thesis
      using ok(2) [OF g(2)] g(1)
      by (auto simp: group_ok_def GetReplicas_def GetDeploymentName_def formatComponentDeployName_def maxKubernetesNameLength_def split: if_splits)
  qed
  ultimately show ?thesis by blast
qed

text \<open>The labels of an accepted deployment group never meet the operator's own: the label the user
  gives is the one the deployment gets, and a label dropped from the group in an update disappears
  from the deployment although the deployment still carries it.\<close>

theorem accepted_group_labels:
  assumes "ValidateCreate E r = []" "(f, n, gs) \<in> set (named_groups r)" "g \<in> set gs" "k |\<in>| fmdom (dg_Labels g)"
    and "mcp_DeploymentGroup c = Some g'"
  shows "fmlookup (desiredDeploymentLabels inst c slot existing) k = fmlookup (dg_Labels g') k"
proof -
  have k: "k \<notin> set deploymentGroupReservedLabels" "\<not> hasDeploymentGroupReservedMetadataPrefix k"
    using accepted_groups(2) [OF assms(1-3)] assms(4) by (simp_all add: group_ok_def)
  from k(2) have p: "\<not> preserved_key k"
    by (simp add: hasDeploymentGroupReservedMetadataPrefix_def preserved_key_def deploymentGroupReservedMetadataPrefixes_def preservedMetadataPrefixes_def)
  then have "k \<noteq> GetComponentGroupIdLabel (mcp_Name c)" by auto
  moreover have "k |\<notin>| fmdom (GetSelectorLabels c inst)"
    using k(1) by (simp add: GetSelectorLabels_def deploymentGroupReservedLabels_def NewComponentAppLabels_def NewAppLabels_def
        AppLabelInstance_def AppLabelComponent_def AppLabelName_def AppLabelManagedBy_def assms(5) Let_def)
  ultimately show ?thesis
    using p by (simp add: desiredDeploymentLabels_def Let_def SetGroupIDStr_def preserve_lookup assms(5) fmdom_notD split: option.split)
qed


definition ex_group :: "string \<Rightarrow> DeploymentGroup" where
  "ex_group name = \<lparr>dg_Name = name, dg_Replicas = Some 2, dg_Labels = fmap_of_list [(''zone'', name)], dg_Annotations = fmempty,
     dg_ExtraEnv = [], dg_NodeSelector = None, dg_Affinity = None, dg_Tolerations = None, dg_TopologySpreadConstraints = None\<rparr>"

definition ex_grouped :: Milvus where
  "ex_grouped = (new_Milvus ''ns'' ''mc'')\<lparr>m_Spec := zero_MilvusSpec\<lparr>ms_Mode := MilvusModeCluster,
     ms_Com := zero_MilvusComponents\<lparr>com_RollingMode := RollingModeV2,
       com_QueryNode := Some (zero_MilvusQueryNode\<lparr>qn_Groups := [ex_group ''b'', ex_group ''a'']\<rparr>)\<rparr>\<rparr>\<rparr>"


lemma ex_grouped_accepted: "ValidateCreate ex_webhook ex_grouped = []"
  by code_simp

lemma ex_grouped_groups: "GetDeploymentGroups QueryNode (m_Spec ex_grouped) = [ex_group ''b'', ex_group ''a'']"
  by code_simp

theorem accepted_workloads_witness:
  "\<exists>w \<in> set (component_workloads (m_Spec ex_grouped) QueryNode). length (formatComponentDeployName ex_grouped w 1) \<le> maxKubernetesNameLength"
proof -
  let ?w = "QueryNode\<lparr>mcp_DeploymentGroup := Some (ex_group ''a'')\<rparr>"
  have "?w \<in> set (component_workloads (m_Spec ex_grouped) QueryNode)" by (simp add: component_workloads_def ex_grouped_groups Let_def)
  moreover have "uses_two_deployments ex_grouped (mcp_Name ?w)" by (simp add: uses_two_deployments_def QueryNode_def mk_component_def)
  ultimately show ?thesis
    using accepted_workloads [OF ex_grouped_accepted, of QueryNode 1] by (auto simp: ex_grouped_groups)
qed

theorem accepted_group_labels_witness:
  "fmlookup (desiredDeploymentLabels ''mc'' (QueryNode\<lparr>mcp_DeploymentGroup := Some (ex_group ''a'')\<rparr>) ''0'' (fmap_of_list [(''zone'', ''old'')])) ''zone'' = Some ''a''"
proof -
  have "(''queryNode'', ''querynode'', [ex_group ''b'', ex_group ''a'']) \<in> set (named_groups ex_grouped)"
    by (simp add: named_groups_def ex_grouped_def Let_def)
  from accepted_group_labels [OF ex_grouped_accepted this, of "ex_group ''a''" "''zone''" "QueryNode\<lparr>mcp_DeploymentGroup := Some (ex_group ''a'')\<rparr>" "ex_group ''a''"]
  show ?thesis by (simp add: ex_group_def)
qed

end
