(* ===== verification/Workloads.thy ===== *)
theory Workloads
  imports Deploy_Ctrl Value_Util
begin

text \<open>
  The reconciler and the workloads it keeps as one Deployment (deployments.go, deployment_updater.go).
  The record \<open>Reconciler\<close> is \<open>MilvusReconciler\<close>: the client's operations on the kinds used here,
  next to the client of the two-deployment controller, and the functions of the runtime and of other
  packages the code depends on (the order in which a map is iterated, the capacity of a decoded
  slice, typed decoding of free-form values).  Log lines are left out.
\<close>

section \<open>Kinds\<close>

text \<open>A quantity is a number; \<open>Cmp\<close> compares numbers, and a missing request reads as zero.\<close>

record K8sVolumeClaim = ObjectMeta +
  vc_StorageClassName :: "string option"
  vc_Requests :: "(string, int) fmap"
  vc_AccessModes :: "string list"
  vc_VolumeName :: string
  vc_Other :: json

record StatefulSetStatus =
  sss_ObservedGeneration :: int
  sss_Replicas :: int
  sss_ReadyReplicas :: int
  sss_UpdatedReplicas :: int
  sss_AvailableReplicas :: int
  sss_CurrentRevision :: string
  sss_UpdateRevision :: string

record StatefulSet = ObjectMeta +
  s_Replicas :: "int option"
  s_Selector :: "smap option"
  s_Template :: PodTemplateSpec
  s_VolumeClaimTemplates :: "K8sVolumeClaim list"
  s_ServiceName :: string
  s_UpdateStrategy :: string
  s_MinReadySeconds :: int
  s_Status :: StatefulSetStatus

record Service = ObjectMeta +
  svc_Ports :: "ServicePort list"
  svc_Selector :: smap
  svc_ClusterIP :: string
  svc_Type :: string
  svc_IPFamilyPolicy :: "string option"
  svc_LoadBalancerIngress :: "string list"

record StorageClass = ObjectMeta +
  stc_AllowVolumeExpansion :: "bool option"

record HorizontalPodAutoscaler = ObjectMeta +
  ha_TargetKind :: string
  ha_TargetName :: string
  ha_MinReplicas :: "int option"
  ha_MaxReplicas :: int
  ha_Metrics :: "json list"
  ha_Behavior :: "json option"

record Secret = ObjectMeta +
  sec_Data :: smap

definition new_ObjectMeta :: "string \<Rightarrow> string \<Rightarrow> ObjectMeta" where
  "new_ObjectMeta ns name = \<lparr>om_Name = name, om_Namespace = ns, om_UID = [], om_Generation = 0, om_Labels = fmempty,
     om_Annotations = fmempty, om_Finalizers = [], om_DeletionTimestamp = None, om_OwnerReferences = []\<rparr>"

definition new_StatefulSet :: "string \<Rightarrow> string \<Rightarrow> StatefulSet" where
  "new_StatefulSet ns name = ObjectMeta.extend (new_ObjectMeta ns name) (StatefulSet.fields None None zero_PodTemplateSpec [] [] [] 0
     \<lparr>sss_ObservedGeneration = 0, sss_Replicas = 0, sss_ReadyReplicas = 0, sss_UpdatedReplicas = 0, sss_AvailableReplicas = 0,
      sss_CurrentRevision = [], sss_UpdateRevision = []\<rparr>)"

definition new_Service :: "string \<Rightarrow> string \<Rightarrow> Service" where
  "new_Service ns name = ObjectMeta.extend (new_ObjectMeta ns name) (Service.fields [] fmempty [] [] None [])"

section \<open>The reconciler\<close>

record 'w Reconciler =
  rc_x :: externals
  rc_cli :: "'w Client"
  rc_GetStatefulSet :: "string \<Rightarrow> string \<Rightarrow> ('w, StatefulSet) op"
  rc_ListStatefulSets :: "string \<Rightarrow> smap \<Rightarrow> ('w, StatefulSet list) op"
  rc_CreateStatefulSet :: "StatefulSet \<Rightarrow> ('w, unit) op"
  rc_UpdateStatefulSet :: "StatefulSet \<Rightarrow> ('w, unit) op"
  rc_DeleteStatefulSet :: "StatefulSet \<Rightarrow> ('w, unit) op"
  rc_GetService :: "string \<Rightarrow> string \<Rightarrow> ('w, Service) op"
  rc_CreateService :: "Service \<Rightarrow> ('w, unit) op"
  rc_UpdateService :: "Service \<Rightarrow> ('w, unit) op"
  rc_DeleteService :: "Service \<Rightarrow> ('w, unit) op"
  rc_ListPVCs :: "string \<Rightarrow> smap \<Rightarrow> ('w, K8sVolumeClaim list) op"
  rc_UpdatePVC :: "K8sVolumeClaim \<Rightarrow> ('w, unit) op"
  rc_DeletePVC :: "K8sVolumeClaim \<Rightarrow> ('w, unit) op"
  rc_GetStorageClass :: "string \<Rightarrow> ('w, StorageClass) op"
  rc_ListStorageClasses :: "('w, StorageClass list) op"
  rc_GetHPA :: "string \<Rightarrow> string \<Rightarrow> ('w, HorizontalPodAutoscaler) op"
  rc_CreateHPA :: "HorizontalPodAutoscaler \<Rightarrow> ('w, unit) op"
  rc_UpdateHPA :: "HorizontalPodAutoscaler \<Rightarrow> ('w, unit) op"
  rc_DeleteHPA :: "HorizontalPodAutoscaler \<Rightarrow> ('w, unit) op"
  rc_GetSecret :: "string \<Rightarrow> string \<Rightarrow> ('w, Secret) op"
  rc_record :: "(string \<Rightarrow> string \<Rightarrow> json list \<Rightarrow> ('w, unit) op) option"
  rc_range :: "string list \<Rightarrow> string list"
  rc_cap :: "ServicePort list \<Rightarrow> nat"
  rc_asPVC :: "Values \<Rightarrow> K8sVolumeClaim option"
  rc_asMetric :: "Values \<Rightarrow> json option"
  rc_asBehavior :: "Values \<Rightarrow> json option"

text \<open>The idioms around reads and deletes: an object that is not found is not an error.\<close>

definition get_if_exists :: "('w, 'a) op \<Rightarrow> ('w, 'a option) op" where [op_defs]:
  "get_if_exists m = do { r \<leftarrow> m; (case r of Inr a \<Rightarrow> ret (Some a) | Inl e \<Rightarrow> if IsNotFound e then ret None else fail e) }"

definition IgnoreNotFound :: "string \<Rightarrow> ('w, unit) op \<Rightarrow> ('w, unit) op" where [op_defs]:
  "IgnoreNotFound msg m = do { r \<leftarrow> m; (case r of Inl e \<Rightarrow> if IsNotFound e then ret () else fail (Wrap e msg) | Inr _ \<Rightarrow> ret ()) }"

fun for_each :: "('a \<Rightarrow> ('w, unit) op) \<Rightarrow> 'a list \<Rightarrow> ('w, unit) op" where
  "for_each f [] = ret ()"
| "for_each f (a # as) = op_bind (f a) (\<lambda>_. for_each f as)"

section \<open>Which workload kind\<close>

definition componentUsesStatefulSet :: "Milvus \<Rightarrow> MilvusComponent \<Rightarrow> bool" where
  "componentUsesStatefulSet mc c =
     (let com = ms_Com (m_Spec mc) in
      if mcp_Name c = ''querynode'' then QueryNode_StatefulSetEnabled (com_QueryNode com)
      else if mcp_Name c = ''datanode'' then DataNode_StatefulSetEnabled (com_DataNode com)
      else if mcp_Name c = ''indexnode'' then IndexNode_StatefulSetEnabled (com_IndexNode com)
      else False)"

definition statefulSetCapableComponents :: "MilvusComponent list" where
  "statefulSetCapableComponents = [QueryNode, DataNode, IndexNode]"

definition getComponentStatefulSetSpec :: "Milvus \<Rightarrow> MilvusComponent \<Rightarrow> ComponentStatefulSet option" where
  "getComponentStatefulSetSpec mc c =
     (let com = ms_Com (m_Spec mc) in
      if mcp_Name c = ''querynode'' then Option.bind (com_QueryNode com) qn_StatefulSet
      else if mcp_Name c = ''datanode'' then Option.bind (com_DataNode com) dn_StatefulSet
      else if mcp_Name c = ''indexnode'' then Option.bind (com_IndexNode com) in_StatefulSet
      else None)"

definition GetStatefulSetServiceName :: "MilvusComponent \<Rightarrow> string \<Rightarrow> string" where
  "GetStatefulSetServiceName c instance' = GetDeploymentName c instance'"

definition componentUsesTwoDeployments :: "Milvus \<Rightarrow> MilvusComponent \<Rightarrow> bool" where
  "componentUsesTwoDeployments mc c \<longleftrightarrow> Is c QueryNode \<or> com_RollingMode (ms_Com (m_Spec mc)) = RollingModeV3"

section \<open>Service ports\<close>

definition same_service_port :: "ServicePort \<Rightarrow> ServicePort \<Rightarrow> bool" where
  "same_service_port src dst \<longleftrightarrow>
     sp_Name src = sp_Name dst \<or> (sp_Protocol src = sp_Protocol dst \<and> sp_Port src = sp_Port dst) \<or>
     (sp_NodePort dst \<noteq> 0 \<and> sp_Protocol src = sp_Protocol dst \<and> sp_NodePort src = sp_NodePort dst)"

definition getServicePortIdx :: "ServicePort list \<Rightarrow> ServicePort \<Rightarrow> nat option" where
  "getServicePortIdx srcPorts dst = map_option fst (find (\<lambda>(i, src). same_service_port src dst) (enumerate 0 srcPorts))"

definition to_lower_char :: "char \<Rightarrow> char" where
  "to_lower_char c = (case List.find (\<lambda>(u, l). u = c) (zip ''ABCDEFGHIJKLMNOPQRSTUVWXYZ'' ''abcdefghijklmnopqrstuvwxyz'') of
     None \<Rightarrow> c | Some (u, l) \<Rightarrow> l)"

definition merge_service_port :: "ServicePort \<Rightarrow> ServicePort \<Rightarrow> ServicePort" where
  "merge_service_port old dst =
     (let p = old\<lparr>sp_Name := sp_Name dst, sp_Protocol := sp_Protocol dst, sp_Port := sp_Port dst, sp_TargetPort := sp_TargetPort dst,
            sp_NodePort := (if sp_NodePort dst \<noteq> 0 then sp_NodePort dst else sp_NodePort old)\<rparr> in
      if sp_Name p = [] then p\<lparr>sp_Name := map to_lower_char (sp_Protocol p @ ''-'' @ itoa (sp_Port p))\<rparr> else p)"

text \<open>\<open>merged := src\<close> shares the array with \<open>src\<close> until an append has to move it, so a write through
  \<open>merged\<close> is seen by the later searches in \<open>src\<close> only while they are shared.  \<open>cap\<close> is the capacity
  of \<open>src\<close>.\<close>

fun merge_ports :: "nat \<Rightarrow> bool \<Rightarrow> ServicePort list \<Rightarrow> ServicePort list \<Rightarrow> ServicePort list \<Rightarrow> ServicePort list" where
  "merge_ports cap shared src merged [] = merged"
| "merge_ports cap shared src merged (d # ds) =
     (case getServicePortIdx src d of
        None \<Rightarrow> merge_ports cap (shared \<and> length merged < cap) src (merged @ [d]) ds
      | Some i \<Rightarrow>
          (let p = merge_service_port (merged ! i) d in
           merge_ports cap shared (if shared then src[i := p] else src) (merged[i := p]) ds))"

definition MergeServicePort :: "nat \<Rightarrow> ServicePort list \<Rightarrow> ServicePort list \<Rightarrow> ServicePort list" where
  "MergeServicePort cap src dst = (if src = [] then dst else if dst = [] then src else merge_ports cap True src src dst)"


section \<open>One Deployment\<close>

text \<open>\<open>updateDeploymentReplicas\<close>: with an autoscaler the replicas are only raised from zero.\<close>

definition updateDeploymentReplicas :: "milvusDeploymentUpdater \<Rightarrow> Deployment \<Rightarrow> Deployment" where
  "updateDeploymentReplicas u d =
     (if \<not> updater_IsHPAEnabled u then d\<lparr>d_Replicas := GetReplicas (up_component u) (m_Spec (up_Milvus u))\<rparr>
      else if getDeployReplicas d = 0 then
        d\<lparr>d_Replicas := int32Ptr (case GetHPASpec (up_component u) (m_Spec (up_Milvus u)) of
            None \<Rightarrow> 1 | Some h \<Rightarrow> (case hpa_MinReplicas h of None \<Rightarrow> 1 | Some n \<Rightarrow> n))\<rparr>
      else d)"

definition updateDeploymentWithoutPodTemplate :: "milvusDeploymentUpdater \<Rightarrow> Deployment \<Rightarrow> Deployment option" where
  "updateDeploymentWithoutPodTemplate u d = do {
     merged \<leftarrow> GetMergedComponentSpec (up_Milvus u) (up_component u);
     strategy \<leftarrow> GetDeploymentStrategy (up_Milvus u) (up_component u);
     let d = d\<lparr>d_Paused := cs_Paused merged, d_Strategy := strategy,
               d_MinReadySeconds := (if IsRollingUpdateEnabled (up_Milvus u) then 30 else d_MinReadySeconds d),
               d_ProgressDeadlineSeconds := int32Ptr oneMonthSeconds\<rparr>;
     Some (if \<not> com_EnableManualMode (ms_Com (m_Spec (up_Milvus u))) then updateDeploymentReplicas u d else d) }"

definition workload_labels :: "Milvus \<Rightarrow> MilvusComponent \<Rightarrow> smap \<Rightarrow> smap" where
  "workload_labels mc c labels = (case mcp_DeploymentGroup c of
     None \<Rightarrow> MergeLabels [labels, GetSelectorLabels c (om_Name mc)]
   | Some g \<Rightarrow> desiredDeploymentLabels (om_Name mc) c [] labels)"

definition workload_annotations :: "MilvusComponent \<Rightarrow> smap \<Rightarrow> smap" where
  "workload_annotations c annotations = (case mcp_DeploymentGroup c of
     None \<Rightarrow> annotations | Some g \<Rightarrow> desiredDeploymentAnnotations c annotations)"

definition render_updateDeployment :: "'w Reconciler \<Rightarrow> milvusDeploymentUpdater \<Rightarrow> Deployment \<Rightarrow> go_error + Deployment" where
  "render_updateDeployment r u d =
     (let mc = up_Milvus u; c = up_component u; appLabels = GetSelectorLabels c (om_Name mc) in
      case cli_SetControllerReference (rc_cli r) mc (om_OwnerReferences d) of
        Inl e \<Rightarrow> Inl (Wrap e ''set controller reference'')
      | Inr owners \<Rightarrow>
          (let isCreating = d_Selector d = None;
               d = d\<lparr>om_Labels := workload_labels mc c (om_Labels d), om_Annotations := workload_annotations c (om_Annotations d),
                     om_OwnerReferences := owners, d_Selector := (if isCreating then Some appLabels else d_Selector d)\<rparr>
           in or_panic ''nil component'' (do {
                d \<leftarrow> updateDeploymentWithoutPodTemplate u d;
                t \<leftarrow> updatePodTemplate (rc_x r) u appLabels (isCreating \<or> getDeployReplicas d = 0) (d_Template d);
                Some (d\<lparr>d_Template := t\<rparr>) })))"

definition CheckComponentHasTerminatingPod :: "'w Reconciler \<Rightarrow> Milvus \<Rightarrow> MilvusComponent \<Rightarrow> ('w, bool) op" where
  "CheckComponentHasTerminatingPod r mc c =
     op_bind (cli_ListPods (rc_cli r) (om_Namespace mc) (GetSelectorLabels c (om_Name mc)))
       (\<lambda>pods. ret (length (GetTerminatingPods pods) > 0))"

definition updateDeployment :: "'w Reconciler \<Rightarrow> EnvVar list \<Rightarrow> Milvus \<Rightarrow> MilvusComponent \<Rightarrow> Deployment \<Rightarrow> ('w, Deployment) op" where
  "updateDeployment r env mc c d =
     (let u = \<lparr>up_Milvus = mc, up_component = c, up_storageEndpointEnv = env\<rparr> in
      op_bind (op_wrap ''check component has terminating pod'' (CheckComponentHasTerminatingPod r mc c)) (\<lambda>hasTerminatingPod.
      if hasTerminatingPod then lift_result (or_panic ''nil component'' (updateDeploymentWithoutPodTemplate u d))
      else lift_result (render_updateDeployment r u d)))"

definition DeleteDeploymentsIfExists :: "'w Reconciler \<Rightarrow> Milvus \<Rightarrow> MilvusComponent \<Rightarrow> ('w, unit) op" where
  "DeleteDeploymentsIfExists r mc c =
     op_bind (op_wrap ''get deployment failed'' (get_if_exists (cli_GetDeployment (rc_cli r) (om_Namespace mc) (GetDeploymentName c (om_Name mc)))))
     (\<lambda>found. (case found of
        None \<Rightarrow> ret ()
      | Some deployment \<Rightarrow> op_wrap ''delete deployment failed'' (cli_DeleteDeployment (rc_cli r) deployment False)))"

definition label_service_pod :: "'w Reconciler \<Rightarrow> Pod \<Rightarrow> ('w, unit) op" where
  "label_service_pod r pod =
     (if fmget (om_Labels pod) ServiceLabel \<noteq> TrueStr
      then op_wrap (''label pod '' @ om_Name pod) (cli_UpdatePod (rc_cli r) (pod\<lparr>om_Labels := fmupd ServiceLabel TrueStr (om_Labels pod)\<rparr>))
      else ret ())"

definition labelServicePods :: "'w Reconciler \<Rightarrow> Milvus \<Rightarrow> ('w, unit) op" where
  "labelServicePods r mc =
     for_each (\<lambda>c.
       op_bind (op_wrap (''list ['' @ mcp_Name c @ ''] pods'')
         (cli_ListPods (rc_cli r) (om_Namespace mc) (NewComponentAppLabels (om_Name mc) (mcp_Name c))))
       (\<lambda>pods. for_each (label_service_pod r) pods)) [MilvusStandalone, Proxy]"

definition handleOldInstanceChangingMode :: "'w Reconciler \<Rightarrow> Milvus \<Rightarrow> MilvusComponent \<Rightarrow> ('w, unit) op" where
  "handleOldInstanceChangingMode r mc c =
     (if \<not> IsPodServiceLabelAdded mc \<and> Milvus_IsChangingMode mc \<and> Is c MilvusStandalone then
        op_bind (op_wrap ''label service pods'' (labelServicePods r mc)) (\<lambda>_.
        op_bind (op_wrap ''update milvus annotation'' (cli_UpdateMilvus (rc_cli r)
          (mc\<lparr>om_Annotations := fmupd PodServiceLabelAddedAnnotation TrueStr (om_Annotations mc)\<rparr>))) (\<lambda>_.
        fail (Wrap ErrRequeue ''requeue after updated milvus annotation'')))
      else ret ())"

definition ReconcileComponentDeployment :: "'w Reconciler \<Rightarrow> EnvVar list \<Rightarrow> Milvus \<Rightarrow> MilvusComponent \<Rightarrow> ('w, unit) op" where
  "ReconcileComponentDeployment r env mc c =
     (let name = GetDeploymentName c (om_Name mc) in
      op_bind (get_if_exists (cli_GetDeployment (rc_cli r) (om_Namespace mc) name)) (\<lambda>found.
      (case found of
         None \<Rightarrow>
           op_bind (updateDeployment r env mc c (new_Deployment (om_Namespace mc) name)) (\<lambda>d.
           cli_CreateDeployment (rc_cli r) d)
       | Some old \<Rightarrow>
           op_bind (handleOldInstanceChangingMode r mc c) (\<lambda>_.
           op_bind (updateDeployment r env mc c old) (\<lambda>cur.
           if cur = old then ret () else cli_UpdateDeployment (rc_cli r) cur)))))"

definition MilvusName :: string where "MilvusName = ''milvus''"

definition RemoveOldStandlone :: "'w Reconciler \<Rightarrow> Milvus \<Rightarrow> ('w, unit) op" where
  "RemoveOldStandlone r mc =
     op_bind (cli_ListDeployments (rc_cli r) (om_Namespace mc) (NewComponentAppLabels (om_Name mc) MilvusName)) (\<lambda>ds.
     for_each (\<lambda>d. cli_DeleteDeployment (rc_cli r) d False) ds)"

definition scale_down_idle :: "'w Reconciler \<Rightarrow> Milvus \<Rightarrow> Deployment \<Rightarrow> ('w, unit) op" where
  "scale_down_idle r mc d =
     (if \<not> IsControlledBy d mc \<or> getDeployReplicas d = 0 then ret ()
      else op_wrap (''scale down idle standalone deployment '' @ om_Name d) (cli_UpdateDeployment (rc_cli r) (d\<lparr>d_Replicas := int32Ptr 0\<rparr>)))"

definition scaleDownIdleStandalone :: "'w Reconciler \<Rightarrow> Milvus \<Rightarrow> ('w, unit) op" where
  "scaleDownIdleStandalone r mc =
     (if com_EnableManualMode (ms_Com (m_Spec mc)) then ret ()
      else op_bind (op_wrap ''list idle standalone deployments''
             (cli_ListDeployments (rc_cli r) (om_Namespace mc) (NewComponentAppLabels (om_Name mc) (mcp_Name MilvusStandalone)))) (\<lambda>ds.
           for_each (scale_down_idle r mc) ds))"

end
