(* ===== verification/StatefulSets.thy ===== *)
theory StatefulSets
  imports Workloads
begin

text \<open>
  Components that run as StatefulSets (statefulset.go): rendering, the headless service, the volume
  claims of scaled-down and of removed replicas, volume expansion, the status in the shape of a
  Deployment's, and the clean-up when a component changes its workload kind.
\<close>

section \<open>Rendering\<close>

definition getStatefulSetReplicas :: "StatefulSet \<Rightarrow> int" where
  "getStatefulSetReplicas sts = (case s_Replicas sts of None \<Rightarrow> 1 | Some n \<Rightarrow> n)"

fun render_templates :: "'w Reconciler \<Rightarrow> MilvusComponent \<Rightarrow> nat \<Rightarrow> Values list \<Rightarrow> go_error + K8sVolumeClaim list" where
  "render_templates r c i [] = Inr []"
| "render_templates r c i (v # vs) =
     (case rc_asPVC r v of
        None \<Rightarrow> Inl (Wrap (Errorf ''decode'') (''parse '' @ mcp_Name c @ '' volumeClaimTemplates['' @ itoa (int i) @ '']''))
      | Some pvc \<Rightarrow> (case render_templates r c (Suc i) vs of Inl e \<Rightarrow> Inl e | Inr ps \<Rightarrow> Inr (pvc # ps)))"

definition renderVolumeClaimTemplates :: "'w Reconciler \<Rightarrow> Milvus \<Rightarrow> MilvusComponent \<Rightarrow> go_error + K8sVolumeClaim list" where
  "renderVolumeClaimTemplates r mc c =
     (case getComponentStatefulSetSpec mc c of None \<Rightarrow> Inr [] | Some s \<Rightarrow> render_templates r c 0 (ss_VolumeClaimTemplates s))"

text \<open>The part of \<open>updateStatefulSet\<close> before the pod template.\<close>

definition statefulset_replicas :: "milvusDeploymentUpdater \<Rightarrow> StatefulSet \<Rightarrow> StatefulSet" where
  "statefulset_replicas u sts =
     (if com_EnableManualMode (ms_Com (m_Spec (up_Milvus u))) then sts
      else if \<not> updater_IsHPAEnabled u then sts\<lparr>s_Replicas := GetReplicas (up_component u) (m_Spec (up_Milvus u))\<rparr>
      else if getStatefulSetReplicas sts = 0 then sts\<lparr>s_Replicas := int32Ptr 1\<rparr>
      else sts)"

definition updateStatefulSet :: "'w Reconciler \<Rightarrow> EnvVar list \<Rightarrow> Milvus \<Rightarrow> MilvusComponent \<Rightarrow> StatefulSet \<Rightarrow> go_error + StatefulSet" where
  "updateStatefulSet r env mc c sts =
     (let u = \<lparr>up_Milvus = mc, up_component = c, up_storageEndpointEnv = env\<rparr>;
          appLabels = GetSelectorLabels c (om_Name mc) in
      case cli_SetControllerReference (rc_cli r) mc (om_OwnerReferences sts) of
        Inl e \<Rightarrow> Inl (Wrap e ''set controller reference'')
      | Inr owners \<Rightarrow>
          (let isCreating = s_Selector sts = None;
               sts = sts\<lparr>om_Labels := workload_labels mc c (om_Labels sts), om_Annotations := workload_annotations c (om_Annotations sts),
                         om_OwnerReferences := owners, s_Selector := (if isCreating then Some appLabels else s_Selector sts),
                         s_ServiceName := GetStatefulSetServiceName c (om_Name mc), s_UpdateStrategy := ''RollingUpdate'',
                         s_MinReadySeconds := (if IsRollingUpdateEnabled mc then 30 else s_MinReadySeconds sts)\<rparr>;
               sts = statefulset_replicas u sts
           in case renderVolumeClaimTemplates r mc c of
                Inl e \<Rightarrow> Inl e
              | Inr templates \<Rightarrow>
                  (let templates = map (\<lambda>t. t\<lparr>om_Labels := MergeLabels [om_Labels t, appLabels]\<rparr>) templates;
                       sts = (if isCreating then sts\<lparr>s_VolumeClaimTemplates := templates\<rparr> else sts)
                   in or_panic ''nil component'' (do {
                        paused \<leftarrow> (if cs_Paused (ms_Com (m_Spec mc)) then Some True else map_option cs_Paused (GetComponentSpec c (m_Spec mc)));
                        if paused \<and> \<not> isCreating then Some sts
                        else do {
                          t \<leftarrow> updatePodTemplate (rc_x r) u appLabels (isCreating \<or> getStatefulSetReplicas sts = 0) (s_Template sts);
                          Some (sts\<lparr>s_Template := t\<rparr>) } }))))"

section \<open>Volume claims\<close>

text \<open>\<open>matchStatefulSetPVCOrdinal\<close>: the number behind the first prefix that is followed by a number.\<close>

fun matchStatefulSetPVCOrdinal :: "string \<Rightarrow> string list \<Rightarrow> int option" where
  "matchStatefulSetPVCOrdinal pvcName [] = None"
| "matchStatefulSetPVCOrdinal pvcName (prefix # prefixes) =
     (if \<not> has_prefix pvcName prefix then matchStatefulSetPVCOrdinal pvcName prefixes
      else (case atoi (drop (length prefix) pvcName) of
              None \<Rightarrow> matchStatefulSetPVCOrdinal pvcName prefixes
            | Some ordinal \<Rightarrow> if ordinal < 0 then matchStatefulSetPVCOrdinal pvcName prefixes else Some (to_int32 ordinal)))"

definition pvc_prefixes :: "StatefulSet \<Rightarrow> string list" where
  "pvc_prefixes sts = map (\<lambda>t. om_Name t @ ''-'' @ om_Name sts @ ''-'') (s_VolumeClaimTemplates sts)"

definition cleanup_scaled_down_pvc :: "'w Reconciler \<Rightarrow> string list \<Rightarrow> int \<Rightarrow> K8sVolumeClaim \<Rightarrow> ('w, unit) op" where
  "cleanup_scaled_down_pvc r prefixes desired pvc =
     (if om_DeletionTimestamp pvc \<noteq> None then ret ()
      else (case matchStatefulSetPVCOrdinal (om_Name pvc) prefixes of
              None \<Rightarrow> ret ()
            | Some ordinal \<Rightarrow> if ordinal < desired then ret ()
                else IgnoreNotFound (''delete scaled-down querynode pvc '' @ om_Name pvc) (rc_DeletePVC r pvc)))"

definition cleanupScaledDownStatefulSetPVCs :: "'w Reconciler \<Rightarrow> Milvus \<Rightarrow> StatefulSet \<Rightarrow> ('w, unit) op" where
  "cleanupScaledDownStatefulSetPVCs r mc sts =
     (if s_VolumeClaimTemplates sts = [] then ret ()
      else op_bind (lift_result (or_panic ''nil selector'' (s_Selector sts))) (\<lambda>sel.
           op_bind (op_wrap ''list querynode pvcs'' (rc_ListPVCs r (om_Namespace mc) sel)) (\<lambda>pvcs.
           for_each (cleanup_scaled_down_pvc r (pvc_prefixes sts) (getStatefulSetReplicas sts)) pvcs)))"

text \<open>\<open>reconcileStatefulSetPVCExpansion\<close>.  Templates are looked up by name in a map, so the template
  of a claim is the first name, in the runtime's order, whose prefix the claim has.\<close>

definition ResourceStorage :: string where "ResourceStorage = ''storage''"

definition desired_sizes :: "K8sVolumeClaim list \<Rightarrow> (string, int) fmap" where
  "desired_sizes templates = foldl (\<lambda>m t. case fmlookup (vc_Requests t) ResourceStorage of
     None \<Rightarrow> m | Some q \<Rightarrow> fmupd (om_Name t) q m) fmempty templates"

definition claim_template :: "'w Reconciler \<Rightarrow> (string, int) fmap \<Rightarrow> string \<Rightarrow> string \<Rightarrow> string" where
  "claim_template r desiredByName stsName pvcName =
     (case find (\<lambda>name. has_prefix pvcName (name @ ''-'' @ stsName @ ''-'')) (rc_range r (sorted_list_of_fset (fmdom desiredByName))) of
        None \<Rightarrow> [] | Some name \<Rightarrow> name)"

definition storageClassNameForPVC :: "K8sVolumeClaim \<Rightarrow> string" where
  "storageClassNameForPVC pvc = (case vc_StorageClassName pvc of Some n \<Rightarrow> n | None \<Rightarrow> [])"

definition DefaultClassAnnotation :: string where
  "DefaultClassAnnotation = ''storageclass.kubernetes.io/is-default-class''"

definition allows :: "StorageClass \<Rightarrow> bool" where
  "allows sc \<longleftrightarrow> stc_AllowVolumeExpansion sc = Some True"

definition storageClassAllowsExpansion :: "'w Reconciler \<Rightarrow> string \<Rightarrow> ('w, bool) op" where
  "storageClassAllowsExpansion r name =
     (if name \<noteq> [] then do {
        res \<leftarrow> rc_GetStorageClass r name;
        (case res of Inl e \<Rightarrow> ret True | Inr sc \<Rightarrow> ret (allows sc)) }
      else do {
        res \<leftarrow> rc_ListStorageClasses r;
        (case res of
           Inl e \<Rightarrow> ret True
         | Inr scs \<Rightarrow> ret (case find (\<lambda>sc. fmget (om_Annotations sc) DefaultClassAnnotation = ''true'') scs of
             None \<Rightarrow> True | Some sc \<Rightarrow> allows sc)) })"

definition eventf :: "'w Reconciler \<Rightarrow> string \<Rightarrow> string \<Rightarrow> json list \<Rightarrow> ('w, unit) op" where
  "eventf r eventtype reason args =
     (case rc_record r of None \<Rightarrow> ret () | Some f \<Rightarrow> do { _ \<leftarrow> f eventtype reason args; ret () })"

text \<open>The support of a class is looked up once per pass.\<close>

definition class_support :: "'w Reconciler \<Rightarrow> (string, bool) fmap \<Rightarrow> string \<Rightarrow> ('w, bool) op" where
  "class_support r support scName =
     (case fmlookup support scName of Some a \<Rightarrow> ret a | None \<Rightarrow> storageClassAllowsExpansion r scName)"

definition requested_storage :: "K8sVolumeClaim \<Rightarrow> int" where
  "requested_storage pvc = (case fmlookup (vc_Requests pvc) ResourceStorage of None \<Rightarrow> 0 | Some q \<Rightarrow> q)"

definition expand_pvc :: "'w Reconciler \<Rightarrow> K8sVolumeClaim \<Rightarrow> int \<Rightarrow> ('w, unit) op" where
  "expand_pvc r pvc desired = do {
     res \<leftarrow> rc_UpdatePVC r (pvc\<lparr>vc_Requests := fmupd ResourceStorage desired (vc_Requests pvc)\<rparr>);
     (case res of
        Inr _ \<Rightarrow> ret ()
      | Inl e \<Rightarrow> eventf r ''Warning'' ''PVCExpansionFailed'' [JStr (om_Name pvc), JInt desired]) }"

fun expand_pvcs :: "'w Reconciler \<Rightarrow> (string, int) fmap \<Rightarrow> string \<Rightarrow> (string, bool) fmap \<Rightarrow> K8sVolumeClaim list \<Rightarrow> ('w, unit) op" where
  "expand_pvcs r desiredByName stsName support [] = ret ()"
| "expand_pvcs r desiredByName stsName support (pvc # pvcs) =
     (let templateName = claim_template r desiredByName stsName (om_Name pvc);
          current = requested_storage pvc in
      if om_DeletionTimestamp pvc \<noteq> None \<or> templateName = [] then expand_pvcs r desiredByName stsName support pvcs
      else (case fmlookup desiredByName templateName of
         None \<Rightarrow> expand_pvcs r desiredByName stsName support pvcs
       | Some desired \<Rightarrow>
           if desired \<le> current then expand_pvcs r desiredByName stsName support pvcs
           else
             (let scName = storageClassNameForPVC pvc in
              op_bind (class_support r support scName) (\<lambda>allowed.
              op_bind (if \<not> allowed
                       then eventf r ''Warning'' ''PVCExpansionUnsupported'' [JStr (om_Name pvc), JInt current, JInt desired, JStr scName]
                       else expand_pvc r pvc desired) (\<lambda>_.
              expand_pvcs r desiredByName stsName (fmupd scName allowed support) pvcs)))))"

definition reconcileStatefulSetPVCExpansion :: "'w Reconciler \<Rightarrow> Milvus \<Rightarrow> MilvusComponent \<Rightarrow> StatefulSet \<Rightarrow> ('w, unit) op" where
  "reconcileStatefulSetPVCExpansion r mc c sts =
     (if s_VolumeClaimTemplates sts = [] then ret ()
      else op_bind (lift_result (renderVolumeClaimTemplates r mc c)) (\<lambda>desiredTemplates.
           (let desiredByName = desired_sizes desiredTemplates in
            if desiredByName = fmempty then ret ()
            else op_bind (lift_result (or_panic ''nil selector'' (s_Selector sts))) (\<lambda>sel.
                 op_bind (op_wrap ''list querynode pvcs'' (rc_ListPVCs r (om_Namespace mc) sel)) (\<lambda>pvcs.
                 expand_pvcs r desiredByName (om_Name sts) fmempty pvcs)))))"

text \<open>The claims of a StatefulSet that was deleted.\<close>

definition delete_stale_pvc :: "'w Reconciler \<Rightarrow> string list \<Rightarrow> K8sVolumeClaim \<Rightarrow> ('w, unit) op" where
  "delete_stale_pvc r prefixes pvc =
     (if om_DeletionTimestamp pvc \<noteq> None \<or> matchStatefulSetPVCOrdinal (om_Name pvc) prefixes = None then ret ()
      else IgnoreNotFound (''delete stale pvc '' @ om_Name pvc) (rc_DeletePVC r pvc))"

definition deletePVCsForStatefulSet :: "'w Reconciler \<Rightarrow> Milvus \<Rightarrow> MilvusComponent \<Rightarrow> StatefulSet \<Rightarrow> ('w, unit) op" where
  "deletePVCsForStatefulSet r mc c sts =
     (if pvc_prefixes sts = [] then ret ()
      else op_bind (op_wrap (''list '' @ mcp_Name c @ '' pvcs for stale statefulset'')
             (rc_ListPVCs r (om_Namespace mc) (NewComponentAppLabels (om_Name mc) (mcp_Name c)))) (\<lambda>pvcs.
           for_each (delete_stale_pvc r (pvc_prefixes sts)) pvcs))"

section \<open>The headless service\<close>

definition updateStatefulSetService :: "'w Reconciler \<Rightarrow> Milvus \<Rightarrow> MilvusComponent \<Rightarrow> smap \<Rightarrow> Service \<Rightarrow> go_error + Service" where
  "updateStatefulSetService r mc c appLabels service =
     (case cli_SetControllerReference (rc_cli r) mc (om_OwnerReferences service) of
        Inl e \<Rightarrow> Inl e
      | Inr owners \<Rightarrow> or_panic ''service ports'' (do {
          ports \<leftarrow> GetServicePorts (rc_x r) c (m_Spec mc);
          Some (service\<lparr>om_Labels := MergeLabels [om_Labels service, appLabels], om_OwnerReferences := owners,
                        svc_ClusterIP := ''None'', svc_Selector := appLabels,
                        svc_Ports := MergeServicePort (rc_cap r (svc_Ports service)) (svc_Ports service) ports\<rparr>) }))"

definition reconcileStatefulSetService :: "'w Reconciler \<Rightarrow> Milvus \<Rightarrow> MilvusComponent \<Rightarrow> ('w, unit) op" where
  "reconcileStatefulSetService r mc c =
     (let appLabels = GetSelectorLabels c (om_Name mc); name = GetStatefulSetServiceName c (om_Name mc) in
      op_bind (get_if_exists (rc_GetService r (om_Namespace mc) name)) (\<lambda>found.
      (case found of
         None \<Rightarrow>
           op_bind (lift_result (updateStatefulSetService r mc c appLabels (new_Service (om_Namespace mc) name))) (\<lambda>new.
           rc_CreateService r new)
       | Some old \<Rightarrow>
           op_bind (lift_result (updateStatefulSetService r mc c appLabels old)) (\<lambda>cur.
           if cur = old then ret () else rc_UpdateService r cur))))"

section \<open>One StatefulSet\<close>

definition ReconcileComponentStatefulSet :: "'w Reconciler \<Rightarrow> EnvVar list \<Rightarrow> Milvus \<Rightarrow> MilvusComponent \<Rightarrow> ('w, unit) op" where
  "ReconcileComponentStatefulSet r env mc c =
     (let name = GetDeploymentName c (om_Name mc) in
      op_bind (op_wrap ''reconcile statefulset headless service'' (reconcileStatefulSetService r mc c)) (\<lambda>_.
      op_bind (get_if_exists (rc_GetStatefulSet r (om_Namespace mc) name)) (\<lambda>found.
      (case found of
         None \<Rightarrow>
           op_bind (lift_result (updateStatefulSet r env mc c (new_StatefulSet (om_Namespace mc) name))) (\<lambda>new.
           rc_CreateStatefulSet r new)
       | Some old \<Rightarrow>
           op_bind (lift_result (updateStatefulSet r env mc c old)) (\<lambda>cur.
           op_bind (if cur = old then ret () else rc_UpdateStatefulSet r cur) (\<lambda>_.
           op_bind (cleanupScaledDownStatefulSetPVCs r mc cur) (\<lambda>_.
           reconcileStatefulSetPVCExpansion r mc c cur)))))))"

text \<open>\<open>synthesizeStatefulSetStatus\<close>; \<open>now\<close> is the time of the call.\<close>

definition sts_rollout_complete :: "StatefulSet \<Rightarrow> bool" where
  "sts_rollout_complete sts \<longleftrightarrow>
     sss_ObservedGeneration (s_Status sts) \<ge> om_Generation sts \<and> sss_UpdatedReplicas (s_Status sts) = getStatefulSetReplicas sts \<and>
     sss_CurrentRevision (s_Status sts) = sss_UpdateRevision (s_Status sts)"

definition sts_deployment_status :: "int \<Rightarrow> StatefulSet \<Rightarrow> DeploymentStatus" where
  "sts_deployment_status now sts =
     (let st = s_Status sts; desired = getStatefulSetReplicas sts; available = sss_AvailableReplicas st in
      \<lparr>dst_ObservedGeneration = sss_ObservedGeneration st, dst_Replicas = sss_Replicas st, dst_UpdatedReplicas = sss_UpdatedReplicas st,
       dst_ReadyReplicas = sss_ReadyReplicas st, dst_AvailableReplicas = available,
       dst_UnavailableReplicas = (let u = to_int32 (desired - available) in if u < 0 then 0 else u),
       dst_Conditions =
         [\<lparr>dc_Type = ''Progressing'', dc_Status = ConditionTrue, dc_LastUpdateTime = Some now, dc_LastTransitionTime = Some now,
           dc_Reason = (if sts_rollout_complete sts then NewReplicaSetAvailableReason else ''StatefulSetUpdating''), dc_Message = []\<rparr>,
          \<lparr>dc_Type = ''Available'',
           dc_Status = (if available \<ge> desired \<and> desired > 0 then ConditionTrue else ConditionFalse),
           dc_LastUpdateTime = Some now, dc_LastTransitionTime = Some now, dc_Reason = ''StatefulSetAvailable'', dc_Message = []\<rparr>]\<rparr>)"

definition synthesizeStatefulSetStatus :: "int \<Rightarrow> MilvusComponent \<Rightarrow> StatefulSet option \<Rightarrow> ComponentDeployStatus" where
  "synthesizeStatefulSetStatus now c sts = (case sts of
     None \<Rightarrow> \<lparr>cds_Generation = 0, cds_Image = [], cds_Status = zero_DeploymentStatus\<rparr>
   | Some sts \<Rightarrow>
       \<lparr>cds_Generation = om_Generation sts,
        cds_Image = (let cs = ps_Containers (pt_Spec (s_Template sts)) in
          case GetContainerIndex cs (mcp_Name c) of None \<Rightarrow> [] | Some i \<Rightarrow> ct_Image (cs ! i)),
        cds_Status = sts_deployment_status now sts\<rparr>)"

definition getStatefulSetForComponent :: "'w Reconciler \<Rightarrow> Milvus \<Rightarrow> MilvusComponent \<Rightarrow> ('w, StatefulSet option) op" where
  "getStatefulSetForComponent r mc c = get_if_exists (rc_GetStatefulSet r (om_Namespace mc) (GetDeploymentName c (om_Name mc)))"

section \<open>Removing StatefulSets\<close>

text \<open>The headless service has the name of its StatefulSet.\<close>

definition delete_service_named :: "'w Reconciler \<Rightarrow> string \<Rightarrow> string \<Rightarrow> string \<Rightarrow> ('w, unit) op" where
  "delete_service_named r what ns name =
     op_bind (op_wrap (''get '' @ what) (get_if_exists (rc_GetService r ns name))) (\<lambda>found.
     (case found of None \<Rightarrow> ret () | Some svc \<Rightarrow> IgnoreNotFound (''delete '' @ what) (rc_DeleteService r svc)))"

definition deleteComponentStatefulSetIfExists :: "'w Reconciler \<Rightarrow> Milvus \<Rightarrow> MilvusComponent \<Rightarrow> ('w, unit) op" where
  "deleteComponentStatefulSetIfExists r mc c =
     (let name = GetDeploymentName c (om_Name mc) in
      op_bind (op_wrap (''get '' @ mcp_Name c @ '' statefulset'') (get_if_exists (rc_GetStatefulSet r (om_Namespace mc) name))) (\<lambda>found.
      (case found of
         None \<Rightarrow> ret ()
       | Some sts \<Rightarrow>
           op_bind (IgnoreNotFound (''delete '' @ mcp_Name c @ '' statefulset'') (rc_DeleteStatefulSet r sts)) (\<lambda>_.
           op_bind (deletePVCsForStatefulSet r mc c sts) (\<lambda>_.
           delete_service_named r (mcp_Name c @ '' statefulset service'') (om_Namespace mc) name)))))"

definition delete_legacy_deployment :: "'w Reconciler \<Rightarrow> Milvus \<Rightarrow> MilvusComponent \<Rightarrow> Deployment \<Rightarrow> ('w, unit) op" where
  "delete_legacy_deployment r mc c d =
     (if \<not> IsControlledBy d mc then ret ()
      else IgnoreNotFound (''delete legacy '' @ mcp_Name c @ '' deployment '' @ om_Name d) (cli_DeleteDeployment (rc_cli r) d False))"

definition deleteLegacyComponentDeployments :: "'w Reconciler \<Rightarrow> Milvus \<Rightarrow> MilvusComponent \<Rightarrow> ('w, unit) op" where
  "deleteLegacyComponentDeployments r mc c =
     op_bind (op_wrap (''list legacy '' @ mcp_Name c @ '' deployments'')
       (cli_ListDeployments (rc_cli r) (om_Namespace mc) (NewComponentAppLabels (om_Name mc) (mcp_Name c)))) (\<lambda>ds.
     for_each (delete_legacy_deployment r mc c) ds)"

definition desired_statefulsets :: "externals \<Rightarrow> Milvus \<Rightarrow> string list" where
  "desired_statefulsets x mc =
     map (\<lambda>w. GetDeploymentName w (om_Name mc)) (filter (componentUsesStatefulSet mc) (GetComponentWorkloadsBySpec x (m_Spec mc)))"

definition delete_stale_statefulset :: "'w Reconciler \<Rightarrow> Milvus \<Rightarrow> MilvusComponent \<Rightarrow> StatefulSet \<Rightarrow> ('w, unit) op" where
  "delete_stale_statefulset r mc c sts =
     (if \<not> IsControlledBy sts mc \<or> om_Name sts \<in> set (desired_statefulsets (rc_x r) mc) then ret ()
      else op_bind (IgnoreNotFound (''delete stale statefulset '' @ om_Name sts) (rc_DeleteStatefulSet r sts)) (\<lambda>_.
           op_bind (deletePVCsForStatefulSet r mc c sts) (\<lambda>_.
           delete_service_named r (''stale statefulset service '' @ om_Name sts) (om_Namespace mc) (om_Name sts))))"

definition cleanupStaleStatefulSets :: "'w Reconciler \<Rightarrow> Milvus \<Rightarrow> ('w, unit) op" where
  "cleanupStaleStatefulSets r mc =
     for_each (\<lambda>c.
       op_bind (op_wrap (''list '' @ mcp_Name c @ '' statefulsets'')
         (rc_ListStatefulSets r (om_Namespace mc) (NewComponentAppLabels (om_Name mc) (mcp_Name c)))) (\<lambda>stss.
       for_each (delete_stale_statefulset r mc c) stss)) statefulSetCapableComponents"

definition cleanupStatefulSetWorkloadModes :: "'w Reconciler \<Rightarrow> Milvus \<Rightarrow> ('w, unit) op" where
  "cleanupStatefulSetWorkloadModes r mc =
     (if ms_Mode (m_Spec mc) \<noteq> MilvusModeCluster then ret ()
      else op_bind (for_each (\<lambda>c. if componentUsesStatefulSet mc c then deleteLegacyComponentDeployments r mc c else ret ())
                     statefulSetCapableComponents) (\<lambda>_.
           cleanupStaleStatefulSets r mc))"

end
