(* ===== verification/Reconcile.thy ===== *)
theory Reconcile
  imports StatefulSets
begin

text \<open>
  The parts of a pass of the Milvus reconciler that write workloads, services and autoscalers:
  services.go, hpa.go, and \<open>ReconcileDeployments\<close> with its clean-ups (deployments.go,
  deployment_cluster_to_standalone.go, the storage secret of configmaps.go).
\<close>

section \<open>Services\<close>

definition updateService :: "'w Reconciler \<Rightarrow> Milvus \<Rightarrow> MilvusComponent \<Rightarrow> Service \<Rightarrow> go_error + Service" where
  "updateService r mc c service =
     (case cli_SetControllerReference (rc_cli r) mc (om_OwnerReferences service) of
        Inl e \<Rightarrow> Inl e
      | Inr owners \<Rightarrow> or_panic ''nil component'' (do {
          ports \<leftarrow> GetServicePorts (rc_x r) c (m_Spec mc);
          ty \<leftarrow> GetServiceType c (m_Spec mc);
          sv \<leftarrow> GetServiceComponent (m_Spec mc);
          Some (service\<lparr>om_Labels := MergeLabels [MergeLabels [om_Labels service, NewAppLabels (om_Name mc)], sv_ServiceLabels sv],
                        om_Annotations := MergeLabels [om_Annotations service, sv_ServiceAnnotations sv],
                        om_OwnerReferences := owners,
                        svc_Ports := MergeServicePort (rc_cap r (svc_Ports service)) (svc_Ports service) ports,
                        svc_Selector := (if IsPodServiceLabelAdded mc then NewServicePodLabels (om_Name mc)
                                         else NewComponentAppLabels (om_Name mc) (mcp_Name c)),
                        svc_Type := ty,
                        svc_IPFamilyPolicy := (case sv_ServiceIPFamilyPolicy sv of None \<Rightarrow> svc_IPFamilyPolicy service | Some p \<Rightarrow> Some p)\<rparr>) }))"

definition ReconcileComponentService :: "'w Reconciler \<Rightarrow> Milvus \<Rightarrow> MilvusComponent \<Rightarrow> ('w, unit) op" where
  "ReconcileComponentService r mc c =
     (let name = GetServiceInstanceName (om_Name mc) in
      if \<not> IsService c then ret ()
      else if Milvus_IsChangingMode mc \<and> \<not> IsPodServiceLabelAdded mc then ret ()
      else op_bind (get_if_exists (rc_GetService r (om_Namespace mc) name)) (\<lambda>found.
        (case found of
           None \<Rightarrow>
             op_bind (lift_result (updateService r mc c (new_Service (om_Namespace mc) name))) (\<lambda>new. rc_CreateService r new)
         | Some old \<Rightarrow>
             op_bind (lift_result (updateService r mc c old)) (\<lambda>cur.
             if cur = old then ret () else rc_UpdateService r cur))))"

definition ReconcileServices :: "'w Reconciler \<Rightarrow> Milvus \<Rightarrow> ('w, unit) op" where
  "ReconcileServices r mc = op_wrap ''reconcile milvus services''
     (ReconcileComponentService r mc (if ms_Mode (m_Spec mc) = MilvusModeCluster then Proxy else MilvusStandalone))"

section \<open>Autoscalers\<close>

definition deleteHPAIfExists :: "'w Reconciler \<Rightarrow> Milvus \<Rightarrow> MilvusComponent \<Rightarrow> ('w, unit) op" where
  "deleteHPAIfExists r mc c =
     op_bind (op_wrap ''get HPA'' (get_if_exists (rc_GetHPA r (om_Namespace mc) (GetHPAName c (om_Name mc))))) (\<lambda>found.
     (case found of
        None \<Rightarrow> ret ()
      | Some hpa \<Rightarrow> if \<not> IsControlledBy hpa mc then ret () else op_wrap ''delete HPA'' (rc_DeleteHPA r hpa)))"

definition convertMetrics :: "'w Reconciler \<Rightarrow> Values list \<Rightarrow> json list" where
  "convertMetrics r metrics = List.map_filter (rc_asMetric r) metrics"

definition convertBehavior :: "'w Reconciler \<Rightarrow> Values \<Rightarrow> json option" where
  "convertBehavior r behavior = rc_asBehavior r behavior"

definition buildHPA :: "'w Reconciler \<Rightarrow> Milvus \<Rightarrow> MilvusComponent \<Rightarrow> HPASpec \<Rightarrow> string \<Rightarrow> go_error + HorizontalPodAutoscaler" where
  "buildHPA r mc c hpaSpec deploymentName =
     (case cli_SetControllerReference (rc_cli r) mc [] of
        Inl e \<Rightarrow> Inl (Wrap e ''set controller reference for HPA'')
      | Inr owners \<Rightarrow> Inr (ObjectMeta.extend
          ((new_ObjectMeta (om_Namespace mc) (GetHPAName c (om_Name mc)))\<lparr>om_Labels := NewComponentAppLabels (om_Name mc) (mcp_Name c),
             om_OwnerReferences := owners\<rparr>)
          (HorizontalPodAutoscaler.fields ''Deployment'' deploymentName
             (Some (case hpa_MinReplicas hpaSpec of None \<Rightarrow> 1 | Some n \<Rightarrow> n)) (hpa_MaxReplicas hpaSpec)
             (if hpa_Metrics hpaSpec = [] then [] else convertMetrics r (hpa_Metrics hpaSpec))
             (if hpa_Behavior hpaSpec = None then None else convertBehavior r (hpa_Behavior hpaSpec)))))"

definition hpaSpecNeedsUpdate :: "HorizontalPodAutoscaler \<Rightarrow> HorizontalPodAutoscaler \<Rightarrow> bool" where
  "hpaSpecNeedsUpdate existing desired \<longleftrightarrow>
     ha_TargetName existing \<noteq> ha_TargetName desired \<or> ha_MinReplicas existing \<noteq> ha_MinReplicas desired \<or>
     ha_MaxReplicas existing \<noteq> ha_MaxReplicas desired \<or> ha_Metrics existing \<noteq> ha_Metrics desired \<or>
     ha_Behavior existing \<noteq> ha_Behavior desired"

definition set_hpa_spec :: "HorizontalPodAutoscaler \<Rightarrow> HorizontalPodAutoscaler \<Rightarrow> HorizontalPodAutoscaler" where
  "set_hpa_spec existing desired = existing\<lparr>ha_TargetKind := ha_TargetKind desired, ha_TargetName := ha_TargetName desired,
     ha_MinReplicas := ha_MinReplicas desired, ha_MaxReplicas := ha_MaxReplicas desired,
     ha_Metrics := ha_Metrics desired, ha_Behavior := ha_Behavior desired\<rparr>"

definition createOrUpdateHPA :: "'w Reconciler \<Rightarrow> Milvus \<Rightarrow> MilvusComponent \<Rightarrow> HPASpec \<Rightarrow> string \<Rightarrow> ('w, unit) op" where
  "createOrUpdateHPA r mc c hpaSpec deploymentName =
     op_bind (op_wrap ''build HPA'' (lift_result (buildHPA r mc c hpaSpec deploymentName))) (\<lambda>desired.
     op_bind (op_wrap ''get HPA'' (get_if_exists (rc_GetHPA r (om_Namespace mc) (GetHPAName c (om_Name mc))))) (\<lambda>found.
     (case found of
        None \<Rightarrow> rc_CreateHPA r desired
      | Some existing \<Rightarrow>
          if hpaSpecNeedsUpdate existing desired then rc_UpdateHPA r (set_hpa_spec existing desired) else ret ())))"

definition reconcileStandardHPA :: "'w Reconciler \<Rightarrow> Milvus \<Rightarrow> MilvusComponent \<Rightarrow> HPASpec \<Rightarrow> ('w, unit) op" where
  "reconcileStandardHPA r mc c hpaSpec = createOrUpdateHPA r mc c hpaSpec (GetDeploymentName c (om_Name mc))"

definition current_group_number :: "Milvus \<Rightarrow> string \<Rightarrow> int" where
  "current_group_number mc name = (case atoi (GetCurrentGroupId mc name) of None \<Rightarrow> 0 | Some n \<Rightarrow> n)"

definition reconcileTwoDeployHPA :: "'w Reconciler \<Rightarrow> Milvus \<Rightarrow> MilvusComponent \<Rightarrow> HPASpec \<Rightarrow> ('w, unit) op" where
  "reconcileTwoDeployHPA r mc c hpaSpec =
     (if IsComponentRolling mc (mcp_Name c) then deleteHPAIfExists r mc c
      else createOrUpdateHPA r mc c hpaSpec (formatComponentDeployName mc c (current_group_number mc (mcp_Name c))))"

definition reconcileComponentHPA :: "'w Reconciler \<Rightarrow> Milvus \<Rightarrow> MilvusComponent \<Rightarrow> ('w, unit) op" where
  "reconcileComponentHPA r mc c =
     (case GetHPASpec c (m_Spec mc) of
        None \<Rightarrow> deleteHPAIfExists r mc c
      | Some hpaSpec \<Rightarrow>
          if isUpgradeStopping mc then deleteHPAIfExists r mc c
          else if (case hpa_MinReplicas hpaSpec of None \<Rightarrow> False | Some n \<Rightarrow> n > hpa_MaxReplicas hpaSpec)
          then fail (Errorf (''invalid HPA spec for component '' @ mcp_Name c))
          else if c = QueryNode \<or> com_RollingMode (ms_Com (m_Spec mc)) = RollingModeV3 then reconcileTwoDeployHPA r mc c hpaSpec
          else reconcileStandardHPA r mc c hpaSpec)"

definition ReconcileHPAs :: "'w Reconciler \<Rightarrow> Milvus \<Rightarrow> ('w, unit) op" where
  "ReconcileHPAs r mc =
     for_each (\<lambda>c. op_wrap (''reconcile HPA for component '' @ mcp_Name c) (reconcileComponentHPA r mc c))
       (GetComponentsBySpec (rc_x r) (m_Spec mc))"

section \<open>Environment of the storage\<close>

text \<open>\<open>net.SplitHostPort\<close>: host and port around the last colon, the host in brackets when it has
  colons itself.\<close>

definition split_host_port :: "string \<Rightarrow> (string \<times> string) option" where
  "split_host_port s =
     (case last_index_by id s CHR '':'' of
        None \<Rightarrow> None
      | Some i \<Rightarrow>
          if hd s = CHR ''['' then
            (let close = length (takeWhile (\<lambda>c. c \<noteq> CHR '']'') s) in
             if close + 1 \<noteq> i \<or> CHR ''['' \<in> set (tl s) \<or> CHR '']'' \<in> set (drop (close + 1) s) then None
             else Some (take (close - 1) (tl s), drop (i + 1) s))
          else if CHR '':'' \<in> set (take i s) \<or> CHR ''['' \<in> set s \<or> CHR '']'' \<in> set s then None
          else Some (take i s, drop (i + 1) s))"

definition GetHostPortWithDefault :: "string \<Rightarrow> int \<Rightarrow> string \<times> int" where
  "GetHostPortWithDefault endpoint defaultPort =
     (case split_host_port endpoint of
        None \<Rightarrow> (endpoint, defaultPort)
      | Some (host, port) \<Rightarrow> (case atoi port of None \<Rightarrow> (host, defaultPort) | Some n \<Rightarrow> (host, to_int32 n)))"

definition GetStorageHostPort :: "string \<Rightarrow> bool \<Rightarrow> string \<times> int" where
  "GetStorageHostPort endpoint useSSL = GetHostPortWithDefault endpoint (if useSSL then 443 else 80)"

definition GetStorageEndpointEnv :: "string \<Rightarrow> bool \<Rightarrow> EnvVar list" where
  "GetStorageEndpointEnv endpoint useSSL =
     (if endpoint = [] then []
      else [\<lparr>ev_Name = ''MINIO_PORT'', ev_Value = itoa (snd (GetStorageHostPort endpoint useSSL)), ev_ValueFrom = None\<rparr>])"

definition getMinioPortEnvIfServiceExists :: "'w Reconciler \<Rightarrow> Milvus \<Rightarrow> ('w, EnvVar list) op" where
  "getMinioPortEnvIfServiceExists r mc =
     op_bind (op_wrap ''check minio service'' (get_if_exists (rc_GetService r (om_Namespace mc) ''minio''))) (\<lambda>found.
     (case found of
        None \<Rightarrow> ret []
      | Some service \<Rightarrow> ret (GetStorageEndpointEnv (st_Endpoint (dep_Storage (ms_Dep (m_Spec mc))))
                              (GetMinioSecure (Values_Data (ms_Conf (m_Spec mc)))))))"

definition silo_key :: "EnvVar \<Rightarrow> EnvVar" where
  "silo_key e = e\<lparr>ev_ValueFrom := map_option (\<lambda>s. s\<lparr>evs_SecretKeyRef := map_option (\<lambda>k.
     k\<lparr>sks_Key := (if sks_Key k = ''accesskey'' then ''rootUser'' else ''rootPassword'')\<rparr>) (evs_SecretKeyRef s)\<rparr>) (ev_ValueFrom e)\<rparr>"

definition resolveStorageSecretRefEnv :: "'w Reconciler \<Rightarrow> Milvus \<Rightarrow> ('w, EnvVar list) op" where
  "resolveStorageSecretRefEnv r mc =
     (let ref = st_SecretRef (dep_Storage (ms_Dep (m_Spec mc))); env = GetStorageSecretRefEnv ref in
      if ref = [] then ret env
      else op_bind (op_wrap ''get storage secret for pod environment'' (rc_GetSecret r (om_Namespace mc) ref)) (\<lambda>secret.
        ret (if fmlookup (sec_Data secret) ''accesskey'' = None \<and> fmlookup (sec_Data secret) ''secretkey'' = None \<and>
                fmlookup (sec_Data secret) ''rootUser'' \<noteq> None
             then map silo_key env else env)))"

section \<open>Clean-ups\<close>

text \<open>The groups a component should have: the members of \<open>desiredGroups\<close>.\<close>

definition desired_groups :: "MilvusComponent list \<Rightarrow> string \<Rightarrow> string list option" where
  "desired_groups workloads name =
     (case filter (\<lambda>w. mcp_Name w = name) workloads of [] \<Rightarrow> None | ws \<Rightarrow> Some (map GetDeploymentGroupName ws))"

definition is_stale_group :: "Milvus \<Rightarrow> MilvusComponent list \<Rightarrow> Deployment \<Rightarrow> bool" where
  "is_stale_group mc workloads d \<longleftrightarrow>
     IsControlledBy d mc \<and>
     (case desired_groups workloads (fmget (om_Labels d) AppLabelComponent) of
        None \<Rightarrow> False
      | Some groups \<Rightarrow> fmget (om_Labels d) DeploymentGroupLabel \<notin> set groups)"

definition desired_deployment :: "externals \<Rightarrow> Milvus \<Rightarrow> MilvusComponent \<Rightarrow> Deployment list \<Rightarrow> Deployment option" where
  "desired_deployment x mc workload ds =
     (if componentUsesTwoDeployments mc workload then
        (let currentSlot = GetCurrentGroupId mc (GetStateKey x workload) in
         if currentSlot = [] then None
         else find (\<lambda>d. IsControlledBy d mc \<and> fmget (om_Labels d) AppLabelComponent = mcp_Name workload \<and>
                MatchesDeploymentGroup workload (om_Labels d) \<and> GetLabelGroupID (mcp_Name workload) d = currentSlot) ds)
      else find (\<lambda>d. om_Name d = GetDeploymentName workload (om_Name mc) \<and> IsControlledBy d mc) ds)"

definition desiredWorkloadsReadyForCleanup :: "externals \<Rightarrow> Milvus \<Rightarrow> MilvusComponent list \<Rightarrow> Deployment list \<Rightarrow> bool" where
  "desiredWorkloadsReadyForCleanup x mc workloads ds =
     list_all (\<lambda>w. case desired_deployment x mc w ds of
        None \<Rightarrow> False | Some d \<Rightarrow> getDeployReplicas d = 0 \<or> DeploymentReady (d_Status d)) workloads"

definition delete_stale_group :: "'w Reconciler \<Rightarrow> Deployment \<Rightarrow> ('w, unit) op" where
  "delete_stale_group r d =
     IgnoreNotFound (''delete stale deployment '' @ om_Namespace d @ ''/'' @ om_Name d) (cli_DeleteDeployment (rc_cli r) d False)"

definition cleanupStaleDeploymentGroups :: "'w Reconciler \<Rightarrow> Milvus \<Rightarrow> ('w, unit) op" where
  "cleanupStaleDeploymentGroups r mc =
     op_bind (op_wrap ''list deployments for deployment-group cleanup''
       (cli_ListDeployments (rc_cli r) (om_Namespace mc) (NewAppLabels (om_Name mc)))) (\<lambda>ds.
     (let workloads = GetComponentWorkloadsBySpec (rc_x r) (m_Spec mc);
          stale = filter (is_stale_group mc workloads) ds;
          gated = filter (\<lambda>w. mcp_Name w \<in> (\<lambda>d. fmget (om_Labels d) AppLabelComponent) ` set stale) workloads
      in if stale = [] \<or> \<not> desiredWorkloadsReadyForCleanup (rc_x r) mc gated ds then ret ()
         else for_each (delete_stale_group r) stale))"

definition CleanupDeploymentClusterToStandalone :: "'w Reconciler \<Rightarrow> Milvus \<Rightarrow> ('w, unit) op" where
  "CleanupDeploymentClusterToStandalone r mc =
     (if ms_Mode (m_Spec mc) \<noteq> MilvusModeStandalone \<or> com_EnableManualMode (ms_Com (m_Spec mc)) then ret ()
      else op_bind (op_wrap ''list deployments by instance label''
             (cli_ListDeployments (rc_cli r) (om_Namespace mc) (NewAppLabels (om_Name mc)))) (\<lambda>ds.
        (let expected = GetComponentsBySpec (rc_x r) (m_Spec mc);
             label = (\<lambda>d. fmget (om_Labels d) AppLabelComponent);
             present = filter (\<lambda>d. containsComponent expected (label d)) ds;
             toDelete = filter (\<lambda>d. \<not> containsComponent expected (label d)) ds
         in if toDelete = [] \<or> length (remdups (map label present)) < length expected \<or>
               \<not> list_all (\<lambda>d. DeploymentReady (d_Status d)) present
            then ret ()
            else for_each (\<lambda>d. IgnoreNotFound (''delete deployment '' @ om_Namespace d @ ''/'' @ om_Name d)
                    (cli_DeleteDeployment (rc_cli r) d False)) toDelete)))"

definition set_IndexNode_nil :: "Milvus \<Rightarrow> Milvus" where
  "set_IndexNode_nil mc = mc\<lparr>m_Spec := (m_Spec mc)\<lparr>ms_Com := (ms_Com (m_Spec mc))\<lparr>com_IndexNode := None\<rparr>\<rparr>\<rparr>"

definition cleanupIndexNodeIfNeeded :: "'w Reconciler \<Rightarrow> Milvus \<Rightarrow> ('w, unit) op" where
  "cleanupIndexNodeIfNeeded r mc =
     (if IsVersionGreaterThan2_6 (rc_x r) (m_Spec mc) \<and> IsImageUpdated Proxy mc \<and> com_IndexNode (ms_Com (m_Spec mc)) \<noteq> None then
        op_bind (DeleteDeploymentsIfExists r mc IndexNode) (\<lambda>_.
        op_bind (deleteComponentStatefulSetIfExists r mc IndexNode) (\<lambda>_.
        cli_UpdateMilvus (rc_cli r) (set_IndexNode_nil mc)))
      else ret ())"

definition cleanupCoordinatorsIfNeeded :: "'w Reconciler \<Rightarrow> Milvus \<Rightarrow> ('w, unit) op" where
  "cleanupCoordinatorsIfNeeded r mc =
     (if UseMixCoord (m_Spec mc) \<and> IsImageUpdated MixCoord mc \<and> HasCoordsSpec mc then
        op_bind (for_each (DeleteDeploymentsIfExists r mc) MilvusCoords) (\<lambda>_.
        cli_UpdateMilvus (rc_cli r) (SetCoordsNil mc))
      else ret ())"

section \<open>All workloads\<close>

text \<open>The controller of the two-deployment mode, with the storage environment of this pass.\<close>

definition deployCtrl :: "'w Reconciler \<Rightarrow> EnvVar list \<Rightarrow> 'w DeployControllerImpl" where
  "deployCtrl r env =
     \<lparr>dci_biz = \<lparr>biz_x = rc_x r, biz_cli = rc_cli r, biz_component = QueryNode, biz_storageEnv = env\<rparr>,
      dci_oneDeployModeController = ReconcileComponentDeployment r env\<rparr>"

definition reconcile_workload :: "'w Reconciler \<Rightarrow> EnvVar list \<Rightarrow> Milvus \<Rightarrow> MilvusComponent \<Rightarrow> ('w, unit) op" where
  "reconcile_workload r env mc c =
     (if IsIdleClusterStandalone (m_Spec mc) c then scaleDownIdleStandalone r mc
      else if componentUsesStatefulSet mc c then ReconcileComponentStatefulSet r env mc c
      else if componentUsesTwoDeployments mc c then DeployController_Reconcile (deployCtrl r env) mc c
      else ReconcileComponentDeployment r env mc c)"

text \<open>Every workload is reconciled; the errors are collected.\<close>

fun collect_errors :: "('a \<Rightarrow> ('w, unit) op) \<Rightarrow> 'a list \<Rightarrow> ('w, go_error list) state" where
  "collect_errors f [] = State_Monad.return []"
| "collect_errors f (a # as) = do {
     res \<leftarrow> f a;
     es \<leftarrow> collect_errors f as;
     State_Monad.return (case res of Inl e \<Rightarrow> e # es | Inr _ \<Rightarrow> es) }"

text \<open>A requeue takes precedence.  \<open>errors.Join\<close> has the texts of its members, one a line.\<close>

definition join_errors :: "go_error list \<Rightarrow> go_error + unit" where
  "join_errors errs =
     (if errs = [] then Inr ()
      else (case find is_requeue errs of
          Some q \<Rightarrow> Inl (Wrap q ''reconcile milvus deployments error'')
        | None \<Rightarrow> Inl (Wrap (Errorf (join_with [CHR 0x0A] (map error_text errs))) ''reconcile milvus deployments errs'')))"

definition ReconcileDeployments :: "'w Reconciler \<Rightarrow> Milvus \<Rightarrow> ('w, unit) op" where
  "ReconcileDeployments r mc =
     op_bind (getMinioPortEnvIfServiceExists r mc) (\<lambda>storageEndpointEnv.
     op_bind (resolveStorageSecretRefEnv r mc) (\<lambda>storageSecretEnv.
     op_bind (RemoveOldStandlone r mc) (\<lambda>_.
     op_bind (cleanupStatefulSetWorkloadModes r mc) (\<lambda>_.
     do {
       errs \<leftarrow> collect_errors (reconcile_workload r (storageEndpointEnv @ storageSecretEnv) mc)
                 (GetComponentWorkloadsBySpec (rc_x r) (m_Spec mc));
       op_bind (lift_result (join_errors errs)) (\<lambda>_.
       op_bind (cleanupStaleDeploymentGroups r mc) (\<lambda>_.
       op_bind (CleanupDeploymentClusterToStandalone r mc) (\<lambda>_.
       op_bind (cleanupIndexNodeIfNeeded r mc) (\<lambda>_.
       cleanupCoordinatorsIfNeeded r mc)))) }))))"

end
