(* ===== verification/Probe.thy ===== *)
theory Probe
  imports Reconcile
begin

text \<open>
  Probing the dependencies of an instance: the cache that keeps two goroutines from probing the same
  endpoints (endpoint_check_cache.go), the loop \<open>GetCondition\<close> and the conditions of etcd, storage and
  message stream (conditions.go, status_cluster.go, external/tcp_dial.go, external/pulsar.go).  The
  network is a record of operations; so is what other goroutines do while this one sleeps.
\<close>

section \<open>The cache\<close>

text \<open>One go-cache without expiry holds the conditions and, under keys with a suffix, the lock words.
  Reading an item at the wrong type panics.\<close>

datatype cache_item = LockItem int | ConditionItem MilvusCondition

type_synonym probe_cache = "(string, cache_item) fmap"

definition strSliceAsKey :: "string list \<Rightarrow> string" where
  "strSliceAsKey input = join_with '','' (sort input)"

definition lock_key :: "string list \<Rightarrow> string" where
  "lock_key endpoints = strSliceAsKey endpoints @ ''_probe_lock''"

definition TryStartProbeFor :: "string list \<Rightarrow> probe_cache \<Rightarrow> (bool \<times> probe_cache) option" where
  "TryStartProbeFor endpoints cache =
     (case fmlookup cache (lock_key endpoints) of
        None \<Rightarrow> Some (True, fmupd (lock_key endpoints) (LockItem 1) cache)
      | Some (LockItem n) \<Rightarrow> Some (if n = 0 then (True, fmupd (lock_key endpoints) (LockItem 1) cache) else (False, cache))
      | Some (ConditionItem _) \<Rightarrow> None)"

definition EndProbeFor :: "string list \<Rightarrow> probe_cache \<Rightarrow> probe_cache option" where
  "EndProbeFor endpoints cache =
     (if endpoints = [] then Some cache
      else (case fmlookup cache (lock_key endpoints) of
              None \<Rightarrow> Some cache
            | Some (LockItem n) \<Rightarrow> Some (fmupd (lock_key endpoints) (LockItem 0) cache)
            | Some (ConditionItem _) \<Rightarrow> None))"

definition cache_Get :: "string list \<Rightarrow> probe_cache \<Rightarrow> MilvusCondition option option" where
  "cache_Get endpoints cache =
     (if endpoints = [] then Some None
      else (case fmlookup cache (strSliceAsKey endpoints) of
              None \<Rightarrow> Some None
            | Some (ConditionItem c) \<Rightarrow> Some (Some c)
            | Some (LockItem n) \<Rightarrow> None))"

definition cache_Set :: "string list \<Rightarrow> MilvusCondition \<Rightarrow> probe_cache \<Rightarrow> probe_cache" where
  "cache_Set endpoints c cache =
     (if endpoints = [] then cache else fmupd (strSliceAsKey endpoints) (ConditionItem c) cache)"

section \<open>The network and the process\<close>

record CheckMinIOArgs =
  cm_Type :: string
  cm_AK :: string
  cm_SK :: string
  cm_Bucket :: string
  cm_Endpoint :: string
  cm_UseSSL :: bool
  cm_UseIAM :: bool
  cm_IAMEndpoint :: string
  cm_UseVirtualHost :: bool
  cm_CACertificate :: string
  cm_InsecureSkipVerify :: bool

record EtcdAuthConfig =
  ea_Enabled :: bool
  ea_Username :: string
  ea_Password :: string

text \<open>\<open>pb_cache\<close> and \<open>pb_set_cache\<close> locate the process-wide cache in the world.\<close>

record 'w Prober =
  pb_r :: "'w Reconciler"
  pb_cache :: "'w \<Rightarrow> probe_cache"
  pb_set_cache :: "probe_cache \<Rightarrow> 'w \<Rightarrow> 'w"
  pb_Sleep :: "('w, unit) state"
  pb_checkMinIO :: "CheckMinIOArgs \<Rightarrow> ('w, unit) op"
  pb_checkKafka :: "Milvus \<Rightarrow> (string \<times> string \<times> string) option \<Rightarrow> ('w, unit) op"
  pb_decodeKafka :: "values_map \<Rightarrow> go_error option"
  pb_netDial :: "string \<Rightarrow> ('w, unit) op"
  pb_etcdNew :: "string \<Rightarrow> (string \<times> string) option \<Rightarrow> ('w, unit) op"
  pb_etcdGet :: "string \<Rightarrow> ('w, unit) op"
  pb_etcdAlarmList :: "string \<Rightarrow> ('w, string list) op"
  pb_isPermissionDenied :: "go_error \<Rightarrow> bool"
  pb_maxRetry :: nat

section \<open>One probe at a time\<close>

text \<open>An operation on the cache; \<open>None\<close> is a panic.\<close>

definition on_cache :: "'w Prober \<Rightarrow> (probe_cache \<Rightarrow> ('a \<times> probe_cache) option) \<Rightarrow> ('w, 'a) op" where
  "on_cache p f = State (\<lambda>w. case f (pb_cache p w) of
     None \<Rightarrow> (Inl (GoPanic ''interface conversion''), w) | Some (a, c) \<Rightarrow> (Inr a, pb_set_cache p c w))"

definition start_probe :: "'w Prober \<Rightarrow> string list \<Rightarrow> ('w, bool) op" where
  "start_probe p eps = on_cache p (TryStartProbeFor eps)"

definition end_probe :: "'w Prober \<Rightarrow> string list \<Rightarrow> ('w, unit) op" where
  "end_probe p eps = on_cache p (\<lambda>c. map_option (Pair ()) (EndProbeFor eps c))"

definition cached_condition :: "'w Prober \<Rightarrow> string list \<Rightarrow> ('w, MilvusCondition option) op" where
  "cached_condition p eps = on_cache p (\<lambda>c. map_option (\<lambda>v. (v, c)) (cache_Get eps c))"

definition set_condition :: "'w Prober \<Rightarrow> string list \<Rightarrow> MilvusCondition \<Rightarrow> ('w, unit) op" where
  "set_condition p eps v = on_cache p (\<lambda>c. Some ((), cache_Set eps v c))"

text \<open>The loop of \<open>GetCondition\<close>, at most \<open>fuel\<close> attempts: \<open>None\<close> when all of them had to wait.  The key
  of the cache sorts the endpoints in place, so the getter sees them sorted.\<close>

fun GetCondition :: "nat \<Rightarrow> 'w Prober \<Rightarrow> (string list \<Rightarrow> ('w, MilvusCondition) op) \<Rightarrow> string list \<Rightarrow> ('w, MilvusCondition option) op" where
  "GetCondition 0 p getter eps = ret None"
| "GetCondition (Suc fuel) p getter eps =
     op_bind (start_probe p eps) (\<lambda>started.
       if started then do {
         res \<leftarrow> op_bind (getter (sort eps)) (\<lambda>v. op_bind (set_condition p eps v) (\<lambda>_. ret (Some v)));
         op_bind (end_probe p eps) (\<lambda>_. lift_result res) }
       else
         op_bind (cached_condition p eps) (\<lambda>found.
         (case found of
            Some c \<Rightarrow> ret (Some c)
          | None \<Rightarrow> do { _ \<leftarrow> pb_Sleep p; GetCondition fuel p getter eps })))"

section \<open>Conditions\<close>

definition mk_condition :: "MilvusConditionType \<Rightarrow> ConditionStatus \<Rightarrow> string \<Rightarrow> string \<Rightarrow> MilvusCondition" where
  "mk_condition t s reason message =
     \<lparr>mcd_Type = t, mcd_Status = s, mcd_LastTransitionTime = None, mcd_Reason = reason, mcd_Message = message\<rparr>"

definition newErrStorageCondResult :: "string \<Rightarrow> string \<Rightarrow> MilvusCondition" where
  "newErrStorageCondResult reason message = mk_condition StorageReady ConditionFalse reason message"

definition newErrMsgStreamCondResult :: "string \<Rightarrow> string \<Rightarrow> MilvusCondition" where
  "newErrMsgStreamCondResult reason message = mk_condition MsgStreamReady ConditionFalse reason message"

definition msgStreamReadyCondition :: MilvusCondition where
  "msgStreamReadyCondition = mk_condition MsgStreamReady ConditionTrue ''MsgStreamReady'' []"

definition storageSecretKeys :: "smap \<Rightarrow> string option \<times> string option" where
  "storageSecretKeys data =
     (let ak = fmlookup data ''accesskey''; sk = fmlookup data ''secretkey'' in
      if ak = None \<and> sk = None then (fmlookup data ''rootUser'', fmlookup data ''rootPassword'') else (ak, sk))"

record StorageConditionInfo =
  sci_Namespace :: string
  sci_Bucket :: string
  sci_Storage :: MilvusStorage
  sci_UseSSL :: bool
  sci_UseIAM :: bool
  sci_IAMEndpoint :: string
  sci_StorageAccount :: string
  sci_UseVirtualHost :: bool

text \<open>The credentials, or the condition that reports why there are none.\<close>

definition storage_credentials :: "'w Prober \<Rightarrow> StorageConditionInfo \<Rightarrow> ('w, MilvusCondition + string \<times> string) op" where
  "storage_credentials p info =
     (if sci_UseIAM info then ret (Inr ([], []))
      else do {
        res \<leftarrow> rc_GetSecret (pb_r p) (sci_Namespace info) (st_SecretRef (sci_Storage info));
        ret (case res of
          Inl e \<Rightarrow> Inl (if IsNotFound e then newErrStorageCondResult ''SecretNotExist'' ''Secret not exist''
                       else newErrStorageCondResult ''ClientError'' (error_text e))
        | Inr secret \<Rightarrow> (case storageSecretKeys (sec_Data secret) of
            (Some ak, Some sk) \<Rightarrow> Inr (ak, sk)
          | _ \<Rightarrow> Inl (newErrStorageCondResult ''SecretNotExist'' ''accesskey or secretkey not exist in secret''))) })"

definition storage_ca :: "'w Prober \<Rightarrow> StorageConditionInfo \<Rightarrow> ('w, MilvusCondition + string \<times> bool) op" where
  "storage_ca p info =
     (case st_SSL (sci_Storage info) of
        None \<Rightarrow> ret (Inr ([], False))
      | Some ssl \<Rightarrow>
          if \<not> ssl_Enabled ssl then ret (Inr ([], False))
          else if ssl_CACertificateRef ssl = [] then ret (Inr ([], ssl_InsecureSkipVerify ssl))
          else do {
            res \<leftarrow> rc_GetSecret (pb_r p) (sci_Namespace info) (ssl_CACertificateRef ssl);
            ret (case res of
              Inl e \<Rightarrow> Inl (if IsNotFound e then newErrStorageCondResult ''SecretNotExist'' ''SSL CA certificate secret not exist''
                           else newErrStorageCondResult ''ClientError'' (''Failed to load CA certificate: '' @ error_text e))
            | Inr secret \<Rightarrow> (case fmlookup (sec_Data secret) ''ca.crt'' of
                None \<Rightarrow> Inl (newErrStorageCondResult ''ClientError'' ''CA certificate not found in secret, expected key: ca.crt'')
              | Some ca \<Rightarrow> Inr (ca, ssl_InsecureSkipVerify ssl))) })"

definition minio_args :: "StorageConditionInfo \<Rightarrow> string \<Rightarrow> string \<Rightarrow> string \<Rightarrow> bool \<Rightarrow> CheckMinIOArgs" where
  "minio_args info accesskey secretkey ca skip =
     \<lparr>cm_Type = st_Type (sci_Storage info),
      cm_AK = (if st_Type (sci_Storage info) = ''Azure'' \<and> accesskey = [] then sci_StorageAccount info else accesskey),
      cm_SK = secretkey, cm_Bucket = sci_Bucket info, cm_Endpoint = st_Endpoint (sci_Storage info), cm_UseSSL = sci_UseSSL info,
      cm_UseIAM = sci_UseIAM info, cm_IAMEndpoint = sci_IAMEndpoint info, cm_UseVirtualHost = sci_UseVirtualHost info,
      cm_CACertificate = ca, cm_InsecureSkipVerify = skip\<rparr>"

definition GetMinioCondition :: "'w Prober \<Rightarrow> StorageConditionInfo \<Rightarrow> ('w, MilvusCondition) op" where
  "GetMinioCondition p info =
     op_bind (storage_credentials p info) (\<lambda>creds.
     (case creds of
        Inl cond \<Rightarrow> ret cond
      | Inr (ak, sk) \<Rightarrow>
          op_bind (storage_ca p info) (\<lambda>ssl.
          (case ssl of
             Inl cond \<Rightarrow> ret cond
           | Inr (ca, skip) \<Rightarrow> do {
               res \<leftarrow> pb_checkMinIO p (minio_args info ak sk ca skip);
               ret (case res of
                 Inl e \<Rightarrow> newErrStorageCondResult ''ClientError'' (error_text e)
               | Inr _ \<Rightarrow> mk_condition StorageReady ConditionTrue ''StorageReady'' []) }))))"

definition storage_info :: "Milvus \<Rightarrow> StorageConditionInfo" where
  "storage_info mc =
     (let conf = Values_Data (ms_Conf (m_Spec mc)) in
      \<lparr>sci_Namespace = om_Namespace mc, sci_Bucket = GetMinioBucket conf, sci_Storage = dep_Storage (ms_Dep (m_Spec mc)),
       sci_UseSSL = GetMinioSecure conf, sci_UseIAM = GetMinioUseIAM conf,
       sci_IAMEndpoint = GetStringValueWithDefault conf [] [''minio'', ''iamEndpoint''],
       sci_StorageAccount = GetStringValueWithDefault conf [] [''minio'', ''accessKeyID''],
       sci_UseVirtualHost = ShouldUseVirtualHost conf\<rparr>)"

text \<open>etcd: every endpoint is asked, one healthy endpoint is enough.\<close>

fun backoff_loop :: "string \<Rightarrow> nat \<Rightarrow> ('w, unit) state \<Rightarrow> ('w, unit) op \<Rightarrow> go_error option \<Rightarrow> ('w, unit) op" where
  "backoff_loop msg 0 sleep fn err = (case err of None \<Rightarrow> ret () | Some e \<Rightarrow> fail (Wrap e msg))"
| "backoff_loop msg (Suc n) sleep fn err = do {
     res \<leftarrow> fn;
     (case res of Inr _ \<Rightarrow> ret () | Inl e \<Rightarrow> do { _ \<leftarrow> sleep; backoff_loop msg n sleep fn (Some e) }) }"

definition DoWithBackoff :: "string \<Rightarrow> nat \<Rightarrow> ('w, unit) state \<Rightarrow> ('w, unit) op \<Rightarrow> ('w, unit) op" where
  "DoWithBackoff name maxRetry sleep fn =
     backoff_loop (''dowithbackoff['' @ name @ ''] failed after '' @ itoa (int maxRetry) @ '' retries'') maxRetry sleep fn None"

definition alarm_message :: "string list \<Rightarrow> string" where
  "alarm_message alarms = foldl (\<lambda>errMsg v. errMsg @ errMsg @ v) ''Active Alarm(s): '' alarms"

definition check_etcd :: "'w Prober \<Rightarrow> EtcdAuthConfig \<Rightarrow> string \<Rightarrow> ('w, unit) op" where
  "check_etcd p auth ep =
     op_bind (op_wrap ''failed to create etcd client''
       (pb_etcdNew p ep (if ea_Enabled auth then Some (ea_Username auth, ea_Password auth) else None))) (\<lambda>_. do {
     res \<leftarrow> pb_etcdGet p ep;
     (case res of
        Inl e \<Rightarrow> if \<not> pb_isPermissionDenied p e then fail e else ret ()
      | Inr _ \<Rightarrow> ret ()) })"

definition check_etcd_alarms :: "'w Prober \<Rightarrow> string \<Rightarrow> ('w, unit) op" where
  "check_etcd_alarms p ep =
     op_bind (op_wrap ''Unable to fetch the alarm list'' (pb_etcdAlarmList p ep)) (\<lambda>alarms.
     if alarms = [] then ret () else fail (Errorf (alarm_message alarms)))"

definition endpoint_health :: "'w Prober \<Rightarrow> EtcdAuthConfig \<Rightarrow> string \<Rightarrow> ('w, unit) op" where
  "endpoint_health p auth ep =
     DoWithBackoff ''checkEtcd'' (pb_maxRetry p) (pb_Sleep p) (op_bind (check_etcd p auth ep) (\<lambda>_. check_etcd_alarms p ep))"

text \<open>The goroutines are independent; the map keeps the last answer for an endpoint.\<close>

fun GetEndpointsHealth :: "'w Prober \<Rightarrow> EtcdAuthConfig \<Rightarrow> string list \<Rightarrow> (string, string option) fmap \<Rightarrow> ('w, (string, string option) fmap) state" where
  "GetEndpointsHealth p auth [] health = State_Monad.return health"
| "GetEndpointsHealth p auth (ep # eps) health = do {
     res \<leftarrow> endpoint_health p auth ep;
     GetEndpointsHealth p auth eps (fmupd ep (case res of Inr _ \<Rightarrow> None | Inl e \<Rightarrow> Some (error_text e)) health) }"

definition ep_healthy :: "(string, string option) fmap \<Rightarrow> string \<Rightarrow> bool" where
  "ep_healthy health ep \<longleftrightarrow> fmlookup health ep = Some None"

definition etcd_condition :: "(string, string option) fmap \<Rightarrow> string list \<Rightarrow> MilvusCondition" where
  "etcd_condition health endpoints =
     (if list_ex (ep_healthy health) endpoints
      then mk_condition EtcdReady ConditionTrue ''EtcdReady'' ''Etcd endpoints is healthy''
      else mk_condition EtcdReady ConditionFalse ''EtcdNotReady'' (''All etcd endpoints are unhealthy:'' @
        concat (map (\<lambda>ep. ''['' @ ep @ '':'' @ (case fmlookup health ep of Some (Some msg) \<Rightarrow> msg | _ \<Rightarrow> []) @ '']'') endpoints)))"

definition GetEtcdCondition :: "'w Prober \<Rightarrow> EtcdAuthConfig \<Rightarrow> string list \<Rightarrow> ('w, MilvusCondition) op" where
  "GetEtcdCondition p auth endpoints = do {
     health \<leftarrow> GetEndpointsHealth p auth endpoints fmempty;
     ret (etcd_condition health endpoints) }"

text \<open>Plain TCP checks: every address has to answer, except for pulsar, where one is enough.\<close>

fun tcp_dial_condition :: "'w Prober \<Rightarrow> MilvusConditionType \<Rightarrow> string list \<Rightarrow> ('w, MilvusCondition) op" where
  "tcp_dial_condition p t [] = ret (mk_condition t ConditionTrue ''ConnectionOK'' [])"
| "tcp_dial_condition p t (addr # addrs) = do {
     res \<leftarrow> pb_netDial p addr;
     (case res of
        Inl e \<Rightarrow> ret (mk_condition t ConditionFalse ''ConnectionFailed'' (''connect '' @ addr @ '' failed: '' @ error_text e))
      | Inr _ \<Rightarrow> tcp_dial_condition p t addrs) }"

fun pulsar_dial :: "'w Prober \<Rightarrow> string list \<Rightarrow> string list \<Rightarrow> ('w, MilvusCondition) op" where
  "pulsar_dial p errMsgs [] = ret (newErrMsgStreamCondResult ''ConnectionFailed'' (join_with ''; '' errMsgs))"
| "pulsar_dial p errMsgs (ep # eps) = do {
     res \<leftarrow> pb_netDial p ep;
     (case res of
        Inr _ \<Rightarrow> ret (mk_condition MsgStreamReady ConditionTrue ''ConnectionOK'' [])
      | Inl e \<Rightarrow> pulsar_dial p (errMsgs @ [''connect '' @ ep @ '' failed: '' @ error_text e]) eps) }"

definition pulsar_condition :: "'w Prober \<Rightarrow> string list \<Rightarrow> ('w, MilvusCondition) op" where
  "pulsar_condition p endpoints =
     (if endpoints = [] then ret (newErrMsgStreamCondResult ''ConnectionFailed'' ''no pulsar endpoint configured'')
      else pulsar_dial p [] endpoints)"

definition wrapEtcdConditionGetter :: "'w Prober \<Rightarrow> Milvus \<Rightarrow> string list \<Rightarrow> ('w, MilvusCondition) op" where
  "wrapEtcdConditionGetter p mc endpoints =
     (let conf = Values_Data (ms_Conf (m_Spec mc)) in
      if fst (GetBoolValue conf [''etcd'', ''ssl'', ''enabled'']) then tcp_dial_condition p EtcdReady endpoints
      else GetEtcdCondition p \<lparr>ea_Enabled = fst (GetBoolValue conf [''etcd'', ''auth'', ''enabled'']),
             ea_Username = fst (GetStringValue conf [''etcd'', ''auth'', ''userName'']),
             ea_Password = fst (GetStringValue conf [''etcd'', ''auth'', ''password''])\<rparr> endpoints)"

definition GetKafkaCondition :: "'w Prober \<Rightarrow> Milvus \<Rightarrow> (string \<times> string \<times> string) option \<Rightarrow> ('w, MilvusCondition) op" where
  "GetKafkaCondition p mc creds = do {
     res \<leftarrow> pb_checkKafka p mc creds;
     ret (case res of Inl e \<Rightarrow> newErrMsgStreamCondResult ''MsgStreamNotReady'' (error_text e) | Inr _ \<Rightarrow> msgStreamReadyCondition) }"

text \<open>\<open>getKafkaSecret\<close>: user, password and the optional CA certificate.\<close>

definition getKafkaSecret :: "'w Reconciler \<Rightarrow> Milvus \<Rightarrow> ('w, string \<times> string \<times> string) op" where
  "getKafkaSecret r mc =
     (let ref = kaf_SecretRef (dep_Kafka (ms_Dep (m_Spec mc))); key = om_Namespace mc @ ''/'' @ ref in
      if ref = [] then ret ([], [], [])
      else op_bind (op_wrap (''get kafka sasl secret['' @ key @ '']'') (rc_GetSecret r (om_Namespace mc) ref)) (\<lambda>secret.
        (case find (\<lambda>required. fmget (sec_Data secret) required = []) [''username'', ''password''] of
           Some required \<Rightarrow> fail (Errorf (''kafka sasl secret['' @ key @ ''] has no ['' @ required @ ''] key''))
         | None \<Rightarrow> ret (fmget (sec_Data secret) ''username'', fmget (sec_Data secret) ''password'', fmget (sec_Data secret) ''ca.pem''))))"

text \<open>\<open>GetKafkaConfFromCR\<close>; the decoding itself is the YAML package's.\<close>

definition kafka_conf_error :: "'w Prober \<Rightarrow> Milvus \<Rightarrow> string option" where
  "kafka_conf_error p mc =
     (case snd (parseKafkaSecretRefs (rc_x (pb_r p)) mc) of
        Some e \<Rightarrow> Some e
      | None \<Rightarrow> (case fmlookup (Values_Data (ms_Conf (m_Spec mc))) ''kafka'' of
          None \<Rightarrow> None
        | Some (JObj data) \<Rightarrow> map_option (\<lambda>e. ''decode kafka config failed: '' @ error_text e) (pb_decodeKafka p data)
        | Some _ \<Rightarrow> Some ''kafka config must be an object''))"

definition unknown_msgstream :: "string \<Rightarrow> MilvusCondition" where
  "unknown_msgstream message = mk_condition MsgStreamReady ConditionUnknown [] message"

text \<open>A loop that ran out of fuel did not return: the error \<open>GoPanic\<close> marks it.\<close>

definition must_return :: "('w, 'a option) op \<Rightarrow> ('w, 'a) op" where
  "must_return m = op_bind m (\<lambda>v. lift_result (or_panic ''out of fuel'' v))"

definition syncer_GetEtcdCondition :: "nat \<Rightarrow> 'w Prober \<Rightarrow> Milvus \<Rightarrow> ('w, MilvusCondition) op" where
  "syncer_GetEtcdCondition fuel p mc =
     must_return (GetCondition fuel p (wrapEtcdConditionGetter p mc) (etcd_Endpoints (dep_Etcd (ms_Dep (m_Spec mc)))))"

definition syncer_GetMinioCondition :: "nat \<Rightarrow> 'w Prober \<Rightarrow> Milvus \<Rightarrow> ('w, MilvusCondition) op" where
  "syncer_GetMinioCondition fuel p mc =
     must_return (GetCondition fuel p (\<lambda>_. GetMinioCondition p (storage_info mc)) [st_Endpoint (dep_Storage (ms_Dep (m_Spec mc)))])"

definition syncer_GetMsgStreamCondition :: "nat \<Rightarrow> 'w Prober \<Rightarrow> Milvus \<Rightarrow> ('w, MilvusCondition) op" where
  "syncer_GetMsgStreamCondition fuel p mc =
     (let dep = ms_Dep (m_Spec mc) in
      case dep_MsgStreamType dep of
        MsgStreamTypePulsar \<Rightarrow> must_return (GetCondition fuel p (pulsar_condition p) (Pulsar_GetEndpoints (dep_Pulsar dep)))
      | MsgStreamTypeKafka \<Rightarrow>
          (case kafka_conf_error p mc of
             Some e \<Rightarrow> ret (unknown_msgstream e)
           | None \<Rightarrow> do {
               creds \<leftarrow> getKafkaSecret (pb_r p) mc;
               (case creds of
                  Inl e \<Rightarrow> ret (unknown_msgstream (error_text e))
                | Inr c \<Rightarrow> must_return (GetCondition fuel p
                    (\<lambda>_. GetKafkaCondition p mc (if kaf_SecretRef (dep_Kafka dep) = [] then None else Some c)) (kaf_BrokerList (dep_Kafka dep)))) })
      | MsgStreamTypeWoodPecker \<Rightarrow>
          if \<not> wp_External (dep_WoodPecker dep) then ret msgStreamReadyCondition
          else must_return (GetCondition fuel p (tcp_dial_condition p MsgStreamReady) (SeedEndpoints (dep_WoodPecker dep)))
      | _ \<Rightarrow> ret msgStreamReadyCondition)"

end
