(* ===== verification/Status.thy ===== *)
theory Status
  imports Probe Webhook
begin

text \<open>
  The status of an instance: which Deployment stands for a workload (conditions.go), why a component
  is not ready (error_detail.go, component_condition.go), the deploy status of components and groups,
  the health, and the syncer that writes them (status_cluster.go, groups.go, group_runner.go).  One
  reading of the clock is used for a pass; goroutines of one batch run in the order of their list.
\<close>

section \<open>The Deployment of a workload\<close>

definition UpdateDeploymentCondition :: "DeploymentCondition list \<Rightarrow> DeploymentCondition \<Rightarrow> DeploymentCondition list" where
  "UpdateDeploymentCondition conditions cond =
     (let ret' = map (\<lambda>c. if dc_Type c \<noteq> dc_Type cond then c else cond) conditions in
      if list_ex (\<lambda>c. dc_Type c = dc_Type cond) conditions then ret' else ret' @ [cond])"

definition rolling_condition :: "Milvus \<Rightarrow> string \<Rightarrow> DeploymentCondition" where
  "rolling_condition mc key = \<lparr>dc_Type = ''Progressing'', dc_Status = ConditionFalse, dc_LastUpdateTime = None,
     dc_LastTransitionTime = None, dc_Reason = ''Rolling'', dc_Message = ''rolling id '' @ GetComponentRollingId mc key\<rparr>"

definition mark_rolling :: "Milvus \<Rightarrow> string \<Rightarrow> Deployment \<Rightarrow> Deployment" where
  "mark_rolling mc key d =
     (if IsComponentRolling mc key
      then d\<lparr>d_Status := (d_Status d)\<lparr>dst_Conditions := UpdateDeploymentCondition (dst_Conditions (d_Status d)) (rolling_condition mc key)\<rparr>\<rparr>
      else d)"

definition serves_workload :: "externals \<Rightarrow> Milvus \<Rightarrow> MilvusComponent \<Rightarrow> Deployment \<Rightarrow> bool" where
  "serves_workload x mc w d \<longleftrightarrow>
     IsControlledBy d mc \<and> fmget (om_Labels d) AppLabelComponent = mcp_Name w \<and> MatchesDeploymentGroup w (om_Labels d) \<and>
     (GetCurrentGroupId mc (GetStateKey x w) = [] \<or> GetLabelGroupID (mcp_Name w) d = GetCurrentGroupId mc (GetStateKey x w))"

definition active_deployment :: "externals \<Rightarrow> Milvus \<Rightarrow> Deployment list \<Rightarrow> MilvusComponent \<Rightarrow> Deployment option" where
  "active_deployment x mc ds w = map_option (mark_rolling mc (GetStateKey x w)) (find (serves_workload x mc w) (sort_key om_Name ds))"

definition makeWorkloadDeploymentMap :: "externals \<Rightarrow> Milvus \<Rightarrow> Deployment list \<Rightarrow> (string, Deployment) fmap" where
  "makeWorkloadDeploymentMap x mc ds =
     fold (\<lambda>w m. case active_deployment x mc ds w of None \<Rightarrow> m | Some d \<Rightarrow> fmupd (GetStateKey x w) d m)
       (GetComponentWorkloadsBySpec x (m_Spec mc)) fmempty"

section \<open>Error details\<close>

definition DeploymentConditionNotSet :: DeploymentCondition where
  "DeploymentConditionNotSet = \<lparr>dc_Type = [], dc_Status = ConditionUnset, dc_LastUpdateTime = None, dc_LastTransitionTime = None,
     dc_Reason = [], dc_Message = []\<rparr>"

definition GetDeploymentConditionByType :: "DeploymentCondition list \<Rightarrow> string \<Rightarrow> DeploymentCondition" where
  "GetDeploymentConditionByType conditions t =
     (case find (\<lambda>c. dc_Type c = t) conditions of None \<Rightarrow> DeploymentConditionNotSet | Some c \<Rightarrow> c)"

definition creating_condition :: "string \<Rightarrow> DeploymentCondition" where
  "creating_condition t = \<lparr>dc_Type = t, dc_Status = ConditionFalse, dc_LastUpdateTime = None, dc_LastTransitionTime = None,
     dc_Reason = ''Initializing'', dc_Message = ''creating''\<rparr>"

fun first_false_condition :: "DeploymentCondition list \<Rightarrow> string list \<Rightarrow> DeploymentCondition option" where
  "first_false_condition conditions [] = None"
| "first_false_condition conditions (t # ts) =
     (let condition = GetDeploymentConditionByType conditions t in
      if condition = DeploymentConditionNotSet then Some (creating_condition t)
      else if dc_Status condition \<noteq> ConditionTrue then Some condition
      else first_false_condition conditions ts)"

definition GetDeploymentFalseCondition :: "Deployment \<Rightarrow> go_error + DeploymentCondition" where
  "GetDeploymentFalseCondition deploy =
     (let conditions = dst_Conditions (d_Status deploy);
          failure = GetDeploymentConditionByType conditions ''ReplicaFailure'' in
      if failure \<noteq> DeploymentConditionNotSet then Inr failure
      else (case first_false_condition conditions [''Progressing'', ''Available''] of
              Some c \<Rightarrow> Inr c
            | None \<Rightarrow> if dst_ReadyReplicas (d_Status deploy) < 1 then Inr (creating_condition ''Progressing'')
                       else Inl (Errorf ''all conditions are ok'')))"

fun first_false_pod_condition :: "PodCondition list \<Rightarrow> (string \<times> string) list \<Rightarrow> PodCondition option" where
  "first_false_pod_condition conditions [] = None"
| "first_false_pod_condition conditions ((t, progressing) # ts) =
     (let condition = GetPodConditionByType conditions t in
      if condition = PodConditionNotSet
      then Some \<lparr>pc_Type = t, pc_Status = ConditionFalse, pc_Reason = ''Initializing'', pc_Message = progressing\<rparr>
      else if pc_Status condition \<noteq> ConditionTrue then Some condition
      else first_false_pod_condition conditions ts)"

definition GetPodFalseCondition :: "Pod \<Rightarrow> go_error + PodCondition" where
  "GetPodFalseCondition pod =
     (case first_false_pod_condition (pod_Conditions pod)
        [(''PodScheduled'', ''scheduling''), (''Initialized'', ''initializing''), (''ContainersReady'', ''containers starting''),
         (''Ready'', ''updating condition to ready'')] of
        Some c \<Rightarrow> Inr c
      | None \<Rightarrow> Inl (Errorf ''all conditions are true''))"

definition state_with_reason :: "string \<Rightarrow> string \<times> string \<Rightarrow> string" where
  "state_with_reason kind rm = ''['' @ kind @ ''] reason['' @ fst rm @ '']'' @ (if snd rm \<noteq> [] then '': '' @ snd rm else [])"

definition getContainerStateReason :: "ContainerState \<Rightarrow> string" where
  "getContainerStateReason s =
     (case cse_Waiting s of
        Some rm \<Rightarrow> state_with_reason ''waiting'' rm
      | None \<Rightarrow> (case cse_Terminated s of
          Some rm \<Rightarrow> state_with_reason ''terminated'' rm
        | None \<Rightarrow> if cse_Running s then ''[running]'' else ''[unknown]''))"

definition GetContainerMessage :: "ContainerStatus \<Rightarrow> string" where
  "GetContainerMessage status =
     ''container['' @ cst_Name status @ '']:'' @
     (if cst_RestartCount status > 0
      then '' restartCount['' @ itoa (cst_RestartCount status) @ '']'' @ '' lastState'' @ getContainerStateReason (cst_LastTerminationState status)
      else '' currentState'' @ getContainerStateReason (cst_State status))"

definition getFirstNotReadyContainerStatus :: "ContainerStatus list \<Rightarrow> ContainerStatus option" where
  "getFirstNotReadyContainerStatus statuses = find (\<lambda>s. \<not> cst_Ready s) statuses"

record ComponentErrorDetail =
  ced_ComponentName :: string
  ced_WorkloadKind :: string
  ced_NotObserved :: bool
  ced_Deployment :: "DeploymentCondition option"
  ced_PodName :: string
  ced_Pod :: "PodCondition option"
  ced_Container :: "ContainerStatus option"

definition new_error_detail :: "string \<Rightarrow> string \<Rightarrow> ComponentErrorDetail" where
  "new_error_detail component kind = \<lparr>ced_ComponentName = component, ced_WorkloadKind = kind, ced_NotObserved = False,
     ced_Deployment = None, ced_PodName = [], ced_Pod = None, ced_Container = None\<rparr>"

fun status_text :: "ConditionStatus \<Rightarrow> string" where
  "status_text ConditionTrue = ''True''"
| "status_text ConditionFalse = ''False''"
| "status_text ConditionUnknown = ''Unknown''"
| "status_text ConditionUnset = []"

definition condition_text :: "string \<Rightarrow> ConditionStatus \<Rightarrow> string \<Rightarrow> string \<Rightarrow> string" where
  "condition_text t s reason message = ''status['' @ t @ '':'' @ status_text s @ '']: reason['' @ reason @ '']: '' @ message"

definition ComponentErrorDetail_String :: "ComponentErrorDetail \<Rightarrow> string" where
  "ComponentErrorDetail_String m =
     (let prefix = ''component['' @ ced_ComponentName m @ '']: '';
          workload = (if ced_WorkloadKind m = [] then ''deployment'' else ced_WorkloadKind m) in
      case ced_Pod m of
        Some pod \<Rightarrow> prefix @ ''pod['' @ ced_PodName m @ '']: '' @
          (case ced_Container m of
             Some c \<Rightarrow> GetContainerMessage c
           | None \<Rightarrow> condition_text (pc_Type pod) (pc_Status pod) (pc_Reason pod) (pc_Message pod))
      | None \<Rightarrow>
          if ced_NotObserved m then prefix @ ''updating '' @ workload
          else (case ced_Deployment m of
             None \<Rightarrow> prefix @ workload @ '' not created''
           | Some d \<Rightarrow> prefix @ ''deployment '' @ condition_text (dc_Type d) (dc_Status d) (dc_Reason d) (dc_Message d)))"

definition collectPodErrorDetail :: "'w Reconciler \<Rightarrow> ComponentErrorDetail \<Rightarrow> string \<Rightarrow> smap \<Rightarrow> ('w, ComponentErrorDetail) op" where
  "collectPodErrorDetail r detail ns selector =
     op_bind (op_wrap ''list pods'' (cli_ListPods (rc_cli r) ns selector)) (\<lambda>pods.
     (case find (\<lambda>pod. \<not> PodReady pod) pods of
        None \<Rightarrow> ret detail
      | Some pod \<Rightarrow>
          op_bind (lift_result (GetPodFalseCondition pod)) (\<lambda>podCondition.
          ret (detail\<lparr>ced_PodName := om_Name pod, ced_Pod := Some podCondition,
                      ced_Container := getFirstNotReadyContainerStatus (pod_ContainerStatuses pod)\<rparr>))))"

definition getComponentErrorDetail :: "'w Reconciler \<Rightarrow> string \<Rightarrow> Deployment option \<Rightarrow> ('w, ComponentErrorDetail) op" where
  "getComponentErrorDetail r component deploy =
     (let detail = new_error_detail component [] in
      case deploy of
        None \<Rightarrow> ret detail
      | Some d \<Rightarrow>
          if dst_ObservedGeneration (d_Status d) < om_Generation d then ret (detail\<lparr>ced_NotObserved := True\<rparr>)
          else op_bind (lift_result (GetDeploymentFalseCondition d)) (\<lambda>c.
               op_bind (lift_result (or_panic ''nil selector'' (d_Selector d))) (\<lambda>sel.
               collectPodErrorDetail r (detail\<lparr>ced_Deployment := Some c\<rparr>) (om_Namespace d) sel)))"

definition getStatefulSetErrorDetail :: "'w Reconciler \<Rightarrow> string \<Rightarrow> StatefulSet option \<Rightarrow> ('w, ComponentErrorDetail) op" where
  "getStatefulSetErrorDetail r component sts =
     (let detail = new_error_detail component ''statefulset'' in
      case sts of
        None \<Rightarrow> ret detail
      | Some s \<Rightarrow>
          if sss_ObservedGeneration (s_Status s) < om_Generation s then ret (detail\<lparr>ced_NotObserved := True\<rparr>)
          else (case s_Selector s of
                  None \<Rightarrow> ret detail
                | Some sel \<Rightarrow> collectPodErrorDetail r detail (om_Namespace s) sel))"

section \<open>The MilvusReady condition\<close>

record 'w Syncer =
  sy_p :: "'w Prober"
  sy_E :: webhook_env
  sy_now :: int
  sy_fuel :: nat
  sy_Debug :: bool
  sy_ListMilvus :: "('w, Milvus list) op"
  sy_GetIngressStatus :: "string \<Rightarrow> string \<Rightarrow> ('w, json) op"
  sy_Exec :: "Pod \<Rightarrow> ('w, unit) op"

definition sy_r :: "'w Syncer \<Rightarrow> 'w Reconciler" where "sy_r s = pb_r (sy_p s)"
definition sy_x :: "'w Syncer \<Rightarrow> externals" where "sy_x s = rc_x (sy_r s)"

text \<open>\<open>ExecKillIfTerminating\<close> tries every terminating pod and reports the last error.\<close>

fun exec_kill :: "'w Syncer \<Rightarrow> go_error option \<Rightarrow> Pod list \<Rightarrow> ('w, unit) op" where
  "exec_kill s acc [] = (case acc of None \<Rightarrow> ret () | Some e \<Rightarrow> fail (Wrap e ''failed to kill some milvus pod''))"
| "exec_kill s acc (pod # pods) =
     (if om_DeletionTimestamp pod = None then exec_kill s acc pods
      else do {
        res \<leftarrow> sy_Exec s pod;
        exec_kill s (case res of Inl e \<Rightarrow> Some e | Inr _ \<Rightarrow> acc) pods })"

definition ExecKillIfTerminating :: "'w Syncer \<Rightarrow> Pod list \<Rightarrow> ('w, unit) op" where
  "ExecKillIfTerminating s pods = exec_kill s None pods"

definition listMilvusPods :: "'w Syncer \<Rightarrow> Milvus \<Rightarrow> ('w, Pod list) op" where
  "listMilvusPods s mc = cli_ListPods (rc_cli (sy_r s)) (om_Namespace mc) (NewAppLabels (om_Name mc))"

definition ListMilvusTerminatingPods :: "'w Syncer \<Rightarrow> Milvus \<Rightarrow> ('w, Pod list) op" where
  "ListMilvusTerminatingPods s mc =
     op_bind (listMilvusPods s mc) (\<lambda>pods. ret (filter (\<lambda>pod. om_DeletionTimestamp pod \<noteq> None) pods))"

definition CheckMilvusStopped :: "'w Syncer \<Rightarrow> Milvus \<Rightarrow> ('w, bool) op" where
  "CheckMilvusStopped s mc =
     op_bind (listMilvusPods s mc) (\<lambda>pods.
     if pods \<noteq> [] then op_bind (ExecKillIfTerminating s pods) (\<lambda>_. ret False) else ret True)"

definition getStoppingCondition :: "'w Syncer \<Rightarrow> Milvus \<Rightarrow> ('w, MilvusCondition) op" where
  "getStoppingCondition s mc =
     op_bind (CheckMilvusStopped s mc) (\<lambda>stopped.
     ret (if stopped then mk_condition MilvusReady ConditionFalse ''MilvusStopped'' ''All Milvus components are stopped''
          else mk_condition MilvusReady ConditionFalse ''MilvusStopping'' ''All Milvus components are stopping''))"

definition instance_labels :: "Milvus \<Rightarrow> smap" where
  "instance_labels mc = fmap_of_list [(AppLabelInstance, om_Name mc), (AppLabelName, ''milvus'')]"

text \<open>The state of the loop: components that are not ready, the first detail, whether an entry serves.\<close>

type_synonym health_acc = "string list \<times> ComponentErrorDetail option \<times> bool"

definition add_not_ready :: "('w, ComponentErrorDetail) op \<Rightarrow> MilvusComponent \<Rightarrow> health_acc \<Rightarrow> ('w, health_acc) op" where
  "add_not_ready getDetail c acc =
     (case acc of (names, detail, entry) \<Rightarrow>
        (case detail of
           Some d \<Rightarrow> ret (names @ [GetDisplayName c], Some d, entry)
         | None \<Rightarrow> op_bind (op_wrap ''failed to get component err detail'' getDetail) (\<lambda>d.
             ret (names @ [GetDisplayName c], Some d, entry))))"

definition check_component :: "'w Syncer \<Rightarrow> Milvus \<Rightarrow> (string, Deployment) fmap \<Rightarrow> MilvusComponent \<Rightarrow> health_acc \<Rightarrow> ('w, health_acc) op" where
  "check_component s mc componentDeploy c acc =
     (if componentUsesStatefulSet mc c then
        op_bind (op_wrap (''get '' @ mcp_Name c @ '' statefulset'') (getStatefulSetForComponent (sy_r s) mc c)) (\<lambda>sts.
        if sts \<noteq> None \<and> DeploymentReady (cds_Status (synthesizeStatefulSetStatus (sy_now s) c sts)) then ret acc
        else add_not_ready (getStatefulSetErrorDetail (sy_r s) (GetDisplayName c) sts) c acc)
      else
        (let deployment = fmlookup componentDeploy (GetStateKey (sy_x s) c) in
         case deployment of
           Some d \<Rightarrow>
             if DeploymentReady (d_Status d)
             then ret (if IsService c \<and> dst_ReadyReplicas (d_Status d) > 0 then (fst acc, fst (snd acc), True) else acc)
             else add_not_ready (getComponentErrorDetail (sy_r s) (GetDisplayName c) deployment) c acc
         | None \<Rightarrow>
             if IsIdleClusterStandalone (m_Spec mc) c then ret acc
             else add_not_ready (getComponentErrorDetail (sy_r s) (GetDisplayName c) None) c acc))"

fun check_components :: "'w Syncer \<Rightarrow> Milvus \<Rightarrow> (string, Deployment) fmap \<Rightarrow> MilvusComponent list \<Rightarrow> health_acc \<Rightarrow> ('w, health_acc) op" where
  "check_components s mc m [] acc = ret acc"
| "check_components s mc m (c # cs) acc = op_bind (check_component s mc m c acc) (check_components s mc m cs)"

definition empty_condition :: MilvusCondition where
  "empty_condition = mk_condition CondTypeEmpty ConditionUnset [] []"

definition instance_condition :: "health_acc \<Rightarrow> MilvusCondition" where
  "instance_condition acc =
     (case acc of (names, detail, entry) \<Rightarrow>
        if names = [] then
          (if \<not> entry then empty_condition
           else mk_condition MilvusReady ConditionTrue ''ReasonMilvusHealthy'' ''All Milvus components are healthy'')
        else mk_condition MilvusReady ConditionFalse ''MilvusComponentNotHealthy''
          (''['' @ join_with '' '' names @ ''] not ready, detail: '' @
           (case detail of None \<Rightarrow> ''<nil>'' | Some d \<Rightarrow> ComponentErrorDetail_String d)))"

definition GetMilvusInstanceCondition :: "'w Syncer \<Rightarrow> Milvus \<Rightarrow> ('w, MilvusCondition) op" where
  "GetMilvusInstanceCondition s mc =
     op_bind (lift_result (or_panic ''is stopping'' (isMilvusStoppingForReconcile (sy_x s) mc))) (\<lambda>stopping.
     if stopping then getStoppingCondition s mc
     else op_bind (cli_ListDeployments (rc_cli (sy_r s)) (om_Namespace mc) (instance_labels mc)) (\<lambda>ds.
          op_bind (check_components s mc (makeWorkloadDeploymentMap (sy_x s) mc ds)
                     (GetComponentWorkloadsBySpec (sy_x s) (m_Spec mc)) ([], None, False)) (\<lambda>acc.
          ret (instance_condition acc))))"

section \<open>Deploy status\<close>

definition zero_ComponentDeployStatus :: ComponentDeployStatus where
  "zero_ComponentDeployStatus = \<lparr>cds_Generation = 0, cds_Image = [], cds_Status = zero_DeploymentStatus\<rparr>"

definition componentDeployStatus :: "MilvusComponent \<Rightarrow> Deployment option \<Rightarrow> ComponentDeployStatus" where
  "componentDeployStatus c deployment = (case deployment of
     None \<Rightarrow> zero_ComponentDeployStatus
   | Some d \<Rightarrow>
       \<lparr>cds_Generation = om_Generation d,
        cds_Image = (let cs = ps_Containers (pt_Spec (d_Template d)) in
          case GetContainerIndex cs (mcp_Name c) of None \<Rightarrow> [] | Some i \<Rightarrow> ct_Image (cs ! i)),
        cds_Status = d_Status d\<rparr>)"

definition sum_int32 :: "(ComponentDeployStatus \<Rightarrow> int) \<Rightarrow> ComponentDeployStatus list \<Rightarrow> int" where
  "sum_int32 f statuses = foldl (\<lambda>a s. to_int32 (a + f s)) 0 statuses"

definition aggregate_progressing :: "int \<Rightarrow> ComponentDeployStatus list \<Rightarrow> DeploymentCondition" where
  "aggregate_progressing now statuses =
     (let states = map GetState statuses;
          (status, reason) =
            (if list_all (\<lambda>st. st = DeploymentComplete) states then (ConditionTrue, NewReplicaSetAvailableReason)
             else if list_all (\<lambda>st. st = DeploymentComplete \<or> st = DeploymentPaused) states then (ConditionTrue, DeploymentPausedReason)
             else if list_ex (\<lambda>st. st = DeploymentFailed) states then (ConditionFalse, ''DeploymentGroupFailed'')
             else (ConditionTrue, ''DeploymentGroupsUpdating''))
      in \<lparr>dc_Type = ''Progressing'', dc_Status = status, dc_LastUpdateTime = Some now, dc_LastTransitionTime = Some now,
          dc_Reason = reason, dc_Message = []\<rparr>)"

definition aggregate_available :: "int \<Rightarrow> ComponentDeployStatus list \<Rightarrow> DeploymentCondition" where
  "aggregate_available now statuses = \<lparr>dc_Type = ''Available'',
     dc_Status = (if list_all (\<lambda>s. DeploymentReady (cds_Status s)) statuses then ConditionTrue else ConditionFalse),
     dc_LastUpdateTime = Some now, dc_LastTransitionTime = Some now, dc_Reason = ''DeploymentGroupsAggregated'', dc_Message = []\<rparr>"

definition aggregateComponentDeployStatuses :: "int \<Rightarrow> ComponentDeployStatus list \<Rightarrow> ComponentDeployStatus" where
  "aggregateComponentDeployStatuses now statuses =
     (case statuses of
        [] \<Rightarrow> zero_ComponentDeployStatus
      | first # _ \<Rightarrow>
          (let generation = foldl (\<lambda>g s. if cds_Generation s > g then cds_Generation s else g) 0 statuses in
           \<lparr>cds_Generation = generation,
            cds_Image = foldl (\<lambda>img s. if cds_Image s \<noteq> img then [] else img) (cds_Image first) statuses,
            cds_Status = \<lparr>dst_ObservedGeneration = generation,
              dst_Replicas = sum_int32 (dst_Replicas \<circ> cds_Status) statuses,
              dst_UpdatedReplicas = sum_int32 (dst_UpdatedReplicas \<circ> cds_Status) statuses,
              dst_ReadyReplicas = sum_int32 (dst_ReadyReplicas \<circ> cds_Status) statuses,
              dst_AvailableReplicas = sum_int32 (dst_AvailableReplicas \<circ> cds_Status) statuses,
              dst_UnavailableReplicas = sum_int32 (dst_UnavailableReplicas \<circ> cds_Status) statuses,
              dst_Conditions = [aggregate_progressing now statuses, aggregate_available now statuses]\<rparr>\<rparr>))"

text \<open>The maps \<open>Update\<close> builds: statuses of components, of groups, and the grouped statuses in order.\<close>

record status_maps =
  sm_components :: "(string, ComponentDeployStatus) fmap"
  sm_groups :: "(string, (string, ComponentDeployStatus) fmap) fmap"
  sm_grouped :: "(string, ComponentDeployStatus list) fmap"

definition add_group_status :: "MilvusComponent \<Rightarrow> ComponentDeployStatus \<Rightarrow> status_maps \<Rightarrow> status_maps" where
  "add_group_status w st m = m\<lparr>
     sm_groups := fmupd (mcp_Name w) (fmupd (GetDeploymentGroupName w) st
        (case fmlookup (sm_groups m) (mcp_Name w) of None \<Rightarrow> fmempty | Some g \<Rightarrow> g)) (sm_groups m),
     sm_grouped := fmupd (mcp_Name w) ((case fmlookup (sm_grouped m) (mcp_Name w) of None \<Rightarrow> [] | Some l \<Rightarrow> l) @ [st]) (sm_grouped m)\<rparr>"

definition add_component_status :: "MilvusComponent \<Rightarrow> ComponentDeployStatus \<Rightarrow> status_maps \<Rightarrow> status_maps" where
  "add_component_status w st m = m\<lparr>sm_components := fmupd (mcp_Name w) st (sm_components m)\<rparr>"

definition workload_status :: "'w Syncer \<Rightarrow> Milvus \<Rightarrow> (string, Deployment) fmap \<Rightarrow> MilvusComponent \<Rightarrow> status_maps \<Rightarrow> ('w, status_maps) op" where
  "workload_status s mc deployments w m =
     (if componentUsesStatefulSet mc w then
        op_bind (op_wrap (''get '' @ mcp_Name w @ '' statefulset'') (getStatefulSetForComponent (sy_r s) mc w)) (\<lambda>sts.
        (case sts of
           None \<Rightarrow> ret m
         | Some _ \<Rightarrow> (let st = synthesizeStatefulSetStatus (sy_now s) w sts in
             ret (if mcp_DeploymentGroup w = None then add_component_status w st m else add_group_status w st m))))
      else
        (let deployment = fmlookup deployments (GetStateKey (sy_x s) w); st = componentDeployStatus w deployment in
         ret (if mcp_DeploymentGroup w = None then (if deployment \<noteq> None then add_component_status w st m else m)
              else add_group_status w st m)))"

fun workload_statuses :: "'w Syncer \<Rightarrow> Milvus \<Rightarrow> (string, Deployment) fmap \<Rightarrow> MilvusComponent list \<Rightarrow> status_maps \<Rightarrow> ('w, status_maps) op" where
  "workload_statuses s mc ds [] m = ret m"
| "workload_statuses s mc ds (w # ws) m = op_bind (workload_status s mc ds w m) (workload_statuses s mc ds ws)"

definition deployStatusUpdater_Update :: "'w Syncer \<Rightarrow> Milvus \<Rightarrow> ('w, Milvus) op" where
  "deployStatusUpdater_Update s mc =
     op_bind (op_wrap ''list deployments failed'' (cli_ListDeployments (rc_cli (sy_r s)) (om_Namespace mc) (instance_labels mc))) (\<lambda>ds.
     op_bind (workload_statuses s mc (makeWorkloadDeploymentMap (sy_x s) mc ds) (GetComponentWorkloadsBySpec (sy_x s) (m_Spec mc))
                \<lparr>sm_components = fmempty, sm_groups = fmempty, sm_grouped = fmempty\<rparr>) (\<lambda>m.
     ret (mc\<lparr>m_Status := (m_Status mc)\<lparr>
       mst_ComponentsDeployStatus := sm_components m ++\<^sub>f fmmap (aggregateComponentDeployStatuses (sy_now s)) (sm_grouped m),
       mst_DeploymentGroupsDeployStatus := sm_groups m\<rparr>\<rparr>)))"

section \<open>Health and update conditions\<close>

record MilvusHealthStatusInfo =
  mh_LastState :: MilvusHealthStatus
  mh_IsStopping :: bool
  mh_IsHealthy :: bool

definition GetMilvusHealthStatus :: "MilvusHealthStatusInfo \<Rightarrow> MilvusHealthStatus" where
  "GetMilvusHealthStatus m =
     (if mh_IsStopping m then StatusStopped
      else if mh_IsHealthy m then StatusHealthy
      else if mh_LastState m = StatusHealthy \<or> mh_LastState m = StatusUnhealthy then StatusUnhealthy
      else StatusPending)"

definition status_of_workload :: "Milvus \<Rightarrow> MilvusComponent \<Rightarrow> ComponentDeployStatus" where
  "status_of_workload m w =
     (let found = (if mcp_DeploymentGroup w = None then fmlookup (mst_ComponentsDeployStatus (m_Status m)) (mcp_Name w)
                   else Option.bind (fmlookup (mst_DeploymentGroupsDeployStatus (m_Status m)) (mcp_Name w))
                          (\<lambda>g. fmlookup g (GetDeploymentGroupName w)))
      in case found of None \<Rightarrow> zero_ComponentDeployStatus | Some st \<Rightarrow> st)"

definition workload_is_updating :: "externals \<Rightarrow> Milvus \<Rightarrow> MilvusComponent \<Rightarrow> bool" where
  "workload_is_updating x m w \<longleftrightarrow>
     (let st = GetState (status_of_workload m w) in
      (st \<noteq> DeploymentComplete \<and> st \<noteq> DeploymentPaused) \<or> IsComponentRolling m (GetStateKey x w))"

definition GetMilvusUpdatedCondition :: "externals \<Rightarrow> Milvus \<Rightarrow> MilvusCondition" where
  "GetMilvusUpdatedCondition x m =
     (let workloads = filter (\<lambda>w. \<not> IsIdleClusterStandalone (m_Spec m) w) (GetComponentWorkloadsBySpec x (m_Spec m));
          updating = map GetDisplayName (filter (workload_is_updating x m) workloads);
          isUpdatingImage = (IsRollingUpdateEnabled m \<and>
            list_ex (\<lambda>w. cds_Image (status_of_workload m w) \<noteq> cs_Image (ms_Com (m_Spec m))) workloads);
          mode = com_ImageUpdateMode (ms_Com (m_Spec m))
      in if isUpdatingImage \<and> mode = ImageUpdateModeRollingUpgrade
         then mk_condition MilvusUpdated ConditionFalse ''MilvusUpgradingImage''
                (''Milvus is performing rolling upgrade pending components['' @ join_with '','' updating @ '']'')
         else if isUpdatingImage \<and> mode = ImageUpdateModeRollingDowngrade
         then mk_condition MilvusUpdated ConditionFalse ''MilvusDowngradingImage''
                (''{Milvus is performing rolling downgrade, pending components['' @ join_with '','' updating @ '']}'')
         else if updating \<noteq> []
         then mk_condition MilvusUpdated ConditionFalse ''MilvusComponentsUpdating''
                (''Milvus components['' @ join_with '','' updating @ ''] are updating'')
         else mk_condition MilvusUpdated ConditionTrue ''MilvusComponentsUpdated'' ''Milvus components are all updated'')"

definition handleTerminatingPods :: "'w Syncer \<Rightarrow> Milvus \<Rightarrow> MilvusCondition \<Rightarrow> ('w, MilvusCondition) op" where
  "handleTerminatingPods s mc updatedCond =
     op_bind (ListMilvusTerminatingPods s mc) (\<lambda>pods.
     if pods = [] then ret updatedCond
     else (let cond = updatedCond\<lparr>mcd_Status := ConditionFalse, mcd_Reason := ''MilvusComponentsUpdating'',
                          mcd_Message := ''Milvus has terminating pods''\<rparr> in
           if com_ImageUpdateMode (ms_Com (m_Spec mc)) = ImageUpdateModeForce
           then do { _ \<leftarrow> ExecKillIfTerminating s pods; ret cond }
           else ret cond))"

definition syncUpdatedCondition :: "'w Syncer \<Rightarrow> Milvus \<Rightarrow> ('w, Milvus) op" where
  "syncUpdatedCondition s mc =
     op_bind (handleTerminatingPods s mc (GetMilvusUpdatedCondition (sy_x s) mc)) (\<lambda>cond.
     ret (mc\<lparr>m_Status := UpdateCondition (sy_now s) cond (m_Status mc)\<rparr>))"

definition getIngressStatus :: "'w Syncer \<Rightarrow> string \<Rightarrow> string \<Rightarrow> ('w, json) op" where
  "getIngressStatus s ns name =
     op_bind (get_if_exists (sy_GetIngressStatus s ns name)) (\<lambda>found. ret (case found of None \<Rightarrow> JObj fmempty | Some st \<Rightarrow> st))"

definition UpdateIngressStatus :: "'w Syncer \<Rightarrow> Milvus \<Rightarrow> ('w, Milvus) op" where
  "UpdateIngressStatus s mc =
     op_bind (lift_result (or_panic ''nil component'' (GetServiceComponent (m_Spec mc)))) (\<lambda>sv.
     if sv_Ingress sv = None then ret mc
     else op_bind (op_wrap ''get ingress status failed'' (getIngressStatus s (om_Namespace mc) (om_Name mc @ ''-milvus''))) (\<lambda>st.
          ret (mc\<lparr>m_Status := (m_Status mc)\<lparr>mst_IngressStatus := st\<rparr>\<rparr>)))"

definition GetMilvusEndpoint :: "'w Syncer \<Rightarrow> Milvus \<Rightarrow> ('w, string) op" where
  "GetMilvusEndpoint s mc =
     op_bind (lift_result (or_panic ''nil component'' (GetServiceComponent (m_Spec mc)))) (\<lambda>sv.
     if sv_ServiceType sv = ''LoadBalancer'' then do {
       res \<leftarrow> rc_GetService (sy_r s) (om_Namespace mc) (GetServiceInstanceName (om_Name mc));
       ret (case res of
         Inl e \<Rightarrow> []
       | Inr svc \<Rightarrow> (case svc_LoadBalancerIngress svc of [] \<Rightarrow> [] | ip # _ \<Rightarrow> ip @ '':'' @ itoa 19530)) }
     else if sv_ServiceType sv = ''ClusterIP'' then ret (om_Name mc @ ''-milvus.'' @ om_Namespace mc @ '':'' @ itoa 19530)
     else ret [])"

section \<open>One pass over an instance\<close>

fun probe_results :: "('w, MilvusCondition) op list \<Rightarrow> ('w, (go_error + MilvusCondition) list) state" where
  "probe_results [] = State_Monad.return []"
| "probe_results (f # fs) = do { r \<leftarrow> f; rs \<leftarrow> probe_results fs; State_Monad.return (r # rs) }"

definition apply_conditions :: "int \<Rightarrow> (go_error + MilvusCondition) list \<Rightarrow> MilvusStatus \<Rightarrow> MilvusStatus" where
  "apply_conditions now ress status = fold (\<lambda>res st. case res of Inl _ \<Rightarrow> st | Inr c \<Rightarrow> UpdateCondition now c st) ress status"

definition checkDependencyConditions :: "'w Syncer \<Rightarrow> Milvus \<Rightarrow> ('w, Milvus) op" where
  "checkDependencyConditions s mc =
     op_bind (lift_result (or_panic ''is stopping'' (isMilvusStoppingForReconcile (sy_x s) mc))) (\<lambda>stopping.
     if \<not> stopping then do {
       ress \<leftarrow> probe_results [syncer_GetEtcdCondition (sy_fuel s) (sy_p s) mc, syncer_GetMinioCondition (sy_fuel s) (sy_p s) mc,
                 syncer_GetMsgStreamCondition (sy_fuel s) (sy_p s) mc];
       (case List.map_filter (\<lambda>res. case res of Inl e \<Rightarrow> Some (error_text e) | Inr _ \<Rightarrow> None) ress of
          [] \<Rightarrow> ret (mc\<lparr>m_Status := apply_conditions (sy_now s) ress (m_Status mc)\<rparr>)
        | texts \<Rightarrow> fail (Errorf (''check dependency conditions error: '' @ join_with '':'' texts))) }
     else ret (mc\<lparr>m_Status := RemoveConditions [EtcdReady, StorageReady, MsgStreamReady] (m_Status mc)\<rparr>))"

definition IsMilvusConditionTrueByType :: "MilvusCondition list \<Rightarrow> MilvusConditionType \<Rightarrow> bool" where
  "IsMilvusConditionTrueByType conditions t \<longleftrightarrow>
     (case find (\<lambda>c. mcd_Type c = t) conditions of None \<Rightarrow> False | Some c \<Rightarrow> mcd_Status c = ConditionTrue)"

definition record_current_version :: "Milvus \<Rightarrow> Milvus" where
  "record_current_version mc =
     (if IsMilvusConditionTrueByType (mst_Conditions (m_Status mc)) MilvusReady \<and>
         IsMilvusConditionTrueByType (mst_Conditions (m_Status mc)) MilvusUpdated
      then mc\<lparr>m_Status := (m_Status mc)\<lparr>mst_CurrentImage := cs_Image (ms_Com (m_Spec mc)),
                                       mst_CurrentVersion := cs_Version (ms_Com (m_Spec mc))\<rparr>\<rparr>
      else mc)"

definition finish_status :: "'w Syncer \<Rightarrow> MilvusStatus \<Rightarrow> MilvusCondition \<Rightarrow> Milvus \<Rightarrow> ('w, Milvus) op" where
  "finish_status s beginStatus milvusCond mc0 =
     (let mc = record_current_version mc0 in
      op_bind (lift_result (or_panic ''is stopping'' (isMilvusStoppingForReconcile (sy_x s) mc))) (\<lambda>stopping.
      (let mc = mc\<lparr>m_Status := (m_Status mc)\<lparr>mst_Status := GetMilvusHealthStatus \<lparr>mh_LastState = mst_Status (m_Status mc),
                    mh_IsStopping = stopping, mh_IsHealthy = (mcd_Status milvusCond = ConditionTrue)\<rparr>\<rparr>\<rparr>
       in if m_Status mc = beginStatus then ret mc
          else op_bind (cli_UpdateMilvusStatus (rc_cli (sy_r s)) mc) (\<lambda>_. ret mc))))"

definition UpdateStatusForNewGeneration :: "'w Syncer \<Rightarrow> Milvus \<Rightarrow> bool \<Rightarrow> ('w, Milvus) op" where
  "UpdateStatusForNewGeneration s mc0 checkDependency =
     (let mc = mc0\<lparr>m_Status := (m_Status mc0)\<lparr>mst_ObservedGeneration := om_Generation mc0\<rparr>\<rparr> in
      op_bind (if checkDependency \<and> \<not> sy_Debug s
               then op_wrap ''check dependency conditions failed'' (checkDependencyConditions s mc) else ret mc) (\<lambda>mc.
      op_bind (op_wrap ''update ingress status failed'' (UpdateIngressStatus s mc)) (\<lambda>mc.
      op_bind (op_wrap ''update deploy status failed'' (deployStatusUpdater_Update s mc)) (\<lambda>mc.
      op_bind (GetMilvusEndpoint s mc) (\<lambda>endpoint.
      (let mc = mc\<lparr>m_Status := (m_Status mc)\<lparr>mst_Endpoint := endpoint\<rparr>\<rparr> in
       op_bind (GetMilvusInstanceCondition s mc) (\<lambda>milvusCond.
       (let mc = mc\<lparr>m_Status := UpdateCondition (sy_now s) milvusCond (m_Status mc)\<rparr> in
        op_bind (op_wrap ''handle terminating pods failed'' (syncUpdatedCondition s mc)) (\<lambda>mc.
        finish_status s (m_Status mc0) milvusCond mc)))))))))"

definition IsSetDefaultDone :: "Milvus \<Rightarrow> bool" where
  "IsSetDefaultDone mc \<longleftrightarrow> mst_Status (m_Status mc) \<noteq> StatusUnset"

definition UpdateStatusRoutine :: "'w Syncer \<Rightarrow> Milvus \<Rightarrow> ('w, unit) op" where
  "UpdateStatusRoutine s mc =
     (if \<not> IsSetDefaultDone mc then ret ()
      else if mst_ObservedGeneration (m_Status mc) < om_Generation mc then ret ()
      else op_bind (lift_result (or_panic ''default'' (Milvus_Default (sy_E s) mc))) (\<lambda>mc.
           op_bind (op_wrap (''UpdateStatus for milvus['' @ om_Namespace mc @ ''/'' @ om_Name mc @ '']'')
             (UpdateStatusForNewGeneration s mc True)) (\<lambda>_. ret ())))"

section \<open>The periodic syncer\<close>

text \<open>\<open>Group.Wait\<close>: a requeue wins, otherwise the texts are joined.\<close>

definition Group_Wait :: "go_error list \<Rightarrow> go_error + unit" where
  "Group_Wait errs =
     (case find is_requeue errs of
        Some e \<Rightarrow> Inl e
      | None \<Rightarrow> if errs = [] then Inr () else Inl (Errorf (''groups error: '' @ join_with '';'' (map error_text errs))))"

definition RunDiffArgs :: "(Milvus \<Rightarrow> ('w, unit) op) \<Rightarrow> Milvus list \<Rightarrow> ('w, unit) op" where
  "RunDiffArgs f argsArray =
     (if argsArray = [] then ret ()
      else do { errs \<leftarrow> collect_errors f argsArray; lift_result (wrap ''run group'' (Group_Wait errs)) })"

definition GroupRunner_Run :: "('a \<Rightarrow> ('w, unit) op) list \<Rightarrow> 'a \<Rightarrow> ('w, unit) op" where
  "GroupRunner_Run funcs arg =
     (if funcs = [] then ret ()
      else do { errs \<leftarrow> collect_errors (\<lambda>f. f arg) funcs; lift_result (wrap ''run group failed'' (Group_Wait errs)) })"

definition MaxConcurrentHealthCheck :: nat where "MaxConcurrentHealthCheck = 10"

text \<open>The instances are handled in batches; the last error is reported.\<close>

fun run_batches :: "(Milvus \<Rightarrow> ('w, unit) op) \<Rightarrow> go_error option \<Rightarrow> Milvus list \<Rightarrow> Milvus list \<Rightarrow> ('w, go_error option) state" where
  "run_batches f acc batch [] = do {
     res \<leftarrow> RunDiffArgs f batch;
     State_Monad.return (case res of Inl e \<Rightarrow> Some e | Inr _ \<Rightarrow> acc) }"
| "run_batches f acc batch (mc # mcs) =
     (let batch' = batch @ [mc] in
      if length batch' \<ge> MaxConcurrentHealthCheck then do {
        res \<leftarrow> RunDiffArgs f batch';
        run_batches f (case res of Inl e \<Rightarrow> Some e | Inr _ \<Rightarrow> acc) [] mcs }
      else run_batches f acc batch' mcs)"

definition sync_selected :: "'w Syncer \<Rightarrow> (Milvus \<Rightarrow> bool) \<Rightarrow> ('w, unit) op" where
  "sync_selected s selects =
     op_bind (op_wrap ''list milvus failed'' (sy_ListMilvus s)) (\<lambda>mcs. do {
       err \<leftarrow> run_batches (UpdateStatusRoutine s) None [] (filter selects mcs);
       (case err of None \<Rightarrow> ret () | Some e \<Rightarrow> fail (Wrap e ''UpdateStatus failed'')) })"

definition healthy_and_updated :: "Milvus \<Rightarrow> bool" where
  "healthy_and_updated mc \<longleftrightarrow>
     mst_Status (m_Status mc) = StatusHealthy \<and> IsMilvusConditionTrueByType (mst_Conditions (m_Status mc)) MilvusUpdated"

definition syncUnealthyOrUpdating :: "'w Syncer \<Rightarrow> ('w, unit) op" where
  "syncUnealthyOrUpdating s = sync_selected s (\<lambda>mc.
     \<not> (mst_Status (m_Status mc) = StatusUnset \<or> healthy_and_updated mc \<or> om_DeletionTimestamp mc \<noteq> None))"

definition syncHealthyUpdated :: "'w Syncer \<Rightarrow> ('w, unit) op" where
  "syncHealthyUpdated s = sync_selected s (\<lambda>mc. \<not> (om_DeletionTimestamp mc \<noteq> None \<or> \<not> healthy_and_updated mc))"

definition updateMetrics_counts :: "Milvus list \<Rightarrow> int \<times> int \<times> int \<times> int" where
  "updateMetrics_counts mcs = foldl (\<lambda>(h, u, d, c) mc.
     (case mst_Status (m_Status mc) of
        StatusHealthy \<Rightarrow> (h + 1, u, d, c) | StatusUnhealthy \<Rightarrow> (h, u + 1, d, c) | StatusDeleting \<Rightarrow> (h, u, d + 1, c)
      | _ \<Rightarrow> (h, u, d, c + 1))) (0, 0, 0, 0) mcs"

section \<open>Default status\<close>

definition SetDefaultStatus :: "'w Reconciler \<Rightarrow> Milvus \<Rightarrow> ('w, Milvus) op" where
  "SetDefaultStatus r mc =
     (let com = ms_Com (m_Spec mc); at = om_Namespace mc @ ''/'' @ om_Name mc in
      if mst_Status (m_Status mc) = StatusUnset then
        (let mc = mc\<lparr>m_Status := (m_Status mc)\<lparr>mst_Status := StatusPending, mst_RollingMode := com_RollingMode com,
                      mst_CurrentImage := cs_Image com, mst_CurrentVersion := cs_Version com\<rparr>\<rparr>
         in op_bind (op_wrap (''set mc default status['' @ at @ ''] failed'') (cli_UpdateMilvusStatus (rc_cli r) mc)) (\<lambda>_. ret mc))
      else if mst_CurrentImage (m_Status mc) = [] then
        (let mc = mc\<lparr>m_Status := (m_Status mc)\<lparr>mst_CurrentImage := cs_Image com, mst_CurrentVersion := cs_Version com\<rparr>\<rparr>
         in op_bind (op_wrap (''set mc current image and version['' @ at @ ''] failed'') (cli_UpdateMilvusStatus (rc_cli r) mc)) (\<lambda>_. ret mc))
      else ret mc)"

end
