(* ===== verification/Workload_Store.thy ===== *)
theory Workload_Store
  imports Status Mem_Store
begin

text \<open>
  What the workload code relies on from the API server, beyond \<open>deploy_store\<close>: reads return what is
  stored and change nothing, a delete removes one object and an update replaces one, or it fails with
  or without effect, and operations on one kind leave the others alone.  The in-memory server of
  \<open>Mem_Store\<close>, extended by StatefulSets, services and volume claims, is an interpretation.
\<close>

section \<open>The contract\<close>

definition named :: "string \<Rightarrow> string \<Rightarrow> 'a ObjectMeta_scheme \<Rightarrow> bool" where
  "named ns name ob \<longleftrightarrow> om_Namespace ob = ns \<and> om_Name ob = name"

definition read_object :: "string \<Rightarrow> string \<Rightarrow> 'a ObjectMeta_scheme list \<Rightarrow> go_error + 'a ObjectMeta_scheme \<Rightarrow> bool" where
  "read_object ns name obs rg \<longleftrightarrow>
     (case rg of Inr ob \<Rightarrow> find_object ns name obs = Some ob | Inl e \<Rightarrow> IsNotFound e \<longrightarrow> find_object ns name obs = None)"

definition removed :: "'a ObjectMeta_scheme \<Rightarrow> 'a ObjectMeta_scheme list \<Rightarrow> 'a ObjectMeta_scheme list \<Rightarrow> go_error + unit \<Rightarrow> bool" where
  "removed ob obs obs' rd \<longleftrightarrow>
     obs' = store_remove ob obs \<or>
     (\<exists>e. rd = Inl e \<and> obs' = obs \<and> (IsNotFound e \<longrightarrow> find_object (om_Namespace ob) (om_Name ob) obs = None))"

locale workload_store = deploy_store "rc_cli r" deps pods milvus
  for r :: "'w Reconciler" and deps :: "'w \<Rightarrow> Deployment list" and pods :: "'w \<Rightarrow> Pod list" and milvus :: "'w \<Rightarrow> Milvus" +
  fixes stss :: "'w \<Rightarrow> StatefulSet list" and pvcs :: "'w \<Rightarrow> K8sVolumeClaim list"
  assumes get_deployment:
      "run_state (cli_GetDeployment (rc_cli r) ns name) w = (rg, w') \<Longrightarrow> w' = w \<and> read_object ns name (deps w) rg"
    and delete_deployment:
      "run_state (cli_DeleteDeployment (rc_cli r) d orphan) w = (rd, w') \<Longrightarrow>
         removed d (deps w) (deps w') rd \<and> milvus w' = milvus w \<and> pvcs w' = pvcs w \<and> stss w' = stss w"
    and get_statefulset:
      "run_state (rc_GetStatefulSet r ns name) w = (rs, w') \<Longrightarrow> w' = w \<and> read_object ns name (stss w) rs"
    and delete_statefulset:
      "run_state (rc_DeleteStatefulSet r sts) w = (rd, w') \<Longrightarrow> deps w' = deps w \<and> milvus w' = milvus w \<and> pvcs w' = pvcs w"
    and get_service: "run_state (rc_GetService r ns name) w = (rv, w') \<Longrightarrow> w' = w"
    and delete_service:
      "run_state (rc_DeleteService r svc) w = (rd, w') \<Longrightarrow> deps w' = deps w \<and> milvus w' = milvus w \<and> pvcs w' = pvcs w \<and> stss w' = stss w"
    and list_pvcs:
      "run_state (rc_ListPVCs r ns sel) w = (rl, w') \<Longrightarrow> w' = w \<and> (\<forall>ps. rl = Inr ps \<longrightarrow> ps = selected ns sel (pvcs w))"
    and delete_pvc:
      "run_state (rc_DeletePVC r pvc) w = (rd, w') \<Longrightarrow>
         removed pvc (pvcs w) (pvcs w') rd \<and> deps w' = deps w \<and> milvus w' = milvus w \<and> stss w' = stss w"
    and update_pvc:
      "run_state (rc_UpdatePVC r pvc) w = (rd, w') \<Longrightarrow>
         applied_or_lost rd (pvcs w' = pvcs w) (pvcs w' = store_replace pvc (pvcs w)) \<and> deps w' = deps w \<and> milvus w' = milvus w \<and> stss w' = stss w"
    and read_storage_class: "run_state (rc_GetStorageClass r name) w = (rsc, w') \<Longrightarrow> w' = w"
    and read_storage_classes: "run_state (rc_ListStorageClasses r) w = (rscs, w') \<Longrightarrow> w' = w"
    and record_event: "rc_record r = Some f \<Longrightarrow> run_state (f ty reason args) w = (re, w') \<Longrightarrow> w' = w"
begin

lemma wp_GetStatefulSet:
  assumes "\<And>rs. read_object ns name (stss w) rs \<Longrightarrow> Q rs w"
  shows "wp (rc_GetStatefulSet r ns name) w Q"
  by (rule wpI) (use get_statefulset assms in blast)

lemma wp_GetDeployment:
  assumes "\<And>rg. read_object ns name (deps w) rg \<Longrightarrow> Q rg w"
  shows "wp (cli_GetDeployment (rc_cli r) ns name) w Q"
  by (rule wpI) (use get_deployment assms in blast)

lemma wp_DeleteDeployment:
  assumes "\<And>rd w'. removed d (deps w) (deps w') rd \<Longrightarrow> milvus w' = milvus w \<Longrightarrow> pvcs w' = pvcs w \<Longrightarrow> stss w' = stss w \<Longrightarrow> Q rd w'"
  shows "wp (cli_DeleteDeployment (rc_cli r) d orphan) w Q"
  by (rule wpI) (use delete_deployment assms in blast)

lemma wp_DeleteStatefulSet:
  assumes "\<And>rd w'. deps w' = deps w \<Longrightarrow> milvus w' = milvus w \<Longrightarrow> pvcs w' = pvcs w \<Longrightarrow> Q rd w'"
  shows "wp (rc_DeleteStatefulSet r sts) w Q"
  by (rule wpI) (use delete_statefulset assms in blast)

lemma wp_GetService:
  assumes "\<And>rv. Q rv w"
  shows "wp (rc_GetService r ns name) w Q"
  by (rule wpI) (use get_service assms in blast)

lemma wp_DeleteService:
  assumes "\<And>rd w'. deps w' = deps w \<Longrightarrow> milvus w' = milvus w \<Longrightarrow> pvcs w' = pvcs w \<Longrightarrow> stss w' = stss w \<Longrightarrow> Q rd w'"
  shows "wp (rc_DeleteService r svc) w Q"
  by (rule wpI) (use delete_service assms in blast)

lemma wp_ListPVCs:
  assumes "Q (Inr (selected ns sel (pvcs w))) w" "\<And>e. Q (Inl e) w"
  shows "wp (rc_ListPVCs r ns sel) w Q"
proof (rule wpI)
  fix rl w' assume "run_state (rc_ListPVCs r ns sel) w = (rl, w')"
  with list_pvcs [OF this] assms show "Q rl w'" by (cases rl) auto
qed

lemma wp_DeletePVC:
  assumes "\<And>rd w'. removed pvc (pvcs w) (pvcs w') rd \<Longrightarrow> deps w' = deps w \<Longrightarrow> milvus w' = milvus w \<Longrightarrow> stss w' = stss w \<Longrightarrow> Q rd w'"
  shows "wp (rc_DeletePVC r pvc) w Q"
  by (rule wpI) (use delete_pvc assms in blast)

lemma wp_UpdatePVC:
  assumes "\<And>e w'. pvcs w' = pvcs w \<Longrightarrow> Q (Inl e) w'"
    and "\<And>rd w'. pvcs w' = store_replace pvc (pvcs w) \<Longrightarrow> Q rd w'"
  shows "wp (rc_UpdatePVC r pvc) w Q"
proof (rule wpI)
  fix rd w' assume "run_state (rc_UpdatePVC r pvc) w = (rd, w')"
  with update_pvc [OF this] assms show "Q rd w'"
    by (cases rd) (auto simp: applied_or_lost_def)
qed

lemma wp_read_class:
  assumes "\<And>rsc. Q rsc w"
  shows "wp (rc_GetStorageClass r name) w Q"
  by (rule wpI) (use read_storage_class assms in blast)

lemma wp_read_classes:
  assumes "\<And>rsc. Q rsc w"
  shows "wp (rc_ListStorageClasses r) w Q"
  by (rule wpI) (use read_storage_classes assms in blast)

lemma wp_eventf:
  assumes "Q (Inr ()) w"
  shows "wp (eventf r ty reason args) w Q"
proof (cases "rc_record r")
  case (Some f)
  have "wp (f ty reason args) w (\<lambda>_ w'. Q (Inr ()) w')"
    by (rule wpI) (use record_event [OF Some] assms in blast)
  then show ?thesis by (simp add: eventf_def Some)
qed (simp add: eventf_def assms)

lemmas wp_rules = wp_ListDeployments wp_ListPods wp_GetStatefulSet wp_GetDeployment wp_DeleteDeployment wp_DeleteStatefulSet
  wp_GetService wp_DeleteService wp_ListPVCs wp_DeletePVC wp_UpdatePVC wp_read_class wp_read_classes wp_eventf

end

section \<open>Combinators\<close>

lemma wp_get_if_exists:
  "wp (get_if_exists m) w Q = wp m w (\<lambda>res w'. case res of Inr a \<Rightarrow> Q (Inr (Some a)) w' | Inl e \<Rightarrow> if IsNotFound e then Q (Inr None) w' else Q (Inl e) w')"
  by (simp add: get_if_exists_def wp_def split: prod.splits sum.splits)

lemma wp_IgnoreNotFound:
  "wp (IgnoreNotFound msg m) w Q = wp m w (\<lambda>res w'. case res of Inr _ \<Rightarrow> Q (Inr ()) w' | Inl e \<Rightarrow> if IsNotFound e then Q (Inr ()) w' else Q (Inl (Wrap e msg)) w')"
  by (simp add: IgnoreNotFound_def wp_def split: prod.splits sum.splits)

text \<open>A loop keeps what every step keeps, and after a successful loop every step has had its effect,
  when later steps do not undo it.\<close>

lemma wp_for_each:
  assumes "I w"
    and "\<And>a v. a \<in> set as \<Longrightarrow> I v \<Longrightarrow> wp (f a) v (\<lambda>res v'. I v' \<and> (res = Inr () \<longrightarrow> E a v'))"
    and "\<And>a b v. a \<in> set as \<Longrightarrow> b \<in> set as \<Longrightarrow> I v \<Longrightarrow> E a v \<Longrightarrow> wp (f b) v (\<lambda>res v'. E a v')"
  shows "wp (for_each f as) w (\<lambda>res v. I v \<and> (res = Inr () \<longrightarrow> (\<forall>a \<in> set as. E a v)))"
proof -
  have "wp (for_each f bs) v (\<lambda>res v'. I v' \<and> (res = Inr () \<longrightarrow> (\<forall>a \<in> D \<union> set bs. E a v')))"
    if "I v" "set bs \<subseteq> set as" "D \<subseteq> set as" "\<forall>a \<in> D. E a v" for bs v D
    using that
  proof (induction bs arbitrary: v D)
    case (Cons b bs)
    have keep: "wp (f b) v (\<lambda>res v'. (\<forall>a \<in> D. E a v') \<and> I v' \<and> (res = Inr () \<longrightarrow> E b v'))"
    proof (rule wpI)
      fix res v' assume run: "run_state (f b) v = (res, v')"
      have b: "b \<in> set as" using Cons.prems by simp
      show "(\<forall>a \<in> D. E a v') \<and> I v' \<and> (res = Inr () \<longrightarrow> E b v')"
        using wpD [OF assms(2) [OF b Cons.prems(1)] run] wpD [OF assms(3) [OF _ b Cons.prems(1)] run] Cons.prems(3,4) by blast
    qed
    have "wp (f b) v (\<lambda>res v'. case res of Inl e \<Rightarrow> I v' | Inr a \<Rightarrow> wp (for_each f bs) v'
            (\<lambda>res v''. I v'' \<and> (res = Inr () \<longrightarrow> (\<forall>a \<in> insert b D \<union> set bs. E a v''))))"
      by (rule wp_mono [OF keep]) (use Cons.IH [of _ "insert b D"] Cons.prems in \<open>auto split: sum.splits\<close>)
    then show ?case by (auto elim!: wp_mono split: sum.splits)
  qed simp
  from this [of w as "{}"] assms(1) show ?thesis by simp
qed

section \<open>An in-memory server\<close>

record wmem = mem +
  wm_stss :: "StatefulSet list"
  wm_svcs :: "Service list"
  wm_pvcs :: "K8sVolumeClaim list"
  wm_classes :: "StorageClass list"
  wm_cache :: probe_cache

definition mem_remove :: "'a ObjectMeta_scheme \<Rightarrow> ('m wmem_scheme \<Rightarrow> 'a ObjectMeta_scheme list) \<Rightarrow> ('a ObjectMeta_scheme list \<Rightarrow> 'm wmem_scheme \<Rightarrow> 'm wmem_scheme) \<Rightarrow> ('m wmem_scheme, unit) op" where
  "mem_remove ob get put = mem_write (\<lambda>w. map_option (\<lambda>_. put (store_remove ob (get w)) w) (find_object (om_Namespace ob) (om_Name ob) (get w)))"

definition mem_replace :: "'a ObjectMeta_scheme \<Rightarrow> ('m wmem_scheme \<Rightarrow> 'a ObjectMeta_scheme list) \<Rightarrow> ('a ObjectMeta_scheme list \<Rightarrow> 'm wmem_scheme \<Rightarrow> 'm wmem_scheme) \<Rightarrow> ('m wmem_scheme, unit) op" where
  "mem_replace ob get put = mem_write (\<lambda>w. map_option (\<lambda>_. put (store_replace ob (get w)) w) (find_object (om_Namespace ob) (om_Name ob) (get w)))"

definition mem_r :: "'m wmem_scheme Reconciler" where
  "mem_r = \<lparr>rc_x = std_x, rc_cli = mem_cli,
     rc_GetStatefulSet = (\<lambda>ns name. mem_read (\<lambda>w. get_or_missing (find_object ns name (wm_stss w)))),
     rc_ListStatefulSets = (\<lambda>ns sel. mem_read (\<lambda>w. Inr (selected ns sel (wm_stss w)))),
     rc_CreateStatefulSet = (\<lambda>s. mem_write (\<lambda>w. Some (w\<lparr>wm_stss := wm_stss w @ [s]\<rparr>))),
     rc_UpdateStatefulSet = (\<lambda>s. mem_replace s wm_stss (\<lambda>l. wm_stss_update (\<lambda>_. l))),
     rc_DeleteStatefulSet = (\<lambda>s. mem_remove s wm_stss (\<lambda>l. wm_stss_update (\<lambda>_. l))),
     rc_GetService = (\<lambda>ns name. mem_read (\<lambda>w. get_or_missing (find_object ns name (wm_svcs w)))),
     rc_CreateService = (\<lambda>s. mem_write (\<lambda>w. Some (w\<lparr>wm_svcs := wm_svcs w @ [s]\<rparr>))),
     rc_UpdateService = (\<lambda>s. mem_replace s wm_svcs (\<lambda>l. wm_svcs_update (\<lambda>_. l))),
     rc_DeleteService = (\<lambda>s. mem_remove s wm_svcs (\<lambda>l. wm_svcs_update (\<lambda>_. l))),
     rc_ListPVCs = (\<lambda>ns sel. mem_read (\<lambda>w. Inr (selected ns sel (wm_pvcs w)))),
     rc_UpdatePVC = (\<lambda>s. mem_replace s wm_pvcs (\<lambda>l. wm_pvcs_update (\<lambda>_. l))),
     rc_DeletePVC = (\<lambda>s. mem_remove s wm_pvcs (\<lambda>l. wm_pvcs_update (\<lambda>_. l))),
     rc_GetStorageClass = (\<lambda>name. mem_read (\<lambda>w. get_or_missing (find_object [] name (wm_classes w)))),
     rc_ListStorageClasses = mem_read (\<lambda>w. Inr (wm_classes w)),
     rc_GetHPA = (\<lambda>ns name. mem_read (\<lambda>w. Inl (KNotFound ''not found''))),
     rc_CreateHPA = (\<lambda>h. mem_write Some), rc_UpdateHPA = (\<lambda>h. mem_write Some), rc_DeleteHPA = (\<lambda>h. mem_write Some),
     rc_GetSecret = (\<lambda>ns name. mem_read (\<lambda>w. Inl (KNotFound ''not found''))),
     rc_record = None, rc_range = id, rc_cap = length,
     rc_asPVC = (\<lambda>v. case fmlookup (Values_Data v) ''name'' of
        Some (JStr name) \<Rightarrow> Some (ObjectMeta.extend (new_ObjectMeta [] name) (K8sVolumeClaim.fields None
          (case fmlookup (Values_Data v) ''size'' of Some (JInt n) \<Rightarrow> fmupd ResourceStorage n fmempty | _ \<Rightarrow> fmempty) [] [] JNull))
      | _ \<Rightarrow> None),
     rc_asMetric = (\<lambda>v. None), rc_asBehavior = (\<lambda>v. None)\<rparr>"

lemmas mem_r_simps = mem_r_def mem_cli_def mem_remove_def mem_replace_def

interpretation wm: workload_store mem_r mem_deps mem_pods mem_milvus wm_stss wm_pvcs
  unfolding workload_store_def workload_store_axioms_def deploy_store_def
  by (auto simp: mem_r_simps applied_or_lost_def dep_written_def read_object_def removed_def get_or_missing_def store_remove_def
      split: option.splits sum.splits)

end
