(* ===== verification/Health_Correct.thy ===== *)
theory Health_Correct
  imports Workload_Store
begin

text \<open>
  When an instance counts as ready: the condition of \<open>GetMilvusInstanceCondition\<close> against the workloads
  that are stored, for every client that satisfies \<open>workload_store\<close>.
\<close>

section \<open>Availability of the active Deployment\<close>

lemma find_append: "find P (xs @ ys) = (case find P xs of None \<Rightarrow> find P ys | Some z \<Rightarrow> Some z)"
  by (induction xs) auto

lemma find_SomeD: "find P xs = Some a \<Longrightarrow> a \<in> set xs \<and> P a"
  by (induction xs) (auto split: if_splits)

lemma find_available_keep:
  "find (\<lambda>c. dc_Type c = ''Available'') (map (\<lambda>c. if dc_Type c \<noteq> dc_Type cond then c else cond) cs) =
     find (\<lambda>c. dc_Type c = ''Available'') cs"
  if "dc_Type cond = ''Progressing''"
  using that by (induction cs) auto

lemma mark_rolling_ready [simp]:
  "DeploymentReady (d_Status (mark_rolling mc key d)) = DeploymentReady (d_Status d)"
  "dst_ReadyReplicas (d_Status (mark_rolling mc key d)) = dst_ReadyReplicas (d_Status d)"
proof -
  have t: "dc_Type (rolling_condition mc key) = ''Progressing''" by (simp add: rolling_condition_def)
  have "find (\<lambda>c. dc_Type c = ''Available'') (UpdateDeploymentCondition cs (rolling_condition mc key)) =
      find (\<lambda>c. dc_Type c = ''Available'') cs" for cs
    by (simp add: UpdateDeploymentCondition_def Let_def find_append find_available_keep [OF t, unfolded t] t split: option.splits)
  then show "DeploymentReady (d_Status (mark_rolling mc key d)) = DeploymentReady (d_Status d)"
    "dst_ReadyReplicas (d_Status (mark_rolling mc key d)) = dst_ReadyReplicas (d_Status d)"
    by (simp_all add: mark_rolling_def DeploymentReady_def)
qed

lemma synthesized_ready:
  "DeploymentReady (cds_Status (synthesizeStatefulSetStatus now c (Some sts))) \<longleftrightarrow>
     getStatefulSetReplicas sts > 0 \<and> sss_AvailableReplicas (s_Status sts) \<ge> getStatefulSetReplicas sts"
  by (auto simp: DeploymentReady_def synthesizeStatefulSetStatus_def sts_deployment_status_def Let_def)

lemma fold_keyed_lookup:
  assumes "inj_on key (insert c (set ws))"
  shows "fmlookup (fold (\<lambda>w m. case g w of None \<Rightarrow> m | Some d \<Rightarrow> fmupd (key w) d m) ws m0) (key c) =
    (case (if c \<in> set ws then g c else None) of Some d \<Rightarrow> Some d | None \<Rightarrow> fmlookup m0 (key c))"
  using assms
proof (induction ws arbitrary: m0)
  case (Cons w ws)
  have "key w = key c \<longleftrightarrow> w = c" using Cons.prems by (auto simp: inj_on_def)
  moreover have "inj_on key (insert c (set ws))" using Cons.prems by (auto intro: inj_on_subset)
  ultimately show ?case using Cons.IH by (auto split: option.splits)
qed simp

lemma workload_map_lookup:
  assumes "inj_on (GetStateKey x) (set (GetComponentWorkloadsBySpec x (m_Spec mc)))" "c \<in> set (GetComponentWorkloadsBySpec x (m_Spec mc))"
  shows "fmlookup (makeWorkloadDeploymentMap x mc ds) (GetStateKey x c) = active_deployment x mc ds c"
  using assms
  by (simp add: makeWorkloadDeploymentMap_def fold_keyed_lookup insert_absorb split: option.splits)

section \<open>The loop over the components\<close>

text \<open>Readiness of one workload, from the stored objects.\<close>

definition component_ready :: "externals \<Rightarrow> Milvus \<Rightarrow> Deployment list \<Rightarrow> StatefulSet list \<Rightarrow> MilvusComponent \<Rightarrow> bool" where
  "component_ready x mc ds stss c \<longleftrightarrow>
     (if componentUsesStatefulSet mc c
      then (case find_object (om_Namespace mc) (GetDeploymentName c (om_Name mc)) stss of
              None \<Rightarrow> False
            | Some sts \<Rightarrow> getStatefulSetReplicas sts > 0 \<and> sss_AvailableReplicas (s_Status sts) \<ge> getStatefulSetReplicas sts)
      else (case active_deployment x mc ds c of
              Some d \<Rightarrow> DeploymentReady (d_Status d)
            | None \<Rightarrow> IsIdleClusterStandalone (m_Spec mc) c))"

definition component_entry :: "externals \<Rightarrow> Milvus \<Rightarrow> Deployment list \<Rightarrow> MilvusComponent \<Rightarrow> bool" where
  "component_entry x mc ds c \<longleftrightarrow> IsService c \<and> \<not> componentUsesStatefulSet mc c \<and>
     (\<exists>d. active_deployment x mc ds c = Some d \<and> DeploymentReady (d_Status d) \<and> dst_ReadyReplicas (d_Status d) > 0)"

context workload_store
begin

lemma wp_collectPod: "(\<And>res. Q res w) \<Longrightarrow> wp (collectPodErrorDetail r detail ns sel) w Q"
  by (auto simp: collectPodErrorDetail_def intro!: wp_ListPods split: option.splits sum.splits)

lemma wp_component_detail: "(\<And>res. Q res w) \<Longrightarrow> wp (getComponentErrorDetail r name d) w Q"
  by (auto simp: getComponentErrorDetail_def Let_def intro!: wp_collectPod split: option.splits sum.splits)

lemma wp_statefulset_detail: "(\<And>res. Q res w) \<Longrightarrow> wp (getStatefulSetErrorDetail r name sts) w Q"
  by (auto simp: getStatefulSetErrorDetail_def Let_def intro!: wp_collectPod split: option.splits)

lemma wp_add_not_ready:
  assumes "\<And>P. (\<And>res. P res w) \<Longrightarrow> wp getDetail w P" "\<And>e. Q (Inl e) w"
    "\<And>detail. Q (Inr (fst acc @ [GetDisplayName c], detail, snd (snd acc))) w"
  shows "wp (add_not_ready getDetail c acc) w Q"
  using assms by (auto simp: add_not_ready_def split: option.splits prod.splits sum.splits)

lemma wp_getStatefulSetForComponent:
  assumes "Q (Inr (find_object (om_Namespace mc) (GetDeploymentName c (om_Name mc)) (stss w))) w" "\<And>e. Q (Inl e) w"
  shows "wp (getStatefulSetForComponent r mc c) w Q"
  using assms
  by (auto simp: getStatefulSetForComponent_def wp_get_if_exists read_object_def intro!: wp_GetStatefulSet split: sum.splits)

lemma wp_check_component:
  assumes "sy_r s = r" "fmlookup m (GetStateKey (rc_x r) c) = active_deployment (rc_x r) mc ds c"
    and "\<And>e. Q (Inl e) w"
    and "\<And>names detail entry. (names = [] \<longleftrightarrow> fst acc = [] \<and> component_ready (rc_x r) mc ds (stss w) c) \<Longrightarrow>
           (entry \<longleftrightarrow> snd (snd acc) \<or> component_entry (rc_x r) mc ds c) \<Longrightarrow> Q (Inr (names, detail, entry)) w"
  shows "wp (check_component s mc m c acc) w Q"
proof (cases "componentUsesStatefulSet mc c")
  case True
  have good: "Q (Inr acc) w" if "component_ready (rc_x r) mc ds (stss w) c"
    using assms(4) [of "fst acc" "snd (snd acc)" "fst (snd acc)"] that True by (simp add: component_entry_def)
  have bad: "Q (Inr (fst acc @ [GetDisplayName c], detail, snd (snd acc))) w" if "\<not> component_ready (rc_x r) mc ds (stss w) c" for detail
    using assms(4) that True by (simp add: component_entry_def)
  show ?thesis
    unfolding check_component_def assms(1) if_P [OF True] wp_bind wp_wrap
    by (rule wp_getStatefulSetForComponent)
      (auto simp: component_ready_def True synthesized_ready assms(3) split: option.splits
        intro!: good bad wp_add_not_ready wp_statefulset_detail)
next
  case False
  have entry: "component_entry (rc_x r) mc ds c \<longleftrightarrow> IsService c \<and>
     (\<exists>d. active_deployment (rc_x r) mc ds c = Some d \<and> DeploymentReady (d_Status d) \<and> dst_ReadyReplicas (d_Status d) > 0)"
    by (simp add: component_entry_def False)
  show ?thesis
    unfolding check_component_def assms(1) if_not_P [OF False] sy_x_def assms(2) Let_def
    by (cases "active_deployment (rc_x r) mc ds c"; cases acc)
      (auto simp: component_ready_def False entry assms(3) intro!: assms(4) wp_add_not_ready wp_component_detail)
qed

lemma wp_check_components:
  assumes "sy_r s = r" "\<forall>c \<in> set cs. fmlookup m (GetStateKey (rc_x r) c) = active_deployment (rc_x r) mc ds c"
    and "\<And>e. Q (Inl e) w"
    and "\<And>names detail entry. (names = [] \<longleftrightarrow> fst acc = [] \<and> (\<forall>c \<in> set cs. component_ready (rc_x r) mc ds (stss w) c)) \<Longrightarrow>
           (entry \<longleftrightarrow> snd (snd acc) \<or> (\<exists>c \<in> set cs. component_entry (rc_x r) mc ds c)) \<Longrightarrow> Q (Inr (names, detail, entry)) w"
  shows "wp (check_components s mc m cs acc) w Q"
  using assms(2,4)
proof (induction cs arbitrary: acc)
  case Nil
  then show ?case using Nil(2) [of "fst acc" "snd (snd acc)" "fst (snd acc)"] by simp
next
  case (Cons c cs)
  have "wp (check_component s mc m c acc) w
     (\<lambda>res w'. case res of Inl e \<Rightarrow> Q (Inl e) w' | Inr acc' \<Rightarrow> wp (check_components s mc m cs acc') w' Q)"
  proof (rule wp_check_component [OF assms(1), where ds = ds])
    show "fmlookup m (GetStateKey (rc_x r) c) = active_deployment (rc_x r) mc ds c" using Cons.prems(1) by simp
  next
    fix names :: "string list" and detail entry
    assume a: "(names = []) = (fst acc = [] \<and> component_ready (rc_x r) mc ds (stss w) c)"
      "entry = (snd (snd acc) \<or> component_entry (rc_x r) mc ds c)"
    have "wp (check_components s mc m cs (names, detail, entry)) w Q"
      by (rule Cons.IH) (use Cons.prems a in \<open>auto intro!: Cons.prems(2)\<close>)
    then show "case Inr (names, detail, entry) of Inl e \<Rightarrow> Q (Inl e) w | Inr acc' \<Rightarrow> wp (check_components s mc m cs acc') w Q"
      by simp
  qed (simp add: assms(3))
  then show ?case by simp
qed

text \<open>The condition of a running instance.\<close>

lemma instance_condition_running:
  assumes "sy_r s = r" "inj_on (GetStateKey (rc_x r)) (set (GetComponentWorkloadsBySpec (rc_x r) (m_Spec mc)))"
    and "isMilvusStoppingForReconcile (rc_x r) mc = Some False"
    and "run_state (GetMilvusInstanceCondition s mc) w = (Inr cond, w')"
  shows "w' = w \<and> (let ds = selected (om_Namespace mc) (instance_labels mc) (deps w); ws = set (GetComponentWorkloadsBySpec (rc_x r) (m_Spec mc)) in
    (mcd_Status cond = ConditionTrue \<longleftrightarrow>
      (\<forall>c \<in> ws. component_ready (rc_x r) mc ds (stss w) c) \<and> (\<exists>c \<in> ws. component_entry (rc_x r) mc ds c)))"
proof -
  let ?ws = "GetComponentWorkloadsBySpec (rc_x r) (m_Spec mc)"
  have "wp (GetMilvusInstanceCondition s mc) w (\<lambda>res v. \<forall>cond. res = Inr cond \<longrightarrow> v = w \<and>
     (let ds = selected (om_Namespace mc) (instance_labels mc) (deps w) in
      (mcd_Status cond = ConditionTrue \<longleftrightarrow>
      (\<forall>c \<in> set ?ws. component_ready (rc_x r) mc ds (stss w) c) \<and> (\<exists>c \<in> set ?ws. component_entry (rc_x r) mc ds c))))"
    unfolding GetMilvusInstanceCondition_def sy_x_def assms(1) assms(3)
    using assms(2)
    by (auto simp: workload_map_lookup instance_condition_def mk_condition_def empty_condition_def Let_def assms(1)
        intro!: wp_ListDeployments wp_check_components [OF assms(1)] split: if_splits)
  from wpD [OF this assms(4)] show ?thesis by (simp add: Let_def)
qed

end

section \<open>Readiness of an instance\<close>

lemma active_deployment_SomeD:
  assumes "active_deployment x mc ds c = Some d"
  shows "\<exists>d0 \<in> set ds. serves_workload x mc c d0 \<and> d = mark_rolling mc (GetStateKey x c) d0"
proof -
  obtain d0 where d0: "find (serves_workload x mc c) (sort_key om_Name ds) = Some d0" "d = mark_rolling mc (GetStateKey x c) d0"
    using assms by (auto simp: active_deployment_def)
  then have "d0 \<in> set (sort_key om_Name ds)" "serves_workload x mc c d0" using find_SomeD by fast+
  with d0 show ?thesis by auto
qed

lemma active_deployment_NoneD: "active_deployment x mc ds c = None \<Longrightarrow> d \<in> set ds \<Longrightarrow> \<not> serves_workload x mc c d"
  by (auto simp: active_deployment_def find_None_iff)

lemma selected_mem: "d \<in> set (selected ns sel obs) \<longleftrightarrow> d \<in> set obs \<and> om_Namespace d = ns \<and> labels_match sel (om_Labels d)"
  by (auto simp: selected_def)

text \<open>A stored Deployment of the instance that serves a workload.\<close>

definition served_by :: "externals \<Rightarrow> Milvus \<Rightarrow> MilvusComponent \<Rightarrow> Deployment \<Rightarrow> bool" where
  "served_by x mc c d \<longleftrightarrow> om_Namespace d = om_Namespace mc \<and> labels_match (instance_labels mc) (om_Labels d) \<and> serves_workload x mc c d"

lemma component_ready_sound:
  assumes "component_ready x mc (selected (om_Namespace mc) (instance_labels mc) ds) stss c"
  shows "if componentUsesStatefulSet mc c
     then \<exists>sts \<in> set stss. om_Name sts = GetDeploymentName c (om_Name mc) \<and> 0 < getStatefulSetReplicas sts \<and>
            getStatefulSetReplicas sts \<le> sss_AvailableReplicas (s_Status sts)
     else (\<exists>d \<in> set ds. served_by x mc c d \<and> DeploymentReady (d_Status d)) \<or>
            (IsIdleClusterStandalone (m_Spec mc) c \<and> \<not> (\<exists>d \<in> set ds. served_by x mc c d))"
proof (cases "componentUsesStatefulSet mc c")
  case True
  then show ?thesis
    using assms by (auto simp: component_ready_def find_object_def find_Some_iff split: option.splits)
next
  case False
  then show ?thesis
    using assms
    by (auto simp: component_ready_def served_by_def selected_mem split: option.splits
        dest!: active_deployment_SomeD dest: active_deployment_NoneD)
qed

lemma component_ready_complete:
  assumes "\<not> componentUsesStatefulSet mc c" "\<exists>d \<in> set ds. served_by x mc c d"
    and "\<forall>d \<in> set ds. served_by x mc c d \<longrightarrow> DeploymentReady (d_Status d) \<and> 0 < dst_ReadyReplicas (d_Status d)"
  shows "component_ready x mc (selected (om_Namespace mc) (instance_labels mc) ds) stss c \<and>
    (IsService c \<longrightarrow> component_entry x mc (selected (om_Namespace mc) (instance_labels mc) ds) c)"
proof -
  let ?l = "selected (om_Namespace mc) (instance_labels mc) ds"
  obtain d where d: "active_deployment x mc ?l c = Some d"
    using assms(2) active_deployment_NoneD [of x mc ?l c] by (fastforce simp: served_by_def selected_mem)
  then have "DeploymentReady (d_Status d) \<and> 0 < dst_ReadyReplicas (d_Status d)"
    using assms(3) by (auto simp: served_by_def selected_mem dest!: active_deployment_SomeD)
  with d assms(1) show ?thesis by (simp add: component_ready_def component_entry_def)
qed

text \<open>An instance that is not stopping is reported ready only when every workload is: a workload kept
  as a StatefulSet has all of its replicas (at least one) available, any other workload has an available Deployment
  (an idle standalone may have none at all), and some entry component has a ready replica.  Conversely, when
  all workloads have available Deployments with ready replicas and one of them is an entry, a successful
  check reports ready.\<close>

theorem ready_instance_serves:
  assumes "workload_store (sy_r s) deps pods milvus stss pvcs"
    and "inj_on (GetStateKey (sy_x s)) (set (GetComponentWorkloadsBySpec (sy_x s) (m_Spec mc)))"
    and "isMilvusStoppingForReconcile (sy_x s) mc = Some False"
    and "run_state (GetMilvusInstanceCondition s mc) w = (Inr cond, w')"
  shows "(mcd_Status cond = ConditionTrue \<longrightarrow>
      (\<forall>c \<in> set (GetComponentWorkloadsBySpec (sy_x s) (m_Spec mc)).
        if componentUsesStatefulSet mc c
        then \<exists>sts \<in> set (stss w). om_Name sts = GetDeploymentName c (om_Name mc) \<and> 0 < getStatefulSetReplicas sts \<and>
               getStatefulSetReplicas sts \<le> sss_AvailableReplicas (s_Status sts)
        else (\<exists>d \<in> set (deps w). served_by (sy_x s) mc c d \<and> DeploymentReady (d_Status d)) \<or>
               (IsIdleClusterStandalone (m_Spec mc) c \<and> \<not> (\<exists>d \<in> set (deps w). served_by (sy_x s) mc c d))) \<and>
      (\<exists>c \<in> set (GetComponentWorkloadsBySpec (sy_x s) (m_Spec mc)). IsService c \<and>
        (\<exists>d \<in> set (deps w). served_by (sy_x s) mc c d \<and> DeploymentReady (d_Status d) \<and> 0 < dst_ReadyReplicas (d_Status d)))) \<and>
    ((\<forall>c \<in> set (GetComponentWorkloadsBySpec (sy_x s) (m_Spec mc)). \<not> componentUsesStatefulSet mc c \<and>
        (\<exists>d \<in> set (deps w). served_by (sy_x s) mc c d) \<and>
        (\<forall>d \<in> set (deps w). served_by (sy_x s) mc c d \<longrightarrow> DeploymentReady (d_Status d) \<and> 0 < dst_ReadyReplicas (d_Status d))) \<and>
      (\<exists>c \<in> set (GetComponentWorkloadsBySpec (sy_x s) (m_Spec mc)). IsService c) \<longrightarrow> mcd_Status cond = ConditionTrue) \<and> w' = w"
proof -
  let ?x = "sy_x s" and ?l = "selected (om_Namespace mc) (instance_labels mc) (deps w)"
  have x: "rc_x (sy_r s) = ?x" by (simp add: sy_x_def)
  from workload_store.instance_condition_running [OF assms(1) refl, unfolded x, OF assms(2,3,4)]
  have cond: "mcd_Status cond = ConditionTrue \<longleftrightarrow>
      (\<forall>c \<in> set (GetComponentWorkloadsBySpec ?x (m_Spec mc)). component_ready ?x mc ?l (stss w) c) \<and>
      (\<exists>c \<in> set (GetComponentWorkloadsBySpec ?x (m_Spec mc)). component_entry ?x mc ?l c)" and "w' = w"
    by (simp_all add: Let_def)
  have entry: "IsService c \<and> (\<exists>d \<in> set (deps w). served_by ?x mc c d \<and> DeploymentReady (d_Status d) \<and> 0 < dst_ReadyReplicas (d_Status d))"
    if "component_entry ?x mc ?l c" for c
    using that by (auto simp: component_entry_def served_by_def selected_mem dest!: active_deployment_SomeD)
  show ?thesis
    using cond \<open>w' = w\<close> component_ready_sound component_ready_complete entry by meson
qed

section \<open>Example\<close>

definition ex_prober :: "'m wmem_scheme Prober" where
  "ex_prober = \<lparr>pb_r = mem_r, pb_cache = wm_cache, pb_set_cache = (\<lambda>c. wm_cache_update (\<lambda>_. c)), pb_Sleep = State_Monad.return (),
     pb_checkMinIO = (\<lambda>args. ret ()), pb_checkKafka = (\<lambda>mc creds. ret ()), pb_decodeKafka = (\<lambda>v. None), pb_netDial = (\<lambda>a. ret ()),
     pb_etcdNew = (\<lambda>ep auth. ret ()), pb_etcdGet = (\<lambda>ep. ret ()), pb_etcdAlarmList = (\<lambda>ep. ret []),
     pb_isPermissionDenied = (\<lambda>e. False), pb_maxRetry = 3\<rparr>"

definition ex_syncer :: "'m wmem_scheme Syncer" where
  "ex_syncer = \<lparr>sy_p = ex_prober, sy_E = \<lparr>we_x = std_x, we_Version = [], we_SetNestedField = (\<lambda>m v p. m), we_RemoveNestedField = (\<lambda>m p. m),
       we_DefaultValues = (\<lambda>_ _. fmempty), we_IsDNS1123Label = (\<lambda>_. []), we_pvcSpecError = (\<lambda>_. None), we_pvcError = (\<lambda>_. None)\<rparr>, sy_now = 100, sy_fuel = 3, sy_Debug = False, sy_ListMilvus = ret [],
     sy_GetIngressStatus = (\<lambda>ns name. ret JNull), sy_Exec = (\<lambda>pod. ret ())\<rparr>"

definition ex_small :: Milvus where
  "ex_small = (new_Milvus ''ns'' ''mc'')\<lparr>om_UID := ''uid'', m_Spec := zero_MilvusSpec\<lparr>ms_Mode := MilvusModeStandalone,
     ms_Com := zero_MilvusComponents\<lparr>com_EnableManualMode := True\<rparr>\<rparr>\<rparr>"

definition ex_owned :: "string \<Rightarrow> string \<Rightarrow> string \<Rightarrow> Deployment" where
  "ex_owned name component grp = (new_Deployment ''ns'' name)\<lparr>d_Replicas := Some 1,
     om_OwnerReferences := [\<lparr>or_Kind = ''Milvus'', or_Name = ''mc'', or_UID = ''uid'', or_Controller = True\<rparr>],
     om_Labels := fmap_of_list [(AppLabelInstance, ''mc''), (AppLabelComponent, component), (AppLabelName, ''milvus''),
        (AppLabelManagedBy, ManagerName), (DeploymentGroupLabel, grp)],
     d_Status := zero_DeploymentStatus\<lparr>dst_ReadyReplicas := 1, dst_Conditions := [\<lparr>dc_Type = ''Available'', dc_Status = ConditionTrue,
        dc_LastUpdateTime = None, dc_LastTransitionTime = None, dc_Reason = [], dc_Message = []\<rparr>]\<rparr>\<rparr>"

definition ex_wmem :: "Milvus \<Rightarrow> Deployment list \<Rightarrow> StatefulSet list \<Rightarrow> K8sVolumeClaim list \<Rightarrow> wmem" where
  "ex_wmem mc ds ss ps = \<lparr>mem_deps = ds, mem_pods = [], mem_rss = [], mem_revisions = [], mem_milvus = mc,
     wm_stss = ss, wm_svcs = [], wm_pvcs = ps, wm_classes = [], wm_cache = fmempty\<rparr>"

lemma ex_r [simp]: "sy_r ex_syncer = mem_r" "sy_x ex_syncer = std_x"
  by (simp_all add: sy_r_def sy_x_def ex_syncer_def ex_prober_def mem_r_def)

lemma ex_small_workloads: "GetComponentWorkloadsBySpec std_x (m_Spec ex_small) = [MilvusStandalone]"
  by code_simp

lemma ex_small_running: "isMilvusStoppingForReconcile std_x ex_small = Some False"
  by code_simp

lemma ex_small_run:
  "run_state (GetMilvusInstanceCondition ex_syncer ex_small) (ex_wmem ex_small [ex_owned ''mc-milvus-standalone'' ''standalone'' []] [] []) =
     (Inr (mk_condition MilvusReady ConditionTrue ''ReasonMilvusHealthy'' ''All Milvus components are healthy''),
      ex_wmem ex_small [ex_owned ''mc-milvus-standalone'' ''standalone'' []] [] [])"
  by code_simp

theorem ready_instance_serves_witness:
  "\<exists>c \<in> set (GetComponentWorkloadsBySpec std_x (m_Spec ex_small)). IsService c \<and>
     (\<exists>d \<in> {ex_owned ''mc-milvus-standalone'' ''standalone'' []}. served_by std_x ex_small c d \<and>
        DeploymentReady (d_Status d) \<and> 0 < dst_ReadyReplicas (d_Status d))"
proof -
  have inj: "inj_on (GetStateKey (sy_x ex_syncer)) (set (GetComponentWorkloadsBySpec (sy_x ex_syncer) (m_Spec ex_small)))"
    by (simp add: ex_small_workloads)
  have store: "workload_store (sy_r ex_syncer) mem_deps mem_pods mem_milvus wm_stss wm_pvcs"
    by (simp add: wm.workload_store_axioms)
  from ready_instance_serves [OF store inj _ ex_small_run] show ?thesis
    by (simp add: ex_small_running ex_wmem_def mk_condition_def)
qed

end
