(* ===== verification/Status_Correct.thy ===== *)
theory Status_Correct
  imports Health_Correct
begin

text \<open>
  Correctness of the status: what the aggregate of deployment groups says, and when a probe of a
  dependency returns.
\<close>

section \<open>The aggregate of deployment groups\<close>

text \<open>The state the groups have together: the worst of them, where a failure counts only once
  something is not settled.\<close>

definition combined_state :: "DeploymentState list \<Rightarrow> DeploymentState" where
  "combined_state states =
     (if set states \<subseteq> {DeploymentComplete} then DeploymentComplete
      else if set states \<subseteq> {DeploymentComplete, DeploymentPaused} then DeploymentPaused
      else if DeploymentFailed \<in> set states then DeploymentFailed
      else DeploymentProgressing)"

lemma aggregate_progressing_status:
  "dc_Reason (aggregate_progressing now ss) = DeploymentPausedReason \<longleftrightarrow> combined_state (map GetState ss) = DeploymentPaused"
  "dc_Reason (aggregate_progressing now ss) = NewReplicaSetAvailableReason \<longleftrightarrow> combined_state (map GetState ss) = DeploymentComplete"
  "dc_Status (aggregate_progressing now ss) \<noteq> ConditionTrue \<longleftrightarrow> combined_state (map GetState ss) = DeploymentFailed"
  "dc_Type (aggregate_progressing now ss) = ''Progressing''"
proof -
  have c: "list_all (\<lambda>st. st = DeploymentComplete) xs \<longleftrightarrow> set xs \<subseteq> {DeploymentComplete}"
    "list_all (\<lambda>st. st = DeploymentComplete \<or> st = DeploymentPaused) xs \<longleftrightarrow> set xs \<subseteq> {DeploymentComplete, DeploymentPaused}"
    "list_ex (\<lambda>st. st = DeploymentFailed) xs \<longleftrightarrow> DeploymentFailed \<in> set xs" for xs
    by (auto simp: list_all_iff list_ex_iff)
  show "dc_Reason (aggregate_progressing now ss) = DeploymentPausedReason \<longleftrightarrow> combined_state (map GetState ss) = DeploymentPaused"
    "dc_Reason (aggregate_progressing now ss) = NewReplicaSetAvailableReason \<longleftrightarrow> combined_state (map GetState ss) = DeploymentComplete"
    "dc_Status (aggregate_progressing now ss) \<noteq> ConditionTrue \<longleftrightarrow> combined_state (map GetState ss) = DeploymentFailed"
    "dc_Type (aggregate_progressing now ss) = ''Progressing''"
    unfolding aggregate_progressing_def Let_def c combined_state_def
    by (simp_all add: DeploymentPausedReason_def NewReplicaSetAvailableReason_def)
qed

lemma aggregate_state:
  assumes "ss \<noteq> []"
  shows "GetState (aggregateComponentDeployStatuses now ss) = combined_state (map GetState ss)"
proof -
  obtain s rest where ss: "ss = s # rest" using assms by (cases ss) auto
  have "DeploymentPausedReason \<noteq> NewReplicaSetAvailableReason"
    by (simp add: DeploymentPausedReason_def NewReplicaSetAvailableReason_def)
  then show ?thesis
    using aggregate_progressing_status [of now ss]
    by (cases "combined_state (map GetState ss)")
      (simp_all add: GetState_def getDeploymentConditionByType_def aggregateComponentDeployStatuses_def ss Let_def)
qed

lemma aggregate_ready:
  assumes "ss \<noteq> []"
  shows "DeploymentReady (cds_Status (aggregateComponentDeployStatuses now ss)) \<longleftrightarrow> (\<forall>s \<in> set ss. DeploymentReady (cds_Status s))"
proof -
  obtain s rest where ss: "ss = s # rest" using assms by (cases ss) auto
  have conds: "dst_Conditions (cds_Status (aggregateComponentDeployStatuses now ss)) = [aggregate_progressing now ss, aggregate_available now ss]"
    by (simp add: aggregateComponentDeployStatuses_def ss Let_def)
  have "find (\<lambda>c. dc_Type c = ''Available'') [aggregate_progressing now ss, aggregate_available now ss] = Some (aggregate_available now ss)"
    by (simp add: aggregate_progressing_status(4) aggregate_available_def)
  then show ?thesis
    unfolding DeploymentReady_def [of "cds_Status (aggregateComponentDeployStatuses now ss)"] conds
    by (simp add: aggregate_available_def list_all_iff)
qed

lemma image_fold:
  "foldl (\<lambda>img s. if cds_Image s \<noteq> img then [] else img) img ss = (if \<forall>s \<in> set ss. cds_Image s = img then img else [])"
  by (induction ss arbitrary: img) auto

lemma to_int32_add [simp]: "to_int32 (to_int32 i + j) = to_int32 (i + j)"
proof -
  have "(i + 2 ^ 31) mod 2 ^ 32 - 2 ^ 31 + j + 2 ^ 31 = (i + 2 ^ 31) mod 2 ^ 32 + (j :: int)" by simp
  then show ?thesis by (simp add: to_int32_def mod_simps algebra_simps)
qed

lemma sum_int32_wraps: "sum_int32 f ss = to_int32 (\<Sum>s\<leftarrow>ss. f s)"
proof -
  have "foldl (\<lambda>a s. to_int32 (a + f s)) (to_int32 a) xs = to_int32 (a + (\<Sum>s\<leftarrow>xs. f s))" for a xs
    by (induction xs arbitrary: a) (simp_all add: add.assoc)
  from this [of 0 ss] show ?thesis by (simp add: sum_int32_def)
qed

lemma generation_fold: "foldl (\<lambda>g s. if f s > g then f s else g) g ss = Max (insert g (f ` set ss))" for g :: int
proof (induction ss arbitrary: g)
  case (Cons s ss)
  have "Max (insert (if f s > g then f s else g) (f ` set ss)) = Max (insert g (insert (f s) (f ` set ss)))"
    by (cases "ss = []") (simp_all add: Max_insert max_def)
  with Cons.IH show ?case by simp
qed simp

lemma aggregate_image:
  assumes "ss \<noteq> []"
  shows "cds_Image (aggregateComponentDeployStatuses now ss) = (if \<exists>img. \<forall>s \<in> set ss. cds_Image s = img then cds_Image (hd ss) else [])"
  using assms by (cases ss) (auto simp: aggregateComponentDeployStatuses_def Let_def image_fold)

lemma aggregate_counts:
  fixes now :: int and ss :: "ComponentDeployStatus list"
  assumes "ss \<noteq> []"
  defines "a \<equiv> cds_Status (aggregateComponentDeployStatuses now ss)"
  shows "dst_Replicas a = to_int32 (\<Sum>s\<leftarrow>ss. dst_Replicas (cds_Status s))"
    "dst_UpdatedReplicas a = to_int32 (\<Sum>s\<leftarrow>ss. dst_UpdatedReplicas (cds_Status s))"
    "dst_ReadyReplicas a = to_int32 (\<Sum>s\<leftarrow>ss. dst_ReadyReplicas (cds_Status s))"
    "dst_AvailableReplicas a = to_int32 (\<Sum>s\<leftarrow>ss. dst_AvailableReplicas (cds_Status s))"
    "dst_UnavailableReplicas a = to_int32 (\<Sum>s\<leftarrow>ss. dst_UnavailableReplicas (cds_Status s))"
    "dst_ObservedGeneration a = Max (insert 0 (cds_Generation ` set ss))"
    "cds_Generation (aggregateComponentDeployStatuses now ss) = Max (insert 0 (cds_Generation ` set ss))"
proof -
  obtain s rest where ss: "ss = s # rest" using assms(1) by (cases ss) auto
  note agg = a_def aggregateComponentDeployStatuses_def sum_int32_wraps generation_fold
  show "dst_Replicas a = to_int32 (\<Sum>s\<leftarrow>ss. dst_Replicas (cds_Status s))"
    "dst_UpdatedReplicas a = to_int32 (\<Sum>s\<leftarrow>ss. dst_UpdatedReplicas (cds_Status s))"
    "dst_ReadyReplicas a = to_int32 (\<Sum>s\<leftarrow>ss. dst_ReadyReplicas (cds_Status s))"
    "dst_AvailableReplicas a = to_int32 (\<Sum>s\<leftarrow>ss. dst_AvailableReplicas (cds_Status s))"
    "dst_UnavailableReplicas a = to_int32 (\<Sum>s\<leftarrow>ss. dst_UnavailableReplicas (cds_Status s))"
    by (simp_all add: agg ss Let_def comp_def)
  show "dst_ObservedGeneration a = Max (insert 0 (cds_Generation ` set ss))"
    "cds_Generation (aggregateComponentDeployStatuses now ss) = Max (insert 0 (cds_Generation ` set ss))"
    unfolding agg ss list.case Let_def by simp_all
qed

lemma combined_state_iff:
  "combined_state (map GetState ss) =
      (if \<forall>s \<in> set ss. GetState s = DeploymentComplete then DeploymentComplete
       else if \<forall>s \<in> set ss. GetState s = DeploymentComplete \<or> GetState s = DeploymentPaused then DeploymentPaused
       else if \<exists>s \<in> set ss. GetState s = DeploymentFailed then DeploymentFailed else DeploymentProgressing)"
proof -
  have "set (map GetState ss) \<subseteq> {DeploymentComplete} \<longleftrightarrow> (\<forall>s \<in> set ss. GetState s = DeploymentComplete)"
    "set (map GetState ss) \<subseteq> {DeploymentComplete, DeploymentPaused} \<longleftrightarrow>
       (\<forall>s \<in> set ss. GetState s = DeploymentComplete \<or> GetState s = DeploymentPaused)"
    "DeploymentFailed \<in> set (map GetState ss) \<longleftrightarrow> (\<exists>s \<in> set ss. GetState s = DeploymentFailed)"
    by force+
  then show ?thesis unfolding combined_state_def by presburger
qed

text \<open>C23. The aggregated status of a component's deployment groups stands for all of them: its state is
  complete exactly when every group is complete, paused when every group is complete or paused and
  not all are complete, failed when some group failed, progressing otherwise; it is available exactly when every group is; its
  image is the common image of the groups or empty; each of its five replica counts is the sum of that
  count over the groups, in 32 bits (the sum itself as long as it fits); and its generation, which it reports
  as observed, is the largest of the groups' (or 0).\<close>

theorem aggregate_status_spec:
  assumes "ss \<noteq> []"
  shows "let agg = aggregateComponentDeployStatuses now ss in
    GetState agg =
      (if \<forall>s \<in> set ss. GetState s = DeploymentComplete then DeploymentComplete
       else if \<forall>s \<in> set ss. GetState s = DeploymentComplete \<or> GetState s = DeploymentPaused then DeploymentPaused
       else if \<exists>s \<in> set ss. GetState s = DeploymentFailed then DeploymentFailed else DeploymentProgressing) \<and>
    (DeploymentReady (cds_Status agg) \<longleftrightarrow> (\<forall>s \<in> set ss. DeploymentReady (cds_Status s))) \<and>
    cds_Image agg = (if \<exists>img. \<forall>s \<in> set ss. cds_Image s = img then cds_Image (hd ss) else []) \<and>
    dst_Replicas (cds_Status agg) = to_int32 (\<Sum>s\<leftarrow>ss. dst_Replicas (cds_Status s)) \<and>
    dst_UpdatedReplicas (cds_Status agg) = to_int32 (\<Sum>s\<leftarrow>ss. dst_UpdatedReplicas (cds_Status s)) \<and>
    dst_ReadyReplicas (cds_Status agg) = to_int32 (\<Sum>s\<leftarrow>ss. dst_ReadyReplicas (cds_Status s)) \<and>
    dst_AvailableReplicas (cds_Status agg) = to_int32 (\<Sum>s\<leftarrow>ss. dst_AvailableReplicas (cds_Status s)) \<and>
    dst_UnavailableReplicas (cds_Status agg) = to_int32 (\<Sum>s\<leftarrow>ss. dst_UnavailableReplicas (cds_Status s)) \<and>
    cds_Generation agg = Max (insert 0 (cds_Generation ` set ss)) \<and>
    dst_ObservedGeneration (cds_Status agg) = cds_Generation agg"
  unfolding Let_def aggregate_state [OF assms(1)] aggregate_ready [OF assms(1)] aggregate_image [OF assms(1)]
    aggregate_counts [OF assms(1)] combined_state_iff by simp

text \<open>Two groups in the middle of an update: one is complete, the other one still lacks a pod.\<close>

definition ex_group_statuses :: "ComponentDeployStatus list" where
  "ex_group_statuses =
     [\<lparr>cds_Generation = 4, cds_Image = ''milvus:2'', cds_Status = \<lparr>dst_ObservedGeneration = 4, dst_Replicas = 2, dst_UpdatedReplicas = 2,
        dst_ReadyReplicas = 2, dst_AvailableReplicas = 2, dst_UnavailableReplicas = 0,
        dst_Conditions = [\<lparr>dc_Type = ''Progressing'', dc_Status = ConditionTrue, dc_LastUpdateTime = None, dc_LastTransitionTime = None,
          dc_Reason = NewReplicaSetAvailableReason, dc_Message = []\<rparr>]\<rparr>\<rparr>,
      \<lparr>cds_Generation = 7, cds_Image = ''milvus:1'', cds_Status = \<lparr>dst_ObservedGeneration = 7, dst_Replicas = 4, dst_UpdatedReplicas = 1,
        dst_ReadyReplicas = 3, dst_AvailableReplicas = 3, dst_UnavailableReplicas = 1, dst_Conditions = []\<rparr>\<rparr>]"

theorem aggregate_status_spec_witness:
  "let a = aggregateComponentDeployStatuses 5 ex_group_statuses; st = cds_Status a in
   GetState a = DeploymentProgressing \<and> \<not> DeploymentReady st \<and> cds_Image a = [] \<and> cds_Generation a = 7 \<and>
   dst_Replicas st = 6 \<and> dst_UpdatedReplicas st = 3 \<and> dst_ReadyReplicas st = 5 \<and> dst_AvailableReplicas st = 5 \<and> dst_UnavailableReplicas st = 1"
proof -
  have ne: "ex_group_statuses \<noteq> []" by (simp add: ex_group_statuses_def)
  have vals: "(\<Sum>s\<leftarrow>ex_group_statuses. dst_Replicas (cds_Status s)) = 6" "(\<Sum>s\<leftarrow>ex_group_statuses. dst_UpdatedReplicas (cds_Status s)) = 3"
    "(\<Sum>s\<leftarrow>ex_group_statuses. dst_ReadyReplicas (cds_Status s)) = 5" "(\<Sum>s\<leftarrow>ex_group_statuses. dst_AvailableReplicas (cds_Status s)) = 5"
    "(\<Sum>s\<leftarrow>ex_group_statuses. dst_UnavailableReplicas (cds_Status s)) = 1" "Max (insert 0 (cds_Generation ` set ex_group_statuses)) = 7"
    "\<not> (\<exists>img. \<forall>s \<in> set ex_group_statuses. cds_Image s = img)" "\<not> (\<forall>s \<in> set ex_group_statuses. DeploymentReady (cds_Status s))"
    by (simp_all add: ex_group_statuses_def DeploymentReady_def)
  have states: "map GetState ex_group_statuses = [DeploymentComplete, DeploymentProgressing]" by code_simp
  have "GetState ` set ex_group_statuses = {DeploymentComplete, DeploymentProgressing}"
    unfolding set_map [symmetric] states by simp
  moreover have "(\<forall>s \<in> set ex_group_statuses. P (GetState s)) \<longleftrightarrow> (\<forall>st \<in> GetState ` set ex_group_statuses. P st)" for P
    by blast
  ultimately have all: "(\<forall>s \<in> set ex_group_statuses. P (GetState s)) \<longleftrightarrow> P DeploymentComplete \<and> P DeploymentProgressing" for P
    by simp
  have st: "\<not> (\<forall>s \<in> set ex_group_statuses. GetState s = DeploymentComplete)"
    "\<not> (\<forall>s \<in> set ex_group_statuses. GetState s = DeploymentComplete \<or> GetState s = DeploymentPaused)"
    "\<not> (\<exists>s \<in> set ex_group_statuses. GetState s = DeploymentFailed)"
    using all [of "\<lambda>st. st = DeploymentComplete"] all [of "\<lambda>st. st = DeploymentComplete \<or> st = DeploymentPaused"]
      all [of "\<lambda>st. st \<noteq> DeploymentFailed"] by simp_all
  show ?thesis
    using aggregate_status_spec [OF ne, of 5] unfolding Let_def vals if_not_P [OF st(1)] if_not_P [OF st(2)] if_not_P [OF st(3)]
      if_not_P [OF vals(7)] by (simp add: vals(8) int32_range_def)
qed

section \<open>Probing\<close>

definition lock_free :: "string list \<Rightarrow> probe_cache \<Rightarrow> bool" where
  "lock_free eps cache \<longleftrightarrow> fmlookup cache (lock_key eps) \<in> {None, Some (LockItem 0)}"

definition lock_held :: "string list \<Rightarrow> probe_cache \<Rightarrow> bool" where
  "lock_held eps cache \<longleftrightarrow> fmlookup cache (lock_key eps) = Some (LockItem 1)"

lemma keys_differ [simp]: "strSliceAsKey eps \<noteq> lock_key eps" "lock_key eps \<noteq> strSliceAsKey eps"
  by (simp_all add: lock_key_def)

lemma start_free:
  "lock_free eps c \<Longrightarrow> TryStartProbeFor eps c = Some (True, fmupd (lock_key eps) (LockItem 1) c)"
  by (auto simp: lock_free_def TryStartProbeFor_def split: option.splits cache_item.splits)

lemma start_held: "lock_held eps c \<Longrightarrow> TryStartProbeFor eps c = Some (False, c)"
  by (simp add: lock_held_def TryStartProbeFor_def)

lemma end_held: "lock_held eps c \<Longrightarrow> eps \<noteq> [] \<Longrightarrow> EndProbeFor eps c = Some (fmupd (lock_key eps) (LockItem 0) c)"
  by (simp add: lock_held_def EndProbeFor_def)

lemma held_after [simp]: "lock_held eps (fmupd (lock_key eps) (LockItem 1) c)" "lock_free eps (fmupd (lock_key eps) (LockItem 0) c)"
  by (simp_all add: lock_held_def lock_free_def)

lemma held_set [simp]: "lock_held eps (cache_Set eps v c) = lock_held eps c"
  by (simp add: lock_held_def cache_Set_def)

lemma cache_get_set: "eps \<noteq> [] \<Longrightarrow> cache_Get eps (fmupd (lock_key eps) l (cache_Set eps v c)) = Some (Some v)"
  by (simp add: cache_Get_def cache_Set_def)

lemma run_on_cache:
  "run_state (on_cache p f) w = (case f (pb_cache p w) of
     None \<Rightarrow> (Inl (GoPanic ''interface conversion''), w) | Some (a, c) \<Rightarrow> (Inr a, pb_set_cache p c w))"
  by (simp add: on_cache_def split: option.splits)

lemmas probe_run = run_on_cache start_probe_def end_probe_def cached_condition_def set_condition_def run_op_bind

text \<open>The world after a goroutine slept \<open>i\<close> times.\<close>

definition slept :: "'w Prober \<Rightarrow> nat \<Rightarrow> 'w \<Rightarrow> 'w" where
  "slept p i w = ((\<lambda>v. snd (run_state (pb_Sleep p) v)) ^^ i) w"

lemma slept_simps [simp]: "slept p 0 w = w" "slept p (Suc i) w = slept p i (snd (run_state (pb_Sleep p) w))"
  by (simp_all add: slept_def funpow_Suc_right del: funpow.simps)

lemma probe_waits:
  assumes "\<And>c v. pb_cache p (pb_set_cache p c v) = c" "\<And>v. pb_set_cache p (pb_cache p v) v = v"
    and "\<And>i. i < k \<Longrightarrow> lock_held eps (pb_cache p (slept p i w)) \<and> cache_Get eps (pb_cache p (slept p i w)) = Some None"
  shows "run_state (GetCondition (k + fuel) p getter eps) w = run_state (GetCondition fuel p getter eps) (slept p k w)"
  using assms(3)
proof (induction k arbitrary: w)
  case (Suc k)
  have now: "lock_held eps (pb_cache p w)" "cache_Get eps (pb_cache p w) = Some None" using Suc.prems [of 0] by simp_all
  have "lock_held eps (pb_cache p (slept p i (snd (run_state (pb_Sleep p) w)))) \<and>
      cache_Get eps (pb_cache p (slept p i (snd (run_state (pb_Sleep p) w)))) = Some None" if "i < k" for i
    using Suc.prems [of "Suc i"] that by simp
  from Suc.IH [OF this] now show ?case
    by (auto simp: probe_run start_held assms(2) split: prod.splits)
qed simp

lemma probe_cached:
  assumes "\<And>c v. pb_cache p (pb_set_cache p c v) = c" "\<And>v. pb_set_cache p (pb_cache p v) v = v"
    and "lock_held eps (pb_cache p w)" "cache_Get eps (pb_cache p w) = Some (Some c)"
  shows "run_state (GetCondition (Suc fuel) p getter eps) w = (Inr (Some c), w)"
  using assms by (simp add: probe_run start_held)

lemma probe_free:
  assumes "eps \<noteq> []" "lock_free eps (pb_cache p w)" "\<And>c v. pb_cache p (pb_set_cache p c v) = c"
    and "run_state (getter (sort eps)) (pb_set_cache p (fmupd (lock_key eps) (LockItem 1) (pb_cache p w)) w) = (res, w1)"
    and "lock_held eps (pb_cache p w1)"
  shows "\<exists>w'. run_state (GetCondition (Suc fuel) p getter eps) w = (map_sum id Some res, w') \<and> lock_free eps (pb_cache p w') \<and>
    (\<forall>c. res = Inr c \<longrightarrow> cache_Get eps (pb_cache p w') = Some (Some c))"
  using assms by (cases res) (simp_all add: probe_run start_free end_held cache_get_set)

text \<open>C24. A probe of one or more endpoints returns as soon as it may.  Let it find the lock taken and
  nothing cached \<open>k\<close> times, and sleep each time.  If the lock is still taken then but the goroutine that holds
  it has left a condition in the cache, the probe returns that condition, calls no getter and changes nothing.
  If the lock is free then, the probe returns what its own getter found; it leaves the lock free, also when the
  getter fails or panics, and a condition it found is in the cache.  Any fuel above \<open>k\<close> is enough.  The cache is
  the one the process shares, and while the getter runs nobody takes the lock away.\<close>

theorem probe_returns_and_releases:
  assumes "eps \<noteq> []" "\<And>c v. pb_cache p (pb_set_cache p c v) = c" "\<And>v. pb_set_cache p (pb_cache p v) v = v"
    and "\<And>i. i < k \<Longrightarrow> lock_held eps (pb_cache p (slept p i w)) \<and> cache_Get eps (pb_cache p (slept p i w)) = Some None"
    and "k < fuel"
  shows "(\<forall>c. lock_held eps (pb_cache p (slept p k w)) \<and> cache_Get eps (pb_cache p (slept p k w)) = Some (Some c) \<longrightarrow>
      run_state (GetCondition fuel p getter eps) w = (Inr (Some c), slept p k w)) \<and>
    (\<forall>res w1. lock_free eps (pb_cache p (slept p k w)) \<and>
      run_state (getter (sort eps)) (pb_set_cache p (fmupd (lock_key eps) (LockItem 1) (pb_cache p (slept p k w))) (slept p k w)) = (res, w1) \<and>
      lock_held eps (pb_cache p w1) \<longrightarrow>
      (\<exists>w'. run_state (GetCondition fuel p getter eps) w = (map_sum id Some res, w') \<and> lock_free eps (pb_cache p w') \<and>
        (\<forall>c. res = Inr c \<longrightarrow> cache_Get eps (pb_cache p w') = Some (Some c))))"
proof -
  obtain n where "fuel = k + Suc n" using assms(5) by (metis less_imp_Suc_add add_Suc_right)
  moreover have "run_state (GetCondition (k + Suc n) p getter eps) w = run_state (GetCondition (Suc n) p getter eps) (slept p k w)"
    by (rule probe_waits [OF assms(2,3,4)])
  ultimately have run: "run_state (GetCondition fuel p getter eps) w = run_state (GetCondition (Suc n) p getter eps) (slept p k w)"
    by (simp only:)
  show ?thesis
    unfolding run
    by (intro conjI allI impI; elim conjE) (rule probe_cached [OF assms(2,3)] probe_free [OF assms(1) _ assms(2)]; assumption)+
qed

text \<open>A process in which the goroutine that holds the lock stores its condition while this one sleeps, and one
  in which it gives the lock back without one.\<close>

definition ex_eps :: "string list" where "ex_eps = [''b:1'', ''a:1'']"

definition ex_waiting :: wmem where
  "ex_waiting = (ex_wmem ex_small [] [] [])\<lparr>wm_cache := fmap_of_list [(lock_key ex_eps, LockItem 1)]\<rparr>"

definition ex_storing :: "wmem Prober" where
  "ex_storing = ex_prober\<lparr>pb_Sleep := State (\<lambda>w. ((), w\<lparr>wm_cache := cache_Set ex_eps msgStreamReadyCondition (wm_cache w)\<rparr>))\<rparr>"

definition ex_giving_up :: "wmem Prober" where
  "ex_giving_up = ex_prober\<lparr>pb_Sleep := State (\<lambda>w. ((), w\<lparr>wm_cache := fmupd (lock_key ex_eps) (LockItem 0) (wm_cache w)\<rparr>))\<rparr>"

theorem probe_returns_and_releases_witness:
  "fst (run_state (GetCondition 2 ex_storing (\<lambda>_. fail (KError ''unused'')) ex_eps) ex_waiting) = Inr (Some msgStreamReadyCondition) \<and>
   (\<exists>w'. run_state (GetCondition 2 ex_giving_up (\<lambda>_. fail (GoPanic ''nil'')) ex_eps) ex_waiting = (Inl (GoPanic ''nil''), w') \<and>
     lock_free ex_eps (wm_cache w'))"
proof -
  have eps: "ex_eps \<noteq> []" by (simp add: ex_eps_def)
  have a: "fst (run_state (GetCondition 2 ex_storing (\<lambda>_. fail (KError ''unused'')) ex_eps) ex_waiting) = Inr (Some msgStreamReadyCondition)"
    using probe_returns_and_releases [OF eps, where p = ex_storing and k = 1 and w = ex_waiting and fuel = 2 and getter = "\<lambda>_. fail (KError ''unused'')"]
    by (simp add: ex_storing_def ex_prober_def ex_waiting_def lock_held_def cache_Get_def cache_Set_def eps)
  have b: "\<exists>w'. run_state (GetCondition 2 ex_giving_up (\<lambda>_. fail (GoPanic ''nil'')) ex_eps) ex_waiting = (Inl (GoPanic ''nil''), w') \<and>
     lock_free ex_eps (wm_cache w')"
    using probe_returns_and_releases [OF eps, where p = ex_giving_up and k = 1 and w = ex_waiting and fuel = 2 and getter = "\<lambda>_. fail (GoPanic ''nil'')"]
    by (simp add: ex_giving_up_def ex_prober_def ex_waiting_def lock_held_def lock_free_def cache_Get_def eps)
  from a b show ?thesis ..
qed

lemma waiting_never_returns:
  assumes "lock_held [] (pb_cache p w)"
    and "\<And>c v. pb_cache p (pb_set_cache p c v) = c"
    and "\<And>v. lock_held [] (pb_cache p v) \<Longrightarrow> lock_held [] (pb_cache p (snd (run_state (pb_Sleep p) v)))"
  shows "fst (run_state (GetCondition fuel p getter []) w) = Inr None"
  using assms(1)
proof (induction fuel arbitrary: w)
  case (Suc n)
  let ?w1 = "pb_set_cache p (pb_cache p w) w"
  let ?w2 = "pb_set_cache p (pb_cache p ?w1) ?w1"
  have held: "lock_held [] (pb_cache p ?w2)" using Suc.prems assms(2) by simp
  from assms(3) [OF held] have next_: "lock_held [] (pb_cache p (snd (run_state (pb_Sleep p) ?w2)))" .
  have "run_state (GetCondition (Suc n) p getter []) w =
      run_state (GetCondition n p getter []) (snd (run_state (pb_Sleep p) ?w2))"
    using Suc.prems by (simp add: probe_run start_held cache_Get_def split: prod.splits)
  then show ?case using Suc.IH [OF next_] by simp
qed simp

text \<open>C25. A probe of no endpoints takes a lock that it never gives back: after the first one, every later
  \<open>GetCondition\<close> for an empty list waits forever, whatever fuel it has, as long as no other goroutine
  clears the lock of the empty key.  (An in-cluster etcd without endpoints, a pulsar without endpoints
  and an external woodpecker without seeds are such lists.)\<close>

theorem empty_endpoints_probe_hangs:
  assumes "lock_free [] (pb_cache p w)"
    and "\<And>c v. pb_cache p (pb_set_cache p c v) = c"
    and "\<And>v. lock_held [] (pb_cache p v) \<Longrightarrow> lock_held [] (pb_cache p (snd (run_state (pb_Sleep p) v)))"
    and "\<And>v. pb_cache p (snd (run_state (getter []) v)) = pb_cache p v"
    and "run_state (GetCondition (Suc n) p getter []) w = (res, w')"
  shows "\<forall>fuel getter'. fst (run_state (GetCondition fuel p getter' []) w') = Inr None"
proof -
  let ?w1 = "pb_set_cache p (fmupd (lock_key []) (LockItem 1) (pb_cache p w)) w"
  obtain r w2 where g: "run_state (getter []) ?w1 = (r, w2)" by fastforce
  have "pb_cache p w2 = fmupd (lock_key []) (LockItem 1) (pb_cache p w)"
    using assms(4) [of ?w1] assms(2) g by simp
  then have "lock_held [] (pb_cache p w')"
    using assms(1,2,5) g
    by (cases r) (auto simp: probe_run start_free EndProbeFor_def cache_Set_def)
  from waiting_never_returns [OF this assms(2) assms(3)] show ?thesis by simp
qed

theorem empty_endpoints_probe_hangs_witness:
  "\<forall>fuel getter'. fst (run_state (GetCondition fuel ex_prober getter' [])
     (snd (run_state (GetCondition (Suc 0) ex_prober (\<lambda>_. ret msgStreamReadyCondition) []) (ex_wmem ex_small [] [] [])))) = Inr None"
  by (rule empty_endpoints_probe_hangs [OF _ _ _ _ surjective_pairing])
    (simp_all add: ex_prober_def ex_wmem_def lock_free_def lock_held_def)

end
