(* ===== verification/Health_Status.thy ===== *)
theory Health_Status
  imports Health_Correct
begin

text \<open>
  What a reconcile of an instance reports in its status: the health against the workloads that are stored
  when the pass starts, for every client that satisfies \<open>workload_store\<close>, and what becomes of the condition
  \<open>MilvusReady\<close>.
\<close>

section \<open>Conditions\<close>

lemma find_filter_typed: "t \<noteq> CondTypeEmpty \<Longrightarrow> find (\<lambda>d. mcd_Type d = t) (filter (\<lambda>c. mcd_Type c \<noteq> CondTypeEmpty) cs) = find (\<lambda>d. mcd_Type d = t) cs"
  by (induction cs) auto

lemma condition_true_update:
  assumes "t \<noteq> CondTypeEmpty"
  shows "IsMilvusConditionTrueByType (mst_Conditions (UpdateCondition now c st)) t \<longleftrightarrow>
    (if mcd_Type c = t then mcd_Status c = ConditionTrue else IsMilvusConditionTrueByType (mst_Conditions st) t)"
proof -
  let ?cs = "filter (\<lambda>c. mcd_Type c \<noteq> CondTypeEmpty) (mst_Conditions st)"
  have typed: "IsMilvusConditionTrueByType ?cs t = IsMilvusConditionTrueByType (mst_Conditions st) t"
    by (simp only: IsMilvusConditionTrueByType_def find_filter_typed [OF assms])
  show ?thesis
  proof (cases "mcd_Type c = CondTypeEmpty")
    case True
    then show ?thesis using assms typed by (simp add: UpdateCondition_def)
  next
    case c: False
    show ?thesis
    proof (cases "update_first_condition now c ?cs")
      case None
      then have "find (\<lambda>d. mcd_Type d = mcd_Type c) ?cs = None"
        by (metis (mono_tags, lifting) find_None_iff image_eqI update_first_None)
      with None c typed show ?thesis
        by (auto simp: UpdateCondition_def IsMilvusConditionTrueByType_def find_append split: option.splits)
    next
      case (Some ds)
      with c typed update_first_find [OF Some, of t] show ?thesis
        by (auto simp: UpdateCondition_def IsMilvusConditionTrueByType_def Let_def)
    qed
  qed
qed

section \<open>The instance during a pass\<close>

text \<open>Only the status changes, and of it neither the health nor the conditions.\<close>

definition observing :: "Milvus \<Rightarrow> Milvus \<Rightarrow> bool" where
  "observing mc0 mc \<longleftrightarrow> (\<exists>st. mc = mc0\<lparr>m_Status := st\<rparr> \<and> mst_Conditions st = mst_Conditions (m_Status mc0) \<and> mst_Status st = mst_Status (m_Status mc0))"

lemma observing_refl [simp]: "observing mc mc"
  unfolding observing_def by (rule exI [of _ "m_Status mc"]) simp

lemma observing_status:
  "observing mc0 mc \<Longrightarrow> mst_Conditions st = mst_Conditions (m_Status mc) \<Longrightarrow> mst_Status st = mst_Status (m_Status mc) \<Longrightarrow> observing mc0 (mc\<lparr>m_Status := st\<rparr>)"
  by (auto simp: observing_def)

lemma stopping_status [simp]: "isMilvusStoppingForReconcile x (mc\<lparr>m_Status := st\<rparr>) = isMilvusStoppingForReconcile x mc"
  by (simp add: isMilvusStoppingForReconcile_def isUpgradeStopping_def cong: option.case_cong)

lemma ready_status [simp]:
  "component_ready x (mc\<lparr>m_Status := st\<rparr>) ds ss c = component_ready x mc ds ss c" "component_entry x (mc\<lparr>m_Status := st\<rparr>) ds c = component_entry x mc ds c"
proof -
  have act: "active_deployment x (mc\<lparr>m_Status := st\<rparr>) ds c = active_deployment x mc ds c"
  proof -
    have "serves_workload x (mc\<lparr>m_Status := st\<rparr>) c = serves_workload x mc c"
      by (auto simp: fun_eq_iff serves_workload_def IsControlledBy_def GetCurrentGroupId_def cong: option.case_cong)
    moreover have "mark_rolling (mc\<lparr>m_Status := st\<rparr>) k = mark_rolling mc k" for k
      by (simp add: fun_eq_iff mark_rolling_def IsComponentRolling_def rolling_condition_def GetComponentRollingId_def)
    ultimately show ?thesis by (simp add: active_deployment_def)
  qed
  have sts: "componentUsesStatefulSet (mc\<lparr>m_Status := st\<rparr>) c = componentUsesStatefulSet mc c"
    by (simp add: componentUsesStatefulSet_def)
  show "component_ready x (mc\<lparr>m_Status := st\<rparr>) ds ss c = component_ready x mc ds ss c"
    "component_entry x (mc\<lparr>m_Status := st\<rparr>) ds c = component_entry x mc ds c"
    by (simp_all add: component_ready_def component_entry_def act sts cong: option.case_cong)
qed

lemma UpdateCondition_status [simp]: "mst_Status (UpdateCondition now c st) = mst_Status st"
  by (simp add: UpdateCondition_def Let_def split: option.splits)

text \<open>The condition \<open>MilvusReady\<close>, or an empty one when all workloads are available and no entry serves.\<close>

definition checked :: "bool \<Rightarrow> bool \<Rightarrow> MilvusCondition \<Rightarrow> bool" where
  "checked all_ready entry cond \<longleftrightarrow> (if all_ready \<and> \<not> entry then cond = empty_condition
     else mcd_Type cond = MilvusReady \<and> (mcd_Status cond = ConditionTrue \<longleftrightarrow> all_ready \<and> entry))"

lemma checked_healthy: "checked a e cond \<Longrightarrow> mcd_Status cond = ConditionTrue \<longleftrightarrow> a \<and> e"
  by (auto simp: checked_def empty_condition_def mk_condition_def split: if_splits)

lemma wp_always: "(\<And>res v'. P res v') \<Longrightarrow> wp m v P"
  by (auto intro: wpI)

section \<open>The pass\<close>

text \<open>What is reported, from whether all workloads are available and whether an entry serves.\<close>

definition reported :: "Milvus \<Rightarrow> bool \<Rightarrow> bool \<Rightarrow> Milvus \<Rightarrow> bool" where
  "reported mc0 all_ready entry mc \<longleftrightarrow>
     mst_Status (m_Status mc) = GetMilvusHealthStatus \<lparr>mh_LastState = mst_Status (m_Status mc0), mh_IsStopping = False, mh_IsHealthy = all_ready \<and> entry\<rparr> \<and>
     (IsMilvusConditionTrueByType (mst_Conditions (m_Status mc)) MilvusReady \<longleftrightarrow>
       (if all_ready \<and> \<not> entry then IsMilvusConditionTrueByType (mst_Conditions (m_Status mc0)) MilvusReady else all_ready \<and> entry))"

context workload_store
begin

lemma wp_instance_condition:
  assumes "sy_r s = r" "inj_on (GetStateKey (rc_x r)) (set (GetComponentWorkloadsBySpec (rc_x r) (m_Spec mc)))"
    and "isMilvusStoppingForReconcile (rc_x r) mc = Some False" "\<And>e. Q (Inl e) w"
    and "\<And>cond. checked (\<forall>c \<in> set (GetComponentWorkloadsBySpec (rc_x r) (m_Spec mc)). component_ready (rc_x r) mc (selected (om_Namespace mc) (instance_labels mc) (deps w)) (stss w) c)
      (\<exists>c \<in> set (GetComponentWorkloadsBySpec (rc_x r) (m_Spec mc)). component_entry (rc_x r) mc (selected (om_Namespace mc) (instance_labels mc) (deps w)) c) cond \<Longrightarrow> Q (Inr cond) w"
  shows "wp (GetMilvusInstanceCondition s mc) w Q"
  unfolding GetMilvusInstanceCondition_def sy_x_def assms(1) assms(3)
  using assms(2,4)
  by (auto simp: workload_map_lookup instance_condition_def mk_condition_def checked_def Let_def assms(1)
      intro!: wp_ListDeployments wp_check_components [OF assms(1), where ds = "selected (om_Namespace mc) (instance_labels mc) (deps w)"] assms(5)
      split: if_splits)

lemma wp_workload_statuses:
  assumes "sy_r s = r" "\<And>res. Q res w"
  shows "wp (workload_statuses s mc ds ws m) w Q"
  using assms(2)
proof (induction ws arbitrary: m)
  case (Cons c cs)
  have "wp (workload_status s mc ds c m) w (\<lambda>res v. v = w)"
    by (auto simp: workload_status_def assms(1) Let_def intro!: wp_getStatefulSetForComponent split: option.splits)
  then have "wp (workload_status s mc ds c m) w (\<lambda>res v. case res of Inl e \<Rightarrow> Q (Inl e) v | Inr m' \<Rightarrow> wp (workload_statuses s mc ds cs m') v Q)"
    by (rule wp_mono) (use Cons in \<open>auto split: sum.splits\<close>)
  then show ?case by simp
qed simp

lemma wp_deploy_status:
  assumes "sy_r s = r" "observing mc0 mc" "\<And>e. Q (Inl e) w" "\<And>mc'. observing mc0 mc' \<Longrightarrow> Q (Inr mc') w"
  shows "wp (deployStatusUpdater_Update s mc) w Q"
  unfolding deployStatusUpdater_Update_def assms(1) using assms(2,3)
  by (auto intro!: wp_ListDeployments wp_workload_statuses [OF assms(1)] assms(4) observing_status split: sum.splits)

lemma wp_ingress_status:
  assumes "\<And>ns name v res v'. run_state (sy_GetIngressStatus s ns name) v = (res, v') \<Longrightarrow> v' = v"
    and "observing mc0 mc" "\<And>e. Q (Inl e) w" "\<And>mc'. observing mc0 mc' \<Longrightarrow> Q (Inr mc') w"
  shows "wp (UpdateIngressStatus s mc) w Q"
proof -
  have get: "wp (sy_GetIngressStatus s ns name) w P" if "\<And>res. P res w" for ns name P
    by (rule wpI) (use assms(1) that in blast)
  show ?thesis
    unfolding UpdateIngressStatus_def getIngressStatus_def using assms(2-4)
    by (auto simp: or_panic_def wp_get_if_exists intro!: get assms(4) observing_status split: option.splits sum.splits)
qed

lemma wp_endpoint:
  assumes "sy_r s = r" "\<And>res. Q res w"
  shows "wp (GetMilvusEndpoint s mc) w Q"
proof -
  have get: "wp (rc_GetService r ns name) w P" if "\<And>res. P res w" for ns name P
    by (rule wpI) (use get_service that in blast)
  show ?thesis
    unfolding GetMilvusEndpoint_def assms(1) using assms(2) by (auto simp: or_panic_def intro!: get split: option.splits)
qed

text \<open>The end of a pass: the condition of updates, then the health.\<close>

lemma wp_updated_condition:
  assumes "\<And>e v. Q (Inl e) v"
    and "\<And>cond v. mcd_Type cond = MilvusUpdated \<Longrightarrow> Q (Inr (mc\<lparr>m_Status := UpdateCondition (sy_now s) cond (m_Status mc)\<rparr>)) v"
  shows "wp (syncUpdatedCondition s mc) w Q"
proof -
  have t: "mcd_Type (GetMilvusUpdatedCondition (sy_x s) mc) = MilvusUpdated"
    by (simp add: GetMilvusUpdatedCondition_def mk_condition_def Let_def)
  show ?thesis
    unfolding syncUpdatedCondition_def handleTerminatingPods_def ListMilvusTerminatingPods_def listMilvusPods_def
    using assms t by (auto simp: Let_def intro!: wp_always split: sum.splits)
qed

lemma wp_finish_status:
  assumes "isMilvusStoppingForReconcile (sy_x s) mc = Some False" "\<And>e v. Q (Inl e) v"
    and "\<And>mc' v. mst_Conditions (m_Status mc') = mst_Conditions (m_Status mc) \<Longrightarrow>
      mst_Status (m_Status mc') = GetMilvusHealthStatus \<lparr>mh_LastState = mst_Status (m_Status mc), mh_IsStopping = False,
        mh_IsHealthy = (mcd_Status cond = ConditionTrue)\<rparr> \<Longrightarrow> Q (Inr mc') v"
  shows "wp (finish_status s st cond mc) w Q"
proof -
  define st' where "st' = m_Status (record_current_version mc)"
  have rec: "record_current_version mc = mc\<lparr>m_Status := st'\<rparr>" "mst_Conditions st' = mst_Conditions (m_Status mc)" "mst_Status st' = mst_Status (m_Status mc)"
    by (simp_all add: st'_def record_current_version_def)
  show ?thesis
    unfolding finish_status_def using assms rec by (auto simp: or_panic_def Let_def intro!: wp_always split: sum.splits)
qed

lemma reconcile_reports:
  fixes w :: 'w
  assumes "sy_r s = r" "\<And>ns name v res v'. run_state (sy_GetIngressStatus s ns name) v = (res, v') \<Longrightarrow> v' = v"
    and "inj_on (GetStateKey (rc_x r)) (set (GetComponentWorkloadsBySpec (rc_x r) (m_Spec mc)))"
    and "isMilvusStoppingForReconcile (rc_x r) mc = Some False"
  defines "ds \<equiv> selected (om_Namespace mc) (instance_labels mc) (deps w)" and "ws \<equiv> set (GetComponentWorkloadsBySpec (rc_x r) (m_Spec mc))"
  shows "wp (UpdateStatusForNewGeneration s mc False) w (\<lambda>res w'. \<forall>mc'. res = Inr mc' \<longrightarrow>
    reported mc (\<forall>c \<in> ws. component_ready (rc_x r) mc ds (stss w) c) (\<exists>c \<in> ws. component_entry (rc_x r) mc ds c) mc')" (is "wp _ _ ?Q")
proof -
  define a where "a = (\<forall>c \<in> ws. component_ready (rc_x r) mc ds (stss w) c)"
  define e where "e = (\<exists>c \<in> ws. component_entry (rc_x r) mc ds c)"
  have x: "sy_x s = rc_x r" by (simp add: sy_x_def assms(1))
  have fin: "wp (op_bind (op_wrap msg (syncUpdatedCondition s (m\<lparr>m_Status := UpdateCondition (sy_now s) cond (m_Status m)\<rparr>))) (finish_status s st cond)) v
      (\<lambda>res w'. \<forall>mc'. res = Inr mc' \<longrightarrow> reported mc a e mc')" if obs: "observing mc m" and cond: "checked a e cond" for m cond msg st v
  proof -
    obtain st0 where m: "m = mc\<lparr>m_Status := st0\<rparr>" "mst_Conditions st0 = mst_Conditions (m_Status mc)" "mst_Status st0 = mst_Status (m_Status mc)"
      using obs by (auto simp: observing_def)
    have "reported mc a e mc'" if "mcd_Type upd = MilvusUpdated"
      "mst_Conditions (m_Status mc') = mst_Conditions (UpdateCondition (sy_now s) upd (UpdateCondition (sy_now s) cond (m_Status m)))"
      "mst_Status (m_Status mc') = GetMilvusHealthStatus \<lparr>mh_LastState = mst_Status (m_Status m), mh_IsStopping = False, mh_IsHealthy = (mcd_Status cond = ConditionTrue)\<rparr>"
      for mc' upd
      using that m cond checked_healthy [OF cond]
      by (auto simp: reported_def condition_true_update checked_def empty_condition_def mk_condition_def split: if_splits)
    then show ?thesis
      unfolding wp_bind wp_wrap using assms(4)
      by (intro wp_updated_condition) (auto simp: m(1) x intro!: wp_finish_status)
  qed
  have rest: "wp (syncUpdatedCondition s (m\<lparr>m_Status := UpdateCondition (sy_now s) cond st0\<rparr>)) v (\<lambda>res v'. \<forall>m'. res = Inr m' \<longrightarrow>
      wp (finish_status s st cond m') v' (\<lambda>res w'. \<forall>mc'. res = Inr mc' \<longrightarrow> reported mc a e mc'))"
    if "observing mc (m\<lparr>m_Status := st0\<rparr>)" "checked a e cond" for m cond st st0 v
    using fin [OF that, of "[]" st v] by (auto elim!: wp_mono split: sum.splits)
  have check: "wp (GetMilvusInstanceCondition s m) w P"
    if obs: "observing mc m" and P: "\<And>err. P (Inl err) w" "\<And>cond. checked a e cond \<Longrightarrow> P (Inr cond) w" for m P
  proof -
    obtain st0 where m: "m = mc\<lparr>m_Status := st0\<rparr>" using obs by (auto simp: observing_def)
    show ?thesis
      by (rule wp_instance_condition [OF assms(1)])
        (use assms(3,4) P in \<open>auto simp: m a_def e_def ds_def ws_def instance_labels_def\<close>)
  qed
  have "observing mc (mc\<lparr>m_Status := (m_Status mc)\<lparr>mst_ObservedGeneration := om_Generation mc\<rparr>\<rparr>)" by (auto simp: observing_def)
  then have "wp (UpdateStatusForNewGeneration s mc False) w (\<lambda>res w'. \<forall>mc'. res = Inr mc' \<longrightarrow> reported mc a e mc')"
    unfolding UpdateStatusForNewGeneration_def
    by (auto simp: Let_def intro!: wp_ingress_status [OF assms(2)] wp_deploy_status [OF assms(1)] wp_endpoint [OF assms(1)] check rest observing_status
        split: sum.splits)
  then show ?thesis by (simp only: a_def e_def)
qed

end

section \<open>Property\<close>

text \<open>C9. What a reconcile of a running instance reports, when it succeeds: the status is healthy exactly
  when every workload is available and an entry component has a ready replica, and otherwise unhealthy (or
  pending, if the instance was never healthy).  The condition \<open>MilvusReady\<close> says the same, except when all
  workloads are available and no entry serves: then it keeps the value it had.\<close>

theorem reconcile_reports_health:
  assumes "workload_store (sy_r s) deps pods milvus stss pvcs"
    and "\<And>ns name v res v'. run_state (sy_GetIngressStatus s ns name) v = (res, v') \<Longrightarrow> v' = v"
    and "inj_on (GetStateKey (sy_x s)) (set (GetComponentWorkloadsBySpec (sy_x s) (m_Spec mc)))"
    and "isMilvusStoppingForReconcile (sy_x s) mc = Some False"
    and "run_state (UpdateStatusForNewGeneration s mc False) w = (Inr mc', w')"
  shows "let ds = selected (om_Namespace mc) (instance_labels mc) (deps w); ws = set (GetComponentWorkloadsBySpec (sy_x s) (m_Spec mc));
       all_ready = (\<forall>c \<in> ws. component_ready (sy_x s) mc ds (stss w) c); entry = (\<exists>c \<in> ws. component_entry (sy_x s) mc ds c);
       before = mst_Status (m_Status mc); ready = IsMilvusConditionTrueByType (mst_Conditions (m_Status mc')) MilvusReady in
     mst_Status (m_Status mc') = (if all_ready \<and> entry then StatusHealthy else if before \<in> {StatusHealthy, StatusUnhealthy} then StatusUnhealthy else StatusPending) \<and>
     (if all_ready \<and> \<not> entry then ready = IsMilvusConditionTrueByType (mst_Conditions (m_Status mc)) MilvusReady else ready = (all_ready \<and> entry))"
proof -
  have x: "sy_x s = rc_x (sy_r s)" by (simp add: sy_x_def)
  from wpD [OF workload_store.reconcile_reports [OF assms(1) refl assms(2) assms(3,4) [unfolded x]] assms(5)]
  show ?thesis by (auto simp: x reported_def GetMilvusHealthStatus_def Let_def)
qed

text \<open>The standalone Deployment is available with no ready replica; the instance was healthy before.\<close>

definition ex_idle_deploy :: Deployment where
  "ex_idle_deploy = (let d = ex_owned ''mc-milvus-standalone'' ''standalone'' [] in d\<lparr>d_Replicas := Some 0, d_Status := (d_Status d)\<lparr>dst_ReadyReplicas := 0\<rparr>\<rparr>)"

definition ex_idle :: Milvus where
  "ex_idle = ex_small\<lparr>m_Spec := (m_Spec ex_small)\<lparr>ms_Com := (ms_Com (m_Spec ex_small))\<lparr>com_Standalone := Some zero_ServiceComponent\<rparr>\<rparr>,
     m_Status := (m_Status ex_small)\<lparr>mst_Status := StatusHealthy,
     mst_Conditions := [mk_condition MilvusReady ConditionTrue ''ReasonMilvusHealthy'' ''All Milvus components are healthy'']\<rparr>\<rparr>"

text \<open>The pass on it, one step after another: each definition is the instance after the next step.\<close>

definition result_of :: "go_error + 'a \<Rightarrow> 'a \<Rightarrow> 'a" where
  "result_of res d = (case res of Inl _ \<Rightarrow> d | Inr v \<Rightarrow> v)"

definition ex_idle_mem :: wmem where
  "ex_idle_mem = ex_wmem ex_idle [ex_idle_deploy] [] []"

definition ex_idle_observed :: Milvus where
  "ex_idle_observed = ex_idle\<lparr>m_Status := (m_Status ex_idle)\<lparr>mst_ObservedGeneration := om_Generation ex_idle\<rparr>\<rparr>"

definition ex_idle_ingress :: Milvus where
  "ex_idle_ingress = result_of (fst (run_state (UpdateIngressStatus ex_syncer ex_idle_observed) ex_idle_mem)) ex_idle"

definition ex_idle_deployed :: Milvus where
  "ex_idle_deployed = result_of (fst (run_state (deployStatusUpdater_Update ex_syncer ex_idle_ingress) ex_idle_mem)) ex_idle"

definition ex_idle_checked :: Milvus where
  "ex_idle_checked = ex_idle_deployed\<lparr>m_Status := (m_Status ex_idle_deployed)\<lparr>mst_Endpoint := []\<rparr>\<rparr>"

definition ex_idle_noted :: Milvus where
  "ex_idle_noted = ex_idle_checked\<lparr>m_Status := UpdateCondition (sy_now (ex_syncer :: wmem Syncer)) empty_condition (m_Status ex_idle_checked)\<rparr>"

definition ex_idle_updated :: Milvus where
  "ex_idle_updated = result_of (fst (run_state (syncUpdatedCondition ex_syncer ex_idle_noted) ex_idle_mem)) ex_idle"

lemma ex_idle_steps:
  "run_state (UpdateIngressStatus ex_syncer ex_idle_observed) ex_idle_mem = (Inr ex_idle_ingress, ex_idle_mem)"
  "run_state (deployStatusUpdater_Update ex_syncer ex_idle_ingress) ex_idle_mem = (Inr ex_idle_deployed, ex_idle_mem)"
  "run_state (GetMilvusEndpoint ex_syncer ex_idle_deployed) ex_idle_mem = (Inr [], ex_idle_mem)"
  "run_state (GetMilvusInstanceCondition ex_syncer ex_idle_checked) ex_idle_mem = (Inr empty_condition, ex_idle_mem)"
  "run_state (syncUpdatedCondition ex_syncer ex_idle_noted) ex_idle_mem = (Inr ex_idle_updated, ex_idle_mem)"
  by code_simp+

lemma ex_idle_finished:
  "\<exists>mc' w'. run_state (finish_status ex_syncer (m_Status ex_idle) empty_condition ex_idle_updated) ex_idle_mem = (Inr mc', w')"
proof -
  have "(case fst (run_state (finish_status ex_syncer (m_Status ex_idle) empty_condition ex_idle_updated) ex_idle_mem) of Inl _ \<Rightarrow> False | Inr _ \<Rightarrow> True)"
    by code_simp
  then show ?thesis
    by (cases "run_state (finish_status ex_syncer (m_Status ex_idle) empty_condition ex_idle_updated) ex_idle_mem") (auto split: sum.splits)
qed

lemma ex_idle_noted_from:
  "ex_idle_deployed\<lparr>m_Status := UpdateCondition (sy_now (ex_syncer :: wmem Syncer)) empty_condition ((m_Status ex_idle_deployed)\<lparr>mst_Endpoint := []\<rparr>)\<rparr> = ex_idle_noted"
  by (simp add: ex_idle_noted_def ex_idle_checked_def)

lemma ex_idle_run: "\<exists>mc' w'. run_state (UpdateStatusForNewGeneration ex_syncer ex_idle False) ex_idle_mem = (Inr mc', w')"
  using ex_idle_finished ex_idle_steps
  unfolding UpdateStatusForNewGeneration_def Let_def ex_idle_observed_def [symmetric]
  by (simp add: run_op_bind run_op_wrap ex_idle_checked_def [symmetric] ex_idle_noted_from)

theorem reconcile_reports_health_witness:
  "\<exists>mc' w'. run_state (UpdateStatusForNewGeneration ex_syncer ex_idle False) (ex_wmem ex_idle [ex_idle_deploy] [] []) = (Inr mc', w') \<and>
     mst_Status (m_Status mc') = StatusUnhealthy \<and> IsMilvusConditionTrueByType (mst_Conditions (m_Status mc')) MilvusReady"
proof -
  define w :: wmem where "w = ex_wmem ex_idle [ex_idle_deploy] [] []"
  have store: "workload_store (sy_r ex_syncer) mem_deps mem_pods mem_milvus wm_stss wm_pvcs"
    by (simp add: wm.workload_store_axioms)
  from ex_idle_run obtain mc' w' where run: "run_state (UpdateStatusForNewGeneration ex_syncer ex_idle False) w = (Inr mc', w')"
    by (auto simp: w_def ex_idle_mem_def)
  have ws: "GetComponentWorkloadsBySpec std_x (m_Spec ex_idle) = [MilvusStandalone]" by code_simp
  have ds: "selected (om_Namespace ex_idle) (instance_labels ex_idle) (mem_deps w) = [ex_idle_deploy]" unfolding w_def by code_simp
  have st: "isMilvusStoppingForReconcile std_x ex_idle = Some False" by code_simp
  have a: "component_ready std_x ex_idle [ex_idle_deploy] (wm_stss w) MilvusStandalone" unfolding w_def by code_simp
  have e: "\<not> component_entry std_x ex_idle [ex_idle_deploy] MilvusStandalone"
  proof -
    have "(case active_deployment std_x ex_idle [ex_idle_deploy] MilvusStandalone of None \<Rightarrow> True | Some d \<Rightarrow> \<not> 0 < dst_ReadyReplicas (d_Status d))" by code_simp
    then show ?thesis by (auto simp: component_entry_def)
  qed
  have c: "IsMilvusConditionTrueByType (mst_Conditions (m_Status ex_idle)) MilvusReady" "mst_Status (m_Status ex_idle) = StatusHealthy" by code_simp+
  have ing: "run_state (sy_GetIngressStatus (ex_syncer :: wmem Syncer) ns name) v = (res, v') \<Longrightarrow> v' = v" for ns name v res v'
    by (simp add: ex_syncer_def)
  from reconcile_reports_health [OF store ing _ _ run]
  have "mst_Status (m_Status mc') = StatusUnhealthy \<and> IsMilvusConditionTrueByType (mst_Conditions (m_Status mc')) MilvusReady"
    using a e c st ws ds by (simp add: Let_def)
  with run show ?thesis unfolding w_def by blast
qed

end
