(* ===== verification/Value_Codec.thy ===== *)
theory Value_Codec
  imports Status
begin

text \<open>
  Untyped values and their JSON form (apis/milvus.io/v1beta1/values_types.go and \<open>DeepCopyValues\<close> of
  pkg/util/util.go), the context that carries the generated storage settings through a pass
  (deployment_updater.go), the lists of terminating pods (component_condition.go) and the gauges the syncer
  sets (status_cluster.go).  encoding/json is a record of functions; that it reads back what it wrote is \<open>reads_back\<close>.
\<close>

section \<open>JSON\<close>

record json_lib =
  jl_Marshal :: "json \<Rightarrow> go_error + string"
  jl_Unmarshal :: "string \<Rightarrow> go_error + json"

text \<open>What was written is read back.\<close>

definition reads_back :: "json_lib \<Rightarrow> bool" where
  "reads_back jl \<longleftrightarrow> (\<forall>j s. jl_Marshal jl j = Inr s \<longrightarrow> jl_Unmarshal jl s = Inr j)"

text \<open>Reading into a map of interfaces takes an object or null.\<close>

definition unmarshal_map :: "json_lib \<Rightarrow> string \<Rightarrow> go_error + Values" where
  "unmarshal_map jl data =
     (case jl_Unmarshal jl data of
        Inl e \<Rightarrow> Inl e
      | Inr JNull \<Rightarrow> Inr None
      | Inr (JObj m) \<Rightarrow> Inr (Some m)
      | Inr _ \<Rightarrow> Inl (Errorf ''json: cannot unmarshal into Go value of type map[string]interface {}''))"

section \<open>Values\<close>

definition Values_MarshalJSON :: "json_lib \<Rightarrow> Values \<Rightarrow> go_error + string" where
  "Values_MarshalJSON jl v = jl_Marshal jl (json_of_Values v)"

definition Values_UnmarshalJSON :: "json_lib \<Rightarrow> string \<Rightarrow> go_error + Values" where
  "Values_UnmarshalJSON jl data =
     (case unmarshal_map jl data of Inl e \<Rightarrow> Inl e | Inr out \<Rightarrow> Inr out)"

text \<open>\<open>None\<close> is the panic.\<close>

definition Values_DeepCopyInto :: "json_lib \<Rightarrow> Values \<Rightarrow> Values option" where
  "Values_DeepCopyInto jl v =
     (case jl_Marshal jl (json_of_Values v) of
        Inl _ \<Rightarrow> None
      | Inr b \<Rightarrow> (case unmarshal_map jl b of Inl _ \<Rightarrow> None | Inr c \<Rightarrow> Some c))"

text \<open>\<open>decode\<close> reads the JSON text into the object, whose type is called \<open>typ\<close>.\<close>

definition Values_AsObject :: "json_lib \<Rightarrow> string \<Rightarrow> (string \<Rightarrow> go_error + 'o) \<Rightarrow> Values \<Rightarrow> go_error + 'o" where
  "Values_AsObject jl typ decode v =
     (case Values_MarshalJSON jl v of
        Inl e \<Rightarrow> Inl (Errorf (''failed to marshal values: '' @ error_text e))
      | Inr marshaled \<Rightarrow>
          (case decode marshaled of
             Inl e \<Rightarrow> Inl (Errorf (''failed to unmarshal values as obj['' @ typ @ '']: '' @ error_text e))
           | Inr ob \<Rightarrow> Inr ob))"

definition Values_MustAsObj :: "json_lib \<Rightarrow> string \<Rightarrow> (string \<Rightarrow> go_error + 'o) \<Rightarrow> Values \<Rightarrow> 'o option" where
  "Values_MustAsObj jl typ decode v = (case Values_AsObject jl typ decode v of Inl _ \<Rightarrow> None | Inr ob \<Rightarrow> Some ob)"

text \<open>The JSON text is read into the map that is there: \<open>encoding/json\<close> keeps its other entries, and null clears it.\<close>

definition Values_FromObject :: "json_lib \<Rightarrow> ('o \<Rightarrow> go_error + string) \<Rightarrow> Values \<Rightarrow> 'o \<Rightarrow> go_error + Values" where
  "Values_FromObject jl encode v ob =
     (case encode ob of
        Inl e \<Rightarrow> Inl (Errorf (''failed to marshal values: '' @ error_text e))
      | Inr marshaled \<Rightarrow>
          (case unmarshal_map jl marshaled of
             Inl e \<Rightarrow> Inl (Errorf (''failed to unmarshal values: '' @ error_text e))
           | Inr None \<Rightarrow> Inr None
           | Inr (Some m) \<Rightarrow> Inr (Some (case v of None \<Rightarrow> m | Some old \<Rightarrow> old ++\<^sub>f m))))"

definition DeepCopyValues :: "json_lib \<Rightarrow> Values \<Rightarrow> Values option" where
  "DeepCopyValues jl input =
     (case jl_Marshal jl (json_of_Values input) of
        Inl _ \<Rightarrow> None
      | Inr b \<Rightarrow> (case unmarshal_map jl b of Inl _ \<Rightarrow> None | Inr out \<Rightarrow> Some out))"

section \<open>Settings carried by the context\<close>

definition contextWithStorageEndpointEnv :: "EnvVar list option \<Rightarrow> EnvVar list \<Rightarrow> EnvVar list option" where
  "contextWithStorageEndpointEnv ctx env = (if length env = 0 then ctx else Some env)"

definition storageEndpointEnvFromContext :: "EnvVar list option \<Rightarrow> EnvVar list" where
  "storageEndpointEnvFromContext ctx = (case ctx of None \<Rightarrow> [] | Some env \<Rightarrow> env)"

section \<open>Terminating pods\<close>

definition listPodByOpts :: "'w Client \<Rightarrow> string \<Rightarrow> smap \<Rightarrow> ('w, Pod list) op" where
  "listPodByOpts cli ns sel = cli_ListPods cli ns sel"

fun filterTerminatingPod :: "Pod list \<Rightarrow> Pod list" where
  "filterTerminatingPod [] = []"
| "filterTerminatingPod (pod # pods) =
     (if om_DeletionTimestamp pod \<noteq> None then pod # filterTerminatingPod pods else filterTerminatingPod pods)"

definition listTerminatingPodByOpts :: "'w Client \<Rightarrow> string \<Rightarrow> smap \<Rightarrow> ('w, Pod list) op" where
  "listTerminatingPodByOpts cli ns sel = op_bind (listPodByOpts cli ns sel) (\<lambda>podList. ret (filterTerminatingPod podList))"

section \<open>Gauges\<close>

text \<open>\<open>gauge\<close> sets the gauge of a status.\<close>

definition updateMetrics :: "'w Syncer \<Rightarrow> (MilvusHealthStatus \<Rightarrow> int \<Rightarrow> ('w, unit) state) \<Rightarrow> ('w, unit) op" where
  "updateMetrics s gauge =
     op_bind (op_wrap ''list milvus failed'' (sy_ListMilvus s)) (\<lambda>mcs.
       (case updateMetrics_counts mcs of (healthy, unhealthy, deleting, creating) \<Rightarrow> do {
          _ \<leftarrow> gauge StatusHealthy healthy;
          _ \<leftarrow> gauge StatusUnhealthy unhealthy;
          _ \<leftarrow> gauge StatusDeleting deleting;
          _ \<leftarrow> gauge StatusPending creating;
          ret () }))"

section \<open>Facts\<close>

lemma unmarshal_values:
  "reads_back jl \<Longrightarrow> jl_Marshal jl (json_of_Values v) = Inr s \<Longrightarrow> unmarshal_map jl s = Inr v"
  by (auto simp: reads_back_def unmarshal_map_def json_of_Values_def split: option.splits)

lemma values_read_back: "reads_back jl \<Longrightarrow> Values_MarshalJSON jl v = Inr s \<Longrightarrow> Values_UnmarshalJSON jl s = Inr v"
  by (simp add: Values_MarshalJSON_def Values_UnmarshalJSON_def unmarshal_values)

text \<open>A copy is the value itself, and copying panics only when the value cannot be written at all.\<close>

lemma deep_copy:
  "reads_back jl \<Longrightarrow> jl_Marshal jl (json_of_Values v) = Inr s \<Longrightarrow> Values_DeepCopyInto jl v = Some v \<and> DeepCopyValues jl v = Some v"
  by (simp add: Values_DeepCopyInto_def DeepCopyValues_def unmarshal_values)

text \<open>An object that is written as a JSON object is read back from fresh values.  Values that are not fresh keep their
  entries that the object does not have.\<close>

lemma object_read_back:
  assumes "reads_back jl" "encode ob = jl_Marshal jl (JObj m)" "Values_FromObject jl encode None ob = Inr v" "\<And>s. encode ob = Inr s \<Longrightarrow> decode s = Inr ob"
  shows "Values_AsObject jl typ decode v = Inr ob"
proof -
  obtain s where s: "encode ob = Inr s" using assms(3) by (auto simp: Values_FromObject_def split: sum.splits)
  then have "unmarshal_map jl s = Inr (Some m)" using assms(2) unmarshal_values [OF assms(1), of "Some m" s] by (auto simp: json_of_Values_def)
  then have "v = Some m" using s assms(3) by (simp add: Values_FromObject_def)
  then show ?thesis using s assms(2,4) by (simp add: Values_AsObject_def Values_MarshalJSON_def json_of_Values_def)
qed

lemma object_keeps_entries:
  assumes "reads_back jl" "encode ob = jl_Marshal jl (JObj m)" "Values_FromObject jl encode (Some old) ob = Inr v"
  shows "v = Some (old ++\<^sub>f m)"
proof -
  obtain s where s: "encode ob = Inr s" using assms(3) by (auto simp: Values_FromObject_def split: sum.splits)
  then have "unmarshal_map jl s = Inr (Some m)" using assms(2) unmarshal_values [OF assms(1), of "Some m" s] by (auto simp: json_of_Values_def)
  then show ?thesis using s assms(3) by (simp add: Values_FromObject_def)
qed

lemma context_env: "storageEndpointEnvFromContext (contextWithStorageEndpointEnv None env) = env"
  by (simp add: storageEndpointEnvFromContext_def contextWithStorageEndpointEnv_def)

lemma filterTerminatingPod_filter: "filterTerminatingPod pods = filter (\<lambda>pod. om_DeletionTimestamp pod \<noteq> None) pods"
  by (induction pods) auto

lemma ListMilvusTerminatingPods_opts:
  "ListMilvusTerminatingPods s mc = listTerminatingPodByOpts (rc_cli (sy_r s)) (om_Namespace mc) (NewAppLabels (om_Name mc))"
  by (simp add: ListMilvusTerminatingPods_def listMilvusPods_def listTerminatingPodByOpts_def listPodByOpts_def filterTerminatingPod_filter)

text \<open>Every instance is counted under exactly one status.\<close>

lemma updateMetrics_total:
  "updateMetrics_counts mcs = (h, u, d, c) \<Longrightarrow> h + u + d + c = int (length mcs) \<and> 0 \<le> h \<and> 0 \<le> u \<and> 0 \<le> d \<and> 0 \<le> c"
proof (induction mcs arbitrary: h u d c rule: rev_induct)
  case (snoc mc mcs)
  obtain h' u' d' c' where p: "updateMetrics_counts mcs = (h', u', d', c')" by (cases "updateMetrics_counts mcs") auto
  with snoc show ?case by (auto simp: updateMetrics_counts_def split: MilvusHealthStatus.splits)
qed (simp add: updateMetrics_counts_def)

end
