(* ===== verification/Claim_Names.thy ===== *)
theory Claim_Names
  imports StatefulSets
begin

text \<open>
  Names of volume claims.  A StatefulSet names the claim of template \<open>t\<close> and replica \<open>i\<close>
  \<open>t-sts-i\<close>; \<open>matchStatefulSetPVCOrdinal\<close> reads the replica back.  The name is unambiguous: whichever
  prefixes are tried, only the claim's own prefix leaves a number behind.
\<close>

section \<open>Numbers\<close>

lemma char_digit_dash [simp]: "char_digit CHR ''-'' = None"
  by code_simp

lemma parse_digits_no_dash: "parse_digits acc s = Some n \<Longrightarrow> CHR ''-'' \<notin> set s"
  by (induction s arbitrary: acc) (auto split: option.splits)

lemma digits_of_no_dash: "CHR ''-'' \<notin> set (digits_of n)"
  using parse_digits_no_dash [OF parse_digits_digits_of] .

lemma itoa_no_dash: "0 \<le> i \<Longrightarrow> CHR ''-'' \<notin> set (itoa i)"
  by (simp add: itoa_def digits_of_no_dash)

lemma atoi_no_inner_dash:
  assumes "atoi s = Some n"
  shows "CHR ''-'' \<notin> set (tl s)"
  using assms
  by (cases s) (auto simp: atoi_def parse_nat_def split: if_splits option.splits dest: parse_digits_no_dash)

section \<open>Prefixes\<close>

text \<open>What is left behind a prefix is a number only for the whole prefix of the claim.\<close>

lemma numeric_rest_own_prefix:
  assumes name: "u @ ''-'' @ itoa i = q @ s" and q: "last q = CHR ''-''" "q \<noteq> []"
    and i: "0 \<le> i" and u: "u \<noteq> []" "last u \<noteq> CHR ''-''" and s: "atoi s = Some n"
  shows "q = u @ ''-''"
proof -
  define P where "P = u @ ''-''"
  have "P @ itoa i = q @ s" using name by (simp add: P_def)
  then consider z where "P = q @ z" "s = z @ itoa i" | z where "q = P @ z" "itoa i = z @ s" "z \<noteq> []"
    by (metis append_Nil2 append_eq_append_conv2 append_self_conv2)
  then have "q = P"
  proof cases
    case (1 z)
    show ?thesis
    proof (cases z)
      case (Cons c cs)
      have last: "last z = CHR ''-''" using 1(1) Cons by (metis P_def last_appendR last_snoc list.discI)
      show ?thesis
      proof (cases cs)
        case Nil
        then have "u = q" using 1(1) Cons by (simp add: P_def)
        then show ?thesis using q u by simp
      next
        case (Cons d ds)
        then have "CHR ''-'' \<in> set cs" using last \<open>z = c # cs\<close> by (metis last.simps last_in_set list.discI)
        then have "CHR ''-'' \<in> set (tl s)" using 1(2) \<open>z = c # cs\<close> by simp
        then show ?thesis using atoi_no_inner_dash [OF s] by simp
      qed
    qed (use 1 in simp)
  next
    case (2 z)
    then have "CHR ''-'' \<in> set (itoa i)" using q(1) by (metis Un_iff last_appendR last_in_set set_append)
    then show ?thesis using itoa_no_dash [OF i] by simp
  qed
  then show ?thesis by (simp add: P_def)
qed

lemma pvc_prefixes_form: "q \<in> set (pvc_prefixes sts) \<Longrightarrow> q \<noteq> [] \<and> last q = CHR ''-''"
  by (auto simp: pvc_prefixes_def)

lemma match_claim_name:
  assumes "\<forall>q \<in> set prefixes. q \<noteq> [] \<and> last q = CHR ''-''" "u \<noteq> []" "last u \<noteq> CHR ''-''" "0 \<le> i" "i < 2 ^ 63"
  shows "matchStatefulSetPVCOrdinal (u @ ''-'' @ itoa i) prefixes = (if u @ ''-'' \<in> set prefixes then Some (to_int32 i) else None)"
  using assms(1)
proof (induction prefixes)
  case (Cons q qs)
  have num: "atoi (itoa i) = Some i" using assms(4,5) by (simp add: atoi_itoa in_int64_def)
  show ?case
  proof (cases "q = u @ ''-''")
    case True
    have "has_prefix (u @ ''-'' @ itoa i) q" using has_prefix_append [of q "itoa i"] True by simp
    moreover have "drop (length q) (u @ ''-'' @ itoa i) = itoa i" using True by simp
    ultimately show ?thesis using num True assms(4) by simp
  next
    case False
    have "atoi s = None" if "u @ ''-'' @ itoa i = q @ s" for s
      using numeric_rest_own_prefix [OF that] Cons.prems assms(2-4) False by (cases "atoi s") auto
    then have "has_prefix (u @ ''-'' @ itoa i) q \<Longrightarrow> atoi (drop (length q) (u @ ''-'' @ itoa i)) = None"
      by (metis append_eq_conv_conj has_prefix_iff)
    then show ?thesis using Cons False by auto
  qed
qed simp

end
