(* ===== verification/Workload_Safety.thy ===== *)
theory Workload_Safety
  imports Health_Correct Claim_Names
begin

text \<open>
  What the clean-ups of a reconcile pass may remove, for every client that satisfies
  \<open>workload_store\<close>, failing calls included: Deployments of removed groups, volume claims of removed
  replicas; and that volume claims only grow.
\<close>

section \<open>Loops of deletes\<close>

definition only_removed :: "'a ObjectMeta_scheme list \<Rightarrow> 'a ObjectMeta_scheme list \<Rightarrow> 'a ObjectMeta_scheme list \<Rightarrow> bool" where
  "only_removed xs obs obs' \<longleftrightarrow> (\<exists>R. R \<subseteq> set xs \<and> obs' = filter (\<lambda>e. \<forall>d \<in> R. \<not> same_object e d) obs)"

definition absent :: "'a ObjectMeta_scheme \<Rightarrow> 'a ObjectMeta_scheme list \<Rightarrow> bool" where
  "absent a obs \<longleftrightarrow> (\<forall>e \<in> set obs. \<not> same_object e a)"

lemma only_removed_refl [simp]: "only_removed xs obs obs"
  by (auto simp: only_removed_def intro!: exI [of _ "{}"])

lemma only_removed_step:
  assumes "only_removed xs obs obs'" "removed a obs' obs'' rd" "a \<in> set xs"
  shows "only_removed xs obs obs''"
proof -
  obtain R where R: "R \<subseteq> set xs" "obs' = filter (\<lambda>e. \<forall>d \<in> R. \<not> same_object e d) obs"
    using assms(1) by (auto simp: only_removed_def)
  have "store_remove a obs' = filter (\<lambda>e. \<forall>d \<in> insert a R. \<not> same_object e d) obs"
    by (simp add: R(2) store_remove_def conj_commute)
  with R assms(2,3) show ?thesis
    unfolding only_removed_def removed_def by (metis insert_subset)
qed

lemma removed_absent:
  assumes "removed a obs obs' rd" "rd = Inr () \<or> (\<exists>e. rd = Inl e \<and> IsNotFound e)"
  shows "absent a obs'"
  using assms by (auto simp: removed_def absent_def store_remove_def find_object_def find_None_iff same_object_def)

lemma removed_keeps_absent: "removed b obs obs' rd \<Longrightarrow> absent a obs \<Longrightarrow> absent a obs'"
  by (auto simp: removed_def absent_def store_remove_def)

lemma only_removed_mem: "only_removed xs obs obs' \<Longrightarrow> d \<in> set obs \<Longrightarrow> d \<notin> set obs' \<Longrightarrow> \<exists>x \<in> set xs. same_object d x"
  unfolding only_removed_def by fastforce

lemma only_removed_subset: "only_removed xs obs obs' \<Longrightarrow> set obs' \<subseteq> set obs"
  by (auto simp: only_removed_def)

text \<open>A loop that deletes some of its objects removes only those, and all of those when it succeeds.\<close>

lemma wp_delete_loop:
  fixes obs :: "'w \<Rightarrow> 'a ObjectMeta_scheme list"
  assumes "\<And>a v. a \<in> set as \<Longrightarrow> \<not> skip a \<Longrightarrow> wp (del a) v (\<lambda>rd v'. removed a (obs v) (obs v') rd)"
    and "\<And>a. a \<in> set as \<Longrightarrow> f a = (if skip a then ret () else IgnoreNotFound (msg a) (del a))"
  shows "wp (for_each f as) w (\<lambda>res v. only_removed (filter (\<lambda>a. \<not> skip a) as) (obs w) (obs v) \<and>
    (res = Inr () \<longrightarrow> (\<forall>a \<in> set as. \<not> skip a \<longrightarrow> absent a (obs v))))"
proof (rule wp_for_each)
  fix a v assume a: "a \<in> set as" and inv: "only_removed (filter (\<lambda>a. \<not> skip a) as) (obs w) (obs v)"
  show "wp (f a) v (\<lambda>res v'. only_removed (filter (\<lambda>a. \<not> skip a) as) (obs w) (obs v') \<and>
      (res = Inr () \<longrightarrow> \<not> skip a \<longrightarrow> absent a (obs v')))"
  proof (cases "skip a")
    case False
    have "wp (del a) v (\<lambda>res v'. case res of
        Inr _ \<Rightarrow> only_removed (filter (\<lambda>a. \<not> skip a) as) (obs w) (obs v') \<and> absent a (obs v')
      | Inl e \<Rightarrow> only_removed (filter (\<lambda>a. \<not> skip a) as) (obs w) (obs v') \<and> (IsNotFound e \<longrightarrow> absent a (obs v')))"
      by (rule wp_mono [OF assms(1) [OF a False]])
        (use only_removed_step [OF inv] removed_absent a False in \<open>fastforce split: sum.splits\<close>)
    then show ?thesis
      unfolding assms(2) [OF a] wp_IgnoreNotFound if_not_P [OF False]
      by (rule wp_mono) (auto split: sum.splits)
  qed (simp add: assms(2) [OF a] inv)
next
  fix a b v assume a: "b \<in> set as" "\<not> skip a \<longrightarrow> absent a (obs v)"
  show "wp (f b) v (\<lambda>res v'. \<not> skip a \<longrightarrow> absent a (obs v'))"
  proof (cases "skip b")
    case False
    have "wp (del b) v (\<lambda>res v'. \<not> skip a \<longrightarrow> absent a (obs v'))"
      by (rule wp_mono [OF assms(1) [OF a(1) False]]) (use a(2) removed_keeps_absent in blast)
    then show ?thesis
      unfolding assms(2) [OF a(1)] wp_IgnoreNotFound if_not_P [OF False]
      by (rule wp_mono) (auto split: sum.splits)
  qed (simp add: assms(2) [OF a(1)] a(2))
qed simp

lemma same_object_unique:
  assumes "distinct (map object_key obs)" "a \<in> set obs" "b \<in> set obs" "same_object a b"
  shows "a = b"
  using assms by (metis distinct_map inj_onD same_object_key)

section \<open>Deployments of removed groups\<close>

lemma desired_groups_eq:
  "desired_groups ws name = (if \<exists>c \<in> set ws. mcp_Name c = name
     then Some (map GetDeploymentGroupName (filter (\<lambda>c. mcp_Name c = name) ws)) else None)"
  by (auto simp: desired_groups_def filter_empty_conv split: list.splits)

lemma is_stale_group_iff:
  "is_stale_group mc ws d \<longleftrightarrow> IsControlledBy d mc \<and> (\<exists>c \<in> set ws. mcp_Name c = fmget (om_Labels d) AppLabelComponent) \<and>
     (\<forall>c \<in> set ws. mcp_Name c = fmget (om_Labels d) AppLabelComponent \<longrightarrow> \<not> MatchesDeploymentGroup c (om_Labels d))"
  by (auto simp: is_stale_group_def desired_groups_eq MatchesDeploymentGroup_def)

definition listed_deployments :: "Milvus \<Rightarrow> Deployment list \<Rightarrow> Deployment list" where
  "listed_deployments mc ds = selected (om_Namespace mc) (NewAppLabels (om_Name mc)) ds"

definition stale_deployments :: "externals \<Rightarrow> Milvus \<Rightarrow> Deployment list \<Rightarrow> Deployment list" where
  "stale_deployments x mc ds = filter (is_stale_group mc (GetComponentWorkloadsBySpec x (m_Spec mc))) (listed_deployments mc ds)"

definition gated_workloads :: "externals \<Rightarrow> Milvus \<Rightarrow> Deployment list \<Rightarrow> MilvusComponent list" where
  "gated_workloads x mc ds = filter (\<lambda>c. mcp_Name c \<in> (\<lambda>d. fmget (om_Labels d) AppLabelComponent) ` set (stale_deployments x mc ds))
     (GetComponentWorkloadsBySpec x (m_Spec mc))"

lemma stale_mem: "d \<in> set (stale_deployments x mc ds) \<Longrightarrow> d \<in> set ds \<and> om_Namespace d = om_Namespace mc"
  by (auto simp: stale_deployments_def listed_deployments_def selected_def)

context workload_store
begin

lemma wp_cleanup_groups:
  "wp (cleanupStaleDeploymentGroups r mc) w (\<lambda>res v.
     (deps v = deps w \<and> (res = Inr () \<longrightarrow> stale_deployments (rc_x r) mc (deps w) = [] \<or>
        \<not> desiredWorkloadsReadyForCleanup (rc_x r) mc (gated_workloads (rc_x r) mc (deps w)) (listed_deployments mc (deps w)))) \<or>
     (desiredWorkloadsReadyForCleanup (rc_x r) mc (gated_workloads (rc_x r) mc (deps w)) (listed_deployments mc (deps w)) \<and>
        only_removed (stale_deployments (rc_x r) mc (deps w)) (deps w) (deps v) \<and>
        (res = Inr () \<longrightarrow> (\<forall>d \<in> set (stale_deployments (rc_x r) mc (deps w)). absent d (deps v)))))"
    (is "wp _ _ ?Q")
proof -
  let ?stale = "stale_deployments (rc_x r) mc (deps w)"
  have loop: "wp (for_each (delete_stale_group r) ?stale) w (\<lambda>res v.
      only_removed ?stale (deps w) (deps v) \<and> (res = Inr () \<longrightarrow> (\<forall>d \<in> set ?stale. absent d (deps v))))"
    by (rule wp_mono [OF wp_delete_loop [where skip = "\<lambda>_. False" and obs = deps and del = "\<lambda>d. cli_DeleteDeployment (rc_cli r) d False"
            and msg = "\<lambda>d. ''delete stale deployment '' @ om_Namespace d @ ''/'' @ om_Name d"]])
      (auto simp: delete_stale_group_def intro: wp_DeleteDeployment)
  show ?thesis
    using loop
    unfolding cleanupStaleDeploymentGroups_def wp_bind wp_wrap gated_workloads_def stale_deployments_def listed_deployments_def
    by (intro wp_ListDeployments) (auto simp: Let_def simp del: set_filter elim!: wp_mono)
qed

end

lemma desired_deployment_mem: "desired_deployment x mc c ds = Some d \<Longrightarrow> d \<in> set ds \<and> IsControlledBy d mc"
  by (auto simp: desired_deployment_def Let_def split: if_splits dest: find_SomeD)

text \<open>C20. The clean-up of deployment groups removes a Deployment only when the instance owns it, its
  component is managed and no desired workload of the component has its group; and then every desired
  workload of that component has a Deployment that is available or scaled to zero, which survives if it carries
  the workload's component and group.  Nothing else is removed or changed, whatever the client answers.  When the clean-up
  succeeds and all desired workloads are ready, no such Deployment is left.\<close>

theorem stale_group_cleanup_safe:
  assumes "workload_store r deps pods milvus stss pvcs" "distinct (map object_key (deps w))"
    and "run_state (cleanupStaleDeploymentGroups r mc) w = (res, w')"
  shows "set (deps w') \<subseteq> set (deps w) \<and>
    (\<forall>d \<in> set (deps w). d \<notin> set (deps w') \<longrightarrow>
       om_Namespace d = om_Namespace mc \<and> IsControlledBy d mc \<and>
       (\<exists>c \<in> set (GetComponentWorkloadsBySpec (rc_x r) (m_Spec mc)). mcp_Name c = fmget (om_Labels d) AppLabelComponent) \<and>
       (\<forall>c \<in> set (GetComponentWorkloadsBySpec (rc_x r) (m_Spec mc)). mcp_Name c = fmget (om_Labels d) AppLabelComponent \<longrightarrow>
          \<not> MatchesDeploymentGroup c (om_Labels d) \<and>
          (\<exists>d'. desired_deployment (rc_x r) mc c (listed_deployments mc (deps w)) = Some d' \<and>
            (getDeployReplicas d' = 0 \<or> DeploymentReady (d_Status d')) \<and>
            (fmget (om_Labels d') AppLabelComponent = mcp_Name c \<and> MatchesDeploymentGroup c (om_Labels d') \<longrightarrow> d' \<in> set (deps w'))))) \<and>
    (res = Inr () \<and> desiredWorkloadsReadyForCleanup (rc_x r) mc (GetComponentWorkloadsBySpec (rc_x r) (m_Spec mc)) (listed_deployments mc (deps w)) \<longrightarrow>
       set (deps w') \<inter> set (stale_deployments (rc_x r) mc (deps w)) = {})"
proof -
  let ?x = "rc_x r" and ?ws = "GetComponentWorkloadsBySpec (rc_x r) (m_Spec mc)" and ?l = "listed_deployments mc (deps w)"
  let ?stale = "stale_deployments (rc_x r) mc (deps w)"
  let ?ready = "desiredWorkloadsReadyForCleanup ?x mc (gated_workloads ?x mc (deps w)) ?l"
  note step = wpD [OF workload_store.wp_cleanup_groups [OF assms(1)] assms(3)]
  have stale_iff: "d \<in> set ?stale \<longleftrightarrow> d \<in> set ?l \<and> is_stale_group mc ?ws d" for d
    by (auto simp: stale_deployments_def)
  have only: "only_removed ?stale (deps w) (deps w')" using step by auto
  have gone: "d \<in> set ?stale" "?ready" if "d \<in> set (deps w)" "d \<notin> set (deps w')" for d
  proof -
    note d = that
    obtain x where "x \<in> set ?stale" "same_object d x" using only_removed_mem [OF only d] by blast
    then show "d \<in> set ?stale" using same_object_unique [OF assms(2) d(1)] stale_mem by metis
    show ?ready using step that by auto
  qed
  have stays: "d' \<in> set (deps w')" if "d' \<in> set (deps w)" "d' \<notin> set ?stale" for d' using gone that by blast
  have desired: "\<exists>d'. desired_deployment ?x mc c ?l = Some d' \<and> (getDeployReplicas d' = 0 \<or> DeploymentReady (d_Status d')) \<and>
      (fmget (om_Labels d') AppLabelComponent = mcp_Name c \<and> MatchesDeploymentGroup c (om_Labels d') \<longrightarrow> d' \<in> set (deps w'))"
    if "d \<in> set (deps w)" "d \<notin> set (deps w')" "c \<in> set ?ws" "mcp_Name c = fmget (om_Labels d) AppLabelComponent" for c d
  proof -
    note d = that
    have "c \<in> set (gated_workloads ?x mc (deps w))" using gone(1) [OF d(1,2)] d(3,4) by (auto simp: gated_workloads_def)
    then obtain d' where d': "desired_deployment ?x mc c ?l = Some d'" "getDeployReplicas d' = 0 \<or> DeploymentReady (d_Status d')"
      using gone(2) [OF d(1,2)] by (auto simp: desiredWorkloadsReadyForCleanup_def list_all_iff split: option.splits)
    have mem: "d' \<in> set (deps w)" using desired_deployment_mem [OF d'(1)] by (auto simp: listed_deployments_def selected_def)
    have "d' \<notin> set ?stale" if "fmget (om_Labels d') AppLabelComponent = mcp_Name c" "MatchesDeploymentGroup c (om_Labels d')"
      using d(3) that by (auto simp: stale_iff is_stale_group_iff)
    with d' stays [OF mem] show ?thesis by blast
  qed
  have all_gone: "set (deps w') \<inter> set ?stale = {}" if "res = Inr ()" "desiredWorkloadsReadyForCleanup ?x mc ?ws ?l"
  proof -
    have "?ready" using that(2) by (auto simp: desiredWorkloadsReadyForCleanup_def gated_workloads_def list_all_iff)
    then show ?thesis using step that(1) by (auto simp: absent_def same_object_def)
  qed
  have cond: "om_Namespace d = om_Namespace mc \<and> is_stale_group mc ?ws d" if "d \<in> set (deps w)" "d \<notin> set (deps w')" for d
    using gone(1) [OF that] stale_iff by (auto simp: listed_deployments_def selected_def)
  show ?thesis
    using only_removed_subset [OF only] cond [unfolded is_stale_group_iff] desired all_gone by blast
qed

lemma mem_r_x [simp]: "rc_x mem_r = std_x"
  by (simp add: mem_r_def)

text \<open>A group that was dropped, beside the workload that replaced it.\<close>

lemma ex_group_run:
  "run_state (cleanupStaleDeploymentGroups mem_r ex_small)
     (ex_wmem ex_small [ex_owned ''mc-milvus-standalone'' ''standalone'' [], ex_owned ''mc-milvus-standalone-g'' ''standalone'' ''g''] [] []) =
   (Inr (), ex_wmem ex_small [ex_owned ''mc-milvus-standalone'' ''standalone'' []] [] [])"
  by code_simp

theorem stale_group_cleanup_safe_witness:
  "IsControlledBy (ex_owned ''mc-milvus-standalone-g'' ''standalone'' ''g'') ex_small \<and>
   \<not> MatchesDeploymentGroup MilvusStandalone (om_Labels (ex_owned ''mc-milvus-standalone-g'' ''standalone'' ''g''))"
proof -
  have "distinct (map object_key (mem_deps (ex_wmem ex_small [ex_owned ''mc-milvus-standalone'' ''standalone'' [],
      ex_owned ''mc-milvus-standalone-g'' ''standalone'' ''g''] [] [])))"
    by (simp add: ex_wmem_def ex_owned_def object_key_def new_Deployment_def)
  moreover have "ex_owned ''mc-milvus-standalone-g'' ''standalone'' ''g'' \<noteq> ex_owned ''mc-milvus-standalone'' ''standalone'' []"
    "fmget (om_Labels (ex_owned ''mc-milvus-standalone-g'' ''standalone'' ''g'')) AppLabelComponent = mcp_Name MilvusStandalone"
    by code_simp+
  ultimately show ?thesis
    using stale_group_cleanup_safe [OF wm.workload_store_axioms _ ex_group_run]
    by (simp add: ex_wmem_def ex_small_workloads)
qed

section \<open>Volume claims of removed replicas\<close>

definition scaled_down :: "StatefulSet \<Rightarrow> K8sVolumeClaim \<Rightarrow> bool" where
  "scaled_down sts p \<longleftrightarrow> om_DeletionTimestamp p = None \<and>
     (\<exists>n. matchStatefulSetPVCOrdinal (om_Name p) (pvc_prefixes sts) = Some n \<and> getStatefulSetReplicas sts \<le> n)"

definition owned_claim :: "StatefulSet \<Rightarrow> K8sVolumeClaim \<Rightarrow> bool" where
  "owned_claim sts p \<longleftrightarrow> om_DeletionTimestamp p = None \<and> matchStatefulSetPVCOrdinal (om_Name p) (pvc_prefixes sts) \<noteq> None"

lemma cleanup_scaled_down_pvc_eq:
  "cleanup_scaled_down_pvc r (pvc_prefixes sts) (getStatefulSetReplicas sts) p =
     (if \<not> scaled_down sts p then ret () else IgnoreNotFound (''delete scaled-down querynode pvc '' @ om_Name p) (rc_DeletePVC r p))"
  by (auto simp: cleanup_scaled_down_pvc_def scaled_down_def split: option.splits)

lemma delete_stale_pvc_eq:
  "delete_stale_pvc r (pvc_prefixes sts) p =
     (if \<not> owned_claim sts p then ret () else IgnoreNotFound (''delete stale pvc '' @ om_Name p) (rc_DeletePVC r p))"
  by (auto simp: delete_stale_pvc_def owned_claim_def)

context workload_store
begin

lemma wp_claim_loop:
  assumes "\<And>p. f p = (if \<not> P p then ret () else IgnoreNotFound (msg p) (rc_DeletePVC r p))"
  shows "wp (for_each f ps) w (\<lambda>res v. only_removed (filter P ps) (pvcs w) (pvcs v) \<and>
    (res = Inr () \<longrightarrow> (\<forall>p \<in> set ps. P p \<longrightarrow> absent p (pvcs v))))"
  using wp_delete_loop [where skip = "\<lambda>p. \<not> P p" and obs = pvcs and del = "rc_DeletePVC r" and as = ps and f = f and msg = msg and w = w]
    assms by (auto intro: wp_DeletePVC)

lemma wp_scale_down:
  assumes "s_Selector sts = Some sel"
  shows "wp (cleanupScaledDownStatefulSetPVCs r mc sts) w (\<lambda>res v.
    only_removed (filter (scaled_down sts) (selected (om_Namespace mc) sel (pvcs w))) (pvcs w) (pvcs v) \<and>
    (res = Inr () \<longrightarrow> (\<forall>p \<in> set (selected (om_Namespace mc) sel (pvcs w)). scaled_down sts p \<longrightarrow> absent p (pvcs v))))"
proof (cases "s_VolumeClaimTemplates sts = []")
  case True
  then show ?thesis by (simp add: cleanupScaledDownStatefulSetPVCs_def scaled_down_def pvc_prefixes_def)
next
  case False
  then show ?thesis
    unfolding cleanupScaledDownStatefulSetPVCs_def if_not_P [OF False] wp_bind wp_wrap
    by (auto simp: assms intro!: wp_ListPVCs wp_claim_loop [OF cleanup_scaled_down_pvc_eq])
qed

lemma wp_delete_claims:
  "wp (deletePVCsForStatefulSet r mc c sts) w (\<lambda>res v.
    only_removed (filter (owned_claim sts) (selected (om_Namespace mc) (NewComponentAppLabels (om_Name mc) (mcp_Name c)) (pvcs w))) (pvcs w) (pvcs v))"
  unfolding deletePVCsForStatefulSet_def
  by (auto intro!: wp_ListPVCs wp_mono [OF wp_claim_loop [OF delete_stale_pvc_eq]])

end

lemma prefix_of_template: "u @ ''-'' \<in> set (pvc_prefixes sts) \<longleftrightarrow> (\<exists>t \<in> set (s_VolumeClaimTemplates sts). u = om_Name t @ ''-'' @ om_Name sts)"
  by (force simp: pvc_prefixes_def)

text \<open>C21. Claims are named \<open>template-statefulset-ordinal\<close>, and the clean-ups read that name back exactly: after
  scaling down, a claim with an ordinal in its name is removed only when its template and StatefulSet are this StatefulSet's
  and its ordinal is not below the desired replicas, and if the clean-up succeeds every such claim that carries
  the labels is removed; the clean-up of a deleted StatefulSet removes only claims of its own
  templates.  So the claims of remaining replicas, of other StatefulSets and of deployment groups
  are kept, whatever the client answers.\<close>

theorem claim_cleanup_exact:
  assumes "workload_store r deps pods milvus stss pvcs" "distinct (map object_key (pvcs w))" "s_Selector sts = Some sel"
    and "p \<in> set (pvcs w)" "om_Name p = u @ ''-'' @ itoa i" "u \<noteq> []" "last u \<noteq> CHR ''-''" "0 \<le> i" "i < 2 ^ 31"
    and "run_state (cleanupScaledDownStatefulSetPVCs r mc sts) w = (res, w')"
    and "run_state (deletePVCsForStatefulSet r mc c sts) w = (res2, w2)"
  shows "(p \<notin> set (pvcs w') \<longrightarrow> om_Namespace p = om_Namespace mc \<and>
       (\<exists>t \<in> set (s_VolumeClaimTemplates sts). u = om_Name t @ ''-'' @ om_Name sts) \<and> getStatefulSetReplicas sts \<le> i) \<and>
    (res = Inr () \<and> om_Namespace p = om_Namespace mc \<and> labels_match sel (om_Labels p) \<and> om_DeletionTimestamp p = None \<and>
       (\<exists>t \<in> set (s_VolumeClaimTemplates sts). u = om_Name t @ ''-'' @ om_Name sts) \<and> getStatefulSetReplicas sts \<le> i \<longrightarrow> p \<notin> set (pvcs w')) \<and>
    (p \<notin> set (pvcs w2) \<longrightarrow> om_Namespace p = om_Namespace mc \<and> (\<exists>t \<in> set (s_VolumeClaimTemplates sts). u = om_Name t @ ''-'' @ om_Name sts))"
proof -
  have i: "to_int32 i = i" "i < 2 ^ 63" using assms(8,9) by (simp_all add: int32_range_def)
  have match: "matchStatefulSetPVCOrdinal (om_Name p) (pvc_prefixes sts) =
      (if \<exists>t \<in> set (s_VolumeClaimTemplates sts). u = om_Name t @ ''-'' @ om_Name sts then Some i else None)"
    using match_claim_name [of "pvc_prefixes sts" u i] pvc_prefixes_form assms(5-8) i by (simp add: prefix_of_template)
  have only: "p \<in> set (filter P (selected ns l (pvcs w)))" if "only_removed (filter P (selected ns l (pvcs w))) (pvcs w) ps" "p \<notin> set ps" for P ns l ps
  proof -
    note gone = that
    obtain x where "x \<in> set (filter P (selected ns l (pvcs w)))" "same_object p x"
      using only_removed_mem [OF gone(1) assms(4) gone(2)] by blast
    then show ?thesis using same_object_unique [OF assms(2,4)] by (metis filter_is_subset selected_def subsetD)
  qed
  note down = wpD [OF workload_store.wp_scale_down [OF assms(1,3)] assms(10)]
  note stale = wpD [OF workload_store.wp_delete_claims [OF assms(1)] assms(11)]
  have sd: "scaled_down sts p \<longleftrightarrow> om_DeletionTimestamp p = None \<and>
      (\<exists>t \<in> set (s_VolumeClaimTemplates sts). u = om_Name t @ ''-'' @ om_Name sts) \<and> getStatefulSetReplicas sts \<le> i"
    unfolding scaled_down_def match by auto
  have oc: "owned_claim sts p \<Longrightarrow> \<exists>t \<in> set (s_VolumeClaimTemplates sts). u = om_Name t @ ''-'' @ om_Name sts"
    unfolding owned_claim_def match by (auto split: if_splits)
  have gone: "p \<notin> set (pvcs w') \<Longrightarrow> scaled_down sts p \<and> om_Namespace p = om_Namespace mc"
    "p \<notin> set (pvcs w2) \<Longrightarrow> owned_claim sts p \<and> om_Namespace p = om_Namespace mc"
    using only [OF conjunct1 [OF down]] only [OF stale] by (simp_all add: selected_mem)
  have "p \<notin> set (pvcs w')" if "res = Inr ()" "om_Namespace p = om_Namespace mc" "labels_match sel (om_Labels p)" "scaled_down sts p"
    using conjunct2 [OF down] that assms(4) by (auto simp: absent_def same_object_def selected_mem)
  then show ?thesis using gone sd oc by blast
qed

text \<open>A query node scaled down from two replicas to one.\<close>

definition ex_claim :: "string \<Rightarrow> K8sVolumeClaim" where
  "ex_claim name = ObjectMeta.extend ((new_ObjectMeta ''ns'' name)\<lparr>om_Labels := NewComponentAppLabels ''mc'' ''querynode''\<rparr>)
     (K8sVolumeClaim.fields (Some ''ssd'') (fmupd ResourceStorage 10 fmempty) [] [] JNull)"

definition ex_sts :: StatefulSet where
  "ex_sts = (new_StatefulSet ''ns'' ''mc-milvus-querynode'')\<lparr>s_Replicas := Some 1,
     s_Selector := Some (NewComponentAppLabels ''mc'' ''querynode''), s_VolumeClaimTemplates := [ex_claim ''data'']\<rparr>"

definition ex_claims :: "K8sVolumeClaim list" where
  "ex_claims = [ex_claim ''data-mc-milvus-querynode-0'', ex_claim ''data-mc-milvus-querynode-1'', ex_claim ''data-mc-milvus-querynode-g-1'']"

lemma ex_claims_distinct: "distinct (map object_key (wm_pvcs (ex_wmem ex_small [] [ex_sts] ex_claims)))"
  by code_simp

lemma ex_scale_down_run:
  "run_state (cleanupScaledDownStatefulSetPVCs mem_r ex_small ex_sts) (ex_wmem ex_small [] [ex_sts] ex_claims) =
     (Inr (), ex_wmem ex_small [] [ex_sts] [ex_claim ''data-mc-milvus-querynode-0'', ex_claim ''data-mc-milvus-querynode-g-1''])"
  by code_simp

lemma ex_delete_run:
  "run_state (deletePVCsForStatefulSet mem_r ex_small QueryNode ex_sts) (ex_wmem ex_small [] [ex_sts] ex_claims) =
     (Inr (), ex_wmem ex_small [] [ex_sts] [ex_claim ''data-mc-milvus-querynode-g-1''])"
  by code_simp

theorem claim_cleanup_exact_witness:
  "ex_claim ''data-mc-milvus-querynode-1'' \<notin> set (wm_pvcs (ex_wmem ex_small [] [ex_sts] [ex_claim ''data-mc-milvus-querynode-0'', ex_claim ''data-mc-milvus-querynode-g-1''])) \<and>
   (\<exists>t \<in> set (s_VolumeClaimTemplates ex_sts). ''data-mc-milvus-querynode'' = om_Name t @ ''-'' @ om_Name ex_sts) \<and> getStatefulSetReplicas ex_sts \<le> 1"
proof -
  let ?p = "ex_claim ''data-mc-milvus-querynode-1''" and ?u = "''data-mc-milvus-querynode''"
  have sel: "s_Selector ex_sts = Some (NewComponentAppLabels ''mc'' ''querynode'')" by (simp add: ex_sts_def)
  have mem: "?p \<in> set (wm_pvcs (ex_wmem ex_small [] [ex_sts] ex_claims))" by (simp add: ex_wmem_def ex_claims_def)
  have name: "om_Name ?p = ?u @ ''-'' @ itoa 1" by code_simp
  have away: "?p \<notin> set (wm_pvcs (ex_wmem ex_small [] [ex_sts] [ex_claim ''data-mc-milvus-querynode-0'', ex_claim ''data-mc-milvus-querynode-g-1'']))"
    by code_simp
  show ?thesis
    using claim_cleanup_exact [OF wm.workload_store_axioms ex_claims_distinct sel mem name _ _ _ _ ex_scale_down_run ex_delete_run] away
    by simp
qed

section \<open>Volume expansion\<close>

text \<open>A claim is unchanged, or its storage request was raised to the size a template of its
  StatefulSet asks for.\<close>

definition grown :: "(string, int) fmap \<Rightarrow> string \<Rightarrow> K8sVolumeClaim \<Rightarrow> K8sVolumeClaim \<Rightarrow> bool" where
  "grown sizes stsName p p' \<longleftrightarrow> p' = p \<or>
     (\<exists>t q. fmlookup sizes t = Some q \<and> has_prefix (om_Name p) (t @ ''-'' @ stsName @ ''-'') \<and> requested_storage p < q \<and>
        p' = p\<lparr>vc_Requests := fmupd ResourceStorage q (vc_Requests p)\<rparr>)"

lemma grown_key: "grown sizes n p p' \<Longrightarrow> object_key p' = object_key p"
  by (auto simp: grown_def object_key_def)

lemma grown_request: "grown sizes n p p' \<Longrightarrow> requested_storage p \<le> requested_storage p'"
  by (auto simp: grown_def requested_storage_def)

lemma claim_template_prefix:
  assumes "claim_template r sizes n name \<noteq> []"
  shows "has_prefix name (claim_template r sizes n name @ ''-'' @ n @ ''-'')"
proof (cases "find (\<lambda>t. has_prefix name (t @ ''-'' @ n @ ''-'')) (rc_range r (sorted_list_of_fset (fmdom sizes)))")
  case (Some t)
  then show ?thesis using find_SomeD [OF Some] by (simp add: claim_template_def)
qed (use assms in \<open>simp add: claim_template_def\<close>)

lemma store_replace_map:
  assumes "distinct (map object_key obs)" "p \<in> set obs" "\<forall>e \<in> set obs. object_key (f e) = object_key e" "object_key p' = object_key p"
  shows "store_replace p' (map f obs) = map (f(p := p')) obs"
proof -
  have "same_object (f e) p' \<longleftrightarrow> e = p" if "e \<in> set obs" for e
    using assms that by (metis distinct_map inj_onD same_object_key)
  then show ?thesis by (auto simp: store_replace_def)
qed

context workload_store
begin

lemma wp_class_support: "(\<And>b. Q (Inr b) w) \<Longrightarrow> wp (class_support r support scName) w Q"
  by (auto simp: class_support_def storageClassAllowsExpansion_def intro!: wp_read_class wp_read_classes split: option.splits sum.splits)

lemma wp_expand_pvc:
  assumes "\<And>v. pvcs v = pvcs w \<Longrightarrow> Q (Inr ()) v"
    "\<And>v. pvcs v = store_replace (p\<lparr>vc_Requests := fmupd ResourceStorage q (vc_Requests p)\<rparr>) (pvcs w) \<Longrightarrow> Q (Inr ()) v"
  shows "wp (expand_pvc r p q) w Q"
  unfolding expand_pvc_def wp_state_bind
proof (rule wp_UpdatePVC, goal_cases)
  case (1 e v)
  then show ?case by (simp add: assms(1) wp_eventf)
next
  case (2 rd v)
  then show ?case by (cases rd) (simp_all add: assms(2) wp_eventf)
qed

lemma wp_expand_pvcs:
  assumes "distinct (map object_key obs)"
  shows "pvcs w = map f obs \<Longrightarrow> \<forall>e \<in> set obs. grown sizes n e (f e) \<and> (e \<in> set ps \<longrightarrow> f e = e) \<Longrightarrow> set ps \<subseteq> set obs \<Longrightarrow> distinct ps \<Longrightarrow>
    wp (expand_pvcs r sizes n support ps) w (\<lambda>res v. res = Inr () \<and> (\<exists>g. pvcs v = map g obs \<and> (\<forall>e \<in> set obs. grown sizes n e (g e))))"
proof (induction ps arbitrary: w f support)
  case (Cons p ps)
  let ?Q = "\<lambda>res v. res = Inr () \<and> (\<exists>g. pvcs v = map g obs \<and> (\<forall>e \<in> set obs. grown sizes n e (g e)))"
  let ?t = "claim_template r sizes n (om_Name p)"
  have go: "wp (expand_pvcs r sizes n support' ps) v ?Q" if "pvcs v = pvcs w" for support' v
    by (rule Cons.IH [where f = f]) (use Cons.prems that in auto)
  have grow: "wp (expand_pvcs r sizes n support' ps) v ?Q"
    if "pvcs v = store_replace p' (pvcs w)" "p' = p\<lparr>vc_Requests := fmupd ResourceStorage q (vc_Requests p)\<rparr>" "fmlookup sizes ?t = Some q"
      "requested_storage p < q" "?t \<noteq> []" for support' v p' q
  proof (rule Cons.IH [where f = "f(p := p')"])
    have g: "grown sizes n p p'" using that claim_template_prefix unfolding grown_def by blast
    have keys: "\<forall>e \<in> set obs. object_key (f e) = object_key e" "object_key p' = object_key p"
      using Cons.prems(2) grown_key g by blast+
    have "p \<in> set obs" using Cons.prems(3) by simp
    from store_replace_map [OF assms this keys] show "pvcs v = map (f(p := p')) obs"
      by (simp only: that(1) Cons.prems(1))
    show "\<forall>e \<in> set obs. grown sizes n e ((f(p := p')) e) \<and> (e \<in> set ps \<longrightarrow> (f(p := p')) e = e)"
      using Cons.prems g by auto
  qed (use Cons.prems in auto)
  have enlarge: "wp (expand_pvc r p q) w (\<lambda>res v. case res of Inl e \<Rightarrow> ?Q (Inl e) v | Inr _ \<Rightarrow> wp (expand_pvcs r sizes n support' ps) v ?Q)"
    if "fmlookup sizes ?t = Some q" "requested_storage p < q" "?t \<noteq> []" for support' q
  proof (rule wp_expand_pvc, goal_cases)
    case (1 v)
    then show ?case by (simp only: sum.case) (rule go)
  next
    case (2 v)
    then show ?case by (simp only: sum.case) (rule grow [OF _ refl that])
  qed
  show ?case
    using go [of w]
    by (auto simp: Let_def not_le intro!: wp_class_support wp_eventf enlarge split: option.splits)
qed auto

lemma expansion_only_grows:
  assumes "distinct (map object_key (pvcs w))" "renderVolumeClaimTemplates r mc c = Inr templates"
  shows "wp (reconcileStatefulSetPVCExpansion r mc c sts) w (\<lambda>res v.
    (\<exists>g. pvcs v = map g (pvcs w) \<and> (\<forall>p \<in> set (pvcs w). grown (desired_sizes templates) (om_Name sts) p (g p))) \<and>
    (res \<noteq> Inr () \<longrightarrow> pvcs v = pvcs w))"
proof -
  let ?sizes = "desired_sizes templates"
  have refl: "\<exists>g. pvcs w = map g (pvcs w) \<and> (\<forall>p \<in> set (pvcs w). grown ?sizes (om_Name sts) p (g p))"
    by (rule exI [of _ id]) (simp add: grown_def)
  have "distinct (pvcs w)" using assms(1) by (simp add: distinct_map)
  then have loop: "wp (expand_pvcs r ?sizes (om_Name sts) fmempty (selected ns sel (pvcs w))) w
      (\<lambda>res v. res = Inr () \<and> (\<exists>g. pvcs v = map g (pvcs w) \<and> (\<forall>e \<in> set (pvcs w). grown ?sizes (om_Name sts) e (g e))))" for ns sel
    by (intro wp_expand_pvcs [OF assms(1), where f = id]) (auto simp: grown_def selected_def)
  show ?thesis
    unfolding reconcileStatefulSetPVCExpansion_def
    using refl by (auto simp: assms(2) Let_def or_panic_def intro!: wp_ListPVCs wp_mono [OF loop] split: option.splits)
qed

end

text \<open>C22. Reconciling volume sizes never shrinks, adds or removes a claim: every claim is unchanged or has its
  storage request raised to the size its template asks for in the current spec.  A failed write does not fail the pass: when an
  error is returned, nothing was written.\<close>

theorem claims_only_grow:
  assumes "workload_store r deps pods milvus stss pvcs" "distinct (map object_key (pvcs w))"
    and "renderVolumeClaimTemplates r mc c = Inr templates"
    and "run_state (reconcileStatefulSetPVCExpansion r mc c sts) w = (res, w')"
  shows "(\<exists>g. pvcs w' = map g (pvcs w) \<and> (\<forall>p \<in> set (pvcs w). requested_storage p \<le> requested_storage (g p) \<and>
      (g p = p \<or> (\<exists>t q. fmlookup (desired_sizes templates) t = Some q \<and> has_prefix (om_Name p) (t @ ''-'' @ om_Name sts @ ''-'') \<and>
         g p = p\<lparr>vc_Requests := fmupd ResourceStorage q (vc_Requests p)\<rparr>)))) \<and>
    (res \<noteq> Inr () \<longrightarrow> pvcs w' = pvcs w)"
  using wpD [OF workload_store.expansion_only_grows [OF assms(1-3)] assms(4)] grown_request
  unfolding grown_def by meson

text \<open>A template that asks for 20 where the claims have 10.\<close>

definition ex_storage :: Milvus where
  "ex_storage = ex_small\<lparr>m_Spec := (m_Spec ex_small)\<lparr>ms_Com := (ms_Com (m_Spec ex_small))\<lparr>com_QueryNode := Some (zero_MilvusQueryNode\<lparr>
     qn_StatefulSet := Some \<lparr>ss_Enabled = True, ss_VolumeClaimTemplates = [Some (fmap_of_list [(''name'', JStr ''data''), (''size'', JInt 20)])]\<rparr>\<rparr>)\<rparr>\<rparr>\<rparr>"

lemma ex_storage_templates:
  "renderVolumeClaimTemplates mem_r ex_storage QueryNode = Inr [ObjectMeta.extend (new_ObjectMeta [] ''data'')
     (K8sVolumeClaim.fields None (fmupd ResourceStorage 20 fmempty) [] [] JNull)]"
  by code_simp

lemma ex_storage_run:
  "run_state (reconcileStatefulSetPVCExpansion mem_r ex_storage QueryNode ex_sts) (ex_wmem ex_small [] [ex_sts] [ex_claim ''data-mc-milvus-querynode-0'']) =
     (Inr (), ex_wmem ex_small [] [ex_sts] [(ex_claim ''data-mc-milvus-querynode-0'')\<lparr>vc_Requests := fmupd ResourceStorage 20 fmempty\<rparr>])"
  by code_simp

theorem claims_only_grow_witness:
  "requested_storage (ex_claim ''data-mc-milvus-querynode-0'') = 10 \<and>
   10 \<le> requested_storage ((ex_claim ''data-mc-milvus-querynode-0'')\<lparr>vc_Requests := fmupd ResourceStorage 20 fmempty\<rparr>)"
proof -
  have "requested_storage (ex_claim ''data-mc-milvus-querynode-0'') = 10" by code_simp
  moreover have "distinct (map object_key (wm_pvcs (ex_wmem ex_small [] [ex_sts] [ex_claim ''data-mc-milvus-querynode-0''])))"
    by (simp add: ex_wmem_def)
  moreover from claims_only_grow [OF wm.workload_store_axioms this ex_storage_templates ex_storage_run]
  obtain g where "wm_pvcs (ex_wmem ex_small [] [ex_sts] [(ex_claim ''data-mc-milvus-querynode-0'')\<lparr>vc_Requests := fmupd ResourceStorage 20 fmempty\<rparr>]) =
      map g (wm_pvcs (ex_wmem ex_small [] [ex_sts] [ex_claim ''data-mc-milvus-querynode-0'']))"
    "\<forall>p \<in> set (wm_pvcs (ex_wmem ex_small [] [ex_sts] [ex_claim ''data-mc-milvus-querynode-0''])). requested_storage p \<le> requested_storage (g p)"
    by blast
  ultimately show ?thesis by (simp add: ex_wmem_def)
qed

end
