(* ===== verification/Retire_Safety.thy ===== *)
theory Retire_Safety
  imports Workload_Safety
begin

text \<open>
  Retiring the index node of a cluster that moved to version 2.6: what the clean-up removes and what it
  leaves behind.
\<close>

section \<open>What the clean-up removes\<close>

lemma removed_named:
  assumes "removed d obs obs' (Inr ())" "find_object ns name obs = Some d"
  shows "obs' = filter (\<lambda>e. \<not> named ns name e) obs"
proof -
  have "named ns name d" using find_SomeD assms(2) unfolding find_object_def named_def by fast
  then show ?thesis using assms(1) by (auto simp: removed_def store_remove_def same_object_def named_def)
qed

lemma none_named: "find_object ns name obs = None \<Longrightarrow> filter (\<lambda>e. \<not> named ns name e) obs = obs"
  by (auto simp: find_object_def find_None_iff named_def)

context workload_store
begin

lemma wp_delete_deployment:
  "wp (DeleteDeploymentsIfExists r mc c) w (\<lambda>res v. res = Inr () \<longrightarrow>
     deps v = filter (\<lambda>d. \<not> named (om_Namespace mc) (GetDeploymentName c (om_Name mc)) d) (deps w))"
proof -
  let ?n = "GetDeploymentName c (om_Name mc)"
  have "wp (cli_DeleteDeployment (rc_cli r) d False) w (\<lambda>res v. res = Inr () \<longrightarrow> deps v = filter (\<lambda>d. \<not> named (om_Namespace mc) ?n d) (deps w))"
    if "find_object (om_Namespace mc) ?n (deps w) = Some d" for d
    by (rule wp_DeleteDeployment) (use removed_named that in blast)
  then show ?thesis
    unfolding DeleteDeploymentsIfExists_def wp_bind wp_wrap wp_get_if_exists
    by (intro wp_GetDeployment)
      (auto simp: read_object_def none_named wrap_def split: sum.splits option.splits elim!: wp_mono)
qed

lemma wp_delete_statefulset_deps: "wp (deleteComponentStatefulSetIfExists r mc c) w (\<lambda>res v. deps v = deps w)"
proof -
  have claims: "wp (deletePVCsForStatefulSet r mc c sts) v (\<lambda>res v'. deps v' = deps v)" for sts v
  proof -
    have del: "wp (delete_stale_pvc r (pvc_prefixes sts) p) v' (\<lambda>res u. deps u = deps v)"
      if "deps v' = deps v" for p v'
      using that by (auto simp: delete_stale_pvc_eq wp_IgnoreNotFound intro!: wp_DeletePVC split: sum.splits)
    have "wp (for_each (delete_stale_pvc r (pvc_prefixes sts)) ps) v (\<lambda>res v'. deps v' = deps v)" for ps
      by (rule wp_mono [OF wp_for_each [where I = "\<lambda>v'. deps v' = deps v" and E = "\<lambda>_ _. True"]])
        (auto intro: del wpI)
    then show ?thesis
      unfolding deletePVCsForStatefulSet_def by (auto intro!: wp_ListPVCs)
  qed
  have svc: "wp (delete_service_named r what ns name) v (\<lambda>res v'. deps v' = deps v)" for what ns name v
    unfolding delete_service_named_def wp_bind wp_wrap wp_get_if_exists
    by (intro wp_GetService) (auto simp: wp_IgnoreNotFound intro!: wp_DeleteService split: sum.splits option.splits)
  show ?thesis
    unfolding deleteComponentStatefulSetIfExists_def Let_def wp_bind wp_wrap wp_get_if_exists
    by (intro wp_GetStatefulSet)
      (auto simp: wp_IgnoreNotFound wrap_def intro!: wp_DeleteStatefulSet wp_mono [OF claims] wp_mono [OF svc] split: sum.splits option.splits)
qed

end

text \<open>C35. Retiring the index node in version 2.6 removes the Deployment with the component's plain name and then
  drops the component from the resource.  Every other Deployment is kept: with \<open>rollingMode\<close> 3 the index node runs in the
  two slots \<open>name-0\<close> and \<open>name-1\<close>, so both keep running after the clean-up reports success, and no workload of the instance
  names the component any more.\<close>

theorem index_node_slots_survive_cleanup:
  assumes "workload_store r deps pods milvus stss pvcs" "ms_Mode (m_Spec mc) = MilvusModeCluster"
    and "IsVersionGreaterThan2_6 (rc_x r) (m_Spec mc)" "IsImageUpdated Proxy mc" "com_IndexNode (ms_Com (m_Spec mc)) \<noteq> None"
    and "run_state (cleanupIndexNodeIfNeeded r mc) w = (Inr (), w')"
  shows "milvus w' = set_IndexNode_nil mc \<and> com_IndexNode (ms_Com (m_Spec (milvus w'))) = None \<and>
    \<not> (\<exists>d \<in> set (deps w'). named (om_Namespace mc) (GetDeploymentName IndexNode (om_Name mc)) d) \<and>
    (\<forall>d \<in> set (deps w). om_Name d = formatComponentDeployName mc IndexNode slot \<longrightarrow> d \<in> set (deps w')) \<and>
    (\<forall>c \<in> set (GetComponentWorkloadsBySpec (rc_x r) (m_Spec (milvus w'))). mcp_Name c \<noteq> mcp_Name IndexNode)"
proof -
  have new: "GetComponentWorkloadsBySpec (rc_x r) (m_Spec (set_IndexNode_nil mc)) =
      concat (map (component_workloads (m_Spec (set_IndexNode_nil mc))) ((if UseCdc (m_Spec mc) then [Cdc] else []) @ Milvus2_6Components))"
    using assms(2,3) by (simp add: GetComponentWorkloadsBySpec_def GetComponentsBySpec_def set_IndexNode_nil_def IsVersionGreaterThan2_6_def UseCdc_def)
  have names: "mcp_Name c' = mcp_Name c" if "c' \<in> set (component_workloads spec c)" for c c' spec
    using that by (auto simp: component_workloads_def Let_def split: if_splits)
  have gone: "mcp_Name c \<noteq> mcp_Name IndexNode" if "c \<in> set (GetComponentWorkloadsBySpec (rc_x r) (m_Spec (set_IndexNode_nil mc)))" for c
    using that unfolding new by (auto dest!: names simp: Milvus2_6Components_def key_defs mk_component_def split: if_splits)
  have "wp (cleanupIndexNodeIfNeeded r mc) w (\<lambda>res v. res = Inr () \<longrightarrow> milvus v = set_IndexNode_nil mc \<and>
      deps v = filter (\<lambda>d. \<not> named (om_Namespace mc) (GetDeploymentName IndexNode (om_Name mc)) d) (deps w))"
    using assms(3-5) unfolding cleanupIndexNodeIfNeeded_def wp_bind
    by (auto intro!: wp_mono [OF workload_store.wp_delete_deployment [OF assms(1)]] wp_mono [OF workload_store.wp_delete_statefulset_deps [OF assms(1)]] deploy_store.wp_UpdateMilvus [OF workload_store.axioms(1) [OF assms(1)]] split: sum.splits)
  note run = wpD [OF this assms(6), simplified]
  show ?thesis
    using run gone by (auto simp: set_IndexNode_nil_def named_def formatComponentDeployName_def)
qed

section \<open>Example\<close>

definition ex_retired :: Milvus where
  "ex_retired = (new_Milvus ''ns'' ''mc'')\<lparr>om_UID := ''uid'',
     m_Spec := zero_MilvusSpec\<lparr>ms_Mode := MilvusModeCluster, ms_Com := zero_MilvusComponents\<lparr>cs_Image := ''milvusdb/milvus:v2.6.0'',
       com_RollingMode := RollingModeV3, com_IndexNode := Some zero_MilvusIndexNode\<rparr>\<rparr>,
     m_Status := zero_MilvusStatus\<lparr>mst_ComponentsDeployStatus := fmap_of_list [(''proxy'', \<lparr>cds_Generation = 0, cds_Image = ''milvusdb/milvus:v2.6.0'',
       cds_Status = zero_DeploymentStatus\<lparr>dst_Conditions := [\<lparr>dc_Type = ''Progressing'', dc_Status = ConditionTrue,
         dc_LastUpdateTime = None, dc_LastTransitionTime = None, dc_Reason = NewReplicaSetAvailableReason, dc_Message = []\<rparr>]\<rparr>\<rparr>)]\<rparr>\<rparr>"

lemma ex_retired_run:
  "run_state (cleanupIndexNodeIfNeeded mem_r ex_retired) (ex_wmem ex_retired [ex_owned ''mc-milvus-indexnode-0'' ''indexnode'' []] [] []) =
     (Inr (), ex_wmem (set_IndexNode_nil ex_retired) [ex_owned ''mc-milvus-indexnode-0'' ''indexnode'' []] [] [])"
  by code_simp

theorem index_node_slots_survive_cleanup_witness:
  "componentUsesTwoDeployments ex_retired IndexNode \<and> getDeployReplicas (ex_owned ''mc-milvus-indexnode-0'' ''indexnode'' []) = 1 \<and>
   ex_owned ''mc-milvus-indexnode-0'' ''indexnode'' [] \<in>
     set (mem_deps (ex_wmem (set_IndexNode_nil ex_retired) [ex_owned ''mc-milvus-indexnode-0'' ''indexnode'' []] [] [])) \<and>
   mcp_Name IndexNode \<notin> mcp_Name ` set (GetComponentWorkloadsBySpec std_x (m_Spec (set_IndexNode_nil ex_retired)))"
proof -
  have "ms_Mode (m_Spec ex_retired) = MilvusModeCluster" "IsVersionGreaterThan2_6 (rc_x mem_r) (m_Spec ex_retired)"
    "IsImageUpdated Proxy ex_retired" "com_IndexNode (ms_Com (m_Spec ex_retired)) \<noteq> None"
    by code_simp+
  note ok = index_node_slots_survive_cleanup [OF wm.workload_store_axioms this ex_retired_run, where slot = 0]
  have "componentUsesTwoDeployments ex_retired IndexNode" "getDeployReplicas (ex_owned ''mc-milvus-indexnode-0'' ''indexnode'' []) = 1"
    "om_Name (ex_owned ''mc-milvus-indexnode-0'' ''indexnode'' []) = formatComponentDeployName ex_retired IndexNode 0"
    by code_simp+
  with ok show ?thesis by (fastforce simp: ex_wmem_def)
qed

end
