(* ===== verification/Helm.thy ===== *)
theory Helm
  imports Probe
begin

text \<open>
  The dependencies the operator runs itself, as Helm releases: pkg/helm/helm.go, the defaults of
  pkg/helm/values/values.go and pkg/controllers/dependencies.go, with the resize of etcd's volumes, which
  replaces its StatefulSet.  The actions of the Helm library and the clientset are records of
  operations.
\<close>

section \<open>Charts\<close>

datatype DependencyKind = DependencyKindEtcd | DependencyKindStorage | DependencyKindPulsar | DependencyKindKafka | DependencyKindTei

definition ChartVersionPulsarV3 :: string where "ChartVersionPulsarV3 = ''pulsar-v3''"
definition ChartVersionEtcdV6 :: string where "ChartVersionEtcdV6 = ''etcd-v6''"
definition ChartVersionEtcdV8 :: string where "ChartVersionEtcdV8 = ''etcd-v8''"

definition Etcd :: string where "Etcd = ''etcd''"
definition Minio :: string where "Minio = ''minio''"
definition Pulsar :: string where "Pulsar = ''pulsar''"
definition Kafka :: string where "Kafka = ''kafka''"
definition Tei :: string where "Tei = ''tei''"

record ChartRequest =
  cr_ReleaseName :: string
  cr_Namespace :: string
  cr_Chart :: string
  cr_Values :: Values

definition GetChartPathByName :: "string \<Rightarrow> string" where
  "GetChartPathByName chart = ''config/assets/charts/'' @ chart"

text \<open>The field \<open>InCluster\<close> of the dependency of a kind, read by reflection in the source.\<close>

definition dep_InCluster :: "DependencyKind \<Rightarrow> Milvus \<Rightarrow> InClusterConfig option" where
  "dep_InCluster k mc =
     (let dep = ms_Dep (m_Spec mc) in
      case k of
        DependencyKindEtcd \<Rightarrow> etcd_InCluster (dep_Etcd dep)
      | DependencyKindStorage \<Rightarrow> st_InCluster (dep_Storage dep)
      | DependencyKindPulsar \<Rightarrow> pul_InCluster (dep_Pulsar dep)
      | DependencyKindKafka \<Rightarrow> kaf_InCluster (dep_Kafka dep)
      | DependencyKindTei \<Rightarrow> tei_InCluster (dep_Tei dep))"

definition chart_directory :: "DependencyKind \<Rightarrow> string \<Rightarrow> string \<Rightarrow> string" where
  "chart_directory k version chart =
     (case k of
        DependencyKindStorage \<Rightarrow> ''silo''
      | DependencyKindPulsar \<Rightarrow> if version = ChartVersionPulsarV3 then ''pulsarv3'' else chart
      | DependencyKindEtcd \<Rightarrow> if version = ChartVersionEtcdV6 then ''etcdv6'' else ''etcdv8''
      | _ \<Rightarrow> chart)"

definition release_kind :: "DependencyKind \<Rightarrow> string \<Rightarrow> string \<Rightarrow> string" where
  "release_kind k version chart =
     (if k = DependencyKindPulsar \<and> version = ChartVersionPulsarV3 then Pulsar else chart)"

definition default_key :: "string \<Rightarrow> string \<Rightarrow> values_map \<Rightarrow> values_map" where
  "default_key k from m = (case fmlookup m k of Some _ \<Rightarrow> m | None \<Rightarrow> fmupd k (value_or_nil m from) m)"

definition name_service_account :: "string \<Rightarrow> values_map \<Rightarrow> values_map" where
  "name_service_account name m =
     (let account = (case fmlookup m ''serviceAccount'' of Some (JObj a) \<Rightarrow> a | _ \<Rightarrow> fmempty) in
      fmupd ''serviceAccount'' (JObj (case fmlookup account ''name'' of
         Some (JStr n) \<Rightarrow> if n = [] then fmupd ''name'' (JStr name) account else account
       | _ \<Rightarrow> fmupd ''name'' (JStr name) account)) m)"

definition storage_values :: "string \<Rightarrow> values_map \<Rightarrow> values_map" where
  "storage_values instance' m =
     name_service_account (instance' @ ''-minio'')
       (fmupd ''nameOverride'' (JStr ''minio'') (fmupd ''fullnameOverride'' (JStr (instance' @ ''-minio''))
         (default_key ''rootPassword'' ''secretKey'' (default_key ''rootUser'' ''accessKey'' m))))"

text \<open>\<open>GetChartRequest\<close> panics without a configuration.\<close>

definition GetChartRequest :: "Milvus \<Rightarrow> DependencyKind \<Rightarrow> string \<Rightarrow> ChartRequest option" where
  "GetChartRequest mc k chart =
     map_option (\<lambda>inCluster.
       (let chartValues = Values_Data (ic_Values inCluster) in
        \<lparr>cr_ReleaseName = om_Name mc @ ''-'' @ release_kind k (ic_ChartVersion inCluster) chart,
         cr_Namespace = om_Namespace mc,
         cr_Chart = GetChartPathByName (chart_directory k (ic_ChartVersion inCluster) chart),
         cr_Values = Some (if k = DependencyKindStorage then storage_values (om_Name mc) chartValues else chartValues)\<rparr>))
       (dep_InCluster k mc)"

section \<open>Default values of the charts\<close>

text \<open>\<open>MustInitDefaultValuesProvider\<close> on the content of the file: a chart that is missing or not a map
  panics.\<close>

definition chart_values :: "values_map \<Rightarrow> string \<Rightarrow> values_map option" where
  "chart_values file chart = (case fmlookup file chart of Some (JObj m) \<Rightarrow> Some m | _ \<Rightarrow> None)"

definition image_value :: "string \<Rightarrow> string \<Rightarrow> json" where
  "image_value repository tag = JObj (fmap_of_list
     [(''repository'', JStr repository), (''tag'', JStr tag), (''pullPolicy'', JStr ''IfNotPresent'')])"

definition MustInitDefaultValuesProvider :: "values_map \<Rightarrow> (string, values_map) fmap option" where
  "MustInitDefaultValuesProvider file = do {
     pulsarV3 \<leftarrow> chart_values file ''pulsarv3'';
     storage \<leftarrow> chart_values file Minio;
     etcd \<leftarrow> chart_values file Etcd;
     pulsar \<leftarrow> chart_values file Pulsar;
     kafka \<leftarrow> chart_values file Kafka;
     Some (fmap_of_list
       [(Etcd, etcd),
        (Minio, fmupd ''replicas'' (JInt 4) (fmupd ''mcImage'' (image_value ''pgsty/mc'' ''RELEASE.2026-09-13T00-00-00Z'')
           (fmupd ''image'' (image_value ''pgsty/silo'' ''RELEASE.2026-09-03T13-18-01Z'') (fmupd ''nameOverride'' (JStr ''minio'') storage)))),
        (Pulsar, pulsar),
        (''pulsarv3'', fmupd ''nameOverride'' (JStr []) (fmupd ''name'' (JStr ''pulsar'') pulsarV3)),
        (Kafka, kafka)]) }"

definition GetDefaultValues :: "(string, values_map) fmap \<Rightarrow> DependencyKind \<Rightarrow> string \<Rightarrow> Values" where
  "GetDefaultValues charts k version =
     fmlookup charts (case k of
        DependencyKindEtcd \<Rightarrow> Etcd
      | DependencyKindStorage \<Rightarrow> Minio
      | DependencyKindPulsar \<Rightarrow> if version = ChartVersionPulsarV3 then ''pulsarv3'' else Pulsar
      | DependencyKindKafka \<Rightarrow> Kafka
      | DependencyKindTei \<Rightarrow> Tei)"

section \<open>The Helm client\<close>

text \<open>The actions of the Helm library.  \<open>hx_Status\<close> answers with the status and the chart's version, if
  the release has chart metadata.\<close>

record 'w HelmActions =
  hx_ErrReleaseNotFound :: go_error
  hx_History :: "string \<Rightarrow> string \<Rightarrow> ('w, unit) op"
  hx_Status :: "string \<Rightarrow> string \<Rightarrow> ('w, string \<times> string option) op"
  hx_Values :: "string \<Rightarrow> string \<Rightarrow> ('w, Values) op"
  hx_Load :: "string \<Rightarrow> ('w, unit) op"
  hx_Upgrade :: "ChartRequest \<Rightarrow> bool \<Rightarrow> ('w, unit) op"
  hx_Install :: "ChartRequest \<Rightarrow> ('w, unit) op"
  hx_Uninstall :: "string \<Rightarrow> string \<Rightarrow> ('w, unit) op"

fun errors_Is :: "go_error \<Rightarrow> go_error \<Rightarrow> bool" where
  "errors_Is (Wrap e m) target = (Wrap e m = target \<or> errors_Is e target)"
| "errors_Is e target = (e = target)"

definition helm_GetStatus :: "'w HelmActions \<Rightarrow> string \<Rightarrow> string \<Rightarrow> ('w, string) op" where
  "helm_GetStatus x ns name = op_bind (hx_Status x ns name) (\<lambda>rel. ret (fst rel))"

definition helm_GetValues :: "'w HelmActions \<Rightarrow> string \<Rightarrow> string \<Rightarrow> ('w, values_map) op" where
  "helm_GetValues x ns name = op_bind (hx_Values x ns name) (\<lambda>vals. ret (case vals of None \<Rightarrow> fmempty | Some v \<Rightarrow> v))"

definition ReleaseExist :: "'w HelmActions \<Rightarrow> string \<Rightarrow> string \<Rightarrow> ('w, bool) op" where
  "ReleaseExist x ns name = do {
     res \<leftarrow> hx_History x ns name;
     (case res of
        Inr _ \<Rightarrow> ret True
      | Inl e \<Rightarrow> if e = hx_ErrReleaseNotFound x then ret False else fail e) }"

definition helm_Update :: "'w HelmActions \<Rightarrow> ChartRequest \<Rightarrow> ('w, unit) op" where
  "helm_Update x request =
     op_bind (hx_Load x (cr_Chart request)) (\<lambda>_. hx_Upgrade x request (Values_Data (cr_Values request) = fmempty))"

definition helm_Install :: "'w HelmActions \<Rightarrow> ChartRequest \<Rightarrow> ('w, unit) op" where
  "helm_Install x request = op_bind (hx_Load x (cr_Chart request)) (\<lambda>_. hx_Install x request)"

definition helm_Upgrade :: "'w HelmActions \<Rightarrow> ChartRequest \<Rightarrow> ('w, unit) op" where
  "helm_Upgrade x request =
     op_bind (ReleaseExist x (cr_Namespace request) (cr_ReleaseName request)) (\<lambda>exist.
     if \<not> exist then helm_Install x request else helm_Update x request)"

definition helm_Uninstall :: "'w HelmActions \<Rightarrow> string \<Rightarrow> string \<Rightarrow> ('w, unit) op" where
  "helm_Uninstall x ns name = do {
     res \<leftarrow> hx_History x ns name;
     (case res of
        Inl e \<Rightarrow> if errors_Is e (hx_ErrReleaseNotFound x) then ret () else hx_Uninstall x ns name
      | Inr _ \<Rightarrow> hx_Uninstall x ns name) }"

definition GetChartVersion :: "'w HelmActions \<Rightarrow> string \<Rightarrow> string \<Rightarrow> ('w, string) op" where
  "GetChartVersion x ns name =
     op_bind (hx_Status x ns name) (\<lambda>rel.
     (case snd rel of None \<Rightarrow> fail (Errorf ''chart metadata not found in release'') | Some v \<Rightarrow> ret v))"

definition NeedUpdate :: "string \<Rightarrow> bool" where
  "NeedUpdate status \<longleftrightarrow> status = ''failed'' \<or> status = ''unknown'' \<or> status = ''uninstalled''"

section \<open>The local reconciler\<close>

text \<open>The clientset next to the reconciler's client; \<open>lh_Wait\<close> sleeps and tells whether the context is
  done; the saved StatefulSet is the decoded content of a controller revision.\<close>

record 'w LocalHelmReconciler =
  lh_r :: "'w Reconciler"
  lh_hx :: "'w HelmActions"
  lh_GetPVC :: "string \<Rightarrow> string \<Rightarrow> ('w, K8sVolumeClaim) op"
  lh_GetRevision :: "string \<Rightarrow> string \<Rightarrow> ('w, StatefulSet) op"
  lh_CreateRevision :: "string \<Rightarrow> string \<Rightarrow> StatefulSet \<Rightarrow> ('w, unit) op"
  lh_DeleteRevision :: "string \<Rightarrow> string \<Rightarrow> ('w, unit) op"
  lh_DeleteStatefulSetOrphan :: "string \<Rightarrow> string \<Rightarrow> ('w, unit) op"
  lh_Wait :: "('w, bool) state"
  lh_ParseQuantity :: "string \<Rightarrow> int option"
  lh_fuel :: nat

fun contains :: "string \<Rightarrow> string \<Rightarrow> bool" where
  "contains [] sub = (sub = [])"
| "contains (c # cs) sub = (has_prefix (c # cs) sub \<or> contains cs sub)"

text \<open>\<open>fmt.Errorf\<close> with \<open>%v\<close>: the cause is only quoted.\<close>

definition quoting :: "string \<Rightarrow> ('w, 'a) op \<Rightarrow> ('w, 'a) op" where
  "quoting msg m = do { res \<leftarrow> m; (case res of Inr a \<Rightarrow> ret a | Inl e \<Rightarrow> fail (Errorf (msg @ '': '' @ error_text e))) }"

definition sized :: "int \<Rightarrow> K8sVolumeClaim \<Rightarrow> K8sVolumeClaim" where
  "sized q p = p\<lparr>vc_Requests := fmupd ResourceStorage q (vc_Requests p)\<rparr>"

definition getCurrentStorageSize :: "StatefulSet \<Rightarrow> int" where
  "getCurrentStorageSize sts = (case s_VolumeClaimTemplates sts of [] \<Rightarrow> 0 | t # _ \<Rightarrow> requested_storage t)"

definition recreated :: "int \<Rightarrow> StatefulSet \<Rightarrow> StatefulSet" where
  "recreated q sts = sts\<lparr>s_VolumeClaimTemplates := map (sized q) (s_VolumeClaimTemplates sts), s_Status := s_Status (new_StatefulSet [] [])\<rparr>"

definition createNewStatefulSet :: "'w LocalHelmReconciler \<Rightarrow> StatefulSet \<Rightarrow> int \<Rightarrow> ('w, unit) op" where
  "createNewStatefulSet l templateSts q =
     quoting ''failed to create new StatefulSet'' (rc_CreateStatefulSet (lh_r l) (recreated q templateSts))"

text \<open>Both waits are the loop over a read of the object; \<open>None\<close> when the fuel ran out.\<close>

fun wait_deleted :: "nat \<Rightarrow> string \<Rightarrow> ('w, bool) state \<Rightarrow> ('w, 'a) op \<Rightarrow> ('w, unit option) op" where
  "wait_deleted 0 what wait get = ret None"
| "wait_deleted (Suc n) what wait get = do {
     res \<leftarrow> get;
     (case res of
        Inl e \<Rightarrow> if contains (error_text e) ''not found'' then ret (Some ()) else fail e
      | Inr _ \<Rightarrow> do {
          cancelled \<leftarrow> wait;
          if cancelled then fail (Errorf (''context cancelled while waiting for '' @ what @ '' deletion'')) else wait_deleted n what wait get }) }"

definition waitForControllerRevisionsDeletion :: "'w LocalHelmReconciler \<Rightarrow> string \<Rightarrow> string \<Rightarrow> ('w, unit) op" where
  "waitForControllerRevisionsDeletion l ns name =
     must_return (wait_deleted (lh_fuel l) ''ControllerRevision'' (lh_Wait l) (lh_GetRevision l ns name))"

definition waitForStatefulSetDeletion :: "'w LocalHelmReconciler \<Rightarrow> string \<Rightarrow> string \<Rightarrow> ('w, unit) op" where
  "waitForStatefulSetDeletion l ns name =
     must_return (wait_deleted (lh_fuel l) ''StatefulSet'' (lh_Wait l) (rc_GetStatefulSet (lh_r l) ns name))"

text \<open>\<open>K8sUtil.SaveObject\<close> and \<open>GetSavedObject\<close> at the type of StatefulSets.\<close>

definition SaveStatefulSet :: "'w LocalHelmReconciler \<Rightarrow> Milvus \<Rightarrow> string \<Rightarrow> StatefulSet \<Rightarrow> ('w, unit) op" where
  "SaveStatefulSet l mc name sts =
     CreateObject (lh_GetRevision l (om_Namespace mc) name) (lh_CreateRevision l (om_Namespace mc) name sts)"

definition GetSavedStatefulSet :: "'w LocalHelmReconciler \<Rightarrow> string \<Rightarrow> string \<Rightarrow> ('w, StatefulSet) op" where
  "GetSavedStatefulSet l ns name = op_wrap ''get saved object'' (lh_GetRevision l ns name)"

definition resize_claim :: "'w LocalHelmReconciler \<Rightarrow> string \<Rightarrow> string \<Rightarrow> int \<Rightarrow> int \<Rightarrow> ('w, unit) op" where
  "resize_claim l ns releaseName q i =
     (let pvcName = ''data-'' @ releaseName @ ''-'' @ itoa i in
      op_bind (quoting (''failed to get PVC '' @ pvcName) (lh_GetPVC l ns pvcName)) (\<lambda>pvc.
      quoting (''failed to update PVC '' @ pvcName) (rc_UpdatePVC (lh_r l) (sized q pvc))))"

definition resize_first_template :: "int \<Rightarrow> StatefulSet \<Rightarrow> StatefulSet" where
  "resize_first_template q sts = sts\<lparr>s_VolumeClaimTemplates :=
     (case s_VolumeClaimTemplates sts of [] \<Rightarrow> [] | t # ts \<Rightarrow> sized q t # ts)\<rparr>"

text \<open>The StatefulSet, or one restored from the saved copy, or nothing to do.\<close>

definition current_statefulset :: "'w LocalHelmReconciler \<Rightarrow> string \<Rightarrow> string \<Rightarrow> string \<Rightarrow> ('w, StatefulSet option) op" where
  "current_statefulset l ns stsName saveName = do {
     res \<leftarrow> rc_GetStatefulSet (lh_r l) ns stsName;
     (case res of
        Inr sts \<Rightarrow> ret (Some sts)
      | Inl e \<Rightarrow>
          if IsNotFound e then do {
            saved \<leftarrow> GetSavedStatefulSet l ns saveName;
            (case saved of
               Inl e' \<Rightarrow> if IsNotFound e' then ret None else fail (Errorf (''failed to get saved StatefulSet: '' @ error_text e'))
             | Inr sts \<Rightarrow> op_bind (createNewStatefulSet l sts (getCurrentStorageSize sts)) (\<lambda>_. ret (Some sts))) }
          else fail (Errorf (''failed to get StatefulSet: '' @ error_text e))) }"

text \<open>The replacement: once the claims are resized: a fresh saved copy, then delete and create.\<close>

definition replace_statefulset :: "'w LocalHelmReconciler \<Rightarrow> string \<Rightarrow> string \<Rightarrow> string \<Rightarrow> int \<Rightarrow> Milvus \<Rightarrow> StatefulSet \<Rightarrow> ('w, unit) op" where
  "replace_statefulset l ns stsName saveName q mc sts =
     op_bind (quoting ''failed to delete controller revision'' (do {
         res \<leftarrow> lh_DeleteRevision l ns saveName;
         (case res of Inl e \<Rightarrow> if IsNotFound e then ret () else fail e | Inr _ \<Rightarrow> ret ()) })) (\<lambda>_.
     op_bind (quoting ''failed to wait for StatefulSet deletion'' (waitForControllerRevisionsDeletion l ns saveName)) (\<lambda>_.
     op_bind (quoting ''failed to save StatefulSet'' (SaveStatefulSet l mc saveName sts)) (\<lambda>_.
     op_bind (quoting ''failed to delete StatefulSet'' (lh_DeleteStatefulSetOrphan l ns stsName)) (\<lambda>_.
     op_bind (quoting ''failed to wait for StatefulSet deletion'' (waitForStatefulSetDeletion l ns stsName)) (\<lambda>_.
     createNewStatefulSet l sts q)))))"

text \<open>The old size is only logged.\<close>

definition reconcilePVCs :: "'w LocalHelmReconciler \<Rightarrow> string \<Rightarrow> string \<Rightarrow> string \<Rightarrow> Milvus \<Rightarrow> ('w, unit) op" where
  "reconcilePVCs l ns releaseName newSize mc =
     (case lh_ParseQuantity l newSize of
        None \<Rightarrow> fail (Errorf ''failed to parse new size'')
      | Some q \<Rightarrow>
          (let saveName = releaseName @ ''-old-sts'' in
           op_bind (current_statefulset l ns releaseName saveName) (\<lambda>current.
           (case current of
              None \<Rightarrow> ret ()
            | Some sts \<Rightarrow>
                if getCurrentStorageSize sts = q then ret ()
                else op_bind (lift_result (or_panic ''nil replicas'' (s_Replicas sts))) (\<lambda>n.
                     op_bind (for_each (resize_claim l ns releaseName q) [0..n - 1]) (\<lambda>_.
                     replace_statefulset l ns releaseName saveName q mc (resize_first_template q sts)))))))"

text \<open>The size in the values of a chart, or the error that reports what is wrong with it.\<close>

definition persistence_size :: "string \<Rightarrow> values_map \<Rightarrow> go_error + string" where
  "persistence_size what vals =
     (case value_or_nil vals ''persistence'' of
        JNull \<Rightarrow> Inl (Errorf (if what = ''old'' then ''old opersistence is nil'' else what @ '' persistence is nil''))
      | JObj m \<Rightarrow> (case value_or_nil m ''size'' of
          JNull \<Rightarrow> Inl (Errorf (what @ '' persistence size is nil''))
        | JStr sz \<Rightarrow> Inr sz
        | _ \<Rightarrow> Inl (Errorf (what @ '' persistence size is not a string'')))
      | _ \<Rightarrow> Inl (Errorf (what @ '' persistence is not a map'')))"

text \<open>Writing to a nil map panics.\<close>

definition set_initialize :: "bool \<Rightarrow> ChartRequest \<Rightarrow> go_error + ChartRequest" where
  "set_initialize b request =
     (if cr_Chart request = GetChartPathByName Pulsar
      then map_sum id (\<lambda>m. request\<lparr>cr_Values := Some (fmupd ''initialize'' (JBool b) m)\<rparr>) (or_panic ''nil map'' (cr_Values request))
      else Inr request)"

definition LocalHelm_Reconcile :: "'w LocalHelmReconciler \<Rightarrow> ChartRequest \<Rightarrow> Milvus \<Rightarrow> ('w, unit) op" where
  "LocalHelm_Reconcile l request mc =
     (let x = lh_hx l; ns = cr_Namespace request; name = cr_ReleaseName request in
      op_bind (ReleaseExist x ns name) (\<lambda>exist.
      if \<not> exist then op_bind (lift_result (set_initialize True request)) (helm_Install x)
      else
        op_bind (helm_GetValues x ns name) (\<lambda>vals.
        op_bind (helm_GetStatus x ns name) (\<lambda>status.
        (let vals = (if cr_Chart request = GetChartPathByName Pulsar then fmdrop ''initialize'' vals else vals) in
         if Some vals = cr_Values request \<and> \<not> NeedUpdate status then ret ()
         else
           op_bind (lift_result (set_initialize False request)) (\<lambda>request.
           op_bind (if contains name Etcd
                    then op_bind (lift_result (persistence_size ''old'' vals)) (\<lambda>_.
                         op_bind (lift_result (persistence_size ''new'' (Values_Data (cr_Values request)))) (\<lambda>newSize.
                         reconcilePVCs l ns name newSize mc))
                    else ret ()) (\<lambda>_.
           helm_Update x request)))))))"

definition LocalHelm_GetValues :: "'w LocalHelmReconciler \<Rightarrow> string \<Rightarrow> string \<Rightarrow> ('w, values_map) op" where
  "LocalHelm_GetValues l ns release =
     op_bind (ReleaseExist (lh_hx l) ns release) (\<lambda>exist.
     if \<not> exist then ret fmempty else helm_GetValues (lh_hx l) ns release)"

section \<open>The dependencies of an instance\<close>

definition chart_request :: "Milvus \<Rightarrow> DependencyKind \<Rightarrow> string \<Rightarrow> ('w, ChartRequest) op" where
  "chart_request mc k chart = lift_result (or_panic ''nil inCluster'' (GetChartRequest mc k chart))"

definition set_etcd_version :: "string \<Rightarrow> Milvus \<Rightarrow> Milvus" where
  "set_etcd_version v mc = mc\<lparr>m_Spec := (m_Spec mc)\<lparr>ms_Dep := (ms_Dep (m_Spec mc))\<lparr>dep_Etcd :=
     (dep_Etcd (ms_Dep (m_Spec mc)))\<lparr>etcd_InCluster := map_option (\<lambda>c. c\<lparr>ic_ChartVersion := v\<rparr>) (etcd_InCluster (dep_Etcd (ms_Dep (m_Spec mc))))\<rparr>\<rparr>\<rparr>\<rparr>"

definition detect_etcd_version :: "'w LocalHelmReconciler \<Rightarrow> string \<Rightarrow> string \<Rightarrow> ('w, string) op" where
  "detect_etcd_version l ns releaseName =
     op_bind (ReleaseExist (lh_hx l) ns releaseName) (\<lambda>exist.
     if \<not> exist then ret ChartVersionEtcdV8
     else
       op_bind (op_wrap (''failed to get etcd chart version from helm release '' @ releaseName) (GetChartVersion (lh_hx l) ns releaseName)) (\<lambda>v.
       (case x_ParseTolerant (rc_x (lh_r l)) v of
          None \<Rightarrow> fail (Errorf (''failed to parse etcd chart version '' @ v @ '' as semantic version''))
        | Some ver \<Rightarrow>
            if sv_Major ver = 6 then ret ChartVersionEtcdV6
            else if sv_Major ver = 8 then ret ChartVersionEtcdV8
            else fail (Errorf (''unsupported etcd chart version '' @ v)))))"

definition ensureEtcdChartVersion :: "'w LocalHelmReconciler \<Rightarrow> Milvus \<Rightarrow> ('w, Milvus) op" where
  "ensureEtcdChartVersion l mc =
     (case etcd_InCluster (dep_Etcd (ms_Dep (m_Spec mc))) of
        None \<Rightarrow> fail (Errorf ''etcd inCluster config is required when etcd is not external'')
      | Some c \<Rightarrow>
          if ic_ChartVersion c \<noteq> [] then ret mc
          else op_bind (detect_etcd_version l (om_Namespace mc) (om_Name mc @ ''-etcd'')) (\<lambda>v.
               op_bind (cli_UpdateMilvus (rc_cli (lh_r l)) (set_etcd_version v mc)) (\<lambda>_. ret (set_etcd_version v mc))))"

definition ReconcileEtcd :: "'w LocalHelmReconciler \<Rightarrow> Milvus \<Rightarrow> ('w, unit) op" where
  "ReconcileEtcd l mc =
     (if etcd_External (dep_Etcd (ms_Dep (m_Spec mc))) then ret ()
      else op_bind (ensureEtcdChartVersion l mc) (\<lambda>mc.
           op_bind (chart_request mc DependencyKindEtcd Etcd) (\<lambda>request. LocalHelm_Reconcile l request mc)))"

definition ReconcileKafka :: "'w LocalHelmReconciler \<Rightarrow> Milvus \<Rightarrow> ('w, unit) op" where
  "ReconcileKafka l mc =
     (if kaf_External (dep_Kafka (ms_Dep (m_Spec mc))) then ret ()
      else op_bind (chart_request mc DependencyKindKafka Kafka) (\<lambda>request. LocalHelm_Reconcile l request mc))"

definition ReconcilePulsar :: "'w LocalHelmReconciler \<Rightarrow> Milvus \<Rightarrow> ('w, unit) op" where
  "ReconcilePulsar l mc =
     (if pul_External (dep_Pulsar (ms_Dep (m_Spec mc))) then ret ()
      else op_bind (chart_request mc DependencyKindPulsar Pulsar) (\<lambda>request. LocalHelm_Reconcile l request mc))"

definition ReconcileMsgStream :: "'w LocalHelmReconciler \<Rightarrow> Milvus \<Rightarrow> ('w, unit) op" where
  "ReconcileMsgStream l mc =
     (case dep_MsgStreamType (ms_Dep (m_Spec mc)) of
        MsgStreamTypeKafka \<Rightarrow> ReconcileKafka l mc
      | MsgStreamTypePulsar \<Rightarrow> ReconcilePulsar l mc
      | _ \<Rightarrow> ret ())"

text \<open>A release of the old MinIO chart keeps that chart.\<close>

definition ReconcileMinio :: "'w LocalHelmReconciler \<Rightarrow> Milvus \<Rightarrow> ('w, unit) op" where
  "ReconcileMinio l mc =
     (if st_External (dep_Storage (ms_Dep (m_Spec mc))) then ret ()
      else
        op_bind (chart_request mc DependencyKindStorage Minio) (\<lambda>request.
        op_bind (ReleaseExist (lh_hx l) (om_Namespace mc) (cr_ReleaseName request)) (\<lambda>exists.
        op_bind (if exists
                 then op_bind (GetChartVersion (lh_hx l) (om_Namespace mc) (cr_ReleaseName request)) (\<lambda>version.
                      ret (if has_prefix version ''8.''
                           then request\<lparr>cr_Chart := GetChartPathByName Minio,
                                  cr_Values := Option.bind (dep_InCluster DependencyKindStorage mc) ic_Values\<rparr>
                           else request))
                 else ret request) (\<lambda>request.
        LocalHelm_Reconcile l request mc))))"

definition ReconcileTei :: "'w LocalHelmReconciler \<Rightarrow> Milvus \<Rightarrow> ('w, unit) op" where
  "ReconcileTei l mc =
     (if \<not> tei_Enabled (dep_Tei (ms_Dep (m_Spec mc))) then ret ()
      else op_bind (chart_request mc DependencyKindTei Tei) (\<lambda>request. LocalHelm_Reconcile l request mc))"

end
