(* ===== verification/Objects.thy ===== *)
theory Objects
  imports Probe
begin

text \<open>
  The remaining objects of an instance: ingress.go, podmonitor.go and pvc.go.  The client's operations on
  these kinds are the record \<open>Objects\<close>.
\<close>

section \<open>Kinds and client\<close>

record IngressTLS =
  itls_Hosts :: "string list"
  itls_SecretName :: string

text \<open>Every rule has one path \<open>/\<close> of type \<open>Prefix\<close>.\<close>

record IngressRule =
  irule_Host :: string
  irule_Path :: string
  irule_PathType :: string
  irule_Service :: string
  irule_Port :: int

record Ingress = ObjectMeta +
  ig_ClassName :: "string option"
  ig_TLS :: "IngressTLS list"
  ig_Rules :: "IngressRule list"
  ig_Status :: json

record RelabelConfig =
  rl_Action :: string
  rl_Replacement :: "string option"
  rl_TargetLabel :: string

record PodMetricsEndpoint =
  pme_HonorLabels :: bool
  pme_Interval :: string
  pme_Path :: string
  pme_Port :: string
  pme_MetricRelabelConfigs :: "RelabelConfig list"

record PodMonitor = ObjectMeta +
  pm_Endpoints :: "PodMetricsEndpoint list"
  pm_MatchNames :: "string list"
  pm_MatchLabels :: smap
  pm_PodTargetLabels :: "string list"

text \<open>\<open>ob_PVCSpec\<close> decodes a specification; the errors of the decoding are dropped by the caller.\<close>

record 'w Objects =
  ob_r :: "'w Reconciler"
  ob_GetIngress :: "string \<Rightarrow> string \<Rightarrow> ('w, Ingress) op"
  ob_CreateIngress :: "Ingress \<Rightarrow> ('w, unit) op"
  ob_UpdateIngress :: "Ingress \<Rightarrow> ('w, unit) op"
  ob_GetPodMonitor :: "string \<Rightarrow> string \<Rightarrow> ('w, PodMonitor) op"
  ob_CreatePodMonitor :: "PodMonitor \<Rightarrow> ('w, unit) op"
  ob_UpdatePodMonitor :: "PodMonitor \<Rightarrow> ('w, unit) op"
  ob_IsNoMatchError :: "go_error \<Rightarrow> bool"
  ob_GetPVC :: "string \<Rightarrow> string \<Rightarrow> ('w, K8sVolumeClaim) op"
  ob_CreatePVC :: "K8sVolumeClaim \<Rightarrow> ('w, unit) op"
  ob_PVCSpec :: "Values \<Rightarrow> K8sVolumeClaim"

section \<open>Ingress\<close>

definition MilvusPort :: int where "MilvusPort = 19530"

definition ingress_rule :: "string \<Rightarrow> string \<Rightarrow> IngressRule" where
  "ingress_rule instance' host = \<lparr>irule_Host = host, irule_Path = ''/'', irule_PathType = ''Prefix'',
     irule_Service = GetServiceInstanceName instance', irule_Port = MilvusPort\<rparr>"

definition ingress_Render :: "(string list \<Rightarrow> string list) \<Rightarrow> Milvus \<Rightarrow> MilvusIngress \<Rightarrow> Ingress" where
  "ingress_Render rng mc spec =
     ObjectMeta.extend ((new_ObjectMeta (om_Namespace mc) (om_Name mc @ ''-milvus''))\<lparr>om_Labels := ing_Labels spec, om_Annotations := ing_Annotations spec\<rparr>)
       (Ingress.fields (ing_IngressClassName spec)
         (List.map_filter (\<lambda>secret. map_option (\<lambda>hosts. \<lparr>itls_Hosts = hosts, itls_SecretName = secret\<rparr>) (fmlookup (ing_TLSSecretRefs spec) secret))
            (rng (sorted_list_of_fset (fmdom (ing_TLSSecretRefs spec)))))
         (map (ingress_rule (om_Name mc)) (ing_Hosts spec)) JNull)"

definition same_ingress :: "Ingress \<Rightarrow> Ingress \<Rightarrow> bool" where
  "same_ingress old new \<longleftrightarrow> new\<lparr>ig_Status := ig_Status old\<rparr> = old"

definition merged_ingress :: "Ingress \<Rightarrow> Ingress \<Rightarrow> Ingress" where
  "merged_ingress old new = old\<lparr>om_Labels := MergeLabels [om_Labels old, om_Labels new],
     om_Annotations := MergeLabels [om_Annotations old, om_Annotations new],
     ig_ClassName := ig_ClassName new, ig_TLS := ig_TLS new, ig_Rules := ig_Rules new\<rparr>"

definition reconcileIngress :: "'w Objects \<Rightarrow> Milvus \<Rightarrow> MilvusIngress \<Rightarrow> ('w, unit) op" where
  "reconcileIngress ob mc ingress =
     (let new = ingress_Render (rc_range (ob_r ob)) mc ingress in
      op_bind (op_wrap ''failed to set controller reference''
        (lift_result (cli_SetControllerReference (rc_cli (ob_r ob)) mc (om_OwnerReferences new)))) (\<lambda>owners.
      (let new = new\<lparr>om_OwnerReferences := owners\<rparr> in
       op_bind (op_wrap ''failed to get ingress'' (get_if_exists (ob_GetIngress ob (om_Namespace mc) (om_Name mc @ ''-milvus'')))) (\<lambda>found.
       (case found of
          None \<Rightarrow> op_wrap ''failed to create ingress'' (ob_CreateIngress ob new)
        | Some old \<Rightarrow>
            if same_ingress old new then ret ()
            else op_wrap ''failed to update ingress'' (ob_UpdateIngress ob (merged_ingress old new)))))))"

definition ReconcileIngress :: "'w Objects \<Rightarrow> Milvus \<Rightarrow> ('w, unit) op" where
  "ReconcileIngress ob mc =
     op_bind (lift_result (or_panic ''nil component'' (GetServiceComponent (m_Spec mc)))) (\<lambda>sv.
     (case sv_Ingress sv of None \<Rightarrow> ret () | Some ingress \<Rightarrow> reconcileIngress ob mc ingress))"

section \<open>Pod monitor\<close>

definition MetricPath :: string where "MetricPath = ''/metrics''"
definition MetricPortName :: string where "MetricPortName = ''metrics''"
definition EtcdMetricPortName :: string where "EtcdMetricPortName = ''client''"

definition metric_labels :: "(string list \<Rightarrow> string list) \<Rightarrow> smap \<Rightarrow> RelabelConfig list" where
  "metric_labels rng labels =
     map (\<lambda>k. \<lparr>rl_Action = ''replace'', rl_Replacement = fmlookup labels k, rl_TargetLabel = k\<rparr>)
       (rng (sorted_list_of_fset (fmdom labels)))"

definition metric_interval :: "Milvus \<Rightarrow> string" where
  "metric_interval mc = (let i = com_MetricInterval (ms_Com (m_Spec mc)) in if i = [] then ''30s'' else i)"

definition metric_endpoint :: "string \<Rightarrow> string \<Rightarrow> PodMetricsEndpoint" where
  "metric_endpoint interval port = \<lparr>pme_HonorLabels = True, pme_Interval = interval, pme_Path = MetricPath, pme_Port = port, pme_MetricRelabelConfigs = []\<rparr>"

definition metric_endpoints :: "Milvus \<Rightarrow> PodMetricsEndpoint list" where
  "metric_endpoints mc =
     (let etcd = dep_Etcd (ms_Dep (m_Spec mc));
          helmPodMonitor = (case etcd_InCluster etcd of None \<Rightarrow> False
            | Some c \<Rightarrow> fst (GetBoolValue (Values_Data (ic_Values c)) [''metrics'', ''podMonitor'', ''enabled''])) in
      metric_endpoint (metric_interval mc) MetricPortName #
        (if \<not> etcd_External etcd \<and> \<not> helmPodMonitor then [metric_endpoint (metric_interval mc) EtcdMetricPortName] else []))"

definition updatePodMonitor :: "'w Objects \<Rightarrow> Milvus \<Rightarrow> PodMonitor \<Rightarrow> go_error + PodMonitor" where
  "updatePodMonitor ob mc podmonitor =
     (case cli_SetControllerReference (rc_cli (ob_r ob)) mc (om_OwnerReferences podmonitor) of
        Inl e \<Rightarrow> Inl e
      | Inr owners \<Rightarrow>
          (let appLabels = NewAppLabels (om_Name mc);
               added = metric_labels (rc_range (ob_r ob)) (com_MetricLabels (ms_Com (m_Spec mc)));
               eps = (if length (pm_Endpoints podmonitor) \<noteq> length (metric_endpoints mc) then metric_endpoints mc else pm_Endpoints podmonitor);
               eps = map (\<lambda>e. e\<lparr>pme_Interval := metric_interval mc,
                       pme_MetricRelabelConfigs := (if added \<noteq> [] then added else pme_MetricRelabelConfigs e)\<rparr>) eps
           in Inr (podmonitor\<lparr>om_Labels := MergeLabels [om_Labels podmonitor, appLabels], om_OwnerReferences := owners,
                 pm_Endpoints := eps, pm_MatchNames := [om_Namespace mc], pm_MatchLabels := fmdrop AppLabelManagedBy appLabels,
                 pm_PodTargetLabels := [AppLabelInstance, AppLabelName, AppLabelComponent, DeploymentGroupLabel]\<rparr>)))"

definition new_PodMonitor :: "string \<Rightarrow> string \<Rightarrow> PodMonitor" where
  "new_PodMonitor ns name = ObjectMeta.extend (new_ObjectMeta ns name) (PodMonitor.fields [] [] fmempty [])"

definition ReconcilePodMonitor :: "'w Objects \<Rightarrow> Milvus \<Rightarrow> ('w, unit) op" where
  "ReconcilePodMonitor ob mc =
     (if com_DisableMetric (ms_Com (m_Spec mc)) then ret ()
      else do {
        res \<leftarrow> ob_GetPodMonitor ob (om_Namespace mc) (om_Name mc);
        (case res of
           Inl e \<Rightarrow>
             if ob_IsNoMatchError ob e then ret ()
             else if IsNotFound e then
               op_bind (lift_result (updatePodMonitor ob mc (new_PodMonitor (om_Namespace mc) (om_Name mc)))) (ob_CreatePodMonitor ob)
             else fail e
         | Inr old \<Rightarrow>
             op_bind (lift_result (updatePodMonitor ob mc old)) (\<lambda>cur.
             if cur = old then ret () else ob_UpdatePodMonitor ob cur)) })"

section \<open>The data volume\<close>

definition defaultPVCSize :: int where "defaultPVCSize = 5 * 1024 * 1024 * 1024"

definition syncPVC :: "'w Objects \<Rightarrow> PersistentVolumeClaim \<Rightarrow> K8sVolumeClaim \<Rightarrow> K8sVolumeClaim" where
  "syncPVC ob milvusPVC pvc =
     (let spec = ob_PVCSpec ob (pvc_Spec milvusPVC) in
      pvc\<lparr>om_Labels := pvc_Labels milvusPVC, om_Annotations := pvc_Annotations milvusPVC,
          vc_StorageClassName := vc_StorageClassName spec, vc_VolumeName := vc_VolumeName spec, vc_Other := vc_Other spec,
          vc_AccessModes := (if vc_AccessModes spec = [] then [''ReadWriteOnce''] else vc_AccessModes spec),
          vc_Requests := (if requested_storage spec = 0 then fmupd ResourceStorage defaultPVCSize (vc_Requests spec) else vc_Requests spec)\<rparr>)"

definition new_PVC :: "string \<Rightarrow> string \<Rightarrow> K8sVolumeClaim" where
  "new_PVC ns name = ObjectMeta.extend (new_ObjectMeta ns name) (K8sVolumeClaim.fields None fmempty [] [] JNull)"

definition syncUpdatePVC :: "'w Objects \<Rightarrow> string \<Rightarrow> string \<Rightarrow> PersistentVolumeClaim \<Rightarrow> ('w, unit) op" where
  "syncUpdatePVC ob ns name milvusPVC =
     op_bind (op_wrap ''failed to get data pvc'' (get_if_exists (ob_GetPVC ob ns name))) (\<lambda>found.
     (case found of
        None \<Rightarrow> ob_CreatePVC ob (syncPVC ob milvusPVC (new_PVC ns name))
      | Some old \<Rightarrow>
          (let new = (syncPVC ob milvusPVC old)\<lparr>vc_VolumeName := vc_VolumeName old\<rparr>;
               new = (if vc_StorageClassName (ob_PVCSpec ob (pvc_Spec milvusPVC)) = None
                      then new\<lparr>vc_StorageClassName := vc_StorageClassName old\<rparr> else new)
           in if new = old then ret () else op_wrap ''failed to update data pvc'' (rc_UpdatePVC (ob_r ob) new))))"

definition ReconcilePVCs :: "'w Objects \<Rightarrow> Milvus \<Rightarrow> ('w, unit) op" where
  "ReconcilePVCs ob mil =
     (case GetPersistenceConfig (m_Spec mil) of
        None \<Rightarrow> ret ()
      | Some persistence \<Rightarrow>
          if per_Enabled persistence \<and> pvc_ExistingClaim (per_PersistentVolumeClaim persistence) = []
          then syncUpdatePVC ob (om_Namespace mil) (getPVCNameByInstName (om_Name mil)) (per_PersistentVolumeClaim persistence)
          else ret ())"

end
