(* ===== verification/Config_Map.thy ===== *)
theory Config_Map
  imports Status Upgrade_FSM
begin

text \<open>
  The configuration of an instance: the config map the operator renders (configmaps.go, the rest of
  kafka_secrets.go), the checksum annotation of the Kafka credentials, and the tool that merges the rendered
  configuration into the one of the image when a pod starts (tool/merge/main.go).  Rendering the
  template, YAML and JSON are fields of the record \<open>Configs\<close>.
\<close>

section \<open>Client and packages\<close>

record 'w Configs =
  cf_r :: "'w Reconciler"
  cf_E :: webhook_env
  cf_Template :: "Milvus \<Rightarrow> go_error + values_map"
  cf_YamlMarshal :: "values_map \<Rightarrow> go_error + string"
  cf_MarshalPools :: "WoodpeckerBufferPool list \<Rightarrow> go_error + string"
  cf_MarshalEntries :: "(SecretKeyRef \<times> string) list \<Rightarrow> string"
  cf_GetConfigMap :: "string \<Rightarrow> string \<Rightarrow> ('w, ConfigMap) op"
  cf_ListConfigMaps :: "string \<Rightarrow> smap \<Rightarrow> ('w, ConfigMap list) op"
  cf_CreateConfigMap :: "ConfigMap \<Rightarrow> ('w, unit) op"
  cf_UpdateConfigMap :: "ConfigMap \<Rightarrow> ('w, unit) op"

definition SetValue :: "webhook_env \<Rightarrow> json \<Rightarrow> string list \<Rightarrow> values_map \<Rightarrow> values_map" where
  "SetValue E v p m = we_SetNestedField E m v p"

definition SetStringSlice :: "webhook_env \<Rightarrow> string list \<Rightarrow> string list \<Rightarrow> values_map \<Rightarrow> values_map" where
  "SetStringSlice E v p m = we_SetNestedField E m (JArr (map JStr v)) p"

definition MqTypeConfigKey :: string where "MqTypeConfigKey = ''messageQueue''"
definition UserYaml :: string where "UserYaml = ''user.yaml''"
definition HookYaml :: string where "HookYaml = ''hook.yaml''"
definition KafkaCACertPath :: string where "KafkaCACertPath = ''/milvus/configs/kafka-ca/ca.pem''"

fun msg_stream_name :: "MsgStreamType \<Rightarrow> string" where
  "msg_stream_name MsgStreamTypeUnset = []"
| "msg_stream_name MsgStreamTypePulsar = ''pulsar''"
| "msg_stream_name MsgStreamTypeKafka = ''kafka''"
| "msg_stream_name MsgStreamTypeWoodPecker = ''woodpecker''"
| "msg_stream_name MsgStreamTypeRocksMQ = ''rocksmq''"
| "msg_stream_name MsgStreamTypeNatsMQ = ''natsmq''"
| "msg_stream_name MsgStreamTypeCustom = ''custom''"

section \<open>Kafka credentials\<close>

definition kafkaSecretReader :: "'w Reconciler \<Rightarrow> string \<Rightarrow> string \<Rightarrow> string \<Rightarrow> ('w, string) op" where
  "kafkaSecretReader r ns name key =
     op_bind (rc_GetSecret r ns name) (\<lambda>secret.
     if fmget (sec_Data secret) key = [] then fail (Errorf (''kafka Secret '' @ ns @ ''/'' @ name @ '' missing or empty key '' @ key))
     else ret (fmget (sec_Data secret) key))"

text \<open>The references that are set, with the namespace filled in, and what they refer to.\<close>

definition set_refs :: "Milvus \<Rightarrow> KafkaSecretRefs \<Rightarrow> SecretKeyRef list" where
  "set_refs mc refs = List.map_filter (map_option (\<lambda>ref. ref\<lparr>skr_Namespace := om_Namespace mc\<rparr>)) (ref_list refs)"

fun read_refs :: "'w Reconciler \<Rightarrow> SecretKeyRef list \<Rightarrow> ('w, (SecretKeyRef \<times> string) list) op" where
  "read_refs r [] = ret []"
| "read_refs r (ref # refs) =
     op_bind (kafkaSecretReader r (skr_Namespace ref) (skr_Name ref) (skr_Key ref)) (\<lambda>v.
     op_bind (read_refs r refs) (\<lambda>entries. ret ((ref, v) # entries)))"

definition kafkaSecretRefsChecksum :: "'w Configs \<Rightarrow> Milvus \<Rightarrow> ('w, string) op" where
  "kafkaSecretRefsChecksum cf mc =
     (case parseKafkaSecretRefs (rc_x (cf_r cf)) mc of
        (_, Some e) \<Rightarrow> fail (Errorf e)
      | (refs, None) \<Rightarrow>
          op_bind (read_refs (cf_r cf) (set_refs mc refs)) (\<lambda>entries.
          ret (if entries = [] then [] else x_sha256 (rc_x (cf_r cf)) (cf_MarshalEntries cf entries))))"

definition secretref_checksum :: "'w Configs \<Rightarrow> Milvus \<Rightarrow> ('w, string) op" where
  "secretref_checksum cf mc =
     (if kaf_SecretRef (dep_Kafka (ms_Dep (m_Spec mc))) = [] then ret []
      else op_bind (getKafkaSecret (cf_r cf) mc) (\<lambda>(user, pass, ca). ret (x_sha256 (rc_x (cf_r cf)) (user @ '':'' @ pass @ '':'' @ ca))))"

definition kafka_checksum :: "'w Configs \<Rightarrow> Milvus \<Rightarrow> ('w, string) op" where
  "kafka_checksum cf mc =
     (if dep_MsgStreamType (ms_Dep (m_Spec mc)) \<noteq> MsgStreamTypeKafka then ret []
      else
        op_bind (secretref_checksum cf mc) (\<lambda>sum1.
        op_bind (kafkaSecretRefsChecksum cf mc) (\<lambda>sum2.
        ret (if sum2 \<noteq> [] then x_sha256 (rc_x (cf_r cf)) (sum1 @ '':'' @ sum2) else sum1))))"

definition set_checksum :: "string \<Rightarrow> Milvus \<Rightarrow> Milvus" where
  "set_checksum csum mc = mc\<lparr>om_Annotations :=
     (if csum = [] then fmdrop KafkaSaslCheckSumAnnotation (om_Annotations mc)
      else fmupd KafkaSaslCheckSumAnnotation csum (om_Annotations mc))\<rparr>"

definition SyncKafkaSaslCheckSum :: "'w Configs \<Rightarrow> Milvus \<Rightarrow> ('w, Milvus) op" where
  "SyncKafkaSaslCheckSum cf mc =
     op_bind (kafka_checksum cf mc) (\<lambda>csum.
     if fmget (om_Annotations mc) KafkaSaslCheckSumAnnotation = csum then ret mc
     else op_bind (op_wrap ''update kafka sasl checksum annotation'' (cli_UpdateMilvus (rc_cli (cf_r cf)) (set_checksum csum mc)))
            (\<lambda>_. ret (set_checksum csum mc)))"

section \<open>Rendering\<close>

text \<open>A secret that cannot be read counts as no credentials.\<close>

definition getMinioAccessInfo :: "'w Reconciler \<Rightarrow> Milvus \<Rightarrow> ('w, string \<times> string) op" where
  "getMinioAccessInfo r mc =
     (let ref = st_SecretRef (dep_Storage (ms_Dep (m_Spec mc))) in
      if ref = [] then ret ([], [])
      else do {
        res \<leftarrow> rc_GetSecret r (om_Namespace mc) ref;
        ret (case res of
          Inl e \<Rightarrow> ([], [])
        | Inr secret \<Rightarrow> (case storageSecretKeys (sec_Data secret) of (ak, sk) \<Rightarrow>
            (case ak of None \<Rightarrow> [] | Some a \<Rightarrow> a, case sk of None \<Rightarrow> [] | Some s \<Rightarrow> s))) })"

definition cert_path :: "webhook_env \<Rightarrow> SecretKeyRef option \<Rightarrow> string \<Rightarrow> string \<Rightarrow> values_map \<Rightarrow> values_map" where
  "cert_path E ref field path conf =
     (case ref of
        None \<Rightarrow> conf
      | Some _ \<Rightarrow> SetValue E (JStr path) [''kafka'', ''ssl'', field] (SetValue E (JBool True) [''kafka'', ''ssl'', ''enabled''] conf))"

definition renderKafkaCertPaths :: "webhook_env \<Rightarrow> externals \<Rightarrow> Milvus \<Rightarrow> values_map \<Rightarrow> go_error + values_map" where
  "renderKafkaCertPaths E x mc conf =
     (case parseKafkaSecretRefs x (mc\<lparr>m_Spec := (m_Spec mc)\<lparr>ms_Conf := Some conf\<rparr>\<rparr>) of
        (_, Some e) \<Rightarrow> Inl (Errorf e)
      | (refs, None) \<Rightarrow> Inr
          (cert_path E (ksr_KeySecret refs) ''tlsKey'' ''/secrets/kafka/ssl/tls.key''
            (cert_path E (ksr_CertSecret refs) ''tlsCert'' ''/secrets/kafka/ssl/tls.crt''
              (cert_path E (ksr_CACertSecret refs) ''tlsCaCert'' ''/secrets/kafka/ssl/ca-cert'' conf))))"

definition drop_keys :: "string list \<Rightarrow> values_map \<Rightarrow> values_map" where
  "drop_keys ks m = fold fmdrop ks m"

definition kafka_ca_conf :: "'w Configs \<Rightarrow> Milvus \<Rightarrow> values_map \<Rightarrow> ('w, values_map) op" where
  "kafka_ca_conf cf mc conf =
     (if kaf_SecretRef (dep_Kafka (ms_Dep (m_Spec mc))) = [] then ret conf
      else op_bind (getKafkaSecret (cf_r cf) mc) (\<lambda>(user, pass, ca).
        ret (if ca = [] then conf
             else SetValue (cf_E cf) (JStr KafkaCACertPath) [''kafka'', ''ssl'', ''tlsCaCert'']
                    (SetValue (cf_E cf) (JBool True) [''kafka'', ''ssl'', ''enabled''] conf))))"

definition pulsar_endpoint :: "MilvusPulsar \<Rightarrow> string" where
  "pulsar_endpoint p = (case Pulsar_GetEndpoints p of [] \<Rightarrow> [] | ep # _ \<Rightarrow> ep)"

text \<open>The switch over the message queue of \<open>updateConfigMap\<close>.\<close>

definition mq_conf :: "'w Configs \<Rightarrow> Milvus \<Rightarrow> values_map \<Rightarrow> ('w, values_map) op" where
  "mq_conf cf mc conf =
     (let dep = ms_Dep (m_Spec mc); E = cf_E cf in
      case dep_MsgStreamType dep of
        MsgStreamTypeKafka \<Rightarrow>
          op_bind (kafka_ca_conf cf mc (SetStringSlice E (kaf_BrokerList (dep_Kafka dep)) [''kafka'', ''brokerList''] conf)) (\<lambda>conf.
          op_bind (lift_result (renderKafkaCertPaths E (rc_x (cf_r cf)) mc conf)) (\<lambda>conf.
          ret (drop_keys [''pulsar'', ''rocksmq''] conf)))
      | MsgStreamTypePulsar \<Rightarrow>
          (case GetHostPortWithDefault (pulsar_endpoint (dep_Pulsar dep)) 80 of (host, port) \<Rightarrow>
             ret (drop_keys [''kafka'', ''rocksmq'']
               (SetValue E (JInt port) [''pulsar'', ''port''] (SetValue E (JStr host) [''pulsar'', ''address''] conf))))
      | MsgStreamTypeRocksMQ \<Rightarrow>
          ret (drop_keys [''pulsar'', ''kafka'']
            (if value_or_nil conf ''rocksmq'' = JNull then fmupd ''rocksmq'' (JObj fmempty) conf else conf))
      | MsgStreamTypeWoodPecker \<Rightarrow>
          op_bind (if wp_External (dep_WoodPecker dep)
                   then op_bind (op_wrap ''marshal woodpecker quorumBufferPools''
                          (lift_result (cf_MarshalPools cf (wp_QuorumBufferPools (dep_WoodPecker dep))))) (\<lambda>pools.
                        ret (SetValue E (JStr pools) [''woodpecker'', ''client'', ''quorum'', ''quorumBufferPools'']
                          (SetValue E (JStr ''service'') [''woodpecker'', ''storage'', ''type''] conf)))
                   else ret conf) (\<lambda>conf.
          ret (drop_keys [''pulsar'', ''kafka'', ''rocksmq''] conf))
      | _ \<Rightarrow> ret conf)"

text \<open>The type of the queue; a section \<open>mq\<close> that is not a map panics.\<close>

definition mq_type_conf :: "MsgStreamType \<Rightarrow> values_map \<Rightarrow> go_error + values_map" where
  "mq_type_conf t conf =
     (if t = MsgStreamTypeCustom then Inr conf
      else (case value_or_nil conf ''mq'' of
          JNull \<Rightarrow> Inr (fmupd MqTypeConfigKey (JStr (msg_stream_name t)) (fmupd ''mq'' (JObj (fmupd ''type'' (JStr (msg_stream_name t)) fmempty)) conf))
        | JObj m \<Rightarrow> Inr (fmupd MqTypeConfigKey (JStr (msg_stream_name t)) (fmupd ''mq'' (JObj (fmupd ''type'' (JStr (msg_stream_name t)) m)) conf))
        | _ \<Rightarrow> Inl (GoPanic ''interface conversion'')))"

text \<open>The sections that do not depend on the queue.\<close>

definition base_conf :: "webhook_env \<Rightarrow> Milvus \<Rightarrow> string \<times> string \<Rightarrow> values_map \<Rightarrow> values_map" where
  "base_conf E mc keys template =
     (let dep = ms_Dep (m_Spec mc); user = Values_Data (ms_Conf (m_Spec mc));
          conf = SetValue E (JStr (snd keys)) [''minio'', ''secretAccessKey''] (SetValue E (JStr (fst keys)) [''minio'', ''accessKeyID''] template);
          conf = SetStringSlice E (etcd_Endpoints (dep_Etcd dep)) [''etcd'', ''endpoints''] (MergeValues conf user);
          (host, port) = GetStorageHostPort (st_Endpoint (dep_Storage dep)) (GetMinioSecure user)
      in SetValue E (JInt port) [''minio'', ''port''] (SetValue E (JStr host) [''minio'', ''address''] conf))"

definition milvus_conf :: "'w Configs \<Rightarrow> Milvus \<Rightarrow> ('w, values_map) op" where
  "milvus_conf cf mc =
     op_bind (lift_result (cf_Template cf mc)) (\<lambda>template.
     op_bind (getMinioAccessInfo (cf_r cf) mc) (\<lambda>keys.
     op_bind (mq_conf cf mc (base_conf (cf_E cf) mc keys template)) (\<lambda>conf.
     lift_result (mq_type_conf (dep_MsgStreamType (ms_Dep (m_Spec mc))) conf))))"

definition hook_conf :: "'w Configs \<Rightarrow> Milvus \<Rightarrow> smap \<Rightarrow> go_error + smap" where
  "hook_conf cf mc data =
     (if Values_Data (ms_HookConf (m_Spec mc)) = fmempty then Inr data
      else map_sum id (\<lambda>yaml. fmupd HookYaml yaml data) (cf_YamlMarshal cf (Values_Data (ms_HookConf (m_Spec mc)))))"

definition updateConfigMap :: "'w Configs \<Rightarrow> Milvus \<Rightarrow> ConfigMap \<Rightarrow> ('w, ConfigMap) op" where
  "updateConfigMap cf mc configmap =
     op_bind (milvus_conf cf mc) (\<lambda>conf.
     op_bind (lift_result (cf_YamlMarshal cf conf)) (\<lambda>milvusYaml.
     op_bind (lift_result (cli_SetControllerReference (rc_cli (cf_r cf)) mc (om_OwnerReferences configmap))) (\<lambda>owners.
     op_bind (lift_result (hook_conf cf mc (fmupd UserYaml milvusYaml (cm_Data configmap)))) (\<lambda>data.
     ret (configmap\<lparr>om_Labels := MergeLabels [om_Labels configmap, NewAppLabels (om_Name mc)], om_OwnerReferences := owners, cm_Data := data\<rparr>)))))"

definition new_ConfigMap :: "string \<Rightarrow> string \<Rightarrow> ConfigMap" where
  "new_ConfigMap ns name = ObjectMeta.extend (new_ObjectMeta ns name) (ConfigMap.fields fmempty)"

definition reconcileOneConfigMap :: "'w Configs \<Rightarrow> Milvus \<Rightarrow> string \<Rightarrow> string \<Rightarrow> ('w, unit) op" where
  "reconcileOneConfigMap cf mc ns name =
     op_bind (get_if_exists (cf_GetConfigMap cf ns name)) (\<lambda>found.
     (case found of
        None \<Rightarrow> op_bind (updateConfigMap cf mc (new_ConfigMap (om_Namespace mc) (GetActiveConfigMap mc))) (cf_CreateConfigMap cf)
      | Some old \<Rightarrow>
          op_bind (updateConfigMap cf mc old) (\<lambda>cur.
          if cur = old then ret () else cf_UpdateConfigMap cf cur)))"

definition ReconcileConfigMaps :: "'w Configs \<Rightarrow> Milvus \<Rightarrow> ('w, unit) op" where
  "ReconcileConfigMaps cf mc =
     (if com_EnableManualMode (ms_Com (m_Spec mc)) then reconcileOneConfigMap cf mc (om_Namespace mc) (GetActiveConfigMap mc)
      else
        op_bind (op_wrap ''list configmaps'' (cf_ListConfigMaps cf (om_Namespace mc) (NewAppLabels (om_Name mc)))) (\<lambda>items.
        for_each (\<lambda>cm. op_wrap ''reconcile configmap'' (reconcileOneConfigMap cf mc (om_Namespace cm) (om_Name cm)))
          (if items = [] then [new_ConfigMap (om_Namespace mc) (GetActiveConfigMap mc)] else items)))"

section \<open>The merge tool\<close>

definition mq_sections :: "string list" where
  "mq_sections = [''kafka'', ''rocksmq'', ''natsmq'', ''pulsar'']"

text \<open>\<open>main\<close> of the tool on the two documents: \<open>None\<close> is the panic of a queue type that is not a string.\<close>

definition merge_documents :: "values_map \<Rightarrow> values_map \<Rightarrow> values_map option" where
  "merge_documents src dst =
     (let dst = MergeValues dst src in
      case value_or_nil dst MqTypeConfigKey of
        JNull \<Rightarrow> Some (drop_keys (filter (\<lambda>k. value_or_nil dst k = JNull) mq_sections) dst)
      | JStr mqType \<Rightarrow> Some (drop_keys (filter (\<lambda>k. k \<noteq> mqType) mq_sections) dst)
      | _ \<Rightarrow> None)"

end
