(* ===== verification/Milvus_Ctrl.thy ===== *)
theory Milvus_Ctrl
  imports Helm Objects Config_Map
begin

text \<open>
  The controller of the Milvus resource: milvus.go (the groups of reconcilers, the clean-up before an
  instance goes away), milvus_controller.go (one pass, from finalizer to status) and the metric code of
  metrics.go.  The functions of a group run one after the other; each writes other objects.
\<close>

section \<open>The controller\<close>

text \<open>The parts of the controller; in the running operator they share one client.\<close>

record 'w Controller =
  mt_s :: "'w Syncer"
  mt_h :: "'w LocalHelmReconciler"
  mt_o :: "'w Objects"
  mt_c :: "'w Configs"
  mt_DeleteForeground :: "Milvus \<Rightarrow> ('w, unit) op"
  mt_ListMilvusIn :: "string \<Rightarrow> ('w, Milvus list) op"

definition mt_r :: "'w Controller \<Rightarrow> 'w Reconciler" where "mt_r c = sy_r (mt_s c)"

datatype ctrl_result = Done | RequeueAfter int

definition MilvusFinalizerName :: string where "MilvusFinalizerName = ''milvus.milvus.io/finalizer''"
definition ForegroundDeletionFinalizer :: string where "ForegroundDeletionFinalizer = ''foregroundDeletion''"
definition PauseReconcileAnnotation :: string where "PauseReconcileAnnotation = ''milvus.io/pause-reconcile''"
definition MaintainingAnnotation :: string where "MaintainingAnnotation = ''milvus.io/maintaining''"
definition HelmReleaseLabel :: string where "HelmReleaseLabel = ''release''"
definition unhealthySyncInterval :: int where "unhealthySyncInterval = 30"

section \<open>Groups of reconcilers\<close>

definition upgrade_stopping :: "externals \<Rightarrow> Milvus \<Rightarrow> go_error + bool" where
  "upgrade_stopping x mc =
     (if isUpgradeStopping mc then or_panic ''nil replicas'' (isMilvusStoppingForReconcile x mc) else Inr False)"

definition ReconcileMilvus :: "'w Controller \<Rightarrow> Milvus \<Rightarrow> ('w, unit) op" where
  "ReconcileMilvus c mc =
     op_bind (lift_result (upgrade_stopping (rc_x (mt_r c)) mc)) (\<lambda>upgradeStopping.
     if \<not> IsDependencyReady (mst_Conditions (m_Status mc)) \<and> \<not> upgradeStopping then ret ()
     else
       op_bind (op_wrap ''configmap'' (ReconcileConfigMaps (mt_c c) mc)) (\<lambda>_.
       op_wrap ''reconcile milvus'' (GroupRunner_Run
         [ReconcilePVCs (mt_o c), ReconcileDeployments (mt_r c), ReconcileHPAs (mt_r c), ReconcileServices (mt_r c),
          ReconcileIngress (mt_o c), ReconcilePodMonitor (mt_o c)] mc)))"

definition ReconcileAll :: "'w Controller \<Rightarrow> Milvus \<Rightarrow> ('w, unit) op" where
  "ReconcileAll c mc = op_wrap ''reconcile milvus'' (GroupRunner_Run
     [ReconcileEtcd (mt_h c), ReconcileMsgStream (mt_h c), ReconcileMinio (mt_h c), ReconcileTei (mt_h c), ReconcileMilvus c] mc)"

section \<open>Before an instance goes away\<close>

definition batchDeletePVC :: "'w Reconciler \<Rightarrow> string \<Rightarrow> string \<Rightarrow> string \<Rightarrow> ('w, unit) op" where
  "batchDeletePVC r ns labelKey labelValue =
     op_bind (rc_ListPVCs r ns (fmap_of_list [(labelKey, labelValue)])) (\<lambda>pvcs.
     for_each (\<lambda>pvc. op_wrap (''delete pvc '' @ ns @ ''/'' @ om_Name pvc @ '' failed'') (rc_DeletePVC r pvc)) pvcs)"

text \<open>A dependency in the cluster with the policy \<open>Delete\<close>; without a configuration the code panics.\<close>

definition delete_release :: "string \<Rightarrow> bool \<Rightarrow> InClusterConfig option \<Rightarrow> (string, bool) fmap \<Rightarrow> go_error + (string, bool) fmap" where
  "delete_release name used inCluster releases =
     (if \<not> used then Inr releases
      else (case inCluster of
          None \<Rightarrow> Inl (GoPanic ''nil inCluster'')
        | Some c \<Rightarrow> Inr (if ic_DeletionPolicy c = DeletionPolicyDelete then fmupd name (ic_PVCDeletion c) releases else releases)))"

definition delete_data_pvc :: "'w Reconciler \<Rightarrow> Milvus \<Rightarrow> ('w, unit) op" where
  "delete_data_pvc r mc =
     (case GetMilvusBuiltInMQ (ms_Dep (m_Spec mc)) of
        None \<Rightarrow> ret ()
      | Some mq \<Rightarrow>
          if per_Enabled (mq_Persistence mq) \<and> per_PVCDeletion (mq_Persistence mq)
          then IgnoreNotFound ''delete data pvc failed'' (rc_DeletePVC r (new_PVC (om_Namespace mc) (getPVCNameByInstName (om_Name mc))))
          else ret ())"

definition msg_stream_release :: "'w Reconciler \<Rightarrow> Milvus \<Rightarrow> (string, bool) fmap \<Rightarrow> ('w, (string, bool) fmap) op" where
  "msg_stream_release r mc releases =
     (let dep = ms_Dep (m_Spec mc) in
      case dep_MsgStreamType dep of
        MsgStreamTypeKafka \<Rightarrow>
          lift_result (delete_release (om_Name mc @ ''-kafka'') (\<not> kaf_External (dep_Kafka dep)) (kaf_InCluster (dep_Kafka dep)) releases)
      | MsgStreamTypePulsar \<Rightarrow>
          lift_result (delete_release (om_Name mc @ ''-pulsar'') (\<not> pul_External (dep_Pulsar dep)) (pul_InCluster (dep_Pulsar dep)) releases)
      | _ \<Rightarrow> op_bind (delete_data_pvc r mc) (\<lambda>_. ret releases))"

definition uninstall_release :: "'w Controller \<Rightarrow> string \<Rightarrow> (string, bool) fmap \<Rightarrow> string \<Rightarrow> ('w, unit) op" where
  "uninstall_release c ns releases releaseName =
     op_bind (helm_Uninstall (lh_hx (mt_h c)) ns releaseName) (\<lambda>_.
     if fmlookup releases releaseName = Some True then
       op_bind (op_wrap (''delete pvc with label '' @ AppLabelInstance @ ''='' @ releaseName @ '' failed'')
         (batchDeletePVC (mt_r c) ns AppLabelInstance releaseName)) (\<lambda>_.
       op_wrap (''delete pvc with label '' @ HelmReleaseLabel @ ''='' @ releaseName @ '' failed'')
         (batchDeletePVC (mt_r c) ns HelmReleaseLabel releaseName))
     else ret ())"

definition JoinErrors :: "go_error list \<Rightarrow> string" where
  "JoinErrors errs = join_with ''; '' (map error_text errs)"

definition uninstall_releases :: "'w Controller \<Rightarrow> string \<Rightarrow> (string, bool) fmap \<Rightarrow> ('w, unit) op" where
  "uninstall_releases c ns releases = do {
     errs \<leftarrow> collect_errors (uninstall_release c ns releases) (rc_range (mt_r c) (sorted_list_of_fset (fmdom releases)));
     (if errs = [] then ret () else fail (Errorf (JoinErrors errs))) }"

definition Finalize :: "'w Controller \<Rightarrow> Milvus \<Rightarrow> ('w, unit) op" where
  "Finalize c mc =
     (let dep = ms_Dep (m_Spec mc) in
      op_bind (lift_result (delete_release (om_Name mc @ ''-etcd'') (\<not> etcd_External (dep_Etcd dep)) (etcd_InCluster (dep_Etcd dep)) fmempty)) (\<lambda>releases.
      op_bind (msg_stream_release (mt_r c) mc releases) (\<lambda>releases.
      op_bind (lift_result (delete_release (om_Name mc @ ''-minio'') (\<not> st_External (dep_Storage dep)) (st_InCluster (dep_Storage dep)) releases)) (\<lambda>releases.
      op_bind (lift_result (delete_release (om_Name mc @ ''-tei'') (tei_Enabled (dep_Tei dep)) (tei_InCluster (dep_Tei dep)) releases)) (\<lambda>releases.
      uninstall_releases c (om_Namespace mc) releases)))))"

section \<open>Values of legacy releases\<close>

definition set_dep_values :: "DependencyKind \<Rightarrow> values_map \<Rightarrow> Milvus \<Rightarrow> Milvus" where
  "set_dep_values k v mc =
     (let put = map_option (\<lambda>c. c\<lparr>ic_Values := Some v\<rparr>); dep = ms_Dep (m_Spec mc) in
      mc\<lparr>m_Spec := (m_Spec mc)\<lparr>ms_Dep := (case k of
         DependencyKindEtcd \<Rightarrow> dep\<lparr>dep_Etcd := (dep_Etcd dep)\<lparr>etcd_InCluster := put (etcd_InCluster (dep_Etcd dep))\<rparr>\<rparr>
       | DependencyKindStorage \<Rightarrow> dep\<lparr>dep_Storage := (dep_Storage dep)\<lparr>st_InCluster := put (st_InCluster (dep_Storage dep))\<rparr>\<rparr>
       | DependencyKindPulsar \<Rightarrow> dep\<lparr>dep_Pulsar := (dep_Pulsar dep)\<lparr>pul_InCluster := put (pul_InCluster (dep_Pulsar dep))\<rparr>\<rparr>
       | DependencyKindKafka \<Rightarrow> dep\<lparr>dep_Kafka := (dep_Kafka dep)\<lparr>kaf_InCluster := put (kaf_InCluster (dep_Kafka dep))\<rparr>\<rparr>
       | DependencyKindTei \<Rightarrow> dep\<lparr>dep_Tei := (dep_Tei dep)\<lparr>tei_InCluster := put (tei_InCluster (dep_Tei dep))\<rparr>\<rparr>)\<rparr>\<rparr>)"

definition sync_values :: "'w LocalHelmReconciler \<Rightarrow> DependencyKind \<Rightarrow> string \<Rightarrow> bool \<Rightarrow> Milvus \<Rightarrow> ('w, Milvus) op" where
  "sync_values l k suffix external mc =
     (if external then ret mc
      else op_bind (LocalHelm_GetValues l (om_Namespace mc) (om_Name mc @ suffix)) (\<lambda>v.
           lift_result (or_panic ''nil inCluster'' (map_option (\<lambda>_. set_dep_values k v mc) (dep_InCluster k mc)))))"

definition syncLegacyValues :: "'w LocalHelmReconciler \<Rightarrow> Milvus \<Rightarrow> ('w, Milvus) op" where
  "syncLegacyValues l m =
     (let dep = ms_Dep (m_Spec m) in
      op_bind (sync_values l DependencyKindEtcd ''-etcd'' (etcd_External (dep_Etcd dep)) m) (\<lambda>m.
      op_bind (case dep_MsgStreamType dep of
           MsgStreamTypePulsar \<Rightarrow> sync_values l DependencyKindPulsar ''-pulsar'' (pul_External (dep_Pulsar dep)) m
         | MsgStreamTypeKafka \<Rightarrow> sync_values l DependencyKindKafka ''-kafka'' (kaf_External (dep_Kafka dep)) m
         | _ \<Rightarrow> ret m) (\<lambda>m.
      op_bind (sync_values l DependencyKindStorage ''-minio'' (st_External (dep_Storage dep)) m) (\<lambda>m.
      ret (SetLegacySynced m)))))"

definition ReconcileLegacyValues :: "'w LocalHelmReconciler \<Rightarrow> Milvus \<Rightarrow> ('w, Milvus) op" where
  "ReconcileLegacyValues l mc =
     (if \<not> LegacyNeedSyncValues mc then ret mc
      else op_bind (syncLegacyValues l mc) (\<lambda>mc. op_bind (cli_UpdateMilvus (rc_cli (lh_r l)) mc) (\<lambda>_. ret mc)))"

section \<open>One pass\<close>

definition VerifyCR :: "externals \<Rightarrow> Milvus \<Rightarrow> go_error + unit" where
  "VerifyCR x mc =
     (if mst_ObservedGeneration (m_Status mc) \<ge> om_Generation mc then Inr ()
      else if x_asProbes x (cs_Probes (ms_Com (m_Spec mc))) = None then Inl (Wrap (Errorf ''failed to unmarshal values'') ''verify custom probes'')
      else (case find (\<lambda>(i, v). x_asVolume x v = None) (enumerate 0 (case cs_Volumes (ms_Com (m_Spec mc)) of None \<Rightarrow> [] | Some vs \<Rightarrow> vs)) of
          None \<Rightarrow> Inr ()
        | Some (i, _) \<Rightarrow> Inl (Wrap (Errorf ''failed to unmarshal values'') (''verify custom volume '' @ itoa (int i)))))"

definition set_status :: "MilvusHealthStatus \<Rightarrow> Milvus \<Rightarrow> Milvus" where
  "set_status st mc = mc\<lparr>m_Status := (m_Status mc)\<lparr>mst_Status := st\<rparr>\<rparr>"

definition AddFinalizer :: "string \<Rightarrow> Milvus \<Rightarrow> Milvus" where
  "AddFinalizer f mc = mc\<lparr>om_Finalizers := om_Finalizers mc @ [f]\<rparr>"

definition RemoveFinalizer :: "string \<Rightarrow> Milvus \<Rightarrow> Milvus" where
  "RemoveFinalizer f mc = mc\<lparr>om_Finalizers := filter (\<lambda>g. g \<noteq> f) (om_Finalizers mc)\<rparr>"

definition mark_deleting :: "'w Controller \<Rightarrow> Milvus \<Rightarrow> ('w, Milvus) op" where
  "mark_deleting c mc =
     (if mst_Status (m_Status mc) = StatusDeleting then ret mc
      else op_bind (cli_UpdateMilvusStatus (rc_cli (mt_r c)) (set_status StatusDeleting mc)) (\<lambda>_. ret (set_status StatusDeleting mc)))"

definition reconcile_deleting :: "'w Controller \<Rightarrow> Milvus \<Rightarrow> ('w, ctrl_result) op" where
  "reconcile_deleting c mc =
     op_bind (mark_deleting c mc) (\<lambda>mc.
     op_bind (CheckMilvusStopped (mt_s c) mc) (\<lambda>stopped.
     if \<not> stopped then
       op_bind (if ForegroundDeletionFinalizer \<notin> set (om_Finalizers mc) then mt_DeleteForeground c mc else ret ()) (\<lambda>_.
       ret (RequeueAfter unhealthySyncInterval))
     else if MilvusFinalizerName \<in> set (om_Finalizers mc) then
       op_bind (Finalize c mc) (\<lambda>_.
       op_bind (cli_UpdateMilvus (rc_cli (mt_r c)) (RemoveFinalizer MilvusFinalizerName mc)) (\<lambda>_. ret Done))
     else ret (RequeueAfter unhealthySyncInterval)))"

definition ensure_finalizer :: "'w Controller \<Rightarrow> Milvus \<Rightarrow> ('w, Milvus) op" where
  "ensure_finalizer c mc =
     (if MilvusFinalizerName \<in> set (om_Finalizers mc) then ret mc
      else op_bind (cli_UpdateMilvus (rc_cli (mt_r c)) (AddFinalizer MilvusFinalizerName mc)) (\<lambda>_. ret (AddFinalizer MilvusFinalizerName mc)))"

definition reconcile_objects :: "'w Controller \<Rightarrow> Milvus \<Rightarrow> ('w, ctrl_result) op" where
  "reconcile_objects c mc = do {
     res \<leftarrow> ReconcileAll c mc;
     (case res of
        Inl e \<Rightarrow> if is_requeue e then ret (RequeueAfter (unhealthySyncInterval div 2)) else fail e
      | Inr _ \<Rightarrow> op_bind (UpdateStatusForNewGeneration (mt_s c) mc False) (\<lambda>_. ret Done)) }"

definition reconcile_active :: "'w Controller \<Rightarrow> Milvus \<Rightarrow> ('w, ctrl_result) op" where
  "reconcile_active c mc =
     op_bind (ensure_finalizer c mc) (\<lambda>old.
     op_bind (op_wrap ''verify cr'' (lift_result (VerifyCR (rc_x (mt_r c)) old))) (\<lambda>_.
     op_bind (lift_result (or_panic ''default'' (Milvus_Default (sy_E (mt_s c)) old))) (\<lambda>mc.
     if fmget (om_Annotations mc) PauseReconcileAnnotation = ''true'' then ret Done
     else
       op_bind (if m_Spec mc = m_Spec old then ret () else cli_UpdateMilvus (rc_cli (mt_r c)) mc) (\<lambda>_.
       op_bind (ReconcileLegacyValues (mt_h c) mc) (\<lambda>mc.
       op_bind (SetDefaultStatus (mt_r c) mc) (\<lambda>mc.
       op_bind (op_wrap ''sync kafka sasl checksum'' (SyncKafkaSaslCheckSum (mt_c c) mc)) (\<lambda>mc.
       reconcile_objects c mc)))))))"

definition reconcile_body :: "'w Controller \<Rightarrow> string \<Rightarrow> string \<Rightarrow> ('w, ctrl_result) op" where
  "reconcile_body c ns name = do {
     res \<leftarrow> cli_GetMilvus (rc_cli (mt_r c)) ns name;
     (case res of
        Inl e \<Rightarrow> if IsNotFound e then ret Done else fail (Wrap e ''error get milvus '')
      | Inr mc \<Rightarrow> if om_DeletionTimestamp mc = None then reconcile_active c mc else reconcile_deleting c mc) }"

fun is_panic :: "go_error \<Rightarrow> bool" where
  "is_panic (GoPanic s) = True"
| "is_panic (Wrap e m) = is_panic e"
| "is_panic _ = False"

text \<open>The deferred recover: outside debug mode a panic ends the pass with the zero result and no
  error.\<close>

definition Milvus_Reconcile :: "'w Controller \<Rightarrow> string \<Rightarrow> string \<Rightarrow> ('w, ctrl_result) op" where
  "Milvus_Reconcile c ns name = do {
     res \<leftarrow> reconcile_body c ns name;
     (case res of
        Inl e \<Rightarrow> if is_panic e \<and> \<not> sy_Debug (mt_s c) then ret Done else fail e
      | Inr r \<Rightarrow> ret r) }"

section \<open>Secrets and metrics\<close>

definition milvusReferencesSecret :: "externals \<Rightarrow> Milvus \<Rightarrow> string \<Rightarrow> bool" where
  "milvusReferencesSecret x mc secretName \<longleftrightarrow>
     dep_MsgStreamType (ms_Dep (m_Spec mc)) = MsgStreamTypeKafka \<and>
     (kaf_SecretRef (dep_Kafka (ms_Dep (m_Spec mc))) = secretName \<or>
      (case parseKafkaSecretRefs x mc of
         (refs, None) \<Rightarrow> list_ex (\<lambda>ref. case ref of None \<Rightarrow> False | Some s \<Rightarrow> skr_Name s = secretName) (ref_list refs)
       | (_, Some e) \<Rightarrow> False))"

definition mapSecretToMilvusRequests :: "'w Controller \<Rightarrow> string \<Rightarrow> string \<Rightarrow> ('w, (string \<times> string) list) state" where
  "mapSecretToMilvusRequests c ns name = do {
     res \<leftarrow> mt_ListMilvusIn c ns;
     State_Monad.return (case res of
       Inl e \<Rightarrow> []
     | Inr items \<Rightarrow> map (\<lambda>m. (om_Namespace m, om_Name m)) (filter (\<lambda>m. milvusReferencesSecret (rc_x (mt_r c)) m name) items)) }"

definition MilvusStatusToCode :: "MilvusHealthStatus \<Rightarrow> bool \<Rightarrow> int" where
  "MilvusStatusToCode status isMaintaining =
     (if isMaintaining then 5
      else (case status of StatusHealthy \<Rightarrow> 1 | StatusUnhealthy \<Rightarrow> 2 | StatusDeleting \<Rightarrow> 3 | StatusStopped \<Rightarrow> 4 | _ \<Rightarrow> 0))"

end
