(* ===== verification/Cluster_Store.thy ===== *)
theory Cluster_Store
  imports Milvus_Ctrl Health_Correct
begin

text \<open>
  The in-memory server of \<open>Workload_Store\<close>, extended by the saved copies of StatefulSets, Helm releases
  and pod monitors: the concrete client of the examples about dependencies and teardown.
\<close>

record cmem = wmem +
  cm_saved :: "((string \<times> string) \<times> StatefulSet) list"
  cm_rels :: "((string \<times> string) \<times> Values) list"
  cm_monitors :: "PodMonitor list"

definition rel_key :: "ChartRequest \<Rightarrow> string \<times> string" where
  "rel_key request = (cr_Namespace request, cr_ReleaseName request)"

definition release_not_found :: go_error where
  "release_not_found = Errorf ''release: not found''"

definition read_release :: "(Values \<Rightarrow> 'a) \<Rightarrow> string \<Rightarrow> string \<Rightarrow> (cmem, 'a) op" where
  "read_release f ns name = mem_read (\<lambda>w. case map_of (cm_rels w) (ns, name) of None \<Rightarrow> Inl release_not_found | Some v \<Rightarrow> Inr (f v))"

definition write_release :: "ChartRequest \<Rightarrow> (cmem, unit) op" where
  "write_release request = mem_write (\<lambda>w. Some (w\<lparr>cm_rels := (rel_key request, cr_Values request) # cm_rels w\<rparr>))"

definition mem_hx :: "cmem HelmActions" where
  "mem_hx = \<lparr>hx_ErrReleaseNotFound = release_not_found,
     hx_History = read_release (\<lambda>_. ()),
     hx_Status = read_release (\<lambda>_. (''deployed'', Some ''17.0.1'')),
     hx_Values = read_release id,
     hx_Load = (\<lambda>_. ret ()),
     hx_Upgrade = (\<lambda>request _. write_release request),
     hx_Install = write_release,
     hx_Uninstall = (\<lambda>ns name. mem_write (\<lambda>w. Some (w\<lparr>cm_rels := filter (\<lambda>e. fst e \<noteq> (ns, name)) (cm_rels w)\<rparr>)))\<rparr>"

definition mem_l :: "cmem LocalHelmReconciler" where
  "mem_l = \<lparr>lh_r = mem_r, lh_hx = mem_hx,
     lh_GetPVC = (\<lambda>ns name. mem_read (\<lambda>w. get_or_missing (find_object ns name (wm_pvcs w)))),
     lh_GetRevision = (\<lambda>ns name. mem_read (\<lambda>w. get_or_missing (map_of (cm_saved w) (ns, name)))),
     lh_CreateRevision = (\<lambda>ns name s. mem_write (\<lambda>w. Some (w\<lparr>cm_saved := ((ns, name), s) # cm_saved w\<rparr>))),
     lh_DeleteRevision = (\<lambda>ns name. mem_write (\<lambda>w. Some (w\<lparr>cm_saved := filter (\<lambda>e. fst e \<noteq> (ns, name)) (cm_saved w)\<rparr>))),
     lh_DeleteStatefulSetOrphan = (\<lambda>ns name. mem_write (\<lambda>w. Some (w\<lparr>wm_stss := filter (\<lambda>s. \<not> (om_Namespace s = ns \<and> om_Name s = name)) (wm_stss w)\<rparr>))),
     lh_Wait = State_Monad.return False,
     lh_ParseQuantity = (\<lambda>s. if s = ''20Gi'' then Some 20 else if s = ''10Gi'' then Some 10 else None),
     lh_fuel = 2\<rparr>"

definition mem_o :: "cmem Objects" where
  "mem_o = \<lparr>ob_r = mem_r,
     ob_GetIngress = (\<lambda>ns name. fail (KNotFound ''not found'')), ob_CreateIngress = (\<lambda>i. ret ()), ob_UpdateIngress = (\<lambda>i. ret ()),
     ob_GetPodMonitor = (\<lambda>ns name. mem_read (\<lambda>w. get_or_missing (find_object ns name (cm_monitors w)))),
     ob_CreatePodMonitor = (\<lambda>m. mem_write (\<lambda>w. Some (w\<lparr>cm_monitors := cm_monitors w @ [m]\<rparr>))),
     ob_UpdatePodMonitor = (\<lambda>m. mem_write (\<lambda>w. Some (w\<lparr>cm_monitors := store_replace m (cm_monitors w)\<rparr>))),
     ob_IsNoMatchError = (\<lambda>e. False),
     ob_GetPVC = (\<lambda>ns name. mem_read (\<lambda>w. get_or_missing (find_object ns name (wm_pvcs w)))),
     ob_CreatePVC = (\<lambda>p. mem_write (\<lambda>w. Some (w\<lparr>wm_pvcs := wm_pvcs w @ [p]\<rparr>))),
     ob_PVCSpec = (\<lambda>v. new_PVC [] [])\<rparr>"

definition mem_cf :: "cmem Configs" where
  "mem_cf = \<lparr>cf_r = mem_r, cf_E = (sy_E (ex_syncer :: cmem Syncer))\<lparr>we_SetNestedField := nested_set, we_RemoveNestedField := nested_remove\<rparr>,
     cf_Template = (\<lambda>mc. Inr fmempty), cf_YamlMarshal = (\<lambda>m. Inr []), cf_MarshalPools = (\<lambda>ps. Inr []), cf_MarshalEntries = (\<lambda>es. []),
     cf_GetConfigMap = (\<lambda>ns name. fail (KNotFound ''not found'')), cf_ListConfigMaps = (\<lambda>ns sel. ret []),
     cf_CreateConfigMap = (\<lambda>cm. ret ()), cf_UpdateConfigMap = (\<lambda>cm. ret ())\<rparr>"

definition mem_c :: "cmem Controller" where
  "mem_c = \<lparr>mt_s = ex_syncer, mt_h = mem_l, mt_o = mem_o, mt_c = mem_cf,
     mt_DeleteForeground = (\<lambda>m. mem_write (\<lambda>w. Some (w\<lparr>mem_milvus := AddFinalizer ForegroundDeletionFinalizer (mem_milvus w)\<rparr>))),
     mt_ListMilvusIn = (\<lambda>ns. mem_read (\<lambda>w. Inr [mem_milvus w]))\<rparr>"

lemma mem_c_sel [simp]: "mt_r mem_c = mem_r" "mt_h mem_c = mem_l" "mt_s mem_c = ex_syncer" "lh_hx mem_l = mem_hx" "lh_r mem_l = mem_r"
  by (simp_all add: mt_r_def mem_c_def mem_l_def)

lemma map_of_filter_key: "map_of (filter (\<lambda>e. fst e \<noteq> k) xs) = (map_of xs)(k := None)"
  by (rule ext, induction xs) auto

definition ex_cmem :: "Milvus \<Rightarrow> StatefulSet list \<Rightarrow> K8sVolumeClaim list \<Rightarrow> ((string \<times> string) \<times> Values) list \<Rightarrow> cmem" where
  "ex_cmem mc ss ps rels = wmem.extend (ex_wmem mc [] ss ps) (cmem.fields [] rels [])"

end
