(* ===== verification/Etcd_Resize.thy ===== *)
theory Etcd_Resize
  imports Cluster_Store
begin

text \<open>
  Growing the volumes of the etcd release replaces its StatefulSet, since the claim templates of a StatefulSet cannot
  be changed.  Whatever fails on the way, the StatefulSet or its saved copy is still there, and the
  next pass goes on from it.  The contract is \<open>saved_workloads\<close>; the in-memory server is an
  interpretation.
\<close>

section \<open>The contract\<close>

text \<open>The message of a not-found error ends in \<open>not found\<close>, which is what the waits look for.\<close>

definition says_missing :: "go_error \<Rightarrow> bool" where
  "says_missing e \<longleftrightarrow> IsNotFound e \<or> contains (error_text e) ''not found''"

locale saved_workloads =
  fixes l :: "'w LocalHelmReconciler" and stss :: "'w \<Rightarrow> StatefulSet list" and saved :: "'w \<Rightarrow> string \<times> string \<Rightarrow> StatefulSet option"
  assumes get_sts: "run_state (rc_GetStatefulSet (lh_r l) ns name) w = (rs, w') \<Longrightarrow> w' = w \<and> read_object ns name (stss w) rs"
    and create_sts: "run_state (rc_CreateStatefulSet (lh_r l) s) w = (ru, w') \<Longrightarrow>
       applied_or_lost ru (stss w' = stss w) (stss w' = stss w @ [s]) \<and> saved w' = saved w"
    and delete_sts: "run_state (lh_DeleteStatefulSetOrphan l ns name) w = (ru, w') \<Longrightarrow>
       (stss w' = stss w \<or> stss w' = filter (\<lambda>s. \<not> named ns name s) (stss w)) \<and> saved w' = saved w"
    and get_rev: "run_state (lh_GetRevision l ns name) w = (rs, w') \<Longrightarrow> w' = w \<and>
       (case rs of Inr s \<Rightarrow> saved w (ns, name) = Some s | Inl e \<Rightarrow> says_missing e \<longrightarrow> saved w (ns, name) = None)"
    and create_rev: "run_state (lh_CreateRevision l ns name s) w = (ru, w') \<Longrightarrow>
       applied_or_lost ru (saved w' = saved w) (saved w' = (saved w)((ns, name) \<mapsto> s)) \<and> stss w' = stss w"
    and delete_rev: "run_state (lh_DeleteRevision l ns name) w = (ru, w') \<Longrightarrow>
       (saved w' = saved w \<or> saved w' = (saved w)((ns, name) := None)) \<and> stss w' = stss w"
    and get_claim: "run_state (lh_GetPVC l ns name) w = (rp, w') \<Longrightarrow> w' = w"
    and update_claim: "run_state (rc_UpdatePVC (lh_r l) p) w = (ru, w') \<Longrightarrow> stss w' = stss w \<and> saved w' = saved w"
    and wait_frame: "run_state (lh_Wait l) w = (b, w') \<Longrightarrow> stss w' = stss w \<and> saved w' = saved w"

section \<open>Programs\<close>

lemma wp_quoting: "wp (quoting msg m) w Q = wp m w (\<lambda>res. Q (case res of Inr a \<Rightarrow> Inr a | Inl e \<Rightarrow> Inl (Errorf (msg @ '': '' @ error_text e))))"
  by (simp add: quoting_def wp_def split: prod.splits sum.splits)

lemma wp_bind_quoting:
  assumes "wp m w P" "\<And>e e' v. P (Inl e) v \<Longrightarrow> Q (Inl e') v" "\<And>a v. P (Inr a) v \<Longrightarrow> wp (f a) v Q"
  shows "wp (op_bind (quoting msg m) f) w Q"
  unfolding wp_bind wp_quoting by (rule wp_mono [OF assms(1)]) (use assms(2,3) in \<open>auto split: sum.splits\<close>)

lemma wp_must_return: "wp (must_return m) w Q = wp m w (\<lambda>res w'. case res of Inl e \<Rightarrow> Q (Inl e) w' | Inr v \<Rightarrow> Q (or_panic ''out of fuel'' v) w')"
  unfolding must_return_def wp_bind wp_lift ..

text \<open>A wait only reads; when it returns, the last read reported that the object is missing.\<close>

lemma wp_wait_deleted:
  assumes "\<And>v rs v'. run_state get v = (rs, v') \<Longrightarrow> v' = v \<and> (\<forall>e. rs = Inl e \<longrightarrow> contains (error_text e) ''not found'' \<longrightarrow> gone v)"
    and "\<And>v b v'. run_state wait v = (b, v') \<Longrightarrow> I v \<Longrightarrow> I v'" and "I w"
  shows "wp (wait_deleted n what wait get) w (\<lambda>res v. I v \<and> (res = Inr (Some ()) \<longrightarrow> gone v))"
  using assms(3)
proof (induction n arbitrary: w)
  case (Suc n)
  have step: "wp wait w (\<lambda>b v. wp (if b then fail (Errorf (''context cancelled while waiting for '' @ what @ '' deletion'')) else wait_deleted n what wait get) v
      (\<lambda>res v. I v \<and> (res = Inr (Some ()) \<longrightarrow> gone v)))"
    by (rule wpI) (use Suc.IH assms(2) [OF _ Suc.prems] in auto)
  have "wp get w (\<lambda>res v. v = w \<and> (\<forall>e. res = Inl e \<longrightarrow> contains (error_text e) ''not found'' \<longrightarrow> gone v))"
    by (rule wpI) (use assms(1) in blast)
  then show ?case
    unfolding wait_deleted.simps wp_state_bind
    by (rule wp_mono) (use step Suc.prems in \<open>auto simp only: wp_state_bind wp_fail wp_ret split: sum.splits if_splits\<close>)
qed simp

text \<open>Two StatefulSets that differ at most in the sizes of their claims and in their status.\<close>

definition same_workload :: "StatefulSet \<Rightarrow> StatefulSet \<Rightarrow> bool" where
  "same_workload a b \<longleftrightarrow> recreated 0 a = recreated 0 b"

lemma sized_sized [simp]: "sized q (sized q' p) = sized q p"
  by (simp add: sized_def)

lemma same_workload_simps [simp]:
  "same_workload s s" "same_workload (recreated q s) t = same_workload s t" "same_workload (resize_first_template q s) t = same_workload s t"
  by (simp_all add: same_workload_def recreated_def resize_first_template_def comp_def split: list.splits)

lemma size_recreated: "s_VolumeClaimTemplates s \<noteq> [] \<Longrightarrow> getCurrentStorageSize (recreated q s) = q"
  by (cases "s_VolumeClaimTemplates s") (simp_all add: getCurrentStorageSize_def recreated_def sized_def requested_storage_def)

lemma templates_resized [simp]: "s_VolumeClaimTemplates (resize_first_template q s) = [] \<longleftrightarrow> s_VolumeClaimTemplates s = []"
  by (simp add: resize_first_template_def split: list.splits)

definition present :: "StatefulSet \<Rightarrow> StatefulSet list \<Rightarrow> bool" where
  "present sts ss \<longleftrightarrow> (\<exists>s \<in> set ss. same_workload s sts)"

definition resized :: "int \<Rightarrow> StatefulSet \<Rightarrow> StatefulSet list \<Rightarrow> bool" where
  "resized q sts ss \<longleftrightarrow> (\<exists>s \<in> set ss. same_workload s sts \<and> (s_VolumeClaimTemplates sts \<noteq> [] \<longrightarrow> getCurrentStorageSize s = q))"

definition backed :: "StatefulSet \<Rightarrow> StatefulSet option \<Rightarrow> bool" where
  "backed sts copy \<longleftrightarrow> (\<exists>s. copy = Some s \<and> same_workload s sts)"

lemma resized_present: "resized q sts ss \<Longrightarrow> present sts ss"
  by (auto simp: present_def resized_def)

lemma present_mono: "present sts ss \<Longrightarrow> set ss \<subseteq> set ss' \<Longrightarrow> present sts ss'"
  by (auto simp: present_def)

lemma backed_Some [simp]: "backed sts (Some s) = same_workload s sts" "backed sts None = False"
  by (simp_all add: backed_def)

lemma find_object_mem: "find_object ns name obs = Some ob \<Longrightarrow> ob \<in> set obs"
  by (auto simp: find_object_def find_Some_iff)

lemma found_present: "find_object ns name ss = Some sts \<Longrightarrow> present sts ss"
  using find_object_mem same_workload_simps(1) unfolding present_def by blast

context saved_workloads
begin

lemma wp_create:
  "wp (createNewStatefulSet l s q) w (\<lambda>res v. saved v = saved w \<and> set (stss w) \<subseteq> set (stss v) \<and> (res = Inr () \<longrightarrow> recreated q s \<in> set (stss v)))"
proof -
  have "wp (rc_CreateStatefulSet (lh_r l) (recreated q s)) w
      (\<lambda>res v. saved v = saved w \<and> set (stss w) \<subseteq> set (stss v) \<and> (res = Inr () \<longrightarrow> recreated q s \<in> set (stss v)))"
    by (rule wpI) (auto dest!: create_sts simp: applied_or_lost_def split: sum.splits)
  then show ?thesis
    unfolding createNewStatefulSet_def wp_quoting by (rule wp_mono) (auto split: sum.splits)
qed

lemma wp_saved:
  assumes "\<And>rs. (case rs of Inr s \<Rightarrow> saved w (ns, k) = Some s | Inl e \<Rightarrow> IsNotFound e \<longrightarrow> saved w (ns, k) = None) \<Longrightarrow> Q rs w"
  shows "wp (GetSavedStatefulSet l ns k) w Q"
  unfolding GetSavedStatefulSet_def wp_wrap
proof (rule wpI)
  fix rs v assume run: "run_state (lh_GetRevision l ns k) w = (rs, v)"
  show "Q (wrap ''get saved object'' rs) v"
    using get_rev [OF run] assms [of "wrap ''get saved object'' rs"] by (cases rs) (simp_all add: wrap_def says_missing_def)
qed

lemma wp_current:
  assumes "find_object ns name (stss w) = Some sts \<or> find_object ns name (stss w) = None \<and> saved w (ns, k) = Some sts"
  shows "wp (current_statefulset l ns name k) w (\<lambda>res v. (present sts (stss v) \<or> backed sts (saved v (ns, k))) \<and>
    (\<forall>cur. res = Inr cur \<longrightarrow> cur = Some sts \<and> resized (getCurrentStorageSize sts) sts (stss v)))"
    (is "wp _ _ ?Q")
proof -
  have found: "resized (getCurrentStorageSize sts) sts (stss w)" if "find_object ns name (stss w) = Some sts"
    using find_object_mem [OF that] same_workload_simps(1) unfolding resized_def by blast
  have any: "present sts (stss w) \<or> backed sts (saved w (ns, k))"
    using assms found resized_present by auto
  have restore: "wp (createNewStatefulSet l sts (getCurrentStorageSize sts)) w (\<lambda>res v. case res of Inl e \<Rightarrow> ?Q (Inl e) v | Inr _ \<Rightarrow> ?Q (Inr (Some sts)) v)"
    if "saved w (ns, k) = Some sts"
    by (rule wp_mono [OF wp_create])
      (use that in \<open>auto simp: resized_def size_recreated split: sum.splits intro!: bexI [of _ "recreated (getCurrentStorageSize sts) sts"]\<close>)
  have read: "wp (rc_GetStatefulSet (lh_r l) ns name) w (\<lambda>res v. v = w \<and> read_object ns name (stss w) res)"
    by (rule wpI) (use get_sts in blast)
  have from_copy: "wp (GetSavedStatefulSet l ns k) w (\<lambda>saved v. wp (case saved of
      Inl e' \<Rightarrow> if IsNotFound e' then ret None else fail (Errorf (''failed to get saved StatefulSet: '' @ error_text e'))
    | Inr sts \<Rightarrow> op_bind (createNewStatefulSet l sts (getCurrentStorageSize sts)) (\<lambda>_. ret (Some sts))) v ?Q)"
    if "find_object ns name (stss w) = None"
    by (rule wp_saved) (use that assms any restore in \<open>auto split: sum.splits elim!: wp_mono\<close>)
  show ?thesis
    unfolding current_statefulset_def wp_state_bind
    by (rule wp_mono [OF read])
      (use any found assms from_copy in \<open>auto simp: read_object_def split: sum.splits\<close>)
qed

lemma wp_wait_revision:
  assumes "stss w = ss" "I (saved w)"
  shows "wp (waitForControllerRevisionsDeletion l ns k) w (\<lambda>res v. stss v = ss \<and> I (saved v) \<and> (res = Inr () \<longrightarrow> saved v (ns, k) = None))"
proof -
  have "wp (wait_deleted (lh_fuel l) ''ControllerRevision'' (lh_Wait l) (lh_GetRevision l ns k)) w
      (\<lambda>res v. (stss v = ss \<and> I (saved v)) \<and> (res = Inr (Some ()) \<longrightarrow> saved v (ns, k) = None))"
    by (rule wp_wait_deleted) (use assms get_rev wait_frame in \<open>fastforce simp: says_missing_def\<close>)+
  then show ?thesis
    unfolding waitForControllerRevisionsDeletion_def wp_must_return
    by (rule wp_mono) (auto simp: or_panic_def split: sum.splits option.splits)
qed

lemma wp_wait_sts:
  assumes "saved w = sv"
  shows "wp (waitForStatefulSetDeletion l ns name) w (\<lambda>res v. saved v = sv)"
proof -
  have "wp (wait_deleted (lh_fuel l) ''StatefulSet'' (lh_Wait l) (rc_GetStatefulSet (lh_r l) ns name)) w
      (\<lambda>res v. saved v = sv \<and> (res = Inr (Some ()) \<longrightarrow> True))"
    by (rule wp_wait_deleted) (use assms get_sts wait_frame in \<open>fastforce+\<close>)
  then show ?thesis
    unfolding waitForStatefulSetDeletion_def wp_must_return
    by (rule wp_mono) (auto split: sum.splits)
qed

text \<open>Saving: afterwards the copy is there, or nothing was lost.\<close>

lemma wp_save:
  assumes "om_Namespace mc = ns" "saved w (ns, k) = None"
  shows "wp (SaveStatefulSet l mc k sts) w (\<lambda>res v. stss v = stss w \<and> (res = Inr () \<longrightarrow> saved v (ns, k) = Some sts))"
proof -
  have read: "wp (lh_GetRevision l ns k) w (\<lambda>res v. v = w \<and> (\<exists>e. res = Inl e))"
  proof (rule wpI)
    fix rs v assume "run_state (lh_GetRevision l ns k) w = (rs, v)"
    from get_rev [OF this] assms(2) show "v = w \<and> (\<exists>e. rs = Inl e)" by (cases rs) auto
  qed
  have create: "wp (lh_CreateRevision l ns k sts) w (\<lambda>res v. stss v = stss w \<and> (res = Inr () \<longrightarrow> saved v (ns, k) = Some sts))"
    by (rule wpI) (auto dest!: create_rev simp: applied_or_lost_def)
  show ?thesis
    unfolding SaveStatefulSet_def CreateObject_def wp_state_bind assms(1)
    by (rule wp_mono [OF read]) (use create in auto)
qed

lemma wp_replace:
  assumes "om_Namespace mc = ns" "same_workload s sts" "present sts (stss w)" "s_VolumeClaimTemplates s = [] \<longleftrightarrow> s_VolumeClaimTemplates sts = []"
  shows "wp (replace_statefulset l ns name k q mc s) w (\<lambda>res v. (present sts (stss v) \<or> backed sts (saved v (ns, k))) \<and>
    (res = Inr () \<longrightarrow> resized q sts (stss v)))" (is "wp _ _ ?Q")
proof -
  let ?kept = "\<lambda>v. saved v (ns, k) = Some s"
  have create: "wp (createNewStatefulSet l s q) v ?Q" if "?kept v" for v
    by (rule wp_mono [OF wp_create]) (use that assms(2,4) in \<open>auto simp: resized_def intro!: bexI [of _ "recreated q s"] size_recreated\<close>)
  have wait: "wp (op_bind (quoting m (waitForStatefulSetDeletion l ns name)) (\<lambda>_. createNewStatefulSet l s q)) v ?Q" if "?kept v" for v m
    by (rule wp_bind_quoting [OF wp_wait_sts [OF refl]]) (use that create assms(2) in auto)
  have dropped: "wp (lh_DeleteStatefulSetOrphan l ns name) v (\<lambda>res v. ?kept v)" if "?kept v" for v
    by (rule wpI) (use that delete_sts in auto)
  have drop: "wp (op_bind (quoting m (lh_DeleteStatefulSetOrphan l ns name)) (\<lambda>_.
      op_bind (quoting m' (waitForStatefulSetDeletion l ns name)) (\<lambda>_. createNewStatefulSet l s q))) v ?Q" if "?kept v" for v m m'
    by (rule wp_bind_quoting [OF dropped [OF that]]) (use wait assms(2) in auto)
  have save: "wp (op_bind (quoting m1 (SaveStatefulSet l mc k s)) (\<lambda>_. op_bind (quoting m (lh_DeleteStatefulSetOrphan l ns name)) (\<lambda>_.
      op_bind (quoting m' (waitForStatefulSetDeletion l ns name)) (\<lambda>_. createNewStatefulSet l s q)))) v ?Q"
    if "stss v = stss w" "saved v (ns, k) = None" for v m m' m1
    by (rule wp_bind_quoting [OF wp_save [OF assms(1)]]) (use that drop assms(3) in auto)
  have forget: "wp (do { res \<leftarrow> lh_DeleteRevision l ns k; (case res of Inl e \<Rightarrow> if IsNotFound e then ret () else fail e | Inr _ \<Rightarrow> ret ()) }) w
      (\<lambda>res v. stss v = stss w)"
  proof -
    have "wp (lh_DeleteRevision l ns k) w (\<lambda>res v. stss v = stss w)" by (rule wpI) (use delete_rev in blast)
    then show ?thesis unfolding wp_state_bind by (rule wp_mono) (auto split: sum.splits)
  qed
  show ?thesis
    unfolding replace_statefulset_def
    by (rule wp_bind_quoting [OF forget], use assms(3) in simp)
      (rule wp_bind_quoting [OF wp_wait_revision [where I = "\<lambda>_. True"]], use assms(3) save in auto)
qed

lemma wp_claims: "wp (for_each (resize_claim l ns name q) is) w (\<lambda>res v. stss v = stss w \<and> saved v = saved w)"
proof -
  have read: "wp (lh_GetPVC l ns n) v (\<lambda>res v'. v' = v)" for n v by (rule wpI) (use get_claim in blast)
  have upd: "wp (rc_UpdatePVC (lh_r l) p) v (\<lambda>res v'. stss v' = stss v \<and> saved v' = saved v)" for p v
    by (rule wpI) (use update_claim in blast)
  have step: "wp (resize_claim l ns name q i) v (\<lambda>res v'. stss v' = stss v \<and> saved v' = saved v)" for i v
    unfolding resize_claim_def Let_def
    by (rule wp_bind_quoting [OF read]) (auto simp: wp_quoting intro: wp_mono [OF upd])
  have "wp (for_each (resize_claim l ns name q) is) w (\<lambda>res v. (stss v = stss w \<and> saved v = saved w) \<and> (res = Inr () \<longrightarrow> (\<forall>i \<in> set is. True)))"
    by (rule wp_for_each) (auto intro: wp_mono [OF step])
  then show ?thesis by (rule wp_mono) simp
qed

lemma wp_resize:
  assumes "om_Namespace mc = ns"
    and "find_object ns name (stss w) = Some sts \<or> find_object ns name (stss w) = None \<and> saved w (ns, name @ ''-old-sts'') = Some sts"
  shows "wp (reconcilePVCs l ns name newSize mc) w (\<lambda>res v. (present sts (stss v) \<or> backed sts (saved v (ns, name @ ''-old-sts''))) \<and>
    (res = Inr () \<longrightarrow> (\<exists>q. lh_ParseQuantity l newSize = Some q \<and> resized q sts (stss v))))" (is "wp _ _ ?Q")
proof (cases "lh_ParseQuantity l newSize")
  case None
  have "present sts (stss w) \<or> backed sts (saved w (ns, name @ ''-old-sts''))"
    using assms(2) found_present by auto
  with None show ?thesis by (simp add: reconcilePVCs_def)
next
  case (Some q)
  have replace: "wp (replace_statefulset l ns name k q mc (resize_first_template q sts)) v (\<lambda>res v. (present sts (stss v) \<or> backed sts (saved v (ns, k))) \<and>
      (res = Inr () \<longrightarrow> resized q sts (stss v)))" if "present sts (stss v)" for v k
    by (rule wp_replace) (use assms(1) that in auto)
  have work: "wp (op_bind (for_each (resize_claim l ns name q) is) (\<lambda>_. replace_statefulset l ns name (name @ ''-old-sts'') q mc (resize_first_template q sts))) v ?Q"
    if "present sts (stss v)" for v "is"
    unfolding wp_bind by (rule wp_mono [OF wp_claims]) (use that Some in \<open>auto split: sum.splits intro!: wp_mono [OF replace]\<close>)
  have rest: "wp (if getCurrentStorageSize sts = q then ret ()
      else op_bind (lift_result (or_panic ''nil replicas'' (s_Replicas sts))) (\<lambda>n.
           op_bind (for_each (resize_claim l ns name q) [0..n - 1]) (\<lambda>_. replace_statefulset l ns name (name @ ''-old-sts'') q mc (resize_first_template q sts)))) v ?Q"
    if "resized (getCurrentStorageSize sts) sts (stss v)" for v
    unfolding wp_if wp_bind [of "lift_result _"] wp_lift
    by (cases "s_Replicas sts") (use resized_present [OF that] that work Some in \<open>auto simp del: wp_bind\<close>)
  show ?thesis
    unfolding reconcilePVCs_def Some option.case Let_def
    by (rule wp_bindI [OF wp_current [OF assms(2)]]) (use rest Some in \<open>auto simp del: wp_bind\<close>)
qed

end

section \<open>The resize\<close>

text \<open>The in-memory server keeps the contract.\<close>

interpretation cm: saved_workloads mem_l wm_stss "map_of \<circ> cm_saved"
  by unfold_locales
    (auto simp: mem_l_def mem_r_simps read_object_def applied_or_lost_def get_or_missing_def named_def map_of_filter_key
      split: option.splits sum.splits)

text \<open>C8. Growing the volumes of etcd never loses its StatefulSet: from a state where it runs, or where an earlier pass left only its
  saved copy, a pass ends, whatever call fails and wherever, in a state where a StatefulSet that differs at most in
  the sizes of its claims and its status is there or is saved for the next pass.  A pass that succeeds leaves the
  StatefulSet running with claims of the new size.\<close>

theorem etcd_resize_keeps_statefulset:
  assumes "saved_workloads l stss saved" "om_Namespace mc = ns"
    and "find_object ns name (stss w) = Some sts \<or> find_object ns name (stss w) = None \<and> saved w (ns, name @ ''-old-sts'') = Some sts"
    and "run_state (reconcilePVCs l ns name newSize mc) w = (res, w')"
  shows "(\<exists>s. same_workload s sts \<and> (s \<in> set (stss w') \<or> saved w' (ns, name @ ''-old-sts'') = Some s)) \<and>
    (res = Inr () \<longrightarrow> (\<exists>q. lh_ParseQuantity l newSize = Some q \<and>
       (\<exists>s \<in> set (stss w'). same_workload s sts \<and> (s_VolumeClaimTemplates sts \<noteq> [] \<longrightarrow> getCurrentStorageSize s = q))))"
proof -
  have wp: "wp (reconcilePVCs l ns name newSize mc) w (\<lambda>res v. (present sts (stss v) \<or> backed sts (saved v (ns, name @ ''-old-sts''))) \<and>
      (res = Inr () \<longrightarrow> (\<exists>q. lh_ParseQuantity l newSize = Some q \<and> resized q sts (stss v))))"
    using assms(2,3) by (rule saved_workloads.wp_resize [OF assms(1)])
  note step = wpD [OF wp assms(4)]
  have "\<exists>s. same_workload s sts \<and> (s \<in> set (stss w') \<or> saved w' (ns, name @ ''-old-sts'') = Some s)"
    using conjunct1 [OF step] unfolding present_def backed_def by blast
  with conjunct2 [OF step] show ?thesis unfolding resized_def by blast
qed

text \<open>An etcd of one replica grows from 10 to 20.\<close>

definition ex_etcd :: StatefulSet where
  "ex_etcd = (new_StatefulSet ''ns'' ''mc-etcd'')\<lparr>s_Replicas := Some 1,
     s_VolumeClaimTemplates := [sized 10 (new_PVC [] ''data'')]\<rparr>"

lemma ex_resize_run:
  "run_state (reconcilePVCs mem_l ''ns'' ''mc-etcd'' ''20Gi'' ex_small) (ex_cmem ex_small [ex_etcd] [new_PVC ''ns'' ''data-mc-etcd-0''] []) =
     (Inr (), (ex_cmem ex_small [recreated 20 ex_etcd] [sized 20 (new_PVC ''ns'' ''data-mc-etcd-0'')] [])\<lparr>cm_saved := [((''ns'', ''mc-etcd-old-sts''), resize_first_template 20 ex_etcd)]\<rparr>)"
  by code_simp

theorem etcd_resize_keeps_statefulset_witness:
  "\<exists>s \<in> {recreated 20 ex_etcd}. same_workload s ex_etcd \<and> getCurrentStorageSize s = 20"
proof -
  have "om_Namespace ex_small = ''ns''" "find_object ''ns'' ''mc-etcd'' (wm_stss (ex_cmem ex_small [ex_etcd] [new_PVC ''ns'' ''data-mc-etcd-0''] [])) = Some ex_etcd"
    "s_VolumeClaimTemplates ex_etcd \<noteq> []"
    by code_simp+
  with etcd_resize_keeps_statefulset [OF cm.saved_workloads_axioms _ _ ex_resize_run, of ex_etcd] show ?thesis
    by (simp add: mem_l_def ex_cmem_def ex_wmem_def wmem.defs cmem.defs)
qed

end
