(* ===== verification/Teardown.thy ===== *)
theory Teardown
  imports Cluster_Store Workload_Safety
begin

text \<open>
  Deleting an instance.  The protocol \<open>teardown_step\<close> says what may happen to the dependencies of an
  instance that is being deleted, and in which order; a pass of the controller refines it, whatever the
  client answers (contract \<open>teardown_store\<close>).
\<close>

section \<open>The abstract protocol\<close>

text \<open>The releases of an instance: suffix of the name, whether it is used, its configuration.\<close>

definition dep_releases :: "Milvus \<Rightarrow> (string \<times> bool \<times> InClusterConfig option) list" where
  "dep_releases mc =
     (let dep = ms_Dep (m_Spec mc); t = dep_MsgStreamType dep in
      [(''-etcd'', \<not> etcd_External (dep_Etcd dep), etcd_InCluster (dep_Etcd dep)),
       (''-kafka'', t = MsgStreamTypeKafka \<and> \<not> kaf_External (dep_Kafka dep), kaf_InCluster (dep_Kafka dep)),
       (''-pulsar'', t = MsgStreamTypePulsar \<and> \<not> pul_External (dep_Pulsar dep), pul_InCluster (dep_Pulsar dep)),
       (''-minio'', \<not> st_External (dep_Storage dep), st_InCluster (dep_Storage dep)),
       (''-tei'', tei_Enabled (dep_Tei dep), tei_InCluster (dep_Tei dep))])"

text \<open>The release is to be deleted, with its volume claims or without.\<close>

definition doomed :: "Milvus \<Rightarrow> string \<Rightarrow> bool \<Rightarrow> bool" where
  "doomed mc n claims \<longleftrightarrow> (\<exists>(suffix, used, conf) \<in> set (dep_releases mc). used \<and> n = om_Name mc @ suffix \<and>
     (\<exists>ic. conf = Some ic \<and> ic_DeletionPolicy ic = DeletionPolicyDelete \<and> ic_PVCDeletion ic = claims))"

definition data_doomed :: "Milvus \<Rightarrow> bool" where
  "data_doomed mc \<longleftrightarrow> (\<exists>mq. GetMilvusBuiltInMQ (ms_Dep (m_Spec mc)) = Some mq \<and>
     per_Enabled (mq_Persistence mq) \<and> per_PVCDeletion (mq_Persistence mq))"

definition release_claim :: "string \<Rightarrow> K8sVolumeClaim \<Rightarrow> bool" where
  "release_claim n p \<longleftrightarrow> fmlookup (om_Labels p) AppLabelInstance = Some n \<or> fmlookup (om_Labels p) HelmReleaseLabel = Some n"

definition data_claim :: "Milvus \<Rightarrow> K8sVolumeClaim \<Rightarrow> bool" where
  "data_claim mc p \<longleftrightarrow> om_Namespace p = om_Namespace mc \<and> om_Name p = getPVCNameByInstName (om_Name mc)"

definition doomed_claim :: "Milvus \<Rightarrow> K8sVolumeClaim \<Rightarrow> bool" where
  "doomed_claim mc p \<longleftrightarrow> om_Namespace p = om_Namespace mc \<and> (\<exists>n. doomed mc n True \<and> release_claim n p) \<or> data_doomed mc \<and> data_claim mc p"

record teardown =
  td_marked :: bool
  td_fin :: bool
  td_rels :: "(string \<times> string) set"
  td_claims :: "K8sVolumeClaim set"

text \<open>Nothing is removed before the instance is marked as deleting and all its pods are gone; a claim of a
  release goes only after the release; the finalizer goes last.\<close>

inductive teardown_step :: "Milvus \<Rightarrow> bool \<Rightarrow> teardown \<Rightarrow> teardown \<Rightarrow> bool" for mc stopped where
  mark: "teardown_step mc stopped t (t\<lparr>td_marked := True\<rparr>)"
| uninstall: "stopped \<Longrightarrow> td_marked t \<Longrightarrow> td_fin t \<Longrightarrow> doomed mc n b \<Longrightarrow>
    teardown_step mc stopped t (t\<lparr>td_rels := td_rels t - {(om_Namespace mc, n)}\<rparr>)"
| drop: "stopped \<Longrightarrow> td_marked t \<Longrightarrow> td_fin t \<Longrightarrow> om_Namespace p = om_Namespace mc \<Longrightarrow> doomed mc n True \<Longrightarrow> release_claim n p \<Longrightarrow>
    (om_Namespace mc, n) \<notin> td_rels t \<Longrightarrow> teardown_step mc stopped t (t\<lparr>td_claims := td_claims t - {p}\<rparr>)"
| drop_data: "stopped \<Longrightarrow> td_marked t \<Longrightarrow> td_fin t \<Longrightarrow> data_doomed mc \<Longrightarrow>
    teardown_step mc stopped t (t\<lparr>td_claims := {q \<in> td_claims t. \<not> data_claim mc q}\<rparr>)"
| finish: "stopped \<Longrightarrow> td_marked t \<Longrightarrow> td_fin t \<Longrightarrow> (\<forall>n b. doomed mc n b \<longrightarrow> (om_Namespace mc, n) \<notin> td_rels t) \<Longrightarrow>
    (\<forall>p \<in> td_claims t. \<not> doomed_claim mc p) \<Longrightarrow> teardown_step mc stopped t (t\<lparr>td_fin := False\<rparr>)"

abbreviation teardown_steps :: "Milvus \<Rightarrow> bool \<Rightarrow> teardown \<Rightarrow> teardown \<Rightarrow> bool" where
  "teardown_steps mc stopped \<equiv> (teardown_step mc stopped)\<^sup>*\<^sup>*"

definition claims_unique :: "teardown \<Rightarrow> bool" where
  "claims_unique t \<longleftrightarrow> (\<forall>p \<in> td_claims t. \<forall>q \<in> td_claims t. same_object p q \<longrightarrow> p = q)"

text \<open>What the protocol guarantees, by rule induction.\<close>

lemma teardown_shrinks:
  "teardown_steps mc stopped t u \<Longrightarrow> td_rels u \<subseteq> td_rels t \<and> td_claims u \<subseteq> td_claims t \<and> (td_fin u \<longrightarrow> td_fin t)"
  by (induction rule: rtranclp_induct) (auto elim!: teardown_step.cases)

lemma teardown_exact:
  assumes "teardown_steps mc stopped t u"
  shows "(\<forall>k \<in> td_rels t - td_rels u. stopped \<and> (\<exists>n b. doomed mc n b \<and> k = (om_Namespace mc, n))) \<and>
    (\<forall>p \<in> td_claims t - td_claims u. stopped \<and> doomed_claim mc p) \<and>
    (td_fin t \<and> \<not> td_fin u \<longrightarrow> stopped \<and> (\<forall>n b. doomed mc n b \<longrightarrow> (om_Namespace mc, n) \<notin> td_rels u) \<and> (\<forall>p \<in> td_claims u. \<not> doomed_claim mc p))"
  using assms
proof (induction rule: rtranclp_induct)
  case (step u v)
  from step.hyps(2) show ?case
    by (cases rule: teardown_step.cases) (use step.IH in \<open>auto simp: doomed_claim_def\<close>)
qed simp

section \<open>The contract\<close>

locale teardown_store = workload_store "mt_r c" deps pods milvus stss pvcs
  for c :: "'w Controller" and deps :: "'w \<Rightarrow> Deployment list" and pods :: "'w \<Rightarrow> Pod list" and milvus :: "'w \<Rightarrow> Milvus"
    and stss :: "'w \<Rightarrow> StatefulSet list" and pvcs :: "'w \<Rightarrow> K8sVolumeClaim list" +
  fixes rels :: "'w \<Rightarrow> (string \<times> string) set"
  assumes get_milvus: "run_state (cli_GetMilvus (rc_cli (mt_r c)) ns name) w = (rm, w') \<Longrightarrow> w' = w \<and> (\<forall>m. rm = Inr m \<longrightarrow> m = milvus w)"
    and update_status: "run_state (cli_UpdateMilvusStatus (rc_cli (mt_r c)) m) w = (ru, w') \<Longrightarrow>
       applied_or_lost ru (milvus w' = milvus w) (milvus w' = (milvus w)\<lparr>m_Status := m_Status m\<rparr>) \<and> pods w' = pods w \<and> pvcs w' = pvcs w \<and> rels w' = rels w"
    and update_frame: "run_state (cli_UpdateMilvus (rc_cli (mt_r c)) m) w = (ru, w') \<Longrightarrow> pvcs w' = pvcs w \<and> rels w' = rels w"
    and exec_frame: "run_state (sy_Exec (mt_s c) pod) w = (ru, w') \<Longrightarrow> milvus w' = milvus w \<and> pvcs w' = pvcs w \<and> rels w' = rels w"
    and foreground: "run_state (mt_DeleteForeground c m) w = (ru, w') \<Longrightarrow>
       (milvus w' = milvus w \<or> milvus w' = AddFinalizer ForegroundDeletionFinalizer (milvus w)) \<and> pvcs w' = pvcs w \<and> rels w' = rels w"
    and history: "run_state (hx_History (lh_hx (mt_h c)) ns name) w = (ru, w') \<Longrightarrow>
       w' = w \<and> (\<forall>e. ru = Inl e \<longrightarrow> errors_Is e (hx_ErrReleaseNotFound (lh_hx (mt_h c))) \<longrightarrow> (ns, name) \<notin> rels w)"
    and uninstall: "run_state (hx_Uninstall (lh_hx (mt_h c)) ns name) w = (ru, w') \<Longrightarrow>
       (rels w' = rels w - {(ns, name)} \<or> (\<exists>e. ru = Inl e \<and> rels w' = rels w)) \<and> milvus w' = milvus w \<and> pvcs w' = pvcs w"
    and delete_claim_frame: "run_state (rc_DeletePVC (mt_r c) p) w = (ru, w') \<Longrightarrow> rels w' = rels w"
    and range_all: "set (rc_range (mt_r c) ks) = set ks"

definition td_abs :: "('w \<Rightarrow> Milvus) \<Rightarrow> ('w \<Rightarrow> (string \<times> string) set) \<Rightarrow> ('w \<Rightarrow> K8sVolumeClaim list) \<Rightarrow> 'w \<Rightarrow> teardown" where
  "td_abs milvus rels pvcs w = \<lparr>td_marked = (mst_Status (m_Status (milvus w)) = StatusDeleting),
     td_fin = (MilvusFinalizerName \<in> set (om_Finalizers (milvus w))), td_rels = rels w, td_claims = set (pvcs w)\<rparr>"

lemma td_abs_sel [simp]:
  "td_marked (td_abs milvus rels pvcs w) = (mst_Status (m_Status (milvus w)) = StatusDeleting)"
  "td_fin (td_abs milvus rels pvcs w) = (MilvusFinalizerName \<in> set (om_Finalizers (milvus w)))"
  "td_rels (td_abs milvus rels pvcs w) = rels w" "td_claims (td_abs milvus rels pvcs w) = set (pvcs w)"
  by (simp_all add: td_abs_def)

text \<open>A loop that collects errors: what every step keeps, and what every step achieved when there is none.\<close>

lemma wp_collect_errors:
  assumes "I w" "\<And>a v. a \<in> set as \<Longrightarrow> I v \<Longrightarrow> wp (f a) v (\<lambda>res v'. I v' \<and> (res = Inr () \<longrightarrow> E a v') \<and> (\<forall>b. E b v \<longrightarrow> E b v'))"
  shows "wp (collect_errors f as) w (\<lambda>errs v. I v \<and> (errs = [] \<longrightarrow> (\<forall>a \<in> set as. E a v)) \<and> (\<forall>b. E b w \<longrightarrow> E b v))"
  using assms
proof (induction as arbitrary: w)
  case (Cons a as)
  have "wp (f a) w (\<lambda>res v. wp (collect_errors f as) v (\<lambda>errs u. I u \<and> (errs = [] \<and> (\<exists>x. res = Inr x) \<longrightarrow> (\<forall>b \<in> set (a # as). E b u)) \<and> (\<forall>b. E b w \<longrightarrow> E b u)))"
  proof (rule wp_mono [OF Cons.prems(2) [OF _ Cons.prems(1)]])
    fix res v assume h: "I v \<and> (res = Inr () \<longrightarrow> E a v) \<and> (\<forall>b. E b w \<longrightarrow> E b v)"
    have "wp (collect_errors f as) v (\<lambda>errs u. I u \<and> (errs = [] \<longrightarrow> (\<forall>a \<in> set as. E a u)) \<and> (\<forall>b. E b v \<longrightarrow> E b u))"
      by (rule Cons.IH) (use h Cons.prems(2) in auto)
    then show "wp (collect_errors f as) v (\<lambda>errs u. I u \<and> (errs = [] \<and> (\<exists>x. res = Inr x) \<longrightarrow> (\<forall>b \<in> set (a # as). E b u)) \<and> (\<forall>b. E b w \<longrightarrow> E b u))"
      by (rule wp_mono) (use h in auto)
  qed simp
  then show ?case
    by (auto elim!: wp_mono split: sum.splits)
qed simp

section \<open>Which releases go\<close>

definition doomed_in :: "(string \<times> bool \<times> InClusterConfig option) list \<Rightarrow> string \<Rightarrow> string \<Rightarrow> bool \<Rightarrow> bool" where
  "doomed_in L inst n claims \<longleftrightarrow> (\<exists>(suffix, used, conf) \<in> set L. used \<and> n = inst @ suffix \<and>
     (\<exists>ic. conf = Some ic \<and> ic_DeletionPolicy ic = DeletionPolicyDelete \<and> ic_PVCDeletion ic = claims))"

definition planned :: "(string \<times> bool \<times> InClusterConfig option) list \<Rightarrow> string \<Rightarrow> (string, bool) fmap \<Rightarrow> bool" where
  "planned L inst R \<longleftrightarrow> (\<forall>n b. fmlookup R n = Some b \<longleftrightarrow> doomed_in L inst n b)"

lemma doomed_in_Nil [simp]: "\<not> doomed_in [] inst n b"
  by (simp add: doomed_in_def)

lemma doomed_in_snoc:
  "doomed_in (L @ [(suffix, used, conf)]) inst n b \<longleftrightarrow> doomed_in L inst n b \<or>
     used \<and> n = inst @ suffix \<and> (\<exists>ic. conf = Some ic \<and> ic_DeletionPolicy ic = DeletionPolicyDelete \<and> ic_PVCDeletion ic = b)"
  by (auto simp: doomed_in_def)

lemma doomed_in_suffix: "doomed_in L inst (inst @ suffix) b \<Longrightarrow> suffix \<in> fst ` set L"
  by (force simp: doomed_in_def)

lemma planned_add:
  assumes "planned L inst R" "delete_release (inst @ suffix) used conf R = Inr R'" "suffix \<notin> fst ` set L"
  shows "planned (L @ [(suffix, used, conf)]) inst R'"
  unfolding planned_def
proof (intro allI)
  fix n b
  have "n = inst @ suffix \<Longrightarrow> \<not> doomed_in L inst n b'" for b' using doomed_in_suffix assms(3) by blast
  then show "fmlookup R' n = Some b \<longleftrightarrow> doomed_in (L @ [(suffix, used, conf)]) inst n b"
    using assms(1,2) unfolding planned_def doomed_in_snoc
    by (auto simp: delete_release_def split: if_splits option.splits)
qed

lemma planned_skip: "planned L inst R \<Longrightarrow> planned (L @ [(suffix, False, conf)]) inst R"
  by (simp add: planned_def doomed_in_snoc)

lemma doomed_iff: "doomed mc n b \<longleftrightarrow> doomed_in (dep_releases mc) (om_Name mc) n b"
  by (simp add: doomed_def doomed_in_def)

lemma planned_empty [simp]: "planned [] inst fmempty"
  by (simp add: planned_def)

section \<open>Refinement\<close>

text \<open>The protocol depends only on the name and the specification of the instance.\<close>

lemma set_status_sel [simp]:
  "om_Namespace (set_status st mc) = om_Namespace mc" "om_Name (set_status st mc) = om_Name mc" "om_Finalizers (set_status st mc) = om_Finalizers mc"
  "m_Spec (set_status st mc) = m_Spec mc" "mst_Status (m_Status (set_status st mc)) = st"
  by (simp_all add: set_status_def)

lemma doomed_status [simp]: "doomed (set_status st mc) = doomed mc" "doomed_claim (set_status st mc) = doomed_claim mc"
  "data_doomed (set_status st mc) = data_doomed mc" "data_claim (set_status st mc) = data_claim mc"
  by (auto simp: fun_eq_iff doomed_def dep_releases_def data_doomed_def doomed_claim_def data_claim_def)

lemma teardown_step_status: "teardown_step (set_status st mc) s t u \<Longrightarrow> teardown_step mc s t u"
  by (induction rule: teardown_step.induct) (auto intro: teardown_step.intros)

lemma teardown_steps_status: "teardown_steps (set_status st mc) s t u \<Longrightarrow> teardown_steps mc s t u"
  by (erule mono_rtranclp [rule_format, rotated]) (rule teardown_step_status)

lemma set_status_same: "mst_Status (m_Status mc) = st \<Longrightarrow> set_status st mc = mc"
  by (simp add: set_status_def)

lemma labels_match_single: "labels_match (fmupd k n fmempty) ls \<longleftrightarrow> fmlookup ls k = Some n"
  by (auto simp: labels_match_def fmsubset_alt_def fmpred_iff split: if_splits)

context teardown_store
begin

text \<open>The state while the dependencies are removed: on a path of the protocol, marked, with the finalizer.\<close>

definition going :: "Milvus \<Rightarrow> teardown \<Rightarrow> Milvus \<Rightarrow> 'w \<Rightarrow> bool" where
  "going mc t m v \<longleftrightarrow> teardown_steps mc True t (td_abs milvus rels pvcs v) \<and> milvus v = m \<and>
     mst_Status (m_Status m) = StatusDeleting \<and> MilvusFinalizerName \<in> set (om_Finalizers m)"

lemma going_claims: "going mc t m v \<Longrightarrow> set (pvcs v) \<subseteq> td_claims t"
  using teardown_shrinks by (fastforce simp: going_def)

lemma going_step:
  assumes "going mc t m v" "teardown_step mc True (td_abs milvus rels pvcs v) (td_abs milvus rels pvcs v')" "milvus v' = milvus v"
  shows "going mc t m v'"
  using assms by (auto simp: going_def elim: rtranclp.rtrancl_into_rtrancl)

lemma going_same:
  assumes "going mc t m v" "milvus v' = milvus v" "rels v' = rels v" "set (pvcs v') = set (pvcs v)"
  shows "going mc t m v'"
proof -
  have "td_abs milvus rels pvcs v' = td_abs milvus rels pvcs v" using assms(2-4) by (simp add: td_abs_def)
  then show ?thesis using assms(1,2) by (simp add: going_def)
qed

lemma going_uninstall:
  assumes "going mc t m v" "doomed mc n b" "rels v' = rels v - {(om_Namespace mc, n)}" "milvus v' = milvus v" "pvcs v' = pvcs v"
  shows "going mc t m v'"
proof (rule going_step [OF assms(1) _ assms(4)])
  have "td_abs milvus rels pvcs v' = (td_abs milvus rels pvcs v)\<lparr>td_rels := td_rels (td_abs milvus rels pvcs v) - {(om_Namespace mc, n)}\<rparr>"
    using assms(3-5) by (simp add: td_abs_def)
  then show "teardown_step mc True (td_abs milvus rels pvcs v) (td_abs milvus rels pvcs v')"
    using teardown_step.uninstall [of True "td_abs milvus rels pvcs v" mc n b] assms(1,2) by (simp add: going_def)
qed

lemma going_drop:
  assumes "going mc t m v" "om_Namespace p = om_Namespace mc" "doomed mc n True" "release_claim n p" "(om_Namespace mc, n) \<notin> rels v"
    and "set (pvcs v') = set (pvcs v) - {p}" "milvus v' = milvus v" "rels v' = rels v"
  shows "going mc t m v'"
proof (rule going_step [OF assms(1) _ assms(7)])
  have "td_abs milvus rels pvcs v' = (td_abs milvus rels pvcs v)\<lparr>td_claims := td_claims (td_abs milvus rels pvcs v) - {p}\<rparr>"
    using assms(6-8) by (simp add: td_abs_def)
  then show "teardown_step mc True (td_abs milvus rels pvcs v) (td_abs milvus rels pvcs v')"
    using teardown_step.drop [of True "td_abs milvus rels pvcs v" p mc n] assms(1-5) by (simp add: going_def)
qed

lemma going_drop_data:
  assumes "going mc t m v" "data_doomed mc" "set (pvcs v') = {q \<in> set (pvcs v). \<not> data_claim mc q}" "milvus v' = milvus v" "rels v' = rels v"
  shows "going mc t m v'"
proof (rule going_step [OF assms(1) _ assms(4)])
  have "td_abs milvus rels pvcs v' = (td_abs milvus rels pvcs v)\<lparr>td_claims := {q \<in> td_claims (td_abs milvus rels pvcs v). \<not> data_claim mc q}\<rparr>"
    using assms(3-5) by (simp add: td_abs_def)
  then show "teardown_step mc True (td_abs milvus rels pvcs v) (td_abs milvus rels pvcs v')"
    using teardown_step.drop_data [of True "td_abs milvus rels pvcs v" mc] assms(1,2) by (simp add: going_def)
qed

lemma wp_uninstall:
  assumes "going mc t m v" "doomed mc n b"
  shows "wp (helm_Uninstall (lh_hx (mt_h c)) (om_Namespace mc) n) v (\<lambda>res v'. going mc t m v' \<and> rels v' \<subseteq> rels v \<and> pvcs v' = pvcs v \<and>
    (res = Inr () \<longrightarrow> (om_Namespace mc, n) \<notin> rels v'))" (is "wp _ _ ?Q")
proof -
  have del: "wp (hx_Uninstall (lh_hx (mt_h c)) (om_Namespace mc) n) v ?Q"
  proof (rule wpI)
    fix res v' assume "run_state (hx_Uninstall (lh_hx (mt_h c)) (om_Namespace mc) n) v = (res, v')"
    note u = uninstall [OF this]
    then consider "rels v' = rels v - {(om_Namespace mc, n)}" | e where "res = Inl e" "rels v' = rels v" by blast
    then show "?Q res v'"
    proof cases
      case 1
      then show ?thesis using going_uninstall [OF assms] u by auto
    next
      case 2
      then show ?thesis using going_same [OF assms(1)] u by auto
    qed
  qed
  have look: "wp (hx_History (lh_hx (mt_h c)) (om_Namespace mc) n) v (\<lambda>res v'. v' = v \<and>
      (\<forall>e. res = Inl e \<longrightarrow> errors_Is e (hx_ErrReleaseNotFound (lh_hx (mt_h c))) \<longrightarrow> (om_Namespace mc, n) \<notin> rels v))"
    by (rule wpI) (use history in blast)
  show ?thesis
    unfolding helm_Uninstall_def wp_state_bind
    by (rule wp_mono [OF look]) (use del assms(1) in \<open>auto split: sum.splits\<close>)
qed

definition cleared :: "Milvus \<Rightarrow> (string, bool) fmap \<Rightarrow> string \<Rightarrow> 'w \<Rightarrow> bool" where
  "cleared mc R n v \<longleftrightarrow> (om_Namespace mc, n) \<notin> rels v \<and>
     (fmlookup R n = Some True \<longrightarrow> (\<forall>p \<in> set (pvcs v). om_Namespace p = om_Namespace mc \<longrightarrow> \<not> release_claim n p))"

lemma cleared_mono: "cleared mc R n v \<Longrightarrow> rels v' \<subseteq> rels v \<Longrightarrow> set (pvcs v') \<subseteq> set (pvcs v) \<Longrightarrow> cleared mc R n v'"
  by (auto simp: cleared_def)

lemma wp_drop:
  assumes "going mc t m v" "om_Namespace p = om_Namespace mc" "doomed mc n True" "release_claim n p" "(om_Namespace mc, n) \<notin> rels v"
    and "p \<in> td_claims t" "claims_unique t"
  shows "wp (rc_DeletePVC (mt_r c) p) v (\<lambda>res v'. going mc t m v' \<and> rels v' = rels v \<and> set (pvcs v') \<subseteq> set (pvcs v) \<and> (res = Inr () \<longrightarrow> p \<notin> set (pvcs v')))"
proof (rule wpI)
  fix res v' assume run: "run_state (rc_DeletePVC (mt_r c) p) v = (res, v')"
  note d = delete_pvc [OF run] delete_claim_frame [OF run]
  have rm: "set (store_remove p (pvcs v)) = set (pvcs v) - {p}"
    using going_claims [OF assms(1)] assms(6,7) by (auto simp: store_remove_def claims_unique_def) (simp add: same_object_def)
  from d consider "pvcs v' = store_remove p (pvcs v)" | e where "res = Inl e" "pvcs v' = pvcs v" by (auto simp: removed_def)
  then show "going mc t m v' \<and> rels v' = rels v \<and> set (pvcs v') \<subseteq> set (pvcs v) \<and> (res = Inr () \<longrightarrow> p \<notin> set (pvcs v'))"
  proof cases
    case 1
    then show ?thesis using going_drop [OF assms(1-5), of v'] d rm by auto
  next
    case 2
    then show ?thesis using going_same [OF assms(1), of v'] d by auto
  qed
qed

lemma wp_batch:
  assumes "going mc t m v" "doomed mc n True" "k = AppLabelInstance \<or> k = HelmReleaseLabel" "(om_Namespace mc, n) \<notin> rels v"
    and "claims_unique t"
  shows "wp (batchDeletePVC (mt_r c) (om_Namespace mc) k n) v (\<lambda>res v'. going mc t m v' \<and> rels v' = rels v \<and> set (pvcs v') \<subseteq> set (pvcs v) \<and>
    (res = Inr () \<longrightarrow> (\<forall>p \<in> set (pvcs v'). om_Namespace p = om_Namespace mc \<longrightarrow> fmlookup (om_Labels p) k \<noteq> Some n)))" (is "wp _ _ ?Q")
proof -
  let ?L = "selected (om_Namespace mc) (fmap_of_list [(k, n)]) (pvcs v)"
  let ?I = "\<lambda>u. going mc t m u \<and> rels u = rels v \<and> set (pvcs u) \<subseteq> set (pvcs v)"
  have mem: "p \<in> set ?L \<longleftrightarrow> p \<in> set (pvcs v) \<and> om_Namespace p = om_Namespace mc \<and> fmlookup (om_Labels p) k = Some n" for p
    by (auto simp: selected_def labels_match_single)
  have drop: "wp (rc_DeletePVC (mt_r c) p) u (\<lambda>res u'. ?I u' \<and> (res = Inr () \<longrightarrow> p \<notin> set (pvcs u')))" if "p \<in> set ?L" "?I u" for p u
  proof -
    have facts: "going mc t m u" "om_Namespace p = om_Namespace mc" "release_claim n p" "(om_Namespace mc, n) \<notin> rels u" "p \<in> td_claims t"
      using that mem [of p] assms(3,4) going_claims [OF assms(1)] by (auto simp: release_claim_def)
    show ?thesis
      by (rule wp_mono [OF wp_drop [OF facts(1,2) assms(2) facts(3-5) assms(5)]]) (use that(2) in auto)
  qed
  have keep: "wp (rc_DeletePVC (mt_r c) q) u (\<lambda>res u'. p \<notin> set (pvcs u'))" if "q \<in> set ?L" "?I u" "p \<notin> set (pvcs u)" for p q u
    by (rule wpI) (use that in \<open>auto dest!: delete_pvc simp: removed_def store_remove_def\<close>)
  have "wp (for_each (\<lambda>pvc. op_wrap (''delete pvc '' @ om_Namespace mc @ ''/'' @ om_Name pvc @ '' failed'') (rc_DeletePVC (mt_r c) pvc)) ?L) v
      (\<lambda>res u. ?I u \<and> (res = Inr () \<longrightarrow> (\<forall>p \<in> set ?L. p \<notin> set (pvcs u))))"
  proof (rule wp_for_each)
    show "wp (op_wrap (''delete pvc '' @ om_Namespace mc @ ''/'' @ om_Name p @ '' failed'') (rc_DeletePVC (mt_r c) p)) u
        (\<lambda>res u'. ?I u' \<and> (res = Inr () \<longrightarrow> p \<notin> set (pvcs u')))" if "p \<in> set ?L" "?I u" for p u
      unfolding wp_wrap by (rule wp_mono [OF drop [OF that]]) (auto simp: wrap_def split: sum.splits)
    show "wp (op_wrap (''delete pvc '' @ om_Namespace mc @ ''/'' @ om_Name q @ '' failed'') (rc_DeletePVC (mt_r c) q)) u
        (\<lambda>res u'. p \<notin> set (pvcs u'))" if "p \<in> set ?L" "q \<in> set ?L" "?I u" "p \<notin> set (pvcs u)" for p q u
      unfolding wp_wrap by (rule wp_mono [OF keep [OF that(2-4)]])
  qed (use assms(1) in auto)
  then have "wp (for_each (\<lambda>pvc. op_wrap (''delete pvc '' @ om_Namespace mc @ ''/'' @ om_Name pvc @ '' failed'') (rc_DeletePVC (mt_r c) pvc)) ?L) v ?Q"
    by (rule wp_mono) (use mem in blast)
  then show ?thesis
    unfolding batchDeletePVC_def wp_bind by (intro wp_ListPVCs) (use assms(1) in auto)
qed

lemma wp_release:
  assumes "going mc t m v" "planned (dep_releases mc) (om_Name mc) R" "fmlookup R n = Some b"
    and "claims_unique t"
  shows "wp (uninstall_release c (om_Namespace mc) R n) v (\<lambda>res v'. going mc t m v' \<and> (res = Inr () \<longrightarrow> cleared mc R n v') \<and>
    (\<forall>k. cleared mc R k v \<longrightarrow> cleared mc R k v'))" (is "wp _ _ ?Q")
proof -
  have doom: "doomed mc n b" using assms(2,3) by (auto simp: doomed_iff planned_def)
  have keeps: "\<forall>k. cleared mc R k v \<longrightarrow> cleared mc R k v'" if "rels v' \<subseteq> rels v" "set (pvcs v') \<subseteq> set (pvcs v)" for v'
    using cleared_mono that by blast
  have cleared_n: "cleared mc R n v'" if "(om_Namespace mc, n) \<notin> rels v'" "b \<longrightarrow> (\<forall>p \<in> set (pvcs v'). om_Namespace p = om_Namespace mc \<longrightarrow> \<not> release_claim n p)" for v'
    using that assms(3) by (simp add: cleared_def)
  show ?thesis
  proof (cases b)
    case False
    show ?thesis
      unfolding uninstall_release_def
      by (rule wp_bindI [OF wp_uninstall [OF assms(1) doom]]) (use assms(3) False keeps cleared_n in simp_all)
  next
    case True
    have doomT: "doomed mc n True" using doom True by simp
    let ?P = "\<lambda>k u res u'. going mc t m u' \<and> rels u' \<subseteq> rels v \<and> (om_Namespace mc, n) \<notin> rels u' \<and> set (pvcs u') \<subseteq> set (pvcs u) \<and>
      (res = Inr () \<longrightarrow> (\<forall>p \<in> set (pvcs u'). om_Namespace p = om_Namespace mc \<longrightarrow> fmlookup (om_Labels p) k \<noteq> Some n))"
    have batch: "wp (op_wrap msg (batchDeletePVC (mt_r c) (om_Namespace mc) k n)) u (?P k u)"
      if "going mc t m u" "rels u \<subseteq> rels v" "(om_Namespace mc, n) \<notin> rels u" "k = AppLabelInstance \<or> k = HelmReleaseLabel" for k u msg
      unfolding wp_wrap
      by (rule wp_mono [OF wp_batch [OF that(1) doomT that(4,3) assms(4)]])
        (use that(2,3) in \<open>auto simp: wrap_def split: sum.splits\<close>)
    have both: "wp (op_bind (op_wrap msg (batchDeletePVC (mt_r c) (om_Namespace mc) AppLabelInstance n)) (\<lambda>_.
        op_wrap msg' (batchDeletePVC (mt_r c) (om_Namespace mc) HelmReleaseLabel n))) u ?Q"
      if "going mc t m u" "rels u \<subseteq> rels v" "(om_Namespace mc, n) \<notin> rels u" "pvcs u = pvcs v" for u msg msg'
    proof (rule wp_bindI [OF batch [OF that(1-3)]])
      fix e :: go_error and u' assume "?P AppLabelInstance u (Inl e) u'"
      then show "?Q (Inl e) u'" using that(4) keeps by simp
    next
      fix a :: unit and u1 assume u1: "?P AppLabelInstance u (Inr a) u1"
      then have u1': "going mc t m u1" "rels u1 \<subseteq> rels v" "(om_Namespace mc, n) \<notin> rels u1" by auto
      show "wp (op_wrap msg' (batchDeletePVC (mt_r c) (om_Namespace mc) HelmReleaseLabel n)) u1 ?Q"
      proof (rule wp_mono [OF batch [OF u1']])
        fix res :: "go_error + unit" and u2 assume u2: "?P HelmReleaseLabel u1 res u2"
        have sub: "set (pvcs u2) \<subseteq> set (pvcs v)" using u1 u2 that(4) by auto
        have "\<not> release_claim n p" if "res = Inr ()" "p \<in> set (pvcs u2)" "om_Namespace p = om_Namespace mc" for p
          using u1 u2 that by (auto simp: release_claim_def)
        then show "?Q res u2" using u2 sub keeps cleared_n by blast
      qed simp
    qed simp
    show ?thesis
      unfolding uninstall_release_def
      by (rule wp_bindI [OF wp_uninstall [OF assms(1) doom]]) (use assms(3) True keeps both in \<open>simp_all del: wp_bind\<close>)
  qed
qed

lemma wp_releases:
  assumes "going mc t m v" "planned (dep_releases mc) (om_Name mc) R" "claims_unique t"
  shows "wp (uninstall_releases c (om_Namespace mc) R) v (\<lambda>res v'. going mc t m v' \<and>
    (res = Inr () \<longrightarrow> (\<forall>n b. doomed mc n b \<longrightarrow> cleared mc R n v')))"
proof -
  let ?ks = "rc_range (mt_r c) (sorted_list_of_fset (fmdom R))"
  have ks: "n \<in> set ?ks \<longleftrightarrow> (\<exists>b. fmlookup R n = Some b)" for n
    using range_all by (auto simp: fmlookup_dom_iff sorted_list_of_fset_simps)
  have step: "wp (uninstall_release c (om_Namespace mc) R n) u (\<lambda>res u'. going mc t m u' \<and> (res = Inr () \<longrightarrow> cleared mc R n u') \<and>
      (\<forall>k. cleared mc R k u \<longrightarrow> cleared mc R k u'))" if "n \<in> set ?ks" "going mc t m u" for n u
    using that(1) wp_release [OF that(2) assms(2) _ assms(3)] ks by blast
  have "wp (collect_errors (uninstall_release c (om_Namespace mc) R) ?ks) v
      (\<lambda>errs u. going mc t m u \<and> (errs = [] \<longrightarrow> (\<forall>n \<in> set ?ks. cleared mc R n u)) \<and> (\<forall>k. cleared mc R k v \<longrightarrow> cleared mc R k u))"
    by (rule wp_collect_errors [OF assms(1) step])
  then show ?thesis
    unfolding uninstall_releases_def wp_state_bind
    by (rule wp_mono) (use assms(2) ks in \<open>auto simp: doomed_iff planned_def\<close>)
qed

lemma wp_data_claim:
  assumes "going mc t m v"
  shows "wp (delete_data_pvc (mt_r c) mc) v (\<lambda>res v'. going mc t m v' \<and> set (pvcs v') \<subseteq> set (pvcs v) \<and>
    (res = Inr () \<longrightarrow> data_doomed mc \<longrightarrow> (\<forall>p \<in> set (pvcs v'). \<not> data_claim mc p)))" (is "wp _ _ ?Q")
proof (cases "data_doomed mc")
  case True
  let ?d = "new_PVC (om_Namespace mc) (getPVCNameByInstName (om_Name mc))"
  have key: "same_object q ?d \<longleftrightarrow> data_claim mc q" for q
    by (simp add: same_object_def data_claim_def new_PVC_def new_ObjectMeta_def ObjectMeta.defs K8sVolumeClaim.defs)
  have del: "wp (rc_DeletePVC (mt_r c) ?d) v (\<lambda>res v'. going mc t m v' \<and> set (pvcs v') \<subseteq> set (pvcs v) \<and>
      (res = Inr () \<or> (\<exists>e. res = Inl e \<and> IsNotFound e) \<longrightarrow> (\<forall>p \<in> set (pvcs v'). \<not> data_claim mc p)))"
  proof (rule wpI)
    fix res v' assume run: "run_state (rc_DeletePVC (mt_r c) ?d) v = (res, v')"
    note d = delete_pvc [OF run] delete_claim_frame [OF run]
    have rm: "removed ?d (pvcs v) (pvcs v') res" using d(1) by blast
    have gone: "\<forall>p \<in> set (pvcs v'). \<not> data_claim mc p" if "res = Inr () \<or> (\<exists>e. res = Inl e \<and> IsNotFound e)"
      using removed_absent [OF rm that] unfolding absent_def key .
    have "set (pvcs v') = set (pvcs v) \<or> set (pvcs v') = {q \<in> set (pvcs v). \<not> data_claim mc q}"
      using rm unfolding removed_def store_remove_def key by auto
    then show "going mc t m v' \<and> set (pvcs v') \<subseteq> set (pvcs v) \<and>
        (res = Inr () \<or> (\<exists>e. res = Inl e \<and> IsNotFound e) \<longrightarrow> (\<forall>p \<in> set (pvcs v'). \<not> data_claim mc p))"
      using going_same [OF assms, of v'] going_drop_data [OF assms True, of v'] d gone by auto
  qed
  from True obtain mq where "GetMilvusBuiltInMQ (ms_Dep (m_Spec mc)) = Some mq" "per_Enabled (mq_Persistence mq)" "per_PVCDeletion (mq_Persistence mq)"
    by (auto simp: data_doomed_def)
  then show ?thesis
    unfolding delete_data_pvc_def
    by (simp add: wp_IgnoreNotFound) (rule wp_mono [OF del], auto split: sum.splits)
next
  case False
  then show ?thesis using assms by (auto simp: delete_data_pvc_def data_doomed_def split: option.splits)
qed

lemma going_from: "going mc t m v \<Longrightarrow> going mc (td_abs milvus rels pvcs v) m v"
  by (simp add: going_def)

lemma going_trans: "going mc t m v \<Longrightarrow> going mc (td_abs milvus rels pvcs v) m u \<Longrightarrow> going mc t m u"
  by (auto simp: going_def)

lemma going_unique: "going mc t m v \<Longrightarrow> claims_unique t \<Longrightarrow> claims_unique (td_abs milvus rels pvcs v)"
  using going_claims by (fastforce simp: claims_unique_def)

lemma wp_msg_stream:
  assumes "going mc t m v"
    and "planned (take 1 (dep_releases mc)) (om_Name mc) R"
  shows "wp (msg_stream_release (mt_r c) mc R) v (\<lambda>res v'. going mc t m v' \<and>
    (\<forall>R'. res = Inr R' \<longrightarrow> planned (take 3 (dep_releases mc)) (om_Name mc) R' \<and> (data_doomed mc \<longrightarrow> (\<forall>p \<in> set (pvcs v'). \<not> data_claim mc p))))" (is "wp _ _ ?Q")
proof -
  let ?dep = "ms_Dep (m_Spec mc)"
  let ?e = "(''-etcd'', \<not> etcd_External (dep_Etcd ?dep), etcd_InCluster (dep_Etcd ?dep))"
  let ?k = "\<lambda>u. (''-kafka'', u \<and> \<not> kaf_External (dep_Kafka ?dep), kaf_InCluster (dep_Kafka ?dep))"
  let ?p = "\<lambda>u. (''-pulsar'', u \<and> \<not> pul_External (dep_Pulsar ?dep), pul_InCluster (dep_Pulsar ?dep))"
  have base: "planned [?e] (om_Name mc) R" using assms(2) by (simp add: dep_releases_def Let_def)
  have goal: "planned (take 3 (dep_releases mc)) (om_Name mc) R' \<longleftrightarrow>
      planned [?e, ?k (dep_MsgStreamType ?dep = MsgStreamTypeKafka), ?p (dep_MsgStreamType ?dep = MsgStreamTypePulsar)] (om_Name mc) R'" for R'
    by (simp add: dep_releases_def Let_def numeral_3_eq_3)
  have other: "planned [?e, ?k False, ?p False] (om_Name mc) R'" if "planned [?e] (om_Name mc) R'" for R'
    using planned_skip [OF planned_skip [OF that]] by simp
  show ?thesis
  proof (cases "dep_MsgStreamType ?dep")
    case MsgStreamTypeKafka
    have "planned [?e, ?k True, ?p False] (om_Name mc) R'" if "delete_release (om_Name mc @ ''-kafka'') (\<not> kaf_External (dep_Kafka ?dep)) (kaf_InCluster (dep_Kafka ?dep)) R = Inr R'" for R'
      using planned_skip [OF planned_add [OF base that]] by simp
    then show ?thesis
      using assms(1) by (simp add: msg_stream_release_def Let_def MsgStreamTypeKafka goal data_doomed_def GetMilvusBuiltInMQ_def)
  next
    case MsgStreamTypePulsar
    have "planned [?e, ?k False, ?p True] (om_Name mc) R'" if "delete_release (om_Name mc @ ''-pulsar'') (\<not> pul_External (dep_Pulsar ?dep)) (pul_InCluster (dep_Pulsar ?dep)) R = Inr R'" for R'
      using planned_add [OF planned_skip [OF base] that] by simp
    then show ?thesis
      using assms(1) by (simp add: msg_stream_release_def Let_def MsgStreamTypePulsar goal data_doomed_def GetMilvusBuiltInMQ_def)
  qed (use wp_mono [OF wp_data_claim [OF assms(1)]] other [OF base] in \<open>auto simp: msg_stream_release_def Let_def goal intro!: wp_mono [OF wp_data_claim [OF assms(1)]] split: sum.splits\<close>)
qed

lemma wp_Finalize:
  assumes "going mc t m v" "claims_unique t"
  shows "wp (Finalize c mc) v (\<lambda>res v'. going mc t m v' \<and>
    (res = Inr () \<longrightarrow> (\<forall>n b. doomed mc n b \<longrightarrow> (om_Namespace mc, n) \<notin> rels v') \<and> (\<forall>p \<in> set (pvcs v'). \<not> doomed_claim mc p)))" (is "wp _ _ ?Q")
proof -
  let ?dep = "ms_Dep (m_Spec mc)" and ?n = "om_Name mc"
  have all: "wp (uninstall_releases c (om_Namespace mc) R) u ?Q"
    if "going mc t m u" "planned (dep_releases mc) ?n R" "data_doomed mc \<longrightarrow> (\<forall>p \<in> set (pvcs u). \<not> data_claim mc p)" for R u
  proof (rule wp_mono [OF wp_releases [OF going_from [OF that(1)] that(2) going_unique [OF that(1) assms(2)]]])
    fix res :: "go_error + unit" and v' assume h: "going mc (td_abs milvus rels pvcs u) m v' \<and> (res = Inr () \<longrightarrow> (\<forall>n b. doomed mc n b \<longrightarrow> cleared mc R n v'))"
    have sub: "set (pvcs v') \<subseteq> set (pvcs u)" using going_claims h by fastforce
    have flag: "fmlookup R n = Some True" if "doomed mc n True" for n using that \<open>planned (dep_releases mc) ?n R\<close> by (simp add: doomed_iff planned_def)
    have "\<not> doomed_claim mc p" if "res = Inr ()" "p \<in> set (pvcs v')" for p
      using h that sub flag \<open>data_doomed mc \<longrightarrow> _\<close> unfolding doomed_claim_def cleared_def by blast
    then show "?Q res v'" using h going_trans [OF \<open>going mc t m u\<close>] by (auto simp: cleared_def)
  qed
  have etcd: "planned (take 1 (dep_releases mc)) ?n R"
    if "delete_release (?n @ ''-etcd'') (\<not> etcd_External (dep_Etcd ?dep)) (etcd_InCluster (dep_Etcd ?dep)) fmempty = Inr R" for R
    using planned_add [OF planned_empty that] by (simp add: dep_releases_def Let_def)
  have rest: "planned (dep_releases mc) ?n R2"
    if "planned (take 3 (dep_releases mc)) ?n R" "delete_release (?n @ ''-minio'') (\<not> st_External (dep_Storage ?dep)) (st_InCluster (dep_Storage ?dep)) R = Inr R1"
      "delete_release (?n @ ''-tei'') (tei_Enabled (dep_Tei ?dep)) (tei_InCluster (dep_Tei ?dep)) R1 = Inr R2" for R R1 R2
    using planned_add [OF planned_add [OF that(1,2)] that(3)] by (simp add: dep_releases_def Let_def numeral_3_eq_3)
  have tail: "wp (op_bind (lift_result (delete_release (?n @ ''-minio'') (\<not> st_External (dep_Storage ?dep)) (st_InCluster (dep_Storage ?dep)) R)) (\<lambda>R1.
      op_bind (lift_result (delete_release (?n @ ''-tei'') (tei_Enabled (dep_Tei ?dep)) (tei_InCluster (dep_Tei ?dep)) R1)) (\<lambda>R2.
      uninstall_releases c (om_Namespace mc) R2))) u ?Q"
    if "going mc t m u" "planned (take 3 (dep_releases mc)) ?n R" "data_doomed mc \<longrightarrow> (\<forall>p \<in> set (pvcs u). \<not> data_claim mc p)" for R u
    using that(1) all [OF that(1) rest [OF that(2)] that(3)] by (auto split: sum.splits)
  have mid: "wp (op_bind (msg_stream_release (mt_r c) mc R) (\<lambda>R. op_bind (lift_result (delete_release (?n @ ''-minio'') (\<not> st_External (dep_Storage ?dep)) (st_InCluster (dep_Storage ?dep)) R)) (\<lambda>R1.
      op_bind (lift_result (delete_release (?n @ ''-tei'') (tei_Enabled (dep_Tei ?dep)) (tei_InCluster (dep_Tei ?dep)) R1)) (\<lambda>R2.
      uninstall_releases c (om_Namespace mc) R2)))) v ?Q"
    if "planned (take 1 (dep_releases mc)) ?n R" for R
    by (rule wp_bindI [OF wp_msg_stream [OF assms(1) that]]) (use tail in \<open>auto simp del: wp_bind\<close>)
  show ?thesis
    unfolding Finalize_def Let_def wp_bind [of "lift_result (delete_release (?n @ ''-etcd'') _ _ _)"] wp_lift
    using mid etcd assms(1) by (auto simp del: wp_bind split: sum.splits)
qed

lemma wp_mark:
  "wp (mark_deleting c (milvus w)) w (\<lambda>res v. pods v = pods w \<and> rels v = rels w \<and> pvcs v = pvcs w \<and>
     (milvus v = milvus w \<or> milvus v = set_status StatusDeleting (milvus w)) \<and>
     (\<forall>m. res = Inr m \<longrightarrow> milvus v = m \<and> m = set_status StatusDeleting (milvus w)))"
proof -
  have "wp (cli_UpdateMilvusStatus (rc_cli (mt_r c)) (set_status StatusDeleting (milvus w))) w (\<lambda>res v. pods v = pods w \<and> rels v = rels w \<and> pvcs v = pvcs w \<and>
     (milvus v = milvus w \<or> milvus v = set_status StatusDeleting (milvus w)) \<and> (res = Inr () \<longrightarrow> milvus v = set_status StatusDeleting (milvus w)))"
    by (rule wpI) (auto dest!: update_status simp: applied_or_lost_def set_status_def split: sum.splits)
  then show ?thesis
    unfolding mark_deleting_def wp_if wp_bind wp_ret
    by (auto simp: set_status_same elim!: wp_mono split: sum.splits)
qed

lemma wp_exec_kill: "wp (exec_kill (mt_s c) acc ps) v (\<lambda>res v'. milvus v' = milvus v \<and> pvcs v' = pvcs v \<and> rels v' = rels v)"
proof (induction ps arbitrary: acc v)
  case (Cons pod ps)
  have "wp (sy_Exec (mt_s c) pod) v (\<lambda>res v'. wp (exec_kill (mt_s c) (case res of Inl e \<Rightarrow> Some e | Inr _ \<Rightarrow> acc) ps) v'
      (\<lambda>res u. milvus u = milvus v \<and> pvcs u = pvcs v \<and> rels u = rels v))"
    by (rule wpI) (use exec_frame in \<open>auto intro!: wp_mono [OF Cons.IH]\<close>)
  then show ?case using Cons.IH by simp
qed (simp split: option.splits)

lemma wp_stopped:
  "wp (CheckMilvusStopped (mt_s c) m) v (\<lambda>res v'. milvus v' = milvus v \<and> pvcs v' = pvcs v \<and> rels v' = rels v \<and>
     (res = Inr True \<longrightarrow> selected (om_Namespace m) (NewAppLabels (om_Name m)) (pods v) = []))"
  unfolding CheckMilvusStopped_def listMilvusPods_def mt_r_def [symmetric] ExecKillIfTerminating_def wp_bind
  by (intro wp_ListPods) (auto intro!: wp_mono [OF wp_exec_kill] split: sum.splits)

lemma td_abs_eq: "milvus v = milvus w \<Longrightarrow> rels v = rels w \<Longrightarrow> pvcs v = pvcs w \<Longrightarrow> td_abs milvus rels pvcs v = td_abs milvus rels pvcs w"
  by (simp add: td_abs_def)

lemma td_abs_marked:
  "milvus v = set_status StatusDeleting (milvus w) \<Longrightarrow> rels v = rels w \<Longrightarrow> pvcs v = pvcs w \<Longrightarrow>
     td_abs milvus rels pvcs v = (td_abs milvus rels pvcs w)\<lparr>td_marked := True\<rparr>"
  by (simp add: td_abs_def set_status_def)

lemma wp_finish:
  assumes "going mc t m v" "\<forall>n b. doomed mc n b \<longrightarrow> (om_Namespace mc, n) \<notin> rels v" "\<forall>p \<in> set (pvcs v). \<not> doomed_claim mc p"
  shows "wp (cli_UpdateMilvus (rc_cli (mt_r c)) (RemoveFinalizer MilvusFinalizerName m)) v (\<lambda>res v'. teardown_steps mc True t (td_abs milvus rels pvcs v'))"
proof (rule wpI)
  fix res v' assume run: "run_state (cli_UpdateMilvus (rc_cli (mt_r c)) (RemoveFinalizer MilvusFinalizerName m)) v = (res, v')"
  note f = update_frame [OF run]
  have path: "teardown_steps mc True t (td_abs milvus rels pvcs v)" using assms(1) by (simp add: going_def)
  have last: "teardown_step mc True (td_abs milvus rels pvcs v) ((td_abs milvus rels pvcs v)\<lparr>td_fin := False\<rparr>)"
    using assms by (intro teardown_step.finish) (auto simp: going_def)
  from run show "teardown_steps mc True t (td_abs milvus rels pvcs v')"
  proof (cases rule: update_milvus_cases)
    case written
    have "td_abs milvus rels pvcs v' = (td_abs milvus rels pvcs v)\<lparr>td_fin := False\<rparr>"
      using written(1) f assms(1) by (simp add: td_abs_def RemoveFinalizer_def going_def)
    then show ?thesis using path last by (simp add: rtranclp.rtrancl_into_rtrancl)
  qed (use path in simp)
qed

lemma wp_deleting:
  assumes "claims_unique (td_abs milvus rels pvcs w)"
    and "stopped \<longleftrightarrow> selected (om_Namespace (milvus w)) (NewAppLabels (om_Name (milvus w))) (pods w) = []"
  shows "wp (reconcile_deleting c (milvus w)) w (\<lambda>res v. teardown_steps (milvus w) stopped (td_abs milvus rels pvcs w) (td_abs milvus rels pvcs v))"
    (is "wp _ _ ?Q")
proof -
  let ?m = "set_status StatusDeleting (milvus w)" and ?A = "td_abs milvus rels pvcs"
  let ?P = "\<lambda>v. teardown_steps (milvus w) stopped (?A w) (?A v)"
  let ?M = "\<lambda>v. milvus v = ?m \<and> rels v = rels w \<and> pvcs v = pvcs w"
  have marked: "teardown_steps (milvus w) s (?A w) (?A v)" if "?M v" for s v
  proof -
    have "?A v = (?A w)\<lparr>td_marked := True\<rparr>" using td_abs_marked that by blast
    then show ?thesis using teardown_step.mark [of "milvus w" s "?A w"] by simp
  qed
  have kept: "?P v" if "milvus v = milvus w" "rels v = rels w" "pvcs v = pvcs w" for v using td_abs_eq [OF that] by simp
  have fg: "wp (mt_DeleteForeground c ?m) v (\<lambda>res. ?P)" if "?M v" for v
  proof (rule wpI)
    fix res v' assume "run_state (mt_DeleteForeground c ?m) v = (res, v')"
    note d = foreground [OF this]
    have "om_Finalizers (AddFinalizer ForegroundDeletionFinalizer (milvus v)) = om_Finalizers (milvus v) @ [ForegroundDeletionFinalizer]"
      "m_Status (AddFinalizer ForegroundDeletionFinalizer (milvus v)) = m_Status (milvus v)" "MilvusFinalizerName \<noteq> ForegroundDeletionFinalizer"
      by (simp_all add: AddFinalizer_def MilvusFinalizerName_def ForegroundDeletionFinalizer_def)
    with d have "?A v' = ?A v" by (auto simp: td_abs_def)
    then show "?P v'" using marked [OF that] by simp
  qed
  have finalize: "wp (op_bind (Finalize c ?m) (\<lambda>_. op_bind (cli_UpdateMilvus (rc_cli (mt_r c)) (RemoveFinalizer MilvusFinalizerName ?m)) (\<lambda>_. ret Done))) v (\<lambda>res. ?P)"
    if "?M v" "stopped" "MilvusFinalizerName \<in> set (om_Finalizers ?m)" for v
  proof -
    have go: "going ?m (?A v) ?m v" using that(1,3) by (simp add: going_def)
    have uniq: "claims_unique (?A v)" using assms(1) that(1) by (simp add: claims_unique_def)
    have path: "?P u" if "teardown_steps ?m True (?A v) (?A u)" for u
      using rtranclp_trans [OF marked [OF \<open>?M v\<close>] teardown_steps_status [OF that]] \<open>stopped\<close> by simp
    have last: "wp (op_bind (cli_UpdateMilvus (rc_cli (mt_r c)) (RemoveFinalizer MilvusFinalizerName ?m)) (\<lambda>_. ret Done)) u (\<lambda>res. ?P)"
      if "going ?m (?A v) ?m u" "\<forall>n b. doomed ?m n b \<longrightarrow> (om_Namespace ?m, n) \<notin> rels u" "\<forall>p \<in> set (pvcs u). \<not> doomed_claim ?m p" for u
      by (rule wp_bindI [OF wp_finish [OF that]]) (use path in simp_all)
    show ?thesis
      by (rule wp_bindI [OF wp_Finalize [OF go uniq]]) (use path last in \<open>auto simp: going_def simp del: wp_bind doomed_status set_status_sel\<close>)
  qed
  have checked: "wp (if \<not> stopped' then op_bind (if ForegroundDeletionFinalizer \<notin> set (om_Finalizers ?m) then mt_DeleteForeground c ?m else ret ()) (\<lambda>_. ret (RequeueAfter unhealthySyncInterval))
      else if MilvusFinalizerName \<in> set (om_Finalizers ?m) then op_bind (Finalize c ?m) (\<lambda>_. op_bind (cli_UpdateMilvus (rc_cli (mt_r c)) (RemoveFinalizer MilvusFinalizerName ?m)) (\<lambda>_. ret Done))
      else ret (RequeueAfter unhealthySyncInterval)) v (\<lambda>res. ?P)" if "?M v" "stopped' \<longrightarrow> stopped" for v stopped'
  proof -
    have "wp (op_bind (if ForegroundDeletionFinalizer \<notin> set (om_Finalizers ?m) then mt_DeleteForeground c ?m else ret ()) (\<lambda>_. ret (RequeueAfter unhealthySyncInterval))) v (\<lambda>res. ?P)"
      by (rule wp_bindI [where P = "\<lambda>res. ?P"]) (use fg [OF that(1)] marked [OF that(1)] in simp_all)
    then show ?thesis using finalize [OF that(1)] that(2) marked [OF that(1)] by (simp del: wp_bind set_status_sel)
  qed
  have check: "wp (CheckMilvusStopped (mt_s c) ?m) v (\<lambda>res v'. ?M v' \<and> (res = Inr True \<longrightarrow> stopped))" if "?M v" "pods v = pods w" for v
    by (rule wp_mono [OF wp_stopped]) (use that assms(2) in simp)
  show ?thesis
    unfolding reconcile_deleting_def
  proof (rule wp_bindI [OF wp_mark])
    fix a v assume "pods v = pods w \<and> rels v = rels w \<and> pvcs v = pvcs w \<and> (milvus v = milvus w \<or> milvus v = ?m) \<and> (\<forall>m. Inr a = Inr m \<longrightarrow> milvus v = m \<and> m = ?m)"
    then have v: "?M v" "pods v = pods w" "a = ?m" by auto
    show "wp (op_bind (CheckMilvusStopped (mt_s c) a) (\<lambda>stopped. if \<not> stopped then op_bind (if ForegroundDeletionFinalizer \<notin> set (om_Finalizers a) then mt_DeleteForeground c a else ret ()) (\<lambda>_. ret (RequeueAfter unhealthySyncInterval))
      else if MilvusFinalizerName \<in> set (om_Finalizers a) then op_bind (Finalize c a) (\<lambda>_. op_bind (cli_UpdateMilvus (rc_cli (mt_r c)) (RemoveFinalizer MilvusFinalizerName a)) (\<lambda>_. ret Done))
      else ret (RequeueAfter unhealthySyncInterval))) v (\<lambda>res. ?P)"
      unfolding v(3)
      by (rule wp_bindI [OF check [OF v(1,2)]]) (use marked checked in \<open>simp_all del: wp_bind set_status_sel\<close>)
  qed (use marked kept in auto)
qed

end

section \<open>Deleting an instance\<close>

interpretation cd: teardown_store mem_c mem_deps mem_pods mem_milvus wm_stss wm_pvcs "\<lambda>w. fst ` set (cm_rels w)"
proof -
  have base: "workload_store (mt_r mem_c) mem_deps mem_pods mem_milvus wm_stss wm_pvcs"
    unfolding mem_c_sel by (rule wm.workload_store_axioms)
  have del: "mt_DeleteForeground mem_c = (\<lambda>m. mem_write (\<lambda>w. Some (w\<lparr>mem_milvus := AddFinalizer ForegroundDeletionFinalizer (mem_milvus w)\<rparr>)))"
    and exec: "sy_Exec (mt_s mem_c) = (\<lambda>pod. ret ())"
    by (simp_all add: mem_c_def ex_syncer_def)
  have "teardown_store_axioms mem_c mem_pods mem_milvus wm_pvcs (\<lambda>w. fst ` set (cm_rels w))"
    unfolding teardown_store_axioms_def mem_c_sel del exec [unfolded mem_c_sel]
    by (auto simp: mem_r_simps applied_or_lost_def mem_hx_def read_release_def release_not_found_def map_of_eq_None_iff find_object_def get_or_missing_def
        split: option.splits sum.splits if_splits)
  with base show "teardown_store mem_c mem_deps mem_pods mem_milvus wm_stss wm_pvcs (\<lambda>w. fst ` set (cm_rels w))"
    by (simp only: teardown_store_def)
qed

lemma pass_refines:
  assumes "teardown_store c deps pods milvus stss pvcs rels" "om_DeletionTimestamp (milvus w) \<noteq> None"
    and "distinct (map object_key (pvcs w))" "run_state (Milvus_Reconcile c ns name) w = (res, w')"
  shows "(teardown_step (milvus w) (selected (om_Namespace (milvus w)) (NewAppLabels (om_Name (milvus w))) (pods w) = []))\<^sup>*\<^sup>*
    (td_abs milvus rels pvcs w) (td_abs milvus rels pvcs w')"
proof -
  have "claims_unique (td_abs milvus rels pvcs w)"
    unfolding claims_unique_def td_abs_sel using same_object_unique [OF assms(3)] by blast
  note del = teardown_store.wp_deleting [OF assms(1) this refl]
  let ?P = "\<lambda>v. teardown_steps (milvus w) (selected (om_Namespace (milvus w)) (NewAppLabels (om_Name (milvus w))) (pods w) = [])
    (td_abs milvus rels pvcs w) (td_abs milvus rels pvcs v)"
  have read: "wp (cli_GetMilvus (rc_cli (mt_r c)) ns name) w (\<lambda>res v. v = w \<and> (\<forall>m. res = Inr m \<longrightarrow> m = milvus w))"
    by (rule wpI) (use teardown_store.get_milvus [OF assms(1)] in blast)
  have "wp (reconcile_body c ns name) w (\<lambda>res. ?P)"
    unfolding reconcile_body_def wp_state_bind
    by (rule wp_mono [OF read]) (use del assms(2) in \<open>auto split: sum.splits\<close>)
  then have "wp (Milvus_Reconcile c ns name) w (\<lambda>res. ?P)"
    unfolding Milvus_Reconcile_def wp_state_bind by (rule wp_mono) (auto split: sum.splits)
  from wpD [OF this assms(4)] show ?thesis .
qed

text \<open>C6. A pass on an instance that is being deleted is a path of the teardown protocol, whatever the client answers and wherever the pass
  stops: it may mark the instance; only when no pod of the instance is left it may uninstall releases whose deletion
  policy asks for it, then delete their volume claims or the data claim where the policy asks for that; the finalizer goes last,
  when all of them are gone.\<close>

theorem teardown_refines_protocol:
  assumes "teardown_store c deps pods milvus stss pvcs rels" "om_DeletionTimestamp (milvus w) \<noteq> None"
    and "distinct (map object_key (pvcs w))" "run_state (Milvus_Reconcile c ns name) w = (res, w')"
  shows "(teardown_step (milvus w) (selected (om_Namespace (milvus w)) (NewAppLabels (om_Name (milvus w))) (pods w) = []))\<^sup>*\<^sup>*
    (td_abs milvus rels pvcs w) (td_abs milvus rels pvcs w')"
  by (rule pass_refines [OF assms])

text \<open>C7. What a pass removes of a deleted instance, exactly: a release or a volume claim disappears only when no pod of the instance was
  left, and only if the deletion policy of that dependency asks for it; releases and claims of other instances, and those to be retained, stay.  The
  finalizer is removed only when no pod was left and every release and claim that is to be deleted is gone.\<close>

theorem teardown_removes_exactly:
  assumes "teardown_store c deps pods milvus stss pvcs rels" "om_DeletionTimestamp (milvus w) \<noteq> None"
    and "distinct (map object_key (pvcs w))" "run_state (Milvus_Reconcile c ns name) w = (res, w')"
  shows "(\<forall>k \<in> rels w - rels w'. selected (om_Namespace (milvus w)) (NewAppLabels (om_Name (milvus w))) (pods w) = [] \<and>
       (\<exists>n b. doomed (milvus w) n b \<and> k = (om_Namespace (milvus w), n))) \<and>
    (\<forall>p \<in> set (pvcs w) - set (pvcs w'). selected (om_Namespace (milvus w)) (NewAppLabels (om_Name (milvus w))) (pods w) = [] \<and> doomed_claim (milvus w) p) \<and>
    (MilvusFinalizerName \<in> set (om_Finalizers (milvus w)) \<and> MilvusFinalizerName \<notin> set (om_Finalizers (milvus w')) \<longrightarrow>
       selected (om_Namespace (milvus w)) (NewAppLabels (om_Name (milvus w))) (pods w) = [] \<and>
       (\<forall>n b. doomed (milvus w) n b \<longrightarrow> (om_Namespace (milvus w), n) \<notin> rels w') \<and> (\<forall>p \<in> set (pvcs w'). \<not> doomed_claim (milvus w) p))"
  using teardown_exact [OF pass_refines [OF assms]] by simp

section \<open>Example\<close>

text \<open>An instance with an etcd of its own that is to be deleted with its claims, and a claim of somebody else.\<close>

definition ex_leaving :: Milvus where
  "ex_leaving = (new_Milvus ''ns'' ''mc'')\<lparr>om_Finalizers := [MilvusFinalizerName], om_DeletionTimestamp := Some 7,
     m_Spec := zero_MilvusSpec\<lparr>ms_Dep := zero_MilvusDependencies\<lparr>dep_Etcd := (dep_Etcd zero_MilvusDependencies)\<lparr>etcd_InCluster := Some
         \<lparr>ic_Values = None, ic_ChartVersion = [], ic_DeletionPolicy = DeletionPolicyDelete, ic_PVCDeletion = True\<rparr>\<rparr>,
       dep_Storage := (dep_Storage zero_MilvusDependencies)\<lparr>st_External := True\<rparr>\<rparr>\<rparr>\<rparr>"

definition ex_etcd_claim :: K8sVolumeClaim where
  "ex_etcd_claim = (new_PVC ''ns'' ''data-mc-etcd-0'')\<lparr>om_Labels := fmap_of_list [(AppLabelInstance, ''mc-etcd'')]\<rparr>"

lemma ex_leaving_run:
  "run_state (Milvus_Reconcile mem_c ''ns'' ''mc'') (ex_cmem ex_leaving [] [new_PVC ''ns'' ''other'', ex_etcd_claim] [((''ns'', ''mc-etcd''), None), ((''ns'', ''x-etcd''), None)]) =
     (Inr Done, ex_cmem (RemoveFinalizer MilvusFinalizerName (set_status StatusDeleting ex_leaving)) [] [new_PVC ''ns'' ''other''] [((''ns'', ''x-etcd''), None)])"
  by code_simp

lemma ex_leaving_pre:
  "om_DeletionTimestamp (mem_milvus (ex_cmem ex_leaving [] [new_PVC ''ns'' ''other'', ex_etcd_claim] [((''ns'', ''mc-etcd''), None), ((''ns'', ''x-etcd''), None)])) \<noteq> None"
  "distinct (map object_key (wm_pvcs (ex_cmem ex_leaving [] [new_PVC ''ns'' ''other'', ex_etcd_claim] [((''ns'', ''mc-etcd''), None), ((''ns'', ''x-etcd''), None)])))"
  by code_simp+

lemma ex_leaving_abs:
  "td_abs mem_milvus (\<lambda>w. fst ` set (cm_rels w)) wm_pvcs (ex_cmem m [] ps rs) =
     \<lparr>td_marked = (mst_Status (m_Status m) = StatusDeleting), td_fin = (MilvusFinalizerName \<in> set (om_Finalizers m)), td_rels = fst ` set rs, td_claims = set ps\<rparr>"
  "mem_milvus (ex_cmem m [] ps rs) = m" "mem_pods (ex_cmem m [] ps rs) = []" "wm_pvcs (ex_cmem m [] ps rs) = ps" "cm_rels (ex_cmem m [] ps rs) = rs"
  by (simp_all add: td_abs_def ex_cmem_def ex_wmem_def wmem.defs cmem.defs)

theorem teardown_refines_protocol_witness:
  "(teardown_step ex_leaving True)\<^sup>*\<^sup>*
     \<lparr>td_marked = False, td_fin = True, td_rels = {(''ns'', ''mc-etcd''), (''ns'', ''x-etcd'')}, td_claims = {new_PVC ''ns'' ''other'', ex_etcd_claim}\<rparr>
     \<lparr>td_marked = True, td_fin = False, td_rels = {(''ns'', ''x-etcd'')}, td_claims = {new_PVC ''ns'' ''other''}\<rparr>"
proof -
  have "MilvusFinalizerName \<in> set (om_Finalizers ex_leaving)" "mst_Status (m_Status ex_leaving) \<noteq> StatusDeleting"
    "MilvusFinalizerName \<notin> set (om_Finalizers (RemoveFinalizer MilvusFinalizerName (set_status StatusDeleting ex_leaving)))"
    "mst_Status (m_Status (RemoveFinalizer MilvusFinalizerName (set_status StatusDeleting ex_leaving))) = StatusDeleting"
    by code_simp+
  with teardown_refines_protocol [OF cd.teardown_store_axioms ex_leaving_pre ex_leaving_run] show ?thesis
    by (simp add: ex_leaving_abs selected_def)
qed

theorem teardown_removes_exactly_witness:
  "doomed ex_leaving ''mc-etcd'' True \<and> doomed_claim ex_leaving ex_etcd_claim \<and> \<not> doomed_claim ex_leaving (new_PVC ''ns'' ''other'')"
proof -
  have "MilvusFinalizerName \<in> set (om_Finalizers ex_leaving)" "ex_etcd_claim \<noteq> new_PVC ''ns'' ''other''"
    "MilvusFinalizerName \<notin> set (om_Finalizers (RemoveFinalizer MilvusFinalizerName (set_status StatusDeleting ex_leaving)))" "om_Namespace ex_leaving = ''ns''"
    by code_simp+
  moreover have "doomed ex_leaving ''mc-etcd'' True"
    by (simp add: doomed_def dep_releases_def ex_leaving_def Let_def zero_MilvusDependencies_def new_Milvus_def)
  ultimately show ?thesis
    using teardown_removes_exactly [OF cd.teardown_store_axioms ex_leaving_pre ex_leaving_run]
    by (simp add: ex_leaving_abs)
qed

end
