(* ===== verification/Release_Correct.thy ===== *)
theory Release_Correct
  imports Cluster_Store
begin

text \<open>
  The Helm releases of the dependencies: a pass that succeeds leaves nothing to do for the next one; what an instance
  name that contains \<open>etcd\<close> does to the releases of other dependencies.  And the pod monitor, which keeps
  metric labels that were removed from the resource.
\<close>

section \<open>The contract of Helm\<close>

text \<open>A release has the values it was last installed or upgraded with, and a status.  An upgrade without values reuses
  the old ones unless it is told to reset them.\<close>

locale helm_store =
  fixes x :: "'w HelmActions" and rel :: "'w \<Rightarrow> string \<times> string \<Rightarrow> (values_map \<times> string) option"
  assumes read_history: "run_state (hx_History x ns name) w = (rh, w') \<Longrightarrow>
       w' = w \<and> (rh = Inr () \<longrightarrow> rel w (ns, name) \<noteq> None) \<and> (rh = Inl (hx_ErrReleaseNotFound x) \<longrightarrow> rel w (ns, name) = None)"
    and read_values: "run_state (hx_Values x ns name) w = (rv, w') \<Longrightarrow>
       w' = w \<and> (\<forall>v. rv = Inr v \<longrightarrow> map_option fst (rel w (ns, name)) = Some (Values_Data v))"
    and read_status: "run_state (hx_Status x ns name) w = (rs, w') \<Longrightarrow>
       w' = w \<and> (\<forall>st v. rs = Inr (st, v) \<longrightarrow> map_option snd (rel w (ns, name)) = Some st)"
    and load_chart: "run_state (hx_Load x path) w = (rl, w') \<Longrightarrow> w' = w"
    and installed: "run_state (hx_Install x request) w = (Inr (), w') \<Longrightarrow>
       rel w' (cr_Namespace request, cr_ReleaseName request) = Some (Values_Data (cr_Values request), ''deployed'')"
    and upgraded: "run_state (hx_Upgrade x request reset) w = (Inr (), w') \<Longrightarrow> reset \<or> Values_Data (cr_Values request) \<noteq> fmempty \<Longrightarrow>
       rel w' (cr_Namespace request, cr_ReleaseName request) = Some (Values_Data (cr_Values request), ''deployed'')"
begin

text \<open>The release is as requested, up to the key the operator adds for the Pulsar chart.\<close>

definition current :: "ChartRequest \<Rightarrow> 'w \<Rightarrow> bool" where
  "current request w \<longleftrightarrow> (\<exists>v st. rel w (cr_Namespace request, cr_ReleaseName request) = Some (v, st) \<and> \<not> NeedUpdate st \<and>
     Some (if cr_Chart request = GetChartPathByName Pulsar then fmdrop ''initialize'' v else v) = cr_Values request)"

lemma wp_exists:
  assumes "\<And>b. b = (rel w (ns, name) \<noteq> None) \<Longrightarrow> Q (Inr b) w" "\<And>e. Q (Inl e) w"
  shows "wp (ReleaseExist x ns name) w Q"
proof -
  have "wp (hx_History x ns name) w (\<lambda>res v. v = w \<and> (res = Inr () \<longrightarrow> rel w (ns, name) \<noteq> None) \<and>
      (res = Inl (hx_ErrReleaseNotFound x) \<longrightarrow> rel w (ns, name) = None))"
    by (rule wpI) (use read_history in blast)
  then show ?thesis
    unfolding ReleaseExist_def wp_state_bind by (rule wp_mono) (use assms in \<open>auto split: sum.splits\<close>)
qed

lemma wp_values:
  assumes "\<And>v st. rel w (ns, name) = Some (v, st) \<Longrightarrow> Q (Inr v) w" "\<And>e. Q (Inl e) w"
  shows "wp (helm_GetValues x ns name) w Q"
  unfolding helm_GetValues_def wp_bind
proof (rule wpI)
  fix rv w' assume "run_state (hx_Values x ns name) w = (rv, w')"
  from read_values [OF this] show "case rv of Inl e \<Rightarrow> Q (Inl e) w' | Inr a \<Rightarrow> wp (ret (case a of None \<Rightarrow> fmempty | Some v \<Rightarrow> v)) w' Q"
    using assms by (cases rv) (auto simp: Values_Data_def split: option.splits)
qed

lemma wp_status:
  assumes "\<And>v st. rel w (ns, name) = Some (v, st) \<Longrightarrow> Q (Inr st) w" "\<And>e. Q (Inl e) w"
  shows "wp (helm_GetStatus x ns name) w Q"
  unfolding helm_GetStatus_def wp_bind
proof (rule wpI)
  fix rv w' assume "run_state (hx_Status x ns name) w = (rv, w')"
  from read_status [OF this] show "case rv of Inl e \<Rightarrow> Q (Inl e) w' | Inr a \<Rightarrow> wp (ret (fst a)) w' Q"
    using assms by (cases rv) auto
qed

lemma wp_write:
  assumes "set_initialize b request = Inr request'" "cr_Values request = Some vals"
    and "cr_Chart request = GetChartPathByName Pulsar \<Longrightarrow> fmlookup vals ''initialize'' = None"
  shows "wp (helm_Install x request') w (\<lambda>res v. res = Inr () \<longrightarrow> current request v)"
    and "wp (helm_Update x request') w (\<lambda>res v. res = Inr () \<longrightarrow> current request v)"
proof -
  have cur: "current request v" if "rel v (cr_Namespace request', cr_ReleaseName request') = Some (Values_Data (cr_Values request'), ''deployed'')" for v
  proof -
    have "fmdrop ''initialize'' (fmupd ''initialize'' b' vals) = vals" if "fmlookup vals ''initialize'' = None" for b' using that by (intro fmap_ext) auto
    then show ?thesis
      using assms that by (auto simp: current_def set_initialize_def NeedUpdate_def Values_Data_def split: if_splits)
  qed
  have load: "wp (hx_Load x path) w (\<lambda>res v. v = w)" for path by (rule wpI) (use load_chart in blast)
  have "wp (hx_Install x request') w (\<lambda>res v. res = Inr () \<longrightarrow> current request v)"
    by (rule wpI) (use installed cur in blast)
  then show "wp (helm_Install x request') w (\<lambda>res v. res = Inr () \<longrightarrow> current request v)"
    unfolding helm_Install_def by (intro wp_bindI [OF load]) auto
  have "wp (hx_Upgrade x request' (Values_Data (cr_Values request') = fmempty)) w (\<lambda>res v. res = Inr () \<longrightarrow> current request v)"
    by (rule wpI) (use upgraded cur in blast)
  then show "wp (helm_Update x request') w (\<lambda>res v. res = Inr () \<longrightarrow> current request v)"
    unfolding helm_Update_def by (intro wp_bindI [OF load]) auto
qed

lemma wp_settles:
  assumes "lh_hx l = x" "cr_Values request = Some vals" "cr_Chart request = GetChartPathByName Pulsar \<Longrightarrow> fmlookup vals ''initialize'' = None"
  shows "wp (LocalHelm_Reconcile l request mc) w (\<lambda>res v. res = Inr () \<longrightarrow> current request v)" (is "wp _ _ ?Q")
proof -
  have "\<exists>r. set_initialize b request = Inr r" for b using assms(2) by (simp add: set_initialize_def)
  then obtain r1 r2 where req: "set_initialize True request = Inr r1" "set_initialize False request = Inr r2" by blast
  note wr = wp_write(1) [OF req(1) assms(2,3)] wp_write(2) [OF req(2) assms(2,3)]
  have upd: "wp (op_bind m (\<lambda>_. helm_Update x r2)) v ?Q" for m :: "('w, unit) op" and v
    by (rule wp_bindI [where P = "\<lambda>_ _. True"]) (auto intro: wpI wr)
  let ?key = "(cr_Namespace request, cr_ReleaseName request)"
  have ex: "wp (ReleaseExist x (cr_Namespace request) (cr_ReleaseName request)) w (\<lambda>res v. v = w)" by (rule wp_exists) auto
  have vals: "wp (helm_GetValues x (cr_Namespace request) (cr_ReleaseName request)) w (\<lambda>res v. v = w \<and> (\<forall>m. res = Inr m \<longrightarrow> map_option fst (rel w ?key) = Some m))"
    by (rule wp_values) auto
  have stat: "wp (helm_GetStatus x (cr_Namespace request) (cr_ReleaseName request)) w (\<lambda>res v. v = w \<and> (\<forall>st. res = Inr st \<longrightarrow> map_option snd (rel w ?key) = Some st))"
    by (rule wp_status) auto
  have first: "wp (op_bind (lift_result (set_initialize True request)) (helm_Install x)) w ?Q"
    unfolding req(1) wp_bind wp_lift using wr(1) by simp
  have again: "wp (op_bind (lift_result (set_initialize False request)) (\<lambda>r. op_bind (m r) (\<lambda>_. helm_Update x r))) w ?Q" for m :: "ChartRequest \<Rightarrow> ('w, unit) op"
    unfolding req(2) wp_bind [of "lift_result _"] wp_lift using upd by simp
  show ?thesis
    unfolding LocalHelm_Reconcile_def Let_def assms(1)
    apply (rule wp_bindI [OF ex], simp)
    apply (simp only: wp_if split: if_split)
    apply (intro conjI impI)
     apply (rule first)
    apply (rule wp_bindI [OF vals], simp)
    apply (rule wp_bindI, elim conjE, simp only:, rule stat, simp)
    apply (simp only: wp_if split: if_split)
    apply (intro conjI impI; (rule again)?)
     apply (auto simp: current_def)
    done
qed

lemma wp_settled:
  assumes "lh_hx l = x" "current request w"
  shows "wp (LocalHelm_Reconcile l request mc) w (\<lambda>res v. v = w)"
  using assms(2) unfolding LocalHelm_Reconcile_def Let_def assms(1) current_def
  by (auto intro!: wp_exists wp_values wp_status)

end

section \<open>A pass settles\<close>

interpretation hm: helm_store mem_hx "\<lambda>w k. map_option (\<lambda>v. (Values_Data v, ''deployed'')) (map_of (cm_rels w) k)"
  by unfold_locales
    (auto simp: mem_hx_def read_release_def write_release_def rel_key_def release_not_found_def split: option.splits)

text \<open>C11. When the reconcile of a Helm release succeeds, the release has the requested values (up to the key \<open>initialize\<close>, which the
  operator adds for Pulsar) and a status that needs no update; a second pass with the same request changes nothing, whatever Helm
  answers to its reads.  (For Pulsar the requested values must not set \<open>initialize\<close> themselves: then every
  pass would upgrade the release again.)\<close>

theorem helm_pass_settles:
  assumes "helm_store (lh_hx l) rel" "cr_Values request = Some vals"
    and "cr_Chart request = GetChartPathByName Pulsar \<Longrightarrow> fmlookup vals ''initialize'' = None"
    and "run_state (LocalHelm_Reconcile l request mc) w = (Inr (), w')"
  shows "(\<exists>v st. rel w' (cr_Namespace request, cr_ReleaseName request) = Some (v, st) \<and> \<not> NeedUpdate st \<and>
      (if cr_Chart request = GetChartPathByName Pulsar then fmdrop ''initialize'' v else v) = vals) \<and>
    (\<forall>mc2 res2 w2. run_state (LocalHelm_Reconcile l request mc2) w' = (res2, w2) \<longrightarrow> w2 = w')"
proof -
  have cur: "helm_store.current rel request w'"
    using wpD [OF helm_store.wp_settles [OF assms(1) refl assms(2,3)] assms(4)] by simp
  have "\<forall>mc2 res2 w2. run_state (LocalHelm_Reconcile l request mc2) w' = (res2, w2) \<longrightarrow> w2 = w'"
    using wpD [OF helm_store.wp_settled [OF assms(1) refl cur]] by blast
  with cur show ?thesis using assms(2) unfolding helm_store.current_def [OF assms(1)] by auto
qed

definition ex_request :: ChartRequest where
  "ex_request = \<lparr>cr_ReleaseName = ''mc-pulsar'', cr_Namespace = ''ns'', cr_Chart = GetChartPathByName Pulsar,
     cr_Values = Some (fmap_of_list [(''replicas'', JInt 3)])\<rparr>"

lemma ex_install_run:
  "run_state (LocalHelm_Reconcile mem_l ex_request ex_small) (ex_cmem ex_small [] [] []) =
     (Inr (), ex_cmem ex_small [] [] [((''ns'', ''mc-pulsar''), Some (fmap_of_list [(''initialize'', JBool True), (''replicas'', JInt 3)]))])"
  by code_simp

theorem helm_pass_settles_witness:
  "\<forall>mc2. snd (run_state (LocalHelm_Reconcile mem_l ex_request mc2) (snd (run_state (LocalHelm_Reconcile mem_l ex_request ex_small) (ex_cmem ex_small [] [] [])))) =
     snd (run_state (LocalHelm_Reconcile mem_l ex_request ex_small) (ex_cmem ex_small [] [] []))"
proof -
  have "helm_store (lh_hx mem_l) (\<lambda>w k. map_option (\<lambda>v. (Values_Data v, ''deployed'')) (map_of (cm_rels w) k))"
    using hm.helm_store_axioms by simp
  moreover have "cr_Values ex_request = Some (fmap_of_list [(''replicas'', JInt 3)])" "fmlookup (fmap_of_list [(''replicas'', JInt 3)]) ''initialize'' = None"
    by (simp_all add: ex_request_def)
  ultimately have "\<forall>mc2 res2 w2. run_state (LocalHelm_Reconcile mem_l ex_request mc2) (snd (run_state (LocalHelm_Reconcile mem_l ex_request ex_small) (ex_cmem ex_small [] [] []))) = (res2, w2) \<longrightarrow>
      w2 = snd (run_state (LocalHelm_Reconcile mem_l ex_request ex_small) (ex_cmem ex_small [] [] []))"
    using helm_pass_settles [OF _ _ _ ex_install_run] unfolding ex_install_run snd_conv by blast
  then show ?thesis by (metis surjective_pairing)
qed

section \<open>An instance name that contains etcd\<close>

lemma contains_Nil [simp]: "contains s []"
  by (cases s) auto

lemma contains_append: "contains s sub \<Longrightarrow> contains (s @ t) sub"
proof (induction s)
  case (Cons a s)
  have "has_prefix (a # s @ t) sub" if "has_prefix (a # s) sub"
    using that unfolding has_prefix_iff by (metis append_Cons append_assoc)
  with Cons show ?case by auto
qed simp

lemma release_name_prefix: "GetChartRequest mc k chart = Some request \<Longrightarrow> \<exists>t. cr_ReleaseName request = om_Name mc @ t"
  by (auto simp: GetChartRequest_def Let_def)

lemma persistence_size_error:
  assumes "\<not> (\<exists>m s. fmlookup vals ''persistence'' = Some (JObj m) \<and> fmlookup m ''size'' = Some (JStr s))"
  shows "\<exists>e. persistence_size what vals = Inl e"
proof -
  have "value_or_nil m k = JStr s \<longleftrightarrow> fmlookup m k = Some (JStr s)" "value_or_nil m k = JObj o' \<longleftrightarrow> fmlookup m k = Some (JObj o')" for m k s o'
    by (auto simp: value_or_nil_def split: option.splits)
  then show ?thesis using assms by (auto simp: persistence_size_def split: json.splits)
qed

lemma requested_values: "GetChartRequest mc k chart = Some request \<Longrightarrow> \<exists>v. cr_Values request = Some v"
  by (auto simp: GetChartRequest_def Let_def)

text \<open>The resize of etcd's volumes is chosen by looking for \<open>etcd\<close> anywhere in the name of the release, and the name of a release starts with
  the name of the instance.  So for an instance whose name contains \<open>etcd\<close>, the release of every dependency, not only of etcd,
  needs a volume size in its installed values: without one each pass fails before the
  upgrade, changes nothing, and the release never gets its new values.\<close>

theorem etcd_in_name_blocks_upgrade:
  assumes "contains (om_Name mc) ''etcd''" "GetChartRequest mc k chart = Some request"
    and "run_state (hx_History (lh_hx l) (cr_Namespace request) (cr_ReleaseName request)) w = (Inr (), w)"
    and "run_state (hx_Values (lh_hx l) (cr_Namespace request) (cr_ReleaseName request)) w = (Inr (Some vals), w)"
    and "run_state (hx_Status (lh_hx l) (cr_Namespace request) (cr_ReleaseName request)) w = (Inr (status, version), w)"
    and "Some (if cr_Chart request = GetChartPathByName Pulsar then fmdrop ''initialize'' vals else vals) \<noteq> cr_Values request \<or> NeedUpdate status"
    and "\<not> (\<exists>m s. fmlookup vals ''persistence'' = Some (JObj m) \<and> fmlookup m ''size'' = Some (JStr s))"
  shows "\<exists>e. run_state (LocalHelm_Reconcile l request mc) w = (Inl e, w)"
proof -
  let ?old = "if cr_Chart request = GetChartPathByName Pulsar then fmdrop ''initialize'' vals else vals"
  have name: "contains (cr_ReleaseName request) Etcd"
    using release_name_prefix [OF assms(2)] contains_append [OF assms(1)] by (auto simp: Etcd_def)
  obtain v where v: "cr_Values request = Some v" using requested_values [OF assms(2)] by blast
  have "\<exists>r. set_initialize False request = Inr r" using v by (simp add: set_initialize_def)
  then obtain request' where req: "set_initialize False request = Inr request'" by blast
  have "fmlookup ?old ''persistence'' = fmlookup vals ''persistence''" by simp
  then obtain e where e: "persistence_size ''old'' ?old = Inl e"
    using persistence_size_error [of ?old "''old''"] assms(7) by auto
  show ?thesis
    using assms(3-6) name req e
    by (auto simp: LocalHelm_Reconcile_def Let_def ReleaseExist_def helm_GetValues_def helm_GetStatus_def run_op_bind)
qed

text \<open>An instance called \<open>etcd-demo\<close> whose Kafka gets more brokers.\<close>

definition ex_etcd_demo :: Milvus where
  "ex_etcd_demo = (new_Milvus ''ns'' ''etcd-demo'')\<lparr>m_Spec := zero_MilvusSpec\<lparr>ms_Dep := zero_MilvusDependencies\<lparr>
     dep_MsgStreamType := MsgStreamTypeKafka, dep_Kafka := (dep_Kafka zero_MilvusDependencies)\<lparr>kaf_InCluster := Some
       \<lparr>ic_Values = Some (fmap_of_list [(''replicaCount'', JInt 5)]), ic_ChartVersion = [], ic_DeletionPolicy = DeletionPolicyUnset, ic_PVCDeletion = False\<rparr>\<rparr>\<rparr>\<rparr>\<rparr>"

definition ex_kafka_request :: ChartRequest where
  "ex_kafka_request = \<lparr>cr_ReleaseName = ''etcd-demo-kafka'', cr_Namespace = ''ns'', cr_Chart = GetChartPathByName ''kafka'',
     cr_Values = Some (fmap_of_list [(''replicaCount'', JInt 5)])\<rparr>"

theorem etcd_in_name_blocks_upgrade_witness:
  "\<exists>e. run_state (LocalHelm_Reconcile mem_l ex_kafka_request ex_etcd_demo)
      (ex_cmem ex_etcd_demo [] [] [((''ns'', ''etcd-demo-kafka''), Some (fmap_of_list [(''replicaCount'', JInt 3)]))]) =
    (Inl e, ex_cmem ex_etcd_demo [] [] [((''ns'', ''etcd-demo-kafka''), Some (fmap_of_list [(''replicaCount'', JInt 3)]))])"
proof -
  have "contains (om_Name ex_etcd_demo) ''etcd''" "GetChartRequest ex_etcd_demo DependencyKindKafka Kafka = Some ex_kafka_request"
    by code_simp+
  moreover have "fmap_of_list [(''replicaCount'', JInt 3)] \<noteq> fmap_of_list [(''replicaCount'', JInt 5)]" by code_simp
  ultimately show ?thesis
    by (intro etcd_in_name_blocks_upgrade [where status = "''deployed''" and version = "Some ''17.0.1''" and vals = "fmap_of_list [(''replicaCount'', JInt 3)]"])
      (simp_all add: mem_hx_def read_release_def ex_kafka_request_def ex_cmem_def ex_wmem_def wmem.defs cmem.defs GetChartPathByName_def Pulsar_def)
qed

section \<open>The pod monitor\<close>

text \<open>Metric labels that are removed from the resource stay in the pod monitor: when the resource has no metric labels, a pass leaves the
  relabel rules of every endpoint of an existing pod monitor as they are, as long as the number of endpoints is right.  So the labels of an
  earlier specification are still added to every sample.\<close>

theorem pod_monitor_keeps_removed_labels:
  assumes "run_state (ob_GetPodMonitor ob (om_Namespace mc) (om_Name mc)) w = (Inr old, w)"
    and "com_MetricLabels (ms_Com (m_Spec mc)) = fmempty" "\<not> com_DisableMetric (ms_Com (m_Spec mc))"
    and "length (pm_Endpoints old) = length (metric_endpoints mc)" "set (rc_range (ob_r ob) []) = {}"
    and "cli_SetControllerReference (rc_cli (ob_r ob)) mc (om_OwnerReferences old) = Inr owners"
  shows "\<exists>cur. map pme_MetricRelabelConfigs (pm_Endpoints cur) = map pme_MetricRelabelConfigs (pm_Endpoints old) \<and>
    run_state (ReconcilePodMonitor ob mc) w = (if cur = old then (Inr (), w) else run_state (ob_UpdatePodMonitor ob cur) w)"
proof -
  have "metric_labels (rc_range (ob_r ob)) (com_MetricLabels (ms_Com (m_Spec mc))) = []"
    using assms(2,5) by (simp add: metric_labels_def sorted_list_of_fset.rep_eq)
  then obtain cur where cur: "updatePodMonitor ob mc old = Inr cur" "map pme_MetricRelabelConfigs (pm_Endpoints cur) = map pme_MetricRelabelConfigs (pm_Endpoints old)"
    using assms(4,6) by (simp add: updatePodMonitor_def Let_def comp_def)
  then have "run_state (ReconcilePodMonitor ob mc) w = (if cur = old then (Inr (), w) else run_state (ob_UpdatePodMonitor ob cur) w)"
    using assms(1,3) by (simp add: ReconcilePodMonitor_def run_op_bind)
  with cur(2) show ?thesis by blast
qed

definition ex_monitor :: PodMonitor where
  "ex_monitor = (new_PodMonitor ''ns'' ''mc'')\<lparr>pm_Endpoints := map (\<lambda>e. e\<lparr>pme_MetricRelabelConfigs := [\<lparr>rl_Action = ''replace'', rl_Replacement = Some ''blue'', rl_TargetLabel = ''team''\<rparr>]\<rparr>) (metric_endpoints ex_small)\<rparr>"

theorem pod_monitor_keeps_removed_labels_witness:
  "\<exists>cur. map pme_MetricRelabelConfigs (pm_Endpoints cur) =
      replicate 2 [\<lparr>rl_Action = ''replace'', rl_Replacement = Some ''blue'', rl_TargetLabel = ''team''\<rparr>] \<and>
    run_state (ReconcilePodMonitor mem_o ex_small) ((ex_cmem ex_small [] [] [])\<lparr>cm_monitors := [ex_monitor]\<rparr>) =
      (if cur = ex_monitor then (Inr (), (ex_cmem ex_small [] [] [])\<lparr>cm_monitors := [ex_monitor]\<rparr>)
       else run_state (ob_UpdatePodMonitor mem_o cur) ((ex_cmem ex_small [] [] [])\<lparr>cm_monitors := [ex_monitor]\<rparr>))"
proof -
  have eps: "map pme_MetricRelabelConfigs (pm_Endpoints ex_monitor) = replicate 2 [\<lparr>rl_Action = ''replace'', rl_Replacement = Some ''blue'', rl_TargetLabel = ''team''\<rparr>]"
    "com_MetricLabels (ms_Com (m_Spec ex_small)) = fmempty" "\<not> com_DisableMetric (ms_Com (m_Spec ex_small))"
    "length (pm_Endpoints ex_monitor) = length (metric_endpoints ex_small)"
    by code_simp+
  have "run_state (ob_GetPodMonitor mem_o (om_Namespace ex_small) (om_Name ex_small)) ((ex_cmem ex_small [] [] [])\<lparr>cm_monitors := [ex_monitor]\<rparr>) =
      (Inr ex_monitor, (ex_cmem ex_small [] [] [])\<lparr>cm_monitors := [ex_monitor]\<rparr>)"
    by code_simp
  from pod_monitor_keeps_removed_labels [OF this eps(2-4)] eps(1) show ?thesis
    by (simp add: mem_o_def mem_r_simps)
qed

end
