(* ===== verification/Storage_Client.thy ===== *)
theory Storage_Client
  imports Probe
begin

text \<open>
  The probe of the object storage (pkg/external/minio.go) and the checks of cloud identities (pkg/external/iam).  The clients of minio-go, madmin, Azure and Google are records of operations; a client of minio-go is
  its address together with its options.
\<close>

section \<open>Clients\<close>

datatype bucket_lookup = BucketLookupAuto | BucketLookupDNS | BucketLookupPath

datatype storage_creds = StaticV4 string string | IAM | Provider string

record minio_tls =
  mt_InsecureSkipVerify :: bool
  mt_RootCAs :: "string list option"

record minio_options =
  mo_Creds :: storage_creds
  mo_Secure :: bool
  mo_Region :: string
  mo_BucketLookup :: bucket_lookup
  mo_Transport :: "minio_tls option"

record 'w minio_net =
  mn_certPool :: "string \<Rightarrow> string list option"
  mn_New :: "string \<Rightarrow> minio_options \<Rightarrow> go_error option"
  mn_GetBucketLocation :: "string \<Rightarrow> minio_options \<Rightarrow> string \<Rightarrow> ('w, unit) op"
  mn_BucketExists :: "string \<Rightarrow> minio_options \<Rightarrow> string \<Rightarrow> ('w, bool) op"
  mn_AdminNew :: "string \<Rightarrow> string \<Rightarrow> string \<Rightarrow> bool \<Rightarrow> go_error option"
  mn_ServerInfo :: "string \<Rightarrow> string \<Rightarrow> string \<Rightarrow> bool \<Rightarrow> minio_tls option \<Rightarrow> ('w, string list) op"
  mn_Sleep :: "('w, unit) state"
  mn_maxRetry :: nat

definition check_error :: "go_error option \<Rightarrow> ('w, unit) op" where
  "check_error err = (case err of Some e \<Rightarrow> fail e | None \<Rightarrow> ret ())"

section \<open>The probe\<close>

definition TrimSuffix :: "string \<Rightarrow> string \<Rightarrow> string" where
  "TrimSuffix s suffix = (if has_suffix s suffix then take (length s - length suffix) s else s)"

text \<open>The TLS settings of the transport, when the defaults of the client are not enough.\<close>

definition custom_transport :: "'w minio_net \<Rightarrow> CheckMinIOArgs \<Rightarrow> go_error + minio_tls option" where
  "custom_transport mn args =
     (if cm_UseSSL args \<and> (cm_CACertificate args \<noteq> [] \<or> cm_InsecureSkipVerify args) then
        (if cm_CACertificate args \<noteq> [] then
           (case mn_certPool mn (cm_CACertificate args) of
              None \<Rightarrow> Inl (Errorf ''failed to parse CA certificate'')
            | Some pool \<Rightarrow> Inr (Some \<lparr>mt_InsecureSkipVerify = cm_InsecureSkipVerify args, mt_RootCAs = Some pool\<rparr>))
         else Inr (Some \<lparr>mt_InsecureSkipVerify = cm_InsecureSkipVerify args, mt_RootCAs = None\<rparr>))
      else Inr None)"

definition s3_endpoint :: "CheckMinIOArgs \<Rightarrow> string" where
  "s3_endpoint args = (if cm_UseSSL args then TrimSuffix (cm_Endpoint args) '':443'' else cm_Endpoint args)"

definition s3_options :: "CheckMinIOArgs \<Rightarrow> minio_tls option \<Rightarrow> minio_options" where
  "s3_options args tls = \<lparr>mo_Creds = StaticV4 (cm_AK args) (cm_SK args), mo_Secure = cm_UseSSL args, mo_Region = [],
     mo_BucketLookup = (if cm_UseVirtualHost args then BucketLookupDNS else BucketLookupPath), mo_Transport = tls\<rparr>"

definition check_s3 :: "'w minio_net \<Rightarrow> CheckMinIOArgs \<Rightarrow> ('w, unit) op" where
  "check_s3 mn args =
     op_bind (lift_result (custom_transport mn args)) (\<lambda>tls.
     op_bind (check_error (mn_New mn (s3_endpoint args) (s3_options args tls))) (\<lambda>_.
     mn_GetBucketLocation mn (s3_endpoint args) (s3_options args tls) (cm_Bucket args)))"

definition isHealthyByServerInfo :: "string list \<Rightarrow> go_error + unit" where
  "isHealthyByServerInfo states =
     (if list_ex (\<lambda>state. state = ''ok'' \<or> state = ''online'') states then Inr () else Inl (Errorf ''no server ready in server info''))"

definition check_minio_servers :: "'w minio_net \<Rightarrow> CheckMinIOArgs \<Rightarrow> ('w, unit) op" where
  "check_minio_servers mn args =
     op_bind (check_error (mn_AdminNew mn (cm_Endpoint args) (cm_AK args) (cm_SK args) (cm_UseSSL args))) (\<lambda>_.
     op_bind (lift_result (custom_transport mn args)) (\<lambda>tls.
     op_bind (mn_ServerInfo mn (cm_Endpoint args) (cm_AK args) (cm_SK args) (cm_UseSSL args) tls) (\<lambda>states.
     lift_result (isHealthyByServerInfo states))))"

definition check_minio_once :: "'w minio_net \<Rightarrow> CheckMinIOArgs \<Rightarrow> ('w, unit) op" where
  "check_minio_once mn args =
     (if cm_Type args = ''S3'' then check_s3 mn args
      else if cm_Type args = ''Azure'' then
        (if cm_AK args = [] then fail (Errorf ''azure storage account name is required to be set as minio.accessKeyID'') else ret ())
      else check_minio_servers mn args)"

definition CheckMinIO :: "'w minio_net \<Rightarrow> CheckMinIOArgs \<Rightarrow> ('w, unit) op" where
  "CheckMinIO mn args = DoWithBackoff ''checkMinIO'' (mn_maxRetry mn) (mn_Sleep mn) (check_minio_once mn args)"

definition with_minio :: "'w minio_net \<Rightarrow> 'w Prober \<Rightarrow> 'w Prober" where
  "with_minio mn p = p\<lparr>pb_checkMinIO := CheckMinIO mn\<rparr>"

section \<open>Cloud identities\<close>

text \<open>The credential providers of Aliyun and Tencent keep the access key they handed out; a credential of Aliyun has pointers, and a
  missing one panics.\<close>

record CloudCredential =
  cc_AccessKeyId :: "string option"
  cc_AccessKeySecret :: "string option"
  cc_SecurityToken :: "string option"

definition aliyun_Retrieve :: "go_error + CloudCredential \<Rightarrow> string \<Rightarrow> (go_error + string \<times> string \<times> string) \<times> string" where
  "aliyun_Retrieve cred akCache =
     (case wrap ''failed to get aliyun credential'' cred of
        Inl e \<Rightarrow> (Inl e, akCache)
      | Inr c \<Rightarrow>
          (case cc_AccessKeyId c of
             None \<Rightarrow> (Inl (GoPanic ''nil pointer''), akCache)
           | Some ak \<Rightarrow>
               (case (cc_AccessKeySecret c, cc_SecurityToken c) of
                  (Some sk, Some token) \<Rightarrow> (Inr (ak, sk, token), ak)
                | _ \<Rightarrow> (Inl (GoPanic ''nil pointer''), ak))))"

definition aliyun_IsExpired :: "go_error + CloudCredential \<Rightarrow> string \<Rightarrow> bool option" where
  "aliyun_IsExpired cred akCache =
     (case cred of
        Inl _ \<Rightarrow> Some True
      | Inr c \<Rightarrow> map_option (\<lambda>ak. ak \<noteq> akCache) (cc_AccessKeyId c))"

definition tencent_Retrieve :: "string \<times> string \<times> string \<Rightarrow> string \<Rightarrow> (string \<times> string \<times> string) \<times> string" where
  "tencent_Retrieve cred akCache = (case cred of (ak, sk, token) \<Rightarrow> ((ak, sk, token), ak))"

definition tencent_IsExpired :: "string \<times> string \<times> string \<Rightarrow> string \<Rightarrow> bool" where
  "tencent_IsExpired cred akCache = (fst cred \<noteq> akCache)"

lemma fresh_credentials:
  "aliyun_Retrieve cred ak = (Inr v, ak') \<Longrightarrow> aliyun_IsExpired cred ak' = Some False"
  "tencent_Retrieve c ak = (u, ak') \<Longrightarrow> \<not> tencent_IsExpired c ak'"
  by (auto simp: aliyun_Retrieve_def aliyun_IsExpired_def tencent_Retrieve_def tencent_IsExpired_def split: sum.splits option.splits prod.splits)

text \<open>What the clouds offer to the checks.  \<open>cl_env\<close> is the environment of the process.\<close>

datatype azure_credential = WorkloadIdentity | ClientSecret string string string

record 'w cloud =
  cl_net :: "'w minio_net"
  cl_env :: "string \<Rightarrow> string"
  cl_aliyunCredential :: "('w, unit) op"
  cl_tencentProvider :: "('w, unit) op"
  cl_tencentCredential :: "('w, unit) op"
  cl_azureNew :: "azure_credential \<Rightarrow> go_error option"
  cl_azureClient :: "string \<Rightarrow> azure_credential \<Rightarrow> go_error option"
  cl_azureContainer :: "string \<Rightarrow> azure_credential \<Rightarrow> string \<Rightarrow> ('w, unit) op"
  cl_gcpNew :: "('w, unit) op"
  cl_gcpBucket :: "string \<Rightarrow> ('w, unit) op"

definition verify_bucket :: "'w cloud \<Rightarrow> string \<Rightarrow> storage_creds \<Rightarrow> bucket_lookup \<Rightarrow> string \<Rightarrow> string \<Rightarrow> string \<Rightarrow> bool \<Rightarrow> ('w, unit) op" where
  "verify_bucket cl cloud_name creds lookup bucketName region address secure =
     (let opts = \<lparr>mo_Creds = creds, mo_Secure = secure, mo_Region = region, mo_BucketLookup = lookup, mo_Transport = None\<rparr> in
      op_bind (op_wrap ''init minio client failed'' (check_error (mn_New (cl_net cl) address opts))) (\<lambda>_.
      op_bind (op_wrap (''access '' @ cloud_name @ '' bucket['' @ bucketName @ ''] failed'') (mn_BucketExists (cl_net cl) address opts bucketName)) (\<lambda>_.
      ret ())))"

definition VerifyAWS :: "'w cloud \<Rightarrow> string \<Rightarrow> string \<Rightarrow> string \<Rightarrow> bool \<Rightarrow> ('w, unit) op" where
  "VerifyAWS cl bucketName region address secure = verify_bucket cl ''aws'' IAM BucketLookupAuto bucketName region address secure"

text \<open>A provider is named after its cloud; minio-go asks it for credentials when it signs a request.\<close>

definition NewCredentialProvider :: "'w cloud \<Rightarrow> ('w, storage_creds) op" where
  "NewCredentialProvider cl =
     op_bind (op_wrap ''failed to create aliyun credential'' (cl_aliyunCredential cl)) (\<lambda>_. ret (Provider ''aliyun''))"

definition NewTencentCredentialProvider :: "'w cloud \<Rightarrow> ('w, storage_creds) op" where
  "NewTencentCredentialProvider cl =
     op_bind (op_wrap ''failed to create tencent credential provider'' (cl_tencentProvider cl)) (\<lambda>_.
     op_bind (op_wrap ''failed to get tencent credential'' (cl_tencentCredential cl)) (\<lambda>_. ret (Provider ''tencent'')))"

definition VerifyAliyun :: "'w cloud \<Rightarrow> string \<Rightarrow> string \<Rightarrow> string \<Rightarrow> bool \<Rightarrow> ('w, unit) op" where
  "VerifyAliyun cl bucketName region address secure =
     op_bind (op_wrap ''failed to create credential provider'' (NewCredentialProvider cl)) (\<lambda>creds.
     verify_bucket cl ''aliyun'' creds BucketLookupDNS bucketName region address secure)"

definition VerifyTencent :: "'w cloud \<Rightarrow> string \<Rightarrow> string \<Rightarrow> string \<Rightarrow> bool \<Rightarrow> ('w, unit) op" where
  "VerifyTencent cl bucketName region address secure =
     op_bind (op_wrap ''failed to create credential provider'' (NewTencentCredentialProvider cl)) (\<lambda>creds.
     verify_bucket cl ''aliyun'' creds BucketLookupDNS bucketName region address secure)"

definition newAzureVerificationCredential :: "(string \<Rightarrow> string) \<Rightarrow> go_error + azure_credential" where
  "newAzureVerificationCredential env =
     (if env ''AZURE_FEDERATED_TOKEN_FILE'' \<noteq> [] then Inr WorkloadIdentity
      else if env ''AZURE_CLIENT_SECRET'' \<noteq> [] then
        (if env ''AZURE_TENANT_ID'' = [] \<or> env ''AZURE_CLIENT_ID'' = []
         then Inl (Errorf ''SPN authentication requires AZURE_TENANT_ID, AZURE_CLIENT_ID and AZURE_CLIENT_SECRET'')
         else Inr (ClientSecret (env ''AZURE_TENANT_ID'') (env ''AZURE_CLIENT_ID'') (env ''AZURE_CLIENT_SECRET'')))
      else Inr WorkloadIdentity)"

definition VerifyAzure :: "'w cloud \<Rightarrow> string \<Rightarrow> string \<Rightarrow> ('w, unit) op" where
  "VerifyAzure cl storageAccount containerName =
     (let url = ''https://'' @ storageAccount @ ''.blob.core.windows.net/'' in
      op_bind (op_wrap ''init azure workload identity credential failed''
        (op_bind (lift_result (newAzureVerificationCredential (cl_env cl))) (\<lambda>cred.
         op_bind (check_error (cl_azureNew cl cred)) (\<lambda>_. ret cred)))) (\<lambda>cred.
      op_bind (op_wrap ''init azure storage client failed'' (check_error (cl_azureClient cl url cred))) (\<lambda>_.
      op_wrap (''access azure container['' @ containerName @ ''] properties failed'') (cl_azureContainer cl url cred containerName))))"

definition VerifyGCP :: "'w cloud \<Rightarrow> string \<Rightarrow> ('w, unit) op" where
  "VerifyGCP cl bucketName =
     op_bind (op_wrap ''init gcp storage client failed'' (cl_gcpNew cl)) (\<lambda>_.
     op_wrap (''access gcp bucket['' @ bucketName @ ''] attrs failed'') (cl_gcpBucket cl bucketName))"

end
