(* ===== verification/Tools.thy ===== *)
theory Tools
  imports Storage_Client Config_Map
begin

text \<open>
  The tools that run in the init containers of a Milvus pod: tool/merge adds the rendered configuration to the one of the image, tool/cp
  copies the tools to the shared volume, tool/iam-verify waits until the storage can be reached with the identity of the pod (it reads its settings with
  pkg/util/yamlparser).  The file system and YAML are a record of operations; the value of a tool is its exit code.
\<close>

section \<open>Files\<close>

record user_minio =
  um_Address :: string
  um_Port :: int
  um_AccessKeyID :: string
  um_UseSSL :: bool
  um_BucketName :: string
  um_Region :: string
  um_UseIAM :: bool
  um_CloudProvider :: string

record 'w files =
  fs_Stat :: "string \<Rightarrow> ('w, nat) op"
  fs_Open :: "string \<Rightarrow> ('w, unit) op"
  fs_ReadFile :: "string \<Rightarrow> ('w, string) op"
  fs_WriteFile :: "string \<Rightarrow> string \<Rightarrow> nat \<Rightarrow> ('w, unit) op"
  fs_asValues :: "string \<Rightarrow> go_error + Values"
  fs_asUserYaml :: "string \<Rightarrow> go_error + user_minio"
  fs_Marshal :: "values_map \<Rightarrow> go_error + string"

section \<open>merge\<close>

definition checkFileExists :: "'w files \<Rightarrow> string \<Rightarrow> ('w, bool) state" where
  "checkFileExists fs path = do { res \<leftarrow> fs_Stat fs path; State_Monad.return (case res of Inr _ \<Rightarrow> True | Inl _ \<Rightarrow> False) }"

definition readYaml :: "'w files \<Rightarrow> string \<Rightarrow> ('w, Values) op" where
  "readYaml fs path = op_bind (fs_ReadFile fs path) (\<lambda>bs. lift_result (fs_asValues fs bs))"

text \<open>The work of \<open>main\<close> once both files are there; every error ends the tool with code 1, a panic with code 2.\<close>

definition merge_files :: "'w files \<Rightarrow> string \<Rightarrow> string \<Rightarrow> ('w, unit) op" where
  "merge_files fs srcPath dstPath =
     op_bind (readYaml fs srcPath) (\<lambda>src.
     op_bind (readYaml fs dstPath) (\<lambda>dst.
     op_bind (lift_result (or_panic ''interface conversion'' (merge_documents (Values_Data src) (Values_Data dst)))) (\<lambda>merged.
     op_bind (lift_result (fs_Marshal fs merged)) (\<lambda>bs.
     fs_WriteFile fs dstPath bs 420))))"

definition exit_code :: "('w, unit) op \<Rightarrow> ('w, int) state" where
  "exit_code m = do { res \<leftarrow> m; State_Monad.return (case res of Inr _ \<Rightarrow> 0 | Inl (GoPanic _) \<Rightarrow> 2 | Inl _ \<Rightarrow> 1) }"

definition merge_main :: "'w files \<Rightarrow> string \<Rightarrow> string \<Rightarrow> ('w, int) state" where
  "merge_main fs srcPath dstPath =
     (if srcPath = [] \<or> dstPath = [] then State_Monad.return 1
      else do {
        srcExists \<leftarrow> checkFileExists fs srcPath;
        if \<not> srcExists then State_Monad.return 0
        else do {
          dstExists \<leftarrow> checkFileExists fs dstPath;
          if \<not> dstExists then State_Monad.return 0 else exit_code (merge_files fs srcPath dstPath) } })"

section \<open>cp\<close>

definition quoted_error :: "string \<Rightarrow> ('w, 'a) op \<Rightarrow> ('w, 'a) op" where
  "quoted_error msg m = do { res \<leftarrow> m; (case res of Inr a \<Rightarrow> ret a | Inl e \<Rightarrow> fail (Errorf (msg @ error_text e))) }"

definition cp :: "'w files \<Rightarrow> string \<Rightarrow> string \<Rightarrow> ('w, unit) op" where
  "cp fs src dst =
     op_bind (quoted_error ''stat source file failed: '' (fs_Stat fs src)) (\<lambda>mode.
     op_bind (quoted_error ''read source file failed: '' (fs_ReadFile fs src)) (\<lambda>data.
     quoted_error ''write destination file failed: '' (fs_WriteFile fs dst data mode)))"

text \<open>Fewer destinations than sources: the index is out of range.\<close>

fun cp_files :: "'w files \<Rightarrow> string list \<Rightarrow> string list \<Rightarrow> ('w, unit) op" where
  "cp_files fs [] dsts = ret ()"
| "cp_files fs (src # srcs) [] = fail (GoPanic ''index out of range'')"
| "cp_files fs (src # srcs) (dst # dsts) = op_bind (cp fs src dst) (\<lambda>_. cp_files fs srcs dsts)"

definition cp_main :: "'w files \<Rightarrow> string list \<Rightarrow> ('w, int) state" where
  "cp_main fs args =
     (case args of
        [srcs, dsts] \<Rightarrow> exit_code (cp_files fs (split_on CHR '','' srcs) (split_on CHR '','' dsts))
      | _ \<Rightarrow> State_Monad.return 1)"

section \<open>iam-verify\<close>

definition UserYamlPath :: string where
  "UserYamlPath = ''/milvus/configs/operator/user.yaml''"

definition ParseObjectFromFile :: "'w files \<Rightarrow> (string \<Rightarrow> go_error + 'a) \<Rightarrow> string \<Rightarrow> string \<Rightarrow> ('w, 'a) op" where
  "ParseObjectFromFile fs decode typ path =
     op_bind (op_wrap (''open file['' @ path @ ''] failed'') (fs_Open fs path)) (\<lambda>_.
     op_bind (op_wrap (''read file['' @ path @ ''] failed'') (fs_ReadFile fs path)) (\<lambda>fileData.
     lift_result (wrap (''unmarshal file['' @ path @ ''] as type['' @ typ @ ''] failed'') (decode fileData))))"

definition ParseUserYaml :: "'w files \<Rightarrow> ('w, user_minio) op" where
  "ParseUserYaml fs = ParseObjectFromFile fs (fs_asUserYaml fs) ''*yamlparser.UserYaml'' UserYamlPath"

definition verify_func :: "'w cloud \<Rightarrow> user_minio \<Rightarrow> ('w, unit) op option" where
  "verify_func cl um =
     (let address = um_Address um @ '':'' @ itoa (um_Port um) in
      if um_CloudProvider um = ''gcp'' then Some (VerifyGCP cl (um_BucketName um))
      else if um_CloudProvider um = ''azure'' then Some (VerifyAzure cl (um_AccessKeyID um) (um_BucketName um))
      else if um_CloudProvider um = ''aws'' then Some (VerifyAWS cl (um_BucketName um) (um_Region um) address (um_UseSSL um))
      else if um_CloudProvider um = ''aliyun'' then Some (VerifyAliyun cl (um_BucketName um) (um_Region um) address (um_UseSSL um))
      else if um_CloudProvider um = ''tencent'' then Some (VerifyTencent cl (um_BucketName um) (um_Region um) address (um_UseSSL um))
      else None)"

text \<open>The loop, at most \<open>fuel\<close> attempts: \<open>None\<close> when none of them succeeded.\<close>

fun verify_loop :: "nat \<Rightarrow> ('w, unit) state \<Rightarrow> ('w, unit) op \<Rightarrow> ('w, unit option) state" where
  "verify_loop 0 sleep verify = State_Monad.return None"
| "verify_loop (Suc fuel) sleep verify = do {
     res \<leftarrow> verify;
     (case res of Inr _ \<Rightarrow> State_Monad.return (Some ()) | Inl _ \<Rightarrow> do { _ \<leftarrow> sleep; verify_loop fuel sleep verify }) }"

text \<open>The exit code of the tool.\<close>

definition iam_verify_main :: "nat \<Rightarrow> 'w files \<Rightarrow> 'w cloud \<Rightarrow> ('w, int option) state" where
  "iam_verify_main fuel fs cl = do {
     userYaml \<leftarrow> ParseUserYaml fs;
     (case userYaml of
        Inl _ \<Rightarrow> State_Monad.return (Some 1)
      | Inr um \<Rightarrow>
          if \<not> um_UseIAM um then State_Monad.return (Some 0)
          else (case verify_func cl um of
                  None \<Rightarrow> State_Monad.return (Some 0)
                | Some verify \<Rightarrow> do {
                    verified \<leftarrow> verify_loop fuel (mn_Sleep (cl_net cl)) verify;
                    State_Monad.return (map_option (\<lambda>_. 0) verified) })) }"

text \<open>The loop ends with the first attempt that succeeds, however many fail before it.\<close>

fun attempt_world :: "nat \<Rightarrow> ('w, unit) state \<Rightarrow> ('w, unit) op \<Rightarrow> 'w \<Rightarrow> 'w" where
  "attempt_world 0 sleep verify w = w"
| "attempt_world (Suc k) sleep verify w = attempt_world k sleep verify (snd (run_state sleep (snd (run_state verify w))))"

lemma verify_loop_returns:
  assumes "run_state verify (attempt_world k sleep verify w) = (Inr (), w')" "k < fuel"
  shows "fst (run_state (verify_loop fuel sleep verify) w) = Some ()"
  using assms
proof (induction k arbitrary: fuel w)
  case 0
  then show ?case by (cases fuel) simp_all
next
  case (Suc k)
  then obtain n where fuel: "fuel = Suc n" "k < n" by (cases fuel) auto
  obtain res v where run: "run_state verify w = (res, v)" by fastforce
  show ?case
  proof (cases res)
    case (Inl e)
    with Suc.IH [of "snd (run_state sleep v)" n] Suc.prems(1) run fuel show ?thesis by (auto split: prod.splits)
  qed (use run fuel in simp)
qed

lemma verify_loop_verified:
  "run_state (verify_loop fuel sleep verify) w = (Some u, w') \<Longrightarrow> \<exists>v v'. run_state verify v = (Inr (), v')"
proof (induction fuel arbitrary: w)
  case (Suc fuel)
  obtain res v where run: "run_state verify w = (res, v)" by fastforce
  with Suc show ?case by (cases res) (auto split: prod.splits)
qed simp

end
