(* ===== verification/Config_Correct.thy ===== *)
theory Config_Correct
  imports Cluster_Store Tools
begin

text \<open>
  The configuration a Milvus process reads: the document the operator renders into the config map, merged by the merge tool into the
  one of the image.  It selects the message queue of the resource and no other, and carries the
  endpoints of the dependencies.
\<close>

section \<open>Reading nested values\<close>

text \<open>Two paths part when they differ at a position both have.\<close>

fun part :: "string list \<Rightarrow> string list \<Rightarrow> bool" where
  "part (f # p) (g # q) = (f \<noteq> g \<or> part p q)"
| "part _ _ = False"

text \<open>A value can be written at a path: every entry on the way to its end is a map or absent.\<close>

fun open_at :: "json option \<Rightarrow> string list \<Rightarrow> bool" where
  "open_at e [] = True"
| "open_at e (f # p) = (case e of None \<Rightarrow> True | Some (JObj m) \<Rightarrow> open_at (fmlookup m f) p | Some _ \<Rightarrow> False)"

definition writable :: "string list \<Rightarrow> values_map \<Rightarrow> bool" where
  "writable p d \<longleftrightarrow> open_at (Some (JObj d)) p"

locale nested_values = nested_writes put del
  for put :: "values_map \<Rightarrow> json \<Rightarrow> string list \<Rightarrow> values_map" and del :: "values_map \<Rightarrow> string list \<Rightarrow> values_map" +
  assumes put_get: "writable p d \<Longrightarrow> p \<noteq> [] \<Longrightarrow> nested_field (JObj (put d v p)) p = Some v"
    and put_other: "part p q \<Longrightarrow> nested_field (JObj (put d v p)) q = nested_field (JObj d) q"
    and put_writable: "part p q \<Longrightarrow> writable q d \<Longrightarrow> writable q (put d v p)"

lemma open_None [simp]: "open_at None p"
  by (cases p) simp_all

lemma put_entry_get: "open_at e p \<Longrightarrow> (case put_entry v e p of None \<Rightarrow> None | Some j \<Rightarrow> nested_field j p) = Some v"
  by (induction p arbitrary: e) (fastforce split: option.splits json.splits)+

lemma put_entry_open: "part p q \<Longrightarrow> open_at e q \<Longrightarrow> open_at (put_entry v e p) q"
proof (induction p q arbitrary: e rule: part.induct)
  case (1 f p g q)
  show ?case
  proof (cases "f = g")
    case True
    then show ?thesis using 1 by (auto split: option.splits json.splits)
  qed (use 1 in \<open>auto split: option.splits json.splits\<close>)
qed auto

lemma lookup_put_other: "part p q \<Longrightarrow> (case put_entry v e p of None \<Rightarrow> None | Some j \<Rightarrow> nested_field j q) = (case e of None \<Rightarrow> None | Some j \<Rightarrow> nested_field j q)"
proof (induction p q arbitrary: e rule: part.induct)
  case (1 f p g q)
  show ?case
  proof (cases "f = g")
    case True
    then have "part p q" using 1 by simp
    then show ?thesis using 1 True by (auto split: option.splits json.splits)
  qed (auto split: option.splits json.splits)
qed auto

interpretation unstructured_values: nested_values nested_set nested_remove
proof (unfold_locales, goal_cases)
  case (1 p d v)
  then obtain f p' where "p = f # p'" by (cases p) auto
  then show ?case using 1 put_entry_get [of "fmlookup d f" p' v] by (auto simp: nested_set_Cons writable_def split: option.splits)
next
  case (2 p q d v)
  then obtain f p' g q' where pq: "p = f # p'" "q = g # q'" by (cases p; cases q) auto
  then show ?case using 2 lookup_put_other [of p' q' v "fmlookup d f"] by (auto simp: nested_set_Cons split: if_splits)
next
  case (3 p q d v)
  then obtain f p' g q' where pq: "p = f # p'" "q = g # q'" by (cases p; cases q) auto
  then show ?case using 3 put_entry_open [of p' q' "fmlookup d f" v] by (auto simp: nested_set_Cons writable_def split: if_splits)
qed

text \<open>What a patch sets to something other than a map is what a merge has there.\<close>

lemma merged_leaf:
  assumes "nested_field (JObj p) q = Some v" "\<And>m. v \<noteq> JObj m" "q \<noteq> []"
  shows "nested_field (JObj (MergeValues d p)) q = Some v"
  using assms
proof (induction q arbitrary: d p)
  case (Cons f q)
  then obtain w where w: "fmlookup p f = Some w" "nested_field w q = Some v" by (auto split: option.splits)
  show ?case
  proof (cases q)
    case Nil
    then show ?thesis using w Cons.prems(2) by (auto simp: MergeValues_lookup split: option.splits)
  next
    case (Cons g r)
    then obtain m where m: "w = JObj m" using w(2) by (cases w) auto
    have "nested_field (merge_json o' (JObj m)) q = Some v" for o'
    proof (cases o')
      case (JObj d')
      then show ?thesis using Cons.IH [of m d'] w(2) m Cons.prems(2) Cons by simp
    qed (use w(2) m in \<open>simp_all add: merge_json.simps [of _ "JObj m"]\<close>)
    then show ?thesis using w m by (auto simp: MergeValues_lookup split: option.splits)
  qed
qed simp

lemma merge_writable: "writable p d \<Longrightarrow> writable p u \<Longrightarrow> writable p (MergeValues d u)"
proof (induction p arbitrary: d u)
  case (Cons f p)
  show ?case
  proof (cases "p = [] \<or> fmlookup u f = None \<or> fmlookup d f = None")
    case False
    then obtain g q v w where p: "p = g # q" and e: "fmlookup u f = Some v" "fmlookup d f = Some w" by (cases p) auto
    with Cons.prems obtain m n where mn: "v = JObj m" "w = JObj n" by (auto simp: writable_def split: json.splits)
    with Cons.prems e p have "writable p n" "writable p m" by (simp_all add: writable_def)
    from Cons.IH [OF this] e mn p show ?thesis by (simp add: writable_def MergeValues_lookup)
  qed (use Cons.prems in \<open>auto simp: writable_def MergeValues_lookup split: option.splits\<close>)
qed (simp add: writable_def)

lemma lookup_drop_keys: "fmlookup (drop_keys ks m) k = (if k \<in> set ks then None else fmlookup m k)"
  unfolding drop_keys_def by (induction ks arbitrary: m) auto

definition read_path :: "values_map \<Rightarrow> string list \<Rightarrow> json option" where
  "read_path d q = nested_field (JObj d) q"

lemma read_drop_keys [simp]: "read_path (drop_keys ks m) (k # q) = (if k \<in> set ks then None else read_path m (k # q))"
  by (simp add: read_path_def lookup_drop_keys)

lemma read_fmupd [simp]: "k \<noteq> k' \<Longrightarrow> read_path (fmupd k' v m) (k # q) = read_path m (k # q)"
  by (simp add: read_path_def)

section \<open>The rendered document\<close>

locale values_env = nested_values "we_SetNestedField E" "we_RemoveNestedField E" for E :: webhook_env
begin

lemma set_other [simp]:
  "part p q \<Longrightarrow> read_path (SetValue E v p m) q = read_path m q"
  "part p q \<Longrightarrow> read_path (SetStringSlice E vs p m) q = read_path m q"
  by (simp_all add: read_path_def SetValue_def SetStringSlice_def put_other)

lemma set_get [simp]:
  "writable (f # p) m \<Longrightarrow> read_path (SetValue E v (f # p) m) (f # p) = Some v"
  "writable (f # p) m \<Longrightarrow> read_path (SetStringSlice E vs (f # p) m) (f # p) = Some (JArr (map JStr vs))"
  by (simp_all only: read_path_def SetValue_def SetStringSlice_def put_get list.distinct simp_thms)

lemma set_writable [simp]:
  "part p q \<Longrightarrow> writable q m \<Longrightarrow> writable q (SetValue E v p m)" "part p q \<Longrightarrow> writable q m \<Longrightarrow> writable q (SetStringSlice E vs p m)"
  by (simp_all add: SetValue_def SetStringSlice_def put_writable)

lemma base_conf_reads:
  assumes "\<And>p. p \<in> {[''etcd'', ''endpoints''], [''minio'', ''address''], [''minio'', ''port'']} \<Longrightarrow> writable p template \<and> writable p (Values_Data (ms_Conf (m_Spec mc)))"
    and "GetStorageHostPort (st_Endpoint (dep_Storage (ms_Dep (m_Spec mc)))) (GetMinioSecure (Values_Data (ms_Conf (m_Spec mc)))) = (host, port)"
  shows "read_path (base_conf E mc keys template) [''etcd'', ''endpoints''] = Some (JArr (map JStr (etcd_Endpoints (dep_Etcd (ms_Dep (m_Spec mc))))))"
    and "read_path (base_conf E mc keys template) [''minio'', ''address''] = Some (JStr host)"
    and "read_path (base_conf E mc keys template) [''minio'', ''port''] = Some (JInt port)"
proof -
  note simps = base_conf_def Let_def assms(2) prod.case
  have w: "writable [''etcd'', ''endpoints''] template" "writable [''minio'', ''address''] template" "writable [''minio'', ''port''] template"
    "writable [''etcd'', ''endpoints''] (Values_Data (ms_Conf (m_Spec mc)))" "writable [''minio'', ''address''] (Values_Data (ms_Conf (m_Spec mc)))"
    "writable [''minio'', ''port''] (Values_Data (ms_Conf (m_Spec mc)))"
    using assms(1) by simp_all
  show "read_path (base_conf E mc keys template) [''etcd'', ''endpoints''] = Some (JArr (map JStr (etcd_Endpoints (dep_Etcd (ms_Dep (m_Spec mc))))))"
    "read_path (base_conf E mc keys template) [''minio'', ''address''] = Some (JStr host)"
    "read_path (base_conf E mc keys template) [''minio'', ''port''] = Some (JInt port)"
    unfolding simps using w by (simp_all add: merge_writable)
qed

lemma base_conf_writable:
  assumes "writable (k # p) template" "writable (k # p) (Values_Data (ms_Conf (m_Spec mc)))" "k \<noteq> ''etcd''" "k \<noteq> ''minio''"
  shows "writable (k # p) (base_conf E mc keys template)"
  using assms by (simp add: base_conf_def Let_def merge_writable split: prod.splits)

lemma cert_path_other [simp]:
  "part [''kafka'', ''ssl''] q \<Longrightarrow> read_path (cert_path E ref field path m) q = read_path m q"
proof -
  assume h: "part [''kafka'', ''ssl''] q"
  have "part ([''kafka'', ''ssl''] @ [f]) q" for f
    using h by (cases q; cases "tl q") auto
  then show ?thesis by (simp add: cert_path_def split: option.splits)
qed

lemma certs_other:
  assumes "renderKafkaCertPaths E x mc m = Inr m'" "part [''kafka'', ''ssl''] q"
  shows "read_path m' q = read_path m q"
  using assms by (auto simp: renderKafkaCertPaths_def split: prod.splits option.splits)

end

text \<open>The switch over the queues keeps the endpoints of etcd and the storage, and sets the address of the queue.\<close>

definition mq_ok :: "'w Configs \<Rightarrow> Milvus \<Rightarrow> values_map \<Rightarrow> values_map \<Rightarrow> bool" where
  "mq_ok cf mc m m' \<longleftrightarrow> (let dep = ms_Dep (m_Spec mc) in
     (\<forall>k q. k \<notin> {''kafka'', ''pulsar'', ''rocksmq'', ''woodpecker''} \<longrightarrow> read_path m' (k # q) = read_path m (k # q)) \<and>
     (dep_MsgStreamType dep = MsgStreamTypeKafka \<and> writable [''kafka'', ''brokerList''] m \<longrightarrow>
        read_path m' [''kafka'', ''brokerList''] = Some (JArr (map JStr (kaf_BrokerList (dep_Kafka dep))))) \<and>
     (dep_MsgStreamType dep = MsgStreamTypePulsar \<and> writable [''pulsar'', ''address''] m \<and> writable [''pulsar'', ''port''] m \<longrightarrow>
        read_path m' [''pulsar'', ''address''] = Some (JStr (fst (GetHostPortWithDefault (pulsar_endpoint (dep_Pulsar dep)) 80))) \<and>
        read_path m' [''pulsar'', ''port''] = Some (JInt (snd (GetHostPortWithDefault (pulsar_endpoint (dep_Pulsar dep)) 80)))) \<and>
     (dep_MsgStreamType dep = MsgStreamTypeWoodPecker \<and> wp_External (dep_WoodPecker dep) \<and> writable [''woodpecker'', ''storage'', ''type''] m \<and>
        writable [''woodpecker'', ''client'', ''quorum'', ''quorumBufferPools''] m \<longrightarrow>
        read_path m' [''woodpecker'', ''storage'', ''type''] = Some (JStr ''service'') \<and>
        (\<exists>pools. cf_MarshalPools cf (wp_QuorumBufferPools (dep_WoodPecker dep)) = Inr pools \<and>
           read_path m' [''woodpecker'', ''client'', ''quorum'', ''quorumBufferPools''] = Some (JStr pools))))"

lemma wp_any: "wp m w (\<lambda>_ _. True)"
  by (rule wpI) simp

lemma ca_keeps:
  assumes "values_env (cf_E cf)"
  shows "wp (kafka_ca_conf cf mc m) w (\<lambda>res v. \<forall>m' q. res = Inr m' \<and> part [''kafka'', ''ssl''] q \<longrightarrow> read_path m' q = read_path m q)"
proof -
  have "part ([''kafka'', ''ssl''] @ [f]) q" if "part [''kafka'', ''ssl''] q" for f q
    using that by (cases q; cases "tl q") auto
  then show ?thesis
    unfolding kafka_ca_conf_def wp_if
    by (auto simp: values_env.set_other [OF assms] simp del: wp_bind intro!: wp_bindI [OF wp_any])
qed

lemma mq_conf_ok:
  assumes "values_env (cf_E cf)"
  shows "wp (mq_conf cf mc m) w (\<lambda>res v. \<forall>m'. res = Inr m' \<longrightarrow> mq_ok cf mc m m')" (is "wp _ _ ?Q")
proof (cases "dep_MsgStreamType (ms_Dep (m_Spec mc))")
  case MsgStreamTypeKafka
  let ?m0 = "SetStringSlice (cf_E cf) (kaf_BrokerList (dep_Kafka (ms_Dep (m_Spec mc)))) [''kafka'', ''brokerList''] m"
  have ok: "mq_ok cf mc m (drop_keys [''pulsar'', ''rocksmq''] m2)"
    if "\<And>q. part [''kafka'', ''ssl''] q \<Longrightarrow> read_path m2 q = read_path ?m0 q" for m2
    using that MsgStreamTypeKafka by (auto simp: mq_ok_def Let_def values_env.set_other [OF assms] values_env.set_get [OF assms])
  have certs: "wp (op_bind (lift_result (renderKafkaCertPaths (cf_E cf) (rc_x (cf_r cf)) mc m1)) (\<lambda>m. ret (drop_keys [''pulsar'', ''rocksmq''] m))) v ?Q"
    if "\<forall>q. part [''kafka'', ''ssl''] q \<longrightarrow> read_path m1 q = read_path ?m0 q" for m1 v
    using that values_env.certs_other [OF assms] ok by (auto split: sum.splits)
  show ?thesis
    unfolding mq_conf_def Let_def MsgStreamTypeKafka MsgStreamType.case
    by (rule wp_bindI [OF ca_keeps [OF assms]]) (use certs in \<open>auto simp del: wp_bind part.simps\<close>)
next
  case MsgStreamTypeWoodPecker
  then show ?thesis
    by (auto simp: mq_conf_def Let_def mq_ok_def wrap_def values_env.set_other [OF assms] values_env.set_get [OF assms]
        values_env.set_writable [OF assms] split: sum.splits)
next
  case MsgStreamTypePulsar
  then show ?thesis
    by (auto simp: mq_conf_def Let_def mq_ok_def values_env.set_other [OF assms] values_env.set_get [OF assms]
        values_env.set_writable [OF assms] split: prod.splits)
qed (auto simp: mq_conf_def Let_def mq_ok_def split: prod.splits)

section \<open>Queue and endpoints\<close>

lemma mq_type_reads:
  assumes "mq_type_conf t m = Inr m'" "t \<noteq> MsgStreamTypeCustom"
  shows "read_path m' [MqTypeConfigKey] = Some (JStr (msg_stream_name t))" "read_path m' [''mq'', ''type''] = Some (JStr (msg_stream_name t))"
    "k \<noteq> ''mq'' \<Longrightarrow> k \<noteq> MqTypeConfigKey \<Longrightarrow> read_path m' (k # q) = read_path m (k # q)"
  using assms by (auto simp: mq_type_conf_def read_path_def MqTypeConfigKey_def split: if_splits json.splits)

text \<open>The merge tool on a document that names its queue.\<close>

lemma merge_tool_reads:
  assumes "read_path src [MqTypeConfigKey] = Some (JStr n)"
  shows "\<exists>final. merge_documents src dst = Some final \<and> (\<forall>k \<in> set mq_sections. k \<noteq> n \<longrightarrow> fmlookup final k = None) \<and>
    (\<forall>k q v. read_path src (k # q) = Some v \<and> (\<forall>m. v \<noteq> JObj m) \<and> (k \<in> set mq_sections \<longrightarrow> k = n) \<longrightarrow> read_path final (k # q) = Some v)"
proof -
  have leaf: "read_path (MergeValues dst src) (k # q) = Some v" if "read_path src (k # q) = Some v" "\<forall>m. v \<noteq> JObj m" for k q v
    using merged_leaf [of src "k # q" v dst] that by (simp add: read_path_def)
  have mq: "value_or_nil (MergeValues dst src) MqTypeConfigKey = JStr n"
    using leaf [OF assms] by (auto simp: read_path_def value_or_nil_def split: option.splits)
  show ?thesis
    unfolding merge_documents_def Let_def mq json.case
    by (auto simp: lookup_drop_keys leaf)
qed

lemma rendered_reads:
  assumes "values_env (cf_E cf)" "run_state (milvus_conf cf mc) w = (Inr conf, w')" "dep_MsgStreamType (ms_Dep (m_Spec mc)) \<noteq> MsgStreamTypeCustom"
    and "cf_Template cf mc = Inr template"
  shows "\<exists>keys m1. mq_ok cf mc (base_conf (cf_E cf) mc keys template) m1 \<and> mq_type_conf (dep_MsgStreamType (ms_Dep (m_Spec mc))) m1 = Inr conf"
proof -
  let ?P = "\<lambda>res v. \<forall>conf. res = Inr conf \<longrightarrow> (\<exists>keys m1. mq_ok cf mc (base_conf (cf_E cf) mc keys template) m1 \<and> mq_type_conf (dep_MsgStreamType (ms_Dep (m_Spec mc))) m1 = Inr conf)"
  have step: "wp (op_bind (mq_conf cf mc (base_conf (cf_E cf) mc keys template)) (\<lambda>conf. lift_result (mq_type_conf (dep_MsgStreamType (ms_Dep (m_Spec mc))) conf))) v ?P" for keys v
    by (rule wp_bindI [OF mq_conf_ok [OF assms(1)]]) (auto simp del: split_paired_Ex)
  have "wp (milvus_conf cf mc) w ?P"
    unfolding milvus_conf_def assms(4) wp_bind [of "lift_result (Inr _)"] wp_lift sum.case
    by (rule wp_bindI [OF wp_any]) (simp, rule step)
  from wpD [OF this assms(2)] show ?thesis by simp
qed

text \<open>The settings the operator writes whatever the user and the template say.\<close>

definition operator_paths :: "string list set" where
  "operator_paths = {[''etcd'', ''endpoints''], [''minio'', ''address''], [''minio'', ''port''], [''kafka'', ''brokerList''],
     [''pulsar'', ''address''], [''pulsar'', ''port''], [''woodpecker'', ''storage'', ''type''],
     [''woodpecker'', ''client'', ''quorum'', ''quorumBufferPools'']}"

text \<open>What a configuration has for the dependencies of the resource.\<close>

definition queue_selected :: "MsgStreamType \<Rightarrow> values_map \<Rightarrow> bool" where
  "queue_selected t d \<longleftrightarrow> read_path d [''messageQueue''] = Some (JStr (msg_stream_name t)) \<and> read_path d [''mq'', ''type''] = Some (JStr (msg_stream_name t)) \<and>
     (\<forall>k \<in> {''kafka'', ''rocksmq'', ''natsmq'', ''pulsar''}. k \<noteq> msg_stream_name t \<longrightarrow> fmlookup d k = None)"

definition addresses_set :: "'w Configs \<Rightarrow> Milvus \<Rightarrow> values_map \<Rightarrow> bool" where
  "addresses_set cf mc d \<longleftrightarrow> (let dep = ms_Dep (m_Spec mc) in
     read_path d [''etcd'', ''endpoints''] = Some (JArr (map JStr (etcd_Endpoints (dep_Etcd dep)))) \<and>
     (case GetStorageHostPort (st_Endpoint (dep_Storage dep)) (GetMinioSecure (Values_Data (ms_Conf (m_Spec mc)))) of (host, port) \<Rightarrow>
        read_path d [''minio'', ''address''] = Some (JStr host) \<and> read_path d [''minio'', ''port''] = Some (JInt port)) \<and>
     (case dep_MsgStreamType dep of
        MsgStreamTypeKafka \<Rightarrow> read_path d [''kafka'', ''brokerList''] = Some (JArr (map JStr (kaf_BrokerList (dep_Kafka dep))))
      | MsgStreamTypePulsar \<Rightarrow>
          (case GetHostPortWithDefault (case Pulsar_GetEndpoints (dep_Pulsar dep) of [] \<Rightarrow> [] | endpoint # _ \<Rightarrow> endpoint) 80 of (host, port) \<Rightarrow>
             read_path d [''pulsar'', ''address''] = Some (JStr host) \<and> read_path d [''pulsar'', ''port''] = Some (JInt port))
      | MsgStreamTypeWoodPecker \<Rightarrow> wp_External (dep_WoodPecker dep) \<longrightarrow>
          read_path d [''woodpecker'', ''storage'', ''type''] = Some (JStr ''service'') \<and>
          (\<exists>pools. cf_MarshalPools cf (wp_QuorumBufferPools (dep_WoodPecker dep)) = Inr pools \<and>
             read_path d [''woodpecker'', ''client'', ''quorum'', ''quorumBufferPools''] = Some (JStr pools))
      | _ \<Rightarrow> True))"

text \<open>A leaf of the rendered document is a leaf of the merged one, unless it is in a section the tool drops.\<close>

lemma merged_config:
  assumes "values_env (cf_E cf)" "run_state (milvus_conf cf mc) w = (Inr conf, w')" "dep_MsgStreamType (ms_Dep (m_Spec mc)) \<noteq> MsgStreamTypeCustom"
    and "cf_Template cf mc = Inr template"
    and "\<And>p. p \<in> operator_paths \<Longrightarrow> writable p template \<and> writable p (Values_Data (ms_Conf (m_Spec mc)))"
  shows "\<exists>final. merge_documents conf img = Some final \<and> queue_selected (dep_MsgStreamType (ms_Dep (m_Spec mc))) final \<and> addresses_set cf mc final"
proof -
  let ?t = "dep_MsgStreamType (ms_Dep (m_Spec mc))" and ?dep = "ms_Dep (m_Spec mc)"
  obtain keys m1 where m1: "mq_ok cf mc (base_conf (cf_E cf) mc keys template) m1" "mq_type_conf ?t m1 = Inr conf"
    using rendered_reads [OF assms(1-4)] by blast
  obtain host port where hp: "GetStorageHostPort (st_Endpoint (dep_Storage ?dep)) (GetMinioSecure (Values_Data (ms_Conf (m_Spec mc)))) = (host, port)" by fastforce
  have paths: "writable p template \<and> writable p (Values_Data (ms_Conf (m_Spec mc)))"
    if "p \<in> {[''etcd'', ''endpoints''], [''minio'', ''address''], [''minio'', ''port'']}" for p
    by (rule assms(5), rule subsetD [OF _ that]) (simp add: operator_paths_def)
  have base: "read_path (base_conf (cf_E cf) mc keys template) [''etcd'', ''endpoints''] = Some (JArr (map JStr (etcd_Endpoints (dep_Etcd ?dep))))"
    "read_path (base_conf (cf_E cf) mc keys template) [''minio'', ''address''] = Some (JStr host)"
    "read_path (base_conf (cf_E cf) mc keys template) [''minio'', ''port''] = Some (JInt port)"
    by (rule values_env.base_conf_reads [OF assms(1) paths hp]; assumption)+
  have open_paths: "writable (k # p) (base_conf (cf_E cf) mc keys template)" if "k # p \<in> operator_paths" "k \<noteq> ''etcd''" "k \<noteq> ''minio''" for k p
    using values_env.base_conf_writable [OF assms(1)] assms(5) [OF that(1)] that(2,3) by blast
  note ty = mq_type_reads [OF m1(2) assms(3)]
  have other: "read_path conf (k # q) = read_path m1 (k # q)" if "k \<in> {''etcd'', ''minio'', ''kafka'', ''pulsar'', ''woodpecker''}" for k q
    using ty(3) [of k q] that by (auto simp: MqTypeConfigKey_def)
  obtain final where f: "merge_documents conf img = Some final" "\<forall>k \<in> set mq_sections. k \<noteq> msg_stream_name ?t \<longrightarrow> fmlookup final k = None"
    "\<And>k q v. read_path conf (k # q) = Some v \<Longrightarrow> (\<forall>m. v \<noteq> JObj m) \<Longrightarrow> (k \<in> set mq_sections \<Longrightarrow> k = msg_stream_name ?t) \<Longrightarrow> read_path final (k # q) = Some v"
    using merge_tool_reads [OF ty(1), of img] by blast
  have "queue_selected ?t final"
    using f(2) f(3) [OF ty(1)] f(3) [OF ty(2)] by (simp add: queue_selected_def mq_sections_def MqTypeConfigKey_def)
  moreover have "addresses_set cf mc final"
  proof -
    have leaf: "read_path final (k # q) = Some v"
      if "read_path m1 (k # q) = Some v" "\<forall>m. v \<noteq> JObj m" "k \<in> {''etcd'', ''minio'', ''woodpecker''} \<or> k \<in> {''kafka'', ''pulsar''} \<and> k = msg_stream_name ?t" for k q v
    proof (rule f(3) [OF _ that(2)])
      have "k \<in> {''etcd'', ''minio'', ''kafka'', ''pulsar'', ''woodpecker''}" using that(3) by blast
      from other [OF this] that(1) show "read_path conf (k # q) = Some v" by (rule trans)
      show "k = msg_stream_name ?t" if "k \<in> set mq_sections"
        using that \<open>k \<in> {''etcd'', ''minio'', ''woodpecker''} \<or> k \<in> {''kafka'', ''pulsar''} \<and> k = msg_stream_name ?t\<close>
        by (elim disjE conjE) (simp_all add: mq_sections_def, blast?)
    qed
    have same: "read_path m1 (k # q) = read_path (base_conf (cf_E cf) mc keys template) (k # q)" if "k \<in> {''etcd'', ''minio''}" for k q
    proof -
      have "k \<notin> {''kafka'', ''pulsar'', ''rocksmq'', ''woodpecker''}" using that by auto
      then show ?thesis using conjunct1 [OF m1(1) [unfolded mq_ok_def Let_def]] by blast
    qed
    have etcd: "read_path final [''etcd'', ''endpoints''] = Some (JArr (map JStr (etcd_Endpoints (dep_Etcd ?dep))))"
      "read_path final [''minio'', ''address''] = Some (JStr host)" "read_path final [''minio'', ''port''] = Some (JInt port)"
      by (rule leaf; simp add: same base)+
    have kafka: "read_path final [''kafka'', ''brokerList''] = Some (JArr (map JStr (kaf_BrokerList (dep_Kafka ?dep))))" if "?t = MsgStreamTypeKafka"
    proof (rule leaf)
      show "read_path m1 [''kafka'', ''brokerList''] = Some (JArr (map JStr (kaf_BrokerList (dep_Kafka ?dep))))"
        using m1(1) that open_paths [of "''kafka''" "[''brokerList'']"] by (simp add: mq_ok_def Let_def operator_paths_def)
    qed (simp_all add: that)
    have pulsar: "read_path final [''pulsar'', ''address''] = Some (JStr (fst (GetHostPortWithDefault (pulsar_endpoint (dep_Pulsar ?dep)) 80)))"
      "read_path final [''pulsar'', ''port''] = Some (JInt (snd (GetHostPortWithDefault (pulsar_endpoint (dep_Pulsar ?dep)) 80)))"
      if "?t = MsgStreamTypePulsar"
    proof -
      have "read_path m1 [''pulsar'', ''address''] = Some (JStr (fst (GetHostPortWithDefault (pulsar_endpoint (dep_Pulsar ?dep)) 80)))"
        "read_path m1 [''pulsar'', ''port''] = Some (JInt (snd (GetHostPortWithDefault (pulsar_endpoint (dep_Pulsar ?dep)) 80)))"
        using m1(1) that open_paths [of "''pulsar''" "[''address'']"] open_paths [of "''pulsar''" "[''port'']"]
        by (simp_all add: mq_ok_def Let_def operator_paths_def)
      then show "read_path final [''pulsar'', ''address''] = Some (JStr (fst (GetHostPortWithDefault (pulsar_endpoint (dep_Pulsar ?dep)) 80)))"
        "read_path final [''pulsar'', ''port''] = Some (JInt (snd (GetHostPortWithDefault (pulsar_endpoint (dep_Pulsar ?dep)) 80)))"
        by (simp_all add: leaf that)
    qed
    have woodpecker: "read_path final [''woodpecker'', ''storage'', ''type''] = Some (JStr ''service'')"
      "\<exists>pools. cf_MarshalPools cf (wp_QuorumBufferPools (dep_WoodPecker ?dep)) = Inr pools \<and>
         read_path final [''woodpecker'', ''client'', ''quorum'', ''quorumBufferPools''] = Some (JStr pools)"
      if "?t = MsgStreamTypeWoodPecker" "wp_External (dep_WoodPecker ?dep)"
    proof -
      have m: "read_path m1 [''woodpecker'', ''storage'', ''type''] = Some (JStr ''service'')"
        "\<exists>pools. cf_MarshalPools cf (wp_QuorumBufferPools (dep_WoodPecker ?dep)) = Inr pools \<and>
          read_path m1 [''woodpecker'', ''client'', ''quorum'', ''quorumBufferPools''] = Some (JStr pools)"
        using m1(1) that open_paths [of "''woodpecker''" "[''storage'', ''type'']"]
          open_paths [of "''woodpecker''" "[''client'', ''quorum'', ''quorumBufferPools'']"]
        by (simp_all add: mq_ok_def Let_def operator_paths_def)
      show "read_path final [''woodpecker'', ''storage'', ''type''] = Some (JStr ''service'')" by (simp add: leaf m(1))
      from m(2) obtain pools where "cf_MarshalPools cf (wp_QuorumBufferPools (dep_WoodPecker ?dep)) = Inr pools"
        "read_path m1 [''woodpecker'', ''client'', ''quorum'', ''quorumBufferPools''] = Some (JStr pools)" by blast
      then show "\<exists>pools. cf_MarshalPools cf (wp_QuorumBufferPools (dep_WoodPecker ?dep)) = Inr pools \<and>
         read_path final [''woodpecker'', ''client'', ''quorum'', ''quorumBufferPools''] = Some (JStr pools)"
        by (simp add: leaf)
    qed
    show ?thesis
      unfolding addresses_set_def Let_def hp prod.case
    proof (intro conjI etcd)
      show "case ?t of
          MsgStreamTypeKafka \<Rightarrow> read_path final [''kafka'', ''brokerList''] = Some (JArr (map JStr (kaf_BrokerList (dep_Kafka ?dep))))
        | MsgStreamTypePulsar \<Rightarrow>
            (case GetHostPortWithDefault (case Pulsar_GetEndpoints (dep_Pulsar ?dep) of [] \<Rightarrow> [] | endpoint # _ \<Rightarrow> endpoint) 80 of (host, port) \<Rightarrow>
               read_path final [''pulsar'', ''address''] = Some (JStr host) \<and> read_path final [''pulsar'', ''port''] = Some (JInt port))
        | MsgStreamTypeWoodPecker \<Rightarrow> wp_External (dep_WoodPecker ?dep) \<longrightarrow>
            read_path final [''woodpecker'', ''storage'', ''type''] = Some (JStr ''service'') \<and>
            (\<exists>pools. cf_MarshalPools cf (wp_QuorumBufferPools (dep_WoodPecker ?dep)) = Inr pools \<and>
               read_path final [''woodpecker'', ''client'', ''quorum'', ''quorumBufferPools''] = Some (JStr pools))
        | _ \<Rightarrow> True"
        using kafka pulsar woodpecker by (cases ?t) (simp_all add: pulsar_endpoint_def [symmetric] split: prod.splits)
    qed
  qed
  ultimately show ?thesis using f(1) by blast
qed

lemma updateConfigMap_yaml:
  assumes "run_state (updateConfigMap cf mc cm0) w = (Inr cm, w')"
  shows "\<exists>conf v yaml. run_state (milvus_conf cf mc) w = (Inr conf, v) \<and> cf_YamlMarshal cf conf = Inr yaml \<and> fmlookup (cm_Data cm) UserYaml = Some yaml"
proof -
  have "UserYaml \<noteq> HookYaml" by (simp add: UserYaml_def HookYaml_def)
  with assms show ?thesis
    by (auto simp: updateConfigMap_def run_op_bind hook_conf_def map_sum_def split: sum.splits prod.splits if_splits)
qed

text \<open>C10. The configuration a Milvus process reads, in both programs that make it.  The operator writes a document into the config map; a pod
  mounts it, and the merge tool merges it into the configuration of the image, whatever that is.  Unless the resource leaves the queue to the user
  (type Custom), the tool then writes a document that selects exactly the message queue of the resource: both queue settings name it, and
  of the sections of Kafka, RocksMQ, NATS and Pulsar only its own is left.  The document has the endpoints of etcd, the address and port of the storage, and
  the brokers of Kafka, the address and port of Pulsar, or the buffer pools of an external Woodpecker, whatever user and image wrote there; the user's values and
  the operator's template only must have maps on the way to these settings.  YAML reads back what it wrote.\<close>

theorem pod_config_selects_queue:
  assumes "values_env (cf_E cf)" "run_state (updateConfigMap cf mc cm0) w = (Inr cm, w')" "dep_MsgStreamType (ms_Dep (m_Spec mc)) \<noteq> MsgStreamTypeCustom"
    and "cf_Template cf mc = Inr template"
    and "\<And>p. p \<in> operator_paths \<Longrightarrow> writable p template \<and> writable p (Values_Data (ms_Conf (m_Spec mc)))"
    and "\<And>d y. cf_YamlMarshal cf d = Inr y \<or> fs_Marshal fs d = Inr y \<Longrightarrow> fs_asValues fs y = Inr (Some d)"
    and "run_state (fs_ReadFile fs src) v = (Inr (fmget (cm_Data cm) UserYaml), v1)" "run_state (readYaml fs dst) v1 = (Inr img, v2)"
  shows "\<exists>final. queue_selected (dep_MsgStreamType (ms_Dep (m_Spec mc))) final \<and> addresses_set cf mc final \<and>
    (case fs_Marshal fs final of
       Inl e \<Rightarrow> run_state (merge_files fs src dst) v = (Inl e, v2)
     | Inr text \<Rightarrow> run_state (merge_files fs src dst) v = run_state (fs_WriteFile fs dst text 420) v2 \<and> fs_asValues fs text = Inr (Some final))"
proof -
  from updateConfigMap_yaml [OF assms(2)] obtain conf u yaml where conf: "run_state (milvus_conf cf mc) w = (Inr conf, u)" "cf_YamlMarshal cf conf = Inr yaml"
    "fmget (cm_Data cm) UserYaml = yaml" by (auto simp: fmget_def)
  from merged_config [OF assms(1) conf(1) assms(3-5), of "Values_Data img"]
  obtain final where final: "merge_documents conf (Values_Data img) = Some final" "queue_selected (dep_MsgStreamType (ms_Dep (m_Spec mc))) final" "addresses_set cf mc final"
    by blast
  have "fs_asValues fs yaml = Inr (Some conf)" using assms(6) conf(2) by blast
  then have "run_state (readYaml fs src) v = (Inr (Some conf), v1)"
    using assms(7) conf(3) by (simp add: readYaml_def run_op_bind)
  with final(1) assms(8) have "run_state (merge_files fs src dst) v = run_state (op_bind (lift_result (fs_Marshal fs final)) (\<lambda>bs. fs_WriteFile fs dst bs 420)) v2"
    by (simp add: merge_files_def run_op_bind Values_Data_def)
  with final(2,3) assms(6) show ?thesis
    by (intro exI [of _ final]) (auto simp: run_op_bind split: sum.splits)
qed

interpretation mv: values_env "cf_E mem_cf"
proof -
  have "we_SetNestedField (cf_E mem_cf) = nested_set" "we_RemoveNestedField (cf_E mem_cf) = nested_remove"
    by (simp_all add: mem_cf_def)
  then show "values_env (cf_E mem_cf)"
    unfolding values_env_def using unstructured_values.nested_values_axioms by simp
qed

text \<open>A resource on an external Pulsar, with a Kafka section in the image.  YAML knows just the two documents.\<close>

definition ex_queue :: Milvus where
  "ex_queue = (new_Milvus ''ns'' ''mc'')\<lparr>m_Spec := zero_MilvusSpec\<lparr>ms_Dep := zero_MilvusDependencies\<lparr>dep_MsgStreamType := MsgStreamTypePulsar,
     dep_Pulsar := (dep_Pulsar zero_MilvusDependencies)\<lparr>pul_External := True, pul_Endpoint := ''p:6650''\<rparr>,
     dep_Etcd := (dep_Etcd zero_MilvusDependencies)\<lparr>etcd_Endpoints := [''e:2379'']\<rparr>\<rparr>\<rparr>\<rparr>"

definition ex_rendered :: values_map where
  "ex_rendered = (case fst (run_state (milvus_conf mem_cf ex_queue) (ex_cmem ex_queue [] [] [])) of Inr conf \<Rightarrow> conf | Inl _ \<Rightarrow> fmempty)"

definition ex_image :: values_map where
  "ex_image = fmap_of_list [(''kafka'', JObj fmempty), (''pulsar'', JStr ''none'')]"

definition ex_merged :: values_map where
  "ex_merged = the (merge_documents ex_rendered ex_image)"

definition ex_yaml_cf :: "cmem Configs" where
  "ex_yaml_cf = mem_cf\<lparr>cf_YamlMarshal := (\<lambda>d. if d = ex_rendered then Inr ''user'' else Inl (Errorf ''yaml''))\<rparr>"

definition ex_files :: "unit files" where
  "ex_files = \<lparr>fs_Stat = (\<lambda>_. ret 420), fs_Open = (\<lambda>_. ret ()), fs_ReadFile = (\<lambda>path. ret (if path = ''/user.yaml'' then ''user'' else ''image'')),
     fs_WriteFile = (\<lambda>_ _ _. ret ()),
     fs_asValues = (\<lambda>text. if text = ''user'' then Inr (Some ex_rendered) else if text = ''merged'' then Inr (Some ex_merged) else Inr (Some ex_image)),
     fs_asUserYaml = (\<lambda>_. Inl (Errorf ''yaml'')), fs_Marshal = (\<lambda>d. if d = ex_merged then Inr ''merged'' else Inl (Errorf ''yaml''))\<rparr>"

lemma ex_queue_spec:
  "dep_MsgStreamType (ms_Dep (m_Spec ex_queue)) = MsgStreamTypePulsar" "Values_Data (ms_Conf (m_Spec ex_queue)) = fmempty"
  "st_SecretRef (dep_Storage (ms_Dep (m_Spec ex_queue))) = []" "etcd_Endpoints (dep_Etcd (ms_Dep (m_Spec ex_queue))) = [''e:2379'']"
  "cf_Template ex_yaml_cf ex_queue = Inr fmempty" "Values_Data (ms_HookConf (m_Spec ex_queue)) = fmempty"
  "Pulsar_GetEndpoints (dep_Pulsar (ms_Dep (m_Spec ex_queue))) = [''p:6650'']" "GetHostPortWithDefault ''p:6650'' 80 = (''p'', 6650)"
  by (simp_all add: ex_yaml_cf_def mem_cf_def) code_simp+

lemma ex_queue_run: "run_state (milvus_conf ex_yaml_cf ex_queue) (ex_cmem ex_queue [] [] []) = (Inr ex_rendered, ex_cmem ex_queue [] [] [])"
proof -
  have look: "fmlookup d k = read_path d [k]" for d k by (simp add: read_path_def split: option.splits)
  have "read_path (MergeValues d fmempty) q = read_path d q" for d q
    by (rule arg_cong [where f = "\<lambda>d. read_path d q"], rule fmap_ext) (simp add: MergeValues_lookup)
  then have "read_path (base_conf (cf_E mem_cf) ex_queue keys fmempty) [''mq''] = None" for keys
    by (simp add: base_conf_def Let_def ex_queue_spec mv.set_other split: prod.splits) (simp add: read_path_def)
  then have "\<exists>conf. mq_type_conf MsgStreamTypePulsar (drop_keys [''kafka'', ''rocksmq''] (SetValue (cf_E mem_cf) v [''pulsar'', ''port'']
      (SetValue (cf_E mem_cf) u [''pulsar'', ''address''] (base_conf (cf_E mem_cf) ex_queue keys fmempty)))) = Inr conf" for keys u v
    by (simp add: mq_type_conf_def value_or_nil_def look mv.set_other)
  moreover have "milvus_conf ex_yaml_cf ex_queue = milvus_conf mem_cf ex_queue"
    by (simp add: milvus_conf_def mq_conf_def ex_yaml_cf_def ex_queue_spec Let_def)
  moreover have "cf_Template mem_cf ex_queue = Inr fmempty" by (simp add: mem_cf_def)
  ultimately show ?thesis
    unfolding ex_rendered_def
    by (simp add: milvus_conf_def run_op_bind ex_queue_spec getMinioAccessInfo_def mq_conf_def Let_def split: prod.splits) (metis sum.case(2))
qed

lemma ex_config_map: "\<exists>cm. run_state (updateConfigMap ex_yaml_cf ex_queue (new_ConfigMap ''ns'' ''mc'')) (ex_cmem ex_queue [] [] []) =
    (Inr cm, ex_cmem ex_queue [] [] []) \<and> fmget (cm_Data cm) UserYaml = ''user''"
proof -
  have "cf_YamlMarshal ex_yaml_cf ex_rendered = Inr ''user''" "cf_r ex_yaml_cf = mem_r" by (simp_all add: ex_yaml_cf_def mem_cf_def)
  moreover obtain os where "cli_SetControllerReference (rc_cli (mem_r :: cmem Reconciler)) ex_queue (om_OwnerReferences (new_ConfigMap ''ns'' ''mc'')) = Inr os"
    by (simp add: mem_r_def mem_cli_def)
  ultimately show ?thesis
    by (simp add: updateConfigMap_def run_op_bind ex_queue_run hook_conf_def ex_queue_spec fmget_def)
qed

theorem pod_config_selects_queue_witness:
  "queue_selected MsgStreamTypePulsar ex_merged \<and> read_path ex_merged [''pulsar'', ''address''] = Some (JStr ''p'') \<and>
   read_path ex_merged [''pulsar'', ''port''] = Some (JInt 6650) \<and> read_path ex_merged [''etcd'', ''endpoints''] = Some (JArr [JStr ''e:2379'']) \<and>
   run_state (merge_files ex_files ''/user.yaml'' ''/milvus.yaml'') () = (Inr (), ())"
proof -
  obtain cm where cm: "run_state (updateConfigMap ex_yaml_cf ex_queue (new_ConfigMap ''ns'' ''mc'')) (ex_cmem ex_queue [] [] []) =
      (Inr cm, ex_cmem ex_queue [] [] [])" "fmget (cm_Data cm) UserYaml = ''user''"
    using ex_config_map by blast
  have "cf_E ex_yaml_cf = cf_E mem_cf" by (simp add: ex_yaml_cf_def)
  then have env: "values_env (cf_E ex_yaml_cf)" using mv.values_env_axioms by simp
  have custom: "dep_MsgStreamType (ms_Dep (m_Spec ex_queue)) \<noteq> MsgStreamTypeCustom" by (simp add: ex_queue_spec)
  have paths: "writable p fmempty \<and> writable p (Values_Data (ms_Conf (m_Spec ex_queue)))" for p
    by (cases p) (simp_all add: ex_queue_spec writable_def)
  have yaml: "fs_asValues ex_files y = Inr (Some d)" if "cf_YamlMarshal ex_yaml_cf d = Inr y \<or> fs_Marshal ex_files d = Inr y" for d y
    using that by (auto simp: ex_yaml_cf_def ex_files_def split: if_splits)
  have reads: "run_state (fs_ReadFile ex_files ''/user.yaml'') () = (Inr (fmget (cm_Data cm) UserYaml), ())"
    "run_state (readYaml ex_files ''/milvus.yaml'') () = (Inr (Some ex_image), ())"
    by (simp_all add: ex_files_def cm(2) readYaml_def run_op_bind)
  from pod_config_selects_queue [OF env cm(1) custom ex_queue_spec(5) paths yaml reads]
  obtain final where final: "queue_selected MsgStreamTypePulsar final" "addresses_set ex_yaml_cf ex_queue final"
    "case fs_Marshal ex_files final of
       Inl e \<Rightarrow> run_state (merge_files ex_files ''/user.yaml'' ''/milvus.yaml'') () = (Inl e, ())
     | Inr text \<Rightarrow> run_state (merge_files ex_files ''/user.yaml'' ''/milvus.yaml'') () = run_state (fs_WriteFile ex_files ''/milvus.yaml'' text 420) () \<and>
         fs_asValues ex_files text = Inr (Some final)"
    unfolding ex_queue_spec(1) by blast
  have "final = ex_merged"
  proof (rule ccontr)
    assume "final \<noteq> ex_merged"
    then have "run_state (merge_files ex_files ''/user.yaml'' ''/milvus.yaml'') () = (Inl (Errorf ''yaml''), ())"
      using final(3) by (simp add: ex_files_def)
    moreover have "run_state (readYaml ex_files ''/user.yaml'') () = (Inr (Some ex_rendered), ())"
      by (simp add: readYaml_def run_op_bind ex_files_def)
    moreover have "run_state (fs_WriteFile ex_files ''/milvus.yaml'' t 420) () = (Inr (), ())" "fs_Marshal ex_files ex_merged = Inr ''merged''" for t
      by (simp_all add: ex_files_def)
    ultimately show False
      using reads(2) by (cases "merge_documents ex_rendered ex_image") (simp_all add: merge_files_def run_op_bind ex_merged_def Values_Data_def)
  qed
  then show ?thesis
    using final by (simp add: addresses_set_def Let_def ex_queue_spec ex_files_def)
qed

end
