(* ===== verification/Cache_Types.thy ===== *)
theory Cache_Types
  imports Status_Correct
begin

text \<open>
  The cache of the probes is untyped: locks and conditions share it, and reading one as the other panics.  Keys
  keep them apart.
\<close>

definition is_lock_key :: "string \<Rightarrow> bool" where
  "is_lock_key k \<longleftrightarrow> has_suffix k ''_probe_lock''"

definition cache_typed :: "probe_cache \<Rightarrow> bool" where
  "cache_typed cache \<longleftrightarrow> (\<forall>k item. fmlookup cache k = Some item \<longrightarrow> (is_lock_key k \<longleftrightarrow> (\<exists>n. item = LockItem n)))"

lemma lock_key_is_lock [simp]: "is_lock_key (lock_key eps)"
  by (auto simp: is_lock_key_def lock_key_def has_suffix_iff)

lemma typed_lookup:
  "cache_typed c \<Longrightarrow> is_lock_key k \<Longrightarrow> fmlookup c k \<noteq> Some (ConditionItem v)"
  "cache_typed c \<Longrightarrow> \<not> is_lock_key k \<Longrightarrow> fmlookup c k \<noteq> Some (LockItem n)"
  by (auto simp: cache_typed_def)

lemma typed_update [simp]:
  "cache_typed c \<Longrightarrow> is_lock_key k \<Longrightarrow> cache_typed (fmupd k (LockItem n) c)"
  "cache_typed c \<Longrightarrow> \<not> is_lock_key k \<Longrightarrow> cache_typed (fmupd k (ConditionItem v) c)"
  by (auto simp: cache_typed_def)

text \<open>Every operation of the cache succeeds on a typed cache and keeps it typed.\<close>

lemma typed_operations:
  assumes "cache_typed c"
  shows "\<exists>b c'. TryStartProbeFor eps c = Some (b, c') \<and> cache_typed c'" "\<exists>c'. EndProbeFor eps c = Some c' \<and> cache_typed c'"
    and "\<not> is_lock_key (strSliceAsKey eps) \<Longrightarrow> \<exists>v. cache_Get eps c = Some v"
    and "\<not> is_lock_key (strSliceAsKey eps) \<Longrightarrow> cache_typed (cache_Set eps v c)"
  using assms typed_lookup(1) [OF assms, of "lock_key eps"] typed_lookup(2) [OF assms, of "strSliceAsKey eps"]
  by (auto simp: TryStartProbeFor_def EndProbeFor_def cache_Get_def cache_Set_def split: option.splits cache_item.splits)

lemma wp_on_cache:
  assumes "\<And>c v. pb_cache p (pb_set_cache p c v) = c" "f (pb_cache p w) = Some (a, c)" "cache_typed c"
    and "\<And>v. cache_typed (pb_cache p v) \<Longrightarrow> Q (Inr a) v"
  shows "wp (on_cache p f) w Q"
  using assms by (simp add: on_cache_def)

text \<open>The pieces of one round of \<open>GetCondition\<close>: ending a probe, running the getter and keeping what it found, looking the condition up.\<close>

abbreviation typed_result :: "'w Prober \<Rightarrow> go_error + 'a \<Rightarrow> 'w \<Rightarrow> bool" where
  "typed_result p res w \<equiv> cache_typed (pb_cache p w) \<and> res \<noteq> Inl (GoPanic ''interface conversion'')"

lemma wp_end_typed:
  assumes "\<And>c v. pb_cache p (pb_set_cache p c v) = c" "typed_result p r w"
  shows "wp (op_bind (end_probe p eps) (\<lambda>_. lift_result r)) w (typed_result p)"
proof -
  obtain c where c: "EndProbeFor eps (pb_cache p w) = Some c" "cache_typed c" using typed_operations(2) assms(2) by blast
  show ?thesis unfolding end_probe_def wp_bind
    by (rule wp_on_cache [OF assms(1) _ c(2), where a = "()"]) (use c(1) assms(2) in simp_all)
qed

lemma wp_probe_typed:
  assumes "\<And>c v. pb_cache p (pb_set_cache p c v) = c" "\<not> is_lock_key (strSliceAsKey eps)" "wp (getter (sort eps)) w (typed_result p)"
  shows "wp (op_bind (getter (sort eps)) (\<lambda>c. op_bind (set_condition p eps c) (\<lambda>_. ret (Some c)))) w (typed_result p)"
proof (rule wp_bindI [OF assms(3)])
  fix c :: MilvusCondition and u assume "typed_result p (Inr c :: go_error + MilvusCondition) u"
  then show "wp (op_bind (set_condition p eps c) (\<lambda>_. ret (Some c))) u (typed_result p)"
    unfolding set_condition_def wp_bind
    by (intro wp_on_cache [OF assms(1), where a = "()" and c = "cache_Set eps c (pb_cache p u)"]) (use typed_operations(4) assms(2) in auto)
qed simp

lemma wp_cached_typed:
  assumes "\<And>c v. pb_cache p (pb_set_cache p c v) = c" "\<not> is_lock_key (strSliceAsKey eps)" "cache_typed (pb_cache p w)"
    and "\<And>v. cache_typed (pb_cache p v) \<Longrightarrow> wp m v (typed_result p)"
  shows "wp (op_bind (cached_condition p eps) (\<lambda>found. (case found of Some c \<Rightarrow> ret (Some c) | None \<Rightarrow> m))) w (typed_result p)"
proof -
  obtain f where f: "cache_Get eps (pb_cache p w) = Some f" using typed_operations(3) assms(2,3) by blast
  show ?thesis unfolding cached_condition_def wp_bind
    by (rule wp_on_cache [OF assms(1) _ assms(3), where a = f]) (use f assms(4) in \<open>auto split: option.splits\<close>)
qed

text \<open>C30. The untyped cache of the probes is used in a typed way: as long as no joined list of endpoints ends in the suffix of the lock keys, every
  lock key holds a lock word and every other key a condition.  \<open>GetCondition\<close> keeps this for every fuel, whatever the getter
  finds and other goroutines do to a typed cache, and never panics on a conversion.\<close>

theorem probe_cache_typed:
  assumes "cache_typed (pb_cache p w)" "\<not> has_suffix (strSliceAsKey eps) ''_probe_lock''"
    and "\<And>c v. pb_cache p (pb_set_cache p c v) = c"
    and "\<And>v. cache_typed (pb_cache p v) \<Longrightarrow> cache_typed (pb_cache p (snd (run_state (pb_Sleep p) v)))"
    and "\<And>v. cache_typed (pb_cache p v) \<Longrightarrow> cache_typed (pb_cache p (snd (run_state (getter (sort eps)) v)))"
    and "\<And>v. fst (run_state (getter (sort eps)) v) \<noteq> Inl (GoPanic ''interface conversion'')"
    and "run_state (GetCondition fuel p getter eps) w = (res, w')"
  shows "cache_typed (pb_cache p w') \<and> res \<noteq> Inl (GoPanic ''interface conversion'')"
proof -
  have key: "\<not> is_lock_key (strSliceAsKey eps)" using assms(2) by (simp add: is_lock_key_def)
  have getp: "wp (getter (sort eps)) v (typed_result p)" if "cache_typed (pb_cache p v)" for v
    by (rule wpI) (metis assms(5,6) that fst_conv snd_conv)
  have "wp (GetCondition fuel p getter eps) v (typed_result p)" if "cache_typed (pb_cache p v)" for v
    using that
  proof (induction fuel arbitrary: v)
    case (Suc fuel)
    obtain b c where c: "TryStartProbeFor eps (pb_cache p v) = Some (b, c)" "cache_typed c" using typed_operations(1) [OF Suc.prems] by blast
    have run: "wp (do { res \<leftarrow> op_bind (getter (sort eps)) (\<lambda>v. op_bind (set_condition p eps v) (\<lambda>_. ret (Some v)));
        op_bind (end_probe p eps) (\<lambda>_. lift_result res) }) u (typed_result p)" if "cache_typed (pb_cache p u)" for u
      unfolding wp_state_bind by (rule wp_mono [OF wp_probe_typed [where getter = getter, OF assms(3) key getp [OF that]]]) (use wp_end_typed [OF assms(3)] in blast)
    have wait: "wp (op_bind (cached_condition p eps) (\<lambda>found. (case found of Some c \<Rightarrow> ret (Some c) | None \<Rightarrow>
        do { _ \<leftarrow> pb_Sleep p; GetCondition fuel p getter eps }))) u (typed_result p)" if "cache_typed (pb_cache p u)" for u
      by (rule wp_cached_typed [OF assms(3) key that]) (unfold wp_state_bind, rule wpI, use Suc.IH assms(4) in force)
    show ?case
      unfolding GetCondition.simps start_probe_def wp_bind [of "on_cache p (TryStartProbeFor eps)"]
      by (rule wp_on_cache [OF assms(3) _ c(2), where a = b]) (use c(1) run wait in \<open>auto simp del: wp_bind wp_state_bind\<close>)
  qed simp
  from wpD [OF this [OF assms(1)] assms(7)] show ?thesis .
qed

theorem probe_cache_typed_witness:
  "cache_typed (pb_cache ex_prober (snd (run_state (GetCondition 3 ex_prober (\<lambda>_. ret msgStreamReadyCondition) [''a:1'']) (ex_wmem ex_small [] [] [])))) \<and>
   fst (run_state (GetCondition 3 ex_prober (\<lambda>_. ret msgStreamReadyCondition) [''a:1'']) (ex_wmem ex_small [] [] [])) \<noteq> Inl (GoPanic ''interface conversion'')"
  by (rule probe_cache_typed [OF _ _ _ _ _ _ surjective_pairing])
    (simp_all add: ex_prober_def ex_wmem_def cache_typed_def strSliceAsKey_def has_suffix_def)

end
