(* ===== verification/Kafka_Client.thy ===== *)
theory Kafka_Client
  imports Helm Config_Map
begin

text \<open>
  The probe of Kafka (pkg/external/kafka.go): the settings read from the resource, the Secrets they refer to, the dialer with its TLS
  and SASL settings, and the loop over the brokers.  Cryptography and the Kafka client are records of functions and operations; the clock
  is a function of the world, so that a deadline can pass between two calls.  Strings are ASCII.
\<close>

section \<open>Strings\<close>

definition upper_char :: "char \<Rightarrow> char" where
  "upper_char c = (if 97 \<le> (of_char c :: nat) \<and> (of_char c :: nat) \<le> 122 then char_of ((of_char c :: nat) - 32) else c)"

definition ToUpper :: "string \<Rightarrow> string" where
  "ToUpper s = map upper_char s"

definition is_space :: "char \<Rightarrow> bool" where
  "is_space c \<longleftrightarrow> (of_char c :: nat) \<in> {9, 10, 11, 12, 13, 32}"

definition TrimSpace :: "string \<Rightarrow> string" where
  "TrimSpace s = rev (dropWhile is_space (rev (dropWhile is_space s)))"

definition ParseBool :: "string \<Rightarrow> bool option" where
  "ParseBool s =
     (if s \<in> {''1'', ''t'', ''T'', ''TRUE'', ''true'', ''True''} then Some True
      else if s \<in> {''0'', ''f'', ''F'', ''FALSE'', ''false'', ''False''} then Some False else None)"

definition firstNonEmpty :: "string \<Rightarrow> string \<Rightarrow> string" where
  "firstNonEmpty a b = (if a \<noteq> [] then a else b)"

section \<open>Settings\<close>

record SSLConfig =
  sc_Enabled :: bool
  sc_CACertSecret :: "SecretKeyRef option"
  sc_CertSecret :: "SecretKeyRef option"
  sc_KeySecret :: "SecretKeyRef option"
  sc_KeyPasswordSecret :: "SecretKeyRef option"

text \<open>\<open>wire\<close> is what encoding/json makes of the object: the Secret references and the raw value of \<open>enabled\<close>.\<close>

definition SSLConfig_UnmarshalJSON :: "(json \<Rightarrow> go_error + SSLConfig \<times> json option) \<Rightarrow> json \<Rightarrow> go_error + SSLConfig" where
  "SSLConfig_UnmarshalJSON wire data =
     (case wire data of
        Inl e \<Rightarrow> Inl e
      | Inr (decoded, enabled) \<Rightarrow>
          (case enabled of
             None \<Rightarrow> Inr decoded
           | Some JNull \<Rightarrow> Inr decoded
           | Some (JBool b) \<Rightarrow> Inr (decoded\<lparr>sc_Enabled := b\<rparr>)
           | Some (JStr v) \<Rightarrow>
               (case ParseBool v of
                  None \<Rightarrow> Inl (Errorf (''invalid kafka.ssl.enabled: '' @ v))
                | Some b \<Rightarrow> Inr (decoded\<lparr>sc_Enabled := b\<rparr>))
           | Some _ \<Rightarrow> Inl (Errorf ''invalid kafka.ssl.enabled'')))"

record 'w CheckKafkaConfig =
  ck_SecretReader :: "(string \<Rightarrow> string \<Rightarrow> string \<Rightarrow> ('w, string) op) option"
  ck_CACert :: string
  ck_Namespace :: string
  ck_BrokerList :: "string list"
  ck_SecurityProtocol :: string
  ck_SASLMechanisms :: string
  ck_SASLUsername :: string
  ck_SASLPassword :: string
  ck_SASLUsernameSecret :: "SecretKeyRef option"
  ck_SASLPasswordSecret :: "SecretKeyRef option"
  ck_SSL :: SSLConfig

definition zero_CheckKafkaConfig :: "'w CheckKafkaConfig" where
  "zero_CheckKafkaConfig = \<lparr>ck_SecretReader = None, ck_CACert = [], ck_Namespace = [], ck_BrokerList = [], ck_SecurityProtocol = [],
     ck_SASLMechanisms = [], ck_SASLUsername = [], ck_SASLPassword = [], ck_SASLUsernameSecret = None, ck_SASLPasswordSecret = None,
     ck_SSL = \<lparr>sc_Enabled = False, sc_CACertSecret = None, sc_CertSecret = None, sc_KeySecret = None, sc_KeyPasswordSecret = None\<rparr>\<rparr>"

definition getFromSecret :: "'w CheckKafkaConfig \<Rightarrow> SecretKeyRef option \<Rightarrow> string \<Rightarrow> ('w, string) op" where
  "getFromSecret conf ref nsDefault =
     (case ref of
        None \<Rightarrow> fail (Errorf ''nil secret ref'')
      | Some ref \<Rightarrow>
          (case ck_SecretReader conf of
             None \<Rightarrow> fail (Errorf ''SecretReader not configured by controller'')
           | Some read \<Rightarrow>
               (let ns = (if skr_Namespace ref = [] then nsDefault else skr_Namespace ref);
                    shown = '' (ns='' @ ns @ '', name='' @ skr_Name ref @ '', key='' @ skr_Key ref @ '')'' in
                if skr_Name ref = [] \<or> skr_Key ref = [] \<or> ns = [] \<or> ns \<noteq> nsDefault
                then fail (Errorf ''Kafka Secret must have name/key and belong to the Milvus namespace'')
                else op_bind (op_wrap (''read secret'' @ shown) (read ns (skr_Name ref) (skr_Key ref))) (\<lambda>secretValue.
                  if secretValue = [] then fail (Errorf (''secret data empty'' @ shown)) else ret secretValue))))"

section \<open>Keys\<close>

record pem_block =
  pem_Type :: string
  pem_Headers :: smap
  pem_Bytes :: string

datatype private_key = RSA_Key string | ECDSA_Key string | Ed25519_Key string | Other_Key string

datatype scram_hash = SHA256 | SHA512

datatype Mechanism = Scram scram_hash string string | Plain string string

record crypto =
  cx_pemDecode :: "string \<Rightarrow> pem_block option"
  cx_pemEncode :: "pem_block \<Rightarrow> string"
  cx_decryptPKCS8 :: "string \<Rightarrow> string \<Rightarrow> go_error + private_key"
  cx_parsePKCS8 :: "string \<Rightarrow> private_key option"
  cx_parsePKCS1 :: "string \<Rightarrow> private_key option"
  cx_parseEC :: "string \<Rightarrow> private_key option"
  cx_marshalPKCS8 :: "private_key \<Rightarrow> go_error + string"
  cx_certPool :: "string \<Rightarrow> string list option"
  cx_keyPair :: "string \<Rightarrow> string \<Rightarrow> go_error + string"
  cx_scramError :: "scram_hash \<Rightarrow> string \<Rightarrow> string \<Rightarrow> go_error option"

definition pkcs8_pem :: "crypto \<Rightarrow> string \<Rightarrow> string" where
  "pkcs8_pem cx der = cx_pemEncode cx \<lparr>pem_Type = ''PRIVATE KEY'', pem_Headers = fmempty, pem_Bytes = der\<rparr>"

definition remarshal :: "crypto \<Rightarrow> string \<Rightarrow> private_key \<Rightarrow> go_error + string" where
  "remarshal cx msg k = (case wrap msg (cx_marshalPKCS8 cx k) of Inl e \<Rightarrow> Inl e | Inr der \<Rightarrow> Inr (pkcs8_pem cx der))"

definition plain_key :: "crypto \<Rightarrow> string \<Rightarrow> go_error + string" where
  "plain_key cx der =
     (case cx_parsePKCS8 cx der of
        Some (Other_Key t) \<Rightarrow> Inl (Errorf (''unsupported PKCS#8 key type '' @ t))
      | Some k \<Rightarrow> Inr (pkcs8_pem cx der)
      | None \<Rightarrow>
          (case cx_parsePKCS1 cx der of
             Some pk \<Rightarrow> remarshal cx ''marshal PKCS#8'' pk
           | None \<Rightarrow>
               (case cx_parseEC cx der of
                  Some ec \<Rightarrow> remarshal cx ''marshal PKCS#8'' ec
                | None \<Rightarrow> Inl (Errorf ''unsupported or malformed private key''))))"

definition normalizePrivateKeyPEM :: "crypto \<Rightarrow> string \<Rightarrow> string \<Rightarrow> go_error + string" where
  "normalizePrivateKeyPEM cx keyPEM password =
     (case cx_pemDecode cx keyPEM of
        None \<Rightarrow> Inl (Errorf ''no PEM block in key'')
      | Some block \<Rightarrow>
          if ToUpper (TrimSpace (pem_Type block)) = ''ENCRYPTED PRIVATE KEY'' then
            (if password = [] then Inl (Errorf ''encrypted PKCS#8 key provided but password is empty'')
             else (case wrap ''unable to parse encrypted PKCS#8 key'' (cx_decryptPKCS8 cx (pem_Bytes block) password) of
                     Inl e \<Rightarrow> Inl e
                   | Inr priv \<Rightarrow> remarshal cx ''unable to marshal PKCS#8'' priv))
          else if fmlookup (pem_Headers block) ''Proc-Type'' \<noteq> None \<or> contains (ToUpper keyPEM) ''DEK-INFO:''
          then Inl (Errorf ''legacy PEM encryption is not supported; supply unencrypted PKCS#8 or PBES2-encrypted PKCS#8'')
          else plain_key cx (pem_Bytes block))"

section \<open>The dialer\<close>

record tls_config =
  tc_RootCAs :: "string list option"
  tc_Certificates :: "string list"

record Dialer =
  kd_TLS :: "tls_config option"
  kd_SASLMechanism :: "Mechanism option"
  kd_Timeout :: nat
  kd_DualStack :: bool

definition DependencyCheckTimeout :: nat where
  "DependencyCheckTimeout = 5"

definition root_cas :: "crypto \<Rightarrow> 'w CheckKafkaConfig \<Rightarrow> ('w, string list option) op" where
  "root_cas cx conf =
     (case sc_CACertSecret (ck_SSL conf) of
        None \<Rightarrow>
          if ck_CACert conf = [] then ret None
          else (case cx_certPool cx (ck_CACert conf) of
                  None \<Rightarrow> fail (Errorf ''no certificate found in kafka CA cert'')
                | Some pool \<Rightarrow> ret (Some pool))
      | Some ref \<Rightarrow>
          op_bind (op_wrap (''read CA cert (ns='' @ firstNonEmpty (skr_Namespace ref) (ck_Namespace conf) @ '', name='' @ skr_Name ref @
              '', key='' @ skr_Key ref @ '')'') (getFromSecret conf (Some ref) (ck_Namespace conf))) (\<lambda>caPEM.
            (case cx_certPool cx caPEM of
               None \<Rightarrow> fail (Errorf ''append CA cert failed'')
             | Some pool \<Rightarrow> ret (Some pool))))"

text \<open>Without a password a key that cannot be normalized is used as it is.\<close>

definition client_key :: "crypto \<Rightarrow> string \<Rightarrow> string \<Rightarrow> go_error + string" where
  "client_key cx keyPEM pw =
     (if pw \<noteq> [] then wrap ''normalize private key'' (normalizePrivateKeyPEM cx keyPEM pw)
      else (case normalizePrivateKeyPEM cx keyPEM [] of Inr norm \<Rightarrow> Inr norm | Inl _ \<Rightarrow> Inr keyPEM))"

definition client_certificates :: "crypto \<Rightarrow> 'w CheckKafkaConfig \<Rightarrow> ('w, string list) op" where
  "client_certificates cx conf =
     (let ssl = ck_SSL conf; secret = (\<lambda>ref. getFromSecret conf ref (ck_Namespace conf)) in
      if (sc_CertSecret ssl = None) \<noteq> (sc_KeySecret ssl = None)
      then fail (Errorf ''client certificate and key Secret refs must be configured together'')
      else if sc_CertSecret ssl = None then ret []
      else op_bind (op_wrap ''read client cert'' (secret (sc_CertSecret ssl))) (\<lambda>certPEM.
           op_bind (op_wrap ''read client key'' (secret (sc_KeySecret ssl))) (\<lambda>keyPEM.
           op_bind (if sc_KeyPasswordSecret ssl = None then ret []
                    else op_wrap ''read client key password'' (secret (sc_KeyPasswordSecret ssl))) (\<lambda>pw.
           op_bind (lift_result (client_key cx keyPEM pw)) (\<lambda>key.
           op_bind (lift_result (wrap ''x509 key pair'' (cx_keyPair cx certPEM key))) (\<lambda>pair. ret [pair]))))))"

definition credential :: "'w CheckKafkaConfig \<Rightarrow> string \<Rightarrow> SecretKeyRef option \<Rightarrow> string \<Rightarrow> ('w, string) op" where
  "credential conf msg ref literal =
     (if ref = None then ret literal else op_wrap msg (getFromSecret conf ref (ck_Namespace conf)))"

definition scram_mechanism :: "crypto \<Rightarrow> scram_hash \<Rightarrow> string \<Rightarrow> string \<Rightarrow> string \<Rightarrow> go_error + Mechanism" where
  "scram_mechanism cx hash name user pass =
     (if user = [] \<or> pass = [] then Inl (Errorf (name @ '' requires non-empty username/password''))
      else (case cx_scramError cx hash user pass of Some e \<Rightarrow> Inl e | None \<Rightarrow> Inr (Scram hash user pass)))"

definition sasl_mechanism :: "crypto \<Rightarrow> string \<Rightarrow> string \<Rightarrow> string \<Rightarrow> go_error + Mechanism" where
  "sasl_mechanism cx mechanisms user pass =
     (let saslMechanism = ToUpper (TrimSpace mechanisms) in
      if saslMechanism = ''SCRAM-SHA-256'' then scram_mechanism cx SHA256 ''SCRAM-SHA-256'' user pass
      else if saslMechanism = ''SCRAM-SHA-512'' then scram_mechanism cx SHA512 ''SCRAM-SHA-512'' user pass
      else if saslMechanism = [] \<or> saslMechanism = ''PLAIN'' then Inr (Plain user pass)
      else Inl (Errorf (''unsupported SASL mechanism: '' @ mechanisms)))"

definition dialer_tls :: "crypto \<Rightarrow> 'w CheckKafkaConfig \<Rightarrow> ('w, tls_config) op" where
  "dialer_tls cx conf =
     op_bind (root_cas cx conf) (\<lambda>cas.
     op_bind (client_certificates cx conf) (\<lambda>certs.
     ret \<lparr>tc_RootCAs = cas, tc_Certificates = certs\<rparr>))"

definition dialer_sasl :: "crypto \<Rightarrow> 'w CheckKafkaConfig \<Rightarrow> ('w, Mechanism) op" where
  "dialer_sasl cx conf =
     op_bind (credential conf ''read SASL username'' (ck_SASLUsernameSecret conf) (ck_SASLUsername conf)) (\<lambda>user.
     op_bind (credential conf ''read SASL password'' (ck_SASLPasswordSecret conf) (ck_SASLPassword conf)) (\<lambda>pass.
     lift_result (sasl_mechanism cx (ck_SASLMechanisms conf) user pass)))"

definition when_op :: "bool \<Rightarrow> ('w, 'a) op \<Rightarrow> ('w, 'a option) op" where
  "when_op b m = (if b then op_bind m (\<lambda>a. ret (Some a)) else ret None)"

definition GetKafkaDialer :: "crypto \<Rightarrow> 'w CheckKafkaConfig \<Rightarrow> ('w, Dialer) op" where
  "GetKafkaDialer cx conf =
     (let protocol = ToUpper (TrimSpace (ck_SecurityProtocol conf));
          useTLS = (protocol = ''SSL'' \<or> protocol = ''SASL_SSL'');
          useSASL = (protocol = ''SASL_PLAINTEXT'' \<or> protocol = ''SASL_SSL'') in
      op_bind (when_op useTLS (dialer_tls cx conf)) (\<lambda>tls.
      op_bind (when_op useSASL (dialer_sasl cx conf)) (\<lambda>mech.
      if protocol \<in> {[], ''PLAINTEXT'', ''SSL'', ''SASL_PLAINTEXT'', ''SASL_SSL''}
      then ret \<lparr>kd_TLS = tls, kd_SASLMechanism = mech, kd_Timeout = 3 * DependencyCheckTimeout, kd_DualStack = True\<rparr>
      else fail (Errorf (''unsupported security protocol: '' @ ck_SecurityProtocol conf)))))"

section \<open>The probe\<close>

text \<open>\<open>kn_DialContext\<close> gets the deadline of the context; a connection is a number.\<close>

record 'w kafka_net =
  kn_cx :: crypto
  kn_now :: "'w \<Rightarrow> nat"
  kn_Sleep :: "('w, unit) state"
  kn_maxRetry :: nat
  kn_DialContext :: "Dialer \<Rightarrow> nat \<Rightarrow> string \<Rightarrow> ('w, nat) op"
  kn_SetDeadline :: "nat \<Rightarrow> nat \<Rightarrow> ('w, unit) op"
  kn_ApiVersions :: "nat \<Rightarrow> ('w, unit) op"
  kn_Close :: "nat \<Rightarrow> ('w, unit) state"
  kn_wire :: "json \<Rightarrow> go_error + SSLConfig \<times> json option"
  kn_decode :: "(json \<Rightarrow> go_error + SSLConfig) \<Rightarrow> values_map \<Rightarrow> 'w CheckKafkaConfig \<Rightarrow> go_error + 'w CheckKafkaConfig"

definition checkKafkaBroker :: "'w kafka_net \<Rightarrow> nat \<Rightarrow> Dialer \<Rightarrow> string \<Rightarrow> ('w, unit) op" where
  "checkKafkaBroker kn deadline dialer broker =
     op_bind (op_wrap (''dial broker['' @ broker @ '']'') (kn_DialContext kn dialer deadline broker)) (\<lambda>conn. do {
       res \<leftarrow> op_bind (op_wrap (''set deadline on broker['' @ broker @ '']'') (kn_SetDeadline kn conn deadline)) (\<lambda>_.
                op_wrap (''probe broker['' @ broker @ '']'') (kn_ApiVersions kn conn));
       _ \<leftarrow> kn_Close kn conn;
       lift_result res })"

fun check_brokers :: "'w kafka_net \<Rightarrow> nat \<Rightarrow> Dialer \<Rightarrow> go_error list \<Rightarrow> string list \<Rightarrow> ('w, unit) op" where
  "check_brokers kn deadline dialer errs [] = fail (Errorf (join_with [CHR 0x0A] (map error_text errs)))"
| "check_brokers kn deadline dialer errs (broker # brokers) = do {
     res \<leftarrow> checkKafkaBroker kn deadline dialer broker;
     (case res of
        Inr _ \<Rightarrow> ret ()
      | Inl e \<Rightarrow> check_brokers kn deadline dialer (errs @ [e]) brokers) }"

definition check_kafka_once :: "'w kafka_net \<Rightarrow> Dialer \<Rightarrow> string list \<Rightarrow> ('w, unit) op" where
  "check_kafka_once kn dialer brokers = do {
     now \<leftarrow> State (\<lambda>w. (kn_now kn w, w));
     check_brokers kn (now + DependencyCheckTimeout) dialer [] brokers }"

definition CheckKafka :: "'w kafka_net \<Rightarrow> 'w CheckKafkaConfig \<Rightarrow> ('w, unit) op" where
  "CheckKafka kn conf =
     (if ck_BrokerList conf = [] then fail (Errorf ''broker list is empty'')
      else op_bind (op_wrap ''get kafka dialer failed'' (GetKafkaDialer (kn_cx kn) conf)) (\<lambda>dialer.
        DoWithBackoff ''checkKafka'' (kn_maxRetry kn) (kn_Sleep kn) (check_kafka_once kn dialer (ck_BrokerList conf))))"

section \<open>From the resource to the probe\<close>

definition GetKafkaConfFromCR :: "'w kafka_net \<Rightarrow> Milvus \<Rightarrow> go_error + 'w CheckKafkaConfig" where
  "GetKafkaConfFromCR kn mc =
     (let kafkaConf = zero_CheckKafkaConfig\<lparr>ck_Namespace := om_Namespace mc\<rparr> in
      case fmlookup (Values_Data (ms_Conf (m_Spec mc))) ''kafka'' of
        None \<Rightarrow> Inr kafkaConf
      | Some (JObj data) \<Rightarrow> wrap ''decode kafka config failed'' (kn_decode kn (SSLConfig_UnmarshalJSON (kn_wire kn)) data kafkaConf)
      | Some _ \<Rightarrow> Inl (Errorf ''kafka config must be an object''))"

text \<open>What \<open>GetMsgStreamCondition\<close> adds to the settings: the Secret of the dependency, the reader of Secrets and the brokers.\<close>

definition probe_config :: "'w Reconciler \<Rightarrow> Milvus \<Rightarrow> (string \<times> string \<times> string) option \<Rightarrow> 'w CheckKafkaConfig \<Rightarrow> 'w CheckKafkaConfig" where
  "probe_config r mc creds conf =
     (let conf = (case creds of
                    None \<Rightarrow> conf
                  | Some (user, pass, ca) \<Rightarrow> conf\<lparr>ck_SASLUsername := user, ck_SASLPassword := pass, ck_CACert := ca\<rparr>) in
      conf\<lparr>ck_SecretReader := Some (kafkaSecretReader r), ck_BrokerList := kaf_BrokerList (dep_Kafka (ms_Dep (m_Spec mc)))\<rparr>)"

definition kafka_probe :: "'w kafka_net \<Rightarrow> 'w Reconciler \<Rightarrow> Milvus \<Rightarrow> (string \<times> string \<times> string) option \<Rightarrow> ('w, unit) op" where
  "kafka_probe kn r mc creds =
     op_bind (lift_result (GetKafkaConfFromCR kn mc)) (\<lambda>conf. CheckKafka kn (probe_config r mc creds conf))"

text \<open>The prober of the status syncer with this probe in the place of the parameters.\<close>

definition with_kafka :: "'w kafka_net \<Rightarrow> 'w Prober \<Rightarrow> 'w Prober" where
  "with_kafka kn p = p\<lparr>pb_checkKafka := kafka_probe kn (pb_r p),
     pb_decodeKafka := (\<lambda>data. case kn_decode kn (SSLConfig_UnmarshalJSON (kn_wire kn)) data zero_CheckKafkaConfig of
        Inl e \<Rightarrow> Some e | Inr _ \<Rightarrow> None)\<rparr>"

end
