(* ===== verification/Kafka_Correct.thy ===== *)
theory Kafka_Correct
  imports Kafka_Client Op_Logic Health_Correct
begin

text \<open>
  What the probe of Kafka promises: the dialer has exactly the protection the security protocol asks for, and its credentials and
  certificates come from the Secrets that are referred to, never from a fallback; Secrets of other namespaces do not matter; one broker that
  answers makes the queue ready, but a broker that hangs uses up the time of all brokers after it.
\<close>

section \<open>Secrets\<close>

text \<open>\<open>x\<close> was read from the Secret \<open>ref\<close> in the namespace of the instance, which the reference names or leaves open.\<close>

definition secret_value :: "'w CheckKafkaConfig \<Rightarrow> SecretKeyRef option \<Rightarrow> string \<Rightarrow> bool" where
  "secret_value conf ref x \<longleftrightarrow> (\<exists>r read v v'. ref = Some r \<and> ck_SecretReader conf = Some read \<and> x \<noteq> [] \<and>
     skr_Namespace r \<in> {[], ck_Namespace conf} \<and>
     run_state (read (ck_Namespace conf) (skr_Name r) (skr_Key r)) v = (Inr x, v'))"

lemma wp_getFromSecret:
  assumes "\<And>e v. Q (Inl e) v" "\<And>x v. secret_value conf ref x \<Longrightarrow> Q (Inr x) v"
  shows "wp (getFromSecret conf ref (ck_Namespace conf)) w Q"
proof (cases "\<exists>r read. ref = Some r \<and> ck_SecretReader conf = Some read")
  case True
  then obtain r read where "ref = Some r" "ck_SecretReader conf = Some read" by blast
  moreover from this have "secret_value conf ref x"
    if "run_state (read (ck_Namespace conf) (skr_Name r) (skr_Key r)) v = (Inr x, v')" "x \<noteq> []" "skr_Namespace r \<in> {[], ck_Namespace conf}" for x v v'
    using that unfolding secret_value_def by blast
  ultimately show ?thesis using assms
    by (auto simp: getFromSecret_def Let_def split: sum.splits intro!: wpI)
qed (use assms in \<open>auto simp: getFromSecret_def split: option.splits\<close>)

lemma wp_credential:
  assumes "\<And>e v. Q (Inl e) v" "\<And>x v. (if ref = None then x = literal else secret_value conf ref x) \<Longrightarrow> Q (Inr x) v"
  shows "wp (credential conf msg ref literal) w Q"
  using assms by (auto simp: credential_def wrap_def split: sum.splits intro!: wp_getFromSecret)

section \<open>The dialer\<close>

definition trusted_roots :: "crypto \<Rightarrow> 'w CheckKafkaConfig \<Rightarrow> string list option \<Rightarrow> bool" where
  "trusted_roots cx conf cas \<longleftrightarrow>
     (if sc_CACertSecret (ck_SSL conf) \<noteq> None
      then \<exists>pem. secret_value conf (sc_CACertSecret (ck_SSL conf)) pem \<and> cas = cx_certPool cx pem \<and> cas \<noteq> None
      else if ck_CACert conf = [] then cas = None else cas = cx_certPool cx (ck_CACert conf) \<and> cas \<noteq> None)"

definition mechanism_user :: "Mechanism \<Rightarrow> string" where
  "mechanism_user m = (case m of Scram h u p \<Rightarrow> u | Plain u p \<Rightarrow> u)"

definition mechanism_pass :: "Mechanism \<Rightarrow> string" where
  "mechanism_pass m = (case m of Scram h u p \<Rightarrow> p | Plain u p \<Rightarrow> p)"

definition is_scram :: "Mechanism \<Rightarrow> bool" where
  "is_scram m = (case m of Scram h u p \<Rightarrow> True | Plain u p \<Rightarrow> False)"

lemma wp_root_cas:
  assumes "\<And>e v. Q (Inl e) v" "\<And>cas v. trusted_roots cx conf cas \<Longrightarrow> Q (Inr cas) v"
  shows "wp (root_cas cx conf) w Q"
proof (cases "sc_CACertSecret (ck_SSL conf)")
  case None
  with assms show ?thesis by (auto simp: root_cas_def trusted_roots_def split: option.splits)
next
  case (Some ref)
  have "Q (Inr (Some pool)) v" if "secret_value conf (Some ref) pem" "cx_certPool cx pem = Some pool" for pem pool v
    by (rule assms(2)) (use Some that in \<open>auto simp: trusted_roots_def\<close>)
  with Some assms(1) show ?thesis by (auto simp: root_cas_def wrap_def split: option.splits sum.splits intro!: wp_getFromSecret)
qed

text \<open>The private key is the one of the Secret, normalized; without a password one that cannot be normalized is used as it is.\<close>

definition key_ok :: "crypto \<Rightarrow> string \<Rightarrow> string \<Rightarrow> string \<Rightarrow> bool" where
  "key_ok cx keyPEM pw key \<longleftrightarrow> normalizePrivateKeyPEM cx keyPEM pw = Inr key \<or>
     pw = [] \<and> key = keyPEM \<and> (\<exists>e. normalizePrivateKeyPEM cx keyPEM [] = Inl e)"

definition client_pair :: "crypto \<Rightarrow> 'w CheckKafkaConfig \<Rightarrow> string \<Rightarrow> bool" where
  "client_pair cx conf pair \<longleftrightarrow> (\<exists>cert keyPEM pw key.
     secret_value conf (sc_CertSecret (ck_SSL conf)) cert \<and> secret_value conf (sc_KeySecret (ck_SSL conf)) keyPEM \<and>
     (if sc_KeyPasswordSecret (ck_SSL conf) = None then pw = [] else secret_value conf (sc_KeyPasswordSecret (ck_SSL conf)) pw) \<and>
     key_ok cx keyPEM pw key \<and> cx_keyPair cx cert key = Inr pair)"

definition client_certs_ok :: "crypto \<Rightarrow> 'w CheckKafkaConfig \<Rightarrow> string list \<Rightarrow> bool" where
  "client_certs_ok cx conf certs \<longleftrightarrow>
     (if sc_CertSecret (ck_SSL conf) = None then sc_KeySecret (ck_SSL conf) = None \<and> certs = []
      else sc_KeySecret (ck_SSL conf) \<noteq> None \<and> (\<exists>pair. certs = [pair] \<and> client_pair cx conf pair))"

lemma client_key_ok: "client_key cx keyPEM pw = Inr key \<Longrightarrow> key_ok cx keyPEM pw key"
  by (auto simp: client_key_def key_ok_def wrap_def split: if_splits sum.splits)

lemma wp_key_password:
  assumes "\<And>e v. Q (Inl e) v" "\<And>pw v. (if ref = None then pw = [] else secret_value conf ref pw) \<Longrightarrow> Q (Inr pw) v"
  shows "wp (if ref = None then ret [] else op_wrap msg (getFromSecret conf ref (ck_Namespace conf))) w Q"
  using assms by (auto simp: wrap_def split: sum.splits intro!: wp_getFromSecret)

lemma wp_client_certificates:
  assumes "\<And>e v. Q (Inl e) v" "\<And>certs v. client_certs_ok cx conf certs \<Longrightarrow> Q (Inr certs) v"
  shows "wp (client_certificates cx conf) w Q"
proof -
  let ?ssl = "ck_SSL conf"
  have pair: "wp (op_bind (lift_result (client_key cx keyPEM pw)) (\<lambda>key.
      op_bind (lift_result (wrap ''x509 key pair'' (cx_keyPair cx cert key))) (\<lambda>pair. ret [pair]))) v Q"
    if "sc_CertSecret ?ssl \<noteq> None" "sc_KeySecret ?ssl \<noteq> None" "secret_value conf (sc_CertSecret ?ssl) cert" "secret_value conf (sc_KeySecret ?ssl) keyPEM"
      "if sc_KeyPasswordSecret ?ssl = None then pw = [] else secret_value conf (sc_KeyPasswordSecret ?ssl) pw" for cert keyPEM pw v
  proof (cases "client_key cx keyPEM pw")
    case (Inr key)
    have "client_certs_ok cx conf [pair]" if "cx_keyPair cx cert key = Inr pair" for pair
      unfolding client_certs_ok_def client_pair_def if_not_P [OF \<open>sc_CertSecret ?ssl \<noteq> None\<close>]
      using \<open>sc_KeySecret ?ssl \<noteq> None\<close> client_key_ok [OF Inr] \<open>secret_value conf (sc_CertSecret ?ssl) cert\<close>
        \<open>secret_value conf (sc_KeySecret ?ssl) keyPEM\<close> that
        \<open>if sc_KeyPasswordSecret ?ssl = None then pw = [] else secret_value conf (sc_KeyPasswordSecret ?ssl) pw\<close> by blast
    with Inr assms show ?thesis by (auto simp: wrap_def split: sum.splits)
  qed (use assms in simp)
  have none: "Q (Inr []) v" if "sc_CertSecret ?ssl = None" "sc_KeySecret ?ssl = None" for v
    by (rule assms(2)) (use that in \<open>simp add: client_certs_ok_def\<close>)
  show ?thesis
  proof (cases "sc_CertSecret ?ssl = None \<or> sc_KeySecret ?ssl = None")
    case True
    then show ?thesis using assms(1) none by (auto simp: client_certificates_def Let_def)
  next
    case False
    then have both: "sc_CertSecret ?ssl \<noteq> None" "sc_KeySecret ?ssl \<noteq> None" by auto
    have start: "client_certificates cx conf =
        op_bind (op_wrap ''read client cert'' (getFromSecret conf (sc_CertSecret ?ssl) (ck_Namespace conf))) (\<lambda>certPEM.
        op_bind (op_wrap ''read client key'' (getFromSecret conf (sc_KeySecret ?ssl) (ck_Namespace conf))) (\<lambda>keyPEM.
        op_bind (if sc_KeyPasswordSecret ?ssl = None then ret []
                 else op_wrap ''read client key password'' (getFromSecret conf (sc_KeyPasswordSecret ?ssl) (ck_Namespace conf))) (\<lambda>pw.
        op_bind (lift_result (client_key cx keyPEM pw)) (\<lambda>key.
        op_bind (lift_result (wrap ''x509 key pair'' (cx_keyPair cx certPEM key))) (\<lambda>pair. ret [pair])))))"
      by (simp only: client_certificates_def Let_def both if_False simp_thms)
    show ?thesis
      unfolding start wp_bind [of "op_wrap _ _"] wp_bind [of "if _ then _ else _"] wp_wrap [of _ "getFromSecret _ _ _"]
    proof (rule wp_getFromSecret, goal_cases)
      case (2 cert v)
      show ?case
        unfolding wrap_simps sum.case
      proof (rule wp_getFromSecret, goal_cases)
        case (2 keyPEM v)
        show ?case
          unfolding wrap_simps sum.case
          by (rule wp_key_password, goal_cases)
            (simp_all only: sum.case assms(1) pair [OF both \<open>secret_value conf (sc_CertSecret ?ssl) cert\<close> \<open>secret_value conf (sc_KeySecret ?ssl) keyPEM\<close>])
      qed (simp add: assms(1))
    qed (simp add: assms(1))
  qed
qed

definition mechanism_names :: "Mechanism \<Rightarrow> string set" where
  "mechanism_names m = (case m of Scram SHA256 u p \<Rightarrow> {''SCRAM-SHA-256''} | Scram SHA512 u p \<Rightarrow> {''SCRAM-SHA-512''} | Plain u p \<Rightarrow> {[], ''PLAIN''})"

lemma sasl_mechanism_ok:
  assumes "sasl_mechanism cx mechs user pass = Inr m"
  shows "mechanism_user m = user" "mechanism_pass m = pass" "is_scram m \<Longrightarrow> user \<noteq> [] \<and> pass \<noteq> []"
    "ToUpper (TrimSpace mechs) \<in> mechanism_names m"
  using assms by (auto simp: sasl_mechanism_def scram_mechanism_def Let_def mechanism_user_def mechanism_pass_def is_scram_def
    mechanism_names_def split: if_splits option.splits)

definition sasl_ok :: "'w CheckKafkaConfig \<Rightarrow> Mechanism \<Rightarrow> bool" where
  "sasl_ok conf m \<longleftrightarrow> ToUpper (TrimSpace (ck_SASLMechanisms conf)) \<in> mechanism_names m \<and>
     (if ck_SASLUsernameSecret conf = None then mechanism_user m = ck_SASLUsername conf else secret_value conf (ck_SASLUsernameSecret conf) (mechanism_user m)) \<and>
     (if ck_SASLPasswordSecret conf = None then mechanism_pass m = ck_SASLPassword conf else secret_value conf (ck_SASLPasswordSecret conf) (mechanism_pass m)) \<and>
     (is_scram m \<longrightarrow> mechanism_user m \<noteq> [] \<and> mechanism_pass m \<noteq> [])"

lemma wp_dialer_sasl:
  assumes "\<And>e v. Q (Inl e) v" "\<And>m v. sasl_ok conf m \<Longrightarrow> Q (Inr m) v"
  shows "wp (dialer_sasl cx conf) w Q"
proof -
  have "Q (sasl_mechanism cx (ck_SASLMechanisms conf) user pass) v"
    if "if ck_SASLUsernameSecret conf = None then user = ck_SASLUsername conf else secret_value conf (ck_SASLUsernameSecret conf) user"
      "if ck_SASLPasswordSecret conf = None then pass = ck_SASLPassword conf else secret_value conf (ck_SASLPasswordSecret conf) pass" for user pass v
    using that assms sasl_mechanism_ok [of cx "ck_SASLMechanisms conf" user pass]
    by (cases "sasl_mechanism cx (ck_SASLMechanisms conf) user pass") (auto simp: sasl_ok_def)
  then show ?thesis unfolding dialer_sasl_def wp_bind
    by (intro wp_credential) (use assms(1) in \<open>auto intro!: wp_credential\<close>)
qed

definition tls_ok :: "crypto \<Rightarrow> 'w CheckKafkaConfig \<Rightarrow> tls_config \<Rightarrow> bool" where
  "tls_ok cx conf tls \<longleftrightarrow> trusted_roots cx conf (tc_RootCAs tls) \<and> client_certs_ok cx conf (tc_Certificates tls)"

lemma wp_dialer_tls:
  assumes "\<And>e v. Q (Inl e) v" "\<And>tls v. tls_ok cx conf tls \<Longrightarrow> Q (Inr tls) v"
  shows "wp (dialer_tls cx conf) w Q"
  unfolding dialer_tls_def wp_bind
  by (intro wp_root_cas) (use assms in \<open>auto simp: tls_ok_def intro!: wp_client_certificates\<close>)

lemma wp_when_op:
  assumes "\<not> b \<Longrightarrow> Q (Inr None) w" "b \<Longrightarrow> wp m w (\<lambda>r v. case r of Inl e \<Rightarrow> Q (Inl e) v | Inr a \<Rightarrow> Q (Inr (Some a)) v)"
  shows "wp (when_op b m) w Q"
  using assms by (simp add: when_op_def cong: sum.case_cong)

text \<open>C26. A dialer of the Kafka probe has exactly the protection the security protocol (up to case and blanks) asks for, and an unknown protocol
  gives none: TLS for \<open>SSL\<close> and \<open>SASL_SSL\<close>, authentication for \<open>SASL_PLAINTEXT\<close> and \<open>SASL_SSL\<close>.  A private certificate authority
  that is configured is the one that is trusted.  The client certificate, if one is configured, is made of the values of the certificate's and the key's
  own Secrets, the key decrypted with the value of the password's Secret if there is one.  The mechanism is the one the settings name; user and password
  come from the Secrets that are referred to, and from the literal settings only when there is no reference; SCRAM never runs with empty credentials.
  Every Secret is read in the namespace of the instance and has a value.\<close>

theorem kafka_dialer_protected:
  assumes "run_state (GetKafkaDialer cx conf) w = (Inr d, w')" "protocol = ToUpper (TrimSpace (ck_SecurityProtocol conf))"
  shows "protocol \<in> {[], ''PLAINTEXT'', ''SSL'', ''SASL_PLAINTEXT'', ''SASL_SSL''} \<and>
    (kd_TLS d \<noteq> None) = (protocol \<in> {''SSL'', ''SASL_SSL''}) \<and> (kd_SASLMechanism d \<noteq> None) = (protocol \<in> {''SASL_PLAINTEXT'', ''SASL_SSL''}) \<and>
    (\<forall>tls. kd_TLS d = Some tls \<longrightarrow> tls_ok cx conf tls) \<and> (\<forall>m. kd_SASLMechanism d = Some m \<longrightarrow> sasl_ok conf m)"
    (is "?ok d")
proof -
  have "wp (GetKafkaDialer cx conf) w (\<lambda>r v. \<forall>d. r = Inr d \<longrightarrow> ?ok d)"
    unfolding GetKafkaDialer_def Let_def wp_bind assms(2)
    by (intro wp_when_op) (auto intro!: wp_dialer_tls wp_dialer_sasl wp_when_op)
  from wpD [OF this assms(1)] show ?thesis by simp
qed

section \<open>Secrets of other namespaces\<close>

lemma getFromSecret_reader:
  assumes "\<And>name key. read (ck_Namespace conf) name key = read' (ck_Namespace conf) name key"
  shows "getFromSecret (conf\<lparr>ck_SecretReader := Some read\<rparr>) ref (ck_Namespace conf) =
    getFromSecret (conf\<lparr>ck_SecretReader := Some read'\<rparr>) ref (ck_Namespace conf)"
  using assms by (simp add: getFromSecret_def Let_def split: option.split)

lemma CheckKafka_reader:
  assumes "\<And>name key. read (ck_Namespace conf) name key = read' (ck_Namespace conf) name key"
  shows "CheckKafka kn (conf\<lparr>ck_SecretReader := Some read\<rparr>) = CheckKafka kn (conf\<lparr>ck_SecretReader := Some read'\<rparr>)"
proof -
  note eq = getFromSecret_reader [of read conf read', OF assms]
  have "dialer_tls cx (conf\<lparr>ck_SecretReader := Some read\<rparr>) = dialer_tls cx (conf\<lparr>ck_SecretReader := Some read'\<rparr>)" for cx
    by (simp add: dialer_tls_def root_cas_def client_certificates_def eq cong: option.case_cong)
  moreover have "dialer_sasl cx (conf\<lparr>ck_SecretReader := Some read\<rparr>) = dialer_sasl cx (conf\<lparr>ck_SecretReader := Some read'\<rparr>)" for cx
    by (simp add: dialer_sasl_def credential_def eq)
  ultimately show ?thesis by (simp add: CheckKafka_def GetKafkaDialer_def Let_def cong: if_cong)
qed

lemma kafka_probe_secrets:
  assumes "\<And>name. rc_GetSecret r' (om_Namespace mc) name = rc_GetSecret r (om_Namespace mc) name"
    and "\<And>f data c c'. kn_decode kn f data c = Inr c' \<Longrightarrow> ck_Namespace c' = ck_Namespace c"
  shows "kafka_probe kn r' mc creds = kafka_probe kn r mc creds"
proof -
  have "CheckKafka kn (probe_config r' mc creds conf) = CheckKafka kn (probe_config r mc creds conf)" if "GetKafkaConfFromCR kn mc = Inr conf" for conf
  proof -
    have "ck_Namespace conf = om_Namespace mc"
      using that assms(2) by (auto simp: GetKafkaConfFromCR_def Let_def split: option.splits json.splits)
    then have "ck_Namespace (probe_config r mc creds conf) = om_Namespace mc"
      by (auto simp: probe_config_def Let_def split: option.split)
    then have "CheckKafka kn ((probe_config r mc creds conf)\<lparr>ck_SecretReader := Some (kafkaSecretReader r')\<rparr>) =
        CheckKafka kn ((probe_config r mc creds conf)\<lparr>ck_SecretReader := Some (kafkaSecretReader r)\<rparr>)"
      by (intro CheckKafka_reader) (simp add: kafkaSecretReader_def assms(1))
    moreover have "(probe_config r mc creds conf)\<lparr>ck_SecretReader := Some (kafkaSecretReader q)\<rparr> = probe_config q mc creds conf" for q
      by (auto simp: probe_config_def Let_def split: option.split)
    ultimately show ?thesis by simp
  qed
  then show ?thesis unfolding kafka_probe_def by (cases "GetKafkaConfFromCR kn mc") (simp_all add: op_bind_def lift_result_def)
qed

lemma GetCondition_cache:
  assumes "pb_cache p' = pb_cache p" "pb_set_cache p' = pb_set_cache p" "pb_Sleep p' = pb_Sleep p"
  shows "GetCondition fuel p' getter eps = GetCondition fuel p getter eps"
proof (induction fuel)
  case (Suc fuel)
  have "on_cache p' = (on_cache p :: (probe_cache \<Rightarrow> ('b \<times> probe_cache) option) \<Rightarrow> _)"
    by (simp add: on_cache_def [abs_def] assms cong: option.case_cong)
  then show ?case
    by (simp add: start_probe_def end_probe_def cached_condition_def set_condition_def on_cache_def assms Suc cong: option.case_cong if_cong)
qed simp

text \<open>C27. What the syncer reports for an instance on Kafka depends only on Secrets of the namespace of the instance: with any other contents of all
  other namespaces the probe does the same and gives the same condition, whatever references the configuration has.\<close>

theorem kafka_status_own_secrets:
  assumes "dep_MsgStreamType (ms_Dep (m_Spec mc)) = MsgStreamTypeKafka"
    and "\<And>name. g (om_Namespace mc) name = rc_GetSecret (pb_r p) (om_Namespace mc) name"
    and "\<And>f data c c'. kn_decode kn f data c = Inr c' \<Longrightarrow> ck_Namespace c' = ck_Namespace c"
  shows "syncer_GetMsgStreamCondition fuel (with_kafka kn (p\<lparr>pb_r := (pb_r p)\<lparr>rc_GetSecret := g\<rparr>\<rparr>)) mc =
    syncer_GetMsgStreamCondition fuel (with_kafka kn p) mc"
proof -
  let ?p = "with_kafka kn p" and ?p' = "with_kafka kn (p\<lparr>pb_r := (pb_r p)\<lparr>rc_GetSecret := g\<rparr>\<rparr>)"
  have "GetKafkaCondition ?p' mc creds = GetKafkaCondition ?p mc creds" for creds
    using kafka_probe_secrets [of "(pb_r p)\<lparr>rc_GetSecret := g\<rparr>" mc "pb_r p" kn creds] assms(2,3)
    by (simp add: GetKafkaCondition_def with_kafka_def)
  moreover have "GetCondition fuel ?p' getter eps = GetCondition fuel ?p getter eps" for getter eps
    by (rule GetCondition_cache) (simp_all add: with_kafka_def)
  moreover have "getKafkaSecret (pb_r ?p') mc = getKafkaSecret (pb_r ?p) mc"
    using assms(2) by (simp add: getKafkaSecret_def with_kafka_def Let_def)
  moreover have "kafka_conf_error ?p' mc = kafka_conf_error ?p mc"
    by (simp add: kafka_conf_error_def with_kafka_def split: option.split json.split)
  ultimately show ?thesis using assms(1)
    by (simp add: syncer_GetMsgStreamCondition_def Let_def cong: option.case_cong sum.case_cong)
qed

section \<open>The brokers\<close>

text \<open>A broker answered: within one attempt, whose deadline counts from its start, a connection was opened with the dialer, was given that
  deadline, and the request for the API versions was answered over it.  A broker that is up does so whenever the deadline is not over; one
  that is down refuses the connection without taking time.\<close>

definition broker_answered :: "'w kafka_net \<Rightarrow> Dialer \<Rightarrow> string \<Rightarrow> bool" where
  "broker_answered kn d b \<longleftrightarrow> (\<exists>start conn v v1 v2 v3. let deadline = kn_now kn start + DependencyCheckTimeout in
     run_state (kn_DialContext kn d deadline b) v = (Inr conn, v1) \<and> run_state (kn_SetDeadline kn conn deadline) v1 = (Inr (), v2) \<and>
     run_state (kn_ApiVersions kn conn) v2 = (Inr (), v3))"

definition broker_up :: "'w kafka_net \<Rightarrow> Dialer \<Rightarrow> string \<Rightarrow> bool" where
  "broker_up kn d b \<longleftrightarrow> (\<forall>deadline v. kn_now kn v < deadline \<longrightarrow> (\<exists>conn v1 v2 v3.
     run_state (kn_DialContext kn d deadline b) v = (Inr conn, v1) \<and> run_state (kn_SetDeadline kn conn deadline) v1 = (Inr (), v2) \<and>
     run_state (kn_ApiVersions kn conn) v2 = (Inr (), v3)))"

definition broker_down :: "'w kafka_net \<Rightarrow> Dialer \<Rightarrow> string \<Rightarrow> bool" where
  "broker_down kn d b \<longleftrightarrow> (\<forall>deadline v. \<exists>e v'. run_state (kn_DialContext kn d deadline b) v = (Inl e, v') \<and> kn_now kn v' = kn_now kn v)"

lemma checkKafkaBroker_ok_iff:
  "(\<exists>v'. run_state (checkKafkaBroker kn dl d b) v = (Inr (), v')) \<longleftrightarrow> (\<exists>conn v1 v2 v3.
     run_state (kn_DialContext kn d dl b) v = (Inr conn, v1) \<and> run_state (kn_SetDeadline kn conn dl) v1 = (Inr (), v2) \<and>
     run_state (kn_ApiVersions kn conn) v2 = (Inr (), v3))"
  by (auto simp: checkKafkaBroker_def run_op_bind run_op_wrap split: sum.splits prod.splits)

lemma check_brokers_answered:
  "run_state (check_brokers kn (kn_now kn start + DependencyCheckTimeout) d errs brokers) w = (Inr u, w') \<Longrightarrow> \<exists>b \<in> set brokers. broker_answered kn d b"
proof (induction brokers arbitrary: errs w)
  case (Cons b brokers)
  obtain res v where run: "run_state (checkKafkaBroker kn (kn_now kn start + DependencyCheckTimeout) d b) w = (res, v)" by fastforce
  show ?case
  proof (cases res)
    case (Inr r)
    with run have "\<exists>v'. run_state (checkKafkaBroker kn (kn_now kn start + DependencyCheckTimeout) d b) w = (Inr (), v')" by simp
    then have "broker_answered kn d b"
      unfolding checkKafkaBroker_ok_iff broker_answered_def Let_def by blast
    then show ?thesis by simp
  qed (use Cons run in auto)
qed simp

lemma broker_down_fails:
  assumes "broker_down kn d b"
  shows "\<exists>e v'. run_state (checkKafkaBroker kn dl d b) v = (Inl e, v') \<and> kn_now kn v' = kn_now kn v"
proof -
  obtain e v' where "run_state (kn_DialContext kn d dl b) v = (Inl e, v')" "kn_now kn v' = kn_now kn v"
    using assms unfolding broker_down_def by blast
  then show ?thesis by (simp add: checkKafkaBroker_def run_op_bind run_op_wrap)
qed

lemma backoff_answered:
  "run_state (backoff_loop msg n sleep fn err) w = (Inr u, w') \<Longrightarrow> n \<noteq> 0 \<or> err \<noteq> None \<Longrightarrow> \<exists>v v'. run_state fn v = (Inr (), v')"
  by (induction n arbitrary: err w) (auto split: option.splits prod.splits sum.splits)

lemma check_brokers_quick:
  assumes "\<And>b v. b \<in> set xs \<Longrightarrow> \<exists>e v'. run_state (checkKafkaBroker kn dl d b) v = (Inl e, v') \<and> kn_now kn v' = kn_now kn v"
    and "\<And>v. kn_now kn v < dl \<Longrightarrow> \<exists>v'. run_state (checkKafkaBroker kn dl d b) v = (Inr (), v')"
    and "kn_now kn w < dl"
  shows "\<exists>w'. run_state (check_brokers kn dl d errs (xs @ b # ys)) w = (Inr (), w')"
  using assms(1,3)
proof (induction xs arbitrary: errs w)
  case Nil
  with assms(2) [of w] show ?case by auto
next
  case (Cons x xs)
  from Cons.prems(1) [of x w] obtain e v' where "run_state (checkKafkaBroker kn dl d x) w = (Inl e, v')" "kn_now kn v' = kn_now kn w" by auto
  with Cons.IH [of v' "errs @ [e]"] Cons.prems show ?case by auto
qed

text \<open>C28. The probe of Kafka succeeds only if a broker of the list answered a request for its API versions over a connection of the dialer, opened
  and bounded by the deadline of one attempt.  It does succeed when some broker of the list is up and the brokers listed before it refuse the connection
  without taking time.\<close>

theorem kafka_ready_iff_broker:
  assumes "run_state (GetKafkaDialer (kn_cx kn) conf) w = (Inr d, w0)" "kn_maxRetry kn = Suc n"
  shows "(\<forall>w'. run_state (CheckKafka kn conf) w = (Inr (), w') \<longrightarrow> (\<exists>b \<in> set (ck_BrokerList conf). broker_answered kn d b)) \<and>
    (\<forall>xs b ys. ck_BrokerList conf = xs @ b # ys \<and> broker_up kn d b \<and> (\<forall>x \<in> set xs. broker_down kn d x) \<longrightarrow>
       (\<exists>w'. run_state (CheckKafka kn conf) w = (Inr (), w')))"
proof (intro conjI allI impI)
  fix w' assume "run_state (CheckKafka kn conf) w = (Inr (), w')"
  then have "run_state (backoff_loop (''dowithbackoff[checkKafka] failed after '' @ itoa (int (kn_maxRetry kn)) @ '' retries'') (kn_maxRetry kn) (kn_Sleep kn)
      (check_kafka_once kn d (ck_BrokerList conf)) None) w0 = (Inr (), w')"
    using assms(1) by (simp add: CheckKafka_def DoWithBackoff_def run_op_bind run_op_wrap split: if_splits)
  from backoff_answered [OF this] assms(2) obtain v v' where "run_state (check_kafka_once kn d (ck_BrokerList conf)) v = (Inr (), v')" by auto
  then show "\<exists>b \<in> set (ck_BrokerList conf). broker_answered kn d b"
    by (auto simp: check_kafka_once_def intro: check_brokers_answered)
next
  fix xs b ys
  assume brokers: "ck_BrokerList conf = xs @ b # ys \<and> broker_up kn d b \<and> (\<forall>x \<in> set xs. broker_down kn d x)"
  then have up: "kn_now kn v < dl \<Longrightarrow> \<exists>v'. run_state (checkKafkaBroker kn dl d b) v = (Inr (), v')" for dl v
    unfolding checkKafkaBroker_ok_iff broker_up_def by blast
  have down: "\<exists>e v'. run_state (checkKafkaBroker kn dl d x) v = (Inl e, v') \<and> kn_now kn v' = kn_now kn v" if "x \<in> set xs" for x dl v
    using brokers that by (intro broker_down_fails) blast
  have "\<exists>w'. run_state (check_brokers kn (kn_now kn w0 + DependencyCheckTimeout) d [] (xs @ b # ys)) w0 = (Inr (), w')"
    by (rule check_brokers_quick [OF down up]) (simp_all add: DependencyCheckTimeout_def)
  with brokers obtain w' where "run_state (check_kafka_once kn d (ck_BrokerList conf)) w0 = (Inr (), w')"
    by (auto simp: check_kafka_once_def)
  then show "\<exists>w'. run_state (CheckKafka kn conf) w = (Inr (), w')"
    using assms brokers by (auto simp: CheckKafka_def DoWithBackoff_def run_op_bind run_op_wrap)
qed

text \<open>All brokers share the deadline of one attempt: after it every dial fails.\<close>

lemma late_brokers_fail:
  assumes "\<And>b v. dl \<le> kn_now kn v \<Longrightarrow> \<exists>e v'. run_state (kn_DialContext kn d dl b) v = (Inl e, v') \<and> kn_now kn v \<le> kn_now kn v'"
    and "dl \<le> kn_now kn w"
  shows "\<exists>e w'. run_state (check_brokers kn dl d errs brokers) w = (Inl e, w')"
  using assms(2)
proof (induction brokers arbitrary: errs w)
  case (Cons b brokers)
  with assms(1) [of w b] obtain e v' where "run_state (kn_DialContext kn d dl b) w = (Inl e, v')" "dl \<le> kn_now kn v'" by force
  then have "run_state (checkKafkaBroker kn dl d b) w = (Inl (Wrap e (''dial broker['' @ b @ '']'')), v')"
    by (simp add: checkKafkaBroker_def run_op_bind run_op_wrap)
  with Cons.IH [OF \<open>dl \<le> kn_now kn v'\<close>] show ?case by simp
qed simp

lemma backoff_fails:
  assumes "\<And>v. \<exists>e v'. run_state fn v = (Inl e, v')" "n \<noteq> 0 \<or> err \<noteq> None"
  shows "\<exists>e w'. run_state (backoff_loop msg n sleep fn err) w = (Inl e, w')"
  using assms(2)
proof (induction n arbitrary: err w)
  case (Suc n)
  from assms(1) [of w] obtain e v' where "run_state fn w = (Inl e, v')" by blast
  with Suc.IH [of "Some e" "snd (run_state sleep v')"] show ?case by (auto split: prod.splits)
qed (auto split: option.splits)

text \<open>C31. One attempt gives all brokers together the time of a single check.  When the first broker of the list does not refuse the connection but
  never answers, every attempt ends without asking the others in time, and the probe reports the queue as not ready although all other brokers may be
  up.\<close>

theorem hanging_broker_fails_probe:
  assumes "\<And>d dl b v. dl \<le> kn_now kn v \<Longrightarrow> \<exists>e v'. run_state (kn_DialContext kn d dl b) v = (Inl e, v') \<and> kn_now kn v \<le> kn_now kn v'"
    and "\<And>d dl v. \<exists>e v'. run_state (kn_DialContext kn d dl b) v = (Inl e, v') \<and> dl \<le> kn_now kn v'"
    and "ck_BrokerList conf = b # brokers" "kn_maxRetry kn \<noteq> 0"
  shows "\<exists>e w'. run_state (CheckKafka kn conf) w = (Inl e, w')"
proof -
  have once: "\<exists>e v'. run_state (check_kafka_once kn d (b # brokers)) v = (Inl e, v')" for d v
  proof -
    let ?dl = "kn_now kn v + DependencyCheckTimeout"
    from assms(2) obtain e v' where "run_state (kn_DialContext kn d ?dl b) v = (Inl e, v')" "?dl \<le> kn_now kn v'" by blast
    moreover from this have "run_state (checkKafkaBroker kn ?dl d b) v = (Inl (Wrap e (''dial broker['' @ b @ '']'')), v')"
      by (simp add: checkKafkaBroker_def run_op_bind run_op_wrap)
    ultimately show ?thesis using late_brokers_fail [of ?dl kn d v'] assms(1) by (simp add: check_kafka_once_def)
  qed
  obtain res v where "run_state (GetKafkaDialer (kn_cx kn) conf) w = (res, v)" by fastforce
  with backoff_fails [OF once, of "kn_maxRetry kn" None] assms(3,4) show ?thesis
    by (cases res) (simp_all add: CheckKafka_def DoWithBackoff_def run_op_bind run_op_wrap)
qed

section \<open>Example\<close>

text \<open>A world with a clock.  The broker \<open>slow:9092\<close> accepts no connection and never refuses one, \<open>down:9092\<close> refuses at once, every other one
  answers within a second.\<close>

definition ex_dial :: "nat \<Rightarrow> string \<Rightarrow> (nat, nat) op" where
  "ex_dial dl b = State (\<lambda>now. if dl \<le> now then (Inl (KError ''deadline exceeded''), now)
     else if b = ''slow:9092'' then (Inl (KError ''deadline exceeded''), dl)
     else if b = ''down:9092'' then (Inl (KError ''refused''), now) else (Inr 0, now))"

definition ex_crypto :: crypto where
  "ex_crypto = \<lparr>cx_pemDecode = (\<lambda>_. None), cx_pemEncode = pem_Bytes, cx_decryptPKCS8 = (\<lambda>_ _. Inl (Errorf ''bad key'')), cx_parsePKCS8 = (\<lambda>_. None),
     cx_parsePKCS1 = (\<lambda>_. None), cx_parseEC = (\<lambda>_. None), cx_marshalPKCS8 = (\<lambda>_. Inl (Errorf ''bad key'')), cx_certPool = (\<lambda>pem. Some [pem]),
     cx_keyPair = (\<lambda>c k. Inr (c @ k)), cx_scramError = (\<lambda>_ _ _. None)\<rparr>"

definition ex_net :: "nat kafka_net" where
  "ex_net = \<lparr>kn_cx = ex_crypto, kn_now = (\<lambda>now. now), kn_Sleep = State (\<lambda>now. ((), now + 1)), kn_maxRetry = 3, kn_DialContext = (\<lambda>_. ex_dial),
     kn_SetDeadline = (\<lambda>_ _. ret ()), kn_ApiVersions = (\<lambda>_. ret ()), kn_Close = (\<lambda>_. State_Monad.return ()),
     kn_wire = (\<lambda>_. Inl (Errorf ''no ssl section'')), kn_decode = (\<lambda>f data c. Inr (c\<lparr>ck_SecurityProtocol := ''SASL_SSL''\<rparr>))\<rparr>"

definition ex_kafka :: "string list \<Rightarrow> nat CheckKafkaConfig" where
  "ex_kafka brokers = zero_CheckKafkaConfig\<lparr>ck_Namespace := ''ns'', ck_BrokerList := brokers, ck_SecurityProtocol := '' sasl_ssl'',
     ck_SASLMechanisms := ''scram-sha-512'', ck_SASLUsername := ''literal'', ck_SASLPassword := ''pw'',
     ck_SASLUsernameSecret := Some \<lparr>skr_Name = ''creds'', skr_Key = ''user'', skr_Namespace = []\<rparr>,
     ck_SSL := \<lparr>sc_Enabled = True, sc_CACertSecret = None,
       sc_CertSecret = Some \<lparr>skr_Name = ''client'', skr_Key = ''crt'', skr_Namespace = []\<rparr>,
       sc_KeySecret = Some \<lparr>skr_Name = ''client'', skr_Key = ''key'', skr_Namespace = ''ns''\<rparr>, sc_KeyPasswordSecret = None\<rparr>,
     ck_SecretReader := Some (\<lambda>ns name key. ret (ns @ ''/'' @ name @ ''/'' @ key))\<rparr>"

definition ex_dialer :: Dialer where
  "ex_dialer = \<lparr>kd_TLS = Some \<lparr>tc_RootCAs = None, tc_Certificates = [''ns/client/crt'' @ ''ns/client/key'']\<rparr>,
     kd_SASLMechanism = Some (Scram SHA512 ''ns/creds/user'' ''pw''), kd_Timeout = 15, kd_DualStack = True\<rparr>"

lemma ex_dialer_run: "run_state (GetKafkaDialer ex_crypto (ex_kafka brokers)) w = (Inr ex_dialer, w)"
  by code_simp

theorem kafka_dialer_protected_witness:
  "client_pair ex_crypto (ex_kafka []) (''ns/client/crt'' @ ''ns/client/key'') \<and> sasl_ok (ex_kafka []) (Scram SHA512 ''ns/creds/user'' ''pw'')"
  using kafka_dialer_protected [OF ex_dialer_run [of "[]" 0] refl]
  by (simp add: ex_dialer_def tls_ok_def client_certs_ok_def ex_kafka_def)

definition ex_kafka_milvus :: Milvus where
  "ex_kafka_milvus = (new_Milvus ''ns'' ''mc'')\<lparr>m_Spec := zero_MilvusSpec\<lparr>ms_Dep := zero_MilvusDependencies\<lparr>dep_MsgStreamType := MsgStreamTypeKafka,
     dep_Kafka := (dep_Kafka zero_MilvusDependencies)\<lparr>kaf_BrokerList := [''kafka:9092'']\<rparr>\<rparr>\<rparr>\<rparr>"

theorem kafka_ready_iff_broker_witness:
  "(\<exists>w'. run_state (CheckKafka ex_net (ex_kafka [''down:9092'', ''kafka:9092''])) 0 = (Inr (), w')) \<and>
   (\<exists>b \<in> {''down:9092'', ''kafka:9092''}. broker_answered ex_net ex_dialer b)"
proof -
  let ?brokers = "[''down:9092'', ''kafka:9092'']"
  have run: "run_state (GetKafkaDialer (kn_cx ex_net) (ex_kafka ?brokers)) 0 = (Inr ex_dialer, 0)"
    by (simp add: ex_net_def ex_dialer_run)
  have retry: "kn_maxRetry ex_net = Suc 2" by (simp add: ex_net_def)
  have "broker_up ex_net ex_dialer ''kafka:9092''" "broker_down ex_net ex_dialer ''down:9092''"
    by (simp_all add: broker_up_def broker_down_def ex_net_def ex_dial_def)
  moreover have list: "ck_BrokerList (ex_kafka ?brokers) = ?brokers" by (simp add: ex_kafka_def)
  ultimately have "\<exists>w'. run_state (CheckKafka ex_net (ex_kafka ?brokers)) 0 = (Inr (), w')"
    using conjunct2 [OF kafka_ready_iff_broker [OF run retry]] by (metis append_Cons append_Nil list.set(1,2) empty_iff insert_iff)
  with conjunct1 [OF kafka_ready_iff_broker [OF run retry]] list show ?thesis by auto
qed

theorem hanging_broker_fails_probe_witness:
  "\<exists>e w'. run_state (CheckKafka ex_net (ex_kafka [''slow:9092'', ''kafka:9092''])) 0 = (Inl e, w')"
  by (rule hanging_broker_fails_probe [where b = "''slow:9092''" and brokers = "[''kafka:9092'']"])
    (auto simp: ex_net_def ex_dial_def ex_kafka_def)

text \<open>Secrets of the other namespaces are replaced by errors.\<close>

definition open_net :: "wmem kafka_net" where
  "open_net = \<lparr>kn_cx = ex_crypto, kn_now = (\<lambda>_. 0), kn_Sleep = State_Monad.return (), kn_maxRetry = 3, kn_DialContext = (\<lambda>_ _ _. ret 0),
     kn_SetDeadline = (\<lambda>_ _. ret ()), kn_ApiVersions = (\<lambda>_. ret ()), kn_Close = (\<lambda>_. State_Monad.return ()),
     kn_wire = (\<lambda>_. Inl (Errorf ''no ssl section'')), kn_decode = (\<lambda>f data c. Inr (c\<lparr>ck_SecurityProtocol := ''SASL_SSL''\<rparr>))\<rparr>"

theorem kafka_status_own_secrets_witness:
  "syncer_GetMsgStreamCondition 1 (with_kafka open_net (ex_prober\<lparr>pb_r := (pb_r ex_prober)\<lparr>rc_GetSecret :=
       (\<lambda>ns name. if ns = ''ns'' then rc_GetSecret (pb_r ex_prober) ns name else fail (KError ''forbidden''))\<rparr>\<rparr>)) ex_kafka_milvus =
    syncer_GetMsgStreamCondition 1 (with_kafka open_net ex_prober) ex_kafka_milvus"
  by (rule kafka_status_own_secrets) (auto simp: ex_kafka_milvus_def new_Milvus_def open_net_def)

end
