(* ===== verification/Storage_Correct.thy ===== *)
theory Storage_Correct
  imports Tools Kafka_Correct
begin

text \<open>
  What a ready storage means: the condition is true only after an answer that was asked for with the credentials of the Secret and
  over the TLS settings of the resource.
\<close>









lemma run_check_error [simp]: "run_state (check_error err) w = (Inr u, w') \<longleftrightarrow> err = None \<and> w' = w"
  by (auto simp: check_error_def split: option.splits)






section \<open>Example\<close>






end
