(* ===== verification/Legacy_API.thy ===== *)
theory Legacy_API
  imports Milvus_Ctrl
begin

text \<open>
  The first version of the API (apis/milvus.io/v1alpha1): its Milvus resource, which is converted to and from the stored version by the conversion
  webhook, and its MilvusCluster resource, which a controller of its own turns into a Milvus resource
  (pkg/controllers/milvuscluster/convert_controller.go).
\<close>

section \<open>The Milvus resource of v1alpha1\<close>

record AlphaMilvusSpec = ComponentSpec +
  as_Replicas :: "int option"
  as_Persistence :: Persistence
  as_Ingress :: "MilvusIngress option"
  as_ServiceType :: string
  as_ServiceIPFamilyPolicy :: "string option"
  as_DisableMetric :: bool
  as_ServiceLabels :: smap
  as_ServiceAnnotations :: smap
  as_Dep :: MilvusDependencies
  as_Conf :: Values

record AlphaMilvus = ObjectMeta +
  am_Spec :: AlphaMilvusSpec
  am_Status :: MilvusStatus

definition zero_AlphaMilvus :: AlphaMilvus where
  "zero_AlphaMilvus = ObjectMeta.extend (new_ObjectMeta [] []) (AlphaMilvus.fields
     (ComponentSpec.extend zero_ComponentSpec (AlphaMilvusSpec.fields None zero_Persistence None [] None False fmempty fmempty zero_MilvusDependencies None))
     zero_MilvusStatus)"

definition alpha_standalone :: "AlphaMilvusSpec \<Rightarrow> ServiceComponent" where
  "alpha_standalone r = Component.extend (ComponentSpec.extend (ComponentSpec.truncate r) (Component.fields (as_Replicas r) None [] []))
     (ServiceComponent.fields (as_ServiceType r) (as_ServiceIPFamilyPolicy r) 0 0 (as_ServiceLabels r) (as_ServiceAnnotations r) (as_Ingress r))"

definition ConvertSpecTo :: "AlphaMilvusSpec \<Rightarrow> MilvusSpec \<Rightarrow> MilvusSpec" where
  "ConvertSpecTo r dst = dst\<lparr>ms_Mode := MilvusModeStandalone, ms_Conf := as_Conf r,
     ms_Dep := (as_Dep r)\<lparr>dep_RocksMQ := (dep_RocksMQ (as_Dep r))\<lparr>mq_Persistence := as_Persistence r\<rparr>\<rparr>,
     ms_Com := zero_MilvusComponents\<lparr>com_DisableMetric := as_DisableMetric r, com_Standalone := Some (alpha_standalone r)\<rparr>\<rparr>"

definition ConvertTo :: "AlphaMilvus \<Rightarrow> Milvus \<Rightarrow> Milvus" where
  "ConvertTo r dst = ObjectMeta.extend (ObjectMeta.truncate r) (Milvus.fields (ConvertSpecTo (am_Spec r) (m_Spec dst)) (am_Status r))"

text \<open>The settings of the component and of its service are read from the standalone component; everything else of the receiver stays.\<close>

definition ConvertFrom :: "AlphaMilvus \<Rightarrow> Milvus \<Rightarrow> AlphaMilvus" where
  "ConvertFrom r src =
     (let spec = m_Spec src; sc = (case com_Standalone (ms_Com spec) of None \<Rightarrow> zero_ServiceComponent | Some sc \<Rightarrow> sc) in
      ObjectMeta.extend (ObjectMeta.truncate src) (AlphaMilvus.fields
        (ComponentSpec.extend (ComponentSpec.truncate sc) (AlphaMilvusSpec.fields (co_Replicas sc) (as_Persistence (am_Spec r)) (sv_Ingress sc)
           (sv_ServiceType sc) (sv_ServiceIPFamilyPolicy sc) (com_DisableMetric (ms_Com spec)) (sv_ServiceLabels sc) (sv_ServiceAnnotations sc)
           (ms_Dep spec) (ms_Conf spec)))
        (m_Status src)))"

section \<open>The MilvusCluster resource\<close>

record MilvusClusterSpec =
  mcs_Com :: MilvusComponents
  mcs_Dep :: MilvusDependencies
  mcs_Conf :: Values

record MilvusCluster = ObjectMeta +
  mcl_Spec :: MilvusClusterSpec
  mcl_Status :: MilvusStatus

definition ConvertToMilvus :: "webhook_env \<Rightarrow> MilvusCluster \<Rightarrow> Milvus \<Rightarrow> Milvus option" where
  "ConvertToMilvus E r dst = Milvus_Default E (dst\<lparr>om_Namespace := om_Namespace r, om_Name := om_Name r, om_Labels := om_Labels r,
     om_Annotations := om_Annotations r, m_Spec := (m_Spec dst)\<lparr>ms_Mode := MilvusModeCluster, ms_Com := mcs_Com (mcl_Spec r),
       ms_Conf := mcs_Conf (mcl_Spec r), ms_Dep := mcs_Dep (mcl_Spec r)\<rparr>\<rparr>)"

definition UpdateStatusFrom :: "MilvusCluster \<Rightarrow> Milvus \<Rightarrow> MilvusCluster" where
  "UpdateStatusFrom r src = r\<lparr>mcl_Status := m_Status src\<rparr>"

section \<open>The controller\<close>

record 'w ClusterClient =
  cc_E :: webhook_env
  cc_GetCluster :: "string \<Rightarrow> string \<Rightarrow> ('w, MilvusCluster) op"
  cc_UpdateCluster :: "MilvusCluster \<Rightarrow> ('w, unit) op"
  cc_UpdateClusterStatus :: "MilvusCluster \<Rightarrow> ('w, unit) op"
  cc_GetMilvus :: "string \<Rightarrow> string \<Rightarrow> ('w, Milvus) op"
  cc_CreateMilvus :: "Milvus \<Rightarrow> ('w, unit) op"
  cc_UpdateMilvus :: "Milvus \<Rightarrow> ('w, unit) op"
  cc_SetControllerReference :: "MilvusCluster \<Rightarrow> OwnerReference list \<Rightarrow> go_error + OwnerReference list"

definition MCFinalizerName :: string where
  "MCFinalizerName = ''milvuscluster.milvus.io/finalizer''"

definition converted :: "'w ClusterClient \<Rightarrow> MilvusCluster \<Rightarrow> Milvus \<Rightarrow> ('w, Milvus) op" where
  "converted c milvus beta =
     op_bind (lift_result (or_panic ''nil pointer'' (ConvertToMilvus (cc_E c) milvus beta))) (\<lambda>beta.
     op_bind (op_wrap ''set controller reference'' (lift_result (cc_SetControllerReference c milvus (om_OwnerReferences beta)))) (\<lambda>owners.
     ret (beta\<lparr>om_OwnerReferences := owners\<rparr>)))"

definition release_cluster :: "'w ClusterClient \<Rightarrow> MilvusCluster \<Rightarrow> ('w, unit) op" where
  "release_cluster c milvus =
     (if MCFinalizerName \<in> set (om_Finalizers milvus)
      then cc_UpdateCluster c (milvus\<lparr>om_Finalizers := filter (\<lambda>f. f \<noteq> MCFinalizerName) (om_Finalizers milvus)\<rparr>)
      else ret ())"

text \<open>Once, the values merged into the new resource are written back to the old one.\<close>

definition sync_values_back :: "'w ClusterClient \<Rightarrow> MilvusCluster \<Rightarrow> Milvus \<Rightarrow> ('w, MilvusCluster) op" where
  "sync_values_back c milvus beta =
     (if fmget (om_Annotations milvus) DependencyValuesMergedAnnotation = TrueStr then ret milvus
      else (let milvus = milvus\<lparr>om_Labels := om_Labels beta, om_Annotations := om_Annotations beta,
                  mcl_Spec := (mcl_Spec milvus)\<lparr>mcs_Dep := ms_Dep (m_Spec beta)\<rparr>\<rparr> in
            op_bind (op_wrap ''error update beta to alpha'' (cc_UpdateCluster c milvus)) (\<lambda>_. ret milvus)))"

definition sync_spec :: "'w ClusterClient \<Rightarrow> MilvusCluster \<Rightarrow> Milvus \<Rightarrow> ('w, unit) op" where
  "sync_spec c milvus beta =
     (if fmget (om_Annotations milvus) UpgradeAnnotation = AnnotationUpgrading then ret ()
      else if fmget (om_Annotations milvus) UpgradeAnnotation = AnnotationUpgraded then
        op_wrap ''error update beta to alpha'' (cc_UpdateCluster c (milvus\<lparr>om_Labels := om_Labels beta, om_Annotations := om_Annotations beta,
          mcl_Spec := (mcl_Spec milvus)\<lparr>mcs_Com := ms_Com (m_Spec beta)\<rparr>\<rparr>))
      else op_bind (converted c milvus beta) (\<lambda>beta. op_wrap ''error update milvus spec'' (cc_UpdateMilvus c beta)))"

definition sync_cluster :: "'w ClusterClient \<Rightarrow> MilvusCluster \<Rightarrow> Milvus \<Rightarrow> ('w, unit) op" where
  "sync_cluster c milvus beta =
     (let milvus = UpdateStatusFrom milvus beta in
      op_bind (op_wrap ''error update milvus status'' (cc_UpdateClusterStatus c milvus)) (\<lambda>_.
      if LegacyNeedSyncValues beta then ret ()
      else op_bind (sync_values_back c milvus beta) (\<lambda>milvus. sync_spec c milvus beta)))"

definition MilvusCluster_Reconcile :: "'w ClusterClient \<Rightarrow> string \<Rightarrow> string \<Rightarrow> ('w, unit) op" where
  "MilvusCluster_Reconcile c ns name = do {
     res \<leftarrow> cc_GetCluster c ns name;
     (case res of
        Inl e \<Rightarrow> if IsNotFound e then ret () else fail (Wrap e ''error get milvus '')
      | Inr milvus \<Rightarrow>
          if om_DeletionTimestamp milvus \<noteq> None then release_cluster c milvus
          else do {
            found \<leftarrow> cc_GetMilvus c ns name;
            (case found of
               Inr beta \<Rightarrow> sync_cluster c milvus beta
             | Inl e \<Rightarrow>
                 if IsNotFound e
                 then op_bind (converted c milvus (new_Milvus [] [])) (\<lambda>beta. op_wrap ''error create milvus '' (cc_CreateMilvus c beta))
                 else fail (Wrap e ''error get milvus '')) }) }"

end
