(* ===== verification/Legacy_Correct.thy ===== *)
theory Legacy_Correct
  imports Legacy_API Op_Logic Health_Correct
begin

text \<open>
  What the conversions of the first API version keep and lose, and when the controller of MilvusCluster leaves the Milvus resource alone.
\<close>

section \<open>Conversion\<close>

lemmas alpha_defs = ConvertTo_def ConvertFrom_def ConvertSpecTo_def alpha_standalone_def zero_AlphaMilvus_def Let_def
  ObjectMeta.defs ComponentSpec.defs Component.defs ServiceComponent.defs AlphaMilvusSpec.defs AlphaMilvus.defs Milvus.defs

text \<open>A v1alpha1 resource that is stored and read back is the same, but for its persistence settings: these are found among the settings of
  RocksMQ afterwards, and the field they were given in is empty.\<close>

theorem alpha_round_trip:
  "ConvertFrom zero_AlphaMilvus (ConvertTo r dst) = r\<lparr>am_Spec := (am_Spec r)\<lparr>as_Persistence := zero_Persistence,
     as_Dep := (as_Dep (am_Spec r))\<lparr>dep_RocksMQ := (dep_RocksMQ (as_Dep (am_Spec r)))\<lparr>mq_Persistence := as_Persistence (am_Spec r)\<rparr>\<rparr>\<rparr>\<rparr>"
  by (cases r, cases "am_Spec r") (simp add: alpha_defs)

text \<open>Reading a stored resource as v1alpha1 and writing it back unchanged makes it a standalone instance without persistence: when its
  queue is RocksMQ, the data volume of the instance is no longer part of its pods.  The settings of all other components are lost.\<close>

theorem alpha_write_back_loses:
  assumes "dep_MsgStreamType (ms_Dep (m_Spec m)) = MsgStreamTypeRocksMQ"
  shows "GetPersistenceConfig (m_Spec (ConvertTo (ConvertFrom zero_AlphaMilvus m) dst)) = Some zero_Persistence \<and>
    ms_Mode (m_Spec (ConvertTo (ConvertFrom zero_AlphaMilvus m) dst)) = MilvusModeStandalone \<and>
    com_Proxy (ms_Com (m_Spec (ConvertTo (ConvertFrom zero_AlphaMilvus m) dst))) = None"
  using assms by (simp add: alpha_defs GetPersistenceConfig_def GetMilvusBuiltInMQ_def zero_MilvusComponents_def MilvusComponents.defs)

section \<open>The controller of MilvusCluster\<close>

lemma op_bind_ret: "op_bind (ret a) f = f a"
  by (simp add: op_bind_def ret_def)

lemma sync_cluster_hands_off:
  assumes "fmget (om_Annotations milvus) DependencyValuesMergedAnnotation = TrueStr"
    and "fmget (om_Annotations milvus) UpgradeAnnotation \<in> {AnnotationUpgrading, AnnotationUpgraded}"
  shows "sync_cluster (c\<lparr>cc_UpdateMilvus := u\<rparr>) milvus beta = sync_cluster c milvus beta"
proof -
  let ?m = "milvus\<lparr>mcl_Status := m_Status beta\<rparr>"
  have "sync_values_back c' ?m beta = ret ?m" for c' :: "'a ClusterClient" using assms(1) by (simp add: sync_values_back_def)
  moreover have "sync_spec (c\<lparr>cc_UpdateMilvus := u\<rparr>) ?m beta = sync_spec c ?m beta" using assms(2) by (auto simp: sync_spec_def)
  ultimately show ?thesis by (simp add: sync_cluster_def UpdateStatusFrom_def Let_def op_bind_ret cong: if_cong)
qed

text \<open>While a MilvusCluster is being upgraded or was just upgraded, its controller does not overwrite the Milvus resource the
  upgrade works on: a pass is the same whatever a write to it would do.  A MilvusCluster that is being deleted only loses its
  finalizer.\<close>

theorem cluster_upgrade_hands_off:
  assumes "run_state (cc_GetCluster c ns name) w = (Inr milvus, w0)" "run_state (cc_GetMilvus c ns name) w0 = (Inr beta, w1)"
    and "fmget (om_Annotations milvus) DependencyValuesMergedAnnotation = TrueStr"
    and "fmget (om_Annotations milvus) UpgradeAnnotation \<in> {AnnotationUpgrading, AnnotationUpgraded}"
  shows "run_state (MilvusCluster_Reconcile (c\<lparr>cc_UpdateMilvus := u\<rparr>) ns name) w = run_state (MilvusCluster_Reconcile c ns name) w \<and>
    (om_DeletionTimestamp milvus \<noteq> None \<longrightarrow> run_state (MilvusCluster_Reconcile c ns name) w = run_state (release_cluster c milvus) w0)"
  using assms sync_cluster_hands_off [OF assms(3,4), where c = c and u = u and beta = beta] by (simp add: MilvusCluster_Reconcile_def release_cluster_def)

section \<open>Example\<close>

text \<open>A cluster on RocksMQ with persistence, and a MilvusCluster in the middle of an upgrade.\<close>

definition ex_persistent :: Milvus where
  "ex_persistent = (new_Milvus ''ns'' ''mc'')\<lparr>m_Spec := zero_MilvusSpec\<lparr>ms_Mode := MilvusModeStandalone, ms_Dep := zero_MilvusDependencies\<lparr>
     dep_MsgStreamType := MsgStreamTypeRocksMQ, dep_RocksMQ := \<lparr>mq_Persistence = zero_Persistence\<lparr>per_Enabled := True\<rparr>\<rparr>\<rparr>\<rparr>\<rparr>"

theorem alpha_write_back_loses_witness:
  "GetPersistenceConfig (m_Spec ex_persistent) = Some (zero_Persistence\<lparr>per_Enabled := True\<rparr>) \<and>
   GetPersistenceConfig (m_Spec (ConvertTo (ConvertFrom zero_AlphaMilvus ex_persistent) (new_Milvus [] []))) = Some zero_Persistence"
proof -
  have "dep_MsgStreamType (ms_Dep (m_Spec ex_persistent)) = MsgStreamTypeRocksMQ" by (simp add: ex_persistent_def)
  from alpha_write_back_loses [OF this] show ?thesis by (simp add: ex_persistent_def GetPersistenceConfig_def GetMilvusBuiltInMQ_def)
qed

definition ex_upgrading :: MilvusCluster where
  "ex_upgrading = ObjectMeta.extend ((new_ObjectMeta ''ns'' ''mc'')\<lparr>om_Annotations :=
     fmap_of_list [(DependencyValuesMergedAnnotation, TrueStr), (UpgradeAnnotation, AnnotationUpgrading)]\<rparr>)
     (MilvusCluster.fields \<lparr>mcs_Com = zero_MilvusComponents, mcs_Dep = zero_MilvusDependencies, mcs_Conf = None\<rparr> zero_MilvusStatus)"

text \<open>The world counts the writes to the Milvus resource.\<close>

definition ex_cluster_client :: "nat ClusterClient" where
  "ex_cluster_client = \<lparr>cc_E = sy_E (ex_syncer :: wmem Syncer), cc_GetCluster = (\<lambda>_ _. ret ex_upgrading), cc_UpdateCluster = (\<lambda>_. ret ()), cc_UpdateClusterStatus = (\<lambda>_. ret ()),
     cc_GetMilvus = (\<lambda>_ _. ret ex_small), cc_CreateMilvus = (\<lambda>_. State (\<lambda>n. (Inr (), n + 1))), cc_UpdateMilvus = (\<lambda>_. State (\<lambda>n. (Inr (), n + 1))),
     cc_SetControllerReference = (\<lambda>_ owners. Inr owners)\<rparr>"

theorem cluster_upgrade_hands_off_witness:
  "run_state (MilvusCluster_Reconcile (ex_cluster_client\<lparr>cc_UpdateMilvus := (\<lambda>_. fail (KError ''forbidden''))\<rparr>) ''ns'' ''mc'') 0 =
     run_state (MilvusCluster_Reconcile ex_cluster_client ''ns'' ''mc'') 0"
proof -
  have get: "run_state (cc_GetCluster ex_cluster_client ''ns'' ''mc'') 0 = (Inr ex_upgrading, 0)"
    "run_state (cc_GetMilvus ex_cluster_client ''ns'' ''mc'') 0 = (Inr ex_small, 0)"
    by (simp_all add: ex_cluster_client_def)
  have marks: "fmget (om_Annotations ex_upgrading) DependencyValuesMergedAnnotation = TrueStr"
    "fmget (om_Annotations ex_upgrading) UpgradeAnnotation = AnnotationUpgrading"
    by code_simp+
  show ?thesis by (rule conjunct1 [OF cluster_upgrade_hands_off [OF get marks(1)]]) (simp add: marks(2))
qed

end
