(* ===== verification/Start_Up.thy ===== *)
theory Start_Up
  imports Milvus_Ctrl Tools
begin

text \<open>
  The start of the operator: its assets (pkg/config/config.go), which controllers and webhooks are set up (pkg/controllers/setup.go), the image
  the init containers of Milvus use, the periodic loops (LoopWithInterval of utils.go, RunIfNot of status_cluster.go), and the
  admission of updates and deletions (milvus_webhook.go).
\<close>

section \<open>Assets\<close>

record Config =
  cfg_debugMode :: bool
  cfg_templates :: smap

definition TemplateRelativeDir :: string where
  "TemplateRelativeDir = ''config/assets/templates''"

text \<open>\<open>readDir\<close> gives the names of the files of a directory.\<close>

fun read_templates :: "'w files \<Rightarrow> string \<Rightarrow> string list \<Rightarrow> smap \<Rightarrow> ('w, smap) op" where
  "read_templates fs dir [] templates = ret templates"
| "read_templates fs dir (name # names) templates =
     op_bind (fs_ReadFile fs (dir @ ''/'' @ name)) (\<lambda>data. read_templates fs dir names (fmupd name data templates))"

definition NewConfig :: "'w files \<Rightarrow> (string \<Rightarrow> ('w, string list) op) \<Rightarrow> string \<Rightarrow> ('w, Config) op" where
  "NewConfig fs readDir workDir =
     op_bind (readDir (workDir @ TemplateRelativeDir)) (\<lambda>names.
     op_bind (read_templates fs (workDir @ TemplateRelativeDir) names fmempty) (\<lambda>templates.
     ret \<lparr>cfg_debugMode = False, cfg_templates = templates\<rparr>))"

definition config_Init :: "'w files \<Rightarrow> (string \<Rightarrow> ('w, string list) op) \<Rightarrow> (string \<Rightarrow> string) \<Rightarrow> string \<Rightarrow> ('w, Config) op" where
  "config_Init fs readDir env workDir =
     op_bind (NewConfig fs readDir workDir) (\<lambda>c. ret (if env ''DEBUG'' = ''true'' then c\<lparr>cfg_debugMode := True\<rparr> else c))"

definition GetTemplate :: "Config \<Rightarrow> string \<Rightarrow> string" where
  "GetTemplate c name = fmget (cfg_templates c) name"

lemma read_templates_spec:
  assumes "run_state (read_templates fs dir names templates) w = (Inr t, w')" "name \<in> set names"
  shows "\<exists>data v v'. run_state (fs_ReadFile fs (dir @ ''/'' @ name)) v = (Inr data, v') \<and> fmlookup t name = Some data"
proof -
  have keep: "fmlookup t k = fmlookup ts k" if "k \<notin> set ns" "run_state (read_templates fs dir ns ts) v = (Inr t, w')" for k ns ts v
    using that by (induction ns arbitrary: ts v) (auto simp: run_op_bind split: prod.splits sum.splits)
  show ?thesis using assms
  proof (induction names arbitrary: templates w)
    case (Cons n names)
    obtain data v where step: "run_state (fs_ReadFile fs (dir @ ''/'' @ n)) w = (Inr data, v)"
      "run_state (read_templates fs dir names (fmupd n data templates)) v = (Inr t, w')"
      using Cons.prems(1) by (auto simp: run_op_bind split: prod.splits sum.splits)
    show ?case
    proof (cases "name \<in> set names")
      case False
      with Cons.prems(2) step keep [of n names "fmupd n data templates" v] show ?thesis by auto
    qed (use Cons.IH step(2) in blast)
  qed simp
qed

section \<open>Controllers\<close>

definition listHasElement :: "string list \<Rightarrow> string \<Rightarrow> bool" where
  "listHasElement list elem = list_ex (\<lambda>e. e = elem) list"

text \<open>Setting up a controller or a webhook by its name; the controllers are a map, and \<open>order\<close> is how Go ranges over it.\<close>

fun setup_all :: "(string \<Rightarrow> ('w, unit) op) \<Rightarrow> string list \<Rightarrow> string list \<Rightarrow> ('w, unit) op" where
  "setup_all setup stop [] = ret ()"
| "setup_all setup stop (name # names) =
     (if listHasElement stop name then setup_all setup stop names
      else op_bind (setup name) (\<lambda>_. setup_all setup stop names))"

definition SetupControllers ::
  "(string list \<Rightarrow> string list) \<Rightarrow> (string \<Rightarrow> ('w, unit) op) \<Rightarrow> (string \<Rightarrow> ('w, unit) op) \<Rightarrow> string list \<Rightarrow> bool \<Rightarrow> ('w, unit) op" where
  "SetupControllers order setup webhook stopReconcilers enableHook =
     op_bind (if stopReconcilers = [] \<or> hd stopReconcilers \<noteq> ''all''
              then setup_all setup stopReconcilers (order [''milvus'', ''milvusupgrade'', ''milvuscluster'']) else ret ()) (\<lambda>_.
     if enableHook then
       op_bind (webhook ''v1beta1.Milvus'') (\<lambda>_. op_bind (webhook ''v1alpha1.Milvus'') (\<lambda>_. webhook ''v1beta1.MilvusUpgrade''))
     else ret ())"

section \<open>The image of the tools\<close>

definition DefaultOperatorImageInfo :: "string \<times> string" where
  "DefaultOperatorImageInfo = (''milvusdb/milvus-operator:main-latest'', ''Always'')"

definition getOperatorImageInfo :: "'w Client \<Rightarrow> string \<Rightarrow> string \<Rightarrow> string \<Rightarrow> ('w, string \<times> string) op" where
  "getOperatorImageInfo cli toolImage ns name =
     (if toolImage \<noteq> [] then ret (toolImage, ''IfNotPresent'')
      else op_bind (op_wrap (''get operator deployment['' @ ns @ ''/'' @ name @ ''] fail'') (cli_GetDeployment cli ns name)) (\<lambda>deploy.
        (case ps_Containers (pt_Spec (d_Template deploy)) of
           [] \<Rightarrow> fail (Errorf ''operator deployment has no container'')
         | container # _ \<Rightarrow> ret (ct_Image container, ct_ImagePullPolicy container))))"

text \<open>\<open>InitIfNot\<close>: the first call decides, a failure falls back to the default.\<close>

definition InitIfNot :: "'w Client \<Rightarrow> string \<Rightarrow> string \<Rightarrow> string \<Rightarrow> (string \<times> string) option \<Rightarrow> ('w, (string \<times> string) option) state" where
  "InitIfNot cli toolImage ns name info =
     (case info of
        Some i \<Rightarrow> State_Monad.return (Some i)
      | None \<Rightarrow> do {
          res \<leftarrow> getOperatorImageInfo cli toolImage ns name;
          State_Monad.return (Some (case res of Inr i \<Rightarrow> i | Inl _ \<Rightarrow> DefaultOperatorImageInfo)) })"

section \<open>Periodic loops\<close>

text \<open>One round per tick; an error is only logged.  The loop ends when the context is done, which \<open>wait\<close> reports; \<open>fuel\<close> bounds the rounds.\<close>

fun LoopWithInterval :: "nat \<Rightarrow> ('w, bool) state \<Rightarrow> ('w, unit) op \<Rightarrow> ('w, unit option) state" where
  "LoopWithInterval 0 wait loopFunc = State_Monad.return None"
| "LoopWithInterval (Suc fuel) wait loopFunc = do {
     _ \<leftarrow> loopFunc;
     done_ctx \<leftarrow> wait;
     if done_ctx then State_Monad.return (Some ()) else LoopWithInterval fuel wait loopFunc }"

section \<open>Admission\<close>

text \<open>An update is checked like a creation; the old object only has to be of the right kind.\<close>

definition ValidateUpdate :: "webhook_env \<Rightarrow> Milvus option \<Rightarrow> Milvus \<Rightarrow> go_error + field_error list" where
  "ValidateUpdate E old r =
     (case old of
        None \<Rightarrow> Inl (Errorf ''failed type assertion on kind'')
      | Some _ \<Rightarrow> Inr ((case validateCommon E r of None \<Rightarrow> [] | Some e \<Rightarrow> [e]) @ validateExternal r @ validateDeploymentGroups E r @
          validateComponentStatefulSets E r @ validateRollingUpdates (we_x E) r))"

definition MilvusUpgrade_ValidateUpdate :: "externals \<Rightarrow> MilvusUpgrade \<Rightarrow> MilvusUpgrade \<Rightarrow> string list" where
  "MilvusUpgrade_ValidateUpdate x old r = MilvusUpgrade_Validate x r"

lemma update_checked_like_create: "ValidateUpdate E (Some old) r = Inr (ValidateCreate E r)"
  by (simp add: ValidateUpdate_def ValidateCreate_def)

end
