(* ===== verification/Main_Program.thy ===== *)
theory Main_Program
  imports Start_Up Kafka_Client
begin

text \<open>
  The program itself: its flags and its start sequence (main.go), the manager it creates
  (pkg/manager/manager.go) and the metrics it registers (pkg/controllers/metrics.go).  Parsing the flags,
  the configuration of the cluster and the manager are third-party: the flags are given as they are after
  parsing, the manager is a record of operations.
\<close>

section \<open>Flags\<close>

record flags =
  fl_showVersion :: bool
  fl_metricsAddr :: string
  fl_probeAddr :: string
  fl_enableLeaderElection :: bool
  fl_stopReconcilers :: string
  fl_workDir :: string
  fl_ToolImage :: string
  fl_OperatorNamespace :: string
  fl_OperatorName :: string
  fl_MaxConcurrentReconcile :: int
  fl_MaxConcurrentHealthCheck :: int
  fl_SyncIntervalSec :: int
  fl_enablePprof :: bool
  fl_k8sQps :: int
  fl_k8sBurst :: int
  fl_Debug :: bool
  fl_enableWebhook :: bool
  fl_WatchNamespace :: string

definition default_flags :: flags where
  "default_flags =
     \<lparr>fl_showVersion = False, fl_metricsAddr = '':8080'', fl_probeAddr = '':8081'', fl_enableLeaderElection = False, fl_stopReconcilers = [],
      fl_workDir = [], fl_ToolImage = [], fl_OperatorNamespace = ''milvus-operator'', fl_OperatorName = ''milvus-operator'',
      fl_MaxConcurrentReconcile = 10, fl_MaxConcurrentHealthCheck = 10, fl_SyncIntervalSec = 600, fl_enablePprof = False,
      fl_k8sQps = 100, fl_k8sBurst = 100, fl_Debug = False, fl_enableWebhook = False, fl_WatchNamespace = []\<rparr>"

section \<open>The manager\<close>

text \<open>The namespaces the cache is restricted to; \<open>None\<close> is the nil map.\<close>

definition default_namespaces :: "string \<Rightarrow> string list option" where
  "default_namespaces watchNamespace =
     (if watchNamespace \<noteq> [] then Some (remdups (filter (\<lambda>ns. ns \<noteq> []) (map TrimSpace (split_on CHR '','' watchNamespace)))) else None)"

record manager_options =
  mo_SyncPeriod :: int
  mo_DefaultNamespaces :: "string list option"
  mo_EnableWatchBookmarks :: bool
  mo_MetricsBindAddress :: string
  mo_WebhookPort :: int
  mo_HealthProbeBindAddress :: string
  mo_LeaderElection :: bool
  mo_LeaderElectionID :: string
  mo_QPS :: int
  mo_Burst :: int

record ('w, 'm) manager_lib =
  mb_NewManager :: "manager_options \<Rightarrow> ('w, 'm) op"
  mb_AddHealthzCheck :: "'m \<Rightarrow> string \<Rightarrow> ('w, unit) op"
  mb_AddReadyzCheck :: "'m \<Rightarrow> string \<Rightarrow> ('w, unit) op"
  mb_Start :: "'m \<Rightarrow> ('w, unit) op"

definition second :: int where
  "second = 1000000000"

definition NewManager :: "('w, 'm) manager_lib \<Rightarrow> int \<Rightarrow> string \<Rightarrow> int \<Rightarrow> int \<Rightarrow> string \<Rightarrow> string \<Rightarrow> bool \<Rightarrow> ('w, 'm) op" where
  "NewManager lib syncIntervalSec watchNamespace k8sQps k8sBurst metricsAddr probeAddr enableLeaderElection =
     op_bind (mb_NewManager lib
       \<lparr>mo_SyncPeriod = second * syncIntervalSec, mo_DefaultNamespaces = default_namespaces watchNamespace, mo_EnableWatchBookmarks = True,
        mo_MetricsBindAddress = metricsAddr, mo_WebhookPort = 9443, mo_HealthProbeBindAddress = probeAddr,
        mo_LeaderElection = enableLeaderElection, mo_LeaderElectionID = ''71808ec5.milvus.io'', mo_QPS = k8sQps, mo_Burst = k8sBurst\<rparr>) (\<lambda>mgr.
     op_bind (mb_AddHealthzCheck lib mgr ''healthz'') (\<lambda>_.
     op_bind (mb_AddReadyzCheck lib mgr ''readyz'') (\<lambda>_.
     ret mgr)))"

section \<open>Reading the chart values\<close>

definition DefaultValuesPath :: string where
  "DefaultValuesPath = ''config/assets/charts'' @ ''/values.yaml''"

definition readValuesFromFile :: "'w files \<Rightarrow> (string \<Rightarrow> go_error + values_map) \<Rightarrow> string \<Rightarrow> ('w, values_map) op" where
  "readValuesFromFile fs unmarshal file =
     op_bind (op_wrap (''failed to read file '' @ file) (fs_ReadFile fs file)) (\<lambda>data.
     lift_result (wrap (''failed to unmarshal file '' @ file) (unmarshal data)))"

section \<open>The start sequence\<close>

text \<open>The collectors of the metrics; \<open>MustRegister\<close> answers \<open>False\<close> where the registry panics.\<close>

definition collectors :: "string list" where
  "collectors = [''milvus_status'', ''milvus_total_count'', ''milvus_operator'']"

fun register_all :: "(string \<Rightarrow> ('w, bool) state) \<Rightarrow> string list \<Rightarrow> ('w, bool) state" where
  "register_all mustRegister [] = State_Monad.return True"
| "register_all mustRegister (c # cs) = do {
     ok \<leftarrow> mustRegister c;
     (if ok then register_all mustRegister cs else State_Monad.return False) }"

definition InitializeMetrics :: "(string \<Rightarrow> ('w, bool) state) \<Rightarrow> ('w, bool) state" where
  "InitializeMetrics mustRegister = register_all mustRegister collectors"

text \<open>The calls the main program makes after the flags are parsed, with what each needs.\<close>

record ('w, 'm) main_env =
  me_ServePprof :: "('w, unit) state"
  me_Init :: "string \<Rightarrow> ('w, unit) op"
  me_InitDefaultValues :: "('w, bool) state"
  me_lib :: "('w, 'm) manager_lib"
  me_MustRegister :: "string \<Rightarrow> ('w, bool) state"
  me_SetupControllers :: "'m \<Rightarrow> string list \<Rightarrow> bool \<Rightarrow> ('w, unit) op"

text \<open>The exit code: a panic is 2.\<close>

definition main_program :: "('w, 'm) main_env \<Rightarrow> flags \<Rightarrow> ('w, int) state" where
  "main_program E f =
     (if fl_showVersion f then State_Monad.return 0
      else do {
        _ \<leftarrow> (if fl_enablePprof f then me_ServePprof E else State_Monad.return ());
        init \<leftarrow> me_Init E (fl_workDir f);
        (case init of Inl _ \<Rightarrow> State_Monad.return 1 | Inr _ \<Rightarrow> do {
          ok \<leftarrow> me_InitDefaultValues E;
          (if \<not> ok then State_Monad.return 2 else do {
            mgr \<leftarrow> NewManager (me_lib E) (fl_SyncIntervalSec f) (fl_WatchNamespace f) (fl_k8sQps f) (fl_k8sBurst f)
              (fl_metricsAddr f) (fl_probeAddr f) (fl_enableLeaderElection f);
            (case mgr of Inl _ \<Rightarrow> State_Monad.return 1 | Inr m \<Rightarrow> do {
              registered \<leftarrow> InitializeMetrics (me_MustRegister E);
              (if \<not> registered then State_Monad.return 2 else do {
                setup \<leftarrow> me_SetupControllers E m (split_on CHR '','' (fl_stopReconcilers f)) (fl_enableWebhook f);
                (case setup of Inl _ \<Rightarrow> State_Monad.return 1 | Inr _ \<Rightarrow> do {
                  run \<leftarrow> mb_Start (me_lib E) m;
                  State_Monad.return (case run of Inl _ \<Rightarrow> 1 | Inr _ \<Rightarrow> 0) }) }) }) }) }) })"

text \<open>The parts of the operator as they are wired: the assets from \<open>config_Init\<close>, the chart values from their file, the controllers
  of \<open>SetupControllers\<close>.\<close>

definition operator_env ::
  "'w files \<Rightarrow> (string \<Rightarrow> ('w, string list) op) \<Rightarrow> (string \<Rightarrow> string) \<Rightarrow> (string \<Rightarrow> go_error + values_map) \<Rightarrow> ('w, 'm) manager_lib \<Rightarrow>
   ('w, unit) state \<Rightarrow> (string \<Rightarrow> ('w, bool) state) \<Rightarrow> (string list \<Rightarrow> string list) \<Rightarrow> ('m \<Rightarrow> string \<Rightarrow> ('w, unit) op) \<Rightarrow> ('m \<Rightarrow> string \<Rightarrow> ('w, unit) op) \<Rightarrow> ('w, 'm) main_env" where
  "operator_env fs readDir env unmarshal lib pprof mustRegister order setup webhook =
     \<lparr>me_ServePprof = pprof, me_Init = (\<lambda>dir. op_bind (config_Init fs readDir env dir) (\<lambda>_. ret ())),
      me_InitDefaultValues = do { v \<leftarrow> readValuesFromFile fs unmarshal DefaultValuesPath; State_Monad.return (case v of Inl _ \<Rightarrow> False | Inr file \<Rightarrow> MustInitDefaultValuesProvider file \<noteq> None) },
      me_lib = lib, me_MustRegister = mustRegister,
      me_SetupControllers = (\<lambda>mgr. SetupControllers order (setup mgr) (webhook mgr))\<rparr>"

section \<open>Facts\<close>

lemma watched_namespaces:
  "default_namespaces w = Some nss \<Longrightarrow> distinct nss \<and> (ns \<in> set nss \<longleftrightarrow> ns \<noteq> [] \<and> (\<exists>p \<in> set (split_on CHR '','' w). TrimSpace p = ns))"
  by (auto simp: default_namespaces_def split: if_splits)

text \<open>The manager is started only when everything before it went well, and it is the only way to the exit code 0 besides the version.\<close>

lemma main_exit:
  assumes "run_state (main_program E f) w = (code, w')"
  shows "code \<in> {0, 1, 2}"
    and "code = 0 \<Longrightarrow> fl_showVersion f \<or> (\<exists>m v. run_state (mb_Start (me_lib E) m) v = (Inr (), w'))"
  using assms by (auto simp: main_program_def split: if_splits prod.splits sum.splits)

lemma stop_all_sets_up_nothing:
  assumes "fl_stopReconcilers f = ''all''"
  shows "SetupControllers order setup webhook (split_on CHR '','' (fl_stopReconcilers f)) False = op_bind (ret ()) (\<lambda>_. ret ())"
  using assms by (simp add: SetupControllers_def)

end
