(* ===== verification/Run_Groups.thy ===== *)
theory Run_Groups
  imports Status "HOL-Library.Multiset"
begin

text \<open>
  Groups of goroutines (groups.go): every goroutine runs one function, its error or its panic is appended to the errors of the group under a
  lock, and \<open>Wait\<close> combines them.  A run of a group is a list of the functions in the order in which they finish; what the caller
  relies on does not depend on that order.
\<close>

text \<open>One goroutine of \<open>Group.Go\<close>.  In debug mode a panic is not captured and ends the process.\<close>

definition Group_Go :: "bool \<Rightarrow> ('w, unit) op \<Rightarrow> go_error list \<Rightarrow> ('w, go_error list) op" where
  "Group_Go debug f errors = do {
     res \<leftarrow> f;
     (case res of
        Inr _ \<Rightarrow> ret errors
      | Inl (GoPanic r) \<Rightarrow> if debug then fail (GoPanic r) else ret (errors @ [Errorf r])
      | Inl err \<Rightarrow> ret (errors @ [err])) }"

fun run_group :: "bool \<Rightarrow> ('w, unit) op list \<Rightarrow> go_error list \<Rightarrow> ('w, go_error list) op" where
  "run_group debug [] errors = ret errors"
| "run_group debug (f # fs) errors = op_bind (Group_Go debug f errors) (run_group debug fs)"

definition Group_run :: "bool \<Rightarrow> ('w, unit) op list \<Rightarrow> ('w, unit) op" where
  "Group_run debug fs = op_bind (run_group debug fs []) (\<lambda>errors. lift_result (Group_Wait errors))"

text \<open>A captured panic and the panic itself have the same text, so the group runner of \<open>Status\<close>, which keeps the panics, gives the same
  error.\<close>

definition captured :: "go_error \<Rightarrow> go_error" where
  "captured e = (case e of GoPanic r \<Rightarrow> Errorf r | _ \<Rightarrow> e)"

lemma captured_simps [simp]: "is_requeue (captured e) = is_requeue e" "error_text (captured e) = error_text e"
  by (cases e; simp add: captured_def)+

lemma captured_requeue: "is_requeue e \<Longrightarrow> captured e = e"
  by (cases e) (simp_all add: captured_def)

lemma find_captured: "find is_requeue (map captured es) = find is_requeue es"
  by (induction es) (auto simp: captured_requeue)

lemma Group_Wait_captured: "Group_Wait (map captured errs) = Group_Wait errs"
  by (simp add: Group_Wait_def find_captured comp_def cong: option.case_cong)

lemma run_group_collects:
  "run_state (run_group False fs errors) w = (case run_state (collect_errors (\<lambda>f. f) fs) w of (es, w') \<Rightarrow> (Inr (errors @ map captured es), w'))"
proof (induction fs arbitrary: errors w)
  case (Cons f fs)
  obtain res v where f: "run_state f w = (res, v)" by fastforce
  obtain es u where fs: "run_state (collect_errors (\<lambda>f. f) fs) v = (es, u)" by fastforce
  have go: "run_state (Group_Go False f errors) w = (Inr (errors @ (case res of Inl e \<Rightarrow> [captured e] | Inr _ \<Rightarrow> [])), v)"
    using f by (auto simp: Group_Go_def captured_def split: sum.splits go_error.splits)
  show ?case using f fs Cons.IH by (cases res) (simp_all add: go run_op_bind)
qed simp

lemma group_run_collects:
  "run_state (Group_run False fs) w = run_state (do { errs \<leftarrow> collect_errors (\<lambda>f. f) fs; lift_result (Group_Wait errs) }) w"
  by (simp add: Group_run_def run_op_bind run_group_collects Group_Wait_captured split: prod.splits)

text \<open>Success and the wish to be requeued do not depend on the order in which the goroutines finish.\<close>

lemma group_wait_order:
  assumes "mset errs = mset errs'"
  shows "Group_Wait errs = Inr () \<longleftrightarrow> Group_Wait errs' = Inr ()"
    and "(\<exists>e. Group_Wait errs = Inl e \<and> is_requeue e) \<longleftrightarrow> (\<exists>e. Group_Wait errs' = Inl e \<and> is_requeue e)"
proof -
  have spec: "Group_Wait es = Inr () \<longleftrightarrow> es = []" "(\<exists>e. Group_Wait es = Inl e \<and> is_requeue e) \<longleftrightarrow> (\<exists>e \<in> set es. is_requeue e)" for es
    using find_None_iff [of is_requeue es] by (auto simp: Group_Wait_def find_Some_iff split: option.splits)
  show "Group_Wait errs = Inr () \<longleftrightarrow> Group_Wait errs' = Inr ()" using assms by (auto simp: spec)
  show "(\<exists>e. Group_Wait errs = Inl e \<and> is_requeue e) \<longleftrightarrow> (\<exists>e. Group_Wait errs' = Inl e \<and> is_requeue e)"
    using mset_eq_setD [OF assms] by (simp add: spec)
qed

section \<open>Ownership\<close>

text \<open>\<open>SetControllerReference\<close> of utils.go around the one of controller-runtime: an object that a MilvusCluster owns stays with it.\<close>

datatype owner_error = AlreadyOwned string string | OwnerError go_error

definition SetControllerReference ::
  "(Milvus \<Rightarrow> OwnerReference list \<Rightarrow> owner_error + OwnerReference list) \<Rightarrow> Milvus \<Rightarrow> OwnerReference list \<Rightarrow> go_error + OwnerReference list" where
  "SetControllerReference inner owner refs =
     (case inner owner refs of
        Inr refs' \<Rightarrow> Inr refs'
      | Inl (AlreadyOwned kind msg) \<Rightarrow> if kind = ''MilvusCluster'' then Inr refs else Inl (Wrap (Errorf msg) ''set controller reference'')
      | Inl (OwnerError e) \<Rightarrow> Inl (Wrap e ''set controller reference''))"

end
