(* ===== verification/Manifest.thy ===== *)
theory Manifest
  imports Op_Logic
begin

text \<open>
  The clients of pkg/util: applying a manifest of several documents (k8s_client.go) and running a command
  in a pod (rest/rest_client.go).  The YAML reader, the discovery of the API server and the dynamic client
  are third-party; their parts the code uses are the records \<open>manifest_lib\<close> and \<open>K8sClients\<close>, their
  documented behaviour the locales \<open>yaml_reader\<close> and \<open>object_store\<close>.
\<close>

section \<open>Clients\<close>

record GroupVersionResource =
  gvr_Group :: string
  gvr_Version :: string
  gvr_Resource :: string

record RESTMapping =
  rm_Resource :: GroupVersionResource
  rm_Namespaced :: bool

record Unstructured =
  un_Kind :: string
  un_Namespace :: string
  un_Name :: string
  un_Content :: string

record applyableObj =
  ao_unstructured :: Unstructured
  ao_mapping :: RESTMapping

text \<open>The results of the calls of \<open>Decode\<close> up to the end of the input; the decoding of one document to an
  object with its group and version, and its conversion.\<close>

record manifest_lib =
  ml_stream :: "string \<Rightarrow> (go_error + string) list"
  ml_Decode :: "string \<Rightarrow> go_error + (Unstructured \<times> string)"
  ml_ToUnstructured :: "Unstructured \<Rightarrow> go_error + Unstructured"

text \<open>A resource interface is the resource and, when it has one, the namespace.\<close>

type_synonym resource_interface = "GroupVersionResource \<times> string option"

record 'w K8sClients =
  k8_ListCRDs :: "('w, ObjectMeta list) op"
  k8_GetAPIGroupResources :: "('w, string \<Rightarrow> go_error + RESTMapping) op"
  k8_Get :: "resource_interface \<Rightarrow> string \<Rightarrow> ('w, Unstructured) op"
  k8_Create :: "resource_interface \<Rightarrow> Unstructured \<Rightarrow> ('w, unit) op"
  k8_Delete :: "resource_interface \<Rightarrow> string \<Rightarrow> ('w, unit) op"
  k8_ListDeployments :: "string \<Rightarrow> ('w, Deployment list) op"

definition NewK8sClientsForConfig :: "go_error + 'a \<Rightarrow> go_error + 'b \<Rightarrow> go_error + 'c \<Rightarrow> go_error + ('a \<times> 'b \<times> 'c)" where
  "NewK8sClientsForConfig newSet newExt newDynamic =
     (case wrap ''failed to create client set'' newSet of
        Inl e \<Rightarrow> Inl e
      | Inr clientSet \<Rightarrow> (case wrap ''failed to create ext client set'' newExt of
          Inl e \<Rightarrow> Inl e
        | Inr extClientSet \<Rightarrow> (case wrap ''failed to create dynamic client'' newDynamic of
            Inl e \<Rightarrow> Inl e
          | Inr dynamicClient \<Rightarrow> Inr (clientSet, extClientSet, dynamicClient))))"

section \<open>Custom resource definitions\<close>

definition crdVersionLabel :: string where
  "crdVersionLabel = ''app.kubernetes.io/version''"

definition crdListToVersionMapByName :: "string list \<Rightarrow> ObjectMeta list \<Rightarrow> smap" where
  "crdListToVersionMapByName crdNameList crds =
     fold (\<lambda>crdName. fold (\<lambda>crd found.
         if om_Name crd = crdName then fmupd crdName (fmget (om_Labels crd) crdVersionLabel) found else found) crds)
       crdNameList fmempty"

definition GetCRDVersionsByNames :: "'w K8sClients \<Rightarrow> string list \<Rightarrow> ('w, smap) op" where
  "GetCRDVersionsByNames clis crdNames =
     op_bind (op_wrap ''failed to list crds'' (k8_ListCRDs clis)) (\<lambda>crds. ret (crdListToVersionMapByName crdNames crds))"

section \<open>Objects of a manifest\<close>

text \<open>\<open>show_gvr\<close> is how the library prints a resource.\<close>

definition Exist :: "(GroupVersionResource \<Rightarrow> string) \<Rightarrow> 'w K8sClients \<Rightarrow> GroupVersionResource \<Rightarrow> string \<Rightarrow> string \<Rightarrow> ('w, bool) op" where
  "Exist show_gvr clis gvr namespace name = do {
     r \<leftarrow> k8_Get clis (gvr, Some namespace) name;
     (case r of
        Inr _ \<Rightarrow> ret True
      | Inl err \<Rightarrow> if IsNotFound err then ret False else fail (Wrap err (''failed to get resource '' @ show_gvr gvr @ ''/'' @ name))) }"

definition getCliByObject :: "applyableObj \<Rightarrow> resource_interface" where
  "getCliByObject obj =
     (if rm_Namespaced (ao_mapping obj) then
        (let ns = un_Namespace (ao_unstructured obj) in
         (rm_Resource (ao_mapping obj), Some (if ns = [] then ''default'' else ns)))
      else (rm_Resource (ao_mapping obj), None))"

abbreviation nl :: char where
  "nl \<equiv> CHR 0x0A"

definition unlines :: "string list \<Rightarrow> string" where
  "unlines ls = concat (map (\<lambda>l. l @ [nl]) ls)"

definition dummy_lines :: "string list" where
  "dummy_lines = [''---'', ''apiVersion: v1'', ''kind: ConfigMap'', ''metadata:'', ''  name: milvus-operator-dummy'']"

definition addDummyObject :: "string \<Rightarrow> string" where
  "addDummyObject input = unlines dummy_lines @ input"

text \<open>The loop over the documents: the first one is the dummy.\<close>

fun decode_objects :: "manifest_lib \<Rightarrow> (string \<Rightarrow> go_error + RESTMapping) \<Rightarrow> bool \<Rightarrow> (go_error + string) list \<Rightarrow> applyableObj list \<Rightarrow>
    go_error + applyableObj list" where
  "decode_objects ml mapper isDummy [] objs = Inr objs"
| "decode_objects ml mapper isDummy (Inl e # docs) objs = Inl (Wrap e ''failed to decode yaml'')"
| "decode_objects ml mapper isDummy (Inr raw # docs) objs =
     (if isDummy then decode_objects ml mapper False docs objs
      else case wrap ''failed to decode yaml'' (ml_Decode ml raw) of
        Inl e \<Rightarrow> Inl e
      | Inr (obj, gvk) \<Rightarrow> (case wrap ''failed to get rest mapping'' (mapper gvk) of
          Inl e \<Rightarrow> Inl e
        | Inr mapping \<Rightarrow> (case wrap ''failed to convert to unstructured'' (ml_ToUnstructured ml obj) of
            Inl e \<Rightarrow> Inl e
          | Inr unstructuredObj \<Rightarrow>
              decode_objects ml mapper False docs (objs @ [\<lparr>ao_unstructured = unstructuredObj, ao_mapping = mapping\<rparr>]))))"

definition getObjectsFromManifest :: "manifest_lib \<Rightarrow> 'w K8sClients \<Rightarrow> string \<Rightarrow> ('w, applyableObj list) op" where
  "getObjectsFromManifest ml clis originalManifest =
     (let manifest = addDummyObject originalManifest in
      op_bind (op_wrap ''failed to get api group resources'' (k8_GetAPIGroupResources clis)) (\<lambda>restMapper.
      lift_result (decode_objects ml restMapper True (ml_stream ml manifest) [])))"

fun create_objects :: "'w K8sClients \<Rightarrow> applyableObj list \<Rightarrow> ('w, unit) op" where
  "create_objects clis [] = ret ()"
| "create_objects clis (obj # objs) =
     op_bind (op_wrap (''failed to create resource '' @ un_Kind (ao_unstructured obj) @ ''/'' @ un_Name (ao_unstructured obj))
       (k8_Create clis (getCliByObject obj) (ao_unstructured obj))) (\<lambda>_. create_objects clis objs)"

definition K8s_Create :: "manifest_lib \<Rightarrow> 'w K8sClients \<Rightarrow> string \<Rightarrow> ('w, unit) op" where
  "K8s_Create ml clis manifest =
     op_bind (op_wrap ''failed to get objects from manifest'' (getObjectsFromManifest ml clis manifest)) (create_objects clis)"

fun delete_objects :: "'w K8sClients \<Rightarrow> applyableObj list \<Rightarrow> ('w, unit) op" where
  "delete_objects clis [] = ret ()"
| "delete_objects clis (obj # objs) =
     op_bind (op_wrap ''failed to create resource'' (k8_Delete clis (getCliByObject obj) (un_Name (ao_unstructured obj))))
       (\<lambda>_. delete_objects clis objs)"

definition K8s_Delete :: "manifest_lib \<Rightarrow> 'w K8sClients \<Rightarrow> string \<Rightarrow> ('w, unit) op" where
  "K8s_Delete ml clis manifest =
     op_bind (op_wrap ''failed to get objects from manifest'' (getObjectsFromManifest ml clis manifest)) (delete_objects clis)"

section \<open>Waiting for Deployments\<close>

text \<open>\<open>select\<close> waits for the next tick or for the end of the context, which it reports; \<open>None\<close> is a wait
  that is still going on after \<open>fuel\<close> rounds.\<close>

fun WaitDeploymentsReadyByNamespace :: "nat \<Rightarrow> 'w K8sClients \<Rightarrow> ('w, go_error option) state \<Rightarrow> string \<Rightarrow> ('w, (go_error + unit) option) state" where
  "WaitDeploymentsReadyByNamespace 0 clis select namespace = State_Monad.return None"
| "WaitDeploymentsReadyByNamespace (Suc fuel) clis select namespace = do {
     ctxErr \<leftarrow> select;
     (case ctxErr of
        Some e \<Rightarrow> State_Monad.return (Some (Inl (Wrap e ''ctx canceled to wait deployments ready'')))
      | None \<Rightarrow> do {
          res \<leftarrow> k8_ListDeployments clis namespace;
          (case res of
             Inl e \<Rightarrow> State_Monad.return (Some (Inl (Wrap e ''failed to list deployments'')))
           | Inr deploys \<Rightarrow>
               if deploys = [] then State_Monad.return (Some (Inl (Errorf (''no deployments found in namespace '' @ namespace))))
               else if list_all (\<lambda>d. \<not> dst_ReadyReplicas (d_Status d) < 1) deploys then State_Monad.return (Some (Inr ()))
               else WaitDeploymentsReadyByNamespace fuel clis select namespace) }) }"

section \<open>Commands in pods\<close>

record exec_request =
  er_Namespace :: string
  er_Pod :: string
  er_Container :: string
  er_Command :: "string list"
  er_Stdin :: bool
  er_Stdout :: bool
  er_Stderr :: bool

text \<open>Building the client: the scheme, then the client of the core group under \<open>api\<close>.\<close>

definition newRestClientImpl :: "go_error + 's \<Rightarrow> ('s \<Rightarrow> string \<Rightarrow> string \<Rightarrow> go_error + 'c) \<Rightarrow> go_error + 'c" where
  "newRestClientImpl addCore restClientFor =
     (case wrap ''failed to add corev1 to scheme'' addCore of
        Inl e \<Rightarrow> Inl e
      | Inr scheme \<Rightarrow> wrap ''failed to create rest client'' (restClientFor scheme ''v1'' ''api''))"

definition rest_Exec :: "(exec_request \<Rightarrow> go_error + 'x) \<Rightarrow> ('x \<Rightarrow> ('w, string \<times> string) op) \<Rightarrow> string \<Rightarrow> string \<Rightarrow> string \<Rightarrow> string list \<Rightarrow>
    ('w, string \<times> string) op" where
  "rest_Exec newSPDYExecutor stream namespace pod container cmd =
     (let req = \<lparr>er_Namespace = namespace, er_Pod = pod, er_Container = container, er_Command = cmd,
                 er_Stdin = False, er_Stdout = True, er_Stderr = True\<rparr> in
      op_bind (lift_result (wrap ''failed to create executor'' (newSPDYExecutor req))) (\<lambda>exec.
      op_wrap ''failed to exec command'' (stream exec)))"

section \<open>Contracts\<close>

text \<open>Lines that are no separator of documents.\<close>

definition plain_lines :: "string list \<Rightarrow> bool" where
  "plain_lines ls \<longleftrightarrow> list_all (\<lambda>l. take 3 l \<noteq> ''---'' \<and> nl \<notin> set l) ls"

text \<open>The reader: a document ends before a line that starts a new one, or with the input.\<close>

locale yaml_reader =
  fixes stream :: "string \<Rightarrow> (go_error + string) list" and parse :: "string \<Rightarrow> go_error + string"
  assumes separated: "nl \<notin> set l \<Longrightarrow> plain_lines ls \<Longrightarrow> stream (unlines (l # ls) @ ''---'' @ [nl] @ rest) = parse (unlines (l # ls)) # stream rest"
    and single: "nl \<notin> set l \<Longrightarrow> plain_lines (ls @ [t]) \<Longrightarrow> stream (unlines (l # ls) @ t) = [parse (unlines (l # ls) @ t)]"

text \<open>The API server: creating an object that exists fails; a failed call may have been applied.\<close>

locale object_store =
  fixes clis :: "'w K8sClients" and mapper :: "string \<Rightarrow> go_error + RESTMapping" and objs :: "'w \<Rightarrow> (resource_interface \<times> string) set"
  assumes group_resources: "run_state (k8_GetAPIGroupResources clis) w = (rg, w') \<Longrightarrow> objs w' = objs w \<and> (\<forall>m. rg = Inr m \<longrightarrow> m = mapper)"
    and create: "run_state (k8_Create clis ri u) w = (ru, w') \<Longrightarrow>
      (ru = Inr () \<longrightarrow> (ri, un_Name u) \<notin> objs w) \<and> applied_or_lost ru (objs w' = objs w) (objs w' = insert (ri, un_Name u) (objs w))"
    and delete: "run_state (k8_Delete clis ri name) w = (ru, w') \<Longrightarrow> applied_or_lost ru (objs w' = objs w) (objs w' = objs w - {(ri, name)})"

section \<open>What a manifest stands for\<close>

definition object_of_doc :: "manifest_lib \<Rightarrow> (string \<Rightarrow> go_error + RESTMapping) \<Rightarrow> go_error + string \<Rightarrow> applyableObj \<Rightarrow> bool" where
  "object_of_doc ml mapper d ob \<longleftrightarrow> (\<exists>raw obj gvk. d = Inr raw \<and> ml_Decode ml raw = Inr (obj, gvk) \<and>
     mapper gvk = Inr (ao_mapping ob) \<and> ml_ToUnstructured ml obj = Inr (ao_unstructured ob))"

definition object_key_of :: "applyableObj \<Rightarrow> resource_interface \<times> string" where
  "object_key_of ob = (getCliByObject ob, un_Name (ao_unstructured ob))"

lemma decode_objects_iff:
  "decode_objects ml mapper False docs objs = Inr res \<longleftrightarrow> (\<exists>new. res = objs @ new \<and> list_all2 (object_of_doc ml mapper) docs new)"
proof (induction docs arbitrary: objs)
  case (Cons d docs)
  show ?case
  proof (cases "\<exists>ob. object_of_doc ml mapper d ob")
    case True
    then obtain ob where ob: "object_of_doc ml mapper d ob" by blast
    then have uniq: "object_of_doc ml mapper d x \<longleftrightarrow> x = ob" for x by (auto simp: object_of_doc_def)
    have "decode_objects ml mapper False (d # docs) objs = decode_objects ml mapper False docs (objs @ [ob])"
      using ob by (cases ob) (auto simp: object_of_doc_def)
    then show ?thesis by (auto simp: Cons.IH list_all2_Cons1 uniq)
  next
    case False
    then have "\<nexists>res. decode_objects ml mapper False (d # docs) objs = Inr res"
      by (cases d) (auto simp: object_of_doc_def wrap_def split: sum.splits, metis applyableObj.select_convs)
    with False show ?thesis by (auto simp: list_all2_Cons1)
  qed
qed auto

lemma create_objects_run:
  assumes "object_store clis mapper objs" "run_state (create_objects clis obs) w = (Inr (), w')"
  shows "objs w' = objs w \<union> object_key_of ` set obs \<and> object_key_of ` set obs \<inter> objs w = {} \<and> distinct (map object_key_of obs)"
  using assms(2)
proof (induction obs arbitrary: w)
  case (Cons ob obs)
  then obtain w1 where "run_state (k8_Create clis (getCliByObject ob) (ao_unstructured ob)) w = (Inr (), w1)"
    and rest: "run_state (create_objects clis obs) w1 = (Inr (), w')"
    by (auto simp: run_op_simps split: prod.splits sum.splits)
  with object_store.create [OF assms(1) this(1)] have "object_key_of ob \<notin> objs w" "objs w1 = insert (object_key_of ob) (objs w)"
    by (simp_all add: applied_or_lost_def object_key_of_def)
  with Cons.IH [OF rest] show ?case by auto
qed simp

lemma delete_objects_run:
  assumes "object_store clis mapper objs" "run_state (delete_objects clis obs) w = (Inr (), w')"
  shows "objs w' = objs w - object_key_of ` set obs"
  using assms(2)
proof (induction obs arbitrary: w)
  case (Cons ob obs)
  then obtain w1 where "run_state (k8_Delete clis (getCliByObject ob) (un_Name (ao_unstructured ob))) w = (Inr (), w1)"
    and rest: "run_state (delete_objects clis obs) w1 = (Inr (), w')"
    by (auto simp: run_op_simps split: prod.splits sum.splits)
  with object_store.delete [OF assms(1) this(1)] have "objs w1 = objs w - {object_key_of ob}"
    by (simp add: applied_or_lost_def object_key_of_def)
  with Cons.IH [OF rest] show ?case by auto
qed simp

text \<open>The dummy is a document of its own only when the manifest starts with a separator.\<close>

lemma dummy_plain: "dummy_lines = ''---'' # tl dummy_lines" "plain_lines (tl dummy_lines)" "nl \<notin> set ''---''"
  by code_simp+

lemma unlines_append [simp]: "unlines (a @ b) = unlines a @ unlines b"
  by (simp add: unlines_def)

lemma stream_dummy:
  assumes "yaml_reader stream parse"
  shows "plain_lines ls \<Longrightarrow> stream (addDummyObject (unlines ls @ ''---'' @ [nl] @ rest)) = parse (addDummyObject (unlines ls)) # stream rest"
    and "plain_lines (ls @ [t]) \<Longrightarrow> stream (addDummyObject (unlines ls @ t)) = [parse (addDummyObject (unlines ls @ t))]"
proof -
  have u: "addDummyObject (unlines ls @ x) = unlines (''---'' # tl dummy_lines @ ls) @ x" for x
    using dummy_plain(1) by (metis addDummyObject_def append_Cons append_assoc unlines_append)
  have pl: "plain_lines (tl dummy_lines @ xs)" if "plain_lines xs" for xs using that dummy_plain(2) by (simp add: plain_lines_def)
  show "plain_lines ls \<Longrightarrow> stream (addDummyObject (unlines ls @ ''---'' @ [nl] @ rest)) = parse (addDummyObject (unlines ls)) # stream rest"
    using yaml_reader.separated [OF assms dummy_plain(3) pl [of ls], of rest] u [of "[]"] u by simp
  show "plain_lines (ls @ [t]) \<Longrightarrow> stream (addDummyObject (unlines ls @ t)) = [parse (addDummyObject (unlines ls @ t))]"
    using yaml_reader.single [OF assms dummy_plain(3), of "tl dummy_lines @ ls" t] pl [of "ls @ [t]"] u by simp
qed

lemma getObjects_run:
  assumes "object_store clis mapper objs" "ml_stream ml (addDummyObject m) = dummy # docs"
    and "run_state (getObjectsFromManifest ml clis m) w = (Inr obs, w')"
  shows "objs w' = objs w \<and> list_all2 (object_of_doc ml mapper) docs obs"
proof -
  obtain mp where "run_state (k8_GetAPIGroupResources clis) w = (Inr mp, w')"
    and dec: "decode_objects ml mp True (dummy # docs) [] = Inr obs"
    using assms(2,3) by (auto simp: getObjectsFromManifest_def run_op_simps Let_def split: prod.splits sum.splits)
  with object_store.group_resources [OF assms(1) this(1)] have "objs w' = objs w" "mp = mapper" by simp_all
  moreover obtain raw where "dummy = Inr raw" using dec by (cases dummy) auto
  ultimately show ?thesis using dec by (auto simp: decode_objects_iff)
qed

lemma object_of_doc_unique:
  assumes "list_all2 (object_of_doc ml mapper) docs xs" "list_all2 (object_of_doc ml mapper) docs ys"
  shows "xs = ys"
  using assms
proof (induction docs arbitrary: xs ys)
  case (Cons d docs)
  have "x = y" if "object_of_doc ml mapper d x" "object_of_doc ml mapper d y" for x y
    using that by (cases x; cases y) (auto simp: object_of_doc_def)
  with Cons show ?case by (auto simp: list_all2_Cons1)
qed simp

section \<open>Waiting\<close>

text \<open>When the ticks move the world by \<open>tick\<close> and listing only reads, the wait ends at the first tick after
  which the namespace has Deployments and all of them have a ready replica.\<close>

lemma wait_returns:
  assumes "\<And>w. run_state select w = (None, tick w)" "\<And>w. run_state (k8_ListDeployments clis ns) w = (Inr (listed w), w)"
    and "\<forall>i < k. listed ((tick ^^ Suc i) w) \<noteq> [] \<and> \<not> list_all (\<lambda>d. \<not> dst_ReadyReplicas (d_Status d) < 1) (listed ((tick ^^ Suc i) w))"
    and "listed ((tick ^^ Suc k) w) \<noteq> []" "list_all (\<lambda>d. \<not> dst_ReadyReplicas (d_Status d) < 1) (listed ((tick ^^ Suc k) w))" "k < fuel"
  shows "run_state (WaitDeploymentsReadyByNamespace fuel clis select ns) w = (Some (Inr ()), (tick ^^ Suc k) w)"
  using assms(3-6)
proof (induction k arbitrary: w fuel)
  case 0
  then obtain f where "fuel = Suc f" by (cases fuel) auto
  with 0 show ?case by (simp add: assms(1,2))
next
  case (Suc k)
  then obtain f where f: "fuel = Suc f" by (cases fuel) auto
  have "run_state (WaitDeploymentsReadyByNamespace f clis select ns) (tick w) = (Some (Inr ()), (tick ^^ Suc k) (tick w))"
    by (rule Suc.IH) (use Suc.prems f in \<open>auto simp: funpow_swap1\<close>)
  with Suc.prems(1) f show ?case by (auto simp: assms(1,2) funpow_swap1)
qed

lemma wait_sound:
  assumes "run_state (WaitDeploymentsReadyByNamespace fuel clis select ns) w = (Some (Inr ()), w')"
  shows "\<exists>v ds. run_state (k8_ListDeployments clis ns) v = (Inr ds, w') \<and> ds \<noteq> [] \<and> list_all (\<lambda>d. 1 \<le> dst_ReadyReplicas (d_Status d)) ds"
  using assms
proof (induction fuel arbitrary: w)
  case (Suc fuel)
  then show ?case by (auto simp: not_less split: prod.splits option.splits sum.splits if_splits)
qed simp

section \<open>A reader and a store\<close>

text \<open>A reader that splits at separator lines, over the lines read so far, and a store of keys.\<close>

fun read_docs :: "string list \<Rightarrow> string list \<Rightarrow> string list" where
  "read_docs acc [] = []"
| "read_docs acc [t] = (if unlines acc @ t = [] then [] else [unlines acc @ t])"
| "read_docs acc (l # ls) =
     (if acc \<noteq> [] \<and> take 3 l = ''---'' then unlines acc # read_docs [] ls else read_docs (acc @ [l]) ls)"

definition std_stream :: "string \<Rightarrow> (go_error + string) list" where
  "std_stream s = map Inr (read_docs [] (split_on nl s))"

lemma split_unlines: "list_all (\<lambda>l. nl \<notin> set l) ls \<Longrightarrow> split_on nl (unlines ls @ rest) = ls @ split_on nl rest"
proof (induction ls)
  case (Cons l ls)
  have "split_on nl (l @ nl # x) = l # split_on nl x" if "nl \<notin> set l" for x using that by (induction l) auto
  with Cons show ?case by (simp add: unlines_def)
qed (simp add: unlines_def)

lemma read_plain:
  assumes "acc \<noteq> []" "plain_lines ls" "tail \<noteq> []"
  shows "read_docs acc (ls @ tail) = read_docs (acc @ ls) tail"
  using assms
proof (induction ls arbitrary: acc)
  case (Cons l ls)
  then have "read_docs acc ((l # ls) @ tail) = read_docs (acc @ [l]) (ls @ tail)"
    by (cases "ls @ tail") (auto simp: plain_lines_def)
  with Cons show ?case by (simp add: plain_lines_def)
qed simp

lemma split_no_nl: "nl \<notin> set t \<Longrightarrow> split_on nl t = [t]"
  by (induction t) auto

interpretation std_yaml: yaml_reader std_stream Inr
proof
  fix l :: string and ls rest
  assume h: "nl \<notin> set l" "plain_lines ls"
  then have lines: "list_all (\<lambda>l. nl \<notin> set l) (l # ls @ [''---''])" by (simp add: plain_lines_def list_all_iff)
  have "split_on nl (unlines (l # ls) @ ''---'' @ [nl] @ rest) = l # ls @ ''---'' # split_on nl rest"
    using split_unlines [OF lines, of rest] by (simp add: unlines_def)
  moreover have "read_docs [] (l # ls @ ''---'' # split_on nl rest) = unlines (l # ls) # read_docs [] (split_on nl rest)"
    using read_plain [of "[l]" ls "''---'' # split_on nl rest"] h(2) by (cases "split_on nl rest"; cases "ls @ ''---'' # split_on nl rest") auto
  ultimately show "std_stream (unlines (l # ls) @ ''---'' @ [nl] @ rest) = Inr (unlines (l # ls)) # std_stream rest"
    by (simp add: std_stream_def)
next
  fix l :: string and ls t
  assume h: "nl \<notin> set l" "plain_lines (ls @ [t])"
  then have lines: "list_all (\<lambda>l. nl \<notin> set l) (l # ls)" "nl \<notin> set t" "plain_lines ls" by (auto simp: plain_lines_def list_all_iff)
  have "read_docs [] (l # ls @ [t]) = [unlines (l # ls) @ t]"
    using read_plain [of "[l]" ls "[t]"] lines(3) by (cases "ls @ [t]") (auto simp: unlines_def)
  then show "std_stream (unlines (l # ls) @ t) = [Inr (unlines (l # ls) @ t)]"
    using split_unlines [OF lines(1), of t] split_no_nl [OF lines(2)] by (simp add: std_stream_def)
qed

text \<open>The world is the list of keys; every object is a config map named by its text.\<close>

type_synonym key_world = "(resource_interface \<times> string) list"

definition cm_mapping :: RESTMapping where
  "cm_mapping = \<lparr>rm_Resource = \<lparr>gvr_Group = [], gvr_Version = ''v1'', gvr_Resource = ''configmaps''\<rparr>, rm_Namespaced = True\<rparr>"

definition key_clis :: "key_world K8sClients" where
  "key_clis =
     \<lparr>k8_ListCRDs = ret [], k8_GetAPIGroupResources = ret (\<lambda>gvk. Inr cm_mapping),
      k8_Get = (\<lambda>ri name. State (\<lambda>w. if (ri, name) \<in> set w
         then (Inr \<lparr>un_Kind = ''ConfigMap'', un_Namespace = [], un_Name = name, un_Content = []\<rparr>, w) else (Inl (KNotFound name), w))),
      k8_Create = (\<lambda>ri u. State (\<lambda>w. if (ri, un_Name u) \<in> set w then (Inl (KError ''already exists''), w) else (Inr (), (ri, un_Name u) # w))),
      k8_Delete = (\<lambda>ri name. State (\<lambda>w. if (ri, name) \<in> set w then (Inr (), filter (\<lambda>k. k \<noteq> (ri, name)) w) else (Inl (KNotFound name), w))),
      k8_ListDeployments = (\<lambda>ns. ret [])\<rparr>"

definition std_ml :: manifest_lib where
  "std_ml = \<lparr>ml_stream = std_stream,
     ml_Decode = (\<lambda>raw. Inr (\<lparr>un_Kind = ''ConfigMap'', un_Namespace = [], un_Name = filter (\<lambda>c. c \<noteq> nl) raw, un_Content = raw\<rparr>, ''v1'')),
     ml_ToUnstructured = Inr\<rparr>"

interpretation key_store: object_store key_clis "\<lambda>gvk. Inr cm_mapping" set
  by unfold_locales (auto simp: key_clis_def applied_or_lost_def split: if_splits)

section \<open>Properties\<close>

text \<open>C14. Creating a manifest that starts with a separator creates exactly one object for every document
  of it, in the namespace it names or \<open>default\<close>, and none for the document the client adds in front; none
  of them existed before; and deleting the same manifest afterwards restores the objects there were.\<close>

theorem manifest_roundtrip:
  assumes "object_store clis mapper objs" "yaml_reader (ml_stream ml) parse" "m = ''---'' @ [nl] @ rest"
    and "run_state (K8s_Create ml clis m) w = (Inr (), w1)"
  shows "\<exists>obs. list_all2 (object_of_doc ml mapper) (ml_stream ml rest) obs \<and> distinct (map object_key_of obs) \<and>
    objs w1 = objs w \<union> object_key_of ` set obs \<and> object_key_of ` set obs \<inter> objs w = {} \<and>
    (\<forall>w2. run_state (K8s_Delete ml clis m) w1 = (Inr (), w2) \<longrightarrow> objs w2 = objs w)"
proof -
  have docs: "ml_stream ml (addDummyObject m) = parse (addDummyObject []) # ml_stream ml rest"
    using stream_dummy(1) [OF assms(2), of "[]" rest] assms(3) by (simp add: plain_lines_def unlines_def)
  obtain obs v where "run_state (getObjectsFromManifest ml clis m) w = (Inr obs, v)" and run: "run_state (create_objects clis obs) v = (Inr (), w1)"
    using assms(4) by (auto simp: K8s_Create_def run_op_simps split: prod.splits sum.splits)
  with getObjects_run [OF assms(1) docs this(1)] have obs: "objs v = objs w" "list_all2 (object_of_doc ml mapper) (ml_stream ml rest) obs" by auto
  note made = create_objects_run [OF assms(1) run, unfolded obs(1)]
  have "objs w2 = objs w" if del: "run_state (K8s_Delete ml clis m) w1 = (Inr (), w2)" for w2
  proof -
    obtain obs2 v2 where "run_state (getObjectsFromManifest ml clis m) w1 = (Inr obs2, v2)" and run2: "run_state (delete_objects clis obs2) v2 = (Inr (), w2)"
      using del by (auto simp: K8s_Delete_def run_op_simps split: prod.splits sum.splits)
    with getObjects_run [OF assms(1) docs this(1)] have "objs v2 = objs w1" "obs2 = obs" using object_of_doc_unique [OF _ obs(2)] by auto
    with delete_objects_run [OF assms(1) run2] made show ?thesis by auto
  qed
  with obs(2) made show ?thesis by blast
qed

theorem manifest_roundtrip_witness:
  "\<exists>w1 w2. run_state (K8s_Create std_ml key_clis (''---'' @ [nl] @ unlines [''foo'', ''---'', ''bar''])) [] = (Inr (), w1) \<and> length w1 = 2 \<and>
     run_state (K8s_Delete std_ml key_clis (''---'' @ [nl] @ unlines [''foo'', ''---'', ''bar''])) w1 = (Inr (), w2) \<and> set w2 = {}"
proof -
  define m where "m = ''---'' @ [nl] @ unlines [''foo'', ''---'', ''bar'']"
  define w1 where "w1 = snd (run_state (K8s_Create std_ml key_clis m) [])"
  define w2 where "w2 = snd (run_state (K8s_Delete std_ml key_clis m) w1)"
  have c: "run_state (K8s_Create std_ml key_clis m) [] = (Inr (), w1)" "length w1 = 2" unfolding w1_def m_def by code_simp+
  have "fst (run_state (K8s_Delete std_ml key_clis m) w1) = Inr ()" unfolding w1_def m_def by code_simp
  then have d: "run_state (K8s_Delete std_ml key_clis m) w1 = (Inr (), w2)" by (simp add: w2_def prod_eq_iff)
  have y: "yaml_reader (ml_stream std_ml) Inr" using std_yaml.yaml_reader_axioms by (simp add: std_ml_def)
  have "set w2 = set ([] :: key_world)" using manifest_roundtrip [OF key_store.object_store_axioms y m_def c(1)] d by blast
  with c d show ?thesis unfolding m_def by auto
qed

text \<open>C33. A manifest that does not start with a separator loses its first document: it becomes part of the
  document the client adds in front, which is skipped.  With one document only, nothing is created and
  no error is reported; in front of other documents, only those are applied.\<close>

theorem first_document_lost:
  assumes "yaml_reader (ml_stream ml) parse" "run_state (k8_GetAPIGroupResources clis) w = (Inr mapper, w)"
    and "plain_lines (ls @ [t])" "parse (addDummyObject (unlines ls @ t)) = Inr raw" "parse (addDummyObject (unlines ls)) = Inr raw2"
    and "parse (addDummyObject []) = Inr raw3"
  shows "run_state (K8s_Create ml clis (unlines ls @ t)) w = (Inr (), w) \<and>
    run_state (K8s_Create ml clis (unlines ls @ ''---'' @ [nl] @ rest)) w = run_state (K8s_Create ml clis (''---'' @ [nl] @ rest)) w"
proof -
  have pl: "plain_lines ls" using assms(3) by (simp add: plain_lines_def)
  have "ml_stream ml (addDummyObject (unlines ls @ t)) = [Inr raw]" using stream_dummy(2) [OF assms(1,3)] assms(4) by simp
  moreover have "ml_stream ml (addDummyObject (unlines ls @ ''---'' @ [nl] @ rest)) = Inr raw2 # ml_stream ml rest"
    using stream_dummy(1) [OF assms(1) pl] assms(5) by simp
  moreover have "ml_stream ml (addDummyObject (''---'' @ [nl] @ rest)) = Inr raw3 # ml_stream ml rest"
    using stream_dummy(1) [OF assms(1), of "[]" rest] assms(6) by (simp add: plain_lines_def unlines_def)
  ultimately show ?thesis
    by (simp add: K8s_Create_def getObjectsFromManifest_def run_op_simps assms(2))
qed

theorem first_document_lost_witness:
  "run_state (K8s_Create std_ml key_clis (unlines [''kind: CustomResourceDefinition''] @ ''scope: Namespaced'')) [] = (Inr (), []) \<and>
   run_state (K8s_Create std_ml key_clis (unlines [''kind: CustomResourceDefinition''] @ ''---'' @ [nl] @ ''bar'')) [] =
     run_state (K8s_Create std_ml key_clis (''---'' @ [nl] @ ''bar'')) []"
proof -
  have y: "yaml_reader (ml_stream std_ml) Inr" using std_yaml.yaml_reader_axioms by (simp add: std_ml_def)
  have g: "run_state (k8_GetAPIGroupResources key_clis) [] = (Inr (\<lambda>gvk. Inr cm_mapping), [])" by (simp add: key_clis_def)
  have pl: "plain_lines ([''kind: CustomResourceDefinition''] @ [''scope: Namespaced''])" by code_simp
  show ?thesis by (rule first_document_lost [OF y g pl refl refl refl])
qed

end
