(* ===== verification/Side_Programs.thy ===== *)
theory Side_Programs
  imports Value_Codec Objects
begin

text \<open>
  What stands beside the reconcilers: the text of a difference for the log (pkg/util/diff.go), the HTTP and
  endpoint helpers of pkg/util/util.go, the map of Deployments by component that conditions.go keeps, and
  the two load test programs (test/batch-create, test/batch-delete).  Reflection, the dump of a value and the
  difference of two texts are third-party: fields of \<open>diff_lib\<close> and \<open>go_value\<close>.
\<close>

section \<open>Differences\<close>

datatype reflect_kind = KStruct | KMap | KSlice | KArray | KString | KPtr | KOther

text \<open>A value as reflection sees it: its type and kind, those of the value a pointer points to, and the text of \<open>String\<close>.\<close>

record go_value =
  gv_Type :: string
  gv_Kind :: reflect_kind
  gv_Elem :: "string \<times> reflect_kind"
  gv_String :: string

record diff_lib =
  df_Sdump :: "go_value \<Rightarrow> string"
  df_Unified :: "string \<Rightarrow> string \<Rightarrow> string"

definition typeAndKind :: "go_value \<Rightarrow> string \<times> reflect_kind" where
  "typeAndKind v = (if gv_Kind v = KPtr then gv_Elem v else (gv_Type v, gv_Kind v))"

definition DiffStr :: "diff_lib \<Rightarrow> go_value option \<Rightarrow> go_value option \<Rightarrow> string" where
  "DiffStr lib expected actual =
     (case (expected, actual) of
        (Some ex, Some ac) \<Rightarrow>
          (let (et, ek) = typeAndKind ex; (at, _) = typeAndKind ac in
           if et \<noteq> at then []
           else if ek \<noteq> KStruct \<and> ek \<noteq> KMap \<and> ek \<noteq> KSlice \<and> ek \<noteq> KArray \<and> ek \<noteq> KString then []
           else if et \<noteq> ''string'' then df_Unified lib (df_Sdump lib ex) (df_Sdump lib ac)
           else df_Unified lib (gv_String ex) (gv_String ac))
      | _ \<Rightarrow> [])"

lemma DiffStr_same:
  assumes "\<And>t. df_Unified lib t t = []"
  shows "DiffStr lib v v = []"
  using assms by (auto simp: DiffStr_def split: option.splits prod.splits)

section \<open>HTTP and endpoints\<close>

text \<open>An answer is its status code and its body, which may fail to be read.\<close>

definition HTTPGetBytes :: "(string \<Rightarrow> ('w, int \<times> (go_error + string)) op) \<Rightarrow> string \<Rightarrow> ('w, string) op" where
  "HTTPGetBytes http_Get url =
     op_bind (op_wrap ''failed to get url'' (http_Get url)) (\<lambda>(code, body).
       if code \<noteq> 200 then fail (Errorf (''unexpected status code '' @ itoa code))
       else lift_result (wrap ''failed to read response body'' body))"

definition GetHostPort :: "string \<Rightarrow> string \<times> int" where
  "GetHostPort endpoint = GetHostPortWithDefault endpoint 80"

definition GetMinioIAMEndpoint :: "values_map \<Rightarrow> string" where
  "GetMinioIAMEndpoint conf = GetStringValueWithDefault conf [] [''minio'', ''iamEndpoint'']"

definition GetAzureStorageAccount :: "values_map \<Rightarrow> string" where
  "GetAzureStorageAccount conf = GetStringValueWithDefault conf [] [''minio'', ''accessKeyID'']"

lemma http_get_ok:
  "run_state (HTTPGetBytes http_Get url) w = (Inr body, w') \<longleftrightarrow> run_state (http_Get url) w = (Inr (200, Inr body), w')"
  by (auto simp: HTTPGetBytes_def run_op_simps split: prod.splits sum.splits)

section \<open>Deployments by component\<close>

definition skips_deployment :: "Milvus \<Rightarrow> Deployment \<Rightarrow> bool" where
  "skips_deployment mc deploy =
     (let component = fmget (om_Labels deploy) AppLabelComponent; componentCurrentGroup = GetCurrentGroupId mc component in
      \<not> IsControlledBy deploy mc \<or> componentCurrentGroup \<noteq> [] \<and> GetLabelGroupID component deploy \<noteq> componentCurrentGroup)"

definition makeComponentDeploymentMap :: "Milvus \<Rightarrow> Deployment list \<Rightarrow> (string, Deployment) fmap" where
  "makeComponentDeploymentMap mc deploys =
     fold (\<lambda>deploy m. if skips_deployment mc deploy then m
        else (let component = fmget (om_Labels deploy) AppLabelComponent in
              fmupd component (mark_rolling mc component deploy) m)) deploys fmempty"

text \<open>The entry of a component is its last owned Deployment in the active slot.\<close>

lemma makeComponentDeploymentMap_lookup:
  "fmlookup (makeComponentDeploymentMap mc deploys) component =
     map_option (mark_rolling mc component)
       (find (\<lambda>d. \<not> skips_deployment mc d \<and> fmget (om_Labels d) AppLabelComponent = component) (rev deploys))"
  by (induction deploys rule: rev_induct) (auto simp: makeComponentDeploymentMap_def Let_def)

section \<open>Load tests\<close>

definition batch_nodeSelector :: smap where
  "batch_nodeSelector = fmap_of_list [(''node-role/default'', ''true'')]"

definition batch_probe :: json where
  "batch_probe = JObj (fmap_of_list [(''initialDelaySeconds'', JInt 5), (''failureThreshold'', JInt 11)])"

definition batch_minimumMilvus :: Milvus where
  "batch_minimumMilvus = (new_Milvus ''batch-test'' [])\<lparr>om_Labels := fmap_of_list [(''usage'', ''batch-test'')],
     m_Spec := zero_MilvusSpec\<lparr>ms_Mode := MilvusModeStandalone,
       ms_Conf := Some (fmap_of_list [
         (''log'', JObj (fmap_of_list [(''level'', JStr ''info'')])),
         (''minio'', JObj (fmap_of_list [(''port'', JInt 443), (''bucketName'', JStr ''gcp-zilliz-infra-test''), (''useSSL'', JBool True),
            (''useIAM'', JBool True), (''cloudProvider'', JStr ''gcp'')]))]),
       ms_Com := zero_MilvusComponents\<lparr>cs_NodeSelector := batch_nodeSelector,
         com_Standalone := Some (zero_ServiceComponent\<lparr>co_Replicas := Some 0,
           cs_Resources := Some (zero_ResourceRequirements\<lparr>rr_Requests := fmap_of_list [(''cpu'', ''0.01''), (''memory'', ''100Mi'')]\<rparr>)\<rparr>)\<rparr>,
       ms_Dep := zero_MilvusDependencies\<lparr>
         dep_Etcd := \<lparr>etcd_Endpoints = [], etcd_External = False, etcd_InCluster = Some \<lparr>ic_Values = Some (fmap_of_list [
             (''nodeSelector'', JObj (fmap_of_list [(''node-role/default'', JStr ''true'')])),
             (''resources'', JObj (fmap_of_list [(''requests'', JObj (fmap_of_list [(''cpu'', JStr ''0.58''), (''memory'', JStr ''2Gi'')]))])),
             (''replicaCount'', JInt 1), (''readinessProbe'', batch_probe), (''livenessProbe'', batch_probe)]),
           ic_ChartVersion = [], ic_DeletionPolicy = DeletionPolicyDelete, ic_PVCDeletion = True\<rparr>\<rparr>,
         dep_Storage := \<lparr>st_Type = ''S3'', st_SecretRef = [], st_Endpoint = ''storage.googleapis.com'', st_InCluster = None,
           st_External = True, st_SSL = None\<rparr>\<rparr>\<rparr>\<rparr>"

definition baseName :: string where
  "baseName = ''batch-''"

definition baseNamespace :: string where
  "baseNamespace = ''batch-test-''"

text \<open>The integer division of Go truncates.\<close>

definition batch_milvus :: "int \<Rightarrow> Milvus" where
  "batch_milvus i = batch_minimumMilvus\<lparr>om_Name := baseName @ itoa i, om_Namespace := baseNamespace @ itoa (sgn i * (\<bar>i\<bar> div 100))\<rparr>"

fun create_batch :: "(Milvus \<Rightarrow> ('w, unit) op) \<Rightarrow> int list \<Rightarrow> ('w, unit) op" where
  "create_batch create [] = ret ()"
| "create_batch create (i # is) = op_bind (op_wrap ''create milvus error'' (create (batch_milvus i))) (\<lambda>_. create_batch create is)"

definition getClient :: "go_error + 'c \<Rightarrow> go_error + 's \<Rightarrow> ('c \<Rightarrow> 's \<Rightarrow> go_error + 'k) \<Rightarrow> go_error + 'k" where
  "getClient getConfig build new =
     (case wrap ''failed to get config'' getConfig of
        Inl e \<Rightarrow> Inl e
      | Inr conf \<Rightarrow> (case wrap ''failed to build scheme'' build of
          Inl e \<Rightarrow> Inl e
        | Inr scheme \<Rightarrow> wrap ''failed to create client'' (new conf scheme)))"

definition batch_create_run :: "go_error + (Milvus \<Rightarrow> ('w, unit) op) \<Rightarrow> int \<Rightarrow> int \<Rightarrow> ('w, unit) op" where
  "batch_create_run client begin_index end_index =
     op_bind (lift_result (wrap ''getClient error'' client)) (\<lambda>create. create_batch create [begin_index..end_index - 1])"

text \<open>\<open>DeleteAllOf\<close> takes the namespace of the object (none here) and the labels.\<close>

definition batch_delete_run :: "go_error + (string \<Rightarrow> smap \<Rightarrow> ('w, unit) op) \<Rightarrow> ('w, unit) op" where
  "batch_delete_run client =
     op_bind (lift_result (wrap ''getClient error'' client)) (\<lambda>deleteAllOf.
       op_wrap ''delete milvus error'' (deleteAllOf [] (fmap_of_list [(''usage'', ''batch-test'')])))"

text \<open>With a client that records what it is asked for, a run that succeeds has created each instance of the
  range once, all with the label the other program deletes by, and every instance counts as stopped.\<close>

lemma batch_creates:
  assumes "\<And>m w. run_state (create m) w = (Inr (), w @ [m])"
  shows "run_state (batch_create_run (Inr create) b e) w = (Inr (), w @ map batch_milvus [b..e - 1])"
proof -
  have "run_state (create_batch create is) w = (Inr (), w @ map batch_milvus is)" for "is" w
    by (induction "is" arbitrary: w) (simp_all add: run_op_simps assms)
  then show ?thesis by (simp add: batch_create_run_def run_op_simps)
qed

lemma batch_selected: "fmget (om_Labels (batch_milvus i)) ''usage'' = ''batch-test''"
  by (simp add: batch_milvus_def batch_minimumMilvus_def fmget_def)

lemma batch_stopped: "isMilvusStoppingForReconcile x batch_minimumMilvus = Some True"
  by code_simp

end
