(* ===== verification/Spec2Isabelle.thy ===== *)
theory Spec2Isabelle
  imports Rollout_Correct Rollout_Refine Upgrade_Safety Component_Correct Webhook_Safety
    Status_Correct Health_Status Value_Codec Retire_Safety Etcd_Resize Teardown Release_Correct
    Config_Correct Cache_Types Kafka_Correct Storage_Correct Legacy_Correct Main_Program Run_Groups
    Manifest Side_Programs
begin

text \<open>
  Verification of the Milvus operator (a Kubernetes operator written in Go; sources under src/).

  \<^bold>\<open>The program.\<close>  A \<open>Milvus\<close> custom resource describes a database made of components (proxy,
  coordinators, nodes).  The operator renders Deployments from it and rolls changes out; in the
  two-deployment mode every component owns two Deployments, a current and a last one, and a rollout
  moves replicas from one to the other.  A \<open>MilvusUpgrade\<close> resource drives a state machine that stops
  Milvus, migrates its metadata with task pods, starts the new version, or rolls back.  Components may
  also run as single Deployments or StatefulSets, with autoscalers and services; each pass ends with
  clean-ups of what is no longer wanted.  The dependencies (etcd, object storage, message queue) are
  Helm releases of the operator or external services; the configuration of the processes is rendered
  into a config map, which a tool in the pod merges into the one of the image.  A status syncer probes
  the dependencies and the workloads and writes conditions and statuses.  When a resource is deleted
  the operator waits for its pods, removes the releases and volume claims the deletion policies name,
  and lets it go.

  \<^bold>\<open>Model.\<close>  Go structs are records, pointers options, maps finite maps, \<open>int32\<close> values integers with
  the wrap-around written out (\<open>to_int32\<close>).  Code that talks to the API server is a \<open>State_Monad\<close>
  computation over an abstract world, and the client is a record of operations: its laws are the
  locale \<open>deploy_store\<close>, and an in-memory client is the interpretation that shows they can hold.
  Errors are values (\<open>go_error\<close>), nil dereferences \<open>None\<close>.  Functions of other packages (semver,
  intstr, hashing, YAML, Helm, cryptography, network clients) are fields of records;
  \<open>Std_Externals\<close> gives one instance.

  \<^bold>\<open>Theories of the model.\<close>
  \<^item> \<open>Prelude\<close>, \<open>K8s_Types\<close>, \<open>Client\<close>, \<open>Op_Logic\<close>: integers, strings, errors, the operation monad,
    Kubernetes objects, the client interface and its weakest-precondition rules.
  \<^item> \<open>Milvus_Types\<close>, \<open>Milvus_Spec\<close>: apis/milvus.io/v1beta1 (milvus_types.go, components_types.go,
    dependencies_types.go, persistence_types.go, values_types.go).
  \<^item> \<open>Labels\<close>: label_annotations.go.  \<open>Rolling_Update\<close>: rolling_update.go, rolling_update_validation.go.
  \<^item> \<open>Merge_Util\<close>: pkg/controllers/utils.go.  \<open>Components\<close>, \<open>Dependency_Graph\<close>: components.go,
    dependency_graph.go.  \<open>Component_Merge\<close>, \<open>Pod_Template\<close>: deployment_updater.go, deployments.go,
    kafka_secrets.go, k8s_default_values.go.
  \<^item> \<open>Rollout_Util\<close>, \<open>Scale_Plan\<close>, \<open>Deploy_Ctrl\<close>: rollout_util.go, deploy_ctrl_util.go, deploy_ctrl.go,
    deploy_mode_changer.go, rolling_mode_status_updater.go.
  \<^item> \<open>Upgrade_Types\<close>, \<open>Upgrade_FSM\<close>: milvusupgrade_types.go, milvusupgrade_webhook.go,
    milvusupgrade_fsm.go, milvusupgrade_controller.go.
  \<^item> \<open>Value_Util\<close>: the value functions of pkg/util/util.go.  \<open>Webhook\<close>: milvus_webhook.go, defaulting and
    validation of the Milvus resource; chart defaults, DNS label checks and the decoding of volume
    claims are fields of \<open>webhook_env\<close>, and the nested writes of apimachinery have the locale
    \<open>nested_writes\<close> as their contract.
  \<^item> \<open>Workloads\<close>, \<open>StatefulSets\<close>, \<open>Reconcile\<close>: statefulset.go, services.go, hpa.go,
    deployment_cluster_to_standalone.go and the reconcile pass of deployments.go.  The reconciler is a
    record of client operations (\<open>Reconciler\<close>); the order in which Go ranges over a map is its field
    \<open>rc_range\<close>.
  \<^item> \<open>Probe\<close>, \<open>Status\<close>: endpoint_check_cache.go, conditions.go, error_detail.go,
    component_condition.go, status_cluster.go, group_runner.go.  Goroutines that write to separate
    places are run one after the other; the clock is a field of \<open>Syncer\<close>.  \<open>Run_Groups\<close>: groups.go, and that the
    outcome of a group does not depend on the order in which its goroutines finish.
  \<^item> \<open>Helm\<close>: dependencies.go, pkg/helm/helm.go and pkg/helm/values: chart requests, install, upgrade
    and uninstall of releases, and the resize of etcd's volumes, which saves, deletes and recreates its
    StatefulSet.  \<open>Objects\<close>: ingress.go, podmonitor.go, pvc.go.  \<open>Config_Map\<close>: configmaps.go and the merge
    of tool/merge.  \<open>Milvus_Ctrl\<close>: milvus.go and milvus_controller.go, a whole pass of the
    reconciler with finalizer, deletion and panic handler.
  \<^item> \<open>Kafka_Client\<close>: pkg/external/kafka.go.  \<open>Storage_Client\<close>: pkg/external/minio.go and
    pkg/external/iam.  \<open>with_kafka\<close> and \<open>with_minio\<close> put these probes into the prober of the status syncer.
  \<^item> \<open>Value_Codec\<close>: values_types.go with the JSON form of untyped values, the copies of pkg/util/util.go, the
    storage settings a context carries, the lists of terminating pods and the gauges of the syncer.
  \<^item> \<open>Manifest\<close>: pkg/util/k8s_client.go and pkg/util/rest/rest_client.go.  The YAML reader and the dynamic
    client have the locales \<open>yaml_reader\<close> and \<open>object_store\<close> as their contracts.
  \<^item> \<open>Side_Programs\<close>: pkg/util/diff.go, the HTTP helpers of pkg/util/util.go and the load test programs under test/.
  \<^item> \<open>Tools\<close>: the programs of the init containers (tool/merge, tool/cp, tool/iam-verify).
    \<open>Legacy_API\<close>: apis/milvus.io/v1alpha1 and pkg/controllers/milvuscluster.  \<open>Start_Up\<close>: setup.go,
    pkg/config/config.go and the remaining admission checks.  \<open>Main_Program\<close>: main.go,
    pkg/manager/manager.go and metrics.go, the start sequence with its exit codes.

  \<^bold>\<open>Results.\<close>  \<open>Rollout_Correct\<close>: the planner respects the surge and unavailability budget and a rollout
  with validated settings converges.  \<open>Slots\<close>, \<open>Deploy_Correct\<close>, \<open>Mem_Store\<close>, \<open>Rollout_Safety\<close>: what a
  pass of the rollout controller keeps, for every client that satisfies \<open>deploy_store\<close>, failing calls
  included.  \<open>Rollout_Refine\<close>: every such pass is one step of a small rollout protocol (\<open>rollout_step\<close>), from
  whose rules alone follow that running pods keep their template, that the old slot is empty between
  rollouts and that a rollout leaves the capacity the budget asks for; when a pass clears the mark of a
  rollout, at its end or at a stop; and what a forced update does to
  replicas that are left to an autoscaler.  \<open>Upgrade_Correct\<close>, \<open>Replica_Snapshot\<close>, \<open>Upgrade_Safety\<close>: the state machine ends, follows its
  transitions, keeps its invariant, touches metadata only after a stop and restores replicas: the counts in the
  spec and in the snapshot are two interpretations of one locale, \<open>counters\<close>, with a counter for every
  component without groups and for every deployment group.  \<open>Component_Correct\<close>: update order, merging,
  marks, conditions, stability.  \<open>Webhook_Correct\<close>, \<open>Webhook_Safety\<close>: defaulting never panics, is
  idempotent, respects what the user set and gives every component replicas; accepted deployment
  groups have distinct, legal names and labels that never meet the operator's own.
  \<open>Workload_Store\<close> extends the contract of the client to StatefulSets, services and volume claims (the
  locale \<open>workload_store\<close>) and interprets it by an in-memory server.  \<open>Health_Correct\<close>, \<open>Status_Correct\<close>,
  \<open>Health_Status\<close>, \<open>Cache_Types\<close>: when an instance counts as ready and what a pass writes into its status, what the aggregate of deployment groups says, when a
  probe returns, and that the untyped cache of the probes is used in a typed way.  \<open>Claim_Names\<close>,
  \<open>Workload_Safety\<close>, \<open>Retire_Safety\<close>: claim names are read back exactly, volume claims only grow, and what
  the clean-ups remove and leave.
  \<open>Cluster_Store\<close> adds Helm releases, saved objects and pod monitors to the in-memory server, which
  interprets the contracts of the following theories.  \<open>Teardown\<close> (locale \<open>teardown_store\<close>): a pass on a
  deleted instance refines a small protocol (\<open>teardown_step\<close>), and what it removes.  \<open>Etcd_Resize\<close> (locale
  \<open>saved_workloads\<close>): a resize never loses the StatefulSet, whatever call fails.  \<open>Release_Correct\<close>
  (locale \<open>helm_store\<close>): a release settles, and the cases in which it cannot.  \<open>Config_Correct\<close> (locale
  \<open>nested_values\<close>): the configuration a process reads, from the resource through the config map and the merge
  tool, selects the queue of the resource and has the addresses of its dependencies.  What the operator marshals
  as YAML the tool reads back, which is a hypothesis about the YAML packages.
  \<open>Kafka_Correct\<close>, \<open>Storage_Correct\<close>: what a ready message queue and a ready storage mean.
  \<open>Legacy_Correct\<close>: what the conversions of the first API version keep and lose.
  \<open>Manifest\<close>: creating and deleting a manifest are inverse, and which document is lost without a
  separator.

  \<^bold>\<open>Fuel.\<close>  The loop of \<open>RunStateMachine\<close> has fuel nine: \<open>state_rank\<close> decreases along every
  transition and is at most seven, and \<open>upgrade_run_terminates\<close> shows that more fuel changes nothing.
  \<open>GetCondition\<close> waits for another probe with the fuel of the caller: \<open>probe_returns_and_releases\<close> shows
  that one unit more than the number of waits is enough, for a non-empty list of endpoints, and
  \<open>empty_endpoints_probe_hangs\<close> that after a probe of no endpoints no fuel is.  \<open>wait_deleted\<close> polls with
  the fuel \<open>lh_fuel\<close>; running out of it stands for not returning, and the results hold for every fuel.  The loop of
  iam-verify may run forever: \<open>verify_loop_returns\<close> gives the fuel with which it returns, one more than
  the number of failed attempts.  \<open>WaitDeploymentsReadyByNamespace\<close> waits for ticks: \<open>wait_returns\<close> gives the
  fuel with which it returns once the Deployments are ready.  \<open>LoopWithInterval\<close> ends only with the process.

  \<^bold>\<open>Not modelled.\<close>  Generated code (deep copies, clients, listers, informers): copies of values are the
  values themselves in a functional model.  Parsing of flags, logging, and the event filters and watches of
  controller-runtime are calls of other packages.

  \<^bold>\<open>Limits of the model.\<close>  Nil label and annotation maps are empty maps, so a write into a nil map, which panics in
  Go, succeeds here.  Untyped values have integers but no floats, and percentages are computed exactly.
  \<open>GetCondition\<close> takes the lock of its endpoints in one step: two goroutines that create the lock word of a
  list at the same time are not modelled.  A delete that the API server accepts removes the object at once;
  finalizers of volume claims and the end of an orphan deletion are not modelled.  Letters are ASCII where text is
  put into upper case or trimmed (security protocol and mechanism of Kafka).  Error texts are shortened where
  nothing reads them.
\<close>

end
